(* ===== verification/Prelude.thy ===== *)
theory Prelude
  imports Main "HOL-Library.Word" "HOL-Library.Monad_Syntax"
begin

text \<open>
  Types, small functions and generic lemmas shared by every component of the development:
  machine bytes, the exceptions the C++ code throws, the result type of a call that may throw, and
  the association lists that stand for the standard library's maps.

  A C++ call that may throw is a function into \<^verbatim>\<open>exn + 'a\<close>: \<^verbatim>\<open>Inl e\<close> is the exception
  \<^verbatim>\<open>e\<close>, \<^verbatim>\<open>Inr x\<close> the normal return of \<^verbatim>\<open>x\<close>.  The buffer classes throw a single exception
  (\<^verbatim>\<open>std::invalid_argument\<close>), so their operations return an \<^verbatim>\<open>option\<close>, whose \<^verbatim>\<open>None\<close> is that
  exception, and \<^verbatim>\<open>of_buffer\<close> turns one into the other.
\<close>

unbundle bit_operations_syntax

type_synonym byte = "8 word"

datatype exn =
    InvalidArgument
  | IncorrectPayloadSize
  | NotImplementedStatus
  | UnsupportedValue
  | UnknownPayload
  | InvalidDescriptorType

type_synonym 'a outcome = "exn + 'a"

named_theorems wire_simps \<open>rewrite rules that run a deserializer over serialized bytes\<close>
named_theorems size_simps \<open>lengths of serialized chunks\<close>

definition of_buffer :: "'a option \<Rightarrow> 'a outcome" where
  "of_buffer r = (case r of None \<Rightarrow> Inl InvalidArgument | Some x \<Rightarrow> Inr x)"

definition obind :: "'a outcome \<Rightarrow> ('a \<Rightarrow> 'b outcome) \<Rightarrow> 'b outcome" where
  "obind r f = (case r of Inl e \<Rightarrow> Inl e | Inr x \<Rightarrow> f x)"

definition othrow_if :: "bool \<Rightarrow> exn \<Rightarrow> 'a outcome \<Rightarrow> 'a outcome" where
  "othrow_if b e r = (if b then Inl e else r)"

lemma of_buffer_simps [simp]:
  "of_buffer None = Inl InvalidArgument"
  "of_buffer (Some x) = Inr x"
  by (simp_all add: of_buffer_def)

lemma of_buffer_eq_Inr_iff [simp]: "of_buffer r = Inr x \<longleftrightarrow> r = Some x"
  by (cases r) simp_all

lemma of_buffer_eq_Inl_iff [simp]: "of_buffer r = Inl e \<longleftrightarrow> r = None \<and> e = InvalidArgument"
  by (cases r) auto

lemma obind_simps [simp]:
  "obind (Inl e) f = Inl e"
  "obind (Inr x) f = f x"
  by (simp_all add: obind_def)

lemma obind_eq_Inr_iff: "obind r f = Inr y \<longleftrightarrow> (\<exists>x. r = Inr x \<and> f x = Inr y)"
  by (cases r) simp_all

lemma obind_assoc: "obind (obind r f) g = obind r (\<lambda>x. obind (f x) g)"
  by (cases r) simp_all

lemma othrow_if_simps [simp]:
  "othrow_if True e r = Inl e"
  "othrow_if False e r = r"
  by (simp_all add: othrow_if_def)

lemma othrow_if_eq_Inr_iff: "othrow_if b e r = Inr y \<longleftrightarrow> \<not> b \<and> r = Inr y"
  by (simp add: othrow_if_def)

lemma bind_eq_Some_iff: "Option.bind r f = Some y \<longleftrightarrow> (\<exists>x. r = Some x \<and> f x = Some y)"
  by (cases r) simp_all

section \<open>Association lists for the standard library's maps\<close>

text \<open>
  A \<^verbatim>\<open>std::unordered_map\<close> (or \<^verbatim>\<open>std::map\<close>) is the list of its entries in iteration order, each
  key once.  \<^verbatim>\<open>al_get\<close> is \<^verbatim>\<open>find\<close>, \<^verbatim>\<open>al_put\<close> is \<^verbatim>\<open>operator[] =\<close> (an existing entry keeps its
  place, a new one comes last), \<^verbatim>\<open>al_del\<close> is \<^verbatim>\<open>erase\<close>.
\<close>

type_synonym ('k, 'v) alist = "('k \<times> 'v) list"

primrec al_get :: "'k \<Rightarrow> ('k, 'v) alist \<Rightarrow> 'v option" where
  "al_get k [] = None"
| "al_get k (e # es) = (if fst e = k then Some (snd e) else al_get k es)"

primrec al_put :: "'k \<Rightarrow> 'v \<Rightarrow> ('k, 'v) alist \<Rightarrow> ('k, 'v) alist" where
  "al_put k v [] = [(k, v)]"
| "al_put k v (e # es) = (if fst e = k then (k, v) # es else e # al_put k v es)"

definition al_del :: "'k \<Rightarrow> ('k, 'v) alist \<Rightarrow> ('k, 'v) alist" where
  "al_del k es = filter (\<lambda>e. fst e \<noteq> k) es"

abbreviation al_keys :: "('k, 'v) alist \<Rightarrow> 'k list" where
  "al_keys es \<equiv> map fst es"

definition al_ok :: "('k, 'v) alist \<Rightarrow> bool" where
  "al_ok es \<longleftrightarrow> distinct (al_keys es)"

lemma al_get_put [simp]: "al_get k (al_put k' v es) = (if k = k' then Some v else al_get k es)"
  by (induction es) auto

lemma al_get_del [simp]: "al_get k (al_del k' es) = (if k = k' then None else al_get k es)"
  by (induction es) (auto simp: al_del_def)

lemma al_keys_put: "al_keys (al_put k v es) = (if k \<in> set (al_keys es) then al_keys es else al_keys es @ [k])"
  by (induction es) auto

lemma al_ok_Nil [simp]: "al_ok []"
  by (simp add: al_ok_def)

lemma al_ok_put [simp]: "al_ok es \<Longrightarrow> al_ok (al_put k v es)"
  by (simp add: al_ok_def al_keys_put)

lemma al_ok_del [simp]: "al_ok es \<Longrightarrow> al_ok (al_del k es)"
  by (induction es) (auto simp: al_ok_def al_del_def)

lemma al_get_in_set: "al_get k es = Some v \<Longrightarrow> (k, v) \<in> set es"
  by (induction es) (auto split: if_splits)

lemma al_get_iff: "al_ok es \<Longrightarrow> al_get k es = Some v \<longleftrightarrow> (k, v) \<in> set es"
  by (induction es) (force simp: al_ok_def)+

lemma al_get_None_iff: "al_get k es = None \<longleftrightarrow> k \<notin> set (al_keys es)"
  by (induction es) auto

lemma al_put_set: "al_ok es \<Longrightarrow> set (al_put k v es) = insert (k, v) (set (al_del k es))"
  by (induction es) (force simp: al_ok_def al_del_def)+

lemma al_del_set [simp]: "set (al_del k es) = {e \<in> set es. fst e \<noteq> k}"
  by (auto simp: al_del_def)

lemma al_del_absent: "k \<notin> set (al_keys es) \<Longrightarrow> al_del k es = es"
  by (induction es) (auto simp: al_del_def)

text \<open>An ordered map (\<^verbatim>\<open>std::map\<close>) is an association list in the order of its keys.\<close>

primrec om_put :: "'k::linorder \<Rightarrow> 'v \<Rightarrow> ('k, 'v) alist \<Rightarrow> ('k, 'v) alist" where
  "om_put k v [] = [(k, v)]"
| "om_put k v (e # es) =
     (if k < fst e then (k, v) # e # es else if fst e = k then (k, v) # es else e # om_put k v es)"

definition om_ok :: "('k::linorder, 'v) alist \<Rightarrow> bool" where
  "om_ok es \<longleftrightarrow> sorted_wrt (<) (al_keys es)"

lemma om_keys_put: "set (al_keys (om_put k v es)) = insert k (set (al_keys es))"
  by (induction es) auto

lemma om_put_set: "e \<in> set (om_put k v es) \<Longrightarrow> e = (k, v) \<or> e \<in> set es"
  by (induction es) (auto split: if_splits)

lemma om_ok_put [simp]: "om_ok es \<Longrightarrow> om_ok (om_put k v es)"
  unfolding om_ok_def by (induction es) (auto dest!: om_put_set)

lemma om_ok_Nil [simp]: "om_ok []"
  by (simp add: om_ok_def)

lemma om_ok_single [simp]: "om_ok [e]"
  by (simp add: om_ok_def)

lemma om_ok_al_ok: "om_ok es \<Longrightarrow> al_ok es"
  by (simp add: om_ok_def al_ok_def strict_sorted_iff)

lemma al_get_om_put [simp]:
  "om_ok es \<Longrightarrow> al_get k (om_put k' v es) = (if k = k' then Some v else al_get k es)"
  by (induction es) (auto simp: om_ok_def al_get_None_iff)

lemma om_ok_del [simp]: "om_ok es \<Longrightarrow> om_ok (al_del k es)"
  unfolding om_ok_def al_del_def by (induction es) auto

lemma om_put_not_Nil [simp]: "om_put k v es \<noteq> []"
  by (cases es) auto

text \<open>A quantity summed over the values of a map, and what an insertion does to it.\<close>

definition al_sum :: "('v \<Rightarrow> 'a::comm_monoid_add) \<Rightarrow> ('k, 'v) alist \<Rightarrow> 'a" where
  "al_sum f es = (\<Sum>e\<leftarrow>es. f (snd e))"

definition al_part :: "('v \<Rightarrow> 'a::comm_monoid_add) \<Rightarrow> 'k \<Rightarrow> ('k, 'v) alist \<Rightarrow> 'a" where
  "al_part f k es = (case al_get k es of None \<Rightarrow> 0 | Some v \<Rightarrow> f v)"

lemma al_sum_simps [simp]:
  "al_sum f [] = 0"
  "al_sum f (e # es) = f (snd e) + al_sum f es"
  by (simp_all add: al_sum_def)

lemma al_sum_put: "al_sum f (al_put k v es) + al_part f k es = al_sum f es + f v"
  by (induction es) (auto simp: al_part_def ac_simps split: if_splits)

lemma al_sum_del: "al_ok es \<Longrightarrow> al_sum f (al_del k es) + al_part f k es = al_sum f es"
proof (induction es)
  case (Cons e es)
  then show ?case
    using al_del_absent [of "fst e" es]
    by (auto simp: al_ok_def al_del_def al_part_def ac_simps al_get_None_iff [symmetric] split: option.splits)
qed (simp add: al_part_def al_del_def)

lemma al_put_all: "(\<forall>e\<in>set es. P (fst e) (snd e)) \<Longrightarrow> P k v \<Longrightarrow> \<forall>e\<in>set (al_put k v es). P (fst e) (snd e)"
  by (induction es) auto

section \<open>Bits of narrow words\<close>

text \<open>Equality of 8-bit and 16-bit words, bit by bit: how the packed header fields are taken apart.\<close>

lemma all_less_8: "(\<forall>n<8. P n) = (P 0 \<and> P 1 \<and> P 2 \<and> P 3 \<and> P 4 \<and> P 5 \<and> P 6 \<and> P (7::nat))"
proof -
  have "(\<forall>n<8. P n) = (\<forall>n\<in>set [0..<8]. P n)" by auto
  then show ?thesis by (simp add: eval_nat_numeral upt_rec conj_ac)
qed

lemma all_less_16:
  "(\<forall>n<16. P n) = (P 0 \<and> P 1 \<and> P 2 \<and> P 3 \<and> P 4 \<and> P 5 \<and> P 6 \<and> P 7 \<and> P 8 \<and> P 9 \<and> P 10
     \<and> P 11 \<and> P 12 \<and> P 13 \<and> P 14 \<and> P (15::nat))"
proof -
  have "(\<forall>n<16. P n) = (\<forall>n\<in>set [0..<16]. P n)" by auto
  then show ?thesis by (simp add: eval_nat_numeral upt_rec conj_ac)
qed

lemma word8_eq_iff: "(x :: 8 word) = y \<longleftrightarrow> (\<forall>n<8. bit x n = bit y n)"
  by (auto intro: bit_word_eqI)

lemma word16_eq_iff: "(x :: 16 word) = y \<longleftrightarrow> (\<forall>n<16. bit x n = bit y n)"
  by (auto intro: bit_word_eqI)

lemmas narrow_bits = word8_eq_iff word16_eq_iff all_less_8 all_less_16 bit_simps

lemma ucast_up_eq_0_iff:
  assumes "LENGTH('a) \<le> LENGTH('b)"
  shows "(ucast (n :: 'a::len word) :: 'b::len word) = 0 \<longleftrightarrow> n = 0"
  using assms
  by (auto simp: bit_eq_iff bit_simps dest: bit_imp_le_length)

end
