(* ===== verification/Serialization.thy ===== *)
theory Serialization
  imports Prelude
begin

text \<open>
  The serialization buffers: \<^verbatim>\<open>la::avdecc::Serializer\<close>, \<^verbatim>\<open>la::avdecc::Deserializer\<close>
  (include/la/avdecc/internals/serialization.hpp) and the byte order functions under them
  (include/la/avdecc/internals/endian.hpp).

  A serializer is its capacity and the bytes written so far; \<^verbatim>\<open>pack\<close> is a chain of \<^verbatim>\<open><<\<close>, each
  given by the bytes of its operand.  A deserializer is the bytes before and after its position.
  The locale \<^verbatim>\<open>codec\<close> is the contract between a writer and a reader of one value; it is interpreted
  here on every scalar the payloads use, and by the payload theories on their composite elements.
\<close>

section \<open>Byte order\<close>

datatype endianness = LittleEndian | BigEndian

text \<open>The bytes of a value in memory, least significant first, and back.\<close>

primrec le_bytes :: "nat \<Rightarrow> 'a::len word \<Rightarrow> byte list" where
  "le_bytes 0 w = []"
| "le_bytes (Suc n) w = ucast w # le_bytes n (drop_bit 8 w)"

primrec le_word :: "byte list \<Rightarrow> 'a::len word" where
  "le_word [] = 0"
| "le_word (b # bs) = ucast b OR push_bit 8 (le_word bs)"

text \<open>The object representation of a value on a host of the given byte order.\<close>

definition mem_bytes :: "endianness \<Rightarrow> nat \<Rightarrow> 'a::len word \<Rightarrow> byte list" where
  "mem_bytes host n w = (case host of LittleEndian \<Rightarrow> le_bytes n w | BigEndian \<Rightarrow> rev (le_bytes n w))"

definition mem_word :: "endianness \<Rightarrow> byte list \<Rightarrow> 'a::len word" where
  "mem_word host bs = (case host of LittleEndian \<Rightarrow> le_word bs | BigEndian \<Rightarrow> le_word (rev bs))"

definition swapBytes :: "byte list \<Rightarrow> byte list" where
  "swapBytes u = map (\<lambda>k. u ! (length u - k - 1)) [0..<length u]"

definition endianSwap :: "endianness \<Rightarrow> endianness \<Rightarrow> byte list \<Rightarrow> byte list" where
  "endianSwap source target u = (if source = target then u else swapBytes u)"

text \<open>The bytes \<^verbatim>\<open>AVDECC_PACK_TYPE\<close> leaves in the buffer, and the value \<^verbatim>\<open>AVDECC_UNPACK_TYPE\<close> reads.\<close>

definition pack_type :: "endianness \<Rightarrow> nat \<Rightarrow> 'a::len word \<Rightarrow> byte list" where
  "pack_type host n w = endianSwap host BigEndian (mem_bytes host n w)"

definition unpack_type :: "endianness \<Rightarrow> byte list \<Rightarrow> 'a::len word" where
  "unpack_type host bs = mem_word host (endianSwap BigEndian host bs)"

text \<open>Network order, which \<^verbatim>\<open>pack_type\<close> yields on every host (lemma \<^verbatim>\<open>pack_type_be\<close>).\<close>

definition be_bytes :: "nat \<Rightarrow> 'a::len word \<Rightarrow> byte list" where
  "be_bytes n w = rev (le_bytes n w)"

definition be_word :: "byte list \<Rightarrow> 'a::len word" where
  "be_word bs = le_word (rev bs)"

lemma length_le_bytes [simp]: "length (le_bytes n w) = n"
  by (induction n arbitrary: w) simp_all

lemma length_be_bytes [simp, size_simps]: "length (be_bytes n w) = n"
  by (simp add: be_bytes_def)

lemma le_word_le_bytes: "le_word (le_bytes n w) = take_bit (8 * n) w"
proof (induction n arbitrary: w)
  case 0
  show ?case by simp
next
  case (Suc n)
  show ?case
    unfolding le_bytes.simps le_word.simps Suc
    by (rule bit_word_eqI) (auto simp: bit_simps)
qed

lemma be_word_be_bytes [simp]:
  "LENGTH('a) \<le> 8 * n \<Longrightarrow> be_word (be_bytes n w) = (w :: 'a::len word)"
  by (simp add: be_word_def be_bytes_def le_word_le_bytes take_bit_word_eq_self)

lemma swapBytes_rev: "swapBytes u = rev u"
  by (rule nth_equalityI) (simp_all add: swapBytes_def rev_nth)

lemma pack_type_be: "pack_type host n w = be_bytes n w"
  by (cases host) (simp_all add: pack_type_def endianSwap_def mem_bytes_def be_bytes_def swapBytes_rev)

lemma unpack_type_be: "unpack_type host bs = be_word bs"
  by (cases host) (simp_all add: unpack_type_def endianSwap_def mem_word_def be_word_def swapBytes_rev)

lemma le_bytes_take_bit:
  "8 * n \<le> m \<Longrightarrow> le_bytes n (take_bit m w :: 'a::len word) = le_bytes n w"
proof (induction n arbitrary: m w)
  case (Suc n)
  have "drop_bit 8 (take_bit m w) = take_bit (m - 8) (drop_bit 8 w)"
    by (intro bit_word_eqI) (auto simp: bit_simps)
  moreover have "ucast (take_bit m w) = (ucast w :: byte)"
    using Suc.prems by (intro bit_word_eqI) (auto simp: bit_simps)
  ultimately show ?case using Suc by simp
qed simp

lemma le_bytes_le_word:
  "8 * length bs \<le> LENGTH('a) \<Longrightarrow> le_bytes (length bs) (le_word bs :: 'a::len word) = bs"
proof (induction bs)
  case (Cons c cs)
  have low: "ucast (ucast c OR push_bit 8 (le_word cs :: 'a word)) = c"
    using Cons.prems by (intro bit_word_eqI) (auto simp: bit_simps)
  have high: "drop_bit 8 (ucast c OR push_bit 8 (le_word cs :: 'a word))
      = take_bit (LENGTH('a) - 8) (le_word cs)"
    by (intro bit_word_eqI) (auto simp: bit_simps dest: bit_imp_le_length)
  have "le_bytes (length cs) (take_bit (LENGTH('a) - 8) (le_word cs :: 'a word)) = cs"
    using Cons by (simp add: le_bytes_take_bit)
  then show ?case using low high by simp
qed simp

lemma be_bytes_be_word:
  "LENGTH('a) = 8 * length bs \<Longrightarrow> be_bytes (length bs) (be_word bs :: 'a::len word) = bs"
  using le_bytes_le_word [of "rev bs", where ?'a = 'a] by (simp add: be_bytes_def be_word_def)

section \<open>Serializer\<close>

text \<open>
  \<^verbatim>\<open>Serializer<MaximumSize>\<close>: its capacity and the bytes it holds.  The position is the number of
  bytes written.
\<close>

record serializer =
  capacity :: nat
  buffer :: "byte list"

definition serializer_new :: "nat \<Rightarrow> serializer" where
  "serializer_new n = \<lparr>capacity = n, buffer = []\<rparr>"

definition ser_remaining :: "serializer \<Rightarrow> nat" where
  "ser_remaining s = capacity s - length (buffer s)"

definition packBuffer :: "byte list \<Rightarrow> serializer \<Rightarrow> serializer option" where
  "packBuffer bs s =
     (if ser_remaining s < length bs then None else Some (s\<lparr>buffer := buffer s @ bs\<rparr>))"

text \<open>A chain \<^verbatim>\<open>ser << x << y << z\<close>, which stops at the first operand that does not fit.\<close>

fun pack :: "byte list list \<Rightarrow> serializer \<Rightarrow> serializer option" where
  "pack [] s = Some s"
| "pack (c # cs) s = do { s \<leftarrow> packBuffer c s; pack cs s }"

text \<open>The bytes a fresh serializer of capacity \<^verbatim>\<open>n\<close> holds after a chain.\<close>

definition serialized :: "nat \<Rightarrow> byte list list \<Rightarrow> byte list option" where
  "serialized n cs = map_option buffer (pack cs (serializer_new n))"

lemma serializer_new_sel [simp]:
  "capacity (serializer_new n) = n" "buffer (serializer_new n) = []"
  by (simp_all add: serializer_new_def)

lemma pack_eq:
  assumes "length (buffer s) \<le> capacity s"
  shows "pack cs s =
    (if length (buffer s) + length (concat cs) \<le> capacity s
     then Some (s\<lparr>buffer := buffer s @ concat cs\<rparr>) else None)"
  using assms
  by (induction cs arbitrary: s) (auto simp: packBuffer_def ser_remaining_def)

lemma serialized_eq:
  "serialized n cs = (if length (concat cs) \<le> n then Some (concat cs) else None)"
  by (simp add: serialized_def pack_eq)

lemma pack_append: "pack (cs @ ds) s = do { s \<leftarrow> pack cs s; pack ds s }"
  by (induction cs arbitrary: s) (auto split: bind_splits)

section \<open>Deserializer\<close>

text \<open>
  \<^verbatim>\<open>Deserializer\<close>: the bytes before the position and the bytes from it on.  Every read throws when
  too few bytes remain, and moves the position forward otherwise.
\<close>

datatype deserializer = Deser (d_used: "byte list") (d_rest: "byte list")

definition deser_new :: "byte list \<Rightarrow> deserializer" where
  "deser_new bs = Deser [] bs"

definition usedBytes :: "deserializer \<Rightarrow> nat" where
  "usedBytes d = length (d_used d)"

definition remaining :: "deserializer \<Rightarrow> nat" where
  "remaining d = length (d_rest d)"

definition d_size :: "deserializer \<Rightarrow> nat" where
  "d_size d = length (d_used d) + length (d_rest d)"

definition setPosition :: "nat \<Rightarrow> deserializer \<Rightarrow> deserializer option" where
  "setPosition n d =
     (if n > d_size d then None
      else Some (Deser (take n (d_used d @ d_rest d)) (drop n (d_used d @ d_rest d))))"

definition unpackBuffer :: "nat \<Rightarrow> deserializer \<Rightarrow> (byte list \<times> deserializer) option" where
  "unpackBuffer n d =
     (if remaining d < n then None
      else Some (take n (d_rest d), Deser (d_used d @ take n (d_rest d)) (drop n (d_rest d))))"

definition get_word :: "nat \<Rightarrow> deserializer \<Rightarrow> ('a::len word \<times> deserializer) option" where
  "get_word n d = do { (bs, d) \<leftarrow> unpackBuffer n d; Some (be_word bs, d) }"

text \<open>
  The scalars: unsigned integers and enumerations of 1, 2, 4 and 8 bytes (a \<^verbatim>\<open>TypedDefine\<close>, an
  \<^verbatim>\<open>EnumBitfield\<close> and the value classes are their underlying integer), a MAC address (6 raw bytes,
  read as one 48-bit number) and an \<^verbatim>\<open>AvdeccFixedString\<close> (64 raw bytes, read as one 512-bit number).
\<close>

type_synonym mac_address = "48 word"
type_synonym fixed_string = "512 word"

definition u8 :: "8 word \<Rightarrow> byte list" where "u8 = be_bytes 1"
definition u16 :: "16 word \<Rightarrow> byte list" where "u16 = be_bytes 2"
definition u32 :: "32 word \<Rightarrow> byte list" where "u32 = be_bytes 4"
definition u64 :: "64 word \<Rightarrow> byte list" where "u64 = be_bytes 8"
definition mac :: "mac_address \<Rightarrow> byte list" where "mac = be_bytes 6"
definition fixed :: "fixed_string \<Rightarrow> byte list" where "fixed = be_bytes 64"

definition get8 :: "deserializer \<Rightarrow> (8 word \<times> deserializer) option" where "get8 = get_word 1"
definition get16 :: "deserializer \<Rightarrow> (16 word \<times> deserializer) option" where "get16 = get_word 2"
definition get32 :: "deserializer \<Rightarrow> (32 word \<times> deserializer) option" where "get32 = get_word 4"
definition get64 :: "deserializer \<Rightarrow> (64 word \<times> deserializer) option" where "get64 = get_word 8"
definition get_mac :: "deserializer \<Rightarrow> (mac_address \<times> deserializer) option" where "get_mac = get_word 6"
definition get_fixed :: "deserializer \<Rightarrow> (fixed_string \<times> deserializer) option" where "get_fixed = get_word 64"

lemma unpackBuffer_append [simp, wire_simps]:
  "length bs = n \<Longrightarrow> unpackBuffer n (Deser u (bs @ r)) = Some (bs, Deser (u @ bs) r)"
  by (simp add: unpackBuffer_def remaining_def)

lemma unpackBuffer_all [simp, wire_simps]:
  "length bs = n \<Longrightarrow> unpackBuffer n (Deser u bs) = Some (bs, Deser (u @ bs) [])"
  by (simp add: unpackBuffer_def remaining_def)

lemma get_word_be_bytes [simp, wire_simps]:
  "LENGTH('a) \<le> 8 * n \<Longrightarrow>
     get_word n (Deser u (be_bytes n (x :: 'a::len word) @ r)) = Some (x, Deser (u @ be_bytes n x) r)"
  "LENGTH('a) \<le> 8 * n \<Longrightarrow>
     get_word n (Deser u (be_bytes n (x :: 'a::len word))) = Some (x, Deser (u @ be_bytes n x) [])"
  by (simp_all add: get_word_def)

lemma deser_size_simps [simp]:
  "usedBytes (Deser u r) = length u" "remaining (Deser u r) = length r"
  "d_size (Deser u r) = length u + length r"
  "deser_new bs = Deser [] bs"
  by (simp_all add: usedBytes_def remaining_def d_size_def deser_new_def)

lemma get_word_None_iff: "get_word n d = None \<longleftrightarrow> remaining d < n"
  by (simp add: get_word_def unpackBuffer_def)

lemma get_word_SomeE:
  assumes "get_word n d = Some (x, d')"
  obtains bs where "length bs = n" "d_rest d = bs @ d_rest d'" "d_used d' = d_used d @ bs" "x = be_word bs"
proof (rule that [of "take n (d_rest d)"])
qed (use assms in \<open>auto simp: get_word_def unpackBuffer_def remaining_def split: if_splits\<close>)

lemma get_word_remaining:
  "get_word n d = Some (x, d') \<Longrightarrow> remaining d = n + remaining d' \<and> usedBytes d' = usedBytes d + n"
  by (erule get_word_SomeE) (simp add: remaining_def usedBytes_def)

text \<open>A read as a conditional on what remains; \<^verbatim>\<open>adv\<close> moves the position.\<close>

definition adv :: "nat \<Rightarrow> deserializer \<Rightarrow> deserializer" where
  "adv n d = Deser (d_used d @ take n (d_rest d)) (drop n (d_rest d))"

lemma remaining_adv [simp]: "remaining (adv n d) = remaining d - n"
  by (simp add: adv_def remaining_def)

lemma usedBytes_adv [simp]: "n \<le> remaining d \<Longrightarrow> usedBytes (adv n d) = usedBytes d + n"
  by (simp add: adv_def remaining_def usedBytes_def)

lemma d_size_adv [simp]: "n \<le> remaining d \<Longrightarrow> d_size (adv n d) = d_size d"
  by (simp add: adv_def remaining_def d_size_def)

lemma adv_adv [simp]: "adv m (adv n d) = adv (n + m) d"
  by (simp add: adv_def take_add add.commute [of m n])

lemma get_word_adv:
  "get_word n d = (if remaining d < n then None else Some (be_word (take n (d_rest d)), adv n d))"
  by (simp add: get_word_def unpackBuffer_def adv_def)

lemma unpackBuffer_adv:
  "unpackBuffer n d = (if remaining d < n then None else Some (take n (d_rest d), adv n d))"
  by (simp add: unpackBuffer_def adv_def)

lemma adv_append [simp]: "length bs = n \<Longrightarrow> adv n (Deser u (bs @ r)) = Deser (u @ bs) r"
  by (simp add: adv_def)

lemma adv_all [simp]: "length bs = n \<Longrightarrow> adv n (Deser u bs) = Deser (u @ bs) []"
  by (simp add: adv_def)

lemma d_rest_take_drop: "d_rest d = take n (d_rest d) @ d_rest (adv n d)"
  by (simp add: adv_def)

section \<open>Codecs: a writer and a reader of the same value\<close>

text \<open>
  The contract between the bytes written for a value and the reader of that value: a fixed size, the
  reader gives back the value and leaves the bytes that follow, and it throws exactly when fewer
  than \<^verbatim>\<open>sz\<close> bytes remain.
\<close>

locale codec =
  fixes enc :: "'a \<Rightarrow> byte list"
    and dec :: "deserializer \<Rightarrow> ('a \<times> deserializer) option"
    and sz :: nat
  assumes enc_size: "length (enc x) = sz"
    and dec_enc: "dec (Deser u (enc x @ r)) = Some (x, Deser (u @ enc x) r)"
    and dec_short: "dec d = None \<longleftrightarrow> remaining d < sz"
    and dec_moves: "dec d = Some (x, d') \<Longrightarrow> d' = adv sz d"

text \<open>Reading \<^verbatim>\<open>n\<close> values one after the other.\<close>

primrec get_many ::
  "(deserializer \<Rightarrow> ('a \<times> deserializer) option) \<Rightarrow> nat \<Rightarrow> deserializer \<Rightarrow> ('a list \<times> deserializer) option"
where
  "get_many dec 0 d = Some ([], d)"
| "get_many dec (Suc n) d =
     do { (x, d) \<leftarrow> dec d; (xs, d) \<leftarrow> get_many dec n d; Some (x # xs, d) }"

context codec
begin

lemma enc_many_size: "length (concat (map enc xs)) = length xs * sz"
  by (induction xs) (simp_all add: enc_size)

lemma dec_enc_nil: "dec (Deser u (enc x)) = Some (x, Deser (u @ enc x) [])"
  using dec_enc [of u x "[]"] by simp

lemma get_many_enc:
  "length xs = n \<Longrightarrow>
     get_many dec n (Deser u (concat (map enc xs) @ r)) = Some (xs, Deser (u @ concat (map enc xs)) r)"
proof (induction xs arbitrary: n u)
  case (Cons x xs)
  then show ?case by (cases n) (simp_all add: dec_enc)
qed simp

lemma get_many_enc_nil:
  "length xs = n \<Longrightarrow>
     get_many dec n (Deser u (concat (map enc xs))) = Some (xs, Deser (u @ concat (map enc xs)) [])"
  using get_many_enc [of xs n u "[]"] by simp

lemma get_many_short: "get_many dec n d = None \<longleftrightarrow> remaining d < n * sz"
proof (induction n arbitrary: d)
  case (Suc n)
  show ?case
  proof (cases "dec d")
    case None
    then show ?thesis using dec_short [of d] by simp
  next
    case (Some p)
    obtain x d' where p: "p = (x, d')" by (cases p)
    then have d': "d' = adv sz d" "sz \<le> remaining d"
      using Some dec_moves [of d] dec_short [of d] by auto
    have "get_many dec (Suc n) d = None \<longleftrightarrow> get_many dec n d' = None"
      using Some p by (auto split: bind_splits)
    also have "\<dots> \<longleftrightarrow> remaining d < Suc n * sz" using Suc [of d'] d' by auto
    finally show ?thesis .
  qed
qed simp

lemma get_many_moves:
  "get_many dec n d = Some (xs, d') \<Longrightarrow> d' = adv (n * sz) d \<and> length xs = n"
proof (induction n arbitrary: d xs d')
  case 0
  then show ?case by (simp add: adv_def)
next
  case (Suc n)
  then obtain x d1 ys where "dec d = Some (x, d1)" "get_many dec n d1 = Some (ys, d')" "xs = x # ys"
    by (auto simp: bind_eq_Some_iff)
  with Suc.IH [of d1 ys d'] dec_moves [of d x d1] show ?case by (simp add: add.commute)
qed

end

lemma codec_word: "LENGTH('a) = 8 * n \<Longrightarrow> codec (be_bytes n :: 'a::len word \<Rightarrow> byte list) (get_word n) n"
  by unfold_locales (auto simp: get_word_adv split: if_splits)

interpretation c8: codec u8 get8 1
  unfolding u8_def get8_def by (rule codec_word) simp
interpretation c16: codec u16 get16 2
  unfolding u16_def get16_def by (rule codec_word) simp
interpretation c32: codec u32 get32 4
  unfolding u32_def get32_def by (rule codec_word) simp
interpretation c64: codec u64 get64 8
  unfolding u64_def get64_def by (rule codec_word) simp
interpretation cmac: codec mac get_mac 6
  unfolding mac_def get_mac_def by (rule codec_word) simp
interpretation cfixed: codec fixed get_fixed 64
  unfolding fixed_def get_fixed_def by (rule codec_word) simp

lemmas scalar_sizes [simp] =
  c8.enc_size c16.enc_size c32.enc_size c64.enc_size cmac.enc_size cfixed.enc_size
  c8.enc_many_size c16.enc_many_size c32.enc_many_size c64.enc_many_size

lemmas scalar_reads [simp] =
  c8.dec_enc c16.dec_enc c32.dec_enc c64.dec_enc cmac.dec_enc cfixed.dec_enc
  c8.dec_enc_nil c16.dec_enc_nil c32.dec_enc_nil c64.dec_enc_nil cmac.dec_enc_nil cfixed.dec_enc_nil
  c8.get_many_enc c16.get_many_enc c32.get_many_enc c64.get_many_enc
  c8.get_many_enc_nil c16.get_many_enc_nil c32.get_many_enc_nil c64.get_many_enc_nil

lemma bind_get_word:
  "Option.bind (get_word n d) f =
     (if remaining d < n then None else f (be_word (take n (d_rest d)), adv n d))"
  by (simp add: get_word_adv)

lemma bind_get_word_None_iff:
  "Option.bind (get_word n d) f = None \<longleftrightarrow>
     remaining d < n \<or> f (be_word (take n (d_rest d)), adv n d) = None"
  by (simp add: get_word_adv)

lemma remaining_adv_less: "0 < m \<Longrightarrow> remaining (adv n d) < m \<longleftrightarrow> remaining d < n + m"
  by auto

text \<open>With these a fixed-size reader throws exactly when the buffer is shorter than its size.\<close>

lemmas scalar_defs =
  get8_def get16_def get32_def get64_def get_mac_def get_fixed_def

lemmas short_buffer = scalar_defs bind_get_word_None_iff remaining_adv_less

lemmas wire_defs = u8_def u16_def u32_def u64_def mac_def fixed_def be_bytes_def

declare pack.simps(2) [simp del]

end
