(* ===== verification/Avtpdu.thy ===== *)
theory Avtpdu
  imports Serialization
begin

text \<open>
  The headers every AVDECC frame starts with: \<^verbatim>\<open>EtherLayer2\<close>, \<^verbatim>\<open>Avtpdu\<close> and \<^verbatim>\<open>AvtpduControl\<close>
  (include/la/avdecc/internals/protocolAvtpdu.hpp, src/protocol/protocolAvtpdu.cpp).  The C++ classes
  derive from each other, and so do the records; the member \<^verbatim>\<open>_x\<close> of the code is the field
  \<^verbatim>\<open>m_x\<close>.  A \<^verbatim>\<open>serialize\<close> method appends to a serializer, a \<^verbatim>\<open>deserialize\<close> method
  overwrites the fields it reads in the object it is called on.
\<close>

section \<open>Build options\<close>

text \<open>
  The preprocessor options the message classes are compiled with: IGNORE_INVALID_CONTROL_DATA_LENGTH,
  ALLOW_SEND_BIG_AECP_PAYLOADS and ALLOW_RECV_BIG_AECP_PAYLOADS.  The build files enable the first
  and the third by default.
\<close>

record build_options =
  opt_ignore_cdl :: bool
  opt_send_big :: bool
  opt_recv_big :: bool

definition default_build :: build_options where
  "default_build = \<lparr>opt_ignore_cdl = True, opt_send_big = False, opt_recv_big = True\<rparr>"

section \<open>Ethernet layer 2\<close>

record ether_layer2 =
  m_destAddress :: mac_address
  m_srcAddress :: mac_address
  m_etherType :: "16 word"

definition EtherLayer2_HeaderLength :: nat where
  "EtherLayer2_HeaderLength = 14"

definition EthernetMaxFrameSize :: nat where
  "EthernetMaxFrameSize = 1522"

definition EtherLayer2_serialize :: "'a ether_layer2_scheme \<Rightarrow> serializer \<Rightarrow> serializer option" where
  "EtherLayer2_serialize p s = pack [mac (m_destAddress p), mac (m_srcAddress p), u16 (m_etherType p)] s"

definition EtherLayer2_deserialize ::
  "'a ether_layer2_scheme \<Rightarrow> deserializer \<Rightarrow> ('a ether_layer2_scheme \<times> deserializer) option"
where
  "EtherLayer2_deserialize p d =
     (if remaining d < EtherLayer2_HeaderLength then None
      else do {
        (dest, d) \<leftarrow> get_mac d;
        (src, d) \<leftarrow> get_mac d;
        (etype, d) \<leftarrow> get16 d;
        Some (p\<lparr>m_destAddress := dest, m_srcAddress := src, m_etherType := etype\<rparr>, d)
      })"

section \<open>AVTP common control header\<close>

record avtpdu = ether_layer2 +
  m_cd :: bool
  m_subType :: "8 word"
  m_headerSpecific :: bool
  m_version :: "8 word"

record avtpdu_control = avtpdu +
  m_controlData :: "8 word"
  m_status :: "8 word"
  m_controlDataLength :: "16 word"
  m_streamID :: "64 word"

definition AvtpEtherType :: "16 word" where
  "AvtpEtherType = 0x22f0"

definition AvtpVersion :: "8 word" where
  "AvtpVersion = 0"

definition AvtpduControl_HeaderLength :: nat where
  "AvtpduControl_HeaderLength = 12"

definition AvtpduControl_new :: avtpdu_control where
  "AvtpduControl_new =
     \<lparr>m_destAddress = 0, m_srcAddress = 0, m_etherType = AvtpEtherType, m_cd = True, m_subType = 0,
      m_headerSpecific = False, m_version = AvtpVersion, m_controlData = 0, m_status = 0,
      m_controlDataLength = 0, m_streamID = 0\<rparr>"

text \<open>The three packed fields, and what each read takes out of them.\<close>

definition pack_cd_subType :: "bool \<Rightarrow> 8 word \<Rightarrow> 8 word" where
  "pack_cd_subType b s = (push_bit 7 (of_bool b) AND 0x80) OR (s AND 0x7f)"

definition pack_hs_vers_cd :: "bool \<Rightarrow> 8 word \<Rightarrow> 8 word \<Rightarrow> 8 word" where
  "pack_hs_vers_cd b v c = (push_bit 7 (of_bool b) AND 0x80) OR (push_bit 4 v AND 0x70) OR (c AND 0x0f)"

definition pack_st_cdl :: "8 word \<Rightarrow> 16 word \<Rightarrow> 16 word" where
  "pack_st_cdl st l = (push_bit 11 (ucast st) AND 0xf800) OR (l AND 0x7ff)"

definition unpack_flag :: "8 word \<Rightarrow> bool" where
  "unpack_flag x \<longleftrightarrow> drop_bit 7 (x AND 0x80) \<noteq> 0"

definition unpack_subType :: "8 word \<Rightarrow> 8 word" where
  "unpack_subType x = x AND 0x7f"

definition unpack_version :: "8 word \<Rightarrow> 8 word" where
  "unpack_version x = drop_bit 4 (x AND 0x70)"

definition unpack_controlData :: "8 word \<Rightarrow> 8 word" where
  "unpack_controlData x = x AND 0x0f"

definition unpack_status :: "16 word \<Rightarrow> 8 word" where
  "unpack_status x = ucast (drop_bit 11 (x AND 0xf800))"

definition unpack_cdl :: "16 word \<Rightarrow> 16 word" where
  "unpack_cdl x = x AND 0x7ff"

definition AvtpduControl_serialize :: "'a avtpdu_control_scheme \<Rightarrow> serializer \<Rightarrow> serializer option" where
  "AvtpduControl_serialize p s = pack
     [u8 (pack_cd_subType (m_cd p) (m_subType p)),
      u8 (pack_hs_vers_cd (m_headerSpecific p) (m_version p) (m_controlData p)),
      u16 (pack_st_cdl (m_status p) (m_controlDataLength p)),
      u64 (m_streamID p)] s"

definition AvtpduControl_deserialize ::
  "'a avtpdu_control_scheme \<Rightarrow> deserializer \<Rightarrow> ('a avtpdu_control_scheme \<times> deserializer) option"
where
  "AvtpduControl_deserialize p d =
     (if remaining d < AvtpduControl_HeaderLength then None
      else do {
        (cd_subType, d) \<leftarrow> get8 d;
        (hs_vers_cd, d) \<leftarrow> get8 d;
        (st_cdl, d) \<leftarrow> get16 d;
        (sid, d) \<leftarrow> get64 d;
        Some (p\<lparr>m_cd := unpack_flag cd_subType,
                m_subType := unpack_subType cd_subType,
                m_headerSpecific := unpack_flag hs_vers_cd,
                m_version := unpack_version hs_vers_cd,
                m_controlData := unpack_controlData hs_vers_cd,
                m_status := unpack_status st_cdl,
                m_controlDataLength := unpack_cdl st_cdl,
                m_streamID := sid\<rparr>, d)
      })"

text \<open>
  What a header can carry: 7 bits of subtype, 3 of version, 4 of control data (the message type),
  5 of status and 11 of length.
\<close>

definition control_fits :: "'a avtpdu_control_scheme \<Rightarrow> bool" where
  "control_fits p \<longleftrightarrow> m_subType p AND 0x7f = m_subType p \<and> m_version p AND 0x07 = m_version p
     \<and> m_controlData p AND 0x0f = m_controlData p \<and> m_status p AND 0x1f = m_status p
     \<and> m_controlDataLength p AND 0x7ff = m_controlDataLength p"

definition control_clip :: "'a avtpdu_control_scheme \<Rightarrow> 'a avtpdu_control_scheme" where
  "control_clip p = p\<lparr>m_subType := m_subType p AND 0x7f, m_version := m_version p AND 0x07,
     m_controlData := m_controlData p AND 0x0f, m_status := m_status p AND 0x1f,
     m_controlDataLength := m_controlDataLength p AND 0x7ff\<rparr>"

text \<open>The bytes the two headers put in the buffer.\<close>

definition ether_bytes :: "'a ether_layer2_scheme \<Rightarrow> byte list" where
  "ether_bytes p = mac (m_destAddress p) @ mac (m_srcAddress p) @ u16 (m_etherType p)"

definition control_bytes :: "'a avtpdu_control_scheme \<Rightarrow> byte list" where
  "control_bytes p =
     u8 (pack_cd_subType (m_cd p) (m_subType p)) @
     u8 (pack_hs_vers_cd (m_headerSpecific p) (m_version p) (m_controlData p)) @
     u16 (pack_st_cdl (m_status p) (m_controlDataLength p)) @
     u64 (m_streamID p)"

lemma length_ether_bytes [simp]: "length (ether_bytes p) = 14"
  by (simp add: ether_bytes_def)

lemma length_control_bytes [simp]: "length (control_bytes p) = 12"
  by (simp add: control_bytes_def)

lemma EtherLayer2_serialize_eq:
  "length (buffer s) + 14 \<le> capacity s \<Longrightarrow>
     EtherLayer2_serialize p s = Some (s\<lparr>buffer := buffer s @ ether_bytes p\<rparr>)"
  by (simp add: EtherLayer2_serialize_def pack_eq ether_bytes_def)

lemma AvtpduControl_serialize_eq:
  "length (buffer s) + 12 \<le> capacity s \<Longrightarrow>
     AvtpduControl_serialize p s = Some (s\<lparr>buffer := buffer s @ control_bytes p\<rparr>)"
  by (simp add: AvtpduControl_serialize_def pack_eq control_bytes_def)

lemma EtherLayer2_deserialize_bytes [simp]:
  "EtherLayer2_deserialize q (Deser u (ether_bytes p @ r)) =
     Some (q\<lparr>m_destAddress := m_destAddress p, m_srcAddress := m_srcAddress p,
             m_etherType := m_etherType p\<rparr>, Deser (u @ ether_bytes p) r)"
  by (simp add: EtherLayer2_deserialize_def ether_bytes_def EtherLayer2_HeaderLength_def)

text \<open>The packed fields of the header, read back.\<close>

lemma packed_fields [simp]:
  "unpack_flag (pack_cd_subType b s) = b"
  "unpack_subType (pack_cd_subType b s) = s AND 0x7f"
  "unpack_flag (pack_hs_vers_cd b v c) = b"
  "unpack_version (pack_hs_vers_cd b v c) = v AND 0x07"
  "unpack_controlData (pack_hs_vers_cd b v c) = c AND 0x0f"
  "unpack_status (pack_st_cdl st l) = st AND 0x1f"
  "unpack_cdl (pack_st_cdl st l) = l AND 0x7ff"
  by (simp_all add: unpack_flag_def unpack_subType_def unpack_version_def unpack_controlData_def
      unpack_status_def unpack_cdl_def pack_cd_subType_def pack_hs_vers_cd_def pack_st_cdl_def narrow_bits)

lemma AvtpduControl_deserialize_bytes [simp]:
  "AvtpduControl_deserialize q (Deser u (control_bytes p @ r)) =
     Some (q\<lparr>m_cd := m_cd p, m_subType := m_subType p AND 0x7f, m_headerSpecific := m_headerSpecific p,
             m_version := m_version p AND 0x07, m_controlData := m_controlData p AND 0x0f,
             m_status := m_status p AND 0x1f, m_controlDataLength := m_controlDataLength p AND 0x7ff,
             m_streamID := m_streamID p\<rparr>, Deser (u @ control_bytes p) r)"
  by (simp add: AvtpduControl_deserialize_def control_bytes_def AvtpduControl_HeaderLength_def)

lemma control_fits_clip: "control_fits p \<Longrightarrow> control_clip p = p"
  by (cases p) (simp add: control_fits_def control_clip_def)

lemma take_drop_frame [simp]:
  "drop 14 (ether_bytes p @ r) = r" "take 14 (ether_bytes p @ r) = ether_bytes p"
  by simp_all

section \<open>Properties\<close>

text \<open>
  The Ethernet and AVTP control headers survive the wire whatever the object holds: the
  receiver gets the fields cut to their width on the wire (7 bits of subtype, 3 of version, 4 of
  control data, 5 of status, 11 of length) and every other field unchanged, and exactly the 26
  header bytes are consumed.
\<close>

theorem header_roundtrip:
  fixes p q :: avtpdu_control
  shows "\<exists>bs. (do { s \<leftarrow> EtherLayer2_serialize p (serializer_new EthernetMaxFrameSize);
                  s \<leftarrow> AvtpduControl_serialize p s; Some (buffer s) }) = Some bs
    \<and> length bs = EtherLayer2_HeaderLength + AvtpduControl_HeaderLength
    \<and> (do { (q, d) \<leftarrow> EtherLayer2_deserialize q (deser_new (bs @ rest));
            AvtpduControl_deserialize q d }) = Some (control_clip p, Deser bs rest)"
proof -
  have upd: "q\<lparr>m_destAddress := m_destAddress p, m_srcAddress := m_srcAddress p,
      m_etherType := m_etherType p, m_cd := m_cd p, m_subType := m_subType p AND 0x7f,
      m_headerSpecific := m_headerSpecific p, m_version := m_version p AND 0x07,
      m_controlData := m_controlData p AND 0x0f, m_status := m_status p AND 0x1f,
      m_controlDataLength := m_controlDataLength p AND 0x7ff, m_streamID := m_streamID p\<rparr>
      = control_clip p"
    by (cases p; cases q) (simp add: control_clip_def)
  show ?thesis
    by (rule exI [of _ "ether_bytes p @ control_bytes p"])
       (simp add: EtherLayer2_serialize_eq AvtpduControl_serialize_eq EthernetMaxFrameSize_def
         EtherLayer2_HeaderLength_def AvtpduControl_HeaderLength_def upd)
qed

end
