(* ===== verification/Adpdu.thy ===== *)
theory Adpdu
  imports Avtpdu
begin

text \<open>
  The discovery message \<^verbatim>\<open>Adpdu\<close> (include/la/avdecc/internals/protocolAdpdu.hpp,
  src/protocol/protocolAdpdu.cpp) and the frame the transports build and take apart for it.  The
  build options are the argument \<^verbatim>\<open>opts\<close>.

  The round trip is exact but for the gPTP domain number, which \<^verbatim>\<open>deserialize\<close> collapses to 0
  or 1.
\<close>

record adpdu = avtpdu_control +
  m_entityModelID :: "64 word"
  m_entityCapabilities :: "32 word"
  m_talkerStreamSources :: "16 word"
  m_talkerCapabilities :: "16 word"
  m_listenerStreamSinks :: "16 word"
  m_listenerCapabilities :: "16 word"
  m_controllerCapabilities :: "32 word"
  m_availableIndex :: "32 word"
  m_gptpGrandmasterID :: "64 word"
  m_gptpDomainNumber :: "8 word"
  m_identifyControlIndex :: "16 word"
  m_interfaceIndex :: "16 word"
  m_associationID :: "64 word"

definition Adpdu_Length :: nat where
  "Adpdu_Length = 56"

definition AvtpSubType_Adp :: "8 word" where
  "AvtpSubType_Adp = 0x7a"

text \<open>A \<^verbatim>\<open>UniqueIdentifier\<close> is constructed as the uninitialized value.\<close>

definition uid_uninitialized :: "64 word" where
  "uid_uninitialized = 0xFFFFFFFFFFFFFFFF"

definition Adpdu_new :: adpdu where
  "Adpdu_new =
    \<lparr>m_destAddress = 0, m_srcAddress = 0, m_etherType = AvtpEtherType, m_cd = True,
     m_subType = AvtpSubType_Adp, m_headerSpecific = False, m_version = AvtpVersion,
     m_controlData = 0, m_status = 0, m_controlDataLength = of_nat Adpdu_Length, m_streamID = 0,
     m_entityModelID = uid_uninitialized, m_entityCapabilities = 0, m_talkerStreamSources = 0,
     m_talkerCapabilities = 0, m_listenerStreamSinks = 0, m_listenerCapabilities = 0,
     m_controllerCapabilities = 0, m_availableIndex = 0, m_gptpGrandmasterID = uid_uninitialized,
     m_gptpDomainNumber = 0, m_identifyControlIndex = 0, m_interfaceIndex = 0,
     m_associationID = uid_uninitialized\<rparr>"

definition pack_gdn :: "8 word \<Rightarrow> 32 word" where
  "pack_gdn n = (push_bit 24 (ucast n) AND 0xff000000) OR (0 AND 0x00ffffff)"

definition unpack_gdn :: "32 word \<Rightarrow> 8 word" where
  "unpack_gdn x = of_bool (drop_bit 24 (x AND 0xff000000) \<noteq> 0)"

definition Adpdu_chunks :: "'a adpdu_scheme \<Rightarrow> byte list list" where
  "Adpdu_chunks p =
    [u64 (m_entityModelID p), u32 (m_entityCapabilities p),
     u16 (m_talkerStreamSources p), u16 (m_talkerCapabilities p),
     u16 (m_listenerStreamSinks p), u16 (m_listenerCapabilities p),
     u32 (m_controllerCapabilities p),
     u32 (m_availableIndex p),
     u64 (m_gptpGrandmasterID p), u32 (pack_gdn (m_gptpDomainNumber p)),
     u16 (m_identifyControlIndex p), u16 (m_interfaceIndex p), u64 (m_associationID p), u32 0]"

definition Adpdu_serialize :: "'a adpdu_scheme \<Rightarrow> serializer \<Rightarrow> serializer option" where
  "Adpdu_serialize p s = pack (Adpdu_chunks p) s"

definition Adpdu_deserialize ::
  "build_options \<Rightarrow> 'a adpdu_scheme \<Rightarrow> deserializer \<Rightarrow> ('a adpdu_scheme \<times> deserializer) option"
where
  "Adpdu_deserialize opts p d =
    (if remaining d < Adpdu_Length then None
     else if unat (m_controlDataLength p) < Adpdu_Length \<and> \<not> opt_ignore_cdl opts then None
     else if unat (m_controlDataLength p) > remaining d \<and> \<not> opt_ignore_cdl opts then None
     else do {
       (emid, d) \<leftarrow> get64 d;
       (ecaps, d) \<leftarrow> get32 d;
       (tsrc, d) \<leftarrow> get16 d;
       (tcaps, d) \<leftarrow> get16 d;
       (lsink, d) \<leftarrow> get16 d;
       (lcaps, d) \<leftarrow> get16 d;
       (ccaps, d) \<leftarrow> get32 d;
       (idx, d) \<leftarrow> get32 d;
       (gm, d) \<leftarrow> get64 d;
       (gdn_res, d) \<leftarrow> get32 d;
       (ici, d) \<leftarrow> get16 d;
       (itf, d) \<leftarrow> get16 d;
       (assoc, d) \<leftarrow> get64 d;
       (reserved1, d) \<leftarrow> get32 d;
       Some (p\<lparr>m_entityModelID := emid, m_entityCapabilities := ecaps, m_talkerStreamSources := tsrc,
               m_talkerCapabilities := tcaps, m_listenerStreamSinks := lsink,
               m_listenerCapabilities := lcaps, m_controllerCapabilities := ccaps,
               m_availableIndex := idx, m_gptpGrandmasterID := gm,
               m_gptpDomainNumber := unpack_gdn gdn_res,
               m_identifyControlIndex := ici, m_interfaceIndex := itf, m_associationID := assoc\<rparr>, d)
     })"

text \<open>The whole frame, as the transport's \<^verbatim>\<open>sendMessage(Adpdu)\<close> builds it, and its reception.\<close>

definition Adpdu_frame :: "'a adpdu_scheme \<Rightarrow> byte list option" where
  "Adpdu_frame p = do {
     s \<leftarrow> EtherLayer2_serialize p (serializer_new EthernetMaxFrameSize);
     s \<leftarrow> AvtpduControl_serialize p s;
     s \<leftarrow> Adpdu_serialize p s;
     Some (buffer s)
   }"

definition Adpdu_receive :: "build_options \<Rightarrow> 'a ether_layer2_scheme \<Rightarrow> byte list \<Rightarrow> adpdu option" where
  "Adpdu_receive opts ether pkt_data = do {
     let p = Adpdu_new\<lparr>m_srcAddress := m_srcAddress ether, m_destAddress := m_destAddress ether\<rparr>;
     (p, d) \<leftarrow> AvtpduControl_deserialize p (deser_new pkt_data);
     (p, d) \<leftarrow> Adpdu_deserialize opts p d;
     Some p
   }"

section \<open>Lemmas\<close>

lemma unpack_pack_gdn: "unpack_gdn (pack_gdn n) = of_bool (n \<noteq> 0)"
proof -
  have high: "(0xff000000 :: 32 word) = push_bit 24 (mask 8)"
    by (simp add: mask_eq_exp_minus_1 push_bit_eq_mult)
  have "drop_bit 24 (pack_gdn n AND 0xff000000) = ucast n"
    unfolding pack_gdn_def high
    by (rule bit_word_eqI) (auto simp: bit_simps dest: bit_imp_le_length)
  moreover have "(ucast n :: 32 word) \<noteq> 0 \<longleftrightarrow> n \<noteq> 0"
    by (simp add: ucast_up_eq_0_iff)
  ultimately show ?thesis by (simp add: unpack_gdn_def)
qed

definition Adpdu_bytes :: "'a adpdu_scheme \<Rightarrow> byte list" where
  "Adpdu_bytes p = concat (Adpdu_chunks p)"

lemma length_Adpdu_bytes [simp]: "length (Adpdu_bytes p) = 56"
  by (simp add: Adpdu_bytes_def Adpdu_chunks_def)

lemma Adpdu_serialize_eq:
  "length (buffer s) + 56 \<le> capacity s \<Longrightarrow>
     Adpdu_serialize p s = Some (s\<lparr>buffer := buffer s @ Adpdu_bytes p\<rparr>)"
  using length_Adpdu_bytes [of p] by (simp add: Adpdu_serialize_def pack_eq Adpdu_bytes_def)

lemma Adpdu_frame_eq: "Adpdu_frame p = Some (ether_bytes p @ control_bytes p @ Adpdu_bytes p)"
  by (simp add: Adpdu_frame_def EthernetMaxFrameSize_def EtherLayer2_serialize_eq
      AvtpduControl_serialize_eq Adpdu_serialize_eq)

lemma Adpdu_deserialize_bytes:
  assumes "unat (m_controlDataLength q) = 56 \<or> opt_ignore_cdl opts"
  shows "Adpdu_deserialize opts q (Deser u (Adpdu_bytes p @ r)) =
    Some (q\<lparr>m_entityModelID := m_entityModelID p, m_entityCapabilities := m_entityCapabilities p,
            m_talkerStreamSources := m_talkerStreamSources p,
            m_talkerCapabilities := m_talkerCapabilities p,
            m_listenerStreamSinks := m_listenerStreamSinks p,
            m_listenerCapabilities := m_listenerCapabilities p,
            m_controllerCapabilities := m_controllerCapabilities p,
            m_availableIndex := m_availableIndex p, m_gptpGrandmasterID := m_gptpGrandmasterID p,
            m_gptpDomainNumber := of_bool (m_gptpDomainNumber p \<noteq> 0),
            m_identifyControlIndex := m_identifyControlIndex p,
            m_interfaceIndex := m_interfaceIndex p, m_associationID := m_associationID p\<rparr>,
          Deser (u @ Adpdu_bytes p) r)"
  using assms
  by (auto simp: Adpdu_deserialize_def Adpdu_Length_def Adpdu_bytes_def Adpdu_chunks_def unpack_pack_gdn)

lemma Adpdu_deserialize_None_iff:
  "opt_ignore_cdl opts \<Longrightarrow> Adpdu_deserialize opts q d = None \<longleftrightarrow> remaining d < 56"
  by (auto simp: Adpdu_deserialize_def Adpdu_Length_def short_buffer simp del: remaining_adv)

section \<open>Properties\<close>

lemma adpdu_roundtrip_frame:
  fixes p :: adpdu
  assumes "control_fits p" and "m_controlDataLength p = of_nat Adpdu_Length"
    and "m_etherType p = AvtpEtherType"
  shows "\<exists>frame. Adpdu_frame p = Some frame \<and> length frame = 82
    \<and> Adpdu_receive opts p (drop EtherLayer2_HeaderLength frame @ pad) =
        Some (p\<lparr>m_gptpDomainNumber := of_bool (m_gptpDomainNumber p \<noteq> 0)\<rparr>)"
  using assms
  by (cases p) (auto simp: Adpdu_frame_eq Adpdu_receive_def EtherLayer2_HeaderLength_def
      Adpdu_deserialize_bytes Adpdu_new_def control_fits_def Adpdu_Length_def)

text \<open>
  C27.  An ADP message that the transport sends is received as it was, trailing padding ignored,
  under every build option, except the gPTP domain number: the receiver turns every non-zero domain
  number into 1.
\<close>

theorem adpdu_roundtrip:
  fixes p :: adpdu
  assumes "control_fits p" and "m_controlDataLength p = of_nat Adpdu_Length"
    and "m_etherType p = AvtpEtherType"
  shows "\<exists>frame. Adpdu_frame p = Some frame \<and> length frame = 82
    \<and> Adpdu_receive opts p (drop EtherLayer2_HeaderLength frame @ pad) =
        Some (p\<lparr>m_gptpDomainNumber := of_bool (m_gptpDomainNumber p \<noteq> 0)\<rparr>)"
  by (rule adpdu_roundtrip_frame) fact+

definition adp_sample :: adpdu where
  "adp_sample = Adpdu_new\<lparr>m_srcAddress := 0x001b92000001, m_streamID := 0x001b92fffe000001,
     m_status := 10, m_gptpDomainNumber := 5, m_availableIndex := 7\<rparr>"

theorem adpdu_roundtrip_witness:
  "\<exists>frame. Adpdu_frame adp_sample = Some frame \<and> length frame = 82
    \<and> Adpdu_receive default_build adp_sample (drop EtherLayer2_HeaderLength frame @ [0, 0]) =
        Some (adp_sample\<lparr>m_gptpDomainNumber := 1\<rparr>)"
  using adpdu_roundtrip [of adp_sample default_build "[0, 0]"]
  by (simp add: adp_sample_def Adpdu_new_def control_fits_def AvtpSubType_Adp_def AvtpVersion_def
      Adpdu_Length_def AvtpEtherType_def)

end
