(* ===== verification/Entity.thy ===== *)
theory Entity
  imports Adpdu
begin

text \<open>
  Unique identifiers (include/la/avdecc/internals/uniqueIdentifier.hpp) and the discovery information
  of an entity (\<^verbatim>\<open>la::avdecc::entity::Entity\<close>, include/la/avdecc/internals/entity.hpp), with the
  entity capabilities the state machines look at (include/la/avdecc/internals/entityEnums.hpp).

  The interfaces of an entity are a \<^verbatim>\<open>std::map\<close>: an association list in the order of its keys.
\<close>

unbundle bit_operations_syntax

section \<open>Unique identifiers\<close>

type_synonym uid = "64 word"

definition uid_null :: uid where
  "uid_null = 0"

definition uid_isValid :: "uid \<Rightarrow> bool" where
  "uid_isValid eui \<longleftrightarrow> eui \<noteq> uid_null \<and> eui \<noteq> uid_uninitialized"

definition uid_eq :: "uid \<Rightarrow> uid \<Rightarrow> bool" where
  "uid_eq lhs rhs \<longleftrightarrow> (\<not> uid_isValid lhs \<and> \<not> uid_isValid rhs) \<or> lhs = rhs"

definition uid_less :: "uid \<Rightarrow> uid \<Rightarrow> bool" where
  "uid_less lhs rhs \<longleftrightarrow> lhs < rhs"

text \<open>The hash functor, over the standard library's hash of a 64-bit integer.\<close>

definition uid_hash :: "(64 word \<Rightarrow> 64 word) \<Rightarrow> uid \<Rightarrow> 64 word" where
  "uid_hash std_hash eui = std_hash eui"

definition getVendorID32 :: "uid \<Rightarrow> 32 word" where
  "getVendorID32 eui = ucast (drop_bit 40 eui AND 0x0000000000FFFFFF)"

definition getVendorID64 :: "uid \<Rightarrow> 64 word" where
  "getVendorID64 eui = drop_bit 28 eui AND 0x0000000FFFFFFFFF"

definition getVendorValue64 :: "uid \<Rightarrow> 64 word" where
  "getVendorValue64 eui = eui AND 0x000000FFFFFFFFFF"

definition getVendorValue32 :: "uid \<Rightarrow> 32 word" where
  "getVendorValue32 eui = ucast eui AND 0x0FFFFFFF"

definition isGroupIdentifier :: "uid \<Rightarrow> bool" where
  "isGroupIdentifier eui \<longleftrightarrow> uid_isValid eui \<and> eui AND 0x0100000000000000 = 0x0100000000000000"

definition isLocalIdentifier :: "uid \<Rightarrow> bool" where
  "isLocalIdentifier eui \<longleftrightarrow> uid_isValid eui \<and> eui AND 0x0200000000000000 = 0x0200000000000000"

text \<open>An optional identifier compares with the operator of its value.\<close>

fun uid_option_eq :: "uid option \<Rightarrow> uid option \<Rightarrow> bool" where
  "uid_option_eq (Some x) (Some y) = uid_eq x y"
| "uid_option_eq x y = (x = None \<and> y = None)"

lemma uid_eq_equiv: "uid_eq x x" "uid_eq x y \<Longrightarrow> uid_eq y x" "uid_eq x y \<Longrightarrow> uid_eq y z \<Longrightarrow> uid_eq x z"
  by (auto simp: uid_eq_def)

text \<open>
  Equality of identifiers is an equivalence, but neither the hash functor nor the ordering
  respects it: on an injective hash of integers the null and the uninitialized identifiers, and they
  only, are equal with different hash values, and they are the only equal identifiers one of which
  is below the other.  A container keyed by identifiers may hold both.
\<close>

lemma uid_hash_and_order_vs_equality:
  "inj std_hash \<Longrightarrow>
     (uid_eq x y \<and> uid_hash std_hash x \<noteq> uid_hash std_hash y
        \<longleftrightarrow> x = uid_null \<and> y = uid_uninitialized \<or> x = uid_uninitialized \<and> y = uid_null)
     \<and> (uid_eq x y \<and> uid_less x y \<longleftrightarrow> x = uid_null \<and> y = uid_uninitialized)"
  by (auto simp: inj_eq uid_eq_def uid_isValid_def uid_hash_def uid_less_def uid_null_def uid_uninitialized_def)

theorem uid_hash_and_order_vs_equality_witness:
  "uid_eq uid_null uid_uninitialized \<and> uid_hash id uid_null \<noteq> uid_hash id uid_uninitialized
     \<and> uid_less uid_null uid_uninitialized"
  using uid_hash_and_order_vs_equality [of id uid_null uid_uninitialized] by simp

section \<open>Entities\<close>

type_synonym interface_index = "16 word"

definition EntityCapability_AssociationIDValid :: "32 word" where "EntityCapability_AssociationIDValid = 0x40"
definition EntityCapability_GptpSupported :: "32 word" where "EntityCapability_GptpSupported = 0x400"
definition EntityCapability_AemIdentifyControlIndexValid :: "32 word" where
  "EntityCapability_AemIdentifyControlIndexValid = 0x4000"
definition EntityCapability_AemInterfaceIndexValid :: "32 word" where
  "EntityCapability_AemInterfaceIndexValid = 0x8000"
definition EntityCapability_EntityNotReady :: "32 word" where "EntityCapability_EntityNotReady = 0x20000"

text \<open>The operations of \<^verbatim>\<open>utils::EnumBitfield\<close>.\<close>

definition bits_test :: "32 word \<Rightarrow> 32 word \<Rightarrow> bool" where
  "bits_test flag value = (value AND flag \<noteq> 0)"

definition bits_set :: "32 word \<Rightarrow> 32 word \<Rightarrow> 32 word" where
  "bits_set flag value = value OR flag"

definition bits_reset :: "32 word \<Rightarrow> 32 word \<Rightarrow> 32 word" where
  "bits_reset flag value = value AND NOT flag"

lemmas EntityCapability_defs =
  EntityCapability_AssociationIDValid_def EntityCapability_GptpSupported_def
  EntityCapability_AemIdentifyControlIndexValid_def EntityCapability_AemInterfaceIndexValid_def
  EntityCapability_EntityNotReady_def

record common_information =
  ei_entityID :: uid
  ei_entityModelID :: uid
  ei_entityCapabilities :: "32 word"
  ei_talkerStreamSources :: "16 word"
  ei_talkerCapabilities :: "16 word"
  ei_listenerStreamSinks :: "16 word"
  ei_listenerCapabilities :: "16 word"
  ei_controllerCapabilities :: "32 word"
  ei_identifyControlIndex :: "16 word option"
  ei_associationID :: "uid option"

record interface_information =
  ii_macAddress :: mac_address
  ii_validTime :: "8 word"
  ii_availableIndex :: "32 word"
  ii_gptpGrandmasterID :: "uid option"
  ii_gptpDomainNumber :: "8 word option"

record entity =
  en_common :: common_information
  en_interfaces :: "(interface_index, interface_information) alist"

definition GlobalAvbInterfaceIndex :: interface_index where
  "GlobalAvbInterfaceIndex = 0xffff"

text \<open>The constructor throws when there is no interface.\<close>

definition Entity_new ::
  "common_information \<Rightarrow> (interface_index, interface_information) alist \<Rightarrow> entity option"
where
  "Entity_new common interfaces =
     (if interfaces = [] then None else Some \<lparr>en_common = common, en_interfaces = interfaces\<rparr>)"

definition removeInterfaceInformation :: "interface_index \<Rightarrow> entity \<Rightarrow> entity" where
  "removeInterfaceInformation i en = en\<lparr>en_interfaces := al_del i (en_interfaces en)\<rparr>"

definition hasInterfaceIndex :: "interface_index \<Rightarrow> entity \<Rightarrow> bool" where
  "hasInterfaceIndex i en \<longleftrightarrow> al_get i (en_interfaces en) \<noteq> None"

text \<open>Throws (None) when there is no such interface.\<close>

definition getInterfaceInformation :: "interface_index \<Rightarrow> entity \<Rightarrow> interface_information option" where
  "getInterfaceInformation i en = al_get i (en_interfaces en)"

definition setInterfaceInformation :: "interface_index \<Rightarrow> interface_information \<Rightarrow> entity \<Rightarrow> entity" where
  "setInterfaceInformation i info en = en\<lparr>en_interfaces := om_put i info (en_interfaces en)\<rparr>"

definition getMacAddress :: "interface_index \<Rightarrow> entity \<Rightarrow> mac_address" where
  "getMacAddress i en = (case getInterfaceInformation i en of Some info \<Rightarrow> ii_macAddress info | None \<Rightarrow> 0)"

definition getAnyMacAddress :: "entity \<Rightarrow> mac_address option" where
  "getAnyMacAddress en = (case en_interfaces en of [] \<Rightarrow> None | x # xs \<Rightarrow> Some (ii_macAddress (snd x)))"

definition getEntityID :: "entity \<Rightarrow> uid" where
  "getEntityID en = ei_entityID (en_common en)"

definition setValidTime :: "8 word \<Rightarrow> interface_index option \<Rightarrow> entity \<Rightarrow> entity option" where
  "setValidTime validTime interfaceIndex en =
     (let value = min 31 (max 1 validTime) in
      case interfaceIndex of
        Some i \<Rightarrow> map_option (\<lambda>info. setInterfaceInformation i (info\<lparr>ii_validTime := value\<rparr>) en)
                    (getInterfaceInformation i en)
      | None \<Rightarrow> Some (en\<lparr>en_interfaces := map (\<lambda>(i, info). (i, info\<lparr>ii_validTime := value\<rparr>)) (en_interfaces en)\<rparr>))"

text \<open>The entity identifier built from a MAC address and a program identifier.\<close>

definition mac_byte :: "nat \<Rightarrow> mac_address \<Rightarrow> 64 word" where
  "mac_byte n macAddress = ucast (be_bytes 6 macAddress ! n)"

definition generateEID :: "mac_address \<Rightarrow> 16 word \<Rightarrow> bool \<Rightarrow> uid" where
  "generateEID macAddress progID useDeprecatedAlgorithm =
     (let eid = 0 + mac_byte 0 macAddress;
          eid = push_bit 8 eid + mac_byte 1 macAddress;
          eid = push_bit 8 eid + mac_byte 2 macAddress;
          eid = (if useDeprecatedAlgorithm then push_bit 16 eid + ucast progID else eid);
          eid = push_bit 8 eid + mac_byte 3 macAddress;
          eid = push_bit 8 eid + mac_byte 4 macAddress;
          eid = push_bit 8 eid + mac_byte 5 macAddress
      in if useDeprecatedAlgorithm then eid else push_bit 16 eid + ucast progID)"

lemma push_add_or:
  fixes x :: "64 word" and y :: "'a::len word"
  assumes "LENGTH('a) \<le> n"
  shows "push_bit n x + ucast y = push_bit n x OR ucast y"
  by (rule disjunctive_add) (use assms in \<open>auto simp: bit_simps dest: bit_imp_le_length\<close>)

lemma be_bytes_push8:
  fixes x :: "64 word" and b :: "8 word"
  assumes "n \<le> 7"
  shows "be_bytes (Suc n) (push_bit 8 x + ucast b) = be_bytes n x @ [b]"
proof -
  have "drop_bit 8 (push_bit 8 x OR ucast b) = take_bit 56 x"
    by (rule bit_word_eqI) (auto simp: bit_simps dest: bit_imp_le_length)
  moreover have "ucast (push_bit 8 x OR ucast b) = b"
    by (rule bit_word_eqI) (auto simp: bit_simps dest: bit_imp_le_length)
  ultimately show ?thesis
    using assms by (simp add: be_bytes_def push_add_or le_bytes_take_bit)
qed

lemma be_bytes_push16:
  fixes x :: "64 word" and p :: "16 word"
  assumes "n \<le> 6"
  shows "be_bytes (Suc (Suc n)) (push_bit 16 x + ucast p) = be_bytes n x @ be_bytes 2 p"
proof -
  have "push_bit 16 x + ucast p =
      push_bit 8 (push_bit 8 x + ucast (ucast (drop_bit 8 p) :: 8 word)) + ucast (ucast p :: 8 word)"
    by (simp only: push_add_or len_num0 len_num1 len_bit0 len_bit1) (rule bit_word_eqI, auto simp: bit_simps dest: bit_imp_le_length)
  then show ?thesis
    using assms by (simp add: be_bytes_push8) (simp add: be_bytes_def eval_nat_numeral)
qed

lemma be_bytes_two: "be_bytes 2 (push_bit 8 (ucast (a :: 8 word)) + ucast (b :: 8 word) :: 64 word) = [a, b]"
  using be_bytes_push8 [of 1 "ucast a" b] be_bytes_push8 [of 0 0 a] by (simp add: be_bytes_def numeral_2_eq_2)

lemmas be_bytes_pushes = be_bytes_two
  be_bytes_push8 [of 2, simplified] be_bytes_push8 [of 3, simplified]
  be_bytes_push8 [of 4, simplified] be_bytes_push8 [of 5, simplified] be_bytes_push8 [of 6, simplified]
  be_bytes_push8 [of 7, simplified] be_bytes_push16 [of 3, simplified] be_bytes_push16 [of 6, simplified]

text \<open>
  An entity identifier is the bytes of the MAC address with the program identifier after them,
  or, with the deprecated algorithm, between the two halves of the address: nothing is lost by the
  additions and shifts of 64-bit values.
\<close>

theorem generateEID_layout:
  "be_bytes 8 (generateEID m p d) =
     (if d then take 3 (be_bytes 6 m) @ be_bytes 2 p @ drop 3 (be_bytes 6 m)
      else be_bytes 6 m @ be_bytes 2 p)"
proof -
  obtain a b c d' e f where "be_bytes 6 m = [a, b, c, d', e, f]"
    using length_be_bytes [of 6 m] by (auto simp: eval_nat_numeral length_Suc_conv simp del: length_be_bytes)
  then show ?thesis
    by (cases d) (simp_all add: generateEID_def mac_byte_def be_bytes_pushes Let_def)
qed

end
