(* ===== verification/Acmpdu.thy ===== *)
theory Acmpdu
  imports Avtpdu
begin

text \<open>
  The connection management message \<^verbatim>\<open>Acmpdu\<close> (include/la/avdecc/internals/protocolAcmpdu.hpp,
  src/protocol/protocolAcmpdu.cpp), its frame and its reception.
\<close>

record acmpdu = avtpdu_control +
  m_acmpControllerEntityID :: "64 word"
  m_talkerEntityID :: "64 word"
  m_listenerEntityID :: "64 word"
  m_talkerUniqueID :: "16 word"
  m_listenerUniqueID :: "16 word"
  m_streamDestAddress :: mac_address
  m_connectionCount :: "16 word"
  m_acmpSequenceID :: "16 word"
  m_flags :: "16 word"
  m_streamVlanID :: "16 word"

definition Acmpdu_Length :: nat where
  "Acmpdu_Length = 44"

definition AvtpSubType_Acmp :: "8 word" where
  "AvtpSubType_Acmp = 0x7c"

definition Acmpdu_Multicast_Mac_Address :: mac_address where
  "Acmpdu_Multicast_Mac_Address = 0x91e0f0010000"

definition Acmpdu_new :: acmpdu where
  "Acmpdu_new =
    \<lparr>m_destAddress = Acmpdu_Multicast_Mac_Address, m_srcAddress = 0, m_etherType = AvtpEtherType,
     m_cd = True, m_subType = AvtpSubType_Acmp, m_headerSpecific = False, m_version = AvtpVersion,
     m_controlData = 0, m_status = 0, m_controlDataLength = of_nat Acmpdu_Length, m_streamID = 0,
     m_acmpControllerEntityID = 0xFFFFFFFFFFFFFFFF, m_talkerEntityID = 0xFFFFFFFFFFFFFFFF,
     m_listenerEntityID = 0xFFFFFFFFFFFFFFFF, m_talkerUniqueID = 0, m_listenerUniqueID = 0,
     m_streamDestAddress = 0, m_connectionCount = 0, m_acmpSequenceID = 0, m_flags = 0,
     m_streamVlanID = 0\<rparr>"

definition Acmpdu_chunks :: "'a acmpdu_scheme \<Rightarrow> byte list list" where
  "Acmpdu_chunks p =
    [u64 (m_acmpControllerEntityID p), u64 (m_talkerEntityID p), u64 (m_listenerEntityID p),
     u16 (m_talkerUniqueID p), u16 (m_listenerUniqueID p),
     mac (m_streamDestAddress p),
     u16 (m_connectionCount p), u16 (m_acmpSequenceID p), u16 (m_flags p), u16 (m_streamVlanID p), u16 0]"

definition Acmpdu_serialize :: "'a acmpdu_scheme \<Rightarrow> serializer \<Rightarrow> serializer option" where
  "Acmpdu_serialize p s = pack (Acmpdu_chunks p) s"

definition Acmpdu_deserialize ::
  "build_options \<Rightarrow> 'a acmpdu_scheme \<Rightarrow> deserializer \<Rightarrow> ('a acmpdu_scheme \<times> deserializer) option"
where
  "Acmpdu_deserialize opts p d =
    (if remaining d < Acmpdu_Length then None
     else if unat (m_controlDataLength p) < Acmpdu_Length \<and> \<not> opt_ignore_cdl opts then None
     else if unat (m_controlDataLength p) > remaining d \<and> \<not> opt_ignore_cdl opts then None
     else do {
       (ctrl, d) \<leftarrow> get64 d;
       (talker, d) \<leftarrow> get64 d;
       (listener, d) \<leftarrow> get64 d;
       (tuid, d) \<leftarrow> get16 d;
       (luid, d) \<leftarrow> get16 d;
       (dest, d) \<leftarrow> get_mac d;
       (count, d) \<leftarrow> get16 d;
       (seqid, d) \<leftarrow> get16 d;
       (fl, d) \<leftarrow> get16 d;
       (vlan, d) \<leftarrow> get16 d;
       (reserved, d) \<leftarrow> get16 d;
       Some (p\<lparr>m_acmpControllerEntityID := ctrl, m_talkerEntityID := talker,
               m_listenerEntityID := listener, m_talkerUniqueID := tuid, m_listenerUniqueID := luid,
               m_streamDestAddress := dest, m_connectionCount := count, m_acmpSequenceID := seqid,
               m_flags := fl, m_streamVlanID := vlan\<rparr>, d)
     })"

text \<open>The whole frame, as the transport's \<^verbatim>\<open>sendMessage(Acmpdu)\<close> builds it, and its reception.\<close>

definition Acmpdu_frame :: "'a acmpdu_scheme \<Rightarrow> byte list option" where
  "Acmpdu_frame p = do {
     s \<leftarrow> EtherLayer2_serialize p (serializer_new EthernetMaxFrameSize);
     s \<leftarrow> AvtpduControl_serialize p s;
     s \<leftarrow> Acmpdu_serialize p s;
     Some (buffer s)
   }"

definition Acmpdu_receive :: "build_options \<Rightarrow> 'a ether_layer2_scheme \<Rightarrow> byte list \<Rightarrow> acmpdu option" where
  "Acmpdu_receive opts ether pkt_data = do {
     let p = Acmpdu_new\<lparr>m_srcAddress := m_srcAddress ether, m_destAddress := m_destAddress ether\<rparr>;
     (p, d) \<leftarrow> AvtpduControl_deserialize p (deser_new pkt_data);
     (p, d) \<leftarrow> Acmpdu_deserialize opts p d;
     Some p
   }"

section \<open>Lemmas\<close>

definition Acmpdu_bytes :: "'a acmpdu_scheme \<Rightarrow> byte list" where
  "Acmpdu_bytes p = concat (Acmpdu_chunks p)"

lemma length_Acmpdu_bytes [simp]: "length (Acmpdu_bytes p) = 44"
  by (simp add: Acmpdu_bytes_def Acmpdu_chunks_def)

lemma Acmpdu_serialize_eq:
  "length (buffer s) + 44 \<le> capacity s \<Longrightarrow>
     Acmpdu_serialize p s = Some (s\<lparr>buffer := buffer s @ Acmpdu_bytes p\<rparr>)"
  using length_Acmpdu_bytes [of p] by (simp add: Acmpdu_serialize_def pack_eq Acmpdu_bytes_def)

lemma Acmpdu_frame_eq: "Acmpdu_frame p = Some (ether_bytes p @ control_bytes p @ Acmpdu_bytes p)"
  by (simp add: Acmpdu_frame_def EthernetMaxFrameSize_def EtherLayer2_serialize_eq
      AvtpduControl_serialize_eq Acmpdu_serialize_eq)

lemma Acmpdu_deserialize_bytes:
  assumes "unat (m_controlDataLength q) = 44 \<or> opt_ignore_cdl opts"
  shows "Acmpdu_deserialize opts q (Deser u (Acmpdu_bytes p @ r)) =
    Some (q\<lparr>m_acmpControllerEntityID := m_acmpControllerEntityID p,
            m_talkerEntityID := m_talkerEntityID p, m_listenerEntityID := m_listenerEntityID p,
            m_talkerUniqueID := m_talkerUniqueID p, m_listenerUniqueID := m_listenerUniqueID p,
            m_streamDestAddress := m_streamDestAddress p, m_connectionCount := m_connectionCount p,
            m_acmpSequenceID := m_acmpSequenceID p, m_flags := m_flags p,
            m_streamVlanID := m_streamVlanID p\<rparr>,
          Deser (u @ Acmpdu_bytes p) r)"
  using assms by (auto simp: Acmpdu_deserialize_def Acmpdu_Length_def Acmpdu_bytes_def Acmpdu_chunks_def)

lemma Acmpdu_deserialize_None_iff:
  "opt_ignore_cdl opts \<Longrightarrow> Acmpdu_deserialize opts q d = None \<longleftrightarrow> remaining d < 44"
  by (auto simp: Acmpdu_deserialize_def Acmpdu_Length_def short_buffer simp del: remaining_adv)

section \<open>Properties\<close>

text \<open>
  An ACMP message that the transport sends is received exactly as it was, trailing padding
  ignored, under every build option.
\<close>

lemma acmpdu_roundtrip:
  fixes p :: acmpdu
  assumes "control_fits p" and "m_controlDataLength p = of_nat Acmpdu_Length"
    and "m_etherType p = AvtpEtherType"
  shows "\<exists>frame. Acmpdu_frame p = Some frame \<and> length frame = 70
    \<and> Acmpdu_receive opts p (drop EtherLayer2_HeaderLength frame @ pad) = Some p"
  using assms
  by (cases p) (auto simp: Acmpdu_frame_eq Acmpdu_receive_def EtherLayer2_HeaderLength_def
      Acmpdu_deserialize_bytes Acmpdu_new_def control_fits_def Acmpdu_Length_def)

definition acmp_sample :: acmpdu where
  "acmp_sample = Acmpdu_new\<lparr>m_srcAddress := 0x001b92000001, m_streamID := 1,
     m_acmpControllerEntityID := 0x001b92fffe000001, m_talkerEntityID := 0x001b92fffe000002,
     m_listenerEntityID := 0x001b92fffe000003, m_acmpSequenceID := 42, m_controlData := 6\<rparr>"

theorem acmpdu_roundtrip_witness:
  "\<exists>frame. Acmpdu_frame acmp_sample = Some frame \<and> length frame = 70
    \<and> Acmpdu_receive default_build acmp_sample (drop EtherLayer2_HeaderLength frame @ [0]) = Some acmp_sample"
  using acmpdu_roundtrip [of acmp_sample default_build "[0]"]
  by (simp add: acmp_sample_def Acmpdu_new_def control_fits_def AvtpSubType_Acmp_def AvtpVersion_def
      Acmpdu_Length_def AvtpEtherType_def)

end
