(* ===== verification/Aecpdu.thy ===== *)
theory Aecpdu
  imports Avtpdu
begin

text \<open>
  The entity control messages: the common header \<^verbatim>\<open>Aecpdu\<close>, the AEM messages \<^verbatim>\<open>AemAecpdu\<close>,
  the vendor unique messages \<^verbatim>\<open>VuAecpdu\<close> and their Milan form \<^verbatim>\<open>MvuAecpdu\<close>
  (protocolAecpdu, protocolAemAecpdu, protocolVuAecpdu and protocolMvuAecpdu, .hpp and .cpp).

  The fixed array \<^verbatim>\<open>_commandSpecificData\<close> with its length \<^verbatim>\<open>_commandSpecificDataLength\<close> is
  the list of the bytes in use.
\<close>

section \<open>Common header\<close>

record aecpdu = avtpdu_control +
  m_controllerEntityID :: "64 word"
  m_sequenceID :: "16 word"

definition Aecpdu_HeaderLength :: nat where
  "Aecpdu_HeaderLength = 10"

definition MaximumLength_1722_1 :: nat where
  "MaximumLength_1722_1 = 524"

definition MaximumLength_BigPayloads :: "build_options \<Rightarrow> nat" where
  "MaximumLength_BigPayloads opts =
     (if opt_send_big opts \<or> opt_recv_big opts
      then EthernetMaxFrameSize - EtherLayer2_HeaderLength - AvtpduControl_HeaderLength
      else MaximumLength_1722_1)"

definition MaximumSendLength :: "build_options \<Rightarrow> nat" where
  "MaximumSendLength opts =
     (if opt_send_big opts then MaximumLength_BigPayloads opts else MaximumLength_1722_1)"

definition MaximumRecvLength :: "build_options \<Rightarrow> nat" where
  "MaximumRecvLength opts =
     (if opt_recv_big opts then MaximumLength_BigPayloads opts else MaximumLength_1722_1)"

definition setAecpSpecificDataLength :: "nat \<Rightarrow> 'a aecpdu_scheme \<Rightarrow> 'a aecpdu_scheme" where
  "setAecpSpecificDataLength n p = p\<lparr>m_controlDataLength := of_nat (Aecpdu_HeaderLength + n)\<rparr>"

definition Aecpdu_serialize :: "'a aecpdu_scheme \<Rightarrow> serializer \<Rightarrow> serializer option" where
  "Aecpdu_serialize p s = pack [u64 (m_controllerEntityID p), u16 (m_sequenceID p)] s"

definition Aecpdu_deserialize ::
  "'a aecpdu_scheme \<Rightarrow> deserializer \<Rightarrow> ('a aecpdu_scheme \<times> deserializer) option"
where
  "Aecpdu_deserialize p d =
     (if remaining d < Aecpdu_HeaderLength then None
      else do {
        (ctrl, d) \<leftarrow> get64 d;
        (seqid, d) \<leftarrow> get16 d;
        Some (p\<lparr>m_controllerEntityID := ctrl, m_sequenceID := seqid\<rparr>, d)
      })"

definition AvtpSubType_Aecp :: "8 word" where
  "AvtpSubType_Aecp = 0x7b"

definition AecpMessageType_AemCommand :: "8 word" where "AecpMessageType_AemCommand = 0"
definition AecpMessageType_AemResponse :: "8 word" where "AecpMessageType_AemResponse = 1"
definition AecpMessageType_AddressAccessCommand :: "8 word" where "AecpMessageType_AddressAccessCommand = 2"
definition AecpMessageType_AddressAccessResponse :: "8 word" where "AecpMessageType_AddressAccessResponse = 3"
definition AecpMessageType_VendorUniqueCommand :: "8 word" where "AecpMessageType_VendorUniqueCommand = 6"
definition AecpMessageType_VendorUniqueResponse :: "8 word" where "AecpMessageType_VendorUniqueResponse = 7"

definition Aecpdu_new :: aecpdu where
  "Aecpdu_new =
    \<lparr>m_destAddress = 0, m_srcAddress = 0, m_etherType = AvtpEtherType, m_cd = True,
     m_subType = AvtpSubType_Aecp, m_headerSpecific = False, m_version = AvtpVersion,
     m_controlData = 0, m_status = 0, m_controlDataLength = 0, m_streamID = 0,
     m_controllerEntityID = 0xFFFFFFFFFFFFFFFF, m_sequenceID = 0\<rparr>"

text \<open>The flag and command type word the AEM and Milan headers share.\<close>

definition pack_u_ct :: "bool \<Rightarrow> 16 word \<Rightarrow> 16 word" where
  "pack_u_ct u ct = (push_bit 15 (of_bool u) AND 0x8000) OR (ct AND 0x7fff)"

definition unpack_u :: "16 word \<Rightarrow> bool" where
  "unpack_u u_ct \<longleftrightarrow> drop_bit 15 (u_ct AND 0x8000) \<noteq> 0"

definition unpack_ct :: "16 word \<Rightarrow> 16 word" where
  "unpack_ct u_ct = u_ct AND 0x7fff"

text \<open>
  The length of the command specific data a received message carries: what the control data length
  announces beyond the headers, no more than the buffer holds when the build ignores invalid
  lengths, no more than the receive limit.  \<^verbatim>\<open>None\<close> is the exception of a strict build.
\<close>

definition specific_length :: "build_options \<Rightarrow> nat \<Rightarrow> nat \<Rightarrow> 16 word \<Rightarrow> nat \<Rightarrow> nat option" where
  "specific_length opts minCDL maxRecv cdl remainingBytes =
     (if unat cdl < minCDL \<and> \<not> opt_ignore_cdl opts then None
      else
        let len = (if unat cdl < minCDL then 0 else unat cdl - minCDL);
            len = (if len > remainingBytes \<and> opt_ignore_cdl opts then remainingBytes else len);
            len = (if len > maxRecv then min len maxRecv else len)
        in Some len)"

section \<open>AEM messages\<close>

record aem_aecpdu = aecpdu +
  m_unsolicited :: bool
  m_commandType :: "16 word"
  m_commandSpecificData :: "byte list"

definition AemAecpdu_HeaderLength :: nat where
  "AemAecpdu_HeaderLength = 2"

definition Aem_MaximumPayloadBufferLength :: "build_options \<Rightarrow> nat" where
  "Aem_MaximumPayloadBufferLength opts =
     MaximumLength_BigPayloads opts - Aecpdu_HeaderLength - AemAecpdu_HeaderLength"

definition Aem_MaximumSendPayloadBufferLength :: "build_options \<Rightarrow> nat" where
  "Aem_MaximumSendPayloadBufferLength opts =
     MaximumSendLength opts - Aecpdu_HeaderLength - AemAecpdu_HeaderLength"

definition Aem_MaximumRecvPayloadBufferLength :: "build_options \<Rightarrow> nat" where
  "Aem_MaximumRecvPayloadBufferLength opts =
     MaximumRecvLength opts - Aecpdu_HeaderLength - AemAecpdu_HeaderLength"

definition AemCommandType_InvalidCommandType :: "16 word" where
  "AemCommandType_InvalidCommandType = 0xffff"

definition AemAecpdu_new :: "bool \<Rightarrow> aem_aecpdu" where
  "AemAecpdu_new isResponse =
     setAecpSpecificDataLength AemAecpdu_HeaderLength
       (aecpdu.extend
          (Aecpdu_new\<lparr>m_controlData :=
             if isResponse then AecpMessageType_AemResponse else AecpMessageType_AemCommand\<rparr>)
          \<lparr>m_unsolicited = False, m_commandType = AemCommandType_InvalidCommandType,
           m_commandSpecificData = []\<rparr>)"

definition Aem_setCommandSpecificData ::
  "build_options \<Rightarrow> byte list \<Rightarrow> 'a aem_aecpdu_scheme \<Rightarrow> 'a aem_aecpdu_scheme option"
where
  "Aem_setCommandSpecificData opts dat p =
     (if length dat > Aem_MaximumPayloadBufferLength opts then None
      else Some (setAecpSpecificDataLength (AemAecpdu_HeaderLength + length dat)
                   (p\<lparr>m_commandSpecificData := dat\<rparr>)))"

definition Aem_payloadLength :: "build_options \<Rightarrow> 'a aem_aecpdu_scheme \<Rightarrow> nat" where
  "Aem_payloadLength opts p =
     (let payloadLength = length (m_commandSpecificData p) in
      if payloadLength > Aem_MaximumSendPayloadBufferLength opts
      then min payloadLength (Aem_MaximumSendPayloadBufferLength opts)
      else payloadLength)"

definition AemAecpdu_serialize ::
  "build_options \<Rightarrow> 'a aem_aecpdu_scheme \<Rightarrow> serializer \<Rightarrow> serializer option"
where
  "AemAecpdu_serialize opts p s = do {
     s \<leftarrow> Aecpdu_serialize p s;
     pack [u16 (pack_u_ct (m_unsolicited p) (m_commandType p)),
           take (Aem_payloadLength opts p) (m_commandSpecificData p)] s
   }"

definition AemAecpdu_deserialize ::
  "build_options \<Rightarrow> 'a aem_aecpdu_scheme \<Rightarrow> deserializer \<Rightarrow> ('a aem_aecpdu_scheme \<times> deserializer) option"
where
  "AemAecpdu_deserialize opts p d = do {
     (p, d) \<leftarrow> Aecpdu_deserialize p d;
     if remaining d < AemAecpdu_HeaderLength then None
     else do {
       (u_ct, d) \<leftarrow> get16 d;
       len \<leftarrow> specific_length opts (AemAecpdu_HeaderLength + Aecpdu_HeaderLength)
                (Aem_MaximumRecvPayloadBufferLength opts) (m_controlDataLength p) (remaining d);
       (dat, d) \<leftarrow> unpackBuffer len d;
       Some (p\<lparr>m_unsolicited := unpack_u u_ct, m_commandType := unpack_ct u_ct,
               m_commandSpecificData := dat\<rparr>, d)
     }
   }"

definition AemAecpdu_responseCopy :: "'a aem_aecpdu_scheme \<Rightarrow> 'a aem_aecpdu_scheme option" where
  "AemAecpdu_responseCopy p =
     (if m_controlData p \<noteq> AecpMessageType_AemCommand then None
      else Some (p\<lparr>m_controlData := AecpMessageType_AemResponse\<rparr>))"

section \<open>Vendor unique and Milan messages\<close>

text \<open>
  A \<^verbatim>\<open>ProtocolIdentifier\<close> is a 64-bit integer of which the low 48 bits are used, and an array of
  6 bytes on the wire.
\<close>

definition ProtocolIdentifier_setValue :: "64 word \<Rightarrow> 64 word" where
  "ProtocolIdentifier_setValue identifier = identifier AND 0x00FFFFFFFFFFFF"

definition ProtocolIdentifier_of_array :: "byte list \<Rightarrow> 64 word" where
  "ProtocolIdentifier_of_array identifier = foldl (\<lambda>i v. push_bit 8 i OR ucast v) 0 identifier"

definition ProtocolIdentifier_array :: "64 word \<Rightarrow> byte list" where
  "ProtocolIdentifier_array identifier =
     map (\<lambda>i. ucast (drop_bit ((6 - 1 - i) * 8) identifier AND 0xFF)) [0..<6]"

record vu_aecpdu = aecpdu +
  m_protocolIdentifier :: "64 word"

record mvu_aecpdu = vu_aecpdu +
  m_mvuUnsolicited :: bool
  m_mvuCommandType :: "16 word"
  m_mvuCommandSpecificData :: "byte list"

definition VuAecpdu_HeaderLength :: nat where
  "VuAecpdu_HeaderLength = 6"

definition VuAecpdu_serialize :: "'a vu_aecpdu_scheme \<Rightarrow> serializer \<Rightarrow> serializer option" where
  "VuAecpdu_serialize p s = do {
     s \<leftarrow> Aecpdu_serialize p s;
     pack [ProtocolIdentifier_array (m_protocolIdentifier p)] s
   }"

definition VuAecpdu_deserialize ::
  "'a vu_aecpdu_scheme \<Rightarrow> deserializer \<Rightarrow> ('a vu_aecpdu_scheme \<times> deserializer) option"
where
  "VuAecpdu_deserialize p d = do {
     (p, d) \<leftarrow> Aecpdu_deserialize p d;
     if remaining d < VuAecpdu_HeaderLength then None
     else do {
       (ident, d) \<leftarrow> unpackBuffer 6 d;
       Some (p\<lparr>m_protocolIdentifier := ProtocolIdentifier_of_array ident\<rparr>, d)
     }
   }"

definition MvuAecpdu_ProtocolID :: "64 word" where
  "MvuAecpdu_ProtocolID = ProtocolIdentifier_setValue 0x001bc50ac100"

definition MvuAecpdu_HeaderLength :: nat where
  "MvuAecpdu_HeaderLength = 2"

definition Mvu_MaximumPayloadBufferLength :: "build_options \<Rightarrow> nat" where
  "Mvu_MaximumPayloadBufferLength opts =
     MaximumLength_BigPayloads opts - Aecpdu_HeaderLength - VuAecpdu_HeaderLength - MvuAecpdu_HeaderLength"

definition Mvu_MaximumSendPayloadBufferLength :: "build_options \<Rightarrow> nat" where
  "Mvu_MaximumSendPayloadBufferLength opts =
     MaximumSendLength opts - Aecpdu_HeaderLength - VuAecpdu_HeaderLength - MvuAecpdu_HeaderLength"

definition Mvu_MaximumRecvPayloadBufferLength :: "build_options \<Rightarrow> nat" where
  "Mvu_MaximumRecvPayloadBufferLength opts =
     MaximumRecvLength opts - Aecpdu_HeaderLength - VuAecpdu_HeaderLength - MvuAecpdu_HeaderLength"

definition MvuAecpdu_new :: "bool \<Rightarrow> mvu_aecpdu" where
  "MvuAecpdu_new isResponse =
     setAecpSpecificDataLength (VuAecpdu_HeaderLength + MvuAecpdu_HeaderLength)
       (vu_aecpdu.extend
          (aecpdu.extend
            (Aecpdu_new\<lparr>m_controlData :=
               if isResponse then AecpMessageType_VendorUniqueResponse
               else AecpMessageType_VendorUniqueCommand\<rparr>)
            \<lparr>m_protocolIdentifier = MvuAecpdu_ProtocolID\<rparr>)
          \<lparr>m_mvuUnsolicited = False, m_mvuCommandType = 0xffff, m_mvuCommandSpecificData = []\<rparr>)"

definition Mvu_setCommandSpecificData ::
  "build_options \<Rightarrow> byte list \<Rightarrow> 'a mvu_aecpdu_scheme \<Rightarrow> 'a mvu_aecpdu_scheme option"
where
  "Mvu_setCommandSpecificData opts dat p =
     (if length dat > Mvu_MaximumPayloadBufferLength opts then None
      else Some (setAecpSpecificDataLength (VuAecpdu_HeaderLength + MvuAecpdu_HeaderLength + length dat)
                   (p\<lparr>m_mvuCommandSpecificData := dat\<rparr>)))"

definition Mvu_payloadLength :: "build_options \<Rightarrow> 'a mvu_aecpdu_scheme \<Rightarrow> nat" where
  "Mvu_payloadLength opts p =
     (let payloadLength = length (m_mvuCommandSpecificData p) in
      if payloadLength > Mvu_MaximumSendPayloadBufferLength opts
      then min payloadLength (Mvu_MaximumSendPayloadBufferLength opts)
      else payloadLength)"

definition MvuAecpdu_serialize ::
  "build_options \<Rightarrow> 'a mvu_aecpdu_scheme \<Rightarrow> serializer \<Rightarrow> serializer option"
where
  "MvuAecpdu_serialize opts p s = do {
     s \<leftarrow> VuAecpdu_serialize p s;
     pack [u16 (pack_u_ct (m_mvuUnsolicited p) (m_mvuCommandType p)),
           take (Mvu_payloadLength opts p) (m_mvuCommandSpecificData p)] s
   }"

definition MvuAecpdu_deserialize ::
  "build_options \<Rightarrow> 'a mvu_aecpdu_scheme \<Rightarrow> deserializer \<Rightarrow> ('a mvu_aecpdu_scheme \<times> deserializer) option"
where
  "MvuAecpdu_deserialize opts p d = do {
     (p, d) \<leftarrow> VuAecpdu_deserialize p d;
     if remaining d < MvuAecpdu_HeaderLength then None
     else do {
       (u_ct, d) \<leftarrow> get16 d;
       len \<leftarrow> specific_length opts
                (MvuAecpdu_HeaderLength + VuAecpdu_HeaderLength + Aecpdu_HeaderLength)
                (Mvu_MaximumRecvPayloadBufferLength opts) (m_controlDataLength p) (remaining d);
       (dat, d) \<leftarrow> unpackBuffer len d;
       Some (p\<lparr>m_mvuUnsolicited := unpack_u u_ct, m_mvuCommandType := unpack_ct u_ct,
               m_mvuCommandSpecificData := dat\<rparr>, d)
     }
   }"

definition MvuAecpdu_responseCopy :: "'a mvu_aecpdu_scheme \<Rightarrow> 'a mvu_aecpdu_scheme option" where
  "MvuAecpdu_responseCopy p =
     (if m_controlData p \<noteq> AecpMessageType_VendorUniqueCommand then None
      else Some (p\<lparr>m_controlData := AecpMessageType_VendorUniqueResponse\<rparr>))"

section \<open>Frames\<close>

text \<open>
  The whole frame, as the transport's \<^verbatim>\<open>sendMessage(Aecpdu)\<close> builds it, and the reception of the
  bytes that follow the Ethernet header (\<^verbatim>\<open>deserializeAecpMessage\<close>).
\<close>

definition AemAecpdu_frame :: "build_options \<Rightarrow> 'a aem_aecpdu_scheme \<Rightarrow> byte list option" where
  "AemAecpdu_frame opts p = do {
     s \<leftarrow> EtherLayer2_serialize p (serializer_new EthernetMaxFrameSize);
     s \<leftarrow> AvtpduControl_serialize p s;
     s \<leftarrow> AemAecpdu_serialize opts p s;
     Some (buffer s)
   }"

definition MvuAecpdu_frame :: "build_options \<Rightarrow> 'a mvu_aecpdu_scheme \<Rightarrow> byte list option" where
  "MvuAecpdu_frame opts p = do {
     s \<leftarrow> EtherLayer2_serialize p (serializer_new EthernetMaxFrameSize);
     s \<leftarrow> AvtpduControl_serialize p s;
     s \<leftarrow> MvuAecpdu_serialize opts p s;
     Some (buffer s)
   }"

definition AemAecpdu_receive ::
  "build_options \<Rightarrow> 'a ether_layer2_scheme \<Rightarrow> bool \<Rightarrow> byte list \<Rightarrow> aem_aecpdu option"
where
  "AemAecpdu_receive opts ether isResponse pkt_data = do {
     let p = (AemAecpdu_new isResponse)\<lparr>m_srcAddress := m_srcAddress ether, m_destAddress := m_destAddress ether\<rparr>;
     (p, d) \<leftarrow> AvtpduControl_deserialize p (deser_new pkt_data);
     (p, d) \<leftarrow> AemAecpdu_deserialize opts p d;
     Some p
   }"

definition MvuAecpdu_receive ::
  "build_options \<Rightarrow> 'a ether_layer2_scheme \<Rightarrow> bool \<Rightarrow> byte list \<Rightarrow> mvu_aecpdu option"
where
  "MvuAecpdu_receive opts ether isResponse pkt_data = do {
     let p = (MvuAecpdu_new isResponse)\<lparr>m_srcAddress := m_srcAddress ether, m_destAddress := m_destAddress ether\<rparr>;
     (p, d) \<leftarrow> AvtpduControl_deserialize p (deser_new pkt_data);
     (p, d) \<leftarrow> MvuAecpdu_deserialize opts p d;
     Some p
   }"

section \<open>Lemmas\<close>

lemmas aecp_lengths =
  Aecpdu_HeaderLength_def AemAecpdu_HeaderLength_def VuAecpdu_HeaderLength_def MvuAecpdu_HeaderLength_def
  MaximumLength_1722_1_def MaximumLength_BigPayloads_def MaximumSendLength_def MaximumRecvLength_def
  Aem_MaximumPayloadBufferLength_def Aem_MaximumSendPayloadBufferLength_def
  Aem_MaximumRecvPayloadBufferLength_def Mvu_MaximumPayloadBufferLength_def
  Mvu_MaximumSendPayloadBufferLength_def Mvu_MaximumRecvPayloadBufferLength_def
  EthernetMaxFrameSize_def EtherLayer2_HeaderLength_def AvtpduControl_HeaderLength_def

lemma unpack_pack_u_ct [simp]:
  "unpack_u (pack_u_ct u ct) = u"
  "unpack_ct (pack_u_ct u ct) = ct AND 0x7fff"
  by (simp_all add: unpack_u_def unpack_ct_def pack_u_ct_def narrow_bits)

lemma ProtocolIdentifier_array_be: "ProtocolIdentifier_array x = be_bytes 6 x"
proof -
  have mask8: "(0xFF :: 64 word) = mask 8"
    by (simp add: mask_eq_exp_minus_1)
  have byte: "(ucast (drop_bit k x AND 0xFF) :: byte) = ucast (drop_bit k x)" for k
    unfolding mask8 by (auto intro!: bit_word_eqI simp: bit_simps)
  show ?thesis
    by (simp add: ProtocolIdentifier_array_def byte be_bytes_def eval_nat_numeral upt_rec)
qed

lemma ProtocolIdentifier_of_array_be: "ProtocolIdentifier_of_array bs = be_word bs"
  by (induction bs rule: rev_induct) (auto simp: ProtocolIdentifier_of_array_def be_word_def or.commute)

lemma ProtocolIdentifier_roundtrip:
  "ProtocolIdentifier_of_array (ProtocolIdentifier_array (ProtocolIdentifier_setValue x)) =
     ProtocolIdentifier_setValue x"
proof -
  have low: "ProtocolIdentifier_setValue x = take_bit 48 x"
    by (simp add: ProtocolIdentifier_setValue_def take_bit_eq_mask mask_eq_exp_minus_1)
  show ?thesis
    by (simp add: ProtocolIdentifier_of_array_be ProtocolIdentifier_array_be be_word_def be_bytes_def
        le_word_le_bytes low)
qed

lemma length_ProtocolIdentifier_array [simp]: "length (ProtocolIdentifier_array x) = 6"
  by (simp add: ProtocolIdentifier_array_def)

definition aecp_bytes :: "'a aecpdu_scheme \<Rightarrow> byte list" where
  "aecp_bytes p = u64 (m_controllerEntityID p) @ u16 (m_sequenceID p)"

definition aem_bytes :: "build_options \<Rightarrow> 'a aem_aecpdu_scheme \<Rightarrow> byte list" where
  "aem_bytes opts p =
     aecp_bytes p @ u16 (pack_u_ct (m_unsolicited p) (m_commandType p)) @
     take (Aem_payloadLength opts p) (m_commandSpecificData p)"

definition vu_bytes :: "'a vu_aecpdu_scheme \<Rightarrow> byte list" where
  "vu_bytes p = aecp_bytes p @ ProtocolIdentifier_array (m_protocolIdentifier p)"

definition mvu_bytes :: "build_options \<Rightarrow> 'a mvu_aecpdu_scheme \<Rightarrow> byte list" where
  "mvu_bytes opts p =
     vu_bytes p @ u16 (pack_u_ct (m_mvuUnsolicited p) (m_mvuCommandType p)) @
     take (Mvu_payloadLength opts p) (m_mvuCommandSpecificData p)"

lemma length_aecp_bytes [simp]: "length (aecp_bytes p) = 10"
  by (simp add: aecp_bytes_def)

lemma length_vu_bytes [simp]: "length (vu_bytes p) = 16"
  by (simp add: vu_bytes_def)

lemma Aem_payloadLength_le:
  "Aem_payloadLength opts p \<le> length (m_commandSpecificData p)"
  "Aem_payloadLength opts p \<le> Aem_MaximumSendPayloadBufferLength opts"
  by (auto simp: Aem_payloadLength_def Let_def)

lemma Mvu_payloadLength_le:
  "Mvu_payloadLength opts p \<le> length (m_mvuCommandSpecificData p)"
  "Mvu_payloadLength opts p \<le> Mvu_MaximumSendPayloadBufferLength opts"
  by (auto simp: Mvu_payloadLength_def Let_def)

lemma length_aem_bytes [simp]: "length (aem_bytes opts p) = 12 + Aem_payloadLength opts p"
  using Aem_payloadLength_le(1) [of opts p] by (simp add: aem_bytes_def)

lemma length_mvu_bytes [simp]: "length (mvu_bytes opts p) = 18 + Mvu_payloadLength opts p"
  using Mvu_payloadLength_le(1) [of opts p] by (simp add: mvu_bytes_def)

lemma Aecpdu_serialize_eq:
  "length (buffer s) + 10 \<le> capacity s \<Longrightarrow>
     Aecpdu_serialize p s = Some (s\<lparr>buffer := buffer s @ aecp_bytes p\<rparr>)"
  by (simp add: Aecpdu_serialize_def pack_eq aecp_bytes_def)

text \<open>No message the library builds overflows the frame.\<close>

lemma AemAecpdu_frame_eq:
  "AemAecpdu_frame opts p = Some (ether_bytes p @ control_bytes p @ aem_bytes opts p)"
proof -
  have fits: "Aem_payloadLength opts p \<le> 1484"
    using Aem_payloadLength_le(2) [of opts p] by (auto simp: aecp_lengths split: if_splits)
  show ?thesis
    using fits Aem_payloadLength_le(1) [of opts p]
    by (simp add: AemAecpdu_frame_def EtherLayer2_serialize_eq AvtpduControl_serialize_eq
        AemAecpdu_serialize_def Aecpdu_serialize_eq pack_eq EthernetMaxFrameSize_def aem_bytes_def)
qed

lemma MvuAecpdu_frame_eq:
  "MvuAecpdu_frame opts p = Some (ether_bytes p @ control_bytes p @ mvu_bytes opts p)"
proof -
  have fits: "Mvu_payloadLength opts p \<le> 1478"
    using Mvu_payloadLength_le(2) [of opts p] by (auto simp: aecp_lengths split: if_splits)
  show ?thesis
    using fits Mvu_payloadLength_le(1) [of opts p]
    by (simp add: MvuAecpdu_frame_def EtherLayer2_serialize_eq AvtpduControl_serialize_eq
        MvuAecpdu_serialize_def VuAecpdu_serialize_def Aecpdu_serialize_eq pack_eq
        EthernetMaxFrameSize_def mvu_bytes_def vu_bytes_def)
qed

lemma specific_length_exact:
  "unat cdl = m + n \<Longrightarrow> n \<le> rem \<Longrightarrow> n \<le> maxRecv \<Longrightarrow> specific_length opts m maxRecv cdl rem = Some n"
  by (simp add: specific_length_def)

lemma specific_length_le:
  "opt_ignore_cdl opts \<Longrightarrow>
     \<exists>n. specific_length opts m maxRecv cdl rem = Some n \<and> n \<le> rem \<and> n \<le> maxRecv"
  by (auto simp: specific_length_def Let_def)

lemma Aecpdu_deserialize_bytes [simp]:
  "Aecpdu_deserialize q (Deser u (aecp_bytes p @ r)) =
     Some (q\<lparr>m_controllerEntityID := m_controllerEntityID p, m_sequenceID := m_sequenceID p\<rparr>,
           Deser (u @ aecp_bytes p) r)"
  by (simp add: Aecpdu_deserialize_def aecp_bytes_def Aecpdu_HeaderLength_def)

lemma AemAecpdu_deserialize_bytes:
  assumes "specific_length opts 12 (Aem_MaximumRecvPayloadBufferLength opts) (m_controlDataLength q)
             (Aem_payloadLength opts p + length r) = Some n"
    and "n \<le> Aem_payloadLength opts p + length r"
  shows "AemAecpdu_deserialize opts q (Deser u (aem_bytes opts p @ r)) =
    Some (q\<lparr>m_controllerEntityID := m_controllerEntityID p, m_sequenceID := m_sequenceID p,
            m_unsolicited := m_unsolicited p, m_commandType := m_commandType p AND 0x7fff,
            m_commandSpecificData := take n (take (Aem_payloadLength opts p) (m_commandSpecificData p) @ r)\<rparr>,
          adv (12 + n) (Deser u (aem_bytes opts p @ r)))"
  using assms Aem_payloadLength_le(1) [of opts p]
  by (simp add: AemAecpdu_deserialize_def aem_bytes_def AemAecpdu_HeaderLength_def
      Aecpdu_HeaderLength_def unpackBuffer_def adv_def add.commute)

lemma ProtocolIdentifier_of_array_array:
  "ProtocolIdentifier_of_array (ProtocolIdentifier_array x) = x AND 0x00FFFFFFFFFFFF"
proof -
  have "x AND 0x00FFFFFFFFFFFF = take_bit 48 x"
    by (simp add: take_bit_eq_mask mask_eq_exp_minus_1)
  then show ?thesis
    by (simp add: ProtocolIdentifier_of_array_be ProtocolIdentifier_array_be be_word_def be_bytes_def
        le_word_le_bytes)
qed

lemma MvuAecpdu_deserialize_bytes:
  assumes "specific_length opts 18 (Mvu_MaximumRecvPayloadBufferLength opts) (m_controlDataLength q)
             (Mvu_payloadLength opts p + length r) = Some n"
    and "n \<le> Mvu_payloadLength opts p + length r"
  shows "MvuAecpdu_deserialize opts q (Deser u (mvu_bytes opts p @ r)) =
    Some (q\<lparr>m_controllerEntityID := m_controllerEntityID p, m_sequenceID := m_sequenceID p,
            m_protocolIdentifier := m_protocolIdentifier p AND 0x00FFFFFFFFFFFF,
            m_mvuUnsolicited := m_mvuUnsolicited p, m_mvuCommandType := m_mvuCommandType p AND 0x7fff,
            m_mvuCommandSpecificData :=
              take n (take (Mvu_payloadLength opts p) (m_mvuCommandSpecificData p) @ r)\<rparr>,
          adv (18 + n) (Deser u (mvu_bytes opts p @ r)))"
  using assms Mvu_payloadLength_le(1) [of opts p]
  by (simp add: MvuAecpdu_deserialize_def VuAecpdu_deserialize_def mvu_bytes_def vu_bytes_def
      MvuAecpdu_HeaderLength_def VuAecpdu_HeaderLength_def Aecpdu_HeaderLength_def
      ProtocolIdentifier_of_array_array unpackBuffer_def [of n] adv_def add.commute)

section \<open>Properties\<close>

lemma unat_cdl: "n < 65536 \<Longrightarrow> unat (of_nat n :: 16 word) = n"
  by (simp add: unsigned_of_nat take_bit_nat_eq_self)

lemma aem_roundtrip_frame:
  fixes p :: aem_aecpdu
  assumes set: "Aem_setCommandSpecificData opts dat p0 = Some p"
    and send: "length dat \<le> Aem_MaximumSendPayloadBufferLength opts"
    and recv: "length dat \<le> Aem_MaximumRecvPayloadBufferLength opts"
    and fits: "control_fits p" "m_commandType p AND 0x7fff = m_commandType p" "m_etherType p = AvtpEtherType"
  shows "\<exists>frame. AemAecpdu_frame opts p = Some frame \<and> length frame = 38 + length dat
    \<and> AemAecpdu_receive opts p isResponse (drop EtherLayer2_HeaderLength frame @ pad) = Some p"
proof -
  from set have p: "m_commandSpecificData p = dat" "m_controlDataLength p = of_nat (12 + length dat)"
    by (auto simp: Aem_setCommandSpecificData_def setAecpSpecificDataLength_def Aecpdu_HeaderLength_def
        AemAecpdu_HeaderLength_def split: if_splits)
  have small: "length dat \<le> 1484"
    using send by (auto simp: aecp_lengths split: if_splits)
  have len: "Aem_payloadLength opts p = length dat"
    using send by (simp add: Aem_payloadLength_def p)
  have cdl: "specific_length opts 12 (Aem_MaximumRecvPayloadBufferLength opts) (m_controlDataLength p)
      (length dat + length pad) = Some (length dat)"
    using small recv unat_cdl [of "12 + length dat"] by (intro specific_length_exact) (auto simp: p)
  show ?thesis
    using fits cdl len p
    by (cases p) (auto simp: AemAecpdu_frame_eq AemAecpdu_receive_def EtherLayer2_HeaderLength_def
        AemAecpdu_deserialize_bytes AemAecpdu_new_def Aecpdu_new_def aecpdu.extend_def
        setAecpSpecificDataLength_def control_fits_def)
qed

text \<open>
  C28.  A payload given to \<^verbatim>\<open>setCommandSpecificData\<close> that both the send and the receive limit
  allow crosses the wire unchanged: the frame is accepted, its length is exact, and the receiver
  rebuilds the same AEM message (flag, command type, payload and header), trailing padding ignored.
\<close>

theorem aem_roundtrip:
  fixes p :: aem_aecpdu
  assumes set: "Aem_setCommandSpecificData opts dat p0 = Some p"
    and send: "length dat \<le> Aem_MaximumSendPayloadBufferLength opts"
    and recv: "length dat \<le> Aem_MaximumRecvPayloadBufferLength opts"
    and fits: "control_fits p" "m_commandType p AND 0x7fff = m_commandType p" "m_etherType p = AvtpEtherType"
  shows "\<exists>frame. AemAecpdu_frame opts p = Some frame \<and> length frame = 38 + length dat
    \<and> AemAecpdu_receive opts p isResponse (drop EtherLayer2_HeaderLength frame @ pad) = Some p"
  by (rule aem_roundtrip_frame) fact+

definition aem_sample :: aem_aecpdu where
  "aem_sample = (AemAecpdu_new False)\<lparr>m_srcAddress := 0x001b92000001, m_destAddress := 0x001b92000002,
     m_streamID := 0x001b92fffe000002, m_controllerEntityID := 0x001b92fffe000001, m_sequenceID := 9,
     m_commandType := 4, m_commandSpecificData := [0, 0, 0, 1, 0, 5, 0, 2], m_controlDataLength := 20\<rparr>"

theorem aem_roundtrip_witness:
  "\<exists>frame. AemAecpdu_frame default_build aem_sample = Some frame \<and> length frame = 46
    \<and> AemAecpdu_receive default_build aem_sample False (drop EtherLayer2_HeaderLength frame @ [0]) =
        Some aem_sample"
  using aem_roundtrip [of default_build "[0, 0, 0, 1, 0, 5, 0, 2]" aem_sample aem_sample False "[0]"]
  by (simp add: aem_sample_def AemAecpdu_new_def Aecpdu_new_def aecpdu.extend_def
      setAecpSpecificDataLength_def control_fits_def Aem_setCommandSpecificData_def aecp_lengths
      default_build_def AvtpSubType_Aecp_def AvtpVersion_def AecpMessageType_AemCommand_def)

text \<open>
  C29.  A payload between the send limit and the buffer size is accepted by
  \<^verbatim>\<open>setCommandSpecificData\<close> but cut when the message is sent, while the header goes on announcing
  its full length; a receiver that ignores invalid lengths takes the cut payload for the message.
\<close>

theorem aem_big_payload_truncated:
  fixes p :: aem_aecpdu
  assumes set: "Aem_setCommandSpecificData opts dat p0 = Some p"
    and big: "Aem_MaximumSendPayloadBufferLength opts < length dat"
    and build: "opt_ignore_cdl opts" "opt_recv_big opts"
    and fits: "control_fits p" "m_commandType p AND 0x7fff = m_commandType p" "m_etherType p = AvtpEtherType"
  shows "unat (m_controlDataLength p) = 12 + length dat
    \<and> (\<exists>frame. AemAecpdu_frame opts p = Some frame
        \<and> AemAecpdu_receive opts p isResponse (drop EtherLayer2_HeaderLength frame) =
            Some (p\<lparr>m_commandSpecificData := take (Aem_MaximumSendPayloadBufferLength opts) dat\<rparr>))"
proof -
  from set have p: "m_commandSpecificData p = dat" "m_controlDataLength p = of_nat (12 + length dat)"
    and buf: "length dat \<le> Aem_MaximumPayloadBufferLength opts"
    by (auto simp: Aem_setCommandSpecificData_def setAecpSpecificDataLength_def Aecpdu_HeaderLength_def
        AemAecpdu_HeaderLength_def split: if_splits)
  let ?m = "Aem_MaximumSendPayloadBufferLength opts"
  have small: "length dat \<le> 1484" "?m \<le> Aem_MaximumRecvPayloadBufferLength opts"
    using buf build by (auto simp: aecp_lengths split: if_splits)
  have len: "Aem_payloadLength opts p = ?m"
    using big by (simp add: Aem_payloadLength_def p)
  have cdl: "unat (m_controlDataLength p) = 12 + length dat"
    using small unat_cdl [of "12 + length dat"] by (simp add: p)
  then have "specific_length opts 12 (Aem_MaximumRecvPayloadBufferLength opts) (m_controlDataLength p) ?m
      = Some ?m"
    using big small build by (simp add: specific_length_def Let_def)
  then show ?thesis
    using fits cdl len p
    by (cases p) (auto simp: AemAecpdu_frame_eq AemAecpdu_receive_def EtherLayer2_HeaderLength_def
        AemAecpdu_deserialize_bytes [where r = "[]", simplified] AemAecpdu_new_def Aecpdu_new_def
        aecpdu.extend_def setAecpSpecificDataLength_def control_fits_def)
qed

definition aem_big_sample :: aem_aecpdu where
  "aem_big_sample = aem_sample\<lparr>m_commandSpecificData := replicate 600 7, m_controlDataLength := 612\<rparr>"

theorem aem_big_payload_truncated_witness:
  "\<exists>frame. AemAecpdu_frame default_build aem_big_sample = Some frame
    \<and> AemAecpdu_receive default_build aem_big_sample False (drop EtherLayer2_HeaderLength frame) =
        Some (aem_big_sample\<lparr>m_commandSpecificData := replicate 512 7\<rparr>)"
  using aem_big_payload_truncated [of default_build "replicate 600 7" aem_big_sample aem_big_sample False]
  by (simp add: aem_big_sample_def aem_sample_def AemAecpdu_new_def Aecpdu_new_def aecpdu.extend_def
      setAecpSpecificDataLength_def control_fits_def Aem_setCommandSpecificData_def aecp_lengths
      default_build_def AvtpSubType_Aecp_def AvtpVersion_def AecpMessageType_AemCommand_def)

text \<open>
  The same for the Milan vendor unique messages: a payload both limits allow is received
  unchanged, with the Milan protocol identifier it was sent with.
\<close>

lemma mvu_roundtrip:
  fixes p :: mvu_aecpdu
  assumes set: "Mvu_setCommandSpecificData opts dat p0 = Some p"
    and send: "length dat \<le> Mvu_MaximumSendPayloadBufferLength opts"
    and recv: "length dat \<le> Mvu_MaximumRecvPayloadBufferLength opts"
    and fits: "control_fits p" "m_mvuCommandType p AND 0x7fff = m_mvuCommandType p"
      "m_etherType p = AvtpEtherType" "m_protocolIdentifier p = MvuAecpdu_ProtocolID"
  shows "\<exists>frame. MvuAecpdu_frame opts p = Some frame \<and> length frame = 44 + length dat
    \<and> MvuAecpdu_receive opts p isResponse (drop EtherLayer2_HeaderLength frame @ pad) = Some p"
proof -
  from set have p: "m_mvuCommandSpecificData p = dat" "m_controlDataLength p = of_nat (18 + length dat)"
    by (auto simp: Mvu_setCommandSpecificData_def setAecpSpecificDataLength_def Aecpdu_HeaderLength_def
        MvuAecpdu_HeaderLength_def VuAecpdu_HeaderLength_def split: if_splits)
  have small: "length dat \<le> 1478"
    using send by (auto simp: aecp_lengths split: if_splits)
  have len: "Mvu_payloadLength opts p = length dat"
    using send by (simp add: Mvu_payloadLength_def p)
  have cdl: "specific_length opts 18 (Mvu_MaximumRecvPayloadBufferLength opts) (m_controlDataLength p)
      (length dat + length pad) = Some (length dat)"
    using small recv unat_cdl [of "18 + length dat"] by (intro specific_length_exact) (auto simp: p)
  have ident: "MvuAecpdu_ProtocolID AND 0xFFFFFFFFFFFF = MvuAecpdu_ProtocolID"
    by (simp add: MvuAecpdu_ProtocolID_def ProtocolIdentifier_setValue_def and.assoc)
  show ?thesis
    using fits cdl len p ident
    by (cases p) (auto simp: MvuAecpdu_frame_eq MvuAecpdu_receive_def EtherLayer2_HeaderLength_def
        MvuAecpdu_deserialize_bytes MvuAecpdu_new_def Aecpdu_new_def aecpdu.extend_def
        vu_aecpdu.extend_def setAecpSpecificDataLength_def control_fits_def)
qed

definition mvu_sample :: mvu_aecpdu where
  "mvu_sample = (MvuAecpdu_new False)\<lparr>m_srcAddress := 0x001b92000001, m_destAddress := 0x001b92000002,
     m_streamID := 0x001b92fffe000002, m_controllerEntityID := 0x001b92fffe000001, m_sequenceID := 9,
     m_mvuCommandType := 0, m_mvuCommandSpecificData := [0, 0], m_controlDataLength := 20\<rparr>"

theorem mvu_roundtrip_witness:
  "\<exists>frame. MvuAecpdu_frame default_build mvu_sample = Some frame \<and> length frame = 46
    \<and> MvuAecpdu_receive default_build mvu_sample False (drop EtherLayer2_HeaderLength frame @ [0]) =
        Some mvu_sample"
  using mvu_roundtrip [of default_build "[0, 0]" mvu_sample mvu_sample False "[0]"]
  by (simp add: mvu_sample_def MvuAecpdu_new_def Aecpdu_new_def aecpdu.extend_def vu_aecpdu.extend_def
      setAecpSpecificDataLength_def control_fits_def Mvu_setCommandSpecificData_def aecp_lengths
      default_build_def AvtpSubType_Aecp_def AvtpVersion_def AecpMessageType_VendorUniqueCommand_def)

end
