(* ===== verification/AaAecpdu.thy ===== *)
theory AaAecpdu
  imports Aecpdu
begin

text \<open>
  The address access message \<^verbatim>\<open>AaAecpdu\<close> (protocolAaAecpdu.hpp and .cpp) and its memory
  operations \<^verbatim>\<open>Tlv\<close> (entityAddressAccessTypes.hpp).
\<close>

record tlv =
  tlv_mode :: "8 word"
  tlv_address :: "64 word"
  tlv_memoryData :: "byte list"

definition Tlv_MaxLength :: nat where
  "Tlv_MaxLength = 4096"

text \<open>The constructor that allocates the memory data, and the one that copies it.\<close>

definition Tlv_alloc :: "8 word \<Rightarrow> 64 word \<Rightarrow> nat \<Rightarrow> tlv option" where
  "Tlv_alloc mode address len =
     (if len = 0 then None
      else if len > Tlv_MaxLength then None
      else Some \<lparr>tlv_mode = mode, tlv_address = address, tlv_memoryData = replicate len 0\<rparr>)"

definition Tlv_copy :: "64 word \<Rightarrow> 8 word \<Rightarrow> byte list \<Rightarrow> tlv option" where
  "Tlv_copy address mode memoryData =
     (if length memoryData = 0 then None
      else if length memoryData > Tlv_MaxLength then None
      else Some \<lparr>tlv_mode = mode, tlv_address = address, tlv_memoryData = memoryData\<rparr>)"

record aa_aecpdu = aecpdu +
  m_tlvData :: "tlv list"
  m_tlvDataLength :: nat

definition AaAecpdu_HeaderLength :: nat where "AaAecpdu_HeaderLength = 2"
definition TlvHeaderLength :: nat where "TlvHeaderLength = 10"

definition AaAecpdu_new :: "bool \<Rightarrow> aa_aecpdu" where
  "AaAecpdu_new isResponse =
     setAecpSpecificDataLength AaAecpdu_HeaderLength
       (aecpdu.extend
          (Aecpdu_new\<lparr>m_controlData :=
             if isResponse then AecpMessageType_AddressAccessResponse
             else AecpMessageType_AddressAccessCommand\<rparr>)
          \<lparr>m_tlvData = [], m_tlvDataLength = 0\<rparr>)"

definition addTlv :: "tlv \<Rightarrow> 'a aa_aecpdu_scheme \<Rightarrow> 'a aa_aecpdu_scheme" where
  "addTlv t p =
     (let newLength = m_tlvDataLength p + TlvHeaderLength + length (tlv_memoryData t) in
      setAecpSpecificDataLength (AaAecpdu_HeaderLength + newLength)
        (p\<lparr>m_tlvDataLength := newLength, m_tlvData := m_tlvData p @ [t]\<rparr>))"

definition pack_mode_length :: "8 word \<Rightarrow> nat \<Rightarrow> 16 word" where
  "pack_mode_length mode sz = (push_bit 12 (ucast mode) AND 0xf000) OR (of_nat sz AND 0x0fff)"

definition unpack_mode :: "16 word \<Rightarrow> 8 word" where
  "unpack_mode mode_length = ucast (drop_bit 12 (mode_length AND 0xf000))"

definition unpack_length :: "16 word \<Rightarrow> 16 word" where
  "unpack_length mode_length = mode_length AND 0x0fff"

definition tlv_chunks :: "tlv \<Rightarrow> byte list list" where
  "tlv_chunks t =
     [u16 (pack_mode_length (tlv_mode t) (length (tlv_memoryData t))), u64 (tlv_address t),
      tlv_memoryData t]"

definition AaAecpdu_serialize :: "'a aa_aecpdu_scheme \<Rightarrow> serializer \<Rightarrow> serializer option" where
  "AaAecpdu_serialize p s = do {
     s \<leftarrow> Aecpdu_serialize p s;
     s \<leftarrow> pack [u16 (of_nat (length (m_tlvData p)))] s;
     pack (concat (map tlv_chunks (m_tlvData p))) s
   }"

text \<open>One turn of the reception loop, and the loop over the announced number of operations.\<close>

definition read_tlv :: "deserializer \<Rightarrow> (tlv \<times> deserializer) option" where
  "read_tlv d = do {
     (mode_length, d) \<leftarrow> get16 d;
     (address, d) \<leftarrow> get64 d;
     let len = unat (unpack_length mode_length);
     t \<leftarrow> Tlv_alloc (unpack_mode mode_length) address len;
     (dat, d) \<leftarrow> unpackBuffer len d;
     Some (t\<lparr>tlv_memoryData := dat\<rparr>, d)
   }"

fun read_tlvs :: "nat \<Rightarrow> tlv list \<Rightarrow> nat \<Rightarrow> deserializer \<Rightarrow> (tlv list \<times> nat \<times> deserializer) option" where
  "read_tlvs 0 tlvs len d = Some (tlvs, len, d)"
| "read_tlvs (Suc i) tlvs len d = do {
     (t, d) \<leftarrow> read_tlv d;
     read_tlvs i (tlvs @ [t]) (len + TlvHeaderLength + length (tlv_memoryData t)) d
   }"

definition AaAecpdu_deserialize ::
  "build_options \<Rightarrow> 'a aa_aecpdu_scheme \<Rightarrow> deserializer \<Rightarrow> ('a aa_aecpdu_scheme \<times> deserializer) option"
where
  "AaAecpdu_deserialize opts p d = do {
     let beginRemainingBytes = remaining d;
     (p, d) \<leftarrow> Aecpdu_deserialize p d;
     if remaining d < AaAecpdu_HeaderLength then None
     else if unat (m_controlDataLength p) < AaAecpdu_HeaderLength + Aecpdu_HeaderLength
             \<and> \<not> opt_ignore_cdl opts then None
     else if unat (m_controlDataLength p) > beginRemainingBytes \<and> \<not> opt_ignore_cdl opts then None
     else do {
       (tlvCount, d) \<leftarrow> get16 d;
       (tlvs, len, d) \<leftarrow> read_tlvs (unat tlvCount) (m_tlvData p) (m_tlvDataLength p) d;
       Some (p\<lparr>m_tlvData := tlvs, m_tlvDataLength := len\<rparr>, d)
     }
   }"

definition AaAecpdu_responseCopy :: "'a aa_aecpdu_scheme \<Rightarrow> 'a aa_aecpdu_scheme option" where
  "AaAecpdu_responseCopy p =
     (if m_controlData p \<noteq> AecpMessageType_AddressAccessCommand then None
      else Some (p\<lparr>m_controlData := AecpMessageType_AddressAccessResponse\<rparr>))"

definition AaAecpdu_frame :: "'a aa_aecpdu_scheme \<Rightarrow> byte list option" where
  "AaAecpdu_frame p = do {
     s \<leftarrow> EtherLayer2_serialize p (serializer_new EthernetMaxFrameSize);
     s \<leftarrow> AvtpduControl_serialize p s;
     s \<leftarrow> AaAecpdu_serialize p s;
     Some (buffer s)
   }"

definition AaAecpdu_receive ::
  "build_options \<Rightarrow> 'a ether_layer2_scheme \<Rightarrow> bool \<Rightarrow> byte list \<Rightarrow> aa_aecpdu option"
where
  "AaAecpdu_receive opts ether isResponse pkt_data = do {
     let p = (AaAecpdu_new isResponse)\<lparr>m_srcAddress := m_srcAddress ether, m_destAddress := m_destAddress ether\<rparr>;
     (p, d) \<leftarrow> AvtpduControl_deserialize p (deser_new pkt_data);
     (p, d) \<leftarrow> AaAecpdu_deserialize opts p d;
     Some p
   }"

section \<open>Lemmas\<close>

text \<open>A memory operation the 4-bit mode and 12-bit length fields can carry.\<close>

definition tlv_fits :: "tlv \<Rightarrow> bool" where
  "tlv_fits t \<longleftrightarrow> tlv_mode t AND 0x0f = tlv_mode t \<and> tlv_memoryData t \<noteq> [] \<and> length (tlv_memoryData t) < 4096"

definition tlv_bytes :: "tlv \<Rightarrow> byte list" where
  "tlv_bytes t = concat (tlv_chunks t)"

definition tlvs_size :: "tlv list \<Rightarrow> nat" where
  "tlvs_size ts = (\<Sum>t\<leftarrow>ts. 10 + length (tlv_memoryData t))"

lemma length_tlv_bytes [simp]: "length (tlv_bytes t) = 10 + length (tlv_memoryData t)"
  by (simp add: tlv_bytes_def tlv_chunks_def)

lemma concat_tlv_chunks: "concat (concat (map tlv_chunks ts)) = concat (map tlv_bytes ts)"
  by (induction ts) (simp_all add: tlv_bytes_def)

lemma length_tlvs_bytes [simp]: "length (concat (map tlv_bytes ts)) = tlvs_size ts"
  by (induction ts) (simp_all add: tlvs_size_def)

lemma unpack_pack_mode_length:
  "unpack_mode (pack_mode_length mode sz) = mode AND 0x0f"
  "sz < 4096 \<Longrightarrow> unat (unpack_length (pack_mode_length mode sz)) = sz"
proof -
  show "unpack_mode (pack_mode_length mode sz) = mode AND 0x0f"
    by (simp add: unpack_mode_def pack_mode_length_def narrow_bits)
  have "unpack_length (pack_mode_length mode sz) = of_nat sz AND 0x0fff"
    by (simp add: unpack_length_def pack_mode_length_def narrow_bits)
  also have "\<dots> = take_bit 12 (of_nat sz)"
    by (simp add: take_bit_eq_mask mask_eq_exp_minus_1)
  finally show "unat (unpack_length (pack_mode_length mode sz)) = sz" if "sz < 4096"
    using that by (simp add: unsigned_take_bit_eq unsigned_of_nat take_bit_nat_eq_self)
qed

lemma read_tlv_bytes:
  assumes "tlv_fits t"
  shows "read_tlv (Deser u (tlv_bytes t @ r)) = Some (t, Deser (u @ tlv_bytes t) r)"
  using assms
  by (simp add: read_tlv_def tlv_fits_def tlv_bytes_def tlv_chunks_def unpack_pack_mode_length
      Tlv_alloc_def Tlv_MaxLength_def Let_def)

lemma read_tlvs_bytes:
  "\<forall>t\<in>set ts. tlv_fits t \<Longrightarrow>
     read_tlvs (length ts) acc len (Deser u (concat (map tlv_bytes ts) @ r)) =
       Some (acc @ ts, len + tlvs_size ts, Deser (u @ concat (map tlv_bytes ts)) r)"
  by (induction ts arbitrary: acc len u)
     (simp_all add: read_tlv_bytes tlvs_size_def TlvHeaderLength_def)

lemma AaAecpdu_frame_eq:
  "AaAecpdu_frame p =
     (if 38 + tlvs_size (m_tlvData p) \<le> 1522
      then Some (ether_bytes p @ control_bytes p @ aecp_bytes p @ u16 (of_nat (length (m_tlvData p)))
                 @ concat (map tlv_bytes (m_tlvData p)))
      else None)"
  by (simp add: AaAecpdu_frame_def EtherLayer2_serialize_eq AvtpduControl_serialize_eq
      AaAecpdu_serialize_def Aecpdu_serialize_eq pack_eq EthernetMaxFrameSize_def concat_tlv_chunks)

text \<open>The received operations are counted as the sender counted its own.\<close>

lemma read_tlvs_length:
  "read_tlvs n tlvs len d = Some (tlvs', len', d') \<Longrightarrow> len = tlvs_size tlvs \<Longrightarrow>
     len' = tlvs_size tlvs' \<and> length tlvs' = length tlvs + n"
proof (induction n arbitrary: tlvs len d)
  case (Suc n)
  then obtain t d1 where "read_tlv d = Some (t, d1)"
    and "read_tlvs n (tlvs @ [t]) (len + TlvHeaderLength + length (tlv_memoryData t)) d1
           = Some (tlvs', len', d')"
    by (auto simp: bind_eq_Some_iff)
  moreover have "tlvs_size (tlvs @ [t]) = tlvs_size tlvs + TlvHeaderLength + length (tlv_memoryData t)"
    by (simp add: tlvs_size_def TlvHeaderLength_def)
  ultimately show ?case using Suc.IH [of "tlvs @ [t]"] Suc.prems(2) by fastforce
qed simp

section \<open>Properties\<close>

lemma addTlvs:
  assumes "m_tlvData p = []" and "m_tlvDataLength p = 0"
    and "m_controlDataLength p = of_nat (Aecpdu_HeaderLength + AaAecpdu_HeaderLength)"
  shows "fold addTlv ts p = p\<lparr>m_tlvData := ts, m_tlvDataLength := tlvs_size ts,
    m_controlDataLength := of_nat (12 + tlvs_size ts)\<rparr>"
proof (induction ts rule: rev_induct)
  case Nil
  show ?case using assms
    by (simp add: tlvs_size_def Aecpdu_HeaderLength_def AaAecpdu_HeaderLength_def)
next
  case (snoc t ts)
  then show ?case
    by (simp add: addTlv_def tlvs_size_def setAecpSpecificDataLength_def Let_def
        Aecpdu_HeaderLength_def AaAecpdu_HeaderLength_def TlvHeaderLength_def algebra_simps)
qed

lemma tlvs_size_ge: "\<forall>t\<in>set ts. tlv_fits t \<Longrightarrow> length ts \<le> tlvs_size ts"
  by (induction ts) (auto simp: tlvs_size_def)

lemma aa_roundtrip_frame:
  fixes p0 p :: aa_aecpdu
  assumes new: "m_tlvData p0 = []" "m_tlvDataLength p0 = 0"
      "m_controlDataLength p0 = of_nat (Aecpdu_HeaderLength + AaAecpdu_HeaderLength)"
    and p: "p = fold addTlv ts p0"
    and fits: "\<forall>t\<in>set ts. tlv_fits t" "control_fits p0" "m_etherType p0 = AvtpEtherType"
  shows "(AaAecpdu_frame p \<noteq> None \<longleftrightarrow> 38 + tlvs_size ts \<le> EthernetMaxFrameSize)
    \<and> (\<forall>frame. AaAecpdu_frame p = Some frame \<longrightarrow>
         AaAecpdu_receive opts p isResponse (drop EtherLayer2_HeaderLength frame @ pad) = Some p)"
proof (intro conjI allI impI)
  have p': "p = p0\<lparr>m_tlvData := ts, m_tlvDataLength := tlvs_size ts,
      m_controlDataLength := of_nat (12 + tlvs_size ts)\<rparr>"
    using addTlvs [OF new] p by simp
  show "AaAecpdu_frame p \<noteq> None \<longleftrightarrow> 38 + tlvs_size ts \<le> EthernetMaxFrameSize"
    by (simp add: p' AaAecpdu_frame_eq EthernetMaxFrameSize_def)
  fix frame
  assume frame: "AaAecpdu_frame p = Some frame"
  then have small: "38 + tlvs_size ts \<le> 1522"
    by (simp add: p' AaAecpdu_frame_eq split: if_splits)
  have bits: "unat (of_nat (12 + tlvs_size ts) :: 16 word) = 12 + tlvs_size ts"
    "(of_nat (12 + tlvs_size ts) :: 16 word) AND 0x7ff = of_nat (12 + tlvs_size ts)"
    "unat (of_nat (length ts) :: 16 word) = length ts"
  proof -
    show len: "unat (of_nat (12 + tlvs_size ts) :: 16 word) = 12 + tlvs_size ts"
      using small by (intro unat_cdl) simp
    have "(of_nat (12 + tlvs_size ts) :: 16 word) AND 0x7ff = take_bit 11 (of_nat (12 + tlvs_size ts))"
      by (simp add: take_bit_eq_mask mask_eq_exp_minus_1)
    also have "\<dots> = of_nat (12 + tlvs_size ts)"
      using small by (simp add: take_bit_of_nat take_bit_nat_eq_self del: of_nat_add)
    finally show "(of_nat (12 + tlvs_size ts) :: 16 word) AND 0x7ff = of_nat (12 + tlvs_size ts)" .
    show "unat (of_nat (length ts) :: 16 word) = length ts"
      using small tlvs_size_ge [OF fits(1)] by (intro unat_cdl) simp
  qed
  have "frame = ether_bytes p @ control_bytes p @ aecp_bytes p @ u16 (of_nat (length ts)) @ concat (map tlv_bytes ts)"
    using frame by (simp add: p' AaAecpdu_frame_eq split: if_splits)
  then show "AaAecpdu_receive opts p isResponse (drop EtherLayer2_HeaderLength frame @ pad) = Some p"
    using bits fits new(1,2) small
    by (cases p0) (auto simp: p' AaAecpdu_receive_def EtherLayer2_HeaderLength_def
        AaAecpdu_deserialize_def AaAecpdu_HeaderLength_def Aecpdu_HeaderLength_def Let_def
        AaAecpdu_new_def Aecpdu_new_def aecpdu.extend_def setAecpSpecificDataLength_def
        control_fits_def read_tlvs_bytes)
qed

text \<open>
  C30.  An address access message built by adding memory operations one by one is sent exactly when
  it fits the Ethernet frame, and is then received with the same operations in the same order and
  with the header length the sender announced.
\<close>

theorem aa_roundtrip:
  fixes p0 p :: aa_aecpdu
  assumes "m_tlvData p0 = []" "m_tlvDataLength p0 = 0"
      "m_controlDataLength p0 = of_nat (Aecpdu_HeaderLength + AaAecpdu_HeaderLength)"
    and "p = fold addTlv ts p0"
    and "\<forall>t\<in>set ts. tlv_fits t" "control_fits p0" "m_etherType p0 = AvtpEtherType"
  shows "map_option (\<lambda>frame. AaAecpdu_receive opts p isResponse (drop EtherLayer2_HeaderLength frame @ pad))
           (AaAecpdu_frame p)
         = (if 38 + tlvs_size ts \<le> EthernetMaxFrameSize then Some (Some p) else None)"
  using aa_roundtrip_frame [OF assms, of opts isResponse pad] by (cases "AaAecpdu_frame p") auto

definition aa_base :: aa_aecpdu where
  "aa_base = (AaAecpdu_new False)\<lparr>m_srcAddress := 0x001b92000001, m_destAddress := 0x001b92000002,
     m_streamID := 0x001b92fffe000002, m_controllerEntityID := 0x001b92fffe000001, m_sequenceID := 9\<rparr>"

definition aa_ops :: "tlv list" where
  "aa_ops = [\<lparr>tlv_mode = 1, tlv_address = 0x100, tlv_memoryData = [1, 2, 3]\<rparr>,
             \<lparr>tlv_mode = 0, tlv_address = 0x200, tlv_memoryData = [0]\<rparr>]"

theorem aa_roundtrip_witness:
  "map_option (\<lambda>frame. AaAecpdu_receive default_build (fold addTlv aa_ops aa_base) False
       (drop EtherLayer2_HeaderLength frame @ [0])) (AaAecpdu_frame (fold addTlv aa_ops aa_base))
     = Some (Some (fold addTlv aa_ops aa_base))"
  using aa_roundtrip [of aa_base "fold addTlv aa_ops aa_base" aa_ops default_build False "[0]"]
  by (simp add: aa_base_def aa_ops_def AaAecpdu_new_def Aecpdu_new_def aecpdu.extend_def tlvs_size_def
      setAecpSpecificDataLength_def tlv_fits_def control_fits_def aecp_lengths AaAecpdu_HeaderLength_def
      AvtpSubType_Aecp_def AvtpVersion_def AecpMessageType_AddressAccessCommand_def EthernetMaxFrameSize_def
      del: fold_simps)

end
