(* ===== verification/World.thy ===== *)
theory World
  imports Entity Acmpdu AaAecpdu "HOL-Library.Multiset"
begin

text \<open>
  What the state machines see of the outside: the messages, the errors of
  \<^verbatim>\<open>ProtocolInterface::Error\<close>, the clocks, the random numbers and the transport.

  A world holds the readings each clock will give, one per call of \<^verbatim>\<open>steady_clock::now()\<close> and of
  \<^verbatim>\<open>system_clock::now()\<close>, the results of \<^verbatim>\<open>std::rand()\<close> and the result of each \<^verbatim>\<open>sendMessage\<close> of
  the transport, all unknown to the code, and the trace of what
  the state machines have done so far: messages given to the transport, result handlers and delegate
  methods called.  Times are nanoseconds.
\<close>

type_synonym time = nat
type_synonym handler = nat
type_synonym entity_id = "64 word"

definition ms :: "nat \<Rightarrow> time" where
  "ms n = n * 1000000"

datatype error =
    NoError
  | TransportError
  | Timeout
  | UnknownRemoteEntity
  | UnknownLocalEntity
  | InvalidEntityType
  | DuplicateLocalEntityID
  | InterfaceNotFound
  | InvalidParameters
  | InterfaceNotSupported
  | MessageNotSupported
  | ExecutorNotInitialized
  | InternalError

text \<open>An AECP message is of the class its message type selects.\<close>

datatype aecp_pdu = Aem aem_aecpdu | Aa aa_aecpdu | Vu vu_aecpdu | Mvu mvu_aecpdu

datatype pdu = PAdp adpdu | PAecp aecp_pdu | PAcmp acmpdu

primrec aecp_header :: "aecp_pdu \<Rightarrow> aecpdu" where
  "aecp_header (Aem p) = aecpdu.truncate p"
| "aecp_header (Aa p) = aecpdu.truncate p"
| "aecp_header (Vu p) = aecpdu.truncate p"
| "aecp_header (Mvu p) = aecpdu.truncate p"

primrec setAecpSequenceID :: "16 word \<Rightarrow> aecp_pdu \<Rightarrow> aecp_pdu" where
  "setAecpSequenceID s (Aem p) = Aem (p\<lparr>m_sequenceID := s\<rparr>)"
| "setAecpSequenceID s (Aa p) = Aa (p\<lparr>m_sequenceID := s\<rparr>)"
| "setAecpSequenceID s (Vu p) = Vu (p\<lparr>m_sequenceID := s\<rparr>)"
| "setAecpSequenceID s (Mvu p) = Mvu (p\<lparr>m_sequenceID := s\<rparr>)"

definition setAcmpSequenceID :: "16 word \<Rightarrow> acmpdu \<Rightarrow> acmpdu" where
  "setAcmpSequenceID s p = p\<lparr>m_acmpSequenceID := s\<rparr>"

definition aecp_messageType :: "aecp_pdu \<Rightarrow> 8 word" where
  "aecp_messageType p = m_controlData (aecp_header p)"

definition aecp_targetEntityID :: "aecp_pdu \<Rightarrow> entity_id" where
  "aecp_targetEntityID p = m_streamID (aecp_header p)"

definition aecp_controllerEntityID :: "aecp_pdu \<Rightarrow> entity_id" where
  "aecp_controllerEntityID p = m_controllerEntityID (aecp_header p)"

definition aecp_sequenceID :: "aecp_pdu \<Rightarrow> 16 word" where
  "aecp_sequenceID p = m_sequenceID (aecp_header p)"

text \<open>The protocol identifier of a vendor unique message (\<^verbatim>\<open>static_cast<VuAecpdu const&>\<close>).\<close>

fun vu_protocolIdentifier :: "aecp_pdu \<Rightarrow> 64 word" where
  "vu_protocolIdentifier (Vu p) = m_protocolIdentifier p"
| "vu_protocolIdentifier (Mvu p) = m_protocolIdentifier p"
| "vu_protocolIdentifier p = 0"

datatype event =
    Sent pdu error
  | Handled handler "pdu option" error
  | OnAecpRetry entity_id
  | OnAecpTimeout entity_id
  | OnAecpUnexpectedResponse entity_id
  | OnAecpResponseTime entity_id time
  | OnAemUnsolicitedResponse aecp_pdu
  | OnAemIdentifyNotification aecp_pdu
  | OnVuUnsolicitedResponse "64 word" aecp_pdu
  | OnLocalEntityOnline entity
  | OnLocalEntityOffline entity_id
  | OnRemoteEntityOnline entity
  | OnRemoteEntityOffline entity_id
  | OnRemoteEntityUpdated entity
  | OnAecpCommand aecp_pdu
  | OnAcmpCommand acmpdu
  | OnAcmpResponse acmpdu
  | OnAdpduReceived adpdu
  | OnAecpduReceived aecp_pdu
  | OnAcmpduReceived acmpdu
  | OnVuAecpCommand "64 word" aecp_pdu
  | OnVuAecpResponse "64 word" aecp_pdu

record world =
  w_clock :: "nat \<Rightarrow> time"
  w_reads :: nat
  w_systemClock :: "nat \<Rightarrow> time"
  w_systemReads :: nat
  w_random :: "nat \<Rightarrow> nat"
  w_randomReads :: nat
  w_transport :: "nat \<Rightarrow> error"
  w_sends :: nat
  w_trace :: "event list"

definition now :: "world \<Rightarrow> time \<times> world" where
  "now w = (w_clock w (w_reads w), w\<lparr>w_reads := Suc (w_reads w)\<rparr>)"

definition system_now :: "world \<Rightarrow> time \<times> world" where
  "system_now w = (w_systemClock w (w_systemReads w), w\<lparr>w_systemReads := Suc (w_systemReads w)\<rparr>)"

definition rand :: "world \<Rightarrow> nat \<times> world" where
  "rand w = (w_random w (w_randomReads w), w\<lparr>w_randomReads := Suc (w_randomReads w)\<rparr>)"

definition emit :: "event list \<Rightarrow> world \<Rightarrow> world" where
  "emit evs w = w\<lparr>w_trace := w_trace w @ evs\<rparr>"

definition sendMessage :: "pdu \<Rightarrow> world \<Rightarrow> error \<times> world" where
  "sendMessage p w =
     (let e = w_transport w (w_sends w)
      in (e, emit [Sent p e] (w\<lparr>w_sends := Suc (w_sends w)\<rparr>)))"

lemma aecp_sequenceID_set [simp]: "aecp_sequenceID (setAecpSequenceID s p) = s"
  by (cases p) (simp_all add: aecp_sequenceID_def aecpdu.truncate_def)

lemma aecp_target_set [simp]:
  "aecp_targetEntityID (setAecpSequenceID s p) = aecp_targetEntityID p"
  "aecp_controllerEntityID (setAecpSequenceID s p) = aecp_controllerEntityID p"
  "aecp_messageType (setAecpSequenceID s p) = aecp_messageType p"
  "m_destAddress (aecp_header (setAecpSequenceID s p)) = m_destAddress (aecp_header p)"
  by (cases p; simp add: aecp_targetEntityID_def aecp_controllerEntityID_def aecp_messageType_def
      aecpdu.truncate_def)+

lemma now_simps [simp]:
  "fst (now w) = w_clock w (w_reads w)"
  "w_trace (snd (now w)) = w_trace w"
  "w_clock (snd (now w)) = w_clock w"
  "w_reads (snd (now w)) = Suc (w_reads w)"
  "w_transport (snd (now w)) = w_transport w"
  "w_sends (snd (now w)) = w_sends w"
  by (simp_all add: now_def)

lemma emit_simps [simp]:
  "w_trace (emit evs w) = w_trace w @ evs"
  "w_clock (emit evs w) = w_clock w"
  "w_reads (emit evs w) = w_reads w"
  "w_transport (emit evs w) = w_transport w"
  "w_sends (emit evs w) = w_sends w"
  by (simp_all add: emit_def)

lemma sendMessage_simps [simp]:
  "fst (sendMessage p w) = w_transport w (w_sends w)"
  "w_trace (snd (sendMessage p w)) = w_trace w @ [Sent p (w_transport w (w_sends w))]"
  "w_clock (snd (sendMessage p w)) = w_clock w"
  "w_reads (snd (sendMessage p w)) = w_reads w"
  "w_transport (snd (sendMessage p w)) = w_transport w"
  "w_sends (snd (sendMessage p w)) = Suc (w_sends w)"
  by (simp_all add: sendMessage_def Let_def)

section \<open>Readings of a trace\<close>

text \<open>The handlers a trace has called, and how many of its messages satisfy a predicate.\<close>

definition handled_by :: "event list \<Rightarrow> handler multiset" where
  "handled_by evs = (\<Sum>ev\<leftarrow>evs. case ev of Handled h r e \<Rightarrow> {#h#} | _ \<Rightarrow> {#})"

definition sent_count :: "(pdu \<Rightarrow> bool) \<Rightarrow> event list \<Rightarrow> nat" where
  "sent_count P evs = (\<Sum>ev\<leftarrow>evs. case ev of Sent p e \<Rightarrow> of_bool (P p) | _ \<Rightarrow> 0)"

lemma handled_by_simps [simp]:
  "handled_by [] = {#}"
  "handled_by (xs @ ys) = handled_by xs + handled_by ys"
  "handled_by (Handled h r e # xs) = {#h#} + handled_by xs"
  "handled_by (Sent p e # xs) = handled_by xs"
  "handled_by (OnAecpRetry i # xs) = handled_by xs"
  "handled_by (OnAecpTimeout i # xs) = handled_by xs"
  "handled_by (OnAecpUnexpectedResponse i # xs) = handled_by xs"
  "handled_by (OnAecpResponseTime i n # xs) = handled_by xs"
  "handled_by (OnAemUnsolicitedResponse q # xs) = handled_by xs"
  "handled_by (OnAemIdentifyNotification q # xs) = handled_by xs"
  "handled_by (OnVuUnsolicitedResponse v q # xs) = handled_by xs"
  "handled_by (OnLocalEntityOnline en # xs) = handled_by xs"
  "handled_by (OnLocalEntityOffline i # xs) = handled_by xs"
  "handled_by (OnRemoteEntityOnline en # xs) = handled_by xs"
  "handled_by (OnRemoteEntityOffline i # xs) = handled_by xs"
  "handled_by (OnRemoteEntityUpdated en # xs) = handled_by xs"
  "handled_by (OnAecpCommand q # xs) = handled_by xs"
  "handled_by (OnAcmpCommand a # xs) = handled_by xs"
  "handled_by (OnAcmpResponse a # xs) = handled_by xs"
  "handled_by (OnAdpduReceived d # xs) = handled_by xs"
  "handled_by (OnAecpduReceived q # xs) = handled_by xs"
  "handled_by (OnAcmpduReceived a # xs) = handled_by xs"
  "handled_by (OnVuAecpCommand v q # xs) = handled_by xs"
  "handled_by (OnVuAecpResponse v q # xs) = handled_by xs"
  by (simp_all add: handled_by_def)

lemma sent_count_simps [simp]:
  "sent_count P [] = 0"
  "sent_count P (xs @ ys) = sent_count P xs + sent_count P ys"
  "sent_count P (Handled h r e # xs) = sent_count P xs"
  "sent_count P (Sent p e # xs) = of_bool (P p) + sent_count P xs"
  "sent_count P (OnAecpRetry i # xs) = sent_count P xs"
  "sent_count P (OnAecpTimeout i # xs) = sent_count P xs"
  "sent_count P (OnAecpUnexpectedResponse i # xs) = sent_count P xs"
  "sent_count P (OnAecpResponseTime i n # xs) = sent_count P xs"
  "sent_count P (OnAemUnsolicitedResponse q # xs) = sent_count P xs"
  "sent_count P (OnAemIdentifyNotification q # xs) = sent_count P xs"
  "sent_count P (OnVuUnsolicitedResponse v q # xs) = sent_count P xs"
  "sent_count P (OnLocalEntityOnline en # xs) = sent_count P xs"
  "sent_count P (OnLocalEntityOffline i # xs) = sent_count P xs"
  "sent_count P (OnRemoteEntityOnline en # xs) = sent_count P xs"
  "sent_count P (OnRemoteEntityOffline i # xs) = sent_count P xs"
  "sent_count P (OnRemoteEntityUpdated en # xs) = sent_count P xs"
  "sent_count P (OnAecpCommand q # xs) = sent_count P xs"
  "sent_count P (OnAcmpCommand a # xs) = sent_count P xs"
  "sent_count P (OnAcmpResponse a # xs) = sent_count P xs"
  "sent_count P (OnAdpduReceived d # xs) = sent_count P xs"
  "sent_count P (OnAecpduReceived q # xs) = sent_count P xs"
  "sent_count P (OnAcmpduReceived a # xs) = sent_count P xs"
  "sent_count P (OnVuAecpCommand v q # xs) = sent_count P xs"
  "sent_count P (OnVuAecpResponse v q # xs) = sent_count P xs"
  by (simp_all add: sent_count_def)

lemma handled_by_map: "handled_by (map (\<lambda>(err, h). Handled h None err) es) = mset (map snd es)"
  by (induction es) auto

lemma sent_count_map: "sent_count P (map (\<lambda>(err, h). Handled h None err) es) = 0"
  by (induction es) auto

text \<open>The messages given to the transport, in order.\<close>

definition sent_pdus :: "event list \<Rightarrow> pdu list" where
  "sent_pdus evs = concat (map (\<lambda>ev. case ev of Sent p e \<Rightarrow> [p] | _ \<Rightarrow> []) evs)"

lemma sent_pdus_simps [simp]:
  "sent_pdus [] = []"
  "sent_pdus (xs @ ys) = sent_pdus xs @ sent_pdus ys"
  "sent_pdus [Sent p e] = [p]"
  by (simp_all add: sent_pdus_def)

text \<open>A world of the witnesses: a millisecond between two readings of the clock, no transport error.\<close>

definition sample_world :: world where
  "sample_world = \<lparr>w_clock = (\<lambda>n. ms (300 + n)), w_reads = 0, w_systemClock = (\<lambda>n. ms n), w_systemReads = 0,
     w_random = (\<lambda>n. n), w_randomReads = 0, w_transport = (\<lambda>n. NoError), w_sends = 1,
     w_trace = [Sent (PAecp (Aem aem_sample)) NoError]\<rparr>"

end
