(* ===== verification/CommandEngine.thy ===== *)
theory CommandEngine
  imports World "HOL-Library.Multiset" "HOL-Library.Sublist"
begin

text \<open>
  The command queues of \<^verbatim>\<open>CommandStateMachine\<close> (src/stateMachine/commandStateMachine.hpp and .cpp).
  The class holds the same machinery twice, for AECP commands keyed by target entity and for ACMP
  commands keyed by destination address; it is written here once, over the type of keys and of
  messages, with the differences (timeouts, limits, statistics) in an \<^verbatim>\<open>engine\<close>.  The theory
  CommandStateMachine instantiates it for both.

  A \<^verbatim>\<open>ctx\<close> is what the private methods work on: the inflight list of one target, cut at the
  position of the iterator they are given, the queues and scheduled errors of the local entity, and
  the world.  The iterator at the end of the list is an empty \<^verbatim>\<open>cx_after\<close>.
\<close>

section \<open>State\<close>

record 'm command_info =
  ci_sequenceID :: "16 word"
  ci_sendTime :: time
  ci_timeoutTime :: time
  ci_retried :: bool
  ci_command :: 'm
  ci_resultHandler :: handler

record 'm inflight_info =
  if_lastSendTime :: time
  if_commands :: "'m command_info list"

record ('k, 'm) channel =
  ch_currentSequenceID :: "16 word"
  ch_inflight :: "('k, 'm inflight_info) alist"
  ch_queue :: "('k, 'm command_info list) alist"
  ch_scheduledErrors :: "(error \<times> handler) list"

record ('k, 'm) engine =
  e_pdu :: "'m \<Rightarrow> pdu"
  e_timeoutMsec :: "'m \<Rightarrow> nat"
  e_maxInflight :: "'k \<Rightarrow> nat"
  e_sendIntervalMsec :: "'k \<Rightarrow> nat"
  e_onRetry :: "'k \<Rightarrow> event list"
  e_onTimeout :: "'k \<Rightarrow> event list"

record ('k, 'm) ctx =
  cx_lastSendTime :: time
  cx_before :: "'m command_info list"
  cx_after :: "'m command_info list"
  cx_queue :: "('k, 'm command_info list) alist"
  cx_errors :: "(error \<times> handler) list"
  cx_world :: world

definition channel_new :: "('k, 'm) channel" where
  "channel_new = \<lparr>ch_currentSequenceID = 0, ch_inflight = [], ch_queue = [], ch_scheduledErrors = []\<rparr>"

section \<open>The private methods\<close>

definition hasExpired :: "time \<Rightarrow> time \<Rightarrow> time \<Rightarrow> bool" where
  "hasExpired currentTime lastInterval delay \<longleftrightarrow> lastInterval + delay < currentTime"

definition getNextSequenceID :: "('k, 'm) channel \<Rightarrow> 16 word \<times> ('k, 'm) channel" where
  "getNextSequenceID ch =
     (ch_currentSequenceID ch, ch\<lparr>ch_currentSequenceID := ch_currentSequenceID ch + 1\<rparr>)"

definition resetCommandTimeoutValue ::
  "('k, 'm) engine \<Rightarrow> 'm command_info \<Rightarrow> world \<Rightarrow> 'm command_info \<times> world"
where
  "resetCommandTimeoutValue e c w =
     (let (t, w) = now w
      in (c\<lparr>ci_sendTime := t, ci_timeoutTime := t + ms (e_timeoutMsec e (ci_command c))\<rparr>, w))"

definition setCommandInflight ::
  "('k, 'm) engine \<Rightarrow> 'm command_info \<Rightarrow> ('k, 'm) ctx \<Rightarrow> ('k, 'm) ctx"
where
  "setCommandInflight e c cx =
     (let (t, w) = now (cx_world cx);
          (err, w) = sendMessage (e_pdu e (ci_command c)) w;
          cx = cx\<lparr>cx_lastSendTime := t\<rparr>
      in if err \<noteq> NoError
         then cx\<lparr>cx_errors := cx_errors cx @ [(err, ci_resultHandler c)], cx_world := w\<rparr>
         else let (c, w) = resetCommandTimeoutValue e c w
              in cx\<lparr>cx_after := c # cx_after cx, cx_world := w\<rparr>)"

definition queued_for :: "'k \<Rightarrow> ('k, 'v list) alist \<Rightarrow> 'v list" where
  "queued_for k q = (case al_get k q of None \<Rightarrow> [] | Some xs \<Rightarrow> xs)"

definition checkQueue :: "('k, 'm) engine \<Rightarrow> 'k \<Rightarrow> ('k, 'm) ctx \<Rightarrow> ('k, 'm) ctx" where
  "checkQueue e k cx =
     (let (t, w) = now (cx_world cx);
          cx = cx\<lparr>cx_world := w\<rparr>
      in if length (cx_before cx @ cx_after cx) \<ge> e_maxInflight e k
            \<or> \<not> hasExpired t (cx_lastSendTime cx) (ms (e_sendIntervalMsec e k))
         then cx
         else case queued_for k (cx_queue cx) of
                [] \<Rightarrow> cx\<lparr>cx_queue := al_put k [] (cx_queue cx)\<rparr>
              | c # cs \<Rightarrow> setCommandInflight e c (cx\<lparr>cx_queue := al_put k cs (cx_queue cx)\<rparr>))"

definition removeInflight :: "('k, 'm) engine \<Rightarrow> 'k \<Rightarrow> ('k, 'm) ctx \<Rightarrow> ('k, 'm) ctx" where
  "removeInflight e k cx = checkQueue e k (cx\<lparr>cx_after := tl (cx_after cx)\<rparr>)"

text \<open>
  One turn of the timeout loop of \<^verbatim>\<open>checkInflightCommandsTimeoutExpiracy\<close>: the first timeout of a
  command sends it again and restarts its timer, the second one, or a failure of the second send,
  calls the result handler with the error and removes the command; a command that has not timed out
  is passed over.
\<close>

definition retry_command ::
  "('k, 'm) engine \<Rightarrow> 'k \<Rightarrow> time \<Rightarrow> 'm command_info \<Rightarrow> ('k, 'm) ctx \<Rightarrow> error \<times> ('k, 'm) ctx"
where
  "retry_command e k t c cx =
     (let c = c\<lparr>ci_retried := True\<rparr>;
          (err, w) = sendMessage (e_pdu e (ci_command c)) (cx_world cx);
          (c, w) = resetCommandTimeoutValue e c w
      in (err, cx\<lparr>cx_lastSendTime := t, cx_after := c # tl (cx_after cx), cx_world := emit (e_onRetry e k) w\<rparr>))"

definition expire_step :: "('k, 'm) engine \<Rightarrow> 'k \<Rightarrow> time \<Rightarrow> ('k, 'm) ctx \<Rightarrow> ('k, 'm) ctx" where
  "expire_step e k t cx =
     (case cx_after cx of
        [] \<Rightarrow> cx
      | c # rest \<Rightarrow>
          if t > ci_timeoutTime c
          then let (err, cx) =
                     (if \<not> ci_retried c then retry_command e k t c cx
                      else (Timeout, cx\<lparr>cx_world := emit (e_onTimeout e k) (cx_world cx)\<rparr>))
               in if err \<noteq> NoError
                  then removeInflight e k
                         (cx\<lparr>cx_world := emit [Handled (ci_resultHandler c) None err] (cx_world cx)\<rparr>)
                  else cx
          else cx\<lparr>cx_before := cx_before cx @ [c], cx_after := rest\<rparr>)"

text \<open>
  The loop ends on any clock and any transport: a command is retried at most once, and each removal
  lets at most one command of the queue in.
\<close>

definition expire_measure :: "'k \<Rightarrow> ('k, 'm) ctx \<Rightarrow> nat" where
  "expire_measure k cx =
     (\<Sum>c\<leftarrow>cx_after cx. if ci_retried c then 1 else 2) + 3 * length (queued_for k (cx_queue cx))"

lemma queued_for_put [simp]: "queued_for k (al_put k' v q) = (if k = k' then v else queued_for k q)"
  by (simp add: queued_for_def)

lemma expire_measure_setCommandInflight:
  "expire_measure k (setCommandInflight e c cx) \<le> expire_measure k cx + 2"
  by (auto simp: expire_measure_def setCommandInflight_def resetCommandTimeoutValue_def now_def
      sendMessage_def Let_def)

lemma expire_measure_checkQueue: "expire_measure k (checkQueue e k cx) \<le> expire_measure k cx"
proof (cases "queued_for k (cx_queue cx)")
  case Nil
  then show ?thesis by (simp add: checkQueue_def expire_measure_def now_def Let_def)
next
  case (Cons c cs)
  let ?cx = "cx\<lparr>cx_world := snd (now (cx_world cx)), cx_queue := al_put k cs (cx_queue cx)\<rparr>"
  have "expire_measure k ?cx + 3 = expire_measure k cx"
    using Cons by (simp add: expire_measure_def)
  then show ?thesis
    using Cons expire_measure_setCommandInflight [of k e c ?cx]
    by (auto simp: checkQueue_def expire_measure_def now_def Let_def)
qed

lemma expire_measure_removeInflight:
  "cx_after cx = c # rest \<Longrightarrow>
     expire_measure k (removeInflight e k cx) + (if ci_retried c then 1 else 2) \<le> expire_measure k cx"
  using expire_measure_checkQueue [of k e "cx\<lparr>cx_after := rest\<rparr>"]
  by (auto simp: removeInflight_def expire_measure_def)

lemma retry_command_simps:
  assumes "retry_command e k t c cx = (err, cx')"
  shows "cx_after cx' = c\<lparr>ci_retried := True, ci_sendTime := w_clock (cx_world cx) (w_reads (cx_world cx)),
           ci_timeoutTime := w_clock (cx_world cx) (w_reads (cx_world cx)) + ms (e_timeoutMsec e (ci_command c))\<rparr>
           # tl (cx_after cx)"
    and "cx_before cx' = cx_before cx" "cx_queue cx' = cx_queue cx" "cx_errors cx' = cx_errors cx"
    and "cx_lastSendTime cx' = t" "err = w_transport (cx_world cx) (w_sends (cx_world cx))"
    and "w_trace (cx_world cx') = w_trace (cx_world cx) @ Sent (e_pdu e (ci_command c)) err # e_onRetry e k"
    and "w_clock (cx_world cx') = w_clock (cx_world cx)" "w_reads (cx_world cx') = Suc (w_reads (cx_world cx))"
  using assms
  by (auto simp: retry_command_def resetCommandTimeoutValue_def now_def sendMessage_def emit_def Let_def)

lemma expire_step_measure:
  assumes "cx_after cx \<noteq> []"
  shows "expire_measure k (expire_step e k t cx) < expire_measure k cx"
proof -
  obtain c rest where after: "cx_after cx = c # rest"
    using assms by (cases "cx_after cx") auto
  consider (kept) "\<not> t > ci_timeoutTime c" | (retry) "t > ci_timeoutTime c" "\<not> ci_retried c"
    | (lost) "t > ci_timeoutTime c" "ci_retried c" by blast
  then show ?thesis
  proof cases
    case kept
    then show ?thesis using after by (simp add: expire_step_def expire_measure_def)
  next
    case retry
    obtain err cx1 where r: "retry_command e k t c cx = (err, cx1)" by fastforce
    let ?cx2 = "cx1\<lparr>cx_world := emit [Handled (ci_resultHandler c) None err] (cx_world cx1)\<rparr>"
    have step: "expire_step e k t cx = (if err \<noteq> NoError then removeInflight e k ?cx2 else cx1)"
      using retry after r by (simp add: expire_step_def)
    have less: "expire_measure k cx1 < expire_measure k cx" "expire_measure k ?cx2 = expire_measure k cx1"
      using retry after retry_command_simps(1,3) [OF r] by (simp_all add: expire_measure_def)
    then show ?thesis
      using expire_measure_removeInflight [of ?cx2 _ rest k e] after retry_command_simps(1) [OF r]
      by (auto simp: step)
  next
    case lost
    let ?cx1 = "cx\<lparr>cx_world := emit [Handled (ci_resultHandler c) None Timeout]
      (emit (e_onTimeout e k) (cx_world cx))\<rparr>"
    have "expire_step e k t cx = removeInflight e k ?cx1"
      using lost after by (simp add: expire_step_def)
    moreover have "expire_measure k ?cx1 = expire_measure k cx" by (simp add: expire_measure_def)
    ultimately show ?thesis
      using expire_measure_removeInflight [of ?cx1 c rest k e] after lost by simp
  qed
qed

function expire_loop :: "('k, 'm) engine \<Rightarrow> 'k \<Rightarrow> time \<Rightarrow> ('k, 'm) ctx \<Rightarrow> ('k, 'm) ctx" where
  "expire_loop e k t cx =
     (if cx_after cx = [] then cx else expire_loop e k t (expire_step e k t cx))"
  by auto
termination
  by (relation "measure (\<lambda>(e, k, t, cx). expire_measure k cx)") (auto intro: expire_step_measure)

declare expire_loop.simps [simp del]

lemma expire_loop_rule:
  assumes "P cx" and step: "\<And>cx. P cx \<Longrightarrow> cx_after cx \<noteq> [] \<Longrightarrow> P (expire_step e k t cx)"
  shows "P (expire_loop e k t cx)"
  using assms(1)
proof (induction "expire_measure k cx" arbitrary: cx rule: less_induct)
  case less
  show ?case
  proof (cases "cx_after cx = []")
    case True
    with less.prems show ?thesis by (simp add: expire_loop.simps)
  next
    case False
    then show ?thesis
      using less.hyps [OF expire_step_measure [OF False]] step less.prems
      by (subst expire_loop.simps) simp
  qed
qed

lemma expire_loop_end: "cx_after (expire_loop e k t cx) = []"
  by (induction e k t cx rule: expire_loop.induct) (subst expire_loop.simps, simp)

section \<open>One target of a channel\<close>

text \<open>
  The reference \<^verbatim>\<open>inflightCommands[key]\<close> (created when absent), cut at an iterator, given to a
  private method and written back.
\<close>

definition inflight_of :: "'k \<Rightarrow> ('k, 'm) channel \<Rightarrow> 'm inflight_info" where
  "inflight_of k ch = (case al_get k (ch_inflight ch) of
     None \<Rightarrow> \<lparr>if_lastSendTime = 0, if_commands = []\<rparr> | Some i \<Rightarrow> i)"

definition open_target ::
  "'k \<Rightarrow> ('m command_info list \<Rightarrow> nat) \<Rightarrow> ('k, 'm) channel \<Rightarrow> world \<Rightarrow> ('k, 'm) ctx"
where
  "open_target k pos ch w =
     (let i = inflight_of k ch; cmds = if_commands i in
      \<lparr>cx_lastSendTime = if_lastSendTime i, cx_before = take (pos cmds) cmds, cx_after = drop (pos cmds) cmds,
       cx_queue = ch_queue ch, cx_errors = ch_scheduledErrors ch, cx_world = w\<rparr>)"

definition close_target :: "'k \<Rightarrow> ('k, 'm) channel \<Rightarrow> ('k, 'm) ctx \<Rightarrow> ('k, 'm) channel \<times> world" where
  "close_target k ch cx =
     (ch\<lparr>ch_inflight := al_put k \<lparr>if_lastSendTime = cx_lastSendTime cx, if_commands = cx_before cx @ cx_after cx\<rparr>
           (ch_inflight ch),
         ch_queue := cx_queue cx, ch_scheduledErrors := cx_errors cx\<rparr>, cx_world cx)"

definition with_target ::
  "'k \<Rightarrow> ('m command_info list \<Rightarrow> nat) \<Rightarrow> (('k, 'm) ctx \<Rightarrow> ('k, 'm) ctx)
     \<Rightarrow> ('k, 'm) channel \<Rightarrow> world \<Rightarrow> ('k, 'm) channel \<times> world"
where
  "with_target k pos f ch w = close_target k ch (f (open_target k pos ch w))"

section \<open>The operations on a channel\<close>

text \<open>Queue a command and let it out if the limits allow (the body of \<^verbatim>\<open>sendAecpCommand\<close>).\<close>

definition queue_command ::
  "('k, 'm) engine \<Rightarrow> 'k \<Rightarrow> 16 word \<Rightarrow> 'm \<Rightarrow> handler \<Rightarrow> ('k, 'm) channel \<Rightarrow> world \<Rightarrow> ('k, 'm) channel \<times> world"
where
  "queue_command e k sequenceID m onResult ch w =
     (let command = \<lparr>ci_sequenceID = sequenceID, ci_sendTime = 0, ci_timeoutTime = 0, ci_retried = False,
                     ci_command = m, ci_resultHandler = onResult\<rparr>;
          ch = ch\<lparr>ch_queue := al_put k (queued_for k (ch_queue ch) @ [command]) (ch_queue ch)\<rparr>
      in with_target k length (checkQueue e k) ch w)"

text \<open>The loops of \<^verbatim>\<open>checkInflightCommandsTimeoutExpiracy\<close> over the targets of a channel.\<close>

definition check_target ::
  "('k, 'm) engine \<Rightarrow> time \<Rightarrow> 'k \<Rightarrow> ('k, 'm) channel \<Rightarrow> world \<Rightarrow> ('k, 'm) channel \<times> world"
where
  "check_target e t k ch w =
     with_target k (\<lambda>cmds. 0) (\<lambda>cx. checkQueue e k (expire_loop e k t cx)) ch w"

primrec check_targets ::
  "('k, 'm) engine \<Rightarrow> time \<Rightarrow> 'k list \<Rightarrow> ('k, 'm) channel \<Rightarrow> world \<Rightarrow> ('k, 'm) channel \<times> world"
where
  "check_targets e t [] ch w = (ch, w)"
| "check_targets e t (k # ks) ch w =
     (let (ch, w) = check_target e t k ch w in check_targets e t ks ch w)"

definition check_channel ::
  "('k, 'm) engine \<Rightarrow> time \<Rightarrow> ('k, 'm) channel \<Rightarrow> world \<Rightarrow> ('k, 'm) channel \<times> world"
where
  "check_channel e t ch w = check_targets e t (al_keys (ch_inflight ch)) ch w"

text \<open>The scheduled errors are notified, in order, and forgotten.\<close>

definition notify_scheduled_errors :: "('k, 'm) channel \<Rightarrow> world \<Rightarrow> ('k, 'm) channel \<times> world" where
  "notify_scheduled_errors ch w =
     (ch\<lparr>ch_scheduledErrors := []\<rparr>,
      emit (map (\<lambda>(err, h). Handled h None err) (ch_scheduledErrors ch)) w)"

text \<open>The first inflight command with a sequence ID (\<^verbatim>\<open>std::find_if\<close>), by position.\<close>

definition find_sequenceID :: "16 word \<Rightarrow> 'm command_info list \<Rightarrow> nat" where
  "find_sequenceID s cmds = length (takeWhile (\<lambda>c. ci_sequenceID c \<noteq> s) cmds)"

text \<open>
  The end of a response: the command leaves the inflight list, the queue is checked, then its
  handler is called.
\<close>

definition complete_command ::
  "('k, 'm) engine \<Rightarrow> 'k \<Rightarrow> 16 word \<Rightarrow> handler \<Rightarrow> pdu \<Rightarrow> ('k, 'm) channel \<Rightarrow> world \<Rightarrow> ('k, 'm) channel \<times> world"
where
  "complete_command e k s h response ch w =
     (let (ch, w) = with_target k (find_sequenceID s) (removeInflight e k) ch w
      in (ch, emit [Handled h (Some response) NoError] w))"

text \<open>A response that only restarts the timer of its command.\<close>

definition rearm_step :: "('k, 'm) engine \<Rightarrow> ('k, 'm) ctx \<Rightarrow> ('k, 'm) ctx" where
  "rearm_step e cx =
     (case cx_after cx of
        [] \<Rightarrow> cx
      | c # rest \<Rightarrow>
          let (c, w) = resetCommandTimeoutValue e c (cx_world cx)
          in cx\<lparr>cx_after := c # rest, cx_world := w\<rparr>)"

definition rearm_command ::
  "('k, 'm) engine \<Rightarrow> 'k \<Rightarrow> 16 word \<Rightarrow> ('k, 'm) channel \<Rightarrow> world \<Rightarrow> ('k, 'm) channel \<times> world"
where
  "rearm_command e k s ch w =
     with_target k (find_sequenceID s) (rearm_step e) ch w"

text \<open>What the removal of a local entity, and of a target, does to a channel.\<close>

definition cancel_inflight :: "('k, 'm) channel \<Rightarrow> event list" where
  "cancel_inflight ch =
     concat (map (\<lambda>(k, i). map (\<lambda>c. Handled (ci_resultHandler c) None UnknownLocalEntity) (if_commands i))
               (ch_inflight ch))"

definition discard_channel :: "'k \<Rightarrow> ('k, 'm) channel \<Rightarrow> ('k, 'm) channel" where
  "discard_channel k ch =
     ch\<lparr>ch_inflight := al_del k (ch_inflight ch), ch_queue := al_del k (ch_queue ch)\<rparr>"

section \<open>Invariants of the private methods\<close>

text \<open>
  What a property of contexts has to satisfy for the private methods and the timeout loop to keep
  it: it survives a reading of the clock, the creation of an empty queue, the sending of the head of
  the queue when there is room, and each of the four ways the loop treats a command.
\<close>

locale ctx_invariant =
  fixes e :: "('k, 'm) engine"
    and t :: time
    and I :: "'k \<Rightarrow> ('k, 'm) ctx \<Rightarrow> bool"
  assumes clock: "I k cx \<Longrightarrow> I k (cx\<lparr>cx_world := snd (now (cx_world cx))\<rparr>)"
    and touch: "I k cx \<Longrightarrow> queued_for k (cx_queue cx) = [] \<Longrightarrow> I k (cx\<lparr>cx_queue := al_put k [] (cx_queue cx)\<rparr>)"
    and send: "I k cx \<Longrightarrow> length (cx_before cx @ cx_after cx) < e_maxInflight e k \<Longrightarrow>
      queued_for k (cx_queue cx) = c # cs \<Longrightarrow>
      I k (setCommandInflight e c (cx\<lparr>cx_queue := al_put k cs (cx_queue cx)\<rparr>))"
    and skip: "I k cx \<Longrightarrow> cx_after cx = c # rest \<Longrightarrow> \<not> t > ci_timeoutTime c \<Longrightarrow>
      I k (cx\<lparr>cx_before := cx_before cx @ [c], cx_after := rest\<rparr>)"
    and retry: "I k cx \<Longrightarrow> cx_after cx = c # rest \<Longrightarrow> t > ci_timeoutTime c \<Longrightarrow> \<not> ci_retried c \<Longrightarrow>
      retry_command e k t c cx = (NoError, cx') \<Longrightarrow> I k cx'"
    and fail: "I k cx \<Longrightarrow> cx_after cx = c # rest \<Longrightarrow> t > ci_timeoutTime c \<Longrightarrow> \<not> ci_retried c \<Longrightarrow>
      retry_command e k t c cx = (err, cx') \<Longrightarrow> err \<noteq> NoError \<Longrightarrow>
      I k (cx'\<lparr>cx_world := emit [Handled (ci_resultHandler c) None err] (cx_world cx'), cx_after := rest\<rparr>)"
    and lost: "I k cx \<Longrightarrow> cx_after cx = c # rest \<Longrightarrow> t > ci_timeoutTime c \<Longrightarrow> ci_retried c \<Longrightarrow>
      I k (cx\<lparr>cx_world := emit [Handled (ci_resultHandler c) None Timeout] (emit (e_onTimeout e k) (cx_world cx)),
             cx_after := rest\<rparr>)"

context ctx_invariant
begin

lemma checkQueue_inv: "I k cx \<Longrightarrow> I k (checkQueue e k cx)"
proof -
  assume "I k cx"
  let ?cx = "cx\<lparr>cx_world := snd (now (cx_world cx))\<rparr>"
  have cx: "I k ?cx" by (rule clock) fact
  show ?thesis
  proof (cases "length (cx_before cx @ cx_after cx) \<ge> e_maxInflight e k
      \<or> \<not> hasExpired (fst (now (cx_world cx))) (cx_lastSendTime cx) (ms (e_sendIntervalMsec e k))")
    case True
    then have "checkQueue e k cx = ?cx" by (auto simp: checkQueue_def now_def Let_def)
    with cx show ?thesis by simp
  next
    case False
    show ?thesis
    proof (cases "queued_for k (cx_queue cx)")
      case Nil
      then have "checkQueue e k cx = ?cx\<lparr>cx_queue := al_put k [] (cx_queue ?cx)\<rparr>"
        using False by (simp add: checkQueue_def now_def Let_def)
      then show ?thesis using touch [OF cx] Nil by simp
    next
      case (Cons c cs)
      then have "checkQueue e k cx = setCommandInflight e c (?cx\<lparr>cx_queue := al_put k cs (cx_queue ?cx)\<rparr>)"
        using False by (simp add: checkQueue_def now_def Let_def)
      then show ?thesis using send [OF cx, of c cs] False Cons by simp
    qed
  qed
qed

lemma expire_step_inv:
  assumes "I k cx"
  shows "I k (expire_step e k t cx)"
proof (cases "cx_after cx")
  case Nil
  then show ?thesis using assms by (simp add: expire_step_def)
next
  case (Cons c rest)
  consider (kept) "\<not> t > ci_timeoutTime c" | (retried) "t > ci_timeoutTime c" "\<not> ci_retried c"
    | (lost) "t > ci_timeoutTime c" "ci_retried c" by blast
  then show ?thesis
  proof cases
    case kept
    then show ?thesis using skip [OF assms Cons] Cons by (simp add: expire_step_def)
  next
    case retried
    obtain err cx1 where r: "retry_command e k t c cx = (err, cx1)" by fastforce
    show ?thesis
    proof (cases "err = NoError")
      case True
      then show ?thesis
        using retry [OF assms Cons retried] r retried Cons by (simp add: expire_step_def)
    next
      case False
      then show ?thesis
        using checkQueue_inv [OF fail [OF assms Cons retried r False]] r retried Cons
          retry_command_simps(1) [OF r]
        by (simp add: expire_step_def removeInflight_def)
    qed
  next
    case lost
    then show ?thesis
      using checkQueue_inv [OF ctx_invariant.lost [OF ctx_invariant_axioms assms Cons lost]] Cons
      by (simp add: expire_step_def removeInflight_def)
  qed
qed

lemma expire_loop_inv: "I k cx \<Longrightarrow> I k (expire_loop e k t cx)"
  by (rule expire_loop_rule) (simp_all add: expire_step_inv)

lemma check_target_inv: "I k cx \<Longrightarrow> I k (checkQueue e k (expire_loop e k t cx))"
  by (intro checkQueue_inv expire_loop_inv)

end

section \<open>What every command goes through\<close>

text \<open>
  The handlers a context still owes a call to; the sends it may still make of the messages of a
  kind: two for a queued command, one for a command in flight that has not been sent again.
\<close>

definition queue_handlers :: "('k, 'm command_info list) alist \<Rightarrow> handler multiset" where
  "queue_handlers q = al_sum (\<lambda>cs. mset (map ci_resultHandler cs)) q"

definition cx_handlers :: "('k, 'm) ctx \<Rightarrow> handler multiset" where
  "cx_handlers cx = mset (map ci_resultHandler (cx_before cx @ cx_after cx)) + queue_handlers (cx_queue cx)
     + mset (map snd (cx_errors cx))"

definition queued_sends :: "(pdu \<Rightarrow> bool) \<Rightarrow> ('m \<Rightarrow> pdu) \<Rightarrow> ('k, 'm command_info list) alist \<Rightarrow> nat" where
  "queued_sends P f q = al_sum (\<lambda>cs. \<Sum>c\<leftarrow>cs. 2 * of_bool (P (f (ci_command c)))) q"

definition inflight_sends :: "(pdu \<Rightarrow> bool) \<Rightarrow> ('m \<Rightarrow> pdu) \<Rightarrow> 'm command_info list \<Rightarrow> nat" where
  "inflight_sends P f cs = (\<Sum>c\<leftarrow>cs. of_bool (P (f (ci_command c)) \<and> \<not> ci_retried c))"

definition cx_sends :: "(pdu \<Rightarrow> bool) \<Rightarrow> ('m \<Rightarrow> pdu) \<Rightarrow> ('k, 'm) ctx \<Rightarrow> nat" where
  "cx_sends P f cx = inflight_sends P f (cx_before cx @ cx_after cx) + queued_sends P f (cx_queue cx)"

lemma al_sum_put_queue:
  assumes "f [] = 0"
  shows "al_sum f (al_put k v q) + f (queued_for k q) = al_sum f q + f v"
  using al_sum_put [of f k v q] assms by (auto simp: al_part_def queued_for_def split: option.splits)

lemma queue_handlers_put:
  "queue_handlers (al_put k v q) + mset (map ci_resultHandler (queued_for k q))
     = queue_handlers q + mset (map ci_resultHandler v)"
  unfolding queue_handlers_def by (rule al_sum_put_queue) simp

lemma queued_sends_put:
  "queued_sends P f (al_put k v q) + (\<Sum>c\<leftarrow>queued_for k q. 2 * of_bool (P (f (ci_command c))))
     = queued_sends P f q + (\<Sum>c\<leftarrow>v. 2 * of_bool (P (f (ci_command c))))"
  unfolding queued_sends_def by (rule al_sum_put_queue) simp

lemma setCommandInflight_simps:
  "cx_before (setCommandInflight e c cx) = cx_before cx"
  "cx_queue (setCommandInflight e c cx) = cx_queue cx"
  "w_clock (cx_world (setCommandInflight e c cx)) = w_clock (cx_world cx)"
  "w_reads (cx_world cx) \<le> w_reads (cx_world (setCommandInflight e c cx))"
  "w_trace (cx_world (setCommandInflight e c cx)) =
     w_trace (cx_world cx) @ [Sent (e_pdu e (ci_command c)) (w_transport (cx_world cx) (w_sends (cx_world cx)))]"
  by (auto simp: setCommandInflight_def resetCommandTimeoutValue_def now_def sendMessage_def emit_def Let_def)

lemma setCommandInflight_after:
  "cx_after (setCommandInflight e c cx) = cx_after cx
   \<or> (\<exists>n \<ge> w_reads (cx_world cx). cx_after (setCommandInflight e c cx) =
        c\<lparr>ci_sendTime := w_clock (cx_world cx) n,
          ci_timeoutTime := w_clock (cx_world cx) n + ms (e_timeoutMsec e (ci_command c))\<rparr> # cx_after cx)"
  by (auto simp: setCommandInflight_def resetCommandTimeoutValue_def now_def sendMessage_def emit_def Let_def
      intro: exI [of _ "Suc (w_reads (cx_world cx))"])

lemma setCommandInflight_handlers:
  "cx_handlers (setCommandInflight e c cx) = cx_handlers cx + {#ci_resultHandler c#}"
  by (auto simp: setCommandInflight_def resetCommandTimeoutValue_def now_def sendMessage_def emit_def Let_def
      cx_handlers_def)

lemma setCommandInflight_sends:
  "cx_sends P f (setCommandInflight e c cx) \<le> cx_sends P f cx + of_bool (P (f (ci_command c)))"
  by (auto simp: setCommandInflight_def resetCommandTimeoutValue_def now_def sendMessage_def emit_def Let_def
      cx_sends_def inflight_sends_def)

text \<open>
  An engine whose statistics notifications are neither messages nor calls of handlers.  On such an
  engine the machinery keeps a balance of handlers, a budget of sends, the limit of commands in
  flight, and an account of what became of the commands that were in flight.
\<close>

locale command_engine =
  fixes e :: "('k, 'm) engine"
  assumes quiet: "handled_by (e_onRetry e k) = {#}" "handled_by (e_onTimeout e k) = {#}"
      "sent_count P (e_onRetry e k) = 0" "sent_count P (e_onTimeout e k) = 0"

sublocale command_engine \<subseteq> ledger: ctx_invariant e t
  "\<lambda>k cx. cx_handlers cx + handled_by (w_trace (cx_world cx)) = L" for t L
proof (unfold_locales, goal_cases)
  case (2 k cx)
  then show ?case using queue_handlers_put [of k "[]" "cx_queue cx"] by (simp add: cx_handlers_def)
next
  case (3 k cx c cs)
  have "queue_handlers (cx_queue cx) = add_mset (ci_resultHandler c) (queue_handlers (al_put k cs (cx_queue cx)))"
    using queue_handlers_put [of k cs "cx_queue cx"] 3(3) by simp
  then show ?case
    using 3(1) by (simp add: setCommandInflight_handlers setCommandInflight_simps) (simp add: cx_handlers_def)
next
  case (5 k cx c rest cx')
  then show ?case using retry_command_simps [OF 5(5)] by (simp add: cx_handlers_def quiet)
next
  case (6 k cx c rest err cx')
  then show ?case using retry_command_simps [OF 6(5)] by (simp add: cx_handlers_def quiet)
qed (simp_all add: cx_handlers_def quiet)

sublocale command_engine \<subseteq> budget: ctx_invariant e t
  "\<lambda>k cx. cx_sends P (e_pdu e) cx + sent_count P (w_trace (cx_world cx)) \<le> B" for t P B
proof (unfold_locales, goal_cases)
  case (2 k cx)
  then show ?case using queued_sends_put [of P "e_pdu e" k "[]" "cx_queue cx"] by (simp add: cx_sends_def)
next
  case (3 k cx c cs)
  let ?cx = "cx\<lparr>cx_queue := al_put k cs (cx_queue cx)\<rparr>"
  have "cx_sends P (e_pdu e) ?cx + 2 * of_bool (P (e_pdu e (ci_command c))) = cx_sends P (e_pdu e) cx"
    using queued_sends_put [of P "e_pdu e" k cs "cx_queue cx"] 3(3) by (simp add: cx_sends_def)
  then show ?case
    using 3 setCommandInflight_sends [of P "e_pdu e" e c ?cx]
    by (simp add: setCommandInflight_simps)
next
  case (5 k cx c rest cx')
  then show ?case using retry_command_simps [OF 5(5)] by (simp add: cx_sends_def inflight_sends_def quiet)
next
  case (6 k cx c rest err cx')
  then show ?case using retry_command_simps [OF 6(5)] by (simp add: cx_sends_def inflight_sends_def quiet)
qed (simp_all add: cx_sends_def inflight_sends_def quiet)

sublocale command_engine \<subseteq> bound: ctx_invariant e t
  "\<lambda>k cx. length (cx_before cx @ cx_after cx) \<le> e_maxInflight e k" for t
proof (unfold_locales, goal_cases)
  case (3 k cx c cs)
  then show ?case
    using setCommandInflight_after [of e c "cx\<lparr>cx_queue := al_put k cs (cx_queue cx)\<rparr>"]
    by (auto simp: setCommandInflight_simps)
next
  case (5 k cx c rest cx')
  then show ?case using retry_command_simps [OF 5(5)] by simp
next
  case (6 k cx c rest err cx')
  then show ?case using retry_command_simps [OF 6(5)] by simp
qed simp_all

text \<open>
  The fate of the commands \<^verbatim>\<open>cs\<close> that were in flight when the timeouts were checked at time
  \<^verbatim>\<open>t\<close>: the ones whose time had not come are still there, the others were sent again, or had
  their handler called with the timeout.
\<close>

definition settled :: "('k, 'm) engine \<Rightarrow> time \<Rightarrow> 'm command_info \<Rightarrow> 'm command_info list \<Rightarrow> event list \<Rightarrow> bool" where
  "settled e t c kept evs \<longleftrightarrow>
     (if \<not> t > ci_timeoutTime c then c \<in> set kept
      else if ci_retried c then Handled (ci_resultHandler c) None Timeout \<in> set evs
      else \<exists>err. Sent (e_pdu e (ci_command c)) err \<in> set evs)"

lemma settled_mono:
  "settled e t c kept evs \<Longrightarrow> set kept \<subseteq> set kept' \<Longrightarrow> set evs \<subseteq> set evs' \<Longrightarrow> settled e t c kept' evs'"
  by (auto simp: settled_def split: if_splits)

lemma setCommandInflight_keeps: "set (cx_after cx) \<subseteq> set (cx_after (setCommandInflight e c cx))"
  using setCommandInflight_after [of e c cx] by auto

definition accounted :: "('k, 'm) engine \<Rightarrow> time \<Rightarrow> 'm command_info list \<Rightarrow> nat \<Rightarrow> ('k, 'm) ctx \<Rightarrow> bool" where
  "accounted e t cmds n cx \<longleftrightarrow> n \<le> length (w_trace (cx_world cx)) \<and>
     (\<forall>c\<in>set cmds. c \<in> set (cx_after cx) \<or> settled e t c (cx_before cx) (drop n (w_trace (cx_world cx))))"

lemma accountedI:
  assumes "accounted e t cmds n cx" and "set (cx_before cx) \<subseteq> set (cx_before cx')"
    and "w_trace (cx_world cx') = w_trace (cx_world cx) @ evs"
    and "\<And>c. c \<in> set (cx_after cx) \<Longrightarrow> c \<in> set (cx_after cx') \<or> settled e t c (cx_before cx') evs"
  shows "accounted e t cmds n cx'"
proof -
  have n: "n \<le> length (w_trace (cx_world cx))" using assms(1) by (simp add: accounted_def)
  have "settled e t c (cx_before cx') (drop n (w_trace (cx_world cx')))"
    if "settled e t c (cx_before cx) (drop n (w_trace (cx_world cx))) \<or> settled e t c (cx_before cx') evs" for c
    using that
  proof
    assume "settled e t c (cx_before cx) (drop n (w_trace (cx_world cx)))"
    then show ?thesis by (rule settled_mono) (use assms(2,3) n in auto)
  next
    assume "settled e t c (cx_before cx') evs"
    then show ?thesis by (rule settled_mono) (use assms(3) n in auto)
  qed
  then show ?thesis
    using assms n unfolding accounted_def by (metis length_append trans_le_add1)
qed

sublocale command_engine \<subseteq> fate: ctx_invariant e t "\<lambda>k cx. accounted e t cmds n cx" for t cmds n
proof (unfold_locales, goal_cases)
  case (1 k cx)
  show ?case by (rule accountedI [OF 1, of _ "[]"]) auto
next
  case (2 k cx)
  show ?case by (rule accountedI [OF 2(1), of _ "[]"]) auto
next
  case (3 k cx c cs)
  show ?case
    using setCommandInflight_keeps [of "cx\<lparr>cx_queue := al_put k cs (cx_queue cx)\<rparr>" e c]
    by (intro accountedI [OF 3(1)]) (auto simp: setCommandInflight_simps)
next
  case (4 k cx c rest)
  show ?case
    by (rule accountedI [OF 4(1), of _ "[]"]) (use 4(2,3) in \<open>auto simp: settled_def\<close>)
next
  case (5 k cx c rest cx')
  show ?case
    by (rule accountedI [OF 5(1) _ retry_command_simps(7) [OF 5(5)]])
       (use 5(2-4) retry_command_simps [OF 5(5)] in \<open>auto simp: settled_def\<close>)
next
  case (6 k cx c rest err cx')
  show ?case
    by (rule accountedI [OF 6(1), of _ "Sent (e_pdu e (ci_command c)) err # e_onRetry e k
          @ [Handled (ci_resultHandler c) None err]"])
       (use 6(2-4) retry_command_simps [OF 6(5)] in \<open>auto simp: settled_def\<close>)
next
  case (7 k cx c rest)
  show ?case
    by (rule accountedI [OF 7(1), of _ "e_onTimeout e k @ [Handled (ci_resultHandler c) None Timeout]"])
       (use 7(2-4) in \<open>auto simp: settled_def\<close>)
qed

section \<open>The balance, the budget and the limit of a channel\<close>

definition ch_handlers :: "('k, 'm) channel \<Rightarrow> handler multiset" where
  "ch_handlers ch = al_sum (\<lambda>i. mset (map ci_resultHandler (if_commands i))) (ch_inflight ch)
     + queue_handlers (ch_queue ch) + mset (map snd (ch_scheduledErrors ch))"

definition ch_ledger :: "('k, 'm) channel \<Rightarrow> world \<Rightarrow> handler multiset" where
  "ch_ledger ch w = ch_handlers ch + handled_by (w_trace w)"

definition ch_sends :: "(pdu \<Rightarrow> bool) \<Rightarrow> ('m \<Rightarrow> pdu) \<Rightarrow> ('k, 'm) channel \<Rightarrow> nat" where
  "ch_sends P f ch = al_sum (\<lambda>i. inflight_sends P f (if_commands i)) (ch_inflight ch)
     + queued_sends P f (ch_queue ch)"

definition ch_budget :: "(pdu \<Rightarrow> bool) \<Rightarrow> ('m \<Rightarrow> pdu) \<Rightarrow> ('k, 'm) channel \<Rightarrow> world \<Rightarrow> nat" where
  "ch_budget P f ch w = ch_sends P f ch + sent_count P (w_trace w)"

definition ch_bounded :: "('k, 'm) engine \<Rightarrow> ('k, 'm) channel \<Rightarrow> bool" where
  "ch_bounded e ch \<longleftrightarrow> (\<forall>x\<in>set (ch_inflight ch). length (if_commands (snd x)) \<le> e_maxInflight e (fst x))"

lemma inflight_part:
  "f [] = 0 \<Longrightarrow> al_part (\<lambda>i. f (if_commands i)) k (ch_inflight ch) = f (if_commands (inflight_of k ch))"
  by (simp add: al_part_def inflight_of_def split: option.splits)

lemma open_target_simps [simp]:
  "cx_before (open_target k pos ch w) @ cx_after (open_target k pos ch w) = if_commands (inflight_of k ch)"
  "cx_queue (open_target k pos ch w) = ch_queue ch"
  "cx_errors (open_target k pos ch w) = ch_scheduledErrors ch"
  "cx_world (open_target k pos ch w) = w"
  "cx_lastSendTime (open_target k pos ch w) = if_lastSendTime (inflight_of k ch)"
  "cx_after (open_target k (\<lambda>cmds. 0) ch w) = if_commands (inflight_of k ch)"
  by (simp_all add: open_target_def Let_def)

lemma with_target_simps:
  assumes "with_target k pos f ch w = (ch', w')"
  shows "ch_inflight ch' = al_put k \<lparr>if_lastSendTime = cx_lastSendTime (f (open_target k pos ch w)),
      if_commands = cx_before (f (open_target k pos ch w)) @ cx_after (f (open_target k pos ch w))\<rparr> (ch_inflight ch)"
    and "ch_queue ch' = cx_queue (f (open_target k pos ch w))"
    and "ch_scheduledErrors ch' = cx_errors (f (open_target k pos ch w))"
    and "w' = cx_world (f (open_target k pos ch w))"
    and "ch_currentSequenceID ch' = ch_currentSequenceID ch"
  using assms by (auto simp: with_target_def close_target_def)

lemma with_target_ledger:
  assumes "with_target k pos f ch w = (ch', w')"
  shows "ch_ledger ch' w' + cx_handlers (open_target k pos ch w) + handled_by (w_trace w)
    = ch_ledger ch w + cx_handlers (f (open_target k pos ch w)) + handled_by (w_trace w')"
  using al_sum_put [of "\<lambda>i. mset (map ci_resultHandler (if_commands i))" k
      "\<lparr>if_lastSendTime = cx_lastSendTime (f (open_target k pos ch w)),
        if_commands = cx_before (f (open_target k pos ch w)) @ cx_after (f (open_target k pos ch w))\<rparr>"
      "ch_inflight ch"]
    inflight_part [of "\<lambda>cs. mset (map ci_resultHandler cs)" k ch]
    with_target_simps [OF assms]
    arg_cong [OF open_target_simps(1) [of k pos ch w], of "\<lambda>cs. mset (map ci_resultHandler cs)"]
  by (simp add: ch_ledger_def ch_handlers_def cx_handlers_def ac_simps)

lemma with_target_budget:
  assumes "with_target k pos f ch w = (ch', w')"
  shows "ch_budget P g ch' w' + cx_sends P g (open_target k pos ch w) + sent_count P (w_trace w)
    = ch_budget P g ch w + cx_sends P g (f (open_target k pos ch w)) + sent_count P (w_trace w')"
  using al_sum_put [of "\<lambda>i. inflight_sends P g (if_commands i)" k
      "\<lparr>if_lastSendTime = cx_lastSendTime (f (open_target k pos ch w)),
        if_commands = cx_before (f (open_target k pos ch w)) @ cx_after (f (open_target k pos ch w))\<rparr>"
      "ch_inflight ch"]
    inflight_part [of "inflight_sends P g" k ch]
    with_target_simps [OF assms]
    arg_cong [OF open_target_simps(1) [of k pos ch w], of "inflight_sends P g"]
  by (simp add: ch_budget_def ch_sends_def cx_sends_def inflight_sends_def)

lemma with_target_bounded:
  assumes "with_target k pos f ch w = (ch', w')" and "ch_bounded e ch"
    and "length (cx_before (f (open_target k pos ch w)) @ cx_after (f (open_target k pos ch w))) \<le> e_maxInflight e k"
  shows "ch_bounded e ch'"
  using assms(2,3) with_target_simps(1) [OF assms(1)]
    al_put_all [of "ch_inflight ch" "\<lambda>k i. length (if_commands i) \<le> e_maxInflight e k" k
      "\<lparr>if_lastSendTime = cx_lastSendTime (f (open_target k pos ch w)),
        if_commands = cx_before (f (open_target k pos ch w)) @ cx_after (f (open_target k pos ch w))\<rparr>"]
  by (simp add: ch_bounded_def)

lemma ch_bounded_inflight_of: "ch_bounded e ch \<Longrightarrow> length (if_commands (inflight_of k ch)) \<le> e_maxInflight e k"
  by (auto simp: ch_bounded_def inflight_of_def split: option.splits dest!: al_get_in_set)

lemma open_target_length:
  "length (cx_before (open_target k pos ch w)) + length (cx_after (open_target k pos ch w))
     = length (if_commands (inflight_of k ch))"
  by (simp only: length_append [symmetric] open_target_simps)

context command_engine
begin

lemma check_target_keeps:
  assumes "check_target e t k ch w = (ch', w')"
  shows "ch_ledger ch' w' = ch_ledger ch w"
    and "ch_budget P (e_pdu e) ch' w' \<le> ch_budget P (e_pdu e) ch w"
    and "ch_bounded e ch \<Longrightarrow> ch_bounded e ch'"
proof -
  note wt = assms [unfolded check_target_def]
  let ?cx = "open_target k (\<lambda>cmds. 0) ch w"
  show "ch_ledger ch' w' = ch_ledger ch w"
    using with_target_ledger [OF wt] ledger.check_target_inv [of ?cx "cx_handlers ?cx + handled_by (w_trace w)" k t]
      with_target_simps(4) [OF wt]
    by (simp add: add.assoc)
  show "ch_budget P (e_pdu e) ch' w' \<le> ch_budget P (e_pdu e) ch w"
    using with_target_budget [OF wt, of P "e_pdu e"]
      budget.check_target_inv [of P ?cx "cx_sends P (e_pdu e) ?cx + sent_count P (w_trace w)" k t]
      with_target_simps(4) [OF wt]
    by simp
  show "ch_bounded e ch'" if "ch_bounded e ch"
    using with_target_bounded [OF wt that] bound.check_target_inv [of ?cx k t]
      ch_bounded_inflight_of [OF that, of k] open_target_length [of k "\<lambda>cmds. 0" ch w]
    by simp
qed

lemma check_targets_keeps:
  "check_targets e t ks ch w = (ch', w') \<Longrightarrow>
     ch_ledger ch' w' = ch_ledger ch w \<and> ch_budget P (e_pdu e) ch' w' \<le> ch_budget P (e_pdu e) ch w
     \<and> (ch_bounded e ch \<longrightarrow> ch_bounded e ch')"
proof (induction ks arbitrary: ch w)
  case (Cons k ks)
  obtain ch1 w1 where step: "check_target e t k ch w = (ch1, w1)" by fastforce
  then have "check_targets e t ks ch1 w1 = (ch', w')" using Cons.prems by simp
  then show ?case
    using Cons.IH [of ch1 w1] check_target_keeps(1,3) [OF step] check_target_keeps(2) [OF step, of P] by auto
qed simp

lemma queue_command_keeps:
  assumes "queue_command e k s m h ch w = (ch', w')"
  shows "ch_ledger ch' w' = ch_ledger ch w + {#h#}"
    and "ch_budget P (e_pdu e) ch' w' \<le> ch_budget P (e_pdu e) ch w + 2 * of_bool (P (e_pdu e m))"
    and "ch_bounded e ch \<Longrightarrow> ch_bounded e ch'"
proof -
  let ?c = "\<lparr>ci_sequenceID = s, ci_sendTime = 0, ci_timeoutTime = 0, ci_retried = False,
    ci_command = m, ci_resultHandler = h\<rparr>"
  let ?ch = "ch\<lparr>ch_queue := al_put k (queued_for k (ch_queue ch) @ [?c]) (ch_queue ch)\<rparr>"
  let ?cx = "open_target k length ?ch w"
  have wt: "with_target k length (checkQueue e k) ?ch w = (ch', w')"
    using assms by (simp add: queue_command_def Let_def)
  have "ch_ledger ?ch w = ch_ledger ch w + {#h#}"
    using queue_handlers_put [of k "queued_for k (ch_queue ch) @ [?c]" "ch_queue ch"]
    by (simp add: ch_ledger_def ch_handlers_def)
  moreover have "ch_ledger ch' w' = ch_ledger ?ch w"
    using with_target_ledger [OF wt] ledger.checkQueue_inv [of ?cx "cx_handlers ?cx + handled_by (w_trace w)" k]
      with_target_simps(4) [OF wt]
    by (simp add: add.assoc)
  ultimately show "ch_ledger ch' w' = ch_ledger ch w + {#h#}" by simp
  have "ch_budget P (e_pdu e) ?ch w = ch_budget P (e_pdu e) ch w + 2 * of_bool (P (e_pdu e m))"
    using queued_sends_put [of P "e_pdu e" k "queued_for k (ch_queue ch) @ [?c]" "ch_queue ch"]
    by (simp add: ch_budget_def ch_sends_def)
  moreover have "ch_budget P (e_pdu e) ch' w' \<le> ch_budget P (e_pdu e) ?ch w"
    using with_target_budget [OF wt, of P "e_pdu e"]
      budget.checkQueue_inv [of P ?cx "cx_sends P (e_pdu e) ?cx + sent_count P (w_trace w)" k]
      with_target_simps(4) [OF wt]
    by simp
  ultimately show "ch_budget P (e_pdu e) ch' w' \<le> ch_budget P (e_pdu e) ch w + 2 * of_bool (P (e_pdu e m))"
    by simp
  show "ch_bounded e ch'" if bounded: "ch_bounded e ch"
  proof -
    have b: "ch_bounded e ?ch" using bounded by (simp add: ch_bounded_def)
    show ?thesis
      using with_target_bounded [OF wt b] bound.checkQueue_inv [of ?cx k]
        ch_bounded_inflight_of [OF b, of k] open_target_length [of k length ?ch w]
      by simp
  qed
qed

end

section \<open>Completion, timer and notification of a channel\<close>

lemma find_sequenceID_split:
  assumes "find (\<lambda>c. ci_sequenceID c = s) cmds = Some c"
  shows "\<exists>rest. drop (find_sequenceID s cmds) cmds = c # rest"
proof -
  have "drop (find_sequenceID s cmds) cmds = dropWhile (\<lambda>c. ci_sequenceID c \<noteq> s) cmds"
    by (simp add: find_sequenceID_def dropWhile_eq_drop)
  then show ?thesis
    using assms by (auto simp: find_dropWhile comp_def split: list.splits)
qed

lemma open_target_found:
  assumes "al_get k (ch_inflight ch) = Some i"
    and "find (\<lambda>c. ci_sequenceID c = s) (if_commands i) = Some c"
  shows "\<exists>rest. cx_after (open_target k (find_sequenceID s) ch w) = c # rest"
  using find_sequenceID_split [OF assms(2)] assms(1) by (simp add: open_target_def inflight_of_def Let_def)

lemma mset_balance:
  fixes a b c :: "'a multiset"
  shows "a + h1 + b = c + h2 + b1 \<Longrightarrow> h2 + b1 = h3 + b \<Longrightarrow> h1 = add_mset x h3 \<Longrightarrow> a + {#x#} = c"
  by (simp add: add.assoc)

lemma rearm_step_simps:
  "cx_handlers (rearm_step e cx) = cx_handlers cx"
  "cx_sends P f (rearm_step e cx) = cx_sends P f cx"
  "w_trace (cx_world (rearm_step e cx)) = w_trace (cx_world cx)"
  "length (cx_before (rearm_step e cx) @ cx_after (rearm_step e cx)) = length (cx_before cx @ cx_after cx)"
  by (auto simp: rearm_step_def resetCommandTimeoutValue_def now_def cx_handlers_def cx_sends_def
      inflight_sends_def split: list.splits)

lemma notify_scheduled_errors_keeps:
  assumes "notify_scheduled_errors ch w = (ch', w')"
  shows "ch_ledger ch' w' = ch_ledger ch w" and "ch_budget P f ch' w' = ch_budget P f ch w"
    and "ch_bounded e ch' = ch_bounded e ch" and "ch_scheduledErrors ch' = []"
    and "handled_by (w_trace w') = handled_by (w_trace w) + mset (map snd (ch_scheduledErrors ch))"
    and "sent_count P (w_trace w') = sent_count P (w_trace w)"
  using assms
  by (auto simp: notify_scheduled_errors_def ch_ledger_def ch_handlers_def ch_budget_def ch_sends_def
      ch_bounded_def handled_by_map sent_count_map)

lemma handled_by_cancel_inflight:
  "handled_by (cancel_inflight ch) = al_sum (\<lambda>i. mset (map ci_resultHandler (if_commands i))) (ch_inflight ch)"
proof -
  have "handled_by (map (\<lambda>c. Handled (ci_resultHandler c) None UnknownLocalEntity) cs)
      = mset (map ci_resultHandler cs)" for cs :: "'b command_info list"
    by (induction cs) auto
  then have "handled_by (concat (map (\<lambda>(k, i). map (\<lambda>c. Handled (ci_resultHandler c) None UnknownLocalEntity)
      (if_commands i)) is)) = al_sum (\<lambda>i. mset (map ci_resultHandler (if_commands i))) is"
    for "is" :: "('a \<times> 'b inflight_info) list"
    by (induction "is") auto
  then show ?thesis by (simp add: cancel_inflight_def)
qed

text \<open>The handlers of the commands towards one target, in flight and queued.\<close>

definition target_handlers :: "'k \<Rightarrow> ('k, 'm) channel \<Rightarrow> handler multiset" where
  "target_handlers k ch =
     al_sum (\<lambda>i. mset (map ci_resultHandler (if_commands i))) (filter (\<lambda>x. fst x = k) (ch_inflight ch))
     + queue_handlers (filter (\<lambda>x. fst x = k) (ch_queue ch))"

lemma al_sum_del_filter: "al_sum f (al_del k es) + al_sum f (filter (\<lambda>x. fst x = k) es) = al_sum f es"
  by (induction es) (auto simp: al_del_def ac_simps)

lemma discard_channel_handlers: "ch_handlers (discard_channel k ch) + target_handlers k ch = ch_handlers ch"
  using al_sum_del_filter [of "\<lambda>i. mset (map ci_resultHandler (if_commands i))" k "ch_inflight ch"]
    al_sum_del_filter [of "\<lambda>cs. mset (map ci_resultHandler cs)" k "ch_queue ch"]
  by (simp add: ch_handlers_def discard_channel_def target_handlers_def queue_handlers_def ac_simps)

lemma discard_channel_sends: "ch_sends P f (discard_channel k ch) \<le> ch_sends P f ch"
  using al_sum_del_filter [of "\<lambda>i. inflight_sends P f (if_commands i)" k "ch_inflight ch"]
    al_sum_del_filter [of "\<lambda>cs. \<Sum>c\<leftarrow>cs. (2 :: nat) * of_bool (P (f (ci_command c)))" k "ch_queue ch"]
  by (simp add: ch_sends_def discard_channel_def queued_sends_def)

lemma discard_channel_bounded: "ch_bounded e ch \<Longrightarrow> ch_bounded e (discard_channel k ch)"
  by (auto simp: ch_bounded_def discard_channel_def)

context command_engine
begin

lemma complete_command_keeps:
  assumes "complete_command e k s (ci_resultHandler c) response ch w = (ch', w')"
    and found: "al_get k (ch_inflight ch) = Some i" "find (\<lambda>c. ci_sequenceID c = s) (if_commands i) = Some c"
  shows "ch_ledger ch' w' = ch_ledger ch w"
    and "ch_budget P (e_pdu e) ch' w' \<le> ch_budget P (e_pdu e) ch w"
    and "ch_bounded e ch \<Longrightarrow> ch_bounded e ch'"
    and "Handled (ci_resultHandler c) (Some response) NoError \<in> set (w_trace w')"
proof -
  obtain ch1 w1 where wt: "with_target k (find_sequenceID s) (removeInflight e k) ch w = (ch1, w1)"
    by fastforce
  then have res: "ch' = ch1" "w' = emit [Handled (ci_resultHandler c) (Some response) NoError] w1"
    using assms(1) by (simp_all add: complete_command_def)
  let ?cx = "open_target k (find_sequenceID s) ch w"
  obtain rest where after: "cx_after ?cx = c # rest"
    using open_target_found [OF found] by blast
  let ?cx1 = "?cx\<lparr>cx_after := rest\<rparr>"
  have cut: "cx_handlers ?cx = add_mset (ci_resultHandler c) (cx_handlers ?cx1)"
    "cx_sends P (e_pdu e) ?cx1 \<le> cx_sends P (e_pdu e) ?cx"
    using after by (simp_all add: cx_handlers_def cx_sends_def inflight_sends_def)
  have rm: "removeInflight e k ?cx = checkQueue e k ?cx1"
    using after by (simp add: removeInflight_def)
  have "cx_handlers (checkQueue e k ?cx1) + handled_by (w_trace w1) = cx_handlers ?cx1 + handled_by (w_trace w)"
    using ledger.checkQueue_inv [of ?cx1 "cx_handlers ?cx1 + handled_by (w_trace w)" k]
      with_target_simps(4) [OF wt] rm by simp
  then have "ch_ledger ch1 w1 + {#ci_resultHandler c#} = ch_ledger ch w"
    by (intro mset_balance [OF with_target_ledger [OF wt] _ cut(1)]) (simp add: rm)
  then show "ch_ledger ch' w' = ch_ledger ch w"
    by (simp add: res ch_ledger_def)
  show "ch_budget P (e_pdu e) ch' w' \<le> ch_budget P (e_pdu e) ch w"
    using with_target_budget [OF wt, of P "e_pdu e"] cut(2) with_target_simps(4) [OF wt]
      budget.checkQueue_inv [of P ?cx1 "cx_sends P (e_pdu e) ?cx1 + sent_count P (w_trace w)" k]
    by (simp add: rm res ch_budget_def)
  show "Handled (ci_resultHandler c) (Some response) NoError \<in> set (w_trace w')"
    by (simp add: res)
  show "ch_bounded e ch'" if b: "ch_bounded e ch"
  proof -
    have "length (cx_before ?cx1 @ cx_after ?cx1) \<le> e_maxInflight e k"
      using ch_bounded_inflight_of [OF b, of k] open_target_length [of k "find_sequenceID s" ch w] after
      by simp
    then show ?thesis
      using with_target_bounded [OF wt b] bound.checkQueue_inv [of ?cx1 k] by (simp add: rm res)
  qed
qed

lemma rearm_command_keeps:
  assumes "rearm_command e k s ch w = (ch', w')"
  shows "ch_ledger ch' w' = ch_ledger ch w"
    and "ch_budget P (e_pdu e) ch' w' = ch_budget P (e_pdu e) ch w"
    and "ch_bounded e ch \<Longrightarrow> ch_bounded e ch'"
    and "w_trace w' = w_trace w"
proof -
  note wt = assms [unfolded rearm_command_def]
  let ?cx = "open_target k (find_sequenceID s) ch w"
  show tr: "w_trace w' = w_trace w"
    using with_target_simps(4) [OF wt] by (simp add: rearm_step_simps)
  show "ch_ledger ch' w' = ch_ledger ch w"
    using with_target_ledger [OF wt] tr by (simp add: rearm_step_simps)
  show "ch_budget P (e_pdu e) ch' w' = ch_budget P (e_pdu e) ch w"
    using with_target_budget [OF wt, of P "e_pdu e"] tr by (simp add: rearm_step_simps)
  show "ch_bounded e ch'" if b: "ch_bounded e ch"
    using with_target_bounded [OF wt b] ch_bounded_inflight_of [OF b, of k]
      rearm_step_simps(4) [of e ?cx] open_target_length [of k "find_sequenceID s" ch w]
    by simp
qed

lemma check_channel_keeps:
  "check_channel e t ch w = (ch', w') \<Longrightarrow>
     ch_ledger ch' w' = ch_ledger ch w \<and> ch_budget P (e_pdu e) ch' w' \<le> ch_budget P (e_pdu e) ch w
     \<and> (ch_bounded e ch \<longrightarrow> ch_bounded e ch')"
  unfolding check_channel_def by (rule check_targets_keeps)

end

section \<open>Order of the first transmissions\<close>

text \<open>
  From a moment when the queue of target \<^verbatim>\<open>k\<^sub>0\<close> was \<^verbatim>\<open>q\<^sub>0\<close> and the trace \<^verbatim>\<open>tr\<^sub>0\<close>: commands have left
  the queue from its head only, and the messages of those that left were given to the transport, in
  the same order.
\<close>

definition fifo_since ::
  "('m \<Rightarrow> pdu) \<Rightarrow> 'k \<Rightarrow> 'm command_info list \<Rightarrow> event list
     \<Rightarrow> ('k, 'm command_info list) alist \<Rightarrow> event list \<Rightarrow> bool"
where
  "fifo_since f k0 q0 tr0 q tr \<longleftrightarrow>
     (\<exists>n evs. queued_for k0 q = drop n q0 \<and> n \<le> length q0 \<and> tr = tr0 @ evs
        \<and> subseq (map (f \<circ> ci_command) (take n q0)) (sent_pdus evs))"

lemma fifo_since_refl: "queued_for k0 q = q0 \<Longrightarrow> fifo_since f k0 q0 tr q tr"
  by (auto simp: fifo_since_def intro!: exI [of _ 0])

lemma fifo_since_more:
  assumes "fifo_since f k0 q0 tr0 q tr" and "queued_for k0 q' = queued_for k0 q"
  shows "fifo_since f k0 q0 tr0 q' (tr @ evs)"
proof -
  obtain n evs0 where "queued_for k0 q = drop n q0" "n \<le> length q0" "tr = tr0 @ evs0"
    "subseq (map (f \<circ> ci_command) (take n q0)) (sent_pdus evs0)"
    using assms(1) by (auto simp: fifo_since_def)
  then show ?thesis
    unfolding fifo_since_def using assms(2)
    by (intro exI [of _ n] exI [of _ "evs0 @ evs"]) (simp add: subseq_rev_drop_many)
qed

lemma fifo_since_same:
  "fifo_since f k0 q0 tr0 q tr \<Longrightarrow> queued_for k0 q' = queued_for k0 q \<Longrightarrow> fifo_since f k0 q0 tr0 q' tr"
  using fifo_since_more [of f k0 q0 tr0 q tr q' "[]"] by simp

lemma fifo_since_pop:
  assumes "fifo_since f k0 q0 tr0 q tr" and "queued_for k0 q = c # cs" and "queued_for k0 q' = cs"
  shows "fifo_since f k0 q0 tr0 q' (tr @ [Sent (f (ci_command c)) err])"
proof -
  obtain n evs where n: "queued_for k0 q = drop n q0" "n \<le> length q0" "tr = tr0 @ evs"
    "subseq (map (f \<circ> ci_command) (take n q0)) (sent_pdus evs)"
    using assms(1) by (auto simp: fifo_since_def)
  then have drop: "drop n q0 = c # cs" using assms(2) by simp
  then have len: "n < length q0" by (metis drop_all list.distinct(1) not_le)
  then have "take (Suc n) q0 = take n q0 @ [c]"
    using nth_via_drop [OF drop] by (simp add: take_Suc_conv_app_nth)
  moreover have "drop (Suc n) q0 = cs"
    using arg_cong [OF drop, of tl] by (simp add: drop_Suc tl_drop)
  moreover have "subseq (map (f \<circ> ci_command) (take n q0) @ [f (ci_command c)])
      (sent_pdus evs @ [f (ci_command c)])"
    using n(4) by (simp add: list_emb_append_mono)
  ultimately show ?thesis
    unfolding fifo_since_def using len n(3) assms(3)
    by (intro exI [of _ "Suc n"] exI [of _ "evs @ [Sent (f (ci_command c)) err]"]) simp
qed

sublocale command_engine \<subseteq> fifo: ctx_invariant e t
  "\<lambda>k cx. fifo_since (e_pdu e) k0 q0 tr0 (cx_queue cx) (w_trace (cx_world cx))" for t k0 q0 tr0
proof (unfold_locales, goal_cases)
  case (3 k cx c cs)
  show ?case
  proof (cases "k = k0")
    case True
    then show ?thesis
      using fifo_since_pop [OF 3(1), of c cs "al_put k cs (cx_queue cx)"] 3(3)
      by (simp add: setCommandInflight_simps)
  next
    case False
    then show ?thesis
      using fifo_since_more [OF 3(1), of "al_put k cs (cx_queue cx)"]
      by (simp add: setCommandInflight_simps)
  qed
next
  case (5 k cx c rest cx')
  then show ?case using retry_command_simps [OF 5(5)] by (simp add: fifo_since_more)
next
  case (6 k cx c rest err cx')
  then show ?case using retry_command_simps [OF 6(5)] fifo_since_more [OF 6(1), of "cx_queue cx"] by simp
next
  case (7 k cx c rest)
  then show ?case using fifo_since_more [OF 7(1), of "cx_queue cx"] by simp
qed (auto intro: fifo_since_same)

context command_engine
begin

lemma check_targets_fifo:
  "check_targets e t ks ch w = (ch', w') \<Longrightarrow>
     fifo_since (e_pdu e) k0 q0 tr0 (ch_queue ch) (w_trace w) \<Longrightarrow>
     fifo_since (e_pdu e) k0 q0 tr0 (ch_queue ch') (w_trace w')"
proof (induction ks arbitrary: ch w)
  case (Cons k ks)
  obtain ch1 w1 where step: "check_target e t k ch w = (ch1, w1)" by fastforce
  have "fifo_since (e_pdu e) k0 q0 tr0 (ch_queue ch1) (w_trace w1)"
    using with_target_simps(2,4) [OF step [unfolded check_target_def]]
      fifo.check_target_inv [of k0 q0 tr0 "open_target k (\<lambda>cmds. 0) ch w" k t] Cons.prems(2)
    by simp
  with Cons.IH [of ch1 w1] Cons.prems(1) step show ?case by simp
qed simp

lemma queue_command_fifo:
  assumes "queue_command e k s m h ch w = (ch', w')"
  shows "\<exists>c. ci_command c = m \<and> ci_sequenceID c = s \<and> ci_resultHandler c = h \<and>
    fifo_since (e_pdu e) k (queued_for k (ch_queue ch) @ [c]) (w_trace w) (ch_queue ch') (w_trace w')"
proof -
  let ?c = "\<lparr>ci_sequenceID = s, ci_sendTime = 0, ci_timeoutTime = 0, ci_retried = False,
    ci_command = m, ci_resultHandler = h\<rparr>"
  let ?ch = "ch\<lparr>ch_queue := al_put k (queued_for k (ch_queue ch) @ [?c]) (ch_queue ch)\<rparr>"
  have wt: "with_target k length (checkQueue e k) ?ch w = (ch', w')"
    using assms by (simp add: queue_command_def Let_def)
  have "fifo_since (e_pdu e) k (queued_for k (ch_queue ch) @ [?c]) (w_trace w) (ch_queue ch') (w_trace w')"
    using with_target_simps(2,4) [OF wt]
      fifo.checkQueue_inv [of k "queued_for k (ch_queue ch) @ [?c]" "w_trace w" "open_target k length ?ch w" k]
    by (simp add: fifo_since_refl)
  then show ?thesis by (intro exI [of _ ?c]) simp
qed

end

section \<open>After a timeout check\<close>

text \<open>
  On a clock that does not run back, no command that stays in flight after a check is overdue.
\<close>

definition on_time :: "time \<Rightarrow> (nat \<Rightarrow> time) \<Rightarrow> nat \<Rightarrow> ('k, 'm) ctx \<Rightarrow> bool" where
  "on_time t clk r0 cx \<longleftrightarrow>
     (\<forall>c\<in>set (cx_before cx). \<not> t > ci_timeoutTime c) \<and> w_clock (cx_world cx) = clk \<and> r0 \<le> w_reads (cx_world cx)"

sublocale command_engine \<subseteq> punctual: ctx_invariant e t "\<lambda>k cx. on_time t clk r0 cx" for t clk r0
proof (unfold_locales, goal_cases)
  case (3 k cx c cs)
  then show ?case
    using setCommandInflight_simps(4) [of "cx\<lparr>cx_queue := al_put k cs (cx_queue cx)\<rparr>" e c]
    by (simp add: on_time_def setCommandInflight_simps(1,3))
next
  case (5 k cx c rest cx')
  then show ?case using retry_command_simps [OF 5(5)] by (simp add: on_time_def)
next
  case (6 k cx c rest err cx')
  then show ?case using retry_command_simps [OF 6(5)] by (simp add: on_time_def)
qed (auto simp: on_time_def)

lemma checkQueue_after:
  assumes "cx_after cx = []"
  shows "cx_before (checkQueue e k cx) = cx_before cx
    \<and> (cx_after (checkQueue e k cx) = []
       \<or> (\<exists>n c. w_reads (cx_world cx) \<le> n \<and> cx_after (checkQueue e k cx) = [c]
            \<and> ci_timeoutTime c = w_clock (cx_world cx) n + ms (e_timeoutMsec e (ci_command c))))"
proof (cases "queued_for k (cx_queue cx)")
  case Nil
  then show ?thesis using assms by (simp add: checkQueue_def now_def Let_def)
next
  case (Cons c cs)
  let ?cx = "cx\<lparr>cx_world := snd (now (cx_world cx)), cx_queue := al_put k cs (cx_queue cx)\<rparr>"
  have eq: "checkQueue e k cx = cx\<lparr>cx_world := snd (now (cx_world cx))\<rparr>
      \<or> checkQueue e k cx = setCommandInflight e c ?cx"
    using Cons by (simp add: checkQueue_def now_def Let_def)
  show ?thesis
  proof (cases "checkQueue e k cx = cx\<lparr>cx_world := snd (now (cx_world cx))\<rparr>")
    case True
    then show ?thesis using assms by simp
  next
    case False
    with eq have "checkQueue e k cx = setCommandInflight e c ?cx" by blast
    then show ?thesis
      using setCommandInflight_after [of e c ?cx] assms
      by (fastforce simp: setCommandInflight_simps(1) dest: Suc_leD)
  qed
qed

context command_engine
begin

lemma check_target_settles:
  assumes "check_target e t k ch w = (ch', w')" and c: "c \<in> set (if_commands (inflight_of k ch))"
  shows "\<exists>evs. w_trace w' = w_trace w @ evs \<and> settled e t c (if_commands (inflight_of k ch')) evs"
proof -
  let ?cx = "expire_loop e k t (open_target k (\<lambda>cmds. 0) ch w)" and ?n = "length (w_trace w)"
  note wt = assms(1) [unfolded check_target_def]
  have "accounted e t (if_commands (inflight_of k ch)) ?n ?cx"
    by (rule fate.expire_loop_inv) (simp add: accounted_def)
  with c have here: "settled e t c (cx_before ?cx) (drop ?n (w_trace (cx_world ?cx)))"
    by (simp add: accounted_def expire_loop_end)
  have "fifo_since (e_pdu e) k (queued_for k (cx_queue ?cx)) (w_trace (cx_world ?cx))
      (cx_queue (checkQueue e k ?cx)) (w_trace (cx_world (checkQueue e k ?cx)))"
    by (rule fifo.checkQueue_inv) (simp add: fifo_since_refl)
  then have "\<exists>evs. w_trace w' = w_trace (cx_world ?cx) @ evs"
    using with_target_simps(4) [OF wt] by (auto simp: fifo_since_def)
  then have "set (drop ?n (w_trace (cx_world ?cx))) \<subseteq> set (drop ?n (w_trace w'))" by auto
  moreover have "set (cx_before ?cx) \<subseteq> set (if_commands (inflight_of k ch'))"
    using with_target_simps(1) [OF wt] checkQueue_after [of ?cx e k]
    by (auto simp: inflight_of_def expire_loop_end)
  ultimately have settled: "settled e t c (if_commands (inflight_of k ch')) (drop ?n (w_trace w'))"
    using here by (blast intro: settled_mono)
  have "check_targets e t [k] ch w = (ch', w')" using assms(1) by simp
  then have "fifo_since (e_pdu e) k (queued_for k (ch_queue ch)) (w_trace w) (ch_queue ch') (w_trace w')"
    by (rule check_targets_fifo) (simp add: fifo_since_refl)
  then obtain evs where "w_trace w' = w_trace w @ evs" by (auto simp: fifo_since_def)
  with settled show ?thesis by auto
qed

lemma check_target_on_time:
  assumes "check_target e t k ch w = (ch', w')" and clock: "\<forall>n\<ge>w_reads w. t \<le> w_clock w n"
  shows "\<forall>c\<in>set (if_commands (inflight_of k ch')). t \<le> ci_timeoutTime c"
proof -
  let ?cx = "expire_loop e k t (open_target k (\<lambda>cmds. 0) ch w)"
  note wt = assms(1) [unfolded check_target_def]
  have loop: "on_time t (w_clock w) (w_reads w) ?cx"
    by (rule punctual.expire_loop_inv) (simp add: on_time_def open_target_def Let_def)
  have kept: "if_commands (inflight_of k ch') = cx_before (checkQueue e k ?cx) @ cx_after (checkQueue e k ?cx)"
    using with_target_simps(1) [OF wt] by (simp add: inflight_of_def)
  have "t \<le> ci_timeoutTime c" if "c \<in> set (cx_after (checkQueue e k ?cx))" for c
  proof -
    have "\<exists>n\<ge>w_reads (cx_world ?cx). ci_timeoutTime c = w_clock (cx_world ?cx) n + ms (e_timeoutMsec e (ci_command c))"
      using that checkQueue_after [of ?cx e k, OF expire_loop_end] by fastforce
    then show ?thesis
      using loop clock by (fastforce simp: on_time_def intro: trans_le_add1 order_trans)
  qed
  then show ?thesis
    using loop checkQueue_after [of ?cx e k] by (auto simp: kept on_time_def expire_loop_end)
qed

lemma check_target_others:
  assumes "check_target e t k ch w = (ch', w')" and "k' \<noteq> k"
  shows "inflight_of k' ch' = inflight_of k' ch"
  using with_target_simps(1) [OF assms(1) [unfolded check_target_def]] assms(2)
  by (simp add: inflight_of_def)

lemma check_target_clock:
  assumes "check_target e t k ch w = (ch', w')"
  shows "w_clock w' = w_clock w \<and> w_reads w \<le> w_reads w'"
proof -
  have "on_time 0 (w_clock w) (w_reads w) (checkQueue e k (expire_loop e k t (open_target k (\<lambda>cmds. 0) ch w)))"
  proof (rule punctual.checkQueue_inv)
    show "on_time 0 (w_clock w) (w_reads w) (expire_loop e k t (open_target k (\<lambda>cmds. 0) ch w))"
      using punctual.expire_loop_inv [of t "w_clock w" "w_reads w" "open_target k (\<lambda>cmds. 0) ch w" k]
      by (auto simp: on_time_def open_target_def Let_def)
  qed
  then show ?thesis
    using with_target_simps(4) [OF assms [unfolded check_target_def]] by (simp add: on_time_def)
qed

lemma check_targets_untouched:
  "check_targets e t ks ch w = (ch', w') \<Longrightarrow> k \<notin> set ks \<Longrightarrow> inflight_of k ch' = inflight_of k ch"
proof (induction ks arbitrary: ch w)
  case (Cons k1 ks)
  obtain ch1 w1 where step: "check_target e t k1 ch w = (ch1, w1)" by fastforce
  with Cons check_target_others [OF step, of k] show ?case by simp
qed simp

lemma check_targets_clock:
  "check_targets e t ks ch w = (ch', w') \<Longrightarrow> w_clock w' = w_clock w \<and> w_reads w \<le> w_reads w'"
proof (induction ks arbitrary: ch w)
  case (Cons k ks)
  obtain ch1 w1 where step: "check_target e t k ch w = (ch1, w1)" by fastforce
  with Cons check_target_clock [OF step] show ?case by fastforce
qed simp

lemma check_targets_trace:
  assumes "check_targets e t ks ch w = (ch', w')"
  shows "\<exists>evs. w_trace w' = w_trace w @ evs"
proof -
  have "fifo_since (e_pdu e) undefined (queued_for undefined (ch_queue ch)) (w_trace w) (ch_queue ch') (w_trace w')"
    by (rule check_targets_fifo [OF assms]) (simp add: fifo_since_refl)
  then show ?thesis by (auto simp: fifo_since_def)
qed

lemma check_targets_settle:
  "check_targets e t ks ch w = (ch', w') \<Longrightarrow> distinct ks \<Longrightarrow> k \<in> set ks \<Longrightarrow>
     c \<in> set (if_commands (inflight_of k ch)) \<Longrightarrow>
     \<exists>evs. w_trace w' = w_trace w @ evs \<and> settled e t c (if_commands (inflight_of k ch')) evs"
proof (induction ks arbitrary: ch w)
  case (Cons k1 ks)
  obtain ch1 w1 where step: "check_target e t k1 ch w = (ch1, w1)" by fastforce
  then have rest: "check_targets e t ks ch1 w1 = (ch', w')" using Cons.prems(1) by simp
  show ?case
  proof (cases "k = k1")
    case True
    then have "inflight_of k ch' = inflight_of k ch1"
      using check_targets_untouched [OF rest] Cons.prems(2) by simp
    then show ?thesis
      using check_target_settles [OF step] check_targets_trace [OF rest] True Cons.prems(4)
      by (fastforce intro: settled_mono)
  next
    case False
    then have "c \<in> set (if_commands (inflight_of k ch1))"
      using Cons.prems(4) check_target_others [OF step, of k] by simp
    then obtain evs where "w_trace w' = w_trace w1 @ evs" "settled e t c (if_commands (inflight_of k ch')) evs"
      using Cons.IH [OF rest] Cons.prems(2,3) False by auto
    moreover obtain evs1 where "w_trace w1 = w_trace w @ evs1"
      using check_targets_trace [of t "[k1]" ch w ch1 w1] step by auto
    ultimately show ?thesis by (auto intro: settled_mono)
  qed
qed simp

lemma check_targets_on_time:
  "check_targets e t ks ch w = (ch', w') \<Longrightarrow> distinct ks \<Longrightarrow> k \<in> set ks \<Longrightarrow>
     \<forall>n\<ge>w_reads w. t \<le> w_clock w n \<Longrightarrow> \<forall>c\<in>set (if_commands (inflight_of k ch')). t \<le> ci_timeoutTime c"
proof (induction ks arbitrary: ch w)
  case (Cons k1 ks)
  obtain ch1 w1 where step: "check_target e t k1 ch w = (ch1, w1)" by fastforce
  then have rest: "check_targets e t ks ch1 w1 = (ch', w')" using Cons.prems(1) by simp
  show ?case
  proof (cases "k = k1")
    case True
    then have "inflight_of k ch' = inflight_of k ch1"
      using check_targets_untouched [OF rest] Cons.prems(2) by simp
    then show ?thesis using check_target_on_time [OF step] Cons.prems(4) True by simp
  next
    case False
    then show ?thesis
      using Cons.IH [OF rest] Cons.prems(2-4) check_target_clock [OF step] by auto
  qed
qed simp

end

end
