(* ===== verification/CommandStateMachine.thy ===== *)
theory CommandStateMachine
  imports CommandEngine
begin

text \<open>
  \<^verbatim>\<open>CommandStateMachine\<close> (src/stateMachine/commandStateMachine.hpp and .cpp): the local entities
  that send commands, each with an AECP and an ACMP channel of the theory CommandEngine, and the
  public methods.  What the code asks of the vendor unique delegates through the protocol interface
  (timeout of a command, whether a response is unsolicited) is the argument \<^verbatim>\<open>vud\<close>.

  A handler or a delegate is called outside of the model: what it does in turn is a later operation.
\<close>

section \<open>State and parameters\<close>

record vu_delegates =
  vu_timeoutMsec :: "64 word \<Rightarrow> aecp_pdu \<Rightarrow> nat"
  vu_isUnsolicited :: "64 word \<Rightarrow> aecp_pdu \<Rightarrow> bool"

record command_entity =
  ce_aecp :: "(entity_id, aecp_pdu) channel"
  ce_acmp :: "(mac_address, acmpdu) channel"

type_synonym command_sm = "(entity_id, command_entity) alist"

definition AecpAemCommandTimeoutMsec :: nat where "AecpAemCommandTimeoutMsec = 250"
definition AecpAaCommandTimeoutMsec :: nat where "AecpAaCommandTimeoutMsec = 250"
definition DefaultMaxAecpInflightCommands :: nat where "DefaultMaxAecpInflightCommands = 10"
definition DefaultMaxAcmpMulticastInflightCommands :: nat where "DefaultMaxAcmpMulticastInflightCommands = 10"
definition DefaultMaxAcmpUnicastInflightCommands :: nat where "DefaultMaxAcmpUnicastInflightCommands = 10"
definition DefaultAecpSendInterval :: nat where "DefaultAecpSendInterval = 1"
definition DefaultAcmpMulticastSendInterval :: nat where "DefaultAcmpMulticastSendInterval = 1"
definition DefaultAcmpUnicastSendInterval :: nat where "DefaultAcmpUnicastSendInterval = 1"

definition aecp_timeoutMsec :: "vu_delegates \<Rightarrow> aecp_pdu \<Rightarrow> nat" where
  "aecp_timeoutMsec vud p =
     (if aecp_messageType p = AecpMessageType_VendorUniqueCommand
      then vu_timeoutMsec vud (vu_protocolIdentifier p) p
      else if aecp_messageType p = AecpMessageType_AemCommand then AecpAemCommandTimeoutMsec
      else if aecp_messageType p = AecpMessageType_AddressAccessCommand then AecpAaCommandTimeoutMsec
      else 250)"

text \<open>The ACMP timeouts, by message type (the even types are the commands).\<close>

definition acmp_timeoutMsec :: "acmpdu \<Rightarrow> nat" where
  "acmp_timeoutMsec p =
     (case al_get (m_controlData p)
        [(0, 2000), (2, 200), (4, 200), (6, 4500), (8, 500), (10, 200), (12, 200)] of
        None \<Rightarrow> 250 | Some t \<Rightarrow> t)"

definition getMaxInflightAcmpMessages :: "mac_address \<Rightarrow> nat" where
  "getMaxInflightAcmpMessages macAddress =
     (if macAddress = Acmpdu_Multicast_Mac_Address then DefaultMaxAcmpMulticastInflightCommands
      else DefaultMaxAcmpUnicastInflightCommands)"

definition getAcmpSendInterval :: "mac_address \<Rightarrow> nat" where
  "getAcmpSendInterval macAddress =
     (if macAddress = Acmpdu_Multicast_Mac_Address then DefaultAcmpMulticastSendInterval
      else DefaultAcmpUnicastSendInterval)"

definition aecp_engine :: "vu_delegates \<Rightarrow> (entity_id, aecp_pdu) engine" where
  "aecp_engine vud =
     \<lparr>e_pdu = PAecp, e_timeoutMsec = aecp_timeoutMsec vud,
      e_maxInflight = (\<lambda>k. DefaultMaxAecpInflightCommands),
      e_sendIntervalMsec = (\<lambda>k. DefaultAecpSendInterval),
      e_onRetry = (\<lambda>k. [OnAecpRetry k]), e_onTimeout = (\<lambda>k. [OnAecpTimeout k])\<rparr>"

definition acmp_engine :: "(mac_address, acmpdu) engine" where
  "acmp_engine =
     \<lparr>e_pdu = PAcmp, e_timeoutMsec = acmp_timeoutMsec, e_maxInflight = getMaxInflightAcmpMessages,
      e_sendIntervalMsec = getAcmpSendInterval, e_onRetry = (\<lambda>k. []), e_onTimeout = (\<lambda>k. [])\<rparr>"

section \<open>Local entities\<close>

definition command_registerLocalEntity :: "entity_id \<Rightarrow> command_sm \<Rightarrow> command_sm" where
  "command_registerLocalEntity entityID sm =
     (case al_get entityID sm of
        None \<Rightarrow> al_put entityID \<lparr>ce_aecp = channel_new, ce_acmp = channel_new\<rparr> sm
      | Some _ \<Rightarrow> sm)"

definition command_unregisterLocalEntity ::
  "entity_id \<Rightarrow> command_sm \<Rightarrow> world \<Rightarrow> command_sm \<times> world"
where
  "command_unregisterLocalEntity entityID sm w =
     (case al_get entityID sm of
        None \<Rightarrow> (sm, w)
      | Some ce \<Rightarrow>
          (al_del entityID sm, emit (cancel_inflight (ce_aecp ce) @ cancel_inflight (ce_acmp ce)) w))"

definition discardAECPCommandsTowardsEntity :: "entity_id \<Rightarrow> command_sm \<Rightarrow> command_sm" where
  "discardAECPCommandsTowardsEntity entityID sm =
     map (\<lambda>(id, ce). (id, ce\<lparr>ce_aecp := discard_channel entityID (ce_aecp ce)\<rparr>)) sm"

section \<open>Timeouts\<close>

definition check_entity ::
  "vu_delegates \<Rightarrow> time \<Rightarrow> command_entity \<Rightarrow> world \<Rightarrow> command_entity \<times> world"
where
  "check_entity vud t ce w =
     (let (aecp, w) = check_channel (aecp_engine vud) t (ce_aecp ce) w;
          (acmp, w) = check_channel acmp_engine t (ce_acmp ce) w;
          (aecp, w) = notify_scheduled_errors aecp w;
          (acmp, w) = notify_scheduled_errors acmp w
      in (\<lparr>ce_aecp = aecp, ce_acmp = acmp\<rparr>, w))"

primrec check_entities ::
  "vu_delegates \<Rightarrow> time \<Rightarrow> command_sm \<Rightarrow> world \<Rightarrow> command_sm \<times> world"
where
  "check_entities vud t [] w = ([], w)"
| "check_entities vud t (x # sm) w =
     (let (ce, w) = check_entity vud t (snd x) w; (sm, w) = check_entities vud t sm w
      in ((fst x, ce) # sm, w))"

definition checkInflightCommandsTimeoutExpiracy ::
  "vu_delegates \<Rightarrow> command_sm \<Rightarrow> world \<Rightarrow> command_sm \<times> world"
where
  "checkInflightCommandsTimeoutExpiracy vud sm w =
     (let (t, w) = now w in check_entities vud t sm w)"

section \<open>Responses\<close>

definition Identify_ControllerEntityID :: entity_id where
  "Identify_ControllerEntityID = 0x90E0F0FFFE010001"

definition AemAecpStatus_InProgress :: "8 word" where
  "AemAecpStatus_InProgress = 9"

definition isAemUnsolicitedResponse :: "aecp_pdu \<Rightarrow> bool" where
  "isAemUnsolicitedResponse p \<longleftrightarrow>
     aecp_messageType p = AecpMessageType_AemResponse \<and> (case p of Aem aem \<Rightarrow> m_unsolicited aem | _ \<Rightarrow> False)"

definition isVuUnsolicitedResponse :: "vu_delegates \<Rightarrow> aecp_pdu \<Rightarrow> bool" where
  "isVuUnsolicitedResponse vud p \<longleftrightarrow>
     aecp_messageType p = AecpMessageType_VendorUniqueResponse
       \<and> vu_isUnsolicited vud (vu_protocolIdentifier p) p"

definition shouldRearmTimer :: "aecp_pdu \<Rightarrow> bool" where
  "shouldRearmTimer p \<longleftrightarrow>
     aecp_messageType p = AecpMessageType_AemResponse \<and> m_status (aecp_header p) = AemAecpStatus_InProgress"

text \<open>The first block of \<^verbatim>\<open>handleAecpResponse\<close>: a multicast identify notification.\<close>

definition notifyIdentify :: "aecp_pdu \<Rightarrow> world \<Rightarrow> world" where
  "notifyIdentify p w =
     (if aecp_controllerEntityID p = Identify_ControllerEntityID \<and> isAemUnsolicitedResponse p
      then emit [OnAemIdentifyNotification p] w else w)"

definition handleAecpResponse ::
  "vu_delegates \<Rightarrow> aecp_pdu \<Rightarrow> command_sm \<Rightarrow> world \<Rightarrow> command_sm \<times> world"
where
  "handleAecpResponse vud p sm w =
     (let (t, w) = now w;
          controllerID = aecp_controllerEntityID p;
          w = notifyIdentify p w
      in case al_get controllerID sm of
           None \<Rightarrow> (sm, w)
         | Some ce \<Rightarrow>
             if isAemUnsolicitedResponse p then (sm, emit [OnAemUnsolicitedResponse p] w)
             else if isVuUnsolicitedResponse vud p
             then (sm, emit [OnVuUnsolicitedResponse (vu_protocolIdentifier p) p] w)
             else
               let targetID = aecp_targetEntityID p; ch = ce_aecp ce in
               case al_get targetID (ch_inflight ch) of
                 None \<Rightarrow> (sm, w)
               | Some i \<Rightarrow>
                   (case find (\<lambda>c. ci_sequenceID c = aecp_sequenceID p) (if_commands i) of
                      None \<Rightarrow> (sm, emit [OnAecpUnexpectedResponse targetID] w)
                    | Some c \<Rightarrow>
                        if m_destAddress (aecp_header (ci_command c)) \<noteq> m_srcAddress (aecp_header p)
                        then (sm, w)
                        else if shouldRearmTimer p
                        then let (ch, w) = rearm_command (aecp_engine vud) targetID (aecp_sequenceID p) ch w
                             in (al_put controllerID (ce\<lparr>ce_aecp := ch\<rparr>) sm, w)
                        else let (ch, w) = complete_command (aecp_engine vud) targetID (aecp_sequenceID p)
                                             (ci_resultHandler c) (PAecp p) ch w
                             in (al_put controllerID (ce\<lparr>ce_aecp := ch\<rparr>) sm,
                                 emit [OnAecpResponseTime targetID ((t - ci_sendTime c) div ms 1)] w)))"

definition handleAcmpResponse ::
  "acmpdu \<Rightarrow> command_sm \<Rightarrow> world \<Rightarrow> command_sm \<times> world"
where
  "handleAcmpResponse p sm w =
     (case al_get (m_acmpControllerEntityID p) sm of
        None \<Rightarrow> (sm, w)
      | Some ce \<Rightarrow>
          let targetMacAddress = m_destAddress p; ch = ce_acmp ce in
          case al_get targetMacAddress (ch_inflight ch) of
            None \<Rightarrow> (sm, w)
          | Some i \<Rightarrow>
              (case find (\<lambda>c. ci_sequenceID c = m_acmpSequenceID p) (if_commands i) of
                 None \<Rightarrow> (sm, w)
               | Some c \<Rightarrow>
                   if unat (m_controlData p) = unat (m_controlData (ci_command c)) + 1
                   then let (ch, w) = complete_command acmp_engine targetMacAddress (m_acmpSequenceID p)
                                        (ci_resultHandler c) (PAcmp p) ch w
                        in (al_put (m_acmpControllerEntityID p) (ce\<lparr>ce_acmp := ch\<rparr>) sm, w)
                   else (sm, w)))"

section \<open>Commands\<close>

definition sendAecpCommand ::
  "vu_delegates \<Rightarrow> aecp_pdu \<Rightarrow> handler \<Rightarrow> command_sm \<Rightarrow> world \<Rightarrow> error \<times> command_sm \<times> world"
where
  "sendAecpCommand vud p onResult sm w =
     (case al_get (aecp_controllerEntityID p) sm of
        None \<Rightarrow> (InvalidEntityType, sm, w)
      | Some ce \<Rightarrow>
          let (sequenceID, ch) = getNextSequenceID (ce_aecp ce);
              (ch, w) = queue_command (aecp_engine vud) (aecp_targetEntityID p) sequenceID
                          (setAecpSequenceID sequenceID p) onResult ch w
          in (NoError, al_put (aecp_controllerEntityID p) (ce\<lparr>ce_aecp := ch\<rparr>) sm, w))"

definition sendAcmpCommand ::
  "acmpdu \<Rightarrow> handler \<Rightarrow> command_sm \<Rightarrow> world \<Rightarrow> error \<times> command_sm \<times> world"
where
  "sendAcmpCommand p onResult sm w =
     (case al_get (m_acmpControllerEntityID p) sm of
        None \<Rightarrow> (InvalidEntityType, sm, w)
      | Some ce \<Rightarrow>
          let (sequenceID, ch) = getNextSequenceID (ce_acmp ce);
              (ch, w) = queue_command acmp_engine (m_destAddress p) sequenceID
                          (setAcmpSequenceID sequenceID p) onResult ch w
          in (NoError, al_put (m_acmpControllerEntityID p) (ce\<lparr>ce_acmp := ch\<rparr>) sm, w))"

section \<open>Runs\<close>

text \<open>A call of one of the public methods, and what a sequence of calls does.\<close>

datatype command_op =
    RegisterEntity entity_id
  | UnregisterEntity entity_id
  | DiscardTowards entity_id
  | CheckTimeouts
  | AecpResponse aecp_pdu
  | AcmpResponse acmpdu
  | SendAecp aecp_pdu handler
  | SendAcmp acmpdu handler

fun command_step :: "vu_delegates \<Rightarrow> command_op \<Rightarrow> command_sm \<times> world \<Rightarrow> command_sm \<times> world" where
  "command_step vud (RegisterEntity i) (sm, w) = (command_registerLocalEntity i sm, w)"
| "command_step vud (UnregisterEntity i) (sm, w) = command_unregisterLocalEntity i sm w"
| "command_step vud (DiscardTowards i) (sm, w) = (discardAECPCommandsTowardsEntity i sm, w)"
| "command_step vud CheckTimeouts (sm, w) = checkInflightCommandsTimeoutExpiracy vud sm w"
| "command_step vud (AecpResponse p) (sm, w) = handleAecpResponse vud p sm w"
| "command_step vud (AcmpResponse p) (sm, w) = handleAcmpResponse p sm w"
| "command_step vud (SendAecp p h) (sm, w) = snd (sendAecpCommand vud p h sm w)"
| "command_step vud (SendAcmp p h) (sm, w) = snd (sendAcmpCommand p h sm w)"

definition command_run :: "vu_delegates \<Rightarrow> command_op list \<Rightarrow> command_sm \<times> world \<Rightarrow> command_sm \<times> world" where
  "command_run vud ops st = fold (command_step vud) ops st"

section \<open>The machine's balance, budget and limit\<close>

interpretation aecp: command_engine "aecp_engine vud" for vud
  by unfold_locales (simp_all add: aecp_engine_def)

interpretation acmp: command_engine acmp_engine
  by unfold_locales (simp_all add: acmp_engine_def)

lemma engine_pdu [simp]: "e_pdu (aecp_engine vud) = PAecp" "e_pdu acmp_engine = PAcmp"
  by (simp_all add: aecp_engine_def acmp_engine_def)

definition ce_handlers :: "command_entity \<Rightarrow> handler multiset" where
  "ce_handlers ce = ch_handlers (ce_aecp ce) + ch_handlers (ce_acmp ce)"

definition sm_handlers :: "command_sm \<Rightarrow> handler multiset" where
  "sm_handlers sm = al_sum ce_handlers sm"

definition ce_sends :: "(pdu \<Rightarrow> bool) \<Rightarrow> command_entity \<Rightarrow> nat" where
  "ce_sends P ce = ch_sends P PAecp (ce_aecp ce) + ch_sends P PAcmp (ce_acmp ce)"

definition sm_sends :: "(pdu \<Rightarrow> bool) \<Rightarrow> command_sm \<Rightarrow> nat" where
  "sm_sends P sm = al_sum (ce_sends P) sm"

definition ce_bounded :: "command_entity \<Rightarrow> bool" where
  "ce_bounded ce \<longleftrightarrow>
     (\<forall>x\<in>set (ch_inflight (ce_aecp ce)). length (if_commands (snd x)) \<le> 10)
     \<and> (\<forall>x\<in>set (ch_inflight (ce_acmp ce)). length (if_commands (snd x)) \<le> 10)"

definition sm_bounded :: "command_sm \<Rightarrow> bool" where
  "sm_bounded sm \<longleftrightarrow> (\<forall>x\<in>set sm. ce_bounded (snd x))"

definition any_delegates :: vu_delegates where
  "any_delegates = \<lparr>vu_timeoutMsec = (\<lambda>i p. 250), vu_isUnsolicited = (\<lambda>i p. False)\<rparr>"

lemma ce_bounded_iff: "ce_bounded ce \<longleftrightarrow> ch_bounded (aecp_engine vud) (ce_aecp ce) \<and> ch_bounded acmp_engine (ce_acmp ce)"
  by (auto simp: ce_bounded_def ch_bounded_def aecp_engine_def acmp_engine_def getMaxInflightAcmpMessages_def
      DefaultMaxAecpInflightCommands_def DefaultMaxAcmpMulticastInflightCommands_def
      DefaultMaxAcmpUnicastInflightCommands_def)

text \<open>The handlers a call takes charge of, and the ones it forgets without calling them.\<close>

fun command_accepted :: "command_op \<Rightarrow> command_sm \<Rightarrow> handler multiset" where
  "command_accepted (SendAecp p h) sm = (if al_get (aecp_controllerEntityID p) sm = None then {#} else {#h#})"
| "command_accepted (SendAcmp p h) sm = (if al_get (m_acmpControllerEntityID p) sm = None then {#} else {#h#})"
| "command_accepted op sm = {#}"

definition ch_waiting :: "('k, 'm) channel \<Rightarrow> handler multiset" where
  "ch_waiting ch = queue_handlers (ch_queue ch) + mset (map snd (ch_scheduledErrors ch))"

fun command_lost :: "command_op \<Rightarrow> command_sm \<Rightarrow> handler multiset" where
  "command_lost (UnregisterEntity i) sm =
     al_part (\<lambda>ce. ch_waiting (ce_aecp ce) + ch_waiting (ce_acmp ce)) i sm"
| "command_lost (DiscardTowards k) sm = al_sum (\<lambda>ce. target_handlers k (ce_aecp ce)) sm"
| "command_lost op sm = {#}"

text \<open>How many of the messages satisfying a predicate a call accepts for sending.\<close>

fun command_messages :: "(pdu \<Rightarrow> bool) \<Rightarrow> command_op \<Rightarrow> command_sm \<Rightarrow> nat" where
  "command_messages P (SendAecp p h) sm =
     al_part (\<lambda>ce. of_bool (P (PAecp (setAecpSequenceID (ch_currentSequenceID (ce_aecp ce)) p))))
       (aecp_controllerEntityID p) sm"
| "command_messages P (SendAcmp p h) sm =
     al_part (\<lambda>ce. of_bool (P (PAcmp (setAcmpSequenceID (ch_currentSequenceID (ce_acmp ce)) p))))
       (m_acmpControllerEntityID p) sm"
| "command_messages P op sm = 0"

text \<open>Replacing a local entity whose channels moved by known amounts.\<close>

lemma sm_put:
  assumes "al_get i sm = Some ce"
  shows "sm_handlers (al_put i ce' sm) + ce_handlers ce = sm_handlers sm + ce_handlers ce'"
    and "sm_sends P (al_put i ce' sm) + ce_sends P ce = sm_sends P sm + ce_sends P ce'"
    and "sm_bounded sm \<Longrightarrow> ce_bounded ce' \<Longrightarrow> sm_bounded (al_put i ce' sm)"
    and "sm_bounded sm \<Longrightarrow> ce_bounded ce"
proof -
  show "sm_handlers (al_put i ce' sm) + ce_handlers ce = sm_handlers sm + ce_handlers ce'"
    using al_sum_put [of ce_handlers i ce' sm] assms by (simp add: sm_handlers_def al_part_def)
  show "sm_sends P (al_put i ce' sm) + ce_sends P ce = sm_sends P sm + ce_sends P ce'"
    using al_sum_put [of "ce_sends P" i ce' sm] assms by (simp add: sm_sends_def al_part_def)
  show "sm_bounded (al_put i ce' sm)" if "sm_bounded sm" "ce_bounded ce'"
    using al_put_all [of sm "\<lambda>k ce. ce_bounded ce" i ce'] that by (simp add: sm_bounded_def)
  show "ce_bounded ce" if "sm_bounded sm"
    using al_get_in_set [OF assms] that by (force simp: sm_bounded_def)
qed

text \<open>The three quantities of a machine in a world, as one record of facts about an operation.\<close>

definition sm_moves ::
  "command_sm \<times> world \<Rightarrow> command_sm \<times> world \<Rightarrow> handler multiset \<Rightarrow> ((pdu \<Rightarrow> bool) \<Rightarrow> nat) \<Rightarrow> bool"
where
  "sm_moves st st' new msgs \<longleftrightarrow>
     sm_handlers (fst st') + handled_by (w_trace (snd st'))
       = sm_handlers (fst st) + handled_by (w_trace (snd st)) + new
     \<and> (\<forall>P. sm_sends P (fst st') + sent_count P (w_trace (snd st'))
              \<le> sm_sends P (fst st) + sent_count P (w_trace (snd st)) + 2 * msgs P)
     \<and> (sm_bounded (fst st) \<longrightarrow> sm_bounded (fst st'))"

lemma sm_moves_refl [simp]: "sm_moves st st {#} (\<lambda>P. 0)"
  by (simp add: sm_moves_def)

lemma sm_moves_quiet:
  "handled_by evs = {#} \<Longrightarrow> (\<And>P. sent_count P evs = 0) \<Longrightarrow> sm_moves (sm, w) (sm, emit evs w) {#} (\<lambda>P. 0)"
  by (simp add: sm_moves_def)

lemma ce_handlers_aecp:
  "ce_handlers ce = ch_handlers (ce_aecp ce) + ch_handlers (ce_acmp ce)"
  "ce_handlers (ce\<lparr>ce_aecp := ch\<rparr>) = ch_handlers ch + ch_handlers (ce_acmp ce)"
  by (simp_all add: ce_handlers_def)

lemma ce_handlers_acmp:
  "ce_handlers ce = ch_handlers (ce_acmp ce) + ch_handlers (ce_aecp ce)"
  "ce_handlers (ce\<lparr>ce_acmp := ch'\<rparr>) = ch_handlers ch' + ch_handlers (ce_aecp ce)"
  by (simp_all add: ce_handlers_def add.commute)

lemma mset_shift:
  fixes S S' :: "'a multiset"
  assumes "S' + (a + b) = S + (a' + b)" and "a' + h' = a + h + n"
  shows "S' + h' = S + h + n"
proof (rule multiset_eqI)
  fix x
  show "count (S' + h') x = count (S + h + n) x"
    using arg_cong [OF assms(1), of "\<lambda>M. count M x"] arg_cong [OF assms(2), of "\<lambda>M. count M x"] by simp
qed

text \<open>An operation on the AECP channel of a local entity, and one on its ACMP channel.\<close>

lemma sm_moves_aecp:
  assumes get: "al_get i sm = Some ce"
    and ledger: "ch_ledger ch w' = ch_ledger (ce_aecp ce) w + new"
    and budget: "\<And>P. ch_budget P PAecp ch w' \<le> ch_budget P PAecp (ce_aecp ce) w + 2 * msgs P"
    and bounded: "\<And>vud. ch_bounded (aecp_engine vud) (ce_aecp ce) \<Longrightarrow> ch_bounded (aecp_engine vud) ch"
  shows "sm_moves (sm, w) (al_put i (ce\<lparr>ce_aecp := ch\<rparr>) sm, w') new msgs"
proof -
  have "sm_handlers (al_put i (ce\<lparr>ce_aecp := ch\<rparr>) sm) + handled_by (w_trace w') =
      sm_handlers sm + handled_by (w_trace w) + new"
  proof (rule mset_shift)
    show "sm_handlers (al_put i (ce\<lparr>ce_aecp := ch\<rparr>) sm) + (ch_handlers (ce_aecp ce) + ch_handlers (ce_acmp ce))
        = sm_handlers sm + (ch_handlers ch + ch_handlers (ce_acmp ce))"
      using sm_put(1) [OF get, of "ce\<lparr>ce_aecp := ch\<rparr>"]
      unfolding ce_handlers_aecp(2) unfolding ce_handlers_aecp(1) [of ce] .
    show "ch_handlers ch + handled_by (w_trace w') = ch_handlers (ce_aecp ce) + handled_by (w_trace w) + new"
      using ledger by (simp only: ch_ledger_def)
  qed
  moreover have "sm_sends P (al_put i (ce\<lparr>ce_aecp := ch\<rparr>) sm) + sent_count P (w_trace w')
      \<le> sm_sends P sm + sent_count P (w_trace w) + 2 * msgs P" for P
    using sm_put(2) [OF get, of P "ce\<lparr>ce_aecp := ch\<rparr>"] budget [of P]
    by (simp add: ce_sends_def ch_budget_def)
  moreover have "sm_bounded (al_put i (ce\<lparr>ce_aecp := ch\<rparr>) sm)" if "sm_bounded sm"
    using sm_put(4) [OF get that] bounded
    by (intro sm_put(3) [OF get that]) (simp add: ce_bounded_iff [where vud = any_delegates])
  ultimately show ?thesis by (simp add: sm_moves_def)
qed

lemma sm_moves_acmp:
  assumes get: "al_get i sm = Some ce"
    and ledger: "ch_ledger ch w' = ch_ledger (ce_acmp ce) w + new"
    and budget: "\<And>P. ch_budget P PAcmp ch w' \<le> ch_budget P PAcmp (ce_acmp ce) w + 2 * msgs P"
    and bounded: "ch_bounded acmp_engine (ce_acmp ce) \<Longrightarrow> ch_bounded acmp_engine ch"
  shows "sm_moves (sm, w) (al_put i (ce\<lparr>ce_acmp := ch\<rparr>) sm, w') new msgs"
proof -
  have "sm_handlers (al_put i (ce\<lparr>ce_acmp := ch\<rparr>) sm) + handled_by (w_trace w') =
      sm_handlers sm + handled_by (w_trace w) + new"
  proof (rule mset_shift)
    show "sm_handlers (al_put i (ce\<lparr>ce_acmp := ch\<rparr>) sm) + (ch_handlers (ce_acmp ce) + ch_handlers (ce_aecp ce))
        = sm_handlers sm + (ch_handlers ch + ch_handlers (ce_aecp ce))"
      using sm_put(1) [OF get, of "ce\<lparr>ce_acmp := ch\<rparr>"]
      unfolding ce_handlers_acmp(2) unfolding ce_handlers_acmp(1) [of ce] .
    show "ch_handlers ch + handled_by (w_trace w') = ch_handlers (ce_acmp ce) + handled_by (w_trace w) + new"
      using ledger by (simp only: ch_ledger_def)
  qed
  moreover have "sm_sends P (al_put i (ce\<lparr>ce_acmp := ch\<rparr>) sm) + sent_count P (w_trace w')
      \<le> sm_sends P sm + sent_count P (w_trace w) + 2 * msgs P" for P
    using sm_put(2) [OF get, of P "ce\<lparr>ce_acmp := ch\<rparr>"] budget [of P]
    by (simp add: ce_sends_def ch_budget_def)
  moreover have "sm_bounded (al_put i (ce\<lparr>ce_acmp := ch\<rparr>) sm)" if "sm_bounded sm"
    using sm_put(4) [OF get that] bounded
    by (intro sm_put(3) [OF get that]) (simp add: ce_bounded_iff [where vud = any_delegates])
  ultimately show ?thesis by (simp add: sm_moves_def)
qed

lemma sm_moves_trans:
  "sm_moves st st1 {#} (\<lambda>P. 0) \<Longrightarrow> sm_moves st1 st2 new msgs \<Longrightarrow> sm_moves st st2 new msgs"
  unfolding sm_moves_def by (auto intro: order_trans)

lemma sendAecpCommand_moves:
  assumes "sendAecpCommand vud p h sm w = (err, sm', w')"
  shows "sm_moves (sm, w) (sm', w') (command_accepted (SendAecp p h) sm) (\<lambda>P. command_messages P (SendAecp p h) sm)"
proof (cases "al_get (aecp_controllerEntityID p) sm")
  case None
  then show ?thesis using assms by (simp add: sendAecpCommand_def al_part_def)
next
  case (Some ce)
  let ?s = "ch_currentSequenceID (ce_aecp ce)"
  let ?ch0 = "(ce_aecp ce)\<lparr>ch_currentSequenceID := ?s + 1\<rparr>"
  obtain ch w1 where q: "queue_command (aecp_engine vud) (aecp_targetEntityID p) ?s
      (setAecpSequenceID ?s p) h ?ch0 w = (ch, w1)" by fastforce
  have res: "sm' = al_put (aecp_controllerEntityID p) (ce\<lparr>ce_aecp := ch\<rparr>) sm" "w' = w1"
    using assms Some q by (simp_all add: sendAecpCommand_def getNextSequenceID_def Let_def)
  have same: "ch_ledger ?ch0 w = ch_ledger (ce_aecp ce) w"
    "ch_budget P PAecp ?ch0 w = ch_budget P PAecp (ce_aecp ce) w"
    "ch_bounded (aecp_engine v) ?ch0 = ch_bounded (aecp_engine v) (ce_aecp ce)" for P v
    by (simp_all add: ch_ledger_def ch_handlers_def ch_budget_def ch_sends_def ch_bounded_def)
  have indep: "ch_bounded (aecp_engine v) c = ch_bounded (aecp_engine vud) c" for v c
    by (simp add: ch_bounded_def aecp_engine_def)
  show ?thesis
    unfolding res
  proof (rule sm_moves_aecp [OF Some])
    show "ch_ledger ch w1 = ch_ledger (ce_aecp ce) w + command_accepted (SendAecp p h) sm"
      using aecp.queue_command_keeps(1) [OF q] same(1) Some by simp
    show "ch_budget P PAecp ch w1 \<le> ch_budget P PAecp (ce_aecp ce) w + 2 * command_messages P (SendAecp p h) sm"
      for P using aecp.queue_command_keeps(2) [OF q, of P] same(2) Some by (simp add: al_part_def)
    show "ch_bounded (aecp_engine v) ch" if "ch_bounded (aecp_engine v) (ce_aecp ce)" for v
      using aecp.queue_command_keeps(3) [OF q] same(3) that indep by blast
  qed
qed

lemma sendAcmpCommand_moves:
  assumes "sendAcmpCommand p h sm w = (err, sm', w')"
  shows "sm_moves (sm, w) (sm', w') (command_accepted (SendAcmp p h) sm) (\<lambda>P. command_messages P (SendAcmp p h) sm)"
proof (cases "al_get (m_acmpControllerEntityID p) sm")
  case None
  then show ?thesis using assms by (simp add: sendAcmpCommand_def al_part_def)
next
  case (Some ce)
  let ?s = "ch_currentSequenceID (ce_acmp ce)"
  let ?ch0 = "(ce_acmp ce)\<lparr>ch_currentSequenceID := ?s + 1\<rparr>"
  obtain ch w1 where q: "queue_command acmp_engine (m_destAddress p) ?s (setAcmpSequenceID ?s p) h ?ch0 w = (ch, w1)"
    by fastforce
  have res: "sm' = al_put (m_acmpControllerEntityID p) (ce\<lparr>ce_acmp := ch\<rparr>) sm" "w' = w1"
    using assms Some q by (simp_all add: sendAcmpCommand_def getNextSequenceID_def Let_def)
  have same: "ch_ledger ?ch0 w = ch_ledger (ce_acmp ce) w"
    "ch_budget P PAcmp ?ch0 w = ch_budget P PAcmp (ce_acmp ce) w"
    "ch_bounded acmp_engine ?ch0 = ch_bounded acmp_engine (ce_acmp ce)" for P
    by (simp_all add: ch_ledger_def ch_handlers_def ch_budget_def ch_sends_def ch_bounded_def)
  show ?thesis
    unfolding res
  proof (rule sm_moves_acmp [OF Some])
    show "ch_ledger ch w1 = ch_ledger (ce_acmp ce) w + command_accepted (SendAcmp p h) sm"
      using acmp.queue_command_keeps(1) [OF q] same(1) Some by simp
    show "ch_budget P PAcmp ch w1 \<le> ch_budget P PAcmp (ce_acmp ce) w + 2 * command_messages P (SendAcmp p h) sm"
      for P using acmp.queue_command_keeps(2) [OF q, of P] same(2) Some by (simp add: al_part_def)
    show "ch_bounded acmp_engine ch" if "ch_bounded acmp_engine (ce_acmp ce)"
      using acmp.queue_command_keeps(3) [OF q] same(3) that by blast
  qed
qed

lemma bounded_indep: "ch_bounded (aecp_engine v) c = ch_bounded (aecp_engine vud) c"
  by (simp add: ch_bounded_def aecp_engine_def)

lemma handleAecpResponse_moves:
  assumes "handleAecpResponse vud p sm w = (sm', w')"
  shows "sm_moves (sm, w) (sm', w') {#} (\<lambda>P. 0)"
proof -
  let ?w1 = "snd (now w)"
  let ?w2 = "notifyIdentify p ?w1"
  have start: "sm_moves (sm, w) (sm, ?w2) {#} (\<lambda>P. 0)"
    by (simp add: sm_moves_def notifyIdentify_def)
  have "sm_moves (sm, ?w2) (sm', w') {#} (\<lambda>P. 0)"
  proof (cases "al_get (aecp_controllerEntityID p) sm")
    case None
    then show ?thesis using assms by (simp add: handleAecpResponse_def now_def Let_def)
  next
    case (Some ce)
    let ?ch = "ce_aecp ce" and ?k = "aecp_targetEntityID p" and ?s = "aecp_sequenceID p"
    let ?find = "\<lambda>i. find (\<lambda>c. ci_sequenceID c = ?s) (if_commands i)"
    consider (unsol) "isAemUnsolicitedResponse p \<or> isVuUnsolicitedResponse vud p"
      | (none) "\<not> (isAemUnsolicitedResponse p \<or> isVuUnsolicitedResponse vud p)" "al_get ?k (ch_inflight ?ch) = None"
      | (unknown) i where "\<not> (isAemUnsolicitedResponse p \<or> isVuUnsolicitedResponse vud p)"
          "al_get ?k (ch_inflight ?ch) = Some i" "?find i = None"
      | (found) i c where "\<not> (isAemUnsolicitedResponse p \<or> isVuUnsolicitedResponse vud p)"
          "al_get ?k (ch_inflight ?ch) = Some i" "?find i = Some c"
      by (metis not_None_eq)
    then show ?thesis
    proof cases
      case unsol
      then show ?thesis using assms Some
        by (auto simp: handleAecpResponse_def now_def Let_def intro!: sm_moves_quiet split: if_splits)
    next
      case none
      then show ?thesis using assms Some by (simp add: handleAecpResponse_def now_def Let_def)
    next
      case unknown
      then show ?thesis using assms Some
        by (auto simp: handleAecpResponse_def now_def Let_def intro!: sm_moves_quiet)
    next
      case found
      consider (sender) "m_destAddress (aecp_header (ci_command c)) \<noteq> m_srcAddress (aecp_header p)"
        | (rearm) "m_destAddress (aecp_header (ci_command c)) = m_srcAddress (aecp_header p)" "shouldRearmTimer p"
        | (completed) "m_destAddress (aecp_header (ci_command c)) = m_srcAddress (aecp_header p)" "\<not> shouldRearmTimer p"
        by blast
      then show ?thesis
      proof cases
        case sender
        then show ?thesis using assms Some found by (simp add: handleAecpResponse_def now_def Let_def)
      next
        case rearm
        obtain ch w3 where r: "rearm_command (aecp_engine vud) ?k ?s ?ch ?w2 = (ch, w3)" by fastforce
        then have res: "sm' = al_put (aecp_controllerEntityID p) (ce\<lparr>ce_aecp := ch\<rparr>) sm" "w' = w3"
          using assms Some found rearm by (simp_all add: handleAecpResponse_def now_def Let_def)
        show ?thesis
          unfolding res
          using aecp.rearm_command_keeps(1,3) [OF r] aecp.rearm_command_keeps(2) [OF r] bounded_indep
          by (intro sm_moves_aecp [OF Some]) (auto simp: le_refl)
      next
        case completed
        obtain ch w3 where r: "complete_command (aecp_engine vud) ?k ?s (ci_resultHandler c) (PAecp p) ?ch ?w2 = (ch, w3)"
          by fastforce
        then have res: "sm' = al_put (aecp_controllerEntityID p) (ce\<lparr>ce_aecp := ch\<rparr>) sm"
            "w' = emit [OnAecpResponseTime ?k ((w_clock w (w_reads w) - ci_sendTime c) div ms 1)] w3"
          using assms Some found completed by (simp_all add: handleAecpResponse_def now_def Let_def)
        note keeps = aecp.complete_command_keeps [OF r found(2,3)]
        have "sm_moves (sm, ?w2) (sm', w3) {#} (\<lambda>P. 0)"
          unfolding res
          using keeps(1,3) keeps(2) bounded_indep by (intro sm_moves_aecp [OF Some]) auto
        moreover have "sm_moves (sm', w3) (sm', w') {#} (\<lambda>P. 0)"
          unfolding res by (rule sm_moves_quiet) simp_all
        ultimately show ?thesis by (rule sm_moves_trans)
      qed
    qed
  qed
  with start show ?thesis by (rule sm_moves_trans)
qed

lemma handleAcmpResponse_moves:
  assumes "handleAcmpResponse p sm w = (sm', w')"
  shows "sm_moves (sm, w) (sm', w') {#} (\<lambda>P. 0)"
proof (cases "sm' = sm \<and> w' = w")
  case True
  then show ?thesis by simp
next
  case False
  then obtain ce i c where found: "al_get (m_acmpControllerEntityID p) sm = Some ce"
    "al_get (m_destAddress p) (ch_inflight (ce_acmp ce)) = Some i"
    "find (\<lambda>c. ci_sequenceID c = m_acmpSequenceID p) (if_commands i) = Some c"
    "unat (m_controlData p) = unat (m_controlData (ci_command c)) + 1"
    using assms by (auto simp: handleAcmpResponse_def Let_def split: option.splits if_splits)
  obtain ch w3 where r: "complete_command acmp_engine (m_destAddress p) (m_acmpSequenceID p)
      (ci_resultHandler c) (PAcmp p) (ce_acmp ce) w = (ch, w3)" by fastforce
  then have res: "sm' = al_put (m_acmpControllerEntityID p) (ce\<lparr>ce_acmp := ch\<rparr>) sm" "w' = w3"
    using assms found by (simp_all add: handleAcmpResponse_def)
  note keeps = acmp.complete_command_keeps [OF r found(2,3)]
  show ?thesis
    unfolding res using keeps(1,3) keeps(2) by (intro sm_moves_acmp [OF found(1)]) auto
qed

text \<open>The timeout check, entity by entity.\<close>

lemma ce_handlers_eq: "ce_handlers \<lparr>ce_aecp = a, ce_acmp = b\<rparr> = ch_handlers a + ch_handlers b"
  by (simp add: ce_handlers_def)

lemma mset_two_channels:
  fixes a :: "'a multiset"
  assumes "a1 + h1 = a + h" and "b1 + h2 = b + h1" and "a2 + h3 = a1 + h2" and "b2 + h4 = b1 + h3"
  shows "a2 + b2 + h4 = a + b + h"
proof (rule multiset_eqI)
  fix x
  show "count (a2 + b2 + h4) x = count (a + b + h) x"
    using assms [THEN arg_cong [where f = "\<lambda>M. count M x"]] by simp
qed

lemma check_entity_moves:
  assumes "check_entity vud t ce w = (ce', w')"
  shows "ce_handlers ce' + handled_by (w_trace w') = ce_handlers ce + handled_by (w_trace w)"
    and "ce_sends P ce' + sent_count P (w_trace w') \<le> ce_sends P ce + sent_count P (w_trace w)"
    and "ce_bounded ce \<Longrightarrow> ce_bounded ce'"
proof -
  obtain a1 w1 where a1: "check_channel (aecp_engine vud) t (ce_aecp ce) w = (a1, w1)" by fastforce
  obtain b1 w2 where b1: "check_channel acmp_engine t (ce_acmp ce) w1 = (b1, w2)" by fastforce
  obtain a2 w3 where a2: "notify_scheduled_errors a1 w2 = (a2, w3)" by fastforce
  obtain b2 w4 where b2: "notify_scheduled_errors b1 w3 = (b2, w4)" by fastforce
  have res: "ce' = \<lparr>ce_aecp = a2, ce_acmp = b2\<rparr>" "w' = w4"
    using assms a1 b1 a2 b2 by (simp_all add: check_entity_def)
  note ka = aecp.check_channel_keeps [OF a1] and kb = acmp.check_channel_keeps [OF b1]
  note na = notify_scheduled_errors_keeps [OF a2] and nb = notify_scheduled_errors_keeps [OF b2]
  show "ce_handlers ce' + handled_by (w_trace w') = ce_handlers ce + handled_by (w_trace w)"
    unfolding res ce_handlers_eq ce_handlers_aecp(1)
    using ka [of "\<lambda>p. True"] kb [of "\<lambda>p. True"] na(1) nb(1)
    by (intro mset_two_channels [of "ch_handlers a1" "handled_by (w_trace w1)" _ _ "ch_handlers b1"
          "handled_by (w_trace w2)"]) (simp_all add: ch_ledger_def)
  show "ce_sends P ce' + sent_count P (w_trace w') \<le> ce_sends P ce + sent_count P (w_trace w)"
    using ka [of P] kb [of P] na(2) [of P PAecp] nb(2) [of P PAcmp] na(6) [of P] nb(6) [of P]
    by (simp add: res ce_sends_def ch_budget_def)
  show "ce_bounded ce'" if "ce_bounded ce"
    using that ka kb na(3) nb(3) by (simp add: res ce_bounded_iff [where vud = vud])
qed

lemma check_entities_moves:
  "check_entities vud t sm w = (sm', w') \<Longrightarrow> sm_moves (sm, w) (sm', w') {#} (\<lambda>P. 0)"
proof (induction sm arbitrary: sm' w w')
  case Nil
  then show ?case by simp
next
  case (Cons x sm)
  obtain ce1 w1 where c: "check_entity vud t (snd x) w = (ce1, w1)" by fastforce
  obtain sm2 w2 where r: "check_entities vud t sm w1 = (sm2, w2)" by fastforce
  have res: "sm' = (fst x, ce1) # sm2" "w' = w2" using Cons.prems c r by simp_all
  note ce = check_entity_moves [OF c] and IH = Cons.IH [OF r]
  have "sm_handlers sm' + handled_by (w_trace w') = sm_handlers (x # sm) + handled_by (w_trace w)"
  proof (rule multiset_eqI)
    fix h
    show "count (sm_handlers sm' + handled_by (w_trace w')) h = count (sm_handlers (x # sm) + handled_by (w_trace w)) h"
      using arg_cong [OF ce(1), of "\<lambda>M. count M h"]
        arg_cong [OF conjunct1 [OF IH [unfolded sm_moves_def]], of "\<lambda>M. count M h"]
      by (simp add: res sm_handlers_def)
  qed
  moreover have "sm_sends P sm' + sent_count P (w_trace w') \<le> sm_sends P (x # sm) + sent_count P (w_trace w)" for P
    using ce(2) [of P] IH [unfolded sm_moves_def] by (auto simp: res sm_sends_def dest!: spec [of _ P])
  moreover have "sm_bounded sm'" if "sm_bounded (x # sm)"
    using that ce(3) IH by (auto simp: res sm_bounded_def sm_moves_def)
  ultimately show ?case by (simp add: sm_moves_def)
qed

lemma check_entities_keys: "check_entities vud t sm w = (sm', w') \<Longrightarrow> al_keys sm' = al_keys sm"
  by (induction sm arbitrary: sm' w w') (auto split: prod.splits)

text \<open>Registration, removal and discarding.\<close>

lemma register_moves:
  "sm_moves (sm, w) (command_registerLocalEntity i sm, w) {#} (\<lambda>P. 0)"
proof (cases "al_get i sm")
  case None
  let ?ce = "\<lparr>ce_aecp = channel_new, ce_acmp = channel_new\<rparr>"
  have "ce_handlers ?ce = {#}" "ce_sends P ?ce = 0" "ce_bounded ?ce" for P
    by (simp_all add: ce_handlers_def ch_handlers_def queue_handlers_def channel_new_def ce_sends_def
        ch_sends_def queued_sends_def ce_bounded_def)
  then show ?thesis
    using None al_sum_put [of ce_handlers i ?ce sm] al_sum_put [of "ce_sends P" i ?ce sm for P]
      al_put_all [of sm "\<lambda>k ce. ce_bounded ce" i ?ce]
    by (simp add: sm_moves_def command_registerLocalEntity_def sm_handlers_def sm_sends_def sm_bounded_def
        al_part_def)
qed (simp add: command_registerLocalEntity_def)

lemma unregister_moves:
  assumes "command_unregisterLocalEntity i sm w = (sm', w')" and "al_ok sm"
  shows "sm_handlers sm' + handled_by (w_trace w') + command_lost (UnregisterEntity i) sm
      = sm_handlers sm + handled_by (w_trace w)"
    and "sm_sends P sm' + sent_count P (w_trace w') \<le> sm_sends P sm + sent_count P (w_trace w)"
    and "sm_bounded sm \<Longrightarrow> sm_bounded sm'"
proof -
  have sent: "sent_count P (cancel_inflight ch) = 0" for P and ch :: "('k, 'm) channel"
    by (auto simp: cancel_inflight_def sent_count_def sum_list_eq_0_iff)
  show "sm_handlers sm' + handled_by (w_trace w') + command_lost (UnregisterEntity i) sm
      = sm_handlers sm + handled_by (w_trace w)"
    using assms al_sum_del [OF assms(2), of ce_handlers i]
    by (auto simp: command_unregisterLocalEntity_def sm_handlers_def al_part_def ch_waiting_def
        handled_by_cancel_inflight ce_handlers_def ch_handlers_def ac_simps split: option.splits)
  show "sm_sends P sm' + sent_count P (w_trace w') \<le> sm_sends P sm + sent_count P (w_trace w)"
    using assms al_sum_del [OF assms(2), of "ce_sends P" i]
    by (auto simp: command_unregisterLocalEntity_def sm_sends_def al_part_def sent split: option.splits)
  show "sm_bounded sm'" if "sm_bounded sm"
    using assms that by (auto simp: command_unregisterLocalEntity_def sm_bounded_def split: option.splits)
qed

lemma discard_moves:
  shows "sm_handlers (discardAECPCommandsTowardsEntity k sm) + command_lost (DiscardTowards k) sm = sm_handlers sm"
    and "sm_sends P (discardAECPCommandsTowardsEntity k sm) \<le> sm_sends P sm"
    and "sm_bounded sm \<Longrightarrow> sm_bounded (discardAECPCommandsTowardsEntity k sm)"
    and "al_keys (discardAECPCommandsTowardsEntity k sm) = al_keys sm"
proof -
  show "sm_handlers (discardAECPCommandsTowardsEntity k sm) + command_lost (DiscardTowards k) sm = sm_handlers sm"
  proof (induction sm)
    case (Cons x sm)
    then show ?case
      using discard_channel_handlers [of k "ce_aecp (snd x)"]
      by (simp add: sm_handlers_def discardAECPCommandsTowardsEntity_def split_beta ce_handlers_def ac_simps)
  qed (simp add: sm_handlers_def discardAECPCommandsTowardsEntity_def)
  show "sm_sends P (discardAECPCommandsTowardsEntity k sm) \<le> sm_sends P sm"
  proof (induction sm)
    case (Cons x sm)
    then show ?case
      using discard_channel_sends [of P PAecp k "ce_aecp (snd x)"]
      by (simp add: sm_sends_def discardAECPCommandsTowardsEntity_def split_beta ce_sends_def)
  qed (simp add: sm_sends_def discardAECPCommandsTowardsEntity_def)
  show "sm_bounded (discardAECPCommandsTowardsEntity k sm)" if "sm_bounded sm"
    using that discard_channel_bounded [of "aecp_engine any_delegates"]
    by (fastforce simp: sm_bounded_def discardAECPCommandsTowardsEntity_def ce_bounded_iff [where vud = any_delegates])
  show "al_keys (discardAECPCommandsTowardsEntity k sm) = al_keys sm"
    by (simp add: discardAECPCommandsTowardsEntity_def split_beta comp_def)
qed

lemma al_ok_keys: "al_keys es' = al_keys es \<Longrightarrow> al_ok es \<Longrightarrow> al_ok es'"
  by (simp add: al_ok_def)

text \<open>Every operation of the machine at once.\<close>

lemma command_step_ok:
  assumes "command_step vud op (sm, w) = (sm', w')" and "al_ok sm"
  shows "al_ok sm'"
proof (cases op)
  case (AecpResponse p)
  then show ?thesis using assms
    by (auto simp: handleAecpResponse_def now_def Let_def split: option.splits if_splits prod.splits)
next
  case (AcmpResponse p)
  then show ?thesis using assms
    by (auto simp: handleAcmpResponse_def Let_def split: option.splits if_splits prod.splits)
next
  case CheckTimeouts
  then show ?thesis using assms check_entities_keys
    by (auto simp: checkInflightCommandsTimeoutExpiracy_def now_def intro: al_ok_keys)
qed (use assms discard_moves(4) in \<open>auto simp: command_registerLocalEntity_def
    command_unregisterLocalEntity_def sendAecpCommand_def sendAcmpCommand_def getNextSequenceID_def Let_def
    intro: al_ok_keys split: option.splits prod.splits\<close>)

lemma command_step_moves:
  assumes "command_step vud op (sm, w) = (sm', w')" and "al_ok sm"
  shows "sm_handlers sm' + handled_by (w_trace w') + command_lost op sm
      = sm_handlers sm + handled_by (w_trace w) + command_accepted op sm"
    and "sm_sends P sm' + sent_count P (w_trace w')
      \<le> sm_sends P sm + sent_count P (w_trace w) + 2 * command_messages P op sm"
    and "sm_bounded sm \<Longrightarrow> sm_bounded sm'"
proof -
  have moves: "sm_moves (sm, w) (sm', w') (command_accepted op sm) (\<lambda>P. command_messages P op sm)
      \<and> command_lost op sm = {#}"
    if "\<forall>i. op \<noteq> UnregisterEntity i" "\<forall>k. op \<noteq> DiscardTowards k"
  proof (cases op)
    case (RegisterEntity i)
    then show ?thesis using assms register_moves [of sm w i] by simp
  next
    case CheckTimeouts
    have "sm_moves (sm, w) (sm, snd (now w)) {#} (\<lambda>P. 0)" by (simp add: sm_moves_def)
    then show ?thesis using CheckTimeouts assms check_entities_moves
      by (auto simp: checkInflightCommandsTimeoutExpiracy_def now_def intro: sm_moves_trans)
  next
    case (AecpResponse p)
    then show ?thesis using assms handleAecpResponse_moves by simp
  next
    case (AcmpResponse p)
    then show ?thesis using assms handleAcmpResponse_moves by simp
  next
    case (SendAecp p h)
    obtain err where "sendAecpCommand vud p h sm w = (err, sm', w')"
      using assms(1) SendAecp by (cases "sendAecpCommand vud p h sm w") auto
    from sendAecpCommand_moves [OF this] show ?thesis using SendAecp by simp
  next
    case (SendAcmp p h)
    obtain err where "sendAcmpCommand p h sm w = (err, sm', w')"
      using assms(1) SendAcmp by (cases "sendAcmpCommand p h sm w") auto
    from sendAcmpCommand_moves [OF this] show ?thesis using SendAcmp by simp
  qed (use that in auto)
  show "sm_handlers sm' + handled_by (w_trace w') + command_lost op sm
      = sm_handlers sm + handled_by (w_trace w) + command_accepted op sm"
    using moves assms unregister_moves(1) discard_moves(1)
    by (cases op) (auto simp: sm_moves_def ac_simps)
  show "sm_sends P sm' + sent_count P (w_trace w')
      \<le> sm_sends P sm + sent_count P (w_trace w) + 2 * command_messages P op sm"
    using moves assms unregister_moves(2) discard_moves(2)
    by (cases op) (auto simp: sm_moves_def)
  show "sm_bounded sm'" if "sm_bounded sm"
    using that moves assms unregister_moves(3) discard_moves(3)
    by (cases op) (auto simp: sm_moves_def)
qed

section \<open>Runs from the start\<close>

definition command_init :: "world \<Rightarrow> command_sm \<times> world" where
  "command_init w0 = ([], w0\<lparr>w_trace := []\<rparr>)"

primrec run_accepted :: "vu_delegates \<Rightarrow> command_op list \<Rightarrow> command_sm \<times> world \<Rightarrow> handler multiset" where
  "run_accepted vud [] st = {#}"
| "run_accepted vud (op # ops) st = command_accepted op (fst st) + run_accepted vud ops (command_step vud op st)"

primrec run_lost :: "vu_delegates \<Rightarrow> command_op list \<Rightarrow> command_sm \<times> world \<Rightarrow> handler multiset" where
  "run_lost vud [] st = {#}"
| "run_lost vud (op # ops) st = command_lost op (fst st) + run_lost vud ops (command_step vud op st)"

primrec run_messages ::
  "vu_delegates \<Rightarrow> (pdu \<Rightarrow> bool) \<Rightarrow> command_op list \<Rightarrow> command_sm \<times> world \<Rightarrow> nat"
where
  "run_messages vud P [] st = 0"
| "run_messages vud P (op # ops) st = command_messages P op (fst st) + run_messages vud P ops (command_step vud op st)"

lemma command_run_simps [simp]:
  "command_run vud [] st = st"
  "command_run vud (op # ops) st = command_run vud ops (command_step vud op st)"
  by (simp_all add: command_run_def)

lemma command_run_moves:
  "al_ok (fst st) \<Longrightarrow>
     al_ok (fst (command_run vud ops st))
     \<and> sm_handlers (fst (command_run vud ops st)) + handled_by (w_trace (snd (command_run vud ops st)))
           + run_lost vud ops st
         = sm_handlers (fst st) + handled_by (w_trace (snd st)) + run_accepted vud ops st
     \<and> sm_sends P (fst (command_run vud ops st)) + sent_count P (w_trace (snd (command_run vud ops st)))
         \<le> sm_sends P (fst st) + sent_count P (w_trace (snd st)) + 2 * run_messages vud P ops st
     \<and> (sm_bounded (fst st) \<longrightarrow> sm_bounded (fst (command_run vud ops st)))"
proof (induction ops arbitrary: st)
  case (Cons op ops)
  obtain sm w where st: "st = (sm, w)" by (cases st)
  obtain sm1 w1 where step: "command_step vud op (sm, w) = (sm1, w1)" by fastforce
  have ok: "al_ok sm" using Cons.prems st by simp
  note IH = Cons.IH [of "(sm1, w1)"] and moves = command_step_moves [OF step ok]
  have ok1: "al_ok sm1" by (rule command_step_ok [OF step ok])
  let ?fin = "command_run vud ops (sm1, w1)"
  have "sm_handlers (fst ?fin) + handled_by (w_trace (snd ?fin)) + (command_lost op sm + run_lost vud ops (sm1, w1))
      = sm_handlers sm + handled_by (w_trace w) + (command_accepted op sm + run_accepted vud ops (sm1, w1))"
  proof (rule multiset_eqI)
    fix h
    show "count (sm_handlers (fst ?fin) + handled_by (w_trace (snd ?fin))
            + (command_lost op sm + run_lost vud ops (sm1, w1))) h
        = count (sm_handlers sm + handled_by (w_trace w) + (command_accepted op sm + run_accepted vud ops (sm1, w1))) h"
      using IH ok1 arg_cong [OF moves(1), of "\<lambda>M. count M h"]
      by (auto dest!: arg_cong [of _ _ "\<lambda>M. count M h"])
  qed
  then show ?case
    using IH ok1 moves(2) [of P] moves(3) by (auto simp: st step)
qed simp

section \<open>Properties\<close>

text \<open>
  C1.  Whatever the sequence of calls, and whatever the clock and the transport of the world
  \<^verbatim>\<open>w0\<close>, every accepted command's result handler
  is accounted for exactly: it has been called, or it still waits in a queue, in flight or among the
  scheduled errors, or it was forgotten by the removal of its local entity or by the discarding of
  its target.  In particular no handler is called more often than it was given to the machine.
\<close>

theorem handlers_accounted:
  "let (sm', w') = command_run vud ops (command_init w0) in
     handled_by (w_trace w') + sm_handlers sm' + run_lost vud ops (command_init w0)
       = run_accepted vud ops (command_init w0)
     \<and> handled_by (w_trace w') \<subseteq># run_accepted vud ops (command_init w0)"
proof -
  have "handled_by (w_trace (snd (command_run vud ops (command_init w0))))
      + sm_handlers (fst (command_run vud ops (command_init w0)))
      + run_lost vud ops (command_init w0) = run_accepted vud ops (command_init w0)"
    using command_run_moves [of "command_init w0" vud ops "\<lambda>p. True"]
    by (simp add: command_init_def sm_handlers_def add.commute)
  moreover from this have "handled_by (w_trace (snd (command_run vud ops (command_init w0))))
      \<subseteq># run_accepted vud ops (command_init w0)"
    by (metis mset_subset_eq_add_left add.assoc)
  ultimately show ?thesis by (simp add: split_beta)
qed


text \<open>
  C3.  Each accepted command is given to the transport at most twice: of the messages of any kind
  (a predicate on messages, which the sequence ID makes as fine as one command), the number sent is
  at most twice the number accepted.
\<close>

theorem sent_at_most_twice:
  "sent_count P (w_trace (snd (command_run vud ops (command_init w0))))
     \<le> 2 * run_messages vud P ops (command_init w0)"
  using command_run_moves [of "command_init w0" vud ops P]
  by (simp add: command_init_def sm_sends_def)

lemma notify_scheduled_errors_more:
  assumes "notify_scheduled_errors ch w = (ch', w')"
  shows "ch_inflight ch' = ch_inflight ch" and "w_clock w' = w_clock w" and "w_reads w' = w_reads w"
    and "\<exists>evs. w_trace w' = w_trace w @ evs"
  using assms by (auto simp: notify_scheduled_errors_def)

lemma check_entity_moves_on:
  assumes "check_entity vud t ce w = (ce', w')"
  shows "w_clock w' = w_clock w \<and> w_reads w \<le> w_reads w' \<and> (\<exists>evs. w_trace w' = w_trace w @ evs)"
    and "al_ok (ch_inflight (ce_aecp ce)) \<Longrightarrow> c \<in> set (if_commands (inflight_of k (ce_aecp ce))) \<Longrightarrow>
      (\<exists>evs. w_trace w' = w_trace w @ evs
         \<and> settled (aecp_engine vud) t c (if_commands (inflight_of k (ce_aecp ce'))) evs)
      \<and> ((\<forall>n\<ge>w_reads w. t \<le> w_clock w n) \<longrightarrow>
           (\<forall>c\<in>set (if_commands (inflight_of k (ce_aecp ce'))). t \<le> ci_timeoutTime c))"
proof -
  obtain a1 w1 where a1: "check_channel (aecp_engine vud) t (ce_aecp ce) w = (a1, w1)" by fastforce
  obtain b1 w2 where b1: "check_channel acmp_engine t (ce_acmp ce) w1 = (b1, w2)" by fastforce
  obtain a2 w3 where a2: "notify_scheduled_errors a1 w2 = (a2, w3)" by fastforce
  obtain b2 w4 where b2: "notify_scheduled_errors b1 w3 = (b2, w4)" by fastforce
  have res: "ce' = \<lparr>ce_aecp = a2, ce_acmp = b2\<rparr>" "w' = w4"
    using assms a1 b1 a2 b2 by (simp_all add: check_entity_def)
  note na = notify_scheduled_errors_more [OF a2] and nb = notify_scheduled_errors_more [OF b2]
  note a1' = a1 [unfolded check_channel_def] and b1' = b1 [unfolded check_channel_def]
  obtain evs1 where w1: "w_trace w1 = w_trace w @ evs1" using aecp.check_targets_trace [OF a1'] by blast
  obtain evs2 where w2: "w_trace w' = w_trace w1 @ evs2"
    using acmp.check_targets_trace [OF b1'] na(4) nb(4) res by auto
  show "w_clock w' = w_clock w \<and> w_reads w \<le> w_reads w' \<and> (\<exists>evs. w_trace w' = w_trace w @ evs)"
    using aecp.check_targets_clock [OF a1'] acmp.check_targets_clock [OF b1'] na(2,3) nb(2,3) w1 w2 res
    by simp
  assume ok: "al_ok (ch_inflight (ce_aecp ce))" and c: "c \<in> set (if_commands (inflight_of k (ce_aecp ce)))"
  have ks: "distinct (al_keys (ch_inflight (ce_aecp ce)))" "k \<in> set (al_keys (ch_inflight (ce_aecp ce)))"
    using ok c by (auto simp: al_ok_def inflight_of_def al_get_None_iff split: option.splits dest: al_get_in_set)
       (metis al_get_in_set fst_conv image_eqI)
  have same: "inflight_of k (ce_aecp ce') = inflight_of k a1"
    using na(1) by (simp add: res inflight_of_def)
  have "\<exists>evs. w_trace w1 = w_trace w @ evs \<and> settled (aecp_engine vud) t c (if_commands (inflight_of k a1)) evs"
    by (rule aecp.check_targets_settle [OF a1' ks c])
  then show "(\<exists>evs. w_trace w' = w_trace w @ evs
         \<and> settled (aecp_engine vud) t c (if_commands (inflight_of k (ce_aecp ce'))) evs)
      \<and> ((\<forall>n\<ge>w_reads w. t \<le> w_clock w n) \<longrightarrow>
           (\<forall>c\<in>set (if_commands (inflight_of k (ce_aecp ce'))). t \<le> ci_timeoutTime c))"
    using w2 aecp.check_targets_on_time [OF a1' ks] by (fastforce simp: same intro: settled_mono)
qed

text \<open>The commands in flight towards a target, on the channel of either protocol, meet the fate their engine gives them.\<close>

lemma check_entity_acmp_settles:
  assumes "check_entity vud t ce w = (ce', w')"
    and ok: "al_ok (ch_inflight (ce_acmp ce))" and c: "c \<in> set (if_commands (inflight_of k (ce_acmp ce)))"
  shows "(\<exists>evs. w_trace w' = w_trace w @ evs
         \<and> settled acmp_engine t c (if_commands (inflight_of k (ce_acmp ce'))) evs)
      \<and> ((\<forall>n\<ge>w_reads w. t \<le> w_clock w n) \<longrightarrow>
           (\<forall>c\<in>set (if_commands (inflight_of k (ce_acmp ce'))). t \<le> ci_timeoutTime c))"
proof -
  obtain a1 w1 where a1: "check_channel (aecp_engine vud) t (ce_aecp ce) w = (a1, w1)" by fastforce
  obtain b1 w2 where b1: "check_channel acmp_engine t (ce_acmp ce) w1 = (b1, w2)" by fastforce
  obtain a2 w3 where a2: "notify_scheduled_errors a1 w2 = (a2, w3)" by fastforce
  obtain b2 w4 where b2: "notify_scheduled_errors b1 w3 = (b2, w4)" by fastforce
  have res: "ce' = \<lparr>ce_aecp = a2, ce_acmp = b2\<rparr>" "w' = w4"
    using assms(1) a1 b1 a2 b2 by (simp_all add: check_entity_def)
  note na = notify_scheduled_errors_more [OF a2] and nb = notify_scheduled_errors_more [OF b2]
  note a1' = a1 [unfolded check_channel_def] and b1' = b1 [unfolded check_channel_def]
  have ks: "distinct (al_keys (ch_inflight (ce_acmp ce)))" "k \<in> set (al_keys (ch_inflight (ce_acmp ce)))"
    using ok c by (auto simp: al_ok_def inflight_of_def al_get_None_iff split: option.splits dest: al_get_in_set)
       (metis al_get_in_set fst_conv image_eqI)
  have same: "inflight_of k b2 = inflight_of k b1"
    using nb(1) by (simp add: inflight_of_def)
  obtain evs1 where w1: "w_trace w1 = w_trace w @ evs1" using aecp.check_targets_trace [OF a1'] by blast
  obtain evs2 where w2: "w_trace w2 = w_trace w1 @ evs2" "settled acmp_engine t c (if_commands (inflight_of k b1)) evs2"
    using acmp.check_targets_settle [OF b1' ks c] by blast
  obtain evs3 where w3: "w_trace w4 = w_trace w2 @ evs3" using na(4) nb(4) by auto
  have "settled acmp_engine t c (if_commands (inflight_of k b2)) (evs1 @ evs2 @ evs3)"
    by (rule settled_mono [OF w2(2)]) (auto simp: same)
  moreover have "\<forall>c\<in>set (if_commands (inflight_of k b2)). t \<le> ci_timeoutTime c"
    if "\<forall>n\<ge>w_reads w. t \<le> w_clock w n"
    using that acmp.check_targets_on_time [OF b1' ks] aecp.check_targets_clock [OF a1'] by (simp add: same)
  ultimately show ?thesis using w1 w2 w3 by (auto simp: res)
qed

text \<open>The check of one entity within that of all.\<close>

lemma check_entities_at:
  "check_entities vud t sm w = (sm', w') \<Longrightarrow>
     w_clock w' = w_clock w \<and> w_reads w \<le> w_reads w' \<and> (\<exists>evs. w_trace w' = w_trace w @ evs)
     \<and> (al_get i sm = Some ce \<longrightarrow>
        (\<exists>ce' w1 w2 evs1 evs2. al_get i sm' = Some ce' \<and> check_entity vud t ce w1 = (ce', w2)
           \<and> w_clock w1 = w_clock w \<and> w_reads w \<le> w_reads w1
           \<and> w_trace w1 = w_trace w @ evs1 \<and> w_trace w' = w_trace w2 @ evs2))"
proof (induction sm arbitrary: sm' w w')
  case (Cons x sm)
  obtain ce1 w1 where s: "check_entity vud t (snd x) w = (ce1, w1)" by fastforce
  obtain sm2 w2 where r: "check_entities vud t sm w1 = (sm2, w2)" by fastforce
  have res: "sm' = (fst x, ce1) # sm2" "w' = w2" using Cons.prems s r by simp_all
  obtain evs1 where w1: "w_trace w1 = w_trace w @ evs1" "w_clock w1 = w_clock w" "w_reads w \<le> w_reads w1"
    using check_entity_moves_on(1) [OF s] by blast
  note IH = Cons.IH [OF r]
  obtain evs2 where w2: "w_trace w2 = w_trace w1 @ evs2" using IH by blast
  show ?case
  proof (cases "fst x = i")
    case True
    have "\<exists>ce' w1 w2 evs1 evs2. al_get i sm' = Some ce' \<and> check_entity vud t ce w1 = (ce', w2)
        \<and> w_clock w1 = w_clock w \<and> w_reads w \<le> w_reads w1
        \<and> w_trace w1 = w_trace w @ evs1 \<and> w_trace w' = w_trace w2 @ evs2" if "al_get i (x # sm) = Some ce"
      using True that s w2 by (intro exI [of _ ce1] exI [of _ w] exI [of _ w1] exI [of _ "[]"] exI [of _ evs2]) (simp add: res)
    thus ?thesis using w1 w2 IH by (auto simp: res)
  next
    case False
    have "\<exists>ce' w1 w2 evs1 evs2. al_get i sm' = Some ce' \<and> check_entity vud t ce w1 = (ce', w2)
        \<and> w_clock w1 = w_clock w \<and> w_reads w \<le> w_reads w1
        \<and> w_trace w1 = w_trace w @ evs1 \<and> w_trace w' = w_trace w2 @ evs2" if "al_get i (x # sm) = Some ce"
    proof -
      from that False have "al_get i sm = Some ce" by simp
      with IH obtain ce' wa wb ea eb where *: "al_get i sm2 = Some ce'" "check_entity vud t ce wa = (ce', wb)"
          "w_clock wa = w_clock w1" "w_reads w1 \<le> w_reads wa" "w_trace wa = w_trace w1 @ ea" "w_trace w2 = w_trace wb @ eb"
        by blast
      show ?thesis
        by (intro exI [of _ ce'] exI [of _ wa] exI [of _ wb] exI [of _ "evs1 @ ea"] exI [of _ eb])
          (use * False w1 in \<open>simp add: res\<close>)
    qed
    thus ?thesis using w1 w2 IH by (auto simp: res)
  qed
qed simp

text \<open>
  C4.  After a timeout check on a clock that does not run back, nothing overdue is left in flight
  towards a target, neither of AECP nor of ACMP, and each command that was in flight when the check
  began has met its fate: it is still in flight if its time had not come, it has been sent again if it
  timed out for the first time, and its handler has been called with the timeout error if it had
  already been sent twice.
\<close>

theorem check_settles_inflight:
  assumes "checkInflightCommandsTimeoutExpiracy vud sm w = (sm', w')" and "mono (w_clock w)"
    and "al_get i sm = Some ce" and "al_ok (ch_inflight (ce_aecp ce))" and "al_ok (ch_inflight (ce_acmp ce))"
    and "t = fst (now w)"
  shows "\<exists>ce' evs. al_get i sm' = Some ce' \<and> w_trace w' = w_trace w @ evs
    \<and> (\<forall>k. \<forall>c\<in>set (if_commands (inflight_of k (ce_aecp ce))).
       (if t \<le> ci_timeoutTime c then c \<in> set (if_commands (inflight_of k (ce_aecp ce')))
        else if ci_retried c then Handled (ci_resultHandler c) None Timeout \<in> set evs
        else \<exists>err. Sent (PAecp (ci_command c)) err \<in> set evs)
       \<and> (\<forall>c'\<in>set (if_commands (inflight_of k (ce_aecp ce'))). t \<le> ci_timeoutTime c'))
    \<and> (\<forall>k. \<forall>c\<in>set (if_commands (inflight_of k (ce_acmp ce))).
       (if t \<le> ci_timeoutTime c then c \<in> set (if_commands (inflight_of k (ce_acmp ce')))
        else if ci_retried c then Handled (ci_resultHandler c) None Timeout \<in> set evs
        else \<exists>err. Sent (PAcmp (ci_command c)) err \<in> set evs)
       \<and> (\<forall>c'\<in>set (if_commands (inflight_of k (ce_acmp ce'))). t \<le> ci_timeoutTime c'))"
proof -
  have "check_entities vud t sm (snd (now w)) = (sm', w')"
    using assms(1,6) by (simp add: checkInflightCommandsTimeoutExpiracy_def split_beta)
  from check_entities_at [OF this, of i ce] assms(3) obtain ce' w1 w2 evs1 evs2 where
    ce': "al_get i sm' = Some ce'" and s: "check_entity vud t ce w1 = (ce', w2)"
    and w1: "w_clock w1 = w_clock (snd (now w))" "w_reads (snd (now w)) \<le> w_reads w1"
    and tr: "w_trace w1 = w_trace (snd (now w)) @ evs1" "w_trace w' = w_trace w2 @ evs2" by blast
  have clock: "\<forall>n\<ge>w_reads w1. t \<le> w_clock w1 n"
    using assms(2,6) w1 by (auto simp: now_def mono_def dest: Suc_leD)
  obtain evs where evs: "w_trace w2 = w_trace w1 @ evs" using check_entity_moves_on(1) [OF s] by blast
  define all where "all = evs1 @ evs @ evs2"
  have w': "w_trace w' = w_trace w @ all" using tr evs by (simp add: now_def all_def)
  have aecp: "settled (aecp_engine vud) t c (if_commands (inflight_of k (ce_aecp ce'))) all
      \<and> (\<forall>c'\<in>set (if_commands (inflight_of k (ce_aecp ce'))). t \<le> ci_timeoutTime c')"
    if "c \<in> set (if_commands (inflight_of k (ce_aecp ce)))" for k c
    using check_entity_moves_on(2) [OF s assms(4) that] clock by (auto simp: evs all_def intro: settled_mono)
  have acmp: "settled acmp_engine t c (if_commands (inflight_of k (ce_acmp ce'))) all
      \<and> (\<forall>c'\<in>set (if_commands (inflight_of k (ce_acmp ce'))). t \<le> ci_timeoutTime c')"
    if "c \<in> set (if_commands (inflight_of k (ce_acmp ce)))" for k c
    using check_entity_acmp_settles [OF s assms(5) that] clock by (auto simp: evs all_def intro: settled_mono)
  show ?thesis
    using ce' w' aecp acmp unfolding settled_def engine_pdu not_less by (intro exI [of _ ce'] exI [of _ all]) blast
qed

definition sample_command :: "aecp_pdu command_info" where
  "sample_command = \<lparr>ci_sequenceID = 9, ci_sendTime = 0, ci_timeoutTime = ms 250, ci_retried = True,
     ci_command = Aem aem_sample, ci_resultHandler = 7\<rparr>"

definition sample_entity :: command_entity where
  "sample_entity = \<lparr>ce_aecp = channel_new\<lparr>ch_inflight :=
       [(0x001b92fffe000002, \<lparr>if_lastSendTime = 0, if_commands = [sample_command]\<rparr>)]\<rparr>, ce_acmp = channel_new\<rparr>"

definition sample_sm :: command_sm where
  "sample_sm = [(0x001b92fffe000001, sample_entity)]"

lemmas sample_defs = sample_command_def sample_entity_def sample_sm_def sample_world_def channel_new_def

theorem check_settles_inflight_witness:
  "\<exists>evs. w_trace (snd (checkInflightCommandsTimeoutExpiracy any_delegates sample_sm sample_world))
      = w_trace sample_world @ evs \<and> Handled 7 None Timeout \<in> set evs"
proof -
  have mono: "mono (w_clock sample_world)"
    by (simp add: mono_def sample_world_def ms_def)
  have get: "al_get 0x001b92fffe000001 sample_sm = Some sample_entity"
    by (simp add: sample_sm_def)
  have ok: "al_ok (ch_inflight (ce_aecp sample_entity))" "al_ok (ch_inflight (ce_acmp sample_entity))"
    by (simp_all add: sample_entity_def al_ok_def channel_new_def)
  have c: "sample_command \<in> set (if_commands (inflight_of 0x001b92fffe000002 (ce_aecp sample_entity)))"
    by (simp add: sample_entity_def inflight_of_def)
  let ?t = "fst (now sample_world)"
  from check_settles_inflight [OF surjective_pairing mono get ok refl, of any_delegates] obtain ce' :: command_entity and evs
    where tr: "w_trace (snd (checkInflightCommandsTimeoutExpiracy any_delegates sample_sm sample_world))
        = w_trace sample_world @ evs"
      and fate: "\<forall>k. \<forall>c\<in>set (if_commands (inflight_of k (ce_aecp sample_entity))).
         (if ?t \<le> ci_timeoutTime c then c \<in> set (if_commands (inflight_of k (ce_aecp ce')))
          else if ci_retried c then Handled (ci_resultHandler c) None Timeout \<in> set evs
          else \<exists>err. Sent (PAecp (ci_command c)) err \<in> set evs)
         \<and> (\<forall>c'\<in>set (if_commands (inflight_of k (ce_aecp ce'))). ?t \<le> ci_timeoutTime c')"
    by blast
  show ?thesis
    using tr bspec [OF spec [OF fate] c] by (auto simp: sample_command_def sample_world_def now_def ms_def)
qed

lemma checkQueue_trace:
  "\<exists>msgs. w_trace (cx_world (checkQueue e k cx)) = w_trace (cx_world cx) @ map (\<lambda>(p, err). Sent p err) msgs"
proof (cases "queued_for k (cx_queue cx)")
  case Nil
  then show ?thesis by (auto simp: checkQueue_def now_def Let_def intro: exI [of _ "[]"])
next
  case (Cons c cs)
  then show ?thesis
    by (auto simp: checkQueue_def now_def Let_def setCommandInflight_simps
        intro: exI [of _ "[]"] exI [of _ "[(e_pdu e (ci_command c), w_transport (cx_world cx) (w_sends (cx_world cx)))]"])
qed

lemma handled_by_sent [simp]: "handled_by (map (\<lambda>(p, err). Sent p err) msgs) = {#}"
  by (induction msgs) auto

lemma complete_command_trace:
  assumes "complete_command e k s h response ch w = (ch', w')"
  shows "\<exists>msgs. w_trace w' = w_trace w @ map (\<lambda>(p, err). Sent p err) msgs @ [Handled h (Some response) NoError]"
proof -
  obtain ch1 w1 where wt: "with_target k (find_sequenceID s) (removeInflight e k) ch w = (ch1, w1)"
    by fastforce
  let ?cx = "open_target k (find_sequenceID s) ch w"
  have "w1 = cx_world (checkQueue e k (?cx\<lparr>cx_after := tl (cx_after ?cx)\<rparr>))"
    using with_target_simps(4) [OF wt] by (simp add: removeInflight_def)
  then have "\<exists>msgs. w_trace w1 = w_trace w @ map (\<lambda>(p, err). Sent p err) msgs"
    using checkQueue_trace [of e k "?cx\<lparr>cx_after := tl (cx_after ?cx)\<rparr>"] by simp
  then show ?thesis
    using assms wt by (auto simp: complete_command_def)
qed

lemma matching_response:
  assumes "al_get (aecp_controllerEntityID p) sm = Some ce"
    and "\<not> isAemUnsolicitedResponse p" and "\<not> isVuUnsolicitedResponse vud p" and "\<not> shouldRearmTimer p"
    and "al_get (aecp_targetEntityID p) (ch_inflight (ce_aecp ce)) = Some i"
    and "find (\<lambda>c. ci_sequenceID c = aecp_sequenceID p) (if_commands i) = Some c"
    and "m_destAddress (aecp_header (ci_command c)) = m_srcAddress (aecp_header p)"
    and "handleAecpResponse vud p sm w = (sm', w')"
  shows "(\<exists>sent t. w_trace w' = w_trace w @ map (\<lambda>(q, err). Sent q err) sent
      @ [Handled (ci_resultHandler c) (Some (PAecp p)) NoError, OnAecpResponseTime (aecp_targetEntityID p) t])
    \<and> sm_handlers sm' + {#ci_resultHandler c#} = sm_handlers sm"
proof -
  obtain ch w1 where r: "complete_command (aecp_engine vud) (aecp_targetEntityID p) (aecp_sequenceID p)
      (ci_resultHandler c) (PAecp p) (ce_aecp ce) (notifyIdentify p (snd (now w))) = (ch, w1)"
    by fastforce
  have quiet: "w_trace (notifyIdentify p (snd (now w))) = w_trace w"
    using assms(2) by (simp add: notifyIdentify_def)
  have w': "w' = emit [OnAecpResponseTime (aecp_targetEntityID p) ((w_clock w (w_reads w) - ci_sendTime c) div ms 1)] w1"
    using assms r by (simp add: handleAecpResponse_def now_def Let_def)
  have tr: "\<exists>sent t. w_trace w' = w_trace w @ map (\<lambda>(q, err). Sent q err) sent
      @ [Handled (ci_resultHandler c) (Some (PAecp p)) NoError, OnAecpResponseTime (aecp_targetEntityID p) t]"
    using complete_command_trace [OF r] quiet by (auto simp: w')
  have "sm_handlers sm' + handled_by (w_trace w') = sm_handlers sm + handled_by (w_trace w)"
    using handleAecpResponse_moves [OF assms(8)] by (simp add: sm_moves_def)
  then have "sm_handlers sm' + {#ci_resultHandler c#} = sm_handlers sm"
    using tr by (auto simp: add.assoc)
  with tr show ?thesis by blast
qed

text \<open>
  C5.  A response that carries the sequence ID of a command in flight towards its target, comes from
  the address the command was sent to, and is neither unsolicited nor an AEM progress report,
  completes that command and no other: its handler is called once, with the response and no error,
  and is no longer owed a call.
\<close>

theorem response_completes_command:
  assumes "al_get (aecp_controllerEntityID p) sm = Some ce"
    and "\<not> isAemUnsolicitedResponse p" and "\<not> isVuUnsolicitedResponse vud p" and "\<not> shouldRearmTimer p"
    and "al_get (aecp_targetEntityID p) (ch_inflight (ce_aecp ce)) = Some i"
    and "find (\<lambda>c. ci_sequenceID c = aecp_sequenceID p) (if_commands i) = Some c"
    and "m_destAddress (aecp_header (ci_command c)) = m_srcAddress (aecp_header p)"
    and "handleAecpResponse vud p sm w = (sm', w')"
  shows "(\<exists>sent t. w_trace w' = w_trace w @ map (\<lambda>(q, err). Sent q err) sent
      @ [Handled (ci_resultHandler c) (Some (PAecp p)) NoError, OnAecpResponseTime (aecp_targetEntityID p) t])
    \<and> sm_handlers sm' + {#ci_resultHandler c#} = sm_handlers sm"
  by (rule matching_response) fact+

definition sample_response :: aecp_pdu where
  "sample_response = Aem (aem_sample\<lparr>m_controlData := 1, m_srcAddress := 0x001b92000002,
     m_destAddress := 0x001b92000001\<rparr>)"

theorem response_completes_command_witness:
  "sm_handlers (fst (handleAecpResponse any_delegates sample_response sample_sm sample_world)) + {#7#}
     = sm_handlers sample_sm"
  using response_completes_command [of sample_response sample_sm sample_entity any_delegates
      "\<lparr>if_lastSendTime = 0, if_commands = [sample_command]\<rparr>" sample_command sample_world,
      OF _ _ _ _ _ _ _ surjective_pairing]
  by (simp add: sample_defs sample_response_def aem_sample_def AemAecpdu_new_def Aecpdu_new_def
      aecpdu.extend_def setAecpSpecificDataLength_def aecp_controllerEntityID_def aecpdu.truncate_def
      isAemUnsolicitedResponse_def aecp_messageType_def isVuUnsolicitedResponse_def
      AecpMessageType_AemResponse_def AecpMessageType_VendorUniqueResponse_def any_delegates_def
      shouldRearmTimer_def AemAecpStatus_InProgress_def aecp_targetEntityID_def aecp_sequenceID_def)

end
