(* ===== verification/CommandOrder.thy ===== *)
theory CommandOrder
  imports CommandStateMachine
begin

text \<open>
  What the command state machine does with each response, and the order of its transmissions: the
  commands accepted by a local entity for one target are first given to the transport in the order
  they were accepted, with consecutive sequence IDs.
\<close>

section \<open>Responses\<close>

text \<open>The command in flight that an AECP response answers, if there is one.\<close>

definition awaited_command :: "aecp_pdu \<Rightarrow> command_sm \<Rightarrow> aecp_pdu command_info option" where
  "awaited_command p sm =
     Option.bind (al_get (aecp_controllerEntityID p) sm) (\<lambda>ce.
       Option.bind (al_get (aecp_targetEntityID p) (ch_inflight (ce_aecp ce))) (\<lambda>i.
         Option.bind (find (\<lambda>c. ci_sequenceID c = aecp_sequenceID p) (if_commands i)) (\<lambda>c.
           if m_destAddress (aecp_header (ci_command c)) = m_srcAddress (aecp_header p) then Some c else None)))"

lemma stray_response:
  "isAemUnsolicitedResponse p \<or> isVuUnsolicitedResponse vud p \<or> awaited_command p sm = None \<Longrightarrow>
     fst (handleAecpResponse vud p sm w) = sm
     \<and> handled_by (w_trace (snd (handleAecpResponse vud p sm w))) = handled_by (w_trace w)
     \<and> w_sends (snd (handleAecpResponse vud p sm w)) = w_sends w"
  by (auto simp: handleAecpResponse_def awaited_command_def notifyIdentify_def now_def Let_def
      split: option.splits if_splits)

text \<open>
  A response that answers no command in flight (unknown controller, target or sequence ID, or a
  sender other than the address the command was sent to) and a notification leave the machine as it
  was: no handler is called, nothing is sent.
\<close>

theorem stray_response_ignored:
  "isAemUnsolicitedResponse p \<or> isVuUnsolicitedResponse vud p \<or> awaited_command p sm = None \<Longrightarrow>
     fst (handleAecpResponse vud p sm w) = sm
     \<and> handled_by (w_trace (snd (handleAecpResponse vud p sm w))) = handled_by (w_trace w)
     \<and> w_sends (snd (handleAecpResponse vud p sm w)) = w_sends w"
  by (rule stray_response)

definition spoofed_response :: aecp_pdu where
  "spoofed_response = Aem (aem_sample\<lparr>m_controlData := 1, m_srcAddress := 0x001b92000007,
     m_destAddress := 0x001b92000001\<rparr>)"

theorem stray_response_ignored_witness:
  "fst (handleAecpResponse any_delegates spoofed_response sample_sm sample_world) = sample_sm"
  using stray_response_ignored [of spoofed_response any_delegates sample_sm sample_world]
  by (simp add: awaited_command_def sample_defs spoofed_response_def aem_sample_def AemAecpdu_new_def
      Aecpdu_new_def aecpdu.extend_def setAecpSpecificDataLength_def aecp_controllerEntityID_def
      aecpdu.truncate_def aecp_targetEntityID_def aecp_sequenceID_def)

text \<open>
  C37.  An ACMP response either changes nothing, or answers the command in flight with its sequence ID
  whose message type is one less than its own: it calls that command's handler, once, as the last
  thing it does, and the handler is no longer owed a call.
\<close>

theorem acmp_response_completes:
  "handleAcmpResponse p sm w = (sm, w) \<or>
   (\<exists>ce i c sent.
      al_get (m_acmpControllerEntityID p) sm = Some ce
      \<and> al_get (m_destAddress p) (ch_inflight (ce_acmp ce)) = Some i \<and> c \<in> set (if_commands i)
      \<and> ci_sequenceID c = m_acmpSequenceID p
      \<and> unat (m_controlData p) = unat (m_controlData (ci_command c)) + 1
      \<and> w_trace (snd (handleAcmpResponse p sm w)) = w_trace w @ map (\<lambda>(q, err). Sent q err) sent
           @ [Handled (ci_resultHandler c) (Some (PAcmp p)) NoError]
      \<and> sm_handlers (fst (handleAcmpResponse p sm w)) + {#ci_resultHandler c#} = sm_handlers sm)"
proof (cases "handleAcmpResponse p sm w = (sm, w)")
  case False
  then obtain ce i c where c: "al_get (m_acmpControllerEntityID p) sm = Some ce"
    "al_get (m_destAddress p) (ch_inflight (ce_acmp ce)) = Some i"
    "find (\<lambda>c. ci_sequenceID c = m_acmpSequenceID p) (if_commands i) = Some c"
    "unat (m_controlData p) = unat (m_controlData (ci_command c)) + 1"
    by (auto simp: handleAcmpResponse_def Let_def split: option.splits if_splits)
  obtain ch w1 where r: "complete_command acmp_engine (m_destAddress p) (m_acmpSequenceID p)
      (ci_resultHandler c) (PAcmp p) (ce_acmp ce) w = (ch, w1)"
    by fastforce
  have h: "handleAcmpResponse p sm w = (al_put (m_acmpControllerEntityID p) (ce\<lparr>ce_acmp := ch\<rparr>) sm, w1)"
    using c r by (simp add: handleAcmpResponse_def Let_def)
  obtain sent where sent: "w_trace w1 = w_trace w @ map (\<lambda>(q, err). Sent q err) sent
      @ [Handled (ci_resultHandler c) (Some (PAcmp p)) NoError]"
    using complete_command_trace [OF r] by blast
  have "sm_handlers (al_put (m_acmpControllerEntityID p) (ce\<lparr>ce_acmp := ch\<rparr>) sm) + {#ci_resultHandler c#}
      = sm_handlers sm"
    using handleAcmpResponse_moves [OF h] sent by (auto simp: sm_moves_def add.assoc)
  moreover have "c \<in> set (if_commands i)" "ci_sequenceID c = m_acmpSequenceID p"
    using c(3) by (auto simp: find_Some_iff)
  ultimately show ?thesis
    using c(1,2,4) sent unfolding h fst_conv snd_conv by blast
qed simp

text \<open>
  The timeout loop over the commands in flight towards a target always ends, whatever the clock
  and the transport do: it is at most as many turns of its body as two for a command in flight not
  sent again yet, one for a command sent again and three for a queued command, and it ends past the last command.
\<close>

theorem expire_loop_turns:
  "\<exists>n\<le>expire_measure k cx. expire_loop e k t cx = (expire_step e k t ^^ n) cx
     \<and> cx_after ((expire_step e k t ^^ n) cx) = []"
proof (induction "expire_measure k cx" arbitrary: cx rule: less_induct)
  case less
  show ?case
  proof (cases "cx_after cx = []")
    case True
    then show ?thesis by (intro exI [of _ 0]) (simp add: expire_loop.simps)
  next
    case False
    note smaller = expire_step_measure [OF False, of k e t]
    obtain n where "n \<le> expire_measure k (expire_step e k t cx)"
      "expire_loop e k t (expire_step e k t cx) = (expire_step e k t ^^ n) (expire_step e k t cx)"
      "cx_after ((expire_step e k t ^^ n) (expire_step e k t cx)) = []"
      using less.hyps [OF smaller] by blast
    then show ?thesis
      using smaller False
      by (intro exI [of _ "Suc n"]) (simp add: expire_loop.simps [of e k t cx] funpow_Suc_right del: funpow.simps(2))
  qed
qed

section \<open>Order of transmission on a channel\<close>

lemma fifo_since_trans:
  assumes "fifo_since f k q0 tr0 q1 tr1" and "fifo_since f k (queued_for k q1 @ added) tr1 q2 tr2"
  shows "fifo_since f k (q0 @ added) tr0 q2 tr2"
proof -
  obtain n1 evs1 where 1: "queued_for k q1 = drop n1 q0" "n1 \<le> length q0" "tr1 = tr0 @ evs1"
    "subseq (map (f \<circ> ci_command) (take n1 q0)) (sent_pdus evs1)"
    using assms(1) by (auto simp: fifo_since_def)
  obtain n2 evs2 where 2: "queued_for k q2 = drop n2 (queued_for k q1 @ added)"
    "n2 \<le> length (queued_for k q1 @ added)" "tr2 = tr1 @ evs2"
    "subseq (map (f \<circ> ci_command) (take n2 (queued_for k q1 @ added))) (sent_pdus evs2)"
    using assms(2) by (auto simp: fifo_since_def)
  have queue: "queued_for k q1 @ added = drop n1 (q0 @ added)"
    using 1(1,2) by simp
  have "take (n1 + n2) (q0 @ added) = take n1 q0 @ take n2 (queued_for k q1 @ added)"
    using 1(2) by (simp add: queue take_add add.commute)
  then have "subseq (map (f \<circ> ci_command) (take (n1 + n2) (q0 @ added))) (sent_pdus (evs1 @ evs2))"
    using 1(4) 2(4) by (simp add: list_emb_append_mono)
  moreover have "queued_for k q2 = drop (n1 + n2) (q0 @ added)"
    using 2(1) unfolding queue by (simp only: drop_drop add.commute)
  moreover have "n1 + n2 \<le> length (q0 @ added)"
    using 1(2) 2(2) by (simp add: queue)
  ultimately show ?thesis
    unfolding fifo_since_def using 1(3) 2(3) by (intro exI [of _ "n1 + n2"] exI [of _ "evs1 @ evs2"]) simp
qed

text \<open>
  How a channel goes from one world to the next while its local entity accepts the commands
  \<^verbatim>\<open>added\<close> for a target and \<^verbatim>\<open>n\<close> commands in all.
\<close>

definition channel_flow ::
  "('m \<Rightarrow> pdu) \<Rightarrow> 'k \<Rightarrow> 'm command_info list \<Rightarrow> nat \<Rightarrow> ('k, 'm) channel \<times> world \<Rightarrow> ('k, 'm) channel \<times> world \<Rightarrow> bool"
where
  "channel_flow f k added n st st' \<longleftrightarrow>
     fifo_since f k (queued_for k (ch_queue (fst st)) @ added) (w_trace (snd st))
       (ch_queue (fst st')) (w_trace (snd st'))
     \<and> ch_currentSequenceID (fst st') = ch_currentSequenceID (fst st) + of_nat n"

lemma channel_flow_trans:
  "channel_flow f k a n st st1 \<Longrightarrow> channel_flow f k b m st1 st2 \<Longrightarrow> channel_flow f k (a @ b) (n + m) st st2"
  unfolding channel_flow_def by (auto simp: add.assoc simp flip: append_assoc intro: fifo_since_trans)

lemma channel_flow_idle:
  assumes "w_trace w' = w_trace w @ evs"
  shows "channel_flow f k [] 0 (ch, w) (ch, w')"
proof -
  have "fifo_since f k (queued_for k (ch_queue ch)) (w_trace w) (ch_queue ch) (w_trace w)"
    by (rule fifo_since_refl) simp
  from fifo_since_more [OF this refl, of evs] show ?thesis
    using assms by (simp add: channel_flow_def)
qed

context command_engine
begin

lemma with_target_flow:
  assumes "with_target k' pos g ch w = (ch', w')"
    and "\<And>q0 tr0 cx. fifo_since (e_pdu e) k q0 tr0 (cx_queue cx) (w_trace (cx_world cx)) \<Longrightarrow>
      fifo_since (e_pdu e) k q0 tr0 (cx_queue (g cx)) (w_trace (cx_world (g cx)))"
  shows "channel_flow (e_pdu e) k [] 0 (ch, w) (ch', w')"
  using with_target_simps(2,4,5) [OF assms(1)]
    assms(2) [of "queued_for k (ch_queue ch)" "w_trace w" "open_target k' pos ch w"]
  by (simp add: channel_flow_def fifo_since_refl)

lemma check_channel_flow:
  assumes "check_channel e t ch w = (ch', w')"
  shows "channel_flow (e_pdu e) k [] 0 (ch, w) (ch', w')"
proof -
  have "check_targets e t ks ch w = (ch', w') \<Longrightarrow> channel_flow (e_pdu e) k [] 0 (ch, w) (ch', w')" for ks
  proof (induction ks arbitrary: ch w)
    case Nil
    then show ?case using channel_flow_idle [of w w "[]"] by simp
  next
    case (Cons k' ks)
    obtain ch1 w1 where step: "check_target e t k' ch w = (ch1, w1)" by fastforce
    have "channel_flow (e_pdu e) k [] 0 (ch, w) (ch1, w1)"
      by (rule with_target_flow [OF step [unfolded check_target_def]]) (rule fifo.check_target_inv)
    moreover have "channel_flow (e_pdu e) k [] 0 (ch1, w1) (ch', w')"
      using Cons step by simp
    ultimately show ?case
      using channel_flow_trans [of "e_pdu e" k "[]" 0 "(ch, w)" "(ch1, w1)" "[]" 0] by simp
  qed
  then show ?thesis using assms unfolding check_channel_def .
qed

lemma complete_command_flow:
  assumes "complete_command e k' s h response ch w = (ch', w')"
  shows "channel_flow (e_pdu e) k [] 0 (ch, w) (ch', w')"
proof -
  obtain ch1 w1 where wt: "with_target k' (find_sequenceID s) (removeInflight e k') ch w = (ch1, w1)"
    by fastforce
  have "channel_flow (e_pdu e) k [] 0 (ch, w) (ch1, w1)"
    by (rule with_target_flow [OF wt]) (simp add: removeInflight_def fifo.checkQueue_inv)
  moreover have "channel_flow (e_pdu e) k [] 0 (ch1, w1) (ch', w')"
    using assms wt by (auto simp: complete_command_def intro: channel_flow_idle)
  ultimately show ?thesis
    using channel_flow_trans [of "e_pdu e" k "[]" 0 "(ch, w)" "(ch1, w1)" "[]" 0] by simp
qed

lemma rearm_command_flow:
  assumes "rearm_command e k' s ch w = (ch', w')"
  shows "channel_flow (e_pdu e) k [] 0 (ch, w) (ch', w')"
  by (rule with_target_flow [OF assms [unfolded rearm_command_def]])
     (auto simp: rearm_step_def resetCommandTimeoutValue_def now_def split: list.splits)

lemma notify_scheduled_errors_flow:
  assumes "notify_scheduled_errors ch w = (ch', w')"
  shows "channel_flow f k [] 0 (ch, w) (ch', w')"
  using assms by (auto simp: notify_scheduled_errors_def channel_flow_def intro!: fifo_since_more fifo_since_refl)

lemma queue_command_flow:
  assumes "queue_command e k' s m h (snd (getNextSequenceID ch)) w = (ch', w')"
  shows "\<exists>c. ci_command c = m \<and> ci_sequenceID c = s \<and> ci_resultHandler c = h \<and>
    channel_flow (e_pdu e) k (if k = k' then [c] else []) 1 (ch, w) (ch', w')"
proof -
  let ?c = "\<lparr>ci_sequenceID = s, ci_sendTime = 0, ci_timeoutTime = 0, ci_retried = False,
    ci_command = m, ci_resultHandler = h\<rparr>"
  let ?ch0 = "snd (getNextSequenceID ch)"
  let ?ch = "?ch0\<lparr>ch_queue := al_put k' (queued_for k' (ch_queue ?ch0) @ [?c]) (ch_queue ?ch0)\<rparr>"
  have "with_target k' length (checkQueue e k') ?ch w = (ch', w')"
    using assms by (simp add: queue_command_def Let_def)
  then have "channel_flow (e_pdu e) k [] 0 (?ch, w) (ch', w')"
    by (rule with_target_flow) (rule fifo.checkQueue_inv)
  then have "channel_flow (e_pdu e) k (if k = k' then [?c] else []) 1 (ch, w) (ch', w')"
    by (auto simp: channel_flow_def getNextSequenceID_def)
  then show ?thesis by (intro exI [of _ ?c]) simp
qed

end

section \<open>Order of transmission of a local entity\<close>

text \<open>
  The AECP commands a sequence of calls makes a local entity accept for a target, in order, with the
  sequence IDs they get when the first one is given \<^verbatim>\<open>s\<close>; and how many it accepts for any target.
\<close>

fun expected_commands :: "entity_id \<Rightarrow> entity_id \<Rightarrow> 16 word \<Rightarrow> command_op list \<Rightarrow> aecp_pdu list" where
  "expected_commands i k s [] = []"
| "expected_commands i k s (SendAecp p h # ops) =
     (if aecp_controllerEntityID p = i
      then (if aecp_targetEntityID p = k then [setAecpSequenceID s p] else []) @ expected_commands i k (s + 1) ops
      else expected_commands i k s ops)"
| "expected_commands i k s (op # ops) = expected_commands i k s ops"

fun aecp_accepts :: "entity_id \<Rightarrow> command_op \<Rightarrow> nat" where
  "aecp_accepts i (SendAecp p h) = of_bool (aecp_controllerEntityID p = i)"
| "aecp_accepts i op = 0"

lemma expected_commands_Cons:
  "expected_commands i k s (op # ops) =
     expected_commands i k s [op] @ expected_commands i k (s + of_nat (aecp_accepts i op)) ops"
  by (cases op) auto

lemma check_entities_found:
  "check_entities vud t sm w = (sm', w') \<Longrightarrow> al_get i sm = Some ce \<Longrightarrow>
     \<exists>w0 w1 ce' evs0 evs1. check_entity vud t ce w0 = (ce', w1) \<and> al_get i sm' = Some ce'
       \<and> w_trace w0 = w_trace w @ evs0 \<and> w_trace w' = w_trace w1 @ evs1"
  by (drule check_entities_at [of vud t sm w sm' w' i ce]) blast

lemma flow_before:
  "channel_flow f k added n (ch, w) (ch', w1) \<Longrightarrow> w_trace w' = w_trace w1 @ evs \<Longrightarrow>
     channel_flow f k added n (ch, w) (ch', w')"
  using channel_flow_trans [of f k added n "(ch, w)" "(ch', w1)" "[]" 0] channel_flow_idle [of w' w1 evs f k ch']
  by simp

lemma flow_after:
  "w_trace w1 = w_trace w @ evs \<Longrightarrow> channel_flow f k added n (ch, w1) (ch', w') \<Longrightarrow>
     channel_flow f k added n (ch, w) (ch', w')"
  using channel_flow_trans [of f k "[]" 0 "(ch, w)" "(ch, w1)" added n "(ch', w')"]
    channel_flow_idle [of w1 w evs f k ch]
  by simp

lemma flow_emit:
  "channel_flow f k added n (ch, w) (ch', w') \<Longrightarrow> channel_flow f k added n (ch, w) (ch', emit evs w')"
  by (erule flow_before) simp

lemma flow_trace: "channel_flow f k added n (ch, w) (ch', w') \<Longrightarrow> \<exists>evs. w_trace w' = w_trace w @ evs"
  by (auto simp: channel_flow_def fifo_since_def)

lemma check_entity_flow:
  assumes "check_entity vud t ce w = (ce', w')"
  shows "channel_flow PAecp k [] 0 (ce_aecp ce, w) (ce_aecp ce', w')"
proof -
  obtain a1 w1 where a1: "check_channel (aecp_engine vud) t (ce_aecp ce) w = (a1, w1)" by fastforce
  obtain b1 w2 where b1: "check_channel acmp_engine t (ce_acmp ce) w1 = (b1, w2)" by fastforce
  obtain a2 w3 where a2: "notify_scheduled_errors a1 w2 = (a2, w3)" by fastforce
  obtain b2 w4 where b2: "notify_scheduled_errors b1 w3 = (b2, w4)" by fastforce
  have res: "ce_aecp ce' = a2" "w' = w4"
    using assms a1 b1 a2 b2 by (auto simp: check_entity_def)
  obtain evs2 where w2: "w_trace w2 = w_trace w1 @ evs2"
    using acmp.check_targets_trace [OF b1 [unfolded check_channel_def]] by blast
  obtain evs4 where w4: "w_trace w4 = w_trace w3 @ evs4"
    using notify_scheduled_errors_more(4) [OF b2] by blast
  have "channel_flow PAecp k [] 0 (ce_aecp ce, w) (a1, w2)"
    using flow_before [OF aecp.check_channel_flow [OF a1, of k] w2] by simp
  then have "channel_flow PAecp k [] 0 (ce_aecp ce, w) (a2, w3)"
    using channel_flow_trans [of PAecp k "[]" 0 "(ce_aecp ce, w)" "(a1, w2)" "[]" 0 "(a2, w3)"]
      aecp.notify_scheduled_errors_flow [OF a2, of PAecp k] by simp
  then show ?thesis
    unfolding res by (rule flow_before [OF _ w4])
qed

lemma put_flow:
  assumes "al_get i sm = Some ce"
    and "j = i \<Longrightarrow> channel_flow f k [] 0 (ce_aecp ce, w) (ce_aecp ce1, w')"
    and "w_trace w' = w_trace w @ evs"
  shows "\<exists>ce'. al_get i (al_put j ce1 sm) = Some ce' \<and> channel_flow f k [] 0 (ce_aecp ce, w) (ce_aecp ce', w')"
  using assms channel_flow_idle [OF assms(3)] by (cases "i = j") auto

lemma handleAecpResponse_flow:
  assumes h: "handleAecpResponse vud p sm w = (sm', w')" and get: "al_get i sm = Some ce"
  shows "\<exists>ce'. al_get i sm' = Some ce' \<and> channel_flow PAecp k [] 0 (ce_aecp ce, w) (ce_aecp ce', w')"
proof (cases "isAemUnsolicitedResponse p \<or> isVuUnsolicitedResponse vud p \<or> awaited_command p sm = None")
  case True
  have "sm' = sm" using stray_response [OF True, of w] h by simp
  moreover have "\<exists>evs. w_trace w' = w_trace w @ evs"
    using h True
    by (auto simp: handleAecpResponse_def awaited_command_def notifyIdentify_def now_def Let_def
        split: option.splits if_splits)
  ultimately show ?thesis using get by (auto intro: channel_flow_idle)
next
  case False
  then obtain ce1 i1 c where c: "al_get (aecp_controllerEntityID p) sm = Some ce1"
    "al_get (aecp_targetEntityID p) (ch_inflight (ce_aecp ce1)) = Some i1"
    "find (\<lambda>c. ci_sequenceID c = aecp_sequenceID p) (if_commands i1) = Some c"
    "m_destAddress (aecp_header (ci_command c)) = m_srcAddress (aecp_header p)"
    by (auto simp: awaited_command_def Option.bind_eq_Some_conv split: if_splits)
  let ?w = "notifyIdentify p (snd (now w))"
  have w0: "w_trace ?w = w_trace w @ drop (length (w_trace w)) (w_trace ?w)"
    by (auto simp: notifyIdentify_def)
  show ?thesis
  proof (cases "shouldRearmTimer p")
    case True
    obtain ch w1 where r: "rearm_command (aecp_engine vud) (aecp_targetEntityID p) (aecp_sequenceID p)
        (ce_aecp ce1) ?w = (ch, w1)" by fastforce
    have res: "sm' = al_put (aecp_controllerEntityID p) (ce1\<lparr>ce_aecp := ch\<rparr>) sm" "w' = w1"
      using h c False True r by (auto simp: handleAecpResponse_def now_def Let_def)
    have "channel_flow PAecp k [] 0 (ce_aecp ce1, w) (ch, w1)"
      using flow_after [OF w0 aecp.rearm_command_flow [OF r, of k, unfolded engine_pdu]] .
    with flow_trace [OF this] show ?thesis
      unfolding res using c(1) get by (elim exE) (rule put_flow [OF get], auto)
  next
    case noRearm: False
    obtain ch w1 where r: "complete_command (aecp_engine vud) (aecp_targetEntityID p) (aecp_sequenceID p)
        (ci_resultHandler c) (PAecp p) (ce_aecp ce1) ?w = (ch, w1)" by fastforce
    obtain evs where res: "sm' = al_put (aecp_controllerEntityID p) (ce1\<lparr>ce_aecp := ch\<rparr>) sm" "w' = emit evs w1"
      using h c False noRearm r by (auto simp: handleAecpResponse_def now_def Let_def)
    have "channel_flow PAecp k [] 0 (ce_aecp ce1, w) (ch, emit evs w1)"
      using flow_emit [OF flow_after [OF w0 aecp.complete_command_flow [OF r, of k, unfolded engine_pdu]]] .
    with flow_trace [OF this] show ?thesis
      unfolding res using c(1) get by (elim exE) (rule put_flow [OF get], auto)
  qed
qed

lemma handleAcmpResponse_flow:
  assumes h: "handleAcmpResponse p sm w = (sm', w')" and get: "al_get i sm = Some ce"
  shows "\<exists>ce'. al_get i sm' = Some ce' \<and> channel_flow f k [] 0 (ce_aecp ce, w) (ce_aecp ce', w')"
proof (cases "(sm', w') = (sm, w)")
  case True
  then show ?thesis using get channel_flow_idle [of w w "[]"] by simp
next
  case False
  then obtain ce1 ch s onResult where r: "complete_command acmp_engine (m_destAddress p) s onResult (PAcmp p) (ce_acmp ce1) w = (ch, w')"
    "al_get (m_acmpControllerEntityID p) sm = Some ce1"
    "sm' = al_put (m_acmpControllerEntityID p) (ce1\<lparr>ce_acmp := ch\<rparr>) sm"
    using h by (auto simp: handleAcmpResponse_def Let_def split: option.splits if_splits prod.splits)
  obtain evs where evs: "w_trace w' = w_trace w @ evs"
    using complete_command_trace [OF r(1)] by auto
  show ?thesis
    unfolding r(3) using r(2) get by (intro put_flow [OF get _ evs]) (auto intro: channel_flow_idle [OF evs])
qed

lemma sendAcmpCommand_flow:
  assumes h: "snd (sendAcmpCommand p onResult sm w) = (sm', w')" and get: "al_get i sm = Some ce"
  shows "\<exists>ce'. al_get i sm' = Some ce' \<and> channel_flow f k [] 0 (ce_aecp ce, w) (ce_aecp ce', w')"
proof (cases "al_get (m_acmpControllerEntityID p) sm")
  case None
  then show ?thesis using h get channel_flow_idle [of w w "[]"] by (simp add: sendAcmpCommand_def)
next
  case (Some ce1)
  obtain ch where r: "queue_command acmp_engine (m_destAddress p) (ch_currentSequenceID (ce_acmp ce1))
      (setAcmpSequenceID (ch_currentSequenceID (ce_acmp ce1)) p) onResult (snd (getNextSequenceID (ce_acmp ce1))) w = (ch, w')"
    "sm' = al_put (m_acmpControllerEntityID p) (ce1\<lparr>ce_acmp := ch\<rparr>) sm"
    using h Some by (auto simp: sendAcmpCommand_def getNextSequenceID_def Let_def split: prod.splits)
  obtain evs where evs: "w_trace w' = w_trace w @ evs"
    using acmp.queue_command_flow [OF r(1)] by (auto simp: channel_flow_def fifo_since_def)
  show ?thesis
    unfolding r(2) using Some get by (intro put_flow [OF get _ evs]) (auto intro: channel_flow_idle [OF evs])
qed

lemma sendAecpCommand_flow:
  assumes h: "sendAecpCommand vud p onResult sm w = (err, sm', w')" and get: "al_get i sm = Some ce"
  shows "\<exists>ce' added. al_get i sm' = Some ce'
    \<and> map ci_command added = expected_commands i k (ch_currentSequenceID (ce_aecp ce)) [SendAecp p onResult]
    \<and> channel_flow PAecp k added (aecp_accepts i (SendAecp p onResult)) (ce_aecp ce, w) (ce_aecp ce', w')"
proof (cases "al_get (aecp_controllerEntityID p) sm")
  case None
  then have "aecp_controllerEntityID p \<noteq> i" using get by auto
  then show ?thesis
    using h get None channel_flow_idle [of w w "[]" PAecp k "ce_aecp ce"] by (simp add: sendAecpCommand_def)
next
  case (Some ce1)
  let ?s = "ch_currentSequenceID (ce_aecp ce1)"
  obtain ch where r: "queue_command (aecp_engine vud) (aecp_targetEntityID p) ?s
      (setAecpSequenceID ?s p) onResult (snd (getNextSequenceID (ce_aecp ce1))) w = (ch, w')"
    "sm' = al_put (aecp_controllerEntityID p) (ce1\<lparr>ce_aecp := ch\<rparr>) sm"
    using h Some by (auto simp: sendAecpCommand_def getNextSequenceID_def Let_def split: prod.splits)
  obtain c where c: "ci_command c = setAecpSequenceID ?s p"
    "channel_flow PAecp k (if k = aecp_targetEntityID p then [c] else []) 1 (ce_aecp ce1, w) (ch, w')"
    using aecp.queue_command_flow [OF r(1), of k] by auto
  show ?thesis
  proof (cases "aecp_controllerEntityID p = i")
    case True
    then show ?thesis
      using c get Some r(2)
      by (intro exI [of _ "ce1\<lparr>ce_aecp := ch\<rparr>"] exI [of _ "if k = aecp_targetEntityID p then [c] else []"]) auto
  next
    case False
    obtain evs where evs: "w_trace w' = w_trace w @ evs"
      using c(2) by (auto simp: channel_flow_def fifo_since_def)
    show ?thesis
      using False get r(2) channel_flow_idle [OF evs] by simp
  qed
qed

lemma command_step_flow:
  assumes step: "command_step vud op (sm, w) = (sm', w')" and get: "al_get i sm = Some ce"
    and op: "op \<noteq> UnregisterEntity i" "op \<noteq> DiscardTowards k"
  shows "\<exists>ce' added. al_get i sm' = Some ce'
    \<and> map ci_command added = expected_commands i k (ch_currentSequenceID (ce_aecp ce)) [op]
    \<and> channel_flow PAecp k added (aecp_accepts i op) (ce_aecp ce, w) (ce_aecp ce', w')"
proof -
  have goalI: "\<exists>ce' added. al_get i sm' = Some ce'
      \<and> map ci_command added = expected_commands i k (ch_currentSequenceID (ce_aecp ce)) [op]
      \<and> channel_flow PAecp k added (aecp_accepts i op) (ce_aecp ce, w) (ce_aecp ce', w')"
    if "al_get i sm' = Some ce'" "expected_commands i k (ch_currentSequenceID (ce_aecp ce)) [op] = []"
      "aecp_accepts i op = 0" "channel_flow PAecp k [] 0 (ce_aecp ce, w) (ce_aecp ce', w')" for ce'
    using that by fastforce
  have same: "\<exists>ce' added. al_get i sm' = Some ce'
      \<and> map ci_command added = expected_commands i k (ch_currentSequenceID (ce_aecp ce)) [op]
      \<and> channel_flow PAecp k added (aecp_accepts i op) (ce_aecp ce, w) (ce_aecp ce', w')"
    if "al_get i sm' = Some ce" "expected_commands i k (ch_currentSequenceID (ce_aecp ce)) [op] = []"
      "aecp_accepts i op = 0" "w_trace w' = w_trace w @ evs" for evs
    by (rule goalI [OF that(1-3) channel_flow_idle [OF that(4)]])
  show ?thesis
  proof (cases op)
    case (RegisterEntity j)
    then show ?thesis
      using step get by (intro same [of "[]"]) (auto simp: command_registerLocalEntity_def split: option.splits)
  next
    case (UnregisterEntity j)
    then show ?thesis
      using step get op(1)
      by (intro same [of "drop (length (w_trace w)) (w_trace w')"])
         (auto simp: command_unregisterLocalEntity_def split: option.splits)
  next
    case (DiscardTowards k')
    have "al_get i (discardAECPCommandsTowardsEntity k' sm)
        = Some (ce\<lparr>ce_aecp := discard_channel k' (ce_aecp ce)\<rparr>)"
      using get by (induction sm) (auto simp: discardAECPCommandsTowardsEntity_def split: if_splits)
    moreover have "channel_flow PAecp k [] 0 (ce_aecp ce, w) (discard_channel k' (ce_aecp ce), w)"
      using op(2) DiscardTowards
      by (auto simp: channel_flow_def discard_channel_def queued_for_def intro!: fifo_since_refl)
    ultimately show ?thesis
      using step DiscardTowards
      by (intro goalI [of "ce\<lparr>ce_aecp := discard_channel k' (ce_aecp ce)\<rparr>"]) simp_all
  next
    case CheckTimeouts
    obtain t where "check_entities vud t sm (snd (now w)) = (sm', w')"
      using step CheckTimeouts by (auto simp: checkInflightCommandsTimeoutExpiracy_def now_def)
    then obtain w0 w1 ce' evs0 evs1 where c: "check_entity vud t ce w0 = (ce', w1)" "al_get i sm' = Some ce'"
      "w_trace w0 = w_trace w @ evs0" "w_trace w' = w_trace w1 @ evs1"
      using check_entities_found [OF _ get] by fastforce
    have "channel_flow PAecp k [] 0 (ce_aecp ce, w) (ce_aecp ce', w')"
      by (rule flow_before [OF flow_after [OF c(3) check_entity_flow [OF c(1)]] c(4)])
    then show ?thesis
      using CheckTimeouts c(2) by (intro goalI) simp_all
  next
    case (AecpResponse p)
    have "\<exists>ce'. al_get i sm' = Some ce' \<and> channel_flow PAecp k [] 0 (ce_aecp ce, w) (ce_aecp ce', w')"
      by (rule handleAecpResponse_flow) (use step get AecpResponse in auto)
    then show ?thesis using AecpResponse goalI by auto
  next
    case (AcmpResponse p)
    have "\<exists>ce'. al_get i sm' = Some ce' \<and> channel_flow PAecp k [] 0 (ce_aecp ce, w) (ce_aecp ce', w')"
      by (rule handleAcmpResponse_flow) (use step get AcmpResponse in auto)
    then show ?thesis using AcmpResponse goalI by auto
  next
    case (SendAecp p h)
    obtain err where s: "sendAecpCommand vud p h sm w = (err, sm', w')"
      using step SendAecp by (cases "sendAecpCommand vud p h sm w") auto
    show ?thesis using sendAecpCommand_flow [OF s get] SendAecp by simp
  next
    case (SendAcmp p h)
    have "\<exists>ce'. al_get i sm' = Some ce' \<and> channel_flow PAecp k [] 0 (ce_aecp ce, w) (ce_aecp ce', w')"
      by (rule sendAcmpCommand_flow) (use step get SendAcmp in auto)
    then show ?thesis using SendAcmp goalI by auto
  qed
qed

lemma command_run_flow:
  "al_get i (fst st) = Some ce \<Longrightarrow> \<forall>op\<in>set ops. op \<noteq> UnregisterEntity i \<and> op \<noteq> DiscardTowards k \<Longrightarrow>
     \<exists>ce' added. al_get i (fst (command_run vud ops st)) = Some ce'
       \<and> map ci_command added = expected_commands i k (ch_currentSequenceID (ce_aecp ce)) ops
       \<and> channel_flow PAecp k added (\<Sum>op\<leftarrow>ops. aecp_accepts i op)
           (ce_aecp ce, snd st) (ce_aecp ce', snd (command_run vud ops st))"
proof (induction ops arbitrary: st ce)
  case Nil
  then show ?case using channel_flow_idle [of "snd st" "snd st" "[]"] by simp
next
  case (Cons op ops)
  obtain sm1 w1 where step: "command_step vud op (fst st, snd st) = (sm1, w1)" by fastforce
  have op: "op \<noteq> UnregisterEntity i" "op \<noteq> DiscardTowards k" using Cons.prems(2) by auto
  obtain ce1 a where a: "al_get i sm1 = Some ce1"
    "map ci_command a = expected_commands i k (ch_currentSequenceID (ce_aecp ce)) [op]"
    "channel_flow PAecp k a (aecp_accepts i op) (ce_aecp ce, snd st) (ce_aecp ce1, w1)"
    using command_step_flow [OF step Cons.prems(1) op] by blast
  obtain ce2 b where b: "al_get i (fst (command_run vud ops (sm1, w1))) = Some ce2"
    "map ci_command b = expected_commands i k (ch_currentSequenceID (ce_aecp ce1)) ops"
    "channel_flow PAecp k b (\<Sum>op\<leftarrow>ops. aecp_accepts i op) (ce_aecp ce1, w1)
       (ce_aecp ce2, snd (command_run vud ops (sm1, w1)))"
    using Cons.IH [of "(sm1, w1)" ce1] a(1) Cons.prems(2) by auto
  have s: "ch_currentSequenceID (ce_aecp ce1) = ch_currentSequenceID (ce_aecp ce) + of_nat (aecp_accepts i op)"
    using a(3) by (simp add: channel_flow_def)
  show ?case
    using b(1) a(2) b(2) channel_flow_trans [OF a(3) b(3)] step
    by (intro exI [of _ ce2] exI [of _ "a @ b"]) (simp add: expected_commands_Cons [of i k _ op ops] s)
qed

text \<open>
  The same of the ACMP commands, which wait for each address they are sent to and are numbered apart from those
  of AECP.
\<close>

fun expected_acmp_commands :: "entity_id \<Rightarrow> mac_address \<Rightarrow> 16 word \<Rightarrow> command_op list \<Rightarrow> acmpdu list" where
  "expected_acmp_commands i d s [] = []"
| "expected_acmp_commands i d s (SendAcmp p h # ops) =
     (if m_acmpControllerEntityID p = i
      then (if m_destAddress p = d then [setAcmpSequenceID s p] else []) @ expected_acmp_commands i d (s + 1) ops
      else expected_acmp_commands i d s ops)"
| "expected_acmp_commands i d s (op # ops) = expected_acmp_commands i d s ops"

fun acmp_accepts :: "entity_id \<Rightarrow> command_op \<Rightarrow> nat" where
  "acmp_accepts i (SendAcmp p h) = of_bool (m_acmpControllerEntityID p = i)"
| "acmp_accepts i op = 0"

lemma expected_acmp_commands_Cons:
  "expected_acmp_commands i d s (op # ops) =
     expected_acmp_commands i d s [op] @ expected_acmp_commands i d (s + of_nat (acmp_accepts i op)) ops"
  by (cases op) auto

lemma check_entity_acmp_flow:
  assumes "check_entity vud t ce w = (ce', w')"
  shows "channel_flow PAcmp d [] 0 (ce_acmp ce, w) (ce_acmp ce', w')"
proof -
  obtain a1 w1 where a1: "check_channel (aecp_engine vud) t (ce_aecp ce) w = (a1, w1)" by fastforce
  obtain b1 w2 where b1: "check_channel acmp_engine t (ce_acmp ce) w1 = (b1, w2)" by fastforce
  obtain a2 w3 where a2: "notify_scheduled_errors a1 w2 = (a2, w3)" by fastforce
  obtain b2 w4 where b2: "notify_scheduled_errors b1 w3 = (b2, w4)" by fastforce
  have res: "ce_acmp ce' = b2" "w' = w4"
    using assms a1 b1 a2 b2 by (auto simp: check_entity_def)
  obtain evs1 where w1: "w_trace w1 = w_trace w @ evs1"
    using aecp.check_targets_trace [OF a1 [unfolded check_channel_def]] by blast
  obtain evs3 where w3: "w_trace w3 = w_trace w2 @ evs3"
    using notify_scheduled_errors_more(4) [OF a2] by blast
  have "channel_flow PAcmp d [] 0 (ce_acmp ce, w) (b1, w3)"
    using flow_before [OF flow_after [OF w1 acmp.check_channel_flow [OF b1, of d]] w3] by simp
  then show ?thesis
    using channel_flow_trans [of PAcmp d "[]" 0 "(ce_acmp ce, w)" "(b1, w3)" "[]" 0 "(b2, w4)"]
      acmp.notify_scheduled_errors_flow [OF b2, of PAcmp d] by (simp add: res)
qed

text \<open>Between the two channels of an entity: what one does is a silent growth of the trace to the other.\<close>

lemma idle_acmp:
  assumes "al_get i sm' = Some ce'" "ce_acmp ce' = ce_acmp ce" "w_trace w' = w_trace w @ evs"
    "expected_acmp_commands i d (ch_currentSequenceID (ce_acmp ce)) [op] = []" "acmp_accepts i op = 0"
  shows "\<exists>ce' added. al_get i sm' = Some ce'
    \<and> map ci_command added = expected_acmp_commands i d (ch_currentSequenceID (ce_acmp ce)) [op]
    \<and> channel_flow PAcmp d added (acmp_accepts i op) (ce_acmp ce, w) (ce_acmp ce', w')"
  using assms channel_flow_idle [OF assms(3), of PAcmp d "ce_acmp ce"] by (intro exI [of _ ce'] exI [of _ "[]"]) simp

lemma handleAecpResponse_acmp:
  assumes "handleAecpResponse vud p sm w = (sm', w')" and "al_get i sm = Some ce"
  shows "\<exists>ce' evs. al_get i sm' = Some ce' \<and> ce_acmp ce' = ce_acmp ce \<and> w_trace w' = w_trace w @ evs"
proof -
  obtain ce' where ce': "al_get i sm' = Some ce'" "channel_flow PAecp 0 [] 0 (ce_aecp ce, w) (ce_aecp ce', w')"
    using handleAecpResponse_flow [OF assms] by blast
  moreover have "ce_acmp ce' = ce_acmp ce"
    using assms ce'(1)
    by (auto simp: handleAecpResponse_def now_def Let_def split: option.splits if_splits prod.splits)
  moreover obtain evs where "w_trace w' = w_trace w @ evs" using flow_trace [OF ce'(2)] by blast
  ultimately show ?thesis by blast
qed

lemma handleAcmpResponse_acmp_flow:
  assumes h: "handleAcmpResponse p sm w = (sm', w')" and get: "al_get i sm = Some ce"
  shows "\<exists>ce'. al_get i sm' = Some ce' \<and> channel_flow PAcmp d [] 0 (ce_acmp ce, w) (ce_acmp ce', w')"
proof (cases "(sm', w') = (sm, w)")
  case True
  then show ?thesis using get channel_flow_idle [of w w "[]"] by simp
next
  case False
  then obtain ce1 ch s onResult where r: "complete_command acmp_engine (m_destAddress p) s onResult (PAcmp p) (ce_acmp ce1) w = (ch, w')"
    "al_get (m_acmpControllerEntityID p) sm = Some ce1"
    "sm' = al_put (m_acmpControllerEntityID p) (ce1\<lparr>ce_acmp := ch\<rparr>) sm"
    using h by (auto simp: handleAcmpResponse_def Let_def split: option.splits if_splits prod.splits)
  have flow: "channel_flow PAcmp d [] 0 (ce_acmp ce1, w) (ch, w')"
    using acmp.complete_command_flow [OF r(1), of d] by simp
  show ?thesis
  proof (cases "i = m_acmpControllerEntityID p")
    case True
    then show ?thesis using flow get r(2,3) by simp
  next
    case False
    then show ?thesis using get r(3) flow_trace [OF flow] by (auto intro: channel_flow_idle)
  qed
qed

lemma sendAcmpCommand_acmp_flow:
  assumes h: "snd (sendAcmpCommand p onResult sm w) = (sm', w')" and get: "al_get i sm = Some ce"
  shows "\<exists>ce' added. al_get i sm' = Some ce'
    \<and> map ci_command added = expected_acmp_commands i d (ch_currentSequenceID (ce_acmp ce)) [SendAcmp p onResult]
    \<and> channel_flow PAcmp d added (acmp_accepts i (SendAcmp p onResult)) (ce_acmp ce, w) (ce_acmp ce', w')"
proof (cases "al_get (m_acmpControllerEntityID p) sm")
  case None
  then have "m_acmpControllerEntityID p \<noteq> i" using get by auto
  then show ?thesis
    using h get None channel_flow_idle [of w w "[]" PAcmp d "ce_acmp ce"] by (simp add: sendAcmpCommand_def)
next
  case (Some ce1)
  let ?s = "ch_currentSequenceID (ce_acmp ce1)"
  obtain ch where r: "queue_command acmp_engine (m_destAddress p) ?s
      (setAcmpSequenceID ?s p) onResult (snd (getNextSequenceID (ce_acmp ce1))) w = (ch, w')"
    "sm' = al_put (m_acmpControllerEntityID p) (ce1\<lparr>ce_acmp := ch\<rparr>) sm"
    using h Some by (auto simp: sendAcmpCommand_def getNextSequenceID_def Let_def split: prod.splits)
  obtain c where c: "ci_command c = setAcmpSequenceID ?s p"
    "channel_flow PAcmp d (if d = m_destAddress p then [c] else []) 1 (ce_acmp ce1, w) (ch, w')"
    using acmp.queue_command_flow [OF r(1), of d] by auto
  show ?thesis
  proof (cases "m_acmpControllerEntityID p = i")
    case True
    then show ?thesis
      using c get Some r(2)
      by (intro exI [of _ "ce1\<lparr>ce_acmp := ch\<rparr>"] exI [of _ "if d = m_destAddress p then [c] else []"]) auto
  next
    case False
    obtain evs where evs: "w_trace w' = w_trace w @ evs"
      using c(2) by (auto simp: channel_flow_def fifo_since_def)
    show ?thesis
      using False get r(2) channel_flow_idle [OF evs] by simp
  qed
qed

lemma command_step_acmp_flow:
  assumes step: "command_step vud op (sm, w) = (sm', w')" and get: "al_get i sm = Some ce"
    and op: "op \<noteq> UnregisterEntity i"
  shows "\<exists>ce' added. al_get i sm' = Some ce'
    \<and> map ci_command added = expected_acmp_commands i d (ch_currentSequenceID (ce_acmp ce)) [op]
    \<and> channel_flow PAcmp d added (acmp_accepts i op) (ce_acmp ce, w) (ce_acmp ce', w')"
proof (cases op)
  case (RegisterEntity j)
  then show ?thesis
    using step get by (intro idle_acmp [of i sm' ce ce w' w "[]"]) (auto simp: command_registerLocalEntity_def split: option.splits)
next
  case (UnregisterEntity j)
  then show ?thesis
    using step get op
    by (intro idle_acmp [of i sm' ce ce w' w "drop (length (w_trace w)) (w_trace w')"])
       (auto simp: command_unregisterLocalEntity_def split: option.splits)
next
  case (DiscardTowards k')
  have "al_get i (discardAECPCommandsTowardsEntity k' sm)
      = Some (ce\<lparr>ce_aecp := discard_channel k' (ce_aecp ce)\<rparr>)"
    using get by (induction sm) (auto simp: discardAECPCommandsTowardsEntity_def split: if_splits)
  then show ?thesis
    using step DiscardTowards
    by (intro idle_acmp [of i sm' "ce\<lparr>ce_aecp := discard_channel k' (ce_aecp ce)\<rparr>" ce w' w "[]"]) simp_all
next
  case CheckTimeouts
  obtain t where "check_entities vud t sm (snd (now w)) = (sm', w')"
    using step CheckTimeouts by (auto simp: checkInflightCommandsTimeoutExpiracy_def now_def)
  then obtain w0 w1 ce' evs0 evs1 where c: "check_entity vud t ce w0 = (ce', w1)" "al_get i sm' = Some ce'"
    "w_trace w0 = w_trace w @ evs0" "w_trace w' = w_trace w1 @ evs1"
    using check_entities_found [OF _ get] by fastforce
  have "channel_flow PAcmp d [] 0 (ce_acmp ce, w) (ce_acmp ce', w')"
    by (rule flow_before [OF flow_after [OF c(3) check_entity_acmp_flow [OF c(1)]] c(4)])
  then show ?thesis
    using CheckTimeouts c(2) by (intro exI [of _ ce'] exI [of _ "[]"]) simp
next
  case (AecpResponse p)
  have "handleAecpResponse vud p sm w = (sm', w')" using step AecpResponse by simp
  from handleAecpResponse_acmp [OF this get] obtain ce' evs
    where "al_get i sm' = Some ce'" "ce_acmp ce' = ce_acmp ce" "w_trace w' = w_trace w @ evs" by blast
  then show ?thesis using AecpResponse by (intro idle_acmp [of i sm' ce' ce w' w evs]) simp_all
next
  case (AcmpResponse p)
  have "\<exists>ce'. al_get i sm' = Some ce' \<and> channel_flow PAcmp d [] 0 (ce_acmp ce, w) (ce_acmp ce', w')"
    by (rule handleAcmpResponse_acmp_flow) (use step get AcmpResponse in auto)
  then show ?thesis using AcmpResponse by fastforce
next
  case (SendAecp p h)
  obtain err where s: "sendAecpCommand vud p h sm w = (err, sm', w')"
    using step SendAecp by (cases "sendAecpCommand vud p h sm w") auto
  obtain ce' added where ce': "al_get i sm' = Some ce'" "channel_flow PAecp 0 added (aecp_accepts i op) (ce_aecp ce, w) (ce_aecp ce', w')"
    using sendAecpCommand_flow [OF s get, of 0] SendAecp by blast
  moreover have "ce_acmp ce' = ce_acmp ce"
    using s get ce'(1) by (auto simp: sendAecpCommand_def Let_def split: option.splits if_splits prod.splits)
  moreover obtain evs where "w_trace w' = w_trace w @ evs" using flow_trace [OF ce'(2)] by blast
  ultimately show ?thesis using SendAecp by (intro idle_acmp [of i sm' ce' ce w' w evs]) simp_all
next
  case (SendAcmp p h)
  then show ?thesis using sendAcmpCommand_acmp_flow [OF _ get, of p h w sm' w'] step by simp
qed

lemma command_run_acmp_flow:
  "al_get i (fst st) = Some ce \<Longrightarrow> \<forall>op\<in>set ops. op \<noteq> UnregisterEntity i \<Longrightarrow>
     \<exists>ce' added. al_get i (fst (command_run vud ops st)) = Some ce'
       \<and> map ci_command added = expected_acmp_commands i d (ch_currentSequenceID (ce_acmp ce)) ops
       \<and> channel_flow PAcmp d added (\<Sum>op\<leftarrow>ops. acmp_accepts i op)
           (ce_acmp ce, snd st) (ce_acmp ce', snd (command_run vud ops st))"
proof (induction ops arbitrary: st ce)
  case Nil
  then show ?case using channel_flow_idle [of "snd st" "snd st" "[]"] by simp
next
  case (Cons op ops)
  obtain sm1 w1 where step: "command_step vud op (fst st, snd st) = (sm1, w1)" by fastforce
  have op: "op \<noteq> UnregisterEntity i" using Cons.prems(2) by auto
  obtain ce1 a where a: "al_get i sm1 = Some ce1"
    "map ci_command a = expected_acmp_commands i d (ch_currentSequenceID (ce_acmp ce)) [op]"
    "channel_flow PAcmp d a (acmp_accepts i op) (ce_acmp ce, snd st) (ce_acmp ce1, w1)"
    using command_step_acmp_flow [OF step Cons.prems(1) op] by blast
  obtain ce2 b where b: "al_get i (fst (command_run vud ops (sm1, w1))) = Some ce2"
    "map ci_command b = expected_acmp_commands i d (ch_currentSequenceID (ce_acmp ce1)) ops"
    "channel_flow PAcmp d b (\<Sum>op\<leftarrow>ops. acmp_accepts i op) (ce_acmp ce1, w1)
       (ce_acmp ce2, snd (command_run vud ops (sm1, w1)))"
    using Cons.IH [of "(sm1, w1)" ce1] a(1) Cons.prems(2) by auto
  have s: "ch_currentSequenceID (ce_acmp ce1) = ch_currentSequenceID (ce_acmp ce) + of_nat (acmp_accepts i op)"
    using a(3) by (simp add: channel_flow_def)
  show ?case
    using b(1) a(2) b(2) channel_flow_trans [OF a(3) b(3)] step
    by (intro exI [of _ ce2] exI [of _ "a @ b"]) (simp add: expected_acmp_commands_Cons [of i d _ op ops] s)
qed

text \<open>From a new channel, what was added is what was sent, in order, and what the queue holds.\<close>

lemma new_channel_flow:
  assumes "channel_flow f k added n (channel_new, w) (ch, w')" "w_trace w = []"
  shows "\<exists>n. n \<le> length (map ci_command added)
    \<and> subseq (map f (take n (map ci_command added))) (sent_pdus (w_trace w'))
    \<and> map ci_command (queued_for k (ch_queue ch)) = drop n (map ci_command added)"
proof -
  obtain m where "queued_for k (ch_queue ch) = drop m added" "m \<le> length added"
    "subseq (map (f \<circ> ci_command) (take m added)) (sent_pdus (w_trace w'))"
    using assms by (auto simp: channel_flow_def fifo_since_def channel_new_def queued_for_def)
  thus ?thesis by (intro exI [of _ m]) (simp add: take_map drop_map)
qed

text \<open>
  C36.  Transmissions are in the order of acceptance and the sequence IDs are consecutive: however the
  calls are interleaved (other local entities, other targets, responses, timeout checks), as long as the local
  entity is not unregistered, the AECP commands it accepts for a target leave the queue first in, first out,
  unless those towards the target are discarded, and so do the ACMP commands it accepts for an address.
  Of the commands the calls ask for, numbered from zero over all targets modulo 65536 (AECP and ACMP apart),
  some \<^verbatim>\<open>n\<close> first have been given to the transport, in that order, and the rest are what the queue holds.
\<close>

theorem commands_sent_in_order:
  assumes "\<forall>op\<in>set ops. op \<noteq> UnregisterEntity i"
    and "command_run vud (RegisterEntity i # ops) (command_init w0) = (sm, w)"
  shows "\<exists>ce. al_get i sm = Some ce
    \<and> (\<forall>k. (\<forall>op\<in>set ops. op \<noteq> DiscardTowards k) \<longrightarrow> (\<exists>n\<le>length (expected_commands i k 0 ops).
         subseq (map PAecp (take n (expected_commands i k 0 ops))) (sent_pdus (w_trace w))
         \<and> map ci_command (queued_for k (ch_queue (ce_aecp ce))) = drop n (expected_commands i k 0 ops)))
    \<and> (\<forall>d. \<exists>n\<le>length (expected_acmp_commands i d 0 ops).
         subseq (map PAcmp (take n (expected_acmp_commands i d 0 ops))) (sent_pdus (w_trace w))
         \<and> map ci_command (queued_for d (ch_queue (ce_acmp ce))) = drop n (expected_acmp_commands i d 0 ops))"
proof -
  let ?ce = "\<lparr>ce_aecp = channel_new, ce_acmp = channel_new\<rparr>"
  let ?st = "command_step vud (RegisterEntity i) (command_init w0)"
  have get: "al_get i (fst ?st) = Some ?ce"
    by (simp add: command_init_def command_registerLocalEntity_def)
  have run: "command_run vud ops ?st = (sm, w)" using assms(2) by simp
  have start: "w_trace (snd ?st) = []" by (simp add: command_init_def)
  obtain ce where ce: "al_get i sm = Some ce"
    using command_run_acmp_flow [OF get assms(1), of vud] run by fastforce
  have aecp: "\<exists>n\<le>length (expected_commands i k 0 ops).
      subseq (map PAecp (take n (expected_commands i k 0 ops))) (sent_pdus (w_trace w))
      \<and> map ci_command (queued_for k (ch_queue (ce_aecp ce))) = drop n (expected_commands i k 0 ops)"
    if "\<forall>op\<in>set ops. op \<noteq> DiscardTowards k" for k
  proof -
    have "\<forall>op\<in>set ops. op \<noteq> UnregisterEntity i \<and> op \<noteq> DiscardTowards k" using assms(1) that by blast
    from command_run_flow [OF get this, of vud] run ce obtain added where
      "map ci_command added = expected_commands i k 0 ops"
      "channel_flow PAecp k added (\<Sum>op\<leftarrow>ops. aecp_accepts i op) (channel_new, snd ?st) (ce_aecp ce, w)"
      by (auto simp: channel_new_def)
    with new_channel_flow [OF this(2) start] show ?thesis by auto
  qed
  have acmp: "\<exists>n\<le>length (expected_acmp_commands i d 0 ops).
      subseq (map PAcmp (take n (expected_acmp_commands i d 0 ops))) (sent_pdus (w_trace w))
      \<and> map ci_command (queued_for d (ch_queue (ce_acmp ce))) = drop n (expected_acmp_commands i d 0 ops)" for d
  proof -
    from command_run_acmp_flow [OF get assms(1), of vud d] run ce obtain added where
      "map ci_command added = expected_acmp_commands i d 0 ops"
      "channel_flow PAcmp d added (\<Sum>op\<leftarrow>ops. acmp_accepts i op) (channel_new, snd ?st) (ce_acmp ce, w)"
      by (auto simp: channel_new_def)
    with new_channel_flow [OF this(2) start] show ?thesis by auto
  qed
  show ?thesis using ce aecp acmp by blast
qed

definition sample_ops :: "command_op list" where
  "sample_ops = [SendAecp (Aem aem_sample) 1, SendAecp (Aem aem_sample) 2, CheckTimeouts]"

abbreviation sample_run :: "command_sm \<times> world" where
  "sample_run \<equiv> command_run any_delegates (RegisterEntity 0x001b92fffe000001 # sample_ops)
     (command_init sample_world)"

theorem commands_sent_in_order_witness:
  "\<exists>n ce. al_get 0x001b92fffe000001 (fst sample_run) = Some ce \<and> n \<le> 2
     \<and> subseq (map PAecp (take n [setAecpSequenceID 0 (Aem aem_sample), setAecpSequenceID 1 (Aem aem_sample)]))
         (sent_pdus (w_trace (snd sample_run)))
     \<and> map ci_command (queued_for 0x001b92fffe000002 (ch_queue (ce_aecp ce)))
       = drop n [setAecpSequenceID 0 (Aem aem_sample), setAecpSequenceID 1 (Aem aem_sample)]"
proof -
  have ops: "\<forall>op\<in>set sample_ops. op \<noteq> UnregisterEntity 0x001b92fffe000001"
    by (simp add: sample_ops_def)
  have discards: "\<forall>op\<in>set sample_ops. op \<noteq> DiscardTowards 0x001b92fffe000002"
    by (simp add: sample_ops_def)
  have e: "expected_commands 0x001b92fffe000001 0x001b92fffe000002 0 sample_ops
      = [setAecpSequenceID 0 (Aem aem_sample), setAecpSequenceID 1 (Aem aem_sample)]"
    by (simp add: sample_ops_def aecp_controllerEntityID_def aecp_targetEntityID_def aem_sample_def
        AemAecpdu_new_def Aecpdu_new_def aecpdu.extend_def setAecpSpecificDataLength_def aecpdu.truncate_def)
  from commands_sent_in_order [OF ops surjective_pairing, of any_delegates sample_world] obtain ce :: command_entity
    where ce: "al_get 0x001b92fffe000001 (fst sample_run) = Some ce"
      and sent: "\<forall>k. (\<forall>op\<in>set sample_ops. op \<noteq> DiscardTowards k) \<longrightarrow>
        (\<exists>n\<le>length (expected_commands 0x001b92fffe000001 k 0 sample_ops).
         subseq (map PAecp (take n (expected_commands 0x001b92fffe000001 k 0 sample_ops))) (sent_pdus (w_trace (snd sample_run)))
         \<and> map ci_command (queued_for k (ch_queue (ce_aecp ce)))
           = drop n (expected_commands 0x001b92fffe000001 k 0 sample_ops))"
    by blast
  from mp [OF spec [OF sent] discards] show ?thesis
    unfolding e using ce by (auto simp: numeral_2_eq_2 simp del: command_run_simps setAecpSequenceID.simps)
qed

section \<open>Removal of a local entity\<close>

lemma cancel_waiting: "ch_handlers ch = handled_by (cancel_inflight ch) + ch_waiting ch"
  by (simp add: handled_by_cancel_inflight ch_waiting_def ch_handlers_def ac_simps)

text \<open>
  Unregistering a local entity calls, with the unknown entity error, the handlers of its commands
  in flight, the AECP ones before the ACMP ones, and nothing else: the handlers of the commands still
  queued and of the scheduled errors are the ones forgotten.
\<close>

theorem unregister_calls_inflight:
  assumes "al_get i sm = Some ce"
  shows "command_unregisterLocalEntity i sm w =
      (al_del i sm, emit (cancel_inflight (ce_aecp ce) @ cancel_inflight (ce_acmp ce)) w)
    \<and> handled_by (cancel_inflight (ce_aecp ce) @ cancel_inflight (ce_acmp ce)) + command_lost (UnregisterEntity i) sm
      = ce_handlers ce"
  using assms cancel_waiting [of "ce_aecp ce"] cancel_waiting [of "ce_acmp ce"]
  by (simp add: command_unregisterLocalEntity_def al_part_def ce_handlers_def ac_simps)

definition waiting_entity :: command_entity where
  "waiting_entity = sample_entity\<lparr>ce_aecp := (ce_aecp sample_entity)\<lparr>ch_queue :=
     [(0x001b92fffe000002, [sample_command\<lparr>ci_resultHandler := 8\<rparr>])]\<rparr>\<rparr>"

theorem unregister_calls_inflight_witness:
  "command_unregisterLocalEntity 1 [(1, waiting_entity)] sample_world
      = ([], emit [Handled 7 None UnknownLocalEntity] sample_world)
    \<and> command_lost (UnregisterEntity 1) [(1, waiting_entity)] = {#8#}"
  using unregister_calls_inflight [of 1 "[(1, waiting_entity)]" waiting_entity sample_world]
  by (simp add: waiting_entity_def sample_entity_def sample_command_def channel_new_def cancel_inflight_def
      al_part_def ch_waiting_def queue_handlers_def al_del_def)

end
