(* ===== verification/PayloadCodec.thy ===== *)
theory PayloadCodec
  imports Aecpdu
begin

text \<open>
  What the payloads of the AEM commands share (src/protocol/protocolAemPayloads.cpp): the statuses of
  \<^verbatim>\<open>LocalEntity\<close>, the check of a response's size, the shape of the readers, and the contracts
  \<^verbatim>\<open>payload_codec\<close> (a writer and a reader of the same values) and \<^verbatim>\<open>payload_response\<close> (the reader of a
  response, behind the check).

  A payload is the list of its bytes: its pointer is never null, since a message holds its payload in an
  array of its own.  A reader returns the values or the exception it throws.
\<close>

section \<open>Statuses\<close>

text \<open>
  The status enumerations of \<^verbatim>\<open>LocalEntity\<close> are 16-bit values: those of the protocol, and the library's
  own, which are the same in the four of them.
\<close>

type_synonym command_status = "16 word"

definition Status_Success :: command_status where "Status_Success = 0"
definition Status_NotImplemented :: command_status where "Status_NotImplemented = 1"
definition Status_BaseProtocolViolation :: command_status where "Status_BaseProtocolViolation = 991"
definition Status_PartialImplementation :: command_status where "Status_PartialImplementation = 992"
definition Status_NetworkError :: command_status where "Status_NetworkError = 995"
definition Status_ProtocolError :: command_status where "Status_ProtocolError = 996"
definition Status_TimedOut :: command_status where "Status_TimedOut = 997"
definition Status_UnknownEntity :: command_status where "Status_UnknownEntity = 998"
definition Status_InternalError :: command_status where "Status_InternalError = 999"

section \<open>Readers of payloads\<close>

type_synonym descriptor_type = "16 word"
type_synonym descriptor_index = "16 word"
type_synonym configuration_index = "16 word"
type_synonym stream_format = "64 word"
type_synonym sampling_rate = "32 word"

definition checkResponsePayload :: "byte list \<Rightarrow> command_status \<Rightarrow> nat \<Rightarrow> nat \<Rightarrow> unit outcome" where
  "checkResponsePayload payload status expectedPayloadCommandLength expectedPayloadResponseLength =
     (if status = Status_NotImplemented
      then if length payload \<noteq> expectedPayloadCommandLength then Inl IncorrectPayloadSize else Inl NotImplementedStatus
      else if length payload < expectedPayloadResponseLength then Inl IncorrectPayloadSize else Inr ())"

text \<open>How the readers of a payload of fixed size begin: its length is checked, then it is read from its start.\<close>

definition unpack_payload :: "nat \<Rightarrow> byte list \<Rightarrow> (deserializer \<Rightarrow> 'a option) \<Rightarrow> 'a outcome" where
  "unpack_payload expected payload body =
     (if length payload < expected then Inl IncorrectPayloadSize else of_buffer (body (deser_new payload)))"

lemma checkResponsePayload_NotImplemented [simp]:
  "checkResponsePayload payload Status_NotImplemented cmd resp =
     Inl (if length payload = cmd then NotImplementedStatus else IncorrectPayloadSize)"
  by (simp add: checkResponsePayload_def)

lemma checkResponsePayload_implemented:
  "status \<noteq> Status_NotImplemented \<Longrightarrow> checkResponsePayload payload status cmd resp =
     (if length payload < resp then Inl IncorrectPayloadSize else Inr ())"
  by (simp add: checkResponsePayload_def)

lemma checkResponsePayload_InrD:
  "checkResponsePayload payload status cmd resp = Inr u \<Longrightarrow> status \<noteq> Status_NotImplemented \<and> resp \<le> length payload"
  by (auto simp: checkResponsePayload_def split: if_splits)

section \<open>Contracts\<close>

text \<open>
  The writer fills its buffer exactly, the reader gives the values back whatever follows them, and it fails
  on a shorter payload only, with the exception for that.
\<close>

locale payload_codec =
  fixes ser :: "'a \<Rightarrow> byte list option"
    and des :: "byte list \<Rightarrow> 'a outcome"
    and sz :: nat
  assumes ser_des: "\<exists>bs. ser x = Some bs \<and> length bs = sz \<and> (\<forall>pad. des (bs @ pad) = Inr x)"
    and des_short: "length payload < sz \<Longrightarrow> des payload = Inl IncorrectPayloadSize"
    and des_long: "sz \<le> length payload \<Longrightarrow> \<exists>x. des payload = Inr x"
begin

lemma ser_size: "ser x = Some bs \<Longrightarrow> length bs = sz"
  using ser_des [of x] by auto

lemma des_ser: "ser x = Some bs \<Longrightarrow> des (bs @ pad) = Inr x"
  using ser_des [of x] by auto

lemma ser_total: "ser x \<noteq> None"
  using ser_des [of x] by auto

lemma ser_inj: "ser x = ser y \<Longrightarrow> x = y"
  using ser_des [of x] ser_des [of y] by (metis append_Nil2 option.sel sum.inject(2))

lemma des_Inl_iff: "des payload = Inl ex \<longleftrightarrow> length payload < sz \<and> ex = IncorrectPayloadSize"
  using des_short [of payload] des_long [of payload] by (cases "length payload < sz") auto

end

text \<open>
  The reader of a response with these values: behind the check of the payload, whose expected size of the
  reflected command is \<^verbatim>\<open>cmd\<close>.
\<close>

locale payload_response = payload_codec ser des sz
  for ser :: "'a \<Rightarrow> byte list option" and des and sz +
  fixes rdes :: "command_status \<Rightarrow> byte list \<Rightarrow> 'a outcome"
    and cmd :: nat
  assumes rdes_checked:
    "rdes status payload = obind (checkResponsePayload payload status cmd sz) (\<lambda>_. des payload)"
begin

lemma rdes_ser:
  "ser x = Some bs \<Longrightarrow> status \<noteq> Status_NotImplemented \<Longrightarrow> rdes status (bs @ pad) = Inr x"
  using ser_size [of x bs] by (simp add: rdes_checked checkResponsePayload_implemented des_ser)

lemma rdes_NotImplemented:
  "rdes Status_NotImplemented payload =
     Inl (if length payload = cmd then NotImplementedStatus else IncorrectPayloadSize)"
  by (simp add: rdes_checked)

lemma rdes_Inl_iff:
  "status \<noteq> Status_NotImplemented \<Longrightarrow>
     rdes status payload = Inl ex \<longleftrightarrow> length payload < sz \<and> ex = IncorrectPayloadSize"
  by (auto simp: rdes_checked checkResponsePayload_implemented des_Inl_iff)

lemma rdes_errors: "rdes status payload = Inl ex \<Longrightarrow> ex \<in> {NotImplementedStatus, IncorrectPayloadSize}"
  using rdes_Inl_iff [of status payload ex] rdes_NotImplemented [of payload]
  by (cases "status = Status_NotImplemented") (auto split: if_splits)

end

lemma short_reads:
  "Option.bind (get8 d) f8 = None \<longleftrightarrow> remaining d < 1 \<or> f8 (be_word (take 1 (d_rest d)), adv 1 d) = None"
  "Option.bind (get16 d) f16 = None \<longleftrightarrow> remaining d < 2 \<or> f16 (be_word (take 2 (d_rest d)), adv 2 d) = None"
  "Option.bind (get32 d) f32 = None \<longleftrightarrow> remaining d < 4 \<or> f32 (be_word (take 4 (d_rest d)), adv 4 d) = None"
  "Option.bind (get64 d) f64 = None \<longleftrightarrow> remaining d < 8 \<or> f64 (be_word (take 8 (d_rest d)), adv 8 d) = None"
  "Option.bind (get_mac d) f48 = None \<longleftrightarrow> remaining d < 6 \<or> f48 (be_word (take 6 (d_rest d)), adv 6 d) = None"
  "Option.bind (get_fixed d) f512 = None \<longleftrightarrow> remaining d < 64 \<or> f512 (be_word (take 64 (d_rest d)), adv 64 d) = None"
  by (simp_all only: scalar_defs bind_get_word_None_iff)

lemmas payload_short = short_reads remaining_adv_less

text \<open>How a chain of writes and the chain of reads of the same fields meet the contract.\<close>

lemma payload_codec_fields:
  assumes ser: "\<And>x. ser x = serialized sz (chunks x)"
    and size: "\<And>x. length (concat (chunks x)) = sz"
    and reads: "\<And>x pad. body (Deser [] (concat (chunks x) @ pad)) = Some x"
    and short: "\<And>d. body d = None \<longleftrightarrow> remaining d < sz"
  shows "payload_codec ser (\<lambda>payload. unpack_payload sz payload body) sz"
proof
  fix x
  show "\<exists>bs. ser x = Some bs \<and> length bs = sz \<and> (\<forall>pad. unpack_payload sz (bs @ pad) body = Inr x)"
    using size [of x] reads [of x] by (simp add: ser serialized_eq unpack_payload_def)
next
  fix payload :: "byte list"
  show "length payload < sz \<Longrightarrow> unpack_payload sz payload body = Inl IncorrectPayloadSize"
    by (simp add: unpack_payload_def)
  show "sz \<le> length payload \<Longrightarrow> \<exists>x. unpack_payload sz payload body = Inr x"
    using short [of "Deser [] payload"]
    by (cases "body (Deser [] payload)") (simp_all add: unpack_payload_def)
qed

lemma payload_responseI:
  assumes "payload_codec ser des sz"
    and "\<And>status payload. rdes status payload = obind (checkResponsePayload payload status cmd sz) (\<lambda>_. des payload)"
  shows "payload_response ser des sz rdes cmd"
  using assms by (simp add: payload_response_def payload_response_axioms_def)

end
