(* ===== verification/AemPayloads.thy ===== *)
theory AemPayloads
  imports PayloadCodec Entity
begin

text \<open>
  The payloads of fixed layout of the AEM commands and of their responses (src/protocol/protocolAemPayloads.cpp,
  with the sizes of include/la/avdecc/internals/protocolAemPayloadSizes.hpp).  A writer is the chain of its
  \<^verbatim>\<open><<\<close> into a serializer of the payload's size; most responses are written and read as the command.

  Every pair meets the contract \<^verbatim>\<open>payload_codec\<close>, and every response \<^verbatim>\<open>payload_response\<close>.
\<close>

section \<open>Sizes\<close>

abbreviation (input) AecpAemAcquireEntityCommandPayloadSize :: nat where
  "AecpAemAcquireEntityCommandPayloadSize \<equiv> 16"
abbreviation (input) AecpAemLockEntityCommandPayloadSize :: nat where
  "AecpAemLockEntityCommandPayloadSize \<equiv> 16"
abbreviation (input) AecpAemReadDescriptorCommandPayloadSize :: nat where
  "AecpAemReadDescriptorCommandPayloadSize \<equiv> 8"
abbreviation (input) AecpAemSetConfigurationCommandPayloadSize :: nat where
  "AecpAemSetConfigurationCommandPayloadSize \<equiv> 4"
abbreviation (input) AecpAemSetStreamFormatCommandPayloadSize :: nat where
  "AecpAemSetStreamFormatCommandPayloadSize \<equiv> 12"
abbreviation (input) AecpAemGetStreamFormatCommandPayloadSize :: nat where
  "AecpAemGetStreamFormatCommandPayloadSize \<equiv> 4"
abbreviation (input) AecpAemGetStreamInfoCommandPayloadSize :: nat where
  "AecpAemGetStreamInfoCommandPayloadSize \<equiv> 4"
abbreviation (input) AecpAemSetNameCommandPayloadSize :: nat where
  "AecpAemSetNameCommandPayloadSize \<equiv> 72"
abbreviation (input) AecpAemGetNameCommandPayloadSize :: nat where
  "AecpAemGetNameCommandPayloadSize \<equiv> 8"
abbreviation (input) AecpAemSetAssociationIDCommandPayloadSize :: nat where
  "AecpAemSetAssociationIDCommandPayloadSize \<equiv> 8"
abbreviation (input) AecpAemSetSamplingRateCommandPayloadSize :: nat where
  "AecpAemSetSamplingRateCommandPayloadSize \<equiv> 8"
abbreviation (input) AecpAemGetSamplingRateCommandPayloadSize :: nat where
  "AecpAemGetSamplingRateCommandPayloadSize \<equiv> 4"
abbreviation (input) AecpAemSetClockSourceCommandPayloadSize :: nat where
  "AecpAemSetClockSourceCommandPayloadSize \<equiv> 8"
abbreviation (input) AecpAemGetClockSourceCommandPayloadSize :: nat where
  "AecpAemGetClockSourceCommandPayloadSize \<equiv> 4"
abbreviation (input) AecpAemGetControlCommandPayloadSize :: nat where
  "AecpAemGetControlCommandPayloadSize \<equiv> 4"
abbreviation (input) AecpAemStartStreamingCommandPayloadSize :: nat where
  "AecpAemStartStreamingCommandPayloadSize \<equiv> 4"
abbreviation (input) AecpAemGetAvbInfoCommandPayloadSize :: nat where
  "AecpAemGetAvbInfoCommandPayloadSize \<equiv> 4"
abbreviation (input) AecpAemGetAsPathCommandPayloadSize :: nat where
  "AecpAemGetAsPathCommandPayloadSize \<equiv> 4"
abbreviation (input) AecpAemGetCountersCommandPayloadSize :: nat where
  "AecpAemGetCountersCommandPayloadSize \<equiv> 4"
abbreviation (input) AecpAemRebootCommandPayloadSize :: nat where
  "AecpAemRebootCommandPayloadSize \<equiv> 4"
abbreviation (input) AecpAemGetAudioMapCommandPayloadSize :: nat where
  "AecpAemGetAudioMapCommandPayloadSize \<equiv> 8"
abbreviation (input) AecpAemAbortOperationCommandPayloadSize :: nat where
  "AecpAemAbortOperationCommandPayloadSize \<equiv> 8"
abbreviation (input) AecpAemAbortOperationResponsePayloadSize :: nat where
  "AecpAemAbortOperationResponsePayloadSize \<equiv> 8"
abbreviation (input) AecpAemOperationStatusResponsePayloadSize :: nat where
  "AecpAemOperationStatusResponsePayloadSize \<equiv> 8"
abbreviation (input) AecpAemSetMemoryObjectLengthCommandPayloadSize :: nat where
  "AecpAemSetMemoryObjectLengthCommandPayloadSize \<equiv> 12"
abbreviation (input) AecpAemGetMemoryObjectLengthCommandPayloadSize :: nat where
  "AecpAemGetMemoryObjectLengthCommandPayloadSize \<equiv> 4"
abbreviation (input) AecpAemSetMaxTransitTimeCommandPayloadSize :: nat where
  "AecpAemSetMaxTransitTimeCommandPayloadSize \<equiv> 12"
abbreviation (input) AecpAemGetMaxTransitTimeCommandPayloadSize :: nat where
  "AecpAemGetMaxTransitTimeCommandPayloadSize \<equiv> 4"
abbreviation (input) AecpAemAcquireEntityResponsePayloadSize :: nat where
  "AecpAemAcquireEntityResponsePayloadSize \<equiv> 16"
abbreviation (input) AecpAemLockEntityResponsePayloadSize :: nat where
  "AecpAemLockEntityResponsePayloadSize \<equiv> 16"
abbreviation (input) AecpAemSetConfigurationResponsePayloadSize :: nat where
  "AecpAemSetConfigurationResponsePayloadSize \<equiv> 4"
abbreviation (input) AecpAemGetConfigurationResponsePayloadSize :: nat where
  "AecpAemGetConfigurationResponsePayloadSize \<equiv> 4"
abbreviation (input) AecpAemSetStreamFormatResponsePayloadSize :: nat where
  "AecpAemSetStreamFormatResponsePayloadSize \<equiv> 12"
abbreviation (input) AecpAemGetStreamFormatResponsePayloadSize :: nat where
  "AecpAemGetStreamFormatResponsePayloadSize \<equiv> 12"
abbreviation (input) AecpAemSetNameResponsePayloadSize :: nat where
  "AecpAemSetNameResponsePayloadSize \<equiv> 72"
abbreviation (input) AecpAemGetNameResponsePayloadSize :: nat where
  "AecpAemGetNameResponsePayloadSize \<equiv> 72"
abbreviation (input) AecpAemSetAssociationIDResponsePayloadSize :: nat where
  "AecpAemSetAssociationIDResponsePayloadSize \<equiv> 8"
abbreviation (input) AecpAemGetAssociationIDCommandPayloadSize :: nat where
  "AecpAemGetAssociationIDCommandPayloadSize \<equiv> 0"
abbreviation (input) AecpAemGetAssociationIDResponsePayloadSize :: nat where
  "AecpAemGetAssociationIDResponsePayloadSize \<equiv> 8"
abbreviation (input) AecpAemSetSamplingRateResponsePayloadSize :: nat where
  "AecpAemSetSamplingRateResponsePayloadSize \<equiv> 8"
abbreviation (input) AecpAemGetSamplingRateResponsePayloadSize :: nat where
  "AecpAemGetSamplingRateResponsePayloadSize \<equiv> 8"
abbreviation (input) AecpAemSetClockSourceResponsePayloadSize :: nat where
  "AecpAemSetClockSourceResponsePayloadSize \<equiv> 8"
abbreviation (input) AecpAemGetClockSourceResponsePayloadSize :: nat where
  "AecpAemGetClockSourceResponsePayloadSize \<equiv> 8"
abbreviation (input) AecpAemStartStreamingResponsePayloadSize :: nat where
  "AecpAemStartStreamingResponsePayloadSize \<equiv> 4"
abbreviation (input) AecpAemStopStreamingResponsePayloadSize :: nat where
  "AecpAemStopStreamingResponsePayloadSize \<equiv> 4"
abbreviation (input) AecpAemRebootResponsePayloadSize :: nat where
  "AecpAemRebootResponsePayloadSize \<equiv> 4"
abbreviation (input) AecpAemSetMemoryObjectLengthResponsePayloadSize :: nat where
  "AecpAemSetMemoryObjectLengthResponsePayloadSize \<equiv> 12"
abbreviation (input) AecpAemGetMemoryObjectLengthResponsePayloadSize :: nat where
  "AecpAemGetMemoryObjectLengthResponsePayloadSize \<equiv> 12"
abbreviation (input) AecpAemSetMaxTransitTimeResponsePayloadSize :: nat where
  "AecpAemSetMaxTransitTimeResponsePayloadSize \<equiv> 12"
abbreviation (input) AecpAemGetMaxTransitTimeResponsePayloadSize :: nat where
  "AecpAemGetMaxTransitTimeResponsePayloadSize \<equiv> 12"

section \<open>Commands\<close>

definition serializeAcquireEntityCommand :: "32 word \<Rightarrow> uid \<Rightarrow> descriptor_type \<Rightarrow> descriptor_index \<Rightarrow> byte list option" where
  "serializeAcquireEntityCommand flags ownerID descriptorType descriptorIndex =
     serialized AecpAemAcquireEntityCommandPayloadSize [u32 flags, u64 ownerID, u16 descriptorType, u16 descriptorIndex]"

definition deserializeAcquireEntityCommand :: "byte list \<Rightarrow> (32 word \<times> uid \<times> descriptor_type \<times> descriptor_index) outcome" where
  "deserializeAcquireEntityCommand payload = unpack_payload AecpAemAcquireEntityCommandPayloadSize payload (\<lambda>d. do {
       (flags, d) \<leftarrow> get32 d;
       (ownerID, d) \<leftarrow> get64 d;
       (descriptorType, d) \<leftarrow> get16 d;
       (descriptorIndex, d) \<leftarrow> get16 d;
       Some (flags, ownerID, descriptorType, descriptorIndex)
     })"

definition serializeLockEntityCommand :: "32 word \<Rightarrow> uid \<Rightarrow> descriptor_type \<Rightarrow> descriptor_index \<Rightarrow> byte list option" where
  "serializeLockEntityCommand flags lockedID descriptorType descriptorIndex =
     serialized AecpAemLockEntityCommandPayloadSize [u32 flags, u64 lockedID, u16 descriptorType, u16 descriptorIndex]"

definition deserializeLockEntityCommand :: "byte list \<Rightarrow> (32 word \<times> uid \<times> descriptor_type \<times> descriptor_index) outcome" where
  "deserializeLockEntityCommand payload = unpack_payload AecpAemLockEntityCommandPayloadSize payload (\<lambda>d. do {
       (flags, d) \<leftarrow> get32 d;
       (lockedID, d) \<leftarrow> get64 d;
       (descriptorType, d) \<leftarrow> get16 d;
       (descriptorIndex, d) \<leftarrow> get16 d;
       Some (flags, lockedID, descriptorType, descriptorIndex)
     })"

definition serializeReadDescriptorCommand :: "configuration_index \<Rightarrow> descriptor_type \<Rightarrow> descriptor_index \<Rightarrow> byte list option" where
  "serializeReadDescriptorCommand configurationIndex descriptorType descriptorIndex =
     serialized AecpAemReadDescriptorCommandPayloadSize [u16 configurationIndex, u16 0, u16 descriptorType, u16 descriptorIndex]"

definition deserializeReadDescriptorCommand :: "byte list \<Rightarrow> (configuration_index \<times> descriptor_type \<times> descriptor_index) outcome" where
  "deserializeReadDescriptorCommand payload = unpack_payload AecpAemReadDescriptorCommandPayloadSize payload (\<lambda>d. do {
       (configurationIndex, d) \<leftarrow> get16 d;
       (reserved, d) \<leftarrow> get16 d;
       (descriptorType, d) \<leftarrow> get16 d;
       (descriptorIndex, d) \<leftarrow> get16 d;
       Some (configurationIndex, descriptorType, descriptorIndex)
     })"

definition serializeSetConfigurationCommand :: "configuration_index \<Rightarrow> byte list option" where
  "serializeSetConfigurationCommand configurationIndex =
     serialized AecpAemSetConfigurationCommandPayloadSize [u16 0, u16 configurationIndex]"

definition deserializeSetConfigurationCommand :: "byte list \<Rightarrow> (configuration_index) outcome" where
  "deserializeSetConfigurationCommand payload = unpack_payload AecpAemSetConfigurationCommandPayloadSize payload (\<lambda>d. do {
       (reserved, d) \<leftarrow> get16 d;
       (configurationIndex, d) \<leftarrow> get16 d;
       Some configurationIndex
     })"

definition serializeSetStreamFormatCommand :: "descriptor_type \<Rightarrow> descriptor_index \<Rightarrow> stream_format \<Rightarrow> byte list option" where
  "serializeSetStreamFormatCommand descriptorType descriptorIndex streamFormat =
     serialized AecpAemSetStreamFormatCommandPayloadSize [u16 descriptorType, u16 descriptorIndex, u64 streamFormat]"

definition deserializeSetStreamFormatCommand :: "byte list \<Rightarrow> (descriptor_type \<times> descriptor_index \<times> stream_format) outcome" where
  "deserializeSetStreamFormatCommand payload = unpack_payload AecpAemSetStreamFormatCommandPayloadSize payload (\<lambda>d. do {
       (descriptorType, d) \<leftarrow> get16 d;
       (descriptorIndex, d) \<leftarrow> get16 d;
       (streamFormat, d) \<leftarrow> get64 d;
       Some (descriptorType, descriptorIndex, streamFormat)
     })"

definition serializeGetStreamFormatCommand :: "descriptor_type \<Rightarrow> descriptor_index \<Rightarrow> byte list option" where
  "serializeGetStreamFormatCommand descriptorType descriptorIndex =
     serialized AecpAemGetStreamFormatCommandPayloadSize [u16 descriptorType, u16 descriptorIndex]"

definition deserializeGetStreamFormatCommand :: "byte list \<Rightarrow> (descriptor_type \<times> descriptor_index) outcome" where
  "deserializeGetStreamFormatCommand payload = unpack_payload AecpAemGetStreamFormatCommandPayloadSize payload (\<lambda>d. do {
       (descriptorType, d) \<leftarrow> get16 d;
       (descriptorIndex, d) \<leftarrow> get16 d;
       Some (descriptorType, descriptorIndex)
     })"

definition serializeGetStreamInfoCommand :: "descriptor_type \<Rightarrow> descriptor_index \<Rightarrow> byte list option" where
  "serializeGetStreamInfoCommand descriptorType descriptorIndex =
     serialized AecpAemGetStreamInfoCommandPayloadSize [u16 descriptorType, u16 descriptorIndex]"

definition deserializeGetStreamInfoCommand :: "byte list \<Rightarrow> (descriptor_type \<times> descriptor_index) outcome" where
  "deserializeGetStreamInfoCommand payload = unpack_payload AecpAemGetStreamInfoCommandPayloadSize payload (\<lambda>d. do {
       (descriptorType, d) \<leftarrow> get16 d;
       (descriptorIndex, d) \<leftarrow> get16 d;
       Some (descriptorType, descriptorIndex)
     })"

definition serializeSetNameCommand :: "descriptor_type \<Rightarrow> descriptor_index \<Rightarrow> 16 word \<Rightarrow> configuration_index \<Rightarrow> fixed_string \<Rightarrow> byte list option" where
  "serializeSetNameCommand descriptorType descriptorIndex nameIndex configurationIndex name =
     serialized AecpAemSetNameCommandPayloadSize [u16 descriptorType, u16 descriptorIndex, u16 nameIndex, u16 configurationIndex, fixed name]"

definition deserializeSetNameCommand :: "byte list \<Rightarrow> (descriptor_type \<times> descriptor_index \<times> 16 word \<times> configuration_index \<times> fixed_string) outcome" where
  "deserializeSetNameCommand payload = unpack_payload AecpAemSetNameCommandPayloadSize payload (\<lambda>d. do {
       (descriptorType, d) \<leftarrow> get16 d;
       (descriptorIndex, d) \<leftarrow> get16 d;
       (nameIndex, d) \<leftarrow> get16 d;
       (configurationIndex, d) \<leftarrow> get16 d;
       (name, d) \<leftarrow> get_fixed d;
       Some (descriptorType, descriptorIndex, nameIndex, configurationIndex, name)
     })"

definition serializeGetNameCommand :: "descriptor_type \<Rightarrow> descriptor_index \<Rightarrow> 16 word \<Rightarrow> configuration_index \<Rightarrow> byte list option" where
  "serializeGetNameCommand descriptorType descriptorIndex nameIndex configurationIndex =
     serialized AecpAemGetNameCommandPayloadSize [u16 descriptorType, u16 descriptorIndex, u16 nameIndex, u16 configurationIndex]"

definition deserializeGetNameCommand :: "byte list \<Rightarrow> (descriptor_type \<times> descriptor_index \<times> 16 word \<times> configuration_index) outcome" where
  "deserializeGetNameCommand payload = unpack_payload AecpAemGetNameCommandPayloadSize payload (\<lambda>d. do {
       (descriptorType, d) \<leftarrow> get16 d;
       (descriptorIndex, d) \<leftarrow> get16 d;
       (nameIndex, d) \<leftarrow> get16 d;
       (configurationIndex, d) \<leftarrow> get16 d;
       Some (descriptorType, descriptorIndex, nameIndex, configurationIndex)
     })"

definition serializeSetAssociationIDCommand :: "uid \<Rightarrow> byte list option" where
  "serializeSetAssociationIDCommand associationID =
     serialized AecpAemSetAssociationIDCommandPayloadSize [u64 associationID]"

definition deserializeSetAssociationIDCommand :: "byte list \<Rightarrow> (uid) outcome" where
  "deserializeSetAssociationIDCommand payload = unpack_payload AecpAemSetAssociationIDCommandPayloadSize payload (\<lambda>d. do {
       (associationID, d) \<leftarrow> get64 d;
       Some associationID
     })"

definition serializeSetSamplingRateCommand :: "descriptor_type \<Rightarrow> descriptor_index \<Rightarrow> sampling_rate \<Rightarrow> byte list option" where
  "serializeSetSamplingRateCommand descriptorType descriptorIndex samplingRate =
     serialized AecpAemSetSamplingRateCommandPayloadSize [u16 descriptorType, u16 descriptorIndex, u32 samplingRate]"

definition deserializeSetSamplingRateCommand :: "byte list \<Rightarrow> (descriptor_type \<times> descriptor_index \<times> sampling_rate) outcome" where
  "deserializeSetSamplingRateCommand payload = unpack_payload AecpAemSetSamplingRateCommandPayloadSize payload (\<lambda>d. do {
       (descriptorType, d) \<leftarrow> get16 d;
       (descriptorIndex, d) \<leftarrow> get16 d;
       (samplingRate, d) \<leftarrow> get32 d;
       Some (descriptorType, descriptorIndex, samplingRate)
     })"

definition serializeGetSamplingRateCommand :: "descriptor_type \<Rightarrow> descriptor_index \<Rightarrow> byte list option" where
  "serializeGetSamplingRateCommand descriptorType descriptorIndex =
     serialized AecpAemGetSamplingRateCommandPayloadSize [u16 descriptorType, u16 descriptorIndex]"

definition deserializeGetSamplingRateCommand :: "byte list \<Rightarrow> (descriptor_type \<times> descriptor_index) outcome" where
  "deserializeGetSamplingRateCommand payload = unpack_payload AecpAemGetSamplingRateCommandPayloadSize payload (\<lambda>d. do {
       (descriptorType, d) \<leftarrow> get16 d;
       (descriptorIndex, d) \<leftarrow> get16 d;
       Some (descriptorType, descriptorIndex)
     })"

definition serializeSetClockSourceCommand :: "descriptor_type \<Rightarrow> descriptor_index \<Rightarrow> descriptor_index \<Rightarrow> byte list option" where
  "serializeSetClockSourceCommand descriptorType descriptorIndex clockSourceIndex =
     serialized AecpAemSetClockSourceCommandPayloadSize [u16 descriptorType, u16 descriptorIndex, u16 clockSourceIndex, u16 0]"

definition deserializeSetClockSourceCommand :: "byte list \<Rightarrow> (descriptor_type \<times> descriptor_index \<times> descriptor_index) outcome" where
  "deserializeSetClockSourceCommand payload = unpack_payload AecpAemSetClockSourceCommandPayloadSize payload (\<lambda>d. do {
       (descriptorType, d) \<leftarrow> get16 d;
       (descriptorIndex, d) \<leftarrow> get16 d;
       (clockSourceIndex, d) \<leftarrow> get16 d;
       (reserved, d) \<leftarrow> get16 d;
       Some (descriptorType, descriptorIndex, clockSourceIndex)
     })"

definition serializeGetClockSourceCommand :: "descriptor_type \<Rightarrow> descriptor_index \<Rightarrow> byte list option" where
  "serializeGetClockSourceCommand descriptorType descriptorIndex =
     serialized AecpAemGetClockSourceCommandPayloadSize [u16 descriptorType, u16 descriptorIndex]"

definition deserializeGetClockSourceCommand :: "byte list \<Rightarrow> (descriptor_type \<times> descriptor_index) outcome" where
  "deserializeGetClockSourceCommand payload = unpack_payload AecpAemGetClockSourceCommandPayloadSize payload (\<lambda>d. do {
       (descriptorType, d) \<leftarrow> get16 d;
       (descriptorIndex, d) \<leftarrow> get16 d;
       Some (descriptorType, descriptorIndex)
     })"

definition serializeGetControlCommand :: "descriptor_type \<Rightarrow> descriptor_index \<Rightarrow> byte list option" where
  "serializeGetControlCommand descriptorType descriptorIndex =
     serialized AecpAemGetControlCommandPayloadSize [u16 descriptorType, u16 descriptorIndex]"

definition deserializeGetControlCommand :: "byte list \<Rightarrow> (descriptor_type \<times> descriptor_index) outcome" where
  "deserializeGetControlCommand payload = unpack_payload AecpAemGetControlCommandPayloadSize payload (\<lambda>d. do {
       (descriptorType, d) \<leftarrow> get16 d;
       (descriptorIndex, d) \<leftarrow> get16 d;
       Some (descriptorType, descriptorIndex)
     })"

definition serializeStartStreamingCommand :: "descriptor_type \<Rightarrow> descriptor_index \<Rightarrow> byte list option" where
  "serializeStartStreamingCommand descriptorType descriptorIndex =
     serialized AecpAemStartStreamingCommandPayloadSize [u16 descriptorType, u16 descriptorIndex]"

definition deserializeStartStreamingCommand :: "byte list \<Rightarrow> (descriptor_type \<times> descriptor_index) outcome" where
  "deserializeStartStreamingCommand payload = unpack_payload AecpAemStartStreamingCommandPayloadSize payload (\<lambda>d. do {
       (descriptorType, d) \<leftarrow> get16 d;
       (descriptorIndex, d) \<leftarrow> get16 d;
       Some (descriptorType, descriptorIndex)
     })"

definition serializeGetAvbInfoCommand :: "descriptor_type \<Rightarrow> descriptor_index \<Rightarrow> byte list option" where
  "serializeGetAvbInfoCommand descriptorType descriptorIndex =
     serialized AecpAemGetAvbInfoCommandPayloadSize [u16 descriptorType, u16 descriptorIndex]"

definition deserializeGetAvbInfoCommand :: "byte list \<Rightarrow> (descriptor_type \<times> descriptor_index) outcome" where
  "deserializeGetAvbInfoCommand payload = unpack_payload AecpAemGetAvbInfoCommandPayloadSize payload (\<lambda>d. do {
       (descriptorType, d) \<leftarrow> get16 d;
       (descriptorIndex, d) \<leftarrow> get16 d;
       Some (descriptorType, descriptorIndex)
     })"

definition serializeGetAsPathCommand :: "descriptor_index \<Rightarrow> byte list option" where
  "serializeGetAsPathCommand descriptorIndex =
     serialized AecpAemGetAsPathCommandPayloadSize [u16 descriptorIndex, u16 0]"

definition deserializeGetAsPathCommand :: "byte list \<Rightarrow> (descriptor_index) outcome" where
  "deserializeGetAsPathCommand payload = unpack_payload AecpAemGetAsPathCommandPayloadSize payload (\<lambda>d. do {
       (descriptorIndex, d) \<leftarrow> get16 d;
       (reserved, d) \<leftarrow> get16 d;
       Some descriptorIndex
     })"

definition serializeGetCountersCommand :: "descriptor_type \<Rightarrow> descriptor_index \<Rightarrow> byte list option" where
  "serializeGetCountersCommand descriptorType descriptorIndex =
     serialized AecpAemGetCountersCommandPayloadSize [u16 descriptorType, u16 descriptorIndex]"

definition deserializeGetCountersCommand :: "byte list \<Rightarrow> (descriptor_type \<times> descriptor_index) outcome" where
  "deserializeGetCountersCommand payload = unpack_payload AecpAemGetCountersCommandPayloadSize payload (\<lambda>d. do {
       (descriptorType, d) \<leftarrow> get16 d;
       (descriptorIndex, d) \<leftarrow> get16 d;
       Some (descriptorType, descriptorIndex)
     })"

definition serializeRebootCommand :: "descriptor_type \<Rightarrow> descriptor_index \<Rightarrow> byte list option" where
  "serializeRebootCommand descriptorType descriptorIndex =
     serialized AecpAemRebootCommandPayloadSize [u16 descriptorType, u16 descriptorIndex]"

definition deserializeRebootCommand :: "byte list \<Rightarrow> (descriptor_type \<times> descriptor_index) outcome" where
  "deserializeRebootCommand payload = unpack_payload AecpAemRebootCommandPayloadSize payload (\<lambda>d. do {
       (descriptorType, d) \<leftarrow> get16 d;
       (descriptorIndex, d) \<leftarrow> get16 d;
       Some (descriptorType, descriptorIndex)
     })"

definition serializeGetAudioMapCommand :: "descriptor_type \<Rightarrow> descriptor_index \<Rightarrow> descriptor_index \<Rightarrow> byte list option" where
  "serializeGetAudioMapCommand descriptorType descriptorIndex mapIndex =
     serialized AecpAemGetAudioMapCommandPayloadSize [u16 descriptorType, u16 descriptorIndex, u16 mapIndex, u16 0]"

definition deserializeGetAudioMapCommand :: "byte list \<Rightarrow> (descriptor_type \<times> descriptor_index \<times> descriptor_index) outcome" where
  "deserializeGetAudioMapCommand payload = unpack_payload AecpAemGetAudioMapCommandPayloadSize payload (\<lambda>d. do {
       (descriptorType, d) \<leftarrow> get16 d;
       (descriptorIndex, d) \<leftarrow> get16 d;
       (mapIndex, d) \<leftarrow> get16 d;
       (reserved, d) \<leftarrow> get16 d;
       Some (descriptorType, descriptorIndex, mapIndex)
     })"

definition serializeAbortOperationCommand :: "descriptor_type \<Rightarrow> descriptor_index \<Rightarrow> 16 word \<Rightarrow> byte list option" where
  "serializeAbortOperationCommand descriptorType descriptorIndex operationID =
     serialized AecpAemAbortOperationCommandPayloadSize [u16 descriptorType, u16 descriptorIndex, u16 operationID, u16 0]"

definition deserializeAbortOperationCommand :: "byte list \<Rightarrow> (descriptor_type \<times> descriptor_index \<times> 16 word) outcome" where
  "deserializeAbortOperationCommand payload = unpack_payload AecpAemAbortOperationResponsePayloadSize payload (\<lambda>d. do {
       (descriptorType, d) \<leftarrow> get16 d;
       (descriptorIndex, d) \<leftarrow> get16 d;
       (operationID, d) \<leftarrow> get16 d;
       (reserved, d) \<leftarrow> get16 d;
       Some (descriptorType, descriptorIndex, operationID)
     })"

definition serializeOperationStatusResponse :: "descriptor_type \<Rightarrow> descriptor_index \<Rightarrow> 16 word \<Rightarrow> 16 word \<Rightarrow> byte list option" where
  "serializeOperationStatusResponse descriptorType descriptorIndex operationID percentComplete =
     serialized AecpAemOperationStatusResponsePayloadSize [u16 descriptorType, u16 descriptorIndex, u16 operationID, u16 percentComplete]"

definition deserializeOperationStatusResponse :: "byte list \<Rightarrow> (descriptor_type \<times> descriptor_index \<times> 16 word \<times> 16 word) outcome" where
  "deserializeOperationStatusResponse payload = unpack_payload AecpAemOperationStatusResponsePayloadSize payload (\<lambda>d. do {
       (descriptorType, d) \<leftarrow> get16 d;
       (descriptorIndex, d) \<leftarrow> get16 d;
       (operationID, d) \<leftarrow> get16 d;
       (percentComplete, d) \<leftarrow> get16 d;
       Some (descriptorType, descriptorIndex, operationID, percentComplete)
     })"

definition serializeSetMemoryObjectLengthCommand :: "configuration_index \<Rightarrow> descriptor_index \<Rightarrow> 64 word \<Rightarrow> byte list option" where
  "serializeSetMemoryObjectLengthCommand configurationIndex memoryObjectIndex len =
     serialized AecpAemSetMemoryObjectLengthCommandPayloadSize [u16 memoryObjectIndex, u16 configurationIndex, u64 len]"

definition deserializeSetMemoryObjectLengthCommand :: "byte list \<Rightarrow> (configuration_index \<times> descriptor_index \<times> 64 word) outcome" where
  "deserializeSetMemoryObjectLengthCommand payload = unpack_payload AecpAemSetMemoryObjectLengthCommandPayloadSize payload (\<lambda>d. do {
       (memoryObjectIndex, d) \<leftarrow> get16 d;
       (configurationIndex, d) \<leftarrow> get16 d;
       (len, d) \<leftarrow> get64 d;
       Some (configurationIndex, memoryObjectIndex, len)
     })"

definition serializeGetMemoryObjectLengthCommand :: "configuration_index \<Rightarrow> descriptor_index \<Rightarrow> byte list option" where
  "serializeGetMemoryObjectLengthCommand configurationIndex memoryObjectIndex =
     serialized AecpAemGetClockSourceCommandPayloadSize [u16 memoryObjectIndex, u16 configurationIndex]"

definition deserializeGetMemoryObjectLengthCommand :: "byte list \<Rightarrow> (configuration_index \<times> descriptor_index) outcome" where
  "deserializeGetMemoryObjectLengthCommand payload = unpack_payload AecpAemGetMemoryObjectLengthCommandPayloadSize payload (\<lambda>d. do {
       (memoryObjectIndex, d) \<leftarrow> get16 d;
       (configurationIndex, d) \<leftarrow> get16 d;
       Some (configurationIndex, memoryObjectIndex)
     })"

definition serializeSetMaxTransitTimeCommand :: "descriptor_type \<Rightarrow> descriptor_index \<Rightarrow> 64 word \<Rightarrow> byte list option" where
  "serializeSetMaxTransitTimeCommand descriptorType streamIndex maxTransitTime =
     serialized AecpAemSetMaxTransitTimeCommandPayloadSize [u16 descriptorType, u16 streamIndex, u64 maxTransitTime]"

definition deserializeSetMaxTransitTimeCommand :: "byte list \<Rightarrow> (descriptor_type \<times> descriptor_index \<times> 64 word) outcome" where
  "deserializeSetMaxTransitTimeCommand payload = unpack_payload AecpAemSetMaxTransitTimeCommandPayloadSize payload (\<lambda>d. do {
       (descriptorType, d) \<leftarrow> get16 d;
       (streamIndex, d) \<leftarrow> get16 d;
       (maxTransitTime, d) \<leftarrow> get64 d;
       Some (descriptorType, streamIndex, maxTransitTime)
     })"

definition serializeGetMaxTransitTimeCommand :: "descriptor_type \<Rightarrow> descriptor_index \<Rightarrow> byte list option" where
  "serializeGetMaxTransitTimeCommand descriptorType streamIndex =
     serialized AecpAemGetClockSourceCommandPayloadSize [u16 descriptorType, u16 streamIndex]"

definition deserializeGetMaxTransitTimeCommand :: "byte list \<Rightarrow> (descriptor_type \<times> descriptor_index) outcome" where
  "deserializeGetMaxTransitTimeCommand payload = unpack_payload AecpAemGetMaxTransitTimeCommandPayloadSize payload (\<lambda>d. do {
       (descriptorType, d) \<leftarrow> get16 d;
       (streamIndex, d) \<leftarrow> get16 d;
       Some (descriptorType, streamIndex)
     })"

text \<open>STOP_STREAMING is START_STREAMING.\<close>

definition serializeStopStreamingCommand :: "descriptor_type \<Rightarrow> descriptor_index \<Rightarrow> byte list option" where
  "serializeStopStreamingCommand = serializeStartStreamingCommand"

definition deserializeStopStreamingCommand :: "byte list \<Rightarrow> (descriptor_type \<times> descriptor_index) outcome" where
  "deserializeStopStreamingCommand payload = deserializeStartStreamingCommand payload"

section \<open>Responses\<close>

definition serializeAcquireEntityResponse :: "32 word \<Rightarrow> uid \<Rightarrow> descriptor_type \<Rightarrow> descriptor_index \<Rightarrow> byte list option" where
  "serializeAcquireEntityResponse = serializeAcquireEntityCommand"

definition deserializeAcquireEntityResponse :: "command_status \<Rightarrow> byte list \<Rightarrow> (32 word \<times> uid \<times> descriptor_type \<times> descriptor_index) outcome" where
  "deserializeAcquireEntityResponse status payload =
     obind (checkResponsePayload payload status AecpAemAcquireEntityCommandPayloadSize AecpAemAcquireEntityResponsePayloadSize)
       (\<lambda>_. deserializeAcquireEntityCommand payload)"

definition serializeLockEntityResponse :: "32 word \<Rightarrow> uid \<Rightarrow> descriptor_type \<Rightarrow> descriptor_index \<Rightarrow> byte list option" where
  "serializeLockEntityResponse = serializeLockEntityCommand"

definition deserializeLockEntityResponse :: "command_status \<Rightarrow> byte list \<Rightarrow> (32 word \<times> uid \<times> descriptor_type \<times> descriptor_index) outcome" where
  "deserializeLockEntityResponse status payload =
     obind (checkResponsePayload payload status AecpAemLockEntityCommandPayloadSize AecpAemLockEntityResponsePayloadSize)
       (\<lambda>_. deserializeLockEntityCommand payload)"

definition serializeSetConfigurationResponse :: "configuration_index \<Rightarrow> byte list option" where
  "serializeSetConfigurationResponse = serializeSetConfigurationCommand"

definition deserializeSetConfigurationResponse :: "command_status \<Rightarrow> byte list \<Rightarrow> (configuration_index) outcome" where
  "deserializeSetConfigurationResponse status payload =
     obind (checkResponsePayload payload status AecpAemSetConfigurationCommandPayloadSize AecpAemSetConfigurationResponsePayloadSize)
       (\<lambda>_. deserializeSetConfigurationCommand payload)"

definition serializeGetConfigurationResponse :: "configuration_index \<Rightarrow> byte list option" where
  "serializeGetConfigurationResponse = serializeSetConfigurationCommand"

definition deserializeGetConfigurationResponse :: "command_status \<Rightarrow> byte list \<Rightarrow> (configuration_index) outcome" where
  "deserializeGetConfigurationResponse status payload =
     obind (checkResponsePayload payload status AecpAemSetConfigurationCommandPayloadSize AecpAemGetConfigurationResponsePayloadSize)
       (\<lambda>_. deserializeSetConfigurationCommand payload)"

definition serializeSetStreamFormatResponse :: "descriptor_type \<Rightarrow> descriptor_index \<Rightarrow> stream_format \<Rightarrow> byte list option" where
  "serializeSetStreamFormatResponse = serializeSetStreamFormatCommand"

definition deserializeSetStreamFormatResponse :: "command_status \<Rightarrow> byte list \<Rightarrow> (descriptor_type \<times> descriptor_index \<times> stream_format) outcome" where
  "deserializeSetStreamFormatResponse status payload =
     obind (checkResponsePayload payload status AecpAemSetStreamFormatCommandPayloadSize AecpAemSetStreamFormatResponsePayloadSize)
       (\<lambda>_. deserializeSetStreamFormatCommand payload)"

definition serializeGetStreamFormatResponse :: "descriptor_type \<Rightarrow> descriptor_index \<Rightarrow> stream_format \<Rightarrow> byte list option" where
  "serializeGetStreamFormatResponse = serializeSetStreamFormatCommand"

definition deserializeGetStreamFormatResponse :: "command_status \<Rightarrow> byte list \<Rightarrow> (descriptor_type \<times> descriptor_index \<times> stream_format) outcome" where
  "deserializeGetStreamFormatResponse status payload =
     obind (checkResponsePayload payload status AecpAemSetStreamFormatCommandPayloadSize AecpAemGetStreamFormatResponsePayloadSize)
       (\<lambda>_. deserializeSetStreamFormatCommand payload)"

definition serializeSetNameResponse :: "descriptor_type \<Rightarrow> descriptor_index \<Rightarrow> 16 word \<Rightarrow> configuration_index \<Rightarrow> fixed_string \<Rightarrow> byte list option" where
  "serializeSetNameResponse = serializeSetNameCommand"

definition deserializeSetNameResponse :: "command_status \<Rightarrow> byte list \<Rightarrow> (descriptor_type \<times> descriptor_index \<times> 16 word \<times> configuration_index \<times> fixed_string) outcome" where
  "deserializeSetNameResponse status payload =
     obind (checkResponsePayload payload status AecpAemSetNameCommandPayloadSize AecpAemSetNameResponsePayloadSize)
       (\<lambda>_. deserializeSetNameCommand payload)"

definition serializeGetNameResponse :: "descriptor_type \<Rightarrow> descriptor_index \<Rightarrow> 16 word \<Rightarrow> configuration_index \<Rightarrow> fixed_string \<Rightarrow> byte list option" where
  "serializeGetNameResponse = serializeSetNameCommand"

definition deserializeGetNameResponse :: "command_status \<Rightarrow> byte list \<Rightarrow> (descriptor_type \<times> descriptor_index \<times> 16 word \<times> configuration_index \<times> fixed_string) outcome" where
  "deserializeGetNameResponse status payload =
     obind (checkResponsePayload payload status AecpAemSetNameCommandPayloadSize AecpAemGetNameResponsePayloadSize)
       (\<lambda>_. deserializeSetNameCommand payload)"

definition serializeSetAssociationIDResponse :: "uid \<Rightarrow> byte list option" where
  "serializeSetAssociationIDResponse = serializeSetAssociationIDCommand"

definition deserializeSetAssociationIDResponse :: "command_status \<Rightarrow> byte list \<Rightarrow> (uid) outcome" where
  "deserializeSetAssociationIDResponse status payload =
     obind (checkResponsePayload payload status AecpAemSetAssociationIDCommandPayloadSize AecpAemSetAssociationIDResponsePayloadSize)
       (\<lambda>_. deserializeSetAssociationIDCommand payload)"

definition serializeGetAssociationIDResponse :: "uid \<Rightarrow> byte list option" where
  "serializeGetAssociationIDResponse = serializeSetAssociationIDCommand"

definition deserializeGetAssociationIDResponse :: "command_status \<Rightarrow> byte list \<Rightarrow> (uid) outcome" where
  "deserializeGetAssociationIDResponse status payload =
     obind (checkResponsePayload payload status AecpAemGetAssociationIDCommandPayloadSize AecpAemGetAssociationIDResponsePayloadSize)
       (\<lambda>_. deserializeSetAssociationIDCommand payload)"

definition serializeSetSamplingRateResponse :: "descriptor_type \<Rightarrow> descriptor_index \<Rightarrow> sampling_rate \<Rightarrow> byte list option" where
  "serializeSetSamplingRateResponse = serializeSetSamplingRateCommand"

definition deserializeSetSamplingRateResponse :: "command_status \<Rightarrow> byte list \<Rightarrow> (descriptor_type \<times> descriptor_index \<times> sampling_rate) outcome" where
  "deserializeSetSamplingRateResponse status payload =
     obind (checkResponsePayload payload status AecpAemSetSamplingRateCommandPayloadSize AecpAemSetSamplingRateResponsePayloadSize)
       (\<lambda>_. deserializeSetSamplingRateCommand payload)"

definition serializeGetSamplingRateResponse :: "descriptor_type \<Rightarrow> descriptor_index \<Rightarrow> sampling_rate \<Rightarrow> byte list option" where
  "serializeGetSamplingRateResponse = serializeSetSamplingRateCommand"

definition deserializeGetSamplingRateResponse :: "command_status \<Rightarrow> byte list \<Rightarrow> (descriptor_type \<times> descriptor_index \<times> sampling_rate) outcome" where
  "deserializeGetSamplingRateResponse status payload =
     obind (checkResponsePayload payload status AecpAemSetSamplingRateCommandPayloadSize AecpAemGetSamplingRateResponsePayloadSize)
       (\<lambda>_. deserializeSetSamplingRateCommand payload)"

definition serializeSetClockSourceResponse :: "descriptor_type \<Rightarrow> descriptor_index \<Rightarrow> descriptor_index \<Rightarrow> byte list option" where
  "serializeSetClockSourceResponse = serializeSetClockSourceCommand"

definition deserializeSetClockSourceResponse :: "command_status \<Rightarrow> byte list \<Rightarrow> (descriptor_type \<times> descriptor_index \<times> descriptor_index) outcome" where
  "deserializeSetClockSourceResponse status payload =
     obind (checkResponsePayload payload status AecpAemSetClockSourceCommandPayloadSize AecpAemSetClockSourceResponsePayloadSize)
       (\<lambda>_. deserializeSetClockSourceCommand payload)"

definition serializeGetClockSourceResponse :: "descriptor_type \<Rightarrow> descriptor_index \<Rightarrow> descriptor_index \<Rightarrow> byte list option" where
  "serializeGetClockSourceResponse = serializeSetClockSourceCommand"

definition deserializeGetClockSourceResponse :: "command_status \<Rightarrow> byte list \<Rightarrow> (descriptor_type \<times> descriptor_index \<times> descriptor_index) outcome" where
  "deserializeGetClockSourceResponse status payload =
     obind (checkResponsePayload payload status AecpAemSetClockSourceCommandPayloadSize AecpAemGetClockSourceResponsePayloadSize)
       (\<lambda>_. deserializeSetClockSourceCommand payload)"

definition serializeStartStreamingResponse :: "descriptor_type \<Rightarrow> descriptor_index \<Rightarrow> byte list option" where
  "serializeStartStreamingResponse = serializeStartStreamingCommand"

definition deserializeStartStreamingResponse :: "command_status \<Rightarrow> byte list \<Rightarrow> (descriptor_type \<times> descriptor_index) outcome" where
  "deserializeStartStreamingResponse status payload =
     obind (checkResponsePayload payload status AecpAemStartStreamingCommandPayloadSize AecpAemStartStreamingResponsePayloadSize)
       (\<lambda>_. deserializeStartStreamingCommand payload)"

definition serializeStopStreamingResponse :: "descriptor_type \<Rightarrow> descriptor_index \<Rightarrow> byte list option" where
  "serializeStopStreamingResponse = serializeStartStreamingCommand"

definition deserializeStopStreamingResponse :: "command_status \<Rightarrow> byte list \<Rightarrow> (descriptor_type \<times> descriptor_index) outcome" where
  "deserializeStopStreamingResponse status payload =
     obind (checkResponsePayload payload status AecpAemStartStreamingCommandPayloadSize AecpAemStopStreamingResponsePayloadSize)
       (\<lambda>_. deserializeStartStreamingCommand payload)"

definition serializeRebootResponse :: "descriptor_type \<Rightarrow> descriptor_index \<Rightarrow> byte list option" where
  "serializeRebootResponse = serializeRebootCommand"

definition deserializeRebootResponse :: "command_status \<Rightarrow> byte list \<Rightarrow> (descriptor_type \<times> descriptor_index) outcome" where
  "deserializeRebootResponse status payload =
     obind (checkResponsePayload payload status AecpAemRebootCommandPayloadSize AecpAemRebootResponsePayloadSize)
       (\<lambda>_. deserializeRebootCommand payload)"

definition serializeAbortOperationResponse :: "descriptor_type \<Rightarrow> descriptor_index \<Rightarrow> 16 word \<Rightarrow> byte list option" where
  "serializeAbortOperationResponse = serializeAbortOperationCommand"

definition deserializeAbortOperationResponse :: "command_status \<Rightarrow> byte list \<Rightarrow> (descriptor_type \<times> descriptor_index \<times> 16 word) outcome" where
  "deserializeAbortOperationResponse status payload =
     obind (checkResponsePayload payload status AecpAemAbortOperationCommandPayloadSize AecpAemAbortOperationResponsePayloadSize)
       (\<lambda>_. deserializeAbortOperationCommand payload)"

definition serializeSetMemoryObjectLengthResponse :: "configuration_index \<Rightarrow> descriptor_index \<Rightarrow> 64 word \<Rightarrow> byte list option" where
  "serializeSetMemoryObjectLengthResponse = serializeSetMemoryObjectLengthCommand"

definition deserializeSetMemoryObjectLengthResponse :: "command_status \<Rightarrow> byte list \<Rightarrow> (configuration_index \<times> descriptor_index \<times> 64 word) outcome" where
  "deserializeSetMemoryObjectLengthResponse status payload =
     obind (checkResponsePayload payload status AecpAemSetMemoryObjectLengthCommandPayloadSize AecpAemSetMemoryObjectLengthResponsePayloadSize)
       (\<lambda>_. deserializeSetMemoryObjectLengthCommand payload)"

definition serializeGetMemoryObjectLengthResponse :: "configuration_index \<Rightarrow> descriptor_index \<Rightarrow> 64 word \<Rightarrow> byte list option" where
  "serializeGetMemoryObjectLengthResponse = serializeSetMemoryObjectLengthCommand"

definition deserializeGetMemoryObjectLengthResponse :: "command_status \<Rightarrow> byte list \<Rightarrow> (configuration_index \<times> descriptor_index \<times> 64 word) outcome" where
  "deserializeGetMemoryObjectLengthResponse status payload =
     obind (checkResponsePayload payload status AecpAemSetMemoryObjectLengthCommandPayloadSize AecpAemGetMemoryObjectLengthResponsePayloadSize)
       (\<lambda>_. deserializeSetMemoryObjectLengthCommand payload)"

definition serializeSetMaxTransitTimeResponse :: "descriptor_type \<Rightarrow> descriptor_index \<Rightarrow> 64 word \<Rightarrow> byte list option" where
  "serializeSetMaxTransitTimeResponse = serializeSetMaxTransitTimeCommand"

definition deserializeSetMaxTransitTimeResponse :: "command_status \<Rightarrow> byte list \<Rightarrow> (descriptor_type \<times> descriptor_index \<times> 64 word) outcome" where
  "deserializeSetMaxTransitTimeResponse status payload =
     obind (checkResponsePayload payload status AecpAemSetMaxTransitTimeCommandPayloadSize AecpAemSetMaxTransitTimeResponsePayloadSize)
       (\<lambda>_. deserializeSetMaxTransitTimeCommand payload)"

definition serializeGetMaxTransitTimeResponse :: "descriptor_type \<Rightarrow> descriptor_index \<Rightarrow> 64 word \<Rightarrow> byte list option" where
  "serializeGetMaxTransitTimeResponse = serializeSetMaxTransitTimeCommand"

definition deserializeGetMaxTransitTimeResponse :: "command_status \<Rightarrow> byte list \<Rightarrow> (descriptor_type \<times> descriptor_index \<times> 64 word) outcome" where
  "deserializeGetMaxTransitTimeResponse status payload =
     obind (checkResponsePayload payload status AecpAemSetMaxTransitTimeCommandPayloadSize AecpAemGetMaxTransitTimeResponsePayloadSize)
       (\<lambda>_. deserializeSetMaxTransitTimeCommand payload)"

section \<open>The contracts\<close>

interpretation AcquireEntityCommand: payload_codec "\<lambda>(a, b, c, e). serializeAcquireEntityCommand a b c e" deserializeAcquireEntityCommand AecpAemAcquireEntityCommandPayloadSize
  unfolding serializeAcquireEntityCommand_def deserializeAcquireEntityCommand_def
  by (rule payload_codec_fields [where chunks = "\<lambda>(a, b, c, e). [u32 a, u64 b, u16 c, u16 e]"]) (auto simp: payload_short)

interpretation LockEntityCommand: payload_codec "\<lambda>(a, b, c, e). serializeLockEntityCommand a b c e" deserializeLockEntityCommand AecpAemLockEntityCommandPayloadSize
  unfolding serializeLockEntityCommand_def deserializeLockEntityCommand_def
  by (rule payload_codec_fields [where chunks = "\<lambda>(a, b, c, e). [u32 a, u64 b, u16 c, u16 e]"]) (auto simp: payload_short)

interpretation ReadDescriptorCommand: payload_codec "\<lambda>(a, b, c). serializeReadDescriptorCommand a b c" deserializeReadDescriptorCommand AecpAemReadDescriptorCommandPayloadSize
  unfolding serializeReadDescriptorCommand_def deserializeReadDescriptorCommand_def
  by (rule payload_codec_fields [where chunks = "\<lambda>(a, b, c). [u16 a, u16 0, u16 b, u16 c]"]) (auto simp: payload_short)

interpretation SetConfigurationCommand: payload_codec "serializeSetConfigurationCommand" deserializeSetConfigurationCommand AecpAemSetConfigurationCommandPayloadSize
  unfolding serializeSetConfigurationCommand_def deserializeSetConfigurationCommand_def
  by (rule payload_codec_fields [where chunks = "\<lambda>a. [u16 0, u16 a]"]) (auto simp: payload_short)

interpretation SetStreamFormatCommand: payload_codec "\<lambda>(a, b, c). serializeSetStreamFormatCommand a b c" deserializeSetStreamFormatCommand AecpAemSetStreamFormatCommandPayloadSize
  unfolding serializeSetStreamFormatCommand_def deserializeSetStreamFormatCommand_def
  by (rule payload_codec_fields [where chunks = "\<lambda>(a, b, c). [u16 a, u16 b, u64 c]"]) (auto simp: payload_short)

interpretation GetStreamFormatCommand: payload_codec "\<lambda>(a, b). serializeGetStreamFormatCommand a b" deserializeGetStreamFormatCommand AecpAemGetStreamFormatCommandPayloadSize
  unfolding serializeGetStreamFormatCommand_def deserializeGetStreamFormatCommand_def
  by (rule payload_codec_fields [where chunks = "\<lambda>(a, b). [u16 a, u16 b]"]) (auto simp: payload_short)

interpretation GetStreamInfoCommand: payload_codec "\<lambda>(a, b). serializeGetStreamInfoCommand a b" deserializeGetStreamInfoCommand AecpAemGetStreamInfoCommandPayloadSize
  unfolding serializeGetStreamInfoCommand_def deserializeGetStreamInfoCommand_def
  by (rule payload_codec_fields [where chunks = "\<lambda>(a, b). [u16 a, u16 b]"]) (auto simp: payload_short)

interpretation SetNameCommand: payload_codec "\<lambda>(a, b, c, e, f). serializeSetNameCommand a b c e f" deserializeSetNameCommand AecpAemSetNameCommandPayloadSize
  unfolding serializeSetNameCommand_def deserializeSetNameCommand_def
  by (rule payload_codec_fields [where chunks = "\<lambda>(a, b, c, e, f). [u16 a, u16 b, u16 c, u16 e, fixed f]"]) (auto simp: payload_short)

interpretation GetNameCommand: payload_codec "\<lambda>(a, b, c, e). serializeGetNameCommand a b c e" deserializeGetNameCommand AecpAemGetNameCommandPayloadSize
  unfolding serializeGetNameCommand_def deserializeGetNameCommand_def
  by (rule payload_codec_fields [where chunks = "\<lambda>(a, b, c, e). [u16 a, u16 b, u16 c, u16 e]"]) (auto simp: payload_short)

interpretation SetAssociationIDCommand: payload_codec "serializeSetAssociationIDCommand" deserializeSetAssociationIDCommand AecpAemSetAssociationIDCommandPayloadSize
  unfolding serializeSetAssociationIDCommand_def deserializeSetAssociationIDCommand_def
  by (rule payload_codec_fields [where chunks = "\<lambda>a. [u64 a]"]) (auto simp: payload_short)

interpretation SetSamplingRateCommand: payload_codec "\<lambda>(a, b, c). serializeSetSamplingRateCommand a b c" deserializeSetSamplingRateCommand AecpAemSetSamplingRateCommandPayloadSize
  unfolding serializeSetSamplingRateCommand_def deserializeSetSamplingRateCommand_def
  by (rule payload_codec_fields [where chunks = "\<lambda>(a, b, c). [u16 a, u16 b, u32 c]"]) (auto simp: payload_short)

interpretation GetSamplingRateCommand: payload_codec "\<lambda>(a, b). serializeGetSamplingRateCommand a b" deserializeGetSamplingRateCommand AecpAemGetSamplingRateCommandPayloadSize
  unfolding serializeGetSamplingRateCommand_def deserializeGetSamplingRateCommand_def
  by (rule payload_codec_fields [where chunks = "\<lambda>(a, b). [u16 a, u16 b]"]) (auto simp: payload_short)

interpretation SetClockSourceCommand: payload_codec "\<lambda>(a, b, c). serializeSetClockSourceCommand a b c" deserializeSetClockSourceCommand AecpAemSetClockSourceCommandPayloadSize
  unfolding serializeSetClockSourceCommand_def deserializeSetClockSourceCommand_def
  by (rule payload_codec_fields [where chunks = "\<lambda>(a, b, c). [u16 a, u16 b, u16 c, u16 0]"]) (auto simp: payload_short)

interpretation GetClockSourceCommand: payload_codec "\<lambda>(a, b). serializeGetClockSourceCommand a b" deserializeGetClockSourceCommand AecpAemGetClockSourceCommandPayloadSize
  unfolding serializeGetClockSourceCommand_def deserializeGetClockSourceCommand_def
  by (rule payload_codec_fields [where chunks = "\<lambda>(a, b). [u16 a, u16 b]"]) (auto simp: payload_short)

interpretation GetControlCommand: payload_codec "\<lambda>(a, b). serializeGetControlCommand a b" deserializeGetControlCommand AecpAemGetControlCommandPayloadSize
  unfolding serializeGetControlCommand_def deserializeGetControlCommand_def
  by (rule payload_codec_fields [where chunks = "\<lambda>(a, b). [u16 a, u16 b]"]) (auto simp: payload_short)

interpretation StartStreamingCommand: payload_codec "\<lambda>(a, b). serializeStartStreamingCommand a b" deserializeStartStreamingCommand AecpAemStartStreamingCommandPayloadSize
  unfolding serializeStartStreamingCommand_def deserializeStartStreamingCommand_def
  by (rule payload_codec_fields [where chunks = "\<lambda>(a, b). [u16 a, u16 b]"]) (auto simp: payload_short)

interpretation GetAvbInfoCommand: payload_codec "\<lambda>(a, b). serializeGetAvbInfoCommand a b" deserializeGetAvbInfoCommand AecpAemGetAvbInfoCommandPayloadSize
  unfolding serializeGetAvbInfoCommand_def deserializeGetAvbInfoCommand_def
  by (rule payload_codec_fields [where chunks = "\<lambda>(a, b). [u16 a, u16 b]"]) (auto simp: payload_short)

interpretation GetAsPathCommand: payload_codec "serializeGetAsPathCommand" deserializeGetAsPathCommand AecpAemGetAsPathCommandPayloadSize
  unfolding serializeGetAsPathCommand_def deserializeGetAsPathCommand_def
  by (rule payload_codec_fields [where chunks = "\<lambda>a. [u16 a, u16 0]"]) (auto simp: payload_short)

interpretation GetCountersCommand: payload_codec "\<lambda>(a, b). serializeGetCountersCommand a b" deserializeGetCountersCommand AecpAemGetCountersCommandPayloadSize
  unfolding serializeGetCountersCommand_def deserializeGetCountersCommand_def
  by (rule payload_codec_fields [where chunks = "\<lambda>(a, b). [u16 a, u16 b]"]) (auto simp: payload_short)

interpretation RebootCommand: payload_codec "\<lambda>(a, b). serializeRebootCommand a b" deserializeRebootCommand AecpAemRebootCommandPayloadSize
  unfolding serializeRebootCommand_def deserializeRebootCommand_def
  by (rule payload_codec_fields [where chunks = "\<lambda>(a, b). [u16 a, u16 b]"]) (auto simp: payload_short)

interpretation GetAudioMapCommand: payload_codec "\<lambda>(a, b, c). serializeGetAudioMapCommand a b c" deserializeGetAudioMapCommand AecpAemGetAudioMapCommandPayloadSize
  unfolding serializeGetAudioMapCommand_def deserializeGetAudioMapCommand_def
  by (rule payload_codec_fields [where chunks = "\<lambda>(a, b, c). [u16 a, u16 b, u16 c, u16 0]"]) (auto simp: payload_short)

interpretation AbortOperationCommand: payload_codec "\<lambda>(a, b, c). serializeAbortOperationCommand a b c" deserializeAbortOperationCommand AecpAemAbortOperationCommandPayloadSize
  unfolding serializeAbortOperationCommand_def deserializeAbortOperationCommand_def
  by (rule payload_codec_fields [where chunks = "\<lambda>(a, b, c). [u16 a, u16 b, u16 c, u16 0]"]) (auto simp: payload_short)

interpretation OperationStatusResponse: payload_codec "\<lambda>(a, b, c, e). serializeOperationStatusResponse a b c e" deserializeOperationStatusResponse AecpAemOperationStatusResponsePayloadSize
  unfolding serializeOperationStatusResponse_def deserializeOperationStatusResponse_def
  by (rule payload_codec_fields [where chunks = "\<lambda>(a, b, c, e). [u16 a, u16 b, u16 c, u16 e]"]) (auto simp: payload_short)

interpretation SetMemoryObjectLengthCommand: payload_codec "\<lambda>(a, b, c). serializeSetMemoryObjectLengthCommand a b c" deserializeSetMemoryObjectLengthCommand AecpAemSetMemoryObjectLengthCommandPayloadSize
  unfolding serializeSetMemoryObjectLengthCommand_def deserializeSetMemoryObjectLengthCommand_def
  by (rule payload_codec_fields [where chunks = "\<lambda>(a, b, c). [u16 b, u16 a, u64 c]"]) (auto simp: payload_short)

interpretation GetMemoryObjectLengthCommand: payload_codec "\<lambda>(a, b). serializeGetMemoryObjectLengthCommand a b" deserializeGetMemoryObjectLengthCommand AecpAemGetMemoryObjectLengthCommandPayloadSize
  unfolding serializeGetMemoryObjectLengthCommand_def deserializeGetMemoryObjectLengthCommand_def
  by (rule payload_codec_fields [where chunks = "\<lambda>(a, b). [u16 b, u16 a]"]) (auto simp: payload_short)

interpretation SetMaxTransitTimeCommand: payload_codec "\<lambda>(a, b, c). serializeSetMaxTransitTimeCommand a b c" deserializeSetMaxTransitTimeCommand AecpAemSetMaxTransitTimeCommandPayloadSize
  unfolding serializeSetMaxTransitTimeCommand_def deserializeSetMaxTransitTimeCommand_def
  by (rule payload_codec_fields [where chunks = "\<lambda>(a, b, c). [u16 a, u16 b, u64 c]"]) (auto simp: payload_short)

interpretation GetMaxTransitTimeCommand: payload_codec "\<lambda>(a, b). serializeGetMaxTransitTimeCommand a b" deserializeGetMaxTransitTimeCommand AecpAemGetMaxTransitTimeCommandPayloadSize
  unfolding serializeGetMaxTransitTimeCommand_def deserializeGetMaxTransitTimeCommand_def
  by (rule payload_codec_fields [where chunks = "\<lambda>(a, b). [u16 a, u16 b]"]) (auto simp: payload_short)

section \<open>Responses\<close>

interpretation AcquireEntityResponse: payload_response "\<lambda>(a, b, c, e). serializeAcquireEntityResponse a b c e" deserializeAcquireEntityCommand AecpAemAcquireEntityResponsePayloadSize
    deserializeAcquireEntityResponse AecpAemAcquireEntityCommandPayloadSize
  unfolding serializeAcquireEntityResponse_def
  by (rule payload_responseI) (unfold_locales, simp add: deserializeAcquireEntityResponse_def)

interpretation LockEntityResponse: payload_response "\<lambda>(a, b, c, e). serializeLockEntityResponse a b c e" deserializeLockEntityCommand AecpAemLockEntityResponsePayloadSize
    deserializeLockEntityResponse AecpAemLockEntityCommandPayloadSize
  unfolding serializeLockEntityResponse_def
  by (rule payload_responseI) (unfold_locales, simp add: deserializeLockEntityResponse_def)

interpretation SetConfigurationResponse: payload_response "serializeSetConfigurationResponse" deserializeSetConfigurationCommand AecpAemSetConfigurationResponsePayloadSize
    deserializeSetConfigurationResponse AecpAemSetConfigurationCommandPayloadSize
  unfolding serializeSetConfigurationResponse_def
  by (rule payload_responseI) (unfold_locales, simp add: deserializeSetConfigurationResponse_def)

interpretation GetConfigurationResponse: payload_response "serializeGetConfigurationResponse" deserializeSetConfigurationCommand AecpAemGetConfigurationResponsePayloadSize
    deserializeGetConfigurationResponse AecpAemSetConfigurationCommandPayloadSize
  unfolding serializeGetConfigurationResponse_def
  by (rule payload_responseI) (unfold_locales, simp add: deserializeGetConfigurationResponse_def)

interpretation SetStreamFormatResponse: payload_response "\<lambda>(a, b, c). serializeSetStreamFormatResponse a b c" deserializeSetStreamFormatCommand AecpAemSetStreamFormatResponsePayloadSize
    deserializeSetStreamFormatResponse AecpAemSetStreamFormatCommandPayloadSize
  unfolding serializeSetStreamFormatResponse_def
  by (rule payload_responseI) (unfold_locales, simp add: deserializeSetStreamFormatResponse_def)

interpretation GetStreamFormatResponse: payload_response "\<lambda>(a, b, c). serializeGetStreamFormatResponse a b c" deserializeSetStreamFormatCommand AecpAemGetStreamFormatResponsePayloadSize
    deserializeGetStreamFormatResponse AecpAemSetStreamFormatCommandPayloadSize
  unfolding serializeGetStreamFormatResponse_def
  by (rule payload_responseI) (unfold_locales, simp add: deserializeGetStreamFormatResponse_def)

interpretation SetNameResponse: payload_response "\<lambda>(a, b, c, e, f). serializeSetNameResponse a b c e f" deserializeSetNameCommand AecpAemSetNameResponsePayloadSize
    deserializeSetNameResponse AecpAemSetNameCommandPayloadSize
  unfolding serializeSetNameResponse_def
  by (rule payload_responseI) (unfold_locales, simp add: deserializeSetNameResponse_def)

interpretation GetNameResponse: payload_response "\<lambda>(a, b, c, e, f). serializeGetNameResponse a b c e f" deserializeSetNameCommand AecpAemGetNameResponsePayloadSize
    deserializeGetNameResponse AecpAemSetNameCommandPayloadSize
  unfolding serializeGetNameResponse_def
  by (rule payload_responseI) (unfold_locales, simp add: deserializeGetNameResponse_def)

interpretation SetAssociationIDResponse: payload_response "serializeSetAssociationIDResponse" deserializeSetAssociationIDCommand AecpAemSetAssociationIDResponsePayloadSize
    deserializeSetAssociationIDResponse AecpAemSetAssociationIDCommandPayloadSize
  unfolding serializeSetAssociationIDResponse_def
  by (rule payload_responseI) (unfold_locales, simp add: deserializeSetAssociationIDResponse_def)

interpretation GetAssociationIDResponse: payload_response "serializeGetAssociationIDResponse" deserializeSetAssociationIDCommand AecpAemGetAssociationIDResponsePayloadSize
    deserializeGetAssociationIDResponse AecpAemGetAssociationIDCommandPayloadSize
  unfolding serializeGetAssociationIDResponse_def
  by (rule payload_responseI) (unfold_locales, simp add: deserializeGetAssociationIDResponse_def)

interpretation SetSamplingRateResponse: payload_response "\<lambda>(a, b, c). serializeSetSamplingRateResponse a b c" deserializeSetSamplingRateCommand AecpAemSetSamplingRateResponsePayloadSize
    deserializeSetSamplingRateResponse AecpAemSetSamplingRateCommandPayloadSize
  unfolding serializeSetSamplingRateResponse_def
  by (rule payload_responseI) (unfold_locales, simp add: deserializeSetSamplingRateResponse_def)

interpretation GetSamplingRateResponse: payload_response "\<lambda>(a, b, c). serializeGetSamplingRateResponse a b c" deserializeSetSamplingRateCommand AecpAemGetSamplingRateResponsePayloadSize
    deserializeGetSamplingRateResponse AecpAemSetSamplingRateCommandPayloadSize
  unfolding serializeGetSamplingRateResponse_def
  by (rule payload_responseI) (unfold_locales, simp add: deserializeGetSamplingRateResponse_def)

interpretation SetClockSourceResponse: payload_response "\<lambda>(a, b, c). serializeSetClockSourceResponse a b c" deserializeSetClockSourceCommand AecpAemSetClockSourceResponsePayloadSize
    deserializeSetClockSourceResponse AecpAemSetClockSourceCommandPayloadSize
  unfolding serializeSetClockSourceResponse_def
  by (rule payload_responseI) (unfold_locales, simp add: deserializeSetClockSourceResponse_def)

interpretation GetClockSourceResponse: payload_response "\<lambda>(a, b, c). serializeGetClockSourceResponse a b c" deserializeSetClockSourceCommand AecpAemGetClockSourceResponsePayloadSize
    deserializeGetClockSourceResponse AecpAemSetClockSourceCommandPayloadSize
  unfolding serializeGetClockSourceResponse_def
  by (rule payload_responseI) (unfold_locales, simp add: deserializeGetClockSourceResponse_def)

interpretation StartStreamingResponse: payload_response "\<lambda>(a, b). serializeStartStreamingResponse a b" deserializeStartStreamingCommand AecpAemStartStreamingResponsePayloadSize
    deserializeStartStreamingResponse AecpAemStartStreamingCommandPayloadSize
  unfolding serializeStartStreamingResponse_def
  by (rule payload_responseI) (unfold_locales, simp add: deserializeStartStreamingResponse_def)

interpretation StopStreamingResponse: payload_response "\<lambda>(a, b). serializeStopStreamingResponse a b" deserializeStartStreamingCommand AecpAemStopStreamingResponsePayloadSize
    deserializeStopStreamingResponse AecpAemStartStreamingCommandPayloadSize
  unfolding serializeStopStreamingResponse_def
  by (rule payload_responseI) (unfold_locales, simp add: deserializeStopStreamingResponse_def)

interpretation RebootResponse: payload_response "\<lambda>(a, b). serializeRebootResponse a b" deserializeRebootCommand AecpAemRebootResponsePayloadSize
    deserializeRebootResponse AecpAemRebootCommandPayloadSize
  unfolding serializeRebootResponse_def
  by (rule payload_responseI) (unfold_locales, simp add: deserializeRebootResponse_def)

interpretation AbortOperationResponse: payload_response "\<lambda>(a, b, c). serializeAbortOperationResponse a b c" deserializeAbortOperationCommand AecpAemAbortOperationResponsePayloadSize
    deserializeAbortOperationResponse AecpAemAbortOperationCommandPayloadSize
  unfolding serializeAbortOperationResponse_def
  by (rule payload_responseI) (unfold_locales, simp add: deserializeAbortOperationResponse_def)

interpretation SetMemoryObjectLengthResponse: payload_response "\<lambda>(a, b, c). serializeSetMemoryObjectLengthResponse a b c" deserializeSetMemoryObjectLengthCommand AecpAemSetMemoryObjectLengthResponsePayloadSize
    deserializeSetMemoryObjectLengthResponse AecpAemSetMemoryObjectLengthCommandPayloadSize
  unfolding serializeSetMemoryObjectLengthResponse_def
  by (rule payload_responseI) (unfold_locales, simp add: deserializeSetMemoryObjectLengthResponse_def)

interpretation GetMemoryObjectLengthResponse: payload_response "\<lambda>(a, b, c). serializeGetMemoryObjectLengthResponse a b c" deserializeSetMemoryObjectLengthCommand AecpAemGetMemoryObjectLengthResponsePayloadSize
    deserializeGetMemoryObjectLengthResponse AecpAemSetMemoryObjectLengthCommandPayloadSize
  unfolding serializeGetMemoryObjectLengthResponse_def
  by (rule payload_responseI) (unfold_locales, simp add: deserializeGetMemoryObjectLengthResponse_def)

interpretation SetMaxTransitTimeResponse: payload_response "\<lambda>(a, b, c). serializeSetMaxTransitTimeResponse a b c" deserializeSetMaxTransitTimeCommand AecpAemSetMaxTransitTimeResponsePayloadSize
    deserializeSetMaxTransitTimeResponse AecpAemSetMaxTransitTimeCommandPayloadSize
  unfolding serializeSetMaxTransitTimeResponse_def
  by (rule payload_responseI) (unfold_locales, simp add: deserializeSetMaxTransitTimeResponse_def)

interpretation GetMaxTransitTimeResponse: payload_response "\<lambda>(a, b, c). serializeGetMaxTransitTimeResponse a b c" deserializeSetMaxTransitTimeCommand AecpAemGetMaxTransitTimeResponsePayloadSize
    deserializeGetMaxTransitTimeResponse AecpAemSetMaxTransitTimeCommandPayloadSize
  unfolding serializeGetMaxTransitTimeResponse_def
  by (rule payload_responseI) (unfold_locales, simp add: deserializeGetMaxTransitTimeResponse_def)

end
