(* ===== verification/AemVariablePayloads.thy ===== *)
theory AemVariablePayloads
  imports AemPayloads
begin

text \<open>
  The payloads of the AEM commands whose layout is not a plain list of fields
  (src/protocol/protocolAemPayloads.cpp): the stream information with its Milan extension, the counted
  lists (audio mappings, traffic class mappings, clock identities), the counters, the operations with their
  data and the dynamic information, which nests the payloads of other commands.

  The writers of a list throw (None) when it does not fit.
\<close>

section \<open>Stream information\<close>

record stream_info =
  streamInfoFlags :: "32 word"
  streamFormat :: stream_format
  streamID :: uid
  msrpAccumulatedLatency :: "32 word"
  streamDestMac :: mac_address
  msrpFailureCode :: "8 word"
  msrpFailureBridgeID :: "64 word"
  streamVlanID :: "16 word"
  streamInfoFlagsEx :: "32 word option"
  probingStatus :: "8 word option"
  acmpStatus :: "8 word option"

text \<open>The fields every form of the payload has, in their order; a zero stands for a reserved byte.\<close>

definition stream_info_chunks :: "descriptor_type \<Rightarrow> descriptor_index \<Rightarrow> stream_info \<Rightarrow> byte list list" where
  "stream_info_chunks descriptorType descriptorIndex i =
     [u16 descriptorType, u16 descriptorIndex, u32 (streamInfoFlags i), u64 (streamFormat i), u64 (streamID i),
      u32 (msrpAccumulatedLatency i), mac (streamDestMac i), u8 (msrpFailureCode i), u8 0,
      u64 (msrpFailureBridgeID i), u16 (streamVlanID i)]"

definition read_stream_info ::
  "deserializer \<Rightarrow> ((descriptor_type \<times> descriptor_index \<times> stream_info) \<times> deserializer) option"
where
  "read_stream_info d = do {
     (descriptorType, d) \<leftarrow> get16 d;
     (descriptorIndex, d) \<leftarrow> get16 d;
     (flags, d) \<leftarrow> get32 d;
     (format, d) \<leftarrow> get64 d;
     (ident, d) \<leftarrow> get64 d;
     (latency, d) \<leftarrow> get32 d;
     (dest, d) \<leftarrow> get_mac d;
     (code, d) \<leftarrow> get8 d;
     (reserved, d) \<leftarrow> get8 d;
     (bridge, d) \<leftarrow> get64 d;
     (vlan, d) \<leftarrow> get16 d;
     Some ((descriptorType, descriptorIndex,
        \<lparr>streamInfoFlags = flags, streamFormat = format, streamID = ident, msrpAccumulatedLatency = latency,
         streamDestMac = dest, msrpFailureCode = code, msrpFailureBridgeID = bridge, streamVlanID = vlan,
         streamInfoFlagsEx = None, probingStatus = None, acmpStatus = None\<rparr>), d)
   }"

abbreviation (input) AecpAemSetStreamInfoCommandPayloadSize :: nat where
  "AecpAemSetStreamInfoCommandPayloadSize \<equiv> 48"
abbreviation (input) AecpAemIEEE2013GetStreamInfoResponsePayloadSize :: nat where
  "AecpAemIEEE2013GetStreamInfoResponsePayloadSize \<equiv> 48"
abbreviation (input) AecpAemIEEE2021GetStreamInfoResponsePayloadSize :: nat where
  "AecpAemIEEE2021GetStreamInfoResponsePayloadSize \<equiv> 84"
abbreviation (input) AecpAemMilanGetStreamInfoResponsePayloadSize :: nat where
  "AecpAemMilanGetStreamInfoResponsePayloadSize \<equiv> 56"

definition serializeSetStreamInfoCommand ::
  "descriptor_type \<Rightarrow> descriptor_index \<Rightarrow> stream_info \<Rightarrow> byte list option"
where
  "serializeSetStreamInfoCommand descriptorType descriptorIndex i =
     serialized AecpAemSetStreamInfoCommandPayloadSize (stream_info_chunks descriptorType descriptorIndex i @ [u16 0])"

definition deserializeSetStreamInfoCommand ::
  "byte list \<Rightarrow> (descriptor_type \<times> descriptor_index \<times> stream_info) outcome"
where
  "deserializeSetStreamInfoCommand payload =
     unpack_payload AecpAemSetStreamInfoCommandPayloadSize payload (\<lambda>d. do {
       (info, d) \<leftarrow> read_stream_info d;
       (reserved2, d) \<leftarrow> get16 d;
       Some info
     })"

definition serializeSetStreamInfoResponse ::
  "descriptor_type \<Rightarrow> descriptor_index \<Rightarrow> stream_info \<Rightarrow> byte list option"
where
  "serializeSetStreamInfoResponse = serializeSetStreamInfoCommand"

definition deserializeSetStreamInfoResponse ::
  "command_status \<Rightarrow> byte list \<Rightarrow> (descriptor_type \<times> descriptor_index \<times> stream_info) outcome"
where
  "deserializeSetStreamInfoResponse status payload =
     obind (checkResponsePayload payload status AecpAemSetStreamInfoCommandPayloadSize 48)
       (\<lambda>_. deserializeSetStreamInfoCommand payload)"

text \<open>The probing status and the ACMP status share a byte.\<close>

definition pack_probing_acmp :: "8 word \<Rightarrow> 8 word \<Rightarrow> 8 word" where
  "pack_probing_acmp probing acmp = (push_bit 5 probing AND 0xe0) OR (acmp AND 0x1f)"

definition unpack_probing :: "8 word \<Rightarrow> 8 word" where
  "unpack_probing x = drop_bit 5 (x AND 0xe0)"

definition unpack_acmp :: "8 word \<Rightarrow> 8 word" where
  "unpack_acmp x = x AND 0x1f"

definition serializeGetStreamInfoResponse ::
  "descriptor_type \<Rightarrow> descriptor_index \<Rightarrow> stream_info \<Rightarrow> byte list option"
where
  "serializeGetStreamInfoResponse descriptorType descriptorIndex i =
     serialized AecpAemMilanGetStreamInfoResponsePayloadSize
       (stream_info_chunks descriptorType descriptorIndex i @
        (case (streamInfoFlagsEx i, probingStatus i, acmpStatus i) of
           (Some ex, Some probing, Some acmp) \<Rightarrow> [u16 0, u32 ex, u8 (pack_probing_acmp probing acmp), u8 0, u16 0]
         | _ \<Rightarrow> [u16 0]))"

text \<open>
  The reader looks at the length to know which form it has.  It catches the exception of the reads to
  rethrow it unless the status is NotImplemented, a status \<^verbatim>\<open>checkResponsePayload\<close> never lets through.
\<close>

definition read_get_stream_info ::
  "nat \<Rightarrow> deserializer \<Rightarrow> (descriptor_type \<times> descriptor_index \<times> stream_info) option"
where
  "read_get_stream_info commandPayloadLength d = do {
     ((descriptorType, descriptorIndex, i), d) \<leftarrow> read_stream_info d;
     if commandPayloadLength \<ge> AecpAemIEEE2021GetStreamInfoResponsePayloadSize
     then do {
       d \<leftarrow> setPosition (usedBytes d + 2) d;
       d \<leftarrow> setPosition (usedBytes d + 2 + 2) d;
       d \<leftarrow> setPosition (usedBytes d + 16) d;
       d \<leftarrow> setPosition (usedBytes d + 16) d;
       Some (descriptorType, descriptorIndex, i)
     }
     else if commandPayloadLength \<ge> AecpAemMilanGetStreamInfoResponsePayloadSize
     then do {
       (reserved2, d) \<leftarrow> get16 d;
       (ex, d) \<leftarrow> get32 d;
       (probing_acmp_status, d) \<leftarrow> get8 d;
       (reserved3, d) \<leftarrow> get8 d;
       (reserved4, d) \<leftarrow> get16 d;
       Some (descriptorType, descriptorIndex,
         i\<lparr>streamInfoFlagsEx := Some ex, probingStatus := Some (unpack_probing probing_acmp_status),
           acmpStatus := Some (unpack_acmp probing_acmp_status)\<rparr>)
     }
     else do {
       (reserved2, d) \<leftarrow> get16 d;
       Some (descriptorType, descriptorIndex, i)
     }
   }"

definition deserializeGetStreamInfoResponse ::
  "command_status \<Rightarrow> byte list \<Rightarrow> (descriptor_type \<times> descriptor_index \<times> stream_info) outcome"
where
  "deserializeGetStreamInfoResponse status payload =
     obind (checkResponsePayload payload status AecpAemGetStreamInfoCommandPayloadSize
              AecpAemIEEE2013GetStreamInfoResponsePayloadSize)
       (\<lambda>_. of_buffer (read_get_stream_info (length payload) (deser_new payload)))"

section \<open>Counted lists\<close>

text \<open>
  A list on the wire: as many elements as a 16-bit count says, read one after the other, once the rest of
  the payload is known to hold them.
\<close>

definition read_counted ::
  "(deserializer \<Rightarrow> ('a \<times> deserializer) option) \<Rightarrow> nat \<Rightarrow> 16 word \<Rightarrow> deserializer \<Rightarrow> 'a list outcome"
where
  "read_counted dec sz count d =
     (if remaining d < sz * unat count then Inl IncorrectPayloadSize
      else of_buffer (map_option fst (get_many dec (unat count) d)))"

record audio_mapping =
  am_streamIndex :: "16 word"
  am_streamChannel :: "16 word"
  am_clusterOffset :: "16 word"
  am_clusterChannel :: "16 word"

definition enc_audio_mapping :: "audio_mapping \<Rightarrow> byte list" where
  "enc_audio_mapping m =
     u16 (am_streamIndex m) @ u16 (am_streamChannel m) @ u16 (am_clusterOffset m) @ u16 (am_clusterChannel m)"

definition get_audio_mapping :: "deserializer \<Rightarrow> (audio_mapping \<times> deserializer) option" where
  "get_audio_mapping d = do {
     (streamIndex, d) \<leftarrow> get16 d;
     (streamChannel, d) \<leftarrow> get16 d;
     (clusterOffset, d) \<leftarrow> get16 d;
     (clusterChannel, d) \<leftarrow> get16 d;
     Some (\<lparr>am_streamIndex = streamIndex, am_streamChannel = streamChannel, am_clusterOffset = clusterOffset,
            am_clusterChannel = clusterChannel\<rparr>, d)
   }"

record msrp_mapping =
  mm_trafficClass :: "8 word"
  mm_priority :: "8 word"
  mm_vlanID :: "16 word"

definition enc_msrp_mapping :: "msrp_mapping \<Rightarrow> byte list" where
  "enc_msrp_mapping m = u8 (mm_trafficClass m) @ u8 (mm_priority m) @ u16 (mm_vlanID m)"

definition get_msrp_mapping :: "deserializer \<Rightarrow> (msrp_mapping \<times> deserializer) option" where
  "get_msrp_mapping d = do {
     (trafficClass, d) \<leftarrow> get8 d;
     (priority, d) \<leftarrow> get8 d;
     (vlanID, d) \<leftarrow> get16 d;
     Some (\<lparr>mm_trafficClass = trafficClass, mm_priority = priority, mm_vlanID = vlanID\<rparr>, d)
   }"

interpretation audio_mapping: codec enc_audio_mapping get_audio_mapping 8
proof
  show "length (enc_audio_mapping x) = 8" for x by (simp add: enc_audio_mapping_def)
  show "get_audio_mapping (Deser u (enc_audio_mapping x @ r)) = Some (x, Deser (u @ enc_audio_mapping x) r)" for u x r
    by (simp add: enc_audio_mapping_def get_audio_mapping_def)
  show "get_audio_mapping d = None \<longleftrightarrow> remaining d < 8" for d
    by (auto simp: get_audio_mapping_def payload_short)
  show "get_audio_mapping d = Some (x, d') \<Longrightarrow> d' = adv 8 d" for d x d'
    by (auto simp: get_audio_mapping_def scalar_defs get_word_adv split: if_splits)
qed

interpretation msrp_mapping: codec enc_msrp_mapping get_msrp_mapping 4
proof
  show "length (enc_msrp_mapping x) = 4" for x by (simp add: enc_msrp_mapping_def)
  show "get_msrp_mapping (Deser u (enc_msrp_mapping x @ r)) = Some (x, Deser (u @ enc_msrp_mapping x) r)" for u x r
    by (simp add: enc_msrp_mapping_def get_msrp_mapping_def)
  show "get_msrp_mapping d = None \<longleftrightarrow> remaining d < 4" for d
    by (auto simp: get_msrp_mapping_def payload_short)
  show "get_msrp_mapping d = Some (x, d') \<Longrightarrow> d' = adv 4 d" for d x d'
    by (auto simp: get_msrp_mapping_def scalar_defs get_word_adv eval_nat_numeral split: if_splits)
qed

text \<open>Writing a list whose length fits its 16-bit count and reading it back; when the reader of one fails.\<close>

context codec
begin

lemma read_counted_enc:
  assumes "length xs < 2 ^ 16"
  shows "read_counted dec sz (of_nat (length xs)) (Deser u (concat (map enc xs) @ pad)) = Inr xs"
proof -
  have "unat (of_nat (length xs) :: 16 word) = length xs"
    using assms by (simp add: unsigned_of_nat take_bit_nat_eq_self)
  then show ?thesis by (simp add: read_counted_def enc_many_size get_many_enc mult.commute)
qed

lemma read_counted_Inl_iff:
  "read_counted dec sz count d = Inl ex \<longleftrightarrow> remaining d < sz * unat count \<and> ex = IncorrectPayloadSize"
  using get_many_short [of "unat count" d] by (auto simp: read_counted_def mult.commute)

end

subsection \<open>Audio mappings\<close>

abbreviation (input) AecpAemGetAudioMapResponsePayloadMinSize :: nat where
  "AecpAemGetAudioMapResponsePayloadMinSize \<equiv> 12"
abbreviation (input) AecpAemAddAudioMappingsCommandPayloadMinSize :: nat where
  "AecpAemAddAudioMappingsCommandPayloadMinSize \<equiv> 8"
abbreviation (input) AecpAemAddAudioMappingsResponsePayloadMinSize :: nat where
  "AecpAemAddAudioMappingsResponsePayloadMinSize \<equiv> 8"
abbreviation (input) AecpAemRemoveAudioMappingsResponsePayloadMinSize :: nat where
  "AecpAemRemoveAudioMappingsResponsePayloadMinSize \<equiv> 8"

definition serializeGetAudioMapResponse ::
  "build_options \<Rightarrow> descriptor_type \<Rightarrow> descriptor_index \<Rightarrow> 16 word \<Rightarrow> 16 word \<Rightarrow> audio_mapping list \<Rightarrow> byte list option"
where
  "serializeGetAudioMapResponse opts descriptorType descriptorIndex mapIndex numberOfMaps mappings =
     serialized (Aem_MaximumSendPayloadBufferLength opts)
       ([u16 descriptorType, u16 descriptorIndex, u16 mapIndex, u16 numberOfMaps, u16 (of_nat (length mappings)), u16 0]
        @ map enc_audio_mapping mappings)"

definition deserializeGetAudioMapResponse ::
  "command_status \<Rightarrow> byte list \<Rightarrow> (descriptor_type \<times> descriptor_index \<times> 16 word \<times> 16 word \<times> audio_mapping list) outcome"
where
  "deserializeGetAudioMapResponse status payload =
     obind (checkResponsePayload payload status AecpAemGetAudioMapCommandPayloadSize AecpAemGetAudioMapResponsePayloadMinSize)
       (\<lambda>_. obind (of_buffer (do {
          (descriptorType, d) \<leftarrow> get16 (deser_new payload);
          (descriptorIndex, d) \<leftarrow> get16 d;
          (mapIndex, d) \<leftarrow> get16 d;
          (numberOfMaps, d) \<leftarrow> get16 d;
          (numberOfMappings, d) \<leftarrow> get16 d;
          (reserved, d) \<leftarrow> get16 d;
          Some (descriptorType, descriptorIndex, mapIndex, numberOfMaps, numberOfMappings, d)
        }))
       (\<lambda>(descriptorType, descriptorIndex, mapIndex, numberOfMaps, numberOfMappings, d).
          obind (read_counted get_audio_mapping 8 numberOfMappings d)
            (\<lambda>mappings. Inr (descriptorType, descriptorIndex, mapIndex, numberOfMaps, mappings))))"

definition serializeAddAudioMappingsCommand ::
  "build_options \<Rightarrow> descriptor_type \<Rightarrow> descriptor_index \<Rightarrow> audio_mapping list \<Rightarrow> byte list option"
where
  "serializeAddAudioMappingsCommand opts descriptorType descriptorIndex mappings =
     serialized (Aem_MaximumSendPayloadBufferLength opts)
       ([u16 descriptorType, u16 descriptorIndex, u16 (of_nat (length mappings)), u16 0]
        @ map enc_audio_mapping mappings)"

definition deserializeAddAudioMappingsCommand ::
  "byte list \<Rightarrow> (descriptor_type \<times> descriptor_index \<times> audio_mapping list) outcome"
where
  "deserializeAddAudioMappingsCommand payload =
     obind (unpack_payload AecpAemAddAudioMappingsCommandPayloadMinSize payload (\<lambda>d. do {
          (descriptorType, d) \<leftarrow> get16 d;
          (descriptorIndex, d) \<leftarrow> get16 d;
          (numberOfMappings, d) \<leftarrow> get16 d;
          (reserved, d) \<leftarrow> get16 d;
          Some (descriptorType, descriptorIndex, numberOfMappings, d)
        }))
       (\<lambda>(descriptorType, descriptorIndex, numberOfMappings, d).
          obind (read_counted get_audio_mapping 8 numberOfMappings d)
            (\<lambda>mappings. Inr (descriptorType, descriptorIndex, mappings)))"

definition serializeAddAudioMappingsResponse ::
  "build_options \<Rightarrow> descriptor_type \<Rightarrow> descriptor_index \<Rightarrow> audio_mapping list \<Rightarrow> byte list option"
where
  "serializeAddAudioMappingsResponse = serializeAddAudioMappingsCommand"

definition deserializeAddAudioMappingsResponse ::
  "command_status \<Rightarrow> byte list \<Rightarrow> (descriptor_type \<times> descriptor_index \<times> audio_mapping list) outcome"
where
  "deserializeAddAudioMappingsResponse status payload =
     obind (checkResponsePayload payload status AecpAemAddAudioMappingsCommandPayloadMinSize
              AecpAemAddAudioMappingsResponsePayloadMinSize)
       (\<lambda>_. deserializeAddAudioMappingsCommand payload)"

definition serializeRemoveAudioMappingsCommand ::
  "build_options \<Rightarrow> descriptor_type \<Rightarrow> descriptor_index \<Rightarrow> audio_mapping list \<Rightarrow> byte list option"
where
  "serializeRemoveAudioMappingsCommand = serializeAddAudioMappingsCommand"

definition deserializeRemoveAudioMappingsCommand ::
  "byte list \<Rightarrow> (descriptor_type \<times> descriptor_index \<times> audio_mapping list) outcome"
where
  "deserializeRemoveAudioMappingsCommand payload = deserializeAddAudioMappingsCommand payload"

definition serializeRemoveAudioMappingsResponse ::
  "build_options \<Rightarrow> descriptor_type \<Rightarrow> descriptor_index \<Rightarrow> audio_mapping list \<Rightarrow> byte list option"
where
  "serializeRemoveAudioMappingsResponse = serializeAddAudioMappingsCommand"

definition deserializeRemoveAudioMappingsResponse ::
  "command_status \<Rightarrow> byte list \<Rightarrow> (descriptor_type \<times> descriptor_index \<times> audio_mapping list) outcome"
where
  "deserializeRemoveAudioMappingsResponse status payload =
     obind (checkResponsePayload payload status AecpAemAddAudioMappingsCommandPayloadMinSize
              AecpAemRemoveAudioMappingsResponsePayloadMinSize)
       (\<lambda>_. deserializeAddAudioMappingsCommand payload)"

subsection \<open>AVB information and gPTP path\<close>

record avb_info =
  av_gptpGrandmasterID :: uid
  av_propagationDelay :: "32 word"
  av_gptpDomainNumber :: "8 word"
  av_flags :: "8 word"
  av_mappings :: "msrp_mapping list"

definition serializeGetAvbInfoResponse ::
  "build_options \<Rightarrow> descriptor_type \<Rightarrow> descriptor_index \<Rightarrow> avb_info \<Rightarrow> byte list option"
where
  "serializeGetAvbInfoResponse opts descriptorType descriptorIndex i =
     serialized (Aem_MaximumSendPayloadBufferLength opts)
       ([u16 descriptorType, u16 descriptorIndex, u64 (av_gptpGrandmasterID i), u32 (av_propagationDelay i),
         u8 (av_gptpDomainNumber i), u8 (av_flags i), u16 (of_nat (length (av_mappings i)))]
        @ map enc_msrp_mapping (av_mappings i))"

abbreviation (input) AecpAemGetAvbInfoResponsePayloadMinSize :: nat where
  "AecpAemGetAvbInfoResponsePayloadMinSize \<equiv> 20"

definition deserializeGetAvbInfoResponse ::
  "command_status \<Rightarrow> byte list \<Rightarrow> (descriptor_type \<times> descriptor_index \<times> avb_info) outcome"
where
  "deserializeGetAvbInfoResponse status payload =
     obind (checkResponsePayload payload status AecpAemGetAvbInfoCommandPayloadSize AecpAemGetAvbInfoResponsePayloadMinSize)
       (\<lambda>_. obind (of_buffer (do {
          (descriptorType, d) \<leftarrow> get16 (deser_new payload);
          (descriptorIndex, d) \<leftarrow> get16 d;
          (gm, d) \<leftarrow> get64 d;
          (delay, d) \<leftarrow> get32 d;
          (domain, d) \<leftarrow> get8 d;
          (flags, d) \<leftarrow> get8 d;
          (numberOfMappings, d) \<leftarrow> get16 d;
          Some (descriptorType, descriptorIndex, gm, delay, domain, flags, numberOfMappings, d)
        }))
       (\<lambda>(descriptorType, descriptorIndex, gm, delay, domain, flags, numberOfMappings, d).
          obind (read_counted get_msrp_mapping 4 numberOfMappings d)
            (\<lambda>mappings. Inr (descriptorType, descriptorIndex,
               \<lparr>av_gptpGrandmasterID = gm, av_propagationDelay = delay, av_gptpDomainNumber = domain,
                av_flags = flags, av_mappings = mappings\<rparr>))))"

abbreviation (input) AecpAemGetAsPathResponsePayloadMinSize :: nat where
  "AecpAemGetAsPathResponsePayloadMinSize \<equiv> 4"

definition serializeGetAsPathResponse :: "build_options \<Rightarrow> descriptor_index \<Rightarrow> uid list \<Rightarrow> byte list option" where
  "serializeGetAsPathResponse opts descriptorIndex asPath =
     serialized (Aem_MaximumSendPayloadBufferLength opts)
       ([u16 descriptorIndex, u16 (of_nat (length asPath))] @ map u64 asPath)"

definition deserializeGetAsPathResponse :: "command_status \<Rightarrow> byte list \<Rightarrow> (descriptor_index \<times> uid list) outcome" where
  "deserializeGetAsPathResponse status payload =
     obind (checkResponsePayload payload status AecpAemGetAsPathCommandPayloadSize AecpAemGetAsPathResponsePayloadMinSize)
       (\<lambda>_. obind (of_buffer (do {
          (descriptorIndex, d) \<leftarrow> get16 (deser_new payload);
          (count, d) \<leftarrow> get16 d;
          Some (descriptorIndex, count, d)
        }))
       (\<lambda>(descriptorIndex, count, d).
          obind (read_counted get64 8 count d) (\<lambda>asPath. Inr (descriptorIndex, asPath))))"

section \<open>Counters\<close>

text \<open>The counters are an array of 32; the list here has that length.\<close>

abbreviation (input) AecpAemGetCountersResponsePayloadSize :: nat where
  "AecpAemGetCountersResponsePayloadSize \<equiv> 136"

definition DescriptorCounters_size :: nat where
  "DescriptorCounters_size = 32"

definition serializeGetCountersResponse ::
  "descriptor_type \<Rightarrow> descriptor_index \<Rightarrow> 32 word \<Rightarrow> 32 word list \<Rightarrow> byte list option"
where
  "serializeGetCountersResponse descriptorType descriptorIndex validCounters counters =
     serialized AecpAemGetCountersResponsePayloadSize
       ([u16 descriptorType, u16 descriptorIndex, u32 validCounters] @ map u32 counters)"

definition deserializeGetCountersResponse ::
  "command_status \<Rightarrow> byte list \<Rightarrow> (descriptor_type \<times> descriptor_index \<times> 32 word \<times> 32 word list) outcome"
where
  "deserializeGetCountersResponse status payload =
     obind (checkResponsePayload payload status AecpAemGetCountersCommandPayloadSize AecpAemGetCountersResponsePayloadSize)
       (\<lambda>_. of_buffer (do {
          (descriptorType, d) \<leftarrow> get16 (deser_new payload);
          (descriptorIndex, d) \<leftarrow> get16 d;
          (validCounters, d) \<leftarrow> get32 d;
          (counters, d) \<leftarrow> get_many get32 DescriptorCounters_size d;
          Some (descriptorType, descriptorIndex, validCounters, counters)
        }))"

section \<open>Data to the end of the payload\<close>

text \<open>What remains of a payload, as a buffer.\<close>

definition read_remaining :: "deserializer \<Rightarrow> (byte list \<times> deserializer) option" where
  "read_remaining d = (if remaining d \<noteq> 0 then unpackBuffer (remaining d) d else Some ([], d))"

abbreviation (input) AecpAemSetControlCommandPayloadMinSize :: nat where
  "AecpAemSetControlCommandPayloadMinSize \<equiv> 4"
abbreviation (input) AecpAemSetControlResponsePayloadMinSize :: nat where
  "AecpAemSetControlResponsePayloadMinSize \<equiv> 4"
abbreviation (input) AecpAemGetControlResponsePayloadMinSize :: nat where
  "AecpAemGetControlResponsePayloadMinSize \<equiv> 4"
abbreviation (input) AecpAemStartOperationCommandPayloadMinSize :: nat where
  "AecpAemStartOperationCommandPayloadMinSize \<equiv> 8"
abbreviation (input) AecpAemStartOperationResponsePayloadMinSize :: nat where
  "AecpAemStartOperationResponsePayloadMinSize \<equiv> 8"

definition deserializeSetControlCommand :: "byte list \<Rightarrow> (descriptor_type \<times> descriptor_index \<times> byte list) outcome" where
  "deserializeSetControlCommand payload =
     unpack_payload AecpAemSetControlCommandPayloadMinSize payload (\<lambda>d. do {
       (descriptorType, d) \<leftarrow> get16 d;
       (descriptorIndex, d) \<leftarrow> get16 d;
       (memoryBuffer, d) \<leftarrow> read_remaining d;
       Some (descriptorType, descriptorIndex, memoryBuffer)
     })"

definition deserializeSetControlResponse ::
  "command_status \<Rightarrow> byte list \<Rightarrow> (descriptor_type \<times> descriptor_index \<times> byte list) outcome"
where
  "deserializeSetControlResponse status payload =
     obind (checkResponsePayload payload status AecpAemSetControlCommandPayloadMinSize AecpAemSetControlResponsePayloadMinSize)
       (\<lambda>_. deserializeSetControlCommand payload)"

definition deserializeGetControlResponse ::
  "command_status \<Rightarrow> byte list \<Rightarrow> (descriptor_type \<times> descriptor_index \<times> byte list) outcome"
where
  "deserializeGetControlResponse status payload =
     obind (checkResponsePayload payload status AecpAemSetControlCommandPayloadMinSize AecpAemGetControlResponsePayloadMinSize)
       (\<lambda>_. deserializeSetControlCommand payload)"

definition serializeStartOperationCommand ::
  "build_options \<Rightarrow> descriptor_type \<Rightarrow> descriptor_index \<Rightarrow> 16 word \<Rightarrow> 16 word \<Rightarrow> byte list \<Rightarrow> byte list option"
where
  "serializeStartOperationCommand opts descriptorType descriptorIndex operationID operationType memoryBuffer =
     serialized (Aem_MaximumSendPayloadBufferLength opts)
       ([u16 descriptorType, u16 descriptorIndex, u16 operationID, u16 operationType]
        @ (if memoryBuffer \<noteq> [] then [memoryBuffer] else []))"

definition deserializeStartOperationCommand ::
  "byte list \<Rightarrow> (descriptor_type \<times> descriptor_index \<times> 16 word \<times> 16 word \<times> byte list) outcome"
where
  "deserializeStartOperationCommand payload =
     unpack_payload AecpAemStartOperationCommandPayloadMinSize payload (\<lambda>d. do {
       (descriptorType, d) \<leftarrow> get16 d;
       (descriptorIndex, d) \<leftarrow> get16 d;
       (operationID, d) \<leftarrow> get16 d;
       (operationType, d) \<leftarrow> get16 d;
       (memoryBuffer, d) \<leftarrow> read_remaining d;
       Some (descriptorType, descriptorIndex, operationID, operationType, memoryBuffer)
     })"

definition serializeStartOperationResponse ::
  "build_options \<Rightarrow> descriptor_type \<Rightarrow> descriptor_index \<Rightarrow> 16 word \<Rightarrow> 16 word \<Rightarrow> byte list \<Rightarrow> byte list option"
where
  "serializeStartOperationResponse = serializeStartOperationCommand"

definition deserializeStartOperationResponse ::
  "command_status \<Rightarrow> byte list \<Rightarrow> (descriptor_type \<times> descriptor_index \<times> 16 word \<times> 16 word \<times> byte list) outcome"
where
  "deserializeStartOperationResponse status payload =
     obind (checkResponsePayload payload status AecpAemStartOperationCommandPayloadMinSize
              AecpAemStartOperationResponsePayloadMinSize)
       (\<lambda>_. deserializeStartOperationCommand payload)"

section \<open>Dynamic information\<close>

record dynamic_info =
  dy_status :: "8 word"
  dy_type :: "16 word"
  dy_buffer :: "byte list"

definition dynamic_info_chunks :: "dynamic_info \<Rightarrow> byte list list" where
  "dynamic_info_chunks c =
     [u16 (of_nat (length (dy_buffer c))), u16 0, u8 (dy_status c), u8 0, u16 (dy_type c), dy_buffer c]"

definition serializeGetDynamicInfoCommand :: "build_options \<Rightarrow> dynamic_info list \<Rightarrow> byte list option" where
  "serializeGetDynamicInfoCommand opts commands =
     serialized (Aem_MaximumSendPayloadBufferLength opts) (concat (map dynamic_info_chunks commands))"

definition get_dynamic_info_header :: "deserializer \<Rightarrow> ((16 word \<times> 8 word \<times> 16 word) \<times> deserializer) option" where
  "get_dynamic_info_header d = do {
     (specificCommandLength, d) \<leftarrow> get16 d;
     (reserved1, d) \<leftarrow> get16 d;
     (status, d) \<leftarrow> get8 d;
     (reserved2, d) \<leftarrow> get8 d;
     (commandType, d) \<leftarrow> get16 d;
     Some ((specificCommandLength, status, commandType), d)
   }"

definition get_dynamic_info :: "deserializer \<Rightarrow> (dynamic_info \<times> deserializer) outcome" where
  "get_dynamic_info d =
     obind (of_buffer (get_dynamic_info_header d)) (\<lambda>((specificCommandLength, status, commandType), d).
       if unat specificCommandLength > remaining d then Inl IncorrectPayloadSize
       else obind (of_buffer (unpackBuffer (unat specificCommandLength) d)) (\<lambda>(buf, d).
         Inr (\<lparr>dy_status = status, dy_type = commandType, dy_buffer = buf\<rparr>, d)))"

text \<open>Every turn of the loop reads eight bytes at least, so it ends.\<close>

lemma get_dynamic_info_header_reads:
  "get_dynamic_info_header d = Some (h, d') \<Longrightarrow> remaining d = 8 + remaining d'"
  by (auto simp: get_dynamic_info_header_def scalar_defs bind_eq_Some_iff dest!: get_word_remaining)

lemma get_dynamic_info_reads:
  assumes "get_dynamic_info d = Inr (c, d')"
  shows "8 \<le> remaining d \<and> remaining d' \<le> remaining d - 8"
proof -
  from assms obtain len st ct d1 buf where h: "get_dynamic_info_header d = Some ((len, st, ct), d1)"
    and b: "unpackBuffer (unat len) d1 = Some (buf, d')"
    by (auto simp: get_dynamic_info_def obind_eq_Inr_iff split: if_splits)
  from b have "remaining d' \<le> remaining d1" by (auto simp: unpackBuffer_adv split: if_splits)
  with get_dynamic_info_header_reads [OF h] show ?thesis by simp
qed

function read_dynamic_infos :: "deserializer \<Rightarrow> dynamic_info list outcome" where
  "read_dynamic_infos d =
     (if remaining d = 0 then Inr []
      else case get_dynamic_info d of
        Inl ex \<Rightarrow> Inl ex
      | Inr (c, d') \<Rightarrow> obind (read_dynamic_infos d') (\<lambda>commands. Inr (c # commands)))"
  by auto

termination
  by (relation "measure remaining") (auto dest: get_dynamic_info_reads)

declare read_dynamic_infos.simps [simp del]

abbreviation (input) AecpAemGetDynamicInfoCommandPayloadMinSize :: nat where
  "AecpAemGetDynamicInfoCommandPayloadMinSize \<equiv> 0"
abbreviation (input) AecpAemGetDynamicInfoResponsePayloadMinSize :: nat where
  "AecpAemGetDynamicInfoResponsePayloadMinSize \<equiv> 0"

definition deserializeGetDynamicInfoCommand :: "byte list \<Rightarrow> dynamic_info list outcome" where
  "deserializeGetDynamicInfoCommand payload =
     (if length payload < AecpAemGetDynamicInfoCommandPayloadMinSize then Inl IncorrectPayloadSize
      else read_dynamic_infos (deser_new payload))"

definition serializeGetDynamicInfoResponse :: "build_options \<Rightarrow> dynamic_info list \<Rightarrow> byte list option" where
  "serializeGetDynamicInfoResponse = serializeGetDynamicInfoCommand"

definition deserializeGetDynamicInfoResponse :: "command_status \<Rightarrow> byte list \<Rightarrow> dynamic_info list outcome" where
  "deserializeGetDynamicInfoResponse status payload =
     obind (checkResponsePayload payload status AecpAemGetDynamicInfoCommandPayloadMinSize
              AecpAemGetDynamicInfoResponsePayloadMinSize)
       (\<lambda>_. deserializeGetDynamicInfoCommand payload)"

section \<open>Lemmas\<close>

lemma send_buffer_small: "Aem_MaximumSendPayloadBufferLength opts < 2 ^ 16"
  by (simp add: Aem_MaximumSendPayloadBufferLength_def MaximumSendLength_def MaximumLength_BigPayloads_def
      MaximumLength_1722_1_def EthernetMaxFrameSize_def
      EtherLayer2_HeaderLength_def AvtpduControl_HeaderLength_def Aecpdu_HeaderLength_def AemAecpdu_HeaderLength_def)

lemma serialized_Some_iff: "serialized n cs = Some bs \<longleftrightarrow> length (concat cs) \<le> n \<and> bs = concat cs"
  by (auto simp: serialized_eq)

lemma read_stream_info_chunks:
  "read_stream_info (Deser u (concat (stream_info_chunks descriptorType descriptorIndex i) @ r)) =
     Some ((descriptorType, descriptorIndex,
            i\<lparr>streamInfoFlagsEx := None, probingStatus := None, acmpStatus := None\<rparr>),
           Deser (u @ concat (stream_info_chunks descriptorType descriptorIndex i)) r)"
  by (simp add: read_stream_info_def stream_info_chunks_def)

lemma length_stream_info_chunks [simp]:
  "length (concat (stream_info_chunks descriptorType descriptorIndex i)) = 46"
  by (simp add: stream_info_chunks_def)

text \<open>The short form drops the Milan fields.\<close>

lemma set_stream_info_read:
  assumes "serializeSetStreamInfoCommand descriptorType descriptorIndex i = Some bs"
  shows "deserializeSetStreamInfoCommand (bs @ pad) =
    Inr (descriptorType, descriptorIndex, i\<lparr>streamInfoFlagsEx := None, probingStatus := None, acmpStatus := None\<rparr>)"
  using assms
  by (simp add: serializeSetStreamInfoCommand_def serialized_Some_iff deserializeSetStreamInfoCommand_def
      unpack_payload_def read_stream_info_chunks)

lemma unpack_pack_probing_acmp:
  "unpack_probing (pack_probing_acmp p a) = p AND 7" "unpack_acmp (pack_probing_acmp p a) = a AND 31"
  unfolding unpack_probing_def unpack_acmp_def pack_probing_acmp_def
  by (simp_all add: narrow_bits)

lemma narrow_and:
  "(x :: 8 word) < 8 \<Longrightarrow> x AND 7 = x" "(x :: 8 word) < 32 \<Longrightarrow> x AND 31 = x"
proof -
  have "x AND 7 = take_bit 3 x" "x AND 31 = take_bit 5 x"
    by (simp_all add: take_bit_eq_mask mask_eq_exp_minus_1)
  then show "x < 8 \<Longrightarrow> x AND 7 = x" "x < 32 \<Longrightarrow> x AND 31 = x"
    by (simp_all add: word_unat_eq_iff unsigned_take_bit_eq take_bit_nat_eq_self word_less_nat_alt)
qed

lemma get_stream_info_read:
  assumes "serializeGetStreamInfoResponse descriptorType descriptorIndex i = Some bs"
    and "status \<noteq> Status_NotImplemented"
    and "length bs = 56 \<Longrightarrow> the (probingStatus i) < 8 \<and> the (acmpStatus i) < 32"
  shows "deserializeGetStreamInfoResponse status bs = Inr (descriptorType, descriptorIndex,
    if streamInfoFlagsEx i = None \<or> probingStatus i = None \<or> acmpStatus i = None
    then i\<lparr>streamInfoFlagsEx := None, probingStatus := None, acmpStatus := None\<rparr> else i)"
proof (cases "streamInfoFlagsEx i = None \<or> probingStatus i = None \<or> acmpStatus i = None")
  case True
  with assms have "bs = concat (stream_info_chunks descriptorType descriptorIndex i) @ u16 0"
    by (auto simp: serializeGetStreamInfoResponse_def serialized_Some_iff split: option.splits)
  with True assms(2) show ?thesis
    by (simp add: deserializeGetStreamInfoResponse_def checkResponsePayload_implemented read_get_stream_info_def
        read_stream_info_chunks)
next
  case False
  then obtain ex probing acmp where milan: "streamInfoFlagsEx i = Some ex" "probingStatus i = Some probing"
    "acmpStatus i = Some acmp" by auto
  with assms(1) have bs: "bs = concat (stream_info_chunks descriptorType descriptorIndex i)
      @ u16 0 @ u32 ex @ u8 (pack_probing_acmp probing acmp) @ u8 0 @ u16 0"
    by (auto simp: serializeGetStreamInfoResponse_def serialized_Some_iff)
  then have "probing AND 7 = probing" "acmp AND 31 = acmp"
    using assms(3) milan by (simp_all add: narrow_and)
  with bs milan assms(2) show ?thesis
    by (cases i) (simp add: deserializeGetStreamInfoResponse_def checkResponsePayload_implemented
        read_get_stream_info_def read_stream_info_chunks unpack_pack_probing_acmp)
qed

text \<open>The payloads with a list, a data block or counters are read as they were written.\<close>

context codec
begin

lemma fits_short:
  assumes "n + length xs * sz \<le> Aem_MaximumSendPayloadBufferLength opts" and "0 < sz"
  shows "length xs < 2 ^ 16"
proof -
  have "length xs \<le> length xs * sz" using assms(2) by simp
  then show ?thesis using assms(1) send_buffer_small [of opts] by linarith
qed

end

lemma get_audio_map_read:
  assumes "serializeGetAudioMapResponse opts descriptorType descriptorIndex mapIndex numberOfMaps mappings = Some bs"
    and "status \<noteq> Status_NotImplemented"
  shows "deserializeGetAudioMapResponse status (bs @ pad) =
    Inr (descriptorType, descriptorIndex, mapIndex, numberOfMaps, mappings)"
  using assms audio_mapping.fits_short [of 12 mappings opts]
  by (auto simp: serializeGetAudioMapResponse_def serialized_Some_iff deserializeGetAudioMapResponse_def
      checkResponsePayload_implemented audio_mapping.enc_many_size audio_mapping.read_counted_enc)

lemma add_audio_mappings_read:
  assumes "serializeAddAudioMappingsCommand opts descriptorType descriptorIndex mappings = Some bs"
  shows "deserializeAddAudioMappingsCommand (bs @ pad) = Inr (descriptorType, descriptorIndex, mappings)"
  using assms audio_mapping.fits_short [of 8 mappings opts]
  by (auto simp: serializeAddAudioMappingsCommand_def serialized_Some_iff deserializeAddAudioMappingsCommand_def
      unpack_payload_def audio_mapping.enc_many_size audio_mapping.read_counted_enc)

lemma length_add_audio_mappings:
  "serializeAddAudioMappingsCommand opts descriptorType descriptorIndex mappings = Some bs \<Longrightarrow>
     length bs = 8 + 8 * length mappings"
  by (auto simp: serializeAddAudioMappingsCommand_def serialized_Some_iff audio_mapping.enc_many_size)

lemma get_avb_info_read:
  assumes "serializeGetAvbInfoResponse opts descriptorType descriptorIndex i = Some bs"
    and "status \<noteq> Status_NotImplemented"
  shows "deserializeGetAvbInfoResponse status (bs @ pad) = Inr (descriptorType, descriptorIndex, i)"
  using assms msrp_mapping.fits_short [of 20 "av_mappings i" opts]
  by (cases i) (auto simp: serializeGetAvbInfoResponse_def serialized_Some_iff deserializeGetAvbInfoResponse_def
      checkResponsePayload_implemented msrp_mapping.enc_many_size msrp_mapping.read_counted_enc)

lemma get_as_path_read:
  assumes "serializeGetAsPathResponse opts descriptorIndex asPath = Some bs"
    and "status \<noteq> Status_NotImplemented"
  shows "deserializeGetAsPathResponse status (bs @ pad) = Inr (descriptorIndex, asPath)"
  using assms c64.fits_short [of 4 asPath opts]
  by (auto simp: serializeGetAsPathResponse_def serialized_Some_iff deserializeGetAsPathResponse_def
      checkResponsePayload_implemented c64.enc_many_size c64.read_counted_enc)

lemma get_counters_read:
  assumes "serializeGetCountersResponse descriptorType descriptorIndex validCounters counters = Some bs"
    and "length counters = DescriptorCounters_size" and "status \<noteq> Status_NotImplemented"
  shows "deserializeGetCountersResponse status (bs @ pad) = Inr (descriptorType, descriptorIndex, validCounters, counters)"
  using assms
  by (auto simp: serializeGetCountersResponse_def serialized_Some_iff deserializeGetCountersResponse_def
      checkResponsePayload_implemented c32.enc_many_size c32.get_many_enc DescriptorCounters_size_def)

lemma start_operation_read:
  assumes "serializeStartOperationCommand opts descriptorType descriptorIndex operationID operationType dat = Some bs"
  shows "deserializeStartOperationCommand bs = Inr (descriptorType, descriptorIndex, operationID, operationType, dat)"
  using assms
  by (auto simp: serializeStartOperationCommand_def serialized_Some_iff deserializeStartOperationCommand_def
      unpack_payload_def read_remaining_def)

lemma get_dynamic_info_chunks:
  assumes "length (dy_buffer c) < 2 ^ 16"
  shows "get_dynamic_info (Deser u (concat (dynamic_info_chunks c) @ r)) =
    Inr (c, Deser (u @ concat (dynamic_info_chunks c)) r)"
  using assms
  by (simp add: get_dynamic_info_def get_dynamic_info_header_def dynamic_info_chunks_def unsigned_of_nat
      take_bit_nat_eq_self)

lemma length_dynamic_info_chunks [simp]: "length (concat (dynamic_info_chunks c)) = 8 + length (dy_buffer c)"
  by (simp add: dynamic_info_chunks_def)

lemma read_dynamic_infos_chunks:
  assumes "\<forall>c\<in>set commands. length (dy_buffer c) < 2 ^ 16"
  shows "read_dynamic_infos (Deser u (concat (concat (map dynamic_info_chunks commands)))) = Inr commands"
  using assms
proof (induction commands arbitrary: u)
  case (Cons c commands)
  have "read_dynamic_infos (Deser u (concat (dynamic_info_chunks c) @ concat (concat (map dynamic_info_chunks commands))))
      = Inr (c # commands)"
    using Cons by (subst read_dynamic_infos.simps) (simp add: get_dynamic_info_chunks del: concat_append)
  then show ?case by simp
qed (simp add: read_dynamic_infos.simps)

lemma get_dynamic_info_read:
  assumes "serializeGetDynamicInfoCommand opts commands = Some bs"
  shows "deserializeGetDynamicInfoCommand bs = Inr commands"
proof -
  have "length (dy_buffer c) \<le> length (concat (concat (map dynamic_info_chunks commands)))" if "c \<in> set commands" for c
    using that by (induction commands) auto
  then have "\<forall>c\<in>set commands. length (dy_buffer c) < 2 ^ 16"
    using assms send_buffer_small [of opts]
    by (fastforce simp: serializeGetDynamicInfoCommand_def serialized_Some_iff)
  then show ?thesis using assms
    by (simp add: serializeGetDynamicInfoCommand_def serialized_Some_iff deserializeGetDynamicInfoCommand_def
        read_dynamic_infos_chunks)
qed

text \<open>How a payload of dynamic information may be malformed: too short a header, or a length that overruns it.\<close>

lemma read_dynamic_infos_errors:
  "read_dynamic_infos d = Inl ex \<Longrightarrow> ex \<in> {InvalidArgument, IncorrectPayloadSize}"
proof (induction d rule: read_dynamic_infos.induct)
  case (1 d)
  show ?case
  proof (cases "get_dynamic_info d")
    case (Inl a)
    then have "a \<in> {InvalidArgument, IncorrectPayloadSize}"
      by (auto simp: get_dynamic_info_def obind_def split: sum.splits option.splits if_splits)
    with Inl 1(2) show ?thesis by (subst (asm) read_dynamic_infos.simps) (auto split: if_splits)
  next
    case (Inr p)
    then obtain c d' where p: "p = (c, d')" by (cases p)
    with 1(2) Inr have "remaining d \<noteq> 0" "read_dynamic_infos d' = Inl ex"
      by (subst (asm) read_dynamic_infos.simps, auto simp: obind_def split: if_splits sum.splits)+
    with 1(1) Inr p show ?thesis by blast
  qed
qed

end
