(* ===== verification/ControlValues.thy ===== *)
theory ControlValues
  imports AemVariablePayloads
begin

text \<open>
  The values of a control (src/protocol/protocolAemControlValuesPayloads.hpp,
  src/entity/entityModelControlValues.cpp and the dispatch tables of src/protocol/protocolAemPayloads.cpp):
  a value type says how they are laid out, in a descriptor (static and current values) and in the commands
  (current values only).

  A number of \<^verbatim>\<open>n\<close> bytes, integer or floating, is the word of its bytes: nothing here computes with it.
\<close>

section \<open>Value types\<close>

datatype value_layout = Linear nat | Selector nat | Array nat | Utf8

text \<open>
  The dispatch tables: the value types 0 to 31, with the size of their numbers (that of a localized string
  reference for the selector of strings).  The others are not supported.
\<close>

definition integer_sizes :: "nat list" where
  "integer_sizes = [1, 1, 2, 2, 4, 4, 8, 8]"

definition number_sizes :: "nat list" where
  "number_sizes = integer_sizes @ [4, 8]"

definition control_layouts :: "value_layout list" where
  "control_layouts = map Linear number_sizes @ map Selector (number_sizes @ [2]) @ map Array number_sizes @ [Utf8]"

definition value_layout :: "16 word \<Rightarrow> value_layout option" where
  "value_layout valueType =
     (if unat valueType < length control_layouts then Some (control_layouts ! unat valueType) else None)"

definition ControlValueType_getType :: "16 word \<Rightarrow> 16 word" where
  "ControlValueType_getType v = v AND 0x3FFF"

type_synonym number = "64 word"

record linear_static =
  ls_minimum :: number
  ls_maximum :: number
  ls_step :: number
  ls_default :: number
  ls_unit :: "16 word"
  ls_localizedName :: "16 word"

datatype static_values =
    LinearStatic "linear_static list"
  | SelectorStatic number "number list" "16 word"
  | ArrayStatic linear_static
  | Utf8Static

datatype dynamic_values =
    LinearDynamic "number list"
  | SelectorDynamic number
  | ArrayDynamic "number list"
  | Utf8Dynamic "byte list"

section \<open>Unpacking\<close>

definition get_linear :: "nat \<Rightarrow> deserializer \<Rightarrow> ((linear_static \<times> number) \<times> deserializer) option" where
  "get_linear n d = do {
     (minimum, d) \<leftarrow> get_word n d;
     (maximum, d) \<leftarrow> get_word n d;
     (step, d) \<leftarrow> get_word n d;
     (defaultValue, d) \<leftarrow> get_word n d;
     (currentValue, d) \<leftarrow> get_word n d;
     (unit, d) \<leftarrow> get16 d;
     (localizedName, d) \<leftarrow> get16 d;
     Some ((\<lparr>ls_minimum = minimum, ls_maximum = maximum, ls_step = step, ls_default = defaultValue,
             ls_unit = unit, ls_localizedName = localizedName\<rparr>, currentValue), d)
   }"

definition get_array_static :: "nat \<Rightarrow> deserializer \<Rightarrow> (linear_static \<times> deserializer) option" where
  "get_array_static n d = do {
     (minimum, d) \<leftarrow> get_word n d;
     (maximum, d) \<leftarrow> get_word n d;
     (step, d) \<leftarrow> get_word n d;
     (defaultValue, d) \<leftarrow> get_word n d;
     (unit, d) \<leftarrow> get16 d;
     (localizedName, d) \<leftarrow> get16 d;
     Some (\<lparr>ls_minimum = minimum, ls_maximum = maximum, ls_step = step, ls_default = defaultValue,
            ls_unit = unit, ls_localizedName = localizedName\<rparr>, d)
   }"

text \<open>
  A UTF-8 value is an array of 406 bytes.  The reader takes what remains, refuses 406 bytes or more, and
  makes sure the last byte read is null.
\<close>

definition Utf8_MaxLength :: nat where
  "Utf8_MaxLength = 406"

definition get_utf8 :: "16 word \<Rightarrow> deserializer \<Rightarrow> (dynamic_values \<times> deserializer) option" where
  "get_utf8 numberOfValues d =
     (if numberOfValues \<noteq> 1 then None
      else let len = remaining d in
        if len = 0 then None
        else if len \<ge> Utf8_MaxLength then None
        else do {
          (bs, d) \<leftarrow> unpackBuffer len d;
          let value = bs @ replicate (Utf8_MaxLength - len) 0;
          Some (Utf8Dynamic (if value ! (len - 1) \<noteq> 0 then value[len - 1 := 0] else value), d)
        })"

fun unpackFullControlValues ::
  "value_layout \<Rightarrow> 16 word \<Rightarrow> deserializer \<Rightarrow> ((static_values \<times> dynamic_values) \<times> deserializer) option"
where
  "unpackFullControlValues (Linear n) numberOfValues d = do {
     (vs, d) \<leftarrow> get_many (get_linear n) (unat numberOfValues) d;
     Some ((LinearStatic (map fst vs), LinearDynamic (map snd vs)), d)
   }"
| "unpackFullControlValues (Selector n) numberOfValues d = do {
     (currentValue, d) \<leftarrow> get_word n d;
     (defaultValue, d) \<leftarrow> get_word n d;
     (options, d) \<leftarrow> get_many (get_word n) (unat numberOfValues) d;
     (unit, d) \<leftarrow> get16 d;
     Some ((SelectorStatic defaultValue options unit, SelectorDynamic currentValue), d)
   }"
| "unpackFullControlValues (Array n) numberOfValues d = do {
     (valueStatic, d) \<leftarrow> get_array_static n d;
     (currentValues, d) \<leftarrow> get_many (get_word n) (unat numberOfValues) d;
     Some ((ArrayStatic valueStatic, ArrayDynamic currentValues), d)
   }"
| "unpackFullControlValues Utf8 numberOfValues d =
     map_option (\<lambda>(v, d). ((Utf8Static, v), d)) (get_utf8 numberOfValues d)"

fun unpackDynamic :: "value_layout \<Rightarrow> 16 word \<Rightarrow> deserializer \<Rightarrow> (dynamic_values \<times> deserializer) option" where
  "unpackDynamic (Linear n) numberOfValues d =
     map_option (\<lambda>(vs, d). (LinearDynamic vs, d)) (get_many (get_word n) (unat numberOfValues) d)"
| "unpackDynamic (Selector n) numberOfValues d =
     map_option (\<lambda>(v, d). (SelectorDynamic v, d)) (get_word n d)"
| "unpackDynamic (Array n) numberOfValues d =
     map_option (\<lambda>(vs, d). (ArrayDynamic vs, d)) (get_many (get_word n) (unat numberOfValues) d)"
| "unpackDynamic Utf8 numberOfValues d = get_utf8 numberOfValues d"

text \<open>
  \<^verbatim>\<open>unpackDynamicControlValues\<close>: no values when the unpacking fails (None), an empty \<^verbatim>\<open>ControlValues\<close>
  (Some None) when the type is not supported.
\<close>

definition unpackDynamicControlValues :: "byte list \<Rightarrow> 16 word \<Rightarrow> 16 word \<Rightarrow> dynamic_values option option" where
  "unpackDynamicControlValues packedControlValues valueType numberOfValues =
     (case value_layout valueType of
        None \<Rightarrow> Some None
      | Some l \<Rightarrow> map_option (\<lambda>(v, d). Some v) (unpackDynamic l numberOfValues (deser_new packedControlValues)))"

section \<open>Packing\<close>

text \<open>
  The text up to its first null, or the whole array with its last byte made null.  The number of bytes is
  known before any is written.
\<close>

definition utf8_packed :: "byte list \<Rightarrow> byte list" where
  "utf8_packed value =
     (let len = min (length (takeWhile (\<lambda>c. c \<noteq> 0) value) + 1) (length value);
          value = (if len = length value \<and> value ! (len - 1) \<noteq> 0 then value[len - 1 := 0] else value)
      in take len value)"

text \<open>
  \<^verbatim>\<open>ControlValues\<close>: nothing (not valid), or values with the type of the class they are of.  \<^verbatim>\<open>getValues\<close>
  throws (None) for static values and for those of another class; an object of the code cannot hold values of
  another class than its type says.
\<close>

datatype control_values =
    NoValues
  | StaticValues "16 word" static_values
  | DynamicValues "16 word" dynamic_values

fun countDynamicValues :: "dynamic_values \<Rightarrow> 16 word" where
  "countDynamicValues (LinearDynamic vs) = of_nat (length vs)"
| "countDynamicValues (SelectorDynamic v) = 1"
| "countDynamicValues (ArrayDynamic vs) = of_nat (length vs)"
| "countDynamicValues (Utf8Dynamic value) = 1"

fun countStaticValues :: "static_values \<Rightarrow> 16 word" where
  "countStaticValues (LinearStatic vs) = of_nat (length vs)"
| "countStaticValues _ = 1"

fun ControlValues_size :: "control_values \<Rightarrow> 16 word" where
  "ControlValues_size NoValues = 0"
| "ControlValues_size (StaticValues t v) = countStaticValues v"
| "ControlValues_size (DynamicValues t v) = countDynamicValues v"

fun ControlValues_getType :: "control_values \<Rightarrow> 16 word" where
  "ControlValues_getType NoValues = 0"
| "ControlValues_getType (StaticValues t v) = t"
| "ControlValues_getType (DynamicValues t v) = t"

fun packDynamicControlValues :: "value_layout \<Rightarrow> control_values \<Rightarrow> byte list list option" where
  "packDynamicControlValues (Linear n) (DynamicValues t (LinearDynamic vs)) = Some (map (be_bytes n) vs)"
| "packDynamicControlValues (Selector n) (DynamicValues t (SelectorDynamic v)) = Some [be_bytes n v]"
| "packDynamicControlValues (Array n) (DynamicValues t (ArrayDynamic vs)) = Some (map (be_bytes n) vs)"
| "packDynamicControlValues Utf8 (DynamicValues t (Utf8Dynamic value)) = Some [utf8_packed value]"
| "packDynamicControlValues _ _ = None"

text \<open>SET_CONTROL.  A type with no entry in the dispatch table throws.\<close>

definition serializeSetControlCommand ::
  "build_options \<Rightarrow> descriptor_type \<Rightarrow> descriptor_index \<Rightarrow> control_values \<Rightarrow> byte list outcome"
where
  "serializeSetControlCommand opts descriptorType descriptorIndex controlValues =
     (if ControlValues_size controlValues = 0
      then of_buffer (serialized (Aem_MaximumSendPayloadBufferLength opts) [u16 descriptorType, u16 descriptorIndex])
      else case value_layout (ControlValues_getType controlValues) of
             None \<Rightarrow> Inl UnsupportedValue
           | Some l \<Rightarrow> of_buffer (do {
               chunks \<leftarrow> packDynamicControlValues l controlValues;
               serialized (Aem_MaximumSendPayloadBufferLength opts) ([u16 descriptorType, u16 descriptorIndex] @ chunks)
             }))"

definition serializeSetControlResponse ::
  "build_options \<Rightarrow> descriptor_type \<Rightarrow> descriptor_index \<Rightarrow> control_values \<Rightarrow> byte list outcome"
where
  "serializeSetControlResponse = serializeSetControlCommand"

definition serializeGetControlResponse ::
  "build_options \<Rightarrow> descriptor_type \<Rightarrow> descriptor_index \<Rightarrow> control_values \<Rightarrow> byte list outcome"
where
  "serializeGetControlResponse = serializeSetControlCommand"

section \<open>Lemmas\<close>

text \<open>A number fits in \<^verbatim>\<open>n\<close> bytes when it is the word of its low bytes.\<close>

abbreviation fits_bytes :: "nat \<Rightarrow> number \<Rightarrow> bool" where
  "fits_bytes n v \<equiv> take_bit (8 * n) v = v"

lemma get_number_bytes:
  "fits_bytes n v \<Longrightarrow> get_word n (Deser u (be_bytes n v @ r)) = Some (v, Deser (u @ be_bytes n v) r)"
  by (simp add: get_word_def be_word_def be_bytes_def le_word_le_bytes)

lemma get_numbers_bytes:
  "\<forall>v\<in>set vs. fits_bytes n v \<Longrightarrow>
     get_many (get_word n) (length vs) (Deser u (concat (map (be_bytes n) vs) @ r)) =
       Some (vs, Deser (u @ concat (map (be_bytes n) vs)) r)"
  by (induction vs arbitrary: u) (simp_all add: get_number_bytes)

definition short_list :: "'a list \<Rightarrow> bool" where
  "short_list vs \<longleftrightarrow> length vs < 2 ^ 16"

lemma unat_count: "short_list vs \<Longrightarrow> unat (of_nat (length vs) :: 16 word) = length vs"
  by (simp add: short_list_def unsigned_of_nat take_bit_nat_eq_self)

text \<open>
  The values of a type: numbers of their size, no more of them than the count holds, and for a text the array of
  406 bytes that the code holds it in, whatever its bytes.
\<close>

definition utf8_of :: "byte list \<Rightarrow> byte list" where
  "utf8_of t = t @ replicate (Utf8_MaxLength - length t) 0"

fun control_ok :: "value_layout \<Rightarrow> dynamic_values \<Rightarrow> bool" where
  "control_ok (Linear n) (LinearDynamic vs) \<longleftrightarrow> short_list vs \<and> (\<forall>v\<in>set vs. fits_bytes n v)"
| "control_ok (Selector n) (SelectorDynamic v) \<longleftrightarrow> fits_bytes n v"
| "control_ok (Array n) (ArrayDynamic vs) \<longleftrightarrow> short_list vs \<and> (\<forall>v\<in>set vs. fits_bytes n v)"
| "control_ok Utf8 (Utf8Dynamic value) \<longleftrightarrow> length value = Utf8_MaxLength"
| "control_ok _ _ \<longleftrightarrow> False"

text \<open>
  What comes back: the numbers, and of a text what is before its first null, with nulls after it; a text of 405 bytes
  or more, which is sent in 406 bytes, does not come back.
\<close>

definition text_of :: "byte list \<Rightarrow> byte list" where
  "text_of value = takeWhile (\<lambda>c. c \<noteq> 0) value"

fun read_back :: "dynamic_values \<Rightarrow> dynamic_values option" where
  "read_back (Utf8Dynamic value) =
     (if length (text_of value) \<le> 404 then Some (Utf8Dynamic (utf8_of (text_of value))) else None)"
| "read_back v = Some v"

lemma utf8_packed_text:
  assumes "length value = 406" "length (text_of value) \<le> 405"
  shows "utf8_packed value = text_of value @ [0]"
proof -
  let ?n = "length (text_of value)"
  have null: "value ! ?n = 0"
    using nth_length_takeWhile [of "\<lambda>c. c \<noteq> 0" "value"] assms by (simp add: text_of_def)
  have "take ?n value = text_of value" by (simp add: text_of_def takeWhile_eq_take [symmetric])
  hence "take (Suc ?n) value = text_of value @ [0]"
    using assms null by (simp add: take_Suc_conv_app_nth)
  moreover have "min (?n + 1) (length value) = Suc ?n" using assms by simp
  moreover have "Suc ?n = length value \<Longrightarrow> value ! (length value - Suc 0) = 0"
    using null by (metis diff_Suc_1 One_nat_def)
  ultimately show ?thesis using null by (auto simp: utf8_packed_def text_of_def [symmetric] Let_def)
qed

lemma utf8_packed_long:
  assumes "length value = 406" "404 < length (text_of value)"
  shows "length (utf8_packed value) = 406"
  using assms by (simp add: utf8_packed_def text_of_def [symmetric] Let_def)

lemma get_utf8_text:
  assumes "0 \<notin> set t" and "length t \<le> 404"
  shows "get_utf8 1 (Deser u (t @ [0])) = Some (Utf8Dynamic (utf8_of t), Deser (u @ t @ [0]) [])"
proof -
  have "406 - length t = Suc (405 - length t)" using assms by simp
  then show ?thesis using assms
    by (simp add: get_utf8_def Utf8_MaxLength_def utf8_of_def Let_def nth_append)
qed

text \<open>What the packer writes, the unpacker reads.\<close>

lemma unpack_packed:
  assumes "control_ok l v" and "packDynamicControlValues l (DynamicValues t v) = Some chunks"
  shows "map_option fst (unpackDynamic l (countDynamicValues v) (Deser u (concat chunks))) = read_back v"
proof (cases l)
  case (Linear n)
  with assms obtain vs where "v = LinearDynamic vs" by (cases v) auto
  with Linear assms get_numbers_bytes [of vs n u "[]"] show ?thesis by (simp add: unat_count)
next
  case (Selector n)
  with assms obtain x where "v = SelectorDynamic x" by (cases v) auto
  with Selector assms get_number_bytes [of n x u "[]"] show ?thesis by auto
next
  case (Array n)
  with assms obtain vs where "v = ArrayDynamic vs" by (cases v) auto
  with Array assms get_numbers_bytes [of vs n u "[]"] show ?thesis by (simp add: unat_count)
next
  case Utf8
  with assms obtain x where v: "v = Utf8Dynamic x" by (cases v) auto
  have len: "length x = 406" using assms(1) Utf8 v by (simp add: Utf8_MaxLength_def)
  have chunks: "concat chunks = utf8_packed x" using assms(2) Utf8 v by auto
  show ?thesis
  proof (cases "length (text_of x) \<le> 404")
    case True
    have "0 \<notin> set (text_of x)" by (auto simp: text_of_def dest: set_takeWhileD)
    with True len show ?thesis
      using get_utf8_text [of "text_of x" u] utf8_packed_text [of x] by (simp add: Utf8 v chunks)
  next
    case False
    with len utf8_packed_long [of x] show ?thesis by (simp add: Utf8 v chunks get_utf8_def Utf8_MaxLength_def)
  qed
qed

lemma map_option_fst_Some: "map_option (\<lambda>(v, d). Some v) x = map_option Some (map_option fst x)"
  by (cases x) auto

lemma read_remaining_all: "read_remaining (Deser u r) = Some (r, Deser (u @ r) [])"
  by (simp add: read_remaining_def)

lemma set_control_read:
  assumes "serialized n ([u16 descriptorType, u16 descriptorIndex] @ chunks) = Some bs"
  shows "deserializeSetControlCommand bs = Inr (descriptorType, descriptorIndex, concat chunks)"
  using assms
  by (auto simp: serialized_Some_iff deserializeSetControlCommand_def unpack_payload_def read_remaining_all)

lemma no_values_packed:
  assumes "control_ok l v" and "countDynamicValues v = 0"
  shows "packDynamicControlValues l (DynamicValues t v) = Some []"
proof -
  have "vs = []" if "short_list vs" "(of_nat (length vs) :: 16 word) = 0" for vs :: "number list"
    using unat_count [OF that(1)] that(2) by simp
  with assms show ?thesis by (cases l; cases v) auto
qed

section \<open>Properties\<close>

text \<open>
  C39.  The values sent in a SET_CONTROL, of any supported type, are the values that the reader of the payload gets
  and unpacks, when they are numbers of their size or a text of at most 404 bytes.  A longer text is sent (one of 406
  bytes with its last byte made null), but the reader refuses it and gets no values.
\<close>

theorem control_values_roundtrip:
  assumes "value_layout t = Some l" and "control_ok l v"
    and "serializeSetControlCommand opts descriptorType descriptorIndex (DynamicValues t v) = Inr bs"
  shows "\<exists>packed. deserializeSetControlCommand bs = Inr (descriptorType, descriptorIndex, packed)
    \<and> unpackDynamicControlValues packed t (countDynamicValues v) = map_option Some (read_back v)"
proof -
  obtain chunks where chunks: "packDynamicControlValues l (DynamicValues t v) = Some chunks"
    and bs: "serialized (Aem_MaximumSendPayloadBufferLength opts) ([u16 descriptorType, u16 descriptorIndex] @ chunks) = Some bs"
  proof (cases "countDynamicValues v = 0")
    case True
    with that [of "[]"] assms no_values_packed [OF assms(2) True] show ?thesis
      by (simp add: serializeSetControlCommand_def)
  next
    case False
    with that assms show ?thesis
      by (auto simp: serializeSetControlCommand_def bind_eq_Some_iff)
  qed
  have "map_option fst (unpackDynamic l (countDynamicValues v) (Deser [] (concat chunks))) = read_back v"
    by (rule unpack_packed [OF assms(2) chunks])
  then have "unpackDynamicControlValues (concat chunks) t (countDynamicValues v) = map_option Some (read_back v)"
    using assms(1) by (simp add: unpackDynamicControlValues_def map_option_fst_Some)
  with set_control_read [OF bs] show ?thesis by blast
qed

definition volume_values :: dynamic_values where
  "volume_values = LinearDynamic [0xFFEC, 12, 0]"

definition volume_payload :: "byte list" where
  "volume_payload = [0x00, 0x1a, 0x00, 0x02, 0xFF, 0xEC, 0x00, 0x0C, 0x00, 0x00]"

theorem control_values_roundtrip_witness:
  "serializeSetControlCommand default_build 0x1a 2 (DynamicValues 2 volume_values) = Inr volume_payload
   \<and> (\<exists>packed. deserializeSetControlCommand volume_payload = Inr (0x1a, 2, packed)
      \<and> unpackDynamicControlValues packed 2 3 = Some (Some volume_values))"
proof -
  have layout: "value_layout 2 = Some (Linear 2)"
    by (simp add: value_layout_def control_layouts_def number_sizes_def integer_sizes_def)
  have ok: "control_ok (Linear 2) volume_values"
    by (simp add: volume_values_def short_list_def)
  have ser: "serializeSetControlCommand default_build 0x1a 2 (DynamicValues 2 volume_values) = Inr volume_payload"
    by code_simp
  from control_values_roundtrip [OF layout ok ser] ser show ?thesis by (simp add: volume_values_def)
qed

end
