(* ===== verification/DescriptorPayloads.thy ===== *)
theory DescriptorPayloads
  imports ControlValues
begin

text \<open>
  The descriptors of READ_DESCRIPTOR (src/protocol/protocolAemPayloads.cpp, with their types of
  include/la/avdecc/internals/entityModel.hpp): the fields every response has, then those of the descriptor,
  which are read for a success only.

  A \<^verbatim>\<open>std::set\<close> is a set, an unordered map the list of its entries.  Reading beyond the payload, or moving
  there, throws.
\<close>

section \<open>What every descriptor has\<close>

abbreviation (input) AecpAemReadCommonDescriptorResponsePayloadSize :: nat where
  "AecpAemReadCommonDescriptorResponsePayloadSize \<equiv> 8"

definition serializeReadDescriptorCommonResponse ::
  "build_options \<Rightarrow> configuration_index \<Rightarrow> descriptor_type \<Rightarrow> descriptor_index \<Rightarrow> serializer option"
where
  "serializeReadDescriptorCommonResponse opts configurationIndex descriptorType descriptorIndex =
     pack [u16 configurationIndex, u16 0, u16 descriptorType, u16 descriptorIndex]
       (serializer_new (Aem_MaximumSendPayloadBufferLength opts))"

definition deserializeReadDescriptorCommonResponse ::
  "command_status \<Rightarrow> byte list \<Rightarrow> (nat \<times> configuration_index \<times> descriptor_type \<times> descriptor_index) outcome"
where
  "deserializeReadDescriptorCommonResponse status payload =
     obind (checkResponsePayload payload status AecpAemReadDescriptorCommandPayloadSize
              AecpAemReadCommonDescriptorResponsePayloadSize)
       (\<lambda>_. of_buffer (do {
          (configurationIndex, d) \<leftarrow> get16 (deser_new payload);
          (reserved, d) \<leftarrow> get16 d;
          (descriptorType, d) \<leftarrow> get16 d;
          (descriptorIndex, d) \<leftarrow> get16 d;
          Some (usedBytes d, configurationIndex, descriptorType, descriptorIndex)
        }))"

text \<open>
  How a descriptor is read: the initial one unless the status is a success; then the size is checked and the
  reading starts after the common fields.
\<close>

definition read_descriptor ::
  "nat \<Rightarrow> 'a \<Rightarrow> byte list \<Rightarrow> nat \<Rightarrow> 8 word \<Rightarrow> (deserializer \<Rightarrow> 'a outcome) \<Rightarrow> 'a outcome"
where
  "read_descriptor minSize initial payload commonSize status body =
     (if status \<noteq> 0 then Inr initial
      else if length payload < minSize then Inl IncorrectPayloadSize
      else obind (of_buffer (setPosition commonSize (deser_new payload))) body)"

definition PayloadBufferOffset :: "16 word" where
  "PayloadBufferOffset = 4"

text \<open>
  A list at an offset, which the payload counts from elsewhere: the 16-bit sum wraps around.  The list has to
  start after what was read.
\<close>

definition read_list_at ::
  "(deserializer \<Rightarrow> ('a \<times> deserializer) option) \<Rightarrow> nat \<Rightarrow> 16 word \<Rightarrow> 16 word \<Rightarrow> deserializer \<Rightarrow> 'a list outcome"
where
  "read_list_at dec sz count offset d =
     (if remaining d < sz * unat count then Inl IncorrectPayloadSize
      else let offset = offset + PayloadBufferOffset in
        if unat offset < usedBytes d then Inl IncorrectPayloadSize
        else of_buffer (do {
          d \<leftarrow> setPosition (unat offset) d;
          (xs, d) \<leftarrow> get_many dec (unat count) d;
          Some xs
        }))"

section \<open>Descriptors of fixed size\<close>

abbreviation (input) AecpAemReadEntityDescriptorResponsePayloadSize :: nat where
  "AecpAemReadEntityDescriptorResponsePayloadSize \<equiv> 316"

record entity_descriptor =
  ed_entityID :: "64 word"
  ed_entityModelID :: "64 word"
  ed_entityCapabilities :: "32 word"
  ed_talkerStreamSources :: "16 word"
  ed_talkerCapabilities :: "16 word"
  ed_listenerStreamSinks :: "16 word"
  ed_listenerCapabilities :: "16 word"
  ed_controllerCapabilities :: "32 word"
  ed_availableIndex :: "32 word"
  ed_associationID :: "64 word"
  ed_entityName :: "fixed_string"
  ed_vendorNameString :: "16 word"
  ed_modelNameString :: "16 word"
  ed_firmwareVersion :: "fixed_string"
  ed_groupName :: "fixed_string"
  ed_serialNumber :: "fixed_string"
  ed_configurationsCount :: "16 word"
  ed_currentConfiguration :: "16 word"

definition EntityDescriptor_new :: entity_descriptor where
  "EntityDescriptor_new =
    \<lparr>ed_entityID = uid_uninitialized, ed_entityModelID = uid_uninitialized, ed_entityCapabilities = 0,
     ed_talkerStreamSources = 0, ed_talkerCapabilities = 0, ed_listenerStreamSinks = 0,
     ed_listenerCapabilities = 0, ed_controllerCapabilities = 0, ed_availableIndex = 0,
     ed_associationID = uid_uninitialized, ed_entityName = 0, ed_vendorNameString = 0xFFFF,
     ed_modelNameString = 0xFFFF, ed_firmwareVersion = 0, ed_groupName = 0, ed_serialNumber = 0,
     ed_configurationsCount = 0, ed_currentConfiguration = 0\<rparr>"

definition readEntityDescriptor :: "deserializer \<Rightarrow> entity_descriptor option" where
  "readEntityDescriptor d = do {
       (entityID, d) \<leftarrow> get64 d;
       (entityModelID, d) \<leftarrow> get64 d;
       (entityCapabilities, d) \<leftarrow> get32 d;
       (talkerStreamSources, d) \<leftarrow> get16 d;
       (talkerCapabilities, d) \<leftarrow> get16 d;
       (listenerStreamSinks, d) \<leftarrow> get16 d;
       (listenerCapabilities, d) \<leftarrow> get16 d;
       (controllerCapabilities, d) \<leftarrow> get32 d;
       (availableIndex, d) \<leftarrow> get32 d;
       (associationID, d) \<leftarrow> get64 d;
       (entityName, d) \<leftarrow> get_fixed d;
       (vendorNameString, d) \<leftarrow> get16 d;
       (modelNameString, d) \<leftarrow> get16 d;
       (firmwareVersion, d) \<leftarrow> get_fixed d;
       (groupName, d) \<leftarrow> get_fixed d;
       (serialNumber, d) \<leftarrow> get_fixed d;
       (configurationsCount, d) \<leftarrow> get16 d;
       (currentConfiguration, d) \<leftarrow> get16 d;
       Some \<lparr>ed_entityID = entityID, ed_entityModelID = entityModelID,
             ed_entityCapabilities = entityCapabilities, ed_talkerStreamSources = talkerStreamSources,
             ed_talkerCapabilities = talkerCapabilities, ed_listenerStreamSinks = listenerStreamSinks,
             ed_listenerCapabilities = listenerCapabilities,
             ed_controllerCapabilities = controllerCapabilities, ed_availableIndex = availableIndex,
             ed_associationID = associationID, ed_entityName = entityName,
             ed_vendorNameString = vendorNameString, ed_modelNameString = modelNameString,
             ed_firmwareVersion = firmwareVersion, ed_groupName = groupName, ed_serialNumber = serialNumber,
             ed_configurationsCount = configurationsCount, ed_currentConfiguration = currentConfiguration\<rparr>
     }"

definition deserializeReadEntityDescriptorResponse :: "byte list \<Rightarrow> nat \<Rightarrow> 8 word \<Rightarrow> entity_descriptor outcome" where
  "deserializeReadEntityDescriptorResponse payload commonSize status =
     read_descriptor AecpAemReadEntityDescriptorResponsePayloadSize EntityDescriptor_new payload commonSize status
       (\<lambda>d. of_buffer (readEntityDescriptor d))"

abbreviation (input) AecpAemReadJackDescriptorResponsePayloadSize :: nat where
  "AecpAemReadJackDescriptorResponsePayloadSize \<equiv> 82"

record jack_descriptor =
  jk_objectName :: "fixed_string"
  jk_localizedDescription :: "16 word"
  jk_jackFlags :: "16 word"
  jk_jackType :: "16 word"
  jk_numberOfControls :: "16 word"
  jk_baseControl :: "16 word"

definition JackDescriptor_new :: jack_descriptor where
  "JackDescriptor_new =
    \<lparr>jk_objectName = 0, jk_localizedDescription = 0xFFFF, jk_jackFlags = 0, jk_jackType = 0,
     jk_numberOfControls = 0, jk_baseControl = 0\<rparr>"

definition readJackDescriptor :: "deserializer \<Rightarrow> jack_descriptor option" where
  "readJackDescriptor d = do {
       (objectName, d) \<leftarrow> get_fixed d;
       (localizedDescription, d) \<leftarrow> get16 d;
       (jackFlags, d) \<leftarrow> get16 d;
       (jackType, d) \<leftarrow> get16 d;
       (numberOfControls, d) \<leftarrow> get16 d;
       (baseControl, d) \<leftarrow> get16 d;
       Some \<lparr>jk_objectName = objectName, jk_localizedDescription = localizedDescription,
             jk_jackFlags = jackFlags, jk_jackType = jackType, jk_numberOfControls = numberOfControls,
             jk_baseControl = baseControl\<rparr>
     }"

definition deserializeReadJackDescriptorResponse :: "byte list \<Rightarrow> nat \<Rightarrow> 8 word \<Rightarrow> jack_descriptor outcome" where
  "deserializeReadJackDescriptorResponse payload commonSize status =
     read_descriptor AecpAemReadJackDescriptorResponsePayloadSize JackDescriptor_new payload commonSize status
       (\<lambda>d. of_buffer (readJackDescriptor d))"

abbreviation (input) AecpAemReadAvbInterfaceDescriptorResponsePayloadSize :: nat where
  "AecpAemReadAvbInterfaceDescriptorResponsePayloadSize \<equiv> 102"

record avb_interface_descriptor =
  ai_objectName :: "fixed_string"
  ai_localizedDescription :: "16 word"
  ai_macAddress :: "mac_address"
  ai_interfaceFlags :: "16 word"
  ai_clockIdentity :: "64 word"
  ai_priority1 :: "8 word"
  ai_clockClass :: "8 word"
  ai_offsetScaledLogVariance :: "16 word"
  ai_clockAccuracy :: "8 word"
  ai_priority2 :: "8 word"
  ai_domainNumber :: "8 word"
  ai_logSyncInterval :: "8 word"
  ai_logAnnounceInterval :: "8 word"
  ai_logPDelayInterval :: "8 word"
  ai_portNumber :: "16 word"

definition AvbInterfaceDescriptor_new :: avb_interface_descriptor where
  "AvbInterfaceDescriptor_new =
    \<lparr>ai_objectName = 0, ai_localizedDescription = 0xFFFF, ai_macAddress = 0, ai_interfaceFlags = 0,
     ai_clockIdentity = uid_uninitialized, ai_priority1 = 255, ai_clockClass = 255,
     ai_offsetScaledLogVariance = 0, ai_clockAccuracy = 255, ai_priority2 = 255, ai_domainNumber = 0,
     ai_logSyncInterval = 0, ai_logAnnounceInterval = 0, ai_logPDelayInterval = 0, ai_portNumber = 0\<rparr>"

definition readAvbInterfaceDescriptor :: "deserializer \<Rightarrow> avb_interface_descriptor option" where
  "readAvbInterfaceDescriptor d = do {
       (objectName, d) \<leftarrow> get_fixed d;
       (localizedDescription, d) \<leftarrow> get16 d;
       (macAddress, d) \<leftarrow> get_mac d;
       (interfaceFlags, d) \<leftarrow> get16 d;
       (clockIdentity, d) \<leftarrow> get64 d;
       (priority1, d) \<leftarrow> get8 d;
       (clockClass, d) \<leftarrow> get8 d;
       (offsetScaledLogVariance, d) \<leftarrow> get16 d;
       (clockAccuracy, d) \<leftarrow> get8 d;
       (priority2, d) \<leftarrow> get8 d;
       (domainNumber, d) \<leftarrow> get8 d;
       (logSyncInterval, d) \<leftarrow> get8 d;
       (logAnnounceInterval, d) \<leftarrow> get8 d;
       (logPDelayInterval, d) \<leftarrow> get8 d;
       (portNumber, d) \<leftarrow> get16 d;
       Some \<lparr>ai_objectName = objectName, ai_localizedDescription = localizedDescription,
             ai_macAddress = macAddress, ai_interfaceFlags = interfaceFlags, ai_clockIdentity = clockIdentity,
             ai_priority1 = priority1, ai_clockClass = clockClass,
             ai_offsetScaledLogVariance = offsetScaledLogVariance, ai_clockAccuracy = clockAccuracy,
             ai_priority2 = priority2, ai_domainNumber = domainNumber, ai_logSyncInterval = logSyncInterval,
             ai_logAnnounceInterval = logAnnounceInterval, ai_logPDelayInterval = logPDelayInterval,
             ai_portNumber = portNumber\<rparr>
     }"

definition deserializeReadAvbInterfaceDescriptorResponse :: "byte list \<Rightarrow> nat \<Rightarrow> 8 word \<Rightarrow> avb_interface_descriptor outcome" where
  "deserializeReadAvbInterfaceDescriptorResponse payload commonSize status =
     read_descriptor AecpAemReadAvbInterfaceDescriptorResponsePayloadSize AvbInterfaceDescriptor_new payload commonSize status
       (\<lambda>d. of_buffer (readAvbInterfaceDescriptor d))"

abbreviation (input) AecpAemReadClockSourceDescriptorResponsePayloadSize :: nat where
  "AecpAemReadClockSourceDescriptorResponsePayloadSize \<equiv> 90"

record clock_source_descriptor =
  cs_objectName :: "fixed_string"
  cs_localizedDescription :: "16 word"
  cs_clockSourceFlags :: "16 word"
  cs_clockSourceType :: "16 word"
  cs_clockSourceIdentifier :: "64 word"
  cs_clockSourceLocationType :: "16 word"
  cs_clockSourceLocationIndex :: "16 word"

definition ClockSourceDescriptor_new :: clock_source_descriptor where
  "ClockSourceDescriptor_new =
    \<lparr>cs_objectName = 0, cs_localizedDescription = 0xFFFF, cs_clockSourceFlags = 0, cs_clockSourceType = 0,
     cs_clockSourceIdentifier = uid_uninitialized, cs_clockSourceLocationType = 65535,
     cs_clockSourceLocationIndex = 0\<rparr>"

definition readClockSourceDescriptor :: "deserializer \<Rightarrow> clock_source_descriptor option" where
  "readClockSourceDescriptor d = do {
       (objectName, d) \<leftarrow> get_fixed d;
       (localizedDescription, d) \<leftarrow> get16 d;
       (clockSourceFlags, d) \<leftarrow> get16 d;
       (clockSourceType, d) \<leftarrow> get16 d;
       (clockSourceIdentifier, d) \<leftarrow> get64 d;
       (clockSourceLocationType, d) \<leftarrow> get16 d;
       (clockSourceLocationIndex, d) \<leftarrow> get16 d;
       Some \<lparr>cs_objectName = objectName, cs_localizedDescription = localizedDescription,
             cs_clockSourceFlags = clockSourceFlags, cs_clockSourceType = clockSourceType,
             cs_clockSourceIdentifier = clockSourceIdentifier,
             cs_clockSourceLocationType = clockSourceLocationType,
             cs_clockSourceLocationIndex = clockSourceLocationIndex\<rparr>
     }"

definition deserializeReadClockSourceDescriptorResponse :: "byte list \<Rightarrow> nat \<Rightarrow> 8 word \<Rightarrow> clock_source_descriptor outcome" where
  "deserializeReadClockSourceDescriptorResponse payload commonSize status =
     read_descriptor AecpAemReadClockSourceDescriptorResponsePayloadSize ClockSourceDescriptor_new payload commonSize status
       (\<lambda>d. of_buffer (readClockSourceDescriptor d))"

abbreviation (input) AecpAemReadMemoryObjectDescriptorResponsePayloadSize :: nat where
  "AecpAemReadMemoryObjectDescriptorResponsePayloadSize \<equiv> 104"

record memory_object_descriptor =
  mo_objectName :: "fixed_string"
  mo_localizedDescription :: "16 word"
  mo_memoryObjectType :: "16 word"
  mo_targetDescriptorType :: "16 word"
  mo_targetDescriptorIndex :: "16 word"
  mo_startAddress :: "64 word"
  mo_maximumLength :: "64 word"
  mo_length :: "64 word"

definition MemoryObjectDescriptor_new :: memory_object_descriptor where
  "MemoryObjectDescriptor_new =
    \<lparr>mo_objectName = 0, mo_localizedDescription = 0xFFFF, mo_memoryObjectType = 0,
     mo_targetDescriptorType = 65535, mo_targetDescriptorIndex = 0, mo_startAddress = 0, mo_maximumLength = 0,
     mo_length = 0\<rparr>"

definition readMemoryObjectDescriptor :: "deserializer \<Rightarrow> memory_object_descriptor option" where
  "readMemoryObjectDescriptor d = do {
       (objectName, d) \<leftarrow> get_fixed d;
       (localizedDescription, d) \<leftarrow> get16 d;
       (memoryObjectType, d) \<leftarrow> get16 d;
       (targetDescriptorType, d) \<leftarrow> get16 d;
       (targetDescriptorIndex, d) \<leftarrow> get16 d;
       (startAddress, d) \<leftarrow> get64 d;
       (maximumLength, d) \<leftarrow> get64 d;
       (length, d) \<leftarrow> get64 d;
       Some \<lparr>mo_objectName = objectName, mo_localizedDescription = localizedDescription,
             mo_memoryObjectType = memoryObjectType, mo_targetDescriptorType = targetDescriptorType,
             mo_targetDescriptorIndex = targetDescriptorIndex, mo_startAddress = startAddress,
             mo_maximumLength = maximumLength, mo_length = length\<rparr>
     }"

definition deserializeReadMemoryObjectDescriptorResponse :: "byte list \<Rightarrow> nat \<Rightarrow> 8 word \<Rightarrow> memory_object_descriptor outcome" where
  "deserializeReadMemoryObjectDescriptorResponse payload commonSize status =
     read_descriptor AecpAemReadMemoryObjectDescriptorResponsePayloadSize MemoryObjectDescriptor_new payload commonSize status
       (\<lambda>d. of_buffer (readMemoryObjectDescriptor d))"

abbreviation (input) AecpAemReadLocaleDescriptorResponsePayloadSize :: nat where
  "AecpAemReadLocaleDescriptorResponsePayloadSize \<equiv> 76"

record locale_descriptor =
  lc_localeID :: "fixed_string"
  lc_numberOfStringDescriptors :: "16 word"
  lc_baseStringDescriptorIndex :: "16 word"

definition LocaleDescriptor_new :: locale_descriptor where
  "LocaleDescriptor_new =
    \<lparr>lc_localeID = 0, lc_numberOfStringDescriptors = 0, lc_baseStringDescriptorIndex = 0\<rparr>"

definition readLocaleDescriptor :: "deserializer \<Rightarrow> locale_descriptor option" where
  "readLocaleDescriptor d = do {
       (localeID, d) \<leftarrow> get_fixed d;
       (numberOfStringDescriptors, d) \<leftarrow> get16 d;
       (baseStringDescriptorIndex, d) \<leftarrow> get16 d;
       Some \<lparr>lc_localeID = localeID, lc_numberOfStringDescriptors = numberOfStringDescriptors,
             lc_baseStringDescriptorIndex = baseStringDescriptorIndex\<rparr>
     }"

definition deserializeReadLocaleDescriptorResponse :: "byte list \<Rightarrow> nat \<Rightarrow> 8 word \<Rightarrow> locale_descriptor outcome" where
  "deserializeReadLocaleDescriptorResponse payload commonSize status =
     read_descriptor AecpAemReadLocaleDescriptorResponsePayloadSize LocaleDescriptor_new payload commonSize status
       (\<lambda>d. of_buffer (readLocaleDescriptor d))"

abbreviation (input) AecpAemReadStreamPortDescriptorResponsePayloadSize :: nat where
  "AecpAemReadStreamPortDescriptorResponsePayloadSize \<equiv> 24"

record stream_port_descriptor =
  sp_clockDomainIndex :: "16 word"
  sp_portFlags :: "16 word"
  sp_numberOfControls :: "16 word"
  sp_baseControl :: "16 word"
  sp_numberOfClusters :: "16 word"
  sp_baseCluster :: "16 word"
  sp_numberOfMaps :: "16 word"
  sp_baseMap :: "16 word"

definition StreamPortDescriptor_new :: stream_port_descriptor where
  "StreamPortDescriptor_new =
    \<lparr>sp_clockDomainIndex = 0, sp_portFlags = 0, sp_numberOfControls = 0, sp_baseControl = 0,
     sp_numberOfClusters = 0, sp_baseCluster = 0, sp_numberOfMaps = 0, sp_baseMap = 0\<rparr>"

definition readStreamPortDescriptor :: "deserializer \<Rightarrow> stream_port_descriptor option" where
  "readStreamPortDescriptor d = do {
       (clockDomainIndex, d) \<leftarrow> get16 d;
       (portFlags, d) \<leftarrow> get16 d;
       (numberOfControls, d) \<leftarrow> get16 d;
       (baseControl, d) \<leftarrow> get16 d;
       (numberOfClusters, d) \<leftarrow> get16 d;
       (baseCluster, d) \<leftarrow> get16 d;
       (numberOfMaps, d) \<leftarrow> get16 d;
       (baseMap, d) \<leftarrow> get16 d;
       Some \<lparr>sp_clockDomainIndex = clockDomainIndex, sp_portFlags = portFlags,
             sp_numberOfControls = numberOfControls, sp_baseControl = baseControl,
             sp_numberOfClusters = numberOfClusters, sp_baseCluster = baseCluster,
             sp_numberOfMaps = numberOfMaps, sp_baseMap = baseMap\<rparr>
     }"

definition deserializeReadStreamPortDescriptorResponse :: "byte list \<Rightarrow> nat \<Rightarrow> 8 word \<Rightarrow> stream_port_descriptor outcome" where
  "deserializeReadStreamPortDescriptorResponse payload commonSize status =
     read_descriptor AecpAemReadStreamPortDescriptorResponsePayloadSize StreamPortDescriptor_new payload commonSize status
       (\<lambda>d. of_buffer (readStreamPortDescriptor d))"

abbreviation (input) AecpAemReadExternalPortDescriptorResponsePayloadSize :: nat where
  "AecpAemReadExternalPortDescriptorResponsePayloadSize \<equiv> 28"

record external_port_descriptor =
  xp_clockDomainIndex :: "16 word"
  xp_portFlags :: "16 word"
  xp_numberOfControls :: "16 word"
  xp_baseControl :: "16 word"
  xp_signalType :: "16 word"
  xp_signalIndex :: "16 word"
  xp_signalOutput :: "16 word"
  xp_blockLatency :: "32 word"
  xp_jackIndex :: "16 word"

definition ExternalPortDescriptor_new :: external_port_descriptor where
  "ExternalPortDescriptor_new =
    \<lparr>xp_clockDomainIndex = 0, xp_portFlags = 0, xp_numberOfControls = 0, xp_baseControl = 0,
     xp_signalType = 65535, xp_signalIndex = 0, xp_signalOutput = 0, xp_blockLatency = 0, xp_jackIndex = 0\<rparr>"

definition readExternalPortDescriptor :: "deserializer \<Rightarrow> external_port_descriptor option" where
  "readExternalPortDescriptor d = do {
       (clockDomainIndex, d) \<leftarrow> get16 d;
       (portFlags, d) \<leftarrow> get16 d;
       (numberOfControls, d) \<leftarrow> get16 d;
       (baseControl, d) \<leftarrow> get16 d;
       (signalType, d) \<leftarrow> get16 d;
       (signalIndex, d) \<leftarrow> get16 d;
       (signalOutput, d) \<leftarrow> get16 d;
       (blockLatency, d) \<leftarrow> get32 d;
       (jackIndex, d) \<leftarrow> get16 d;
       Some \<lparr>xp_clockDomainIndex = clockDomainIndex, xp_portFlags = portFlags,
             xp_numberOfControls = numberOfControls, xp_baseControl = baseControl, xp_signalType = signalType,
             xp_signalIndex = signalIndex, xp_signalOutput = signalOutput, xp_blockLatency = blockLatency,
             xp_jackIndex = jackIndex\<rparr>
     }"

definition deserializeReadExternalPortDescriptorResponse :: "byte list \<Rightarrow> nat \<Rightarrow> 8 word \<Rightarrow> external_port_descriptor outcome" where
  "deserializeReadExternalPortDescriptorResponse payload commonSize status =
     read_descriptor AecpAemReadExternalPortDescriptorResponsePayloadSize ExternalPortDescriptor_new payload commonSize status
       (\<lambda>d. of_buffer (readExternalPortDescriptor d))"

abbreviation (input) AecpAemReadInternalPortDescriptorResponsePayloadSize :: nat where
  "AecpAemReadInternalPortDescriptorResponsePayloadSize \<equiv> 28"

record internal_port_descriptor =
  ip_clockDomainIndex :: "16 word"
  ip_portFlags :: "16 word"
  ip_numberOfControls :: "16 word"
  ip_baseControl :: "16 word"
  ip_signalType :: "16 word"
  ip_signalIndex :: "16 word"
  ip_signalOutput :: "16 word"
  ip_blockLatency :: "32 word"
  ip_internalIndex :: "16 word"

definition InternalPortDescriptor_new :: internal_port_descriptor where
  "InternalPortDescriptor_new =
    \<lparr>ip_clockDomainIndex = 0, ip_portFlags = 0, ip_numberOfControls = 0, ip_baseControl = 0,
     ip_signalType = 65535, ip_signalIndex = 0, ip_signalOutput = 0, ip_blockLatency = 0, ip_internalIndex = 0\<rparr>"

definition readInternalPortDescriptor :: "deserializer \<Rightarrow> internal_port_descriptor option" where
  "readInternalPortDescriptor d = do {
       (clockDomainIndex, d) \<leftarrow> get16 d;
       (portFlags, d) \<leftarrow> get16 d;
       (numberOfControls, d) \<leftarrow> get16 d;
       (baseControl, d) \<leftarrow> get16 d;
       (signalType, d) \<leftarrow> get16 d;
       (signalIndex, d) \<leftarrow> get16 d;
       (signalOutput, d) \<leftarrow> get16 d;
       (blockLatency, d) \<leftarrow> get32 d;
       (internalIndex, d) \<leftarrow> get16 d;
       Some \<lparr>ip_clockDomainIndex = clockDomainIndex, ip_portFlags = portFlags,
             ip_numberOfControls = numberOfControls, ip_baseControl = baseControl, ip_signalType = signalType,
             ip_signalIndex = signalIndex, ip_signalOutput = signalOutput, ip_blockLatency = blockLatency,
             ip_internalIndex = internalIndex\<rparr>
     }"

definition deserializeReadInternalPortDescriptorResponse :: "byte list \<Rightarrow> nat \<Rightarrow> 8 word \<Rightarrow> internal_port_descriptor outcome" where
  "deserializeReadInternalPortDescriptorResponse payload commonSize status =
     read_descriptor AecpAemReadInternalPortDescriptorResponsePayloadSize InternalPortDescriptor_new payload commonSize status
       (\<lambda>d. of_buffer (readInternalPortDescriptor d))"

abbreviation (input) AecpAemReadAudioClusterDescriptorResponsePayloadSize :: nat where
  "AecpAemReadAudioClusterDescriptorResponsePayloadSize \<equiv> 91"

record audio_cluster_descriptor =
  ac_objectName :: "fixed_string"
  ac_localizedDescription :: "16 word"
  ac_signalType :: "16 word"
  ac_signalIndex :: "16 word"
  ac_signalOutput :: "16 word"
  ac_pathLatency :: "32 word"
  ac_blockLatency :: "32 word"
  ac_channelCount :: "16 word"
  ac_format :: "8 word"

definition AudioClusterDescriptor_new :: audio_cluster_descriptor where
  "AudioClusterDescriptor_new =
    \<lparr>ac_objectName = 0, ac_localizedDescription = 0xFFFF, ac_signalType = 65535, ac_signalIndex = 0,
     ac_signalOutput = 0, ac_pathLatency = 0, ac_blockLatency = 0, ac_channelCount = 0, ac_format = 0\<rparr>"

definition readAudioClusterDescriptor :: "deserializer \<Rightarrow> audio_cluster_descriptor option" where
  "readAudioClusterDescriptor d = do {
       (objectName, d) \<leftarrow> get_fixed d;
       (localizedDescription, d) \<leftarrow> get16 d;
       (signalType, d) \<leftarrow> get16 d;
       (signalIndex, d) \<leftarrow> get16 d;
       (signalOutput, d) \<leftarrow> get16 d;
       (pathLatency, d) \<leftarrow> get32 d;
       (blockLatency, d) \<leftarrow> get32 d;
       (channelCount, d) \<leftarrow> get16 d;
       (format, d) \<leftarrow> get8 d;
       Some \<lparr>ac_objectName = objectName, ac_localizedDescription = localizedDescription,
             ac_signalType = signalType, ac_signalIndex = signalIndex, ac_signalOutput = signalOutput,
             ac_pathLatency = pathLatency, ac_blockLatency = blockLatency, ac_channelCount = channelCount,
             ac_format = format\<rparr>
     }"

definition deserializeReadAudioClusterDescriptorResponse :: "byte list \<Rightarrow> nat \<Rightarrow> 8 word \<Rightarrow> audio_cluster_descriptor outcome" where
  "deserializeReadAudioClusterDescriptorResponse payload commonSize status =
     read_descriptor AecpAemReadAudioClusterDescriptorResponsePayloadSize AudioClusterDescriptor_new payload commonSize status
       (\<lambda>d. of_buffer (readAudioClusterDescriptor d))"

abbreviation (input) AecpAemReadPtpInstanceDescriptorResponsePayloadSize :: nat where
  "AecpAemReadPtpInstanceDescriptorResponsePayloadSize \<equiv> 94"

record ptp_instance_descriptor =
  pi_objectName :: "fixed_string"
  pi_localizedDescription :: "16 word"
  pi_clockIdentity :: "64 word"
  pi_flags :: "32 word"
  pi_numberOfControls :: "16 word"
  pi_baseControl :: "16 word"
  pi_numberOfPtpPorts :: "16 word"
  pi_basePtpPort :: "16 word"

definition PtpInstanceDescriptor_new :: ptp_instance_descriptor where
  "PtpInstanceDescriptor_new =
    \<lparr>pi_objectName = 0, pi_localizedDescription = 0xFFFF, pi_clockIdentity = uid_uninitialized, pi_flags = 0,
     pi_numberOfControls = 0, pi_baseControl = 0, pi_numberOfPtpPorts = 0, pi_basePtpPort = 0\<rparr>"

definition readPtpInstanceDescriptor :: "deserializer \<Rightarrow> ptp_instance_descriptor option" where
  "readPtpInstanceDescriptor d = do {
       (objectName, d) \<leftarrow> get_fixed d;
       (localizedDescription, d) \<leftarrow> get16 d;
       (clockIdentity, d) \<leftarrow> get64 d;
       (flags, d) \<leftarrow> get32 d;
       (numberOfControls, d) \<leftarrow> get16 d;
       (baseControl, d) \<leftarrow> get16 d;
       (numberOfPtpPorts, d) \<leftarrow> get16 d;
       (basePtpPort, d) \<leftarrow> get16 d;
       Some \<lparr>pi_objectName = objectName, pi_localizedDescription = localizedDescription,
             pi_clockIdentity = clockIdentity, pi_flags = flags, pi_numberOfControls = numberOfControls,
             pi_baseControl = baseControl, pi_numberOfPtpPorts = numberOfPtpPorts,
             pi_basePtpPort = basePtpPort\<rparr>
     }"

definition deserializeReadPtpInstanceDescriptorResponse :: "byte list \<Rightarrow> nat \<Rightarrow> 8 word \<Rightarrow> ptp_instance_descriptor outcome" where
  "deserializeReadPtpInstanceDescriptorResponse payload commonSize status =
     read_descriptor AecpAemReadPtpInstanceDescriptorResponsePayloadSize PtpInstanceDescriptor_new payload commonSize status
       (\<lambda>d. of_buffer (readPtpInstanceDescriptor d))"

abbreviation (input) AecpAemReadPtpPortDescriptorResponsePayloadSize :: nat where
  "AecpAemReadPtpPortDescriptorResponsePayloadSize \<equiv> 90"

record ptp_port_descriptor =
  pp_objectName :: "fixed_string"
  pp_localizedDescription :: "16 word"
  pp_portNumber :: "16 word"
  pp_portType :: "16 word"
  pp_flags :: "32 word"
  pp_avbInterfaceIndex :: "16 word"
  pp_profileIdentifier :: "mac_address"

definition PtpPortDescriptor_new :: ptp_port_descriptor where
  "PtpPortDescriptor_new =
    \<lparr>pp_objectName = 0, pp_localizedDescription = 0xFFFF, pp_portNumber = 0, pp_portType = 0, pp_flags = 0,
     pp_avbInterfaceIndex = 0, pp_profileIdentifier = 0\<rparr>"

definition readPtpPortDescriptor :: "deserializer \<Rightarrow> ptp_port_descriptor option" where
  "readPtpPortDescriptor d = do {
       (objectName, d) \<leftarrow> get_fixed d;
       (localizedDescription, d) \<leftarrow> get16 d;
       (portNumber, d) \<leftarrow> get16 d;
       (portType, d) \<leftarrow> get16 d;
       (flags, d) \<leftarrow> get32 d;
       (avbInterfaceIndex, d) \<leftarrow> get16 d;
       (profileIdentifier, d) \<leftarrow> get_mac d;
       Some \<lparr>pp_objectName = objectName, pp_localizedDescription = localizedDescription,
             pp_portNumber = portNumber, pp_portType = portType, pp_flags = flags,
             pp_avbInterfaceIndex = avbInterfaceIndex, pp_profileIdentifier = profileIdentifier\<rparr>
     }"

definition deserializeReadPtpPortDescriptorResponse :: "byte list \<Rightarrow> nat \<Rightarrow> 8 word \<Rightarrow> ptp_port_descriptor outcome" where
  "deserializeReadPtpPortDescriptorResponse payload commonSize status =
     read_descriptor AecpAemReadPtpPortDescriptorResponsePayloadSize PtpPortDescriptor_new payload commonSize status
       (\<lambda>d. of_buffer (readPtpPortDescriptor d))"

abbreviation (input) AecpAemReadStringsDescriptorResponsePayloadSize :: nat where
  "AecpAemReadStringsDescriptorResponsePayloadSize \<equiv> 456"

record strings_descriptor =
  sg_strings :: "fixed_string list"

definition StringsDescriptor_new :: strings_descriptor where
  "StringsDescriptor_new = \<lparr>sg_strings = replicate 7 0\<rparr>"

definition deserializeReadStringsDescriptorResponse :: "byte list \<Rightarrow> nat \<Rightarrow> 8 word \<Rightarrow> strings_descriptor outcome" where
  "deserializeReadStringsDescriptorResponse payload commonSize status =
     read_descriptor AecpAemReadStringsDescriptorResponsePayloadSize StringsDescriptor_new payload commonSize status
       (\<lambda>d. of_buffer (map_option (\<lambda>(strings, d). \<lparr>sg_strings = strings\<rparr>) (get_many get_fixed 7 d)))"

section \<open>Descriptors with a list\<close>

abbreviation (input) AecpAemReadConfigurationDescriptorResponsePayloadMinSize :: nat where
  "AecpAemReadConfigurationDescriptorResponsePayloadMinSize \<equiv> 78"

record configuration_descriptor =
  cf_objectName :: "fixed_string"
  cf_localizedDescription :: "16 word"
  cf_descriptorCounts :: "(descriptor_type, 16 word) alist"

definition ConfigurationDescriptor_new :: configuration_descriptor where
  "ConfigurationDescriptor_new =
    \<lparr>cf_objectName = 0, cf_localizedDescription = 0xFFFF, cf_descriptorCounts = []\<rparr>"

definition get_descriptor_count :: "deserializer \<Rightarrow> ((descriptor_type \<times> 16 word) \<times> deserializer) option" where
  "get_descriptor_count d = do {
     (type, d) \<leftarrow> get16 d;
     (count, d) \<leftarrow> get16 d;
     Some ((type, count), d)
   }"

definition readConfigurationDescriptor :: "deserializer \<Rightarrow> ((configuration_descriptor \<times> 16 word \<times> 16 word) \<times> deserializer) option" where
  "readConfigurationDescriptor d = do {
       (objectName, d) \<leftarrow> get_fixed d;
       (localizedDescription, d) \<leftarrow> get16 d;
       (descriptorCountsCount, d) \<leftarrow> get16 d;
       (descriptorCountsOffset, d) \<leftarrow> get16 d;
       Some ((\<lparr>cf_objectName = objectName, cf_localizedDescription = localizedDescription,
             cf_descriptorCounts = []\<rparr>, descriptorCountsCount, descriptorCountsOffset), d)
     }"

definition deserializeReadConfigurationDescriptorResponse :: "byte list \<Rightarrow> nat \<Rightarrow> 8 word \<Rightarrow> configuration_descriptor outcome" where
  "deserializeReadConfigurationDescriptorResponse payload commonSize status =
     read_descriptor AecpAemReadConfigurationDescriptorResponsePayloadMinSize ConfigurationDescriptor_new payload commonSize status
       (\<lambda>d. obind (of_buffer (readConfigurationDescriptor d)) (\<lambda>((desc, descriptorCountsCount, descriptorCountsOffset), d).
          obind (read_list_at get_descriptor_count 4 descriptorCountsCount descriptorCountsOffset d)
            (\<lambda>counts. Inr (desc\<lparr>cf_descriptorCounts := foldl (\<lambda>m (t, n). al_put t n m) [] counts\<rparr>))))"

abbreviation (input) AecpAemReadAudioUnitDescriptorResponsePayloadMinSize :: nat where
  "AecpAemReadAudioUnitDescriptorResponsePayloadMinSize \<equiv> 148"

record audio_unit_descriptor =
  au_objectName :: "fixed_string"
  au_localizedDescription :: "16 word"
  au_clockDomainIndex :: "16 word"
  au_numberOfStreamInputPorts :: "16 word"
  au_baseStreamInputPort :: "16 word"
  au_numberOfStreamOutputPorts :: "16 word"
  au_baseStreamOutputPort :: "16 word"
  au_numberOfExternalInputPorts :: "16 word"
  au_baseExternalInputPort :: "16 word"
  au_numberOfExternalOutputPorts :: "16 word"
  au_baseExternalOutputPort :: "16 word"
  au_numberOfInternalInputPorts :: "16 word"
  au_baseInternalInputPort :: "16 word"
  au_numberOfInternalOutputPorts :: "16 word"
  au_baseInternalOutputPort :: "16 word"
  au_numberOfControls :: "16 word"
  au_baseControl :: "16 word"
  au_numberOfSignalSelectors :: "16 word"
  au_baseSignalSelector :: "16 word"
  au_numberOfMixers :: "16 word"
  au_baseMixer :: "16 word"
  au_numberOfMatrices :: "16 word"
  au_baseMatrix :: "16 word"
  au_numberOfSplitters :: "16 word"
  au_baseSplitter :: "16 word"
  au_numberOfCombiners :: "16 word"
  au_baseCombiner :: "16 word"
  au_numberOfDemultiplexers :: "16 word"
  au_baseDemultiplexer :: "16 word"
  au_numberOfMultiplexers :: "16 word"
  au_baseMultiplexer :: "16 word"
  au_numberOfTranscoders :: "16 word"
  au_baseTranscoder :: "16 word"
  au_numberOfControlBlocks :: "16 word"
  au_baseControlBlock :: "16 word"
  au_currentSamplingRate :: "32 word"
  au_samplingRates :: "sampling_rate set"

definition AudioUnitDescriptor_new :: audio_unit_descriptor where
  "AudioUnitDescriptor_new =
    \<lparr>au_objectName = 0, au_localizedDescription = 0xFFFF, au_clockDomainIndex = 0,
     au_numberOfStreamInputPorts = 0, au_baseStreamInputPort = 0, au_numberOfStreamOutputPorts = 0,
     au_baseStreamOutputPort = 0, au_numberOfExternalInputPorts = 0, au_baseExternalInputPort = 0,
     au_numberOfExternalOutputPorts = 0, au_baseExternalOutputPort = 0, au_numberOfInternalInputPorts = 0,
     au_baseInternalInputPort = 0, au_numberOfInternalOutputPorts = 0, au_baseInternalOutputPort = 0,
     au_numberOfControls = 0, au_baseControl = 0, au_numberOfSignalSelectors = 0, au_baseSignalSelector = 0,
     au_numberOfMixers = 0, au_baseMixer = 0, au_numberOfMatrices = 0, au_baseMatrix = 0,
     au_numberOfSplitters = 0, au_baseSplitter = 0, au_numberOfCombiners = 0, au_baseCombiner = 0,
     au_numberOfDemultiplexers = 0, au_baseDemultiplexer = 0, au_numberOfMultiplexers = 0,
     au_baseMultiplexer = 0, au_numberOfTranscoders = 0, au_baseTranscoder = 0, au_numberOfControlBlocks = 0,
     au_baseControlBlock = 0, au_currentSamplingRate = 0, au_samplingRates = {}\<rparr>"

definition readAudioUnitDescriptor :: "deserializer \<Rightarrow> ((audio_unit_descriptor \<times> 16 word \<times> 16 word) \<times> deserializer) option" where
  "readAudioUnitDescriptor d = do {
       (objectName, d) \<leftarrow> get_fixed d;
       (localizedDescription, d) \<leftarrow> get16 d;
       (clockDomainIndex, d) \<leftarrow> get16 d;
       (numberOfStreamInputPorts, d) \<leftarrow> get16 d;
       (baseStreamInputPort, d) \<leftarrow> get16 d;
       (numberOfStreamOutputPorts, d) \<leftarrow> get16 d;
       (baseStreamOutputPort, d) \<leftarrow> get16 d;
       (numberOfExternalInputPorts, d) \<leftarrow> get16 d;
       (baseExternalInputPort, d) \<leftarrow> get16 d;
       (numberOfExternalOutputPorts, d) \<leftarrow> get16 d;
       (baseExternalOutputPort, d) \<leftarrow> get16 d;
       (numberOfInternalInputPorts, d) \<leftarrow> get16 d;
       (baseInternalInputPort, d) \<leftarrow> get16 d;
       (numberOfInternalOutputPorts, d) \<leftarrow> get16 d;
       (baseInternalOutputPort, d) \<leftarrow> get16 d;
       (numberOfControls, d) \<leftarrow> get16 d;
       (baseControl, d) \<leftarrow> get16 d;
       (numberOfSignalSelectors, d) \<leftarrow> get16 d;
       (baseSignalSelector, d) \<leftarrow> get16 d;
       (numberOfMixers, d) \<leftarrow> get16 d;
       (baseMixer, d) \<leftarrow> get16 d;
       (numberOfMatrices, d) \<leftarrow> get16 d;
       (baseMatrix, d) \<leftarrow> get16 d;
       (numberOfSplitters, d) \<leftarrow> get16 d;
       (baseSplitter, d) \<leftarrow> get16 d;
       (numberOfCombiners, d) \<leftarrow> get16 d;
       (baseCombiner, d) \<leftarrow> get16 d;
       (numberOfDemultiplexers, d) \<leftarrow> get16 d;
       (baseDemultiplexer, d) \<leftarrow> get16 d;
       (numberOfMultiplexers, d) \<leftarrow> get16 d;
       (baseMultiplexer, d) \<leftarrow> get16 d;
       (numberOfTranscoders, d) \<leftarrow> get16 d;
       (baseTranscoder, d) \<leftarrow> get16 d;
       (numberOfControlBlocks, d) \<leftarrow> get16 d;
       (baseControlBlock, d) \<leftarrow> get16 d;
       (currentSamplingRate, d) \<leftarrow> get32 d;
       (samplingRatesOffset, d) \<leftarrow> get16 d;
       (numberOfSamplingRates, d) \<leftarrow> get16 d;
       Some ((\<lparr>au_objectName = objectName, au_localizedDescription = localizedDescription,
             au_clockDomainIndex = clockDomainIndex, au_numberOfStreamInputPorts = numberOfStreamInputPorts,
             au_baseStreamInputPort = baseStreamInputPort,
             au_numberOfStreamOutputPorts = numberOfStreamOutputPorts,
             au_baseStreamOutputPort = baseStreamOutputPort,
             au_numberOfExternalInputPorts = numberOfExternalInputPorts,
             au_baseExternalInputPort = baseExternalInputPort,
             au_numberOfExternalOutputPorts = numberOfExternalOutputPorts,
             au_baseExternalOutputPort = baseExternalOutputPort,
             au_numberOfInternalInputPorts = numberOfInternalInputPorts,
             au_baseInternalInputPort = baseInternalInputPort,
             au_numberOfInternalOutputPorts = numberOfInternalOutputPorts,
             au_baseInternalOutputPort = baseInternalOutputPort, au_numberOfControls = numberOfControls,
             au_baseControl = baseControl, au_numberOfSignalSelectors = numberOfSignalSelectors,
             au_baseSignalSelector = baseSignalSelector, au_numberOfMixers = numberOfMixers,
             au_baseMixer = baseMixer, au_numberOfMatrices = numberOfMatrices, au_baseMatrix = baseMatrix,
             au_numberOfSplitters = numberOfSplitters, au_baseSplitter = baseSplitter,
             au_numberOfCombiners = numberOfCombiners, au_baseCombiner = baseCombiner,
             au_numberOfDemultiplexers = numberOfDemultiplexers, au_baseDemultiplexer = baseDemultiplexer,
             au_numberOfMultiplexers = numberOfMultiplexers, au_baseMultiplexer = baseMultiplexer,
             au_numberOfTranscoders = numberOfTranscoders, au_baseTranscoder = baseTranscoder,
             au_numberOfControlBlocks = numberOfControlBlocks, au_baseControlBlock = baseControlBlock,
             au_currentSamplingRate = currentSamplingRate, au_samplingRates = {}\<rparr>, samplingRatesOffset, numberOfSamplingRates), d)
     }"

definition deserializeReadAudioUnitDescriptorResponse :: "byte list \<Rightarrow> nat \<Rightarrow> 8 word \<Rightarrow> audio_unit_descriptor outcome" where
  "deserializeReadAudioUnitDescriptorResponse payload commonSize status =
     read_descriptor AecpAemReadAudioUnitDescriptorResponsePayloadMinSize AudioUnitDescriptor_new payload commonSize status
       (\<lambda>d. obind (of_buffer (readAudioUnitDescriptor d)) (\<lambda>((desc, samplingRatesOffset, numberOfSamplingRates), d).
          obind (read_list_at get32 4 numberOfSamplingRates samplingRatesOffset d)
            (\<lambda>rates. Inr (desc\<lparr>au_samplingRates := set rates\<rparr>))))"

abbreviation (input) AecpAemReadClockDomainDescriptorResponsePayloadMinSize :: nat where
  "AecpAemReadClockDomainDescriptorResponsePayloadMinSize \<equiv> 80"

record clock_domain_descriptor =
  cd_objectName :: "fixed_string"
  cd_localizedDescription :: "16 word"
  cd_clockSourceIndex :: "16 word"
  cd_clockSources :: "16 word list"

definition ClockDomainDescriptor_new :: clock_domain_descriptor where
  "ClockDomainDescriptor_new =
    \<lparr>cd_objectName = 0, cd_localizedDescription = 0xFFFF, cd_clockSourceIndex = 0, cd_clockSources = []\<rparr>"

definition readClockDomainDescriptor :: "deserializer \<Rightarrow> ((clock_domain_descriptor \<times> 16 word \<times> 16 word) \<times> deserializer) option" where
  "readClockDomainDescriptor d = do {
       (objectName, d) \<leftarrow> get_fixed d;
       (localizedDescription, d) \<leftarrow> get16 d;
       (clockSourceIndex, d) \<leftarrow> get16 d;
       (clockSourcesOffset, d) \<leftarrow> get16 d;
       (numberOfClockSources, d) \<leftarrow> get16 d;
       Some ((\<lparr>cd_objectName = objectName, cd_localizedDescription = localizedDescription,
             cd_clockSourceIndex = clockSourceIndex, cd_clockSources = []\<rparr>, clockSourcesOffset, numberOfClockSources), d)
     }"

definition deserializeReadClockDomainDescriptorResponse :: "byte list \<Rightarrow> nat \<Rightarrow> 8 word \<Rightarrow> clock_domain_descriptor outcome" where
  "deserializeReadClockDomainDescriptorResponse payload commonSize status =
     read_descriptor AecpAemReadClockDomainDescriptorResponsePayloadMinSize ClockDomainDescriptor_new payload commonSize status
       (\<lambda>d. obind (of_buffer (readClockDomainDescriptor d)) (\<lambda>((desc, clockSourcesOffset, numberOfClockSources), d).
          obind (read_list_at get16 2 numberOfClockSources clockSourcesOffset d)
            (\<lambda>sources. Inr (desc\<lparr>cd_clockSources := sources\<rparr>))))"

abbreviation (input) AecpAemReadTimingDescriptorResponsePayloadMinSize :: nat where
  "AecpAemReadTimingDescriptorResponsePayloadMinSize \<equiv> 80"

record timing_descriptor =
  tm_objectName :: "fixed_string"
  tm_localizedDescription :: "16 word"
  tm_algorithm :: "16 word"
  tm_ptpInstances :: "16 word list"

definition TimingDescriptor_new :: timing_descriptor where
  "TimingDescriptor_new =
    \<lparr>tm_objectName = 0, tm_localizedDescription = 0xFFFF, tm_algorithm = 0, tm_ptpInstances = []\<rparr>"

definition readTimingDescriptor :: "deserializer \<Rightarrow> ((timing_descriptor \<times> 16 word \<times> 16 word) \<times> deserializer) option" where
  "readTimingDescriptor d = do {
       (objectName, d) \<leftarrow> get_fixed d;
       (localizedDescription, d) \<leftarrow> get16 d;
       (algorithm, d) \<leftarrow> get16 d;
       (ptpInstancesOffset, d) \<leftarrow> get16 d;
       (numberOfPtpInstances, d) \<leftarrow> get16 d;
       Some ((\<lparr>tm_objectName = objectName, tm_localizedDescription = localizedDescription,
             tm_algorithm = algorithm, tm_ptpInstances = []\<rparr>, ptpInstancesOffset, numberOfPtpInstances), d)
     }"

definition deserializeReadTimingDescriptorResponse :: "byte list \<Rightarrow> nat \<Rightarrow> 8 word \<Rightarrow> timing_descriptor outcome" where
  "deserializeReadTimingDescriptorResponse payload commonSize status =
     read_descriptor AecpAemReadTimingDescriptorResponsePayloadMinSize TimingDescriptor_new payload commonSize status
       (\<lambda>d. obind (of_buffer (readTimingDescriptor d)) (\<lambda>((desc, ptpInstancesOffset, numberOfPtpInstances), d).
          obind (read_list_at get16 2 numberOfPtpInstances ptpInstancesOffset d)
            (\<lambda>instances. Inr (desc\<lparr>tm_ptpInstances := instances\<rparr>))))"

abbreviation (input) AecpAemReadAudioMapDescriptorResponsePayloadMinSize :: nat where
  "AecpAemReadAudioMapDescriptorResponsePayloadMinSize \<equiv> 12"

record audio_map_descriptor =
  mp_mappings :: "audio_mapping list"

definition AudioMapDescriptor_new :: audio_map_descriptor where
  "AudioMapDescriptor_new = \<lparr>mp_mappings = []\<rparr>"

definition deserializeReadAudioMapDescriptorResponse :: "byte list \<Rightarrow> nat \<Rightarrow> 8 word \<Rightarrow> audio_map_descriptor outcome" where
  "deserializeReadAudioMapDescriptorResponse payload commonSize status =
     read_descriptor AecpAemReadAudioMapDescriptorResponsePayloadMinSize AudioMapDescriptor_new payload commonSize status
       (\<lambda>d. obind (of_buffer (do {
            (mappingsOffset, d) \<leftarrow> get16 d;
            (numberOfMappings, d) \<leftarrow> get16 d;
            Some (mappingsOffset, numberOfMappings, d)
          }))
          (\<lambda>(mappingsOffset, numberOfMappings, d).
             obind (read_list_at get_audio_mapping 8 numberOfMappings mappingsOffset d)
               (\<lambda>mappings. Inr \<lparr>mp_mappings = mappings\<rparr>)))"

abbreviation (input) AecpAemReadControlDescriptorResponsePayloadMinSize :: nat where
  "AecpAemReadControlDescriptorResponsePayloadMinSize \<equiv> 108"

record control_descriptor =
  ct_objectName :: "fixed_string"
  ct_localizedDescription :: "16 word"
  ct_blockLatency :: "32 word"
  ct_controlLatency :: "32 word"
  ct_controlDomain :: "16 word"
  ct_controlType :: "64 word"
  ct_resetTime :: "32 word"
  ct_signalType :: "16 word"
  ct_signalIndex :: "16 word"
  ct_signalOutput :: "16 word"
  ct_controlValueType :: "16 word"
  ct_numberOfValues :: "16 word"
  ct_valuesStatic :: "static_values option"
  ct_valuesDynamic :: "dynamic_values option"

definition ControlDescriptor_new :: control_descriptor where
  "ControlDescriptor_new =
    \<lparr>ct_objectName = 0, ct_localizedDescription = 0xFFFF, ct_blockLatency = 0, ct_controlLatency = 0,
     ct_controlDomain = 0, ct_controlType = uid_uninitialized, ct_resetTime = 0, ct_signalType = 65535,
     ct_signalIndex = 0, ct_signalOutput = 0, ct_controlValueType = 0x4000, ct_numberOfValues = 0,
     ct_valuesStatic = None, ct_valuesDynamic = None\<rparr>"

text \<open>A type the dispatch table does not have, or whose values cannot be unpacked, leaves the values empty.\<close>

definition readControlDescriptor :: "deserializer \<Rightarrow> ((control_descriptor \<times> 16 word) \<times> deserializer) option" where
  "readControlDescriptor d = do {
       (objectName, d) \<leftarrow> get_fixed d;
       (localizedDescription, d) \<leftarrow> get16 d;
       (blockLatency, d) \<leftarrow> get32 d;
       (controlLatency, d) \<leftarrow> get32 d;
       (controlDomain, d) \<leftarrow> get16 d;
       (controlValueType, d) \<leftarrow> get16 d;
       (controlType, d) \<leftarrow> get64 d;
       (resetTime, d) \<leftarrow> get32 d;
       (valuesOffset, d) \<leftarrow> get16 d;
       (numberOfValues, d) \<leftarrow> get16 d;
       (signalType, d) \<leftarrow> get16 d;
       (signalIndex, d) \<leftarrow> get16 d;
       (signalOutput, d) \<leftarrow> get16 d;
       Some ((\<lparr>ct_objectName = objectName, ct_localizedDescription = localizedDescription,
             ct_blockLatency = blockLatency, ct_controlLatency = controlLatency,
             ct_controlDomain = controlDomain, ct_controlType = controlType, ct_resetTime = resetTime,
             ct_signalType = signalType, ct_signalIndex = signalIndex, ct_signalOutput = signalOutput,
             ct_controlValueType = controlValueType, ct_numberOfValues = numberOfValues,
             ct_valuesStatic = None, ct_valuesDynamic = None\<rparr>, valuesOffset), d)
     }"

definition deserializeReadControlDescriptorResponse :: "byte list \<Rightarrow> nat \<Rightarrow> 8 word \<Rightarrow> control_descriptor outcome" where
  "deserializeReadControlDescriptorResponse payload commonSize status =
     read_descriptor AecpAemReadControlDescriptorResponsePayloadMinSize ControlDescriptor_new payload commonSize status
       (\<lambda>d. obind (of_buffer (readControlDescriptor d)) (\<lambda>((desc, valuesOffset), d).
          let valuesOffset = valuesOffset + PayloadBufferOffset in
          if unat valuesOffset < usedBytes d then Inl IncorrectPayloadSize
          else obind (of_buffer (setPosition (unat valuesOffset) d)) (\<lambda>d.
            case value_layout (ControlValueType_getType (ct_controlValueType desc)) of
              None \<Rightarrow> Inr desc
            | Some l \<Rightarrow>
                (case unpackFullControlValues l (ct_numberOfValues desc) d of
                   None \<Rightarrow> Inr desc
                 | Some ((valuesStatic, valuesDynamic), d) \<Rightarrow>
                     Inr (desc\<lparr>ct_valuesStatic := Some valuesStatic, ct_valuesDynamic := Some valuesDynamic\<rparr>)))))"

abbreviation (input) AecpAemReadStreamDescriptorResponsePayloadMinSize :: nat where
  "AecpAemReadStreamDescriptorResponsePayloadMinSize \<equiv> 136"

record stream_descriptor =
  st_objectName :: "fixed_string"
  st_localizedDescription :: "16 word"
  st_clockDomainIndex :: "16 word"
  st_streamFlags :: "16 word"
  st_currentFormat :: "64 word"
  st_backupTalkerEntityID_0 :: "64 word"
  st_backupTalkerUniqueID_0 :: "16 word"
  st_backupTalkerEntityID_1 :: "64 word"
  st_backupTalkerUniqueID_1 :: "16 word"
  st_backupTalkerEntityID_2 :: "64 word"
  st_backupTalkerUniqueID_2 :: "16 word"
  st_backedupTalkerEntityID :: "64 word"
  st_backedupTalkerUnique :: "16 word"
  st_avbInterfaceIndex :: "16 word"
  st_bufferLength :: "32 word"
  st_formats :: "stream_format set"
  st_redundantStreams :: "16 word set"

definition StreamDescriptor_new :: stream_descriptor where
  "StreamDescriptor_new =
    \<lparr>st_objectName = 0, st_localizedDescription = 0xFFFF, st_clockDomainIndex = 0, st_streamFlags = 0,
     st_currentFormat = 0, st_backupTalkerEntityID_0 = uid_uninitialized, st_backupTalkerUniqueID_0 = 0,
     st_backupTalkerEntityID_1 = uid_uninitialized, st_backupTalkerUniqueID_1 = 0,
     st_backupTalkerEntityID_2 = uid_uninitialized, st_backupTalkerUniqueID_2 = 0,
     st_backedupTalkerEntityID = uid_uninitialized, st_backedupTalkerUnique = 0, st_avbInterfaceIndex = 0,
     st_bufferLength = 0, st_formats = {}, st_redundantStreams = {}\<rparr>"

text \<open>
  The stream descriptor, with its redundant streams when the feature is built in.  Differences of a size and
  of an offset are of the type \<^verbatim>\<open>size_t\<close>: they wrap around.
\<close>

definition size_diff :: "nat \<Rightarrow> nat \<Rightarrow> 64 word" where
  "size_diff a b = of_nat a - of_nat b"

definition readStreamDescriptor :: "deserializer \<Rightarrow> ((stream_descriptor \<times> 16 word \<times> 16 word) \<times> deserializer) option" where
  "readStreamDescriptor d = do {
       (objectName, d) \<leftarrow> get_fixed d;
       (localizedDescription, d) \<leftarrow> get16 d;
       (clockDomainIndex, d) \<leftarrow> get16 d;
       (streamFlags, d) \<leftarrow> get16 d;
       (currentFormat, d) \<leftarrow> get64 d;
       (formatsOffset, d) \<leftarrow> get16 d;
       (numberOfFormats, d) \<leftarrow> get16 d;
       (backupTalkerEntityID_0, d) \<leftarrow> get64 d;
       (backupTalkerUniqueID_0, d) \<leftarrow> get16 d;
       (backupTalkerEntityID_1, d) \<leftarrow> get64 d;
       (backupTalkerUniqueID_1, d) \<leftarrow> get16 d;
       (backupTalkerEntityID_2, d) \<leftarrow> get64 d;
       (backupTalkerUniqueID_2, d) \<leftarrow> get16 d;
       (backedupTalkerEntityID, d) \<leftarrow> get64 d;
       (backedupTalkerUnique, d) \<leftarrow> get16 d;
       (avbInterfaceIndex, d) \<leftarrow> get16 d;
       (bufferLength, d) \<leftarrow> get32 d;
       Some ((\<lparr>st_objectName = objectName, st_localizedDescription = localizedDescription,
             st_clockDomainIndex = clockDomainIndex, st_streamFlags = streamFlags,
             st_currentFormat = currentFormat, st_backupTalkerEntityID_0 = backupTalkerEntityID_0,
             st_backupTalkerUniqueID_0 = backupTalkerUniqueID_0,
             st_backupTalkerEntityID_1 = backupTalkerEntityID_1,
             st_backupTalkerUniqueID_1 = backupTalkerUniqueID_1,
             st_backupTalkerEntityID_2 = backupTalkerEntityID_2,
             st_backupTalkerUniqueID_2 = backupTalkerUniqueID_2,
             st_backedupTalkerEntityID = backedupTalkerEntityID,
             st_backedupTalkerUnique = backedupTalkerUnique, st_avbInterfaceIndex = avbInterfaceIndex,
             st_bufferLength = bufferLength, st_formats = {}, st_redundantStreams = {}\<rparr>, formatsOffset, numberOfFormats), d)
     }"

text \<open>The offset (0 when there is none) and the number of the redundant streams, and the end of the formats.\<close>

definition read_redundant ::
  "bool \<Rightarrow> 16 word \<Rightarrow> nat \<Rightarrow> deserializer \<Rightarrow> ((16 word \<times> 16 word \<times> nat) \<times> deserializer) option"
where
  "read_redundant redundancy formatsOffset endDescriptorOffset d =
     (if redundancy \<and> size_diff (unat formatsOffset) (usedBytes d) \<ge> 4
      then do {
        (redundantOffset, d) \<leftarrow> get16 d;
        (numberOfRedundantStreams, d) \<leftarrow> get16 d;
        let redundantOffset = redundantOffset + PayloadBufferOffset;
        Some ((redundantOffset, numberOfRedundantStreams, unat redundantOffset), d)
      }
      else Some ((0, 0, endDescriptorOffset), d))"

definition deserializeReadStreamDescriptorResponse ::
  "bool \<Rightarrow> byte list \<Rightarrow> nat \<Rightarrow> 8 word \<Rightarrow> stream_descriptor outcome"
where
  "deserializeReadStreamDescriptorResponse redundancy payload commonSize status =
     read_descriptor AecpAemReadStreamDescriptorResponsePayloadMinSize StreamDescriptor_new payload commonSize status
       (\<lambda>d. obind (of_buffer (readStreamDescriptor d)) (\<lambda>((desc, formatsOffset, numberOfFormats), d).
          let formatsOffset = formatsOffset + PayloadBufferOffset in
          obind (of_buffer (read_redundant redundancy formatsOffset (length payload) d))
            (\<lambda>((redundantOffset, numberOfRedundantStreams, endDescriptorOffset), d).
          let staticPartEndOffset = usedBytes d in
          if of_nat (8 * unat numberOfFormats) > size_diff endDescriptorOffset (unat formatsOffset)
          then Inl IncorrectPayloadSize
          else if unat formatsOffset < staticPartEndOffset then Inl IncorrectPayloadSize
          else obind (of_buffer (do {
              d \<leftarrow> setPosition (unat formatsOffset) d;
              get_many get64 (unat numberOfFormats) d
            }))
            (\<lambda>(formats, d). let desc = desc\<lparr>st_formats := set formats\<rparr> in
          if redundantOffset = 0 then Inr desc
          else if unat redundantOffset < staticPartEndOffset then Inl IncorrectPayloadSize
          else of_buffer (do {
              d \<leftarrow> setPosition (unat redundantOffset) d;
              (streams, d) \<leftarrow> get_many get16 (unat numberOfRedundantStreams) d;
              Some (desc\<lparr>st_redundantStreams := set streams\<rparr>)
            })))))"

section \<open>Writing\<close>

definition serializeReadEntityDescriptorResponse :: "entity_descriptor \<Rightarrow> serializer \<Rightarrow> serializer option" where
  "serializeReadEntityDescriptorResponse e s =
     pack [u64 (ed_entityID e), u64 (ed_entityModelID e), u32 (ed_entityCapabilities e),
           u16 (ed_talkerStreamSources e), u16 (ed_talkerCapabilities e), u16 (ed_listenerStreamSinks e),
           u16 (ed_listenerCapabilities e), u32 (ed_controllerCapabilities e), u32 (ed_availableIndex e),
           u64 (ed_associationID e), fixed (ed_entityName e), u16 (ed_vendorNameString e),
           u16 (ed_modelNameString e), fixed (ed_firmwareVersion e), fixed (ed_groupName e),
           fixed (ed_serialNumber e), u16 (ed_configurationsCount e), u16 (ed_currentConfiguration e)] s"

text \<open>
  The writer of a configuration asserts that the list comes at the offset 74, which an answer on top of the
  common fields meets.
\<close>

definition serializeReadConfigurationDescriptorResponse ::
  "configuration_descriptor \<Rightarrow> serializer \<Rightarrow> serializer option"
where
  "serializeReadConfigurationDescriptorResponse c s = do {
     s \<leftarrow> pack [fixed (cf_objectName c), u16 (cf_localizedDescription c),
                u16 (of_nat (length (cf_descriptorCounts c)))] s;
     let descriptorCountsOffset = of_nat (length (buffer s) - 4 + 2);
     pack (u16 descriptorCountsOffset # concat (map (\<lambda>(t, n). [u16 t, u16 n]) (cf_descriptorCounts c))) s
   }"

end
