(* ===== verification/MvuPayloads.thy ===== *)
theory MvuPayloads
  imports AemVariablePayloads
begin

text \<open>
  The payloads of the Milan vendor unique commands (src/protocol/protocolMvuPayloads.cpp, with the sizes of
  include/la/avdecc/internals/protocolMvuPayloadSizes.hpp).  Two of them have grown with the versions of the
  Milan specification: their readers look at the length to know which version wrote them.

  \<^verbatim>\<open>checkResponsePayload\<close> and the exceptions are the same code as those of the AEM payloads.
\<close>

abbreviation (input) AecpMvuGetMilanInfoCommandPayloadSize :: nat where
  "AecpMvuGetMilanInfoCommandPayloadSize \<equiv> 2"
abbreviation (input) AecpMvuGetMilanInfo12ResponsePayloadSize :: nat where
  "AecpMvuGetMilanInfo12ResponsePayloadSize \<equiv> 14"
abbreviation (input) AecpMvuGetMilanInfo13ResponsePayloadSize :: nat where
  "AecpMvuGetMilanInfo13ResponsePayloadSize \<equiv> 18"
abbreviation (input) AecpMvuSetSystemUniqueID12CommandPayloadSize :: nat where
  "AecpMvuSetSystemUniqueID12CommandPayloadSize \<equiv> 6"
abbreviation (input) AecpMvuSetSystemUniqueID13CommandPayloadSize :: nat where
  "AecpMvuSetSystemUniqueID13CommandPayloadSize \<equiv> 74"
abbreviation (input) AecpMvuGetSystemUniqueIDCommandPayloadSize :: nat where
  "AecpMvuGetSystemUniqueIDCommandPayloadSize \<equiv> 2"
abbreviation (input) AecpMvuSetMediaClockReferenceInfoCommandPayloadSize :: nat where
  "AecpMvuSetMediaClockReferenceInfoCommandPayloadSize \<equiv> 74"
abbreviation (input) AecpMvuGetMediaClockReferenceInfoCommandPayloadSize :: nat where
  "AecpMvuGetMediaClockReferenceInfoCommandPayloadSize \<equiv> 2"
abbreviation (input) AecpMvuBindStreamCommandPayloadSize :: nat where
  "AecpMvuBindStreamCommandPayloadSize \<equiv> 18"
abbreviation (input) AecpMvuUnbindStreamCommandPayloadSize :: nat where
  "AecpMvuUnbindStreamCommandPayloadSize \<equiv> 6"
abbreviation (input) AecpMvuGetStreamInputInfoExCommandPayloadSize :: nat where
  "AecpMvuGetStreamInputInfoExCommandPayloadSize \<equiv> 6"
abbreviation (input) AecpMvuGetStreamInputInfoExResponsePayloadSize :: nat where
  "AecpMvuGetStreamInputInfoExResponsePayloadSize \<equiv> 18"

section \<open>Milan information\<close>

record milan_info =
  mi_protocolVersion :: "32 word"
  mi_featuresFlags :: "32 word"
  mi_certificationVersion :: "32 word"
  mi_specificationVersion :: "32 word"

definition MilanVersion_new :: "8 word \<Rightarrow> 8 word \<Rightarrow> 8 word \<Rightarrow> 8 word \<Rightarrow> 32 word" where
  "MilanVersion_new majorVersion minorVersion patchVersion buildVersion =
     push_bit 24 (ucast majorVersion) OR push_bit 16 (ucast minorVersion) OR push_bit 8 (ucast patchVersion)
       OR ucast buildVersion"

definition serializeGetMilanInfoCommand :: "byte list option" where
  "serializeGetMilanInfoCommand = serialized AecpMvuGetMilanInfoCommandPayloadSize [u16 0]"

definition deserializeGetMilanInfoCommand :: "byte list \<Rightarrow> unit outcome" where
  "deserializeGetMilanInfoCommand payload =
     unpack_payload AecpMvuGetMilanInfoCommandPayloadSize payload (\<lambda>d. do {
       (reserved16, d) \<leftarrow> get16 d;
       Some ()
     })"

definition serializeGetMilanInfoResponse :: "milan_info \<Rightarrow> byte list option" where
  "serializeGetMilanInfoResponse info =
     serialized AecpMvuGetMilanInfo13ResponsePayloadSize
       [u16 0, u32 (mi_protocolVersion info), u32 (mi_featuresFlags info), u32 (mi_certificationVersion info),
        u32 (mi_specificationVersion info)]"

definition read_milan_info :: "nat \<Rightarrow> deserializer \<Rightarrow> milan_info option" where
  "read_milan_info commandPayloadLength d = do {
     (reserved16, d) \<leftarrow> get16 d;
     (protocolVersion, d) \<leftarrow> get32 d;
     (featuresFlags, d) \<leftarrow> get32 d;
     (certificationVersion, d) \<leftarrow> get32 d;
     let info = \<lparr>mi_protocolVersion = protocolVersion, mi_featuresFlags = featuresFlags,
                 mi_certificationVersion = certificationVersion, mi_specificationVersion = 0\<rparr>;
     if commandPayloadLength \<ge> AecpMvuGetMilanInfo13ResponsePayloadSize
     then do {
       (specificationVersion, d) \<leftarrow> get32 d;
       Some (info\<lparr>mi_specificationVersion := specificationVersion\<rparr>)
     }
     else if protocolVersion = 1
     then Some (info\<lparr>mi_specificationVersion := MilanVersion_new 1 2 0 0\<rparr>)
     else Some info
   }"

definition deserializeGetMilanInfoResponse :: "command_status \<Rightarrow> byte list \<Rightarrow> milan_info outcome" where
  "deserializeGetMilanInfoResponse status payload =
     obind (checkResponsePayload payload status AecpMvuGetMilanInfoCommandPayloadSize
              AecpMvuGetMilanInfo12ResponsePayloadSize)
       (\<lambda>_. of_buffer (read_milan_info (length payload) (deser_new payload)))"

section \<open>System unique ID\<close>

definition serializeSetSystemUniqueIDCommand :: "uid \<Rightarrow> fixed_string \<Rightarrow> byte list option" where
  "serializeSetSystemUniqueIDCommand systemUniqueID systemName =
     serialized AecpMvuSetSystemUniqueID13CommandPayloadSize [u16 0, u64 systemUniqueID, fixed systemName]"

text \<open>Of a payload between the two sizes nothing is read: the values are those of the constructors.\<close>

definition deserializeSetSystemUniqueIDCommand :: "byte list \<Rightarrow> (uid \<times> fixed_string) outcome" where
  "deserializeSetSystemUniqueIDCommand payload =
     unpack_payload AecpMvuSetSystemUniqueID12CommandPayloadSize payload (\<lambda>d. do {
       (reserved16, d) \<leftarrow> get16 d;
       if length payload = AecpMvuSetSystemUniqueID12CommandPayloadSize
       then do {
         (systemUniqueID_milan12, d) \<leftarrow> get32 d;
         Some (ucast systemUniqueID_milan12, 0)
       }
       else if length payload \<ge> AecpMvuSetSystemUniqueID13CommandPayloadSize
       then do {
         (systemUniqueID, d) \<leftarrow> get64 d;
         (systemName, d) \<leftarrow> get_fixed d;
         Some (systemUniqueID, systemName)
       }
       else Some (uid_uninitialized, 0)
     })"

definition serializeSetSystemUniqueIDResponse :: "uid \<Rightarrow> fixed_string \<Rightarrow> byte list option" where
  "serializeSetSystemUniqueIDResponse = serializeSetSystemUniqueIDCommand"

definition deserializeSetSystemUniqueIDResponse :: "command_status \<Rightarrow> byte list \<Rightarrow> (uid \<times> fixed_string) outcome" where
  "deserializeSetSystemUniqueIDResponse status payload =
     obind (checkResponsePayload payload status AecpMvuSetSystemUniqueID12CommandPayloadSize
              AecpMvuSetSystemUniqueID12CommandPayloadSize)
       (\<lambda>_. deserializeSetSystemUniqueIDCommand payload)"

definition serializeGetSystemUniqueIDCommand :: "byte list option" where
  "serializeGetSystemUniqueIDCommand = serialized AecpMvuGetSystemUniqueIDCommandPayloadSize [u16 0]"

definition serializeGetSystemUniqueIDResponse :: "uid \<Rightarrow> fixed_string \<Rightarrow> byte list option" where
  "serializeGetSystemUniqueIDResponse = serializeSetSystemUniqueIDCommand"

definition deserializeGetSystemUniqueIDResponse :: "command_status \<Rightarrow> byte list \<Rightarrow> (uid \<times> fixed_string) outcome" where
  "deserializeGetSystemUniqueIDResponse status payload =
     obind (checkResponsePayload payload status AecpMvuGetSystemUniqueIDCommandPayloadSize
              AecpMvuSetSystemUniqueID12CommandPayloadSize)
       (\<lambda>_. deserializeSetSystemUniqueIDCommand payload)"

section \<open>Media clock reference\<close>

definition serializeSetMediaClockReferenceInfoCommand ::
  "16 word \<Rightarrow> 8 word \<Rightarrow> 8 word \<Rightarrow> 8 word \<Rightarrow> fixed_string \<Rightarrow> byte list option"
where
  "serializeSetMediaClockReferenceInfoCommand clockDomainIndex flags defaultMcrPrio userMcrPrio domainName =
     serialized AecpMvuSetMediaClockReferenceInfoCommandPayloadSize
       [u16 clockDomainIndex, u8 flags, u8 0, u8 defaultMcrPrio, u8 userMcrPrio, u32 0, fixed domainName]"

definition deserializeSetMediaClockReferenceInfoCommand ::
  "byte list \<Rightarrow> (16 word \<times> 8 word \<times> 8 word \<times> 8 word \<times> fixed_string) outcome"
where
  "deserializeSetMediaClockReferenceInfoCommand payload =
     unpack_payload AecpMvuSetMediaClockReferenceInfoCommandPayloadSize payload (\<lambda>d. do {
       (clockDomainIndex, d) \<leftarrow> get16 d;
       (flags, d) \<leftarrow> get8 d;
       (reserved8, d) \<leftarrow> get8 d;
       (defaultMcrPrio, d) \<leftarrow> get8 d;
       (userMcrPrio, d) \<leftarrow> get8 d;
       (reserved32, d) \<leftarrow> get32 d;
       (domainName, d) \<leftarrow> get_fixed d;
       Some (clockDomainIndex, flags, defaultMcrPrio, userMcrPrio, domainName)
     })"

definition serializeSetMediaClockReferenceInfoResponse ::
  "16 word \<Rightarrow> 8 word \<Rightarrow> 8 word \<Rightarrow> 8 word \<Rightarrow> fixed_string \<Rightarrow> byte list option"
where
  "serializeSetMediaClockReferenceInfoResponse = serializeSetMediaClockReferenceInfoCommand"

definition deserializeSetMediaClockReferenceInfoResponse ::
  "command_status \<Rightarrow> byte list \<Rightarrow> (16 word \<times> 8 word \<times> 8 word \<times> 8 word \<times> fixed_string) outcome"
where
  "deserializeSetMediaClockReferenceInfoResponse status payload =
     obind (checkResponsePayload payload status AecpMvuSetMediaClockReferenceInfoCommandPayloadSize
              AecpMvuSetMediaClockReferenceInfoCommandPayloadSize)
       (\<lambda>_. deserializeSetMediaClockReferenceInfoCommand payload)"

definition serializeGetMediaClockReferenceInfoCommand :: "16 word \<Rightarrow> byte list option" where
  "serializeGetMediaClockReferenceInfoCommand clockDomainIndex =
     serialized AecpMvuGetMediaClockReferenceInfoCommandPayloadSize [u16 clockDomainIndex]"

definition deserializeGetMediaClockReferenceInfoCommand :: "byte list \<Rightarrow> 16 word outcome" where
  "deserializeGetMediaClockReferenceInfoCommand payload =
     unpack_payload AecpMvuGetMediaClockReferenceInfoCommandPayloadSize payload (\<lambda>d. do {
       (clockDomainIndex, d) \<leftarrow> get16 d;
       Some clockDomainIndex
     })"

definition serializeGetMediaClockReferenceInfoResponse ::
  "16 word \<Rightarrow> 8 word \<Rightarrow> 8 word \<Rightarrow> 8 word \<Rightarrow> fixed_string \<Rightarrow> byte list option"
where
  "serializeGetMediaClockReferenceInfoResponse = serializeSetMediaClockReferenceInfoCommand"

definition deserializeGetMediaClockReferenceInfoResponse ::
  "command_status \<Rightarrow> byte list \<Rightarrow> (16 word \<times> 8 word \<times> 8 word \<times> 8 word \<times> fixed_string) outcome"
where
  "deserializeGetMediaClockReferenceInfoResponse status payload =
     obind (checkResponsePayload payload status AecpMvuGetMediaClockReferenceInfoCommandPayloadSize
              AecpMvuSetMediaClockReferenceInfoCommandPayloadSize)
       (\<lambda>_. deserializeSetMediaClockReferenceInfoCommand payload)"

section \<open>Binding of streams\<close>

definition serializeBindStreamCommand ::
  "16 word \<Rightarrow> descriptor_type \<Rightarrow> descriptor_index \<Rightarrow> uid \<Rightarrow> descriptor_index \<Rightarrow> byte list option"
where
  "serializeBindStreamCommand flags descriptorType descriptorIndex talkerEntityID talkerStreamIndex =
     serialized AecpMvuBindStreamCommandPayloadSize
       [u16 flags, u16 descriptorType, u16 descriptorIndex, u64 talkerEntityID, u16 talkerStreamIndex, u16 0]"

definition deserializeBindStreamCommand ::
  "byte list \<Rightarrow> (16 word \<times> descriptor_type \<times> descriptor_index \<times> uid \<times> descriptor_index) outcome"
where
  "deserializeBindStreamCommand payload =
     unpack_payload AecpMvuBindStreamCommandPayloadSize payload (\<lambda>d. do {
       (flags, d) \<leftarrow> get16 d;
       (descriptorType, d) \<leftarrow> get16 d;
       (descriptorIndex, d) \<leftarrow> get16 d;
       (talkerEntityID, d) \<leftarrow> get64 d;
       (talkerStreamIndex, d) \<leftarrow> get16 d;
       (reserved16, d) \<leftarrow> get16 d;
       Some (flags, descriptorType, descriptorIndex, talkerEntityID, talkerStreamIndex)
     })"

definition serializeBindStreamResponse ::
  "16 word \<Rightarrow> descriptor_type \<Rightarrow> descriptor_index \<Rightarrow> uid \<Rightarrow> descriptor_index \<Rightarrow> byte list option"
where
  "serializeBindStreamResponse = serializeBindStreamCommand"

definition deserializeBindStreamResponse ::
  "command_status \<Rightarrow> byte list \<Rightarrow> (16 word \<times> descriptor_type \<times> descriptor_index \<times> uid \<times> descriptor_index) outcome"
where
  "deserializeBindStreamResponse status payload =
     obind (checkResponsePayload payload status AecpMvuBindStreamCommandPayloadSize AecpMvuBindStreamCommandPayloadSize)
       (\<lambda>_. deserializeBindStreamCommand payload)"

definition serializeUnbindStreamCommand :: "descriptor_type \<Rightarrow> descriptor_index \<Rightarrow> byte list option" where
  "serializeUnbindStreamCommand descriptorType descriptorIndex =
     serialized AecpMvuUnbindStreamCommandPayloadSize [u16 0, u16 descriptorType, u16 descriptorIndex]"

definition deserializeUnbindStreamCommand :: "byte list \<Rightarrow> (descriptor_type \<times> descriptor_index) outcome" where
  "deserializeUnbindStreamCommand payload =
     unpack_payload AecpMvuUnbindStreamCommandPayloadSize payload (\<lambda>d. do {
       (reserved16, d) \<leftarrow> get16 d;
       (descriptorType, d) \<leftarrow> get16 d;
       (descriptorIndex, d) \<leftarrow> get16 d;
       Some (descriptorType, descriptorIndex)
     })"

definition serializeUnbindStreamResponse :: "descriptor_type \<Rightarrow> descriptor_index \<Rightarrow> byte list option" where
  "serializeUnbindStreamResponse = serializeUnbindStreamCommand"

definition deserializeUnbindStreamResponse ::
  "command_status \<Rightarrow> byte list \<Rightarrow> (descriptor_type \<times> descriptor_index) outcome"
where
  "deserializeUnbindStreamResponse status payload =
     obind (checkResponsePayload payload status AecpMvuUnbindStreamCommandPayloadSize AecpMvuUnbindStreamCommandPayloadSize)
       (\<lambda>_. deserializeUnbindStreamCommand payload)"

section \<open>Extended information of a stream input\<close>

record stream_identification =
  sid_entityID :: uid
  sid_streamIndex :: "16 word"

definition StreamIdentification_new :: stream_identification where
  "StreamIdentification_new = \<lparr>sid_entityID = uid_uninitialized, sid_streamIndex = 0xFFFF\<rparr>"

record stream_input_info_ex =
  six_talkerStream :: stream_identification
  six_probingStatus :: "8 word"
  six_acmpStatus :: "8 word"

definition StreamInputInfoEx_new :: stream_input_info_ex where
  "StreamInputInfoEx_new =
     \<lparr>six_talkerStream = StreamIdentification_new, six_probingStatus = 0, six_acmpStatus = 0\<rparr>"

definition serializeGetStreamInputInfoExCommand :: "descriptor_type \<Rightarrow> descriptor_index \<Rightarrow> byte list option" where
  "serializeGetStreamInputInfoExCommand descriptorType descriptorIndex =
     serialized AecpMvuGetStreamInputInfoExCommandPayloadSize [u16 0, u16 descriptorType, u16 descriptorIndex]"

definition deserializeGetStreamInputInfoExCommand :: "byte list \<Rightarrow> (descriptor_type \<times> descriptor_index) outcome" where
  "deserializeGetStreamInputInfoExCommand payload =
     unpack_payload AecpMvuGetStreamInputInfoExCommandPayloadSize payload (\<lambda>d. do {
       (reserved16, d) \<leftarrow> get16 d;
       (descriptorType, d) \<leftarrow> get16 d;
       (descriptorIndex, d) \<leftarrow> get16 d;
       Some (descriptorType, descriptorIndex)
     })"

definition serializeGetStreamInputInfoExResponse ::
  "descriptor_type \<Rightarrow> descriptor_index \<Rightarrow> stream_input_info_ex \<Rightarrow> byte list option"
where
  "serializeGetStreamInputInfoExResponse descriptorType descriptorIndex i =
     serialized AecpMvuGetStreamInputInfoExResponsePayloadSize
       [u16 0, u16 descriptorType, u16 descriptorIndex, u64 (sid_entityID (six_talkerStream i)),
        u16 (sid_streamIndex (six_talkerStream i)), u8 (pack_probing_acmp (six_probingStatus i) (six_acmpStatus i)), u8 0]"

definition read_stream_input_info_ex ::
  "deserializer \<Rightarrow> (descriptor_type \<times> descriptor_index \<times> stream_input_info_ex) option"
where
  "read_stream_input_info_ex d = do {
     (reserved16, d) \<leftarrow> get16 d;
     (descriptorType, d) \<leftarrow> get16 d;
     (descriptorIndex, d) \<leftarrow> get16 d;
     (entityID, d) \<leftarrow> get64 d;
     (streamIndex, d) \<leftarrow> get16 d;
     (probing_acmp_status, d) \<leftarrow> get8 d;
     (reserved8, d) \<leftarrow> get8 d;
     Some (descriptorType, descriptorIndex,
       \<lparr>six_talkerStream = \<lparr>sid_entityID = entityID, sid_streamIndex = streamIndex\<rparr>,
        six_probingStatus = unpack_probing probing_acmp_status, six_acmpStatus = unpack_acmp probing_acmp_status\<rparr>)
   }"

definition deserializeGetStreamInputInfoExResponse ::
  "command_status \<Rightarrow> byte list \<Rightarrow> (descriptor_type \<times> descriptor_index \<times> stream_input_info_ex) outcome"
where
  "deserializeGetStreamInputInfoExResponse status payload =
     obind (checkResponsePayload payload status AecpMvuGetStreamInputInfoExCommandPayloadSize
              AecpMvuGetStreamInputInfoExResponsePayloadSize)
       (\<lambda>_. of_buffer (read_stream_input_info_ex (deser_new payload)))"

section \<open>Contracts\<close>

interpretation SetMediaClockReferenceInfoCommand: payload_codec
    "\<lambda>(a, b, c, e, f). serializeSetMediaClockReferenceInfoCommand a b c e f"
    deserializeSetMediaClockReferenceInfoCommand AecpMvuSetMediaClockReferenceInfoCommandPayloadSize
  unfolding serializeSetMediaClockReferenceInfoCommand_def deserializeSetMediaClockReferenceInfoCommand_def
  by (rule payload_codec_fields [where chunks = "\<lambda>(a, b, c, e, f). [u16 a, u8 b, u8 0, u8 c, u8 e, u32 0, fixed f]"])
    (auto simp: payload_short)

interpretation GetMediaClockReferenceInfoCommand: payload_codec serializeGetMediaClockReferenceInfoCommand
    deserializeGetMediaClockReferenceInfoCommand AecpMvuGetMediaClockReferenceInfoCommandPayloadSize
  unfolding serializeGetMediaClockReferenceInfoCommand_def deserializeGetMediaClockReferenceInfoCommand_def
  by (rule payload_codec_fields [where chunks = "\<lambda>a. [u16 a]"]) (auto simp: payload_short)

interpretation BindStreamCommand: payload_codec
    "\<lambda>(a, b, c, e, f). serializeBindStreamCommand a b c e f" deserializeBindStreamCommand
    AecpMvuBindStreamCommandPayloadSize
  unfolding serializeBindStreamCommand_def deserializeBindStreamCommand_def
  by (rule payload_codec_fields [where chunks = "\<lambda>(a, b, c, e, f). [u16 a, u16 b, u16 c, u64 e, u16 f, u16 0]"])
    (auto simp: payload_short)

interpretation UnbindStreamCommand: payload_codec "\<lambda>(a, b). serializeUnbindStreamCommand a b"
    deserializeUnbindStreamCommand AecpMvuUnbindStreamCommandPayloadSize
  unfolding serializeUnbindStreamCommand_def deserializeUnbindStreamCommand_def
  by (rule payload_codec_fields [where chunks = "\<lambda>(a, b). [u16 0, u16 a, u16 b]"]) (auto simp: payload_short)

interpretation GetStreamInputInfoExCommand: payload_codec "\<lambda>(a, b). serializeGetStreamInputInfoExCommand a b"
    deserializeGetStreamInputInfoExCommand AecpMvuGetStreamInputInfoExCommandPayloadSize
  unfolding serializeGetStreamInputInfoExCommand_def deserializeGetStreamInputInfoExCommand_def
  by (rule payload_codec_fields [where chunks = "\<lambda>(a, b). [u16 0, u16 a, u16 b]"]) (auto simp: payload_short)

interpretation SetMediaClockReferenceInfoResponse: payload_response
    "\<lambda>(a, b, c, e, f). serializeSetMediaClockReferenceInfoResponse a b c e f"
    deserializeSetMediaClockReferenceInfoCommand AecpMvuSetMediaClockReferenceInfoCommandPayloadSize
    deserializeSetMediaClockReferenceInfoResponse AecpMvuSetMediaClockReferenceInfoCommandPayloadSize
  unfolding serializeSetMediaClockReferenceInfoResponse_def
  by (rule payload_responseI) (unfold_locales, simp add: deserializeSetMediaClockReferenceInfoResponse_def)

interpretation GetMediaClockReferenceInfoResponse: payload_response
    "\<lambda>(a, b, c, e, f). serializeGetMediaClockReferenceInfoResponse a b c e f"
    deserializeSetMediaClockReferenceInfoCommand AecpMvuSetMediaClockReferenceInfoCommandPayloadSize
    deserializeGetMediaClockReferenceInfoResponse AecpMvuGetMediaClockReferenceInfoCommandPayloadSize
  unfolding serializeGetMediaClockReferenceInfoResponse_def
  by (rule payload_responseI) (unfold_locales, simp add: deserializeGetMediaClockReferenceInfoResponse_def)

interpretation BindStreamResponse: payload_response
    "\<lambda>(a, b, c, e, f). serializeBindStreamResponse a b c e f" deserializeBindStreamCommand
    AecpMvuBindStreamCommandPayloadSize deserializeBindStreamResponse AecpMvuBindStreamCommandPayloadSize
  unfolding serializeBindStreamResponse_def
  by (rule payload_responseI) (unfold_locales, simp add: deserializeBindStreamResponse_def)

interpretation UnbindStreamResponse: payload_response
    "\<lambda>(a, b). serializeUnbindStreamResponse a b" deserializeUnbindStreamCommand
    AecpMvuUnbindStreamCommandPayloadSize deserializeUnbindStreamResponse AecpMvuUnbindStreamCommandPayloadSize
  unfolding serializeUnbindStreamResponse_def
  by (rule payload_responseI) (unfold_locales, simp add: deserializeUnbindStreamResponse_def)

section \<open>Lemmas\<close>

lemma milan_info_read:
  assumes "serializeGetMilanInfoResponse info = Some bs" and "status \<noteq> Status_NotImplemented"
  shows "deserializeGetMilanInfoResponse status (bs @ pad) = Inr info"
  using assms by (cases info) (auto simp: serializeGetMilanInfoResponse_def serialized_Some_iff
      deserializeGetMilanInfoResponse_def checkResponsePayload_implemented read_milan_info_def)

text \<open>An answer of Milan 1.2 tells its version by the protocol version only.\<close>

lemma milan_info_12_read:
  assumes "status \<noteq> Status_NotImplemented"
  shows "deserializeGetMilanInfoResponse status (u16 0 @ u32 1 @ u32 features @ u32 certification) =
    Inr \<lparr>mi_protocolVersion = 1, mi_featuresFlags = features, mi_certificationVersion = certification,
         mi_specificationVersion = 0x01020000\<rparr>"
  using assms by (simp add: deserializeGetMilanInfoResponse_def checkResponsePayload_implemented read_milan_info_def
      MilanVersion_new_def)

lemma system_unique_id_read:
  assumes "serializeSetSystemUniqueIDResponse i name = Some bs"
  shows "status \<noteq> Status_NotImplemented \<Longrightarrow> deserializeSetSystemUniqueIDResponse status (bs @ pad) = Inr (i, name)"
    and "status \<noteq> Status_NotImplemented \<Longrightarrow> deserializeGetSystemUniqueIDResponse status (bs @ pad) = Inr (i, name)"
  using assms by (auto simp: serializeSetSystemUniqueIDResponse_def serializeSetSystemUniqueIDCommand_def
      serialized_Some_iff deserializeSetSystemUniqueIDResponse_def deserializeGetSystemUniqueIDResponse_def
      checkResponsePayload_implemented deserializeSetSystemUniqueIDCommand_def unpack_payload_def)

text \<open>
  A refusal of SET_SYSTEM_UNIQUE_ID reflects the command, but the check expects the command of Milan 1.2:
  that of the library itself is taken for a malformed answer.
\<close>

lemma system_unique_id_refused:
  assumes "serializeSetSystemUniqueIDCommand i name = Some bs"
  shows "deserializeSetSystemUniqueIDResponse Status_NotImplemented bs = Inl IncorrectPayloadSize"
  using assms by (auto simp: serializeSetSystemUniqueIDCommand_def serialized_Some_iff
      deserializeSetSystemUniqueIDResponse_def)

lemma stream_input_info_ex_read:
  assumes "serializeGetStreamInputInfoExResponse descriptorType descriptorIndex i = Some bs"
    and "status \<noteq> Status_NotImplemented" and "six_probingStatus i < 8" and "six_acmpStatus i < 32"
  shows "deserializeGetStreamInputInfoExResponse status (bs @ pad) = Inr (descriptorType, descriptorIndex, i)"
  using assms by (cases i) (auto simp: serializeGetStreamInputInfoExResponse_def serialized_Some_iff
      deserializeGetStreamInputInfoExResponse_def checkResponsePayload_implemented read_stream_input_info_ex_def
      unpack_pack_probing_acmp narrow_and)

end
