(* ===== verification/AdpMessages.thy ===== *)
theory AdpMessages
  imports Entity
begin

text \<open>
  The ADP messages of the state machines: the static methods of \<^verbatim>\<open>Manager\<close> that build them
  (src/stateMachine/stateMachineManager.cpp) and \<^verbatim>\<open>DiscoveryStateMachine::makeEntity\<close>, which rebuilds
  an entity from a received one (src/stateMachine/discoveryStateMachine.cpp).
\<close>

unbundle bit_operations_syntax

definition AdpMessageType_EntityAvailable :: "8 word" where "AdpMessageType_EntityAvailable = 0"
definition AdpMessageType_EntityDeparting :: "8 word" where "AdpMessageType_EntityDeparting = 1"
definition AdpMessageType_EntityDiscover :: "8 word" where "AdpMessageType_EntityDiscover = 2"

definition Adpdu_Multicast_Mac_Address :: mac_address where
  "Adpdu_Multicast_Mac_Address = 0x91e0f0010000"

definition makeDiscoveryMessage :: "mac_address \<Rightarrow> uid \<Rightarrow> adpdu" where
  "makeDiscoveryMessage sourceMacAddress targetEntityID = Adpdu_new
    \<lparr>m_srcAddress := sourceMacAddress, m_destAddress := Adpdu_Multicast_Mac_Address,
     m_controlData := AdpMessageType_EntityDiscover, m_status := 0, m_streamID := targetEntityID,
     m_entityModelID := uid_null, m_entityCapabilities := 0, m_talkerStreamSources := 0,
     m_talkerCapabilities := 0, m_listenerStreamSinks := 0, m_listenerCapabilities := 0,
     m_controllerCapabilities := 0, m_availableIndex := 0, m_gptpGrandmasterID := uid_null,
     m_gptpDomainNumber := 0, m_identifyControlIndex := 0, m_interfaceIndex := 0,
     m_associationID := uid_null\<rparr>"

text \<open>
  The capabilities announced: each flag that says a field is valid is set or cleared with the field.
\<close>

definition flag_with :: "32 word \<Rightarrow> bool \<Rightarrow> 32 word \<Rightarrow> 32 word" where
  "flag_with flag present caps = (if present then bits_set flag caps else bits_reset flag caps)"

definition announced_capabilities :: "interface_index \<Rightarrow> entity \<Rightarrow> interface_information \<Rightarrow> 32 word" where
  "announced_capabilities i en info =
     flag_with EntityCapability_GptpSupported (ii_gptpGrandmasterID info \<noteq> None)
       (flag_with EntityCapability_AssociationIDValid (ei_associationID (en_common en) \<noteq> None)
         (flag_with EntityCapability_AemInterfaceIndexValid (i \<noteq> GlobalAvbInterfaceIndex)
           (flag_with EntityCapability_AemIdentifyControlIndexValid (ei_identifyControlIndex (en_common en) \<noteq> None)
             (ei_entityCapabilities (en_common en)))))"

definition value_or :: "'a \<Rightarrow> 'a option \<Rightarrow> 'a" where
  "value_or d x = (case x of None \<Rightarrow> d | Some y \<Rightarrow> y)"

text \<open>
  The message and the entity, whose available index the message increments; None is the exception of
  \<^verbatim>\<open>getInterfaceInformation\<close>.
\<close>

definition makeEntityAvailableMessage :: "entity \<Rightarrow> interface_index \<Rightarrow> (adpdu \<times> entity) option" where
  "makeEntityAvailableMessage en i =
     Option.bind (getInterfaceInformation i en) (\<lambda>info.
       let common = en_common en in
       Some (Adpdu_new
        \<lparr>m_srcAddress := ii_macAddress info, m_destAddress := Adpdu_Multicast_Mac_Address,
         m_controlData := AdpMessageType_EntityAvailable, m_status := ii_validTime info,
         m_streamID := ei_entityID common, m_entityModelID := ei_entityModelID common,
         m_entityCapabilities := announced_capabilities i en info,
         m_talkerStreamSources := ei_talkerStreamSources common,
         m_talkerCapabilities := ei_talkerCapabilities common,
         m_listenerStreamSinks := ei_listenerStreamSinks common,
         m_listenerCapabilities := ei_listenerCapabilities common,
         m_controllerCapabilities := ei_controllerCapabilities common,
         m_availableIndex := ii_availableIndex info,
         m_gptpGrandmasterID := value_or uid_null (ii_gptpGrandmasterID info),
         m_gptpDomainNumber := (if ii_gptpGrandmasterID info = None then 0 else value_or 0 (ii_gptpDomainNumber info)),
         m_identifyControlIndex := value_or 0 (ei_identifyControlIndex common),
         m_interfaceIndex := (if i \<noteq> GlobalAvbInterfaceIndex then i else 0),
         m_associationID := value_or uid_null (ei_associationID common)\<rparr>,
        setInterfaceInformation i (info\<lparr>ii_availableIndex := ii_availableIndex info + 1\<rparr>) en))"

definition makeEntityDepartingMessage :: "entity \<Rightarrow> interface_index \<Rightarrow> adpdu option" where
  "makeEntityDepartingMessage en i =
     Option.bind (getInterfaceInformation i en) (\<lambda>info.
       Some (Adpdu_new
        \<lparr>m_srcAddress := ii_macAddress info, m_destAddress := Adpdu_Multicast_Mac_Address,
         m_controlData := AdpMessageType_EntityDeparting, m_status := 0,
         m_streamID := getEntityID en, m_entityModelID := uid_null,
         m_entityCapabilities :=
           (if i \<noteq> GlobalAvbInterfaceIndex then bits_set EntityCapability_AemInterfaceIndexValid 0 else 0),
         m_talkerStreamSources := 0, m_talkerCapabilities := 0, m_listenerStreamSinks := 0,
         m_listenerCapabilities := 0, m_controllerCapabilities := 0, m_availableIndex := 0,
         m_gptpGrandmasterID := uid_null, m_gptpDomainNumber := 0, m_identifyControlIndex := 0,
         m_interfaceIndex := (if i \<noteq> GlobalAvbInterfaceIndex then i else 0),
         m_associationID := uid_null\<rparr>))"

definition makeEntity :: "adpdu \<Rightarrow> entity" where
  "makeEntity p =
     (let entityCaps = m_entityCapabilities p;
          controlIndex = (if bits_test EntityCapability_AemIdentifyControlIndexValid entityCaps
                          then Some (m_identifyControlIndex p) else None);
          associationID = (if bits_test EntityCapability_AssociationIDValid entityCaps
                           then Some (m_associationID p) else None);
          avbInterfaceIndex = (if bits_test EntityCapability_AemInterfaceIndexValid entityCaps
                               then m_interfaceIndex p else GlobalAvbInterfaceIndex);
          gptpSupported = bits_test EntityCapability_GptpSupported entityCaps
      in \<lparr>en_common =
            \<lparr>ei_entityID = m_streamID p, ei_entityModelID = m_entityModelID p,
             ei_entityCapabilities = entityCaps,
             ei_talkerStreamSources = m_talkerStreamSources p, ei_talkerCapabilities = m_talkerCapabilities p,
             ei_listenerStreamSinks = m_listenerStreamSinks p, ei_listenerCapabilities = m_listenerCapabilities p,
             ei_controllerCapabilities = m_controllerCapabilities p,
             ei_identifyControlIndex = controlIndex, ei_associationID = associationID\<rparr>,
          en_interfaces = [(avbInterfaceIndex,
            \<lparr>ii_macAddress = m_srcAddress p, ii_validTime = m_status p, ii_availableIndex = m_availableIndex p,
             ii_gptpGrandmasterID = (if gptpSupported then Some (m_gptpGrandmasterID p) else None),
             ii_gptpDomainNumber = (if gptpSupported then Some (m_gptpDomainNumber p) else None)\<rparr>)]\<rparr>)"

section \<open>An announcement is discovered as the entity announced\<close>

text \<open>
  What a receiver knows of an entity from its announcement on one interface: the entity itself with
  that interface only, the flags of the capabilities made consistent with the fields present, and a
  domain number exactly when there is a grandmaster.
\<close>

definition seen_on :: "interface_index \<Rightarrow> interface_information \<Rightarrow> entity \<Rightarrow> entity" where
  "seen_on i info en =
     \<lparr>en_common = (en_common en)\<lparr>ei_entityCapabilities := announced_capabilities i en info\<rparr>,
      en_interfaces = [(i, info\<lparr>ii_gptpDomainNumber :=
        (if ii_gptpGrandmasterID info = None then None else Some (value_or 0 (ii_gptpDomainNumber info)))\<rparr>)]\<rparr>"

lemma bits_test_exp: "bits_test (2 ^ n) c = bit c n"
  by (simp add: bits_test_def and_exp_eq_0_iff_not_bit)

lemma bit_flag_with: "n < 32 \<Longrightarrow> bit (flag_with (2 ^ n) b c) m = (if m = n then b else bit c m)"
  by (auto simp: flag_with_def bits_set_def bits_reset_def bit_simps dest: bit_imp_le_length)

lemma bits_test_capability:
  "bits_test EntityCapability_AssociationIDValid c = bit c 6"
  "bits_test EntityCapability_GptpSupported c = bit c 10"
  "bits_test EntityCapability_AemIdentifyControlIndexValid c = bit c 14"
  "bits_test EntityCapability_AemInterfaceIndexValid c = bit c 15"
  using bits_test_exp [of 6 c] bits_test_exp [of 10 c] bits_test_exp [of 14 c] bits_test_exp [of 15 c]
  by (simp_all add: EntityCapability_defs)

lemma bit_flag_capability:
  "bit (flag_with EntityCapability_AssociationIDValid b c) m = (if m = 6 then b else bit c m)"
  "bit (flag_with EntityCapability_GptpSupported b c) m = (if m = 10 then b else bit c m)"
  "bit (flag_with EntityCapability_AemIdentifyControlIndexValid b c) m = (if m = 14 then b else bit c m)"
  "bit (flag_with EntityCapability_AemInterfaceIndexValid b c) m = (if m = 15 then b else bit c m)"
  using bit_flag_with [of 6 b c m] bit_flag_with [of 10 b c m] bit_flag_with [of 14 b c m] bit_flag_with [of 15 b c m]
  by (simp_all add: EntityCapability_defs)

lemma announced_flags:
  "bits_test EntityCapability_GptpSupported (announced_capabilities i en info)
     = (ii_gptpGrandmasterID info \<noteq> None)"
  "bits_test EntityCapability_AssociationIDValid (announced_capabilities i en info)
     = (ei_associationID (en_common en) \<noteq> None)"
  "bits_test EntityCapability_AemInterfaceIndexValid (announced_capabilities i en info)
     = (i \<noteq> GlobalAvbInterfaceIndex)"
  "bits_test EntityCapability_AemIdentifyControlIndexValid (announced_capabilities i en info)
     = (ei_identifyControlIndex (en_common en) \<noteq> None)"
  by (simp_all add: announced_capabilities_def bits_test_capability bit_flag_capability)

lemma available_fields:
  assumes "makeEntityAvailableMessage en i = Some (p, en')" and "getInterfaceInformation i en = Some info"
  shows "m_srcAddress p = ii_macAddress info" "m_status p = ii_validTime info"
    "m_streamID p = ei_entityID (en_common en)" "m_entityModelID p = ei_entityModelID (en_common en)"
    "m_entityCapabilities p = announced_capabilities i en info"
    "m_talkerStreamSources p = ei_talkerStreamSources (en_common en)"
    "m_talkerCapabilities p = ei_talkerCapabilities (en_common en)"
    "m_listenerStreamSinks p = ei_listenerStreamSinks (en_common en)"
    "m_listenerCapabilities p = ei_listenerCapabilities (en_common en)"
    "m_controllerCapabilities p = ei_controllerCapabilities (en_common en)"
    "m_availableIndex p = ii_availableIndex info"
    "m_gptpGrandmasterID p = value_or uid_null (ii_gptpGrandmasterID info)"
    "m_gptpDomainNumber p = (if ii_gptpGrandmasterID info = None then 0 else value_or 0 (ii_gptpDomainNumber info))"
    "m_identifyControlIndex p = value_or 0 (ei_identifyControlIndex (en_common en))"
    "m_interfaceIndex p = (if i \<noteq> GlobalAvbInterfaceIndex then i else 0)"
    "m_associationID p = value_or uid_null (ei_associationID (en_common en))"
    "en' = setInterfaceInformation i (info\<lparr>ii_availableIndex := ii_availableIndex info + 1\<rparr>) en"
  using assms unfolding makeEntityAvailableMessage_def Let_def by (auto simp del: word_neq_0_conv)

lemma value_or_Some [simp]: "x \<noteq> None \<Longrightarrow> Some (value_or d x) = x"
  by (cases x) (simp_all add: value_or_def)

lemma makeEntity_available:
  assumes "makeEntityAvailableMessage en i = Some (p, en')" and "getInterfaceInformation i en = Some info"
  shows "makeEntity p = seen_on i info en"
proof (rule entity.equality)
  note fields = available_fields [OF assms]
  show "en_common (makeEntity p) = en_common (seen_on i info en)"
    by (rule common_information.equality)
       (simp_all add: makeEntity_def seen_on_def Let_def fields announced_flags del: not_None_eq)
  have "(if i \<noteq> GlobalAvbInterfaceIndex then if i \<noteq> GlobalAvbInterfaceIndex then i else 0 else GlobalAvbInterfaceIndex) = i"
    by simp
  then show "en_interfaces (makeEntity p) = en_interfaces (seen_on i info en)"
    by (cases info; cases "ii_gptpGrandmasterID info")
       (simp_all add: makeEntity_def seen_on_def Let_def fields announced_flags value_or_def)
qed simp

lemma five_bits:
  assumes "unat (v :: 8 word) < 32"
  shows "v AND 0x1f = v"
proof -
  have "unat (take_bit 5 v) = unat v"
    using assms by (simp add: unsigned_take_bit_eq take_bit_nat_eq_self)
  then show ?thesis
    by (simp add: take_bit_eq_mask mask_eq_exp_minus_1 word_unat_eq_iff)
qed

text \<open>What the wire makes of the domain number of an interface.\<close>

definition domain_collapsed :: "interface_information \<Rightarrow> interface_information" where
  "domain_collapsed info = info\<lparr>ii_gptpDomainNumber :=
     map_option (\<lambda>n. of_bool (n \<noteq> 0)) (ii_gptpDomainNumber info)\<rparr>"

lemma makeEntity_domain:
  "makeEntity (p\<lparr>m_gptpDomainNumber := n\<rparr>) =
     (makeEntity p)\<lparr>en_interfaces := map (\<lambda>(i, info). (i, info\<lparr>ii_gptpDomainNumber :=
        map_option (\<lambda>m. n) (ii_gptpDomainNumber info)\<rparr>)) (en_interfaces (makeEntity p))\<rparr>"
  by (simp add: makeEntity_def Let_def)

lemma announcement_frame:
  assumes info: "getInterfaceInformation i en = Some info" and "unat (ii_validTime info) < 32"
    and p: "makeEntityAvailableMessage en i = Some (p, en')"
  shows "\<exists>frame. Adpdu_frame p = Some frame
    \<and> Adpdu_receive opts p (drop EtherLayer2_HeaderLength frame @ pad)
        = Some (p\<lparr>m_gptpDomainNumber := of_bool (m_gptpDomainNumber p \<noteq> 0)\<rparr>)
    \<and> makeEntity (p\<lparr>m_gptpDomainNumber := of_bool (m_gptpDomainNumber p \<noteq> 0)\<rparr>)
        = seen_on i (domain_collapsed (info\<lparr>ii_gptpDomainNumber := Some (value_or 0 (ii_gptpDomainNumber info))\<rparr>)) en"
proof -
  note fields = available_fields [OF p info]
  have "control_fits p \<and> m_controlDataLength p = of_nat Adpdu_Length \<and> m_etherType p = AvtpEtherType"
    using p info assms(2) fields(2)
    by (auto simp: makeEntityAvailableMessage_def Let_def control_fits_def Adpdu_new_def AvtpSubType_Adp_def
        AvtpVersion_def AdpMessageType_EntityAvailable_def Adpdu_Length_def five_bits)
  then obtain frame where frame: "Adpdu_frame p = Some frame"
    "Adpdu_receive opts p (drop EtherLayer2_HeaderLength frame @ pad)
       = Some (p\<lparr>m_gptpDomainNumber := of_bool (m_gptpDomainNumber p \<noteq> 0)\<rparr>)"
    using adpdu_roundtrip_frame by blast
  have "makeEntity (p\<lparr>m_gptpDomainNumber := of_bool (m_gptpDomainNumber p \<noteq> 0)\<rparr>) =
      seen_on i (domain_collapsed (info\<lparr>ii_gptpDomainNumber := Some (value_or 0 (ii_gptpDomainNumber info))\<rparr>)) en"
    by (simp add: makeEntity_domain makeEntity_available [OF p info] seen_on_def domain_collapsed_def fields(13)
        announced_capabilities_def value_or_def)
  with frame show ?thesis by blast
qed

text \<open>
  C34.  A local entity is discovered as it is: its announcement on an interface, sent by the transport
  and received, with any trailing padding, is turned by the discovery into the same entity, with that
  interface only, the validity flags of its capabilities matching its optional fields, and the domain
  number collapsed to 0 or 1.  The only condition is the valid time fitting its five bits, which
  \<^verbatim>\<open>setValidTime\<close> ensures.
\<close>

theorem announcement_discovered:
  assumes info: "getInterfaceInformation i en = Some info" and "unat (ii_validTime info) < 32"
  shows "\<exists>p en' frame q. makeEntityAvailableMessage en i = Some (p, en') \<and> Adpdu_frame p = Some frame
    \<and> Adpdu_receive opts p (drop EtherLayer2_HeaderLength frame @ pad) = Some q
    \<and> makeEntity q = seen_on i (domain_collapsed (info\<lparr>ii_gptpDomainNumber :=
        Some (value_or 0 (ii_gptpDomainNumber info))\<rparr>)) en"
proof -
  obtain p en' where p: "makeEntityAvailableMessage en i = Some (p, en')"
    using info by (auto simp: makeEntityAvailableMessage_def Let_def)
  with announcement_frame [OF assms p] show ?thesis by blast
qed

definition sample_local :: entity where
  "sample_local =
     \<lparr>en_common = \<lparr>ei_entityID = 0x001b92fffe000001, ei_entityModelID = 0x001b92fffe0000aa,
        ei_entityCapabilities = 0x8508, ei_talkerStreamSources = 2, ei_talkerCapabilities = 1,
        ei_listenerStreamSinks = 4, ei_listenerCapabilities = 1, ei_controllerCapabilities = 0,
        ei_identifyControlIndex = Some 3, ei_associationID = None\<rparr>,
      en_interfaces = [(0, \<lparr>ii_macAddress = 0x001b92000001, ii_validTime = 31, ii_availableIndex = 8,
        ii_gptpGrandmasterID = Some 0x001b92fffe000009, ii_gptpDomainNumber = Some 5\<rparr>)]\<rparr>"

theorem announcement_discovered_witness:
  "\<exists>p en' frame q. makeEntityAvailableMessage sample_local 0 = Some (p, en') \<and> Adpdu_frame p = Some frame
    \<and> Adpdu_receive default_build p (drop EtherLayer2_HeaderLength frame) = Some q
    \<and> en_common (makeEntity q) = (en_common sample_local)\<lparr>ei_entityCapabilities := 0xc508\<rparr>"
proof -
  have "getInterfaceInformation 0 sample_local = Some (snd (hd (en_interfaces sample_local)))"
    by (simp add: getInterfaceInformation_def sample_local_def)
  from announcement_discovered [OF this, of default_build "[]"] show ?thesis
    by (auto simp: sample_local_def seen_on_def announced_capabilities_def flag_with_def bits_set_def
        bits_reset_def EntityCapability_defs GlobalAvbInterfaceIndex_def domain_collapsed_def)
qed

end
