(* ===== verification/DiscoveryStateMachine.thy ===== *)
theory DiscoveryStateMachine
  imports AdpMessages World
begin

text \<open>
  \<^verbatim>\<open>DiscoveryStateMachine\<close> (src/stateMachine/discoveryStateMachine.hpp and .cpp): the remote entities
  discovered, with a timeout for each interface they are announced on, and the time of the last
  discovery request.

  An operation returns the calls of its delegate's methods, in order, as events; the theory Manager
  applies them.  What the code asks of the manager (which entities are local, the MAC address of the
  protocol interface) is an argument.
\<close>

unbundle bit_operations_syntax

section \<open>State\<close>

record discovered_entity =
  de_entity :: entity
  de_timeouts :: "(interface_index, time) alist"

record discovery_sm =
  ds_entities :: "(entity_id, discovered_entity) alist"
  ds_discoveryDelay :: time
  ds_lastDiscovery :: time

datatype update_action = NoNotify | NotifyUpdate | NotifyOfflineOnline

definition discovery_new :: "world \<Rightarrow> discovery_sm \<times> world" where
  "discovery_new w = (let (t, w) = now w in
     (\<lparr>ds_entities = [], ds_discoveryDelay = 0, ds_lastDiscovery = t\<rparr>, w))"

section \<open>Discovery requests\<close>

definition setDiscoveryDelay :: "time \<Rightarrow> discovery_sm \<Rightarrow> world \<Rightarrow> discovery_sm \<times> world" where
  "setDiscoveryDelay delay ds w =
     (let (t, w) = now w in (ds\<lparr>ds_discoveryDelay := delay, ds_lastDiscovery := t\<rparr>, w))"

definition discoverMessageSent :: "discovery_sm \<Rightarrow> world \<Rightarrow> discovery_sm \<times> world" where
  "discoverMessageSent ds w = (let (t, w) = now w in (ds\<lparr>ds_lastDiscovery := t\<rparr>, w))"

text \<open>\<^verbatim>\<open>discoverRemoteEntity\<close> of the protocol interface (src/protocolInterface/protocolInterface_pcap.cpp).\<close>

definition discoverRemoteEntity ::
  "mac_address \<Rightarrow> uid \<Rightarrow> discovery_sm \<Rightarrow> world \<Rightarrow> error \<times> discovery_sm \<times> world"
where
  "discoverRemoteEntity macAddress entityID ds w =
     (let (err, w) = sendMessage (PAdp (makeDiscoveryMessage macAddress entityID)) w
      in if err = NoError then (err, discoverMessageSent ds w) else (err, ds, w))"

definition checkDiscovery :: "mac_address \<Rightarrow> discovery_sm \<Rightarrow> world \<Rightarrow> discovery_sm \<times> world" where
  "checkDiscovery macAddress ds w =
     (if ds_discoveryDelay ds = 0 then (ds, w)
      else let (t, w) = now w in
           if t \<ge> ds_lastDiscovery ds + ds_discoveryDelay ds
           then snd (discoverRemoteEntity macAddress uid_null (ds\<lparr>ds_lastDiscovery := t\<rparr>) w)
           else (ds, w))"

section \<open>Entities\<close>

definition forgetRemoteEntity :: "entity_id \<Rightarrow> discovery_sm \<Rightarrow> error \<times> discovery_sm \<times> event list" where
  "forgetRemoteEntity entityID ds =
     (case al_get entityID (ds_entities ds) of
        None \<Rightarrow> (UnknownRemoteEntity, ds, [])
      | Some _ \<Rightarrow> (NoError, ds\<lparr>ds_entities := al_del entityID (ds_entities ds)\<rparr>, [OnRemoteEntityOffline entityID]))"

text \<open>The loop over the timeouts of an entity: has one expired, the timeouts left and the entity.\<close>

primrec expire_interfaces ::
  "time \<Rightarrow> (interface_index, time) alist \<Rightarrow> entity \<Rightarrow> bool \<times> (interface_index, time) alist \<times> entity"
where
  "expire_interfaces t [] en = (False, [], en)"
| "expire_interfaces t (x # ts) en =
     (if t > snd x
      then let (_, ts, en) = expire_interfaces t ts (removeInterfaceInformation (fst x) en) in (True, ts, en)
      else let (b, ts, en) = expire_interfaces t ts en in (b, x # ts, en))"

definition check_remote_entity ::
  "time \<Rightarrow> entity_id \<Rightarrow> discovered_entity \<Rightarrow> discovered_entity option \<times> event list"
where
  "check_remote_entity t entityID de =
     (let (hasInterfaceTimeout, timeouts, en) = expire_interfaces t (de_timeouts de) (de_entity de);
          de = de\<lparr>de_entity := en, de_timeouts := timeouts\<rparr>
      in if hasInterfaceTimeout
         then if en_interfaces en = [] then (None, [OnRemoteEntityOffline entityID])
              else (Some de, [OnRemoteEntityUpdated en])
         else (Some de, []))"

primrec check_remote_entities ::
  "time \<Rightarrow> (entity_id, discovered_entity) alist \<Rightarrow> (entity_id, discovered_entity) alist \<times> event list"
where
  "check_remote_entities t [] = ([], [])"
| "check_remote_entities t (x # xs) =
     (let (de, evs) = check_remote_entity t (fst x) (snd x);
          (xs, evs') = check_remote_entities t xs
      in ((case de of None \<Rightarrow> xs | Some de \<Rightarrow> (fst x, de) # xs), evs @ evs'))"

definition checkRemoteEntitiesTimeoutExpiracy ::
  "discovery_sm \<Rightarrow> world \<Rightarrow> discovery_sm \<times> event list \<times> world"
where
  "checkRemoteEntitiesTimeoutExpiracy ds w =
     (let (t, w) = now w; (entities, evs) = check_remote_entities t (ds_entities ds)
      in (ds\<lparr>ds_entities := entities\<rparr>, evs, w))"

text \<open>
  \<^verbatim>\<open>updateEntity\<close>: merge the entity of a new announcement, which has exactly one interface, into the
  one known, and say what the upper layers have to be told.
\<close>

definition immutable_changed :: "common_information \<Rightarrow> common_information \<Rightarrow> bool" where
  "immutable_changed common new \<longleftrightarrow>
     \<not> uid_eq (ei_entityModelID common) (ei_entityModelID new)
     \<or> ei_talkerCapabilities common \<noteq> ei_talkerCapabilities new
     \<or> ei_talkerStreamSources common \<noteq> ei_talkerStreamSources new
     \<or> ei_listenerCapabilities common \<noteq> ei_listenerCapabilities new
     \<or> ei_listenerStreamSinks common \<noteq> ei_listenerStreamSinks new
     \<or> ei_controllerCapabilities common \<noteq> ei_controllerCapabilities new
     \<or> ei_identifyControlIndex common \<noteq> ei_identifyControlIndex new"

definition update_common :: "common_information \<Rightarrow> update_action \<Rightarrow> entity \<Rightarrow> update_action \<times> entity" where
  "update_common new result en =
     (let common = en_common en in
      if ei_entityCapabilities common \<noteq> ei_entityCapabilities new
         \<or> \<not> uid_option_eq (ei_associationID common) (ei_associationID new)
      then (NotifyUpdate, en\<lparr>en_common := common\<lparr>ei_entityCapabilities := ei_entityCapabilities new,
                                                    ei_associationID := ei_associationID new\<rparr>\<rparr>)
      else (result, en))"

definition updateEntity :: "entity \<Rightarrow> entity \<Rightarrow> update_action \<times> entity" where
  "updateEntity en newEntity =
     (let newCommon = en_common newEntity; (i, newInfo) = hd (en_interfaces newEntity) in
      if immutable_changed (en_common en) newCommon then (NotifyOfflineOnline, newEntity)
      else case al_get i (en_interfaces en) of
        Some info \<Rightarrow>
          if ii_macAddress info \<noteq> ii_macAddress newInfo \<or> ii_availableIndex info \<ge> ii_availableIndex newInfo
          then (NotifyOfflineOnline, newEntity)
          else let (result, info) =
                 (if \<not> uid_option_eq (ii_gptpGrandmasterID info) (ii_gptpGrandmasterID newInfo)
                     \<or> ii_gptpDomainNumber info \<noteq> ii_gptpDomainNumber newInfo
                  then (NotifyUpdate, info\<lparr>ii_gptpGrandmasterID := ii_gptpGrandmasterID newInfo,
                                           ii_gptpDomainNumber := ii_gptpDomainNumber newInfo\<rparr>)
                  else (NoNotify, info));
                 info = info\<lparr>ii_availableIndex := ii_availableIndex newInfo, ii_validTime := ii_validTime newInfo\<rparr>
               in update_common newCommon result (setInterfaceInformation i info en)
      | None \<Rightarrow> update_common newCommon NotifyUpdate (setInterfaceInformation i newInfo en))"

definition handleAdpEntityAvailable ::
  "(entity_id \<Rightarrow> bool) \<Rightarrow> adpdu \<Rightarrow> discovery_sm \<Rightarrow> world \<Rightarrow> discovery_sm \<times> event list \<times> world"
where
  "handleAdpEntityAvailable isLocalEntity p ds w =
     (if isLocalEntity (m_streamID p) then (ds, [], w)
      else if bits_test EntityCapability_EntityNotReady (m_entityCapabilities p) then (ds, [], w)
      else
        let entityID = m_streamID p;
            newEntity = makeEntity p;
            avbInterfaceIndex = fst (hd (en_interfaces newEntity));
            (action, de) = (case al_get entityID (ds_entities ds) of
               Some de \<Rightarrow> (let (action, en) = updateEntity (de_entity de) newEntity
                          in (Some action, de\<lparr>de_entity := en\<rparr>))
             | None \<Rightarrow> (None, \<lparr>de_entity = newEntity, de_timeouts = []\<rparr>));
            (t, w) = now w;
            timeout = t + ms (1000 * (2 * unat (m_status p)));
            de = de\<lparr>de_timeouts := al_put avbInterfaceIndex timeout (de_timeouts de)\<rparr>;
            evs = (case action of
               None \<Rightarrow> [OnRemoteEntityOnline (de_entity de)]
             | Some NoNotify \<Rightarrow> []
             | Some NotifyUpdate \<Rightarrow> [OnRemoteEntityUpdated (de_entity de)]
             | Some NotifyOfflineOnline \<Rightarrow> [OnRemoteEntityOffline entityID, OnRemoteEntityOnline (de_entity de)])
        in (ds\<lparr>ds_entities := al_put entityID de (ds_entities ds)\<rparr>, evs, w))"

definition handleAdpEntityDeparting ::
  "(entity_id \<Rightarrow> bool) \<Rightarrow> adpdu \<Rightarrow> discovery_sm \<Rightarrow> discovery_sm \<times> event list"
where
  "handleAdpEntityDeparting isLocalEntity p ds =
     (if isLocalEntity (m_streamID p) then (ds, []) else snd (forgetRemoteEntity (m_streamID p) ds))"

definition notifyDiscoveredRemoteEntities :: "discovery_sm \<Rightarrow> event list" where
  "notifyDiscoveredRemoteEntities ds = map (\<lambda>(i, de). OnRemoteEntityOnline (de_entity de)) (ds_entities ds)"

section \<open>Invariant\<close>

text \<open>
  A discovered entity is stored under its own identifier, has at least one interface, and each of its
  interfaces has a timeout.
\<close>

definition remote_ok :: "entity_id \<Rightarrow> discovered_entity \<Rightarrow> bool" where
  "remote_ok i de \<longleftrightarrow> getEntityID (de_entity de) = i \<and> om_ok (en_interfaces (de_entity de))
     \<and> en_interfaces (de_entity de) \<noteq> [] \<and> al_ok (de_timeouts de)
     \<and> set (al_keys (en_interfaces (de_entity de))) \<subseteq> set (al_keys (de_timeouts de))"

definition discovery_ok :: "discovery_sm \<Rightarrow> bool" where
  "discovery_ok ds \<longleftrightarrow> al_ok (ds_entities ds) \<and> (\<forall>x\<in>set (ds_entities ds). remote_ok (fst x) (snd x))"

lemma expire_interfaces_eq:
  "expire_interfaces t ts en =
     (\<exists>x\<in>set ts. t > snd x, filter (\<lambda>x. \<not> t > snd x) ts,
      en\<lparr>en_interfaces := filter (\<lambda>y. fst y \<notin> fst ` {x \<in> set ts. t > snd x}) (en_interfaces en)\<rparr>)"
proof (induction ts arbitrary: en)
  case Nil
  then show ?case by simp
next
  case (Cons x ts)
  have *: "{z. (z = x \<or> z \<in> set ts) \<and> snd z < t} = (if snd x < t then insert x {z \<in> set ts. snd z < t} else {z \<in> set ts. snd z < t})"
    by auto
  show ?case
    by (auto simp: Cons.IH removeInterfaceInformation_def al_del_def * intro!: filter_cong)
qed

lemma om_ok_filter: "om_ok es \<Longrightarrow> om_ok (filter P es)"
  unfolding om_ok_def by (induction es) auto

lemma al_ok_filter: "al_ok es \<Longrightarrow> al_ok (filter P es)"
  unfolding al_ok_def by (induction es) auto

lemma expired_keys:
  "al_ok ts \<Longrightarrow> fst ` {x \<in> set ts. t > snd x} = {k \<in> set (al_keys ts). \<forall>x\<in>set ts. fst x = k \<longrightarrow> t > snd x}"
  by (force simp: al_ok_def dest: eq_key_imp_eq_value)

lemma check_remote_entity_cases:
  assumes "check_remote_entity t i de = (de', evs)" and "remote_ok i de"
  shows "(de' = Some de \<and> evs = [] \<and> (\<forall>x\<in>set (de_timeouts de). \<not> t > snd x))
    \<or> (de' = None \<and> evs = [OnRemoteEntityOffline i])
    \<or> (\<exists>d. de' = Some d \<and> remote_ok i d \<and> evs = [OnRemoteEntityUpdated (de_entity d)]
         \<and> (\<forall>x\<in>set (de_timeouts d). \<not> t > snd x))"
proof -
  let ?gone = "fst ` {x \<in> set (de_timeouts de). t > snd x}"
  let ?ts = "filter (\<lambda>x. \<not> t > snd x) (de_timeouts de)"
  let ?en = "(de_entity de)\<lparr>en_interfaces := filter (\<lambda>y. fst y \<notin> ?gone) (en_interfaces (de_entity de))\<rparr>"
  show ?thesis
  proof (cases "\<exists>x\<in>set (de_timeouts de). t > snd x")
    case False
    then have "?ts = de_timeouts de" and gone: "?gone = {}" by (auto simp: filter_id_conv)
    then have "expire_interfaces t (de_timeouts de) (de_entity de) = (False, de_timeouts de, de_entity de)"
      unfolding expire_interfaces_eq gone using False by simp
    then show ?thesis
      using assms(1) False by (simp add: check_remote_entity_def)
  next
    case True
    show ?thesis
    proof (cases "en_interfaces ?en = []")
      case True
      then show ?thesis
        using assms(1) \<open>\<exists>x\<in>set (de_timeouts de). t > snd x\<close>
        by (auto simp: check_remote_entity_def expire_interfaces_eq)
    next
      case False
      let ?d = "de\<lparr>de_entity := ?en, de_timeouts := ?ts\<rparr>"
      have "de' = Some ?d" "evs = [OnRemoteEntityUpdated ?en]"
        using assms(1) True False by (auto simp: check_remote_entity_def expire_interfaces_eq)
      moreover have "remote_ok i ?d"
        using assms(2) False
        by (force simp: remote_ok_def getEntityID_def intro!: om_ok_filter al_ok_filter)
      ultimately show ?thesis by (intro disjI2 exI [of _ ?d]) simp
    qed
  qed
qed

section \<open>What the upper layers are told\<close>

text \<open>
  The notifications seen by an observer that keeps its own map of remote entities: it is an error
  (None) to be told that a known entity comes online, or that an unknown one goes offline or changes.
  The available index and the valid time are not part of what is observed: they change with every
  announcement and are for the state machine only.
\<close>

definition entity_view :: "entity \<Rightarrow> entity" where
  "entity_view en = en\<lparr>en_interfaces := map (\<lambda>(i, info). (i, info\<lparr>ii_validTime := 0, ii_availableIndex := 0\<rparr>))
     (en_interfaces en)\<rparr>"

fun observe :: "event \<Rightarrow> (entity_id \<rightharpoonup> entity) \<Rightarrow> (entity_id \<rightharpoonup> entity) option" where
  "observe (OnRemoteEntityOnline en) m =
     (if m (getEntityID en) = None then Some (m(getEntityID en \<mapsto> entity_view en)) else None)"
| "observe (OnRemoteEntityOffline i) m = (if m i = None then None else Some (m(i := None)))"
| "observe (OnRemoteEntityUpdated en) m =
     (if m (getEntityID en) = None then None else Some (m(getEntityID en \<mapsto> entity_view en)))"
| "observe ev m = Some m"

primrec observe_all :: "event list \<Rightarrow> (entity_id \<rightharpoonup> entity) \<Rightarrow> (entity_id \<rightharpoonup> entity) option" where
  "observe_all [] m = Some m"
| "observe_all (ev # evs) m = Option.bind (observe ev m) (observe_all evs)"

lemma observe_all_append: "observe_all (xs @ ys) m = Option.bind (observe_all xs m) (observe_all ys)"
proof (induction xs arbitrary: m)
  case (Cons ev xs)
  then show ?case by (cases "observe ev m") simp_all
qed simp

definition known_in :: "(entity_id, discovered_entity) alist \<Rightarrow> entity_id \<rightharpoonup> entity" where
  "known_in es i = map_option (\<lambda>de. entity_view (de_entity de)) (al_get i es)"

definition known :: "discovery_sm \<Rightarrow> entity_id \<rightharpoonup> entity" where
  "known ds = known_in (ds_entities ds)"

lemma check_remote_entity_observed:
  assumes "check_remote_entity t i de = (de', evs)" and "remote_ok i de"
    and "m i = Some (entity_view (de_entity de))"
  shows "observe_all evs m = Some (m(i := map_option (\<lambda>de. entity_view (de_entity de)) de'))"
  using check_remote_entity_cases [OF assms(1,2)] assms(3)
  by (auto simp: remote_ok_def fun_upd_idem)

lemma check_remote_entities_keeps:
  "check_remote_entities t es = (es', evs) \<Longrightarrow> al_ok es \<Longrightarrow> \<forall>x\<in>set es. remote_ok (fst x) (snd x) \<Longrightarrow>
     al_ok es' \<and> set (al_keys es') \<subseteq> set (al_keys es)
     \<and> (\<forall>x\<in>set es'. remote_ok (fst x) (snd x) \<and> (\<forall>y\<in>set (de_timeouts (snd x)). \<not> t > snd y))"
proof (induction es arbitrary: es' evs)
  case (Cons x es)
  obtain de ev where c: "check_remote_entity t (fst x) (snd x) = (de, ev)" by fastforce
  obtain es1 evs1 where r: "check_remote_entities t es = (es1, evs1)" by fastforce
  have ok: "remote_ok (fst x) (snd x)" using Cons.prems by simp
  have IH: "al_ok es1 \<and> set (al_keys es1) \<subseteq> set (al_keys es)
     \<and> (\<forall>x\<in>set es1. remote_ok (fst x) (snd x) \<and> (\<forall>y\<in>set (de_timeouts (snd x)). \<not> t > snd y))"
    using Cons.IH [OF r] Cons.prems by (simp add: al_ok_def)
  have es': "es' = (case de of None \<Rightarrow> es1 | Some d \<Rightarrow> (fst x, d) # es1)"
    using Cons.prems(1) c r by simp
  have d: "remote_ok (fst x) d \<and> (\<forall>y\<in>set (de_timeouts d). \<not> t > snd y)" if "de = Some d" for d
    using check_remote_entity_cases [OF c ok] ok that by auto
  show ?case
    using IH d Cons.prems(2) by (cases de) (auto simp: es' al_ok_def)
qed simp

lemma check_remote_entities_observed:
  "check_remote_entities t es = (es', evs) \<Longrightarrow> al_ok es \<Longrightarrow> \<forall>x\<in>set es. remote_ok (fst x) (snd x) \<Longrightarrow>
     \<forall>k\<in>set (al_keys es). m k = known_in es k \<Longrightarrow>
     observe_all evs m = Some (\<lambda>k. if k \<in> set (al_keys es) then known_in es' k else m k)"
proof (induction es arbitrary: es' evs m)
  case (Cons x es)
  obtain de ev where c: "check_remote_entity t (fst x) (snd x) = (de, ev)" by fastforce
  obtain es1 evs1 where r: "check_remote_entities t es = (es1, evs1)" by fastforce
  have ok: "remote_ok (fst x) (snd x)" "al_ok es" "\<forall>x\<in>set es. remote_ok (fst x) (snd x)"
    "fst x \<notin> set (al_keys es)"
    using Cons.prems by (auto simp: al_ok_def)
  have es': "es' = (case de of None \<Rightarrow> es1 | Some d \<Rightarrow> (fst x, d) # es1)" "evs = ev @ evs1"
    using Cons.prems(1) c r by simp_all
  let ?m = "m(fst x := map_option (\<lambda>de. entity_view (de_entity de)) de)"
  have "observe_all ev m = Some ?m"
    using check_remote_entity_observed [OF c ok(1)] Cons.prems(4) by (simp add: known_in_def)
  moreover have "observe_all evs1 ?m = Some (\<lambda>k. if k \<in> set (al_keys es) then known_in es1 k else ?m k)"
  proof (rule Cons.IH [OF r ok(2,3)], intro ballI)
    fix k assume k: "k \<in> set (al_keys es)"
    then have "k \<noteq> fst x" using ok(4) by metis
    then show "?m k = known_in es k" using Cons.prems(4) k by (auto simp: known_in_def)
  qed
  moreover have "al_get (fst x) es1 = None"
    using check_remote_entities_keeps [OF r ok(2,3)] ok(4) by (auto simp: al_get_None_iff)
  ultimately show ?case
    using ok(4) by (cases de) (auto simp: es' observe_all_append known_in_def fun_eq_iff)
qed simp

text \<open>The announcement of an entity.\<close>

lemma makeEntity_shape:
  "getEntityID (makeEntity p) = m_streamID p"
  "\<exists>i info. en_interfaces (makeEntity p) = [(i, info)]"
  by (simp_all add: makeEntity_def getEntityID_def Let_def)

lemma update_common_cases:
  assumes "update_common new result en = (action, en')"
  shows "en_interfaces en' = en_interfaces en" "getEntityID en' = getEntityID en"
    "action = result \<and> en' = en \<or> action = NotifyUpdate"
  using assms by (auto simp: update_common_def getEntityID_def Let_def split: if_splits)

lemma view_put_same:
  assumes "om_ok (en_interfaces en)" and "al_get i (en_interfaces en) = Some info"
    and "info' = info\<lparr>ii_availableIndex := a, ii_validTime := v\<rparr>"
  shows "entity_view (setInterfaceInformation i info' en) = entity_view en"
proof -
  have "om_ok es \<Longrightarrow> al_get i es = Some info \<Longrightarrow>
      map (\<lambda>(i, info). (i, info\<lparr>ii_validTime := 0, ii_availableIndex := 0\<rparr>)) (om_put i info' es)
      = map (\<lambda>(i, info). (i, info\<lparr>ii_validTime := 0, ii_availableIndex := 0\<rparr>)) es" for es
  proof (induction es)
    case (Cons e es)
    show ?case
    proof (cases "fst e = i")
      case True
      then show ?thesis using Cons.prems(2) assms(3) by (cases e) auto
    next
      case False
      then have "fst e < i" "al_get i es = Some info" "om_ok es"
        using Cons.prems by (force simp: om_ok_def dest: al_get_in_set)+
      then show ?thesis using Cons.IH False by simp
    qed
  qed simp
  then show ?thesis
    using assms(1,2) by (simp add: entity_view_def setInterfaceInformation_def)
qed

lemma updateEntity_cases:
  assumes u: "updateEntity en new = (action, en')" and new: "en_interfaces new = [(i, info)]"
    and ids: "getEntityID new = getEntityID en" and ok: "om_ok (en_interfaces en)" "en_interfaces en \<noteq> []"
  shows "getEntityID en' = getEntityID en \<and> om_ok (en_interfaces en') \<and> en_interfaces en' \<noteq> []
    \<and> set (al_keys (en_interfaces en')) \<subseteq> insert i (set (al_keys (en_interfaces en)))
    \<and> (action = NoNotify \<longrightarrow> entity_view en' = entity_view en)"
proof -
  note unfold = updateEntity_def Let_def new list.sel prod.case
  consider (replace) "action = NotifyOfflineOnline" "en' = new"
    | (common) result info' where
        "update_common (en_common new) result (setInterfaceInformation i info' en) = (action, en')"
        "result = NoNotify \<longrightarrow> entity_view (setInterfaceInformation i info' en) = entity_view en"
  proof (cases "immutable_changed (en_common en) (en_common new)")
    case True
    then show ?thesis using u replace by (simp add: unfold)
  next
    case same: False
    show ?thesis
    proof (cases "al_get i (en_interfaces en)")
      case None
      then have "update_common (en_common new) NotifyUpdate (setInterfaceInformation i info en) = (action, en')"
        using u same by (simp add: unfold)
      then show ?thesis using common by blast
    next
      case (Some old)
      let ?bad = "ii_macAddress old \<noteq> ii_macAddress info \<or> ii_availableIndex old \<ge> ii_availableIndex info"
      let ?gptp = "\<not> uid_option_eq (ii_gptpGrandmasterID old) (ii_gptpGrandmasterID info)
        \<or> ii_gptpDomainNumber old \<noteq> ii_gptpDomainNumber info"
      let ?old = "if ?gptp then old\<lparr>ii_gptpGrandmasterID := ii_gptpGrandmasterID info,
        ii_gptpDomainNumber := ii_gptpDomainNumber info\<rparr> else old"
      let ?new = "?old\<lparr>ii_availableIndex := ii_availableIndex info, ii_validTime := ii_validTime info\<rparr>"
      show ?thesis
      proof (cases ?bad)
        case True
        then show ?thesis using u same Some replace by (simp add: unfold)
      next
        case False
        then have "update_common (en_common new) (if ?gptp then NotifyUpdate else NoNotify)
            (setInterfaceInformation i ?new en) = (action, en')"
          using u same Some by (cases ?gptp) (simp_all add: unfold)
        moreover have "(if ?gptp then NotifyUpdate else NoNotify) = NoNotify \<longrightarrow>
            entity_view (setInterfaceInformation i ?new en) = entity_view en"
          using view_put_same [OF ok(1) Some] by simp
        ultimately show ?thesis by (rule common)
      qed
    qed
  qed
  then show ?thesis
  proof cases
    case replace
    then show ?thesis using new ids by simp
  next
    case common
    have "en_interfaces en' = om_put i info' (en_interfaces en)" "getEntityID en' = getEntityID en"
      using update_common_cases(1,2) [OF common(1)] by (simp_all add: setInterfaceInformation_def getEntityID_def)
    moreover from this have "set (al_keys (en_interfaces en')) = insert i (set (al_keys (en_interfaces en)))"
      by (simp only: om_keys_put)
    ultimately show ?thesis
      using common(2) update_common_cases(3) [OF common(1)] ok by (auto simp del: set_map)
  qed
qed

section \<open>Runs\<close>

datatype discovery_op =
    AdpAvailable adpdu
  | AdpDeparting adpdu
  | CheckRemoteTimeouts
  | Forget entity_id
  | CheckDiscovery
  | SetDelay time
  | MessageSent

fun discovery_step ::
  "(entity_id \<Rightarrow> bool) \<Rightarrow> mac_address \<Rightarrow> discovery_op \<Rightarrow> discovery_sm \<times> world \<Rightarrow> discovery_sm \<times> world"
where
  "discovery_step isLocal addr (AdpAvailable p) (ds, w) =
     (let (ds, evs, w) = handleAdpEntityAvailable isLocal p ds w in (ds, emit evs w))"
| "discovery_step isLocal addr (AdpDeparting p) (ds, w) =
     (let (ds, evs) = handleAdpEntityDeparting isLocal p ds in (ds, emit evs w))"
| "discovery_step isLocal addr CheckRemoteTimeouts (ds, w) =
     (let (ds, evs, w) = checkRemoteEntitiesTimeoutExpiracy ds w in (ds, emit evs w))"
| "discovery_step isLocal addr (Forget i) (ds, w) =
     (let (err, ds, evs) = forgetRemoteEntity i ds in (ds, emit evs w))"
| "discovery_step isLocal addr CheckDiscovery (ds, w) = checkDiscovery addr ds w"
| "discovery_step isLocal addr (SetDelay d) (ds, w) = setDiscoveryDelay d ds w"
| "discovery_step isLocal addr MessageSent (ds, w) = discoverMessageSent ds w"

lemma forget_observed:
  assumes "forgetRemoteEntity i ds = (err, ds', evs)" and "discovery_ok ds"
  shows "discovery_ok ds'" and "observe_all evs (known ds) = Some (known ds')"
  using assms
  by (auto simp: forgetRemoteEntity_def discovery_ok_def known_def known_in_def fun_eq_iff split: option.splits)

lemma available_observed:
  assumes h: "handleAdpEntityAvailable isLocal p ds w = (ds', evs, w')" and ok: "discovery_ok ds"
  shows "discovery_ok ds'" and "observe_all evs (known ds) = Some (known ds')" and "w_trace w' = w_trace w"
proof -
  let ?id = "m_streamID p"
  have "discovery_ok ds' \<and> observe_all evs (known ds) = Some (known ds') \<and> w_trace w' = w_trace w"
  proof (cases "isLocal ?id \<or> bits_test EntityCapability_EntityNotReady (m_entityCapabilities p)")
    case True
    then have "ds' = ds" "evs = []" "w' = w"
      using h by (auto simp: handleAdpEntityAvailable_def Let_def split: if_splits)
    then show ?thesis using ok by simp
  next
    case False
    obtain i info where shape: "en_interfaces (makeEntity p) = [(i, info)]"
      using makeEntity_shape(2) by blast
    let ?t = "w_clock w (w_reads w) + ms (1000 * (2 * unat (m_status p)))"
    have w': "w_trace w' = w_trace w"
      using h False by (auto simp: handleAdpEntityAvailable_def Let_def now_def split: option.splits prod.splits)
    have entities: "al_ok (ds_entities ds)" "\<And>de. al_get ?id (ds_entities ds) = Some de \<Longrightarrow> remote_ok ?id de"
      using ok by (auto simp: discovery_ok_def dest!: al_get_in_set)
    have put: "discovery_ok (ds\<lparr>ds_entities := al_put ?id de (ds_entities ds)\<rparr>)" if "remote_ok ?id de" for de
      using ok that al_put_all [of "ds_entities ds" remote_ok ?id de] by (auto simp: discovery_ok_def)
    have known_put: "known (ds\<lparr>ds_entities := al_put ?id de (ds_entities ds)\<rparr>) = (known ds)(?id \<mapsto> entity_view (de_entity de))"
      for de by (auto simp: known_def known_in_def fun_eq_iff)
    show ?thesis
    proof (cases "al_get ?id (ds_entities ds)")
      case None
      let ?de = "\<lparr>de_entity = makeEntity p, de_timeouts = [(i, ?t)]\<rparr>"
      have "ds' = ds\<lparr>ds_entities := al_put ?id ?de (ds_entities ds)\<rparr>" "evs = [OnRemoteEntityOnline (makeEntity p)]"
        using h False None shape by (auto simp: handleAdpEntityAvailable_def Let_def now_def)
      moreover have "remote_ok ?id ?de"
        by (simp add: remote_ok_def makeEntity_shape(1) shape al_ok_def)
      moreover have "known ds ?id = None" using None by (simp add: known_def known_in_def)
      ultimately show ?thesis
        using put [of ?de] w' by (simp add: makeEntity_shape(1) known_put)
    next
      case (Some de)
      note de = entities(2) [OF Some]
      obtain action en' where u: "updateEntity (de_entity de) (makeEntity p) = (action, en')" by fastforce
      let ?de = "de\<lparr>de_entity := en', de_timeouts := al_put i ?t (de_timeouts de)\<rparr>"
      have ds': "ds' = ds\<lparr>ds_entities := al_put ?id ?de (ds_entities ds)\<rparr>"
        and evs: "evs = (case action of NoNotify \<Rightarrow> [] | NotifyUpdate \<Rightarrow> [OnRemoteEntityUpdated en']
          | NotifyOfflineOnline \<Rightarrow> [OnRemoteEntityOffline ?id, OnRemoteEntityOnline en'])"
        using h False Some shape u
        by (auto simp: handleAdpEntityAvailable_def Let_def now_def split: update_action.splits)
      have id: "getEntityID (de_entity de) = ?id" using de by (simp add: remote_ok_def)
      have c: "getEntityID en' = ?id \<and> om_ok (en_interfaces en') \<and> en_interfaces en' \<noteq> []
          \<and> set (al_keys (en_interfaces en')) \<subseteq> insert i (set (al_keys (en_interfaces (de_entity de))))
          \<and> (action = NoNotify \<longrightarrow> entity_view en' = entity_view (de_entity de))"
        using updateEntity_cases [OF u shape] de id by (simp add: makeEntity_shape(1) remote_ok_def)
      have "set (al_keys (al_put i ?t (de_timeouts de))) = insert i (set (al_keys (de_timeouts de)))"
        by (auto simp add: al_keys_put simp del: set_map)
      then have "remote_ok ?id ?de"
        using c de by (auto simp: remote_ok_def simp del: set_map)
      moreover have "known ds ?id = Some (entity_view (de_entity de))"
        using Some by (simp add: known_def known_in_def)
      ultimately show ?thesis
        using put [of ?de] w' c by (cases action) (simp_all add: ds' evs known_put fun_upd_idem)
    qed
  qed
  then show "discovery_ok ds'" "observe_all evs (known ds) = Some (known ds')" "w_trace w' = w_trace w"
    by blast+
qed

definition discovery_run ::
  "(entity_id \<Rightarrow> bool) \<Rightarrow> mac_address \<Rightarrow> discovery_op list \<Rightarrow> discovery_sm \<times> world \<Rightarrow> discovery_sm \<times> world"
where
  "discovery_run isLocal addr ops st = fold (discovery_step isLocal addr) ops st"

lemma check_all_observed:
  assumes "checkRemoteEntitiesTimeoutExpiracy ds w = (ds', evs, w')" and "discovery_ok ds"
  shows "discovery_ok ds'" and "observe_all evs (known ds) = Some (known ds')" and "w_trace w' = w_trace w"
    and "\<forall>x\<in>set (ds_entities ds'). \<forall>y\<in>set (de_timeouts (snd x)). \<not> w_clock w (w_reads w) > snd y"
proof -
  obtain es where c: "check_remote_entities (w_clock w (w_reads w)) (ds_entities ds) = (es, evs)"
    and ds': "ds' = ds\<lparr>ds_entities := es\<rparr>" and w': "w_trace w' = w_trace w"
    using assms(1) by (auto simp: checkRemoteEntitiesTimeoutExpiracy_def now_def split: prod.splits)
  have ok: "al_ok (ds_entities ds)" "\<forall>x\<in>set (ds_entities ds). remote_ok (fst x) (snd x)"
    using assms(2) by (simp_all add: discovery_ok_def)
  note keeps = check_remote_entities_keeps [OF c ok]
  show "discovery_ok ds'" using keeps by (simp add: ds' discovery_ok_def)
  show "w_trace w' = w_trace w" by (rule w')
  show "\<forall>x\<in>set (ds_entities ds'). \<forall>y\<in>set (de_timeouts (snd x)). \<not> w_clock w (w_reads w) > snd y"
    using keeps by (simp add: ds')
  have "known_in (ds_entities ds) k = None" if "k \<notin> set (al_keys (ds_entities ds))" for k
    using that unfolding known_in_def by (metis al_get_None_iff option.map_disc_iff)
  moreover have "known_in es k = None" if "k \<notin> set (al_keys (ds_entities ds))" for k
    using that keeps unfolding known_in_def by (metis al_get_None_iff option.map_disc_iff subsetD)
  ultimately show "observe_all evs (known ds) = Some (known ds')"
    using check_remote_entities_observed [OF c ok, of "known ds"] by (auto simp: ds' known_def fun_eq_iff)
qed

lemma discovery_step_observed:
  assumes "discovery_step isLocal addr op (ds, w) = (ds', w')" and ok: "discovery_ok ds"
  shows "discovery_ok ds' \<and> (\<exists>evs. w_trace w' = w_trace w @ evs \<and> observe_all evs (known ds) = Some (known ds'))"
proof (cases op)
  case (AdpAvailable p)
  obtain ds1 evs w1 where h: "handleAdpEntityAvailable isLocal p ds w = (ds1, evs, w1)" by (metis prod_cases3)
  then show ?thesis using assms(1) AdpAvailable available_observed [OF h ok] by auto
next
  case (AdpDeparting p)
  then show ?thesis
    using assms forget_observed [of "m_streamID p" ds]
    by (cases "forgetRemoteEntity (m_streamID p) ds")
       (auto simp: handleAdpEntityDeparting_def split: if_splits)
next
  case CheckRemoteTimeouts
  obtain ds1 evs w1 where h: "checkRemoteEntitiesTimeoutExpiracy ds w = (ds1, evs, w1)" by (metis prod_cases3)
  then show ?thesis using assms(1) CheckRemoteTimeouts check_all_observed [OF h ok] by auto
next
  case (Forget i)
  then show ?thesis
    using assms forget_observed [of i ds] by (cases "forgetRemoteEntity i ds") auto
next
  case CheckDiscovery
  then show ?thesis
    using assms by (auto simp: checkDiscovery_def discoverRemoteEntity_def discoverMessageSent_def now_def
        sendMessage_def Let_def discovery_ok_def known_def split: if_splits)
next
  case (SetDelay d)
  then show ?thesis using assms by (auto simp: setDiscoveryDelay_def now_def discovery_ok_def known_def)
next
  case MessageSent
  then show ?thesis using assms by (auto simp: discoverMessageSent_def now_def discovery_ok_def known_def)
qed

lemma discovery_run_observed:
  "discovery_ok (fst st) \<Longrightarrow>
     discovery_ok (fst (discovery_run isLocal addr ops st))
     \<and> (\<exists>evs. w_trace (snd (discovery_run isLocal addr ops st)) = w_trace (snd st) @ evs
          \<and> observe_all evs (known (fst st)) = Some (known (fst (discovery_run isLocal addr ops st))))"
proof (induction ops arbitrary: st)
  case (Cons op ops)
  obtain ds1 w1 where step: "discovery_step isLocal addr op (fst st, snd st) = (ds1, w1)" by fastforce
  obtain evs where s: "discovery_ok ds1" "w_trace w1 = w_trace (snd st) @ evs"
    "observe_all evs (known (fst st)) = Some (known ds1)"
    using discovery_step_observed [OF step Cons.prems] by blast
  then show ?case
    using Cons.IH [of "(ds1, w1)"] step by (auto simp: discovery_run_def observe_all_append)
qed (simp add: discovery_run_def)

section \<open>Properties\<close>

text \<open>
  C31.  The upper layers are told the truth: whatever is received and whenever the timeouts are checked,
  the notifications given since the start are legal (an entity comes online only when it is not known,
  goes offline or is updated only when it is) and an observer that applies them knows exactly the
  entities the state machine knows, with their current information.
\<close>

theorem notifications_track_entities:
  "observe_all (w_trace (snd (discovery_run isLocal addr ops (discovery_new (w0\<lparr>w_trace := []\<rparr>))))) Map.empty
     = Some (known (fst (discovery_run isLocal addr ops (discovery_new (w0\<lparr>w_trace := []\<rparr>)))))"
proof -
  have "discovery_ok (fst (discovery_new (w0\<lparr>w_trace := []\<rparr>)))"
    "known (fst (discovery_new (w0\<lparr>w_trace := []\<rparr>))) = Map.empty"
    "w_trace (snd (discovery_new (w0\<lparr>w_trace := []\<rparr>))) = []"
    by (auto simp: discovery_new_def now_def discovery_ok_def known_def known_in_def)
  then show ?thesis using discovery_run_observed by fastforce
qed

text \<open>
  C32.  At every moment each entity known is stored under its own identifier, has at least one
  interface, and each of its interfaces has a timeout, so that it cannot stay known for ever without
  being announced.
\<close>

theorem discovered_entities_ok:
  "discovery_ok (fst (discovery_run isLocal addr ops (discovery_new w0)))"
  using discovery_run_observed [of "discovery_new w0"]
  by (simp add: discovery_new_def now_def discovery_ok_def)

text \<open>
  C33.  After a check of the timeouts, no timeout that the reading of the clock is beyond is left, and
  every entity still known has an interface whose time has not run out.
\<close>

theorem check_leaves_no_overdue_entity:
  assumes "discovery_ok ds" and "checkRemoteEntitiesTimeoutExpiracy ds w = (ds', evs, w')"
    and "al_get i (ds_entities ds') = Some de"
  shows "(\<exists>k t. al_get k (de_timeouts de) = Some t \<and> k \<in> set (al_keys (en_interfaces (de_entity de)))
      \<and> w_clock w (w_reads w) \<le> t)
    \<and> filter (\<lambda>y. w_clock w (w_reads w) > snd y) (de_timeouts de) = []"
proof -
  note c = check_all_observed [OF assms(2,1)]
  have in_set: "(i, de) \<in> set (ds_entities ds')" by (rule al_get_in_set [OF assms(3)])
  then have r: "remote_ok i de" and t: "\<forall>y\<in>set (de_timeouts de). \<not> w_clock w (w_reads w) > snd y"
    using c(1,4) by (auto simp: discovery_ok_def)
  obtain k where k: "k \<in> set (al_keys (en_interfaces (de_entity de)))"
    using r by (cases "en_interfaces (de_entity de)") (auto simp: remote_ok_def)
  then obtain t0 where "al_get k (de_timeouts de) = Some t0"
    using r by (cases "al_get k (de_timeouts de)") (auto simp: remote_ok_def al_get_None_iff simp del: set_map)
  with k t show ?thesis by (fastforce simp: filter_empty_conv dest: al_get_in_set)
qed

definition sample_discovery :: discovery_sm where
  "sample_discovery = \<lparr>ds_entities = [(0x001b92fffe000001,
       \<lparr>de_entity = sample_local, de_timeouts = [(1, ms 5), (0, ms 900)]\<rparr>)],
     ds_discoveryDelay = ms 10000, ds_lastDiscovery = 0\<rparr>"

lemma sample_discovery_ok: "discovery_ok sample_discovery"
  by (simp add: discovery_ok_def sample_discovery_def remote_ok_def sample_local_def getEntityID_def
      al_ok_def om_ok_def)

theorem check_leaves_no_overdue_entity_witness:
  "\<exists>de. al_get 0x001b92fffe000001 (ds_entities (fst (checkRemoteEntitiesTimeoutExpiracy sample_discovery sample_world)))
      = Some de \<and> filter (\<lambda>y. ms 300 > snd y) (de_timeouts de) = []"
proof -
  obtain ds' evs w' where c: "checkRemoteEntitiesTimeoutExpiracy sample_discovery sample_world = (ds', evs, w')"
    by (metis prod_cases3)
  have "\<exists>de. al_get 0x001b92fffe000001 (ds_entities ds') = Some de"
    using c by (auto simp: checkRemoteEntitiesTimeoutExpiracy_def now_def sample_discovery_def sample_world_def
        check_remote_entity_def removeInterfaceInformation_def al_del_def sample_local_def ms_def)
  then show ?thesis
    using check_leaves_no_overdue_entity [OF sample_discovery_ok c] c by (auto simp: sample_world_def)
qed

text \<open>
  When a change of an immutable field makes the state machine replace an entity, the timeouts of
  its other interfaces stay: they belong to no interface any more.  When one of them expires, with the
  interfaces left still in time, the upper layers are told of an update although nothing has changed.
\<close>

theorem stale_timeout_notifies_update:
  assumes "al_ok (de_timeouts de)" and "en_interfaces (de_entity de) \<noteq> []"
    and "al_get j (de_timeouts de) = Some t0" and "t > t0"
    and "\<forall>x\<in>set (de_timeouts de). t > snd x \<longrightarrow> fst x \<notin> set (al_keys (en_interfaces (de_entity de)))"
  shows "check_remote_entity t i de =
    (Some (de\<lparr>de_timeouts := filter (\<lambda>x. \<not> t > snd x) (de_timeouts de)\<rparr>), [OnRemoteEntityUpdated (de_entity de)])"
proof -
  have "filter (\<lambda>y. fst y \<notin> fst ` {x \<in> set (de_timeouts de). t > snd x}) (en_interfaces (de_entity de))
      = en_interfaces (de_entity de)"
    using assms(5) by (force simp: filter_id_conv)
  moreover have "\<exists>x\<in>set (de_timeouts de). t > snd x"
    using assms(3,4) by (force dest: al_get_in_set)
  ultimately show ?thesis
    using assms(2) unfolding check_remote_entity_def expire_interfaces_eq by (simp add: Let_def)
qed

definition second_interface :: adpdu where
  "second_interface = Adpdu_new\<lparr>m_streamID := 0x001b92fffe000001, m_srcAddress := 0x001b92000011,
     m_entityCapabilities := 0x8508, m_interfaceIndex := 1, m_status := 1, m_availableIndex := 1\<rparr>"

definition renewed_entity :: adpdu where
  "renewed_entity = second_interface\<lparr>m_interfaceIndex := 0, m_entityModelID := 0x99, m_status := 31\<rparr>"

theorem stale_timeout_notifies_update_witness:
  "let (ds, evs, w) = handleAdpEntityAvailable (\<lambda>i. False) second_interface
         (sample_discovery\<lparr>ds_entities := []\<rparr>) sample_world;
       (ds, evs, w) = handleAdpEntityAvailable (\<lambda>i. False) renewed_entity ds w
   in evs = [OnRemoteEntityOffline 0x001b92fffe000001, OnRemoteEntityOnline (makeEntity renewed_entity)]
      \<and> snd (check_remote_entities (ms 3000) (ds_entities ds)) = [OnRemoteEntityUpdated (makeEntity renewed_entity)]"
proof -
  let ?de = "\<lparr>de_entity = makeEntity renewed_entity, de_timeouts = [(1, ms 2300), (0, ms 62301)]\<rparr>"
  have "check_remote_entity (ms 3000) 0x001b92fffe000001 ?de =
      (Some (?de\<lparr>de_timeouts := filter (\<lambda>x. \<not> ms 3000 > snd x) (de_timeouts ?de)\<rparr>),
       [OnRemoteEntityUpdated (de_entity ?de)])"
    by (rule stale_timeout_notifies_update [where j = 1 and ?t0.0 = "ms 2300"])
       (simp_all add: al_ok_def makeEntity_def renewed_entity_def second_interface_def Adpdu_new_def
        bits_test_def EntityCapability_defs ms_def Let_def)
  then have check: "snd (check_remote_entities (ms 3000) [(0x001b92fffe000001, ?de)])
      = [OnRemoteEntityUpdated (makeEntity renewed_entity)]"
    by simp
  let ?ds = "\<lambda>de. sample_discovery\<lparr>ds_entities := [(0x001b92fffe000001, de)]\<rparr>"
  note eval = handleAdpEntityAvailable_def Let_def now_def sample_world_def ms_def bits_test_def
    EntityCapability_defs second_interface_def renewed_entity_def Adpdu_new_def makeEntity_def
  have first: "handleAdpEntityAvailable (\<lambda>i. False) second_interface (sample_discovery\<lparr>ds_entities := []\<rparr>) sample_world
      = (?ds \<lparr>de_entity = makeEntity second_interface, de_timeouts = [(1, ms 2300)]\<rparr>,
         [OnRemoteEntityOnline (makeEntity second_interface)], snd (now sample_world))"
    by (simp add: eval)
  have update: "updateEntity (makeEntity second_interface) (makeEntity renewed_entity)
      = (NotifyOfflineOnline, makeEntity renewed_entity)"
    by (simp add: eval updateEntity_def immutable_changed_def uid_eq_def uid_isValid_def uid_null_def
        uid_uninitialized_def)
  have shape: "fst (hd (en_interfaces (makeEntity renewed_entity))) = 0" "m_streamID renewed_entity = 0x001b92fffe000001"
    "\<not> bits_test EntityCapability_EntityNotReady (m_entityCapabilities renewed_entity)" "m_status renewed_entity = 31"
    by (simp_all add: eval)
  have second: "handleAdpEntityAvailable (\<lambda>i. False) renewed_entity
      (?ds \<lparr>de_entity = makeEntity second_interface, de_timeouts = [(1, ms 2300)]\<rparr>) (snd (now sample_world))
      = (?ds ?de, [OnRemoteEntityOffline 0x001b92fffe000001, OnRemoteEntityOnline (makeEntity renewed_entity)],
         snd (now (snd (now sample_world))))"
    by (simp add: handleAdpEntityAvailable_def Let_def shape update) (simp add: now_def sample_world_def ms_def)
  show ?thesis
    using check by (simp add: first second del: check_remote_entities.simps)
qed

text \<open>
  Automatic discovery respects its delay: after a check that sends a request, on a clock that does
  not run back, a check before the delay has passed since that reading sends nothing.
\<close>

theorem discovery_requests_spaced:
  assumes "mono (w_clock w)" and "checkDiscovery addr ds w = (ds1, w1)" and "w_sends w1 \<noteq> w_sends w"
    and "w_clock w1 (w_reads w1) < w_clock w (w_reads w) + ds_discoveryDelay ds"
  shows "checkDiscovery addr ds1 w1 = (ds1, snd (now w1))"
proof -
  have le: "w_clock w (w_reads w) \<le> w_clock w (Suc (w_reads w))" using assms(1) by (simp add: mono_def)
  show ?thesis
    using assms(2-4) le
    by (auto simp: checkDiscovery_def discoverRemoteEntity_def discoverMessageSent_def now_def sendMessage_def
        emit_def Let_def split: if_splits)
qed

theorem discovery_requests_spaced_witness:
  "let (ds1, w1) = checkDiscovery 0x001b92000001 (sample_discovery\<lparr>ds_discoveryDelay := ms 100\<rparr>) sample_world
   in w_sends w1 = 2 \<and> checkDiscovery 0x001b92000001 ds1 w1 = (ds1, snd (now w1))"
proof -
  obtain ds1 w1 where c: "checkDiscovery 0x001b92000001 (sample_discovery\<lparr>ds_discoveryDelay := ms 100\<rparr>) sample_world
      = (ds1, w1)" by fastforce
  have mono: "mono (w_clock sample_world)" by (simp add: mono_def sample_world_def ms_def)
  show ?thesis
    using discovery_requests_spaced [OF mono c] c
    by (auto simp: checkDiscovery_def discoverRemoteEntity_def discoverMessageSent_def now_def sendMessage_def
        emit_def Let_def sample_discovery_def sample_world_def ms_def)
qed

end
