(* ===== verification/AdvertiseStateMachine.thy ===== *)
theory AdvertiseStateMachine
  imports DiscoveryStateMachine
begin

text \<open>
  \<^verbatim>\<open>AdvertiseStateMachine\<close> (src/stateMachine/advertiseStateMachine.hpp and .cpp): the local entities
  that advertise, each with the interface it advertises on and the time of its next announcement.

  The code holds references to the local entities, which their owners change and which an announcement
  changes too (the available index): a reference is a number and the store maps it to the entity.

  An operation returns None where the program would not go on: the remainder by zero of a valid time
  of 0 in \<^verbatim>\<open>computeRandomDelay\<close>, or an exception out of that \<^verbatim>\<open>noexcept\<close> method when the interface is
  gone.  The theorems show that neither happens to an entity whose valid times \<^verbatim>\<open>setValidTime\<close> has set.
\<close>

type_synonym entity_ref = nat
type_synonym store = "entity_ref \<Rightarrow> entity"

record advertise_info =
  ad_entity :: entity_ref
  ad_interfaceIndex :: interface_index
  ad_nextAdvertiseTime :: time

type_synonym advertise_sm = "(entity_id, advertise_info) alist"

section \<open>Times\<close>

definition computeRandomDelay :: "entity \<Rightarrow> interface_index \<Rightarrow> world \<Rightarrow> (time \<times> world) option" where
  "computeRandomDelay en i w =
     Option.bind (getInterfaceInformation i en) (\<lambda>info.
       let maxRandValue = unat (ii_validTime info) * 1000 * 2 div 5 in
       if maxRandValue = 0 then None
       else let (r, w) = rand w in Some (ms (r mod maxRandValue), w))"

definition computeNextAdvertiseTime :: "entity \<Rightarrow> interface_index \<Rightarrow> world \<Rightarrow> (time \<times> world) option" where
  "computeNextAdvertiseTime en i w =
     Option.bind (getInterfaceInformation i en) (\<lambda>info.
       let (t, w) = system_now w in
       Option.bind (computeRandomDelay en i w) (\<lambda>(d, w).
         Some (t + ms (max 1000 (unat (ii_validTime info) * 1000 div 2)) + d, w)))"

definition computeDelayedAdvertiseTime :: "entity \<Rightarrow> interface_index \<Rightarrow> world \<Rightarrow> (time \<times> world) option" where
  "computeDelayedAdvertiseTime en i w =
     (let (t, w) = system_now w in
      Option.bind (computeRandomDelay en i w) (\<lambda>(d, w). Some (t + d, w)))"

section \<open>The operations\<close>

text \<open>
  One entity of \<^verbatim>\<open>checkLocalEntitiesAnnouncement\<close>: the exception of \<^verbatim>\<open>makeEntityAvailableMessage\<close> is
  caught, and leaves everything as it was.
\<close>

definition check_announcement ::
  "time \<Rightarrow> advertise_info \<Rightarrow> store \<Rightarrow> world \<Rightarrow> (advertise_info \<times> store \<times> world) option"
where
  "check_announcement t ad st w =
     (if t \<ge> ad_nextAdvertiseTime ad
      then case makeEntityAvailableMessage (st (ad_entity ad)) (ad_interfaceIndex ad) of
             None \<Rightarrow> Some (ad, st, w)
           | Some (frame, en) \<Rightarrow>
               (let st = st(ad_entity ad := en);
                    (err, w) = sendMessage (PAdp frame) w
                in Option.bind (computeNextAdvertiseTime (st (ad_entity ad)) (ad_interfaceIndex ad) w) (\<lambda>(next, w).
                     Some (ad\<lparr>ad_nextAdvertiseTime := next\<rparr>, st, w)))
      else Some (ad, st, w))"

primrec check_announcements ::
  "time \<Rightarrow> advertise_sm \<Rightarrow> store \<Rightarrow> world \<Rightarrow> (advertise_sm \<times> store \<times> world) option"
where
  "check_announcements t [] st w = Some ([], st, w)"
| "check_announcements t (x # xs) st w =
     Option.bind (check_announcement t (snd x) st w) (\<lambda>(ad, st, w).
       Option.bind (check_announcements t xs st w) (\<lambda>(xs, st, w). Some ((fst x, ad) # xs, st, w)))"

definition checkLocalEntitiesAnnouncement ::
  "advertise_sm \<Rightarrow> store \<Rightarrow> world \<Rightarrow> (advertise_sm \<times> store \<times> world) option"
where
  "checkLocalEntitiesAnnouncement sm st w =
     (let (t, w) = system_now w in check_announcements t sm st w)"

text \<open>\<^verbatim>\<open>Manager::getMatchingInterfaceIndex\<close>: the first interface with the address of the protocol interface.\<close>

definition getMatchingInterfaceIndex :: "mac_address \<Rightarrow> entity \<Rightarrow> interface_index option" where
  "getMatchingInterfaceIndex macAddress en =
     map_option fst (find (\<lambda>x. ii_macAddress (snd x) = macAddress) (en_interfaces en))"

definition setEntityNeedsAdvertise ::
  "mac_address \<Rightarrow> entity_ref \<Rightarrow> advertise_sm \<Rightarrow> store \<Rightarrow> world \<Rightarrow> (advertise_sm \<times> world) option"
where
  "setEntityNeedsAdvertise macAddress e sm st w =
     (case getMatchingInterfaceIndex macAddress (st e) of
        None \<Rightarrow> Some (sm, w)
      | Some i \<Rightarrow>
          (case al_get (getEntityID (st e)) sm of
             None \<Rightarrow> Some (sm, w)
           | Some ad \<Rightarrow>
               Option.bind (computeDelayedAdvertiseTime (st e) i w) (\<lambda>(next, w).
                 Some (al_put (getEntityID (st e)) (ad\<lparr>ad_nextAdvertiseTime := next\<rparr>) sm, w))))"

definition enableEntityAdvertising ::
  "mac_address \<Rightarrow> entity_ref \<Rightarrow> advertise_sm \<Rightarrow> store \<Rightarrow> advertise_sm"
where
  "enableEntityAdvertising macAddress e sm st =
     (case getMatchingInterfaceIndex macAddress (st e) of
        None \<Rightarrow> sm
      | Some i \<Rightarrow>
          (case al_get (getEntityID (st e)) sm of
             None \<Rightarrow> al_put (getEntityID (st e))
                       \<lparr>ad_entity = e, ad_interfaceIndex = i, ad_nextAdvertiseTime = 0\<rparr> sm
           | Some ad \<Rightarrow> sm))"

definition disableEntityAdvertising ::
  "mac_address \<Rightarrow> entity_ref \<Rightarrow> advertise_sm \<Rightarrow> store \<Rightarrow> world \<Rightarrow> advertise_sm \<times> world"
where
  "disableEntityAdvertising macAddress e sm st w =
     (case getMatchingInterfaceIndex macAddress (st e) of
        None \<Rightarrow> (sm, w)
      | Some i \<Rightarrow>
          (case al_get (getEntityID (st e)) sm of
             None \<Rightarrow> (sm, w)
           | Some ad \<Rightarrow>
               (case makeEntityDepartingMessage (st e) i of
                  None \<Rightarrow> (sm, w)
                | Some frame \<Rightarrow> (al_del (getEntityID (st e)) sm, snd (sendMessage (PAdp frame) w)))))"

primrec reschedule_targets ::
  "entity_id \<Rightarrow> advertise_sm \<Rightarrow> store \<Rightarrow> world \<Rightarrow> (advertise_sm \<times> world) option"
where
  "reschedule_targets entityID [] st w = Some ([], w)"
| "reschedule_targets entityID (x # xs) st w =
     (let ad = snd x; en = st (ad_entity ad) in
      Option.bind
        (if \<not> uid_isValid entityID \<or> uid_eq entityID (getEntityID en)
         then Option.bind (computeDelayedAdvertiseTime en (ad_interfaceIndex ad) w) (\<lambda>(next, w).
                Some (ad\<lparr>ad_nextAdvertiseTime := next\<rparr>, w))
         else Some (ad, w)) (\<lambda>(ad, w).
      Option.bind (reschedule_targets entityID xs st w) (\<lambda>(xs, w). Some ((fst x, ad) # xs, w))))"

definition handleAdpEntityDiscover ::
  "adpdu \<Rightarrow> advertise_sm \<Rightarrow> store \<Rightarrow> world \<Rightarrow> (advertise_sm \<times> world) option"
where
  "handleAdpEntityDiscover p sm st w = reschedule_targets (m_streamID p) sm st w"

section \<open>Lemmas\<close>

text \<open>An entity with the interface, whose valid time \<^verbatim>\<open>setValidTime\<close> has set.\<close>

definition advertisable :: "interface_index \<Rightarrow> entity \<Rightarrow> bool" where
  "advertisable i en \<longleftrightarrow> om_ok (en_interfaces en)
     \<and> (case getInterfaceInformation i en of None \<Rightarrow> False | Some info \<Rightarrow> ii_validTime info \<noteq> 0)"

definition advertise_ok :: "advertise_sm \<Rightarrow> store \<Rightarrow> bool" where
  "advertise_ok sm st \<longleftrightarrow> (\<forall>x\<in>set sm. advertisable (ad_interfaceIndex (snd x)) (st (ad_entity (snd x))))"

lemma advertisableE:
  assumes "advertisable i en"
  obtains info where "getInterfaceInformation i en = Some info" "0 < unat (ii_validTime info)" "om_ok (en_interfaces en)"
  using assms by (auto simp: advertisable_def unat_gt_0 split: option.splits)

lemma system_now_simps [simp]:
  "fst (system_now w) = w_systemClock w (w_systemReads w)"
  "w_trace (snd (system_now w)) = w_trace w"
  "w_systemClock (snd (system_now w)) = w_systemClock w"
  "w_systemReads (snd (system_now w)) = Suc (w_systemReads w)"
  "w_transport (snd (system_now w)) = w_transport w"
  by (simp_all add: system_now_def)

lemma computeRandomDelay_bound:
  assumes "getInterfaceInformation i en = Some info" and "0 < unat (ii_validTime info)"
  shows "\<exists>d w'. computeRandomDelay en i w = Some (d, w') \<and> d < ms (400 * unat (ii_validTime info))
    \<and> w_trace w' = w_trace w \<and> w_systemClock w' = w_systemClock w \<and> w_systemReads w' = w_systemReads w"
proof -
  have "unat (ii_validTime info) * 1000 * 2 div 5 = 400 * unat (ii_validTime info)" by simp
  moreover have "n mod (400 * unat (ii_validTime info)) < 400 * unat (ii_validTime info)" for n
    using assms(2) by simp
  ultimately show ?thesis
    using assms unfolding computeRandomDelay_def Let_def by (simp add: rand_def ms_def)
qed

lemma computeDelayedAdvertiseTime_bound:
  assumes "advertisable i en"
  shows "\<exists>info n w'. getInterfaceInformation i en = Some info \<and> computeDelayedAdvertiseTime en i w = Some (n, w')
    \<and> w_systemClock w (w_systemReads w) \<le> n
    \<and> n < w_systemClock w (w_systemReads w) + ms (400 * unat (ii_validTime info))
    \<and> w_trace w' = w_trace w \<and> w_systemClock w' = w_systemClock w \<and> w_systemReads w' = Suc (w_systemReads w)"
proof -
  obtain info where info: "getInterfaceInformation i en = Some info" "0 < unat (ii_validTime info)"
    using advertisableE [OF assms] by blast
  from computeRandomDelay_bound [OF this, of "snd (system_now w)"] info(1) show ?thesis
    by (auto simp: computeDelayedAdvertiseTime_def split_beta)
qed

lemma computeNextAdvertiseTime_bound:
  assumes info: "getInterfaceInformation i en = Some info" "0 < unat (ii_validTime info)"
  shows "\<exists>n w'. computeNextAdvertiseTime en i w = Some (n, w')
    \<and> w_systemClock w (w_systemReads w) + ms 1000 \<le> n
    \<and> n < w_systemClock w (w_systemReads w) + ms (1000 * (2 * unat (ii_validTime info)))
    \<and> w_trace w' = w_trace w \<and> w_systemClock w' = w_systemClock w \<and> w_systemReads w' = Suc (w_systemReads w)"
proof -
  obtain d w' where d: "computeRandomDelay en i (snd (system_now w)) = Some (d, w')"
    "d < ms (400 * unat (ii_validTime info))" "w_trace w' = w_trace w" "w_systemClock w' = w_systemClock w"
    "w_systemReads w' = Suc (w_systemReads w)"
    using computeRandomDelay_bound [OF info, of "snd (system_now w)"] by auto
  have "max 1000 (unat (ii_validTime info) * 1000 div 2) + 400 * unat (ii_validTime info)
      \<le> 1000 * (2 * unat (ii_validTime info))"
    using info(2) by (auto simp: max_def)
  then have "ms (max 1000 (unat (ii_validTime info) * 1000 div 2)) + d < ms (1000 * (2 * unat (ii_validTime info)))"
    using d(2) by (simp add: ms_def flip: add_mult_distrib)
  moreover have "ms 1000 \<le> ms (max 1000 (unat (ii_validTime info) * 1000 div 2)) + d"
    by (simp add: ms_def max_def)
  ultimately show ?thesis
    using d info(1) by (simp add: computeNextAdvertiseTime_def split_beta)
qed

text \<open>An announcement changes the available index of its interface and nothing else.\<close>

lemma available_message:
  assumes "getInterfaceInformation i en = Some info" and "om_ok (en_interfaces en)"
  shows "\<exists>p. makeEntityAvailableMessage en i =
      Some (p, setInterfaceInformation i (info\<lparr>ii_availableIndex := ii_availableIndex info + 1\<rparr>) en)
      \<and> m_status p = ii_validTime info"
  using assms(1) unfolding makeEntityAvailableMessage_def Let_def by simp

lemma advertisable_set:
  assumes "advertisable j en" and "getInterfaceInformation i en = Some info"
  shows "advertisable j (setInterfaceInformation i (info\<lparr>ii_availableIndex := a\<rparr>) en)"
  using assms
  by (auto simp: advertisable_def getInterfaceInformation_def setInterfaceInformation_def split: option.splits)

lemma check_announcement_due:
  assumes "getInterfaceInformation (ad_interfaceIndex ad) (st (ad_entity ad)) = Some info"
    and "om_ok (en_interfaces (st (ad_entity ad)))" and "0 < unat (ii_validTime info)"
    and "ad_nextAdvertiseTime ad \<le> t"
  shows "\<exists>p n w' err.
      check_announcement t ad st w = Some (ad\<lparr>ad_nextAdvertiseTime := n\<rparr>,
        st(ad_entity ad := setInterfaceInformation (ad_interfaceIndex ad)
             (info\<lparr>ii_availableIndex := ii_availableIndex info + 1\<rparr>) (st (ad_entity ad))), w')
    \<and> w_trace w' = w_trace w @ [Sent (PAdp p) err]
    \<and> makeEntity p = seen_on (ad_interfaceIndex ad) info (st (ad_entity ad)) \<and> m_status p = ii_validTime info
    \<and> w_systemClock w (w_systemReads w) + ms 1000 \<le> n
    \<and> n < w_systemClock w (w_systemReads w) + ms (1000 * (2 * unat (m_status p)))"
proof -
  let ?i = "ad_interfaceIndex ad" and ?e = "ad_entity ad"
  let ?info = "info\<lparr>ii_availableIndex := ii_availableIndex info + 1\<rparr>"
  let ?en = "setInterfaceInformation ?i ?info (st ?e)"
  obtain p where p: "makeEntityAvailableMessage (st ?e) ?i = Some (p, ?en)" "m_status p = ii_validTime info"
    using available_message [OF assms(1,2)] by blast
  have info': "getInterfaceInformation ?i ?en = Some ?info"
    using assms(2) by (simp add: getInterfaceInformation_def setInterfaceInformation_def)
  let ?w = "snd (sendMessage (PAdp p) w)"
  have sys: "w_systemClock ?w = w_systemClock w" "w_systemReads ?w = w_systemReads w"
    by (simp_all add: sendMessage_def emit_def Let_def)
  obtain n w' where n: "computeNextAdvertiseTime ?en ?i ?w = Some (n, w')"
    "w_systemClock w (w_systemReads w) + ms 1000 \<le> n"
    "n < w_systemClock w (w_systemReads w) + ms (1000 * (2 * unat (ii_validTime info)))"
    "w_trace w' = w_trace ?w"
    using computeNextAdvertiseTime_bound [OF info', of ?w] assms(3) sys by auto
  have "check_announcement t ad st w = Some (ad\<lparr>ad_nextAdvertiseTime := n\<rparr>, st(?e := ?en), w')"
    using assms(4) n(1) p(1) by (simp add: check_announcement_def split_beta)
  then show ?thesis
    using n p makeEntity_available [OF p(1) assms(1)] by auto
qed

lemma check_announcement_ok:
  assumes "advertisable (ad_interfaceIndex ad) (st (ad_entity ad))"
  shows "\<exists>ad' st' w'. check_announcement t ad st w = Some (ad', st', w') \<and> ad_entity ad' = ad_entity ad
    \<and> ad_interfaceIndex ad' = ad_interfaceIndex ad \<and> (\<forall>j e. advertisable j (st e) \<longrightarrow> advertisable j (st' e))"
proof (cases "ad_nextAdvertiseTime ad \<le> t")
  case True
  obtain info where info: "getInterfaceInformation (ad_interfaceIndex ad) (st (ad_entity ad)) = Some info"
    "0 < unat (ii_validTime info)" "om_ok (en_interfaces (st (ad_entity ad)))"
    using advertisableE [OF assms] by blast
  from check_announcement_due [of ad st info, OF info(1,3,2) True, of w] advertisable_set [OF _ info(1)] show ?thesis
    by (elim exE conjE) auto
qed (simp add: check_announcement_def)

lemma check_announcements_ok:
  "advertise_ok sm st \<Longrightarrow>
     \<exists>sm' st' w'. check_announcements t sm st w = Some (sm', st', w') \<and> al_keys sm' = al_keys sm
       \<and> advertise_ok sm' st' \<and> (\<forall>j e. advertisable j (st e) \<longrightarrow> advertisable j (st' e))"
proof (induction sm arbitrary: st w)
  case (Cons x sm)
  have x: "advertisable (ad_interfaceIndex (snd x)) (st (ad_entity (snd x)))" and sm: "advertise_ok sm st"
    using Cons.prems by (simp_all add: advertise_ok_def)
  obtain ad st1 w1 where c: "check_announcement t (snd x) st w = Some (ad, st1, w1)"
    "ad_entity ad = ad_entity (snd x)" "ad_interfaceIndex ad = ad_interfaceIndex (snd x)"
    "\<forall>j e. advertisable j (st e) \<longrightarrow> advertisable j (st1 e)"
    using check_announcement_ok [of "snd x" st, OF x, of t w] by blast
  have "advertise_ok sm st1" using sm c(4) by (simp add: advertise_ok_def)
  from Cons.IH [OF this, of w1] obtain sm' st' w' where r:
    "check_announcements t sm st1 w1 = Some (sm', st', w')" "al_keys sm' = al_keys sm" "advertise_ok sm' st'"
    "\<forall>j e. advertisable j (st1 e) \<longrightarrow> advertisable j (st' e)"
    by blast
  then show ?case using c x by (auto simp: advertise_ok_def)
qed (simp add: advertise_ok_def)

lemma reschedule_targets_ok:
  "advertise_ok sm st \<Longrightarrow>
     \<exists>sm' w'. reschedule_targets i sm st w = Some (sm', w') \<and> al_keys sm' = al_keys sm \<and> advertise_ok sm' st
       \<and> w_trace w' = w_trace w \<and> w_systemClock w' = w_systemClock w \<and> w_systemReads w \<le> w_systemReads w'
       \<and> (\<forall>k ad. al_get k sm = Some ad \<longrightarrow>
            (\<exists>n. al_get k sm' = Some (ad\<lparr>ad_nextAdvertiseTime := n\<rparr>)
               \<and> (if \<not> uid_isValid i \<or> uid_eq i (getEntityID (st (ad_entity ad)))
                  then \<exists>r info. w_systemReads w \<le> r
                    \<and> getInterfaceInformation (ad_interfaceIndex ad) (st (ad_entity ad)) = Some info
                    \<and> w_systemClock w r \<le> n \<and> n < w_systemClock w r + ms (400 * unat (ii_validTime info))
                  else n = ad_nextAdvertiseTime ad)))"
proof (induction sm arbitrary: w)
  case (Cons x sm)
  let ?e = "st (ad_entity (snd x))" and ?j = "ad_interfaceIndex (snd x)"
  have x: "advertisable ?j ?e" and sm: "advertise_ok sm st"
    using Cons.prems by (simp_all add: advertise_ok_def)
  let ?target = "\<not> uid_isValid i \<or> uid_eq i (getEntityID ?e)"
  obtain n w1 where c: "(if ?target then Option.bind (computeDelayedAdvertiseTime ?e ?j w) (\<lambda>(next, w).
        Some ((snd x)\<lparr>ad_nextAdvertiseTime := next\<rparr>, w)) else Some (snd x, w))
      = Some ((snd x)\<lparr>ad_nextAdvertiseTime := n\<rparr>, w1)"
    "w_trace w1 = w_trace w" "w_systemClock w1 = w_systemClock w" "w_systemReads w \<le> w_systemReads w1"
    "if ?target then \<exists>r info. w_systemReads w \<le> r \<and> getInterfaceInformation ?j ?e = Some info
        \<and> w_systemClock w r \<le> n \<and> n < w_systemClock w r + ms (400 * unat (ii_validTime info))
      else n = ad_nextAdvertiseTime (snd x)"
  proof (cases ?target)
    case True
    obtain info n w1 where "getInterfaceInformation ?j ?e = Some info" "computeDelayedAdvertiseTime ?e ?j w = Some (n, w1)"
      "w_systemClock w (w_systemReads w) \<le> n"
      "n < w_systemClock w (w_systemReads w) + ms (400 * unat (ii_validTime info))"
      "w_trace w1 = w_trace w" "w_systemClock w1 = w_systemClock w" "w_systemReads w1 = Suc (w_systemReads w)"
      using computeDelayedAdvertiseTime_bound [OF x, of w] by blast
    then show ?thesis using True by (intro that [of n w1]) auto
  next
    case False
    then show ?thesis by (intro that [of "ad_nextAdvertiseTime (snd x)" w]) auto
  qed
  obtain sm' w' where r: "reschedule_targets i sm st w1 = Some (sm', w')" "al_keys sm' = al_keys sm"
    "advertise_ok sm' st" "w_trace w' = w_trace w1" "w_systemClock w' = w_systemClock w1"
    "w_systemReads w1 \<le> w_systemReads w'"
    "\<forall>k ad. al_get k sm = Some ad \<longrightarrow>
            (\<exists>n. al_get k sm' = Some (ad\<lparr>ad_nextAdvertiseTime := n\<rparr>)
               \<and> (if \<not> uid_isValid i \<or> uid_eq i (getEntityID (st (ad_entity ad)))
                  then \<exists>r info. w_systemReads w1 \<le> r
                    \<and> getInterfaceInformation (ad_interfaceIndex ad) (st (ad_entity ad)) = Some info
                    \<and> w_systemClock w1 r \<le> n \<and> n < w_systemClock w1 r + ms (400 * unat (ii_validTime info))
                  else n = ad_nextAdvertiseTime ad))"
    using Cons.IH [OF sm, of w1] by blast
  let ?sm = "(fst x, (snd x)\<lparr>ad_nextAdvertiseTime := n\<rparr>) # sm'"
  have "reschedule_targets i (x # sm) st w = Some (?sm, w')"
    using c(1) r(1) by (simp add: Let_def)
  moreover have "\<exists>n. al_get k ?sm = Some (ad\<lparr>ad_nextAdvertiseTime := n\<rparr>)
      \<and> (if \<not> uid_isValid i \<or> uid_eq i (getEntityID (st (ad_entity ad)))
         then \<exists>r info. w_systemReads w \<le> r
           \<and> getInterfaceInformation (ad_interfaceIndex ad) (st (ad_entity ad)) = Some info
           \<and> w_systemClock w r \<le> n \<and> n < w_systemClock w r + ms (400 * unat (ii_validTime info))
         else n = ad_nextAdvertiseTime ad)"
    if get: "al_get k (x # sm) = Some ad" for k ad
  proof (cases "fst x = k")
    case True
    then have ad: "snd x = ad" using get by simp
    show ?thesis using c(5) True unfolding ad by (intro exI [of _ n]) auto
  next
    case False
    then have "al_get k sm = Some ad" using get by simp
    then obtain n2 where "al_get k sm' = Some (ad\<lparr>ad_nextAdvertiseTime := n2\<rparr>)"
      "if \<not> uid_isValid i \<or> uid_eq i (getEntityID (st (ad_entity ad)))
       then \<exists>r info. w_systemReads w1 \<le> r
         \<and> getInterfaceInformation (ad_interfaceIndex ad) (st (ad_entity ad)) = Some info
         \<and> w_systemClock w1 r \<le> n2 \<and> n2 < w_systemClock w1 r + ms (400 * unat (ii_validTime info))
       else n2 = ad_nextAdvertiseTime ad"
      using r(7) by blast
    then show ?thesis
      using False c(3,4) by (intro exI [of _ n2]) (auto split: if_splits intro: le_trans)
  qed
  ultimately show ?case
    using r c x by (auto simp: advertise_ok_def intro: le_trans)
qed (simp add: advertise_ok_def)

section \<open>Properties\<close>

text \<open>
  C35.  An entity due for announcement is announced, once, with its current information, its available
  index is incremented, and its next announcement is at least a second later and always before the
  receivers' timeout: less than twice the valid time announced, in seconds, after the clock was read.
\<close>

theorem announced_before_expiry:
  assumes "getInterfaceInformation (ad_interfaceIndex ad) (st (ad_entity ad)) = Some info"
    and "om_ok (en_interfaces (st (ad_entity ad)))" and "0 < unat (ii_validTime info)"
    and "ad_nextAdvertiseTime ad \<le> t"
  shows "\<exists>p n w' err.
      check_announcement t ad st w = Some (ad\<lparr>ad_nextAdvertiseTime := n\<rparr>,
        st(ad_entity ad := setInterfaceInformation (ad_interfaceIndex ad)
             (info\<lparr>ii_availableIndex := ii_availableIndex info + 1\<rparr>) (st (ad_entity ad))), w')
    \<and> w_trace w' = w_trace w @ [Sent (PAdp p) err]
    \<and> makeEntity p = seen_on (ad_interfaceIndex ad) info (st (ad_entity ad)) \<and> m_status p = ii_validTime info
    \<and> w_systemClock w (w_systemReads w) + ms 1000 \<le> n
    \<and> n < w_systemClock w (w_systemReads w) + ms (1000 * (2 * unat (m_status p)))"
  by (rule check_announcement_due) fact+

definition sample_advertise :: advertise_info where
  "sample_advertise = \<lparr>ad_entity = 1, ad_interfaceIndex = 0, ad_nextAdvertiseTime = 0\<rparr>"

theorem announced_before_expiry_witness:
  "\<exists>ad' st' w'. check_announcement 0 sample_advertise (\<lambda>e. sample_local) sample_world = Some (ad', st', w')
     \<and> ms 1000 \<le> ad_nextAdvertiseTime ad' \<and> ad_nextAdvertiseTime ad' < ms 62000"
proof -
  obtain info where info: "getInterfaceInformation 0 sample_local = Some info" "ii_validTime info = 31"
    by (simp add: getInterfaceInformation_def sample_local_def)
  have "\<exists>p n w' err.
      check_announcement 0 sample_advertise (\<lambda>e. sample_local) sample_world
        = Some (sample_advertise\<lparr>ad_nextAdvertiseTime := n\<rparr>,
        (\<lambda>e. sample_local)(ad_entity sample_advertise := setInterfaceInformation (ad_interfaceIndex sample_advertise)
             (info\<lparr>ii_availableIndex := ii_availableIndex info + 1\<rparr>) sample_local), w')
    \<and> w_trace w' = w_trace sample_world @ [Sent (PAdp p) err]
    \<and> makeEntity p = seen_on (ad_interfaceIndex sample_advertise) info sample_local \<and> m_status p = ii_validTime info
    \<and> w_systemClock sample_world (w_systemReads sample_world) + ms 1000 \<le> n
    \<and> n < w_systemClock sample_world (w_systemReads sample_world) + ms (1000 * (2 * unat (m_status p)))"
    by (rule announced_before_expiry)
       (use info in \<open>simp_all add: sample_advertise_def sample_local_def om_ok_def\<close>)
  then show ?thesis using info(2) by (auto simp: sample_world_def ms_def)
qed

lemma uid_option_eq_refl [simp]: "uid_option_eq x x"
  by (cases x) (simp_all add: uid_eq_def)

lemma word_incr_le: "(a :: 32 word) + 1 \<le> a \<longleftrightarrow> a = -1"
proof (cases "1 + a = 0")
  case True
  then have "a = -1" by (metis add.commute eq_neg_iff_add_eq_0)
  then show ?thesis by simp
next
  case False
  then have "a \<noteq> -1" by auto
  moreover have "unat (1 + a) = Suc (unat a)" using False by (rule unatSuc)
  ultimately show ?thesis by (simp add: word_le_nat_alt add.commute)
qed

text \<open>
  Two announcements of an entity in a row, unchanged in between, are told apart by the available
  index only: a receiver that knows the entity from the first is not notified of the second, unless the
  32-bit index wraps around, when it takes the entity for another one and simulates its departure.
\<close>

theorem reannouncement_quiet:
  assumes "makeEntityAvailableMessage en i = Some (p1, en1)" and "makeEntityAvailableMessage en1 i = Some (p2, en2)"
    and info: "getInterfaceInformation i en = Some info" and ok: "om_ok (en_interfaces en)"
  shows "updateEntity (makeEntity p1) (makeEntity p2) =
    (if ii_availableIndex info = -1 then NotifyOfflineOnline else NoNotify, makeEntity p2)"
proof -
  let ?info = "info\<lparr>ii_availableIndex := ii_availableIndex info + 1\<rparr>"
  have en1: "en1 = setInterfaceInformation i ?info en"
    by (rule available_fields(17) [OF assms(1) info])
  have info1: "getInterfaceInformation i en1 = Some ?info"
    using ok by (simp add: en1 getInterfaceInformation_def setInterfaceInformation_def)
  have same: "en_common en1 = en_common en" "announced_capabilities i en1 ?info = announced_capabilities i en info"
    by (simp_all add: en1 setInterfaceInformation_def announced_capabilities_def)
  have idx: "ii_availableIndex info + 1 \<le> ii_availableIndex info \<longleftrightarrow> ii_availableIndex info = -1"
    by (rule word_incr_le)
  show ?thesis
    unfolding makeEntity_available [OF assms(1) info] makeEntity_available [OF assms(2) info1]
    by (auto simp: updateEntity_def seen_on_def same immutable_changed_def uid_eq_def update_common_def
        setInterfaceInformation_def idx Let_def)
qed

theorem reannouncement_quiet_witness:
  "\<exists>p1 en1 p2 en2. makeEntityAvailableMessage sample_local 0 = Some (p1, en1)
     \<and> makeEntityAvailableMessage en1 0 = Some (p2, en2) \<and> m_availableIndex p2 = 9
     \<and> updateEntity (makeEntity p1) (makeEntity p2) = (NoNotify, makeEntity p2)"
proof -
  obtain info where info: "getInterfaceInformation 0 sample_local = Some info" "ii_availableIndex info = 8"
    by (simp add: getInterfaceInformation_def sample_local_def)
  obtain p1 en1 where p1: "makeEntityAvailableMessage sample_local 0 = Some (p1, en1)"
    using info by (auto simp: makeEntityAvailableMessage_def Let_def)
  have en1: "getInterfaceInformation 0 en1 = Some (info\<lparr>ii_availableIndex := 9\<rparr>)"
    using available_fields(17) [OF p1 info(1)] info
    by (simp add: getInterfaceInformation_def setInterfaceInformation_def sample_local_def)
  obtain p2 en2 where p2: "makeEntityAvailableMessage en1 0 = Some (p2, en2)"
    using en1 by (auto simp: makeEntityAvailableMessage_def Let_def)
  have "om_ok (en_interfaces sample_local)" by (simp add: sample_local_def)
  from reannouncement_quiet [OF p1 p2 info(1) this] available_fields(11) [OF p2 en1] p1 p2 info(2)
  show ?thesis by auto
qed

text \<open>
  A discovery request reschedules exactly the local entities it is addressed to (all of them when
  the identifier is not valid): each of those is announced again within a fifth of its valid period of
  the reading of the clock, the others keep their time, and nothing aborts when the valid times are at
  least 1.
\<close>

theorem discover_reschedules_targets:
  assumes "advertise_ok sm st" and "al_get k sm = Some ad"
  shows "\<exists>sm' w' n. handleAdpEntityDiscover p sm st w = Some (sm', w')
    \<and> al_get k sm' = Some (ad\<lparr>ad_nextAdvertiseTime := n\<rparr>) \<and> w_trace w' = w_trace w
    \<and> (if uid_isValid (m_streamID p) \<and> \<not> uid_eq (m_streamID p) (getEntityID (st (ad_entity ad)))
       then n = ad_nextAdvertiseTime ad
       else \<exists>r info. getInterfaceInformation (ad_interfaceIndex ad) (st (ad_entity ad)) = Some info
              \<and> w_systemClock w r \<le> n \<and> n < w_systemClock w r + ms (400 * unat (ii_validTime info)))"
  using reschedule_targets_ok [OF assms(1), of "m_streamID p" w] assms(2)
  unfolding handleAdpEntityDiscover_def by (auto split: if_splits) metis+

theorem discover_reschedules_targets_witness:
  "\<exists>sm' w' n. handleAdpEntityDiscover (makeDiscoveryMessage 0 0x001b92fffe000005)
       [(0x001b92fffe000001, sample_advertise)] (\<lambda>e. sample_local) sample_world = Some (sm', w')
    \<and> al_get 0x001b92fffe000001 sm' = Some (sample_advertise\<lparr>ad_nextAdvertiseTime := n\<rparr>) \<and> n = 0"
proof -
  have "advertise_ok [(0x001b92fffe000001, sample_advertise)] (\<lambda>e. sample_local)"
    by (simp add: advertise_ok_def advertisable_def sample_advertise_def sample_local_def getInterfaceInformation_def)
  from discover_reschedules_targets [OF this, of "0x001b92fffe000001" sample_advertise
      "makeDiscoveryMessage 0 0x001b92fffe000005" sample_world]
  show ?thesis
    by (auto simp: makeDiscoveryMessage_def uid_isValid_def uid_null_def uid_uninitialized_def uid_eq_def
        getEntityID_def sample_local_def sample_advertise_def split: if_splits)
qed

text \<open>
  Checking the announcements neither fails nor loses an entity: as long as the interfaces that
  advertise exist and have a valid time of at least 1, which the check preserves, every check completes.
\<close>

theorem announcements_never_abort:
  assumes "advertise_ok sm st"
  shows "\<exists>sm' st' w'. checkLocalEntitiesAnnouncement sm st w = Some (sm', st', w')
    \<and> al_keys sm' = al_keys sm \<and> advertise_ok sm' st'"
  using check_announcements_ok [OF assms] by (auto simp: checkLocalEntitiesAnnouncement_def split_beta) blast

theorem announcements_never_abort_witness:
  "\<exists>sm' st' w'. checkLocalEntitiesAnnouncement [(0x001b92fffe000001, sample_advertise)] (\<lambda>e. sample_local) sample_world
     = Some (sm', st', w') \<and> al_keys sm' = [0x001b92fffe000001]"
proof -
  have "advertise_ok [(0x001b92fffe000001, sample_advertise)] (\<lambda>e. sample_local)"
    by (simp add: advertise_ok_def advertisable_def sample_advertise_def sample_local_def getInterfaceInformation_def)
  from announcements_never_abort [OF this, of sample_world] show ?thesis by auto
qed

end
