(* ===== verification/Manager.thy ===== *)
theory Manager
  imports CommandStateMachine AdvertiseStateMachine
begin

text \<open>
  \<^verbatim>\<open>stateMachine::Manager\<close> (src/stateMachine/stateMachineManager.hpp and .cpp): the local entities of a
  protocol interface and its three state machines, the dispatch of what the interface receives, one turn
  of the state machine thread, and what the interface does when a remote entity goes offline
  (src/protocolInterface/protocolInterface_pcap.cpp).

  A method is one step: the manager's recursive lock keeps its callers apart (the discovery delay and the
  time of the last request are read and written without it; the model takes their accesses in some order).  The references to the
  local entities are those of the theory AdvertiseStateMachine.  A step is None where one of its parts is:
  the program would not go on.
\<close>

section \<open>State\<close>

record manager =
  mg_macAddress :: mac_address
  mg_localEntities :: "(entity_id, entity_ref) alist"
  mg_advertise :: advertise_sm
  mg_discovery :: discovery_sm
  mg_command :: command_sm
  mg_store :: store
  mg_world :: world

definition manager_new :: "mac_address \<Rightarrow> store \<Rightarrow> world \<Rightarrow> manager" where
  "manager_new macAddress st w =
     (let (ds, w) = discovery_new w in
      \<lparr>mg_macAddress = macAddress, mg_localEntities = [], mg_advertise = [], mg_discovery = ds,
       mg_command = [], mg_store = st, mg_world = w\<rparr>)"

definition isLocalEntity :: "manager \<Rightarrow> entity_id \<Rightarrow> bool" where
  "isLocalEntity m entityID \<longleftrightarrow> al_get entityID (mg_localEntities m) \<noteq> None"

text \<open>
  The delegate of the discovery is the protocol interface: it passes the call on to its observers
  and, when a remote entity is offline, calls \<^verbatim>\<open>Manager::onRemoteEntityOffline\<close>.
\<close>

definition onRemoteEntityOffline :: "entity_id \<Rightarrow> manager \<Rightarrow> manager" where
  "onRemoteEntityOffline entityID m =
     m\<lparr>mg_command := discardAECPCommandsTowardsEntity entityID (mg_command m)\<rparr>"

definition notify_delegate :: "event \<Rightarrow> manager \<Rightarrow> manager" where
  "notify_delegate ev m =
     (let m = m\<lparr>mg_world := emit [ev] (mg_world m)\<rparr> in
      case ev of OnRemoteEntityOffline entityID \<Rightarrow> onRemoteEntityOffline entityID m | _ \<Rightarrow> m)"

definition notify_all :: "event list \<Rightarrow> manager \<Rightarrow> manager" where
  "notify_all evs m = fold notify_delegate evs m"

section \<open>Advertising entry points\<close>

definition mg_setEntityNeedsAdvertise :: "entity_ref \<Rightarrow> manager \<Rightarrow> (error \<times> manager) option" where
  "mg_setEntityNeedsAdvertise e m =
     Option.bind (setEntityNeedsAdvertise (mg_macAddress m) e (mg_advertise m) (mg_store m) (mg_world m)) (\<lambda>(adv, w).
       Some (NoError, m\<lparr>mg_advertise := adv, mg_world := w\<rparr>))"

definition mg_enableEntityAdvertising :: "entity_ref \<Rightarrow> manager \<Rightarrow> error \<times> manager" where
  "mg_enableEntityAdvertising e m =
     (NoError, m\<lparr>mg_advertise := enableEntityAdvertising (mg_macAddress m) e (mg_advertise m) (mg_store m)\<rparr>)"

definition mg_disableEntityAdvertising :: "entity_ref \<Rightarrow> manager \<Rightarrow> error \<times> manager" where
  "mg_disableEntityAdvertising e m =
     (let (adv, w) = disableEntityAdvertising (mg_macAddress m) e (mg_advertise m) (mg_store m) (mg_world m)
      in (NoError, m\<lparr>mg_advertise := adv, mg_world := w\<rparr>))"

section \<open>Local entities\<close>

definition registerLocalEntity :: "entity_ref \<Rightarrow> manager \<Rightarrow> error \<times> manager" where
  "registerLocalEntity e m =
     (let entityID = getEntityID (mg_store m e) in
      if list_ex (\<lambda>x. uid_eq entityID (fst x)) (mg_localEntities m) then (DuplicateLocalEntityID, m)
      else (NoError, notify_delegate (OnLocalEntityOnline (mg_store m e))
        (m\<lparr>mg_localEntities := al_put entityID e (mg_localEntities m),
           mg_command := command_registerLocalEntity entityID (mg_command m)\<rparr>)))"

text \<open>The loop over the local entities: the entries left, was one removed, and the manager.\<close>

primrec remove_local_entity ::
  "entity_ref \<Rightarrow> (entity_id, entity_ref) alist \<Rightarrow> manager \<Rightarrow> (entity_id, entity_ref) alist \<times> bool \<times> manager"
where
  "remove_local_entity e [] m = ([], False, m)"
| "remove_local_entity e (x # xs) m =
     (if snd x = e
      then let (xs, _, m) = remove_local_entity e xs (snd (mg_disableEntityAdvertising e m)) in (xs, True, m)
      else let (xs, removed, m) = remove_local_entity e xs m in (x # xs, removed, m))"

definition unregisterLocalEntity :: "entity_ref \<Rightarrow> manager \<Rightarrow> error \<times> manager" where
  "unregisterLocalEntity e m =
     (let (locals, removed, m) = remove_local_entity e (mg_localEntities m) m;
          m = m\<lparr>mg_localEntities := locals\<rparr>
      in if \<not> removed then (UnknownLocalEntity, m)
         else let entityID = getEntityID (mg_store m e);
                  (csm, w) = command_unregisterLocalEntity entityID (mg_command m) (mg_world m)
              in (NoError, notify_delegate (OnLocalEntityOffline entityID) (m\<lparr>mg_command := csm, mg_world := w\<rparr>)))"

text \<open>The calls \<^verbatim>\<open>notifyDiscoveredEntities\<close> makes of the methods of a new observer.\<close>

definition notifyDiscoveredEntities :: "manager \<Rightarrow> event list" where
  "notifyDiscoveredEntities m =
     map (\<lambda>(i, e). OnLocalEntityOnline (mg_store m e)) (mg_localEntities m)
       @ notifyDiscoveredRemoteEntities (mg_discovery m)"

section \<open>Received messages\<close>

definition processAdpdu :: "adpdu \<Rightarrow> manager \<Rightarrow> manager option" where
  "processAdpdu p m =
     (if m_controlData p = AdpMessageType_EntityAvailable
      then let (ds, evs, w) = handleAdpEntityAvailable (isLocalEntity m) p (mg_discovery m) (mg_world m)
           in Some (notify_all evs (m\<lparr>mg_discovery := ds, mg_world := w\<rparr>))
      else if m_controlData p = AdpMessageType_EntityDeparting
      then let (ds, evs) = handleAdpEntityDeparting (isLocalEntity m) p (mg_discovery m)
           in Some (notify_all evs (m\<lparr>mg_discovery := ds\<rparr>))
      else if m_controlData p = AdpMessageType_EntityDiscover
      then Option.bind (handleAdpEntityDiscover p (mg_advertise m) (mg_store m) (mg_world m)) (\<lambda>(adv, w).
             Some (m\<lparr>mg_advertise := adv, mg_world := w\<rparr>))
      else Some m)"

definition processAecpdu :: "vu_delegates \<Rightarrow> aecp_pdu \<Rightarrow> manager \<Rightarrow> manager" where
  "processAecpdu vud p m =
     (if aecp_messageType p mod 2 = 1
      then let (csm, w) = handleAecpResponse vud p (mg_command m) (mg_world m)
           in m\<lparr>mg_command := csm, mg_world := w\<rparr>
      else if isLocalEntity m (aecp_targetEntityID p)
      then m\<lparr>mg_world := emit [OnAecpCommand p] (mg_world m)\<rparr>
      else m)"

definition processAcmpdu :: "acmpdu \<Rightarrow> manager \<Rightarrow> manager" where
  "processAcmpdu p m =
     (if m_controlData p mod 2 = 1
      then let (csm, w) = handleAcmpResponse p (mg_command m) (mg_world m)
           in m\<lparr>mg_command := csm, mg_world := emit [OnAcmpResponse p] w\<rparr>
      else m\<lparr>mg_world := emit [OnAcmpCommand p] (mg_world m)\<rparr>)"

section \<open>The state machine thread\<close>

text \<open>
  The four checks the thread makes in a turn.  Each takes the lock for itself, so that a call of another
  thread may come between two of them.
\<close>

definition mg_checkLocalEntitiesAnnouncement :: "manager \<Rightarrow> manager option" where
  "mg_checkLocalEntitiesAnnouncement m =
     Option.bind (checkLocalEntitiesAnnouncement (mg_advertise m) (mg_store m) (mg_world m)) (\<lambda>(adv, st, w).
       Some (m\<lparr>mg_advertise := adv, mg_store := st, mg_world := w\<rparr>))"

definition mg_checkDiscovery :: "manager \<Rightarrow> manager" where
  "mg_checkDiscovery m =
     (let (ds, w) = checkDiscovery (mg_macAddress m) (mg_discovery m) (mg_world m)
      in m\<lparr>mg_discovery := ds, mg_world := w\<rparr>)"

definition mg_checkRemoteEntities :: "manager \<Rightarrow> manager" where
  "mg_checkRemoteEntities m =
     (let (ds, evs, w) = checkRemoteEntitiesTimeoutExpiracy (mg_discovery m) (mg_world m)
      in notify_all evs (m\<lparr>mg_discovery := ds, mg_world := w\<rparr>))"

definition mg_checkInflightCommands :: "vu_delegates \<Rightarrow> manager \<Rightarrow> manager" where
  "mg_checkInflightCommands vud m =
     (let (csm, w) = checkInflightCommandsTimeoutExpiracy vud (mg_command m) (mg_world m)
      in m\<lparr>mg_command := csm, mg_world := w\<rparr>)"

definition thread_turn :: "vu_delegates \<Rightarrow> manager \<Rightarrow> manager option" where
  "thread_turn vud m =
     map_option (\<lambda>m. mg_checkInflightCommands vud (mg_checkRemoteEntities (mg_checkDiscovery m)))
       (mg_checkLocalEntitiesAnnouncement m)"

section \<open>Discovery and sending entry points\<close>

definition mg_setAutomaticDiscoveryDelay :: "time \<Rightarrow> manager \<Rightarrow> error \<times> manager" where
  "mg_setAutomaticDiscoveryDelay delay m =
     (let (ds, w) = setDiscoveryDelay delay (mg_discovery m) (mg_world m)
      in (NoError, m\<lparr>mg_discovery := ds, mg_world := w\<rparr>))"

definition mg_discoverRemoteEntity :: "entity_id \<Rightarrow> manager \<Rightarrow> error \<times> manager" where
  "mg_discoverRemoteEntity entityID m =
     (let (err, ds, w) = discoverRemoteEntity (mg_macAddress m) entityID (mg_discovery m) (mg_world m)
      in (err, m\<lparr>mg_discovery := ds, mg_world := w\<rparr>))"

definition mg_forgetRemoteEntity :: "entity_id \<Rightarrow> manager \<Rightarrow> error \<times> manager" where
  "mg_forgetRemoteEntity entityID m =
     (let (err, ds, evs) = forgetRemoteEntity entityID (mg_discovery m)
      in (err, notify_all evs (m\<lparr>mg_discovery := ds\<rparr>)))"

definition mg_sendAecpCommand :: "vu_delegates \<Rightarrow> aecp_pdu \<Rightarrow> handler \<Rightarrow> manager \<Rightarrow> error \<times> manager" where
  "mg_sendAecpCommand vud p onResult m =
     (let (err, csm, w) = sendAecpCommand vud p onResult (mg_command m) (mg_world m)
      in (err, m\<lparr>mg_command := csm, mg_world := w\<rparr>))"

definition mg_sendAcmpCommand :: "acmpdu \<Rightarrow> handler \<Rightarrow> manager \<Rightarrow> error \<times> manager" where
  "mg_sendAcmpCommand p onResult m =
     (let (err, csm, w) = sendAcmpCommand p onResult (mg_command m) (mg_world m)
      in (err, m\<lparr>mg_command := csm, mg_world := w\<rparr>))"

end
