(* ===== verification/ProtocolInterface.thy ===== *)
theory ProtocolInterface
  imports Manager
begin

text \<open>
  The protocol interface between the local entities and the state machines: the registry of vendor
  unique delegates (src/protocolInterface/protocolInterface.cpp), the entry points of the pcap transport
  (src/protocolInterface/protocolInterface_pcap.cpp) and the dispatch of received packets
  (src/protocolInterface/ethernetPacketDispatch.hpp).

  A vendor unique delegate is an object of the user of the library: its methods are functions here.  The
  calls it gets are events.
\<close>

unbundle bit_operations_syntax

section \<open>Vendor unique delegates\<close>

record vu_delegate =
  vd_areHandledByControllerStateMachine :: "64 word \<Rightarrow> bool"
  vd_getVuAecpCommandTimeoutMsec :: "64 word \<Rightarrow> aecp_pdu \<Rightarrow> nat"
  vd_isVuAecpUnsolicitedResponse :: "64 word \<Rightarrow> aecp_pdu \<Rightarrow> bool"
  vd_createAecpdu :: "64 word \<Rightarrow> bool \<Rightarrow> aecp_pdu"

type_synonym vu_registry = "(64 word, vu_delegate) alist"

definition registerVendorUniqueDelegate :: "64 word \<Rightarrow> vu_delegate \<Rightarrow> vu_registry \<Rightarrow> vu_registry" where
  "registerVendorUniqueDelegate protocolIdentifier vd reg = al_put protocolIdentifier vd reg"

definition unregisterVendorUniqueDelegate :: "64 word \<Rightarrow> vu_registry \<Rightarrow> vu_registry" where
  "unregisterVendorUniqueDelegate protocolIdentifier reg = al_del protocolIdentifier reg"

definition unregisterAllVendorUniqueDelegates :: "vu_registry \<Rightarrow> vu_registry" where
  "unregisterAllVendorUniqueDelegates reg = []"

definition getVendorUniqueDelegate :: "64 word \<Rightarrow> vu_registry \<Rightarrow> vu_delegate option" where
  "getVendorUniqueDelegate protocolIdentifier reg = al_get protocolIdentifier reg"

definition getVendorUniqueCommandTimeout :: "vu_registry \<Rightarrow> 64 word \<Rightarrow> aecp_pdu \<Rightarrow> nat" where
  "getVendorUniqueCommandTimeout reg protocolIdentifier p =
     (case al_get protocolIdentifier reg of
        None \<Rightarrow> 250 | Some vd \<Rightarrow> vd_getVuAecpCommandTimeoutMsec vd protocolIdentifier p)"

definition isVendorUniqueUnsolicitedResponse :: "vu_registry \<Rightarrow> 64 word \<Rightarrow> aecp_pdu \<Rightarrow> bool" where
  "isVendorUniqueUnsolicitedResponse reg protocolIdentifier p =
     (case al_get protocolIdentifier reg of
        None \<Rightarrow> False | Some vd \<Rightarrow> vd_isVuAecpUnsolicitedResponse vd protocolIdentifier p)"

text \<open>What the command state machine asks of the interface.\<close>

definition registry_delegates :: "vu_registry \<Rightarrow> vu_delegates" where
  "registry_delegates reg =
     \<lparr>vu_timeoutMsec = getVendorUniqueCommandTimeout reg, vu_isUnsolicited = isVendorUniqueUnsolicitedResponse reg\<rparr>"

section \<open>Entry points\<close>

definition isAecpResponseMessageType :: "8 word \<Rightarrow> bool" where
  "isAecpResponseMessageType messageType \<longleftrightarrow> messageType \<in> {1, 3, 5, 7, 9, 15}"

definition pi_registerLocalEntity :: "entity_ref \<Rightarrow> manager \<Rightarrow> error \<times> manager" where
  "pi_registerLocalEntity e m =
     (if getMatchingInterfaceIndex (mg_macAddress m) (mg_store m e) \<noteq> None then registerLocalEntity e m
      else (InvalidParameters, m))"

text \<open>A vendor unique message the state machine may not handle.\<close>

definition vu_not_handled :: "vu_registry \<Rightarrow> aecp_pdu \<Rightarrow> bool" where
  "vu_not_handled reg p =
     (case getVendorUniqueDelegate (vu_protocolIdentifier p) reg of
        None \<Rightarrow> True
      | Some vd \<Rightarrow> \<not> vd_areHandledByControllerStateMachine vd (vu_protocolIdentifier p))"

definition pi_sendAecpCommand :: "vu_registry \<Rightarrow> aecp_pdu \<Rightarrow> handler \<Rightarrow> manager \<Rightarrow> error \<times> manager" where
  "pi_sendAecpCommand reg p onResult m =
     (if isAecpResponseMessageType (aecp_messageType p) then (MessageNotSupported, m)
      else if aecp_messageType p = AecpMessageType_VendorUniqueCommand \<and> vu_not_handled reg p
      then (MessageNotSupported, m)
      else mg_sendAecpCommand (registry_delegates reg) p onResult m)"

definition pi_sendAecpResponse :: "vu_registry \<Rightarrow> aecp_pdu \<Rightarrow> manager \<Rightarrow> error \<times> manager" where
  "pi_sendAecpResponse reg p m =
     (if \<not> isAecpResponseMessageType (aecp_messageType p) then (MessageNotSupported, m)
      else if aecp_messageType p = AecpMessageType_VendorUniqueResponse \<and> vu_not_handled reg p
      then (MessageNotSupported, m)
      else let (err, w) = sendMessage (PAecp p) (mg_world m) in (err, m\<lparr>mg_world := w\<rparr>))"

section \<open>Received packets\<close>

text \<open>
  \<^verbatim>\<open>deserializeAecpMessage\<close>: the AVTP header, then the deserializer of the message's class.  None is
  \<^verbatim>\<open>std::invalid_argument\<close>.
\<close>

definition set_ether :: "ether_layer2 \<Rightarrow> 'a ether_layer2_scheme \<Rightarrow> 'a ether_layer2_scheme" where
  "set_ether ether p = p\<lparr>m_srcAddress := m_srcAddress ether, m_destAddress := m_destAddress ether\<rparr>"

definition deserializeAecpMessage ::
  "build_options \<Rightarrow> ether_layer2 \<Rightarrow> byte list \<Rightarrow> aecp_pdu \<Rightarrow> aecp_pdu option"
where
  "deserializeAecpMessage opts ether pkt aecp =
     (case aecp of
        Aem p \<Rightarrow> Option.bind (AvtpduControl_deserialize (set_ether ether p) (deser_new pkt)) (\<lambda>(p, d).
                  map_option (\<lambda>x. Aem (fst x)) (AemAecpdu_deserialize opts p d))
      | Aa p \<Rightarrow> Option.bind (AvtpduControl_deserialize (set_ether ether p) (deser_new pkt)) (\<lambda>(p, d).
                  map_option (\<lambda>x. Aa (fst x)) (AaAecpdu_deserialize opts p d))
      | Vu p \<Rightarrow> Option.bind (AvtpduControl_deserialize (set_ether ether p) (deser_new pkt)) (\<lambda>(p, d).
                  map_option (\<lambda>x. Vu (fst x)) (VuAecpdu_deserialize p d))
      | Mvu p \<Rightarrow> Option.bind (AvtpduControl_deserialize (set_ether ether p) (deser_new pkt)) (\<lambda>(p, d).
                  map_option (\<lambda>x. Mvu (fst x)) (MvuAecpdu_deserialize opts p d)))"

text \<open>
  What the table of message types makes of an AECP packet: a message to deserialize and process
  (\<^verbatim>\<open>Process\<close>), one to hand to the delegate of its protocol (\<^verbatim>\<open>Delegate\<close>), or nothing.
\<close>

datatype aecp_route = Process aecp_pdu | ToDelegate bool "64 word" aecp_pdu | Ignore

definition vu_route :: "vu_registry \<Rightarrow> bool \<Rightarrow> byte list \<Rightarrow> aecp_route" where
  "vu_route reg isResponse pkt =
     (let protocolIdentifierOffset = AvtpduControl_HeaderLength + Aecpdu_HeaderLength in
      if length pkt \<ge> protocolIdentifierOffset + 6
      then let vuProtocolID = ProtocolIdentifier_of_array (take 6 (drop protocolIdentifierOffset pkt)) in
           (case getVendorUniqueDelegate vuProtocolID reg of
              None \<Rightarrow> Ignore
            | Some vd \<Rightarrow>
                if isResponse \<and> vd_areHandledByControllerStateMachine vd vuProtocolID
                then Process (vd_createAecpdu vd vuProtocolID True)
                else ToDelegate isResponse vuProtocolID (vd_createAecpdu vd vuProtocolID isResponse))
      else Ignore)"

definition aecp_dispatch :: "vu_registry \<Rightarrow> 8 word \<Rightarrow> byte list \<Rightarrow> aecp_route" where
  "aecp_dispatch reg messageType pkt =
     (if messageType = AecpMessageType_AemCommand then Process (Aem (AemAecpdu_new False))
      else if messageType = AecpMessageType_AemResponse then Process (Aem (AemAecpdu_new True))
      else if messageType = AecpMessageType_AddressAccessCommand then Process (Aa (AaAecpdu_new False))
      else if messageType = AecpMessageType_AddressAccessResponse then Process (Aa (AaAecpdu_new True))
      else if messageType = AecpMessageType_VendorUniqueCommand then vu_route reg False pkt
      else if messageType = AecpMessageType_VendorUniqueResponse then vu_route reg True pkt
      else Ignore)"

definition received :: "event list \<Rightarrow> manager \<Rightarrow> manager" where
  "received evs m = m\<lparr>mg_world := emit evs (mg_world m)\<rparr>"

definition dispatch_adp :: "build_options \<Rightarrow> ether_layer2 \<Rightarrow> byte list \<Rightarrow> manager \<Rightarrow> manager option" where
  "dispatch_adp opts ether pkt m =
     (case Adpdu_receive opts ether pkt of
        None \<Rightarrow> Some m
      | Some p \<Rightarrow> processAdpdu p (received [OnAdpduReceived p] m))"

definition dispatch_aecp ::
  "build_options \<Rightarrow> vu_registry \<Rightarrow> 8 word \<Rightarrow> ether_layer2 \<Rightarrow> byte list \<Rightarrow> manager \<Rightarrow> manager"
where
  "dispatch_aecp opts reg messageType ether pkt m =
     (case aecp_dispatch reg messageType pkt of
        Ignore \<Rightarrow> m
      | Process aecp \<Rightarrow>
          (case deserializeAecpMessage opts ether pkt aecp of
             None \<Rightarrow> m
           | Some p \<Rightarrow> processAecpdu (registry_delegates reg) p (received [OnAecpduReceived p] m))
      | ToDelegate isResponse vuProtocolID aecp \<Rightarrow>
          (case deserializeAecpMessage opts ether pkt aecp of
             None \<Rightarrow> m
           | Some p \<Rightarrow> received [OnAecpduReceived p,
               if isResponse then OnVuAecpResponse vuProtocolID p else OnVuAecpCommand vuProtocolID p] m))"

definition dispatch_acmp :: "build_options \<Rightarrow> ether_layer2 \<Rightarrow> byte list \<Rightarrow> manager \<Rightarrow> manager" where
  "dispatch_acmp opts ether pkt m =
     (case Acmpdu_receive opts ether pkt of
        None \<Rightarrow> m
      | Some p \<Rightarrow> processAcmpdu p (received [OnAcmpduReceived p] m))"

text \<open>
  The first two bytes are read before any check of the length: \<^verbatim>\<open>beyond\<close> is what lies after the packet.
\<close>

definition byte_at :: "(nat \<Rightarrow> byte) \<Rightarrow> byte list \<Rightarrow> nat \<Rightarrow> byte" where
  "byte_at beyond pkt i = (if i < length pkt then pkt ! i else beyond i)"

definition dispatchAvdeccMessage ::
  "build_options \<Rightarrow> vu_registry \<Rightarrow> (nat \<Rightarrow> byte) \<Rightarrow> byte list \<Rightarrow> ether_layer2 \<Rightarrow> manager \<Rightarrow> manager option"
where
  "dispatchAvdeccMessage opts reg beyond pkt ether m =
     (let subType = byte_at beyond pkt 0 AND 0x7f; controlData = byte_at beyond pkt 1 AND 0x7f in
      if subType = AvtpSubType_Adp then dispatch_adp opts ether pkt m
      else if subType = AvtpSubType_Aecp then Some (dispatch_aecp opts reg controlData ether pkt m)
      else if subType = AvtpSubType_Acmp then Some (dispatch_acmp opts ether pkt m)
      else Some m)"

text \<open>
  \<^verbatim>\<open>processRawPacket\<close>: a frame too short for its header throws out of the job, whose executor catches.
\<close>

definition processRawPacket ::
  "build_options \<Rightarrow> vu_registry \<Rightarrow> (nat \<Rightarrow> byte) \<Rightarrow> byte list \<Rightarrow> manager \<Rightarrow> manager option"
where
  "processRawPacket opts reg beyond msg m =
     (case EtherLayer2_deserialize \<lparr>m_destAddress = 0, m_srcAddress = 0, m_etherType = 0\<rparr> (deser_new msg) of
        None \<Rightarrow> Some m
      | Some (ether, d) \<Rightarrow>
          if m_etherType ether \<noteq> AvtpEtherType then Some m
          else let pkt = drop 14 msg; beyond = (\<lambda>i. beyond (14 + i)) in
               if byte_at beyond pkt 0 AND 0xF0 = 0 then Some m
               else dispatchAvdeccMessage opts reg beyond pkt ether m)"

end
