(* ===== verification/Reception.thy ===== *)
theory Reception
  imports ProtocolInterface
begin

text \<open>
  From the frame a transport sends to what the receiving interface does: the composition of the
  serializers, the packet dispatch and the state machines.
\<close>

unbundle bit_operations_syntax

section \<open>Frames of the library\<close>

text \<open>The header of a message the library builds: version 0, the control bit set, the AVTP ether type.\<close>

definition library_header :: "8 word \<Rightarrow> 'a avtpdu_control_scheme \<Rightarrow> bool" where
  "library_header subType p \<longleftrightarrow> m_cd p \<and> m_subType p = subType \<and> \<not> m_headerSpecific p
     \<and> m_version p = AvtpVersion \<and> m_etherType p = AvtpEtherType"

lemma first_byte:
  "pack_cd_subType True s AND 0xF0 \<noteq> 0"
  "pack_cd_subType b s AND 0x7f = s AND 0x7f"
  "pack_hs_vers_cd False 0 c AND 0x7f = c AND 0x0f"
  by (auto simp: pack_cd_subType_def pack_hs_vers_cd_def narrow_bits)

lemma control_bytes_Cons:
  "control_bytes p = pack_cd_subType (m_cd p) (m_subType p)
     # pack_hs_vers_cd (m_headerSpecific p) (m_version p) (m_controlData p)
     # u16 (pack_st_cdl (m_status p) (m_controlDataLength p)) @ u64 (m_streamID p)"
  by (simp add: control_bytes_def u8_def be_bytes_def)

lemma processRawPacket_frame:
  fixes p :: "'a avtpdu_control_scheme"
  assumes "library_header subType p"
  shows "processRawPacket opts reg beyond (ether_bytes p @ control_bytes p @ body) m =
    dispatchAvdeccMessage opts reg (\<lambda>i. beyond (14 + i)) (control_bytes p @ body)
      \<lparr>m_destAddress = m_destAddress p, m_srcAddress = m_srcAddress p, m_etherType = m_etherType p\<rparr> m"
  using assms
  by (simp add: processRawPacket_def library_header_def byte_at_def Let_def control_bytes_Cons
      first_byte deser_new_def)

lemma dispatch_frame:
  fixes p :: "'a avtpdu_control_scheme"
  assumes "library_header subType p"
  shows "dispatchAvdeccMessage opts reg beyond (control_bytes p @ body) ether m =
    (if subType AND 0x7f = AvtpSubType_Adp then dispatch_adp opts ether (control_bytes p @ body) m
     else if subType AND 0x7f = AvtpSubType_Aecp
     then Some (dispatch_aecp opts reg (m_controlData p AND 0x0f) ether (control_bytes p @ body) m)
     else if subType AND 0x7f = AvtpSubType_Acmp then Some (dispatch_acmp opts ether (control_bytes p @ body) m)
     else Some m)"
  using assms
  by (simp add: dispatchAvdeccMessage_def library_header_def byte_at_def Let_def control_bytes_Cons
      first_byte AvtpVersion_def)

lemma bind_Some_map: "Option.bind x (\<lambda>(p, d). Some p) = map_option fst x"
  by (cases x) auto

lemma deserializeAecpMessage_Aem:
  "deserializeAecpMessage opts ether pkt (Aem (AemAecpdu_new b))
     = map_option Aem (AemAecpdu_receive opts ether b pkt)"
  by (cases "AvtpduControl_deserialize (set_ether ether (AemAecpdu_new b)) (deser_new pkt)")
     (auto simp: deserializeAecpMessage_def AemAecpdu_receive_def set_ether_def split_beta bind_Some_map
       option.map_comp comp_def)

section \<open>Properties\<close>

text \<open>
  A packet too short for the AVTP header is dropped without effect, although its first two bytes are
  read before any check of its length: whatever lies beyond its end, nothing changes.
\<close>

theorem short_packets_dropped:
  assumes "length pkt < AvtpduControl_HeaderLength"
  shows "dispatchAvdeccMessage opts reg beyond pkt ether m = Some m"
proof -
  have none: "AvtpduControl_deserialize q (Deser [] pkt) = None" for q :: "'a avtpdu_control_scheme"
    using assms by (simp add: AvtpduControl_deserialize_def)
  have route: "vu_route reg b pkt = Ignore" for b
    using assms by (simp add: vu_route_def Let_def)
  have "dispatch_adp opts ether pkt m = Some m" "dispatch_acmp opts ether pkt m = m"
    by (simp_all add: dispatch_adp_def dispatch_acmp_def Adpdu_receive_def Acmpdu_receive_def none)
  moreover have "deserializeAecpMessage opts ether pkt aecp = None" for aecp
    by (cases aecp) (simp_all add: deserializeAecpMessage_def none)
  then have "dispatch_aecp opts reg t ether pkt m = m" for t
    by (simp add: dispatch_aecp_def aecp_dispatch_def route)
  ultimately show ?thesis by (simp add: dispatchAvdeccMessage_def Let_def)
qed

theorem short_packets_dropped_witness:
  "dispatchAvdeccMessage default_build [] (\<lambda>i. 0xfb) [0xfb]
     \<lparr>m_destAddress = 0x91e0f0010000, m_srcAddress = 0x001b92000001, m_etherType = AvtpEtherType\<rparr>
     (manager_new 0x001b92000002 (\<lambda>e. sample_local) sample_world)
   = Some (manager_new 0x001b92000002 (\<lambda>e. sample_local) sample_world)"
  by (rule short_packets_dropped) (simp add: AvtpduControl_HeaderLength_def)

lemma aem_frame_dispatch:
  fixes p :: aem_aecpdu
  assumes "Aem_setCommandSpecificData opts dat p0 = Some p"
    and "length dat \<le> Aem_MaximumSendPayloadBufferLength opts"
    and "length dat \<le> Aem_MaximumRecvPayloadBufferLength opts"
    and "control_fits p" and "m_commandType p AND 0x7fff = m_commandType p"
    and header: "library_header AvtpSubType_Aecp p"
    and type: "m_controlData p \<in> {AecpMessageType_AemCommand, AecpMessageType_AemResponse}"
  shows "\<exists>frame. AemAecpdu_frame opts p = Some frame
    \<and> processRawPacket opts reg beyond (frame @ pad) m =
        Some (processAecpdu (registry_delegates reg) (Aem p) (received [OnAecpduReceived (Aem p)] m))"
proof -
  let ?ether = "\<lparr>m_destAddress = m_destAddress p, m_srcAddress = m_srcAddress p, m_etherType = m_etherType p\<rparr>"
  let ?pkt = "control_bytes p @ aem_bytes opts p @ pad"
  have frame: "AemAecpdu_frame opts p = Some (ether_bytes p @ control_bytes p @ aem_bytes opts p)"
    by (rule AemAecpdu_frame_eq)
  have "AemAecpdu_receive opts p b ?pkt = Some p" for b
    using aem_roundtrip_frame [of opts dat p0 p b pad] assms frame
    by (simp add: library_header_def EtherLayer2_HeaderLength_def)
  then have receive: "AemAecpdu_receive opts ?ether b ?pkt = Some p" for b
    by (simp add: AemAecpdu_receive_def)
  have data: "m_controlData p AND 0x0f = m_controlData p"
    using assms(4) by (simp add: control_fits_def)
  have dispatch: "aecp_dispatch reg (m_controlData p) ?pkt
      = Process (Aem (AemAecpdu_new (m_controlData p = AecpMessageType_AemResponse)))"
    using type by (auto simp: aecp_dispatch_def AecpMessageType_AemCommand_def AecpMessageType_AemResponse_def)
  have "processRawPacket opts reg beyond ((ether_bytes p @ control_bytes p @ aem_bytes opts p) @ pad) m
      = dispatchAvdeccMessage opts reg (\<lambda>i. beyond (14 + i)) ?pkt ?ether m"
    using processRawPacket_frame [OF header, of opts reg beyond "aem_bytes opts p @ pad" m] by simp
  also have "\<dots> = Some (dispatch_aecp opts reg (m_controlData p) ?ether ?pkt m)"
    unfolding dispatch_frame [OF header] data
    by (simp add: AvtpSubType_Adp_def AvtpSubType_Aecp_def)
  also have "\<dots> = Some (processAecpdu (registry_delegates reg) (Aem p) (received [OnAecpduReceived (Aem p)] m))"
    by (simp add: dispatch_aecp_def dispatch deserializeAecpMessage_Aem receive)
  finally show ?thesis using frame by blast
qed

text \<open>
  An AEM message that a transport sends is processed by the interface that receives it exactly as it
  was sent: through the packet dispatch and the deserializers, with any padding, what happens is the
  low level notification and the processing of that very message.
\<close>

theorem aem_frame_processed:
  fixes p :: aem_aecpdu
  assumes "Aem_setCommandSpecificData opts dat p0 = Some p"
    and "length dat \<le> Aem_MaximumSendPayloadBufferLength opts"
    and "length dat \<le> Aem_MaximumRecvPayloadBufferLength opts"
    and "control_fits p" and "m_commandType p AND 0x7fff = m_commandType p"
    and header: "library_header AvtpSubType_Aecp p"
    and type: "m_controlData p \<in> {AecpMessageType_AemCommand, AecpMessageType_AemResponse}"
  shows "\<exists>frame. AemAecpdu_frame opts p = Some frame
    \<and> processRawPacket opts reg beyond (frame @ pad) m =
        Some (processAecpdu (registry_delegates reg) (Aem p) (received [OnAecpduReceived (Aem p)] m))"
  by (rule aem_frame_dispatch) fact+

lemma adp_frame_processed:
  fixes p q :: adpdu
  assumes frame: "Adpdu_frame p = Some frame"
    and "Adpdu_receive opts p (drop EtherLayer2_HeaderLength frame @ pad) = Some q"
    and header: "library_header AvtpSubType_Adp p"
  shows "processRawPacket opts reg beyond (frame @ pad) m = processAdpdu q (received [OnAdpduReceived q] m)"
proof -
  let ?ether = "\<lparr>m_destAddress = m_destAddress p, m_srcAddress = m_srcAddress p, m_etherType = m_etherType p\<rparr>"
  have bytes: "frame = ether_bytes p @ control_bytes p @ Adpdu_bytes p"
    using frame by (simp add: Adpdu_frame_eq)
  have receive: "Adpdu_receive opts ?ether (control_bytes p @ Adpdu_bytes p @ pad) = Some q"
    using assms(2) unfolding bytes by (simp add: Adpdu_receive_def EtherLayer2_HeaderLength_def)
  have "processRawPacket opts reg beyond (frame @ pad) m
      = dispatchAvdeccMessage opts reg (\<lambda>i. beyond (14 + i)) (control_bytes p @ Adpdu_bytes p @ pad) ?ether m"
    using processRawPacket_frame [OF header, of opts reg beyond "Adpdu_bytes p @ pad" m] bytes by simp
  then show ?thesis
    by (simp add: dispatch_frame [OF header] AvtpSubType_Adp_def dispatch_adp_def receive)
qed

lemma available_header:
  assumes "makeEntityAvailableMessage en i = Some (p, en')"
  shows "library_header AvtpSubType_Adp p" and "m_controlData p = AdpMessageType_EntityAvailable"
    and "m_streamID p = getEntityID en"
  using assms
  by (auto simp: makeEntityAvailableMessage_def library_header_def Adpdu_new_def getEntityID_def bind_eq_Some_iff Let_def)

lemma announced_not_ready:
  "bits_test EntityCapability_EntityNotReady (announced_capabilities i en info)
     = bits_test EntityCapability_EntityNotReady (ei_entityCapabilities (en_common en))"
  using bits_test_exp [of 17]
  by (simp add: announced_capabilities_def bit_flag_capability EntityCapability_EntityNotReady_def)

lemma announcement_received:
  assumes "getInterfaceInformation i en = Some info" and "unat (ii_validTime info) < 32"
    and p: "makeEntityAvailableMessage en i = Some (p, en')"
    and ready: "\<not> bits_test EntityCapability_EntityNotReady (ei_entityCapabilities (en_common en))"
    and new: "\<not> isLocalEntity m (getEntityID en)" "al_get (getEntityID en) (ds_entities (mg_discovery m)) = None"
  shows "\<exists>frame m' q seen. Adpdu_frame p = Some frame
    \<and> seen = seen_on i (domain_collapsed (info\<lparr>ii_gptpDomainNumber := Some (value_or 0 (ii_gptpDomainNumber info))\<rparr>)) en
    \<and> processRawPacket opts reg beyond (frame @ pad) m = Some m'
    \<and> known (mg_discovery m') = (known (mg_discovery m))(getEntityID en \<mapsto> entity_view seen)
    \<and> w_trace (mg_world m') = w_trace (mg_world m) @ [OnAdpduReceived q, OnRemoteEntityOnline seen]
    \<and> mg_command m' = mg_command m"
proof -
  let ?q = "p\<lparr>m_gptpDomainNumber := of_bool (m_gptpDomainNumber p \<noteq> 0)\<rparr>"
  let ?seen = "seen_on i (domain_collapsed (info\<lparr>ii_gptpDomainNumber := Some (value_or 0 (ii_gptpDomainNumber info))\<rparr>)) en"
  obtain frame where frame: "Adpdu_frame p = Some frame"
    "Adpdu_receive opts p (drop EtherLayer2_HeaderLength frame @ pad) = Some ?q" "makeEntity ?q = ?seen"
    using announcement_frame [OF assms(1,2) p] by blast
  note header = available_header [OF p]
  have caps: "\<not> bits_test EntityCapability_EntityNotReady (m_entityCapabilities p)"
    using ready by (simp add: available_fields(5) [OF p assms(1)] announced_not_ready)
  have raw: "processRawPacket opts reg beyond (frame @ pad) m = processAdpdu ?q (received [OnAdpduReceived ?q] m)"
    by (rule adp_frame_processed [OF frame(1,2) header(1)])
  let ?m = "received [OnAdpduReceived ?q] m"
  obtain t where ds: "handleAdpEntityAvailable (isLocalEntity ?m) ?q (mg_discovery m) (mg_world ?m)
      = ((mg_discovery m)\<lparr>ds_entities := al_put (getEntityID en)
           \<lparr>de_entity = ?seen, de_timeouts = al_put (fst (hd (en_interfaces ?seen))) t []\<rparr> (ds_entities (mg_discovery m))\<rparr>,
         [OnRemoteEntityOnline ?seen], snd (now (mg_world ?m)))"
    using new caps unfolding handleAdpEntityAvailable_def
    by (simp add: isLocalEntity_def received_def header frame(3) now_def Let_def)
  have "processAdpdu ?q ?m = Some (notify_all [OnRemoteEntityOnline ?seen]
      (?m\<lparr>mg_discovery := (mg_discovery m)\<lparr>ds_entities := al_put (getEntityID en)
           \<lparr>de_entity = ?seen, de_timeouts = al_put (fst (hd (en_interfaces ?seen))) t []\<rparr> (ds_entities (mg_discovery m))\<rparr>,
         mg_world := snd (now (mg_world ?m))\<rparr>))"
    using ds header by (simp add: processAdpdu_def received_def)
  then show ?thesis
    using frame(1) raw
    by (auto simp: notify_all_def notify_delegate_def received_def known_def known_in_def fun_eq_iff)
qed

text \<open>
  C25.  Discovery works from end to end: the announcement that one manager makes of a ready local entity,
  sent by the transport, makes the manager that receives it know the entity, when it is neither one of
  its own nor known already: its capabilities, its interface and its identifiers as they are (the domain
  number collapsed to 0 or 1), and its observers are told, once.
\<close>

theorem announcement_reaches_discovery:
  assumes "getInterfaceInformation i en = Some info" and "unat (ii_validTime info) < 32"
    and p: "makeEntityAvailableMessage en i = Some (p, en')"
    and ready: "\<not> bits_test EntityCapability_EntityNotReady (ei_entityCapabilities (en_common en))"
    and new: "\<not> isLocalEntity m (getEntityID en)" "al_get (getEntityID en) (ds_entities (mg_discovery m)) = None"
  shows "\<exists>frame m' q seen. Adpdu_frame p = Some frame
    \<and> seen = seen_on i (domain_collapsed (info\<lparr>ii_gptpDomainNumber := Some (value_or 0 (ii_gptpDomainNumber info))\<rparr>)) en
    \<and> processRawPacket opts reg beyond (frame @ pad) m = Some m'
    \<and> known (mg_discovery m') = (known (mg_discovery m))(getEntityID en \<mapsto> entity_view seen)
    \<and> w_trace (mg_world m') = w_trace (mg_world m) @ [OnAdpduReceived q, OnRemoteEntityOnline seen]
    \<and> mg_command m' = mg_command m"
  by (rule announcement_received) fact+

definition sample_manager :: manager where
  "sample_manager = manager_new 0x001b92000002 (\<lambda>e. sample_local) sample_world"

theorem announcement_reaches_discovery_witness:
  "\<exists>p en' frame m'. makeEntityAvailableMessage sample_local 0 = Some (p, en') \<and> Adpdu_frame p = Some frame
    \<and> processRawPacket default_build [] (\<lambda>i. 0) (frame @ [0]) sample_manager = Some m'
    \<and> known (mg_discovery m') 0x001b92fffe000001 \<noteq> None"
proof -
  have info: "getInterfaceInformation 0 sample_local = Some (snd (hd (en_interfaces sample_local)))"
    by (simp add: getInterfaceInformation_def sample_local_def)
  obtain p en' where p: "makeEntityAvailableMessage sample_local 0 = Some (p, en')"
    using info by (auto simp: makeEntityAvailableMessage_def Let_def)
  have "\<exists>frame m'. Adpdu_frame p = Some frame
      \<and> processRawPacket default_build [] (\<lambda>i. 0) (frame @ [0]) sample_manager = Some m'
      \<and> known (mg_discovery m') (getEntityID sample_local) \<noteq> None"
    using announcement_reaches_discovery [OF info _ p, where m = sample_manager and opts = default_build
        and reg = "[]" and beyond = "\<lambda>i. 0" and pad = "[0]"]
    by (auto simp: sample_manager_def manager_new_def discovery_new_def now_def isLocalEntity_def sample_local_def
        bits_test_def EntityCapability_EntityNotReady_def)
  with p show ?thesis by (auto simp: getEntityID_def sample_local_def)
qed

theorem aem_frame_processed_witness:
  "\<exists>frame. AemAecpdu_frame default_build aem_sample = Some frame
    \<and> processRawPacket default_build [] (\<lambda>i. 0) (frame @ [0, 0]) sample_manager =
        Some (processAecpdu (registry_delegates []) (Aem aem_sample) (received [OnAecpduReceived (Aem aem_sample)] sample_manager))"
  by (rule aem_frame_processed [of default_build "[0, 0, 0, 1, 0, 5, 0, 2]" aem_sample])
     (simp_all add: aem_sample_def AemAecpdu_new_def Aecpdu_new_def aecpdu.extend_def
      setAecpSpecificDataLength_def control_fits_def Aem_setCommandSpecificData_def aecp_lengths
      default_build_def AvtpSubType_Aecp_def AvtpVersion_def AecpMessageType_AemCommand_def library_header_def)

end
