(* ===== verification/LocalEntity.thy ===== *)
theory LocalEntity
  imports Reception PayloadCodec
begin

text \<open>
  \<^verbatim>\<open>LocalEntityImpl\<close> (src/entity/entityImpl.hpp and localEntityImpl.ipp), what every local entity does
  over the protocol interface: it advertises itself, schedules an announcement when its discovery
  information changes, builds and sends commands, answers those it gets, and shuts down.

  A local entity is a reference in the store of the manager.  What its subclass does with a command not
  handled here is a parameter.
\<close>

section \<open>Statuses\<close>

text \<open>The error of the protocol interface as a status (theory \<^verbatim>\<open>PayloadCodec\<close>).\<close>

fun convertErrorToAemCommandStatus :: "error \<Rightarrow> command_status" where
  "convertErrorToAemCommandStatus NoError = Status_Success"
| "convertErrorToAemCommandStatus TransportError = Status_NetworkError"
| "convertErrorToAemCommandStatus Timeout = Status_TimedOut"
| "convertErrorToAemCommandStatus UnknownRemoteEntity = Status_UnknownEntity"
| "convertErrorToAemCommandStatus UnknownLocalEntity = Status_UnknownEntity"
| "convertErrorToAemCommandStatus _ = Status_InternalError"

fun convertErrorToAaCommandStatus :: "error \<Rightarrow> command_status" where
  "convertErrorToAaCommandStatus NoError = Status_Success"
| "convertErrorToAaCommandStatus TransportError = Status_NetworkError"
| "convertErrorToAaCommandStatus Timeout = Status_TimedOut"
| "convertErrorToAaCommandStatus UnknownRemoteEntity = Status_UnknownEntity"
| "convertErrorToAaCommandStatus UnknownLocalEntity = Status_UnknownEntity"
| "convertErrorToAaCommandStatus _ = Status_InternalError"

fun convertErrorToMvuCommandStatus :: "error \<Rightarrow> command_status" where
  "convertErrorToMvuCommandStatus NoError = Status_Success"
| "convertErrorToMvuCommandStatus TransportError = Status_NetworkError"
| "convertErrorToMvuCommandStatus Timeout = Status_TimedOut"
| "convertErrorToMvuCommandStatus UnknownRemoteEntity = Status_UnknownEntity"
| "convertErrorToMvuCommandStatus UnknownLocalEntity = Status_UnknownEntity"
| "convertErrorToMvuCommandStatus _ = Status_InternalError"

fun convertErrorToControlStatus :: "error \<Rightarrow> command_status" where
  "convertErrorToControlStatus NoError = Status_Success"
| "convertErrorToControlStatus TransportError = Status_NetworkError"
| "convertErrorToControlStatus Timeout = Status_TimedOut"
| "convertErrorToControlStatus UnknownRemoteEntity = Status_UnknownEntity"
| "convertErrorToControlStatus UnknownLocalEntity = Status_UnknownEntity"
| "convertErrorToControlStatus _ = Status_InternalError"

section \<open>Advertising\<close>

definition set_entity :: "entity_ref \<Rightarrow> entity \<Rightarrow> manager \<Rightarrow> manager" where
  "set_entity e en m = m\<lparr>mg_store := (mg_store m)(e := en)\<rparr>"

text \<open>
  The duration, in seconds, is halved and cut to 8 bits before \<^verbatim>\<open>setValidTime\<close> clamps it.  The method
  is \<^verbatim>\<open>noexcept\<close>: with an interface that does not exist the program ends (None).
\<close>

definition le_enableEntityAdvertising ::
  "32 word \<Rightarrow> interface_index option \<Rightarrow> entity_ref \<Rightarrow> manager \<Rightarrow> (bool \<times> manager) option"
where
  "le_enableEntityAdvertising availableDuration interfaceIndex e m =
     (let validTime = ucast (availableDuration div 2) in
      map_option (\<lambda>en. let (err, m) = mg_enableEntityAdvertising e (set_entity e en m) in (err = NoError, m))
        (setValidTime validTime interfaceIndex (mg_store m e)))"

definition le_disableEntityAdvertising :: "entity_ref \<Rightarrow> manager \<Rightarrow> manager" where
  "le_disableEntityAdvertising e m = snd (mg_disableEntityAdvertising e m)"

text \<open>
  The setters: whether the call returned (False is the exception of an interface that does not exist,
  which leaves everything as it was) and the manager; None where the program would not go on.
\<close>

definition le_changed :: "entity_ref \<Rightarrow> entity option \<Rightarrow> manager \<Rightarrow> (bool \<times> manager) option" where
  "le_changed e en m =
     (case en of
        None \<Rightarrow> Some (False, m)
      | Some en \<Rightarrow> map_option (\<lambda>(err, m). (True, m)) (mg_setEntityNeedsAdvertise e (set_entity e en m)))"

definition setEntityCapabilities :: "32 word \<Rightarrow> entity \<Rightarrow> entity" where
  "setEntityCapabilities caps en = en\<lparr>en_common := (en_common en)\<lparr>ei_entityCapabilities := caps\<rparr>\<rparr>"

definition setAssociationID :: "uid option \<Rightarrow> entity \<Rightarrow> entity" where
  "setAssociationID associationID en = en\<lparr>en_common := (en_common en)\<lparr>ei_associationID := associationID\<rparr>\<rparr>"

definition setGptpGrandmasterID :: "uid \<Rightarrow> interface_index \<Rightarrow> entity \<Rightarrow> entity option" where
  "setGptpGrandmasterID gptpGrandmasterID i en =
     map_option (\<lambda>info. setInterfaceInformation i (info\<lparr>ii_gptpGrandmasterID := Some gptpGrandmasterID\<rparr>) en)
       (getInterfaceInformation i en)"

definition setGptpDomainNumber :: "8 word \<Rightarrow> interface_index \<Rightarrow> entity \<Rightarrow> entity option" where
  "setGptpDomainNumber gptpDomainNumber i en =
     map_option (\<lambda>info. setInterfaceInformation i (info\<lparr>ii_gptpDomainNumber := Some gptpDomainNumber\<rparr>) en)
       (getInterfaceInformation i en)"

definition le_setEntityCapabilities :: "32 word \<Rightarrow> entity_ref \<Rightarrow> manager \<Rightarrow> (bool \<times> manager) option" where
  "le_setEntityCapabilities caps e m = le_changed e (Some (setEntityCapabilities caps (mg_store m e))) m"

definition le_setAssociationID :: "uid option \<Rightarrow> entity_ref \<Rightarrow> manager \<Rightarrow> (bool \<times> manager) option" where
  "le_setAssociationID associationID e m = le_changed e (Some (setAssociationID associationID (mg_store m e))) m"

definition le_setValidTime ::
  "8 word \<Rightarrow> interface_index option \<Rightarrow> entity_ref \<Rightarrow> manager \<Rightarrow> (bool \<times> manager) option"
where
  "le_setValidTime validTime interfaceIndex e m = le_changed e (setValidTime validTime interfaceIndex (mg_store m e)) m"

definition le_setGptpGrandmasterID ::
  "uid \<Rightarrow> interface_index \<Rightarrow> entity_ref \<Rightarrow> manager \<Rightarrow> (bool \<times> manager) option"
where
  "le_setGptpGrandmasterID gm i e m = le_changed e (setGptpGrandmasterID gm i (mg_store m e)) m"

definition le_setGptpDomainNumber ::
  "8 word \<Rightarrow> interface_index \<Rightarrow> entity_ref \<Rightarrow> manager \<Rightarrow> (bool \<times> manager) option"
where
  "le_setGptpDomainNumber n i e m = le_changed e (setGptpDomainNumber n i (mg_store m e)) m"

section \<open>Sending commands\<close>

text \<open>
  A sender gives its handler to the protocol interface, wrapped in the conversion of the error, when the
  command is accepted (None), and otherwise calls it at once with no message and a status (Some).
\<close>

definition sendAemAecpCommand ::
  "build_options \<Rightarrow> vu_registry \<Rightarrow> uid \<Rightarrow> uid \<Rightarrow> mac_address \<Rightarrow> 16 word \<Rightarrow> byte list \<Rightarrow> handler \<Rightarrow> manager
     \<Rightarrow> command_status option \<times> manager"
where
  "sendAemAecpCommand opts reg controllerEntityID targetEntityID targetMacAddress commandType payload onResult m =
     (let aem = (AemAecpdu_new False)\<lparr>m_srcAddress := mg_macAddress m, m_destAddress := targetMacAddress,
            m_status := 0, m_streamID := targetEntityID, m_controllerEntityID := controllerEntityID,
            m_unsolicited := False, m_commandType := commandType\<rparr>
      in case Aem_setCommandSpecificData opts payload aem of
           None \<Rightarrow> (Some Status_ProtocolError, m)
         | Some aem \<Rightarrow>
             let (err, m) = pi_sendAecpCommand reg (Aem aem) onResult m
             in (if err \<noteq> NoError then Some (convertErrorToAemCommandStatus err) else None, m))"

definition sendAaAecpCommand ::
  "vu_registry \<Rightarrow> uid \<Rightarrow> uid \<Rightarrow> mac_address \<Rightarrow> tlv list \<Rightarrow> handler \<Rightarrow> manager \<Rightarrow> command_status option \<times> manager"
where
  "sendAaAecpCommand reg controllerEntityID targetEntityID targetMacAddress tlvs onResult m =
     (let aa = (AaAecpdu_new False)\<lparr>m_srcAddress := mg_macAddress m, m_destAddress := targetMacAddress,
            m_status := 0, m_streamID := targetEntityID, m_controllerEntityID := controllerEntityID\<rparr>;
          aa = foldl (\<lambda>aa tlv. addTlv tlv aa) aa tlvs;
          (err, m) = pi_sendAecpCommand reg (Aa aa) onResult m
      in (if err \<noteq> NoError then Some (convertErrorToAaCommandStatus err) else None, m))"

definition sendMvuAecpCommand ::
  "build_options \<Rightarrow> vu_registry \<Rightarrow> uid \<Rightarrow> uid \<Rightarrow> mac_address \<Rightarrow> 16 word \<Rightarrow> byte list \<Rightarrow> handler \<Rightarrow> manager
     \<Rightarrow> command_status option \<times> manager"
where
  "sendMvuAecpCommand opts reg controllerEntityID targetEntityID targetMacAddress commandType payload onResult m =
     (let mvu = (MvuAecpdu_new False)\<lparr>m_srcAddress := mg_macAddress m, m_destAddress := targetMacAddress,
            m_status := 0, m_streamID := targetEntityID, m_controllerEntityID := controllerEntityID,
            m_mvuCommandType := commandType\<rparr>
      in case Mvu_setCommandSpecificData opts payload mvu of
           None \<Rightarrow> (Some Status_ProtocolError, m)
         | Some mvu \<Rightarrow>
             let (err, m) = pi_sendAecpCommand reg (Mvu mvu) onResult m
             in (if err \<noteq> NoError then Some (convertErrorToMvuCommandStatus err) else None, m))"

definition le_sendAcmpCommand ::
  "8 word \<Rightarrow> uid \<Rightarrow> uid \<Rightarrow> 16 word \<Rightarrow> uid \<Rightarrow> 16 word \<Rightarrow> 16 word \<Rightarrow> handler \<Rightarrow> manager
     \<Rightarrow> command_status option \<times> manager"
where
  "le_sendAcmpCommand messageType controllerEntityID talkerEntityID talkerStreamIndex listenerEntityID
       listenerStreamIndex connectionIndex onResult m =
     (let acmp = Acmpdu_new\<lparr>m_srcAddress := mg_macAddress m, m_streamID := 0, m_controlData := messageType,
            m_status := 0, m_acmpControllerEntityID := controllerEntityID, m_talkerEntityID := talkerEntityID,
            m_listenerEntityID := listenerEntityID, m_talkerUniqueID := talkerStreamIndex,
            m_listenerUniqueID := listenerStreamIndex, m_streamDestAddress := 0,
            m_connectionCount := connectionIndex, m_flags := 0, m_streamVlanID := 0\<rparr>;
          (err, m) = mg_sendAcmpCommand acmp onResult m
      in (if err \<noteq> NoError then Some (convertErrorToControlStatus err) else None, m))"

section \<open>Answering commands\<close>

text \<open>
  \<^verbatim>\<open>responseCopy\<close> of the message's class; that of another vendor unique class is the argument.  The
  response goes from the interface's own address to the sender of the command.
\<close>

fun aecp_responseCopy :: "(vu_aecpdu \<Rightarrow> vu_aecpdu option) \<Rightarrow> aecp_pdu \<Rightarrow> aecp_pdu option" where
  "aecp_responseCopy vuCopy (Aem p) = map_option Aem (AemAecpdu_responseCopy p)"
| "aecp_responseCopy vuCopy (Aa p) = map_option Aa (AaAecpdu_responseCopy p)"
| "aecp_responseCopy vuCopy (Mvu p) = map_option Mvu (MvuAecpdu_responseCopy p)"
| "aecp_responseCopy vuCopy (Vu p) = map_option Vu (vuCopy p)"

fun answer_header :: "mac_address \<Rightarrow> mac_address \<Rightarrow> 8 word \<Rightarrow> aecp_pdu \<Rightarrow> aecp_pdu" where
  "answer_header src dest status (Aem p) = Aem (p\<lparr>m_srcAddress := src, m_destAddress := dest, m_status := status\<rparr>)"
| "answer_header src dest status (Aa p) = Aa (p\<lparr>m_srcAddress := src, m_destAddress := dest, m_status := status\<rparr>)"
| "answer_header src dest status (Mvu p) = Mvu (p\<lparr>m_srcAddress := src, m_destAddress := dest, m_status := status\<rparr>)"
| "answer_header src dest status (Vu p) = Vu (p\<lparr>m_srcAddress := src, m_destAddress := dest, m_status := status\<rparr>)"

definition reflectAecpCommand ::
  "vu_registry \<Rightarrow> (vu_aecpdu \<Rightarrow> vu_aecpdu option) \<Rightarrow> aecp_pdu \<Rightarrow> 8 word \<Rightarrow> manager \<Rightarrow> manager"
where
  "reflectAecpCommand reg vuCopy command status m =
     (case aecp_responseCopy vuCopy command of
        None \<Rightarrow> m
      | Some response \<Rightarrow>
          snd (pi_sendAecpResponse reg
            (answer_header (mg_macAddress m) (m_srcAddress (aecp_header command)) status response) m))"

definition sendAemAecpResponse ::
  "build_options \<Rightarrow> vu_registry \<Rightarrow> aem_aecpdu \<Rightarrow> 8 word \<Rightarrow> byte list \<Rightarrow> manager \<Rightarrow> manager"
where
  "sendAemAecpResponse opts reg commandAem status payload m =
     (let aem = (AemAecpdu_new True)\<lparr>m_srcAddress := mg_macAddress m, m_destAddress := m_srcAddress commandAem,
            m_status := status, m_streamID := m_streamID commandAem,
            m_controllerEntityID := m_controllerEntityID commandAem, m_sequenceID := m_sequenceID commandAem,
            m_unsolicited := False, m_commandType := m_commandType commandAem\<rparr>
      in case Aem_setCommandSpecificData opts payload aem of
           None \<Rightarrow> m
         | Some aem \<Rightarrow> snd (pi_sendAecpResponse reg (Aem aem) m))"

definition AemCommandType_EntityAvailable :: "16 word" where "AemCommandType_EntityAvailable = 2"
definition AecpStatus_Success :: "8 word" where "AecpStatus_Success = 0"
definition AecpStatus_NotImplemented :: "8 word" where "AecpStatus_NotImplemented = 1"

text \<open>
  What the subclass does: it gets the command and says whether it has handled it.  Both \<^verbatim>\<open>onAecpCommand\<close>
  and \<^verbatim>\<open>onVuAecpCommand\<close> fall back to a reflection of the command.
\<close>

type_synonym command_handler = "aecp_pdu \<Rightarrow> manager \<Rightarrow> bool \<times> manager"

definition answer_unhandled ::
  "vu_registry \<Rightarrow> (vu_aecpdu \<Rightarrow> vu_aecpdu option) \<Rightarrow> command_handler \<Rightarrow> aecp_pdu \<Rightarrow> manager \<Rightarrow> manager"
where
  "answer_unhandled reg vuCopy onUnhandled p m =
     (let (handled, m) = onUnhandled p m
      in if handled then m else reflectAecpCommand reg vuCopy p AecpStatus_NotImplemented m)"

definition onAecpCommand ::
  "build_options \<Rightarrow> vu_registry \<Rightarrow> (vu_aecpdu \<Rightarrow> vu_aecpdu option) \<Rightarrow> command_handler \<Rightarrow> uid \<Rightarrow> aecp_pdu \<Rightarrow> manager \<Rightarrow> manager"
where
  "onAecpCommand opts reg vuCopy onUnhandledAecpCommand entityID p m =
     (if \<not> uid_eq (aecp_targetEntityID p) entityID then m
      else case p of
        Aem aem \<Rightarrow>
          if aecp_messageType p = AecpMessageType_AemCommand \<and> m_commandType aem = AemCommandType_EntityAvailable
          then sendAemAecpResponse opts reg aem AecpStatus_Success [] m
          else answer_unhandled reg vuCopy onUnhandledAecpCommand p m
      | _ \<Rightarrow> answer_unhandled reg vuCopy onUnhandledAecpCommand p m)"

definition onVuAecpCommand ::
  "vu_registry \<Rightarrow> (vu_aecpdu \<Rightarrow> vu_aecpdu option) \<Rightarrow> command_handler \<Rightarrow> uid \<Rightarrow> 64 word \<Rightarrow> aecp_pdu \<Rightarrow> manager \<Rightarrow> manager"
where
  "onVuAecpCommand reg vuCopy onUnhandledAecpVuCommand entityID protocolIdentifier p m =
     (if protocolIdentifier \<noteq> MvuAecpdu_ProtocolID then m
      else if \<not> uid_eq (aecp_targetEntityID p) entityID then m
      else answer_unhandled reg vuCopy onUnhandledAecpVuCommand p m)"

text \<open>The local entity as the vendor unique delegate of the Milan protocol.\<close>

fun mvu_isUnsolicited :: "aecp_pdu \<Rightarrow> bool" where
  "mvu_isUnsolicited (Mvu p) = m_mvuUnsolicited p"
| "mvu_isUnsolicited p = False"

definition mvu_delegate :: vu_delegate where
  "mvu_delegate =
     \<lparr>vd_areHandledByControllerStateMachine = (\<lambda>protocolIdentifier. protocolIdentifier = MvuAecpdu_ProtocolID),
      vd_getVuAecpCommandTimeoutMsec = (\<lambda>protocolIdentifier p. if protocolIdentifier = MvuAecpdu_ProtocolID then 250 else 0),
      vd_isVuAecpUnsolicitedResponse =
        (\<lambda>protocolIdentifier p. protocolIdentifier = MvuAecpdu_ProtocolID \<and> mvu_isUnsolicited p),
      vd_createAecpdu = (\<lambda>protocolIdentifier isResponse. Mvu (MvuAecpdu_new isResponse))\<rparr>"

section \<open>Start and end\<close>

text \<open>The constructor throws (None) when the interface refuses the entity.\<close>

definition le_construct :: "entity_ref \<Rightarrow> vu_registry \<Rightarrow> manager \<Rightarrow> (vu_registry \<times> manager) option" where
  "le_construct e reg m =
     (let (err, m) = pi_registerLocalEntity e m
      in if err \<noteq> NoError then None
         else Some (registerVendorUniqueDelegate MvuAecpdu_ProtocolID mvu_delegate reg, m))"

definition le_shutdown :: "entity_ref \<Rightarrow> vu_registry \<Rightarrow> manager \<Rightarrow> vu_registry \<times> manager" where
  "le_shutdown e reg m =
     (unregisterAllVendorUniqueDelegates reg,
      snd (unregisterLocalEntity e (le_disableEntityAdvertising e m)))"

section \<open>Properties\<close>

text \<open>
  Enabling the advertising sets the valid time to half of the duration in seconds, brought into 1 to
  31, for the documented durations of 2 to 62 seconds and for any below 512; it never reports an invalid
  parameter, and beyond 8 bits the half is cut first, so that 512 seconds are advertised as 2.
\<close>

theorem advertising_duration:
  "le_enableEntityAdvertising availableDuration None e m =
     Some (True, snd (mg_enableEntityAdvertising e (set_entity e
       ((mg_store m e)\<lparr>en_interfaces := map (\<lambda>(i, info). (i, info\<lparr>ii_validTime :=
          of_nat (min 31 (max 1 ((unat availableDuration div 2) mod 256)))\<rparr>)) (en_interfaces (mg_store m e))\<rparr>) m)))"
proof -
  let ?n = "(unat availableDuration div 2) mod 256"
  have unat: "unat (ucast (availableDuration div 2) :: 8 word) = ?n"
    by (simp add: unsigned_ucast_eq take_bit_eq_mod unat_div_distrib)
  have "unat (min 31 (max 1 (ucast (availableDuration div 2))) :: 8 word) = min 31 (max 1 ?n)"
    by (auto simp: min_def max_def word_le_nat_alt unat)
  moreover have "unat (of_nat (min 31 (max 1 ?n)) :: 8 word) = min 31 (max 1 ?n)"
    by (simp add: unsigned_of_nat take_bit_nat_eq_self)
  ultimately have "min 31 (max 1 (ucast (availableDuration div 2))) = (of_nat (min 31 (max 1 ?n)) :: 8 word)"
    by (simp add: word_unat_eq_iff)
  then show ?thesis
    by (simp add: le_enableEntityAdvertising_def setValidTime_def Let_def mg_enableEntityAdvertising_def)
qed

text \<open>
  C38.  The end of one local entity takes the vendor unique delegates of all: from then on every Milan
  command another local entity of the interface sends is refused at once, until one registers again.
\<close>

theorem shutdown_silences_milan:
  "\<exists>status. sendMvuAecpCommand opts (fst (le_shutdown e reg m)) controllerEntityID targetEntityID targetMacAddress
      commandType payload onResult m1 = (Some status, m1) \<and> status \<in> {Status_InternalError, Status_ProtocolError}"
  by (auto simp: le_shutdown_def sendMvuAecpCommand_def Let_def unregisterAllVendorUniqueDelegates_def
      pi_sendAecpCommand_def vu_not_handled_def getVendorUniqueDelegate_def isAecpResponseMessageType_def
      Mvu_setCommandSpecificData_def aecp_messageType_def aecpdu.truncate_def setAecpSpecificDataLength_def
      MvuAecpdu_new_def vu_aecpdu.extend_def aecpdu.extend_def Aecpdu_new_def AecpMessageType_VendorUniqueCommand_def
      split: option.splits)

end
