(* ===== verification/ControllerHandlers.thy ===== *)
theory ControllerHandlers
  imports DescriptorPayloads MvuPayloads AaAecpdu LocalEntity
begin

text \<open>
  What a controller tells its user (include/la/avdecc/internals/controllerEntity.hpp and the answer callbacks
  of src/entity/entityImpl.hpp): the typed values its handlers take, the result handlers of commands, which
  remember the type they were given with, and the notifications of the delegate.
\<close>

section \<open>Values\<close>

record media_clock_reference_info =
  mcr_userMediaClockPriority :: "8 word option"
  mcr_mediaClockDomainName :: "fixed_string option"

text \<open>
  An argument of a handler, with its C++ type: two aliases of an integer type are one type, two enumerations
  or two sets of flags are not.  The last form is the result of GET_DYNAMIC_INFO: statuses, command types and
  arguments of type \<^verbatim>\<open>std::any\<close>.
\<close>

datatype (plugins only: code) descriptor =
    D_Entity entity_descriptor
  | D_Configuration configuration_descriptor
  | D_AudioUnit audio_unit_descriptor
  | D_Stream stream_descriptor
  | D_Jack jack_descriptor
  | D_AvbInterface avb_interface_descriptor
  | D_ClockSource clock_source_descriptor
  | D_MemoryObject memory_object_descriptor
  | D_Locale locale_descriptor
  | D_Strings strings_descriptor
  | D_StreamPort stream_port_descriptor
  | D_ExternalPort external_port_descriptor
  | D_InternalPort internal_port_descriptor
  | D_AudioCluster audio_cluster_descriptor
  | D_AudioMap audio_map_descriptor
  | D_Control control_descriptor
  | D_ClockDomain clock_domain_descriptor
  | D_Timing timing_descriptor
  | D_PtpInstance ptp_instance_descriptor
  | D_PtpPort ptp_port_descriptor

datatype (plugins only: code) param =
    P_U16 "16 word"
  | P_U32 "32 word"
  | P_U64 "64 word"
  | P_Uid uid
  | P_DescriptorType descriptor_type
  | P_StreamFormat stream_format
  | P_SamplingRate sampling_rate
  | P_FixedString fixed_string
  | P_StreamInfo stream_info
  | P_AvbInfo avb_info
  | P_AsPath "uid list"
  | P_MemoryBuffer "byte list"
  | P_AudioMappings "audio_mapping list"
  | P_EntityCounterValidFlags "32 word"
  | P_AvbInterfaceCounterValidFlags "32 word"
  | P_ClockDomainCounterValidFlags "32 word"
  | P_StreamInputCounterValidFlags "32 word"
  | P_StreamOutputCounterValidFlags "32 word"
  | P_DescriptorCounters "32 word list"
  | P_OperationType "16 word"
  | P_Nanoseconds "64 word"
  | P_Tlvs "tlv list"
  | P_MilanInfo milan_info
  | P_DefaultPriority "8 word"
  | P_MediaClockReferenceInfo media_clock_reference_info
  | P_StreamIdentification stream_identification
  | P_BindStreamFlags "16 word"
  | P_StreamInputInfoEx stream_input_info_ex
  | P_ConnectionFlags "16 word"
  | P_ControlStatus command_status
  | P_Entity entity
  | P_Milliseconds nat
  | P_Bool bool
  | P_Descriptor descriptor
  | P_DynamicInfos "(command_status \<times> 16 word \<times> param list) list"

text \<open>A type is named as in the code.\<close>

type_synonym param_type = string

primrec descriptor_type_of :: "descriptor \<Rightarrow> param_type" where
  "descriptor_type_of (D_Entity x) = ''EntityDescriptor''"
| "descriptor_type_of (D_Configuration x) = ''ConfigurationDescriptor''"
| "descriptor_type_of (D_AudioUnit x) = ''AudioUnitDescriptor''"
| "descriptor_type_of (D_Stream x) = ''StreamDescriptor''"
| "descriptor_type_of (D_Jack x) = ''JackDescriptor''"
| "descriptor_type_of (D_AvbInterface x) = ''AvbInterfaceDescriptor''"
| "descriptor_type_of (D_ClockSource x) = ''ClockSourceDescriptor''"
| "descriptor_type_of (D_MemoryObject x) = ''MemoryObjectDescriptor''"
| "descriptor_type_of (D_Locale x) = ''LocaleDescriptor''"
| "descriptor_type_of (D_Strings x) = ''StringsDescriptor''"
| "descriptor_type_of (D_StreamPort x) = ''StreamPortDescriptor''"
| "descriptor_type_of (D_ExternalPort x) = ''ExternalPortDescriptor''"
| "descriptor_type_of (D_InternalPort x) = ''InternalPortDescriptor''"
| "descriptor_type_of (D_AudioCluster x) = ''AudioClusterDescriptor''"
| "descriptor_type_of (D_AudioMap x) = ''AudioMapDescriptor''"
| "descriptor_type_of (D_Control x) = ''ControlDescriptor''"
| "descriptor_type_of (D_ClockDomain x) = ''ClockDomainDescriptor''"
| "descriptor_type_of (D_Timing x) = ''TimingDescriptor''"
| "descriptor_type_of (D_PtpInstance x) = ''PtpInstanceDescriptor''"
| "descriptor_type_of (D_PtpPort x) = ''PtpPortDescriptor''"

primrec type_of :: "param \<Rightarrow> param_type" where
  "type_of (P_Descriptor x) = descriptor_type_of x"
| "type_of (P_U16 x) = ''std::uint16_t''"
| "type_of (P_U32 x) = ''std::uint32_t''"
| "type_of (P_U64 x) = ''std::uint64_t''"
| "type_of (P_Uid x) = ''UniqueIdentifier''"
| "type_of (P_DescriptorType x) = ''DescriptorType''"
| "type_of (P_StreamFormat x) = ''StreamFormat''"
| "type_of (P_SamplingRate x) = ''SamplingRate''"
| "type_of (P_FixedString x) = ''AvdeccFixedString''"
| "type_of (P_StreamInfo x) = ''StreamInfo''"
| "type_of (P_AvbInfo x) = ''AvbInfo''"
| "type_of (P_AsPath x) = ''AsPath''"
| "type_of (P_MemoryBuffer x) = ''MemoryBuffer''"
| "type_of (P_AudioMappings x) = ''AudioMappings''"
| "type_of (P_EntityCounterValidFlags x) = ''EntityCounterValidFlags''"
| "type_of (P_AvbInterfaceCounterValidFlags x) = ''AvbInterfaceCounterValidFlags''"
| "type_of (P_ClockDomainCounterValidFlags x) = ''ClockDomainCounterValidFlags''"
| "type_of (P_StreamInputCounterValidFlags x) = ''StreamInputCounterValidFlags''"
| "type_of (P_StreamOutputCounterValidFlags x) = ''StreamOutputCounterValidFlags''"
| "type_of (P_DescriptorCounters x) = ''DescriptorCounters''"
| "type_of (P_OperationType x) = ''MemoryObjectOperationType''"
| "type_of (P_Nanoseconds x) = ''std::chrono::nanoseconds''"
| "type_of (P_Tlvs x) = ''Tlvs''"
| "type_of (P_MilanInfo x) = ''MilanInfo''"
| "type_of (P_DefaultPriority x) = ''DefaultMediaClockReferencePriority''"
| "type_of (P_MediaClockReferenceInfo x) = ''MediaClockReferenceInfo''"
| "type_of (P_StreamIdentification x) = ''StreamIdentification''"
| "type_of (P_BindStreamFlags x) = ''BindStreamFlags''"
| "type_of (P_StreamInputInfoEx x) = ''StreamInputInfoEx''"
| "type_of (P_ConnectionFlags x) = ''ConnectionFlags''"
| "type_of (P_ControlStatus x) = ''ControlStatus''"
| "type_of (P_Entity x) = ''Entity''"
| "type_of (P_Milliseconds x) = ''std::chrono::milliseconds''"
| "type_of (P_Bool x) = ''bool''"
| "type_of (P_DynamicInfos x) = ''DynamicInfoParameters''"

section \<open>Handlers\<close>

text \<open>
  The types of \<^verbatim>\<open>std::function\<close>: the status they take and their arguments (the interface, common to all, is
  left out, and the status stands apart from the other arguments).  A user's handler is a number, None an
  empty function.
\<close>

datatype status_type = AemStatus | AaStatus | MvuStatus | ControlStatus

type_synonym handler_type = "status_type \<times> param_type list"

type_synonym user_handler = nat

text \<open>A method of \<^verbatim>\<open>controller::Delegate\<close>, by its name.\<close>

type_synonym delegate_method = string


datatype call =
    HandlerCalled user_handler "param list" command_status
  | Notified delegate_method "param list"

text \<open>
  \<^verbatim>\<open>LocalEntityImpl::AnswerCallback\<close>: nothing when it is empty; a handler of another type than the caller's is
  not called, the protocol violation callback is.
\<close>

type_synonym answer_callback = "(user_handler \<times> handler_type) option"

definition AnswerCallback :: "status_type \<Rightarrow> param list \<Rightarrow> user_handler option \<Rightarrow> answer_callback" where
  "AnswerCallback st ps h = map_option (\<lambda>h. (h, (st, map type_of ps))) h"

definition invoke ::
  "answer_callback \<Rightarrow> status_type \<Rightarrow> call list \<Rightarrow> param list \<Rightarrow> command_status \<Rightarrow> call list"
where
  "invoke cb st errorCallback params status =
     (case cb of
        None \<Rightarrow> []
      | Some (h, ty) \<Rightarrow> if (st, map type_of params) = ty then [HandlerCalled h params status] else errorCallback)"

text \<open>
  \<^verbatim>\<open>makeAemAECPErrorHandler\<close> and its kin: the handler bound to all its arguments but the status.  Calling an
  empty callback throws within \<^verbatim>\<open>invokeProtectedHandler\<close>, which catches.
\<close>

type_synonym error_callback = "(user_handler \<times> param list) option"

definition makeErrorHandler :: "user_handler option \<Rightarrow> param list \<Rightarrow> error_callback" where
  "makeErrorHandler h bound = map_option (\<lambda>h. (h, bound)) h"

definition call_error :: "error_callback \<Rightarrow> command_status \<Rightarrow> call list" where
  "call_error cb status = (case cb of None \<Rightarrow> [] | Some (h, bound) \<Rightarrow> [HandlerCalled h bound status])"

text \<open>The test all notifications of unsolicited responses are behind.\<close>

definition notify_unsolicited ::
  "bool \<Rightarrow> bool \<Rightarrow> command_status \<Rightarrow> delegate_method \<Rightarrow> param list \<Rightarrow> call list"
where
  "notify_unsolicited delegate unsolicited status meth params =
     (if unsolicited \<and> delegate \<and> status = Status_Success then [Notified meth params] else [])"

definition calls_of :: "user_handler \<Rightarrow> call list \<Rightarrow> (param list \<times> command_status) list" where
  "calls_of h cs = List.map_filter
     (\<lambda>c. case c of HandlerCalled h' ps st \<Rightarrow> if h' = h then Some (ps, st) else None | Notified m ps \<Rightarrow> None) cs"

lemma calls_of_simps [simp]:
  "calls_of h [] = []"
  "calls_of h (HandlerCalled h' ps st # cs) = (if h' = h then [(ps, st)] else []) @ calls_of h cs"
  "calls_of h (Notified m ps # cs) = calls_of h cs"
  "calls_of h (cs @ cs') = calls_of h cs @ calls_of h cs'"
  by (simp_all add: calls_of_def List.map_filter_def)

lemma calls_of_notify_unsolicited [simp]: "calls_of h (notify_unsolicited d u s m ps) = []"
  by (simp add: notify_unsolicited_def)

lemma invoke_own_type:
  "map type_of ps = map type_of ps' \<Longrightarrow>
     invoke (AnswerCallback st ps' (Some h)) st errorCallback ps status = [HandlerCalled h ps status]"
  by (simp add: invoke_def AnswerCallback_def)

section \<open>Types of descriptors\<close>

definition DescriptorType_Entity :: descriptor_type where "DescriptorType_Entity = 0x0000"
definition DescriptorType_Configuration :: descriptor_type where "DescriptorType_Configuration = 0x0001"
definition DescriptorType_AudioUnit :: descriptor_type where "DescriptorType_AudioUnit = 0x0002"
definition DescriptorType_VideoUnit :: descriptor_type where "DescriptorType_VideoUnit = 0x0003"
definition DescriptorType_SensorUnit :: descriptor_type where "DescriptorType_SensorUnit = 0x0004"
definition DescriptorType_StreamInput :: descriptor_type where "DescriptorType_StreamInput = 0x0005"
definition DescriptorType_StreamOutput :: descriptor_type where "DescriptorType_StreamOutput = 0x0006"
definition DescriptorType_JackInput :: descriptor_type where "DescriptorType_JackInput = 0x0007"
definition DescriptorType_JackOutput :: descriptor_type where "DescriptorType_JackOutput = 0x0008"
definition DescriptorType_AvbInterface :: descriptor_type where "DescriptorType_AvbInterface = 0x0009"
definition DescriptorType_ClockSource :: descriptor_type where "DescriptorType_ClockSource = 0x000a"
definition DescriptorType_MemoryObject :: descriptor_type where "DescriptorType_MemoryObject = 0x000b"
definition DescriptorType_Locale :: descriptor_type where "DescriptorType_Locale = 0x000c"
definition DescriptorType_Strings :: descriptor_type where "DescriptorType_Strings = 0x000d"
definition DescriptorType_StreamPortInput :: descriptor_type where "DescriptorType_StreamPortInput = 0x000e"
definition DescriptorType_StreamPortOutput :: descriptor_type where "DescriptorType_StreamPortOutput = 0x000f"
definition DescriptorType_ExternalPortInput :: descriptor_type where "DescriptorType_ExternalPortInput = 0x0010"
definition DescriptorType_ExternalPortOutput :: descriptor_type where "DescriptorType_ExternalPortOutput = 0x0011"
definition DescriptorType_InternalPortInput :: descriptor_type where "DescriptorType_InternalPortInput = 0x0012"
definition DescriptorType_InternalPortOutput :: descriptor_type where "DescriptorType_InternalPortOutput = 0x0013"
definition DescriptorType_AudioCluster :: descriptor_type where "DescriptorType_AudioCluster = 0x0014"
definition DescriptorType_VideoCluster :: descriptor_type where "DescriptorType_VideoCluster = 0x0015"
definition DescriptorType_SensorCluster :: descriptor_type where "DescriptorType_SensorCluster = 0x0016"
definition DescriptorType_AudioMap :: descriptor_type where "DescriptorType_AudioMap = 0x0017"
definition DescriptorType_VideoMap :: descriptor_type where "DescriptorType_VideoMap = 0x0018"
definition DescriptorType_SensorMap :: descriptor_type where "DescriptorType_SensorMap = 0x0019"
definition DescriptorType_Control :: descriptor_type where "DescriptorType_Control = 0x001a"
definition DescriptorType_SignalSelector :: descriptor_type where "DescriptorType_SignalSelector = 0x001b"
definition DescriptorType_Mixer :: descriptor_type where "DescriptorType_Mixer = 0x001c"
definition DescriptorType_Matrix :: descriptor_type where "DescriptorType_Matrix = 0x001d"
definition DescriptorType_MatrixSignal :: descriptor_type where "DescriptorType_MatrixSignal = 0x001e"
definition DescriptorType_SignalSplitter :: descriptor_type where "DescriptorType_SignalSplitter = 0x001f"
definition DescriptorType_SignalCombiner :: descriptor_type where "DescriptorType_SignalCombiner = 0x0020"
definition DescriptorType_SignalDemultiplexer :: descriptor_type where "DescriptorType_SignalDemultiplexer = 0x0021"
definition DescriptorType_SignalMultiplexer :: descriptor_type where "DescriptorType_SignalMultiplexer = 0x0022"
definition DescriptorType_SignalTranscoder :: descriptor_type where "DescriptorType_SignalTranscoder = 0x0023"
definition DescriptorType_ClockDomain :: descriptor_type where "DescriptorType_ClockDomain = 0x0024"
definition DescriptorType_ControlBlock :: descriptor_type where "DescriptorType_ControlBlock = 0x0025"
definition DescriptorType_Timing :: descriptor_type where "DescriptorType_Timing = 0x0026"
definition DescriptorType_PtpInstance :: descriptor_type where "DescriptorType_PtpInstance = 0x0027"
definition DescriptorType_PtpPort :: descriptor_type where "DescriptorType_PtpPort = 0x0028"
definition DescriptorType_Invalid :: descriptor_type where "DescriptorType_Invalid = 0xffff"

lemmas DescriptorType_defs =
  DescriptorType_Entity_def DescriptorType_Configuration_def DescriptorType_AudioUnit_def
  DescriptorType_VideoUnit_def DescriptorType_SensorUnit_def DescriptorType_StreamInput_def
  DescriptorType_StreamOutput_def DescriptorType_JackInput_def DescriptorType_JackOutput_def
  DescriptorType_AvbInterface_def DescriptorType_ClockSource_def DescriptorType_MemoryObject_def
  DescriptorType_Locale_def DescriptorType_Strings_def DescriptorType_StreamPortInput_def
  DescriptorType_StreamPortOutput_def DescriptorType_ExternalPortInput_def
  DescriptorType_ExternalPortOutput_def DescriptorType_InternalPortInput_def
  DescriptorType_InternalPortOutput_def DescriptorType_AudioCluster_def DescriptorType_VideoCluster_def
  DescriptorType_SensorCluster_def DescriptorType_AudioMap_def DescriptorType_VideoMap_def
  DescriptorType_SensorMap_def DescriptorType_Control_def DescriptorType_SignalSelector_def
  DescriptorType_Mixer_def DescriptorType_Matrix_def DescriptorType_MatrixSignal_def
  DescriptorType_SignalSplitter_def DescriptorType_SignalCombiner_def
  DescriptorType_SignalDemultiplexer_def DescriptorType_SignalMultiplexer_def
  DescriptorType_SignalTranscoder_def DescriptorType_ClockDomain_def DescriptorType_ControlBlock_def
  DescriptorType_Timing_def DescriptorType_PtpInstance_def DescriptorType_PtpPort_def
  DescriptorType_Invalid_def

section \<open>Types of commands\<close>

definition AemCommandType_AcquireEntity :: "16 word" where "AemCommandType_AcquireEntity = 0x0000"
definition AemCommandType_LockEntity :: "16 word" where "AemCommandType_LockEntity = 0x0001"
definition AemCommandType_ControllerAvailable :: "16 word" where "AemCommandType_ControllerAvailable = 0x0003"
definition AemCommandType_ReadDescriptor :: "16 word" where "AemCommandType_ReadDescriptor = 0x0004"
definition AemCommandType_SetConfiguration :: "16 word" where "AemCommandType_SetConfiguration = 0x0006"
definition AemCommandType_GetConfiguration :: "16 word" where "AemCommandType_GetConfiguration = 0x0007"
definition AemCommandType_SetStreamFormat :: "16 word" where "AemCommandType_SetStreamFormat = 0x0008"
definition AemCommandType_GetStreamFormat :: "16 word" where "AemCommandType_GetStreamFormat = 0x0009"
definition AemCommandType_SetStreamInfo :: "16 word" where "AemCommandType_SetStreamInfo = 0x000e"
definition AemCommandType_GetStreamInfo :: "16 word" where "AemCommandType_GetStreamInfo = 0x000f"
definition AemCommandType_SetName :: "16 word" where "AemCommandType_SetName = 0x0010"
definition AemCommandType_GetName :: "16 word" where "AemCommandType_GetName = 0x0011"
definition AemCommandType_SetAssociationID :: "16 word" where "AemCommandType_SetAssociationID = 0x0012"
definition AemCommandType_GetAssociationID :: "16 word" where "AemCommandType_GetAssociationID = 0x0013"
definition AemCommandType_SetSamplingRate :: "16 word" where "AemCommandType_SetSamplingRate = 0x0014"
definition AemCommandType_GetSamplingRate :: "16 word" where "AemCommandType_GetSamplingRate = 0x0015"
definition AemCommandType_SetClockSource :: "16 word" where "AemCommandType_SetClockSource = 0x0016"
definition AemCommandType_GetClockSource :: "16 word" where "AemCommandType_GetClockSource = 0x0017"
definition AemCommandType_SetControl :: "16 word" where "AemCommandType_SetControl = 0x0018"
definition AemCommandType_GetControl :: "16 word" where "AemCommandType_GetControl = 0x0019"
definition AemCommandType_StartStreaming :: "16 word" where "AemCommandType_StartStreaming = 0x0022"
definition AemCommandType_StopStreaming :: "16 word" where "AemCommandType_StopStreaming = 0x0023"
definition AemCommandType_RegisterUnsolicitedNotification :: "16 word" where "AemCommandType_RegisterUnsolicitedNotification = 0x0024"
definition AemCommandType_DeregisterUnsolicitedNotification :: "16 word" where "AemCommandType_DeregisterUnsolicitedNotification = 0x0025"
definition AemCommandType_GetAvbInfo :: "16 word" where "AemCommandType_GetAvbInfo = 0x0027"
definition AemCommandType_GetAsPath :: "16 word" where "AemCommandType_GetAsPath = 0x0028"
definition AemCommandType_GetCounters :: "16 word" where "AemCommandType_GetCounters = 0x0029"
definition AemCommandType_Reboot :: "16 word" where "AemCommandType_Reboot = 0x002a"
definition AemCommandType_GetAudioMap :: "16 word" where "AemCommandType_GetAudioMap = 0x002b"
definition AemCommandType_AddAudioMappings :: "16 word" where "AemCommandType_AddAudioMappings = 0x002c"
definition AemCommandType_RemoveAudioMappings :: "16 word" where "AemCommandType_RemoveAudioMappings = 0x002d"
definition AemCommandType_StartOperation :: "16 word" where "AemCommandType_StartOperation = 0x0034"
definition AemCommandType_AbortOperation :: "16 word" where "AemCommandType_AbortOperation = 0x0035"
definition AemCommandType_OperationStatus :: "16 word" where "AemCommandType_OperationStatus = 0x0036"
definition AemCommandType_SetMemoryObjectLength :: "16 word" where "AemCommandType_SetMemoryObjectLength = 0x0047"
definition AemCommandType_GetMemoryObjectLength :: "16 word" where "AemCommandType_GetMemoryObjectLength = 0x0048"
definition AemCommandType_GetDynamicInfo :: "16 word" where "AemCommandType_GetDynamicInfo = 0x004b"
definition AemCommandType_SetMaxTransitTime :: "16 word" where "AemCommandType_SetMaxTransitTime = 0x004c"
definition AemCommandType_GetMaxTransitTime :: "16 word" where "AemCommandType_GetMaxTransitTime = 0x004d"

lemmas AemCommandType_defs = AemCommandType_EntityAvailable_def
  AemCommandType_AcquireEntity_def AemCommandType_LockEntity_def AemCommandType_ControllerAvailable_def
  AemCommandType_ReadDescriptor_def AemCommandType_SetConfiguration_def
  AemCommandType_GetConfiguration_def AemCommandType_SetStreamFormat_def
  AemCommandType_GetStreamFormat_def AemCommandType_SetStreamInfo_def AemCommandType_GetStreamInfo_def
  AemCommandType_SetName_def AemCommandType_GetName_def AemCommandType_SetAssociationID_def
  AemCommandType_GetAssociationID_def AemCommandType_SetSamplingRate_def
  AemCommandType_GetSamplingRate_def AemCommandType_SetClockSource_def AemCommandType_GetClockSource_def
  AemCommandType_SetControl_def AemCommandType_GetControl_def AemCommandType_StartStreaming_def
  AemCommandType_StopStreaming_def AemCommandType_RegisterUnsolicitedNotification_def
  AemCommandType_DeregisterUnsolicitedNotification_def AemCommandType_GetAvbInfo_def
  AemCommandType_GetAsPath_def AemCommandType_GetCounters_def AemCommandType_Reboot_def
  AemCommandType_GetAudioMap_def AemCommandType_AddAudioMappings_def
  AemCommandType_RemoveAudioMappings_def AemCommandType_StartOperation_def
  AemCommandType_AbortOperation_def AemCommandType_OperationStatus_def
  AemCommandType_SetMemoryObjectLength_def AemCommandType_GetMemoryObjectLength_def
  AemCommandType_GetDynamicInfo_def AemCommandType_SetMaxTransitTime_def
  AemCommandType_GetMaxTransitTime_def

definition MvuCommandType_GetMilanInfo :: "16 word" where "MvuCommandType_GetMilanInfo = 0x0000"
definition MvuCommandType_SetSystemUniqueID :: "16 word" where "MvuCommandType_SetSystemUniqueID = 0x0001"
definition MvuCommandType_GetSystemUniqueID :: "16 word" where "MvuCommandType_GetSystemUniqueID = 0x0002"
definition MvuCommandType_SetMediaClockReferenceInfo :: "16 word" where "MvuCommandType_SetMediaClockReferenceInfo = 0x0003"
definition MvuCommandType_GetMediaClockReferenceInfo :: "16 word" where "MvuCommandType_GetMediaClockReferenceInfo = 0x0004"
definition MvuCommandType_BindStream :: "16 word" where "MvuCommandType_BindStream = 0x0005"
definition MvuCommandType_UnbindStream :: "16 word" where "MvuCommandType_UnbindStream = 0x0006"
definition MvuCommandType_GetStreamInputInfoEx :: "16 word" where "MvuCommandType_GetStreamInputInfoEx = 0x0007"

lemmas MvuCommandType_defs =
  MvuCommandType_GetMilanInfo_def MvuCommandType_SetSystemUniqueID_def
  MvuCommandType_GetSystemUniqueID_def MvuCommandType_SetMediaClockReferenceInfo_def
  MvuCommandType_GetMediaClockReferenceInfo_def MvuCommandType_BindStream_def
  MvuCommandType_UnbindStream_def MvuCommandType_GetStreamInputInfoEx_def

definition AcmpMessageType_ConnectTxCommand :: "8 word" where "AcmpMessageType_ConnectTxCommand = 0"
definition AcmpMessageType_ConnectTxResponse :: "8 word" where "AcmpMessageType_ConnectTxResponse = 1"
definition AcmpMessageType_DisconnectTxCommand :: "8 word" where "AcmpMessageType_DisconnectTxCommand = 2"
definition AcmpMessageType_DisconnectTxResponse :: "8 word" where "AcmpMessageType_DisconnectTxResponse = 3"
definition AcmpMessageType_GetTxStateCommand :: "8 word" where "AcmpMessageType_GetTxStateCommand = 4"
definition AcmpMessageType_GetTxStateResponse :: "8 word" where "AcmpMessageType_GetTxStateResponse = 5"
definition AcmpMessageType_ConnectRxCommand :: "8 word" where "AcmpMessageType_ConnectRxCommand = 6"
definition AcmpMessageType_ConnectRxResponse :: "8 word" where "AcmpMessageType_ConnectRxResponse = 7"
definition AcmpMessageType_DisconnectRxCommand :: "8 word" where "AcmpMessageType_DisconnectRxCommand = 8"
definition AcmpMessageType_DisconnectRxResponse :: "8 word" where "AcmpMessageType_DisconnectRxResponse = 9"
definition AcmpMessageType_GetRxStateCommand :: "8 word" where "AcmpMessageType_GetRxStateCommand = 10"
definition AcmpMessageType_GetRxStateResponse :: "8 word" where "AcmpMessageType_GetRxStateResponse = 11"
definition AcmpMessageType_GetTxConnectionCommand :: "8 word" where "AcmpMessageType_GetTxConnectionCommand = 12"
definition AcmpMessageType_GetTxConnectionResponse :: "8 word" where "AcmpMessageType_GetTxConnectionResponse = 13"

lemmas AcmpMessageType_defs =
  AcmpMessageType_ConnectTxCommand_def AcmpMessageType_ConnectTxResponse_def
  AcmpMessageType_DisconnectTxCommand_def AcmpMessageType_DisconnectTxResponse_def
  AcmpMessageType_GetTxStateCommand_def AcmpMessageType_GetTxStateResponse_def
  AcmpMessageType_ConnectRxCommand_def AcmpMessageType_ConnectRxResponse_def
  AcmpMessageType_DisconnectRxCommand_def AcmpMessageType_DisconnectRxResponse_def
  AcmpMessageType_GetRxStateCommand_def AcmpMessageType_GetRxStateResponse_def
  AcmpMessageType_GetTxConnectionCommand_def AcmpMessageType_GetTxConnectionResponse_def

definition AemAcquireEntityFlags_None :: "32 word" where "AemAcquireEntityFlags_None = 0"
definition AemAcquireEntityFlags_Persistent :: "32 word" where "AemAcquireEntityFlags_Persistent = 1"
definition AemAcquireEntityFlags_Release :: "32 word" where "AemAcquireEntityFlags_Release = 0x80000000"
definition AemLockEntityFlags_None :: "32 word" where "AemLockEntityFlags_None = 0"
definition AemLockEntityFlags_Unlock :: "32 word" where "AemLockEntityFlags_Unlock = 1"

end
