(* ===== verification/ControllerResponses.thy ===== *)
theory ControllerResponses
  imports ControllerHandlers
begin

text \<open>
  What the controller does with each response (the dispatch tables of
  src/entity/controllerCapabilityDelegate.cpp): it reads the payload, answers the command's handler with the
  typed values, and tells its delegate of the changes an unsolicited response carries.

  An entry gets the answer and the notification as functions of their arguments, to which the caller has
  already given the status and the entity the response comes from; it throws what its reader throws.
\<close>

record controller_options =
  co_redundancy :: bool
  co_ignoreInvalidNonSuccess :: bool
  co_allowGetAudioMapUnsol :: bool

type_synonym answering = "param list \<Rightarrow> call list"
type_synonym notifying = "delegate_method \<Rightarrow> param list \<Rightarrow> call list"
type_synonym response_handler = "answering \<Rightarrow> notifying \<Rightarrow> command_status \<Rightarrow> byte list \<Rightarrow> call list outcome"

section \<open>Acquiring and locking\<close>

definition on_AcquireEntity :: response_handler where
  "on_AcquireEntity answer notify status payload =
     obind (deserializeAcquireEntityResponse status payload) (\<lambda>(flags, ownerID, descriptorType, descriptorIndex).
       let ps = [P_Uid ownerID, P_DescriptorType descriptorType, P_U16 descriptorIndex]
       in Inr (answer ps @
         (if flags AND AemAcquireEntityFlags_Release = AemAcquireEntityFlags_Release
          then notify ''onEntityReleased'' ps
          else notify ''onEntityAcquired'' ps)))"

definition on_LockEntity :: response_handler where
  "on_LockEntity answer notify status payload =
     obind (deserializeLockEntityResponse status payload) (\<lambda>(flags, lockedID, descriptorType, descriptorIndex).
       let ps = [P_Uid lockedID, P_DescriptorType descriptorType, P_U16 descriptorIndex]
       in Inr (answer ps @
         (if flags AND AemLockEntityFlags_Unlock = AemLockEntityFlags_Unlock
          then notify ''onEntityUnlocked'' ps
          else notify ''onEntityLocked'' ps)))"

definition on_EntityAvailable :: response_handler where
  "on_EntityAvailable answer notify status payload = Inr (answer [])"

definition on_ControllerAvailable :: response_handler where
  "on_ControllerAvailable answer notify status payload = Inr (answer [])"

section \<open>Descriptors\<close>

definition descriptor_readers ::
  "bool \<Rightarrow> (descriptor_type \<times> (byte list \<Rightarrow> nat \<Rightarrow> 8 word \<Rightarrow> descriptor outcome)) list"
where
  "descriptor_readers redundancy =
    [(DescriptorType_Entity, \<lambda>p n s. map_sum id D_Entity (deserializeReadEntityDescriptorResponse p n s)),
     (DescriptorType_Configuration, \<lambda>p n s. map_sum id D_Configuration (deserializeReadConfigurationDescriptorResponse p n s)),
     (DescriptorType_AudioUnit, \<lambda>p n s. map_sum id D_AudioUnit (deserializeReadAudioUnitDescriptorResponse p n s)),
     (DescriptorType_StreamInput, \<lambda>p n s. map_sum id D_Stream (deserializeReadStreamDescriptorResponse redundancy p n s)),
     (DescriptorType_StreamOutput, \<lambda>p n s. map_sum id D_Stream (deserializeReadStreamDescriptorResponse redundancy p n s)),
     (DescriptorType_JackInput, \<lambda>p n s. map_sum id D_Jack (deserializeReadJackDescriptorResponse p n s)),
     (DescriptorType_JackOutput, \<lambda>p n s. map_sum id D_Jack (deserializeReadJackDescriptorResponse p n s)),
     (DescriptorType_AvbInterface, \<lambda>p n s. map_sum id D_AvbInterface (deserializeReadAvbInterfaceDescriptorResponse p n s)),
     (DescriptorType_ClockSource, \<lambda>p n s. map_sum id D_ClockSource (deserializeReadClockSourceDescriptorResponse p n s)),
     (DescriptorType_MemoryObject, \<lambda>p n s. map_sum id D_MemoryObject (deserializeReadMemoryObjectDescriptorResponse p n s)),
     (DescriptorType_Locale, \<lambda>p n s. map_sum id D_Locale (deserializeReadLocaleDescriptorResponse p n s)),
     (DescriptorType_Strings, \<lambda>p n s. map_sum id D_Strings (deserializeReadStringsDescriptorResponse p n s)),
     (DescriptorType_StreamPortInput, \<lambda>p n s. map_sum id D_StreamPort (deserializeReadStreamPortDescriptorResponse p n s)),
     (DescriptorType_StreamPortOutput, \<lambda>p n s. map_sum id D_StreamPort (deserializeReadStreamPortDescriptorResponse p n s)),
     (DescriptorType_ExternalPortInput, \<lambda>p n s. map_sum id D_ExternalPort (deserializeReadExternalPortDescriptorResponse p n s)),
     (DescriptorType_ExternalPortOutput, \<lambda>p n s. map_sum id D_ExternalPort (deserializeReadExternalPortDescriptorResponse p n s)),
     (DescriptorType_InternalPortInput, \<lambda>p n s. map_sum id D_InternalPort (deserializeReadInternalPortDescriptorResponse p n s)),
     (DescriptorType_InternalPortOutput, \<lambda>p n s. map_sum id D_InternalPort (deserializeReadInternalPortDescriptorResponse p n s)),
     (DescriptorType_AudioCluster, \<lambda>p n s. map_sum id D_AudioCluster (deserializeReadAudioClusterDescriptorResponse p n s)),
     (DescriptorType_AudioMap, \<lambda>p n s. map_sum id D_AudioMap (deserializeReadAudioMapDescriptorResponse p n s)),
     (DescriptorType_Control, \<lambda>p n s. map_sum id D_Control (deserializeReadControlDescriptorResponse p n s)),
     (DescriptorType_ClockDomain, \<lambda>p n s. map_sum id D_ClockDomain (deserializeReadClockDomainDescriptorResponse p n s)),
     (DescriptorType_Timing, \<lambda>p n s. map_sum id D_Timing (deserializeReadTimingDescriptorResponse p n s)),
     (DescriptorType_PtpInstance, \<lambda>p n s. map_sum id D_PtpInstance (deserializeReadPtpInstanceDescriptorResponse p n s)),
     (DescriptorType_PtpPort, \<lambda>p n s. map_sum id D_PtpPort (deserializeReadPtpPortDescriptorResponse p n s))]"

text \<open>
  The entity descriptor is answered alone, a configuration with its index (which is the descriptor index of
  the response), the others with the configuration and the descriptor index.  Other types: nothing.
\<close>

definition on_ReadDescriptor :: "bool \<Rightarrow> response_handler" where
  "on_ReadDescriptor redundancy answer notify status payload =
     obind (deserializeReadDescriptorCommonResponse status payload)
       (\<lambda>(commonSize, configurationIndex, descriptorType, descriptorIndex).
         case map_of (descriptor_readers redundancy) descriptorType of
           None \<Rightarrow> Inr []
         | Some read \<Rightarrow> obind (read payload commonSize (ucast status)) (\<lambda>d. Inr (answer
             ((if descriptorType = DescriptorType_Entity then []
               else if descriptorType = DescriptorType_Configuration then [P_U16 descriptorIndex]
               else [P_U16 configurationIndex, P_U16 descriptorIndex]) @ [P_Descriptor d]))))"

section \<open>Configuration, stream format and stream information\<close>

definition on_SetConfiguration :: response_handler where
  "on_SetConfiguration answer notify status payload =
     obind (deserializeSetConfigurationResponse status payload) (\<lambda>configurationIndex.
       Inr (answer [P_U16 configurationIndex] @ notify ''onConfigurationChanged'' [P_U16 configurationIndex]))"

definition on_GetConfiguration :: response_handler where
  "on_GetConfiguration answer notify status payload =
     obind (deserializeGetConfigurationResponse status payload) (\<lambda>configurationIndex.
       Inr (answer [P_U16 configurationIndex]))"

definition on_SetStreamFormat :: response_handler where
  "on_SetStreamFormat answer notify status payload =
     obind (deserializeSetStreamFormatResponse status payload) (\<lambda>(descriptorType, descriptorIndex, streamFormat).
       let ps = [P_U16 descriptorIndex, P_StreamFormat streamFormat]
       in if descriptorType = DescriptorType_StreamInput then Inr (answer ps @ notify ''onStreamInputFormatChanged'' ps)
          else if descriptorType = DescriptorType_StreamOutput then Inr (answer ps @ notify ''onStreamOutputFormatChanged'' ps)
          else Inl InvalidDescriptorType)"

definition on_GetStreamFormat :: response_handler where
  "on_GetStreamFormat answer notify status payload =
     obind (deserializeGetStreamFormatResponse status payload) (\<lambda>(descriptorType, descriptorIndex, streamFormat).
       let ps = [P_U16 descriptorIndex, P_StreamFormat streamFormat]
       in if descriptorType = DescriptorType_StreamInput then Inr (answer ps)
          else if descriptorType = DescriptorType_StreamOutput then Inr (answer ps)
          else Inl InvalidDescriptorType)"

definition on_SetStreamInfo :: response_handler where
  "on_SetStreamInfo answer notify status payload =
     obind (deserializeSetStreamInfoResponse status payload) (\<lambda>(descriptorType, descriptorIndex, streamInfo).
       let ps = [P_U16 descriptorIndex, P_StreamInfo streamInfo]
       in if descriptorType = DescriptorType_StreamInput
          then Inr (answer ps @ notify ''onStreamInputInfoChanged'' (ps @ [P_Bool False]))
          else if descriptorType = DescriptorType_StreamOutput
          then Inr (answer ps @ notify ''onStreamOutputInfoChanged'' (ps @ [P_Bool False]))
          else Inl InvalidDescriptorType)"

definition on_GetStreamInfo :: response_handler where
  "on_GetStreamInfo answer notify status payload =
     obind (deserializeGetStreamInfoResponse status payload) (\<lambda>(descriptorType, descriptorIndex, streamInfo).
       let ps = [P_U16 descriptorIndex, P_StreamInfo streamInfo]
       in if descriptorType = DescriptorType_StreamInput
          then Inr (answer ps @ notify ''onStreamInputInfoChanged'' (ps @ [P_Bool True]))
          else if descriptorType = DescriptorType_StreamOutput
          then Inr (answer ps @ notify ''onStreamOutputInfoChanged'' (ps @ [P_Bool True]))
          else Inl InvalidDescriptorType)"

section \<open>Names\<close>

text \<open>The descriptors with one name, at index 0, and what the delegate is told when it changes.\<close>

definition object_names :: "(descriptor_type \<times> delegate_method) list" where
  "object_names =
    [(DescriptorType_AudioUnit, ''onAudioUnitNameChanged''),
     (DescriptorType_StreamInput, ''onStreamInputNameChanged''),
     (DescriptorType_StreamOutput, ''onStreamOutputNameChanged''),
     (DescriptorType_JackInput, ''onJackInputNameChanged''),
     (DescriptorType_JackOutput, ''onJackOutputNameChanged''),
     (DescriptorType_AvbInterface, ''onAvbInterfaceNameChanged''),
     (DescriptorType_ClockSource, ''onClockSourceNameChanged''),
     (DescriptorType_MemoryObject, ''onMemoryObjectNameChanged''),
     (DescriptorType_AudioCluster, ''onAudioClusterNameChanged''),
     (DescriptorType_Control, ''onControlNameChanged''),
     (DescriptorType_ClockDomain, ''onClockDomainNameChanged''),
     (DescriptorType_Timing, ''onTimingNameChanged''),
     (DescriptorType_PtpInstance, ''onPtpInstanceNameChanged''),
     (DescriptorType_PtpPort, ''onPtpPortNameChanged'')]"

text \<open>A name index or a descriptor type without a name: nothing, not even an error.\<close>

definition on_SetName :: response_handler where
  "on_SetName answer notify status payload =
     obind (deserializeSetNameResponse status payload)
       (\<lambda>(descriptorType, descriptorIndex, nameIndex, configurationIndex, name).
         if descriptorType = DescriptorType_Entity then
           (let ps = [P_FixedString name]
            in if nameIndex = 0 then Inr (answer ps @ notify ''onEntityNameChanged'' ps)
               else if nameIndex = 1 then Inr (answer ps @ notify ''onEntityGroupNameChanged'' ps)
               else Inr [])
         else if descriptorType = DescriptorType_Configuration then
           (let ps = [P_U16 descriptorIndex, P_FixedString name]
            in if nameIndex = 0 then Inr (answer ps @ notify ''onConfigurationNameChanged'' ps) else Inr [])
         else case map_of object_names descriptorType of
           None \<Rightarrow> Inr []
         | Some onNameChanged \<Rightarrow>
             let ps = [P_U16 configurationIndex, P_U16 descriptorIndex, P_FixedString name]
             in if nameIndex = 0 then Inr (answer ps @ notify onNameChanged ps) else Inr [])"

definition on_GetName :: response_handler where
  "on_GetName answer notify status payload =
     obind (deserializeGetNameResponse status payload)
       (\<lambda>(descriptorType, descriptorIndex, nameIndex, configurationIndex, name).
         if descriptorType = DescriptorType_Entity then
           (if nameIndex = 0 then Inr (answer [P_FixedString name])
            else if nameIndex = 1 then Inr (answer [P_FixedString name])
            else Inr [])
         else if descriptorType = DescriptorType_Configuration then
           (if nameIndex = 0 then Inr (answer [P_U16 descriptorIndex, P_FixedString name]) else Inr [])
         else if descriptorType \<in> set (map fst object_names) then
           (if nameIndex = 0
            then Inr (answer [P_U16 configurationIndex, P_U16 descriptorIndex, P_FixedString name]) else Inr [])
         else Inr [])"

section \<open>Association, sampling rate, clock source, control values\<close>

definition on_SetAssociationID :: response_handler where
  "on_SetAssociationID answer notify status payload =
     obind (deserializeSetAssociationIDResponse status payload) (\<lambda>associationID.
       Inr (answer [P_Uid associationID] @ notify ''onAssociationIDChanged'' [P_Uid associationID]))"

definition on_GetAssociationID :: response_handler where
  "on_GetAssociationID answer notify status payload =
     obind (deserializeGetAssociationIDResponse status payload) (\<lambda>associationID. Inr (answer [P_Uid associationID]))"

definition on_SetSamplingRate :: response_handler where
  "on_SetSamplingRate answer notify status payload =
     obind (deserializeSetSamplingRateResponse status payload) (\<lambda>(descriptorType, descriptorIndex, samplingRate).
       let ps = [P_U16 descriptorIndex, P_SamplingRate samplingRate]
       in if descriptorType = DescriptorType_AudioUnit then Inr (answer ps @ notify ''onAudioUnitSamplingRateChanged'' ps)
          else if descriptorType = DescriptorType_VideoCluster
          then Inr (answer ps @ notify ''onVideoClusterSamplingRateChanged'' ps)
          else if descriptorType = DescriptorType_SensorCluster
          then Inr (answer ps @ notify ''onSensorClusterSamplingRateChanged'' ps)
          else Inl InvalidDescriptorType)"

definition on_GetSamplingRate :: response_handler where
  "on_GetSamplingRate answer notify status payload =
     obind (deserializeGetSamplingRateResponse status payload) (\<lambda>(descriptorType, descriptorIndex, samplingRate).
       let ps = [P_U16 descriptorIndex, P_SamplingRate samplingRate]
       in if descriptorType = DescriptorType_AudioUnit then Inr (answer ps)
          else if descriptorType = DescriptorType_VideoCluster then Inr (answer ps)
          else if descriptorType = DescriptorType_SensorCluster then Inr (answer ps)
          else Inl InvalidDescriptorType)"

definition on_SetClockSource :: response_handler where
  "on_SetClockSource answer notify status payload =
     obind (deserializeSetClockSourceResponse status payload) (\<lambda>(descriptorType, descriptorIndex, clockSourceIndex).
       let ps = [P_U16 descriptorIndex, P_U16 clockSourceIndex]
       in Inr (answer ps @ notify ''onClockSourceChanged'' ps))"

definition on_GetClockSource :: response_handler where
  "on_GetClockSource answer notify status payload =
     obind (deserializeGetClockSourceResponse status payload) (\<lambda>(descriptorType, descriptorIndex, clockSourceIndex).
       Inr (answer [P_U16 descriptorIndex, P_U16 clockSourceIndex]))"

definition on_SetControl :: response_handler where
  "on_SetControl answer notify status payload =
     obind (deserializeSetControlResponse status payload) (\<lambda>(descriptorType, descriptorIndex, packedControlValues).
       let ps = [P_U16 descriptorIndex, P_MemoryBuffer packedControlValues]
       in Inr (answer ps @ notify ''onControlValuesChanged'' ps))"

definition on_GetControl :: response_handler where
  "on_GetControl answer notify status payload =
     obind (deserializeGetControlResponse status payload) (\<lambda>(descriptorType, descriptorIndex, packedControlValues).
       let ps = [P_U16 descriptorIndex, P_MemoryBuffer packedControlValues]
       in Inr (answer ps @ notify ''onControlValuesChanged'' ps))"

section \<open>Streaming and notifications\<close>

definition on_StartStreaming :: response_handler where
  "on_StartStreaming answer notify status payload =
     obind (deserializeStartStreamingResponse status payload) (\<lambda>(descriptorType, descriptorIndex).
       let ps = [P_U16 descriptorIndex]
       in if descriptorType = DescriptorType_StreamInput then Inr (answer ps @ notify ''onStreamInputStarted'' ps)
          else if descriptorType = DescriptorType_StreamOutput then Inr (answer ps @ notify ''onStreamOutputStarted'' ps)
          else Inl InvalidDescriptorType)"

definition on_StopStreaming :: response_handler where
  "on_StopStreaming answer notify status payload =
     obind (deserializeStopStreamingResponse status payload) (\<lambda>(descriptorType, descriptorIndex).
       let ps = [P_U16 descriptorIndex]
       in if descriptorType = DescriptorType_StreamInput then Inr (answer ps @ notify ''onStreamInputStopped'' ps)
          else if descriptorType = DescriptorType_StreamOutput then Inr (answer ps @ notify ''onStreamOutputStopped'' ps)
          else Inl InvalidDescriptorType)"

definition on_RegisterUnsolicitedNotification :: response_handler where
  "on_RegisterUnsolicitedNotification answer notify status payload = Inr (answer [])"

definition on_DeregisterUnsolicitedNotification :: response_handler where
  "on_DeregisterUnsolicitedNotification answer notify status payload =
     Inr (answer [] @ notify ''onDeregisteredFromUnsolicitedNotifications'' [])"

section \<open>AVB information, counters, reboot\<close>

definition on_GetAvbInfo :: response_handler where
  "on_GetAvbInfo answer notify status payload =
     obind (deserializeGetAvbInfoResponse status payload) (\<lambda>(descriptorType, descriptorIndex, avbInfo).
       let ps = [P_U16 descriptorIndex, P_AvbInfo avbInfo]
       in if descriptorType = DescriptorType_AvbInterface then Inr (answer ps @ notify ''onAvbInfoChanged'' ps)
          else Inl InvalidDescriptorType)"

definition on_GetAsPath :: response_handler where
  "on_GetAsPath answer notify status payload =
     obind (deserializeGetAsPathResponse status payload) (\<lambda>(descriptorIndex, asPath).
       let ps = [P_U16 descriptorIndex, P_AsPath asPath]
       in Inr (answer ps @ notify ''onAsPathChanged'' ps))"

definition on_GetCounters :: response_handler where
  "on_GetCounters answer notify status payload =
     obind (deserializeGetCountersResponse status payload) (\<lambda>(descriptorType, descriptorIndex, validFlags, counters).
       if descriptorType = DescriptorType_Entity then
         (let ps = [P_EntityCounterValidFlags validFlags, P_DescriptorCounters counters]
          in Inr (answer ps @ notify ''onEntityCountersChanged'' ps))
       else if descriptorType = DescriptorType_AvbInterface then
         (let ps = [P_U16 descriptorIndex, P_AvbInterfaceCounterValidFlags validFlags, P_DescriptorCounters counters]
          in Inr (answer ps @ notify ''onAvbInterfaceCountersChanged'' ps))
       else if descriptorType = DescriptorType_ClockDomain then
         (let ps = [P_U16 descriptorIndex, P_ClockDomainCounterValidFlags validFlags, P_DescriptorCounters counters]
          in Inr (answer ps @ notify ''onClockDomainCountersChanged'' ps))
       else if descriptorType = DescriptorType_StreamInput then
         (let ps = [P_U16 descriptorIndex, P_StreamInputCounterValidFlags validFlags, P_DescriptorCounters counters]
          in Inr (answer ps @ notify ''onStreamInputCountersChanged'' ps))
       else if descriptorType = DescriptorType_StreamOutput then
         (let ps = [P_U16 descriptorIndex, P_StreamOutputCounterValidFlags validFlags, P_DescriptorCounters counters]
          in Inr (answer ps @ notify ''onStreamOutputCountersChanged'' ps))
       else Inr [])"

definition on_Reboot :: response_handler where
  "on_Reboot answer notify status payload =
     obind (deserializeRebootResponse status payload) (\<lambda>(descriptorType, descriptorIndex).
       if descriptorType = DescriptorType_Entity then Inr (answer [])
       else if descriptorType = DescriptorType_MemoryObject then Inr (answer [P_U16 descriptorIndex])
       else Inr [])"

section \<open>Audio mappings\<close>

definition on_GetAudioMap :: "bool \<Rightarrow> response_handler" where
  "on_GetAudioMap allowUnsol answer notify status payload =
     obind (deserializeGetAudioMapResponse status payload)
       (\<lambda>(descriptorType, descriptorIndex, mapIndex, numberOfMaps, mappings).
         let ps = [P_U16 descriptorIndex, P_U16 numberOfMaps, P_U16 mapIndex, P_AudioMappings mappings]
         in if descriptorType = DescriptorType_StreamPortInput
            then Inr (answer ps @ (if allowUnsol then notify ''onStreamPortInputAudioMappingsChanged'' ps else []))
            else if descriptorType = DescriptorType_StreamPortOutput
            then Inr (answer ps @ (if allowUnsol then notify ''onStreamPortOutputAudioMappingsChanged'' ps else []))
            else Inl InvalidDescriptorType)"

definition on_AddAudioMappings :: response_handler where
  "on_AddAudioMappings answer notify status payload =
     obind (deserializeAddAudioMappingsResponse status payload) (\<lambda>(descriptorType, descriptorIndex, mappings).
       let ps = [P_U16 descriptorIndex, P_AudioMappings mappings]
       in if descriptorType = DescriptorType_StreamPortInput
          then Inr (answer ps @ notify ''onStreamPortInputAudioMappingsAdded'' ps)
          else if descriptorType = DescriptorType_StreamPortOutput
          then Inr (answer ps @ notify ''onStreamPortOutputAudioMappingsAdded'' ps)
          else Inl InvalidDescriptorType)"

definition on_RemoveAudioMappings :: response_handler where
  "on_RemoveAudioMappings answer notify status payload =
     obind (deserializeRemoveAudioMappingsResponse status payload) (\<lambda>(descriptorType, descriptorIndex, mappings).
       let ps = [P_U16 descriptorIndex, P_AudioMappings mappings]
       in if descriptorType = DescriptorType_StreamPortInput
          then Inr (answer ps @ notify ''onStreamPortInputAudioMappingsRemoved'' ps)
          else if descriptorType = DescriptorType_StreamPortOutput
          then Inr (answer ps @ notify ''onStreamPortOutputAudioMappingsRemoved'' ps)
          else Inl InvalidDescriptorType)"

section \<open>Operations and memory objects\<close>

definition on_StartOperation :: response_handler where
  "on_StartOperation answer notify status payload =
     obind (deserializeStartOperationResponse status payload)
       (\<lambda>(descriptorType, descriptorIndex, operationID, operationType, memoryBuffer).
         Inr (answer [P_DescriptorType descriptorType, P_U16 descriptorIndex, P_U16 operationID,
           P_OperationType operationType, P_MemoryBuffer memoryBuffer]))"

definition on_AbortOperation :: response_handler where
  "on_AbortOperation answer notify status payload =
     obind (deserializeAbortOperationResponse status payload) (\<lambda>(descriptorType, descriptorIndex, operationID).
       Inr (answer [P_DescriptorType descriptorType, P_U16 descriptorIndex, P_U16 operationID]))"

text \<open>The only entry that notifies whatever the status, and never answers.\<close>

definition on_OperationStatus :: "(delegate_method \<Rightarrow> param list \<Rightarrow> call list) \<Rightarrow> response_handler" where
  "on_OperationStatus notify_always answer notify status payload =
     obind (deserializeOperationStatusResponse payload)
       (\<lambda>(descriptorType, descriptorIndex, operationID, percentComplete).
         Inr (notify_always ''onOperationStatus''
           [P_DescriptorType descriptorType, P_U16 descriptorIndex, P_U16 operationID, P_U16 percentComplete]))"

definition on_SetMemoryObjectLength :: response_handler where
  "on_SetMemoryObjectLength answer notify status payload =
     obind (deserializeSetMemoryObjectLengthResponse status payload)
       (\<lambda>(configurationIndex, memoryObjectIndex, length).
         let ps = [P_U16 configurationIndex, P_U16 memoryObjectIndex, P_U64 length]
         in Inr (answer ps @ notify ''onMemoryObjectLengthChanged'' ps))"

definition on_GetMemoryObjectLength :: response_handler where
  "on_GetMemoryObjectLength answer notify status payload =
     obind (deserializeGetMemoryObjectLengthResponse status payload)
       (\<lambda>(configurationIndex, memoryObjectIndex, length).
         Inr (answer [P_U16 configurationIndex, P_U16 memoryObjectIndex, P_U64 length]))"

section \<open>Dynamic information\<close>

text \<open>The names a nested GET_NAME may be about; the others throw.\<close>

definition name_exists :: "descriptor_type \<Rightarrow> descriptor_index \<Rightarrow> 16 word \<Rightarrow> configuration_index \<Rightarrow> bool" where
  "name_exists descriptorType descriptorIndex nameIndex configurationIndex =
     (if descriptorType = DescriptorType_Entity
      then descriptorIndex = 0 \<and> configurationIndex = 0 \<and> (nameIndex = 0 \<or> nameIndex = 1)
      else if descriptorType = DescriptorType_Configuration then configurationIndex = 0 \<and> nameIndex = 0
      else descriptorType \<in> set (map fst object_names) \<and> nameIndex = 0)"

definition only_for :: "descriptor_type list \<Rightarrow> descriptor_type \<Rightarrow> param list \<Rightarrow> param list outcome" where
  "only_for types descriptorType params =
     (if descriptorType \<in> set types then Inr params else Inl InvalidDescriptorType)"

definition dynamic_info_readers :: "(16 word \<times> (command_status \<Rightarrow> byte list \<Rightarrow> param list outcome)) list" where
  "dynamic_info_readers =
    [(AemCommandType_GetConfiguration, \<lambda>status payload.
        obind (deserializeGetConfigurationResponse status payload) (\<lambda>configurationIndex. Inr [P_U16 configurationIndex])),
     (AemCommandType_GetStreamFormat, \<lambda>status payload.
        obind (deserializeGetStreamFormatResponse status payload) (\<lambda>(descriptorType, descriptorIndex, streamFormat).
          only_for [DescriptorType_StreamInput, DescriptorType_StreamOutput] descriptorType
            [P_DescriptorType descriptorType, P_U16 descriptorIndex, P_StreamFormat streamFormat])),
     (AemCommandType_GetStreamInfo, \<lambda>status payload.
        obind (deserializeGetStreamInfoResponse status payload) (\<lambda>(descriptorType, descriptorIndex, streamInfo).
          only_for [DescriptorType_StreamInput, DescriptorType_StreamOutput] descriptorType
            [P_DescriptorType descriptorType, P_U16 descriptorIndex, P_StreamInfo streamInfo])),
     (AemCommandType_GetName, \<lambda>status payload.
        obind (deserializeGetNameResponse status payload)
          (\<lambda>(descriptorType, descriptorIndex, nameIndex, configurationIndex, name).
            if name_exists descriptorType descriptorIndex nameIndex configurationIndex
            then Inr [P_U16 configurationIndex, P_DescriptorType descriptorType, P_U16 descriptorIndex,
                      P_U16 nameIndex, P_FixedString name]
            else Inl InvalidArgument)),
     (AemCommandType_GetAssociationID, \<lambda>status payload.
        obind (deserializeGetAssociationIDResponse status payload) (\<lambda>associationID. Inr [P_Uid associationID])),
     (AemCommandType_GetSamplingRate, \<lambda>status payload.
        obind (deserializeGetSamplingRateResponse status payload) (\<lambda>(descriptorType, descriptorIndex, samplingRate).
          only_for [DescriptorType_AudioUnit, DescriptorType_VideoCluster, DescriptorType_SensorCluster] descriptorType
            [P_DescriptorType descriptorType, P_U16 descriptorIndex, P_SamplingRate samplingRate])),
     (AemCommandType_GetClockSource, \<lambda>status payload.
        obind (deserializeGetClockSourceResponse status payload) (\<lambda>(descriptorType, descriptorIndex, clockSourceIndex).
          Inr [P_U16 descriptorIndex, P_U16 clockSourceIndex])),
     (AemCommandType_GetCounters, \<lambda>status payload.
        obind (deserializeGetCountersResponse status payload) (\<lambda>(descriptorType, descriptorIndex, validFlags, counters).
          only_for [DescriptorType_Entity, DescriptorType_AvbInterface, DescriptorType_ClockDomain,
              DescriptorType_StreamInput, DescriptorType_StreamOutput] descriptorType
            [P_DescriptorType descriptorType, P_U16 descriptorIndex, P_U32 validFlags, P_DescriptorCounters counters])),
     (AemCommandType_GetMemoryObjectLength, \<lambda>status payload.
        obind (deserializeGetMemoryObjectLengthResponse status payload)
          (\<lambda>(configurationIndex, memoryObjectIndex, length).
            Inr [P_U16 configurationIndex, P_U16 memoryObjectIndex, P_U64 length])),
     (AemCommandType_GetMaxTransitTime, \<lambda>status payload.
        obind (deserializeGetMaxTransitTimeResponse status payload) (\<lambda>(descriptorType, streamIndex, maxTransitTime).
          Inr [P_U16 streamIndex, P_U64 maxTransitTime]))]"

fun dynamic_info_parameters :: "dynamic_info list \<Rightarrow> (command_status \<times> 16 word \<times> param list) list outcome" where
  "dynamic_info_parameters [] = Inr []"
| "dynamic_info_parameters (i # infos) =
     (case map_of dynamic_info_readers (dy_type i) of
        None \<Rightarrow> Inl InvalidArgument
      | Some read \<Rightarrow>
          obind (read (ucast (dy_status i)) (dy_buffer i)) (\<lambda>arguments.
          obind (dynamic_info_parameters infos) (\<lambda>parameters.
            Inr ((ucast (dy_status i), dy_type i, arguments) # parameters))))"

definition on_GetDynamicInfo :: response_handler where
  "on_GetDynamicInfo answer notify status payload =
     obind (deserializeGetDynamicInfoResponse status payload) (\<lambda>dynamicInfos.
       obind (if status = Status_Success then dynamic_info_parameters dynamicInfos else Inr [])
         (\<lambda>parameters. Inr (answer [P_DynamicInfos parameters])))"

section \<open>Transit time\<close>

definition on_SetMaxTransitTime :: response_handler where
  "on_SetMaxTransitTime answer notify status payload =
     obind (deserializeSetMaxTransitTimeResponse status payload) (\<lambda>(descriptorType, streamIndex, maxTransitTime).
       let ps = [P_U16 streamIndex, P_Nanoseconds maxTransitTime]
       in Inr (answer ps @ notify ''onMaxTransitTimeChanged'' ps))"

definition on_GetMaxTransitTime :: response_handler where
  "on_GetMaxTransitTime answer notify status payload =
     obind (deserializeGetMaxTransitTimeResponse status payload) (\<lambda>(descriptorType, streamIndex, maxTransitTime).
       Inr (answer [P_U16 streamIndex, P_Nanoseconds maxTransitTime]))"

end
