(* ===== verification/ControllerDispatch.thy ===== *)
theory ControllerDispatch
  imports ControllerResponses
begin

text \<open>
  The processing of responses of the controller (\<^verbatim>\<open>processAemAecpResponse\<close> and its kin of
  src/entity/controllerCapabilityDelegate.cpp): the early checks, the dispatch and the catch clauses.
\<close>

section \<open>AEM\<close>

definition aem_dispatch ::
  "controller_options \<Rightarrow> notifying \<Rightarrow> (16 word \<times> response_handler) list"
where
  "aem_dispatch co notify_always =
    [(AemCommandType_AcquireEntity, on_AcquireEntity),
     (AemCommandType_LockEntity, on_LockEntity),
     (AemCommandType_EntityAvailable, on_EntityAvailable),
     (AemCommandType_ControllerAvailable, on_ControllerAvailable),
     (AemCommandType_ReadDescriptor, on_ReadDescriptor (co_redundancy co)),
     (AemCommandType_SetConfiguration, on_SetConfiguration),
     (AemCommandType_GetConfiguration, on_GetConfiguration),
     (AemCommandType_SetStreamFormat, on_SetStreamFormat),
     (AemCommandType_GetStreamFormat, on_GetStreamFormat),
     (AemCommandType_SetStreamInfo, on_SetStreamInfo),
     (AemCommandType_GetStreamInfo, on_GetStreamInfo),
     (AemCommandType_SetName, on_SetName),
     (AemCommandType_GetName, on_GetName),
     (AemCommandType_SetAssociationID, on_SetAssociationID),
     (AemCommandType_GetAssociationID, on_GetAssociationID),
     (AemCommandType_SetSamplingRate, on_SetSamplingRate),
     (AemCommandType_GetSamplingRate, on_GetSamplingRate),
     (AemCommandType_SetClockSource, on_SetClockSource),
     (AemCommandType_GetClockSource, on_GetClockSource),
     (AemCommandType_SetControl, on_SetControl),
     (AemCommandType_GetControl, on_GetControl),
     (AemCommandType_StartStreaming, on_StartStreaming),
     (AemCommandType_StopStreaming, on_StopStreaming),
     (AemCommandType_RegisterUnsolicitedNotification, on_RegisterUnsolicitedNotification),
     (AemCommandType_DeregisterUnsolicitedNotification, on_DeregisterUnsolicitedNotification),
     (AemCommandType_GetAvbInfo, on_GetAvbInfo),
     (AemCommandType_GetAsPath, on_GetAsPath),
     (AemCommandType_GetCounters, on_GetCounters),
     (AemCommandType_Reboot, on_Reboot),
     (AemCommandType_GetAudioMap, on_GetAudioMap (co_allowGetAudioMapUnsol co)),
     (AemCommandType_AddAudioMappings, on_AddAudioMappings),
     (AemCommandType_RemoveAudioMappings, on_RemoveAudioMappings),
     (AemCommandType_StartOperation, on_StartOperation),
     (AemCommandType_AbortOperation, on_AbortOperation),
     (AemCommandType_OperationStatus, on_OperationStatus notify_always),
     (AemCommandType_SetMemoryObjectLength, on_SetMemoryObjectLength),
     (AemCommandType_GetMemoryObjectLength, on_GetMemoryObjectLength),
     (AemCommandType_GetDynamicInfo, on_GetDynamicInfo),
     (AemCommandType_SetMaxTransitTime, on_SetMaxTransitTime),
     (AemCommandType_GetMaxTransitTime, on_GetMaxTransitTime)]"

text \<open>The status the error callback gets for an exception.\<close>

fun aem_exception_status :: "controller_options \<Rightarrow> command_status \<Rightarrow> exn \<Rightarrow> command_status" where
  "aem_exception_status co status NotImplementedStatus = Status_NotImplemented"
| "aem_exception_status co status IncorrectPayloadSize =
     (if co_ignoreInvalidNonSuccess co \<and> status \<noteq> Status_Success then status else Status_ProtocolError)"
| "aem_exception_status co status InvalidDescriptorType =
     (if co_ignoreInvalidNonSuccess co \<and> status \<noteq> Status_Success then status else Status_ProtocolError)"
| "aem_exception_status co status UnsupportedValue = Status_PartialImplementation"
| "aem_exception_status co status e = Status_ProtocolError"

definition processAemAecpResponse ::
  "controller_options \<Rightarrow> bool \<Rightarrow> 16 word \<Rightarrow> aem_aecpdu \<Rightarrow> error_callback \<Rightarrow> answer_callback \<Rightarrow> call list"
where
  "processAemAecpResponse co delegate commandType aem onErrorCallback answerCallback =
     (let status = ucast (m_status aem);
          targetID = P_Uid (m_streamID aem);
          protocolViolation = call_error onErrorCallback Status_BaseProtocolViolation;
          answer = (\<lambda>ps. invoke answerCallback AemStatus protocolViolation (targetID # ps) status);
          notify = (\<lambda>meth ps. notify_unsolicited delegate (m_unsolicited aem) status meth (targetID # ps));
          notify_always = (\<lambda>meth ps. if delegate then [Notified meth (targetID # ps)] else [])
      in if commandType \<noteq> m_commandType aem then protocolViolation
         else case map_of (aem_dispatch co notify_always) (m_commandType aem) of
           None \<Rightarrow> if m_unsolicited aem then [] else call_error onErrorCallback Status_InternalError
         | Some process \<Rightarrow>
             (case process answer notify status (m_commandSpecificData aem) of
                Inr calls \<Rightarrow> calls
              | Inl e \<Rightarrow> call_error onErrorCallback (aem_exception_status co status e)))"

section \<open>Address access\<close>

definition processAaAecpResponse :: "aa_aecpdu \<Rightarrow> error_callback \<Rightarrow> answer_callback \<Rightarrow> call list" where
  "processAaAecpResponse aa onErrorCallback answerCallback =
     invoke answerCallback AaStatus (call_error onErrorCallback Status_BaseProtocolViolation)
       [P_Uid (m_streamID aa), P_Tlvs (m_tlvData aa)] (ucast (m_status aa))"

section \<open>Milan vendor unique\<close>

definition buildMediaClockReferenceInfo :: "8 word \<Rightarrow> 8 word \<Rightarrow> fixed_string \<Rightarrow> media_clock_reference_info" where
  "buildMediaClockReferenceInfo flags userMcrPrio domainName =
     \<lparr>mcr_userMediaClockPriority = (if bit flags 0 then Some userMcrPrio else None),
      mcr_mediaClockDomainName = (if bit flags 1 then Some domainName else None)\<rparr>"

definition on_GetMilanInfo :: response_handler where
  "on_GetMilanInfo answer notify status payload =
     obind (deserializeGetMilanInfoResponse status payload) (\<lambda>milanInfo. Inr (answer [P_MilanInfo milanInfo]))"

definition on_SetSystemUniqueID :: response_handler where
  "on_SetSystemUniqueID answer notify status payload =
     obind (deserializeSetSystemUniqueIDResponse status payload) (\<lambda>(systemUniqueID, systemName).
       let ps = [P_Uid systemUniqueID, P_FixedString systemName]
       in Inr (answer ps @ notify ''onSystemUniqueIDChanged'' ps))"

definition on_GetSystemUniqueID :: response_handler where
  "on_GetSystemUniqueID answer notify status payload =
     obind (deserializeGetSystemUniqueIDResponse status payload) (\<lambda>(systemUniqueID, systemName).
       Inr (answer [P_Uid systemUniqueID, P_FixedString systemName]))"

definition on_SetMediaClockReferenceInfo :: response_handler where
  "on_SetMediaClockReferenceInfo answer notify status payload =
     obind (deserializeSetMediaClockReferenceInfoResponse status payload)
       (\<lambda>(descriptorIndex, flags, defaultMcrPrio, userMcrPrio, domainName).
         let ps = [P_U16 descriptorIndex, P_DefaultPriority defaultMcrPrio,
                   P_MediaClockReferenceInfo (buildMediaClockReferenceInfo flags userMcrPrio domainName)]
         in Inr (answer ps @ notify ''onMediaClockReferenceInfoChanged'' ps))"

definition on_GetMediaClockReferenceInfo :: response_handler where
  "on_GetMediaClockReferenceInfo answer notify status payload =
     obind (deserializeGetMediaClockReferenceInfoResponse status payload)
       (\<lambda>(descriptorIndex, flags, defaultMcrPrio, userMcrPrio, domainName).
         Inr (answer [P_U16 descriptorIndex, P_DefaultPriority defaultMcrPrio,
           P_MediaClockReferenceInfo (buildMediaClockReferenceInfo flags userMcrPrio domainName)]))"

definition on_BindStream :: response_handler where
  "on_BindStream answer notify status payload =
     obind (deserializeBindStreamResponse status payload)
       (\<lambda>(flags, descriptorType, descriptorIndex, talkerEntityID, talkerStreamIndex).
         if descriptorType \<noteq> DescriptorType_StreamInput then Inl InvalidDescriptorType
         else let ps = [P_U16 descriptorIndex,
                        P_StreamIdentification \<lparr>sid_entityID = talkerEntityID, sid_streamIndex = talkerStreamIndex\<rparr>,
                        P_BindStreamFlags flags]
           in Inr (answer ps @ notify ''onBindStream'' ps))"

definition on_UnbindStream :: response_handler where
  "on_UnbindStream answer notify status payload =
     obind (deserializeUnbindStreamResponse status payload) (\<lambda>(descriptorType, descriptorIndex).
       if descriptorType \<noteq> DescriptorType_StreamInput then Inl InvalidDescriptorType
       else Inr (answer [P_U16 descriptorIndex] @ notify ''onUnbindStream'' [P_U16 descriptorIndex]))"

definition on_GetStreamInputInfoEx :: response_handler where
  "on_GetStreamInputInfoEx answer notify status payload =
     obind (deserializeGetStreamInputInfoExResponse status payload)
       (\<lambda>(descriptorType, descriptorIndex, streamInputInfo).
         if descriptorType \<noteq> DescriptorType_StreamInput then Inl InvalidDescriptorType
         else let ps = [P_U16 descriptorIndex, P_StreamInputInfoEx streamInputInfo]
           in Inr (answer ps @ notify ''onStreamInputInfoExChanged'' ps))"

definition mvu_dispatch :: "(16 word \<times> response_handler) list" where
  "mvu_dispatch =
    [(MvuCommandType_GetMilanInfo, on_GetMilanInfo),
     (MvuCommandType_SetSystemUniqueID, on_SetSystemUniqueID),
     (MvuCommandType_GetSystemUniqueID, on_GetSystemUniqueID),
     (MvuCommandType_SetMediaClockReferenceInfo, on_SetMediaClockReferenceInfo),
     (MvuCommandType_GetMediaClockReferenceInfo, on_GetMediaClockReferenceInfo),
     (MvuCommandType_BindStream, on_BindStream),
     (MvuCommandType_UnbindStream, on_UnbindStream),
     (MvuCommandType_GetStreamInputInfoEx, on_GetStreamInputInfoEx)]"

fun mvu_exception_status :: "exn \<Rightarrow> command_status" where
  "mvu_exception_status NotImplementedStatus = Status_NotImplemented"
| "mvu_exception_status e = Status_ProtocolError"

definition processMvuAecpResponse ::
  "bool \<Rightarrow> 16 word \<Rightarrow> mvu_aecpdu \<Rightarrow> error_callback \<Rightarrow> answer_callback \<Rightarrow> call list"
where
  "processMvuAecpResponse delegate commandType mvu onErrorCallback answerCallback =
     (let status = ucast (m_status mvu);
          targetID = P_Uid (m_streamID mvu);
          protocolViolation = call_error onErrorCallback Status_BaseProtocolViolation;
          answer = (\<lambda>ps. invoke answerCallback MvuStatus protocolViolation (targetID # ps) status);
          notify = (\<lambda>meth ps. notify_unsolicited delegate (m_mvuUnsolicited mvu) status meth (targetID # ps))
      in if commandType \<noteq> m_mvuCommandType mvu then protocolViolation
         else case map_of mvu_dispatch (m_mvuCommandType mvu) of
           None \<Rightarrow> if m_mvuUnsolicited mvu then [] else call_error onErrorCallback Status_InternalError
         | Some process \<Rightarrow>
             (case process answer notify status (m_mvuCommandSpecificData mvu) of
                Inr calls \<Rightarrow> calls
              | Inl e \<Rightarrow> call_error onErrorCallback (mvu_exception_status e)))"

section \<open>ACMP\<close>

definition acmp_talker :: "acmpdu \<Rightarrow> stream_identification" where
  "acmp_talker acmp = \<lparr>sid_entityID = m_talkerEntityID acmp, sid_streamIndex = m_talkerUniqueID acmp\<rparr>"

definition acmp_listener :: "acmpdu \<Rightarrow> stream_identification" where
  "acmp_listener acmp = \<lparr>sid_entityID = m_listenerEntityID acmp, sid_streamIndex = m_listenerUniqueID acmp\<rparr>"

definition acmp_params :: "acmpdu \<Rightarrow> param list" where
  "acmp_params acmp =
     [P_StreamIdentification (acmp_talker acmp), P_StreamIdentification (acmp_listener acmp),
      P_U16 (m_connectionCount acmp), P_ConnectionFlags (m_flags acmp)]"

text \<open>
  Per message type: whether the answer callback is invoked, and what the delegate is told of a sniffed
  response.  Nothing here throws.
\<close>

definition acmp_dispatch :: "(8 word \<times> (bool \<times> delegate_method option)) list" where
  "acmp_dispatch =
    [(AcmpMessageType_ConnectTxResponse, (False, Some ''onListenerConnectResponseSniffed'')),
     (AcmpMessageType_DisconnectTxResponse, (True, Some ''onListenerDisconnectResponseSniffed'')),
     (AcmpMessageType_GetTxStateResponse, (True, Some ''onGetTalkerStreamStateResponseSniffed'')),
     (AcmpMessageType_ConnectRxResponse, (True, Some ''onControllerConnectResponseSniffed'')),
     (AcmpMessageType_DisconnectRxResponse, (True, Some ''onControllerDisconnectResponseSniffed'')),
     (AcmpMessageType_GetRxStateResponse, (True, Some ''onGetListenerStreamStateResponseSniffed'')),
     (AcmpMessageType_GetTxConnectionResponse, (True, None))]"

definition processAcmpResponse ::
  "bool \<Rightarrow> acmpdu \<Rightarrow> error_callback \<Rightarrow> answer_callback \<Rightarrow> bool \<Rightarrow> call list"
where
  "processAcmpResponse delegate acmp onErrorCallback answerCallback sniffed =
     (let status = ucast (m_status acmp);
          protocolViolation = call_error onErrorCallback Status_BaseProtocolViolation
      in case map_of acmp_dispatch (m_controlData acmp) of
           None \<Rightarrow> if sniffed then [] else call_error onErrorCallback Status_InternalError
         | Some (answers, sniffing) \<Rightarrow>
             (if answers then invoke answerCallback ControlStatus protocolViolation (acmp_params acmp) status else []) @
             (case sniffing of
                None \<Rightarrow> []
              | Some meth \<Rightarrow>
                  if sniffed \<and> delegate then [Notified meth (acmp_params acmp @ [P_ControlStatus status])] else []))"

end
