(* ===== verification/AemHandler.thy ===== *)
theory AemHandler
  imports ControllerHandlers
begin

text \<open>
  The entity model a local entity may have (\<^verbatim>\<open>AemHandler\<close>, src/entity/aemHandler.cpp): the ENTITY and
  CONFIGURATION descriptors it makes of its tree and its answers to READ_DESCRIPTOR.
\<close>

section \<open>The tree\<close>

text \<open>
  The part of \<^verbatim>\<open>model::EntityTree\<close> that is read: of the children of a configuration, their number.
\<close>

record configuration_tree =
  tr_objectName :: fixed_string
  tr_localizedDescription :: "16 word"
  tr_audioUnitTrees :: nat
  tr_streamInputModels :: nat
  tr_streamOutputModels :: nat
  tr_jackInputTrees :: nat
  tr_jackOutputTrees :: nat
  tr_avbInterfaceModels :: nat
  tr_clockSourceModels :: nat
  tr_memoryObjectModels :: nat
  tr_localeTrees :: nat
  tr_controlModels :: nat
  tr_clockDomainModels :: nat
  tr_timingModels :: nat
  tr_ptpInstanceTrees :: nat

record entity_tree =
  tr_configurationTrees :: "(configuration_index, configuration_tree) alist"
  tr_vendorNameString :: "16 word"
  tr_modelNameString :: "16 word"
  tr_entityName :: fixed_string
  tr_groupName :: fixed_string
  tr_firmwareVersion :: fixed_string
  tr_serialNumber :: fixed_string
  tr_currentConfiguration :: "16 word"

text \<open>Whether a tree is accepted; the constructor throws otherwise.\<close>

definition validateEntityModel :: "entity_tree option \<Rightarrow> bool" where
  "validateEntityModel tree =
     (case tree of
        None \<Rightarrow> True
      | Some t \<Rightarrow>
          let countConfigs = (of_nat (length (tr_configurationTrees t)) :: 16 word)
          in countConfigs \<noteq> 0 \<and> \<not> tr_currentConfiguration t \<ge> countConfigs)"

section \<open>Descriptors\<close>

definition buildEntityDescriptor :: "entity_tree \<Rightarrow> entity \<Rightarrow> entity_descriptor" where
  "buildEntityDescriptor t en =
     EntityDescriptor_new
       \<lparr>ed_entityID := getEntityID en,
        ed_entityModelID := ei_entityModelID (en_common en),
        ed_entityCapabilities := ei_entityCapabilities (en_common en),
        ed_talkerStreamSources := ei_talkerStreamSources (en_common en),
        ed_talkerCapabilities := ei_talkerCapabilities (en_common en),
        ed_listenerStreamSinks := ei_listenerStreamSinks (en_common en),
        ed_listenerCapabilities := ei_listenerCapabilities (en_common en),
        ed_controllerCapabilities := ei_controllerCapabilities (en_common en),
        ed_availableIndex := 0,
        ed_associationID := (case ei_associationID (en_common en) of
           Some i \<Rightarrow> i | None \<Rightarrow> ed_associationID EntityDescriptor_new),
        ed_entityName := tr_entityName t,
        ed_vendorNameString := tr_vendorNameString t,
        ed_modelNameString := tr_modelNameString t,
        ed_firmwareVersion := tr_firmwareVersion t,
        ed_groupName := tr_groupName t,
        ed_serialNumber := tr_serialNumber t,
        ed_configurationsCount := of_nat (length (tr_configurationTrees t)),
        ed_currentConfiguration := tr_currentConfiguration t\<rparr>"

definition setDescriptorsCount ::
  "descriptor_type \<Rightarrow> nat \<Rightarrow> configuration_descriptor \<Rightarrow> configuration_descriptor"
where
  "setDescriptorsCount t n c =
     (if n \<noteq> 0 then c\<lparr>cf_descriptorCounts := al_put t (of_nat n) (cf_descriptorCounts c)\<rparr> else c)"

text \<open>
  None is the exception of a missing configuration.  The counts are in the order they are set; the code keeps
  them in an unordered map.
\<close>

definition buildConfigurationDescriptor :: "entity_tree \<Rightarrow> configuration_index \<Rightarrow> configuration_descriptor option" where
  "buildConfigurationDescriptor t configIndex =
     map_option (\<lambda>c.
         (setDescriptorsCount DescriptorType_PtpInstance (tr_ptpInstanceTrees c) \<circ>
          setDescriptorsCount DescriptorType_Timing (tr_timingModels c) \<circ>
          setDescriptorsCount DescriptorType_ClockDomain (tr_clockDomainModels c) \<circ>
          setDescriptorsCount DescriptorType_Control (tr_controlModels c) \<circ>
          setDescriptorsCount DescriptorType_Locale (tr_localeTrees c) \<circ>
          setDescriptorsCount DescriptorType_MemoryObject (tr_memoryObjectModels c) \<circ>
          setDescriptorsCount DescriptorType_ClockSource (tr_clockSourceModels c) \<circ>
          setDescriptorsCount DescriptorType_AvbInterface (tr_avbInterfaceModels c) \<circ>
          setDescriptorsCount DescriptorType_JackOutput (tr_jackOutputTrees c) \<circ>
          setDescriptorsCount DescriptorType_JackInput (tr_jackInputTrees c) \<circ>
          setDescriptorsCount DescriptorType_StreamOutput (tr_streamOutputModels c) \<circ>
          setDescriptorsCount DescriptorType_StreamInput (tr_streamInputModels c) \<circ>
          setDescriptorsCount DescriptorType_AudioUnit (tr_audioUnitTrees c))
         (ConfigurationDescriptor_new
           \<lparr>cf_objectName := tr_objectName c, cf_localizedDescription := tr_localizedDescription c\<rparr>))
       (al_get configIndex (tr_configurationTrees t))"

section \<open>READ_DESCRIPTOR\<close>

text \<open>What becomes of a command: not handled, reflected with a status, or answered with a payload.\<close>

datatype aem_answer =
    NotHandled
  | Reflected "8 word"
  | Answered "byte list"

definition AemAecpStatus_NoSuchDescriptor :: "8 word" where "AemAecpStatus_NoSuchDescriptor = 2"
definition AemAecpStatus_BadArguments :: "8 word" where "AemAecpStatus_BadArguments = 7"
definition AemAecpStatus_EntityMisbehaving :: "8 word" where "AemAecpStatus_EntityMisbehaving = 10"

text \<open>A serializer that throws is caught like the rest, with the same status.\<close>

definition answered :: "serializer option \<Rightarrow> aem_answer" where
  "answered s = (case s of None \<Rightarrow> Reflected AemAecpStatus_EntityMisbehaving | Some s \<Rightarrow> Answered (buffer s))"

definition answer_ReadDescriptor :: "build_options \<Rightarrow> entity_tree option \<Rightarrow> entity \<Rightarrow> byte list \<Rightarrow> aem_answer" where
  "answer_ReadDescriptor opts tree en payload =
     (case tree of
        None \<Rightarrow> NotHandled
      | Some t \<Rightarrow>
          (case deserializeReadDescriptorCommand payload of
             Inl _ \<Rightarrow> Reflected AemAecpStatus_EntityMisbehaving
           | Inr (configIndex, descriptorType, descriptorIndex) \<Rightarrow>
               let common = serializeReadDescriptorCommonResponse opts configIndex descriptorType descriptorIndex in
               if descriptorType = DescriptorType_Entity
               then if configIndex \<noteq> 0 \<or> descriptorIndex \<noteq> 0 then Reflected AemAecpStatus_BadArguments
                    else answered (Option.bind common (serializeReadEntityDescriptorResponse (buildEntityDescriptor t en)))
               else if descriptorType = DescriptorType_Configuration
               then if configIndex \<noteq> 0 then Reflected AemAecpStatus_BadArguments
                    else (case buildConfigurationDescriptor t descriptorIndex of
                            None \<Rightarrow> Reflected AemAecpStatus_NoSuchDescriptor
                          | Some c \<Rightarrow> answered (Option.bind common (serializeReadConfigurationDescriptorResponse c)))
               else NotHandled))"

definition onUnhandledAecpAemCommand ::
  "build_options \<Rightarrow> vu_registry \<Rightarrow> (vu_aecpdu \<Rightarrow> vu_aecpdu option) \<Rightarrow> entity_tree option \<Rightarrow> entity_ref
     \<Rightarrow> aem_aecpdu \<Rightarrow> manager \<Rightarrow> bool \<times> manager"
where
  "onUnhandledAecpAemCommand opts reg vuCopy tree e aem m =
     (if m_commandType aem = AemCommandType_ReadDescriptor
      then (case answer_ReadDescriptor opts tree (mg_store m e) (m_commandSpecificData aem) of
              NotHandled \<Rightarrow> (False, m)
            | Reflected status \<Rightarrow> (True, reflectAecpCommand reg vuCopy (Aem aem) status m)
            | Answered payload \<Rightarrow> (True, sendAemAecpResponse opts reg aem AecpStatus_Success payload m))
      else (False, m))"

section \<open>What a controller reads of it\<close>

lemma entity_descriptor_read:
  "\<exists>s. Option.bind (serializeReadDescriptorCommonResponse opts 0 DescriptorType_Entity 0)
         (serializeReadEntityDescriptorResponse e) = Some s \<and>
       deserializeReadDescriptorCommonResponse Status_Success (buffer s) = Inr (8, 0, DescriptorType_Entity, 0) \<and>
       deserializeReadEntityDescriptorResponse (buffer s) 8 0 = Inr e"
  by (cases e) (simp add: serializeReadDescriptorCommonResponse_def serializeReadEntityDescriptorResponse_def
      pack_eq serializer_new_def Aem_MaximumSendPayloadBufferLength_def deserializeReadDescriptorCommonResponse_def
      checkResponsePayload_implemented deserializeReadEntityDescriptorResponse_def read_descriptor_def
      setPosition_def deser_new_def d_size_def readEntityDescriptor_def MaximumSendLength_def aecp_lengths
      Aecpdu_HeaderLength_def AemAecpdu_HeaderLength_def Status_Success_def Status_NotImplemented_def)

end
