(* ===== verification/CapabilityDelegate.thy ===== *)
theory CapabilityDelegate
  imports ControllerDispatch AemHandler
begin

text \<open>
  \<^verbatim>\<open>controller::CapabilityDelegate\<close> (src/entity/controllerCapabilityDelegate.cpp), what makes a local entity
  a controller: the entities it has discovered, how a command of its user is sent to one of them and completed,
  and what it makes of everything else the protocol interface tells a local entity.

  The closures given to the protocol interface are numbered; the completions not yet called are part of the
  state.  Everything the user is told is a list of calls.
\<close>

section \<open>State\<close>

record cd_discovered_entity =
  cde_entity :: entity
  cde_mainInterfaceIndex :: interface_index

text \<open>
  What stays the same: \<^verbatim>\<open>_controllerID\<close>, whether there is a delegate, the build, the tree of the entity model
  and the local entity it is the model of.  The validity of a MAC address is that of
  \<^verbatim>\<open>NetworkInterfaceHelper::isMacAddressValid\<close>, a library the repository uses.
\<close>

record controller_config =
  cc_controllerID :: uid
  cc_delegate :: bool
  cc_options :: controller_options
  cc_build :: build_options
  cc_entityModelTree :: "entity_tree option"
  cc_entity :: entity_ref
  cc_isMacAddressValid :: "mac_address \<Rightarrow> bool"

text \<open>The closure of a command: its type, where the response repeats it, and its two callbacks.\<close>

datatype completion =
    AemCompletion "16 word" error_callback answer_callback
  | AaCompletion error_callback answer_callback
  | MvuCompletion "16 word" error_callback answer_callback
  | AcmpCompletion error_callback answer_callback

record controller =
  cn_discoveredEntities :: "(entity_id, cd_discovered_entity) alist"
  cn_completions :: "(handler, completion) alist"
  cn_nextHandler :: handler
  cn_registry :: vu_registry
  cn_manager :: manager

type_synonym command = "controller_config \<Rightarrow> controller \<Rightarrow> call list \<times> controller"

text \<open>\<^verbatim>\<open>utils::invokeProtectedMethod\<close> on the delegate, when there is one.\<close>

definition notify_user :: "controller_config \<Rightarrow> delegate_method \<Rightarrow> param list \<Rightarrow> call list" where
  "notify_user cc meth ps = (if cc_delegate cc then [Notified meth ps] else [])"

section \<open>Discovered entities\<close>

definition getMainInterfaceIndex :: "entity \<Rightarrow> interface_index" where
  "getMainInterfaceIndex en = fst (hd (en_interfaces en))"

definition cd_onRemoteEntityOnline :: "controller_config \<Rightarrow> entity \<Rightarrow> controller \<Rightarrow> call list \<times> controller" where
  "cd_onRemoteEntityOnline cc en cn =
     (notify_user cc ''onEntityOnline'' [P_Uid (getEntityID en), P_Entity en],
      cn\<lparr>cn_discoveredEntities := al_put (getEntityID en)
           \<lparr>cde_entity = en, cde_mainInterfaceIndex = getMainInterfaceIndex en\<rparr> (cn_discoveredEntities cn)\<rparr>)"

definition cd_onRemoteEntityOffline :: "controller_config \<Rightarrow> entity_id \<Rightarrow> controller \<Rightarrow> call list \<times> controller" where
  "cd_onRemoteEntityOffline cc entityID cn =
     (notify_user cc ''onEntityOffline'' [P_Uid entityID],
      cn\<lparr>cn_discoveredEntities := al_del entityID (cn_discoveredEntities cn)\<rparr>)"

definition cd_onRemoteEntityUpdated :: "controller_config \<Rightarrow> entity \<Rightarrow> controller \<Rightarrow> call list \<times> controller" where
  "cd_onRemoteEntityUpdated cc en cn =
     (case al_get (getEntityID en) (cn_discoveredEntities cn) of
        None \<Rightarrow> cd_onRemoteEntityOnline cc en cn
      | Some de \<Rightarrow>
          if hasInterfaceIndex (cde_mainInterfaceIndex de) en
          then (notify_user cc ''onEntityUpdate'' [P_Uid (getEntityID en), P_Entity en],
                cn\<lparr>cn_discoveredEntities := al_put (getEntityID en) (de\<lparr>cde_entity := en\<rparr>) (cn_discoveredEntities cn)\<rparr>)
          else if en_interfaces en \<noteq> []
          then let (offline, cn) = cd_onRemoteEntityOffline cc (getEntityID en) cn;
                   (online, cn) = cd_onRemoteEntityOnline cc en cn
               in (offline @ online, cn)
          else cd_onRemoteEntityOffline cc (getEntityID en) cn)"

text \<open>The other local entities are seen like the remote ones.\<close>

definition cd_onLocalEntityOnline :: "controller_config \<Rightarrow> entity \<Rightarrow> controller \<Rightarrow> call list \<times> controller" where
  "cd_onLocalEntityOnline cc en cn =
     (if uid_eq (getEntityID en) (cc_controllerID cc) then ([], cn) else cd_onRemoteEntityOnline cc en cn)"

definition cd_onLocalEntityOffline :: "controller_config \<Rightarrow> entity_id \<Rightarrow> controller \<Rightarrow> call list \<times> controller" where
  "cd_onLocalEntityOffline cc entityID cn =
     (if uid_eq entityID (cc_controllerID cc) then ([], cn) else cd_onRemoteEntityOffline cc entityID cn)"

definition cd_onLocalEntityUpdated :: "controller_config \<Rightarrow> entity \<Rightarrow> controller \<Rightarrow> call list \<times> controller" where
  "cd_onLocalEntityUpdated cc en cn =
     (if uid_eq (getEntityID en) (cc_controllerID cc) then ([], cn) else cd_onRemoteEntityUpdated cc en cn)"

section \<open>Commands\<close>

text \<open>The address of the main interface; the invalid one for an entity that is not known.\<close>

definition target_address :: "entity_id \<Rightarrow> controller \<Rightarrow> mac_address" where
  "target_address targetEntityID cn =
     (case al_get targetEntityID (cn_discoveredEntities cn) of
        None \<Rightarrow> 0
      | Some de \<Rightarrow> getMacAddress (cde_mainInterfaceIndex de) (cde_entity de))"

text \<open>
  A command is given to the protocol interface with its closure, which is called at once, with a status other
  than success and no response, when the interface refuses it.
\<close>

definition give_command ::
  "error_callback \<Rightarrow> completion \<Rightarrow> (handler \<Rightarrow> manager \<Rightarrow> command_status option \<times> manager) \<Rightarrow> controller
     \<Rightarrow> call list \<times> controller"
where
  "give_command onErrorCallback closure send cn =
     (let (refused, m) = send (cn_nextHandler cn) (cn_manager cn) in
      case refused of
        Some status \<Rightarrow> (call_error onErrorCallback status, cn\<lparr>cn_manager := m\<rparr>)
      | None \<Rightarrow> ([], cn\<lparr>cn_completions := (cn_nextHandler cn, closure) # cn_completions cn,
                      cn_nextHandler := Suc (cn_nextHandler cn), cn_manager := m\<rparr>))"

definition cd_sendAemAecpCommand ::
  "entity_id \<Rightarrow> 16 word \<Rightarrow> byte list \<Rightarrow> error_callback \<Rightarrow> answer_callback \<Rightarrow> command"
where
  "cd_sendAemAecpCommand targetEntityID commandType payload onErrorCallback answerCallback cc cn =
     (let targetMacAddress = target_address targetEntityID cn in
      if \<not> cc_isMacAddressValid cc targetMacAddress then (call_error onErrorCallback Status_UnknownEntity, cn)
      else give_command onErrorCallback (AemCompletion commandType onErrorCallback answerCallback)
        (sendAemAecpCommand (cc_build cc) (cn_registry cn) (cc_controllerID cc) targetEntityID targetMacAddress
           commandType payload) cn)"

definition cd_sendAaAecpCommand :: "entity_id \<Rightarrow> tlv list \<Rightarrow> error_callback \<Rightarrow> answer_callback \<Rightarrow> command" where
  "cd_sendAaAecpCommand targetEntityID tlvs onErrorCallback answerCallback cc cn =
     (let targetMacAddress = target_address targetEntityID cn in
      if \<not> cc_isMacAddressValid cc targetMacAddress then (call_error onErrorCallback Status_UnknownEntity, cn)
      else give_command onErrorCallback (AaCompletion onErrorCallback answerCallback)
        (sendAaAecpCommand (cn_registry cn) (cc_controllerID cc) targetEntityID targetMacAddress tlvs) cn)"

definition cd_sendMvuAecpCommand ::
  "entity_id \<Rightarrow> 16 word \<Rightarrow> byte list \<Rightarrow> error_callback \<Rightarrow> answer_callback \<Rightarrow> command"
where
  "cd_sendMvuAecpCommand targetEntityID commandType payload onErrorCallback answerCallback cc cn =
     (let targetMacAddress = target_address targetEntityID cn in
      if \<not> cc_isMacAddressValid cc targetMacAddress then (call_error onErrorCallback Status_UnknownEntity, cn)
      else give_command onErrorCallback (MvuCompletion commandType onErrorCallback answerCallback)
        (sendMvuAecpCommand (cc_build cc) (cn_registry cn) (cc_controllerID cc) targetEntityID targetMacAddress
           commandType payload) cn)"

definition cd_sendAcmpCommand ::
  "8 word \<Rightarrow> uid \<Rightarrow> 16 word \<Rightarrow> uid \<Rightarrow> 16 word \<Rightarrow> 16 word \<Rightarrow> error_callback \<Rightarrow> answer_callback \<Rightarrow> command"
where
  "cd_sendAcmpCommand messageType talkerEntityID talkerStreamIndex listenerEntityID listenerStreamIndex
       connectionIndex onErrorCallback answerCallback cc cn =
     give_command onErrorCallback (AcmpCompletion onErrorCallback answerCallback)
       (le_sendAcmpCommand messageType (cc_controllerID cc) talkerEntityID talkerStreamIndex listenerEntityID
          listenerStreamIndex connectionIndex) cn"

text \<open>
  A completion, given what the interface has for it.  On success the response is taken for one of the class of
  the command (\<^verbatim>\<open>static_cast\<close>): what happens with a message of another class is undefined (None).
\<close>

fun complete :: "controller_config \<Rightarrow> completion \<Rightarrow> pdu option \<Rightarrow> error \<Rightarrow> call list option" where
  "complete cc (AemCompletion commandType onErrorCallback answerCallback) response err =
     (let status = convertErrorToAemCommandStatus err in
      if status = Status_Success
      then (case response of
              Some (PAecp (Aem aem)) \<Rightarrow>
                Some (processAemAecpResponse (cc_options cc) (cc_delegate cc) commandType aem onErrorCallback answerCallback)
            | _ \<Rightarrow> None)
      else Some (call_error onErrorCallback status))"
| "complete cc (AaCompletion onErrorCallback answerCallback) response err =
     (let status = convertErrorToAaCommandStatus err in
      if status = Status_Success
      then (case response of
              Some (PAecp (Aa aa)) \<Rightarrow> Some (processAaAecpResponse aa onErrorCallback answerCallback)
            | _ \<Rightarrow> None)
      else Some (call_error onErrorCallback status))"
| "complete cc (MvuCompletion commandType onErrorCallback answerCallback) response err =
     (let status = convertErrorToMvuCommandStatus err in
      if status = Status_Success
      then (case response of
              Some (PAecp (Mvu mvu)) \<Rightarrow>
                Some (processMvuAecpResponse (cc_delegate cc) commandType mvu onErrorCallback answerCallback)
            | _ \<Rightarrow> None)
      else Some (call_error onErrorCallback status))"
| "complete cc (AcmpCompletion onErrorCallback answerCallback) response err =
     (let status = convertErrorToControlStatus err in
      if status = Status_Success
      then (case response of
              Some (PAcmp acmp) \<Rightarrow> Some (processAcmpResponse (cc_delegate cc) acmp onErrorCallback answerCallback False)
            | _ \<Rightarrow> None)
      else Some (call_error onErrorCallback status))"

section \<open>Notifications\<close>

text \<open>
  A command not handled by the local entity itself.  One from the controller itself is swallowed; AEM commands
  other than CONTROLLER_AVAILABLE are left to the entity model.
\<close>

definition cd_onUnhandledAecpCommand ::
  "controller_config \<Rightarrow> vu_registry \<Rightarrow> (vu_aecpdu \<Rightarrow> vu_aecpdu option) \<Rightarrow> command_handler"
where
  "cd_onUnhandledAecpCommand cc reg vuCopy p m =
     (case p of
        Aem aem \<Rightarrow>
          if aecp_messageType p \<noteq> AecpMessageType_AemCommand then (False, m)
          else if uid_eq (cc_controllerID cc) (aecp_controllerEntityID p) then (True, m)
          else if m_commandType aem = AemCommandType_ControllerAvailable
          then (True, sendAemAecpResponse (cc_build cc) reg aem AecpStatus_Success [] m)
          else onUnhandledAecpAemCommand (cc_build cc) reg vuCopy (cc_entityModelTree cc) (cc_entity cc) aem m
      | _ \<Rightarrow> (False, m))"

definition cd_onAecpAemUnsolicitedResponse :: "controller_config \<Rightarrow> aecp_pdu \<Rightarrow> call list" where
  "cd_onAecpAemUnsolicitedResponse cc p =
     (case p of
        Aem aem \<Rightarrow>
          if uid_eq (cc_controllerID cc) (aecp_controllerEntityID p)
             \<and> aecp_messageType p = AecpMessageType_AemResponse \<and> m_unsolicited aem
          then processAemAecpResponse (cc_options cc) (cc_delegate cc) (m_commandType aem) aem None None
               @ notify_user cc ''onAemAecpUnsolicitedReceived''
                   [P_Uid (aecp_targetEntityID p), P_U16 (aecp_sequenceID p)]
          else []
      | _ \<Rightarrow> [])"

definition cd_onAecpAemIdentifyNotification :: "controller_config \<Rightarrow> aecp_pdu \<Rightarrow> call list" where
  "cd_onAecpAemIdentifyNotification cc p =
     notify_user cc ''onEntityIdentifyNotification'' [P_Uid (aecp_targetEntityID p)]"

definition cd_onAecpVuUnsolicitedResponse :: "controller_config \<Rightarrow> 64 word \<Rightarrow> aecp_pdu \<Rightarrow> call list" where
  "cd_onAecpVuUnsolicitedResponse cc protocolIdentifier p =
     (case p of
        Mvu mvu \<Rightarrow>
          if uid_eq (cc_controllerID cc) (aecp_controllerEntityID p)
             \<and> aecp_messageType p = AecpMessageType_VendorUniqueResponse
             \<and> protocolIdentifier = MvuAecpdu_ProtocolID \<and> m_mvuUnsolicited mvu
          then processMvuAecpResponse (cc_delegate cc) (m_mvuCommandType mvu) mvu None None
               @ notify_user cc ''onMvuAecpUnsolicitedReceived''
                   [P_Uid (aecp_targetEntityID p), P_U16 (aecp_sequenceID p)]
          else []
      | _ \<Rightarrow> [])"

definition isResponseForController :: "8 word \<Rightarrow> bool" where
  "isResponseForController messageType \<longleftrightarrow>
     messageType = AcmpMessageType_ConnectRxResponse \<or> messageType = AcmpMessageType_DisconnectRxResponse \<or>
     messageType = AcmpMessageType_GetRxStateResponse \<or> messageType = AcmpMessageType_GetTxConnectionResponse"

definition cd_onAcmpResponse :: "controller_config \<Rightarrow> acmpdu \<Rightarrow> call list" where
  "cd_onAcmpResponse cc acmp =
     (if \<not> uid_eq (cc_controllerID cc) (m_acmpControllerEntityID acmp) \<or> \<not> isResponseForController (m_controlData acmp)
      then processAcmpResponse (cc_delegate cc) acmp None None True
      else [])"

text \<open>
  What the controller does with one event of the protocol interface.  A completion leaves the state when it is
  called; the handlers of other local entities are not in it.  Commands are answered as the theory
  \<^verbatim>\<open>LocalEntity\<close> has it.
\<close>

definition cd_onEvent ::
  "controller_config \<Rightarrow> (vu_aecpdu \<Rightarrow> vu_aecpdu option) \<Rightarrow> event \<Rightarrow> controller \<Rightarrow> (call list \<times> controller) option"
where
  "cd_onEvent cc vuCopy ev cn =
     (case ev of
        Handled h response err \<Rightarrow>
          (case al_get h (cn_completions cn) of
             None \<Rightarrow> Some ([], cn)
           | Some closure \<Rightarrow>
               map_option (\<lambda>calls. (calls, cn\<lparr>cn_completions := al_del h (cn_completions cn)\<rparr>))
                 (complete cc closure response err))
      | OnAecpRetry entityID \<Rightarrow> Some (notify_user cc ''onAecpRetry'' [P_Uid entityID], cn)
      | OnAecpTimeout entityID \<Rightarrow> Some (notify_user cc ''onAecpTimeout'' [P_Uid entityID], cn)
      | OnAecpUnexpectedResponse entityID \<Rightarrow> Some (notify_user cc ''onAecpUnexpectedResponse'' [P_Uid entityID], cn)
      | OnAecpResponseTime entityID t \<Rightarrow>
          Some (notify_user cc ''onAecpResponseTime'' [P_Uid entityID, P_Milliseconds t], cn)
      | OnAemUnsolicitedResponse p \<Rightarrow> Some (cd_onAecpAemUnsolicitedResponse cc p, cn)
      | OnAemIdentifyNotification p \<Rightarrow> Some (cd_onAecpAemIdentifyNotification cc p, cn)
      | OnVuUnsolicitedResponse protocolIdentifier p \<Rightarrow> Some (cd_onAecpVuUnsolicitedResponse cc protocolIdentifier p, cn)
      | OnLocalEntityOnline en \<Rightarrow> Some (cd_onLocalEntityOnline cc en cn)
      | OnLocalEntityOffline entityID \<Rightarrow> Some (cd_onLocalEntityOffline cc entityID cn)
      | OnRemoteEntityOnline en \<Rightarrow> Some (cd_onRemoteEntityOnline cc en cn)
      | OnRemoteEntityOffline entityID \<Rightarrow> Some (cd_onRemoteEntityOffline cc entityID cn)
      | OnRemoteEntityUpdated en \<Rightarrow> Some (cd_onRemoteEntityUpdated cc en cn)
      | OnAecpCommand p \<Rightarrow>
          Some ([], cn\<lparr>cn_manager := onAecpCommand (cc_build cc) (cn_registry cn) vuCopy
            (cd_onUnhandledAecpCommand cc (cn_registry cn) vuCopy) (cc_controllerID cc) p (cn_manager cn)\<rparr>)
      | OnVuAecpCommand protocolIdentifier p \<Rightarrow>
          Some ([], cn\<lparr>cn_manager := onVuAecpCommand (cn_registry cn) vuCopy (\<lambda>p m. (False, m))
            (cc_controllerID cc) protocolIdentifier p (cn_manager cn)\<rparr>)
      | OnAcmpResponse acmp \<Rightarrow> Some (cd_onAcmpResponse cc acmp, cn)
      | _ \<Rightarrow> Some ([], cn))"

end
