(* ===== verification/ControllerCommands.thy ===== *)
theory ControllerCommands
  imports CapabilityDelegate
begin

text \<open>
  The commands of a controller (\<^verbatim>\<open>controller::Interface\<close>, the methods of
  src/entity/controllerCapabilityDelegate.cpp): each serializes its arguments and sends the command with the
  user's handler, to which an error gives the values bound here.

  A name that the payload theories have taken starts with \<^verbatim>\<open>cd_\<close>.
\<close>

section \<open>How a command is made\<close>

text \<open>
  \<^verbatim>\<open>makeAemAECPErrorHandler\<close>, the serialization, whose exceptions are a protocol error, and the sending.  The
  values bound for an error have the types of the handler's arguments, so that they also give its type.
\<close>

definition aem_command ::
  "entity_id \<Rightarrow> 16 word \<Rightarrow> byte list option \<Rightarrow> param list \<Rightarrow> user_handler option \<Rightarrow> command"
where
  "aem_command targetEntityID commandType ser defaults handler cc cn =
     (let ps = P_Uid targetEntityID # defaults;
          errorCallback = makeErrorHandler handler ps
      in case ser of
           None \<Rightarrow> (call_error errorCallback Status_ProtocolError, cn)
         | Some payload \<Rightarrow>
             cd_sendAemAecpCommand targetEntityID commandType payload errorCallback
               (AnswerCallback AemStatus ps handler) cc cn)"

definition mvu_command ::
  "entity_id \<Rightarrow> 16 word \<Rightarrow> byte list option \<Rightarrow> param list \<Rightarrow> user_handler option \<Rightarrow> command"
where
  "mvu_command targetEntityID commandType ser defaults handler cc cn =
     (let ps = P_Uid targetEntityID # defaults;
          errorCallback = makeErrorHandler handler ps
      in case ser of
           None \<Rightarrow> (call_error errorCallback Status_ProtocolError, cn)
         | Some payload \<Rightarrow>
             cd_sendMvuAecpCommand targetEntityID commandType payload errorCallback
               (AnswerCallback MvuStatus ps handler) cc cn)"

definition acmp_command ::
  "8 word \<Rightarrow> uid \<Rightarrow> 16 word \<Rightarrow> uid \<Rightarrow> 16 word \<Rightarrow> 16 word \<Rightarrow> param list \<Rightarrow> user_handler option \<Rightarrow> command"
where
  "acmp_command messageType talkerEntityID talkerStreamIndex listenerEntityID listenerStreamIndex
       connectionIndex ps handler =
     cd_sendAcmpCommand messageType talkerEntityID talkerStreamIndex listenerEntityID listenerStreamIndex
       connectionIndex (makeErrorHandler handler ps) (AnswerCallback ControlStatus ps handler)"

text \<open>The empty values.\<close>

definition StreamInfo_empty :: stream_info where
  "StreamInfo_empty =
     \<lparr>streamInfoFlags = 0, streamFormat = 0, streamID = 0, msrpAccumulatedLatency = 0, streamDestMac = 0,
      msrpFailureCode = 0, msrpFailureBridgeID = 0, streamVlanID = 0, streamInfoFlagsEx = None,
      probingStatus = None, acmpStatus = None\<rparr>"

definition AvbInfo_empty :: avb_info where
  "AvbInfo_empty =
     \<lparr>av_gptpGrandmasterID = uid_uninitialized, av_propagationDelay = 0, av_gptpDomainNumber = 0, av_flags = 0,
      av_mappings = []\<rparr>"

definition MilanInfo_empty :: milan_info where
  "MilanInfo_empty =
     \<lparr>mi_protocolVersion = 0, mi_featuresFlags = 0, mi_certificationVersion = 0, mi_specificationVersion = 0\<rparr>"

definition MediaClockReferenceInfo_empty :: media_clock_reference_info where
  "MediaClockReferenceInfo_empty = \<lparr>mcr_userMediaClockPriority = None, mcr_mediaClockDomainName = None\<rparr>"

section \<open>Acquiring, locking and registering\<close>

definition acquireEntity ::
  "entity_id \<Rightarrow> bool \<Rightarrow> descriptor_type \<Rightarrow> descriptor_index
  \<Rightarrow> user_handler option \<Rightarrow> command"
where
  "acquireEntity targetEntityID isPersistent descriptorType descriptorIndex handler =
     aem_command targetEntityID AemCommandType_AcquireEntity
       (serializeAcquireEntityCommand (if isPersistent then AemAcquireEntityFlags_Persistent else AemAcquireEntityFlags_None)
          uid_null descriptorType descriptorIndex)
       [P_Uid uid_null, P_DescriptorType descriptorType, P_U16 descriptorIndex] handler"

definition releaseEntity ::
  "entity_id \<Rightarrow> descriptor_type \<Rightarrow> descriptor_index
  \<Rightarrow> user_handler option \<Rightarrow> command"
where
  "releaseEntity targetEntityID descriptorType descriptorIndex handler =
     aem_command targetEntityID AemCommandType_AcquireEntity
       (serializeAcquireEntityCommand AemAcquireEntityFlags_Release
          uid_null descriptorType descriptorIndex)
       [P_Uid uid_null, P_DescriptorType descriptorType, P_U16 descriptorIndex] handler"

definition lockEntity ::
  "entity_id \<Rightarrow> descriptor_type \<Rightarrow> descriptor_index
  \<Rightarrow> user_handler option \<Rightarrow> command"
where
  "lockEntity targetEntityID descriptorType descriptorIndex handler =
     aem_command targetEntityID AemCommandType_LockEntity
       (serializeLockEntityCommand AemLockEntityFlags_None uid_null descriptorType descriptorIndex)
       [P_Uid uid_null, P_DescriptorType descriptorType, P_U16 descriptorIndex] handler"

definition unlockEntity ::
  "entity_id \<Rightarrow> descriptor_type \<Rightarrow> descriptor_index
  \<Rightarrow> user_handler option \<Rightarrow> command"
where
  "unlockEntity targetEntityID descriptorType descriptorIndex handler =
     aem_command targetEntityID AemCommandType_LockEntity
       (serializeLockEntityCommand AemLockEntityFlags_Unlock uid_null descriptorType descriptorIndex)
       [P_Uid uid_null, P_DescriptorType descriptorType, P_U16 descriptorIndex] handler"

definition queryEntityAvailable :: "entity_id \<Rightarrow> user_handler option \<Rightarrow> command" where
  "queryEntityAvailable targetEntityID handler =
     aem_command targetEntityID AemCommandType_EntityAvailable (Some []) [] handler"

definition queryControllerAvailable ::
  "entity_id \<Rightarrow> user_handler option \<Rightarrow> command"
where
  "queryControllerAvailable targetEntityID handler =
     aem_command targetEntityID AemCommandType_ControllerAvailable (Some []) [] handler"

definition registerUnsolicitedNotifications ::
  "entity_id \<Rightarrow> user_handler option \<Rightarrow> command"
where
  "registerUnsolicitedNotifications targetEntityID handler =
     aem_command targetEntityID AemCommandType_RegisterUnsolicitedNotification (Some []) [] handler"

definition unregisterUnsolicitedNotifications ::
  "entity_id \<Rightarrow> user_handler option \<Rightarrow> command"
where
  "unregisterUnsolicitedNotifications targetEntityID handler =
     aem_command targetEntityID AemCommandType_DeregisterUnsolicitedNotification (Some []) [] handler"

section \<open>Descriptors\<close>

definition cd_readEntityDescriptor ::
  "entity_id \<Rightarrow> user_handler option \<Rightarrow> command"
where
  "cd_readEntityDescriptor targetEntityID handler =
     aem_command targetEntityID AemCommandType_ReadDescriptor
       (serializeReadDescriptorCommand 0 DescriptorType_Entity 0)
       [P_Descriptor (D_Entity EntityDescriptor_new)] handler"

definition cd_readConfigurationDescriptor ::
  "entity_id \<Rightarrow> configuration_index \<Rightarrow> user_handler option \<Rightarrow> command"
where
  "cd_readConfigurationDescriptor targetEntityID configurationIndex handler =
     aem_command targetEntityID AemCommandType_ReadDescriptor
       (serializeReadDescriptorCommand 0 DescriptorType_Configuration configurationIndex)
       [P_U16 configurationIndex, P_Descriptor (D_Configuration ConfigurationDescriptor_new)] handler"

definition cd_readAudioUnitDescriptor ::
  "entity_id \<Rightarrow> configuration_index \<Rightarrow> descriptor_index
  \<Rightarrow> user_handler option \<Rightarrow> command"
where
  "cd_readAudioUnitDescriptor targetEntityID configurationIndex audioUnitIndex handler =
     aem_command targetEntityID AemCommandType_ReadDescriptor
       (serializeReadDescriptorCommand configurationIndex DescriptorType_AudioUnit audioUnitIndex)
       [P_U16 configurationIndex, P_U16 audioUnitIndex, P_Descriptor (D_AudioUnit AudioUnitDescriptor_new)]
       handler"

definition cd_readStreamInputDescriptor ::
  "entity_id \<Rightarrow> configuration_index \<Rightarrow> descriptor_index
  \<Rightarrow> user_handler option \<Rightarrow> command"
where
  "cd_readStreamInputDescriptor targetEntityID configurationIndex streamIndex handler =
     aem_command targetEntityID AemCommandType_ReadDescriptor
       (serializeReadDescriptorCommand configurationIndex DescriptorType_StreamInput streamIndex)
       [P_U16 configurationIndex, P_U16 streamIndex, P_Descriptor (D_Stream StreamDescriptor_new)] handler"

definition cd_readStreamOutputDescriptor ::
  "entity_id \<Rightarrow> configuration_index \<Rightarrow> descriptor_index
  \<Rightarrow> user_handler option \<Rightarrow> command"
where
  "cd_readStreamOutputDescriptor targetEntityID configurationIndex streamIndex handler =
     aem_command targetEntityID AemCommandType_ReadDescriptor
       (serializeReadDescriptorCommand configurationIndex DescriptorType_StreamOutput streamIndex)
       [P_U16 configurationIndex, P_U16 streamIndex, P_Descriptor (D_Stream StreamDescriptor_new)] handler"

definition cd_readJackInputDescriptor ::
  "entity_id \<Rightarrow> configuration_index \<Rightarrow> descriptor_index
  \<Rightarrow> user_handler option \<Rightarrow> command"
where
  "cd_readJackInputDescriptor targetEntityID configurationIndex jackIndex handler =
     aem_command targetEntityID AemCommandType_ReadDescriptor
       (serializeReadDescriptorCommand configurationIndex DescriptorType_JackInput jackIndex)
       [P_U16 configurationIndex, P_U16 jackIndex, P_Descriptor (D_Jack JackDescriptor_new)] handler"

definition cd_readJackOutputDescriptor ::
  "entity_id \<Rightarrow> configuration_index \<Rightarrow> descriptor_index
  \<Rightarrow> user_handler option \<Rightarrow> command"
where
  "cd_readJackOutputDescriptor targetEntityID configurationIndex jackIndex handler =
     aem_command targetEntityID AemCommandType_ReadDescriptor
       (serializeReadDescriptorCommand configurationIndex DescriptorType_JackOutput jackIndex)
       [P_U16 configurationIndex, P_U16 jackIndex, P_Descriptor (D_Jack JackDescriptor_new)] handler"

definition cd_readAvbInterfaceDescriptor ::
  "entity_id \<Rightarrow> configuration_index \<Rightarrow> descriptor_index
  \<Rightarrow> user_handler option \<Rightarrow> command"
where
  "cd_readAvbInterfaceDescriptor targetEntityID configurationIndex avbInterfaceIndex handler =
     aem_command targetEntityID AemCommandType_ReadDescriptor
       (serializeReadDescriptorCommand configurationIndex DescriptorType_AvbInterface avbInterfaceIndex)
       [P_U16 configurationIndex, P_U16 avbInterfaceIndex, P_Descriptor (D_AvbInterface AvbInterfaceDescriptor_new)]
       handler"

definition cd_readClockSourceDescriptor ::
  "entity_id \<Rightarrow> configuration_index \<Rightarrow> descriptor_index
  \<Rightarrow> user_handler option \<Rightarrow> command"
where
  "cd_readClockSourceDescriptor targetEntityID configurationIndex clockSourceIndex handler =
     aem_command targetEntityID AemCommandType_ReadDescriptor
       (serializeReadDescriptorCommand configurationIndex DescriptorType_ClockSource clockSourceIndex)
       [P_U16 configurationIndex, P_U16 clockSourceIndex, P_Descriptor (D_ClockSource ClockSourceDescriptor_new)]
       handler"

definition cd_readMemoryObjectDescriptor ::
  "entity_id \<Rightarrow> configuration_index \<Rightarrow> descriptor_index
  \<Rightarrow> user_handler option \<Rightarrow> command"
where
  "cd_readMemoryObjectDescriptor targetEntityID configurationIndex memoryObjectIndex handler =
     aem_command targetEntityID AemCommandType_ReadDescriptor
       (serializeReadDescriptorCommand configurationIndex DescriptorType_MemoryObject memoryObjectIndex)
       [P_U16 configurationIndex, P_U16 memoryObjectIndex, P_Descriptor (D_MemoryObject MemoryObjectDescriptor_new)]
       handler"

definition cd_readLocaleDescriptor ::
  "entity_id \<Rightarrow> configuration_index \<Rightarrow> descriptor_index
  \<Rightarrow> user_handler option \<Rightarrow> command"
where
  "cd_readLocaleDescriptor targetEntityID configurationIndex localeIndex handler =
     aem_command targetEntityID AemCommandType_ReadDescriptor
       (serializeReadDescriptorCommand configurationIndex DescriptorType_Locale localeIndex)
       [P_U16 configurationIndex, P_U16 localeIndex, P_Descriptor (D_Locale LocaleDescriptor_new)] handler"

definition cd_readStringsDescriptor ::
  "entity_id \<Rightarrow> configuration_index \<Rightarrow> descriptor_index
  \<Rightarrow> user_handler option \<Rightarrow> command"
where
  "cd_readStringsDescriptor targetEntityID configurationIndex stringsIndex handler =
     aem_command targetEntityID AemCommandType_ReadDescriptor
       (serializeReadDescriptorCommand configurationIndex DescriptorType_Strings stringsIndex)
       [P_U16 configurationIndex, P_U16 stringsIndex, P_Descriptor (D_Strings StringsDescriptor_new)]
       handler"

definition cd_readStreamPortInputDescriptor ::
  "entity_id \<Rightarrow> configuration_index \<Rightarrow> descriptor_index
  \<Rightarrow> user_handler option \<Rightarrow> command"
where
  "cd_readStreamPortInputDescriptor targetEntityID configurationIndex streamPortIndex handler =
     aem_command targetEntityID AemCommandType_ReadDescriptor
       (serializeReadDescriptorCommand configurationIndex DescriptorType_StreamPortInput streamPortIndex)
       [P_U16 configurationIndex, P_U16 streamPortIndex, P_Descriptor (D_StreamPort StreamPortDescriptor_new)]
       handler"

definition cd_readStreamPortOutputDescriptor ::
  "entity_id \<Rightarrow> configuration_index \<Rightarrow> descriptor_index
  \<Rightarrow> user_handler option \<Rightarrow> command"
where
  "cd_readStreamPortOutputDescriptor targetEntityID configurationIndex streamPortIndex handler =
     aem_command targetEntityID AemCommandType_ReadDescriptor
       (serializeReadDescriptorCommand configurationIndex DescriptorType_StreamPortOutput streamPortIndex)
       [P_U16 configurationIndex, P_U16 streamPortIndex, P_Descriptor (D_StreamPort StreamPortDescriptor_new)]
       handler"

definition cd_readExternalPortInputDescriptor ::
  "entity_id \<Rightarrow> configuration_index \<Rightarrow> descriptor_index
  \<Rightarrow> user_handler option \<Rightarrow> command"
where
  "cd_readExternalPortInputDescriptor targetEntityID configurationIndex externalPortIndex handler =
     aem_command targetEntityID AemCommandType_ReadDescriptor
       (serializeReadDescriptorCommand configurationIndex DescriptorType_ExternalPortInput externalPortIndex)
       [P_U16 configurationIndex, P_U16 externalPortIndex, P_Descriptor (D_ExternalPort ExternalPortDescriptor_new)]
       handler"

definition cd_readExternalPortOutputDescriptor ::
  "entity_id \<Rightarrow> configuration_index \<Rightarrow> descriptor_index
  \<Rightarrow> user_handler option \<Rightarrow> command"
where
  "cd_readExternalPortOutputDescriptor targetEntityID configurationIndex externalPortIndex handler =
     aem_command targetEntityID AemCommandType_ReadDescriptor
       (serializeReadDescriptorCommand configurationIndex DescriptorType_ExternalPortOutput externalPortIndex)
       [P_U16 configurationIndex, P_U16 externalPortIndex, P_Descriptor (D_ExternalPort ExternalPortDescriptor_new)]
       handler"

definition cd_readInternalPortInputDescriptor ::
  "entity_id \<Rightarrow> configuration_index \<Rightarrow> descriptor_index
  \<Rightarrow> user_handler option \<Rightarrow> command"
where
  "cd_readInternalPortInputDescriptor targetEntityID configurationIndex internalPortIndex handler =
     aem_command targetEntityID AemCommandType_ReadDescriptor
       (serializeReadDescriptorCommand configurationIndex DescriptorType_InternalPortInput internalPortIndex)
       [P_U16 configurationIndex, P_U16 internalPortIndex, P_Descriptor (D_InternalPort InternalPortDescriptor_new)]
       handler"

definition cd_readInternalPortOutputDescriptor ::
  "entity_id \<Rightarrow> configuration_index \<Rightarrow> descriptor_index
  \<Rightarrow> user_handler option \<Rightarrow> command"
where
  "cd_readInternalPortOutputDescriptor targetEntityID configurationIndex internalPortIndex handler =
     aem_command targetEntityID AemCommandType_ReadDescriptor
       (serializeReadDescriptorCommand configurationIndex DescriptorType_InternalPortOutput internalPortIndex)
       [P_U16 configurationIndex, P_U16 internalPortIndex, P_Descriptor (D_InternalPort InternalPortDescriptor_new)]
       handler"

definition cd_readAudioClusterDescriptor ::
  "entity_id \<Rightarrow> configuration_index \<Rightarrow> descriptor_index
  \<Rightarrow> user_handler option \<Rightarrow> command"
where
  "cd_readAudioClusterDescriptor targetEntityID configurationIndex clusterIndex handler =
     aem_command targetEntityID AemCommandType_ReadDescriptor
       (serializeReadDescriptorCommand configurationIndex DescriptorType_AudioCluster clusterIndex)
       [P_U16 configurationIndex, P_U16 clusterIndex, P_Descriptor (D_AudioCluster AudioClusterDescriptor_new)]
       handler"

definition cd_readAudioMapDescriptor ::
  "entity_id \<Rightarrow> configuration_index \<Rightarrow> descriptor_index
  \<Rightarrow> user_handler option \<Rightarrow> command"
where
  "cd_readAudioMapDescriptor targetEntityID configurationIndex mapIndex handler =
     aem_command targetEntityID AemCommandType_ReadDescriptor
       (serializeReadDescriptorCommand configurationIndex DescriptorType_AudioMap mapIndex)
       [P_U16 configurationIndex, P_U16 mapIndex, P_Descriptor (D_AudioMap AudioMapDescriptor_new)]
       handler"

definition cd_readControlDescriptor ::
  "entity_id \<Rightarrow> configuration_index \<Rightarrow> descriptor_index
  \<Rightarrow> user_handler option \<Rightarrow> command"
where
  "cd_readControlDescriptor targetEntityID configurationIndex controlIndex handler =
     aem_command targetEntityID AemCommandType_ReadDescriptor
       (serializeReadDescriptorCommand configurationIndex DescriptorType_Control controlIndex)
       [P_U16 configurationIndex, P_U16 controlIndex, P_Descriptor (D_Control ControlDescriptor_new)]
       handler"

definition cd_readClockDomainDescriptor ::
  "entity_id \<Rightarrow> configuration_index \<Rightarrow> descriptor_index
  \<Rightarrow> user_handler option \<Rightarrow> command"
where
  "cd_readClockDomainDescriptor targetEntityID configurationIndex clockDomainIndex handler =
     aem_command targetEntityID AemCommandType_ReadDescriptor
       (serializeReadDescriptorCommand configurationIndex DescriptorType_ClockDomain clockDomainIndex)
       [P_U16 configurationIndex, P_U16 clockDomainIndex, P_Descriptor (D_ClockDomain ClockDomainDescriptor_new)]
       handler"

definition cd_readTimingDescriptor ::
  "entity_id \<Rightarrow> configuration_index \<Rightarrow> descriptor_index
  \<Rightarrow> user_handler option \<Rightarrow> command"
where
  "cd_readTimingDescriptor targetEntityID configurationIndex timingIndex handler =
     aem_command targetEntityID AemCommandType_ReadDescriptor
       (serializeReadDescriptorCommand configurationIndex DescriptorType_Timing timingIndex)
       [P_U16 configurationIndex, P_U16 timingIndex, P_Descriptor (D_Timing TimingDescriptor_new)] handler"

definition cd_readPtpInstanceDescriptor ::
  "entity_id \<Rightarrow> configuration_index \<Rightarrow> descriptor_index
  \<Rightarrow> user_handler option \<Rightarrow> command"
where
  "cd_readPtpInstanceDescriptor targetEntityID configurationIndex ptpInstanceIndex handler =
     aem_command targetEntityID AemCommandType_ReadDescriptor
       (serializeReadDescriptorCommand configurationIndex DescriptorType_PtpInstance ptpInstanceIndex)
       [P_U16 configurationIndex, P_U16 ptpInstanceIndex, P_Descriptor (D_PtpInstance PtpInstanceDescriptor_new)]
       handler"

definition cd_readPtpPortDescriptor ::
  "entity_id \<Rightarrow> configuration_index \<Rightarrow> descriptor_index
  \<Rightarrow> user_handler option \<Rightarrow> command"
where
  "cd_readPtpPortDescriptor targetEntityID configurationIndex ptpPortIndex handler =
     aem_command targetEntityID AemCommandType_ReadDescriptor
       (serializeReadDescriptorCommand configurationIndex DescriptorType_PtpPort ptpPortIndex)
       [P_U16 configurationIndex, P_U16 ptpPortIndex, P_Descriptor (D_PtpPort PtpPortDescriptor_new)]
       handler"

section \<open>Configuration, formats and mappings\<close>

definition setConfiguration ::
  "entity_id \<Rightarrow> configuration_index \<Rightarrow> user_handler option \<Rightarrow> command"
where
  "setConfiguration targetEntityID configurationIndex handler =
     aem_command targetEntityID AemCommandType_SetConfiguration
       (serializeSetConfigurationCommand configurationIndex) [P_U16 configurationIndex] handler"

definition getConfiguration :: "entity_id \<Rightarrow> user_handler option \<Rightarrow> command" where
  "getConfiguration targetEntityID handler =
     aem_command targetEntityID AemCommandType_GetConfiguration (Some []) [P_U16 0] handler"

definition setStreamInputFormat ::
  "entity_id \<Rightarrow> descriptor_index \<Rightarrow> stream_format
  \<Rightarrow> user_handler option \<Rightarrow> command"
where
  "setStreamInputFormat targetEntityID streamIndex format handler =
     aem_command targetEntityID AemCommandType_SetStreamFormat
       (serializeSetStreamFormatCommand DescriptorType_StreamInput streamIndex format)
       [P_U16 streamIndex, P_StreamFormat 0] handler"

definition getStreamInputFormat ::
  "entity_id \<Rightarrow> descriptor_index \<Rightarrow> user_handler option \<Rightarrow> command"
where
  "getStreamInputFormat targetEntityID streamIndex handler =
     aem_command targetEntityID AemCommandType_GetStreamFormat
       (serializeGetStreamFormatCommand DescriptorType_StreamInput streamIndex)
       [P_U16 streamIndex, P_StreamFormat 0] handler"

definition setStreamOutputFormat ::
  "entity_id \<Rightarrow> descriptor_index \<Rightarrow> stream_format
  \<Rightarrow> user_handler option \<Rightarrow> command"
where
  "setStreamOutputFormat targetEntityID streamIndex format handler =
     aem_command targetEntityID AemCommandType_SetStreamFormat
       (serializeSetStreamFormatCommand DescriptorType_StreamOutput streamIndex format)
       [P_U16 streamIndex, P_StreamFormat 0] handler"

definition getStreamOutputFormat ::
  "entity_id \<Rightarrow> descriptor_index \<Rightarrow> user_handler option \<Rightarrow> command"
where
  "getStreamOutputFormat targetEntityID streamIndex handler =
     aem_command targetEntityID AemCommandType_GetStreamFormat
       (serializeGetStreamFormatCommand DescriptorType_StreamOutput streamIndex)
       [P_U16 streamIndex, P_StreamFormat 0] handler"

definition getStreamPortInputAudioMap ::
  "entity_id \<Rightarrow> descriptor_index \<Rightarrow> descriptor_index
  \<Rightarrow> user_handler option \<Rightarrow> command"
where
  "getStreamPortInputAudioMap targetEntityID streamPortIndex mapIndex handler =
     aem_command targetEntityID AemCommandType_GetAudioMap
       (serializeGetAudioMapCommand DescriptorType_StreamPortInput streamPortIndex mapIndex)
       [P_U16 streamPortIndex, P_U16 0, P_U16 mapIndex, P_AudioMappings []] handler"

definition getStreamPortOutputAudioMap ::
  "entity_id \<Rightarrow> descriptor_index \<Rightarrow> descriptor_index
  \<Rightarrow> user_handler option \<Rightarrow> command"
where
  "getStreamPortOutputAudioMap targetEntityID streamPortIndex mapIndex handler =
     aem_command targetEntityID AemCommandType_GetAudioMap
       (serializeGetAudioMapCommand DescriptorType_StreamPortOutput streamPortIndex mapIndex)
       [P_U16 streamPortIndex, P_U16 0, P_U16 mapIndex, P_AudioMappings []] handler"

definition addStreamPortInputAudioMappings ::
  "entity_id \<Rightarrow> descriptor_index \<Rightarrow> audio_mapping list
  \<Rightarrow> user_handler option \<Rightarrow> command"
where
  "addStreamPortInputAudioMappings targetEntityID streamPortIndex mappings handler cc =
     aem_command targetEntityID AemCommandType_AddAudioMappings
       (serializeAddAudioMappingsCommand (cc_build cc) DescriptorType_StreamPortInput streamPortIndex mappings)
       [P_U16 streamPortIndex, P_AudioMappings []] handler cc"

definition addStreamPortOutputAudioMappings ::
  "entity_id \<Rightarrow> descriptor_index \<Rightarrow> audio_mapping list
  \<Rightarrow> user_handler option \<Rightarrow> command"
where
  "addStreamPortOutputAudioMappings targetEntityID streamPortIndex mappings handler cc =
     aem_command targetEntityID AemCommandType_AddAudioMappings
       (serializeAddAudioMappingsCommand (cc_build cc) DescriptorType_StreamPortOutput streamPortIndex mappings)
       [P_U16 streamPortIndex, P_AudioMappings []] handler cc"

definition removeStreamPortInputAudioMappings ::
  "entity_id \<Rightarrow> descriptor_index \<Rightarrow> audio_mapping list
  \<Rightarrow> user_handler option \<Rightarrow> command"
where
  "removeStreamPortInputAudioMappings targetEntityID streamPortIndex mappings handler cc =
     aem_command targetEntityID AemCommandType_RemoveAudioMappings
       (serializeRemoveAudioMappingsCommand (cc_build cc) DescriptorType_StreamPortInput streamPortIndex mappings)
       [P_U16 streamPortIndex, P_AudioMappings []] handler cc"

definition removeStreamPortOutputAudioMappings ::
  "entity_id \<Rightarrow> descriptor_index \<Rightarrow> audio_mapping list
  \<Rightarrow> user_handler option \<Rightarrow> command"
where
  "removeStreamPortOutputAudioMappings targetEntityID streamPortIndex mappings handler cc =
     aem_command targetEntityID AemCommandType_RemoveAudioMappings
       (serializeRemoveAudioMappingsCommand (cc_build cc) DescriptorType_StreamPortOutput streamPortIndex mappings)
       [P_U16 streamPortIndex, P_AudioMappings []] handler cc"

definition setStreamInputInfo ::
  "entity_id \<Rightarrow> descriptor_index \<Rightarrow> stream_info \<Rightarrow> user_handler option
  \<Rightarrow> command"
where
  "setStreamInputInfo targetEntityID streamIndex info handler =
     aem_command targetEntityID AemCommandType_SetStreamInfo
       (serializeSetStreamInfoCommand DescriptorType_StreamInput streamIndex info)
       [P_U16 streamIndex, P_StreamInfo StreamInfo_empty] handler"

definition setStreamOutputInfo ::
  "entity_id \<Rightarrow> descriptor_index \<Rightarrow> stream_info \<Rightarrow> user_handler option
  \<Rightarrow> command"
where
  "setStreamOutputInfo targetEntityID streamIndex info handler =
     aem_command targetEntityID AemCommandType_SetStreamInfo
       (serializeSetStreamInfoCommand DescriptorType_StreamOutput streamIndex info)
       [P_U16 streamIndex, P_StreamInfo StreamInfo_empty] handler"

definition getStreamInputInfo ::
  "entity_id \<Rightarrow> descriptor_index \<Rightarrow> user_handler option \<Rightarrow> command"
where
  "getStreamInputInfo targetEntityID streamIndex handler =
     aem_command targetEntityID AemCommandType_GetStreamInfo
       (serializeGetStreamInfoCommand DescriptorType_StreamInput streamIndex)
       [P_U16 streamIndex, P_StreamInfo StreamInfo_empty] handler"

definition getStreamOutputInfo ::
  "entity_id \<Rightarrow> descriptor_index \<Rightarrow> user_handler option \<Rightarrow> command"
where
  "getStreamOutputInfo targetEntityID streamIndex handler =
     aem_command targetEntityID AemCommandType_GetStreamInfo
       (serializeGetStreamInfoCommand DescriptorType_StreamOutput streamIndex)
       [P_U16 streamIndex, P_StreamInfo StreamInfo_empty] handler"

section \<open>Names\<close>

definition setEntityName ::
  "entity_id \<Rightarrow> fixed_string \<Rightarrow> user_handler option \<Rightarrow> command"
where
  "setEntityName targetEntityID entityName handler =
     aem_command targetEntityID AemCommandType_SetName
       (serializeSetNameCommand DescriptorType_Entity 0 0 0 entityName) [P_FixedString 0] handler"

definition getEntityName :: "entity_id \<Rightarrow> user_handler option \<Rightarrow> command" where
  "getEntityName targetEntityID handler =
     aem_command targetEntityID AemCommandType_GetName
       (serializeGetNameCommand DescriptorType_Entity 0 0 0) [P_FixedString 0] handler"

definition setEntityGroupName ::
  "entity_id \<Rightarrow> fixed_string \<Rightarrow> user_handler option \<Rightarrow> command"
where
  "setEntityGroupName targetEntityID entityGroupName handler =
     aem_command targetEntityID AemCommandType_SetName
       (serializeSetNameCommand DescriptorType_Entity 0 1 0 entityGroupName) [P_FixedString 0] handler"

definition getEntityGroupName :: "entity_id \<Rightarrow> user_handler option \<Rightarrow> command" where
  "getEntityGroupName targetEntityID handler =
     aem_command targetEntityID AemCommandType_GetName
       (serializeGetNameCommand DescriptorType_Entity 0 1 0) [P_FixedString 0] handler"

definition setConfigurationName ::
  "entity_id \<Rightarrow> configuration_index \<Rightarrow> fixed_string
  \<Rightarrow> user_handler option \<Rightarrow> command"
where
  "setConfigurationName targetEntityID configurationIndex configurationName handler =
     aem_command targetEntityID AemCommandType_SetName
       (serializeSetNameCommand DescriptorType_Configuration configurationIndex 0 0 configurationName)
       [P_U16 configurationIndex, P_FixedString 0] handler"

definition getConfigurationName ::
  "entity_id \<Rightarrow> configuration_index \<Rightarrow> user_handler option \<Rightarrow> command"
where
  "getConfigurationName targetEntityID configurationIndex handler =
     aem_command targetEntityID AemCommandType_GetName
       (serializeGetNameCommand DescriptorType_Configuration configurationIndex 0 0)
       [P_U16 configurationIndex, P_FixedString 0] handler"

definition setAudioUnitName ::
  "entity_id \<Rightarrow> configuration_index \<Rightarrow> descriptor_index \<Rightarrow> fixed_string
  \<Rightarrow> user_handler option \<Rightarrow> command"
where
  "setAudioUnitName targetEntityID configurationIndex audioUnitIndex audioUnitName handler =
     aem_command targetEntityID AemCommandType_SetName
       (serializeSetNameCommand DescriptorType_AudioUnit audioUnitIndex 0 configurationIndex audioUnitName)
       [P_U16 configurationIndex, P_U16 audioUnitIndex, P_FixedString 0] handler"

definition getAudioUnitName ::
  "entity_id \<Rightarrow> configuration_index \<Rightarrow> descriptor_index
  \<Rightarrow> user_handler option \<Rightarrow> command"
where
  "getAudioUnitName targetEntityID configurationIndex audioUnitIndex handler =
     aem_command targetEntityID AemCommandType_GetName
       (serializeGetNameCommand DescriptorType_AudioUnit audioUnitIndex 0 configurationIndex)
       [P_U16 configurationIndex, P_U16 audioUnitIndex, P_FixedString 0] handler"

definition setStreamInputName ::
  "entity_id \<Rightarrow> configuration_index \<Rightarrow> descriptor_index \<Rightarrow> fixed_string
  \<Rightarrow> user_handler option \<Rightarrow> command"
where
  "setStreamInputName targetEntityID configurationIndex streamIndex streamInputName handler =
     aem_command targetEntityID AemCommandType_SetName
       (serializeSetNameCommand DescriptorType_StreamInput streamIndex 0 configurationIndex streamInputName)
       [P_U16 configurationIndex, P_U16 streamIndex, P_FixedString 0] handler"

definition getStreamInputName ::
  "entity_id \<Rightarrow> configuration_index \<Rightarrow> descriptor_index
  \<Rightarrow> user_handler option \<Rightarrow> command"
where
  "getStreamInputName targetEntityID configurationIndex streamIndex handler =
     aem_command targetEntityID AemCommandType_GetName
       (serializeGetNameCommand DescriptorType_StreamInput streamIndex 0 configurationIndex)
       [P_U16 configurationIndex, P_U16 streamIndex, P_FixedString 0] handler"

definition setStreamOutputName ::
  "entity_id \<Rightarrow> configuration_index \<Rightarrow> descriptor_index \<Rightarrow> fixed_string
  \<Rightarrow> user_handler option \<Rightarrow> command"
where
  "setStreamOutputName targetEntityID configurationIndex streamIndex streamOutputName handler =
     aem_command targetEntityID AemCommandType_SetName
       (serializeSetNameCommand DescriptorType_StreamOutput streamIndex 0 configurationIndex streamOutputName)
       [P_U16 configurationIndex, P_U16 streamIndex, P_FixedString 0] handler"

definition getStreamOutputName ::
  "entity_id \<Rightarrow> configuration_index \<Rightarrow> descriptor_index
  \<Rightarrow> user_handler option \<Rightarrow> command"
where
  "getStreamOutputName targetEntityID configurationIndex streamIndex handler =
     aem_command targetEntityID AemCommandType_GetName
       (serializeGetNameCommand DescriptorType_StreamOutput streamIndex 0 configurationIndex)
       [P_U16 configurationIndex, P_U16 streamIndex, P_FixedString 0] handler"

definition setJackInputName ::
  "entity_id \<Rightarrow> configuration_index \<Rightarrow> descriptor_index \<Rightarrow> fixed_string
  \<Rightarrow> user_handler option \<Rightarrow> command"
where
  "setJackInputName targetEntityID configurationIndex jackIndex jackInputName handler =
     aem_command targetEntityID AemCommandType_SetName
       (serializeSetNameCommand DescriptorType_JackInput jackIndex 0 configurationIndex jackInputName)
       [P_U16 configurationIndex, P_U16 jackIndex, P_FixedString 0] handler"

definition getJackInputName ::
  "entity_id \<Rightarrow> configuration_index \<Rightarrow> descriptor_index
  \<Rightarrow> user_handler option \<Rightarrow> command"
where
  "getJackInputName targetEntityID configurationIndex jackIndex handler =
     aem_command targetEntityID AemCommandType_GetName
       (serializeGetNameCommand DescriptorType_JackInput jackIndex 0 configurationIndex)
       [P_U16 configurationIndex, P_U16 jackIndex, P_FixedString 0] handler"

definition setJackOutputName ::
  "entity_id \<Rightarrow> configuration_index \<Rightarrow> descriptor_index \<Rightarrow> fixed_string
  \<Rightarrow> user_handler option \<Rightarrow> command"
where
  "setJackOutputName targetEntityID configurationIndex jackIndex jackOutputName handler =
     aem_command targetEntityID AemCommandType_SetName
       (serializeSetNameCommand DescriptorType_JackOutput jackIndex 0 configurationIndex jackOutputName)
       [P_U16 configurationIndex, P_U16 jackIndex, P_FixedString 0] handler"

definition getJackOutputName ::
  "entity_id \<Rightarrow> configuration_index \<Rightarrow> descriptor_index
  \<Rightarrow> user_handler option \<Rightarrow> command"
where
  "getJackOutputName targetEntityID configurationIndex jackIndex handler =
     aem_command targetEntityID AemCommandType_GetName
       (serializeGetNameCommand DescriptorType_JackOutput jackIndex 0 configurationIndex)
       [P_U16 configurationIndex, P_U16 jackIndex, P_FixedString 0] handler"

definition setAvbInterfaceName ::
  "entity_id \<Rightarrow> configuration_index \<Rightarrow> descriptor_index \<Rightarrow> fixed_string
  \<Rightarrow> user_handler option \<Rightarrow> command"
where
  "setAvbInterfaceName targetEntityID configurationIndex avbInterfaceIndex avbInterfaceName handler =
     aem_command targetEntityID AemCommandType_SetName
       (serializeSetNameCommand DescriptorType_AvbInterface avbInterfaceIndex 0 configurationIndex avbInterfaceName)
       [P_U16 configurationIndex, P_U16 avbInterfaceIndex, P_FixedString 0] handler"

definition getAvbInterfaceName ::
  "entity_id \<Rightarrow> configuration_index \<Rightarrow> descriptor_index
  \<Rightarrow> user_handler option \<Rightarrow> command"
where
  "getAvbInterfaceName targetEntityID configurationIndex avbInterfaceIndex handler =
     aem_command targetEntityID AemCommandType_GetName
       (serializeGetNameCommand DescriptorType_AvbInterface avbInterfaceIndex 0 configurationIndex)
       [P_U16 configurationIndex, P_U16 avbInterfaceIndex, P_FixedString 0] handler"

definition setClockSourceName ::
  "entity_id \<Rightarrow> configuration_index \<Rightarrow> descriptor_index \<Rightarrow> fixed_string
  \<Rightarrow> user_handler option \<Rightarrow> command"
where
  "setClockSourceName targetEntityID configurationIndex clockSourceIndex clockSourceName handler =
     aem_command targetEntityID AemCommandType_SetName
       (serializeSetNameCommand DescriptorType_ClockSource clockSourceIndex 0 configurationIndex clockSourceName)
       [P_U16 configurationIndex, P_U16 clockSourceIndex, P_FixedString 0] handler"

definition getClockSourceName ::
  "entity_id \<Rightarrow> configuration_index \<Rightarrow> descriptor_index
  \<Rightarrow> user_handler option \<Rightarrow> command"
where
  "getClockSourceName targetEntityID configurationIndex clockSourceIndex handler =
     aem_command targetEntityID AemCommandType_GetName
       (serializeGetNameCommand DescriptorType_ClockSource clockSourceIndex 0 configurationIndex)
       [P_U16 configurationIndex, P_U16 clockSourceIndex, P_FixedString 0] handler"

definition setMemoryObjectName ::
  "entity_id \<Rightarrow> configuration_index \<Rightarrow> descriptor_index \<Rightarrow> fixed_string
  \<Rightarrow> user_handler option \<Rightarrow> command"
where
  "setMemoryObjectName targetEntityID configurationIndex memoryObjectIndex memoryObjectName handler =
     aem_command targetEntityID AemCommandType_SetName
       (serializeSetNameCommand DescriptorType_MemoryObject memoryObjectIndex 0 configurationIndex memoryObjectName)
       [P_U16 configurationIndex, P_U16 memoryObjectIndex, P_FixedString 0] handler"

definition getMemoryObjectName ::
  "entity_id \<Rightarrow> configuration_index \<Rightarrow> descriptor_index
  \<Rightarrow> user_handler option \<Rightarrow> command"
where
  "getMemoryObjectName targetEntityID configurationIndex memoryObjectIndex handler =
     aem_command targetEntityID AemCommandType_GetName
       (serializeGetNameCommand DescriptorType_MemoryObject memoryObjectIndex 0 configurationIndex)
       [P_U16 configurationIndex, P_U16 memoryObjectIndex, P_FixedString 0] handler"

definition setAudioClusterName ::
  "entity_id \<Rightarrow> configuration_index \<Rightarrow> descriptor_index \<Rightarrow> fixed_string
  \<Rightarrow> user_handler option \<Rightarrow> command"
where
  "setAudioClusterName targetEntityID configurationIndex audioClusterIndex audioClusterName handler =
     aem_command targetEntityID AemCommandType_SetName
       (serializeSetNameCommand DescriptorType_AudioCluster audioClusterIndex 0 configurationIndex audioClusterName)
       [P_U16 configurationIndex, P_U16 audioClusterIndex, P_FixedString 0] handler"

definition getAudioClusterName ::
  "entity_id \<Rightarrow> configuration_index \<Rightarrow> descriptor_index
  \<Rightarrow> user_handler option \<Rightarrow> command"
where
  "getAudioClusterName targetEntityID configurationIndex audioClusterIndex handler =
     aem_command targetEntityID AemCommandType_GetName
       (serializeGetNameCommand DescriptorType_AudioCluster audioClusterIndex 0 configurationIndex)
       [P_U16 configurationIndex, P_U16 audioClusterIndex, P_FixedString 0] handler"

definition setControlName ::
  "entity_id \<Rightarrow> configuration_index \<Rightarrow> descriptor_index \<Rightarrow> fixed_string
  \<Rightarrow> user_handler option \<Rightarrow> command"
where
  "setControlName targetEntityID configurationIndex controlIndex controlName handler =
     aem_command targetEntityID AemCommandType_SetName
       (serializeSetNameCommand DescriptorType_Control controlIndex 0 configurationIndex controlName)
       [P_U16 configurationIndex, P_U16 controlIndex, P_FixedString 0] handler"

definition getControlName ::
  "entity_id \<Rightarrow> configuration_index \<Rightarrow> descriptor_index
  \<Rightarrow> user_handler option \<Rightarrow> command"
where
  "getControlName targetEntityID configurationIndex controlIndex handler =
     aem_command targetEntityID AemCommandType_GetName
       (serializeGetNameCommand DescriptorType_Control controlIndex 0 configurationIndex)
       [P_U16 configurationIndex, P_U16 controlIndex, P_FixedString 0] handler"

definition setClockDomainName ::
  "entity_id \<Rightarrow> configuration_index \<Rightarrow> descriptor_index \<Rightarrow> fixed_string
  \<Rightarrow> user_handler option \<Rightarrow> command"
where
  "setClockDomainName targetEntityID configurationIndex clockDomainIndex clockDomainName handler =
     aem_command targetEntityID AemCommandType_SetName
       (serializeSetNameCommand DescriptorType_ClockDomain clockDomainIndex 0 configurationIndex clockDomainName)
       [P_U16 configurationIndex, P_U16 clockDomainIndex, P_FixedString 0] handler"

definition getClockDomainName ::
  "entity_id \<Rightarrow> configuration_index \<Rightarrow> descriptor_index
  \<Rightarrow> user_handler option \<Rightarrow> command"
where
  "getClockDomainName targetEntityID configurationIndex clockDomainIndex handler =
     aem_command targetEntityID AemCommandType_GetName
       (serializeGetNameCommand DescriptorType_ClockDomain clockDomainIndex 0 configurationIndex)
       [P_U16 configurationIndex, P_U16 clockDomainIndex, P_FixedString 0] handler"

definition setTimingName ::
  "entity_id \<Rightarrow> configuration_index \<Rightarrow> descriptor_index \<Rightarrow> fixed_string
  \<Rightarrow> user_handler option \<Rightarrow> command"
where
  "setTimingName targetEntityID configurationIndex timingIndex timingName handler =
     aem_command targetEntityID AemCommandType_SetName
       (serializeSetNameCommand DescriptorType_Timing timingIndex 0 configurationIndex timingName)
       [P_U16 configurationIndex, P_U16 timingIndex, P_FixedString 0] handler"

definition getTimingName ::
  "entity_id \<Rightarrow> configuration_index \<Rightarrow> descriptor_index
  \<Rightarrow> user_handler option \<Rightarrow> command"
where
  "getTimingName targetEntityID configurationIndex timingIndex handler =
     aem_command targetEntityID AemCommandType_GetName
       (serializeGetNameCommand DescriptorType_Timing timingIndex 0 configurationIndex)
       [P_U16 configurationIndex, P_U16 timingIndex, P_FixedString 0] handler"

definition setPtpInstanceName ::
  "entity_id \<Rightarrow> configuration_index \<Rightarrow> descriptor_index \<Rightarrow> fixed_string
  \<Rightarrow> user_handler option \<Rightarrow> command"
where
  "setPtpInstanceName targetEntityID configurationIndex ptpInstanceIndex ptpInstanceName handler =
     aem_command targetEntityID AemCommandType_SetName
       (serializeSetNameCommand DescriptorType_PtpInstance ptpInstanceIndex 0 configurationIndex ptpInstanceName)
       [P_U16 configurationIndex, P_U16 ptpInstanceIndex, P_FixedString 0] handler"

definition getPtpInstanceName ::
  "entity_id \<Rightarrow> configuration_index \<Rightarrow> descriptor_index
  \<Rightarrow> user_handler option \<Rightarrow> command"
where
  "getPtpInstanceName targetEntityID configurationIndex ptpInstanceIndex handler =
     aem_command targetEntityID AemCommandType_GetName
       (serializeGetNameCommand DescriptorType_PtpInstance ptpInstanceIndex 0 configurationIndex)
       [P_U16 configurationIndex, P_U16 ptpInstanceIndex, P_FixedString 0] handler"

definition setPtpPortName ::
  "entity_id \<Rightarrow> configuration_index \<Rightarrow> descriptor_index \<Rightarrow> fixed_string
  \<Rightarrow> user_handler option \<Rightarrow> command"
where
  "setPtpPortName targetEntityID configurationIndex ptpPortIndex ptpPortName handler =
     aem_command targetEntityID AemCommandType_SetName
       (serializeSetNameCommand DescriptorType_PtpPort ptpPortIndex 0 configurationIndex ptpPortName)
       [P_U16 configurationIndex, P_U16 ptpPortIndex, P_FixedString 0] handler"

definition getPtpPortName ::
  "entity_id \<Rightarrow> configuration_index \<Rightarrow> descriptor_index
  \<Rightarrow> user_handler option \<Rightarrow> command"
where
  "getPtpPortName targetEntityID configurationIndex ptpPortIndex handler =
     aem_command targetEntityID AemCommandType_GetName
       (serializeGetNameCommand DescriptorType_PtpPort ptpPortIndex 0 configurationIndex)
       [P_U16 configurationIndex, P_U16 ptpPortIndex, P_FixedString 0] handler"

section \<open>Sampling rates, clock sources and streaming\<close>

definition cd_setAssociationID ::
  "entity_id \<Rightarrow> uid \<Rightarrow> user_handler option \<Rightarrow> command"
where
  "cd_setAssociationID targetEntityID associationID handler =
     aem_command targetEntityID AemCommandType_SetAssociationID
       (serializeSetAssociationIDCommand associationID) [P_Uid uid_null] handler"

definition getAssociationID :: "entity_id \<Rightarrow> user_handler option \<Rightarrow> command" where
  "getAssociationID targetEntityID handler =
     aem_command targetEntityID AemCommandType_GetAssociationID (Some []) [P_Uid uid_null] handler"

definition setAudioUnitSamplingRate ::
  "entity_id \<Rightarrow> descriptor_index \<Rightarrow> sampling_rate
  \<Rightarrow> user_handler option \<Rightarrow> command"
where
  "setAudioUnitSamplingRate targetEntityID audioUnitIndex samplingRate handler =
     aem_command targetEntityID AemCommandType_SetSamplingRate
       (serializeSetSamplingRateCommand DescriptorType_AudioUnit audioUnitIndex samplingRate)
       [P_U16 audioUnitIndex, P_SamplingRate 0] handler"

definition getAudioUnitSamplingRate ::
  "entity_id \<Rightarrow> descriptor_index \<Rightarrow> user_handler option \<Rightarrow> command"
where
  "getAudioUnitSamplingRate targetEntityID audioUnitIndex handler =
     aem_command targetEntityID AemCommandType_GetSamplingRate
       (serializeGetSamplingRateCommand DescriptorType_AudioUnit audioUnitIndex)
       [P_U16 audioUnitIndex, P_SamplingRate 0] handler"

definition setVideoClusterSamplingRate ::
  "entity_id \<Rightarrow> descriptor_index \<Rightarrow> sampling_rate
  \<Rightarrow> user_handler option \<Rightarrow> command"
where
  "setVideoClusterSamplingRate targetEntityID videoClusterIndex samplingRate handler =
     aem_command targetEntityID AemCommandType_SetSamplingRate
       (serializeSetSamplingRateCommand DescriptorType_VideoCluster videoClusterIndex samplingRate)
       [P_U16 videoClusterIndex, P_SamplingRate 0] handler"

definition getVideoClusterSamplingRate ::
  "entity_id \<Rightarrow> descriptor_index \<Rightarrow> user_handler option \<Rightarrow> command"
where
  "getVideoClusterSamplingRate targetEntityID videoClusterIndex handler =
     aem_command targetEntityID AemCommandType_GetSamplingRate
       (serializeGetSamplingRateCommand DescriptorType_VideoCluster videoClusterIndex)
       [P_U16 videoClusterIndex, P_SamplingRate 0] handler"

definition setSensorClusterSamplingRate ::
  "entity_id \<Rightarrow> descriptor_index \<Rightarrow> sampling_rate
  \<Rightarrow> user_handler option \<Rightarrow> command"
where
  "setSensorClusterSamplingRate targetEntityID sensorClusterIndex samplingRate handler =
     aem_command targetEntityID AemCommandType_SetSamplingRate
       (serializeSetSamplingRateCommand DescriptorType_SensorCluster sensorClusterIndex samplingRate)
       [P_U16 sensorClusterIndex, P_SamplingRate 0] handler"

definition getSensorClusterSamplingRate ::
  "entity_id \<Rightarrow> descriptor_index \<Rightarrow> user_handler option \<Rightarrow> command"
where
  "getSensorClusterSamplingRate targetEntityID sensorClusterIndex handler =
     aem_command targetEntityID AemCommandType_GetSamplingRate
       (serializeGetSamplingRateCommand DescriptorType_SensorCluster sensorClusterIndex)
       [P_U16 sensorClusterIndex, P_SamplingRate 0] handler"

definition setClockSource ::
  "entity_id \<Rightarrow> descriptor_index \<Rightarrow> descriptor_index
  \<Rightarrow> user_handler option \<Rightarrow> command"
where
  "setClockSource targetEntityID clockDomainIndex clockSourceIndex handler =
     aem_command targetEntityID AemCommandType_SetClockSource
       (serializeSetClockSourceCommand DescriptorType_ClockDomain clockDomainIndex clockSourceIndex)
       [P_U16 clockDomainIndex, P_U16 0] handler"

definition getClockSource ::
  "entity_id \<Rightarrow> descriptor_index \<Rightarrow> user_handler option \<Rightarrow> command"
where
  "getClockSource targetEntityID clockDomainIndex handler =
     aem_command targetEntityID AemCommandType_GetClockSource
       (serializeGetClockSourceCommand DescriptorType_ClockDomain clockDomainIndex)
       [P_U16 clockDomainIndex, P_U16 0] handler"

definition getControlValues ::
  "entity_id \<Rightarrow> descriptor_index \<Rightarrow> user_handler option \<Rightarrow> command"
where
  "getControlValues targetEntityID controlIndex handler =
     aem_command targetEntityID AemCommandType_GetControl
       (serializeGetControlCommand DescriptorType_Control controlIndex)
       [P_U16 controlIndex, P_MemoryBuffer []] handler"

definition startStreamInput ::
  "entity_id \<Rightarrow> descriptor_index \<Rightarrow> user_handler option \<Rightarrow> command"
where
  "startStreamInput targetEntityID streamIndex handler =
     aem_command targetEntityID AemCommandType_StartStreaming
       (serializeStartStreamingCommand DescriptorType_StreamInput streamIndex) [P_U16 streamIndex] handler"

definition startStreamOutput ::
  "entity_id \<Rightarrow> descriptor_index \<Rightarrow> user_handler option \<Rightarrow> command"
where
  "startStreamOutput targetEntityID streamIndex handler =
     aem_command targetEntityID AemCommandType_StartStreaming
       (serializeStartStreamingCommand DescriptorType_StreamOutput streamIndex) [P_U16 streamIndex]
       handler"

definition stopStreamInput ::
  "entity_id \<Rightarrow> descriptor_index \<Rightarrow> user_handler option \<Rightarrow> command"
where
  "stopStreamInput targetEntityID streamIndex handler =
     aem_command targetEntityID AemCommandType_StopStreaming
       (serializeStopStreamingCommand DescriptorType_StreamInput streamIndex) [P_U16 streamIndex] handler"

definition stopStreamOutput ::
  "entity_id \<Rightarrow> descriptor_index \<Rightarrow> user_handler option \<Rightarrow> command"
where
  "stopStreamOutput targetEntityID streamIndex handler =
     aem_command targetEntityID AemCommandType_StopStreaming
       (serializeStopStreamingCommand DescriptorType_StreamOutput streamIndex) [P_U16 streamIndex] handler"

definition getAvbInfo ::
  "entity_id \<Rightarrow> descriptor_index \<Rightarrow> user_handler option \<Rightarrow> command"
where
  "getAvbInfo targetEntityID avbInterfaceIndex handler =
     aem_command targetEntityID AemCommandType_GetAvbInfo
       (serializeGetAvbInfoCommand DescriptorType_AvbInterface avbInterfaceIndex)
       [P_U16 avbInterfaceIndex, P_AvbInfo AvbInfo_empty] handler"

definition getAsPath ::
  "entity_id \<Rightarrow> descriptor_index \<Rightarrow> user_handler option \<Rightarrow> command"
where
  "getAsPath targetEntityID avbInterfaceIndex handler =
     aem_command targetEntityID AemCommandType_GetAsPath (serializeGetAsPathCommand avbInterfaceIndex)
       [P_U16 avbInterfaceIndex, P_AsPath []] handler"

definition getEntityCounters :: "entity_id \<Rightarrow> user_handler option \<Rightarrow> command" where
  "getEntityCounters targetEntityID handler =
     aem_command targetEntityID AemCommandType_GetCounters
       (serializeGetCountersCommand DescriptorType_Entity 0)
       [P_EntityCounterValidFlags 0, P_DescriptorCounters (replicate 32 0)] handler"

definition getAvbInterfaceCounters ::
  "entity_id \<Rightarrow> descriptor_index \<Rightarrow> user_handler option \<Rightarrow> command"
where
  "getAvbInterfaceCounters targetEntityID avbInterfaceIndex handler =
     aem_command targetEntityID AemCommandType_GetCounters
       (serializeGetCountersCommand DescriptorType_AvbInterface avbInterfaceIndex)
       [P_U16 avbInterfaceIndex, P_AvbInterfaceCounterValidFlags 0, P_DescriptorCounters (replicate 32 0)]
       handler"

definition getClockDomainCounters ::
  "entity_id \<Rightarrow> descriptor_index \<Rightarrow> user_handler option \<Rightarrow> command"
where
  "getClockDomainCounters targetEntityID clockDomainIndex handler =
     aem_command targetEntityID AemCommandType_GetCounters
       (serializeGetCountersCommand DescriptorType_ClockDomain clockDomainIndex)
       [P_U16 clockDomainIndex, P_ClockDomainCounterValidFlags 0, P_DescriptorCounters (replicate 32 0)]
       handler"

definition getStreamInputCounters ::
  "entity_id \<Rightarrow> descriptor_index \<Rightarrow> user_handler option \<Rightarrow> command"
where
  "getStreamInputCounters targetEntityID streamIndex handler =
     aem_command targetEntityID AemCommandType_GetCounters
       (serializeGetCountersCommand DescriptorType_StreamInput streamIndex)
       [P_U16 streamIndex, P_StreamInputCounterValidFlags 0, P_DescriptorCounters (replicate 32 0)]
       handler"

definition getStreamOutputCounters ::
  "entity_id \<Rightarrow> descriptor_index \<Rightarrow> user_handler option \<Rightarrow> command"
where
  "getStreamOutputCounters targetEntityID streamIndex handler =
     aem_command targetEntityID AemCommandType_GetCounters
       (serializeGetCountersCommand DescriptorType_StreamOutput streamIndex)
       [P_U16 streamIndex, P_StreamOutputCounterValidFlags 0, P_DescriptorCounters (replicate 32 0)]
       handler"

section \<open>Rebooting, operations and memory objects\<close>

definition reboot :: "entity_id \<Rightarrow> user_handler option \<Rightarrow> command" where
  "reboot targetEntityID handler =
     aem_command targetEntityID AemCommandType_Reboot (serializeRebootCommand DescriptorType_Entity 0) []
       handler"

definition rebootToFirmware ::
  "entity_id \<Rightarrow> descriptor_index \<Rightarrow> user_handler option \<Rightarrow> command"
where
  "rebootToFirmware targetEntityID memoryObjectIndex handler =
     aem_command targetEntityID AemCommandType_Reboot
       (serializeRebootCommand DescriptorType_MemoryObject memoryObjectIndex) [P_U16 memoryObjectIndex]
       handler"

definition startOperation ::
  "entity_id \<Rightarrow> descriptor_type \<Rightarrow> descriptor_index \<Rightarrow> 16 word
  \<Rightarrow> byte list \<Rightarrow> user_handler option \<Rightarrow> command"
where
  "startOperation targetEntityID descriptorType descriptorIndex operationType memoryBuffer handler cc =
     aem_command targetEntityID AemCommandType_StartOperation
       (serializeStartOperationCommand (cc_build cc) descriptorType descriptorIndex 0 operationType memoryBuffer)
       [P_DescriptorType descriptorType, P_U16 descriptorIndex, P_U16 0, P_OperationType operationType, P_MemoryBuffer []]
       handler cc"

definition abortOperation ::
  "entity_id \<Rightarrow> descriptor_type \<Rightarrow> descriptor_index \<Rightarrow> 16 word
  \<Rightarrow> user_handler option \<Rightarrow> command"
where
  "abortOperation targetEntityID descriptorType descriptorIndex operationID handler =
     aem_command targetEntityID AemCommandType_AbortOperation
       (serializeAbortOperationCommand descriptorType descriptorIndex operationID)
       [P_DescriptorType descriptorType, P_U16 descriptorIndex, P_U16 operationID] handler"

definition setMemoryObjectLength ::
  "entity_id \<Rightarrow> configuration_index \<Rightarrow> descriptor_index \<Rightarrow> 64 word
  \<Rightarrow> user_handler option \<Rightarrow> command"
where
  "setMemoryObjectLength targetEntityID configurationIndex memoryObjectIndex len handler =
     aem_command targetEntityID AemCommandType_SetMemoryObjectLength
       (serializeSetMemoryObjectLengthCommand configurationIndex memoryObjectIndex len)
       [P_U16 configurationIndex, P_U16 memoryObjectIndex, P_U64 0] handler"

definition getMemoryObjectLength ::
  "entity_id \<Rightarrow> configuration_index \<Rightarrow> descriptor_index
  \<Rightarrow> user_handler option \<Rightarrow> command"
where
  "getMemoryObjectLength targetEntityID configurationIndex memoryObjectIndex handler =
     aem_command targetEntityID AemCommandType_GetMemoryObjectLength
       (serializeGetMemoryObjectLengthCommand configurationIndex memoryObjectIndex)
       [P_U16 configurationIndex, P_U16 memoryObjectIndex, P_U64 0] handler"

definition setMaxTransitTime ::
  "entity_id \<Rightarrow> descriptor_index \<Rightarrow> 64 word \<Rightarrow> user_handler option
  \<Rightarrow> command"
where
  "setMaxTransitTime targetEntityID streamIndex maxTransitTime handler =
     aem_command targetEntityID AemCommandType_SetMaxTransitTime
       (serializeSetMaxTransitTimeCommand DescriptorType_StreamOutput streamIndex maxTransitTime)
       [P_U16 streamIndex, P_Nanoseconds 0] handler"

definition getMaxTransitTime ::
  "entity_id \<Rightarrow> descriptor_index \<Rightarrow> user_handler option \<Rightarrow> command"
where
  "getMaxTransitTime targetEntityID streamIndex handler =
     aem_command targetEntityID AemCommandType_GetMaxTransitTime
       (serializeGetMaxTransitTimeCommand DescriptorType_StreamOutput streamIndex)
       [P_U16 streamIndex, P_Nanoseconds 0] handler"

section \<open>Control values\<close>

definition setControlValues ::
  "entity_id \<Rightarrow> descriptor_index \<Rightarrow> control_values \<Rightarrow> user_handler option \<Rightarrow> command"
where
  "setControlValues targetEntityID controlIndex controlValues handler cc =
     aem_command targetEntityID AemCommandType_SetControl
       (case serializeSetControlCommand (cc_build cc) DescriptorType_Control controlIndex controlValues of
          Inl _ \<Rightarrow> None
        | Inr payload \<Rightarrow> Some payload)
       [P_U16 controlIndex, P_MemoryBuffer []] handler cc"

section \<open>GET_DYNAMIC_INFO\<close>

text \<open>
  \<^verbatim>\<open>std::any_cast\<close> of the arguments; a wrong number or a wrong type of them throws (None).
\<close>

definition any_descriptorType :: "param \<Rightarrow> descriptor_type option" where
  "any_descriptorType p = (case p of P_DescriptorType t \<Rightarrow> Some t | _ \<Rightarrow> None)"

definition any_u16 :: "param \<Rightarrow> 16 word option" where
  "any_u16 p = (case p of P_U16 i \<Rightarrow> Some i | _ \<Rightarrow> None)"

fun no_arguments :: "param list \<Rightarrow> byte list option" where
  "no_arguments [] = Some []"
| "no_arguments as = None"

fun object_arguments ::
  "(descriptor_type \<Rightarrow> descriptor_index \<Rightarrow> byte list option) \<Rightarrow> param list \<Rightarrow> byte list option"
where
  "object_arguments ser [t, i] =
     do { t \<leftarrow> any_descriptorType t; i \<leftarrow> any_u16 i; ser t i }"
| "object_arguments ser as = None"

fun index_arguments :: "(descriptor_index \<Rightarrow> byte list option) \<Rightarrow> param list \<Rightarrow> byte list option" where
  "index_arguments ser [i] = do { i \<leftarrow> any_u16 i; ser i }"
| "index_arguments ser as = None"

fun indexes_arguments ::
  "(configuration_index \<Rightarrow> descriptor_index \<Rightarrow> byte list option) \<Rightarrow> param list \<Rightarrow> byte list option"
where
  "indexes_arguments ser [c, i] = do { c \<leftarrow> any_u16 c; i \<leftarrow> any_u16 i; ser c i }"
| "indexes_arguments ser as = None"

fun name_arguments :: "param list \<Rightarrow> byte list option" where
  "name_arguments [c, t, i, n] = do {
     c \<leftarrow> any_u16 c;
     t \<leftarrow> any_descriptorType t;
     i \<leftarrow> any_u16 i;
     n \<leftarrow> any_u16 n;
     serializeGetNameCommand t i n c
   }"
| "name_arguments as = None"

definition dynamic_info_commands :: "(16 word \<times> (param list \<Rightarrow> byte list option)) list" where
  "dynamic_info_commands =
    [(AemCommandType_GetConfiguration, no_arguments),
     (AemCommandType_GetStreamFormat, object_arguments serializeGetStreamFormatCommand),
     (AemCommandType_GetStreamInfo, object_arguments serializeGetStreamInfoCommand),
     (AemCommandType_GetName, name_arguments),
     (AemCommandType_GetAssociationID, no_arguments),
     (AemCommandType_GetSamplingRate, object_arguments serializeGetSamplingRateCommand),
     (AemCommandType_GetClockSource, index_arguments (serializeGetClockSourceCommand DescriptorType_ClockDomain)),
     (AemCommandType_GetCounters, object_arguments serializeGetCountersCommand),
     (AemCommandType_GetMemoryObjectLength, indexes_arguments serializeGetMemoryObjectLengthCommand),
     (AemCommandType_GetMaxTransitTime, index_arguments (serializeGetMaxTransitTimeCommand DescriptorType_StreamOutput))]"

text \<open>An unhandled type of command ends like an exception, with one protocol error.\<close>

primrec dynamic_infos ::
  "(command_status \<times> 16 word \<times> param list) list \<Rightarrow> dynamic_info list option"
where
  "dynamic_infos [] = Some []"
| "dynamic_infos (p # ps) = do {
     ser \<leftarrow> map_of dynamic_info_commands (fst (snd p));
     payload \<leftarrow> ser (snd (snd p));
     infos \<leftarrow> dynamic_infos ps;
     Some (\<lparr>dy_status = 0, dy_type = fst (snd p), dy_buffer = payload\<rparr> # infos)
   }"

definition getDynamicInfo ::
  "entity_id \<Rightarrow> (command_status \<times> 16 word \<times> param list) list \<Rightarrow> user_handler option \<Rightarrow> command"
where
  "getDynamicInfo targetEntityID parameters handler cc =
     aem_command targetEntityID AemCommandType_GetDynamicInfo
       (Option.bind (dynamic_infos parameters) (serializeGetDynamicInfoCommand (cc_build cc)))
       [P_DynamicInfos []] handler cc"

section \<open>Address access\<close>

definition addressAccess :: "entity_id \<Rightarrow> tlv list \<Rightarrow> user_handler option \<Rightarrow> command" where
  "addressAccess targetEntityID tlvs handler =
     cd_sendAaAecpCommand targetEntityID tlvs (makeErrorHandler handler [P_Uid targetEntityID, P_Tlvs []])
       (AnswerCallback AaStatus [P_Uid targetEntityID, P_Tlvs []] handler)"

section \<open>Milan vendor unique\<close>

definition getMilanInfo :: "entity_id \<Rightarrow> user_handler option \<Rightarrow> command" where
  "getMilanInfo targetEntityID handler =
     mvu_command targetEntityID MvuCommandType_GetMilanInfo serializeGetMilanInfoCommand
       [P_MilanInfo MilanInfo_empty] handler"

definition setSystemUniqueID :: "entity_id \<Rightarrow> uid \<Rightarrow> fixed_string \<Rightarrow> user_handler option \<Rightarrow> command" where
  "setSystemUniqueID targetEntityID systemUniqueID systemName handler =
     mvu_command targetEntityID MvuCommandType_SetSystemUniqueID
       (serializeSetSystemUniqueIDCommand systemUniqueID systemName)
       [P_Uid uid_uninitialized, P_FixedString 0] handler"

definition getSystemUniqueID :: "entity_id \<Rightarrow> user_handler option \<Rightarrow> command" where
  "getSystemUniqueID targetEntityID handler =
     mvu_command targetEntityID MvuCommandType_GetSystemUniqueID serializeGetSystemUniqueIDCommand
       [P_Uid uid_uninitialized, P_FixedString 0] handler"

definition DefaultMediaClockReferencePriority_Default :: "8 word" where
  "DefaultMediaClockReferencePriority_Default = 128"

definition buildMediaClockReferenceInfoFlags :: "8 word option \<Rightarrow> fixed_string option \<Rightarrow> 8 word" where
  "buildMediaClockReferenceInfoFlags userPriority domainName =
     (if userPriority \<noteq> None then 1 else 0) OR (if domainName \<noteq> None then 2 else 0)"

definition setMediaClockReferenceInfo ::
  "entity_id \<Rightarrow> 16 word \<Rightarrow> 8 word option \<Rightarrow> fixed_string option \<Rightarrow> user_handler option \<Rightarrow> command"
where
  "setMediaClockReferenceInfo targetEntityID clockDomainIndex userPriority domainName handler =
     mvu_command targetEntityID MvuCommandType_SetMediaClockReferenceInfo
       (serializeSetMediaClockReferenceInfoCommand clockDomainIndex
          (buildMediaClockReferenceInfoFlags userPriority domainName)
          DefaultMediaClockReferencePriority_Default
          (case userPriority of Some p \<Rightarrow> p | None \<Rightarrow> DefaultMediaClockReferencePriority_Default)
          (case domainName of Some n \<Rightarrow> n | None \<Rightarrow> 0))
       [P_U16 clockDomainIndex, P_DefaultPriority DefaultMediaClockReferencePriority_Default,
        P_MediaClockReferenceInfo MediaClockReferenceInfo_empty] handler"

definition getMediaClockReferenceInfo :: "entity_id \<Rightarrow> 16 word \<Rightarrow> user_handler option \<Rightarrow> command" where
  "getMediaClockReferenceInfo targetEntityID clockDomainIndex handler =
     mvu_command targetEntityID MvuCommandType_GetMediaClockReferenceInfo
       (serializeGetMediaClockReferenceInfoCommand clockDomainIndex)
       [P_U16 clockDomainIndex, P_DefaultPriority DefaultMediaClockReferencePriority_Default,
        P_MediaClockReferenceInfo MediaClockReferenceInfo_empty] handler"

definition bindStream ::
  "entity_id \<Rightarrow> descriptor_index \<Rightarrow> stream_identification \<Rightarrow> 16 word \<Rightarrow> user_handler option \<Rightarrow> command"
where
  "bindStream targetEntityID streamIndex talkerStream flags handler =
     mvu_command targetEntityID MvuCommandType_BindStream
       (serializeBindStreamCommand flags DescriptorType_StreamInput streamIndex (sid_entityID talkerStream)
          (sid_streamIndex talkerStream))
       [P_U16 streamIndex, P_StreamIdentification StreamIdentification_new, P_BindStreamFlags 0] handler"

definition unbindStream :: "entity_id \<Rightarrow> descriptor_index \<Rightarrow> user_handler option \<Rightarrow> command" where
  "unbindStream targetEntityID streamIndex handler =
     mvu_command targetEntityID MvuCommandType_UnbindStream
       (serializeUnbindStreamCommand DescriptorType_StreamInput streamIndex) [P_U16 streamIndex] handler"

definition getStreamInputInfoEx :: "entity_id \<Rightarrow> descriptor_index \<Rightarrow> user_handler option \<Rightarrow> command" where
  "getStreamInputInfoEx targetEntityID streamIndex handler =
     mvu_command targetEntityID MvuCommandType_GetStreamInputInfoEx
       (serializeGetStreamInputInfoExCommand DescriptorType_StreamInput streamIndex)
       [P_U16 streamIndex, P_StreamInputInfoEx StreamInputInfoEx_new] handler"

section \<open>Connection management\<close>

definition connectStream ::
  "stream_identification \<Rightarrow> stream_identification \<Rightarrow> user_handler option \<Rightarrow> command"
where
  "connectStream talkerStream listenerStream =
     acmp_command AcmpMessageType_ConnectRxCommand (sid_entityID talkerStream) (sid_streamIndex talkerStream)
       (sid_entityID listenerStream) (sid_streamIndex listenerStream) 0
       [P_StreamIdentification talkerStream, P_StreamIdentification listenerStream, P_U16 0, P_ConnectionFlags 0]"

definition disconnectStream ::
  "stream_identification \<Rightarrow> stream_identification \<Rightarrow> user_handler option \<Rightarrow> command"
where
  "disconnectStream talkerStream listenerStream =
     acmp_command AcmpMessageType_DisconnectRxCommand (sid_entityID talkerStream) (sid_streamIndex talkerStream)
       (sid_entityID listenerStream) (sid_streamIndex listenerStream) 0
       [P_StreamIdentification talkerStream, P_StreamIdentification listenerStream, P_U16 0, P_ConnectionFlags 0]"

definition disconnectTalkerStream ::
  "stream_identification \<Rightarrow> stream_identification \<Rightarrow> user_handler option \<Rightarrow> command"
where
  "disconnectTalkerStream talkerStream listenerStream =
     acmp_command AcmpMessageType_DisconnectTxCommand (sid_entityID talkerStream) (sid_streamIndex talkerStream)
       (sid_entityID listenerStream) (sid_streamIndex listenerStream) 0
       [P_StreamIdentification talkerStream, P_StreamIdentification listenerStream, P_U16 0, P_ConnectionFlags 0]"

definition getTalkerStreamState :: "stream_identification \<Rightarrow> user_handler option \<Rightarrow> command" where
  "getTalkerStreamState talkerStream =
     acmp_command AcmpMessageType_GetTxStateCommand (sid_entityID talkerStream) (sid_streamIndex talkerStream)
       uid_null 0 0
       [P_StreamIdentification talkerStream, P_StreamIdentification StreamIdentification_new, P_U16 0,
        P_ConnectionFlags 0]"

definition getListenerStreamState :: "stream_identification \<Rightarrow> user_handler option \<Rightarrow> command" where
  "getListenerStreamState listenerStream =
     acmp_command AcmpMessageType_GetRxStateCommand uid_null 0 (sid_entityID listenerStream)
       (sid_streamIndex listenerStream) 0
       [P_StreamIdentification StreamIdentification_new, P_StreamIdentification listenerStream, P_U16 0,
        P_ConnectionFlags 0]"

definition getTalkerStreamConnection ::
  "stream_identification \<Rightarrow> 16 word \<Rightarrow> user_handler option \<Rightarrow> command"
where
  "getTalkerStreamConnection talkerStream connectionIndex =
     acmp_command AcmpMessageType_GetTxConnectionCommand (sid_entityID talkerStream)
       (sid_streamIndex talkerStream) uid_null 0 connectionIndex
       [P_StreamIdentification talkerStream, P_StreamIdentification StreamIdentification_new,
        P_U16 connectionIndex, P_ConnectionFlags 0]"

end
