(* ===== verification/ControllerAnswers.thy ===== *)
theory ControllerAnswers
  imports ControllerCommands
begin

text \<open>
  What the user of a controller can rely on: how often the handler of a command is called and with what types,
  and that the entities it can send commands to are those of the discovery state machine.
\<close>

section \<open>How often a handler is called\<close>

text \<open>
  The number of times an entry of a dispatch table answers, when it does not throw: the handler looked at is
  called n times by an answer (once, or never if it is another's).  And nothing is called but by answers and
  notifications.
\<close>

definition outcome_sat :: "(call list \<Rightarrow> bool) \<Rightarrow> call list outcome \<Rightarrow> bool" where
  "outcome_sat P r \<longleftrightarrow> (\<forall>calls. r = Inr calls \<longrightarrow> P calls)"

definition answers_within :: "nat set \<Rightarrow> response_handler \<Rightarrow> bool" where
  "answers_within N f \<longleftrightarrow> (\<forall>h n answer notify status payload.
     (\<forall>ps. length (calls_of h (answer ps)) = n) \<longrightarrow> (\<forall>meth ps. calls_of h (notify meth ps) = []) \<longrightarrow>
     outcome_sat (\<lambda>calls. length (calls_of h calls) \<in> (*) n ` N) (f answer notify status payload))"

definition answers_from :: "response_handler \<Rightarrow> bool" where
  "answers_from f \<longleftrightarrow> (\<forall>answer notify status payload.
     outcome_sat (\<lambda>calls. \<forall>c\<in>set calls. (\<exists>ps. c \<in> set (answer ps)) \<or> (\<exists>meth ps. c \<in> set (notify meth ps)))
       (f answer notify status payload))"

text \<open>One rule for each construct an entry is made of.\<close>

named_theorems within

lemma within_obind [within]: "(\<And>x. outcome_sat P (f x)) \<Longrightarrow> outcome_sat P (obind r f)"
  by (cases r) (simp_all add: outcome_sat_def)

lemma within_Inl [within]: "outcome_sat P (Inl e)"
  by (simp add: outcome_sat_def)

lemma within_Inr [within]: "P calls \<Longrightarrow> outcome_sat P (Inr calls)"
  by (simp add: outcome_sat_def)

lemma within_if [within]:
  "outcome_sat P r \<Longrightarrow> outcome_sat P r' \<Longrightarrow> outcome_sat P (if b then r else r')"
  by simp

lemma within_prod [within]: "(\<And>a b. outcome_sat P (f a b)) \<Longrightarrow> outcome_sat P (case_prod f x)"
  by (simp add: split_beta)

lemma within_option [within]:
  "outcome_sat P r \<Longrightarrow> (\<And>x. outcome_sat P (f x)) \<Longrightarrow> outcome_sat P (case_option r f x)"
  by (cases x) simp_all

lemma within_let [within]: "(\<And>x. outcome_sat P (f x)) \<Longrightarrow> outcome_sat P (Let x f)"
  by simp

lemma answers_withinI [within]:
  "(\<And>h n answer notify status payload. (\<And>ps. length (calls_of h (answer ps)) = n) \<Longrightarrow>
      (\<And>meth ps. calls_of h (notify meth ps) = []) \<Longrightarrow>
      outcome_sat (\<lambda>calls. length (calls_of h calls) \<in> (*) n ` N) (f answer notify status payload))
    \<Longrightarrow> answers_within N f"
  by (simp add: answers_within_def)

lemma answers_fromI [within]:
  "(\<And>answer notify status payload.
      outcome_sat (\<lambda>calls. \<forall>c\<in>set calls. (\<exists>ps. c \<in> set (answer ps)) \<or> (\<exists>meth ps. c \<in> set (notify meth ps)))
       (f answer notify status payload)) \<Longrightarrow> answers_from f"
  by (simp add: answers_from_def)

lemmas entry_defs =
  on_AcquireEntity_def on_LockEntity_def on_EntityAvailable_def on_ControllerAvailable_def
  on_ReadDescriptor_def on_SetConfiguration_def on_GetConfiguration_def on_SetStreamFormat_def
  on_GetStreamFormat_def on_SetStreamInfo_def on_GetStreamInfo_def on_SetName_def on_GetName_def
  on_SetAssociationID_def on_GetAssociationID_def on_SetSamplingRate_def on_GetSamplingRate_def
  on_SetClockSource_def on_GetClockSource_def on_SetControl_def on_GetControl_def on_StartStreaming_def
  on_StopStreaming_def on_RegisterUnsolicitedNotification_def on_DeregisterUnsolicitedNotification_def
  on_GetAvbInfo_def on_GetAsPath_def on_GetCounters_def on_Reboot_def on_GetAudioMap_def
  on_AddAudioMappings_def on_RemoveAudioMappings_def on_StartOperation_def on_AbortOperation_def
  on_SetMemoryObjectLength_def on_GetMemoryObjectLength_def on_GetDynamicInfo_def on_SetMaxTransitTime_def
  on_GetMaxTransitTime_def on_GetMilanInfo_def on_SetSystemUniqueID_def on_GetSystemUniqueID_def
  on_SetMediaClockReferenceInfo_def on_GetMediaClockReferenceInfo_def on_BindStream_def on_UnbindStream_def
  on_GetStreamInputInfoEx_def

lemma entries_answer_once:
  shows "answers_within {1} on_AcquireEntity"
    and "answers_within {1} on_LockEntity"
    and "answers_within {1} on_EntityAvailable"
    and "answers_within {1} on_ControllerAvailable"
    and "answers_within {1} on_SetConfiguration"
    and "answers_within {1} on_GetConfiguration"
    and "answers_within {1} on_SetStreamFormat"
    and "answers_within {1} on_GetStreamFormat"
    and "answers_within {1} on_SetStreamInfo"
    and "answers_within {1} on_GetStreamInfo"
    and "answers_within {1} on_SetAssociationID"
    and "answers_within {1} on_GetAssociationID"
    and "answers_within {1} on_SetSamplingRate"
    and "answers_within {1} on_GetSamplingRate"
    and "answers_within {1} on_SetClockSource"
    and "answers_within {1} on_GetClockSource"
    and "answers_within {1} on_SetControl"
    and "answers_within {1} on_GetControl"
    and "answers_within {1} on_StartStreaming"
    and "answers_within {1} on_StopStreaming"
    and "answers_within {1} on_RegisterUnsolicitedNotification"
    and "answers_within {1} on_DeregisterUnsolicitedNotification"
    and "answers_within {1} on_GetAvbInfo"
    and "answers_within {1} on_GetAsPath"
    and "answers_within {1} (on_GetAudioMap x)"
    and "answers_within {1} on_AddAudioMappings"
    and "answers_within {1} on_RemoveAudioMappings"
    and "answers_within {1} on_StartOperation"
    and "answers_within {1} on_AbortOperation"
    and "answers_within {1} on_SetMemoryObjectLength"
    and "answers_within {1} on_GetMemoryObjectLength"
    and "answers_within {1} on_GetDynamicInfo"
    and "answers_within {1} on_SetMaxTransitTime"
    and "answers_within {1} on_GetMaxTransitTime"
    and "answers_within {1} on_GetMilanInfo"
    and "answers_within {1} on_SetSystemUniqueID"
    and "answers_within {1} on_GetSystemUniqueID"
    and "answers_within {1} on_SetMediaClockReferenceInfo"
    and "answers_within {1} on_GetMediaClockReferenceInfo"
    and "answers_within {1} on_BindStream"
    and "answers_within {1} on_UnbindStream"
    and "answers_within {1} on_GetStreamInputInfoEx"
  by (intro within; unfold entry_defs; intro within; simp)+

lemma entries_answer_at_most_once:
  shows "answers_within {0, 1} (on_ReadDescriptor x)"
    and "answers_within {0, 1} on_SetName"
    and "answers_within {0, 1} on_GetName"
    and "answers_within {0, 1} on_GetCounters"
    and "answers_within {0, 1} on_Reboot"
  by (intro within; unfold entry_defs; intro within; simp)+


lemma entries_answer_from:
  shows "answers_from on_AcquireEntity"
    and "answers_from on_LockEntity"
    and "answers_from on_EntityAvailable"
    and "answers_from on_ControllerAvailable"
    and "answers_from on_SetConfiguration"
    and "answers_from on_GetConfiguration"
    and "answers_from on_SetStreamFormat"
    and "answers_from on_GetStreamFormat"
    and "answers_from on_SetStreamInfo"
    and "answers_from on_GetStreamInfo"
    and "answers_from on_SetAssociationID"
    and "answers_from on_GetAssociationID"
    and "answers_from on_SetSamplingRate"
    and "answers_from on_GetSamplingRate"
    and "answers_from on_SetClockSource"
    and "answers_from on_GetClockSource"
    and "answers_from on_SetControl"
    and "answers_from on_GetControl"
    and "answers_from on_StartStreaming"
    and "answers_from on_StopStreaming"
    and "answers_from on_RegisterUnsolicitedNotification"
    and "answers_from on_DeregisterUnsolicitedNotification"
    and "answers_from on_GetAvbInfo"
    and "answers_from on_GetAsPath"
    and "answers_from (on_GetAudioMap x)"
    and "answers_from on_AddAudioMappings"
    and "answers_from on_RemoveAudioMappings"
    and "answers_from on_StartOperation"
    and "answers_from on_AbortOperation"
    and "answers_from on_SetMemoryObjectLength"
    and "answers_from on_GetMemoryObjectLength"
    and "answers_from on_GetDynamicInfo"
    and "answers_from on_SetMaxTransitTime"
    and "answers_from on_GetMaxTransitTime"
    and "answers_from on_GetMilanInfo"
    and "answers_from on_SetSystemUniqueID"
    and "answers_from on_GetSystemUniqueID"
    and "answers_from on_SetMediaClockReferenceInfo"
    and "answers_from on_GetMediaClockReferenceInfo"
    and "answers_from on_BindStream"
    and "answers_from on_UnbindStream"
    and "answers_from on_GetStreamInputInfoEx"
    and "answers_from (on_ReadDescriptor x)"
    and "answers_from on_SetName"
    and "answers_from on_GetName"
    and "answers_from on_GetCounters"
    and "answers_from on_Reboot"
  by (intro within; unfold entry_defs; intro within; auto)+

text \<open>
  The commands whose response may leave the handler without a call: those of a descriptor, a name or counters
  of an object whose type the controller does not handle, and OPERATION_STATUS, which is no answer.
\<close>

definition silent_commands :: "16 word list" where
  "silent_commands =
     [AemCommandType_ReadDescriptor, AemCommandType_SetName, AemCommandType_GetName, AemCommandType_GetCounters,
      AemCommandType_Reboot, AemCommandType_OperationStatus]"

lemma aem_dispatch_answers:
  assumes "map_of (aem_dispatch co notify_always) commandType = Some f"
    and "\<And>h meth ps. calls_of h (notify_always meth ps) = []"
  shows "answers_within (if commandType \<in> set silent_commands then {0, 1} else {1}) f"
proof -
  have op: "answers_within {0, 1} (on_OperationStatus notify_always)"
    by (intro within; unfold on_OperationStatus_def; intro within; simp add: assms(2))
  have "(commandType, f) \<in> set (aem_dispatch co notify_always)"
    using assms(1) by (rule map_of_SomeD)
  then show ?thesis
    unfolding aem_dispatch_def list.set insert_iff empty_iff prod.inject
    by (elim disjE conjE) (simp_all add: silent_commands_def AemCommandType_defs entries_answer_once
      entries_answer_at_most_once op del: One_nat_def)
qed

lemma mvu_dispatch_answers: "map_of mvu_dispatch commandType = Some f \<Longrightarrow> answers_within {1} f"
  by (drule map_of_SomeD) (auto simp: mvu_dispatch_def entries_answer_once simp del: One_nat_def)

text \<open>
  A closure's callbacks belong to one handler, or to none: how many calls of the handler h its processing makes.
\<close>

definition of_handler :: "user_handler \<Rightarrow> error_callback \<Rightarrow> answer_callback \<Rightarrow> nat \<Rightarrow> bool" where
  "of_handler h onErrorCallback answerCallback n \<longleftrightarrow>
     (\<forall>status. length (calls_of h (call_error onErrorCallback status)) = n) \<and>
     (\<forall>st ps status. length (calls_of h (invoke answerCallback st
        (call_error onErrorCallback Status_BaseProtocolViolation) ps status)) = n)"

lemma of_handler_callbacks:
  "of_handler h (makeErrorHandler handler bound) (AnswerCallback st ps handler) (of_bool (handler = Some h))"
  by (auto simp: of_handler_def call_error_def makeErrorHandler_def invoke_def AnswerCallback_def
      split: option.splits)

lemma of_handler_none: "of_handler h None None 0"
  by (simp add: of_handler_def call_error_def invoke_def)

lemma process_answers:
  assumes "answers_within N f" and "of_handler h onErrorCallback answerCallback n"
    and "\<And>meth ps. calls_of h (notify meth ps) = []" and "1 \<in> N"
  shows "length (calls_of h (case f (\<lambda>ps. invoke answerCallback st
      (call_error onErrorCallback Status_BaseProtocolViolation) (t # ps) status) notify status payload of
      Inr calls \<Rightarrow> calls | Inl e \<Rightarrow> call_error onErrorCallback (g e))) \<in> (*) n ` N"
proof -
  have "outcome_sat (\<lambda>calls. length (calls_of h calls) \<in> (*) n ` N) (f (\<lambda>ps. invoke answerCallback st
      (call_error onErrorCallback Status_BaseProtocolViolation) (t # ps) status) notify status payload)"
    using assms(1) [unfolded answers_within_def, rule_format] assms(2,3) by (simp add: of_handler_def)
  then show ?thesis
    using assms(2,4) by (force simp: outcome_sat_def of_handler_def image_iff split: sum.splits)
qed

lemma processAemAecpResponse_calls:
  assumes "of_handler h onErrorCallback answerCallback n"
  shows "length (calls_of h (processAemAecpResponse co delegate commandType aem onErrorCallback answerCallback)) \<le> n"
    and "commandType \<notin> set silent_commands \<Longrightarrow> \<not> m_unsolicited aem \<Longrightarrow>
      length (calls_of h (processAemAecpResponse co delegate commandType aem onErrorCallback answerCallback)) = n"
proof -
  let ?na = "\<lambda>meth ps. if delegate then [Notified meth (P_Uid (m_streamID aem) # ps)] else []"
  let ?calls = "length (calls_of h (processAemAecpResponse co delegate commandType aem onErrorCallback answerCallback))"
  have "?calls \<le> n \<and> (commandType \<notin> set silent_commands \<longrightarrow> \<not> m_unsolicited aem \<longrightarrow> ?calls = n)"
  proof (cases "commandType = m_commandType aem")
    case same: True
    show ?thesis
    proof (cases "map_of (aem_dispatch co ?na) commandType")
      case None
      then show ?thesis
        using same assms by (simp add: processAemAecpResponse_def Let_def of_handler_def)
    next
      case (Some f)
      have "answers_within (if commandType \<in> set silent_commands then {0, 1} else {1}) f"
        by (rule aem_dispatch_answers [OF Some]) simp
      from process_answers [OF this assms] have "?calls \<in> (*) n ` (if commandType \<in> set silent_commands then {0, 1} else {1})"
        using same Some by (simp add: processAemAecpResponse_def Let_def)
      then show ?thesis by (auto split: if_splits)
    qed
  qed (use assms in \<open>simp add: processAemAecpResponse_def of_handler_def\<close>)
  then show "?calls \<le> n" "commandType \<notin> set silent_commands \<Longrightarrow> \<not> m_unsolicited aem \<Longrightarrow> ?calls = n"
    by blast+
qed

lemma processMvuAecpResponse_calls:
  assumes "of_handler h onErrorCallback answerCallback n"
  shows "length (calls_of h (processMvuAecpResponse delegate commandType mvu onErrorCallback answerCallback)) \<le> n"
    and "\<not> m_mvuUnsolicited mvu \<Longrightarrow>
      length (calls_of h (processMvuAecpResponse delegate commandType mvu onErrorCallback answerCallback)) = n"
proof -
  let ?calls = "length (calls_of h (processMvuAecpResponse delegate commandType mvu onErrorCallback answerCallback))"
  have "?calls \<le> n \<and> (\<not> m_mvuUnsolicited mvu \<longrightarrow> ?calls = n)"
  proof (cases "commandType = m_mvuCommandType mvu")
    case same: True
    show ?thesis
    proof (cases "map_of mvu_dispatch commandType")
      case None
      then show ?thesis
        using same assms by (simp add: processMvuAecpResponse_def Let_def of_handler_def)
    next
      case (Some f)
      from process_answers [OF mvu_dispatch_answers [OF Some] assms] have "?calls \<in> (*) n ` {1}"
        using same Some by (simp add: processMvuAecpResponse_def Let_def)
      then show ?thesis by simp
    qed
  qed (use assms in \<open>simp add: processMvuAecpResponse_def of_handler_def\<close>)
  then show "?calls \<le> n" "\<not> m_mvuUnsolicited mvu \<Longrightarrow> ?calls = n" by blast+
qed

lemma processAaAecpResponse_calls:
  "of_handler h onErrorCallback answerCallback n \<Longrightarrow>
     length (calls_of h (processAaAecpResponse aa onErrorCallback answerCallback)) = n"
  by (simp add: processAaAecpResponse_def of_handler_def)

lemma processAcmpResponse_calls:
  assumes "of_handler h onErrorCallback answerCallback n"
  shows "length (calls_of h (processAcmpResponse delegate acmp onErrorCallback answerCallback sniffed)) \<le> n"
    and "m_controlData acmp \<noteq> AcmpMessageType_ConnectTxResponse \<Longrightarrow> \<not> sniffed \<Longrightarrow>
      length (calls_of h (processAcmpResponse delegate acmp onErrorCallback answerCallback sniffed)) = n"
  using assms by (auto simp: processAcmpResponse_def acmp_dispatch_def of_handler_def Let_def
      split: option.splits)

section \<open>With what types a handler is called\<close>

text \<open>Every call of a list is of one handler and has its types; what a closure's callbacks promise.\<close>

definition calls_typed :: "(user_handler \<times> param_type list \<Rightarrow> bool) \<Rightarrow> call list \<Rightarrow> bool" where
  "calls_typed T calls \<longleftrightarrow> (\<forall>h ps status. HandlerCalled h ps status \<in> set calls \<longrightarrow> T (h, map type_of ps))"

lemma calls_typed_simps [simp]:
  "calls_typed T []"
  "calls_typed T (calls @ calls') \<longleftrightarrow> calls_typed T calls \<and> calls_typed T calls'"
  "calls_typed T [Notified meth ps]"
  "calls_typed T (notify_user cc meth ps)"
  "calls_typed T (notify_unsolicited d u s meth ps)"
  by (simp_all add: calls_typed_def notify_user_def notify_unsolicited_def) blast

definition typed_callbacks ::
  "(user_handler \<times> param_type list \<Rightarrow> bool) \<Rightarrow> error_callback \<Rightarrow> answer_callback \<Rightarrow> bool"
where
  "typed_callbacks T onErrorCallback answerCallback \<longleftrightarrow>
     (\<forall>status. calls_typed T (call_error onErrorCallback status)) \<and>
     (\<forall>st ps status. calls_typed T (invoke answerCallback st
        (call_error onErrorCallback Status_BaseProtocolViolation) ps status))"

lemma typed_callbacks_none [simp]: "typed_callbacks T None None"
  by (simp add: typed_callbacks_def call_error_def invoke_def)

lemma typed_callbacks_made:
  "(\<And>h. handler = Some h \<Longrightarrow> T (h, map type_of ps)) \<Longrightarrow>
     typed_callbacks T (makeErrorHandler handler ps) (AnswerCallback st ps handler)"
  by (auto simp: typed_callbacks_def calls_typed_def call_error_def makeErrorHandler_def invoke_def
      AnswerCallback_def split: option.splits if_splits)

lemma process_typed:
  assumes "answers_from f" and "typed_callbacks T onErrorCallback answerCallback"
    and "\<And>meth ps. calls_typed T (notify meth ps)"
  shows "calls_typed T (case f (\<lambda>ps. invoke answerCallback st
      (call_error onErrorCallback Status_BaseProtocolViolation) (t # ps) status) notify status payload of
      Inr calls \<Rightarrow> calls | Inl e \<Rightarrow> call_error onErrorCallback (g e))"
  using assms(1) [unfolded answers_from_def, rule_format, of "\<lambda>ps. invoke answerCallback st
      (call_error onErrorCallback Status_BaseProtocolViolation) (t # ps) status" notify status payload] assms(2,3)
  by (fastforce simp: outcome_sat_def typed_callbacks_def calls_typed_def split: sum.splits)

lemma aem_dispatch_from:
  assumes "map_of (aem_dispatch co notify) commandType = Some f"
  shows "answers_from f \<or> f = on_OperationStatus notify"
proof -
  have "(commandType, f) \<in> set (aem_dispatch co notify)"
    using assms by (rule map_of_SomeD)
  then show ?thesis
    unfolding aem_dispatch_def list.set insert_iff empty_iff prod.inject
    by (elim disjE conjE) (simp_all add: entries_answer_from)
qed

lemma processAemAecpResponse_typed:
  assumes "typed_callbacks T onErrorCallback answerCallback"
  shows "calls_typed T (processAemAecpResponse co delegate commandType aem onErrorCallback answerCallback)"
proof (cases "commandType = m_commandType aem")
  case same: True
  let ?na = "\<lambda>meth ps. if delegate then [Notified meth (P_Uid (m_streamID aem) # ps)] else []"
  show ?thesis
  proof (cases "map_of (aem_dispatch co ?na) commandType")
    case None
    then show ?thesis
      using same assms by (simp add: processAemAecpResponse_def Let_def typed_callbacks_def)
  next
    case (Some f)
    have err: "calls_typed T (call_error onErrorCallback status)" for status
      using assms by (simp add: typed_callbacks_def)
    from aem_dispatch_from [OF Some] show ?thesis
    proof
      assume "answers_from f"
      from process_typed [OF this assms] show ?thesis
        using same Some by (simp add: processAemAecpResponse_def Let_def)
    next
      assume "f = on_OperationStatus ?na"
      then show ?thesis
        using same Some err by (simp add: processAemAecpResponse_def Let_def on_OperationStatus_def obind_def
            split: sum.splits prod.splits)
    qed
  qed
qed (use assms in \<open>simp add: processAemAecpResponse_def typed_callbacks_def\<close>)

lemma processMvuAecpResponse_typed:
  assumes "typed_callbacks T onErrorCallback answerCallback"
  shows "calls_typed T (processMvuAecpResponse delegate commandType mvu onErrorCallback answerCallback)"
proof (cases "commandType = m_mvuCommandType mvu")
  case same: True
  show ?thesis
  proof (cases "map_of mvu_dispatch commandType")
    case None
    then show ?thesis
      using same assms by (simp add: processMvuAecpResponse_def Let_def typed_callbacks_def)
  next
    case (Some f)
    then have "answers_from f"
      by (drule_tac map_of_SomeD) (auto simp: mvu_dispatch_def entries_answer_from)
    from process_typed [OF this assms] show ?thesis
      using same Some by (simp add: processMvuAecpResponse_def Let_def)
  qed
qed (use assms in \<open>simp add: processMvuAecpResponse_def typed_callbacks_def\<close>)

lemma processAaAecpResponse_typed:
  "typed_callbacks T onErrorCallback answerCallback \<Longrightarrow>
     calls_typed T (processAaAecpResponse aa onErrorCallback answerCallback)"
  by (simp add: processAaAecpResponse_def typed_callbacks_def)

lemma processAcmpResponse_typed:
  "typed_callbacks T onErrorCallback answerCallback \<Longrightarrow>
     calls_typed T (processAcmpResponse delegate acmp onErrorCallback answerCallback sniffed)"
  by (simp add: processAcmpResponse_def typed_callbacks_def Let_def split: option.splits prod.splits)

end
