(* ===== verification/EndToEnd.thy ===== *)
theory EndToEnd
  imports LocalEntity
begin

text \<open>
  Two stations: a command that a local entity of one sends, on the wire, through the packet dispatch of
  the other, answered by its local entity, and back to the handler of the command.
\<close>

lemmas aem_fields =
  AemAecpdu_new_def Aecpdu_new_def aecpdu.extend_def setAecpSpecificDataLength_def
  Aem_setCommandSpecificData_def aecp_lengths AvtpSubType_Aecp_def AvtpVersion_def
  AecpMessageType_AemCommand_def AecpMessageType_AemResponse_def AecpMessageType_VendorUniqueResponse_def
  AecpMessageType_VendorUniqueCommand_def

definition availability_answer :: "manager \<Rightarrow> aem_aecpdu \<Rightarrow> aem_aecpdu" where
  "availability_answer d p =
     (AemAecpdu_new True)\<lparr>m_srcAddress := mg_macAddress d, m_destAddress := m_srcAddress p, m_status := 0,
        m_streamID := m_streamID p, m_controllerEntityID := m_controllerEntityID p, m_sequenceID := m_sequenceID p,
        m_unsolicited := False, m_commandType := AemCommandType_EntityAvailable\<rparr>"

definition availability_query :: "uid \<Rightarrow> uid \<Rightarrow> mac_address \<Rightarrow> mac_address \<Rightarrow> 16 word \<Rightarrow> aem_aecpdu" where
  "availability_query controllerID targetID src dest sequenceID =
     (AemAecpdu_new False)\<lparr>m_srcAddress := src, m_destAddress := dest, m_status := 0, m_streamID := targetID,
        m_controllerEntityID := controllerID, m_sequenceID := sequenceID,
        m_commandType := AemCommandType_EntityAvailable\<rparr>"

lemma aem_wire:
  fixes p :: aem_aecpdu
  assumes "p = (AemAecpdu_new b)\<lparr>m_srcAddress := src, m_destAddress := dest, m_status := 0, m_streamID := tid,
        m_controllerEntityID := cid, m_sequenceID := sid, m_unsolicited := False, m_commandType := ct\<rparr>"
    and "ct AND 0x7fff = ct"
  shows "\<exists>frame. AemAecpdu_frame opts p = Some frame
    \<and> processRawPacket opts reg beyond (frame @ pad) m =
        Some (processAecpdu (registry_delegates reg) (Aem p) (received [OnAecpduReceived (Aem p)] m))"
proof (rule aem_frame_dispatch [of opts "[]" p])
  show "Aem_setCommandSpecificData opts [] p = Some p" "control_fits p" "library_header AvtpSubType_Aecp p"
    "m_controlData p \<in> {AecpMessageType_AemCommand, AecpMessageType_AemResponse}" "m_commandType p AND 0x7fff = m_commandType p"
    using assms by (simp_all add: aem_fields control_fits_def library_header_def)
qed simp_all

lemma onAecpCommand_available:
  fixes p :: aem_aecpdu
  assumes "m_streamID p = tid" "m_controlData p = AecpMessageType_AemCommand"
    and "m_commandType p = AemCommandType_EntityAvailable"
  shows "\<exists>err. w_trace (mg_world (onAecpCommand opts reg vuCopy sub tid (Aem p) d))
      = w_trace (mg_world d) @ [Sent (PAecp (Aem (availability_answer d p))) err]"
proof -
  have aem: "Aem_setCommandSpecificData opts [] ((AemAecpdu_new True)\<lparr>m_srcAddress := mg_macAddress d,
      m_destAddress := m_srcAddress p, m_status := AecpStatus_Success, m_streamID := m_streamID p,
      m_controllerEntityID := m_controllerEntityID p, m_sequenceID := m_sequenceID p, m_unsolicited := False,
      m_commandType := m_commandType p\<rparr>) = Some (availability_answer d p)"
    using assms(3) by (simp add: availability_answer_def aem_fields AecpStatus_Success_def)
  have "onAecpCommand opts reg vuCopy sub tid (Aem p) d = sendAemAecpResponse opts reg p AecpStatus_Success [] d"
    using assms by (simp add: onAecpCommand_def aecp_targetEntityID_def aecp_messageType_def aecpdu.truncate_def uid_eq_equiv)
  also have "\<dots> = snd (pi_sendAecpResponse reg (Aem (availability_answer d p)) d)"
    using aem by (simp add: sendAemAecpResponse_def)
  finally show ?thesis
    by (simp add: pi_sendAecpResponse_def aecp_messageType_def aecpdu.truncate_def availability_answer_def aem_fields
        isAecpResponseMessageType_def split_beta)
qed

text \<open>
  C9.  An availability query completes from end to end: the frame of a query in flight at one station,
  received by the station it is addressed to, whose local entity it targets, is notified to that entity,
  which answers it with one message; the frame of that answer, received by the first station, calls the
  handler of the query with it and no error.
\<close>

theorem availability_query_answered:
  assumes p: "p = availability_query controllerID targetID src (mg_macAddress d) sequenceID"
    and c: "al_get controllerID (mg_command c) = Some ce" "al_get targetID (ch_inflight (ce_aecp ce)) = Some i"
      "find (\<lambda>x. ci_sequenceID x = sequenceID) (if_commands i) = Some ci" "ci_command ci = Aem p"
    and d: "isLocalEntity d targetID"
  shows "\<exists>frame d1 r err rframe c2 sent t.
    AemAecpdu_frame opts p = Some frame
    \<and> processRawPacket opts reg beyond (frame @ pad) d = Some d1
    \<and> w_trace (mg_world d1) = w_trace (mg_world d) @ [OnAecpduReceived (Aem p), OnAecpCommand (Aem p)]
    \<and> w_trace (mg_world (onAecpCommand opts reg vuCopy sub targetID (Aem p) d1))
        = w_trace (mg_world d1) @ [Sent (PAecp (Aem r)) err]
    \<and> AemAecpdu_frame opts r = Some rframe
    \<and> processRawPacket opts reg' beyond' (rframe @ pad') c = Some c2
    \<and> w_trace (mg_world c2) = w_trace (mg_world c) @ OnAecpduReceived (Aem r) # map (\<lambda>(q, err). Sent q err) sent
        @ [Handled (ci_resultHandler ci) (Some (PAecp (Aem r))) NoError, OnAecpResponseTime targetID t]"
proof -
  have shape: "p = (AemAecpdu_new False)\<lparr>m_srcAddress := src, m_destAddress := mg_macAddress d, m_status := 0,
      m_streamID := targetID, m_controllerEntityID := controllerID, m_sequenceID := sequenceID, m_unsolicited := False,
      m_commandType := AemCommandType_EntityAvailable\<rparr>"
    by (simp add: p availability_query_def aem_fields)
  have type: "AemCommandType_EntityAvailable AND 0x7fff = AemCommandType_EntityAvailable"
    by (simp add: AemCommandType_EntityAvailable_def)
  let ?d1 = "processAecpdu (registry_delegates reg) (Aem p) (received [OnAecpduReceived (Aem p)] d)"
  obtain frame where frame: "AemAecpdu_frame opts p = Some frame"
    "processRawPacket opts reg beyond (frame @ pad) d = Some ?d1"
    using aem_wire [OF shape type] by blast
  have d1: "?d1 = received [OnAecpduReceived (Aem p), OnAecpCommand (Aem p)] d"
    using d by (simp add: processAecpdu_def aecp_messageType_def aecp_targetEntityID_def aecpdu.truncate_def shape aem_fields
        isLocalEntity_def received_def emit_def)
  let ?r = "availability_answer ?d1 p"
  obtain err where answer: "w_trace (mg_world (onAecpCommand opts reg vuCopy sub targetID (Aem p) ?d1))
      = w_trace (mg_world ?d1) @ [Sent (PAecp (Aem ?r)) err]"
    using onAecpCommand_available [of p targetID opts reg vuCopy sub ?d1] by (auto simp: shape aem_fields)
  let ?c1 = "received [OnAecpduReceived (Aem ?r)] c"
  obtain rframe where rframe: "AemAecpdu_frame opts ?r = Some rframe"
    "processRawPacket opts reg' beyond' (rframe @ pad') c = Some (processAecpdu (registry_delegates reg') (Aem ?r) ?c1)"
    using aem_wire [OF _ type] unfolding availability_answer_def by blast
  obtain sm w where h: "handleAecpResponse (registry_delegates reg') (Aem ?r) (mg_command c) (mg_world ?c1) = (sm, w)"
    by fastforce
  have r: "aecp_messageType (Aem ?r) = 1" "aecp_controllerEntityID (Aem ?r) = controllerID"
    "aecp_targetEntityID (Aem ?r) = targetID" "aecp_sequenceID (Aem ?r) = sequenceID" "\<not> m_unsolicited ?r"
    "m_status (aecp_header (Aem ?r)) = 0"
    by (simp_all add: availability_answer_def shape aem_fields aecp_messageType_def aecp_controllerEntityID_def
        aecp_targetEntityID_def aecp_sequenceID_def aecpdu.truncate_def)
  have src: "m_srcAddress (aecp_header (Aem ?r)) = mg_macAddress d"
    unfolding d1 by (simp add: availability_answer_def received_def aecpdu.truncate_def)
  have dest: "m_destAddress (aecp_header (ci_command ci)) = mg_macAddress d"
    unfolding c(4) by (simp add: shape aecpdu.truncate_def)
  have "(\<exists>sent t. w_trace w = w_trace (mg_world ?c1) @ map (\<lambda>(q, err). Sent q err) sent
      @ [Handled (ci_resultHandler ci) (Some (PAecp (Aem ?r))) NoError, OnAecpResponseTime targetID t])"
    using matching_response [of "Aem ?r" "mg_command c" ce "registry_delegates reg'" i ci "mg_world ?c1" sm w]
      c(1-3) h r src dest
    by (simp add: isAemUnsolicitedResponse_def isVuUnsolicitedResponse_def shouldRearmTimer_def
        AemAecpStatus_InProgress_def AecpMessageType_VendorUniqueResponse_def)
  then obtain sent t where "w_trace w = w_trace (mg_world ?c1) @ map (\<lambda>(q, err). Sent q err) sent
      @ [Handled (ci_resultHandler ci) (Some (PAecp (Aem ?r))) NoError, OnAecpResponseTime targetID t]" by blast
  moreover have "processAecpdu (registry_delegates reg') (Aem ?r) ?c1 = ?c1\<lparr>mg_command := sm, mg_world := w\<rparr>"
    using h r(1) by (simp add: processAecpdu_def received_def)
  ultimately show ?thesis
    using frame rframe answer d1 by (auto simp: received_def)
qed

definition query_command :: "aecp_pdu command_info" where
  "query_command = \<lparr>ci_sequenceID = 5, ci_sendTime = ms 290, ci_timeoutTime = ms 540, ci_retried = False,
     ci_command = Aem (availability_query 0x001b92fffe000009 0x001b92fffe000001 0x001b92000009 0x001b92000002 5),
     ci_resultHandler = 7\<rparr>"

definition querying_manager :: manager where
  "querying_manager = sample_manager\<lparr>mg_macAddress := 0x001b92000009,
     mg_command := [(0x001b92fffe000009, \<lparr>ce_aecp = channel_new\<lparr>ch_inflight :=
       [(0x001b92fffe000001, \<lparr>if_lastSendTime = ms 290, if_commands = [query_command]\<rparr>)]\<rparr>, ce_acmp = channel_new\<rparr>)]\<rparr>"

theorem availability_query_answered_witness:
  "\<exists>r rframe c2. AemAecpdu_frame default_build r = Some rframe
    \<and> processRawPacket default_build [] (\<lambda>i. 0) rframe querying_manager = Some c2
    \<and> Handled 7 (Some (PAecp (Aem r))) NoError \<in> set (w_trace (mg_world c2))"
proof -
  let ?d = "sample_manager\<lparr>mg_localEntities := [(0x001b92fffe000001, 0)]\<rparr>"
  have mac: "mg_macAddress ?d = 0x001b92000002"
    by (simp add: sample_manager_def manager_new_def split_beta)
  have local_entity: "isLocalEntity ?d 0x001b92fffe000001"
    by (simp add: isLocalEntity_def)
  have c: "al_get 0x001b92fffe000009 (mg_command querying_manager) = Some (snd (hd (mg_command querying_manager)))"
    "al_get 0x001b92fffe000001 (ch_inflight (ce_aecp (snd (hd (mg_command querying_manager)))))
       = Some \<lparr>if_lastSendTime = ms 290, if_commands = [query_command]\<rparr>"
    "find (\<lambda>x. ci_sequenceID x = 5) (if_commands \<lparr>if_lastSendTime = ms 290, if_commands = [query_command]\<rparr>) = Some query_command"
    by (simp_all add: querying_manager_def query_command_def)
  have q: "ci_command query_command
      = Aem (availability_query 0x001b92fffe000009 0x001b92fffe000001 0x001b92000009 (mg_macAddress ?d) 5)"
    by (simp add: mac query_command_def)
  show ?thesis
    using availability_query_answered [OF refl c q local_entity, where opts = default_build and reg = "[]"
        and beyond = "\<lambda>i. 0" and pad = "[]" and vuCopy = "\<lambda>p. None" and sub = "\<lambda>p m. (False, m)"
        and reg' = "[]" and beyond' = "\<lambda>i. 0" and pad' = "[]"]
    by (force simp: query_command_def)
qed

end
