(* ===== verification/CommandEvents.thy ===== *)
theory CommandEvents
  imports CommandStateMachine
begin

text \<open>
  What the command state machine tells its environment: messages, result handlers and the notifications
  of its own delegate, and never one of the discovery.
\<close>

fun command_event :: "event \<Rightarrow> bool" where
  "command_event (Sent p e) = True"
| "command_event (Handled h r e) = True"
| "command_event (OnAecpRetry i) = True"
| "command_event (OnAecpTimeout i) = True"
| "command_event (OnAecpUnexpectedResponse i) = True"
| "command_event (OnAecpResponseTime i t) = True"
| "command_event (OnAemUnsolicitedResponse p) = True"
| "command_event (OnAemIdentifyNotification p) = True"
| "command_event (OnVuUnsolicitedResponse v p) = True"
| "command_event ev = False"

definition emits :: "event list \<Rightarrow> world \<Rightarrow> bool" where
  "emits tr w \<longleftrightarrow> (\<exists>evs. w_trace w = tr @ evs \<and> list_all command_event evs)"

lemma emits_refl: "emits (w_trace w) w"
  by (simp add: emits_def)

lemma emits_step:
  "emits tr w \<Longrightarrow> w_trace w' = w_trace w @ evs \<Longrightarrow> list_all command_event evs \<Longrightarrow> emits tr w'"
  by (auto simp: emits_def)

lemma emits_same: "emits tr w \<Longrightarrow> w_trace w' = w_trace w \<Longrightarrow> emits tr w'"
  by (simp add: emits_def)

lemma emits_trans: "emits tr w \<Longrightarrow> emits (w_trace w) w' \<Longrightarrow> emits tr w'"
  by (auto simp: emits_def)

lemma emits_emit: "emits tr w \<Longrightarrow> list_all command_event evs \<Longrightarrow> emits tr (emit evs w)"
  by (auto intro: emits_step)

locale quiet_engine = command_engine e for e :: "('k, 'm) engine" +
  assumes retry_events: "list_all command_event (e_onRetry e k)"
    and timeout_events: "list_all command_event (e_onTimeout e k)"

sublocale quiet_engine \<subseteq> quiet: ctx_invariant e t "\<lambda>k cx. emits tr (cx_world cx)" for t tr
  by unfold_locales
     (auto simp: setCommandInflight_simps retry_command_simps(7) retry_events timeout_events
       intro: emits_step emits_same)

context quiet_engine
begin

lemma with_target_emits:
  assumes "\<And>cx. emits tr (cx_world cx) \<Longrightarrow> emits tr (cx_world (f cx))" and "emits tr w"
  shows "emits tr (snd (with_target k pos f ch w))"
  using assms by (simp add: with_target_def close_target_def open_target_def Let_def)

lemma checkQueue_emits: "emits tr (cx_world cx) \<Longrightarrow> emits tr (cx_world (checkQueue e k cx))"
  by (rule quiet.checkQueue_inv)

lemma queue_command_emits: "emits tr w \<Longrightarrow> emits tr (snd (queue_command e k s m h ch w))"
  unfolding queue_command_def Let_def by (rule with_target_emits) (simp_all add: checkQueue_emits)

lemma check_target_emits: "emits tr w \<Longrightarrow> emits tr (snd (check_target e t k ch w))"
  unfolding check_target_def by (rule with_target_emits) (simp_all add: quiet.check_target_inv)

lemma check_targets_emits: "emits tr w \<Longrightarrow> emits tr (snd (check_targets e t ks ch w))"
  by (induction ks arbitrary: ch w) (auto simp: split_beta check_target_emits)

lemma check_channel_emits: "emits tr w \<Longrightarrow> emits tr (snd (check_channel e t ch w))"
  by (simp add: check_channel_def check_targets_emits)

lemma complete_command_emits: "emits tr w \<Longrightarrow> emits tr (snd (complete_command e k s h r ch w))"
proof -
  assume "emits tr w"
  then have "emits tr (snd (with_target k (find_sequenceID s) (removeInflight e k) ch w))"
    by (rule with_target_emits [rotated]) (simp add: removeInflight_def checkQueue_emits)
  then show ?thesis
    by (auto simp: complete_command_def split_beta intro: emits_step)
qed

lemma rearm_command_emits: "emits tr w \<Longrightarrow> emits tr (snd (rearm_command e k s ch w))"
  unfolding rearm_command_def
  by (rule with_target_emits)
     (auto simp: rearm_step_def resetCommandTimeoutValue_def now_def intro: emits_same split: list.splits)

end

interpretation quiet_aecp: quiet_engine "aecp_engine vud" for vud
  by unfold_locales (simp_all add: aecp_engine_def)

interpretation quiet_acmp: quiet_engine acmp_engine
  by unfold_locales (simp_all add: acmp_engine_def)

lemma notify_scheduled_errors_emits: "emits tr w \<Longrightarrow> emits tr (snd (notify_scheduled_errors ch w))"
  by (auto simp: notify_scheduled_errors_def list_all_iff intro!: emits_emit)

lemma check_entity_emits: "emits tr w \<Longrightarrow> emits tr (snd (check_entity vud t ce w))"
  by (simp add: check_entity_def split_beta quiet_aecp.check_channel_emits quiet_acmp.check_channel_emits
      notify_scheduled_errors_emits)

lemma check_entities_emits: "emits tr w \<Longrightarrow> emits tr (snd (check_entities vud t sm w))"
  by (induction sm arbitrary: w) (auto simp: split_beta check_entity_emits)

lemma emits_now: "emits tr w \<Longrightarrow> emits tr (snd (now w))"
  by (auto intro: emits_same)

lemma notifyIdentify_emits: "emits tr w \<Longrightarrow> emits tr (notifyIdentify p w)"
  by (auto simp: notifyIdentify_def intro: emits_step)

lemma handleAecpResponse_emits: "emits tr w \<Longrightarrow> emits tr (snd (handleAecpResponse vud p sm w))"
  by (auto simp: handleAecpResponse_def split_beta Let_def emits_now notifyIdentify_emits emits_emit
      quiet_aecp.rearm_command_emits quiet_aecp.complete_command_emits split: option.splits)

lemma handleAcmpResponse_emits: "emits tr w \<Longrightarrow> emits tr (snd (handleAcmpResponse p sm w))"
  by (auto simp: handleAcmpResponse_def split_beta Let_def quiet_acmp.complete_command_emits split: option.splits)

lemma command_step_emits: "emits tr w \<Longrightarrow> emits tr (snd (command_step vud op (sm, w)))"
proof (cases op)
  case (UnregisterEntity i)
  moreover assume "emits tr w"
  ultimately show ?thesis
    by (auto simp: command_unregisterLocalEntity_def cancel_inflight_def list_all_iff intro!: emits_emit split: option.splits)
qed (auto simp: checkInflightCommandsTimeoutExpiracy_def split_beta check_entities_emits emits_now
      handleAecpResponse_emits handleAcmpResponse_emits sendAecpCommand_def sendAcmpCommand_def
      quiet_aecp.queue_command_emits quiet_acmp.queue_command_emits split: option.splits)

end
