(* ===== verification/Station.thy ===== *)
theory Station
  imports EndToEnd CommandEvents
begin

text \<open>
  A station: a protocol interface with its registry and manager, driven by any sequence of what may
  happen to it: its local entities come, change, send and leave, packets arrive as bytes, and the state
  machine thread makes its checks.  The properties here are of whole runs.
\<close>

section \<open>Runs\<close>

datatype station_op =
    StConstruct entity_ref
  | StShutdown entity_ref
  | StEnableAdvertising "32 word" "interface_index option" entity_ref
  | StDisableAdvertising entity_ref
  | StSetCapabilities "32 word" entity_ref
  | StSetAssociation "uid option" entity_ref
  | StSetValidTime "8 word" "interface_index option" entity_ref
  | StSetGrandmaster uid interface_index entity_ref
  | StSetDomain "8 word" interface_index entity_ref
  | StRawPacket "nat \<Rightarrow> byte" "byte list"
  | StCheckAnnouncements
  | StCheckDiscovery
  | StCheckRemoteEntities
  | StCheckInflightCommands
  | StSetDiscoveryDelay time
  | StDiscover entity_id
  | StForget entity_id
  | StSendAecpCommand aecp_pdu handler
  | StSendAecpResponse aecp_pdu
  | StSendAcmpCommand acmpdu handler

type_synonym station = "vu_registry \<times> manager"

definition keep_registry :: "vu_registry \<Rightarrow> (bool \<times> manager) option \<Rightarrow> station option" where
  "keep_registry reg r = map_option (\<lambda>(returned, m). (reg, m)) r"

fun station_step :: "build_options \<Rightarrow> station_op \<Rightarrow> station \<Rightarrow> station option" where
  "station_step opts (StConstruct e) (reg, m) =
     (case le_construct e reg m of None \<Rightarrow> Some (reg, m) | Some (reg, m) \<Rightarrow> Some (reg, m))"
| "station_step opts (StShutdown e) (reg, m) = Some (le_shutdown e reg m)"
| "station_step opts (StEnableAdvertising d i e) (reg, m) = keep_registry reg (le_enableEntityAdvertising d i e m)"
| "station_step opts (StDisableAdvertising e) (reg, m) = Some (reg, le_disableEntityAdvertising e m)"
| "station_step opts (StSetCapabilities c e) (reg, m) = keep_registry reg (le_setEntityCapabilities c e m)"
| "station_step opts (StSetAssociation a e) (reg, m) = keep_registry reg (le_setAssociationID a e m)"
| "station_step opts (StSetValidTime v i e) (reg, m) = keep_registry reg (le_setValidTime v i e m)"
| "station_step opts (StSetGrandmaster g i e) (reg, m) = keep_registry reg (le_setGptpGrandmasterID g i e m)"
| "station_step opts (StSetDomain n i e) (reg, m) = keep_registry reg (le_setGptpDomainNumber n i e m)"
| "station_step opts (StRawPacket beyond bytes) (reg, m) =
     map_option (\<lambda>m. (reg, m)) (processRawPacket opts reg beyond bytes m)"
| "station_step opts StCheckAnnouncements (reg, m) =
     map_option (\<lambda>m. (reg, m)) (mg_checkLocalEntitiesAnnouncement m)"
| "station_step opts StCheckDiscovery (reg, m) = Some (reg, mg_checkDiscovery m)"
| "station_step opts StCheckRemoteEntities (reg, m) = Some (reg, mg_checkRemoteEntities m)"
| "station_step opts StCheckInflightCommands (reg, m) =
     Some (reg, mg_checkInflightCommands (registry_delegates reg) m)"
| "station_step opts (StSetDiscoveryDelay d) (reg, m) = Some (reg, snd (mg_setAutomaticDiscoveryDelay d m))"
| "station_step opts (StDiscover i) (reg, m) = Some (reg, snd (mg_discoverRemoteEntity i m))"
| "station_step opts (StForget i) (reg, m) = Some (reg, snd (mg_forgetRemoteEntity i m))"
| "station_step opts (StSendAecpCommand p h) (reg, m) = Some (reg, snd (pi_sendAecpCommand reg p h m))"
| "station_step opts (StSendAecpResponse p) (reg, m) = Some (reg, snd (pi_sendAecpResponse reg p m))"
| "station_step opts (StSendAcmpCommand p h) (reg, m) = Some (reg, snd (mg_sendAcmpCommand p h m))"

primrec station_run :: "build_options \<Rightarrow> station_op list \<Rightarrow> station \<Rightarrow> station option" where
  "station_run opts [] st = Some st"
| "station_run opts (op # ops) st = Option.bind (station_step opts op st) (station_run opts ops)"

definition station_new :: "mac_address \<Rightarrow> store \<Rightarrow> world \<Rightarrow> station" where
  "station_new macAddress st w = ([], manager_new macAddress st (w\<lparr>w_trace := []\<rparr>))"

lemma station_run_rule:
  assumes "station_run opts ops st = Some st'" and "I st"
    and step: "\<And>op s s'. I s \<Longrightarrow> station_step opts op s = Some s' \<Longrightarrow> I s'"
  shows "I st'"
  using assms(1,2)
proof (induction ops arbitrary: st)
  case (Cons op ops)
  then obtain s where s: "station_step opts op st = Some s" "station_run opts ops s = Some st'"
    by (auto simp: bind_eq_Some_iff)
  show ?case by (rule Cons.IH [OF s(2) step [OF Cons.prems(2) s(1)]])
qed simp

section \<open>What a step does\<close>

text \<open>
  Every step is one of three kinds for the observers of the discovery: it changes no remote entity and
  emits no notification of one, or it is a step of the discovery whose events are then applied.  The
  local side changes with the registrations only.
\<close>

fun local_event :: "event \<Rightarrow> bool" where
  "local_event (OnRemoteEntityOnline en) = False"
| "local_event (OnRemoteEntityOffline i) = False"
| "local_event (OnRemoteEntityUpdated en) = False"
| "local_event ev = True"

lemma observe_local: "local_event ev \<Longrightarrow> observe ev f = Some f"
  by (cases ev) simp_all

lemma observe_all_local: "list_all local_event evs \<Longrightarrow> observe_all evs f = Some f"
  by (induction evs) (simp_all add: observe_local)

lemma command_event_local: "list_all command_event evs \<Longrightarrow> list_all local_event evs"
  by (induction evs) (auto elim: command_event.elims)

definition says :: "event list \<Rightarrow> world \<Rightarrow> bool" where
  "says tr w \<longleftrightarrow> (\<exists>evs. w_trace w = tr @ evs \<and> list_all local_event evs)"

lemma says_refl: "says (w_trace w) w"
  by (simp add: says_def)

lemma says_step: "says tr w \<Longrightarrow> w_trace w' = w_trace w @ evs \<Longrightarrow> list_all local_event evs \<Longrightarrow> says tr w'"
  by (auto simp: says_def)

lemma says_emit: "says tr w \<Longrightarrow> list_all local_event evs \<Longrightarrow> says tr (emit evs w)"
  by (auto intro: says_step)

lemma says_same: "says tr w \<Longrightarrow> w_trace w' = w_trace w \<Longrightarrow> says tr w'"
  by (simp add: says_def)

lemma says_trans: "says tr w \<Longrightarrow> says (w_trace w) w' \<Longrightarrow> says tr w'"
  by (auto simp: says_def)

lemma emits_says: "emits tr w \<Longrightarrow> says tr w"
  by (auto simp: emits_def says_def command_event_local)

lemma command_step_says: "says (w_trace w) (snd (command_step vud op (sm, w)))"
  by (intro emits_says command_step_emits emits_refl)


definition told_move :: "manager \<Rightarrow> manager \<Rightarrow> bool" where
  "told_move m m' \<longleftrightarrow> (discovery_ok (mg_discovery m) \<longrightarrow> discovery_ok (mg_discovery m')
     \<and> (\<exists>evs. w_trace (mg_world m') = w_trace (mg_world m) @ evs
          \<and> observe_all evs (known (mg_discovery m)) = Some (known (mg_discovery m'))))"

definition same_locals :: "manager \<Rightarrow> manager \<Rightarrow> bool" where
  "same_locals m m' \<longleftrightarrow> mg_localEntities m' = mg_localEntities m \<and> al_keys (mg_command m') = al_keys (mg_command m)
     \<and> (\<forall>e. getEntityID (mg_store m' e) = getEntityID (mg_store m e))"

lemma told_move_refl [simp]: "told_move m m"
  by (auto simp: told_move_def intro: exI [of _ "[]"])

lemma told_move_trans: "told_move m m1 \<Longrightarrow> told_move m1 m2 \<Longrightarrow> told_move m m2"
  by (fastforce simp: told_move_def observe_all_append)

text \<open>Nothing happens to the remote entities.\<close>

definition hushed :: "manager \<Rightarrow> manager \<Rightarrow> bool" where
  "hushed m m' \<longleftrightarrow> ds_entities (mg_discovery m') = ds_entities (mg_discovery m)
     \<and> says (w_trace (mg_world m)) (mg_world m')"

lemma hushed_refl [simp]: "hushed m m"
  by (simp add: hushed_def says_refl)

lemma hushedI:
  "ds_entities (mg_discovery m') = ds_entities (mg_discovery m) \<Longrightarrow> says (w_trace (mg_world m)) (mg_world m') \<Longrightarrow>
     hushed m m'"
  by (simp add: hushed_def)

lemma hushed_trans: "hushed m m1 \<Longrightarrow> hushed m1 m2 \<Longrightarrow> hushed m m2"
  by (auto simp: hushed_def intro: says_trans)

lemma told_move_hushed: "hushed m m' \<Longrightarrow> told_move m m'"
  by (auto simp: hushed_def told_move_def discovery_ok_def known_def says_def observe_all_local)

lemma same_locals_refl [simp]: "same_locals m m"
  by (simp add: same_locals_def)

lemma same_locals_trans: "same_locals m m1 \<Longrightarrow> same_locals m1 m2 \<Longrightarrow> same_locals m m2"
  by (simp add: same_locals_def)

lemma same_locals_same:
  "mg_localEntities m' = mg_localEntities m \<Longrightarrow> al_keys (mg_command m') = al_keys (mg_command m) \<Longrightarrow>
     mg_store m' = mg_store m \<Longrightarrow> same_locals m m'"
  by (simp add: same_locals_def)

text \<open>The events of a step of the discovery, applied.\<close>

lemma notify_delegate_simps [simp]:
  "w_trace (mg_world (notify_delegate ev m)) = w_trace (mg_world m) @ [ev]"
  "mg_discovery (notify_delegate ev m) = mg_discovery m"
  "mg_localEntities (notify_delegate ev m) = mg_localEntities m"
  "mg_store (notify_delegate ev m) = mg_store m"
  "mg_advertise (notify_delegate ev m) = mg_advertise m"
  "al_keys (mg_command (notify_delegate ev m)) = al_keys (mg_command m)"
  by (cases ev; simp add: notify_delegate_def onRemoteEntityOffline_def discard_moves(4) Let_def)+

lemma notify_all_simps [simp]:
  "w_trace (mg_world (notify_all evs m)) = w_trace (mg_world m) @ evs"
  "mg_discovery (notify_all evs m) = mg_discovery m"
  "mg_localEntities (notify_all evs m) = mg_localEntities m"
  "mg_store (notify_all evs m) = mg_store m"
  "mg_advertise (notify_all evs m) = mg_advertise m"
  "al_keys (mg_command (notify_all evs m)) = al_keys (mg_command m)"
  by (induction evs arbitrary: m) (simp_all add: notify_all_def)

section \<open>The parts, one by one\<close>

lemma says_send: "says tr w \<Longrightarrow> says tr (snd (sendMessage p w))"
  by (erule says_step) (rule sendMessage_simps(2), simp)

lemma random_trace: "computeRandomDelay en i w = Some (n, w') \<Longrightarrow> w_trace w' = w_trace w"
  by (auto simp: computeRandomDelay_def rand_def bind_eq_Some_iff Let_def split: if_splits)

lemma next_trace: "computeNextAdvertiseTime en i w = Some (n, w') \<Longrightarrow> w_trace w' = w_trace w"
  by (auto simp: computeNextAdvertiseTime_def system_now_def bind_eq_Some_iff Let_def dest!: random_trace)

lemma delayed_trace: "computeDelayedAdvertiseTime en i w = Some (n, w') \<Longrightarrow> w_trace w' = w_trace w"
  by (auto simp: computeDelayedAdvertiseTime_def system_now_def bind_eq_Some_iff Let_def dest!: random_trace)

lemma needs_advertise_trace:
  "setEntityNeedsAdvertise addr e av st w = Some (av', w') \<Longrightarrow> w_trace w' = w_trace w"
  by (auto simp: setEntityNeedsAdvertise_def bind_eq_Some_iff dest: delayed_trace split: option.splits)

lemma reschedule_trace: "reschedule_targets i av st w = Some (av', w') \<Longrightarrow> w_trace w' = w_trace w"
  by (induction av arbitrary: w av') (auto simp: bind_eq_Some_iff Let_def dest!: delayed_trace split: if_splits)

lemma disable_says: "says tr w \<Longrightarrow> says tr (snd (disableEntityAdvertising addr e av st w))"
  by (auto simp: disableEntityAdvertising_def says_send split: option.splits)

text \<open>An announcement sends at most a message and keeps the identifiers of the entities.\<close>

lemma check_announcement_does:
  assumes "check_announcement t ad st w = Some (ad', st', w')"
  shows "says tr w \<Longrightarrow> says tr w'" and "getEntityID (st' e) = getEntityID (st e)"
proof -
  have id: "getEntityID en' = getEntityID en" if "makeEntityAvailableMessage en i = Some (p, en')" for en i p en'
    using that by (auto simp: makeEntityAvailableMessage_def bind_eq_Some_iff Let_def getEntityID_def setInterfaceInformation_def)
  show "says tr w'" if "says tr w"
    using assms that says_send [OF that]
    by (auto simp: check_announcement_def split_beta bind_eq_Some_iff dest!: next_trace intro: says_same
        split: if_splits option.splits)
  show "getEntityID (st' e) = getEntityID (st e)"
    using assms by (auto simp: check_announcement_def split_beta bind_eq_Some_iff dest!: id split: if_splits option.splits)
qed

lemma check_announcements_does:
  assumes "check_announcements t av st w = Some (av', st', w')"
  shows "(says tr w \<longrightarrow> says tr w') \<and> getEntityID (st' e) = getEntityID (st e)"
  using assms
proof (induction av arbitrary: av' st w)
  case (Cons x av)
  then obtain ad st1 w1 av1 where *: "check_announcement t (snd x) st w = Some (ad, st1, w1)"
    "check_announcements t av st1 w1 = Some (av1, st', w')"
    by (auto simp: bind_eq_Some_iff)
  show ?case using Cons.IH [OF *(2)] check_announcement_does [OF *(1)] by auto
qed auto

section \<open>The operations of the manager\<close>

definition quiet_move :: "manager \<Rightarrow> manager \<Rightarrow> bool" where
  "quiet_move m m' \<longleftrightarrow> hushed m m' \<and> same_locals m m'"

lemma quiet_trans: "quiet_move m m1 \<Longrightarrow> quiet_move m1 m2 \<Longrightarrow> quiet_move m m2"
  using hushed_trans same_locals_trans by (auto simp: quiet_move_def)

lemma quiet_refl [simp]: "quiet_move m m"
  by (simp add: quiet_move_def)

lemma quiet_moveI:
  assumes "ds_entities (mg_discovery m') = ds_entities (mg_discovery m)" and "says (w_trace (mg_world m)) (mg_world m')"
    and "mg_localEntities m' = mg_localEntities m" and "al_keys (mg_command m') = al_keys (mg_command m)"
    and "\<And>e. getEntityID (mg_store m' e) = getEntityID (mg_store m e)"
  shows "quiet_move m m'"
  using assms by (auto simp: quiet_move_def hushed_def same_locals_def)

text \<open>A quiet move, then a step of the discovery, whose notifications come last.\<close>

definition moves :: "manager \<Rightarrow> manager \<Rightarrow> bool" where
  "moves m m' \<longleftrightarrow> (\<exists>m1 ds w evs. quiet_move m m1 \<and> m' = notify_all evs (m1\<lparr>mg_discovery := ds, mg_world := w\<rparr>)
     \<and> (discovery_ok (mg_discovery m1) \<longrightarrow>
          discovery_ok ds \<and> observe_all evs (known (mg_discovery m1)) = Some (known ds) \<and> w_trace w = w_trace (mg_world m1)))"

lemma quiet_moves: "quiet_move m m' \<Longrightarrow> moves m m'"
  unfolding moves_def
  by (rule exI [of _ m'], rule exI [of _ "mg_discovery m'"], rule exI [of _ "mg_world m'"], rule exI [of _ "[]"])
     (simp add: notify_all_def)

lemma moves_refl [simp]: "moves m m"
  by (simp add: quiet_moves)

lemma moves_after_quiet: "quiet_move m m1 \<Longrightarrow> moves m1 m2 \<Longrightarrow> moves m m2"
  unfolding moves_def using quiet_trans by blast

lemma moves_notify:
  assumes "discovery_ok (mg_discovery m) \<Longrightarrow>
      discovery_ok ds \<and> observe_all evs (known (mg_discovery m)) = Some (known ds) \<and> w_trace w = w_trace (mg_world m)"
  shows "moves m (notify_all evs (m\<lparr>mg_discovery := ds, mg_world := w\<rparr>))"
  unfolding moves_def using assms by (intro exI [of _ m] exI [of _ ds] exI [of _ w] exI [of _ evs]) simp

lemma moves_told:
  assumes "moves m m'"
  shows "told_move m m'"
proof -
  obtain m1 ds w evs where m1: "quiet_move m m1" "m' = notify_all evs (m1\<lparr>mg_discovery := ds, mg_world := w\<rparr>)"
    "discovery_ok (mg_discovery m1) \<Longrightarrow> discovery_ok ds \<and> observe_all evs (known (mg_discovery m1)) = Some (known ds)
       \<and> w_trace w = w_trace (mg_world m1)"
    using assms unfolding moves_def by blast
  have "told_move m m1" using m1(1) by (simp add: quiet_move_def told_move_hushed)
  moreover have "told_move m1 m'" using m1(2,3) by (auto simp: told_move_def)
  ultimately show ?thesis by (rule told_move_trans)
qed

lemma moves_locals: "moves m m' \<Longrightarrow> same_locals m m'"
  unfolding moves_def quiet_move_def by (auto elim!: same_locals_trans intro!: same_locals_same)

lemma quiet_set_entity:
  "getEntityID en = getEntityID (mg_store m e) \<Longrightarrow> quiet_move m (set_entity e en m)"
  by (rule quiet_moveI) (auto simp: set_entity_def says_refl)

lemma quiet_needs_advertise: "mg_setEntityNeedsAdvertise e m = Some (err, m') \<Longrightarrow> quiet_move m m'"
  by (rule quiet_moveI)
     (auto simp: mg_setEntityNeedsAdvertise_def bind_eq_Some_iff dest!: needs_advertise_trace intro: says_same says_refl)

lemma quiet_enable: "quiet_move m (snd (mg_enableEntityAdvertising e m))"
  by (rule quiet_moveI) (auto simp: mg_enableEntityAdvertising_def says_refl)

lemma quiet_disable: "quiet_move m (snd (mg_disableEntityAdvertising e m))"
  by (rule quiet_moveI) (auto simp: mg_disableEntityAdvertising_def split_beta says_refl disable_says)

lemma quiet_le_changed:
  assumes "le_changed e en m = Some (b, m')" and "\<And>x. en = Some x \<Longrightarrow> getEntityID x = getEntityID (mg_store m e)"
  shows "quiet_move m m'"
proof (cases en)
  case (Some x)
  then obtain err where "mg_setEntityNeedsAdvertise e (set_entity e x m) = Some (err, m')"
    using assms(1) by (auto simp: le_changed_def)
  then show ?thesis
    using quiet_trans [OF quiet_set_entity quiet_needs_advertise] assms(2) Some by blast
qed (use assms in \<open>simp add: le_changed_def\<close>)

lemma setters_keep_id:
  "getEntityID (setEntityCapabilities c en) = getEntityID en"
  "getEntityID (setAssociationID a en) = getEntityID en"
  "setValidTime v i en = Some en' \<Longrightarrow> getEntityID en' = getEntityID en"
  "setGptpGrandmasterID g j en = Some en' \<Longrightarrow> getEntityID en' = getEntityID en"
  "setGptpDomainNumber n j en = Some en' \<Longrightarrow> getEntityID en' = getEntityID en"
  by (auto simp: setEntityCapabilities_def setAssociationID_def setValidTime_def setGptpGrandmasterID_def
      setGptpDomainNumber_def getEntityID_def setInterfaceInformation_def Let_def split: option.splits)

lemma quiet_le_enable: "le_enableEntityAdvertising d i e m = Some (b, m') \<Longrightarrow> quiet_move m m'"
  unfolding le_enableEntityAdvertising_def Let_def
  by (auto simp: split_beta intro!: quiet_trans [OF quiet_set_entity quiet_enable] dest: setters_keep_id(3))

lemma quiet_announcements: "mg_checkLocalEntitiesAnnouncement m = Some m' \<Longrightarrow> quiet_move m m'"
proof -
  assume "mg_checkLocalEntitiesAnnouncement m = Some m'"
  then obtain av st w where c: "checkLocalEntitiesAnnouncement (mg_advertise m) (mg_store m) (mg_world m) = Some (av, st, w)"
    and m': "m' = m\<lparr>mg_advertise := av, mg_store := st, mg_world := w\<rparr>"
    by (auto simp: mg_checkLocalEntitiesAnnouncement_def bind_eq_Some_iff)
  from c have c': "check_announcements (fst (system_now (mg_world m))) (mg_advertise m) (mg_store m)
      (snd (system_now (mg_world m))) = Some (av, st, w)"
    by (simp add: checkLocalEntitiesAnnouncement_def split_beta)
  have "says (w_trace (mg_world m)) (snd (system_now (mg_world m)))"
    by (rule says_same [OF says_refl]) simp
  then show ?thesis
    using check_announcements_does [OF c'] by (intro quiet_moveI) (auto simp: m')
qed

lemma says_discover:
  "discoverRemoteEntity addr i ds w = (err, ds', w') \<Longrightarrow>
     ds_entities ds' = ds_entities ds \<and> (says tr w \<longrightarrow> says tr w')"
  by (auto simp: discoverRemoteEntity_def discoverMessageSent_def now_def split_beta Let_def
      dest: says_send intro: says_same split: if_splits)

lemma quiet_discover: "quiet_move m (snd (mg_discoverRemoteEntity i m))"
proof -
  obtain err ds w where d: "discoverRemoteEntity (mg_macAddress m) i (mg_discovery m) (mg_world m) = (err, ds, w)"
    by (metis prod_cases3)
  then show ?thesis
    using says_discover [OF d, of "w_trace (mg_world m)"]
    by (intro quiet_moveI) (auto simp: mg_discoverRemoteEntity_def says_refl)
qed

lemma quiet_checkDiscovery: "quiet_move m (mg_checkDiscovery m)"
proof -
  obtain ds w where d: "checkDiscovery (mg_macAddress m) (mg_discovery m) (mg_world m) = (ds, w)" by fastforce
  have "ds_entities ds = ds_entities (mg_discovery m) \<and> says (w_trace (mg_world m)) w"
    using d says_refl [of "mg_world m"]
      says_discover [of "mg_macAddress m" uid_null "(mg_discovery m)\<lparr>ds_lastDiscovery := fst (now (mg_world m))\<rparr>"
        "snd (now (mg_world m))" _ ds w "w_trace (mg_world m)"]
    by (auto simp: checkDiscovery_def split_beta says_same [OF says_refl] prod_eq_iff split: if_splits)
  then show ?thesis
    by (intro quiet_moveI) (auto simp: mg_checkDiscovery_def d)
qed

lemma quiet_delay: "quiet_move m (snd (mg_setAutomaticDiscoveryDelay d m))"
  by (rule quiet_moveI)
     (auto simp: mg_setAutomaticDiscoveryDelay_def setDiscoveryDelay_def now_def intro: says_same says_refl)

lemma moves_remotes: "moves m (mg_checkRemoteEntities m)"
proof -
  obtain ds evs w where c: "checkRemoteEntitiesTimeoutExpiracy (mg_discovery m) (mg_world m) = (ds, evs, w)"
    by (metis prod_cases3)
  show ?thesis
    using check_all_observed [OF c] by (auto simp: mg_checkRemoteEntities_def c intro: moves_notify)
qed

lemma moves_forget: "moves m (snd (mg_forgetRemoteEntity i m))"
proof -
  obtain err ds evs where c: "forgetRemoteEntity i (mg_discovery m) = (err, ds, evs)" by (metis prod_cases3)
  have "moves m (notify_all evs (m\<lparr>mg_discovery := ds, mg_world := mg_world m\<rparr>))"
    using forget_observed [OF c] by (intro moves_notify) auto
  then show ?thesis by (simp add: mg_forgetRemoteEntity_def c)
qed

text \<open>The command state machine: only the registrations change its entities.\<close>

fun registers :: "command_op \<Rightarrow> bool" where
  "registers (RegisterEntity i) = True"
| "registers (UnregisterEntity i) = True"
| "registers op = False"

lemma al_keys_put_present: "al_get k es = Some v \<Longrightarrow> al_keys (al_put k v' es) = al_keys es"
  by (metis al_get_None_iff al_keys_put option.distinct(1))

lemma command_step_keys:
  assumes "command_step vud op (sm, w) = (sm', w')" and "\<not> registers op"
  shows "al_keys sm' = al_keys sm"
proof (cases op)
  case CheckTimeouts
  then show ?thesis
    using assms check_entities_keys [of vud "fst (now w)" sm "snd (now w)" sm' w']
    by (simp add: checkInflightCommandsTimeoutExpiracy_def split_beta)
next
  case (AecpResponse p)
  then show ?thesis
    using assms by (auto simp: handleAecpResponse_def split_beta Let_def al_keys_put_present split: option.splits if_splits)
next
  case (AcmpResponse p)
  then show ?thesis
    using assms by (auto simp: handleAcmpResponse_def split_beta Let_def al_keys_put_present split: option.splits if_splits)
qed (use assms in \<open>auto simp: sendAecpCommand_def sendAcmpCommand_def split_beta Let_def al_keys_put_present discard_moves(4)
       split: option.splits\<close>)

lemma quiet_command:
  assumes c: "command_step vud op (mg_command m, mg_world m) = (csm, w)" and "\<not> registers op"
  shows "quiet_move m (m\<lparr>mg_command := csm, mg_world := w\<rparr>)"
  using command_step_says [of "mg_world m" vud op "mg_command m"] command_step_keys [OF c assms(2)] c
  by (intro quiet_moveI) simp_all

lemma quiet_timeouts: "quiet_move m (mg_checkInflightCommands vud m)"
  using quiet_command [of vud CheckTimeouts m] by (simp add: mg_checkInflightCommands_def split_beta)

lemma quiet_acmp_command: "quiet_move m (snd (mg_sendAcmpCommand p h m))"
  using quiet_command [of vud "SendAcmp p h" m] by (simp add: mg_sendAcmpCommand_def split_beta)

lemma quiet_aecp_command: "quiet_move m (snd (pi_sendAecpCommand reg p h m))"
  using quiet_command [of "registry_delegates reg" "SendAecp p h" m]
  by (simp add: pi_sendAecpCommand_def mg_sendAecpCommand_def split_beta)

lemma quiet_send: "quiet_move m (m\<lparr>mg_world := snd (sendMessage p (mg_world m))\<rparr>)"
  by (rule quiet_moveI) (simp_all add: says_send says_refl)

lemma quiet_aecp_response: "quiet_move m (snd (pi_sendAecpResponse reg p m))"
  by (simp add: pi_sendAecpResponse_def split_beta quiet_send)

section \<open>Packets\<close>

lemma quiet_emit: "list_all local_event evs \<Longrightarrow> quiet_move m (m\<lparr>mg_world := emit evs (mg_world m)\<rparr>)"
  by (rule quiet_moveI) (simp_all add: says_emit says_refl)

lemma quiet_received: "list_all local_event evs \<Longrightarrow> quiet_move m (received evs m)"
  by (simp add: received_def quiet_emit)

lemma moves_processAdpdu:
  assumes "processAdpdu p m = Some m'"
  shows "moves m m'"
proof -
  obtain ds evs w where a: "handleAdpEntityAvailable (isLocalEntity m) p (mg_discovery m) (mg_world m) = (ds, evs, w)"
    by (metis prod_cases3)
  have "moves m (notify_all evs (m\<lparr>mg_discovery := ds, mg_world := w\<rparr>))"
    using available_observed [OF a] by (intro moves_notify) auto
  moreover obtain ds' evs' where d: "handleAdpEntityDeparting (isLocalEntity m) p (mg_discovery m) = (ds', evs')"
    by fastforce
  moreover have "moves m (notify_all evs' (m\<lparr>mg_discovery := ds'\<rparr>))"
  proof -
    have "discovery_ok (mg_discovery m) \<Longrightarrow>
        discovery_ok ds' \<and> observe_all evs' (known (mg_discovery m)) = Some (known ds')"
      using d forget_observed [of "m_streamID p" "mg_discovery m"]
      by (cases "forgetRemoteEntity (m_streamID p) (mg_discovery m)")
         (auto simp: handleAdpEntityDeparting_def split: if_splits)
    then have "moves m (notify_all evs' (m\<lparr>mg_discovery := ds', mg_world := mg_world m\<rparr>))"
      by (intro moves_notify) auto
    then show ?thesis by simp
  qed
  moreover have "quiet_move m (m\<lparr>mg_advertise := av, mg_world := w'\<rparr>)"
    if "handleAdpEntityDiscover p (mg_advertise m) (mg_store m) (mg_world m) = Some (av, w')" for av w'
    using that by (intro quiet_moveI)
      (auto simp: handleAdpEntityDiscover_def dest: reschedule_trace intro: says_same says_refl split: if_splits)
  ultimately show ?thesis
    using assms a quiet_moves by (auto simp: processAdpdu_def bind_eq_Some_iff split: if_splits)
qed

lemma quiet_processAecpdu: "quiet_move m (processAecpdu vud p m)"
  using quiet_command [of vud "AecpResponse p" m] by (auto simp: processAecpdu_def split_beta quiet_emit)

lemma quiet_processAcmpdu: "quiet_move m (processAcmpdu p m)"
proof -
  let ?r = "handleAcmpResponse p (mg_command m) (mg_world m)"
  have "quiet_move m (m\<lparr>mg_command := fst ?r, mg_world := snd ?r\<rparr>)"
    using quiet_command [of vud "AcmpResponse p" m] by simp
  moreover have "quiet_move (m\<lparr>mg_command := fst ?r, mg_world := snd ?r\<rparr>)
      (m\<lparr>mg_command := fst ?r, mg_world := emit [OnAcmpResponse p] (snd ?r)\<rparr>)"
    using quiet_emit [of "[OnAcmpResponse p]" "m\<lparr>mg_command := fst ?r, mg_world := snd ?r\<rparr>"] by simp
  ultimately show ?thesis
    using quiet_trans by (auto simp: processAcmpdu_def split_beta quiet_emit)
qed

lemma moves_dispatch: "dispatchAvdeccMessage opts reg beyond pkt ether m = Some m' \<Longrightarrow> moves m m'"
  by (auto simp: dispatchAvdeccMessage_def dispatch_adp_def dispatch_aecp_def dispatch_acmp_def Let_def
      intro!: quiet_moves quiet_received quiet_trans [OF quiet_received quiet_processAecpdu]
        quiet_trans [OF quiet_received quiet_processAcmpdu]
      dest!: moves_processAdpdu elim!: moves_after_quiet [OF quiet_received, rotated]
      split: if_splits option.splits aecp_route.splits)

lemma moves_packet: "processRawPacket opts reg beyond msg m = Some m' \<Longrightarrow> moves m m'"
  by (auto simp: processRawPacket_def Let_def dest: moves_dispatch split: if_splits option.splits)

section \<open>Registrations\<close>

text \<open>
  The local entities of an interface: no two have the same identifier, each is registered under its own,
  and the command state machine knows the same ones.
\<close>

definition locals_ok :: "manager \<Rightarrow> bool" where
  "locals_ok m \<longleftrightarrow> sorted_wrt (\<lambda>x y. \<not> uid_eq (fst x) (fst y)) (mg_localEntities m)
     \<and> (\<forall>x\<in>set (mg_localEntities m). getEntityID (mg_store m (snd x)) = fst x)
     \<and> al_ok (mg_command m) \<and> (\<forall>i. al_get i (mg_command m) = None \<longleftrightarrow> al_get i (mg_localEntities m) = None)"

lemma same_locals_ok: "same_locals m m' \<Longrightarrow> locals_ok m \<Longrightarrow> locals_ok m'"
  by (simp add: locals_ok_def same_locals_def al_ok_def al_get_None_iff del: set_map)

lemma locals_ok_notify: "locals_ok m \<Longrightarrow> locals_ok (notify_delegate ev m)"
  by (rule same_locals_ok [OF same_locals_same]) simp_all

lemma locals_ok_quiet: "quiet_move m m' \<Longrightarrow> locals_ok m \<Longrightarrow> locals_ok m'"
  unfolding quiet_move_def by (blast intro: same_locals_ok)

lemma sorted_wrt_al_put:
  "\<forall>x\<in>set es. \<not> uid_eq (fst x) k \<Longrightarrow> sorted_wrt (\<lambda>x y. \<not> uid_eq (fst x) (fst y)) es \<Longrightarrow>
     sorted_wrt (\<lambda>x y. \<not> uid_eq (fst x) (fst y)) (al_put k v es)"
proof (induction es)
  case (Cons x es)
  moreover have "\<not> uid_eq (fst x) (fst y)" if "y \<in> set (al_put k v es)" for y
    using Cons.prems al_put_all [of es "\<lambda>i w. \<not> uid_eq (fst x) i" k v] that by auto
  ultimately show ?case by (auto simp: uid_eq_equiv(1))
qed simp

lemma sorted_wrt_al_del: "sorted_wrt R es \<Longrightarrow> sorted_wrt R (al_del k es)"
  by (simp add: al_del_def sorted_wrt_filter)

lemma distinct_uids_al_ok: "sorted_wrt (\<lambda>x y. \<not> uid_eq (fst x) (fst y)) es \<Longrightarrow> al_ok es"
  by (induction es) (auto simp: al_ok_def uid_eq_equiv(1))

lemma register_keeps:
  assumes "registerLocalEntity e m = (err, m')"
  shows "hushed m m'" and "locals_ok m \<Longrightarrow> locals_ok m'"
proof -
  let ?id = "getEntityID (mg_store m e)" and ?dup = "list_ex (\<lambda>x. uid_eq (getEntityID (mg_store m e)) (fst x)) (mg_localEntities m)"
  let ?m = "m\<lparr>mg_localEntities := al_put ?id e (mg_localEntities m), mg_command := command_registerLocalEntity ?id (mg_command m)\<rparr>"
  have m': "m' = (if ?dup then m else notify_delegate (OnLocalEntityOnline (mg_store m e)) ?m)"
    using assms by (auto simp: registerLocalEntity_def Let_def split: if_splits)
  have "hushed m (notify_delegate (OnLocalEntityOnline (mg_store m e)) ?m)"
    by (rule hushedI) (auto intro: says_step [OF says_refl])
  then show "hushed m m'" by (simp add: m')
  show "locals_ok m'" if ok: "locals_ok m"
  proof (cases ?dup)
    case False
    then have fresh: "\<forall>x\<in>set (mg_localEntities m). \<not> uid_eq (fst x) ?id"
      using uid_eq_equiv(2) by (auto simp: list_ex_iff)
    have absent: "al_get ?id (mg_localEntities m) = None"
      using fresh by (auto simp: al_get_None_iff uid_eq_equiv(1))
    then have cmd: "al_get ?id (mg_command m) = None"
      using ok by (simp add: locals_ok_def)
    have "locals_ok ?m"
      using ok sorted_wrt_al_put [OF fresh] al_put_all [of "mg_localEntities m" "\<lambda>i e. getEntityID (mg_store m e) = i" ?id e]
      by (auto simp: locals_ok_def command_registerLocalEntity_def cmd)
    then show ?thesis
      using False locals_ok_notify by (simp add: m')
  qed (simp add: m' ok)
qed

lemma remove_local_entity_does:
  "remove_local_entity e xs m = (ys, removed, m') \<Longrightarrow>
     ys = filter (\<lambda>x. snd x \<noteq> e) xs \<and> removed = (\<exists>x\<in>set xs. snd x = e) \<and> quiet_move m m'"
proof (induction xs arbitrary: m ys removed m')
  case (Cons x xs)
  let ?m = "if snd x = e then snd (mg_disableEntityAdvertising e m) else m"
  obtain zs r m1 where r: "remove_local_entity e xs ?m = (zs, r, m1)" by (metis prod_cases3)
  have "quiet_move m ?m" using quiet_disable by simp
  then show ?case
    using Cons.IH [OF r] Cons.prems r quiet_trans [of m ?m m1] by (auto split: if_splits)
qed simp

lemma unregister_keeps:
  assumes "unregisterLocalEntity e m = (err, m')"
  shows "hushed m m'" and "locals_ok m \<Longrightarrow> locals_ok m'"
proof -
  obtain ys removed m1 where r: "remove_local_entity e (mg_localEntities m) m = (ys, removed, m1)" by (metis prod_cases3)
  note does = remove_local_entity_does [OF r]
  let ?id = "getEntityID (mg_store m1 e)" and ?m1 = "m1\<lparr>mg_localEntities := ys\<rparr>"
  obtain csm w where c: "command_unregisterLocalEntity ?id (mg_command m1) (mg_world m1) = (csm, w)" by fastforce
  let ?m2 = "m1\<lparr>mg_localEntities := ys, mg_command := csm, mg_world := w\<rparr>"
  have m': "m' = (if removed then notify_delegate (OnLocalEntityOffline ?id) ?m2 else ?m1)"
    using assms r c by (auto simp: unregisterLocalEntity_def split: if_splits)
  have "says (w_trace (mg_world m1)) w"
    using command_step_says [of "mg_world m1" undefined "UnregisterEntity ?id" "mg_command m1"] c by simp
  then have "hushed m1 (notify_delegate (OnLocalEntityOffline ?id) ?m2)"
    by (intro hushedI) (auto intro: says_step)
  moreover have "hushed m1 ?m1"
    by (rule hushedI) (simp_all add: says_refl)
  ultimately have "hushed m1 m'"
    by (simp add: m')
  then show "hushed m m'"
    using does hushed_trans by (auto simp: quiet_move_def)
  assume "locals_ok m"
  then have ok: "locals_ok m1" and same: "mg_localEntities m1 = mg_localEntities m"
    using does locals_ok_quiet by (auto simp: quiet_move_def same_locals_def)
  have ys: "ys = filter (\<lambda>x. snd x \<noteq> e) (mg_localEntities m1)" and rem: "removed \<longleftrightarrow> (\<exists>x\<in>set (mg_localEntities m1). snd x = e)"
    using does by (simp_all add: same)
  show "locals_ok m'"
  proof (cases removed)
    case False
    then have "ys = mg_localEntities m1" using ys rem by (auto simp: filter_id_conv)
    then show ?thesis using ok False by (simp add: m' locals_ok_def)
  next
    case True
    then obtain x where x: "x \<in> set (mg_localEntities m1)" "snd x = e" using rem by blast
    have al: "al_ok (mg_localEntities m1)" and id: "\<forall>y\<in>set (mg_localEntities m1). getEntityID (mg_store m1 (snd y)) = fst y"
      using ok unfolding locals_ok_def by (blast intro: distinct_uids_al_ok)+
    have get: "al_get ?id (mg_localEntities m1) = Some e"
      using x id by (metis al al_get_iff prod.collapse)
    have "snd y \<noteq> e \<longleftrightarrow> fst y \<noteq> ?id" if "y \<in> set (mg_localEntities m1)" for y
    proof -
      have "al_get (fst y) (mg_localEntities m1) = Some (snd y)"
        using that al by (metis al_get_iff prod.collapse)
      then show ?thesis using get id [rule_format, OF that] by (metis option.inject)
    qed
    then have ys': "ys = al_del ?id (mg_localEntities m1)"
      unfolding ys al_del_def by (rule filter_cong [OF refl])
    have "csm = al_del ?id (mg_command m1)"
      using c by (auto simp: command_unregisterLocalEntity_def al_get_None_iff al_del_absent split: option.splits)
    then have "locals_ok ?m2"
      using ok by (auto simp: locals_ok_def ys' sorted_wrt_al_del)
    then show ?thesis
      using True locals_ok_notify by (simp add: m')
  qed
qed

lemma construct_keeps:
  assumes "le_construct e reg m = Some (reg', m')"
  shows "hushed m m'" and "locals_ok m \<Longrightarrow> locals_ok m'"
proof -
  obtain err where r: "pi_registerLocalEntity e m = (err, m')"
    using assms by (auto simp: le_construct_def Let_def split: prod.splits if_splits)
  then show "hushed m m'" "locals_ok m \<Longrightarrow> locals_ok m'"
    using register_keeps [of e m err m'] by (auto simp: pi_registerLocalEntity_def split: if_splits)
qed

lemma shutdown_keeps:
  assumes "le_shutdown e reg m = (reg', m')"
  shows "hushed m m'" and "locals_ok m \<Longrightarrow> locals_ok m'"
proof -
  let ?m = "le_disableEntityAdvertising e m"
  obtain err where u: "unregisterLocalEntity e ?m = (err, m')"
    using assms by (auto simp: le_shutdown_def prod_eq_iff)
  have "quiet_move m ?m" by (simp add: le_disableEntityAdvertising_def quiet_disable)
  then show "hushed m m'" "locals_ok m \<Longrightarrow> locals_ok m'"
    using unregister_keeps [OF u] hushed_trans locals_ok_quiet by (auto simp: quiet_move_def)
qed

section \<open>Every step\<close>

lemma quiet_setters:
  "le_setEntityCapabilities c e m = Some (b, m') \<Longrightarrow> quiet_move m m'"
  "le_setAssociationID a e m = Some (b, m') \<Longrightarrow> quiet_move m m'"
  "le_setValidTime v j e m = Some (b, m') \<Longrightarrow> quiet_move m m'"
  "le_setGptpGrandmasterID g i e m = Some (b, m') \<Longrightarrow> quiet_move m m'"
  "le_setGptpDomainNumber n i e m = Some (b, m') \<Longrightarrow> quiet_move m m'"
  unfolding le_setEntityCapabilities_def le_setAssociationID_def le_setValidTime_def le_setGptpGrandmasterID_def
    le_setGptpDomainNumber_def
  by (erule quiet_le_changed; auto dest: setters_keep_id(3-5) simp: setters_keep_id(1,2))+

lemma station_step_cases:
  assumes "station_step opts op (reg, m) = Some (reg', m')"
  shows "moves m m' \<or> hushed m m' \<and> (locals_ok m \<longrightarrow> locals_ok m')"
proof (cases op)
  case (StConstruct e)
  then show ?thesis
    using assms construct_keeps [of e reg m] by (auto split: option.splits)
next
  case (StShutdown e)
  then show ?thesis
    using assms shutdown_keeps [of e reg m] by auto
qed (use assms in \<open>auto simp: keep_registry_def le_disableEntityAdvertising_def
      intro: quiet_moves quiet_disable quiet_setters quiet_le_enable moves_packet quiet_announcements
        quiet_checkDiscovery moves_remotes quiet_timeouts quiet_delay quiet_discover moves_forget
        quiet_aecp_command quiet_aecp_response quiet_acmp_command\<close>)

lemma station_step_keeps:
  assumes "station_step opts op (reg, m) = Some (reg', m')"
  shows "told_move m m'" and "locals_ok m \<Longrightarrow> locals_ok m'"
  using station_step_cases [OF assms] moves_told told_move_hushed same_locals_ok [OF moves_locals] by blast+

end
