(* ===== verification/StationRuns.thy ===== *)
theory StationRuns
  imports Station
begin

text \<open>
  Properties of the runs of a station: its observers, its local entities, the end of a remote entity and
  the absence of failures.
\<close>

section \<open>Steps that never fail\<close>

text \<open>
  A local entity whose interfaces have valid times of at least 1, as its constructor's arguments have and
  \<^verbatim>\<open>setValidTime\<close> keeps: no operation gives it or takes from it an interface.
\<close>

definition entity_ok :: "entity \<Rightarrow> bool" where
  "entity_ok en \<longleftrightarrow> om_ok (en_interfaces en) \<and> (\<forall>x\<in>set (en_interfaces en). ii_validTime (snd x) \<noteq> 0)"

definition entity_step :: "entity \<Rightarrow> entity \<Rightarrow> bool" where
  "entity_step en en' \<longleftrightarrow> (entity_ok en \<longrightarrow> entity_ok en') \<and> al_keys (en_interfaces en') = al_keys (en_interfaces en)"

lemma entity_step_refl [simp]: "entity_step en en"
  by (simp add: entity_step_def)

lemma entity_step_trans: "entity_step en en1 \<Longrightarrow> entity_step en1 en2 \<Longrightarrow> entity_step en en2"
  by (simp add: entity_step_def)

lemma om_keys_put_present: "al_get k es = Some v \<Longrightarrow> om_ok es \<Longrightarrow> al_keys (om_put k v' es) = al_keys es"
  by (induction es) (force simp: om_ok_def dest: al_get_in_set)+

lemma entity_step_set:
  assumes "getInterfaceInformation i en = Some info" and "ii_validTime info \<noteq> 0 \<Longrightarrow> ii_validTime info' \<noteq> 0"
    and "om_ok (en_interfaces en)"
  shows "entity_step en (setInterfaceInformation i info' en)"
  using assms al_get_in_set [of i "en_interfaces en" info]
  by (auto simp: entity_step_def entity_ok_def getInterfaceInformation_def setInterfaceInformation_def
      om_keys_put_present simp del: set_map dest!: om_put_set)

lemma entity_step_valid_time:
  assumes "setValidTime v i en = Some en'" and "om_ok (en_interfaces en)"
  shows "entity_step en en'"
proof -
  have nz: "min 31 (max 1 v) \<noteq> 0" by (auto simp: min_def max_def)
  show ?thesis
  proof (cases i)
    case None
    then have "al_keys (en_interfaces en') = al_keys (en_interfaces en)"
      "\<forall>x\<in>set (en_interfaces en'). ii_validTime (snd x) = min 31 (max 1 v)"
      using assms(1) by (auto simp: setValidTime_def Let_def)
    then show ?thesis using nz by (simp add: entity_step_def entity_ok_def om_ok_def)
  qed (use assms nz in \<open>auto simp: setValidTime_def Let_def intro!: entity_step_set\<close>)
qed

lemma entity_step_setters:
  "entity_step en (setEntityCapabilities c en)"
  "entity_step en (setAssociationID a en)"
  "om_ok (en_interfaces en) \<Longrightarrow> setGptpGrandmasterID g j en = Some en' \<Longrightarrow> entity_step en en'"
  "om_ok (en_interfaces en) \<Longrightarrow> setGptpDomainNumber n j en = Some en' \<Longrightarrow> entity_step en en'"
  by (auto simp: setEntityCapabilities_def setAssociationID_def entity_step_def entity_ok_def)[2]
     (auto simp: setGptpGrandmasterID_def setGptpDomainNumber_def intro!: entity_step_set)

lemma entity_step_announce:
  "makeEntityAvailableMessage en i = Some (p, en') \<Longrightarrow> om_ok (en_interfaces en) \<Longrightarrow> entity_step en en'"
  by (auto simp: makeEntityAvailableMessage_def bind_eq_Some_iff Let_def intro!: entity_step_set)

text \<open>A manager all of whose entities are such, and that advertises existing interfaces only.\<close>

definition has_interface :: "store \<Rightarrow> advertise_info \<Rightarrow> bool" where
  "has_interface st ad \<longleftrightarrow> ad_interfaceIndex ad \<in> set (al_keys (en_interfaces (st (ad_entity ad))))"

definition fits :: "store \<Rightarrow> manager \<Rightarrow> bool" where
  "fits st0 m \<longleftrightarrow> (\<forall>e. entity_ok (mg_store m e))
     \<and> (\<forall>e. al_keys (en_interfaces (mg_store m e)) = al_keys (en_interfaces (st0 e)))
     \<and> (\<forall>x\<in>set (mg_advertise m). has_interface st0 (snd x))"

lemma fitsD:
  assumes "fits st0 m"
  shows "entity_ok (mg_store m e)" and "om_ok (en_interfaces (mg_store m e))"
    and "i \<in> set (al_keys (en_interfaces (st0 e))) \<Longrightarrow> advertisable i (mg_store m e)"
    and "advertise_ok (mg_advertise m) (mg_store m)"
proof -
  show ok: "entity_ok (mg_store m e)" "om_ok (en_interfaces (mg_store m e))" for e
    using assms by (simp_all add: fits_def entity_ok_def)
  show adv: "advertisable i (mg_store m e)" if "i \<in> set (al_keys (en_interfaces (st0 e)))" for i e
  proof -
    have "i \<in> set (al_keys (en_interfaces (mg_store m e)))"
      using that assms by (simp only: fits_def)
    then obtain info where info: "al_get i (en_interfaces (mg_store m e)) = Some info"
      using al_get_None_iff by fast
    then have "ii_validTime info \<noteq> 0"
      using ok(1) [of e] al_get_in_set [OF info] by (force simp: entity_ok_def)
    then show ?thesis
      using ok(2) [of e] info by (simp add: advertisable_def getInterfaceInformation_def)
  qed
  show "advertise_ok (mg_advertise m) (mg_store m)"
    using assms adv by (auto simp: advertise_ok_def fits_def has_interface_def simp del: set_map)
qed

lemma fits_same: "fits st0 m \<Longrightarrow> mg_store m' = mg_store m \<Longrightarrow> mg_advertise m' = mg_advertise m \<Longrightarrow> fits st0 m'"
  by (simp add: fits_def)

lemma fits_set_entity: "fits st0 m \<Longrightarrow> entity_step (mg_store m e) en \<Longrightarrow> fits st0 (set_entity e en m)"
  by (simp add: fits_def set_entity_def entity_step_def)

lemma matching_interface:
  assumes "fits st0 m" and "getMatchingInterfaceIndex a (mg_store m e) = Some i"
  shows "i \<in> set (al_keys (en_interfaces (st0 e)))"
proof -
  obtain x where "find (\<lambda>x. ii_macAddress (snd x) = a) (en_interfaces (mg_store m e)) = Some x" "i = fst x"
    using assms(2) by (auto simp: getMatchingInterfaceIndex_def)
  then have "x \<in> set (en_interfaces (mg_store m e))" "i = fst x" by (auto simp: find_Some_iff)
  then have "i \<in> set (al_keys (en_interfaces (mg_store m e)))" by simp
  then show ?thesis using assms(1) by (simp only: fits_def)
qed

lemma fits_put: "fits st0 m \<Longrightarrow> has_interface st0 ad \<Longrightarrow> fits st0 (m\<lparr>mg_advertise := al_put k ad (mg_advertise m)\<rparr>)"
  using al_put_all [of "mg_advertise m" "\<lambda>i. has_interface st0" k ad] by (simp add: fits_def)

lemma fits_enable: "fits st0 m \<Longrightarrow> fits st0 (snd (mg_enableEntityAdvertising e m))"
  using matching_interface [of st0 m "mg_macAddress m" e]
  by (auto simp: mg_enableEntityAdvertising_def enableEntityAdvertising_def has_interface_def intro!: fits_put
      split: option.splits simp del: set_map)

lemma fits_disable: "fits st0 m \<Longrightarrow> fits st0 (snd (mg_disableEntityAdvertising e m))"
  by (auto simp: mg_disableEntityAdvertising_def disableEntityAdvertising_def fits_def split_beta split: option.splits)

lemma fits_needs_advertise:
  assumes fits: "fits st0 m"
  shows "\<exists>m'. mg_setEntityNeedsAdvertise e m = Some (NoError, m') \<and> fits st0 m'"
proof (cases "getMatchingInterfaceIndex (mg_macAddress m) (mg_store m e)")
  case i: (Some i)
  then have "advertisable i (mg_store m e)"
    using matching_interface [OF fits] fitsD(3) [OF fits] by blast
  then obtain n w where n: "computeDelayedAdvertiseTime (mg_store m e) i (mg_world m) = Some (n, w)"
    using computeDelayedAdvertiseTime_bound by blast
  let ?id = "getEntityID (mg_store m e)"
  have old: "has_interface st0 (ad\<lparr>ad_nextAdvertiseTime := n\<rparr>)" if "al_get ?id (mg_advertise m) = Some ad" for ad
    using fits al_get_in_set [OF that] unfolding fits_def has_interface_def by fastforce
  show ?thesis
  proof (cases "al_get ?id (mg_advertise m)")
    case None
    then show ?thesis
      using i fits by (simp add: mg_setEntityNeedsAdvertise_def setEntityNeedsAdvertise_def)
  next
    case (Some ad)
    then show ?thesis
      using i n fits_same [OF fits_put [OF fits old [OF Some]]]
      by (simp add: mg_setEntityNeedsAdvertise_def setEntityNeedsAdvertise_def)
  qed
qed (use fits in \<open>simp add: mg_setEntityNeedsAdvertise_def setEntityNeedsAdvertise_def\<close>)

lemma fits_le_changed:
  assumes "fits st0 m" and "\<And>x. en = Some x \<Longrightarrow> entity_step (mg_store m e) x"
  shows "\<exists>b m'. le_changed e en m = Some (b, m') \<and> fits st0 m'"
proof (cases en)
  case (Some x)
  then obtain m' where "mg_setEntityNeedsAdvertise e (set_entity e x m) = Some (NoError, m')" "fits st0 m'"
    using fits_needs_advertise [OF fits_set_entity [OF assms(1)]] assms(2) by blast
  then show ?thesis by (auto simp: le_changed_def Some)
qed (auto simp: le_changed_def assms(1))

lemma fits_enable_advertising:
  assumes fits: "fits st0 m" and "\<And>j. i = Some j \<Longrightarrow> getInterfaceInformation j (st0 e) \<noteq> None"
  shows "\<exists>b m'. le_enableEntityAdvertising d i e m = Some (b, m') \<and> fits st0 m'"
proof -
  let ?v = "ucast (d div 2)"
  have "setValidTime ?v i (mg_store m e) \<noteq> None"
  proof (cases i)
    case (Some j)
    then have "j \<in> set (al_keys (en_interfaces (mg_store m e)))"
      using assms(2) fits by (simp add: getInterfaceInformation_def al_get_None_iff fits_def del: set_map)
    then show ?thesis
      by (auto simp: setValidTime_def Let_def getInterfaceInformation_def al_get_None_iff Some)
  qed (simp add: setValidTime_def Let_def)
  then obtain en where en: "setValidTime ?v i (mg_store m e) = Some en" by blast
  then have "fits st0 (set_entity e en m)"
    by (intro fits_set_entity [OF fits] entity_step_valid_time fitsD(2) [OF fits])
  then show ?thesis
    using fits_enable by (auto simp: le_enableEntityAdvertising_def Let_def en split_beta)
qed

lemma check_announcement_steps:
  assumes "check_announcement t ad st w = Some (ad', st', w')" and "\<And>e. om_ok (en_interfaces (st e))"
  shows "entity_step (st e) (st' e)" and "ad_interfaceIndex ad' = ad_interfaceIndex ad" and "ad_entity ad' = ad_entity ad"
  using assms(1) entity_step_announce [OF _ assms(2)]
  by (auto simp: check_announcement_def split_beta bind_eq_Some_iff split: if_splits option.splits)

lemma check_announcements_steps:
  assumes "check_announcements t av st w = Some (av', st', w')" and "\<And>e. entity_ok (st e)"
  shows "(\<forall>e. entity_step (st e) (st' e)) \<and> map (\<lambda>x. (ad_entity (snd x), ad_interfaceIndex (snd x))) av'
    = map (\<lambda>x. (ad_entity (snd x), ad_interfaceIndex (snd x))) av"
  using assms
proof (induction av arbitrary: av' st w)
  case (Cons x av)
  then obtain ad st1 w1 av1 where *: "check_announcement t (snd x) st w = Some (ad, st1, w1)"
    "check_announcements t av st1 w1 = Some (av1, st', w')" "av' = (fst x, ad) # av1"
    by (auto simp: bind_eq_Some_iff)
  have om: "om_ok (en_interfaces (st e))" for e
    using Cons.prems(2) by (simp add: entity_ok_def)
  have ok: "entity_ok (st1 e)" for e
    using check_announcement_steps(1) [OF *(1) om] Cons.prems(2) by (auto simp: entity_step_def)
  show ?case
    using Cons.IH [OF *(2) ok] check_announcement_steps [OF *(1) om] *(3) by (auto intro: entity_step_trans)
qed auto

lemma has_interfaces_same:
  fixes av av' :: advertise_sm
  assumes "map (\<lambda>x. (ad_entity (snd x), ad_interfaceIndex (snd x))) av' = map (\<lambda>x. (ad_entity (snd x), ad_interfaceIndex (snd x))) av"
    and "\<forall>x\<in>set av. has_interface st0 (snd x)"
  shows "\<forall>x\<in>set av'. has_interface st0 (snd x)"
proof -
  let ?f = "\<lambda>x. (ad_entity (snd x), ad_interfaceIndex (snd x))"
  have all: "(\<forall>x\<in>set av. has_interface st0 (snd x))
      \<longleftrightarrow> (\<forall>y\<in>set (map ?f av). snd y \<in> set (al_keys (en_interfaces (st0 (fst y)))))" for av :: advertise_sm
    by (auto simp: has_interface_def simp del: set_map simp add: set_map [of ?f])
  show ?thesis using assms(2) unfolding all [of av] all [of av'] assms(1) .
qed

lemma fits_announcements:
  assumes fits: "fits st0 m"
  shows "\<exists>m'. mg_checkLocalEntitiesAnnouncement m = Some m' \<and> fits st0 m'"
proof -
  obtain av st w where c: "check_announcements (fst (system_now (mg_world m))) (mg_advertise m) (mg_store m)
      (snd (system_now (mg_world m))) = Some (av, st, w)"
    using check_announcements_ok [OF fitsD(4) [OF fits]] by blast
  from check_announcements_steps [OF c fitsD(1) [OF fits]]
  have "fits st0 (m\<lparr>mg_advertise := av, mg_store := st, mg_world := w\<rparr>)"
    using fits has_interfaces_same [of av "mg_advertise m" st0] by (simp add: fits_def entity_step_def)
  then show ?thesis
    using c by (simp add: mg_checkLocalEntitiesAnnouncement_def checkLocalEntitiesAnnouncement_def split_beta)
qed

lemma reschedule_shape:
  "reschedule_targets i av st w = Some (av', w') \<Longrightarrow>
     map (\<lambda>x. (ad_entity (snd x), ad_interfaceIndex (snd x))) av' = map (\<lambda>x. (ad_entity (snd x), ad_interfaceIndex (snd x))) av"
  by (induction av arbitrary: av' w) (auto simp: bind_eq_Some_iff Let_def split: if_splits)

lemma fits_processAdpdu:
  assumes fits: "fits st0 m"
  shows "\<exists>m'. processAdpdu p m = Some m' \<and> fits st0 m'"
proof -
  obtain av w where r: "reschedule_targets (m_streamID p) (mg_advertise m) (mg_store m) (mg_world m) = Some (av, w)"
    using reschedule_targets_ok [OF fitsD(4) [OF fits]] by blast
  have "fits st0 (m\<lparr>mg_advertise := av, mg_world := w\<rparr>)"
    using fits has_interfaces_same [OF reschedule_shape [OF r]] by (simp add: fits_def)
  moreover have "fits st0 (notify_all evs (m\<lparr>mg_discovery := ds, mg_world := w\<rparr>))"
    "fits st0 (notify_all evs (m\<lparr>mg_discovery := ds\<rparr>))" for evs ds w
    by (rule fits_same [OF fits]; simp)+
  ultimately show ?thesis
    using r fits by (auto simp: processAdpdu_def handleAdpEntityDiscover_def split_beta)
qed

lemma fits_processRawPacket:
  assumes fits: "fits st0 m"
  shows "\<exists>m'. processRawPacket opts reg beyond msg m = Some m' \<and> fits st0 m'"
proof -
  have received: "fits st0 (received evs m)" for evs
    by (rule fits_same [OF fits]) (simp_all add: received_def)
  have "fits st0 (processAecpdu vud p m1)" "fits st0 (processAcmpdu a m1)" if "fits st0 m1" for vud p a m1
    by (rule fits_same [OF that]; simp add: processAecpdu_def processAcmpdu_def split_beta)+
  then have "\<exists>m'. dispatchAvdeccMessage opts reg b pkt ether m = Some m' \<and> fits st0 m'" for b pkt ether
    using fits received fits_processAdpdu [OF received]
    by (auto simp: dispatchAvdeccMessage_def dispatch_adp_def dispatch_aecp_def dispatch_acmp_def Let_def
        split: option.splits aecp_route.splits)
  then show ?thesis
    using fits by (auto simp: processRawPacket_def Let_def split: option.splits)
qed

text \<open>An operation that names existing interfaces.\<close>

definition op_fits :: "store \<Rightarrow> station_op \<Rightarrow> bool" where
  "op_fits st op \<longleftrightarrow> (case op of
       StEnableAdvertising d (Some i) e \<Rightarrow> getInterfaceInformation i (st e) \<noteq> None
     | _ \<Rightarrow> True)"

lemma fits_same_parts:
  assumes "fits st0 m"
  shows "fits st0 (mg_checkDiscovery m)" "fits st0 (mg_checkRemoteEntities m)"
    "fits st0 (mg_checkInflightCommands vud m)" "fits st0 (snd (mg_setAutomaticDiscoveryDelay d m))"
    "fits st0 (snd (mg_discoverRemoteEntity i m))" "fits st0 (snd (mg_forgetRemoteEntity i m))"
    "fits st0 (snd (pi_sendAecpCommand reg p h m))" "fits st0 (snd (pi_sendAecpResponse reg p m))"
    "fits st0 (snd (mg_sendAcmpCommand a h m))" "fits st0 (snd (registerLocalEntity e m))"
  by (rule fits_same [OF assms]; simp add: mg_checkDiscovery_def mg_checkRemoteEntities_def mg_checkInflightCommands_def
      mg_setAutomaticDiscoveryDelay_def mg_discoverRemoteEntity_def mg_forgetRemoteEntity_def pi_sendAecpCommand_def
      mg_sendAecpCommand_def pi_sendAecpResponse_def mg_sendAcmpCommand_def registerLocalEntity_def split_beta Let_def)+

lemma fits_remove: "fits st0 m \<Longrightarrow> remove_local_entity e xs m = (ys, r, m') \<Longrightarrow> fits st0 m'"
proof (induction xs arbitrary: m ys r m')
  case (Cons x xs)
  then show ?case
    using fits_disable [of st0 m e] by (auto split: if_splits prod.splits)
qed simp

lemma fits_unregister: "fits st0 m \<Longrightarrow> fits st0 (snd (unregisterLocalEntity e m))"
proof -
  assume fits: "fits st0 m"
  obtain ys r m1 where rem: "remove_local_entity e (mg_localEntities m) m = (ys, r, m1)" by (metis prod_cases3)
  show ?thesis
    by (rule fits_same [OF fits_remove [OF fits rem]]; simp add: unregisterLocalEntity_def rem split_beta Let_def)
qed

lemma station_step_fits:
  assumes fits: "fits st0 m" and "op_fits st0 op"
  shows "\<exists>reg' m'. station_step opts op (reg, m) = Some (reg', m') \<and> fits st0 m'"
proof (cases op)
  case (StConstruct e)
  then show ?thesis
    using fits fits_same_parts(10) [OF fits, of e]
    by (auto simp: le_construct_def pi_registerLocalEntity_def split_beta split: option.splits if_splits)
next
  case (StShutdown e)
  then show ?thesis
    using fits_unregister [OF fits_disable [OF fits]] by (simp add: le_shutdown_def le_disableEntityAdvertising_def)
next
  case (StEnableAdvertising d i e)
  have "getInterfaceInformation j (st0 e) \<noteq> None" if "i = Some j" for j
    using assms(2) that StEnableAdvertising by (simp add: op_fits_def)
  from fits_enable_advertising [OF fits this] obtain b m' where
    "le_enableEntityAdvertising d i e m = Some (b, m')" "fits st0 m'" by blast
  then show ?thesis by (simp add: StEnableAdvertising keep_registry_def)
next
  case (StSetCapabilities c e)
  have "\<exists>b m'. le_changed e (Some (setEntityCapabilities c (mg_store m e))) m = Some (b, m') \<and> fits st0 m'"
    using entity_step_setters(1) by (intro fits_le_changed [OF fits]) auto
  then show ?thesis by (auto simp: StSetCapabilities keep_registry_def le_setEntityCapabilities_def)
next
  case (StSetAssociation a e)
  have "\<exists>b m'. le_changed e (Some (setAssociationID a (mg_store m e))) m = Some (b, m') \<and> fits st0 m'"
    using entity_step_setters(2) by (intro fits_le_changed [OF fits]) auto
  then show ?thesis by (auto simp: StSetAssociation keep_registry_def le_setAssociationID_def)
next
  case (StSetValidTime v i e)
  from fits_le_changed [OF fits entity_step_valid_time [OF _ fitsD(2) [OF fits]]] show ?thesis
    by (fastforce simp: StSetValidTime keep_registry_def le_setValidTime_def)
next
  case (StSetGrandmaster g i e)
  from fits_le_changed [OF fits entity_step_setters(3) [OF fitsD(2) [OF fits]]] show ?thesis
    by (fastforce simp: StSetGrandmaster keep_registry_def le_setGptpGrandmasterID_def)
next
  case (StSetDomain n i e)
  from fits_le_changed [OF fits entity_step_setters(4) [OF fitsD(2) [OF fits]]] show ?thesis
    by (fastforce simp: StSetDomain keep_registry_def le_setGptpDomainNumber_def)
next
  case (StRawPacket beyond bytes)
  then show ?thesis using fits_processRawPacket [OF fits, of opts reg beyond bytes] by auto
next
  case StCheckAnnouncements
  then show ?thesis using fits_announcements [OF fits] by auto
qed (use fits_same_parts [OF fits] fits_disable [OF fits] in \<open>auto simp: le_disableEntityAdvertising_def\<close>)

section \<open>The invariants of a run\<close>

lemma station_new_simps [simp]:
  "mg_localEntities (snd (station_new a st w)) = []" "mg_command (snd (station_new a st w)) = []"
  "mg_advertise (snd (station_new a st w)) = []" "mg_store (snd (station_new a st w)) = st"
  "w_trace (mg_world (snd (station_new a st w))) = []" "ds_entities (mg_discovery (snd (station_new a st w))) = []"
  by (simp_all add: station_new_def manager_new_def discovery_new_def now_def split_beta)

lemma run_told:
  assumes "station_run opts ops (station_new a st w) = Some (reg, m)"
  shows "discovery_ok (mg_discovery m) \<and> observe_all (w_trace (mg_world m)) Map.empty = Some (known (mg_discovery m))"
proof -
  let ?I = "\<lambda>(reg :: vu_registry, m). discovery_ok (mg_discovery m)
    \<and> observe_all (w_trace (mg_world m)) Map.empty = Some (known (mg_discovery m))"
  have "?I (reg, m)"
  proof (rule station_run_rule [OF assms])
    show "?I (station_new a st w)"
      by (simp add: split_beta discovery_ok_def known_def known_in_def fun_eq_iff)
  next
    fix op :: station_op and s s' :: station
    assume I: "?I s" and step: "station_step opts op s = Some s'"
    have "told_move (snd s) (snd s')"
      using station_step_keeps(1) [of opts op "fst s" "snd s" "fst s'" "snd s'"] step by simp
    then show "?I s'" using I by (auto simp: split_beta told_move_def observe_all_append)
  qed
  then show ?thesis by simp
qed

lemma run_locals:
  assumes "station_run opts ops (station_new a st w) = Some (reg, m)"
  shows "locals_ok m"
proof -
  have "locals_ok (snd (reg, m))"
  proof (rule station_run_rule [OF assms, where I = "\<lambda>s. locals_ok (snd s)"])
    show "locals_ok (snd (station_new a st w))" by (simp add: locals_ok_def)
    show "locals_ok (snd s')" if "locals_ok (snd s)" "station_step opts op s = Some s'" for op s s'
      using station_step_keeps(2) [of opts op "fst s" "snd s" "fst s'" "snd s'"] that by simp
  qed
  then show ?thesis by simp
qed

lemma distinct_uids:
  "sorted_wrt (\<lambda>x y. \<not> uid_eq (fst x) (fst y)) es \<Longrightarrow> al_get i es \<noteq> None \<Longrightarrow> al_get j es \<noteq> None \<Longrightarrow> uid_eq i j \<Longrightarrow> i = j"
proof (induction es)
  case (Cons x es)
  then show ?case
    using uid_eq_equiv(2) by (auto split: if_splits dest!: al_get_in_set) 
qed simp

text \<open>No command of a local entity is in flight or queued towards an entity.\<close>

definition no_commands_towards :: "entity_id \<Rightarrow> manager \<Rightarrow> bool" where
  "no_commands_towards i m \<longleftrightarrow> (\<forall>x\<in>set (mg_command m).
     al_get i (ch_inflight (ce_aecp (snd x))) = None \<and> al_get i (ch_queue (ce_aecp (snd x))) = None)"

lemma notify_no_commands:
  "no_commands_towards i m \<or> ev = OnRemoteEntityOffline i \<Longrightarrow> no_commands_towards i (notify_delegate ev m)"
  by (cases ev) (auto simp: notify_delegate_def onRemoteEntityOffline_def Let_def no_commands_towards_def
      discardAECPCommandsTowardsEntity_def discard_channel_def)

lemma notify_all_no_commands:
  "no_commands_towards i m \<or> OnRemoteEntityOffline i \<in> set evs \<Longrightarrow> no_commands_towards i (notify_all evs m)"
proof (induction evs arbitrary: m)
  case (Cons ev evs)
  then show ?case
    using notify_no_commands [of i m ev] by (auto simp: notify_all_def)
qed (simp add: notify_all_def)

lemma says_no_offline:
  assumes "says tr w"
  shows "OnRemoteEntityOffline i \<notin> set (drop (length tr) (w_trace w))"
  using assms by (auto simp: says_def list_all_iff dest!: bspec)

lemma step_offline:
  assumes step: "station_step opts op (reg, m) = Some (reg', m')" and ok: "discovery_ok (mg_discovery m)"
    and off: "OnRemoteEntityOffline i \<in> set (drop (length (w_trace (mg_world m))) (w_trace (mg_world m')))"
  shows "no_commands_towards i m'"
proof -
  have "\<not> hushed m m'"
    using off says_no_offline by (auto simp: hushed_def)
  then have "moves m m'"
    using station_step_cases [OF step] by blast
  then obtain m1 ds w evs where m1: "quiet_move m m1" "m' = notify_all evs (m1\<lparr>mg_discovery := ds, mg_world := w\<rparr>)"
    "discovery_ok (mg_discovery m1) \<longrightarrow> w_trace w = w_trace (mg_world m1)"
    unfolding moves_def by blast
  then have says: "says (w_trace (mg_world m)) (mg_world m1)" and "w_trace w = w_trace (mg_world m1)"
    using ok by (auto simp: quiet_move_def hushed_def discovery_ok_def)
  moreover obtain quiet where "w_trace (mg_world m1) = w_trace (mg_world m) @ quiet"
    using says by (auto simp: says_def)
  ultimately have "OnRemoteEntityOffline i \<in> set evs"
    using off says_no_offline [OF says, of i] by (auto simp: m1(2))
  then show ?thesis
    unfolding m1(2) by (intro notify_all_no_commands disjI2)
qed

text \<open>
  A run of the witnesses: a controller starts, an announcement of another entity arrives, and the
  controller sends a command to it.
\<close>

definition sample_controller :: entity where
  "sample_controller =
     \<lparr>en_common = (en_common sample_local)\<lparr>ei_entityID := 0x001b92fffe000009, ei_controllerCapabilities := 1\<rparr>,
      en_interfaces = [(0, \<lparr>ii_macAddress = 0x001b92000002, ii_validTime = 31, ii_availableIndex = 0,
        ii_gptpGrandmasterID = None, ii_gptpDomainNumber = None\<rparr>)]\<rparr>"

definition sample_station :: station where
  "sample_station = station_new 0x001b92000002 (\<lambda>e. sample_controller) sample_world"

definition sample_query :: aecp_pdu where
  "sample_query = Aem (availability_query 0x001b92fffe000009 0x001b92fffe000001 0x001b92000002 0x001b92000001 0)"

definition sample_ops :: "byte list \<Rightarrow> station_op list" where
  "sample_ops frame = [StConstruct 0, StRawPacket (\<lambda>i. 0) frame, StSendAecpCommand sample_query 7]"

lemma sample_started:
  "\<exists>reg m. station_step default_build (StConstruct 0) sample_station = Some (reg, m)
     \<and> mg_localEntities m = [(0x001b92fffe000009, 0)]
     \<and> mg_command m = [(0x001b92fffe000009, \<lparr>ce_aecp = channel_new, ce_acmp = channel_new\<rparr>)]
     \<and> ds_entities (mg_discovery m) = []"
  by (simp add: sample_station_def station_new_def manager_new_def discovery_new_def now_def le_construct_def
      pi_registerLocalEntity_def registerLocalEntity_def getMatchingInterfaceIndex_def sample_controller_def
      getEntityID_def notify_delegate_def command_registerLocalEntity_def Let_def sample_world_def)

lemma sample_queried:
  assumes "mg_command m = [(0x001b92fffe000009, \<lparr>ce_aecp = channel_new, ce_acmp = channel_new\<rparr>)]"
  shows "\<not> no_commands_towards 0x001b92fffe000001 (snd (pi_sendAecpCommand reg sample_query 7 m))"
proof -
  have q: "aecp_controllerEntityID sample_query = 0x001b92fffe000009" "aecp_targetEntityID sample_query = 0x001b92fffe000001"
    "aecp_messageType sample_query = 0"
    by (simp_all add: sample_query_def availability_query_def aem_fields aecp_controllerEntityID_def aecp_targetEntityID_def
        aecp_messageType_def aecpdu.truncate_def)
  show ?thesis
    using assms
    by (simp add: pi_sendAecpCommand_def q isAecpResponseMessageType_def AecpMessageType_VendorUniqueCommand_def mg_sendAecpCommand_def
        sendAecpCommand_def getNextSequenceID_def channel_new_def queue_command_def with_target_def open_target_def close_target_def Let_def split_beta no_commands_towards_def)
qed

lemma sample_run:
  "\<exists>frame reg m. station_run default_build (sample_ops frame) sample_station = Some (reg, m)
     \<and> mg_localEntities m = [(0x001b92fffe000009, 0)] \<and> isLocalEntity m 0x001b92fffe000009
     \<and> al_get 0x001b92fffe000001 (ds_entities (mg_discovery m)) \<noteq> None
     \<and> \<not> no_commands_towards 0x001b92fffe000001 m"
proof -
  obtain reg m where m: "station_step default_build (StConstruct 0) sample_station = Some (reg, m)"
    "mg_localEntities m = [(0x001b92fffe000009, 0)]"
    "mg_command m = [(0x001b92fffe000009, \<lparr>ce_aecp = channel_new, ce_acmp = channel_new\<rparr>)]"
    "ds_entities (mg_discovery m) = []"
    using sample_started by blast
  have info: "getInterfaceInformation 0 sample_local = Some (snd (hd (en_interfaces sample_local)))"
    by (simp add: getInterfaceInformation_def sample_local_def)
  obtain p en' where p: "makeEntityAvailableMessage sample_local 0 = Some (p, en')"
    using info by (auto simp: makeEntityAvailableMessage_def Let_def)
  obtain frame m1 where m1: "processRawPacket default_build reg (\<lambda>i. 0) (frame @ []) m = Some m1"
    "known (mg_discovery m1) (getEntityID sample_local) \<noteq> None" "mg_command m1 = mg_command m"
    using announcement_received [OF info _ p, where m = m and opts = default_build and reg = reg
        and beyond = "\<lambda>i. 0" and pad = "[]"] m(2-4)
    by (fastforce simp: isLocalEntity_def sample_local_def bits_test_def EntityCapability_EntityNotReady_def getEntityID_def)
  have loc: "mg_localEntities m1 = mg_localEntities m"
    using moves_locals [OF moves_packet [OF m1(1)]] by (simp add: same_locals_def)
  let ?m2 = "snd (pi_sendAecpCommand reg sample_query 7 m1)"
  have same: "mg_localEntities ?m2 = mg_localEntities m1" "mg_discovery ?m2 = mg_discovery m1"
    by (simp_all add: pi_sendAecpCommand_def mg_sendAecpCommand_def split_beta)
  have "station_run default_build (sample_ops frame) sample_station = Some (reg, ?m2)"
    using m(1) m1(1) by (simp add: sample_ops_def)
  moreover have "\<not> no_commands_towards 0x001b92fffe000001 ?m2"
    by (rule sample_queried) (simp add: m1(3) m(3))
  moreover have "al_get 0x001b92fffe000001 (ds_entities (mg_discovery ?m2)) \<noteq> None"
    using m1(2) by (simp add: same known_def known_in_def getEntityID_def sample_local_def)
  ultimately show ?thesis
    by (intro exI [of _ frame] exI [of _ reg] exI [of _ ?m2]) (simp add: isLocalEntity_def same loc m(2))
qed

section \<open>Properties\<close>

text \<open>
  C6.  The observers of a protocol interface are told the truth in every run: whatever local entities
  come, change and go, whatever bytes arrive and in whatever order the thread makes its checks, the
  notifications of remote entities given since the start are legal, and an observer that applies them
  knows exactly the entities the discovery state machine knows, each with its current information.
\<close>

theorem observers_know_remote_entities:
  assumes "station_run opts ops (station_new macAddress st w) = Some (reg, m)"
  shows "observe_all (w_trace (mg_world m)) Map.empty = Some (known (mg_discovery m))"
  using run_told [OF assms] by blast

theorem observers_know_remote_entities_witness:
  "\<exists>frame reg m. station_run default_build (sample_ops frame) sample_station = Some (reg, m)
     \<and> observe_all (w_trace (mg_world m)) Map.empty = Some (known (mg_discovery m))
     \<and> known (mg_discovery m) 0x001b92fffe000001 \<noteq> None"
proof -
  obtain frame reg m where run: "station_run default_build (sample_ops frame) sample_station = Some (reg, m)"
    "al_get 0x001b92fffe000001 (ds_entities (mg_discovery m)) \<noteq> None"
    using sample_run by blast
  with observers_know_remote_entities [OF run(1) [unfolded sample_station_def]] show ?thesis
    by (force simp: known_def known_in_def)
qed

text \<open>
  C26.  In every run the command state machine takes commands of exactly the registered local entities,
  AECP and ACMP, and no two local entities have identifiers that compare equal.
\<close>

theorem commands_of_local_entities:
  assumes "station_run opts ops (station_new macAddress st w) = Some (reg, m)"
  shows "(fst (mg_sendAecpCommand vud p onResult m) = NoError \<longleftrightarrow> isLocalEntity m (aecp_controllerEntityID p))
    \<and> (fst (mg_sendAcmpCommand a onResult m) = NoError \<longleftrightarrow> isLocalEntity m (m_acmpControllerEntityID a))
    \<and> (isLocalEntity m i \<and> isLocalEntity m j \<and> uid_eq i j \<longrightarrow> i = j)"
proof -
  have distinct: "sorted_wrt (\<lambda>x y. \<not> uid_eq (fst x) (fst y)) (mg_localEntities m)"
    and same: "\<And>i. isLocalEntity m i \<longleftrightarrow> al_get i (mg_command m) \<noteq> None"
    using run_locals [OF assms] by (simp_all add: locals_ok_def isLocalEntity_def)
  have "fst (mg_sendAecpCommand vud p onResult m) = NoError \<longleftrightarrow> isLocalEntity m (aecp_controllerEntityID p)"
    "fst (mg_sendAcmpCommand a onResult m) = NoError \<longleftrightarrow> isLocalEntity m (m_acmpControllerEntityID a)"
    by (auto simp: same mg_sendAecpCommand_def mg_sendAcmpCommand_def sendAecpCommand_def sendAcmpCommand_def
        split_beta Let_def split: option.splits)
  moreover have "isLocalEntity m i \<and> isLocalEntity m j \<and> uid_eq i j \<longrightarrow> i = j"
    using distinct_uids [OF distinct] by (simp add: isLocalEntity_def)
  ultimately show ?thesis by blast
qed

theorem commands_of_local_entities_witness:
  "\<exists>frame reg m. station_run default_build (sample_ops frame) sample_station = Some (reg, m)
     \<and> fst (mg_sendAecpCommand (registry_delegates reg) sample_query 8 m) = NoError
     \<and> fst (mg_sendAcmpCommand Acmpdu_new 8 m) \<noteq> NoError"
proof -
  obtain frame reg m where run: "station_run default_build (sample_ops frame) sample_station = Some (reg, m)"
    "isLocalEntity m 0x001b92fffe000009" "mg_localEntities m = [(0x001b92fffe000009, 0)]"
    using sample_run by blast
  note accepted = commands_of_local_entities [OF run(1) [unfolded sample_station_def],
      of "registry_delegates reg" sample_query 8 Acmpdu_new 0 0]
  have "aecp_controllerEntityID sample_query = 0x001b92fffe000009"
    by (simp add: sample_query_def availability_query_def aem_fields aecp_controllerEntityID_def aecpdu.truncate_def)
  moreover have "\<not> isLocalEntity m (m_acmpControllerEntityID Acmpdu_new)"
    by (simp add: isLocalEntity_def run(3) Acmpdu_new_def acmpdu.extend_def)
  ultimately show ?thesis using run accepted by auto
qed

text \<open>
  C7.  When an observer is told that a remote entity is offline, no AECP command towards it is left:
  after the step that tells it, in any run, none is in flight or queued for any local entity.
\<close>

theorem offline_discards_commands:
  assumes "station_run opts ops (station_new macAddress st w) = Some (reg, m)"
    and "station_step opts op (reg, m) = Some (reg', m')"
    and "OnRemoteEntityOffline i \<in> set (drop (length (w_trace (mg_world m))) (w_trace (mg_world m')))"
  shows "no_commands_towards i m'"
  using step_offline [OF assms(2) _ assms(3)] run_told [OF assms(1)] by blast

theorem offline_discards_commands_witness:
  "\<exists>frame reg m m'. station_run default_build (sample_ops frame) sample_station = Some (reg, m)
     \<and> \<not> no_commands_towards 0x001b92fffe000001 m
     \<and> station_step default_build (StForget 0x001b92fffe000001) (reg, m) = Some (reg, m')
     \<and> no_commands_towards 0x001b92fffe000001 m'"
proof -
  obtain frame reg m where run: "station_run default_build (sample_ops frame) sample_station = Some (reg, m)"
    "al_get 0x001b92fffe000001 (ds_entities (mg_discovery m)) \<noteq> None" "\<not> no_commands_towards 0x001b92fffe000001 m"
    using sample_run by blast
  let ?m' = "snd (mg_forgetRemoteEntity 0x001b92fffe000001 m)"
  have step: "station_step default_build (StForget 0x001b92fffe000001) (reg, m) = Some (reg, ?m')" by simp
  have "w_trace (mg_world ?m') = w_trace (mg_world m) @ [OnRemoteEntityOffline 0x001b92fffe000001]"
    using run(2) by (auto simp: mg_forgetRemoteEntity_def forgetRemoteEntity_def)
  with offline_discards_commands [OF run(1) [unfolded sample_station_def] step, of "0x001b92fffe000001"] run step
  show ?thesis by auto
qed

text \<open>
  C8.  A station never stops: as long as the interfaces of its entities have valid times of at least 1
  second when they are made and its users enable advertising on existing interfaces, no sequence of
  packets, calls and checks divides by zero or lets an exception out of a method that may not throw.
\<close>

theorem station_never_stops:
  assumes "\<And>e. entity_ok (st e)" and "list_all (op_fits st) ops"
  shows "\<exists>reg m. station_run opts ops (station_new macAddress st w) = Some (reg, m)"
proof -
  have "\<exists>s'. station_run opts ops s = Some s'" if "fits st (snd s)" for s
    using assms(2) that
  proof (induction ops arbitrary: s)
    case (Cons op ops)
    then obtain s1 where "station_step opts op s = Some s1" "fits st (snd s1)"
      using station_step_fits [of st "snd s" op opts "fst s"] by auto
    with Cons show ?case by auto
  qed simp
  moreover have "fits st (snd (station_new macAddress st w))"
    using assms(1) by (simp add: fits_def)
  ultimately show ?thesis by fast
qed

theorem station_never_stops_witness:
  "\<exists>reg m. station_run default_build
     [StConstruct 0, StEnableAdvertising 62 (Some 0) 0, StCheckAnnouncements, StRawPacket (\<lambda>i. 0) [1, 2, 3],
      StSetValidTime 0 None 0, StCheckRemoteEntities, StShutdown 0] sample_station = Some (reg, m)"
  unfolding sample_station_def
  by (rule station_never_stops)
     (simp_all add: entity_ok_def sample_controller_def op_fits_def getInterfaceInformation_def)

end
