(* ===== verification/ControllerSessions.thy ===== *)
theory ControllerSessions
  imports ControllerAnswers StationRuns
begin

text \<open>
  The controller at work: its user's commands, the events of the protocol interface and what else the program
  does to the interface, in any order; and the properties of the controller.
\<close>

section \<open>Sessions\<close>

text \<open>
  A session from a controller: the handlers given with commands, each with the types of its arguments, and
  the calls made so far.  The commands are those of the theory \<^verbatim>\<open>ControllerCommands\<close>, which are all made by
  one of four functions.
\<close>

type_synonym given = "(user_handler \<times> param_type list) list"

definition given_with :: "user_handler option \<Rightarrow> param list \<Rightarrow> given" where
  "given_with handler ps = (case handler of None \<Rightarrow> [] | Some h \<Rightarrow> [(h, map type_of ps)])"

inductive session ::
  "controller_config \<Rightarrow> (vu_aecpdu \<Rightarrow> vu_aecpdu option) \<Rightarrow> controller \<Rightarrow> given \<Rightarrow> call list \<Rightarrow> controller \<Rightarrow> bool"
  for cc :: controller_config and vuCopy :: "vu_aecpdu \<Rightarrow> vu_aecpdu option" and cn0 :: controller
where
  start: "session cc vuCopy cn0 [] [] cn0"
| aem: "session cc vuCopy cn0 given calls cn \<Longrightarrow>
    aem_command targetEntityID commandType ser defaults handler cc cn = (calls', cn') \<Longrightarrow>
    session cc vuCopy cn0 (given @ given_with handler (P_Uid targetEntityID # defaults)) (calls @ calls') cn'"
| mvu: "session cc vuCopy cn0 given calls cn \<Longrightarrow>
    mvu_command targetEntityID commandType ser defaults handler cc cn = (calls', cn') \<Longrightarrow>
    session cc vuCopy cn0 (given @ given_with handler (P_Uid targetEntityID # defaults)) (calls @ calls') cn'"
| aa: "session cc vuCopy cn0 given calls cn \<Longrightarrow>
    addressAccess targetEntityID tlvs handler cc cn = (calls', cn') \<Longrightarrow>
    session cc vuCopy cn0 (given @ given_with handler [P_Uid targetEntityID, P_Tlvs []]) (calls @ calls') cn'"
| acmp: "session cc vuCopy cn0 given calls cn \<Longrightarrow>
    acmp_command messageType talkerEntityID talkerStreamIndex listenerEntityID listenerStreamIndex
      connectionIndex ps handler cc cn = (calls', cn') \<Longrightarrow>
    session cc vuCopy cn0 (given @ given_with handler ps) (calls @ calls') cn'"
| event: "session cc vuCopy cn0 given calls cn \<Longrightarrow>
    cd_onEvent cc vuCopy ev cn = Some (calls', cn') \<Longrightarrow>
    session cc vuCopy cn0 given (calls @ calls') cn'"
| interface: "session cc vuCopy cn0 given calls cn \<Longrightarrow>
    session cc vuCopy cn0 given calls (cn\<lparr>cn_registry := reg, cn_manager := m\<rparr>)"

section \<open>The completions of a controller\<close>

primrec closure_error :: "completion \<Rightarrow> error_callback" where
  "closure_error (AemCompletion ct e a) = e"
| "closure_error (AaCompletion e a) = e"
| "closure_error (MvuCompletion ct e a) = e"
| "closure_error (AcmpCompletion e a) = e"

primrec closure_answer :: "completion \<Rightarrow> answer_callback" where
  "closure_answer (AemCompletion ct e a) = a"
| "closure_answer (AaCompletion e a) = a"
| "closure_answer (MvuCompletion ct e a) = a"
| "closure_answer (AcmpCompletion e a) = a"

text \<open>The handler a closure is for, and how many of the closures not yet called are for a handler.\<close>

definition owner :: "completion \<Rightarrow> user_handler option" where
  "owner c = map_option fst (closure_error c)"

definition pending :: "user_handler \<Rightarrow> controller \<Rightarrow> nat" where
  "pending h cn = length (filter (\<lambda>(k, c). owner c = Some h) (cn_completions cn))"

definition closure_ok :: "(user_handler \<times> param_type list \<Rightarrow> bool) \<Rightarrow> completion \<Rightarrow> bool" where
  "closure_ok T c \<longleftrightarrow>
     typed_callbacks T (closure_error c) (closure_answer c) \<and>
     (\<forall>h. of_handler h (closure_error c) (closure_answer c) (of_bool (owner c = Some h)))"

text \<open>No number stands for two closures, and the next one is new.\<close>

definition controller_ok :: "(user_handler \<times> param_type list \<Rightarrow> bool) \<Rightarrow> controller \<Rightarrow> bool" where
  "controller_ok T cn \<longleftrightarrow> al_ok (cn_completions cn) \<and>
     (\<forall>(k, c)\<in>set (cn_completions cn). k < cn_nextHandler cn \<and> closure_ok T c)"

lemma closure_ok_mono: "closure_ok T c \<Longrightarrow> (\<And>x. T x \<Longrightarrow> T' x) \<Longrightarrow> closure_ok T' c"
  by (auto simp: closure_ok_def typed_callbacks_def calls_typed_def)

lemma calls_typed_mono: "calls_typed T calls \<Longrightarrow> (\<And>x. T x \<Longrightarrow> T' x) \<Longrightarrow> calls_typed T' calls"
  by (auto simp: calls_typed_def)

lemma controller_ok_mono: "controller_ok T cn \<Longrightarrow> (\<And>x. T x \<Longrightarrow> T' x) \<Longrightarrow> controller_ok T' cn"
  using closure_ok_mono by (fastforce simp: controller_ok_def)

lemma closure_ok_made:
  assumes "closure_error c = makeErrorHandler handler ps" and "closure_answer c = AnswerCallback st ps handler"
    and "\<And>h. handler = Some h \<Longrightarrow> T (h, map type_of ps)"
  shows "closure_ok T c" and "owner c = handler"
proof -
  show owner: "owner c = handler"
    using assms(1) by (cases handler) (simp_all add: owner_def makeErrorHandler_def)
  show "closure_ok T c"
    using typed_callbacks_made [of handler T ps st] assms of_handler_callbacks [of _ handler ps st ps]
    by (simp add: closure_ok_def owner)
qed

lemma closure_ok_refused:
  assumes "closure_ok T c" and "closure_error c = e"
  shows "calls_typed T (call_error e status)" and "length (calls_of h (call_error e status)) = of_bool (owner c = Some h)"
  using assms by (simp_all add: closure_ok_def typed_callbacks_def of_handler_def)

text \<open>Giving a command: its handler is called at once, or its closure waits.\<close>

lemma give_command_keeps:
  assumes "give_command e c send cn = (calls, cn')" and "controller_ok T cn" and "closure_ok T c"
    and "closure_error c = e"
  shows "controller_ok T cn'" and "calls_typed T calls"
    and "length (calls_of h calls) + pending h cn' = pending h cn + of_bool (owner c = Some h)"
proof -
  note e = closure_ok_refused(2) [OF assms(3,4)] and t = closure_ok_refused(1) [OF assms(3,4)]
  have fresh: "cn_nextHandler cn \<notin> set (al_keys (cn_completions cn))"
    using assms(2) by (fastforce simp: controller_ok_def)
  obtain refused m where sent: "send (cn_nextHandler cn) (cn_manager cn) = (refused, m)" by fastforce
  show "controller_ok T cn'" "calls_typed T calls"
    using assms fresh t sent
    by (cases refused; fastforce simp: give_command_def controller_ok_def al_ok_def less_Suc_eq)+
  show "length (calls_of h calls) + pending h cn' = pending h cn + of_bool (owner c = Some h)"
    using assms(1) e sent by (cases refused) (auto simp: give_command_def pending_def)
qed

text \<open>What every command does: its closure is given, or its error callback called.\<close>

inductive given_or_refused :: "error_callback \<Rightarrow> completion \<Rightarrow> controller \<Rightarrow> call list \<Rightarrow> controller \<Rightarrow> bool"
  for e :: error_callback and c :: completion and cn :: controller
where
  refused: "given_or_refused e c cn (call_error e status) cn"
| given: "give_command e c send cn = (calls, cn') \<Longrightarrow> given_or_refused e c cn calls cn'"

lemma given_or_refused_keeps:
  assumes "given_or_refused e c cn calls cn'" and "controller_ok T cn" and "closure_ok T c"
    and "closure_error c = e"
  shows "controller_ok T cn' \<and> calls_typed T calls \<and>
    length (calls_of h calls) + pending h cn' = pending h cn + of_bool (owner c = Some h)"
  using assms(1)
proof cases
  case (refused status)
  then show ?thesis using closure_ok_refused [OF assms(3,4)] assms(2) by simp
next
  case (given send)
  from give_command_keeps [OF this assms(2-4)] show ?thesis by simp
qed

lemma aem_command_keeps:
  assumes "aem_command targetEntityID commandType ser defaults handler cc cn = (calls, cn')"
    and "controller_ok T cn" and "\<And>h. handler = Some h \<Longrightarrow> T (h, map type_of (P_Uid targetEntityID # defaults))"
  shows "controller_ok T cn' \<and> calls_typed T calls \<and>
    length (calls_of h calls) + pending h cn' = pending h cn + of_bool (handler = Some h)"
proof -
  let ?e = "makeErrorHandler handler (P_Uid targetEntityID # defaults)"
  let ?c = "AemCompletion commandType ?e (AnswerCallback AemStatus (P_Uid targetEntityID # defaults) handler)"
  have c: "closure_ok T ?c" "owner ?c = handler" "closure_error ?c = ?e"
    using closure_ok_made [of ?c handler "P_Uid targetEntityID # defaults" AemStatus T] assms(3) by simp_all
  from assms(1) have "given_or_refused ?e ?c cn calls cn'"
    by (auto simp: aem_command_def cd_sendAemAecpCommand_def Let_def split: option.splits if_splits
        intro: given_or_refused.intros)
  from given_or_refused_keeps [OF this assms(2) c(1,3)] c(2) show ?thesis by simp
qed

lemma mvu_command_keeps:
  assumes "mvu_command targetEntityID commandType ser defaults handler cc cn = (calls, cn')"
    and "controller_ok T cn" and "\<And>h. handler = Some h \<Longrightarrow> T (h, map type_of (P_Uid targetEntityID # defaults))"
  shows "controller_ok T cn' \<and> calls_typed T calls \<and>
    length (calls_of h calls) + pending h cn' = pending h cn + of_bool (handler = Some h)"
proof -
  let ?e = "makeErrorHandler handler (P_Uid targetEntityID # defaults)"
  let ?c = "MvuCompletion commandType ?e (AnswerCallback MvuStatus (P_Uid targetEntityID # defaults) handler)"
  have c: "closure_ok T ?c" "owner ?c = handler" "closure_error ?c = ?e"
    using closure_ok_made [of ?c handler "P_Uid targetEntityID # defaults" MvuStatus T] assms(3) by simp_all
  from assms(1) have "given_or_refused ?e ?c cn calls cn'"
    by (auto simp: mvu_command_def cd_sendMvuAecpCommand_def Let_def split: option.splits if_splits
        intro: given_or_refused.intros)
  from given_or_refused_keeps [OF this assms(2) c(1,3)] c(2) show ?thesis by simp
qed

lemma addressAccess_keeps:
  assumes "addressAccess targetEntityID tlvs handler cc cn = (calls, cn')"
    and "controller_ok T cn" and "\<And>h. handler = Some h \<Longrightarrow> T (h, map type_of [P_Uid targetEntityID, P_Tlvs []])"
  shows "controller_ok T cn' \<and> calls_typed T calls \<and>
    length (calls_of h calls) + pending h cn' = pending h cn + of_bool (handler = Some h)"
proof -
  let ?e = "makeErrorHandler handler [P_Uid targetEntityID, P_Tlvs []]"
  let ?c = "AaCompletion ?e (AnswerCallback AaStatus [P_Uid targetEntityID, P_Tlvs []] handler)"
  have c: "closure_ok T ?c" "owner ?c = handler" "closure_error ?c = ?e"
    using closure_ok_made [of ?c handler "[P_Uid targetEntityID, P_Tlvs []]" AaStatus T] assms(3) by simp_all
  from assms(1) have "given_or_refused ?e ?c cn calls cn'"
    by (auto simp: addressAccess_def cd_sendAaAecpCommand_def Let_def split: if_splits
        intro: given_or_refused.intros)
  from given_or_refused_keeps [OF this assms(2) c(1,3)] c(2) show ?thesis by simp
qed

lemma acmp_command_keeps:
  assumes "acmp_command messageType talkerEntityID talkerStreamIndex listenerEntityID listenerStreamIndex
      connectionIndex ps handler cc cn = (calls, cn')"
    and "controller_ok T cn" and "\<And>h. handler = Some h \<Longrightarrow> T (h, map type_of ps)"
  shows "controller_ok T cn' \<and> calls_typed T calls \<and>
    length (calls_of h calls) + pending h cn' = pending h cn + of_bool (handler = Some h)"
proof -
  let ?e = "makeErrorHandler handler ps"
  let ?c = "AcmpCompletion ?e (AnswerCallback ControlStatus ps handler)"
  have c: "closure_ok T ?c" "owner ?c = handler" "closure_error ?c = ?e"
    using closure_ok_made [of ?c handler ps ControlStatus T] assms(3) by simp_all
  from assms(1) have "given_or_refused ?e ?c cn calls cn'"
    by (auto simp: acmp_command_def cd_sendAcmpCommand_def intro: given_or_refused.intros)
  from given_or_refused_keeps [OF this assms(2) c(1,3)] c(2) show ?thesis by simp
qed

text \<open>A completion: its handler is called once at most, and the closure is gone.\<close>

definition answered_once :: "completion \<Rightarrow> pdu option \<Rightarrow> error \<Rightarrow> bool" where
  "answered_once c response err \<longleftrightarrow> err \<noteq> NoError \<or>
     (case c of
        AemCompletion commandType e a \<Rightarrow>
          commandType \<notin> set silent_commands \<and> (case response of Some (PAecp (Aem aem)) \<Rightarrow> \<not> m_unsolicited aem | _ \<Rightarrow> True)
      | AaCompletion e a \<Rightarrow> True
      | MvuCompletion commandType e a \<Rightarrow> (case response of Some (PAecp (Mvu mvu)) \<Rightarrow> \<not> m_mvuUnsolicited mvu | _ \<Rightarrow> True)
      | AcmpCompletion e a \<Rightarrow>
          (case response of Some (PAcmp acmp) \<Rightarrow> m_controlData acmp \<noteq> AcmpMessageType_ConnectTxResponse | _ \<Rightarrow> True))"

lemma error_statuses:
  "convertErrorToAemCommandStatus err = Status_Success \<longleftrightarrow> err = NoError"
  "convertErrorToAaCommandStatus err = Status_Success \<longleftrightarrow> err = NoError"
  "convertErrorToMvuCommandStatus err = Status_Success \<longleftrightarrow> err = NoError"
  "convertErrorToControlStatus err = Status_Success \<longleftrightarrow> err = NoError"
  by (cases err; simp add: Status_Success_def Status_NetworkError_def Status_TimedOut_def Status_UnknownEntity_def
      Status_InternalError_def)+

lemma complete_keeps:
  assumes "complete cc c response err = Some calls" and "closure_ok T c"
  shows "calls_typed T calls" and "length (calls_of h calls) \<le> of_bool (owner c = Some h)"
    and "answered_once c response err \<Longrightarrow> length (calls_of h calls) = of_bool (owner c = Some h)"
proof -
  define n where "n = (of_bool (owner c = Some h) :: nat)"
  have typed: "typed_callbacks T (closure_error c) (closure_answer c)"
    and counted: "of_handler h (closure_error c) (closure_answer c) n"
    using assms(2) by (simp_all add: closure_ok_def n_def)
  have refused: "length (calls_of h (call_error (closure_error c) status)) = n" for status
    using closure_ok_refused(2) [OF assms(2) refl] by (simp add: n_def)
  note typed_parts = processAemAecpResponse_typed processAaAecpResponse_typed processMvuAecpResponse_typed
    processAcmpResponse_typed closure_ok_refused(1) [OF assms(2) refl]
  note counted_parts = processAemAecpResponse_calls processAaAecpResponse_calls processMvuAecpResponse_calls
    processAcmpResponse_calls
  note complete_splits = if_splits option.splits pdu.splits aecp_pdu.splits
  show "calls_typed T calls"
    using assms(1) typed typed_parts
    by (cases c) (auto simp: error_statuses Let_def split: complete_splits)
  have "length (calls_of h calls) \<le> n \<and> (answered_once c response err \<longrightarrow> length (calls_of h calls) = n)"
    using assms(1) counted refused
    by (cases c) (auto simp: error_statuses answered_once_def counted_parts Let_def split: complete_splits)
  then show "length (calls_of h calls) \<le> of_bool (owner c = Some h)"
    "answered_once c response err \<Longrightarrow> length (calls_of h calls) = of_bool (owner c = Some h)"
    unfolding n_def by blast+
qed

text \<open>An event: what it makes of the closures, and of the calls.\<close>

lemma filter_al_del:
  "al_ok es \<Longrightarrow> al_get k es = Some v \<Longrightarrow>
     length (filter P (al_del k es)) + of_bool (P (k, v)) = length (filter P es)"
proof (induction es)
  case (Cons e es)
  have "al_del k (e # es) = (if fst e = k then al_del k es else e # al_del k es)"
    by (simp add: al_del_def)
  with Cons show ?case
    using al_del_absent [of k es] by (cases e) (auto simp: al_ok_def split: if_splits)
qed simp

lemma pending_complete:
  assumes "controller_ok T cn" and "al_get k (cn_completions cn) = Some c"
  shows "pending h (cn\<lparr>cn_completions := al_del k (cn_completions cn)\<rparr>) + of_bool (owner c = Some h) = pending h cn"
    and "controller_ok T (cn\<lparr>cn_completions := al_del k (cn_completions cn)\<rparr>)" and "closure_ok T c"
  using filter_al_del [OF _ assms(2), of "\<lambda>(k, c). owner c = Some h"] assms al_get_in_set [OF assms(2)]
  by (auto simp: controller_ok_def pending_def)

lemma notified_calls [simp]: "calls_of h (notify_user cc meth ps) = []"
  by (simp add: notify_user_def)

lemma discovery_events_keep:
  "cn_completions (snd (cd_onRemoteEntityOnline cc en cn)) = cn_completions cn"
  "cn_nextHandler (snd (cd_onRemoteEntityOnline cc en cn)) = cn_nextHandler cn"
  "calls_of h (fst (cd_onRemoteEntityOnline cc en cn)) = []"
  "calls_typed T (fst (cd_onRemoteEntityOnline cc en cn))"
  "cn_completions (snd (cd_onRemoteEntityOffline cc i cn)) = cn_completions cn"
  "cn_nextHandler (snd (cd_onRemoteEntityOffline cc i cn)) = cn_nextHandler cn"
  "calls_of h (fst (cd_onRemoteEntityOffline cc i cn)) = []"
  "calls_typed T (fst (cd_onRemoteEntityOffline cc i cn))"
  "cn_completions (snd (cd_onRemoteEntityUpdated cc en cn)) = cn_completions cn"
  "cn_nextHandler (snd (cd_onRemoteEntityUpdated cc en cn)) = cn_nextHandler cn"
  "calls_of h (fst (cd_onRemoteEntityUpdated cc en cn)) = []"
  "calls_typed T (fst (cd_onRemoteEntityUpdated cc en cn))"
  by (auto simp: cd_onRemoteEntityOnline_def cd_onRemoteEntityOffline_def cd_onRemoteEntityUpdated_def Let_def
      split: option.splits)

lemma unsolicited_calls:
  "calls_of h (processAemAecpResponse co delegate commandType aem None None) = []"
  "calls_of h (processMvuAecpResponse delegate commandType mvu None None) = []"
  "calls_of h (processAcmpResponse delegate acmp None None sniffed) = []"
  using processAemAecpResponse_calls(1) [OF of_handler_none] processMvuAecpResponse_calls(1) [OF of_handler_none]
    processAcmpResponse_calls(1) [OF of_handler_none] by simp_all

lemma cd_onEvent_keeps:
  assumes "cd_onEvent cc vuCopy ev cn = Some (calls, cn')" and "controller_ok T cn"
  shows "controller_ok T cn' \<and> calls_typed T calls \<and> length (calls_of h calls) + pending h cn' \<le> pending h cn"
proof (cases "\<exists>k response err. ev = Handled k response err")
  case True
  then obtain k response err where ev: "ev = Handled k response err" by blast
  show ?thesis
  proof (cases "al_get k (cn_completions cn)")
    case None
    then show ?thesis using assms by (auto simp: cd_onEvent_def ev)
  next
    case (Some c)
    then have c: "complete cc c response err = Some calls" "cn' = cn\<lparr>cn_completions := al_del k (cn_completions cn)\<rparr>"
      using assms(1) by (auto simp: cd_onEvent_def ev)
    show ?thesis
      using complete_keeps(1) [OF c(1) pending_complete(3) [OF assms(2) Some]]
        complete_keeps(2) [OF c(1) pending_complete(3) [OF assms(2) Some], of h]
        pending_complete(1) [OF assms(2) Some, of h] pending_complete(2) [OF assms(2) Some] c(2)
      by simp
  qed
next
  case False
  let ?same = "\<lambda>p. cn_completions (snd p) = cn_completions cn \<and> cn_nextHandler (snd p) = cn_nextHandler cn
    \<and> calls_typed T (fst p) \<and> calls_of h (fst p) = []"
  have "?same (calls, cn')"
    using assms(1) False
    by (cases ev) (auto simp: cd_onEvent_def cd_onAecpAemUnsolicitedResponse_def cd_onAecpAemIdentifyNotification_def
        cd_onAecpVuUnsolicitedResponse_def cd_onAcmpResponse_def cd_onLocalEntityOnline_def
        cd_onLocalEntityOffline_def processAemAecpResponse_typed processMvuAecpResponse_typed
        processAcmpResponse_typed unsolicited_calls dest!: arg_cong [where f = ?same]
        simp: discovery_events_keep split: aecp_pdu.splits if_splits)
  then show ?thesis using assms(2) by (simp add: controller_ok_def pending_def)
qed

text \<open>The invariant of a session.\<close>

definition given_times :: "user_handler \<Rightarrow> given \<Rightarrow> nat" where
  "given_times h given = length (filter (\<lambda>g. fst g = h) given)"

lemma given_times_simps [simp]:
  "given_times h [] = 0"
  "given_times h (given @ given') = given_times h given + given_times h given'"
  "given_times h (given_with handler ps) = of_bool (handler = Some h)"
  by (auto simp: given_times_def given_with_def split: option.splits)

definition session_ok :: "user_handler \<Rightarrow> given \<Rightarrow> call list \<Rightarrow> controller \<Rightarrow> bool" where
  "session_ok h given calls cn \<longleftrightarrow>
     controller_ok (\<lambda>x. x \<in> set given) cn \<and> calls_typed (\<lambda>x. x \<in> set given) calls \<and>
     length (calls_of h calls) + pending h cn \<le> given_times h given"

lemma session_command:
  assumes "session_ok h given calls cn"
    and "\<And>T. controller_ok T cn \<Longrightarrow> (\<And>h. handler = Some h \<Longrightarrow> T (h, map type_of ps)) \<Longrightarrow>
      controller_ok T cn' \<and> calls_typed T calls' \<and>
      length (calls_of h calls') + pending h cn' = pending h cn + of_bool (handler = Some h)"
  shows "session_ok h (given @ given_with handler ps) (calls @ calls') cn'"
proof -
  let ?T = "\<lambda>x. x \<in> set (given @ given_with handler ps)"
  have "controller_ok ?T cn" "calls_typed ?T calls"
    using assms(1) controller_ok_mono [of "\<lambda>x. x \<in> set given" cn ?T]
      calls_typed_mono [of "\<lambda>x. x \<in> set given" calls ?T] by (auto simp: session_ok_def)
  moreover from assms(2) [OF this(1)] have "controller_ok ?T cn' \<and> calls_typed ?T calls' \<and>
      length (calls_of h calls') + pending h cn' = pending h cn + of_bool (handler = Some h)"
    by (simp add: given_with_def)
  ultimately show ?thesis
    using assms(1) unfolding session_ok_def calls_of_simps given_times_simps length_append by simp
qed

lemma session_invariant:
  assumes "session cc vuCopy cn0 given calls cn" and "cn_completions cn0 = []"
  shows "session_ok h given calls cn"
  using assms(1)
proof induction
  case start
  then show ?case using assms(2) by (simp add: session_ok_def controller_ok_def pending_def al_ok_def)
next
  case (aem given calls cn targetEntityID commandType ser defaults handler calls' cn')
  then show ?case by (intro session_command aem_command_keeps) auto
next
  case (mvu given calls cn targetEntityID commandType ser defaults handler calls' cn')
  then show ?case by (intro session_command mvu_command_keeps) auto
next
  case (aa given calls cn targetEntityID tlvs handler calls' cn')
  then show ?case by (intro session_command addressAccess_keeps) auto
next
  case (acmp given calls cn messageType talkerEntityID talkerStreamIndex listenerEntityID listenerStreamIndex
      connectionIndex ps handler calls' cn')
  then show ?case by (intro session_command acmp_command_keeps) auto
next
  case (event given calls cn ev calls' cn')
  from event.IH cd_onEvent_keeps [OF event.hyps(2), of "\<lambda>x. x \<in> set given" h] show ?case
    by (simp add: session_ok_def)
next
  case (interface given calls cn reg m)
  then show ?case by (simp add: session_ok_def controller_ok_def pending_def)
qed

section \<open>The entities a controller knows\<close>

primrec cd_events ::
  "controller_config \<Rightarrow> (vu_aecpdu \<Rightarrow> vu_aecpdu option) \<Rightarrow> event list \<Rightarrow> controller \<Rightarrow> (call list \<times> controller) option"
where
  "cd_events cc vuCopy [] cn = Some ([], cn)"
| "cd_events cc vuCopy (ev # evs) cn =
     Option.bind (cd_onEvent cc vuCopy ev cn) (\<lambda>(calls, cn).
       map_option (\<lambda>(calls', cn). (calls @ calls', cn)) (cd_events cc vuCopy evs cn))"

text \<open>The map of a controller, as an observer of the discovery has it.\<close>

definition cd_known :: "controller \<Rightarrow> entity_id \<rightharpoonup> entity" where
  "cd_known cn i = map_option (\<lambda>de. entity_view (cde_entity de)) (al_get i (cn_discoveredEntities cn))"

text \<open>
  The events of an interface with no other local entity; an entity has an interface, as its constructor checks.
\<close>

definition own_event :: "controller_config \<Rightarrow> event \<Rightarrow> bool" where
  "own_event cc ev \<longleftrightarrow>
     (case ev of
        OnLocalEntityOnline en \<Rightarrow> uid_eq (getEntityID en) (cc_controllerID cc)
      | OnLocalEntityOffline i \<Rightarrow> uid_eq i (cc_controllerID cc)
      | OnRemoteEntityUpdated en \<Rightarrow> en_interfaces en \<noteq> []
      | _ \<Rightarrow> True)"

lemma cd_onEvent_known:
  assumes "cd_onEvent cc vuCopy ev cn = Some (calls, cn')" and "observe ev (cd_known cn) = Some m"
    and "own_event cc ev"
  shows "cd_known cn' = m"
  using assms
  by (cases ev) (auto simp: cd_onEvent_def own_event_def cd_onLocalEntityOnline_def cd_onLocalEntityOffline_def
      cd_onRemoteEntityOnline_def cd_onRemoteEntityOffline_def cd_onRemoteEntityUpdated_def cd_known_def Let_def
      fun_eq_iff split: option.splits if_splits)

lemma cd_events_known:
  "cd_events cc vuCopy evs cn = Some (calls, cn') \<Longrightarrow> observe_all evs (cd_known cn) = Some m \<Longrightarrow>
     \<forall>ev\<in>set evs. own_event cc ev \<Longrightarrow> cd_known cn' = m"
proof (induction evs arbitrary: cn calls)
  case (Cons ev evs)
  obtain calls1 cn1 where ev: "cd_onEvent cc vuCopy ev cn = Some (calls1, cn1)"
    using Cons.prems(1) by (auto simp: bind_eq_Some_conv)
  obtain m1 where m1: "observe ev (cd_known cn) = Some m1"
    using Cons.prems(2) by (auto simp: bind_eq_Some_conv)
  have "cd_known cn1 = m1"
    using cd_onEvent_known [OF ev m1] Cons.prems(3) by simp
  then show ?case
    using Cons ev m1 by (auto simp: bind_eq_Some_conv)
qed (simp)

lemma unknown_target:
  "cd_known cn i = None \<longleftrightarrow> al_get i (cn_discoveredEntities cn) = None"
  by (simp add: cd_known_def)

section \<open>Properties\<close>

text \<open>A controller for examples, which knows no entity yet.\<close>

definition example_config :: controller_config where
  "example_config =
     \<lparr>cc_controllerID = 0x001b92fffe000009, cc_delegate = True,
      cc_options = \<lparr>co_redundancy = True, co_ignoreInvalidNonSuccess = True, co_allowGetAudioMapUnsol = True\<rparr>,
      cc_build = default_build, cc_entityModelTree = None, cc_entity = 0, cc_isMacAddressValid = (\<lambda>a. a \<noteq> 0)\<rparr>"

definition example_controller :: controller where
  "example_controller =
     \<lparr>cn_discoveredEntities = [], cn_completions = [], cn_nextHandler = 0, cn_registry = fst sample_station,
      cn_manager = snd sample_station\<rparr>"

lemma refused_when_unknown:
  assumes "al_get targetEntityID (cn_discoveredEntities cn) = None" and "\<not> cc_isMacAddressValid cc 0"
  shows "aem_command targetEntityID commandType (Some payload) defaults (Some h) cc cn =
    ([HandlerCalled h (P_Uid targetEntityID # defaults) Status_UnknownEntity], cn)"
  using assms by (simp add: aem_command_def cd_sendAemAecpCommand_def target_address_def makeErrorHandler_def
      call_error_def)

lemma mvu_refused_when_unknown:
  assumes "al_get targetEntityID (cn_discoveredEntities cn) = None" and "\<not> cc_isMacAddressValid cc 0"
  shows "mvu_command targetEntityID commandType (Some payload) defaults (Some h) cc cn =
    ([HandlerCalled h (P_Uid targetEntityID # defaults) Status_UnknownEntity], cn)"
  using assms by (simp add: mvu_command_def cd_sendMvuAecpCommand_def target_address_def makeErrorHandler_def
      call_error_def)

lemma aa_refused_when_unknown:
  assumes "al_get targetEntityID (cn_discoveredEntities cn) = None" and "\<not> cc_isMacAddressValid cc 0"
  shows "addressAccess targetEntityID tlvs (Some h) cc cn =
    ([HandlerCalled h [P_Uid targetEntityID, P_Tlvs []] Status_UnknownEntity], cn)"
  using assms by (simp add: addressAccess_def cd_sendAaAecpCommand_def target_address_def makeErrorHandler_def
      call_error_def)

lemma acmp_never_looks:
  "acmp_command messageType talker talkerStream listener listenerStream connectionIndex ps handler cc
       (cn\<lparr>cn_discoveredEntities := ds\<rparr>) =
     map_prod id (\<lambda>cn. cn\<lparr>cn_discoveredEntities := ds\<rparr>)
       (acmp_command messageType talker talkerStream listener listenerStream connectionIndex ps handler cc cn)"
  by (simp add: acmp_command_def cd_sendAcmpCommand_def give_command_def split_beta Let_def split: option.split)

lemma example_refused:
  "cd_readEntityDescriptor 0x001b92fffe000001 (Some 5) example_config example_controller =
     ([HandlerCalled 5 [P_Uid 0x001b92fffe000001, P_Descriptor (D_Entity EntityDescriptor_new)] Status_UnknownEntity],
      example_controller)"
proof -
  obtain payload where "serializeReadDescriptorCommand 0 DescriptorType_Entity 0 = Some payload"
    by (simp add: serializeReadDescriptorCommand_def serialized_def pack_eq serializer_new_def)
  then show ?thesis
    by (simp add: cd_readEntityDescriptor_def refused_when_unknown example_controller_def example_config_def)
qed

lemma example_session:
  "session example_config Some example_controller
     [(5, [''UniqueIdentifier'', ''EntityDescriptor''])]
     [HandlerCalled 5 [P_Uid 0x001b92fffe000001, P_Descriptor (D_Entity EntityDescriptor_new)] Status_UnknownEntity]
     example_controller"
  using session.aem [OF session.start example_refused [unfolded cd_readEntityDescriptor_def]]
  by (simp add: given_with_def)

definition example_tree :: entity_tree where
  "example_tree =
     \<lparr>tr_configurationTrees = [], tr_vendorNameString = 0, tr_modelNameString = 1, tr_entityName = 0x41,
      tr_groupName = 0, tr_firmwareVersion = 0x31, tr_serialNumber = 0, tr_currentConfiguration = 0\<rparr>"

text \<open>
  C10.  A handler is only ever called with values of the types of a command it was given with, whatever
  commands, responses of whatever content, timeouts and notifications come in whatever order: what a type
  confused by a malformed response would give it, it does not get.
\<close>

theorem handlers_get_their_types:
  assumes "session cc vuCopy cn0 given calls cn" and "cn_completions cn0 = []"
    and "HandlerCalled h ps status \<in> set calls"
  shows "(h, map type_of ps) \<in> set given"
  using session_invariant [OF assms(1,2)] assms(3) by (auto simp: session_ok_def calls_typed_def)

theorem handlers_get_their_types_witness:
  "(5, [''UniqueIdentifier'', ''EntityDescriptor'']) \<in> set [(5 :: nat, [''UniqueIdentifier'', ''EntityDescriptor''])]"
  using handlers_get_their_types [OF example_session, of 5
      "[P_Uid 0x001b92fffe000001, P_Descriptor (D_Entity EntityDescriptor_new)]" Status_UnknownEntity]
  by (simp add: example_controller_def)

text \<open>
  C11.  A handler is called at most once for each command it was given with: the calls made so far and the
  completions that still wait for it are never more than those commands.
\<close>

theorem handlers_called_at_most_once:
  assumes "session cc vuCopy cn0 given calls cn" and "cn_completions cn0 = []"
  shows "length (calls_of h calls) + pending h cn \<le> given_times h given"
  using session_invariant [OF assms] by (simp add: session_ok_def)

theorem handlers_called_at_most_once_witness:
  "length (calls_of 5 [HandlerCalled 5 [P_Uid 0x001b92fffe000001, P_Descriptor (D_Entity EntityDescriptor_new)]
     Status_UnknownEntity]) + pending 5 example_controller \<le> 1"
  using handlers_called_at_most_once [OF example_session, of 5]
  by (simp add: example_controller_def given_times_def)

text \<open>
  C12.  A completed command calls its handler exactly once and no other handler: with the typed values of the
  response, or with an error when there is none or it is not what the command asked for.  The commands whose
  answer may be about an object of a type the controller does not handle are the exceptions
  (\<^verbatim>\<open>silent_commands\<close>).
\<close>

theorem completion_calls_handler:
  assumes "session cc vuCopy cn0 given calls cn" and "cn_completions cn0 = []"
    and "al_get k (cn_completions cn) = Some c" and "owner c = Some h"
    and "complete cc c response err \<noteq> None" and "answered_once c response err"
  shows "\<exists>calls' cn'. cd_onEvent cc vuCopy (Handled k response err) cn = Some (calls', cn') \<and>
    length (calls_of h calls') = 1 \<and> (\<forall>h'. h' \<noteq> h \<longrightarrow> calls_of h' calls' = []) \<and>
    al_get k (cn_completions cn') = None"
proof -
  from assms(5) obtain calls' where calls': "complete cc c response err = Some calls'" by blast
  let ?T = "\<lambda>x. x \<in> set given"
  have "controller_ok ?T cn"
    using session_invariant [OF assms(1,2)] by (simp add: session_ok_def)
  note answered = complete_keeps(3) [OF calls' pending_complete(3) [OF this assms(3)] assms(6)]
  have "length (calls_of h calls') = 1"
    using answered [of h] assms(4) by simp
  moreover have "calls_of h' calls' = []" if "h' \<noteq> h" for h'
    using answered [of h'] assms(4) that by simp
  ultimately show ?thesis
    using calls' assms(3) by (simp add: cd_onEvent_def)
qed

definition example_entity :: entity where
  "example_entity = sample_controller\<lparr>en_common := (en_common sample_controller)\<lparr>ei_entityID := 0x001b92fffe000001\<rparr>\<rparr>"

text \<open>The example once it has discovered an entity, with its own local entity registered.\<close>

definition example_discovered :: controller where
  "example_discovered = example_controller
     \<lparr>cn_discoveredEntities := [(0x001b92fffe000001, \<lparr>cde_entity = example_entity, cde_mainInterfaceIndex = 0\<rparr>)],
      cn_manager := (snd sample_station)\<lparr>mg_command := [(0x001b92fffe000009,
        \<lparr>ce_aecp = channel_new, ce_acmp = channel_new\<rparr>)]\<rparr>\<rparr>"

lemma command_accepted:
  assumes "length payload \<le> Aem_MaximumPayloadBufferLength opts"
    and "al_get controllerEntityID (mg_command m) \<noteq> None"
  shows "fst (sendAemAecpCommand opts reg controllerEntityID targetEntityID addr commandType payload h m) = None"
  using assms
  by (auto simp: sendAemAecpCommand_def Let_def Aem_setCommandSpecificData_def pi_sendAecpCommand_def aem_fields
      aecp_controllerEntityID_def aecp_messageType_def aecpdu.truncate_def isAecpResponseMessageType_def
      AecpMessageType_VendorUniqueCommand_def setAecpSpecificDataLength_def mg_sendAecpCommand_def
      sendAecpCommand_def split_beta split: option.splits)

lemma example_sent:
  "\<exists>c cn. session example_config Some example_discovered [(5, [''UniqueIdentifier'', ''EntityDescriptor''])] [] cn \<and>
     al_get 0 (cn_completions cn) = Some c \<and> owner c = Some 5 \<and> complete example_config c None Timeout \<noteq> None"
proof -
  let ?ps = "[P_Uid 0x001b92fffe000001, P_Descriptor (D_Entity EntityDescriptor_new)]"
  let ?c = "AemCompletion AemCommandType_ReadDescriptor (makeErrorHandler (Some 5) ?ps) (AnswerCallback AemStatus ?ps (Some 5))"
  obtain payload where payload: "serializeReadDescriptorCommand 0 DescriptorType_Entity 0 = Some payload" "length payload = 8"
    by (simp add: serializeReadDescriptorCommand_def serialized_eq)
  have known: "target_address 0x001b92fffe000001 example_discovered \<noteq> 0"
    by (simp add: target_address_def example_discovered_def example_entity_def getMacAddress_def
        getInterfaceInformation_def sample_controller_def)
  let ?send = "sendAemAecpCommand (cc_build example_config) (cn_registry example_discovered)
      (cc_controllerID example_config) 0x001b92fffe000001 (target_address 0x001b92fffe000001 example_discovered)
      AemCommandType_ReadDescriptor payload (cn_nextHandler example_discovered) (cn_manager example_discovered)"
  have "fst ?send = None"
    using payload(2) by (intro command_accepted)
      (simp_all add: example_discovered_def example_config_def aecp_lengths)
  then obtain m where m: "?send = (None, m)" by (metis prod.collapse)
  let ?cn = "example_discovered\<lparr>cn_completions := [(0, ?c)], cn_nextHandler := Suc 0, cn_manager := m\<rparr>"
  have "cn_nextHandler example_discovered = 0" "cn_completions example_discovered = []"
    "cc_isMacAddressValid example_config (target_address 0x001b92fffe000001 example_discovered)"
    using known by (simp_all add: example_discovered_def example_controller_def example_config_def)
  then have "cd_readEntityDescriptor 0x001b92fffe000001 (Some 5) example_config example_discovered = ([], ?cn)"
    using m payload(1)
    by (simp add: cd_readEntityDescriptor_def aem_command_def cd_sendAemAecpCommand_def give_command_def Let_def)
  moreover have "al_get 0 (cn_completions ?cn) = Some ?c" by simp
  ultimately show ?thesis
    using session.aem [OF session.start, of "0x001b92fffe000001" AemCommandType_ReadDescriptor
        "serializeReadDescriptorCommand 0 DescriptorType_Entity 0" "[P_Descriptor (D_Entity EntityDescriptor_new)]"
        "Some 5" example_config example_discovered "[]" ?cn Some]
    by (intro exI [of _ ?c] exI [of _ ?cn])
      (simp add: cd_readEntityDescriptor_def given_with_def owner_def makeErrorHandler_def Status_Success_def
        Status_TimedOut_def)
qed

theorem completion_calls_handler_witness:
  "\<exists>cn calls cn'. cd_onEvent example_config Some (Handled 0 None Timeout) cn = Some (calls, cn') \<and>
     length (calls_of 5 calls) = 1 \<and> al_get 0 (cn_completions cn') = None"
proof -
  obtain c cn where sent: "session example_config Some example_discovered
      [(5, [''UniqueIdentifier'', ''EntityDescriptor''])] [] cn"
    "al_get 0 (cn_completions cn) = Some c" "owner c = Some 5" "complete example_config c None Timeout \<noteq> None"
    using example_sent by blast
  from completion_calls_handler [OF sent(1) _ sent(2-4)] show ?thesis
    by (auto simp: example_discovered_def example_controller_def answered_once_def)
qed

text \<open>
  C13.  With no other local entity on its interface, a controller knows exactly the entities an observer of the
  discovery knows, each with its current information, however often they change their interfaces.  An AEM, Milan
  or address access command to any other is refused at once, with the status for that, and leaves no trace; an
  ACMP command is not: what becomes of it does not depend on the entities known.
\<close>

theorem controller_knows_discovered:
  assumes "cd_events cc vuCopy evs cn0 = Some (calls, cn)" and "cn_discoveredEntities cn0 = []"
    and "observe_all evs Map.empty = Some m" and "\<forall>ev\<in>set evs. own_event cc ev" and "\<not> cc_isMacAddressValid cc 0"
  shows "cd_known cn = m
    \<and> (m targetEntityID = None \<longrightarrow>
         aem_command targetEntityID commandType (Some payload) defaults (Some h) cc cn =
           ([HandlerCalled h (P_Uid targetEntityID # defaults) Status_UnknownEntity], cn)
         \<and> mvu_command targetEntityID commandType (Some payload) defaults (Some h) cc cn =
           ([HandlerCalled h (P_Uid targetEntityID # defaults) Status_UnknownEntity], cn)
         \<and> addressAccess targetEntityID tlvs (Some h) cc cn =
           ([HandlerCalled h [P_Uid targetEntityID, P_Tlvs []] Status_UnknownEntity], cn))
    \<and> acmp_command messageType talker talkerStream listener listenerStream connectionIndex ps (Some h) cc
         (cn\<lparr>cn_discoveredEntities := ds\<rparr>) =
       map_prod id (\<lambda>cn. cn\<lparr>cn_discoveredEntities := ds\<rparr>)
         (acmp_command messageType talker talkerStream listener listenerStream connectionIndex ps (Some h) cc cn)"
proof -
  have "cd_known cn0 = Map.empty"
    using assms(2) by (simp add: cd_known_def fun_eq_iff)
  then have known: "cd_known cn = m"
    using cd_events_known [OF assms(1) _ assms(4)] assms(3) by simp
  have refused: "al_get targetEntityID (cn_discoveredEntities cn) = None" if "m targetEntityID = None"
    using that known unknown_target by metis
  show ?thesis
    by (intro conjI impI known acmp_never_looks refused_when_unknown [OF refused assms(5)]
        mvu_refused_when_unknown [OF refused assms(5)] aa_refused_when_unknown [OF refused assms(5)])
qed

definition example_update :: entity where
  "example_update = example_entity\<lparr>en_interfaces := map (\<lambda>(i, info). (1, info)) (en_interfaces example_entity)\<rparr>"

theorem controller_knows_discovered_witness:
  "\<exists>calls cn. cd_events example_config Some [OnLocalEntityOnline sample_controller, OnRemoteEntityOnline example_entity,
       OnRemoteEntityUpdated example_update] example_controller = Some (calls, cn) \<and>
     cd_known cn = [0x001b92fffe000001 \<mapsto> entity_view example_update] \<and>
     (\<exists>t. aem_command t AemCommandType_GetConfiguration (Some []) [P_U16 0] (Some 5) example_config cn =
        ([HandlerCalled 5 [P_Uid t, P_U16 0] Status_UnknownEntity], cn))"
proof -
  let ?evs = "[OnLocalEntityOnline sample_controller, OnRemoteEntityOnline example_entity, OnRemoteEntityUpdated example_update]"
  obtain calls cn where run: "cd_events example_config Some ?evs example_controller = Some (calls, cn)"
    by (simp add: cd_onEvent_def split_beta)
  note known = controller_knows_discovered [OF run, of "[0x001b92fffe000001 \<mapsto> entity_view example_update]" 7
      AemCommandType_GetConfiguration "[]" "[P_U16 0]" 5]
  show ?thesis
    by (intro exI [of _ calls] exI [of _ cn] conjI exI [of _ 7])
      (use known run in \<open>auto simp: example_controller_def example_config_def own_event_def example_update_def
        example_entity_def sample_controller_def getEntityID_def uid_eq_def\<close>)
qed

text \<open>
  C24.  READ_DESCRIPTOR of the ENTITY descriptor of a controller with an entity model, end to end: the command
  another controller serializes is answered with a payload, and processing the response with that payload
  calls the other controller's handler once, with the descriptor made of the tree and of the entity.
\<close>

theorem entity_descriptor_served:
  assumes "serializeReadDescriptorCommand 0 DescriptorType_Entity 0 = Some payload"
  shows "\<exists>answer. answer_ReadDescriptor opts (Some t) en payload = Answered answer \<and>
    (\<forall>aem. m_commandType aem = AemCommandType_ReadDescriptor \<longrightarrow> m_commandSpecificData aem = answer \<longrightarrow>
       m_status aem = AecpStatus_Success \<longrightarrow>
       processAemAecpResponse co delegate AemCommandType_ReadDescriptor aem (makeErrorHandler (Some h) bound)
         (AnswerCallback AemStatus [P_Uid i, P_Descriptor (D_Entity EntityDescriptor_new)] (Some h)) =
       [HandlerCalled h [P_Uid (m_streamID aem), P_Descriptor (D_Entity (buildEntityDescriptor t en))] Status_Success])"
proof -
  obtain s where s: "Option.bind (serializeReadDescriptorCommonResponse opts 0 DescriptorType_Entity 0)
      (serializeReadEntityDescriptorResponse (buildEntityDescriptor t en)) = Some s"
    "deserializeReadDescriptorCommonResponse Status_Success (buffer s) = Inr (8, 0, DescriptorType_Entity, 0)"
    "deserializeReadEntityDescriptorResponse (buffer s) 8 0 = Inr (buildEntityDescriptor t en)"
    using entity_descriptor_read by blast
  have "deserializeReadDescriptorCommand payload = Inr (0, DescriptorType_Entity, 0)"
    using assms by (auto simp: serializeReadDescriptorCommand_def serialized_Some_iff deserializeReadDescriptorCommand_def
        unpack_payload_def)
  then have "answer_ReadDescriptor opts (Some t) en payload = Answered (buffer s)"
    using s(1) by (simp add: answer_ReadDescriptor_def answered_def Let_def)
  moreover have "on_ReadDescriptor redundancy ans notify Status_Success (buffer s)
      = Inr (ans [P_Descriptor (D_Entity (buildEntityDescriptor t en))])" for redundancy ans notify
    using s(2,3) by (simp add: on_ReadDescriptor_def descriptor_readers_def Status_Success_def)
  ultimately show ?thesis
    by (auto simp: processAemAecpResponse_def Let_def aem_dispatch_def AemCommandType_defs invoke_def AnswerCallback_def
        AecpStatus_Success_def Status_Success_def)
qed

theorem entity_descriptor_served_witness:
  "\<exists>payload answer. serializeReadDescriptorCommand 0 DescriptorType_Entity 0 = Some payload \<and>
     answer_ReadDescriptor default_build (Some example_tree) sample_controller payload = Answered answer"
proof -
  obtain payload where payload: "serializeReadDescriptorCommand 0 DescriptorType_Entity 0 = Some payload"
    by (simp add: serializeReadDescriptorCommand_def serialized_eq)
  from entity_descriptor_served [OF this, of default_build example_tree sample_controller
      "cc_options example_config" True 5 "[]" 7] payload show ?thesis by blast
qed

end
