(* ===== verification/StreamFormats.thy ===== *)
theory StreamFormats
  imports PayloadCodec
begin

text \<open>
  Stream formats (src/streamFormatInfo.cpp, streamFormatInfo.hpp): the 64-bit value of a format and its fields, the
  formats the library understands, the formats it builds, and how the formats of a listener and of a talker are
  brought together.

  Bits are numbered as in the standard, bit 0 being the most significant.  An exception of a constructor is the
  result None, which \<^verbatim>\<open>createRawStreamFormatInfo\<close> turns into an unsupported format, as its catch clause does.  The
  assertions of a debug build are left out.
\<close>

unbundle bit_operations_syntax


section \<open>Sampling rates\<close>

definition SamplingRate_of :: "8 word \<Rightarrow> 32 word \<Rightarrow> sampling_rate" where
  "SamplingRate_of pull baseFrequency = push_bit 29 (ucast pull) + (baseFrequency AND 0x1FFFFFFF)"

definition getPull :: "sampling_rate \<Rightarrow> 8 word" where
  "getPull rate = ucast (drop_bit 29 rate)"

definition getBaseFrequency :: "sampling_rate \<Rightarrow> 32 word" where
  "getBaseFrequency rate = rate AND 0x1FFFFFFF"

definition SamplingRate_isValid :: "sampling_rate \<Rightarrow> bool" where
  "SamplingRate_isValid rate \<longleftrightarrow> rate AND 0x1FFFFFFF \<noteq> 0"

definition SamplingRate_eq :: "sampling_rate \<Rightarrow> sampling_rate \<Rightarrow> bool" where
  "SamplingRate_eq lhs rhs \<longleftrightarrow> (\<not> SamplingRate_isValid lhs \<and> \<not> SamplingRate_isValid rhs) \<or> lhs = rhs"

section \<open>Fields\<close>

text \<open>A field is read into a type of its own width; one is written without a mask on the new value.\<close>

definition contiguousBitMask :: "nat \<Rightarrow> nat \<Rightarrow> 'a::len word" where
  "contiguousBitMask firstBit lastBit = push_bit firstBit (mask (lastBit - firstBit + 1))"

definition getField :: "nat \<Rightarrow> nat \<Rightarrow> stream_format \<Rightarrow> 'a::len word" where
  "getField firstBit lastBit format =
     ucast (drop_bit (64 - lastBit - 1) format) AND contiguousBitMask 0 (lastBit - firstBit)"

definition replaceField :: "nat \<Rightarrow> nat \<Rightarrow> 'a::len word \<Rightarrow> stream_format \<Rightarrow> stream_format" where
  "replaceField firstBit lastBit newValue format =
     (format AND NOT (contiguousBitMask (64 - lastBit - 1) (64 - firstBit - 1)))
       OR push_bit (64 - lastBit - 1) (ucast newValue)"

section \<open>Formats\<close>

datatype stream_format_type = SFT_None | SFT_IEC_61883_6 | SFT_AAF | SFT_ClockReference | SFT_Unsupported

datatype sample_format =
  SF_Int8 | SF_Int16 | SF_Int24 | SF_Int32 | SF_Int64 | SF_FixedPoint32 | SF_FloatingPoint32 | SF_Unknown

datatype crf_type = CRF_User | CRF_AudioSample | CRF_MachineCycle | CRF_Unknown

record crf_info =
  crf_crfType :: crf_type
  crf_timestampInterval :: "16 word"
  crf_timestampsPerPdu :: "8 word"

record stream_format_info =
  sfi_streamFormat :: stream_format
  sfi_type :: stream_format_type
  sfi_channelsCount :: "16 word"
  sfi_upToChannelsCount :: bool
  sfi_samplingRate :: sampling_rate
  sfi_sampleFormat :: sample_format
  sfi_useSynchronousClock :: bool
  sfi_sampleDepth :: "16 word"
  sfi_crf :: "crf_info option"

definition StreamFormatInfoBase :: "stream_format \<Rightarrow> stream_format_type \<Rightarrow> stream_format_info" where
  "StreamFormatInfoBase streamFormat t =
     \<lparr>sfi_streamFormat = streamFormat, sfi_type = t, sfi_channelsCount = 0, sfi_upToChannelsCount = False,
      sfi_samplingRate = 0, sfi_sampleFormat = SF_Unknown, sfi_useSynchronousClock = False, sfi_sampleDepth = 0,
      sfi_crf = None\<rparr>"

fun getSampleSize :: "sample_format \<Rightarrow> 16 word" where
  "getSampleSize SF_Int8 = 8"
| "getSampleSize SF_Int16 = 16"
| "getSampleSize SF_Int24 = 24"
| "getSampleSize SF_Int32 = 32"
| "getSampleSize SF_Int64 = 64"
| "getSampleSize SF_FixedPoint32 = 32"
| "getSampleSize SF_FloatingPoint32 = 32"
| "getSampleSize SF_Unknown = 0"

text \<open>The two tables of sampling rates, read in one direction by the constructors and in the other by the builders.\<close>

definition fdf_sfc_rates :: "(8 word \<times> 32 word) list" where
  "fdf_sfc_rates = [(0, 32000), (1, 44100), (2, 48000), (3, 88200), (4, 96000), (5, 176400), (6, 192000)]"

definition nsr_rates :: "(8 word \<times> 32 word) list" where
  "nsr_rates = [(0, 0), (1, 8000), (2, 16000), (3, 32000), (4, 44100), (5, 48000), (6, 88200), (7, 96000),
     (8, 176400), (9, 192000), (10, 24000)]"

definition StreamFormatInfoIEC_61883_6_AM824 ::
    "stream_format \<Rightarrow> 8 word \<Rightarrow> 8 word \<Rightarrow> bool \<Rightarrow> bool \<Rightarrow> stream_format_info option" where
  "StreamFormatInfoIEC_61883_6_AM824 streamFormat fdf_sfc dbs ut sc =
     map_option (\<lambda>baseFrequency. (StreamFormatInfoBase streamFormat SFT_IEC_61883_6)
         \<lparr>sfi_channelsCount := ucast dbs, sfi_upToChannelsCount := ut, sfi_samplingRate := SamplingRate_of 0 baseFrequency,
          sfi_useSynchronousClock := sc, sfi_sampleFormat := SF_Int24, sfi_sampleDepth := 24\<rparr>)
       (map_of fdf_sfc_rates fdf_sfc)"

definition pcm_sample_format :: "8 word \<Rightarrow> sample_format option" where
  "pcm_sample_format format = map_of [(2, SF_Int32), (3, SF_Int24), (4, SF_Int16)] format"

definition StreamFormatInfoAAF_PCM ::
    "stream_format \<Rightarrow> bool \<Rightarrow> 8 word \<Rightarrow> 8 word \<Rightarrow> 8 word \<Rightarrow> 16 word \<Rightarrow> stream_format_info option" where
  "StreamFormatInfoAAF_PCM streamFormat ut nsr format bit_depth channels_per_frame =
     (case map_of nsr_rates nsr of
        None \<Rightarrow> None
      | Some baseFrequency \<Rightarrow>
          map_option (\<lambda>sampleFormat. (StreamFormatInfoBase streamFormat SFT_AAF)
              \<lparr>sfi_upToChannelsCount := ut, sfi_samplingRate := SamplingRate_of 0 baseFrequency,
               sfi_useSynchronousClock := True, sfi_channelsCount := channels_per_frame,
               sfi_sampleFormat := sampleFormat, sfi_sampleDepth := ucast bit_depth\<rparr>)
            (pcm_sample_format format))"

definition StreamFormatInfoCRFImpl ::
    "stream_format \<Rightarrow> 8 word \<Rightarrow> 16 word \<Rightarrow> 8 word \<Rightarrow> 8 word \<Rightarrow> 32 word \<Rightarrow> stream_format_info option" where
  "StreamFormatInfoCRFImpl streamFormat crf_type timestamp_interval timestamps_per_pdu pull base_frequency =
     map_option (\<lambda>t. (StreamFormatInfoBase streamFormat SFT_ClockReference)
         \<lparr>sfi_samplingRate := SamplingRate_of pull base_frequency, sfi_sampleFormat := SF_Int64, sfi_sampleDepth := 64,
          sfi_useSynchronousClock := True,
          sfi_crf := Some \<lparr>crf_crfType = t, crf_timestampInterval = timestamp_interval,
                           crf_timestampsPerPdu = timestamps_per_pdu\<rparr>\<rparr>)
       (map_of [(0, CRF_User), (1, CRF_AudioSample), (4, CRF_MachineCycle)] crf_type)"

definition unpack_format :: "stream_format \<Rightarrow> stream_format_info option" where
  "unpack_format f =
     (if (getField 0 0 f :: 8 word) = 1 then None
      else let subtype = (getField 1 7 f :: 8 word) in
      if subtype = 0 then
        (if (getField 8 8 f :: 8 word) = 0 then None
         else if (getField 9 14 f :: 8 word) \<noteq> 0x10 then None
         else if (getField 16 20 f :: 8 word) \<noteq> 0 then None
         else StreamFormatInfoIEC_61883_6_AM824 f (getField 21 23 f) (getField 24 31 f)
                ((getField 34 34 f :: 8 word) \<noteq> 0) ((getField 35 35 f :: 8 word) \<noteq> 0))
      else if subtype = 2 then
        (let format = (getField 16 23 f :: 8 word) in
         if format \<in> set [2, 3, 4]
         then StreamFormatInfoAAF_PCM f ((getField 11 11 f :: 8 word) \<noteq> 0) (getField 12 15 f) format
                (getField 24 31 f) (getField 32 41 f)
         else None)
      else if subtype = 4 then
        StreamFormatInfoCRFImpl f (getField 8 11 f) (getField 12 23 f) (getField 24 31 f) (getField 32 34 f) (getField 35 63 f)
      else None)"

definition createRawStreamFormatInfo :: "stream_format \<Rightarrow> stream_format_info" where
  "createRawStreamFormatInfo streamFormat =
     (if streamFormat = 0 then StreamFormatInfoBase streamFormat SFT_None
      else case unpack_format streamFormat of
             Some info \<Rightarrow> info | None \<Rightarrow> StreamFormatInfoBase streamFormat SFT_Unsupported)"

definition getAdaptedStreamFormat :: "stream_format_info \<Rightarrow> 16 word \<Rightarrow> stream_format" where
  "getAdaptedStreamFormat info channelsCount =
     (if sfi_upToChannelsCount info then
        (if channelsCount > sfi_channelsCount info then 0
         else if sfi_type info = SFT_AAF
           then replaceField 32 41 channelsCount (replaceField 11 11 (0 :: 8 word) (sfi_streamFormat info))
           else replaceField 48 55 channelsCount (replaceField 24 31 channelsCount
                  (replaceField 34 34 (0 :: 8 word) (sfi_streamFormat info))))
      else if channelsCount \<noteq> sfi_channelsCount info then 0
      else sfi_streamFormat info)"

section \<open>Building\<close>

definition rate_field :: "(8 word \<times> 32 word) list \<Rightarrow> sampling_rate \<Rightarrow> 8 word option" where
  "rate_field rates samplingRate =
     (if getPull samplingRate \<noteq> 0 then None
      else map_of (map (\<lambda>(field, rate). (rate, field)) rates) (getBaseFrequency samplingRate))"

definition bool_field :: "bool \<Rightarrow> 8 word" where
  "bool_field b = (if b then 1 else 0)"

definition buildFormat_IEC_61883_6 ::
    "16 word \<Rightarrow> bool \<Rightarrow> sampling_rate \<Rightarrow> sample_format \<Rightarrow> bool \<Rightarrow> stream_format" where
  "buildFormat_IEC_61883_6 channelsCount isUpToChannelsCount samplingRate sampleFormat useSynchronousClock =
     (if sampleFormat \<noteq> SF_Int24 then 0
      else case rate_field fdf_sfc_rates samplingRate of
        None \<Rightarrow> 0
      | Some fdf_sfc \<Rightarrow>
          replaceField 48 55 channelsCount
            (replaceField 35 35 (bool_field useSynchronousClock)
            (replaceField 34 34 (bool_field isUpToChannelsCount)
            (replaceField 33 33 (1 :: 8 word)
            (replaceField 24 31 channelsCount
            (replaceField 21 23 fdf_sfc
            (replaceField 16 20 (0 :: 8 word)
            (replaceField 9 14 (0x10 :: 8 word)
            (replaceField 8 8 (1 :: 8 word)
            (replaceField 1 7 (0 :: 8 word)
            (replaceField 0 0 (0 :: 8 word) 0)))))))))))"

definition pcm_format_field :: "sample_format \<Rightarrow> (8 word \<times> 16 word) option" where
  "pcm_format_field sampleFormat = (case sampleFormat of
     SF_Int32 \<Rightarrow> Some (2, 32) | SF_Int24 \<Rightarrow> Some (3, 24) | SF_Int16 \<Rightarrow> Some (4, 16) | _ \<Rightarrow> None)"

definition buildFormat_AAF ::
    "16 word \<Rightarrow> bool \<Rightarrow> sampling_rate \<Rightarrow> sample_format \<Rightarrow> 16 word \<Rightarrow> 16 word \<Rightarrow> stream_format" where
  "buildFormat_AAF channelsCount isUpToChannelsCount samplingRate sampleFormat sampleBitDepth samplesPerFrame =
     (case rate_field nsr_rates samplingRate of
        None \<Rightarrow> 0
      | Some nsr \<Rightarrow>
          (case pcm_format_field sampleFormat of
             None \<Rightarrow> 0
           | Some (format, maxDepth) \<Rightarrow>
               if sampleBitDepth > maxDepth then 0
               else
                 replaceField 42 51 samplesPerFrame
                   (replaceField 32 41 channelsCount
                   (replaceField 24 31 sampleBitDepth
                   (replaceField 16 23 format
                   (replaceField 12 15 nsr
                   (replaceField 11 11 (bool_field isUpToChannelsCount)
                   (replaceField 1 7 (2 :: 8 word)
                   (replaceField 0 0 (0 :: 8 word) 0)))))))))"

section \<open>Listener and talker\<close>

definition clocks_compatible :: "stream_format_info \<Rightarrow> stream_format_info \<Rightarrow> bool" where
  "clocks_compatible l t \<longleftrightarrow> sfi_useSynchronousClock t \<or> \<not> sfi_useSynchronousClock l"

definition isListenerFormatCompatibleWithTalkerFormat :: "stream_format \<Rightarrow> stream_format \<Rightarrow> bool" where
  "isListenerFormatCompatibleWithTalkerFormat listenerStreamFormat talkerStreamFormat =
     (let l = createRawStreamFormatInfo listenerStreamFormat; t = createRawStreamFormatInfo talkerStreamFormat in
      sfi_type l = sfi_type t
      \<and> sfi_channelsCount l = sfi_channelsCount t
      \<and> \<not> sfi_upToChannelsCount l
      \<and> \<not> sfi_upToChannelsCount t
      \<and> SamplingRate_eq (sfi_samplingRate l) (sfi_samplingRate t)
      \<and> sfi_sampleFormat l = sfi_sampleFormat t
      \<and> clocks_compatible l t)"

definition getAdaptedCompatibleFormats :: "stream_format \<Rightarrow> stream_format \<Rightarrow> stream_format \<times> stream_format" where
  "getAdaptedCompatibleFormats listenerStreamFormat talkerStreamFormat =
     (let l = createRawStreamFormatInfo listenerStreamFormat; t = createRawStreamFormatInfo talkerStreamFormat in
      if sfi_type l = sfi_type t
         \<and> SamplingRate_eq (sfi_samplingRate l) (sfi_samplingRate t)
         \<and> sfi_sampleFormat l = sfi_sampleFormat t
         \<and> clocks_compatible l t
      then
        (let lChanCount = (if sfi_upToChannelsCount l then min (sfi_channelsCount l) (sfi_channelsCount t)
                           else sfi_channelsCount l);
             tChanCount = (if sfi_upToChannelsCount t then min (sfi_channelsCount t) lChanCount
                           else sfi_channelsCount t)
         in if lChanCount = tChanCount
              \<and> getAdaptedStreamFormat l lChanCount \<noteq> 0 \<and> getAdaptedStreamFormat t tChanCount \<noteq> 0
            then (getAdaptedStreamFormat l lChanCount, getAdaptedStreamFormat t tChanCount)
            else (0, 0))
      else (0, 0))"

section \<open>Fields written and read\<close>

lemma bit_contiguousBitMask:
  "bit (contiguousBitMask f l :: 'a::len word) n \<longleftrightarrow> n < LENGTH('a) \<and> f \<le> n \<and> n < f + (l - f + 1)"
  by (auto simp: contiguousBitMask_def bit_simps)

lemma bit_getField:
  "bit (getField f l x :: 'a::len word) n \<longleftrightarrow> n < LENGTH('a) \<and> n < l - f + 1 \<and> bit x (n + (64 - l - 1))"
  by (auto simp: getField_def contiguousBitMask_def bit_simps ac_simps)

lemma bit_replaceField:
  assumes "f \<le> l" "l < 64"
  shows "bit (replaceField f l v x) n \<longleftrightarrow> n < 64 \<and>
    ((bit x n \<and> \<not> (64 - l - 1 \<le> n \<and> n < 64 - f)) \<or> (64 - l - 1 \<le> n \<and> bit v (n - (64 - l - 1))))"
  using assms by (auto simp: replaceField_def contiguousBitMask_def bit_simps)

text \<open>A value fits a field when it has no bits above it.\<close>

definition fits :: "nat \<Rightarrow> 'a::len word \<Rightarrow> bool" where
  "fits n v \<longleftrightarrow> (\<forall>i < LENGTH('a). n \<le> i \<longrightarrow> \<not> bit v i)"

lemma fits_take_bit: "fits n v \<longleftrightarrow> take_bit n v = v"
  by (rule iffI; rule ccontr) (auto simp: fits_def bit_eq_iff bit_simps not_less)

lemma fits_less: "fits n v \<longleftrightarrow> unat v < 2 ^ n"
proof -
  have "unat (take_bit n v) = take_bit n (unat v)" by (simp add: unsigned_take_bit_eq)
  thus ?thesis by (simp add: fits_take_bit word_unat_eq_iff take_bit_nat_eq_self_iff)
qed

lemma bit_fits: "fits n v \<Longrightarrow> bit v i \<Longrightarrow> i < n"
  by (metis bit_imp_le_length fits_def not_less)

lemma getField_same:
  assumes "f \<le> l" "l < 64" "l - f < LENGTH('a)"
  shows "(getField f l (replaceField f l (v :: 'b::len word) x) :: 'a::len word) = ucast (take_bit (l - f + 1) v)"
  by (rule bit_word_eqI) (use assms in \<open>auto simp: bit_getField bit_replaceField bit_simps\<close>)

lemma getField_after:
  assumes "f \<le> l" "l < f'" "f' \<le> l'" "l' < 64" "fits (l' - f' + 1) v"
  shows "(getField f l (replaceField f' l' v x) :: 'a::len word) = getField f l x"
proof (rule bit_word_eqI)
  fix n assume "n < LENGTH('a)"
  have "\<not> bit v (n + (64 - l - 1) - (64 - l' - 1))" using bit_fits [OF assms(5), of "n + (64 - l - 1) - (64 - l' - 1)"] assms by auto
  thus "bit (getField f l (replaceField f' l' v x) :: 'a word) n = bit (getField f l x :: 'a word) n"
    using assms(1-4) by (auto simp: bit_getField bit_replaceField)
qed

lemma getField_before:
  assumes "f \<le> l" "l' < f" "f' \<le> l'" "l < 64"
  shows "(getField f l (replaceField f' l' v x) :: 'a::len word) = getField f l x"
  by (rule bit_word_eqI) (use assms in \<open>auto simp: bit_getField bit_replaceField\<close>)

lemma getField_zero: "getField f l 0 = 0"
  by (simp add: getField_def)

text \<open>A field holds a value of its width.\<close>

lemma getField_fits: "fits (l - f + 1) (getField f l x)"
  by (auto simp: fits_def bit_getField)

lemma fits_bool_field [simp]: "0 < n \<Longrightarrow> fits n (bool_field b)"
  using one_less_power [of "2 :: nat" n] by (auto simp: fits_less bool_field_def)

lemma fits_take: "fits n v \<Longrightarrow> take_bit n v = v"
  by (simp add: fits_take_bit)

lemma fits_literal: "fits n (numeral k :: 'a::len word) \<longleftrightarrow> take_bit n (numeral k :: 'a word) = numeral k" "fits n 0" "0 < n \<Longrightarrow> fits n 1"
  by (simp_all add: fits_take_bit)

lemmas fields_at = getField_same getField_after getField_before getField_zero fits_take fits_literal

section \<open>What is built is understood\<close>

lemma rate_fields_inverse:
  "rate_field fdf_sfc_rates rate = Some x \<Longrightarrow>
     map_of fdf_sfc_rates x = Some (getBaseFrequency rate) \<and> fits 3 x \<and> getPull rate = 0"
  "rate_field nsr_rates rate = Some x \<Longrightarrow>
     map_of nsr_rates x = Some (getBaseFrequency rate) \<and> fits 4 x \<and> getPull rate = 0"
  by (auto simp: rate_field_def fdf_sfc_rates_def nsr_rates_def fits_less split: if_splits)

lemma SamplingRate_of_rate:
  assumes "getPull rate = 0"
  shows "SamplingRate_of 0 (getBaseFrequency rate) = rate"
proof -
  have "\<not> bit rate n" if "29 \<le> n" "n < 32" for n
  proof -
    have "\<not> bit (getPull rate) (n - 29)" using assms by simp
    thus ?thesis using that by (simp add: getPull_def bit_simps)
  qed
  moreover have "(0x1FFFFFFF :: 32 word) = mask 29" by (simp add: mask_eq_exp_minus_1)
  ultimately have "rate AND 0x1FFFFFFF = rate" by (auto simp: bit_eq_iff bit_simps)
  thus ?thesis by (simp add: SamplingRate_of_def getBaseFrequency_def)
qed

lemma pcm_format_field_inverse:
  "pcm_format_field sampleFormat = Some (x, maxDepth) \<Longrightarrow>
     pcm_sample_format x = Some sampleFormat \<and> x \<in> set [2, 3, 4] \<and> fits 8 x \<and> unat maxDepth \<le> 32"
  by (auto simp: pcm_format_field_def pcm_sample_format_def fits_less split: sample_format.splits)

lemma bool_field_zero [simp]: "bool_field b = 0 \<longleftrightarrow> \<not> b" "take_bit (Suc n) (bool_field b) = bool_field b"
  by (auto simp: bool_field_def)

lemma ucast_bool_field: "(ucast (bool_field b) :: 8 word) = bool_field b"
  by (simp add: bool_field_def)

lemma fits_ucast: "fits 8 v \<Longrightarrow> (ucast (ucast v :: 8 word) :: 16 word) = v"
  by (auto simp: bit_eq_iff bit_simps dest: bit_fits)

text \<open>
  A format built for AAF, not null and with counts that fit their fields of 10 bits, is understood by the library as
  exactly what it was built from: type, channel count, up-to bit, rate, sample format and depth.
\<close>

lemma buildFormat_AAF_understood:
  assumes "buildFormat_AAF n upTo rate sampleFormat depth samples = f" "f \<noteq> 0" "unat n < 1024" "unat samples < 1024"
  shows "createRawStreamFormatInfo f = \<lparr>sfi_streamFormat = f, sfi_type = SFT_AAF, sfi_channelsCount = n,
           sfi_upToChannelsCount = upTo, sfi_samplingRate = rate, sfi_sampleFormat = sampleFormat,
           sfi_useSynchronousClock = True, sfi_sampleDepth = depth, sfi_crf = None\<rparr>"
proof -
  from assms(1,2) obtain nsr x maxDepth where r: "rate_field nsr_rates rate = Some nsr"
      and s: "pcm_format_field sampleFormat = Some (x, maxDepth)" and d: "depth \<le> maxDepth"
    by (auto simp: buildFormat_AAF_def split: option.splits if_splits)
  note r' = rate_fields_inverse(2) [OF r] and s' = pcm_format_field_inverse [OF s]
  have d': "fits 8 depth" using d s' by (simp add: word_le_nat_alt fits_less)
  have n: "fits 10 n" "fits 10 samples" using assms(3,4) by (simp_all add: fits_less)
  have f: "f = replaceField 42 51 samples (replaceField 32 41 n (replaceField 24 31 depth (replaceField 16 23 x
      (replaceField 12 15 nsr (replaceField 11 11 (bool_field upTo) (replaceField 1 7 (2 :: 8 word)
      (replaceField 0 0 (0 :: 8 word) 0)))))))"
    using assms(1) r s d by (simp add: buildFormat_AAF_def not_le [symmetric] del: One_nat_def not_le)
  have fields: "getField 0 0 f = (0 :: 8 word)" "getField 1 7 f = (2 :: 8 word)"
    "getField 11 11 f = bool_field upTo" "getField 12 15 f = nsr" "getField 16 23 f = x"
    "getField 24 31 f = (ucast depth :: 8 word)" "getField 32 41 f = n"
    using n r' s' d' by (simp_all add: f fields_at)
  have "unpack_format f = StreamFormatInfoAAF_PCM f upTo nsr x (ucast depth) n"
    using s' by (simp add: unpack_format_def fields Let_def del: One_nat_def)
  also have "\<dots> = Some \<lparr>sfi_streamFormat = f, sfi_type = SFT_AAF, sfi_channelsCount = n,
           sfi_upToChannelsCount = upTo, sfi_samplingRate = rate, sfi_sampleFormat = sampleFormat,
           sfi_useSynchronousClock = True, sfi_sampleDepth = depth, sfi_crf = None\<rparr>"
    using r' s' d' by (simp add: StreamFormatInfoAAF_PCM_def StreamFormatInfoBase_def SamplingRate_of_rate fits_ucast)
  finally show ?thesis using assms(2) by (simp add: createRawStreamFormatInfo_def)
qed

lemma buildFormat_AAF_understood_witness:
  "createRawStreamFormatInfo (buildFormat_AAF 8 True 48000 SF_Int32 24 6) =
     \<lparr>sfi_streamFormat = buildFormat_AAF 8 True 48000 SF_Int32 24 6, sfi_type = SFT_AAF, sfi_channelsCount = 8,
      sfi_upToChannelsCount = True, sfi_samplingRate = 48000, sfi_sampleFormat = SF_Int32, sfi_useSynchronousClock = True,
      sfi_sampleDepth = 24, sfi_crf = None\<rparr>"
  by (rule buildFormat_AAF_understood [OF refl]) code_simp+

lemma replaceField_keeps_bit:
  assumes "f \<le> l" "l < 64" "bit x n" "n < 63 - l \<or> 63 - f < n"
  shows "bit (replaceField f l v x) n"
  using assms bit_imp_le_length [of x n] by (auto simp: bit_replaceField)

lemma nonzero_bit: "bit (x :: 'a::len word) n \<Longrightarrow> x \<noteq> 0"
  by auto

text \<open>A format is built exactly of what can be expressed; otherwise the null format is returned.\<close>

lemma buildFormat_AAF_null_iff:
  "buildFormat_AAF n upTo rate sampleFormat depth samples = 0 \<longleftrightarrow>
     rate_field nsr_rates rate = None
     \<or> (\<forall>x maxDepth. pcm_format_field sampleFormat = Some (x, maxDepth) \<longrightarrow> depth > maxDepth)"
proof -
  have "replaceField 42 51 samples (replaceField 32 41 n (replaceField 24 31 depth (replaceField 16 23 x
      (replaceField 12 15 nsr (replaceField 11 11 (bool_field upTo) (replaceField 1 7 (2 :: 8 word)
      (replaceField 0 0 (0 :: 8 word) 0))))))) \<noteq> 0" for nsr and x :: "8 word"
    by (rule nonzero_bit [of _ 57]) (simp add: bit_replaceField)
  thus ?thesis by (auto simp: buildFormat_AAF_def not_le [symmetric] split: option.splits)
qed

lemma buildFormat_IEC_61883_6_null_iff:
  "buildFormat_IEC_61883_6 n upTo rate sampleFormat sync = 0 \<longleftrightarrow>
     sampleFormat \<noteq> SF_Int24 \<or> rate_field fdf_sfc_rates rate = None"
proof -
  have "replaceField 48 55 n (replaceField 35 35 (bool_field sync) (replaceField 34 34 (bool_field upTo)
            (replaceField 33 33 (1 :: 8 word) (replaceField 24 31 n (replaceField 21 23 x
            (replaceField 16 20 (0 :: 8 word) (replaceField 9 14 (0x10 :: 8 word) (replaceField 8 8 (1 :: 8 word)
            (replaceField 1 7 (0 :: 8 word) (replaceField 0 0 (0 :: 8 word) 0)))))))))) \<noteq> 0" for x :: "8 word"
    by (rule nonzero_bit [of _ 30]) (simp add: bit_replaceField)
  thus ?thesis by (auto simp: buildFormat_IEC_61883_6_def split: option.splits)
qed

lemma buildFormat_IEC_61883_6_understood:
  assumes "buildFormat_IEC_61883_6 n upTo rate sampleFormat sync = f" "f \<noteq> 0" "unat n < 256"
  shows "createRawStreamFormatInfo f = \<lparr>sfi_streamFormat = f, sfi_type = SFT_IEC_61883_6, sfi_channelsCount = n,
           sfi_upToChannelsCount = upTo, sfi_samplingRate = rate, sfi_sampleFormat = sampleFormat,
           sfi_useSynchronousClock = sync, sfi_sampleDepth = 24, sfi_crf = None\<rparr>"
proof -
  from assms(1,2) obtain x where r: "rate_field fdf_sfc_rates rate = Some x" and s: "sampleFormat = SF_Int24"
    by (auto simp: buildFormat_IEC_61883_6_def split: option.splits if_splits)
  note r' = rate_fields_inverse(1) [OF r]
  have n: "fits 8 n" using assms(3) by (simp add: fits_less)
  have f: "f = replaceField 48 55 n (replaceField 35 35 (bool_field sync) (replaceField 34 34 (bool_field upTo)
            (replaceField 33 33 (1 :: 8 word) (replaceField 24 31 n (replaceField 21 23 x
            (replaceField 16 20 (0 :: 8 word) (replaceField 9 14 (0x10 :: 8 word) (replaceField 8 8 (1 :: 8 word)
            (replaceField 1 7 (0 :: 8 word) (replaceField 0 0 (0 :: 8 word) 0))))))))))"
    using assms(1) r s by (simp add: buildFormat_IEC_61883_6_def del: One_nat_def)
  have fields: "getField 0 0 f = (0 :: 8 word)" "getField 1 7 f = (0 :: 8 word)" "getField 8 8 f = (1 :: 8 word)"
    "getField 9 14 f = (0x10 :: 8 word)" "getField 16 20 f = (0 :: 8 word)" "getField 21 23 f = x"
    "getField 24 31 f = (ucast n :: 8 word)" "getField 34 34 f = bool_field upTo" "getField 35 35 f = bool_field sync"
    using n r' by (simp_all add: f fields_at)
  have "unpack_format f = StreamFormatInfoIEC_61883_6_AM824 f x (ucast n) upTo sync"
    by (simp add: unpack_format_def fields Let_def del: One_nat_def)
  also have "\<dots> = Some \<lparr>sfi_streamFormat = f, sfi_type = SFT_IEC_61883_6, sfi_channelsCount = n,
           sfi_upToChannelsCount = upTo, sfi_samplingRate = rate, sfi_sampleFormat = sampleFormat,
           sfi_useSynchronousClock = sync, sfi_sampleDepth = 24, sfi_crf = None\<rparr>"
    using r' n s by (simp add: StreamFormatInfoIEC_61883_6_AM824_def StreamFormatInfoBase_def SamplingRate_of_rate fits_ucast)
  finally show ?thesis using assms(2) by (simp add: createRawStreamFormatInfo_def)
qed

section \<open>Adapted formats\<close>

text \<open>The formats of adjustable channel count are the two of audio.\<close>

lemma StreamFormatInfoBase_upTo [simp]: "\<not> sfi_upToChannelsCount (StreamFormatInfoBase f t)"
  by (simp add: StreamFormatInfoBase_def)

definition is_AM824 :: "stream_format \<Rightarrow> bool" where
  "is_AM824 f \<longleftrightarrow> getField 0 0 f \<noteq> (1 :: 8 word) \<and> getField 1 7 f = (0 :: 8 word) \<and> getField 8 8 f \<noteq> (0 :: 8 word)
     \<and> getField 9 14 f = (0x10 :: 8 word) \<and> getField 16 20 f = (0 :: 8 word)"

definition is_AAF :: "stream_format \<Rightarrow> bool" where
  "is_AAF f \<longleftrightarrow> getField 0 0 f \<noteq> (1 :: 8 word) \<and> getField 1 7 f = (2 :: 8 word)
     \<and> getField 16 23 f \<in> set [2, 3, 4 :: 8 word]"

lemma unpack_kinds:
  "is_AM824 f \<Longrightarrow> unpack_format f = StreamFormatInfoIEC_61883_6_AM824 f (getField 21 23 f) (getField 24 31 f)
     ((getField 34 34 f :: 8 word) \<noteq> 0) ((getField 35 35 f :: 8 word) \<noteq> 0)"
  "is_AAF f \<Longrightarrow> unpack_format f = StreamFormatInfoAAF_PCM f ((getField 11 11 f :: 8 word) \<noteq> 0) (getField 12 15 f)
     (getField 16 23 f) (getField 24 31 f) (getField 32 41 f)"
  by (simp_all add: unpack_format_def is_AM824_def is_AAF_def Let_def del: One_nat_def set_simps)

lemma CRF_upTo: "StreamFormatInfoCRFImpl f t i p b r = Some info \<Longrightarrow> \<not> sfi_upToChannelsCount info"
  by (auto simp: StreamFormatInfoCRFImpl_def StreamFormatInfoBase_def)

lemma upTo_kinds:
  assumes "sfi_upToChannelsCount (createRawStreamFormatInfo f)"
  shows "f \<noteq> 0" "unpack_format f = Some (createRawStreamFormatInfo f)" "is_AM824 f \<or> is_AAF f"
proof -
  show "f \<noteq> 0" using assms by (auto simp: createRawStreamFormatInfo_def)
  with assms show u: "unpack_format f = Some (createRawStreamFormatInfo f)"
    by (auto simp: createRawStreamFormatInfo_def split: option.splits)
  show "is_AM824 f \<or> is_AAF f"
  proof (rule ccontr)
    assume "\<not> (is_AM824 f \<or> is_AAF f)"
    with u have "StreamFormatInfoCRFImpl f (getField 8 11 f) (getField 12 23 f) (getField 24 31 f) (getField 32 34 f)
        (getField 35 63 f) = Some (createRawStreamFormatInfo f)"
      by (auto simp: unpack_format_def is_AM824_def is_AAF_def Let_def simp del: One_nat_def set_simps split: if_splits)
    with CRF_upTo assms show False by blast
  qed
qed

text \<open>What replacing the fields of the channel count leaves of the others.\<close>

lemma fits_le: "fits n v \<Longrightarrow> w \<le> v \<Longrightarrow> fits n w"
  by (auto simp: fits_less word_le_nat_alt)

lemma fits_dbs: "fits 8 (ucast (v :: 8 word) :: 16 word)"
  by (auto simp: fits_def bit_simps dest: bit_imp_le_length)

lemma adapted_format:
  assumes "info = createRawStreamFormatInfo f" "sfi_upToChannelsCount info" "n \<le> sfi_channelsCount info"
  shows "getAdaptedStreamFormat info n \<noteq> 0"
    and "createRawStreamFormatInfo (getAdaptedStreamFormat info n) =
      info\<lparr>sfi_streamFormat := getAdaptedStreamFormat info n, sfi_channelsCount := n, sfi_upToChannelsCount := False\<rparr>"
proof -
  define a where "a = getAdaptedStreamFormat info n"
  note u = upTo_kinds [of f, folded assms(1), OF assms(2)]
  have nl: "\<not> sfi_channelsCount info < n" using assms(3) by (simp add: not_less)
  have "a \<noteq> 0 \<and> unpack_format a = Some (info\<lparr>sfi_streamFormat := a, sfi_channelsCount := n, sfi_upToChannelsCount := False\<rparr>)"
  proof (cases "is_AAF f")
    case True
    from u(2) unpack_kinds(2) [OF True] obtain r s
      where r: "map_of nsr_rates (getField 12 15 f) = Some r" and s: "pcm_sample_format (getField 16 23 f) = Some s"
        and i: "info = (StreamFormatInfoBase f SFT_AAF)
              \<lparr>sfi_upToChannelsCount := True, sfi_samplingRate := SamplingRate_of 0 r,
               sfi_useSynchronousClock := True, sfi_channelsCount := getField 32 41 f,
               sfi_sampleFormat := s, sfi_sampleDepth := ucast (getField 24 31 f :: 8 word)\<rparr>"
      using assms(2) by (auto simp: StreamFormatInfoAAF_PCM_def split: option.splits)
    have n: "fits 10 n" using assms(3) fits_le [OF getField_fits [of 41 32 f]] by (simp add: i StreamFormatInfoBase_def)
    have t: "sfi_type info = SFT_AAF" "sfi_streamFormat info = f" by (simp_all add: i StreamFormatInfoBase_def)
    have aa: "a = replaceField 32 41 n (replaceField 11 11 (0 :: 8 word) f)"
      using assms(2) nl t by (simp add: getAdaptedStreamFormat_def a_def)
    have fields: "getField 0 0 a = (getField 0 0 f :: 8 word)" "getField 1 7 a = (getField 1 7 f :: 8 word)"
      "getField 11 11 a = (0 :: 8 word)" "getField 12 15 a = (getField 12 15 f :: 8 word)"
      "getField 16 23 a = (getField 16 23 f :: 8 word)" "getField 24 31 a = (getField 24 31 f :: 8 word)"
      "getField 32 41 a = n"
      using n by (simp_all add: aa fields_at)
    have "is_AAF a" using True by (simp add: is_AAF_def fields del: One_nat_def set_simps)
    moreover have "a \<noteq> 0" using calculation by (auto simp: is_AAF_def getField_zero simp del: One_nat_def)
    ultimately show ?thesis using r s
      by (simp add: unpack_kinds(2) fields StreamFormatInfoAAF_PCM_def) (simp add: i StreamFormatInfoBase_def)
  next
    case False
    with u(3) have k: "is_AM824 f" by blast
    from u(2) unpack_kinds(1) [OF k] obtain r
      where r: "map_of fdf_sfc_rates (getField 21 23 f) = Some r"
        and i: "info = (StreamFormatInfoBase f SFT_IEC_61883_6)
         \<lparr>sfi_channelsCount := ucast (getField 24 31 f :: 8 word), sfi_upToChannelsCount := True,
          sfi_samplingRate := SamplingRate_of 0 r, sfi_useSynchronousClock := (getField 35 35 f :: 8 word) \<noteq> 0,
          sfi_sampleFormat := SF_Int24, sfi_sampleDepth := 24\<rparr>"
      using assms(2) by (auto simp: StreamFormatInfoIEC_61883_6_AM824_def)
    have n: "fits 8 n" using assms(3) fits_le [OF fits_dbs [of "getField 24 31 f"]] by (simp add: i StreamFormatInfoBase_def)
    have t: "sfi_type info = SFT_IEC_61883_6" "sfi_streamFormat info = f" by (simp_all add: i StreamFormatInfoBase_def)
    have aa: "a = replaceField 48 55 n (replaceField 24 31 n (replaceField 34 34 (0 :: 8 word) f))"
      using assms(2) nl t by (simp add: getAdaptedStreamFormat_def a_def)
    have fields: "getField 0 0 a = (getField 0 0 f :: 8 word)" "getField 1 7 a = (getField 1 7 f :: 8 word)"
      "getField 8 8 a = (getField 8 8 f :: 8 word)" "getField 9 14 a = (getField 9 14 f :: 8 word)"
      "getField 16 20 a = (getField 16 20 f :: 8 word)" "getField 21 23 a = (getField 21 23 f :: 8 word)"
      "getField 24 31 a = (ucast n :: 8 word)" "getField 34 34 a = (0 :: 8 word)"
      "getField 35 35 a = (getField 35 35 f :: 8 word)"
      using n by (simp_all add: aa fields_at)
    have "is_AM824 a" using k by (simp add: is_AM824_def fields del: One_nat_def)
    moreover have "a \<noteq> 0" using calculation by (auto simp: is_AM824_def getField_zero simp del: One_nat_def)
    ultimately show ?thesis using r n
      by (simp add: unpack_kinds(1) fields StreamFormatInfoIEC_61883_6_AM824_def fits_ucast) (simp add: i StreamFormatInfoBase_def)
  qed
  thus "getAdaptedStreamFormat info n \<noteq> 0" "createRawStreamFormatInfo (getAdaptedStreamFormat info n) = info\<lparr>sfi_streamFormat := getAdaptedStreamFormat info n, sfi_channelsCount := n, sfi_upToChannelsCount := False\<rparr>"
    by (simp_all add: createRawStreamFormatInfo_def a_def)
qed
section \<open>Compatible formats\<close>

text \<open>What the adapted format of any format is: null outside the channel counts the format has.\<close>

lemma createRaw_kept [simp]: "sfi_streamFormat (createRawStreamFormatInfo f) = f"
  by (auto simp: createRawStreamFormatInfo_def unpack_format_def StreamFormatInfoBase_def StreamFormatInfoAAF_PCM_def
      StreamFormatInfoIEC_61883_6_AM824_def StreamFormatInfoCRFImpl_def Let_def split: option.splits if_splits)

lemma adapted_any:
  assumes "info = createRawStreamFormatInfo f"
  shows "getAdaptedStreamFormat info n \<noteq> 0 \<longleftrightarrow>
      (if sfi_upToChannelsCount info then n \<le> sfi_channelsCount info else n = sfi_channelsCount info \<and> f \<noteq> 0)"
    and "getAdaptedStreamFormat info n \<noteq> 0 \<Longrightarrow> createRawStreamFormatInfo (getAdaptedStreamFormat info n) =
      info\<lparr>sfi_streamFormat := getAdaptedStreamFormat info n, sfi_channelsCount := n, sfi_upToChannelsCount := False\<rparr>"
proof -
  have "getAdaptedStreamFormat info n = 0" if "sfi_upToChannelsCount info" "\<not> n \<le> sfi_channelsCount info"
    using that by (simp add: getAdaptedStreamFormat_def not_le)
  thus iff: "getAdaptedStreamFormat info n \<noteq> 0 \<longleftrightarrow>
      (if sfi_upToChannelsCount info then n \<le> sfi_channelsCount info else n = sfi_channelsCount info \<and> f \<noteq> 0)"
    using adapted_format(1) [OF assms, of n] assms by (auto simp: getAdaptedStreamFormat_def)
  assume a: "getAdaptedStreamFormat info n \<noteq> 0"
  show "createRawStreamFormatInfo (getAdaptedStreamFormat info n) =
      info\<lparr>sfi_streamFormat := getAdaptedStreamFormat info n, sfi_channelsCount := n, sfi_upToChannelsCount := False\<rparr>"
  proof (cases "sfi_upToChannelsCount info")
    case True
    with a iff show ?thesis using adapted_format(2) [OF assms] by simp
  next
    case False
    with a iff have "n = sfi_channelsCount info" "getAdaptedStreamFormat info n = f"
      using assms by (auto simp: getAdaptedStreamFormat_def)
    moreover have "sfi_streamFormat info = f" using assms by simp
    ultimately show ?thesis using False assms [symmetric] by (cases info) simp
  qed
qed

definition common_channels :: "stream_format \<Rightarrow> stream_format \<Rightarrow> 16 word \<Rightarrow> bool" where
  "common_channels lf tf n \<longleftrightarrow>
     (let a = getAdaptedStreamFormat (createRawStreamFormatInfo lf) n;
          b = getAdaptedStreamFormat (createRawStreamFormatInfo tf) n
      in a \<noteq> 0 \<and> b \<noteq> 0 \<and> isListenerFormatCompatibleWithTalkerFormat a b)"

definition searched_compatible_formats :: "stream_format \<Rightarrow> stream_format \<Rightarrow> stream_format \<times> stream_format" where
  "searched_compatible_formats lf tf =
     (case find (common_channels lf tf) (map of_nat (rev [0..<65536])) of
        None \<Rightarrow> (0, 0)
      | Some n \<Rightarrow> (getAdaptedStreamFormat (createRawStreamFormatInfo lf) n,
                   getAdaptedStreamFormat (createRawStreamFormatInfo tf) n))"

definition adaptable :: "stream_format_info \<Rightarrow> stream_format_info \<Rightarrow> bool" where
  "adaptable l t \<longleftrightarrow> sfi_type l = sfi_type t \<and> SamplingRate_eq (sfi_samplingRate l) (sfi_samplingRate t)
     \<and> sfi_sampleFormat l = sfi_sampleFormat t \<and> clocks_compatible l t"

lemma common_channels_iff:
  assumes "l = createRawStreamFormatInfo lf" "t = createRawStreamFormatInfo tf"
  shows "common_channels lf tf n \<longleftrightarrow>
    adaptable l t \<and> getAdaptedStreamFormat l n \<noteq> 0 \<and> getAdaptedStreamFormat t n \<noteq> 0"
  using adapted_any(2) [OF assms(1), of n] adapted_any(2) [OF assms(2), of n]
  by (auto simp: common_channels_def isListenerFormatCompatibleWithTalkerFormat_def adaptable_def clocks_compatible_def
      Let_def simp flip: assms)

lemma unat_below: "unat (w :: 16 word) < 65536"
  using unsigned_less [of w] by simp

lemma set_all_counts: "set (map of_nat (rev [0..<65536])) = (UNIV :: 16 word set)"
proof -
  have "w \<in> of_nat ` {0..<65536}" for w :: "16 word"
    using unat_below [of w] by (intro image_eqI [of _ _ "unat w"]) simp_all
  thus ?thesis by (auto simp del: upt_rec_numeral)
qed

lemma find_largest:
  assumes "P (n :: 16 word)" "\<And>m. P m \<Longrightarrow> m \<le> n"
  shows "find P (map of_nat (rev [0..<65536])) = Some n"
proof -
  let ?xs = "map of_nat (rev [0..<65536]) :: 16 word list"
  have nth: "?xs ! i = of_nat (65535 - i)" if "i < 65536" for i
    using that by (simp add: rev_nth del: upt_rec_numeral)
  from assms(1) have "find P ?xs \<noteq> None" unfolding find_None_iff set_all_counts by blast
  then obtain k where k: "find P ?xs = Some k" by blast
  then obtain i where i: "i < 65536" "P k" "k = ?xs ! i" "\<And>j. j < i \<Longrightarrow> \<not> P (?xs ! j)"
    unfolding find_Some_iff by auto
  have "\<not> k < n"
  proof
    assume "k < n"
    have u: "unat k = 65535 - i" using i(3) by (simp only: nth [OF i(1)] unat_of_nat) simp
    have "65535 - unat n < i" using \<open>k < n\<close> u i(1) unat_below [of n] by (simp add: word_less_nat_alt)
    moreover have "?xs ! (65535 - unat n) = n" using unat_below [of n] nth [of "65535 - unat n"] by simp
    ultimately show False using i(4) assms(1) by metis
  qed
  with assms(2) [OF i(2)] have "k = n" by simp
  with k show ?thesis by simp
qed

lemma common_count:
  fixes L T m :: "'a::linorder" and u v :: bool
  defines "lc \<equiv> if u then min L T else L"
  defines "tc \<equiv> if v then min T lc else T"
  assumes "if u then m \<le> L else m = L \<and> p" "if v then m \<le> T else m = T \<and> q"
  shows "lc = tc" "m \<le> lc" "if u then lc \<le> L else lc = L \<and> p" "if v then tc \<le> T else tc = T \<and> q"
  using assms(3,4) unfolding lc_def tc_def by (cases u; cases v; force simp: min_def)+

text \<open>
  The largest common channel count is the one the code computes from the two counts and their up-to bits.
\<close>

text \<open>
  C40. The adapted formats the library proposes for a listener and a talker are those an exhaustive search finds: over all
  channel counts from the largest down, the first at which both formats can be adapted to compatible ones, and the pair
  of null formats exactly when there is none.
\<close>

theorem compatible_formats_as_searched:
  "getAdaptedCompatibleFormats lf tf = searched_compatible_formats lf tf"
proof -
  define l t where lt: "l = createRawStreamFormatInfo lf" "t = createRawStreamFormatInfo tf"
  note common = common_channels_iff [OF lt] and al = adapted_any(1) [OF lt(1)] and at = adapted_any(1) [OF lt(2)]
  define lc where "lc = (if sfi_upToChannelsCount l then min (sfi_channelsCount l) (sfi_channelsCount t) else sfi_channelsCount l)"
  define tc where "tc = (if sfi_upToChannelsCount t then min (sfi_channelsCount t) lc else sfi_channelsCount t)"
  note code = getAdaptedCompatibleFormats_def [of lf tf, folded lt, unfolded Let_def, folded lc_def, folded tc_def, folded adaptable_def]
  show ?thesis
  proof (cases "adaptable l t \<and> lc = tc \<and> getAdaptedStreamFormat l lc \<noteq> 0 \<and> getAdaptedStreamFormat t tc \<noteq> 0")
    case True
    have "m \<le> lc" if "common_channels lf tf m" for m
      using common_count(2) [where m = m] that unfolding common al at lc_def by blast
    moreover have "common_channels lf tf lc" using True unfolding common by metis
    ultimately have "find (common_channels lf tf) (map of_nat (rev [0..<65536])) = Some lc" by (intro find_largest)
    with True show ?thesis unfolding code searched_compatible_formats_def lt [symmetric]
      by (auto simp: adaptable_def simp del: upt_rec_numeral)
  next
    case False
    have "\<not> common_channels lf tf m" for m
    proof
      assume "common_channels lf tf m"
      hence "adaptable l t" and m: "if sfi_upToChannelsCount l then m \<le> sfi_channelsCount l else m = sfi_channelsCount l \<and> lf \<noteq> 0"
        "if sfi_upToChannelsCount t then m \<le> sfi_channelsCount t else m = sfi_channelsCount t \<and> tf \<noteq> 0"
        unfolding common al at by blast+
      with False common_count(1,3,4) [OF m, folded lc_def, folded tc_def] show False unfolding al at by blast
    qed
    hence "find (common_channels lf tf) (map of_nat (rev [0..<65536])) = None" by (simp only: find_None_iff) blast
    with False show ?thesis unfolding code searched_compatible_formats_def by (auto simp: adaptable_def simp del: upt_rec_numeral)
  qed
qed

text \<open>
  What the check of the current formats lets through: two formats the library does not understand.  And a channel
  count beyond the field is written over the field beside it.
\<close>

lemma unsupported_formats_compatible:
  assumes "lf \<noteq> 0" "tf \<noteq> 0" "unpack_format lf = None" "unpack_format tf = None"
  shows "isListenerFormatCompatibleWithTalkerFormat lf tf"
  using assms by (simp add: isListenerFormatCompatibleWithTalkerFormat_def createRawStreamFormatInfo_def
      StreamFormatInfoBase_def clocks_compatible_def SamplingRate_eq_def Let_def)

lemma unsupported_formats_compatible_witness:
  "isListenerFormatCompatibleWithTalkerFormat 0x0300000000000000 0x7F00000000000001"
  by (rule unsupported_formats_compatible)
    (simp_all, code_simp+)

lemma buildFormat_AAF_overflow:
  "sfi_channelsCount (createRawStreamFormatInfo (buildFormat_AAF 1024 False 48000 SF_Int24 24 6)) = 0"
  "sfi_sampleDepth (createRawStreamFormatInfo (buildFormat_AAF 1024 False 48000 SF_Int24 24 6)) = 25"
  by code_simp+

end
