(* ===== verification/StreamConnections.thy ===== *)
theory StreamConnections
  imports ControllerHandlers
begin

text \<open>
  The connections of streams as the controller library keeps them (\<^verbatim>\<open>handleListenerStreamStateNotification\<close>,
  \<^verbatim>\<open>handleTalkerStreamStateNotification\<close>, \<^verbatim>\<open>onPreAdvertiseEntity\<close> and \<^verbatim>\<open>onPreUnadvertiseEntity\<close> of
  src/controller/avdeccControllerImpl.cpp).  The protocol tells the controller what every input stream of a
  listener is connected to; for a talker the library derives the connections of every output stream from that.

  Of an entity, what these functions use: its input streams with their connection, its output streams with their
  connections (those of its current configuration), and whether it is advertised.  Media clock chains and
  the latency diagnostic, which the same functions update as well, are left out, and so are virtual entities;
  channel connections are those of theory ChannelConnections.
\<close>

section \<open>State\<close>

datatype connection_state = NotConnected | FastConnecting | Connected

record connection_info =
  sci_talkerStream :: stream_identification
  sci_state :: connection_state

definition connection_info_new :: connection_info where
  "connection_info_new = \<lparr>sci_talkerStream = StreamIdentification_new, sci_state = NotConnected\<rparr>"

definition sid_eq :: "stream_identification \<Rightarrow> stream_identification \<Rightarrow> bool" where
  "sid_eq lhs rhs \<longleftrightarrow> uid_eq (sid_entityID lhs) (sid_entityID rhs) \<and> sid_streamIndex lhs = sid_streamIndex rhs"

definition connection_info_eq :: "connection_info \<Rightarrow> connection_info \<Rightarrow> bool" where
  "connection_info_eq lhs rhs \<longleftrightarrow>
     (if sci_state lhs = sci_state rhs
      then sci_state lhs = NotConnected \<or> sid_eq (sci_talkerStream lhs) (sci_talkerStream rhs)
      else False)"

record connected_entity =
  cne_advertised :: bool
  cne_isAemSupported :: bool
  cne_hasAnyConfiguration :: bool
  cne_isListener :: bool
  cne_isTalker :: bool
  cne_listenerStreamSinks :: "16 word"
  cne_streamInputs :: "(16 word, connection_info) alist"
  cne_streamOutputs :: "(16 word, stream_identification set) alist"

datatype connection_event =
    OnStreamInputConnectionChanged uid "16 word" connection_info bool
  | OnStreamOutputConnectionsChanged uid "16 word" "stream_identification set"
  | SetMisbehaving uid

record connections =
  cns_controlledEntities :: "(uid, connected_entity) alist"
  cns_trace :: "connection_event list"

type_synonym connections_op = "connections \<Rightarrow> connections"

definition cns_put :: "uid \<Rightarrow> connected_entity \<Rightarrow> connections_op" where
  "cns_put u e s = s\<lparr>cns_controlledEntities := al_put u e (cns_controlledEntities s)\<rparr>"

definition cns_notify :: "connection_event \<Rightarrow> connections_op" where
  "cns_notify ev s = s\<lparr>cns_trace := cns_trace s @ [ev]\<rparr>"

text \<open>\<^verbatim>\<open>getControlledEntityImplGuard\<close>, for any entity or for advertised ones.\<close>

definition cns_entity :: "uid \<Rightarrow> bool \<Rightarrow> connections \<Rightarrow> connected_entity option" where
  "cns_entity u onlyIfAdvertised s = (case al_get u (cns_controlledEntities s) of
     None \<Rightarrow> None | Some e \<Rightarrow> if \<not> onlyIfAdvertised \<or> cne_advertised e then Some e else None)"

section \<open>The streams of an entity\<close>

definition setStreamInputConnectionInformation ::
    "16 word \<Rightarrow> connection_info \<Rightarrow> connected_entity \<Rightarrow> connection_info \<times> connected_entity" where
  "setStreamInputConnectionInformation i info e = (case al_get i (cne_streamInputs e) of
     Some previousInfo \<Rightarrow> (previousInfo, e\<lparr>cne_streamInputs := al_put i info (cne_streamInputs e)\<rparr>)
   | None \<Rightarrow> (connection_info_new, e))"

definition addStreamOutputConnection ::
    "16 word \<Rightarrow> stream_identification \<Rightarrow> connected_entity \<Rightarrow> bool \<times> connected_entity" where
  "addStreamOutputConnection j listenerStream e = (case al_get j (cne_streamOutputs e) of
     Some cs \<Rightarrow> (listenerStream \<notin> cs, e\<lparr>cne_streamOutputs := al_put j (insert listenerStream cs) (cne_streamOutputs e)\<rparr>)
   | None \<Rightarrow> (False, e))"

definition delStreamOutputConnection ::
    "16 word \<Rightarrow> stream_identification \<Rightarrow> connected_entity \<Rightarrow> bool \<times> connected_entity" where
  "delStreamOutputConnection j listenerStream e = (case al_get j (cne_streamOutputs e) of
     Some cs \<Rightarrow> (listenerStream \<in> cs, e\<lparr>cne_streamOutputs := al_put j (cs - {listenerStream}) (cne_streamOutputs e)\<rparr>)
   | None \<Rightarrow> (False, e))"

definition clearStreamOutputConnections :: "16 word \<Rightarrow> connected_entity \<Rightarrow> connected_entity" where
  "clearStreamOutputConnections j e = (case al_get j (cne_streamOutputs e) of
     Some _ \<Rightarrow> e\<lparr>cne_streamOutputs := al_put j {} (cne_streamOutputs e)\<rparr> | None \<Rightarrow> e)"

definition getStreamOutputConnections :: "16 word \<Rightarrow> connected_entity \<Rightarrow> stream_identification set" where
  "getStreamOutputConnections j e = (case al_get j (cne_streamOutputs e) of Some cs \<Rightarrow> cs | None \<Rightarrow> {})"

section \<open>Notifications\<close>

text \<open>The flags are those of ACMP; FAST_CONNECT is their second bit.\<close>

definition ConnectionFlag_FastConnect :: "16 word" where
  "ConnectionFlag_FastConnect = 2"

definition isFastConnect :: "16 word \<Rightarrow> bool" where
  "isFastConnect flags \<longleftrightarrow> and flags ConnectionFlag_FastConnect \<noteq> 0"

definition connection_info_of :: "stream_identification \<Rightarrow> bool \<Rightarrow> 16 word option \<Rightarrow> connection_info" where
  "connection_info_of talkerStream isConnected flags =
     (let conState = (if isConnected then Connected
                      else if (case flags of Some f \<Rightarrow> isFastConnect f | None \<Rightarrow> False) then FastConnecting
                      else NotConnected)
      in if conState = NotConnected \<or> \<not> uid_isValid (sid_entityID talkerStream) then connection_info_new
         else \<lparr>sci_talkerStream = talkerStream, sci_state = conState\<rparr>)"

text \<open>The part of the talker's method after the case of a fast connection.\<close>

definition update_talker_connections :: "stream_identification \<Rightarrow> stream_identification \<Rightarrow> bool \<Rightarrow> connections_op" where
  "update_talker_connections talkerStream listenerStream isConnected s =
     (if uid_isValid (sid_entityID talkerStream) then
        (case cns_entity (sid_entityID talkerStream) True s of
           None \<Rightarrow> s
         | Some talkerEntity \<Rightarrow>
             let (shouldNotify, e) =
                   (if isConnected then addStreamOutputConnection (sid_streamIndex talkerStream) listenerStream talkerEntity
                    else delStreamOutputConnection (sid_streamIndex talkerStream) listenerStream talkerEntity);
                 s1 = cns_put (sid_entityID talkerStream) e s
             in if shouldNotify
                then cns_notify (OnStreamOutputConnectionsChanged (sid_entityID talkerStream) (sid_streamIndex talkerStream)
                       (getStreamOutputConnections (sid_streamIndex talkerStream) e)) s1
                else s1)
      else s)"

definition handleListenerStreamStateNotification ::
    "stream_identification \<Rightarrow> stream_identification \<Rightarrow> bool \<Rightarrow> 16 word option \<Rightarrow> bool \<Rightarrow> connections_op" where
  "handleListenerStreamStateNotification talkerStream listenerStream isConnected flags changedByOther s =
     (let info = connection_info_of talkerStream isConnected flags; u = sid_entityID listenerStream in
      case cns_entity u False s of
        None \<Rightarrow> s
      | Some listenerEntity \<Rightarrow>
          if sid_streamIndex listenerStream \<ge> cne_listenerStreamSinks listenerEntity then cns_notify (SetMisbehaving u) s
          else
            let (previousInfo, e) = setStreamInputConnectionInformation (sid_streamIndex listenerStream) info listenerEntity;
                s1 = cns_put u e s
            in if cne_advertised e \<and> \<not> connection_info_eq previousInfo info
               then let s2 = cns_notify (OnStreamInputConnectionChanged u (sid_streamIndex listenerStream) info changedByOther) s1
                    in if \<not> sid_eq (sci_talkerStream previousInfo) (sci_talkerStream info)
                       then let s3 = (if uid_isValid (sid_entityID (sci_talkerStream previousInfo))
                                      then update_talker_connections (sci_talkerStream previousInfo) listenerStream False s2
                                      else s2)
                            in if uid_isValid (sid_entityID (sci_talkerStream info)) \<and> isConnected
                               then update_talker_connections (sci_talkerStream info) listenerStream True s3
                               else s3
                       else s2
               else s1)"

definition handleTalkerStreamStateNotification ::
    "stream_identification \<Rightarrow> stream_identification \<Rightarrow> bool \<Rightarrow> 16 word \<Rightarrow> bool \<Rightarrow> connections_op" where
  "handleTalkerStreamStateNotification talkerStream listenerStream isConnected flags changedByOther s =
     update_talker_connections talkerStream listenerStream isConnected
       (if isFastConnect flags
        then handleListenerStreamStateNotification talkerStream listenerStream isConnected (Some flags) changedByOther s
        else s)"

section \<open>Coming and going\<close>

definition has_model :: "connected_entity \<Rightarrow> bool" where
  "has_model e \<longleftrightarrow> cne_isAemSupported e \<and> cne_hasAnyConfiguration e"

text \<open>The talker of a connected input stream, if it is advertised, learns of it or forgets it.\<close>

definition change_talker ::
    "(16 word \<Rightarrow> stream_identification \<Rightarrow> connected_entity \<Rightarrow> bool \<times> connected_entity)
       \<Rightarrow> uid \<Rightarrow> 16 word \<Rightarrow> connection_info \<Rightarrow> connections_op" where
  "change_talker change u i info s =
     (let t = sid_entityID (sci_talkerStream info); j = sid_streamIndex (sci_talkerStream info) in
      case cns_entity t True s of
        None \<Rightarrow> s
      | Some talkerEntity \<Rightarrow>
          let e = snd (change j \<lparr>sid_entityID = u, sid_streamIndex = i\<rparr> talkerEntity)
          in cns_notify (OnStreamOutputConnectionsChanged t j (getStreamOutputConnections j e)) (cns_put t e s))"

text \<open>First the talkers the input streams of a new entity are connected to, then its own output streams.\<close>

definition inform_talkers :: "uid \<Rightarrow> connected_entity \<Rightarrow> connections_op" where
  "inform_talkers u e =
     fold (\<lambda>(i, info).
        if sci_state info = Connected \<and> sid_entityID (sci_talkerStream info) \<noteq> u
        then change_talker addStreamOutputConnection u i info else id)
       (cne_streamInputs e)"

definition add_known_listeners :: "uid \<Rightarrow> (uid, connected_entity) alist \<Rightarrow> connected_entity \<Rightarrow> connected_entity" where
  "add_known_listeners u entities e =
     fold (\<lambda>(v, listener) e.
        if v = u \<or> \<not> cne_advertised listener \<or> \<not> has_model listener then e
        else fold (\<lambda>(i, info) e.
               if sci_state info = Connected
               then fold (\<lambda>j e.
                      if sid_eq (sci_talkerStream info) \<lparr>sid_entityID = u, sid_streamIndex = j\<rparr>
                      then snd (addStreamOutputConnection j \<lparr>sid_entityID = v, sid_streamIndex = i\<rparr> e) else e)
                    (al_keys (cne_streamOutputs e)) e
               else e)
             (cne_streamInputs listener) e)
       entities e"

definition cns_onPreAdvertiseEntity :: "uid \<Rightarrow> connections_op" where
  "cns_onPreAdvertiseEntity u s = (case cns_entity u False s of
     None \<Rightarrow> s
   | Some e \<Rightarrow>
       if has_model e then
         let s1 = (if cne_isListener e then inform_talkers u e s else s)
         in if cne_isTalker e then cns_put u (add_known_listeners u (cns_controlledEntities s1) e) s1 else s1
       else s)"

definition cns_advertise :: "uid \<Rightarrow> connections_op" where
  "cns_advertise u s =
     (let s1 = cns_onPreAdvertiseEntity u s in
      case cns_entity u False s1 of None \<Rightarrow> s1 | Some e \<Rightarrow> cns_put u (e\<lparr>cne_advertised := True\<rparr>) s1)"

definition cns_onPreUnadvertiseEntity :: "uid \<Rightarrow> connected_entity \<Rightarrow> connections_op" where
  "cns_onPreUnadvertiseEntity u e s =
     (if cne_isListener e \<and> has_model e then
        fold (\<lambda>(i, info). if sci_state info = Connected then change_talker delStreamOutputConnection u i info else id)
          (cne_streamInputs e) s
      else s)"

definition cns_onEntityOffline :: "uid \<Rightarrow> connections_op" where
  "cns_onEntityOffline u s = (case al_get u (cns_controlledEntities s) of
     None \<Rightarrow> s
   | Some e \<Rightarrow>
       let s1 = s\<lparr>cns_controlledEntities := al_del u (cns_controlledEntities s)\<rparr>
       in if cne_advertised e then cns_onPreUnadvertiseEntity u e s1 else s1)"

section \<open>What the operations change\<close>

text \<open>The streams of the listeners the library knows that are connected to an output stream.\<close>

definition stream_of :: "uid \<Rightarrow> 16 word \<Rightarrow> stream_identification" where
  "stream_of u i = \<lparr>sid_entityID = u, sid_streamIndex = i\<rparr>"

definition connected_to :: "uid \<Rightarrow> 16 word \<Rightarrow> connection_info \<Rightarrow> bool" where
  "connected_to t j info \<longleftrightarrow> sci_state info = Connected \<and> sci_talkerStream info = stream_of t j"

definition sinks_connected_to :: "uid \<Rightarrow> connected_entity \<Rightarrow> uid \<Rightarrow> 16 word \<Rightarrow> stream_identification set" where
  "sinks_connected_to u e t j = {stream_of u i | i info. al_get i (cne_streamInputs e) = Some info \<and> connected_to t j info}"

definition known_connections :: "(uid, connected_entity) alist \<Rightarrow> uid \<Rightarrow> 16 word \<Rightarrow> stream_identification set" where
  "known_connections es t j =
     (\<Union>v. case al_get v es of Some e \<Rightarrow> if cne_advertised e then sinks_connected_to v e t j else {} | None \<Rightarrow> {})"

lemma stream_of_eq [simp]: "stream_of u i = stream_of v k \<longleftrightarrow> u = v \<and> i = k"
  by (simp add: stream_of_def)

lemma stream_of_fields [simp]: "stream_of (sid_entityID x) (sid_streamIndex x) = x"
  by (simp add: stream_of_def)

lemma known_connections_iff:
  "x \<in> known_connections es t j \<longleftrightarrow>
     (\<exists>e info. al_get (sid_entityID x) es = Some e \<and> cne_advertised e
        \<and> al_get (sid_streamIndex x) (cne_streamInputs e) = Some info \<and> connected_to t j info)"
  by (cases x) (auto simp: known_connections_def sinks_connected_to_def stream_of_def split: option.splits if_splits)

text \<open>Every entity keeps its place; of the advertised ones, the connections of their output streams change.\<close>

definition map_outputs ::
    "(uid \<Rightarrow> 16 word \<Rightarrow> stream_identification set \<Rightarrow> stream_identification set) \<Rightarrow> uid \<Rightarrow> connected_entity \<Rightarrow> connected_entity" where
  "map_outputs G v e = (if cne_advertised e
     then e\<lparr>cne_streamOutputs := map (\<lambda>(j, cs). (j, G v j cs)) (cne_streamOutputs e)\<rparr> else e)"

definition map_entities ::
    "(uid \<Rightarrow> 16 word \<Rightarrow> stream_identification set \<Rightarrow> stream_identification set)
       \<Rightarrow> (uid, connected_entity) alist \<Rightarrow> (uid, connected_entity) alist" where
  "map_entities G es = map (\<lambda>(v, e). (v, map_outputs G v e)) es"

lemma al_get_map: "al_get k (map (\<lambda>(k, v). (k, f k v)) es) = map_option (f k) (al_get k es)"
  by (induction es) auto

lemma al_keys_map: "al_keys (map (\<lambda>(k, v). (k, f k v)) es) = al_keys es"
  by (induction es) auto

lemma al_mem: "al_ok es \<Longrightarrow> (k, v) \<in> set es \<Longrightarrow> al_get k es = Some v"
  by (simp add: al_get_iff)

lemma al_put_map:
  assumes "al_ok es" "al_get k es = Some v"
  shows "al_put k v' es = map (\<lambda>(k', w). (k', if k' = k then v' else w)) es"
  using assms
proof (induction es)
  case (Cons e es)
  show ?case
  proof (cases "fst e = k")
    case True
    with Cons.prems(1) have "k \<notin> fst ` set es" by (auto simp: al_ok_def)
    hence "map (\<lambda>(k', w). (k', if k' = k then v' else w)) es = es" by (intro map_idI) (auto dest: image_eqI [of _ fst "(_, _)"] simp: rev_image_eqI)
    with True show ?thesis by (cases e) auto
  next
    case False
    with Cons show ?thesis by (cases e) (auto simp: al_ok_def)
  qed
qed simp

lemma map_outputs_fields [simp]:
  "cne_advertised (map_outputs G v e) = cne_advertised e" "cne_streamInputs (map_outputs G v e) = cne_streamInputs e"
  "cne_listenerStreamSinks (map_outputs G v e) = cne_listenerStreamSinks e"
  "cne_isListener (map_outputs G v e) = cne_isListener e" "cne_isTalker (map_outputs G v e) = cne_isTalker e"
  "has_model (map_outputs G v e) = has_model e"
  "al_keys (cne_streamOutputs (map_outputs G v e)) = al_keys (cne_streamOutputs e)"
  by (simp_all add: map_outputs_def has_model_def al_keys_map del: map_map)

lemma map_outputs_get:
  "al_get j (cne_streamOutputs (map_outputs G v e)) =
     (if cne_advertised e then map_option (G v j) (al_get j (cne_streamOutputs e)) else al_get j (cne_streamOutputs e))"
  by (simp add: map_outputs_def al_get_map)

lemma map_entities_get [simp]: "al_get v (map_entities G es) = map_option (map_outputs G v) (al_get v es)"
  by (simp add: map_entities_def al_get_map)

lemma map_entities_ok [simp]: "al_ok (map_entities G es) = al_ok es"
  by (simp add: map_entities_def al_ok_def al_keys_map del: map_map)

lemma map_entities_known [simp]: "known_connections (map_entities G es) t j = known_connections es t j"
  by (auto simp: known_connections_iff)

lemma map_outputs_comp: "map_outputs H v (map_outputs G v e) = map_outputs (\<lambda>v j. H v j \<circ> G v j) v e"
  by (cases e) (simp add: map_outputs_def case_prod_beta o_def)

lemma map_entities_comp: "map_entities H (map_entities G es) = map_entities (\<lambda>v j. H v j \<circ> G v j) es"
  by (simp add: map_entities_def case_prod_beta o_def map_outputs_comp [unfolded o_def])

lemma map_entities_id: "map_entities (\<lambda>v j cs. cs) es = es"
proof -
  have "map_outputs (\<lambda>v j cs. cs) v e = e" for v e by (cases e) (simp add: map_outputs_def case_prod_beta)
  thus ?thesis by (simp add: map_entities_def)
qed

abbreviation "unioned X \<equiv> \<lambda>v j cs. cs \<union> X v j"
abbreviation "reduced X \<equiv> \<lambda>v j cs. cs - X v j"

definition only :: "uid \<Rightarrow> 16 word \<Rightarrow> stream_identification \<Rightarrow> uid \<Rightarrow> 16 word \<Rightarrow> stream_identification set" where
  "only t j x v k = (if v = t \<and> k = j then {x} else {})"

text \<open>A change at one output stream of an advertised entity.\<close>

lemma put_output:
  assumes "al_ok es" "al_get t es = Some e" "cne_advertised e" "al_ok (cne_streamOutputs e)"
    "al_get j (cne_streamOutputs e) = Some cs" "cs' = G t j cs"
    "\<And>v k ds. v \<noteq> t \<or> k \<noteq> j \<Longrightarrow> G v k ds = ds"
  shows "al_put t (e\<lparr>cne_streamOutputs := al_put j cs' (cne_streamOutputs e)\<rparr>) es = map_entities G es"
proof -
  have other: "map_outputs G v w = w" if "v \<noteq> t" for v w
    using that assms(7) by (cases w) (simp add: map_outputs_def case_prod_beta)
  have "map_outputs G t e = e\<lparr>cne_streamOutputs := al_put j cs' (cne_streamOutputs e)\<rparr>"
  proof -
    have "map (\<lambda>(k, ds). (k, G t k ds)) (cne_streamOutputs e) = al_put j cs' (cne_streamOutputs e)"
      unfolding al_put_map [OF assms(4,5)]
      using assms(5-7) al_mem [OF assms(4)] by (intro map_cong refl) (fastforce split: if_splits)
    thus ?thesis using assms(3) by (simp add: map_outputs_def)
  qed
  with other show ?thesis
    unfolding al_put_map [OF assms(1,2)] map_entities_def
    using assms(2) al_mem [OF assms(1)] by (intro map_cong refl) fastforce
qed

definition outputs_ok :: "(uid, connected_entity) alist \<Rightarrow> bool" where
  "outputs_ok es \<longleftrightarrow> al_ok es \<and> (\<forall>v e. al_get v es = Some e \<longrightarrow> al_ok (cne_streamOutputs e))"

lemma outputs_ok_map [simp]: "outputs_ok es \<Longrightarrow> outputs_ok (map_entities G es)"
proof -
  have "al_ok (cne_streamOutputs (map_outputs G v e)) = al_ok (cne_streamOutputs e)" for v e
    by (simp add: al_ok_def)
  thus "outputs_ok es \<Longrightarrow> outputs_ok (map_entities G es)" by (auto simp: outputs_ok_def)
qed

lemma no_output:
  assumes "al_ok es" "al_get t es = Some e" "al_get j (cne_streamOutputs e) = None"
    "\<And>v k ds. v \<noteq> t \<or> k \<noteq> j \<Longrightarrow> G v k ds = ds"
  shows "al_put t e es = es" "map_entities G es = es"
proof -
  show "al_put t e es = es"
    unfolding al_put_map [OF assms(1,2)] using assms(2) al_mem [OF assms(1)] by (intro map_idI) fastforce
  have "map_outputs G v w = w" if "(v, w) \<in> set es" for v w
  proof (cases "v = t")
    case True
    hence "w = e" using al_mem [OF assms(1) that] assms(2) by simp
    have "map (\<lambda>(k, ds). (k, G t k ds)) (cne_streamOutputs e) = cne_streamOutputs e"
      using assms(3,4) by (intro map_idI) (force simp: al_get_None_iff)
    with True \<open>w = e\<close> show ?thesis by (simp add: map_outputs_def)
  next
    case False
    hence "map (\<lambda>(k, ds). (k, G v k ds)) (cne_streamOutputs w) = cne_streamOutputs w"
      using assms(4) by (intro map_idI) auto
    thus ?thesis by (simp add: map_outputs_def)
  qed
  thus "map_entities G es = es" unfolding map_entities_def by (intro map_idI) auto
qed

lemma not_advertised_output:
  assumes "\<And>e. al_get t es = Some e \<Longrightarrow> \<not> cne_advertised e" "al_ok es"
    "\<And>v k ds. v \<noteq> t \<or> k \<noteq> j \<Longrightarrow> G v k ds = ds"
  shows "map_entities G es = es"
proof -
  have "map_outputs G v w = w" if "(v, w) \<in> set es" for v w
  proof (cases "cne_advertised w")
    case True
    hence "v \<noteq> t" using assms(1,2) that by (auto simp: al_get_iff)
    hence "map (\<lambda>(k, ds). (k, G v k ds)) (cne_streamOutputs w) = cne_streamOutputs w"
      using assms(3) by (intro map_idI) auto
    thus ?thesis by (simp add: map_outputs_def)
  qed (simp add: map_outputs_def)
  thus ?thesis unfolding map_entities_def by (intro map_idI) auto
qed

text \<open>Adding or removing one connection at an advertised talker, if there is one.\<close>

lemma advertised_talker:
  assumes "outputs_ok es" "\<And>v k ds. v \<noteq> t \<or> k \<noteq> j \<Longrightarrow> G v k ds = ds"
    "e' = (case al_get j (cne_streamOutputs e) of Some cs \<Rightarrow> e\<lparr>cne_streamOutputs := al_put j (G t j cs) (cne_streamOutputs e)\<rparr> | None \<Rightarrow> e)"
    "al_get t es = Some e" "cne_advertised e"
  shows "al_put t e' es = map_entities G es"
proof (cases "al_get j (cne_streamOutputs e)")
  case None
  with no_output [OF _ assms(4) None assms(2)] assms(1,3) show ?thesis by (simp add: outputs_ok_def)
next
  case (Some cs)
  with put_output [OF _ assms(4,5) _ Some refl assms(2)] assms(1,3,4) show ?thesis by (simp add: outputs_ok_def)
qed

lemma only_elsewhere: "v \<noteq> t \<or> k \<noteq> j \<Longrightarrow> only t j x v k = {}"
  by (auto simp: only_def)

lemma add_del_outputs:
  "snd (addStreamOutputConnection j x e) =
     (case al_get j (cne_streamOutputs e) of
        Some cs \<Rightarrow> e\<lparr>cne_streamOutputs := al_put j (cs \<union> only t j x t j) (cne_streamOutputs e)\<rparr> | None \<Rightarrow> e)"
  "snd (delStreamOutputConnection j x e) =
     (case al_get j (cne_streamOutputs e) of
        Some cs \<Rightarrow> e\<lparr>cne_streamOutputs := al_put j (cs - only t j x t j) (cne_streamOutputs e)\<rparr> | None \<Rightarrow> e)"
  by (auto simp: addStreamOutputConnection_def delStreamOutputConnection_def only_def split: option.split)

lemma talker_changed:
  assumes "outputs_ok es" "al_get t es = Some e" "cne_advertised e"
  shows "al_put t (snd (addStreamOutputConnection j x e)) es = map_entities (unioned (only t j x)) es"
    "al_put t (snd (delStreamOutputConnection j x e)) es = map_entities (reduced (only t j x)) es"
  by (rule advertised_talker [OF assms(1) _ add_del_outputs(1) assms(2,3)], simp add: only_elsewhere)
    (rule advertised_talker [OF assms(1) _ add_del_outputs(2) assms(2,3)], simp add: only_elsewhere)

lemma talker_unchanged:
  assumes "outputs_ok es" "\<And>e. al_get t es = Some e \<Longrightarrow> \<not> cne_advertised e"
  shows "map_entities (unioned (only t j x)) es = es" "map_entities (reduced (only t j x)) es = es"
  using assms by (auto intro!: not_advertised_output [of t _ j] simp: outputs_ok_def only_elsewhere)

lemma cns_entity_simps:
  "cns_entity u False s = al_get u (cns_controlledEntities s)"
  "cns_entity u True s = Some e \<longleftrightarrow> al_get u (cns_controlledEntities s) = Some e \<and> cne_advertised e"
  "cns_entity u True s = None \<longleftrightarrow> (\<forall>e. al_get u (cns_controlledEntities s) = Some e \<longrightarrow> \<not> cne_advertised e)"
  by (auto simp: cns_entity_def split: option.split)

lemma cns_fields [simp]:
  "cns_controlledEntities (cns_notify ev s) = cns_controlledEntities s"
  "cns_controlledEntities (cns_put u e s) = al_put u e (cns_controlledEntities s)"
  by (simp_all add: cns_notify_def cns_put_def)

lemma update_talker_connections_maps:
  assumes "outputs_ok (cns_controlledEntities s)" "uid_isValid (sid_entityID y)"
  shows "cns_controlledEntities (update_talker_connections y x True s) =
           map_entities (unioned (only (sid_entityID y) (sid_streamIndex y) x)) (cns_controlledEntities s)"
    "cns_controlledEntities (update_talker_connections y x False s) =
           map_entities (reduced (only (sid_entityID y) (sid_streamIndex y) x)) (cns_controlledEntities s)"
proof -
  show "cns_controlledEntities (update_talker_connections y x True s) =
           map_entities (unioned (only (sid_entityID y) (sid_streamIndex y) x)) (cns_controlledEntities s)"
  proof (cases "cns_entity (sid_entityID y) True s")
    case None
    hence "\<And>e. al_get (sid_entityID y) (cns_controlledEntities s) = Some e \<Longrightarrow> \<not> cne_advertised e"
      by (simp add: cns_entity_simps)
    with None talker_unchanged(1) [OF assms(1)] assms(2) show ?thesis
      by (simp add: update_talker_connections_def)
  next
    case (Some e)
    hence "al_get (sid_entityID y) (cns_controlledEntities s) = Some e" "cne_advertised e" by (simp_all add: cns_entity_simps)
    from talker_changed(1) [OF assms(1) this] Some assms(2) show ?thesis
      by (simp add: update_talker_connections_def split_beta Let_def)
  qed
  show "cns_controlledEntities (update_talker_connections y x False s) =
           map_entities (reduced (only (sid_entityID y) (sid_streamIndex y) x)) (cns_controlledEntities s)"
  proof (cases "cns_entity (sid_entityID y) True s")
    case None
    hence "\<And>e. al_get (sid_entityID y) (cns_controlledEntities s) = Some e \<Longrightarrow> \<not> cne_advertised e"
      by (simp add: cns_entity_simps)
    with None talker_unchanged(2) [OF assms(1)] assms(2) show ?thesis
      by (simp add: update_talker_connections_def)
  next
    case (Some e)
    hence "al_get (sid_entityID y) (cns_controlledEntities s) = Some e" "cne_advertised e" by (simp_all add: cns_entity_simps)
    from talker_changed(2) [OF assms(1) this] Some assms(2) show ?thesis
      by (simp add: update_talker_connections_def split_beta Let_def)
  qed
qed
lemma map_entities_cong:
  "(\<And>v j cs. v \<in> set (al_keys es) \<Longrightarrow> G v j cs = H v j cs) \<Longrightarrow> map_entities G es = map_entities H es"
  unfolding map_entities_def map_outputs_def
  by (intro map_cong refl) (force simp: image_iff split: prod.split)

lemma fold_unioned:
  assumes "\<And>x s. x \<in> set xs \<Longrightarrow> outputs_ok (cns_controlledEntities s) \<Longrightarrow>
      cns_controlledEntities (f x s) = map_entities (unioned (X x)) (cns_controlledEntities s)"
    "outputs_ok (cns_controlledEntities s)"
  shows "cns_controlledEntities (fold f xs s) =
     map_entities (unioned (\<lambda>v j. \<Union>x\<in>set xs. X x v j)) (cns_controlledEntities s)"
  using assms
proof (induction xs arbitrary: s)
  case Nil
  thus ?case by (simp add: map_entities_id)
next
  case (Cons x xs)
  have "cns_controlledEntities (fold f xs (f x s)) =
      map_entities (unioned (\<lambda>v j. \<Union>x\<in>set xs. X x v j)) (cns_controlledEntities (f x s))"
    using Cons.prems by (intro Cons.IH) simp_all
  thus ?case using Cons.prems by (simp add: map_entities_comp o_def Un_assoc)
qed

lemma fold_reduced:
  assumes "\<And>x s. x \<in> set xs \<Longrightarrow> outputs_ok (cns_controlledEntities s) \<Longrightarrow>
      cns_controlledEntities (f x s) = map_entities (reduced (X x)) (cns_controlledEntities s)"
    "outputs_ok (cns_controlledEntities s)"
  shows "cns_controlledEntities (fold f xs s) =
     map_entities (reduced (\<lambda>v j. \<Union>x\<in>set xs. X x v j)) (cns_controlledEntities s)"
  using assms
proof (induction xs arbitrary: s)
  case Nil
  thus ?case by (simp add: map_entities_id)
next
  case (Cons x xs)
  have "cns_controlledEntities (fold f xs (f x s)) =
      map_entities (reduced (\<lambda>v j. \<Union>x\<in>set xs. X x v j)) (cns_controlledEntities (f x s))"
    using Cons.prems by (intro Cons.IH) simp_all
  thus ?case using Cons.prems by (simp add: map_entities_comp o_def Diff_eq Int_assoc Compl_UN)
qed

section \<open>The invariant\<close>

text \<open>
  Without fast connections, an input stream is not connected, or connected to a valid talker.  An entity has the
  streams it announces, and announces that it is a listener or a talker when it has them.
\<close>

definition info_ok :: "connection_info \<Rightarrow> bool" where
  "info_ok info \<longleftrightarrow> info = connection_info_new \<or> sci_state info = Connected \<and> uid_isValid (sid_entityID (sci_talkerStream info))"

definition entity_streams_ok :: "connected_entity \<Rightarrow> bool" where
  "entity_streams_ok e \<longleftrightarrow>
     al_ok (cne_streamInputs e) \<and> al_ok (cne_streamOutputs e)
     \<and> (\<forall>i info. al_get i (cne_streamInputs e) = Some info \<longrightarrow> info_ok info)
     \<and> (\<forall>i < cne_listenerStreamSinks e. al_get i (cne_streamInputs e) \<noteq> None)
     \<and> (cne_streamInputs e \<noteq> [] \<longrightarrow> cne_isListener e \<and> has_model e)
     \<and> (cne_streamOutputs e \<noteq> [] \<longrightarrow> cne_isTalker e \<and> has_model e)"

definition connections_ok ::
    "(stream_identification set \<Rightarrow> stream_identification set \<Rightarrow> bool) \<Rightarrow> (stream_identification set \<Rightarrow> bool)
       \<Rightarrow> (uid, connected_entity) alist \<Rightarrow> bool" where
  "connections_ok agrees fresh es \<longleftrightarrow> al_ok es \<and>
     (\<forall>v e. al_get v es = Some e \<longrightarrow> uid_isValid v \<and> entity_streams_ok e \<and>
        (\<forall>j cs. al_get j (cne_streamOutputs e) = Some cs \<longrightarrow>
           (if cne_advertised e then agrees cs (known_connections es v j) else fresh cs)))"

lemma connections_outputs_ok: "connections_ok agrees fresh es \<Longrightarrow> outputs_ok es"
  by (auto simp: connections_ok_def outputs_ok_def entity_streams_ok_def)

lemma entity_streams_ok_map [simp]: "entity_streams_ok (map_outputs G v e) = entity_streams_ok e"
proof -
  have "al_ok (cne_streamOutputs (map_outputs G v e)) = al_ok (cne_streamOutputs e)" by (simp add: al_ok_def)
  moreover have "cne_streamOutputs (map_outputs G v e) = [] \<longleftrightarrow> cne_streamOutputs e = []" by (simp add: map_outputs_def)
  ultimately show ?thesis by (simp add: entity_streams_ok_def)
qed

lemma sid_eq_valid: "uid_isValid (sid_entityID x) \<Longrightarrow> sid_eq x y \<longleftrightarrow> x = y" "uid_isValid (sid_entityID y) \<Longrightarrow> sid_eq x y \<longleftrightarrow> x = y"
  by (cases x; cases y; auto simp: sid_eq_def uid_eq_def)+

lemma invalid_stream [simp]: "\<not> uid_isValid (sid_entityID StreamIdentification_new)"
  by (simp add: StreamIdentification_new_def uid_isValid_def)

lemma connection_info_new_simps [simp]:
  "sci_state connection_info_new = NotConnected" "sci_talkerStream connection_info_new = StreamIdentification_new"
  "\<not> connected_to t j connection_info_new" "info_ok connection_info_new"
  by (simp_all add: connection_info_new_def connected_to_def info_ok_def)

lemma info_eqs:
  assumes "info_ok a" "info_ok b"
  shows "connection_info_eq a b \<longleftrightarrow> a = b" "sid_eq (sci_talkerStream a) (sci_talkerStream b) \<longleftrightarrow> a = b"
proof -
  have "a = b" if "info_ok a" "info_ok b" "sci_state a = Connected" "sci_state b = Connected" "sci_talkerStream a = sci_talkerStream b"
    using that by (cases a; cases b) simp
  thus "connection_info_eq a b \<longleftrightarrow> a = b" "sid_eq (sci_talkerStream a) (sci_talkerStream b) \<longleftrightarrow> a = b"
    using assms by (auto simp: info_ok_def connection_info_eq_def sid_eq_valid) (auto simp: sid_eq_def uid_eq_def)
qed

lemma info_ok_cases:
  assumes "info_ok info"
  obtains "info = connection_info_new" | "uid_isValid (sid_entityID (sci_talkerStream info))" "sci_state info = Connected" "info \<noteq> connection_info_new"
  using assms by (auto simp: info_ok_def)

lemma info_valid: "info_ok info \<Longrightarrow> uid_isValid (sid_entityID (sci_talkerStream info)) \<longleftrightarrow> sci_state info = Connected"
  by (auto simp: info_ok_def)

lemma stream_of_parts [simp]: "sid_entityID (stream_of t j) = t" "sid_streamIndex (stream_of t j) = j"
  by (simp_all add: stream_of_def)

lemma only_connected:
  assumes "info_ok info" "sci_state info = Connected"
  shows "only (sid_entityID (sci_talkerStream info)) (sid_streamIndex (sci_talkerStream info)) x =
    (\<lambda>t j. if connected_to t j info then {x} else {})"
  using assms by (intro ext) (auto simp: only_def connected_to_def)

lemma not_connected_none: "sci_state info \<noteq> Connected \<Longrightarrow> \<not> connected_to t j info"
  by (simp add: connected_to_def)

text \<open>A new state of one input stream.\<close>

lemma known_put_input:
  assumes "al_get u es = Some e"
  shows "known_connections (al_put u (e\<lparr>cne_streamInputs := al_put i info (cne_streamInputs e)\<rparr>) es) t j =
    (if cne_advertised e
     then (known_connections es t j - {stream_of u i}) \<union> (if connected_to t j info then {stream_of u i} else {})
     else known_connections es t j)"
proof (rule set_eqI)
  fix x :: stream_identification
  show "x \<in> known_connections (al_put u (e\<lparr>cne_streamInputs := al_put i info (cne_streamInputs e)\<rparr>) es) t j \<longleftrightarrow>
    x \<in> (if cne_advertised e
     then (known_connections es t j - {stream_of u i}) \<union> (if connected_to t j info then {stream_of u i} else {})
     else known_connections es t j)"
    using assms by (cases x) (auto simp: known_connections_iff stream_of_def)
qed

lemma connection_info_of_ok: "\<not> (\<exists>f. flags = Some f \<and> isFastConnect f) \<Longrightarrow> info_ok (connection_info_of t c flags)"
  by (auto simp: connection_info_of_def Let_def info_ok_def split: option.split)

lemma connection_info_of_connected: "sci_state (connection_info_of t c flags) = Connected \<Longrightarrow> c"
  by (auto simp: connection_info_of_def Let_def split: if_splits)

definition change_of :: "stream_identification \<Rightarrow> connection_info \<Rightarrow> connection_info \<Rightarrow> uid \<Rightarrow> 16 word \<Rightarrow> stream_identification set" where
  "change_of x info other t j = (if info \<noteq> other \<and> connected_to t j info then {x} else {})"

lemma listener_maps:
  assumes ok: "outputs_ok (cns_controlledEntities s)" and u: "u = sid_entityID listenerStream" and i: "i = sid_streamIndex listenerStream"
    and e: "al_get u (cns_controlledEntities s) = Some e"
    and prev: "al_get i (cne_streamInputs e) = Some prev" "info_ok prev" and small: "i < cne_listenerStreamSinks e"
    and f: "\<not> (\<exists>f. flags = Some f \<and> isFastConnect f)" and info: "info = connection_info_of talkerStream isConnected flags"
  shows "cns_controlledEntities (handleListenerStreamStateNotification talkerStream listenerStream isConnected flags changedByOther s) =
    (let es1 = al_put u (e\<lparr>cne_streamInputs := al_put i info (cne_streamInputs e)\<rparr>) (cns_controlledEntities s) in
     if cne_advertised e then map_entities (unioned (change_of listenerStream info prev)) (map_entities (reduced (change_of listenerStream prev info)) es1)
     else es1)"
proof -
  have iok: "info_ok info" using connection_info_of_ok [OF f] info by simp
  let ?e = "e\<lparr>cne_streamInputs := al_put i info (cne_streamInputs e)\<rparr>"
  let ?s1 = "cns_put u ?e s"
  let ?s2 = "cns_notify (OnStreamInputConnectionChanged u i info changedByOther) ?s1"
  have ok1: "outputs_ok (cns_controlledEntities ?s1)" using ok e by (auto simp: outputs_ok_def)
  define s3 where "s3 = (if uid_isValid (sid_entityID (sci_talkerStream prev))
                         then update_talker_connections (sci_talkerStream prev) listenerStream False ?s2 else ?s2)"
  define s4 where "s4 = (if uid_isValid (sid_entityID (sci_talkerStream info)) \<and> isConnected
                         then update_talker_connections (sci_talkerStream info) listenerStream True s3 else s3)"
  have h: "handleListenerStreamStateNotification talkerStream listenerStream isConnected flags changedByOther s =
      (if cne_advertised e \<and> prev \<noteq> info then s4 else ?s1)"
  proof -
    have small': "\<not> cne_listenerStreamSinks e \<le> i" using small by (simp add: not_le)
    show ?thesis
      unfolding handleListenerStreamStateNotification_def Let_def u [symmetric] i [symmetric] info [symmetric] cns_entity_simps e option.case
        setStreamInputConnectionInformation_def prev(1) prod.case s3_def s4_def info_eqs [OF prev(2) iok]
      using small' by simp
  qed
  have none: "change_of listenerStream a b = (\<lambda>_ _. {})" if "a = b \<or> sci_state a \<noteq> Connected" for a b
    using that by (intro ext) (auto simp: change_of_def connected_to_def)
  have some: "change_of listenerStream a b = only (sid_entityID (sci_talkerStream a)) (sid_streamIndex (sci_talkerStream a)) listenerStream"
    if "a \<noteq> b" "sci_state a = Connected" "info_ok a" for a b
    using only_connected [OF that(3,2)] that(1) by (simp add: change_of_def fun_eq_iff)
  have m3: "cns_controlledEntities s3 = map_entities (reduced (change_of listenerStream prev info)) (cns_controlledEntities ?s1)" if "prev \<noteq> info"
    using update_talker_connections_maps(2) [of ?s2 "sci_talkerStream prev" listenerStream] ok1 that prev(2) some [OF that] none [of prev info]
    by (auto simp: s3_def info_valid map_entities_id)
  hence ok3: "outputs_ok (cns_controlledEntities s3)" if "prev \<noteq> info" using that ok1 by simp
  have m4: "cns_controlledEntities s4 = map_entities (unioned (change_of listenerStream info prev)) (cns_controlledEntities s3)" if "prev \<noteq> info"
    using update_talker_connections_maps(1) [OF ok3 [OF that], of "sci_talkerStream info" listenerStream] iok some [OF that [symmetric]] none [of info prev]
      connection_info_of_connected [of talkerStream isConnected flags, folded info]
    by (auto simp: s4_def info_valid map_entities_id)
  show ?thesis
  proof (cases "cne_advertised e \<and> prev \<noteq> info")
    case True
    thus ?thesis unfolding h using m3 m4 by (simp add: Let_def)
  next
    case False
    thus ?thesis unfolding h using none [of prev info] none [of info prev] by (auto simp: Let_def map_entities_id)
  qed
qed

text \<open>The talkers of the input streams of one entity.\<close>

definition sink_if_connected :: "uid \<Rightarrow> 16 word \<times> connection_info \<Rightarrow> uid \<Rightarrow> 16 word \<Rightarrow> stream_identification set" where
  "sink_if_connected u x t j = (if connected_to t j (snd x) then {stream_of u (fst x)} else {})"

lemma only_sink:
  assumes "info_ok info" "sci_state info = Connected"
  shows "only (sid_entityID (sci_talkerStream info)) (sid_streamIndex (sci_talkerStream info)) (stream_of u i) = sink_if_connected u (i, info)"
  using only_connected [OF assms] by (simp add: sink_if_connected_def fun_eq_iff)

lemma sink_not_connected: "sci_state info \<noteq> Connected \<Longrightarrow> sink_if_connected u (i, info) = (\<lambda>_ _. {})"
  by (intro ext) (simp add: sink_if_connected_def connected_to_def)

lemma change_talker_maps:
  assumes "outputs_ok (cns_controlledEntities s)" "info_ok info" "sci_state info = Connected"
  shows "cns_controlledEntities (change_talker addStreamOutputConnection u i info s) =
      map_entities (unioned (sink_if_connected u (i, info))) (cns_controlledEntities s)"
    and "cns_controlledEntities (change_talker delStreamOutputConnection u i info s) =
      map_entities (reduced (sink_if_connected u (i, info))) (cns_controlledEntities s)"
proof -
  let ?t = "sid_entityID (sci_talkerStream info)" and ?j = "sid_streamIndex (sci_talkerStream info)"
  have "cns_controlledEntities (change_talker addStreamOutputConnection u i info s) =
      map_entities (unioned (only ?t ?j (stream_of u i))) (cns_controlledEntities s)
    \<and> cns_controlledEntities (change_talker delStreamOutputConnection u i info s) =
      map_entities (reduced (only ?t ?j (stream_of u i))) (cns_controlledEntities s)"
  proof (cases "cns_entity ?t True s")
    case None
    hence "\<And>e. al_get ?t (cns_controlledEntities s) = Some e \<Longrightarrow> \<not> cne_advertised e" by (simp add: cns_entity_simps)
    from talker_unchanged [OF assms(1) this] None show ?thesis by (simp add: change_talker_def)
  next
    case (Some e)
    hence "al_get ?t (cns_controlledEntities s) = Some e" "cne_advertised e" by (simp_all add: cns_entity_simps)
    from talker_changed [OF assms(1) this] Some show ?thesis by (simp add: change_talker_def Let_def stream_of_def)
  qed
  thus "cns_controlledEntities (change_talker addStreamOutputConnection u i info s) =
      map_entities (unioned (sink_if_connected u (i, info))) (cns_controlledEntities s)"
    "cns_controlledEntities (change_talker delStreamOutputConnection u i info s) =
      map_entities (reduced (sink_if_connected u (i, info))) (cns_controlledEntities s)"
    by (simp_all add: only_sink [OF assms(2,3)])
qed

lemma sinks_connected_union:
  assumes "al_ok (cne_streamInputs e)"
  shows "(\<Union>x\<in>set (cne_streamInputs e). sink_if_connected u x t j) = sinks_connected_to u e t j"
  using assms by (force simp: sinks_connected_to_def sink_if_connected_def al_get_iff split: if_splits)

lemma inputs_of_ok: "entity_streams_ok e \<Longrightarrow> (i, info) \<in> set (cne_streamInputs e) \<Longrightarrow> info_ok info"
  by (metis al_get_iff entity_streams_ok_def)

lemma left_talkers:
  assumes "outputs_ok (cns_controlledEntities s)" "entity_streams_ok e"
  shows "cns_controlledEntities (cns_onPreUnadvertiseEntity u e s) =
      map_entities (reduced (sinks_connected_to u e)) (cns_controlledEntities s)"
proof (cases "cne_isListener e \<and> has_model e")
  case True
  have "cns_controlledEntities (fold (\<lambda>(i, info). if sci_state info = Connected then change_talker delStreamOutputConnection u i info else id)
          (cne_streamInputs e) s) =
    map_entities (reduced (\<lambda>t j. \<Union>x\<in>set (cne_streamInputs e). sink_if_connected u x t j))
      (cns_controlledEntities s)"
    using inputs_of_ok [OF assms(2)] sink_not_connected
    by (intro fold_reduced [OF _ assms(1)]) (auto simp: change_talker_maps map_entities_id)
  with True assms(2) show ?thesis
    by (simp add: cns_onPreUnadvertiseEntity_def sinks_connected_union entity_streams_ok_def)
next
  case False
  hence "sinks_connected_to u e = (\<lambda>_ _. {})"
    using assms(2) by (intro ext) (auto simp: sinks_connected_to_def entity_streams_ok_def)
  with False show ?thesis by (auto simp: cns_onPreUnadvertiseEntity_def map_entities_id)
qed

lemma informed_talkers:
  assumes "outputs_ok (cns_controlledEntities s)" "entity_streams_ok e" "\<And>j. sinks_connected_to u e u j = {}"
  shows "cns_controlledEntities (if cne_isListener e then inform_talkers u e s else s) =
      map_entities (unioned (sinks_connected_to u e)) (cns_controlledEntities s)"
proof (cases "cne_isListener e")
  case True
  have ext: "sid_entityID (sci_talkerStream info) \<noteq> u" if "(i, info) \<in> set (cne_streamInputs e)" "sci_state info = Connected" for i info
  proof
    assume u: "sid_entityID (sci_talkerStream info) = u"
    have "stream_of u i \<in> sinks_connected_to u e u (sid_streamIndex (sci_talkerStream info))"
      using that u assms(2) by (auto simp: sinks_connected_to_def connected_to_def entity_streams_ok_def al_get_iff)
    with assms(3) show False by simp
  qed
  have "cns_controlledEntities (inform_talkers u e s) =
    map_entities (unioned (\<lambda>t j. \<Union>x\<in>set (cne_streamInputs e). sink_if_connected u x t j))
      (cns_controlledEntities s)"
    unfolding inform_talkers_def
    using inputs_of_ok [OF assms(2)] sink_not_connected ext
    by (intro fold_unioned [OF _ assms(1)]) (auto simp: change_talker_maps map_entities_id)
  with True assms(2) show ?thesis by (simp add: sinks_connected_union entity_streams_ok_def)
next
  case False
  hence "sinks_connected_to u e = (\<lambda>_ _. {})"
    using assms(2) by (intro ext) (auto simp: sinks_connected_to_def entity_streams_ok_def)
  with False show ?thesis by (simp add: map_entities_id)
qed

text \<open>The output streams of a new entity.\<close>

definition add_outputs :: "(16 word \<Rightarrow> stream_identification set) \<Rightarrow> connected_entity \<Rightarrow> connected_entity" where
  "add_outputs X e = e\<lparr>cne_streamOutputs := map (\<lambda>(j, cs). (j, cs \<union> X j)) (cne_streamOutputs e)\<rparr>"

lemma add_outputs_fields [simp]: "al_keys (cne_streamOutputs (add_outputs X e)) = al_keys (cne_streamOutputs e)"
  "al_ok (cne_streamOutputs (add_outputs X e)) = al_ok (cne_streamOutputs e)"
  by (simp_all add: add_outputs_def al_ok_def al_keys_map del: map_map)

lemma add_outputs_comp: "add_outputs Y (add_outputs X e) = add_outputs (\<lambda>j. X j \<union> Y j) e"
  by (simp add: add_outputs_def case_prod_beta o_def Un_assoc)

lemma add_outputs_none: "add_outputs (\<lambda>_. {}) e = e"
  by (simp add: add_outputs_def case_prod_beta)

lemma fold_add_outputs:
  assumes "\<And>x e. x \<in> set xs \<Longrightarrow> al_ok (cne_streamOutputs e) \<Longrightarrow> f x e = add_outputs (X x) e" "al_ok (cne_streamOutputs e)"
  shows "fold f xs e = add_outputs (\<lambda>j. \<Union>x\<in>set xs. X x j) e"
  using assms
proof (induction xs arbitrary: e)
  case (Cons x xs)
  have "fold f xs (f x e) = add_outputs (\<lambda>j. \<Union>x\<in>set xs. X x j) (f x e)" using Cons.prems by (intro Cons.IH) simp_all
  thus ?case using Cons.prems by (simp add: add_outputs_comp)
qed (simp add: add_outputs_none)

lemma add_one_output:
  assumes "al_ok (cne_streamOutputs e)"
  shows "snd (addStreamOutputConnection j x e) = add_outputs (\<lambda>k. if k = j then {x} else {}) e"
proof (cases "al_get j (cne_streamOutputs e)")
  case None
  hence "map (\<lambda>(k, cs). (k, cs \<union> (if k = j then {x} else {}))) (cne_streamOutputs e) = cne_streamOutputs e"
    by (intro map_idI) (force simp: al_get_None_iff)
  with None show ?thesis by (simp add: addStreamOutputConnection_def add_outputs_def)
next
  case (Some cs)
  have "al_put j (insert x cs) (cne_streamOutputs e) = map (\<lambda>(k, cs). (k, cs \<union> (if k = j then {x} else {}))) (cne_streamOutputs e)"
    unfolding al_put_map [OF assms Some]
    using Some al_mem [OF assms] by (intro map_cong refl) (fastforce split: if_splits)
  with Some show ?thesis by (simp add: addStreamOutputConnection_def add_outputs_def)
qed

lemma add_outputs_cong:
  assumes "\<And>j. j \<in> set (al_keys (cne_streamOutputs e)) \<Longrightarrow> X j = Y j"
  shows "add_outputs X e = add_outputs Y e"
proof -
  have "map (\<lambda>(j, cs). (j, cs \<union> X j)) (cne_streamOutputs e) = map (\<lambda>(j, cs). (j, cs \<union> Y j)) (cne_streamOutputs e)"
    using assms by (intro map_cong refl) (force split: prod.split)
  thus ?thesis by (simp add: add_outputs_def)
qed

lemma added_known_listeners:
  assumes es: "al_ok es" "\<And>v l. al_get v es = Some l \<Longrightarrow> entity_streams_ok l" and ok: "al_ok (cne_streamOutputs e)"
    and u: "uid_isValid u" "\<And>l. al_get u es = Some l \<Longrightarrow> \<not> cne_advertised l"
  shows "add_known_listeners u es e = add_outputs (known_connections es u) e"
proof -
  define one where "one v x j = (if connected_to u j (snd x) then {stream_of v (fst x)} else {})"
    for v :: uid and x :: "16 word \<times> connection_info" and j
  define step where "step v i info j e = (if sid_eq (sci_talkerStream info) \<lparr>sid_entityID = u, sid_streamIndex = j\<rparr>
      then snd (addStreamOutputConnection j \<lparr>sid_entityID = v, sid_streamIndex = i\<rparr> e) else e)" for v i j e and info :: connection_info
  have s: "step v i info j e = add_outputs (\<lambda>k. if k = j \<and> sci_talkerStream info = stream_of u j then {stream_of v i} else {}) e"
    if "al_ok (cne_streamOutputs e)" for v i j e and info :: connection_info
  proof -
    have "sid_eq (sci_talkerStream info) \<lparr>sid_entityID = u, sid_streamIndex = j\<rparr> \<longleftrightarrow> sci_talkerStream info = stream_of u j"
      using sid_eq_valid(2) [of "stream_of u j"] u(1) by (simp add: stream_of_def)
    thus ?thesis using add_one_output [OF that, of j "stream_of v i"]
      by (simp add: step_def stream_of_def add_outputs_none)
  qed
  have one: "(if sci_state info = Connected then fold (step v i info) (al_keys (cne_streamOutputs e)) e else e)
      = add_outputs (one v (i, info)) e" if "al_ok (cne_streamOutputs e)" for v i e and info :: connection_info
  proof (cases "sci_state info = Connected")
    case True
    have "fold (step v i info) (al_keys (cne_streamOutputs e)) e
        = add_outputs (\<lambda>k. \<Union>j\<in>set (al_keys (cne_streamOutputs e)). if k = j \<and> sci_talkerStream info = stream_of u j then {stream_of v i} else {}) e"
      by (intro fold_add_outputs that s)
    also have "\<dots> = add_outputs (one v (i, info)) e"
      using True by (intro add_outputs_cong) (auto simp: one_def connected_to_def split: if_splits)
    finally show ?thesis using True by simp
  next
    case False
    hence "one v (i, info) = (\<lambda>_. {})" by (intro ext) (simp add: one_def connected_to_def)
    with False show ?thesis by (simp add: add_outputs_none)
  qed
  define sinks where "sinks v l = (if v = u \<or> \<not> cne_advertised l \<or> \<not> has_model l then (\<lambda>_. {})
      else (\<lambda>j. \<Union>x\<in>set (cne_streamInputs l). one v x j))" for v l
  have "add_known_listeners u es e = add_outputs (\<lambda>j. \<Union>x\<in>set es. (case x of (v, l) \<Rightarrow> sinks v l) j) e"
    unfolding add_known_listeners_def step_def [symmetric]
  proof (rule fold_add_outputs [OF _ ok])
    fix x and e :: connected_entity assume x: "x \<in> set es" and e: "al_ok (cne_streamOutputs e)"
    obtain v l where vl: "x = (v, l)" by (cases x)
    have "fold (\<lambda>(i, info) e. if sci_state info = Connected then fold (step v i info) (al_keys (cne_streamOutputs e)) e else e) (cne_streamInputs l) e
        = add_outputs (\<lambda>j. \<Union>x\<in>set (cne_streamInputs l). one v x j) e"
      by (rule fold_add_outputs [OF _ e]) (auto simp: one simp del: if_split)
    thus "(case x of (v, listener) \<Rightarrow> \<lambda>e. if v = u \<or> \<not> cne_advertised listener \<or> \<not> has_model listener then e
        else fold (\<lambda>(i, info) e. if sci_state info = Connected then fold (step v i info) (al_keys (cne_streamOutputs e)) e else e)
          (cne_streamInputs listener) e) e = add_outputs (case x of (v, l) \<Rightarrow> sinks v l) e"
      by (simp add: vl sinks_def add_outputs_none)
  qed
  also have "(\<lambda>j. \<Union>x\<in>set es. (case x of (v, l) \<Rightarrow> sinks v l) j) = known_connections es u"
  proof (intro ext set_eqI)
    fix j x
    have l: "al_ok (cne_streamInputs l)" "cne_streamInputs l \<noteq> [] \<Longrightarrow> has_model l" if "al_get v es = Some l" for v l
      using es(2) [OF that] by (auto simp: entity_streams_ok_def)
    show "x \<in> (\<Union>x\<in>set es. (case x of (v, l) \<Rightarrow> sinks v l) j) \<longleftrightarrow> x \<in> known_connections es u j"
    proof
      assume "x \<in> (\<Union>x\<in>set es. (case x of (v, l) \<Rightarrow> sinks v l) j)"
      then obtain v l i info where "al_get v es = Some l" "cne_advertised l" "(i, info) \<in> set (cne_streamInputs l)"
          "connected_to u j info" "x = stream_of v i"
        by (auto simp: sinks_def one_def al_get_iff [OF es(1)] split: if_splits)
      thus "x \<in> known_connections es u j" using l(1) by (auto simp: known_connections_iff al_get_iff)
    next
      assume "x \<in> known_connections es u j"
      then obtain l info where "al_get (sid_entityID x) es = Some l" "cne_advertised l"
          "al_get (sid_streamIndex x) (cne_streamInputs l) = Some info" "connected_to u j info" by (auto simp: known_connections_iff)
      moreover from this have "sid_entityID x \<noteq> u" "(sid_streamIndex x, info) \<in> set (cne_streamInputs l)"
        using u(2) by (auto simp: al_get_in_set)
      moreover from this have "has_model l" using l(2) [OF calculation(1)] by (cases "cne_streamInputs l") auto
      moreover have "(sid_entityID x, l) \<in> set es" using calculation(1) by (rule al_get_in_set)
      ultimately show "x \<in> (\<Union>x\<in>set es. (case x of (v, l) \<Rightarrow> sinks v l) j)"
        by (intro UN_I [of "(sid_entityID x, l)"]) (auto simp: sinks_def one_def intro!: bexI [of _ "(sid_streamIndex x, info)"])
    qed
  qed
  finally show ?thesis .
qed

end
