(* ===== verification/StreamConnectionRuns.thy ===== *)
theory StreamConnectionRuns
  imports StreamConnections
begin

text \<open>
  The connections of talkers and listeners agree, whatever happens to the entities the controller library knows: one
  proof over a locale, for the exact connections and for the complete ones.
\<close>

lemma al_put_same: "al_ok es \<Longrightarrow> al_get k es = Some v \<Longrightarrow> al_put k v es = es"
  unfolding al_put_map using al_mem by (intro map_idI) fastforce

lemma al_put_twice: "al_put k v (al_put k w es) = al_put k v es"
  by (induction es) auto

section \<open>Two views\<close>

text \<open>
  How the connections of an advertised talker agree with what is known of the listeners, and what those of a
  talker not advertised yet may be: with the same additions and removals on both sides they keep agreeing.
\<close>

locale connection_view =
  fixes agrees :: "stream_identification set \<Rightarrow> stream_identification set \<Rightarrow> bool"
    and fresh :: "stream_identification set \<Rightarrow> bool"
  assumes more: "agrees A B \<Longrightarrow> agrees (A \<union> X) (B \<union> X)"
    and less: "agrees A B \<Longrightarrow> agrees (A - X) (B - X)"
    and begins: "fresh A \<Longrightarrow> agrees (A \<union> B) B"
begin

lemma mapped_ok:
  assumes "connections_ok agrees fresh es" "al_ok es'"
    and entries: "\<And>v e'. al_get v es' = Some e' \<Longrightarrow>
      \<exists>e. al_get v es = Some e \<and> entity_streams_ok e' \<and> cne_advertised e' = cne_advertised e
        \<and> (\<forall>j cs'. al_get j (cne_streamOutputs e') = Some cs' \<longrightarrow>
             (\<exists>cs. al_get j (cne_streamOutputs e) = Some cs
                \<and> (if cne_advertised e then agrees cs (known_connections es v j) \<longrightarrow> agrees cs' (known_connections es' v j)
                   else cs' = cs)))"
  shows "connections_ok agrees fresh es'"
  unfolding connections_ok_def
proof (intro conjI allI impI)
  fix v e' assume "al_get v es' = Some e'"
  from entries [OF this] obtain e where e: "al_get v es = Some e" "entity_streams_ok e'" "cne_advertised e' = cne_advertised e"
      "\<And>j cs'. al_get j (cne_streamOutputs e') = Some cs' \<Longrightarrow>
             (\<exists>cs. al_get j (cne_streamOutputs e) = Some cs
                \<and> (if cne_advertised e then agrees cs (known_connections es v j) \<longrightarrow> agrees cs' (known_connections es' v j)
                   else cs' = cs))" by blast
  with assms(1) show "uid_isValid v" "entity_streams_ok e'" by (auto simp: connections_ok_def)
  fix j cs' assume "al_get j (cne_streamOutputs e') = Some cs'"
  from e(4) [OF this] obtain cs where cs: "al_get j (cne_streamOutputs e) = Some cs"
      "if cne_advertised e then agrees cs (known_connections es v j) \<longrightarrow> agrees cs' (known_connections es' v j) else cs' = cs" by blast
  with assms(1) e(1) have "if cne_advertised e then agrees cs (known_connections es v j) else fresh cs"
    by (auto simp: connections_ok_def)
  with cs(2) e(3) show "if cne_advertised e' then agrees cs' (known_connections es' v j) else fresh cs'"
    by (simp split: if_splits)
qed (rule assms(2))

lemma listener_ok:
  assumes ok: "connections_ok agrees fresh (cns_controlledEntities s)" and f: "\<not> (\<exists>f. flags = Some f \<and> isFastConnect f)"
  shows "connections_ok agrees fresh (cns_controlledEntities
    (handleListenerStreamStateNotification talkerStream listenerStream isConnected flags changedByOther s))"
proof -
  let ?es = "cns_controlledEntities s" and ?u = "sid_entityID listenerStream" and ?i = "sid_streamIndex listenerStream"
  show ?thesis
  proof (cases "al_get ?u ?es")
    case None
    thus ?thesis using ok by (simp add: handleListenerStreamStateNotification_def cns_entity_simps)
  next
    case (Some e)
    show ?thesis
    proof (cases "?i < cne_listenerStreamSinks e")
      case False
      thus ?thesis using ok Some by (simp add: handleListenerStreamStateNotification_def cns_entity_simps Let_def not_less)
    next
      case True
      have eok: "entity_streams_ok e" using ok Some by (simp add: connections_ok_def)
      then obtain prev where prev: "al_get ?i (cne_streamInputs e) = Some prev" "info_ok prev"
        using True by (fastforce simp: entity_streams_ok_def)
      define info where "info = connection_info_of talkerStream isConnected flags"
      have iok: "info_ok info" using connection_info_of_ok [OF f] by (simp add: info_def)
      define es1 where "es1 = al_put ?u (e\<lparr>cne_streamInputs := al_put ?i info (cne_streamInputs e)\<rparr>) ?es"
      let ?M = "map_entities (unioned (change_of listenerStream info prev)) (map_entities (reduced (change_of listenerStream prev info)) es1)"
      have m: "cns_controlledEntities (handleListenerStreamStateNotification talkerStream listenerStream isConnected flags changedByOther s)
          = (if cne_advertised e then ?M else es1)"
        using listener_maps [OF connections_outputs_ok [OF ok] refl refl Some prev True f info_def] by (simp add: Let_def es1_def)
      have eok1: "entity_streams_ok (e\<lparr>cne_streamInputs := al_put ?i info (cne_streamInputs e)\<rparr>)"
        using eok prev iok by (auto simp: entity_streams_ok_def has_model_def split: if_splits)
      have ok1: "al_ok es1" using ok by (simp add: es1_def connections_ok_def)
      have es1: "al_get v es1 = (if v = ?u then Some (e\<lparr>cne_streamInputs := al_put ?i info (cne_streamInputs e)\<rparr>) else al_get v ?es)" for v
        by (simp add: es1_def)
      have known1: "known_connections es1 t j = (if cne_advertised e
          then (known_connections ?es t j - {listenerStream}) \<union> (if connected_to t j info then {listenerStream} else {})
          else known_connections ?es t j)" for t j
        using known_put_input [OF Some, of ?i info t j] by (simp add: es1_def)
      have eoks: "entity_streams_ok w" if "al_get v ?es = Some w" for v w using that ok by (simp add: connections_ok_def)
      show ?thesis
      proof (cases "cne_advertised e")
        case adv: True
        have x: "listenerStream \<in> known_connections ?es t j \<longleftrightarrow> connected_to t j prev" for t j
          using Some adv prev(1) by (simp add: known_connections_iff)
        have agree: "agrees ((cs - change_of listenerStream prev info t j) \<union> change_of listenerStream info prev t j) (known_connections es1 t j)"
          if "agrees cs (known_connections ?es t j)" for cs t j
        proof -
          have "known_connections es1 t j = (known_connections ?es t j - change_of listenerStream prev info t j) \<union> change_of listenerStream info prev t j"
            using x [of t j] adv unfolding known1 by (auto simp: change_of_def)
          with more [OF less [OF that]] show ?thesis by simp
        qed
        have "connections_ok agrees fresh ?M"
        proof (rule mapped_ok [OF ok])
          fix v e' assume "al_get v ?M = Some e'"
          then obtain w where w: "al_get v es1 = Some w"
              "e' = map_outputs (unioned (change_of listenerStream info prev)) v (map_outputs (reduced (change_of listenerStream prev info)) v w)"
            by auto
          then obtain w0 where w0: "al_get v ?es = Some w0" "cne_advertised w = cne_advertised w0" "cne_streamOutputs w = cne_streamOutputs w0"
              "entity_streams_ok w"
            using Some eok1 eoks unfolding es1 by (auto split: if_splits)
          show "\<exists>e. al_get v ?es = Some e \<and> entity_streams_ok e' \<and> cne_advertised e' = cne_advertised e
            \<and> (\<forall>j cs'. al_get j (cne_streamOutputs e') = Some cs' \<longrightarrow>
               (\<exists>cs. al_get j (cne_streamOutputs e) = Some cs
                \<and> (if cne_advertised e then agrees cs (known_connections ?es v j) \<longrightarrow> agrees cs' (known_connections ?M v j)
                   else cs' = cs)))"
            using w0 agree unfolding w(2) by (intro exI [of _ w0]) (auto simp: map_outputs_get)
        qed (use ok1 in simp)
        thus ?thesis using m adv by simp
      next
        case False
        have "connections_ok agrees fresh es1"
        proof (rule mapped_ok [OF ok ok1])
          fix v e' assume e': "al_get v es1 = Some e'"
          show "\<exists>e. al_get v ?es = Some e \<and> entity_streams_ok e' \<and> cne_advertised e' = cne_advertised e
            \<and> (\<forall>j cs'. al_get j (cne_streamOutputs e') = Some cs' \<longrightarrow>
               (\<exists>cs. al_get j (cne_streamOutputs e) = Some cs
                \<and> (if cne_advertised e then agrees cs (known_connections ?es v j) \<longrightarrow> agrees cs' (known_connections es1 v j)
                   else cs' = cs)))"
            using e' Some False eok1 eoks known1 unfolding es1 by (auto split: if_splits)
        qed
        thus ?thesis using m False by simp
      qed
    qed
  qed
qed

lemma offline_ok:
  assumes ok: "connections_ok agrees fresh (cns_controlledEntities s)"
  shows "connections_ok agrees fresh (cns_controlledEntities (cns_onEntityOffline u s))"
proof (cases "al_get u (cns_controlledEntities s)")
  case None
  thus ?thesis using ok by (simp add: cns_onEntityOffline_def)
next
  case (Some e)
  let ?es = "cns_controlledEntities s"
  let ?es1 = "al_del u ?es"
  let ?s1 = "s\<lparr>cns_controlledEntities := ?es1\<rparr>"
  have eok: "entity_streams_ok e" using ok Some by (simp add: connections_ok_def)
  have ok1: "outputs_ok ?es1" using connections_outputs_ok [OF ok] by (simp add: outputs_ok_def)
  define X where "X t j = (if cne_advertised e then sinks_connected_to u e t j else {})" for t j
  have known1: "known_connections ?es1 t j = known_connections ?es t j - X t j" for t j
  proof (rule set_eqI)
    fix x show "x \<in> known_connections ?es1 t j \<longleftrightarrow> x \<in> known_connections ?es t j - X t j"
      using Some by (cases x) (auto simp: known_connections_iff X_def sinks_connected_to_def stream_of_def)
  qed
  have m: "cns_controlledEntities (cns_onEntityOffline u s) = map_entities (reduced X) ?es1"
    using left_talkers [of ?s1 e u] ok1 eok Some by (simp add: cns_onEntityOffline_def Let_def X_def map_entities_id)
  have "connections_ok agrees fresh (map_entities (reduced X) ?es1)"
  proof (rule mapped_ok [OF ok])
    fix v e' assume "al_get v (map_entities (reduced X) ?es1) = Some e'"
    then obtain w where w: "al_get v ?es = Some w" "e' = map_outputs (reduced X) v w" by (auto split: if_splits)
    have "entity_streams_ok w" using ok w(1) by (simp add: connections_ok_def)
    with w show "\<exists>e. al_get v ?es = Some e \<and> entity_streams_ok e' \<and> cne_advertised e' = cne_advertised e
            \<and> (\<forall>j cs'. al_get j (cne_streamOutputs e') = Some cs' \<longrightarrow>
               (\<exists>cs. al_get j (cne_streamOutputs e) = Some cs
                \<and> (if cne_advertised e then agrees cs (known_connections ?es v j)
                     \<longrightarrow> agrees cs' (known_connections (map_entities (reduced X) ?es1) v j) else cs' = cs)))"
      by (intro exI [of _ w]) (auto simp: map_outputs_get known1 less)
  qed (use ok1 in \<open>simp add: outputs_ok_def\<close>)
  with m show ?thesis by simp
qed

lemma enumerated_ok:
  assumes ok: "connections_ok agrees fresh (cns_controlledEntities s)" and e: "\<not> cne_advertised e" "entity_streams_ok e" "uid_isValid u"
    and fresh: "\<And>j cs. al_get j (cne_streamOutputs e) = Some cs \<Longrightarrow> fresh cs"
    and old: "\<And>e0. al_get u (cns_controlledEntities s) = Some e0 \<Longrightarrow> \<not> cne_advertised e0"
  shows "connections_ok agrees fresh (cns_controlledEntities (cns_put u e s))"
proof -
  have "known_connections (al_put u e (cns_controlledEntities s)) t j = known_connections (cns_controlledEntities s) t j" for t j
    using e(1) old by (auto simp: known_connections_iff split: if_splits)
  with assms show ?thesis by (simp add: connections_ok_def)
qed

lemma advertise_ok:
  assumes ok: "connections_ok agrees fresh (cns_controlledEntities s)" and e: "al_get u (cns_controlledEntities s) = Some e" "\<not> cne_advertised e"
    and no_loop: "\<And>j. sinks_connected_to u e u j = {}"
  shows "connections_ok agrees fresh (cns_controlledEntities (cns_advertise u s))"
proof -
  let ?es = "cns_controlledEntities s"
  have eok: "entity_streams_ok e" and u: "uid_isValid u" using ok e by (auto simp: connections_ok_def)
  have oks: "outputs_ok ?es" by (rule connections_outputs_ok [OF ok])
  let ?X = "sinks_connected_to u e"
  define es1 where "es1 = map_entities (unioned ?X) ?es"
  let ?e2 = "add_outputs (known_connections ?es u) e"
  have eoks: "entity_streams_ok l" if "al_get v es1 = Some l" for v l
    using that ok by (auto simp: es1_def connections_ok_def)
  have get1: "al_get u es1 = Some e" using e by (simp add: es1_def map_outputs_def)
  have "add_known_listeners u es1 e = add_outputs (known_connections es1 u) e"
  proof (rule added_known_listeners)
    show "al_ok es1" using oks by (simp add: es1_def outputs_ok_def)
    show "al_ok (cne_streamOutputs e)" using eok by (simp add: entity_streams_ok_def)
  qed (use eoks u get1 e(2) in simp_all)
  moreover have "known_connections es1 u = known_connections ?es u" by (intro ext) (simp add: es1_def)
  ultimately have akl: "add_known_listeners u es1 e = ?e2" by simp
  have "cns_controlledEntities (cns_advertise u s) = al_put u (?e2\<lparr>cne_advertised := True\<rparr>) es1"
  proof (cases "has_model e")
    case True
    let ?s1 = "if cne_isListener e then inform_talkers u e s else s"
    have s1: "cns_controlledEntities ?s1 = es1" using informed_talkers [OF oks eok no_loop] by (simp add: es1_def)
    have pre: "cns_controlledEntities (cns_onPreAdvertiseEntity u s) = al_put u ?e2 es1"
    proof (cases "cne_isTalker e")
      case tk: True
      have "cns_onPreAdvertiseEntity u s = cns_put u (add_known_listeners u (cns_controlledEntities ?s1) e) ?s1"
        using True tk e by (simp add: cns_onPreAdvertiseEntity_def cns_entity_simps Let_def)
      thus ?thesis unfolding s1 akl by (simp add: s1)
    next
      case False
      hence "cne_streamOutputs e = []" using eok by (auto simp: entity_streams_ok_def)
      hence "?e2 = e" by (simp add: add_outputs_def)
      moreover have "cns_onPreAdvertiseEntity u s = ?s1"
        using True False e by (simp add: cns_onPreAdvertiseEntity_def cns_entity_simps Let_def)
      moreover have "al_put u e es1 = es1" by (rule al_put_same [OF _ get1]) (use oks in \<open>simp add: es1_def outputs_ok_def\<close>)
      ultimately show ?thesis using s1 by simp
    qed
    show ?thesis by (simp add: cns_advertise_def Let_def cns_entity_simps pre al_put_twice)
  next
    case False
    hence none: "cne_streamInputs e = []" "cne_streamOutputs e = []" using eok by (auto simp: entity_streams_ok_def)
    hence "?X = (\<lambda>_ _. {})" by (intro ext) (simp add: sinks_connected_to_def)
    hence "es1 = ?es" by (simp add: es1_def map_entities_id)
    moreover have "?e2 = e" using none by (simp add: add_outputs_def)
    ultimately show ?thesis using False e by (simp add: cns_advertise_def cns_onPreAdvertiseEntity_def cns_entity_simps)
  qed
  moreover define es2 where "es2 = al_put u (?e2\<lparr>cne_advertised := True\<rparr>) es1"
  ultimately have final: "cns_controlledEntities (cns_advertise u s) = es2" by simp
  have known2: "known_connections es2 t j = known_connections ?es t j \<union> ?X t j" for t j
  proof (rule set_eqI)
    fix x
    show "x \<in> known_connections es2 t j \<longleftrightarrow> x \<in> known_connections ?es t j \<union> ?X t j"
    proof (cases "sid_entityID x = u")
      case True
      hence "x \<notin> known_connections ?es t j" using e by (auto simp: known_connections_iff)
      with True show ?thesis
        by (cases x) (auto simp: known_connections_iff es2_def sinks_connected_to_def stream_of_def add_outputs_def)
    next
      case False
      thus ?thesis by (auto simp: known_connections_iff es2_def es1_def sinks_connected_to_def stream_of_def)
    qed
  qed
  show ?thesis
    unfolding final connections_ok_def
  proof (intro conjI allI impI)
    show "al_ok es2" using oks by (simp add: es2_def es1_def outputs_ok_def)
    fix v w assume w: "al_get v es2 = Some w"
    show "uid_isValid v" using w ok u by (auto simp: es2_def es1_def connections_ok_def split: if_splits)
    have "entity_streams_ok (?e2\<lparr>cne_advertised := True\<rparr>)"
      using eok by (auto simp: entity_streams_ok_def has_model_def add_outputs_def al_ok_def al_keys_map simp del: map_map)
    thus "entity_streams_ok w" using w eoks by (auto simp: es2_def split: if_splits)
    fix j cs assume cs: "al_get j (cne_streamOutputs w) = Some cs"
    show "if cne_advertised w then agrees cs (known_connections es2 v j) else fresh cs"
    proof (cases "v = u")
      case True
      with w cs obtain cs0 where cs0: "al_get j (cne_streamOutputs e) = Some cs0" "cs = cs0 \<union> known_connections ?es u j" "cne_advertised w"
        by (auto simp: es2_def add_outputs_def al_get_map)
      have "fresh cs0" using ok e cs0(1) by (auto simp: connections_ok_def)
      thus ?thesis using cs0 True no_loop by (simp add: known2 begins)
    next
      case False
      with w obtain w0 where w0: "al_get v ?es = Some w0" "w = map_outputs (unioned ?X) v w0" by (auto simp: es2_def es1_def)
      with cs ok show ?thesis by (auto simp: map_outputs_get known2 connections_ok_def intro!: more split: if_splits)
    qed
  qed
qed

end
interpretation exact: connection_view "(=)" "\<lambda>cs. cs = {}"
  by unfold_locales auto

interpretation complete: connection_view "(\<lambda>A B. B \<subseteq> A)" "\<lambda>_. True"
  by unfold_locales auto

section \<open>Runs\<close>

text \<open>
  An entity that is not advertised yet is enumerated: it appears, or its streams are known better, with
  output streams whose connections are \<^verbatim>\<open>fresh\<close>.  It is advertised, its connections change, it goes.  The
  streams a new entity has connected to itself, and fast connections, are taken up below.
\<close>

inductive connections_go :: "(stream_identification set \<Rightarrow> bool) \<Rightarrow> connections \<Rightarrow> connections \<Rightarrow> bool" for fresh where
  enumerated: "\<lbrakk>\<not> cne_advertised e; entity_streams_ok e; uid_isValid u;
      \<forall>j cs. al_get j (cne_streamOutputs e) = Some cs \<longrightarrow> fresh cs;
      \<forall>e0. al_get u (cns_controlledEntities s) = Some e0 \<longrightarrow> \<not> cne_advertised e0\<rbrakk>
    \<Longrightarrow> connections_go fresh s (cns_put u e s)"
| advertised: "\<lbrakk>al_get u (cns_controlledEntities s) = Some e; \<not> cne_advertised e; \<forall>j. sinks_connected_to u e u j = {}\<rbrakk>
    \<Longrightarrow> connections_go fresh s (cns_advertise u s)"
| notified: "\<forall>f. flags = Some f \<longrightarrow> \<not> isFastConnect f
    \<Longrightarrow> connections_go fresh s (handleListenerStreamStateNotification talkerStream listenerStream isConnected flags changedByOther s)"
| gone: "connections_go fresh s (cns_onEntityOffline u s)"

definition no_connections :: connections where
  "no_connections = \<lparr>cns_controlledEntities = [], cns_trace = []\<rparr>"

context connection_view begin

lemma connections_go_ok:
  assumes "connections_go fresh s s'" "connections_ok agrees fresh (cns_controlledEntities s)"
  shows "connections_ok agrees fresh (cns_controlledEntities s')"
  using assms(1)
proof (cases rule: connections_go.cases)
  case (enumerated e u)
  with enumerated_ok [OF assms(2), of e u] show ?thesis by blast
next
  case (advertised u e)
  with advertise_ok [OF assms(2), of u e] show ?thesis by blast
next
  case (notified flags talkerStream listenerStream isConnected changedByOther)
  with listener_ok [OF assms(2), of flags] show ?thesis by blast
next
  case (gone u)
  with offline_ok [OF assms(2), of u] show ?thesis by blast
qed

lemma run_ok:
  assumes "(connections_go fresh)\<^sup>*\<^sup>* no_connections s"
  shows "connections_ok agrees fresh (cns_controlledEntities s)"
  using assms
proof (induction rule: rtranclp_induct)
  case base
  show ?case by (simp add: no_connections_def connections_ok_def)
qed (rule connections_go_ok)

end

text \<open>
  C19.  The connections the library shows of a talker are those of the listeners it shows.  Take entities with no
  stream connected to themselves when they are advertised, talkers with no connections found by their enumeration, and
  no notifications of fast connections nor sniffed from talkers: after any discovery, advertising, connection,
  disconnection and departure, whatever the order, a stream is in the connections of an advertised output stream
  exactly when it is an input stream of an advertised listener that is connected to it.  What the cases left out do is
  shown after the theorem.
\<close>

theorem talker_connections_exact:
  assumes "(connections_go (\<lambda>cs. cs = {}))\<^sup>*\<^sup>* no_connections s"
    "al_get t (cns_controlledEntities s) = Some e" "cne_advertised e" "al_get j (cne_streamOutputs e) = Some cs"
  shows "getStreamOutputConnections j e = known_connections (cns_controlledEntities s) t j"
  using exact.run_ok [OF assms(1)] assms(2-4) by (auto simp: connections_ok_def getStreamOutputConnections_def)

text \<open>
  When the answers of talkers about their own connections are taken up during their enumeration, no connection of an
  advertised listener is missing.
\<close>

lemma talker_connections_complete:
  assumes "(connections_go (\<lambda>_. True))\<^sup>*\<^sup>* no_connections s"
    "al_get t (cns_controlledEntities s) = Some e" "cne_advertised e" "al_get j (cne_streamOutputs e) = Some cs"
  shows "known_connections (cns_controlledEntities s) t j \<subseteq> getStreamOutputConnections j e"
  using complete.run_ok [OF assms(1)] assms(2-4) by (auto simp: connections_ok_def getStreamOutputConnections_def)

section \<open>Fast connections and loops\<close>

text \<open>A talker and a listener with one stream each.\<close>

definition plain_talker :: connected_entity where
  "plain_talker = \<lparr>cne_advertised = False, cne_isAemSupported = True, cne_hasAnyConfiguration = True, cne_isListener = False,
     cne_isTalker = True, cne_listenerStreamSinks = 0, cne_streamInputs = [], cne_streamOutputs = [(0, {})]\<rparr>"

definition plain_listener :: connected_entity where
  "plain_listener = \<lparr>cne_advertised = False, cne_isAemSupported = True, cne_hasAnyConfiguration = True, cne_isListener = True,
     cne_isTalker = False, cne_listenerStreamSinks = 1, cne_streamInputs = [(0, connection_info_new)], cne_streamOutputs = []\<rparr>"

definition plain_pair :: connections where
  "plain_pair = cns_advertise 2 (cns_put 2 plain_listener (cns_advertise 1 (cns_put 1 plain_talker no_connections)))"

text \<open>
  A listener that connects in fast connect mode first tells that it is connecting, and is then connected to the same
  talker.  As the talker has not changed, its connections are not updated.
\<close>

definition fast_connected :: connections where
  "fast_connected =
     handleListenerStreamStateNotification (stream_of 1 0) (stream_of 2 0) True (Some 0) True
       (handleListenerStreamStateNotification (stream_of 1 0) (stream_of 2 0) False (Some ConnectionFlag_FastConnect) True plain_pair)"

lemma plain_pair_eval:
  "plain_pair = \<lparr>cns_controlledEntities = [(1, plain_talker\<lparr>cne_advertised := True\<rparr>), (2, plain_listener\<lparr>cne_advertised := True\<rparr>)], cns_trace = []\<rparr>"
  by (simp add: plain_pair_def cns_advertise_def cns_onPreAdvertiseEntity_def cns_entity_def cns_put_def no_connections_def
      plain_talker_def plain_listener_def has_model_def add_known_listeners_def inform_talkers_def Let_def)

lemma fast_connection_missed:
  "map_option cne_streamInputs (al_get 2 (cns_controlledEntities fast_connected)) =
     Some [(0, \<lparr>sci_talkerStream = stream_of 1 0, sci_state = Connected\<rparr>)]"
  "map_option (getStreamOutputConnections 0) (al_get 1 (cns_controlledEntities fast_connected)) = Some {}"
  by code_simp+

text \<open>
  A stream that an entity has connected to itself before it is advertised is not among its connections afterwards.
\<close>

lemma loop_missed:
  "map_option (getStreamOutputConnections 0) (al_get 1 (cns_controlledEntities (cns_advertise 1 (cns_put 1
     (plain_talker\<lparr>cne_isListener := True, cne_listenerStreamSinks := 1,
        cne_streamInputs := [(0, \<lparr>sci_talkerStream = stream_of 1 0, sci_state = Connected\<rparr>)]\<rparr>) no_connections)))) = Some {}"
  by code_simp

lemma plain_pair_run: "(connections_go (\<lambda>cs. cs = {}))\<^sup>*\<^sup>* no_connections plain_pair"
proof -
  let ?go = "connections_go (\<lambda>cs. cs = {})"
  have valid: "uid_isValid 1" "uid_isValid 2" by (simp_all add: uid_isValid_def uid_null_def uid_uninitialized_def)
  have ok: "entity_streams_ok plain_talker" "entity_streams_ok plain_listener"
    by (auto simp: entity_streams_ok_def plain_talker_def plain_listener_def al_ok_def has_model_def word_less_1)
  have sinks: "sinks_connected_to 1 plain_talker 1 j = {}" "sinks_connected_to 2 plain_listener 2 j = {}" for j
    by (auto simp: sinks_connected_to_def plain_talker_def plain_listener_def)
  have adv: "\<not> cne_advertised plain_talker" "\<not> cne_advertised plain_listener" by (simp_all add: plain_talker_def plain_listener_def)
  have outs: "\<forall>j cs. al_get j (cne_streamOutputs plain_talker) = Some cs \<longrightarrow> cs = {}"
    "\<forall>j cs. al_get j (cne_streamOutputs plain_listener) = Some cs \<longrightarrow> cs = {}"
    by (simp_all add: plain_talker_def plain_listener_def)
  let ?s1 = "cns_put 1 plain_talker no_connections"
  let ?s2 = "cns_advertise 1 ?s1"
  let ?s3 = "cns_put 2 plain_listener ?s2"
  have s2: "cns_controlledEntities ?s2 = [(1, plain_talker\<lparr>cne_advertised := True\<rparr>)]"
    by (simp add: cns_advertise_def cns_onPreAdvertiseEntity_def cns_entity_def cns_put_def no_connections_def
        plain_talker_def has_model_def add_known_listeners_def inform_talkers_def Let_def)
  have "?go no_connections ?s1" by (rule connections_go.enumerated [OF adv(1) ok(1) valid(1) outs(1)]) (simp add: no_connections_def)
  moreover have "?go ?s1 ?s2" by (rule connections_go.advertised [of _ _ plain_talker]) (simp_all add: no_connections_def cns_put_def adv sinks)
  moreover have "?go ?s2 ?s3" by (rule connections_go.enumerated [OF adv(2) ok(2) valid(2) outs(2)]) (simp add: s2)
  moreover have "?go ?s3 plain_pair" unfolding plain_pair_def
    by (rule connections_go.advertised [of _ _ plain_listener]) (simp_all add: adv sinks)
  ultimately show ?thesis by (meson converse_rtranclp_into_rtranclp rtranclp.rtrancl_refl)
qed

theorem talker_connections_exact_witness:
  "let s = handleListenerStreamStateNotification (stream_of 1 0) (stream_of 2 0) True None True plain_pair
   in map_option (\<lambda>e. getStreamOutputConnections 0 e = known_connections (cns_controlledEntities s) 1 0)
        (al_get 1 (cns_controlledEntities s)) = Some True"
proof -
  let ?s = "handleListenerStreamStateNotification (stream_of 1 0) (stream_of 2 0) True None True plain_pair"
  have run: "(connections_go (\<lambda>cs. cs = {}))\<^sup>*\<^sup>* no_connections ?s"
    by (rule rtranclp.rtrancl_into_rtrancl [OF plain_pair_run connections_go.notified]) simp
  have e: "al_get 1 (cns_controlledEntities ?s) = Some (plain_talker\<lparr>cne_advertised := True, cne_streamOutputs := [(0, {stream_of 2 0})]\<rparr>)"
    by (simp add: plain_pair_eval handleListenerStreamStateNotification_def cns_entity_def plain_listener_def plain_talker_def
        setStreamInputConnectionInformation_def connection_info_of_def uid_isValid_def uid_null_def uid_uninitialized_def
        cns_put_def cns_notify_def update_talker_connections_def addStreamOutputConnection_def connection_info_eq_def sid_eq_def
        uid_eq_def StreamIdentification_new_def connection_info_new_def Let_def)
  show ?thesis using talker_connections_exact [OF run e] by (simp add: e Let_def)
qed

lemma talker_connections_complete_witness:
  "map_option (\<lambda>e. known_connections (cns_controlledEntities plain_pair) 1 0 \<subseteq> getStreamOutputConnections 0 e)
     (al_get 1 (cns_controlledEntities plain_pair)) = Some True"
proof -
  have mono: "connections_go fresh s s' \<Longrightarrow> (\<And>cs. fresh cs \<Longrightarrow> fresh' cs) \<Longrightarrow> connections_go fresh' s s'" for fresh fresh' s s'
    by (cases rule: connections_go.cases) (auto intro: connections_go.intros)
  have "(connections_go (\<lambda>_. True))\<^sup>*\<^sup>* no_connections plain_pair"
    by (rule rtranclp_mono [THEN predicate2D, OF _ plain_pair_run]) (blast intro: mono)
  from talker_connections_complete [OF this, of 1 "plain_talker\<lparr>cne_advertised := True\<rparr>" 0 "{}"]
  show ?thesis by (simp add: plain_pair_eval plain_talker_def)
qed

end
