(* ===== verification/AudioMappings.thy ===== *)
theory AudioMappings
  imports AemVariablePayloads
begin

text \<open>
  The dynamic audio mappings of the stream ports of an entity (src/controller/avdeccControlledEntityImpl.cpp and
  avdeccControllerImpl.cpp): the notifications that add and remove mappings, what is checked of them, and the
  mappings rebuilt when the entity is advertised.

  An output port sends a channel of a stream from one cluster channel; an input port fills a cluster channel from
  one channel of a stream, or of the two streams of a redundant pair.  Of an entity, what these functions use: its
  stream ports, the numbers of its streams and the pairs of its redundant streams.  The channel connections that
  the same notifications update are those of theory ChannelConnections.
\<close>

section \<open>State\<close>

record stream_port =
  spt_baseCluster :: "16 word"
  spt_numberOfClusters :: "16 word"
  spt_audioClusters :: "(16 word, 16 word) alist"
  spt_audioMaps :: "(16 word, audio_mapping list) alist"
  spt_dynamicAudioMap :: "audio_mapping list"

text \<open>An audio cluster is its channel count, an audio map its mappings.\<close>

record mapped_entity =
  mpe_advertised :: bool
  mpe_streamInputs :: nat
  mpe_streamOutputs :: nat
  mpe_portInputs :: "(16 word, stream_port) alist"
  mpe_portOutputs :: "(16 word, stream_port) alist"
  mpe_redundantPrimaryInputs :: "(16 word, 16 word) alist"
  mpe_redundantSecondaryInputs :: "(16 word, 16 word) alist"

datatype mapping_event =
    MappingMisbehaving string
  | OnStreamPortInputAudioMappingsChanged "16 word"
  | OnStreamPortOutputAudioMappingsChanged "16 word"

section \<open>Validation\<close>

text \<open>The clause of the standard a mapping breaks, if it breaks one.\<close>

definition mapping_fault :: "16 word \<Rightarrow> stream_port \<Rightarrow> audio_mapping \<Rightarrow> string option" where
  "mapping_fault maxStreams p m =
     (if am_streamIndex m \<ge> maxStreams then Some ''7.2.2''
      else if am_clusterOffset m \<ge> spt_numberOfClusters p then Some ''7.2.13''
      else case al_get (spt_baseCluster p + am_clusterOffset m) (spt_audioClusters p) of
             Some channelCount \<Rightarrow> if am_clusterChannel m \<ge> channelCount then Some ''7.2.16'' else None
           | None \<Rightarrow> None)"

primrec validateMappings :: "16 word \<Rightarrow> stream_port \<Rightarrow> audio_mapping list \<Rightarrow> mapping_event list \<times> audio_mapping list" where
  "validateMappings maxStreams p [] = ([], [])"
| "validateMappings maxStreams p (m # ms) =
     (let (evs, fixed) = validateMappings maxStreams p ms
      in case mapping_fault maxStreams p m of
           Some clause \<Rightarrow> (MappingMisbehaving clause # evs, fixed)
         | None \<Rightarrow> (evs, m # fixed))"

definition validateInputMappings :: "mapped_entity \<Rightarrow> 16 word \<Rightarrow> audio_mapping list \<Rightarrow> mapping_event list \<times> audio_mapping list" where
  "validateInputMappings e i ms = (case al_get i (mpe_portInputs e) of
     Some p \<Rightarrow> validateMappings (of_nat (mpe_streamInputs e)) p ms | None \<Rightarrow> ([], []))"

definition validateOutputMappings :: "mapped_entity \<Rightarrow> 16 word \<Rightarrow> audio_mapping list \<Rightarrow> mapping_event list \<times> audio_mapping list" where
  "validateOutputMappings e i ms = (case al_get i (mpe_portOutputs e) of
     Some p \<Rightarrow> validateMappings (of_nat (mpe_streamOutputs e)) p ms | None \<Rightarrow> ([], []))"

section \<open>The mappings of a port\<close>

definition getRedundantStreamInputIndex :: "16 word \<Rightarrow> mapped_entity \<Rightarrow> 16 word option" where
  "getRedundantStreamInputIndex s e = (case al_get s (mpe_redundantPrimaryInputs e) of
     Some s' \<Rightarrow> Some s' | None \<Rightarrow> al_get s (mpe_redundantSecondaryInputs e))"

definition same_cluster :: "audio_mapping \<Rightarrow> audio_mapping \<Rightarrow> bool" where
  "same_cluster m m' \<longleftrightarrow> am_clusterOffset m' = am_clusterOffset m \<and> am_clusterChannel m' = am_clusterChannel m"

definition same_stream_channel :: "audio_mapping \<Rightarrow> audio_mapping \<Rightarrow> bool" where
  "same_stream_channel m m' \<longleftrightarrow> am_streamIndex m' = am_streamIndex m \<and> am_streamChannel m' = am_streamChannel m"

definition warnOrFixPortMapping :: "audio_mapping \<Rightarrow> audio_mapping \<Rightarrow> audio_mapping" where
  "warnOrFixPortMapping source destination = (if destination = source then destination else source)"

text \<open>What a search that finds an iterator does to its element.\<close>

primrec modify_first :: "('a \<Rightarrow> bool) \<Rightarrow> ('a \<Rightarrow> 'a) \<Rightarrow> 'a list \<Rightarrow> 'a list" where
  "modify_first P f [] = []"
| "modify_first P f (x # xs) = (if P x then f x # xs else x # modify_first P f xs)"

definition addOrFixStreamPortInputMapping ::
  "(16 word \<Rightarrow> 16 word option) \<Rightarrow> audio_mapping \<Rightarrow> audio_mapping list \<Rightarrow> audio_mapping list"
where
  "addOrFixStreamPortInputMapping redundantIndex m mappings =
     (case find (same_cluster m) mappings of
        None \<Rightarrow> mappings @ [m]
      | Some f \<Rightarrow>
          if redundantIndex (am_streamIndex m) = Some (am_streamIndex f) \<and> am_streamChannel f = am_streamChannel m
          then mappings @ [m]
          else modify_first (same_cluster m) (warnOrFixPortMapping m) mappings)"

definition add_output_mapping :: "audio_mapping \<Rightarrow> audio_mapping list \<Rightarrow> audio_mapping list" where
  "add_output_mapping m mappings =
     (case find (same_stream_channel m) mappings of
        None \<Rightarrow> mappings @ [m]
      | Some _ \<Rightarrow> modify_first (same_stream_channel m) (warnOrFixPortMapping m) mappings)"

definition change_map :: "(audio_mapping list \<Rightarrow> audio_mapping list) \<Rightarrow> stream_port \<Rightarrow> stream_port" where
  "change_map f p = p\<lparr>spt_dynamicAudioMap := f (spt_dynamicAudioMap p)\<rparr>"

definition change_input :: "16 word \<Rightarrow> (audio_mapping list \<Rightarrow> audio_mapping list) \<Rightarrow> mapped_entity \<Rightarrow> mapped_entity" where
  "change_input i f e = (case al_get i (mpe_portInputs e) of
     Some p \<Rightarrow> e\<lparr>mpe_portInputs := al_put i (change_map f p) (mpe_portInputs e)\<rparr> | None \<Rightarrow> e)"

definition change_output :: "16 word \<Rightarrow> (audio_mapping list \<Rightarrow> audio_mapping list) \<Rightarrow> mapped_entity \<Rightarrow> mapped_entity" where
  "change_output i f e = (case al_get i (mpe_portOutputs e) of
     Some p \<Rightarrow> e\<lparr>mpe_portOutputs := al_put i (change_map f p) (mpe_portOutputs e)\<rparr> | None \<Rightarrow> e)"

definition clearStreamPortInputAudioMappings :: "16 word \<Rightarrow> mapped_entity \<Rightarrow> mapped_entity" where
  "clearStreamPortInputAudioMappings i e = change_input i (\<lambda>_. []) e"

definition clearStreamPortOutputAudioMappings :: "16 word \<Rightarrow> mapped_entity \<Rightarrow> mapped_entity" where
  "clearStreamPortOutputAudioMappings i e = change_output i (\<lambda>_. []) e"

text \<open>Before the entity is advertised its redundant streams are not known, and the mappings are only kept.\<close>

definition ce_addStreamPortInputAudioMappings :: "16 word \<Rightarrow> audio_mapping list \<Rightarrow> mapped_entity \<Rightarrow> mapped_entity" where
  "ce_addStreamPortInputAudioMappings i ms e =
     change_input i (\<lambda>dynamicMap.
       if \<not> mpe_advertised e then dynamicMap @ ms
       else fold (addOrFixStreamPortInputMapping (\<lambda>s. getRedundantStreamInputIndex s e)) ms dynamicMap) e"

definition ce_removeStreamPortInputAudioMappings :: "16 word \<Rightarrow> audio_mapping list \<Rightarrow> mapped_entity \<Rightarrow> mapped_entity" where
  "ce_removeStreamPortInputAudioMappings i ms e = change_input i (fold remove1 ms) e"

definition ce_addStreamPortOutputAudioMappings :: "16 word \<Rightarrow> audio_mapping list \<Rightarrow> mapped_entity \<Rightarrow> mapped_entity" where
  "ce_addStreamPortOutputAudioMappings i ms e = change_output i (fold add_output_mapping ms) e"

definition ce_removeStreamPortOutputAudioMappings :: "16 word \<Rightarrow> audio_mapping list \<Rightarrow> mapped_entity \<Rightarrow> mapped_entity" where
  "ce_removeStreamPortOutputAudioMappings i ms e = change_output i (fold remove1 ms) e"

text \<open>The mappings of the ports of an entity that is about to be advertised are added again, one by one.\<close>

definition fixStreamPortInputMappings :: "mapped_entity \<Rightarrow> mapped_entity" where
  "fixStreamPortInputMappings e = e\<lparr>mpe_portInputs :=
     map (\<lambda>(i, p). (i, change_map (\<lambda>dynamicMap.
       fold (addOrFixStreamPortInputMapping (\<lambda>s. getRedundantStreamInputIndex s e)) dynamicMap []) p)) (mpe_portInputs e)\<rparr>"

definition fixStreamPortMappings :: "mapped_entity \<Rightarrow> mapped_entity" where
  "fixStreamPortMappings e = (if mpe_redundantPrimaryInputs e \<noteq> [] then fixStreamPortInputMappings e else e)"

section \<open>Notifications\<close>

definition mappings_notified :: "mapping_event \<Rightarrow> mapped_entity \<Rightarrow> mapping_event list" where
  "mappings_notified ev e = (if mpe_advertised e then [ev] else [])"

definition updateStreamPortInputAudioMappingsAdded ::
  "16 word \<Rightarrow> audio_mapping list \<Rightarrow> mapped_entity \<Rightarrow> mapping_event list \<times> mapped_entity"
where
  "updateStreamPortInputAudioMappingsAdded i ms e =
     (let (evs, fixed) = validateInputMappings e i ms
      in (evs @ mappings_notified (OnStreamPortInputAudioMappingsChanged i) e, ce_addStreamPortInputAudioMappings i fixed e))"

definition updateStreamPortInputAudioMappingsRemoved ::
  "16 word \<Rightarrow> audio_mapping list \<Rightarrow> mapped_entity \<Rightarrow> mapping_event list \<times> mapped_entity"
where
  "updateStreamPortInputAudioMappingsRemoved i ms e =
     (let (evs, fixed) = validateInputMappings e i ms
      in (evs @ mappings_notified (OnStreamPortInputAudioMappingsChanged i) e, ce_removeStreamPortInputAudioMappings i fixed e))"

definition updateStreamPortOutputAudioMappingsAdded ::
  "16 word \<Rightarrow> audio_mapping list \<Rightarrow> mapped_entity \<Rightarrow> mapping_event list \<times> mapped_entity"
where
  "updateStreamPortOutputAudioMappingsAdded i ms e =
     (let (evs, fixed) = validateOutputMappings e i ms
      in (evs @ mappings_notified (OnStreamPortOutputAudioMappingsChanged i) e, ce_addStreamPortOutputAudioMappings i fixed e))"

definition updateStreamPortOutputAudioMappingsRemoved ::
  "16 word \<Rightarrow> audio_mapping list \<Rightarrow> mapped_entity \<Rightarrow> mapping_event list \<times> mapped_entity"
where
  "updateStreamPortOutputAudioMappingsRemoved i ms e =
     (let (evs, fixed) = validateOutputMappings e i ms
      in (evs @ mappings_notified (OnStreamPortOutputAudioMappingsChanged i) e, ce_removeStreamPortOutputAudioMappings i fixed e))"

section \<open>What a port maps\<close>

text \<open>
  The mappings of a port as a function: of an output port, from the channel of a stream to the cluster channel sent
  there; of an input port, from a cluster channel to the channel of the stream that fills it.
\<close>

definition mapping_of :: "(audio_mapping \<Rightarrow> 'k) \<Rightarrow> (audio_mapping \<Rightarrow> 'v) \<Rightarrow> audio_mapping list \<Rightarrow> 'k \<rightharpoonup> 'v" where
  "mapping_of key val xs = map_of (map (\<lambda>m. (key m, val m)) xs)"

definition maps_add :: "(audio_mapping \<Rightarrow> 'k) \<Rightarrow> (audio_mapping \<Rightarrow> 'v) \<Rightarrow> audio_mapping \<Rightarrow> ('k \<rightharpoonup> 'v) \<Rightarrow> 'k \<rightharpoonup> 'v" where
  "maps_add key val m M = M(key m \<mapsto> val m)"

definition maps_remove :: "(audio_mapping \<Rightarrow> 'k) \<Rightarrow> (audio_mapping \<Rightarrow> 'v) \<Rightarrow> audio_mapping \<Rightarrow> ('k \<rightharpoonup> 'v) \<Rightarrow> 'k \<rightharpoonup> 'v" where
  "maps_remove key val m M = (if M (key m) = Some (val m) then M(key m := None) else M)"

definition stream_channel_of :: "audio_mapping \<Rightarrow> 16 word \<times> 16 word" where
  "stream_channel_of m = (am_streamIndex m, am_streamChannel m)"

definition cluster_channel_of :: "audio_mapping \<Rightarrow> 16 word \<times> 16 word" where
  "cluster_channel_of m = (am_clusterOffset m, am_clusterChannel m)"

lemma mapping_of_simps [simp]:
  "mapping_of key val [] = Map.empty"
  "mapping_of key val (m # xs) = (mapping_of key val xs)(key m \<mapsto> val m)"
  by (simp_all add: mapping_of_def)

lemma mapping_of_None: "mapping_of key val xs k = None \<longleftrightarrow> k \<notin> key ` set xs"
  by (simp add: mapping_of_def map_of_eq_None_iff image_image)

lemma mapping_of_append_new: "key m \<notin> key ` set xs \<Longrightarrow> mapping_of key val (xs @ [m]) = (mapping_of key val xs)(key m \<mapsto> val m)"
  by (induction xs) (auto simp: fun_upd_twist)

text \<open>
  The contract of a list that holds one mapping for each key: what is added goes to the end, or in the place of
  the mapping of its key.
\<close>

locale keyed_mappings =
  fixes key :: "audio_mapping \<Rightarrow> 'k" and val :: "audio_mapping \<Rightarrow> 'v"
    and add_mapping :: "audio_mapping \<Rightarrow> audio_mapping list \<Rightarrow> audio_mapping list"
  assumes key_val: "key m = key m' \<Longrightarrow> val m = val m' \<Longrightarrow> m = m'"
    and add_new: "key m \<notin> key ` set xs \<Longrightarrow> add_mapping m xs = xs @ [m]"
    and add_known: "distinct (map key xs) \<Longrightarrow> key m \<in> key ` set xs \<Longrightarrow>
      add_mapping m xs = map (\<lambda>x. if key x = key m then m else x) xs"
begin

lemma replaced: "distinct (map key xs) \<Longrightarrow> key m \<in> key ` set xs \<Longrightarrow>
    mapping_of key val (map (\<lambda>x. if key x = key m then m else x) xs) = (mapping_of key val xs)(key m \<mapsto> val m)"
proof (induction xs)
  case (Cons x xs)
  show ?case
  proof (cases "key x = key m")
    case True
    then have "map (\<lambda>x. if key x = key m then m else x) xs = xs"
      using Cons.prems(1) by (intro map_idI) (auto simp: image_iff)
    then show ?thesis using True by (simp add: fun_eq_iff)
  next
    case False
    then show ?thesis using Cons by (auto simp: fun_eq_iff)
  qed
qed simp

lemma add_refines:
  assumes "distinct (map key xs)"
  shows "distinct (map key (add_mapping m xs)) \<and>
    mapping_of key val (add_mapping m xs) = maps_add key val m (mapping_of key val xs)"
proof (cases "key m \<in> key ` set xs")
  case True
  have "map key (map (\<lambda>x. if key x = key m then m else x) xs) = map key xs" by simp
  then show ?thesis using assms add_known [OF assms True] replaced [OF assms True] by (simp add: maps_add_def del: map_map)
next
  case False
  then show ?thesis using assms add_new [OF False] mapping_of_append_new [OF False] by (simp add: maps_add_def)
qed

lemma remove_refines:
  "distinct (map key xs) \<Longrightarrow> distinct (map key (remove1 m xs)) \<and>
    mapping_of key val (remove1 m xs) = maps_remove key val m (mapping_of key val xs)"
proof (induction xs)
  case (Cons x xs)
  show ?case
  proof (cases "x = m")
    case True
    then have "mapping_of key val xs (key m) = None" using Cons.prems by (auto simp: mapping_of_None image_iff)
    then show ?thesis using True Cons.prems by (auto simp: maps_remove_def fun_upd_idem)
  next
    case False
    then have "key x = key m \<Longrightarrow> val x \<noteq> val m" using key_val by blast
    moreover have "set (remove1 m xs) \<subseteq> set xs" by (rule set_remove1_subset)
    ultimately show ?thesis using False Cons by (auto simp: maps_remove_def fun_upd_twist image_iff)
  qed
qed (simp add: maps_remove_def)

lemma fold_add_refines:
  "distinct (map key xs) \<Longrightarrow> distinct (map key (fold add_mapping ms xs)) \<and>
    mapping_of key val (fold add_mapping ms xs) = fold (maps_add key val) ms (mapping_of key val xs)"
  by (induction ms arbitrary: xs) (simp_all add: add_refines)

lemma fold_remove_refines:
  "distinct (map key xs) \<Longrightarrow> distinct (map key (fold remove1 ms xs)) \<and>
    mapping_of key val (fold remove1 ms xs) = fold (maps_remove key val) ms (mapping_of key val xs)"
  by (induction ms arbitrary: xs) (simp_all add: remove_refines)

end

lemma modify_first_keyed:
  assumes "distinct (map key xs)" and "\<And>x. P x \<longleftrightarrow> key x = key m"
  shows "modify_first P (\<lambda>_. m) xs = map (\<lambda>x. if key x = key m then m else x) xs"
  using assms(1)
proof (induction xs)
  case (Cons x xs)
  then show ?case
    by (auto simp: assms(2) image_iff intro!: map_idI [symmetric])
qed simp

lemma warnOrFixPortMapping_replaces: "warnOrFixPortMapping m = (\<lambda>_. m)"
  by (auto simp: warnOrFixPortMapping_def)

lemma find_keyed: "find P xs = None \<longleftrightarrow> (\<forall>x\<in>set xs. \<not> P x)"
  by (auto simp: find_None_iff)

interpretation outputs: keyed_mappings stream_channel_of cluster_channel_of add_output_mapping
proof
  have P: "same_stream_channel m x \<longleftrightarrow> stream_channel_of x = stream_channel_of m" for m x
    by (auto simp: same_stream_channel_def stream_channel_of_def)
  show "stream_channel_of m = stream_channel_of m' \<Longrightarrow> cluster_channel_of m = cluster_channel_of m' \<Longrightarrow> m = m'" for m m'
    by (simp add: stream_channel_of_def cluster_channel_of_def)
  show "stream_channel_of m \<notin> stream_channel_of ` set xs \<Longrightarrow> add_output_mapping m xs = xs @ [m]" for m xs
    by (auto simp: add_output_mapping_def find_None_iff P image_iff split: option.splits dest!: find_Some_iff [THEN iffD1])
      (metis nth_mem)
  fix m xs assume d: "distinct (map stream_channel_of xs)" and "stream_channel_of m \<in> stream_channel_of ` set xs"
  then obtain f where "find (same_stream_channel m) xs = Some f"
    by (cases "find (same_stream_channel m) xs") (auto simp: find_None_iff P image_iff)
  then show "add_output_mapping m xs = map (\<lambda>x. if stream_channel_of x = stream_channel_of m then m else x) xs"
    using modify_first_keyed [where P = "same_stream_channel m", OF d P] by (simp add: add_output_mapping_def warnOrFixPortMapping_replaces)
qed

text \<open>An entity without redundant streams keeps its input ports in the same way.\<close>

interpretation inputs: keyed_mappings cluster_channel_of stream_channel_of "addOrFixStreamPortInputMapping (\<lambda>_. None)"
proof
  have P: "same_cluster m x \<longleftrightarrow> cluster_channel_of x = cluster_channel_of m" for m x
    by (auto simp: same_cluster_def cluster_channel_of_def)
  show "cluster_channel_of m = cluster_channel_of m' \<Longrightarrow> stream_channel_of m = stream_channel_of m' \<Longrightarrow> m = m'" for m m'
    by (simp add: stream_channel_of_def cluster_channel_of_def)
  show "cluster_channel_of m \<notin> cluster_channel_of ` set xs \<Longrightarrow> addOrFixStreamPortInputMapping (\<lambda>_. None) m xs = xs @ [m]" for m xs
    by (auto simp: addOrFixStreamPortInputMapping_def find_None_iff P image_iff split: option.splits
        dest!: find_Some_iff [THEN iffD1]) (metis nth_mem)
  fix m xs assume d: "distinct (map cluster_channel_of xs)" and "cluster_channel_of m \<in> cluster_channel_of ` set xs"
  then obtain f where "find (same_cluster m) xs = Some f"
    by (cases "find (same_cluster m) xs") (auto simp: find_None_iff P image_iff)
  then show "addOrFixStreamPortInputMapping (\<lambda>_. None) m xs = map (\<lambda>x. if cluster_channel_of x = cluster_channel_of m then m else x) xs"
    using modify_first_keyed [where P = "same_cluster m", OF d P] by (simp add: addOrFixStreamPortInputMapping_def warnOrFixPortMapping_replaces)
qed

section \<open>Runs\<close>

datatype mapping_op =
    InputMappingsAdded "16 word" "audio_mapping list"
  | InputMappingsRemoved "16 word" "audio_mapping list"
  | OutputMappingsAdded "16 word" "audio_mapping list"
  | OutputMappingsRemoved "16 word" "audio_mapping list"

fun mapping_step :: "mapping_op \<Rightarrow> mapped_entity \<Rightarrow> mapping_event list \<times> mapped_entity" where
  "mapping_step (InputMappingsAdded i ms) e = updateStreamPortInputAudioMappingsAdded i ms e"
| "mapping_step (InputMappingsRemoved i ms) e = updateStreamPortInputAudioMappingsRemoved i ms e"
| "mapping_step (OutputMappingsAdded i ms) e = updateStreamPortOutputAudioMappingsAdded i ms e"
| "mapping_step (OutputMappingsRemoved i ms) e = updateStreamPortOutputAudioMappingsRemoved i ms e"

definition mapping_run :: "mapping_op list \<Rightarrow> mapped_entity \<Rightarrow> mapped_entity" where
  "mapping_run ops e = fold (\<lambda>op e. snd (mapping_step op e)) ops e"

text \<open>What an operation means for the output port and for the input port of an index, its invalid mappings left out.\<close>

definition valid_mappings :: "nat \<Rightarrow> stream_port \<Rightarrow> audio_mapping list \<Rightarrow> audio_mapping list" where
  "valid_mappings streams p ms = filter (\<lambda>m. mapping_fault (of_nat streams) p m = None) ms"

fun output_effect :: "nat \<Rightarrow> stream_port \<Rightarrow> 16 word \<Rightarrow> mapping_op
    \<Rightarrow> (16 word \<times> 16 word \<rightharpoonup> 16 word \<times> 16 word) \<Rightarrow> 16 word \<times> 16 word \<rightharpoonup> 16 word \<times> 16 word" where
  "output_effect streams p i (OutputMappingsAdded j ms) M =
     (if i = j then fold (maps_add stream_channel_of cluster_channel_of) (valid_mappings streams p ms) M else M)"
| "output_effect streams p i (OutputMappingsRemoved j ms) M =
     (if i = j then fold (maps_remove stream_channel_of cluster_channel_of) (valid_mappings streams p ms) M else M)"
| "output_effect streams p i op M = M"

fun input_effect :: "nat \<Rightarrow> stream_port \<Rightarrow> 16 word \<Rightarrow> mapping_op
    \<Rightarrow> (16 word \<times> 16 word \<rightharpoonup> 16 word \<times> 16 word) \<Rightarrow> 16 word \<times> 16 word \<rightharpoonup> 16 word \<times> 16 word" where
  "input_effect streams p i (InputMappingsAdded j ms) M =
     (if i = j then fold (maps_add cluster_channel_of stream_channel_of) (valid_mappings streams p ms) M else M)"
| "input_effect streams p i (InputMappingsRemoved j ms) M =
     (if i = j then fold (maps_remove cluster_channel_of stream_channel_of) (valid_mappings streams p ms) M else M)"
| "input_effect streams p i op M = M"

lemma validateMappings_eq:
  "snd (validateMappings (of_nat streams) p ms) = valid_mappings streams p ms"
  by (induction ms) (auto simp: valid_mappings_def Let_def split: option.splits prod.splits)

lemma valid_mappings_map [simp]: "valid_mappings n (change_map f p) = valid_mappings n p"
  by (auto simp: valid_mappings_def mapping_fault_def change_map_def fun_eq_iff)

lemma change_map_sel [simp]: "spt_dynamicAudioMap (change_map f p) = f (spt_dynamicAudioMap p)"
  by (simp add: change_map_def)

lemma change_map_fold [simp]: "change_map f (change_map g p) = change_map (f \<circ> g) p"
  by (simp add: change_map_def)

lemma output_step:
  assumes "al_get i (mpe_portOutputs e) = Some p" "distinct (map stream_channel_of (spt_dynamicAudioMap p))"
  shows "\<exists>f. al_get i (mpe_portOutputs (snd (mapping_step op e))) = Some (change_map f p)
      \<and> distinct (map stream_channel_of (f (spt_dynamicAudioMap p)))
      \<and> mapping_of stream_channel_of cluster_channel_of (f (spt_dynamicAudioMap p)) =
          output_effect (mpe_streamOutputs e) p i op (mapping_of stream_channel_of cluster_channel_of (spt_dynamicAudioMap p))"
    "mpe_streamOutputs (snd (mapping_step op e)) = mpe_streamOutputs e"
proof -
  have id: "p = change_map (\<lambda>x. x) p" by (simp add: change_map_def)
  show "mpe_streamOutputs (snd (mapping_step op e)) = mpe_streamOutputs e"
    by (cases op) (auto simp: updateStreamPortInputAudioMappingsAdded_def updateStreamPortInputAudioMappingsRemoved_def
        updateStreamPortOutputAudioMappingsAdded_def updateStreamPortOutputAudioMappingsRemoved_def
        ce_addStreamPortInputAudioMappings_def ce_removeStreamPortInputAudioMappings_def ce_addStreamPortOutputAudioMappings_def
        ce_removeStreamPortOutputAudioMappings_def change_input_def change_output_def Let_def split: option.splits prod.splits)
  show "\<exists>f. al_get i (mpe_portOutputs (snd (mapping_step op e))) = Some (change_map f p)
      \<and> distinct (map stream_channel_of (f (spt_dynamicAudioMap p)))
      \<and> mapping_of stream_channel_of cluster_channel_of (f (spt_dynamicAudioMap p)) =
          output_effect (mpe_streamOutputs e) p i op (mapping_of stream_channel_of cluster_channel_of (spt_dynamicAudioMap p))"
  proof (cases op)
    case (OutputMappingsAdded j ms)
    let ?f = "if i = j then fold add_output_mapping (valid_mappings (mpe_streamOutputs e) p ms) else (\<lambda>x. x)"
    have "al_get i (mpe_portOutputs (snd (mapping_step op e))) = Some (change_map ?f p)"
      using assms(1) id by (auto simp: OutputMappingsAdded updateStreamPortOutputAudioMappingsAdded_def validateOutputMappings_def
          ce_addStreamPortOutputAudioMappings_def change_output_def validateMappings_eq Let_def case_prod_beta split: option.splits)
    then show ?thesis using outputs.fold_add_refines [OF assms(2)] assms(2) OutputMappingsAdded by (intro exI [of _ ?f]) auto
  next
    case (OutputMappingsRemoved j ms)
    let ?f = "if i = j then fold remove1 (valid_mappings (mpe_streamOutputs e) p ms) else (\<lambda>x. x)"
    have "al_get i (mpe_portOutputs (snd (mapping_step op e))) = Some (change_map ?f p)"
      using assms(1) id by (auto simp: OutputMappingsRemoved updateStreamPortOutputAudioMappingsRemoved_def validateOutputMappings_def
          ce_removeStreamPortOutputAudioMappings_def change_output_def validateMappings_eq Let_def case_prod_beta split: option.splits)
    then show ?thesis using outputs.fold_remove_refines [OF assms(2)] assms(2) OutputMappingsRemoved by (intro exI [of _ ?f]) auto
  qed (use assms id in \<open>auto simp: updateStreamPortInputAudioMappingsAdded_def updateStreamPortInputAudioMappingsRemoved_def
        ce_addStreamPortInputAudioMappings_def ce_removeStreamPortInputAudioMappings_def change_input_def Let_def case_prod_beta
        intro!: exI [of _ "\<lambda>x. x"] split: option.splits\<close>)
qed

lemmas mapping_update_defs = updateStreamPortInputAudioMappingsAdded_def updateStreamPortInputAudioMappingsRemoved_def
  updateStreamPortOutputAudioMappingsAdded_def updateStreamPortOutputAudioMappingsRemoved_def
  ce_addStreamPortInputAudioMappings_def ce_removeStreamPortInputAudioMappings_def ce_addStreamPortOutputAudioMappings_def
  ce_removeStreamPortOutputAudioMappings_def change_input_def change_output_def

lemma mapping_step_keeps:
  "mpe_advertised (snd (mapping_step op e)) = mpe_advertised e"
  "mpe_streamInputs (snd (mapping_step op e)) = mpe_streamInputs e"
  "mpe_redundantPrimaryInputs (snd (mapping_step op e)) = mpe_redundantPrimaryInputs e"
  "mpe_redundantSecondaryInputs (snd (mapping_step op e)) = mpe_redundantSecondaryInputs e"
  by (cases op; auto simp: mapping_update_defs Let_def case_prod_beta split: option.splits)+

definition not_redundant :: "mapped_entity \<Rightarrow> bool" where
  "not_redundant e \<longleftrightarrow> mpe_redundantPrimaryInputs e = [] \<and> mpe_redundantSecondaryInputs e = []"

lemma not_redundant_index: "not_redundant e \<Longrightarrow> (\<lambda>s. getRedundantStreamInputIndex s e) = (\<lambda>_. None)"
  by (simp add: not_redundant_def getRedundantStreamInputIndex_def)

lemma input_step:
  assumes "al_get i (mpe_portInputs e) = Some p" "distinct (map cluster_channel_of (spt_dynamicAudioMap p))"
    and e: "mpe_advertised e" "not_redundant e"
  shows "\<exists>f. al_get i (mpe_portInputs (snd (mapping_step op e))) = Some (change_map f p)
      \<and> distinct (map cluster_channel_of (f (spt_dynamicAudioMap p)))
      \<and> mapping_of cluster_channel_of stream_channel_of (f (spt_dynamicAudioMap p)) =
          input_effect (mpe_streamInputs e) p i op (mapping_of cluster_channel_of stream_channel_of (spt_dynamicAudioMap p))"
proof -
  have id: "p = change_map (\<lambda>x. x) p" by (simp add: change_map_def)
  note none = not_redundant_index [OF e(2)]
  show ?thesis
  proof (cases op)
    case (InputMappingsAdded j ms)
    let ?f = "if i = j then fold (addOrFixStreamPortInputMapping (\<lambda>_. None)) (valid_mappings (mpe_streamInputs e) p ms) else (\<lambda>x. x)"
    have "al_get i (mpe_portInputs (snd (mapping_step op e))) = Some (change_map ?f p)"
      using assms(1) id e(1) by (auto simp: InputMappingsAdded mapping_update_defs validateInputMappings_def none
          validateMappings_eq Let_def case_prod_beta split: option.splits)
    then show ?thesis using inputs.fold_add_refines [OF assms(2)] assms(2) InputMappingsAdded by (intro exI [of _ ?f]) auto
  next
    case (InputMappingsRemoved j ms)
    let ?f = "if i = j then fold remove1 (valid_mappings (mpe_streamInputs e) p ms) else (\<lambda>x. x)"
    have "al_get i (mpe_portInputs (snd (mapping_step op e))) = Some (change_map ?f p)"
      using assms(1) id by (auto simp: InputMappingsRemoved mapping_update_defs validateInputMappings_def
          validateMappings_eq Let_def case_prod_beta split: option.splits)
    then show ?thesis using inputs.fold_remove_refines [OF assms(2)] assms(2) InputMappingsRemoved by (intro exI [of _ ?f]) auto
  qed (use assms id in \<open>auto simp: mapping_update_defs Let_def case_prod_beta intro!: exI [of _ "\<lambda>x. x"] split: option.splits\<close>)
qed

lemma output_effect_map [simp]: "output_effect n (change_map f p) i op = output_effect n p i op"
  by (cases op) (auto simp: fun_eq_iff)

lemma input_effect_map [simp]: "input_effect n (change_map f p) i op = input_effect n p i op"
  by (cases op) (auto simp: fun_eq_iff)

lemma output_run:
  "al_get i (mpe_portOutputs e) = Some p \<Longrightarrow> distinct (map stream_channel_of (spt_dynamicAudioMap p)) \<Longrightarrow>
    \<exists>f. al_get i (mpe_portOutputs (mapping_run ops e)) = Some (change_map f p)
      \<and> distinct (map stream_channel_of (f (spt_dynamicAudioMap p)))
      \<and> mapping_of stream_channel_of cluster_channel_of (f (spt_dynamicAudioMap p)) =
          fold (output_effect (mpe_streamOutputs e) p i) ops (mapping_of stream_channel_of cluster_channel_of (spt_dynamicAudioMap p))"
proof (induction ops arbitrary: e p)
  case Nil
  have "p = change_map (\<lambda>x. x) p" by (simp add: change_map_def)
  then show ?case using Nil by (auto simp: mapping_run_def intro!: exI [of _ "\<lambda>x. x"])
next
  case (Cons op ops)
  from output_step(1) [OF Cons.prems, of op] obtain f where
    f: "al_get i (mpe_portOutputs (snd (mapping_step op e))) = Some (change_map f p)"
      "distinct (map stream_channel_of (f (spt_dynamicAudioMap p)))"
      "mapping_of stream_channel_of cluster_channel_of (f (spt_dynamicAudioMap p)) =
          output_effect (mpe_streamOutputs e) p i op (mapping_of stream_channel_of cluster_channel_of (spt_dynamicAudioMap p))" by blast
  from Cons.IH [OF f(1)] f(2) obtain g where
    "al_get i (mpe_portOutputs (mapping_run ops (snd (mapping_step op e)))) = Some (change_map (g \<circ> f) p)"
    "distinct (map stream_channel_of (g (f (spt_dynamicAudioMap p))))"
    "mapping_of stream_channel_of cluster_channel_of (g (f (spt_dynamicAudioMap p))) =
       fold (output_effect (mpe_streamOutputs e) p i) ops (mapping_of stream_channel_of cluster_channel_of (f (spt_dynamicAudioMap p)))"
    by (auto simp: output_step(2) [OF Cons.prems])
  then show ?case using f(3) by (auto simp: mapping_run_def intro!: exI [of _ "g \<circ> f"])
qed

lemma input_run:
  "al_get i (mpe_portInputs e) = Some p \<Longrightarrow> distinct (map cluster_channel_of (spt_dynamicAudioMap p)) \<Longrightarrow>
    mpe_advertised e \<Longrightarrow> not_redundant e \<Longrightarrow>
    \<exists>f. al_get i (mpe_portInputs (mapping_run ops e)) = Some (change_map f p)
      \<and> distinct (map cluster_channel_of (f (spt_dynamicAudioMap p)))
      \<and> mapping_of cluster_channel_of stream_channel_of (f (spt_dynamicAudioMap p)) =
          fold (input_effect (mpe_streamInputs e) p i) ops (mapping_of cluster_channel_of stream_channel_of (spt_dynamicAudioMap p))"
proof (induction ops arbitrary: e p)
  case Nil
  have "p = change_map (\<lambda>x. x) p" by (simp add: change_map_def)
  then show ?case using Nil by (auto simp: mapping_run_def intro!: exI [of _ "\<lambda>x. x"])
next
  case (Cons op ops)
  from input_step [OF Cons.prems, of op] obtain f where
    f: "al_get i (mpe_portInputs (snd (mapping_step op e))) = Some (change_map f p)"
      "distinct (map cluster_channel_of (f (spt_dynamicAudioMap p)))"
      "mapping_of cluster_channel_of stream_channel_of (f (spt_dynamicAudioMap p)) =
          input_effect (mpe_streamInputs e) p i op (mapping_of cluster_channel_of stream_channel_of (spt_dynamicAudioMap p))" by blast
  from Cons.IH [OF f(1)] f(2) Cons.prems(3,4) obtain g where
    "al_get i (mpe_portInputs (mapping_run ops (snd (mapping_step op e)))) = Some (change_map (g \<circ> f) p)"
    "distinct (map cluster_channel_of (g (f (spt_dynamicAudioMap p))))"
    "mapping_of cluster_channel_of stream_channel_of (g (f (spt_dynamicAudioMap p))) =
       fold (input_effect (mpe_streamInputs e) p i) ops (mapping_of cluster_channel_of stream_channel_of (f (spt_dynamicAudioMap p)))"
    by (auto simp: mapping_step_keeps not_redundant_def)
  then show ?case using f(3) by (auto simp: mapping_run_def intro!: exI [of _ "g \<circ> f"])
qed

text \<open>
  C23.  Over any sequence of notifications, the mappings of an output port that maps a stream channel once at the
  start are those of a function to which the valid mappings notified for the port are added, and from which they are
  removed, one by one.  So are those of an input port that maps a cluster channel once at the start, when the
  entity is advertised and has no redundant streams.
\<close>

theorem port_mappings_refined:
  "(al_get i (mpe_portOutputs e) = Some p \<and> distinct (map stream_channel_of (spt_dynamicAudioMap p)) \<longrightarrow>
      map_option (\<lambda>p'. mapping_of stream_channel_of cluster_channel_of (spt_dynamicAudioMap p'))
        (al_get i (mpe_portOutputs (mapping_run ops e)))
      = Some (fold (output_effect (mpe_streamOutputs e) p i) ops
          (mapping_of stream_channel_of cluster_channel_of (spt_dynamicAudioMap p))))
   \<and> (al_get j (mpe_portInputs e) = Some q \<and> distinct (map cluster_channel_of (spt_dynamicAudioMap q))
      \<and> mpe_advertised e \<and> not_redundant e \<longrightarrow>
      map_option (\<lambda>q'. mapping_of cluster_channel_of stream_channel_of (spt_dynamicAudioMap q'))
        (al_get j (mpe_portInputs (mapping_run ops e)))
      = Some (fold (input_effect (mpe_streamInputs e) q j) ops
          (mapping_of cluster_channel_of stream_channel_of (spt_dynamicAudioMap q))))"
  using output_run [of i e p ops] input_run [of j e q ops] by auto

definition mapped_device :: "(16 word, 16 word) alist \<Rightarrow> (16 word, 16 word) alist \<Rightarrow> audio_mapping list \<Rightarrow> mapped_entity" where
  "mapped_device primary secondary ms =
     (let p = \<lparr>spt_baseCluster = 4, spt_numberOfClusters = 2, spt_audioClusters = [(4, 1), (5, 8)], spt_audioMaps = [],
                spt_dynamicAudioMap = ms\<rparr>
      in \<lparr>mpe_advertised = True, mpe_streamInputs = 3, mpe_streamOutputs = 1, mpe_portInputs = [(0, p)],
           mpe_portOutputs = [(0, p)], mpe_redundantPrimaryInputs = primary, mpe_redundantSecondaryInputs = secondary\<rparr>)"

definition a_mapping :: "16 word \<Rightarrow> 16 word \<Rightarrow> 16 word \<Rightarrow> 16 word \<Rightarrow> audio_mapping" where
  "a_mapping s c off ch = \<lparr>am_streamIndex = s, am_streamChannel = c, am_clusterOffset = off, am_clusterChannel = ch\<rparr>"

theorem port_mappings_refined_witness:
  "let e = mapped_device [] [] [];
       ops = [InputMappingsAdded 0 [a_mapping 0 7 1 0, a_mapping 5 0 0 0], InputMappingsAdded 0 [a_mapping 1 2 1 0], OutputMappingsAdded 0 [a_mapping 0 3 0 0]]
   in map_option (\<lambda>p'. mapping_of stream_channel_of cluster_channel_of (spt_dynamicAudioMap p') (0, 3))
        (al_get 0 (mpe_portOutputs (mapping_run ops e))) = Some (Some (0, 0))
    \<and> map_option (\<lambda>q'. mapping_of cluster_channel_of stream_channel_of (spt_dynamicAudioMap q') (1, 0))
        (al_get 0 (mpe_portInputs (mapping_run ops e))) = Some (Some (1, 2))"
proof -
  let ?e = "mapped_device [] [] []"
  let ?p = "\<lparr>spt_baseCluster = 4, spt_numberOfClusters = 2, spt_audioClusters = [(4, 1), (5, 8)], spt_audioMaps = [],
                spt_dynamicAudioMap = []\<rparr>"
  let ?ops = "[InputMappingsAdded 0 [a_mapping 0 7 1 0, a_mapping 5 0 0 0], InputMappingsAdded 0 [a_mapping 1 2 1 0], OutputMappingsAdded 0 [a_mapping 0 3 0 0]]"
  have e: "al_get 0 (mpe_portOutputs ?e) = Some ?p" "al_get 0 (mpe_portInputs ?e) = Some ?p" "mpe_advertised ?e"
    "not_redundant ?e" "mpe_streamInputs ?e = 3" "mpe_streamOutputs ?e = 1"
    by (simp_all add: mapped_device_def not_redundant_def Let_def)
  note both = port_mappings_refined [of 0 ?e ?p ?ops 0 ?p, unfolded e(5,6)]
  have outputs: "map_option (\<lambda>p'. mapping_of stream_channel_of cluster_channel_of (spt_dynamicAudioMap p'))
        (al_get 0 (mpe_portOutputs (mapping_run ?ops ?e)))
      = Some (fold (output_effect 1 ?p 0) ?ops (mapping_of stream_channel_of cluster_channel_of (spt_dynamicAudioMap ?p)))"
    by (rule mp [OF conjunct1 [OF both]]) (simp add: e(1))
  have inputs: "map_option (\<lambda>q'. mapping_of cluster_channel_of stream_channel_of (spt_dynamicAudioMap q'))
        (al_get 0 (mpe_portInputs (mapping_run ?ops ?e)))
      = Some (fold (input_effect 3 ?p 0) ?ops (mapping_of cluster_channel_of stream_channel_of (spt_dynamicAudioMap ?p)))"
    by (rule mp [OF conjunct2 [OF both]]) (simp add: e(2-4))
  have "fold (output_effect 1 ?p 0) ?ops Map.empty (0, 3) = Some (0, 0)" "fold (input_effect 3 ?p 0) ?ops Map.empty (1, 0) = Some (1, 2)"
    by code_simp+
  with outputs inputs show ?thesis by (auto simp: Let_def map_option_eq_Some simp del: fold.simps)
qed

text \<open>
  The two mappings of a redundant pair fill one cluster channel.  When that of the secondary stream is notified
  again it is kept twice, so that its removal leaves one; and a mapping of another stream to the cluster channel
  takes the place of the first of the two only.
\<close>

lemma redundant_mapping_kept_twice:
  "map_option spt_dynamicAudioMap (al_get 0 (mpe_portInputs (mapping_run
      [InputMappingsAdded 0 [a_mapping 0 0 0 0, a_mapping 1 0 0 0], InputMappingsAdded 0 [a_mapping 1 0 0 0], InputMappingsRemoved 0 [a_mapping 1 0 0 0]]
      (mapped_device [(0, 1)] [(1, 0)] [])))) = Some [a_mapping 0 0 0 0, a_mapping 1 0 0 0]"
  by code_simp

lemma redundant_mapping_left:
  "map_option spt_dynamicAudioMap (al_get 0 (mpe_portInputs (mapping_run
      [InputMappingsAdded 0 [a_mapping 0 0 0 0, a_mapping 1 0 0 0], InputMappingsAdded 0 [a_mapping 2 0 0 0]]
      (mapped_device [(0, 1)] [(1, 0)] [])))) = Some [a_mapping 2 0 0 0, a_mapping 1 0 0 0]"
  by code_simp

end
