(* ===== verification/ChannelConnections.thy ===== *)
theory ChannelConnections
  imports AudioMappings StreamConnections
begin

text \<open>
  The connections of the channels of a listener (src/controller/avdeccControllerImpl.cpp, built with
  ENABLE_AVDECC_FEATURE_CBR and ENABLE_AVDECC_FEATURE_REDUNDANCY): for each channel of an input cluster, the
  channel of the input stream mapped to it, the stream of the talker connected there, and the cluster channel the
  talker sends on that channel.  They are computed when the listener is advertised and updated by the
  notifications of its mappings and streams, by those of the mappings of talkers, and when a talker leaves.

  Of the entities the controller knows, what is asked here is \<^verbatim>\<open>talkers\<close>: the output ports of the current
  configuration, by audio unit.
\<close>

section \<open>State\<close>

definition channel_invalid_index :: "16 word" where "channel_invalid_index = 0xffff"

record stream_channel =
  sch_streamIndex :: "16 word"
  sch_streamChannel :: "16 word"

record cluster_identification =
  cli_clusterIndex :: "16 word"
  cli_clusterChannel :: "16 word"

record channel_connection =
  cco_streamChannel :: stream_channel
  cco_stream :: stream_identification
  cco_talkerCluster :: cluster_identification

record channel_identification =
  chi_connection :: channel_connection
  chi_secondary :: "channel_connection option"

definition StreamChannel_new :: stream_channel where
  "StreamChannel_new = \<lparr>sch_streamIndex = channel_invalid_index, sch_streamChannel = 0\<rparr>"

definition ClusterIdentification_new :: cluster_identification where
  "ClusterIdentification_new = \<lparr>cli_clusterIndex = channel_invalid_index, cli_clusterChannel = 0\<rparr>"

definition ChannelConnection_new :: channel_connection where
  "ChannelConnection_new = \<lparr>cco_streamChannel = StreamChannel_new, cco_stream = StreamIdentification_new,
     cco_talkerCluster = ClusterIdentification_new\<rparr>"

definition ChannelIdentification_new :: channel_identification where
  "ChannelIdentification_new = \<lparr>chi_connection = ChannelConnection_new, chi_secondary = None\<rparr>"

definition stream_channel_isValid :: "stream_channel \<Rightarrow> bool" where
  "stream_channel_isValid sc \<longleftrightarrow> sch_streamIndex sc \<noteq> channel_invalid_index"

datatype channel_event = OnChannelInputConnectionChanged cluster_identification channel_identification

type_synonym talkers = "uid \<Rightarrow> stream_port list list option"

section \<open>Mappings of a channel\<close>

text \<open>The static mappings of a port come before its dynamic ones.\<close>

definition getMappingForStreamChannelIdentification :: "stream_port \<Rightarrow> 16 word \<Rightarrow> 16 word \<Rightarrow> audio_mapping option" where
  "getMappingForStreamChannelIdentification p streamIndex streamChannel =
     find (\<lambda>m. am_streamIndex m = streamIndex \<and> am_streamChannel m = streamChannel)
       (concat (map snd (spt_audioMaps p)) @ spt_dynamicAudioMap p)"

type_synonym mappings_info = "bool \<times> audio_mapping option \<times> audio_mapping option"

text \<open>The loop over the mappings of one list, from what was found so far; a mapping that is not redundant ends it.\<close>

fun search_mappings ::
  "mapped_entity \<Rightarrow> 16 word \<Rightarrow> 16 word \<Rightarrow> audio_mapping list \<Rightarrow> mappings_info \<Rightarrow> mappings_info"
where
  "search_mappings e off ch [] r = r"
| "search_mappings e off ch (m # maps) (isRedundant, primary, secondary) =
     (if am_clusterOffset m = off \<and> am_clusterChannel m = ch then
        if al_get (am_streamIndex m) (mpe_redundantPrimaryInputs e) \<noteq> None
        then search_mappings e off ch maps (True, Some m, secondary)
        else if al_get (am_streamIndex m) (mpe_redundantSecondaryInputs e) \<noteq> None
        then search_mappings e off ch maps (True, primary, Some m)
        else (isRedundant, Some m, secondary)
      else search_mappings e off ch maps (isRedundant, primary, secondary))"

definition found_mapping :: "mappings_info \<Rightarrow> bool" where
  "found_mapping r \<longleftrightarrow> fst (snd r) \<noteq> None \<or> snd (snd r) \<noteq> None"

definition getMappingForInputClusterIdentification ::
  "mapped_entity \<Rightarrow> stream_port \<Rightarrow> cluster_identification \<Rightarrow> mappings_info"
where
  "getMappingForInputClusterIdentification e p cl =
     (if \<not> (cli_clusterIndex cl \<ge> spt_baseCluster p \<and> cli_clusterIndex cl < spt_baseCluster p + spt_numberOfClusters p)
      then (False, None, None)
      else let search = (\<lambda>maps. search_mappings e (cli_clusterIndex cl - spt_baseCluster p) (cli_clusterChannel cl) maps (False, None, None))
           in case find found_mapping (map (search \<circ> snd) (spt_audioMaps p)) of
                Some r \<Rightarrow> r
              | None \<Rightarrow> search (spt_dynamicAudioMap p))"

section \<open>One connection\<close>

text \<open>
  The cluster of the talker that sends a channel.  The search leaves a unit with its first port that has a mapping
  for the channel, but goes on with the next unit.
\<close>

definition port_cluster :: "stream_port \<Rightarrow> 16 word \<Rightarrow> 16 word \<Rightarrow> cluster_identification option" where
  "port_cluster p streamIndex streamChannel =
     map_option (\<lambda>m. \<lparr>cli_clusterIndex = spt_baseCluster p + am_clusterOffset m, cli_clusterChannel = am_clusterChannel m\<rparr>)
       (getMappingForStreamChannelIdentification p streamIndex streamChannel)"

primrec unit_cluster :: "stream_port list \<Rightarrow> 16 word \<Rightarrow> 16 word \<Rightarrow> cluster_identification option" where
  "unit_cluster [] streamIndex streamChannel = None"
| "unit_cluster (p # ps) streamIndex streamChannel =
     (case port_cluster p streamIndex streamChannel of Some cl \<Rightarrow> Some cl | None \<Rightarrow> unit_cluster ps streamIndex streamChannel)"

definition talker_cluster ::
  "stream_port list list \<Rightarrow> 16 word \<Rightarrow> 16 word \<Rightarrow> cluster_identification \<Rightarrow> cluster_identification"
where
  "talker_cluster units streamIndex streamChannel previous =
     foldl (\<lambda>cl ports. case unit_cluster ports streamIndex streamChannel of Some cl' \<Rightarrow> cl' | None \<Rightarrow> cl) previous units"

definition computeAndUpdateChannelConnectionFromStreamIdentification ::
  "talkers \<Rightarrow> stream_identification \<Rightarrow> channel_connection \<Rightarrow> bool \<times> channel_connection"
where
  "computeAndUpdateChannelConnectionFromStreamIdentification talkers stream cc =
     (if \<not> sid_eq (cco_stream cc) stream then
        (True,
         if \<not> uid_isValid (sid_entityID stream)
         then cc\<lparr>cco_stream := stream, cco_talkerCluster := ClusterIdentification_new\<rparr>
         else case talkers (sid_entityID stream) of
                Some units \<Rightarrow>
                  if stream_channel_isValid (cco_streamChannel cc)
                  then cc\<lparr>cco_stream := stream, cco_talkerCluster :=
                         talker_cluster units (sid_streamIndex stream) (sch_streamChannel (cco_streamChannel cc)) (cco_talkerCluster cc)\<rparr>
                  else cc\<lparr>cco_stream := stream\<rparr>
              | None \<Rightarrow> cc\<lparr>cco_stream := stream\<rparr>)
      else (False, cc))"

definition stream_channel_mapped :: "audio_mapping option \<Rightarrow> stream_channel" where
  "stream_channel_mapped audioMapping = (case audioMapping of
     Some m \<Rightarrow> \<lparr>sch_streamIndex = am_streamIndex m, sch_streamChannel = am_streamChannel m\<rparr> | None \<Rightarrow> StreamChannel_new)"

definition update_from_mapping ::
  "talkers \<Rightarrow> (16 word, connection_info) alist \<Rightarrow> audio_mapping option \<Rightarrow> channel_connection \<Rightarrow> bool \<times> channel_connection"
where
  "update_from_mapping talkers streamInputs audioMapping cc =
     (let sc = stream_channel_mapped audioMapping in
      if cco_streamChannel cc \<noteq> sc then
        (True,
         if \<not> stream_channel_isValid sc then ChannelConnection_new
         else let cc1 = cc\<lparr>cco_streamChannel := sc\<rparr>
              in case al_get (sch_streamIndex sc) streamInputs of
                   Some info \<Rightarrow> snd (computeAndUpdateChannelConnectionFromStreamIdentification talkers (sci_talkerStream info) cc1)
                 | None \<Rightarrow> cc1)
      else (False, cc))"

text \<open>The two connections of a channel; the second is there while the channel is mapped to a redundant stream.\<close>

definition computeAndUpdateChannelConnectionFromListenerMapping ::
  "talkers \<Rightarrow> (16 word, connection_info) alist \<Rightarrow> mappings_info \<Rightarrow> channel_identification \<Rightarrow> bool \<times> channel_identification"
where
  "computeAndUpdateChannelConnectionFromListenerMapping talkers streamInputs info chi =
     (let (isRedundant, primary, secondary) = info;
          (changed1, c1) = update_from_mapping talkers streamInputs primary (chi_connection chi);
          (changed2, s2) = (case chi_secondary chi of
              None \<Rightarrow> (False, if isRedundant then Some ChannelConnection_new else None)
            | Some s \<Rightarrow> if isRedundant then (False, Some s) else (True, None));
          (changed3, s3) = (case s2 of
              None \<Rightarrow> (False, None)
            | Some s \<Rightarrow> let (ch, s') = update_from_mapping talkers streamInputs secondary s in (ch, Some s'))
      in (changed1 \<or> changed2 \<or> changed3, \<lparr>chi_connection = c1, chi_secondary = s3\<rparr>))"

text \<open>The mappings a talker has notified: the first that concerns the connection is applied.\<close>

definition update_from_talker ::
  "16 word \<Rightarrow> audio_mapping list \<Rightarrow> bool \<Rightarrow> channel_connection \<Rightarrow> bool \<times> channel_connection"
where
  "update_from_talker baseCluster mappings removeMappings cc =
     (case find (\<lambda>m. sid_streamIndex (cco_stream cc) = am_streamIndex m
                   \<and> sch_streamChannel (cco_streamChannel cc) = am_streamChannel m) mappings of
        None \<Rightarrow> (False, cc)
      | Some m \<Rightarrow>
          let cl = (if removeMappings then ClusterIdentification_new
                    else \<lparr>cli_clusterIndex = baseCluster + am_clusterOffset m, cli_clusterChannel = am_clusterChannel m\<rparr>)
          in if cl \<noteq> cco_talkerCluster cc then (True, cc\<lparr>cco_talkerCluster := cl\<rparr>) else (False, cc))"

text \<open>What is done to both connections of a channel where a condition holds.\<close>

definition on_connections ::
  "(channel_connection \<Rightarrow> bool) \<Rightarrow> (channel_connection \<Rightarrow> bool \<times> channel_connection) \<Rightarrow> channel_identification
     \<Rightarrow> bool \<times> channel_identification"
where
  "on_connections concerned f chi =
     (let (changed1, c) = (if concerned (chi_connection chi) then f (chi_connection chi) else (False, chi_connection chi));
          (changed2, s) = (case chi_secondary chi of
              None \<Rightarrow> (False, None)
            | Some s \<Rightarrow> if concerned s then let (ch, s') = f s in (ch, Some s') else (False, Some s))
      in (changed1 \<or> changed2, \<lparr>chi_connection = c, chi_secondary = s\<rparr>))"

section \<open>The channels of a listener\<close>

text \<open>
  The channels are in a hash map, so that the order of their notifications is not determined; here it is that of
  the list.  That the entity has a model means that it supports AEM and has a current configuration.
\<close>

record listening_entity =
  lse_mapped :: mapped_entity
  lse_isListener :: bool
  lse_hasModel :: bool
  lse_streamInputs :: "(16 word, connection_info) alist"
  lse_channelConnections :: "(cluster_identification, channel_identification) alist"

definition update_channels ::
  "bool \<Rightarrow> (channel_identification \<Rightarrow> bool \<times> channel_identification) \<Rightarrow> listening_entity \<Rightarrow> channel_event list \<times> listening_entity"
where
  "update_channels notify f e =
     (concat (map (\<lambda>(cl, chi). if fst (f chi) \<and> notify then [OnChannelInputConnectionChanged cl (snd (f chi))] else [])
        (lse_channelConnections e)),
      e\<lparr>lse_channelConnections := map (\<lambda>(cl, chi). (cl, snd (f chi))) (lse_channelConnections e)\<rparr>)"

definition computeAndUpdateChannelConnectionsFromTalkerMappings ::
  "uid \<Rightarrow> 16 word \<Rightarrow> audio_mapping list \<Rightarrow> bool \<Rightarrow> listening_entity \<Rightarrow> channel_event list \<times> listening_entity"
where
  "computeAndUpdateChannelConnectionsFromTalkerMappings talkerEntityID baseCluster mappings removeMappings e =
     update_channels (mpe_advertised (lse_mapped e))
       (on_connections (\<lambda>cc. uid_eq (sid_entityID (cco_stream cc)) talkerEntityID)
          (update_from_talker baseCluster mappings removeMappings)) e"

text \<open>The lists of mappings of the ports of a talker, with the base of their clusters, static before dynamic.\<close>

definition port_mapping_lists :: "stream_port \<Rightarrow> (16 word \<times> audio_mapping list) list" where
  "port_mapping_lists p = map (\<lambda>m. (spt_baseCluster p, m)) (map snd (spt_audioMaps p) @ [spt_dynamicAudioMap p])"

definition computeAndUpdateChannelConnectionsFromConfigurationNode ::
  "uid \<Rightarrow> stream_port list list \<Rightarrow> listening_entity \<Rightarrow> channel_event list \<times> listening_entity"
where
  "computeAndUpdateChannelConnectionsFromConfigurationNode talkerEntityID units e =
     foldl (\<lambda>(evs, e) (base, mappings).
         let (evs', e') = computeAndUpdateChannelConnectionsFromTalkerMappings talkerEntityID base mappings False e in (evs @ evs', e'))
       ([], e) (concat (map port_mapping_lists (concat units)))"

text \<open>A talker that leaves (\<^verbatim>\<open>onPreUnadvertiseEntity\<close>); the stream stays, as the listener is still bound to it.\<close>

definition talker_left :: "channel_connection \<Rightarrow> bool \<times> channel_connection" where
  "talker_left cc = (True, cc\<lparr>cco_talkerCluster := ClusterIdentification_new\<rparr>)"

definition channels_talker_left :: "uid \<Rightarrow> listening_entity \<Rightarrow> channel_event list \<times> listening_entity" where
  "channels_talker_left talkerEntityID e =
     (if mpe_advertised (lse_mapped e) \<and> lse_hasModel e \<and> lse_isListener e
      then update_channels True (on_connections (\<lambda>cc. uid_eq (sid_entityID (cco_stream cc)) talkerEntityID) talker_left) e
      else ([], e))"

text \<open>A connection of an input stream that changes (\<^verbatim>\<open>handleListenerStreamStateNotification\<close>).\<close>

definition update_from_transition ::
  "talkers \<Rightarrow> stream_identification \<Rightarrow> connection_info \<Rightarrow> connection_info \<Rightarrow> channel_connection \<Rightarrow> bool \<times> channel_connection"
where
  "update_from_transition talkers talkerStream previousInfo info cc =
     (let isTalkerStreamChanged = \<not> sid_eq (sci_talkerStream previousInfo) (sci_talkerStream info);
          isConnecting = (sci_state info = Connected \<and> sci_state previousInfo = NotConnected);
          isDisconnecting = (sci_state info = NotConnected \<and> sci_state previousInfo = Connected);
          isConnectingToDifferentTalker = (sci_state info = Connected \<and> sci_state previousInfo = Connected \<and> isTalkerStreamChanged);
          (changed1, cc1) = (if isDisconnecting \<or> isConnectingToDifferentTalker
             then computeAndUpdateChannelConnectionFromStreamIdentification talkers StreamIdentification_new cc else (False, cc));
          (changed2, cc2) = (if isConnecting \<or> isConnectingToDifferentTalker
             then computeAndUpdateChannelConnectionFromStreamIdentification talkers talkerStream cc1 else (False, cc1))
      in (changed1 \<or> changed2, cc2))"

definition channels_stream_changed ::
  "talkers \<Rightarrow> 16 word \<Rightarrow> stream_identification \<Rightarrow> connection_info \<Rightarrow> connection_info \<Rightarrow> listening_entity
     \<Rightarrow> channel_event list \<times> listening_entity"
where
  "channels_stream_changed talkers listenerStreamIndex talkerStream previousInfo info e =
     update_channels True
       (on_connections (\<lambda>cc. sch_streamIndex (cco_streamChannel cc) = listenerStreamIndex)
          (update_from_transition talkers talkerStream previousInfo info)) e"

section \<open>Mappings of the listener\<close>

definition channel_of_mapping :: "stream_port \<Rightarrow> audio_mapping \<Rightarrow> cluster_identification" where
  "channel_of_mapping p m =
     \<lparr>cli_clusterIndex = spt_baseCluster p + am_clusterOffset m, cli_clusterChannel = am_clusterChannel m\<rparr>"

text \<open>The mappings of the channel of an added mapping: all of them, the last of each kind, if its stream is redundant.\<close>

definition mappings_info_added :: "mapped_entity \<Rightarrow> stream_port \<Rightarrow> audio_mapping \<Rightarrow> mappings_info" where
  "mappings_info_added e p m =
     (if getRedundantStreamInputIndex (am_streamIndex m) e \<noteq> None then
        let (primary, secondary) = foldl (\<lambda>(primary, secondary) m'.
              if same_cluster m m'
              then if al_get (am_streamIndex m') (mpe_redundantPrimaryInputs e) \<noteq> None then (Some m', secondary) else (primary, Some m')
              else (primary, secondary)) (None, None) (spt_dynamicAudioMap p)
        in (True, primary, secondary)
      else (False, Some m, None))"

text \<open>Of a removed one: the first that is left, if its stream is redundant, and otherwise none.\<close>

definition mappings_info_removed :: "mapped_entity \<Rightarrow> stream_port \<Rightarrow> audio_mapping \<Rightarrow> mappings_info" where
  "mappings_info_removed e p m =
     (if getRedundantStreamInputIndex (am_streamIndex m) e \<noteq> None then
        case find (same_cluster m) (spt_dynamicAudioMap p) of
          Some m' \<Rightarrow> if al_get (am_streamIndex m') (mpe_redundantPrimaryInputs e) \<noteq> None then (True, Some m', None) else (True, None, Some m')
        | None \<Rightarrow> (False, None, None)
      else (False, None, None))"

text \<open>
  The loop over the mappings notified, which are not those validated; a channel is processed for its first mapping
  only.  That the channel is not there is an assertion, without effect.
\<close>

fun update_mapped_channels ::
  "talkers \<Rightarrow> (audio_mapping \<Rightarrow> mappings_info) \<Rightarrow> stream_port \<Rightarrow> audio_mapping list \<Rightarrow> cluster_identification set
     \<Rightarrow> listening_entity \<Rightarrow> channel_event list \<times> listening_entity"
where
  "update_mapped_channels talkers info p [] processed e = ([], e)"
| "update_mapped_channels talkers info p (m # maps) processed e =
     (let cl = channel_of_mapping p m in
      if cl \<in> processed then update_mapped_channels talkers info p maps processed e
      else case al_get cl (lse_channelConnections e) of
          None \<Rightarrow> update_mapped_channels talkers info p maps (insert cl processed) e
        | Some chi \<Rightarrow>
            let (changed, chi') = computeAndUpdateChannelConnectionFromListenerMapping talkers (lse_streamInputs e) (info m) chi;
                e1 = e\<lparr>lse_channelConnections := al_put cl chi' (lse_channelConnections e)\<rparr>;
                (evs, e2) = update_mapped_channels talkers info p maps (insert cl processed) e1
            in ((if changed \<and> mpe_advertised (lse_mapped e) then [OnChannelInputConnectionChanged cl chi'] else []) @ evs, e2))"

text \<open>The second part of \<^verbatim>\<open>updateStreamPortInputAudioMappingsAdded\<close> and of \<^verbatim>\<open>...Removed\<close>, after theory AudioMappings.\<close>

definition channels_mappings_added :: "talkers \<Rightarrow> 16 word \<Rightarrow> audio_mapping list \<Rightarrow> listening_entity \<Rightarrow> channel_event list \<times> listening_entity" where
  "channels_mappings_added talkers i mappings e =
     (case al_get i (mpe_portInputs (lse_mapped e)) of
        Some p \<Rightarrow> update_mapped_channels talkers (mappings_info_added (lse_mapped e) p) p mappings {} e
      | None \<Rightarrow> ([], e))"

definition channels_mappings_removed :: "talkers \<Rightarrow> 16 word \<Rightarrow> audio_mapping list \<Rightarrow> listening_entity \<Rightarrow> channel_event list \<times> listening_entity" where
  "channels_mappings_removed talkers i mappings e =
     (case al_get i (mpe_portInputs (lse_mapped e)) of
        Some p \<Rightarrow> update_mapped_channels talkers (mappings_info_removed (lse_mapped e) p) p mappings {} e
      | None \<Rightarrow> ([], e))"

text \<open>A listener about to be advertised: every channel of every cluster of its input ports.\<close>

definition port_channels :: "stream_port \<Rightarrow> cluster_identification list" where
  "port_channels p = concat (map (\<lambda>(i, channelCount). map (\<lambda>ch. \<lparr>cli_clusterIndex = i, cli_clusterChannel = of_nat ch\<rparr>)
     [0..<unat channelCount]) (spt_audioClusters p))"

definition channels_computed :: "talkers \<Rightarrow> listening_entity \<Rightarrow> listening_entity" where
  "channels_computed talkers e =
     fold (\<lambda>(p, cl) e. e\<lparr>lse_channelConnections := al_put cl
           (snd (computeAndUpdateChannelConnectionFromListenerMapping talkers (lse_streamInputs e)
              (getMappingForInputClusterIdentification (lse_mapped e) p cl)
              (case al_get cl (lse_channelConnections e) of Some chi \<Rightarrow> chi | None \<Rightarrow> ChannelIdentification_new)))
           (lse_channelConnections e)\<rparr>)
       (concat (map (\<lambda>(i, p). map (Pair p) (port_channels p)) (mpe_portInputs (lse_mapped e)))) e"

text \<open>The mappings of the output ports of a talker (\<^verbatim>\<open>updateStreamPortOutputAudioMappingsAdded\<close>, \<^verbatim>\<open>...Removed\<close>), for one of the other entities.\<close>

definition channels_talker_mappings ::
  "uid \<Rightarrow> 16 word \<Rightarrow> audio_mapping list \<Rightarrow> bool \<Rightarrow> listening_entity \<Rightarrow> channel_event list \<times> listening_entity"
where
  "channels_talker_mappings talkerEntityID baseCluster mappings removeMappings e =
     (if mpe_advertised (lse_mapped e) \<and> lse_hasModel e
      then computeAndUpdateChannelConnectionsFromTalkerMappings talkerEntityID baseCluster mappings removeMappings e
      else ([], e))"

section \<open>What a connection is to show\<close>

text \<open>
  The connection of a channel, from its mapping, the stream connected and what the talker maps there.  This is what
  the comments of \<^verbatim>\<open>ChannelConnectionIdentification\<close> say of its members.
\<close>

definition cluster_shown :: "talkers \<Rightarrow> stream_identification \<Rightarrow> 16 word \<Rightarrow> cluster_identification" where
  "cluster_shown talkers stream ch =
     (if uid_isValid (sid_entityID stream)
      then case talkers (sid_entityID stream) of
             Some units \<Rightarrow> talker_cluster units (sid_streamIndex stream) ch ClusterIdentification_new
           | None \<Rightarrow> ClusterIdentification_new
      else ClusterIdentification_new)"

definition connection_shown :: "talkers \<Rightarrow> stream_identification \<Rightarrow> audio_mapping \<Rightarrow> channel_connection" where
  "connection_shown talkers stream m =
     \<lparr>cco_streamChannel = stream_channel_mapped (Some m), cco_stream = stream,
      cco_talkerCluster = cluster_shown talkers stream (am_streamChannel m)\<rparr>"

text \<open>A connection that is made or not, with the stream of the talker if it is.\<close>

definition info_settled :: "connection_info \<Rightarrow> bool" where
  "info_settled info \<longleftrightarrow>
     (sci_state info = NotConnected \<and> sci_talkerStream info = StreamIdentification_new)
     \<or> (sci_state info = Connected \<and> uid_isValid (sid_entityID (sci_talkerStream info)))"

lemma sid_eq_new_invalid: "sid_eq StreamIdentification_new s \<Longrightarrow> \<not> uid_isValid (sid_entityID s)"
  by (auto simp: sid_eq_def uid_eq_def StreamIdentification_new_def uid_isValid_def uid_null_def uid_uninitialized_def)

lemma sid_new_invalid [simp]: "\<not> uid_isValid (sid_entityID StreamIdentification_new)"
  using sid_eq_new_invalid [of StreamIdentification_new] by (simp add: sid_eq_def uid_eq_def)

text \<open>A stream connected to a channel that shows none.\<close>

lemma connect_shown:
  assumes "stream_channel_isValid (stream_channel_mapped (Some m))" "uid_isValid (sid_entityID stream)"
  shows "snd (computeAndUpdateChannelConnectionFromStreamIdentification talkers stream
      \<lparr>cco_streamChannel = stream_channel_mapped (Some m), cco_stream = StreamIdentification_new,
       cco_talkerCluster = ClusterIdentification_new\<rparr>) = connection_shown talkers stream m"
  using assms sid_eq_new_invalid [of stream]
  by (auto simp: computeAndUpdateChannelConnectionFromStreamIdentification_def connection_shown_def cluster_shown_def
      stream_channel_mapped_def split: option.splits)

lemma disconnect_shown:
  "snd (computeAndUpdateChannelConnectionFromStreamIdentification talkers StreamIdentification_new (connection_shown talkers' stream m))
    = connection_shown talkers StreamIdentification_new m" if "uid_isValid (sid_entityID stream)"
  using that
  by (auto simp: computeAndUpdateChannelConnectionFromStreamIdentification_def connection_shown_def cluster_shown_def
      sid_eq_valid)

lemma connection_shown_none: "connection_shown talkers StreamIdentification_new m =
    \<lparr>cco_streamChannel = stream_channel_mapped (Some m), cco_stream = StreamIdentification_new,
     cco_talkerCluster = ClusterIdentification_new\<rparr>"
  by (simp add: connection_shown_def cluster_shown_def)

text \<open>A channel that had no mapping, and gets one.\<close>

lemma mapping_shown:
  assumes "stream_channel_isValid (stream_channel_mapped (Some m))"
    and "al_get (am_streamIndex m) streamInputs = Some info" "info_settled info"
  shows "snd (update_from_mapping talkers streamInputs (Some m) ChannelConnection_new)
    = connection_shown talkers (sci_talkerStream info) m"
proof -
  have "\<not> stream_channel_isValid (cco_streamChannel ChannelConnection_new)"
    by (simp add: ChannelConnection_new_def StreamChannel_new_def stream_channel_isValid_def)
  then have sc: "cco_streamChannel ChannelConnection_new \<noteq> stream_channel_mapped (Some m)" using assms(1) by auto
  have i: "sch_streamIndex (stream_channel_mapped (Some m)) = am_streamIndex m" by (simp add: stream_channel_mapped_def)
  have "snd (update_from_mapping talkers streamInputs (Some m) ChannelConnection_new) =
      snd (computeAndUpdateChannelConnectionFromStreamIdentification talkers (sci_talkerStream info)
        \<lparr>cco_streamChannel = stream_channel_mapped (Some m), cco_stream = StreamIdentification_new,
         cco_talkerCluster = ClusterIdentification_new\<rparr>)"
    using sc assms(1,2) by (simp add: update_from_mapping_def Let_def i) (simp add: ChannelConnection_new_def)
  also have "\<dots> = connection_shown talkers (sci_talkerStream info) m"
  proof (cases "uid_isValid (sid_entityID (sci_talkerStream info))")
    case False
    then have "sci_talkerStream info = StreamIdentification_new" using assms(3) by (auto simp: info_settled_def)
    then show ?thesis
      by (simp add: computeAndUpdateChannelConnectionFromStreamIdentification_def connection_shown_none sid_eq_def uid_eq_def)
  qed (rule connect_shown [OF assms(1)])
  finally show ?thesis .
qed

text \<open>A connection of its stream that is made, undone or moved to another talker.\<close>

lemma transition_shown:
  assumes m: "stream_channel_isValid (stream_channel_mapped (Some m))" and "info_settled info" "info_settled info'"
    and "\<not> connection_info_eq info info'"
  shows "snd (update_from_transition talkers (sci_talkerStream info') info info' (connection_shown talkers (sci_talkerStream info) m))
    = connection_shown talkers (sci_talkerStream info') m"
proof -
  let ?t = "sci_talkerStream info" and ?t' = "sci_talkerStream info'"
  have compute: "snd (computeAndUpdateChannelConnectionFromStreamIdentification talkers stream
      (connection_shown talkers StreamIdentification_new m)) = connection_shown talkers stream m"
    if "uid_isValid (sid_entityID stream)" for stream
    using connect_shown [OF m that] by (simp only: connection_shown_none)
  consider "sci_state info = NotConnected" "sci_state info' = Connected" "?t = StreamIdentification_new" "uid_isValid (sid_entityID ?t')"
    | "sci_state info = Connected" "sci_state info' = NotConnected" "?t' = StreamIdentification_new" "uid_isValid (sid_entityID ?t)"
    | "sci_state info = Connected" "sci_state info' = Connected" "\<not> sid_eq ?t ?t'" "uid_isValid (sid_entityID ?t)" "uid_isValid (sid_entityID ?t')"
    using assms(2-4) by (auto simp: info_settled_def connection_info_eq_def)
  then show ?thesis
  proof cases
    case 1
    then show ?thesis using compute [of ?t'] by (simp add: update_from_transition_def Let_def case_prod_beta)
  next
    case 2
    then show ?thesis using disconnect_shown [of ?t talkers talkers m] by (simp add: update_from_transition_def Let_def case_prod_beta)
  next
    case 3
    then show ?thesis using disconnect_shown [of ?t talkers talkers m] compute [of ?t']
      by (simp add: update_from_transition_def Let_def case_prod_beta)
  qed
qed

section \<open>Talkers that come and go\<close>

text \<open>
  The mappings of a talker in the order of the ports, each with the base of its clusters.  The two loops over them
  agree when no channel of a stream is mapped twice: the one takes the last unit and in it the first mapping, the
  other the last list and in it the first mapping.
\<close>

definition all_mappings :: "stream_port list \<Rightarrow> (16 word \<times> audio_mapping) list" where
  "all_mappings ports = concat (map (\<lambda>(b, maps). map (Pair b) maps) (concat (map port_mapping_lists ports)))"

definition sends :: "16 word \<Rightarrow> 16 word \<Rightarrow> 16 word \<times> audio_mapping \<Rightarrow> bool" where
  "sends j ch = (\<lambda>(b, m). am_streamIndex m = j \<and> am_streamChannel m = ch)"

definition cluster_sent :: "16 word \<times> audio_mapping \<Rightarrow> cluster_identification" where
  "cluster_sent = (\<lambda>(b, m). \<lparr>cli_clusterIndex = b + am_clusterOffset m, cli_clusterChannel = am_clusterChannel m\<rparr>)"

definition mapped_once :: "stream_port list list \<Rightarrow> bool" where
  "mapped_once units \<longleftrightarrow> (\<forall>j ch. length (filter (sends j ch) (all_mappings (concat units))) \<le> 1)"

lemma find_append: "find P (xs @ ys) = (case find P xs of Some x \<Rightarrow> Some x | None \<Rightarrow> find P ys)"
  by (induction xs) simp_all

lemma find_map: "find P (map f xs) = map_option f (find (P \<circ> f) xs)"
  by (induction xs) simp_all

lemma all_mappings_append [simp]: "all_mappings (xs @ ys) = all_mappings xs @ all_mappings ys"
  by (simp add: all_mappings_def)

lemma all_mappings_Nil [simp]: "all_mappings [] = []"
  by (simp add: all_mappings_def)

lemma all_mappings_Cons: "all_mappings (p # ps) = all_mappings [p] @ all_mappings ps"
  by (simp add: all_mappings_def)

lemma all_mappings_port: "all_mappings [p] = map (Pair (spt_baseCluster p)) (concat (map snd (spt_audioMaps p)) @ spt_dynamicAudioMap p)"
proof -
  have "concat (map (\<lambda>(b, maps). map (Pair b) maps) (map (Pair c) xss)) = map (Pair c) (concat xss)" for c :: "16 word" and xss :: "audio_mapping list list"
    by (induction xss) simp_all
  from this [of "spt_baseCluster p" "map snd (spt_audioMaps p) @ [spt_dynamicAudioMap p]"] show ?thesis
    by (simp add: all_mappings_def port_mapping_lists_def)
qed

lemma port_cluster_find: "port_cluster p j ch = map_option cluster_sent (find (sends j ch) (all_mappings [p]))"
  by (simp add: port_cluster_def getMappingForStreamChannelIdentification_def all_mappings_port find_map sends_def
      cluster_sent_def comp_def option.map_comp del: map_append)

lemma unit_cluster_find: "unit_cluster ports j ch = map_option cluster_sent (find (sends j ch) (all_mappings ports))"
proof (induction ports)
  case (Cons p ps)
  show ?case unfolding all_mappings_Cons [of p ps] find_append unit_cluster.simps port_cluster_find Cons
    by (simp split: option.splits)
qed simp

lemma find_Some_filter: "find P xs = Some x \<Longrightarrow> 1 \<le> length (filter P xs)"
  by (induction xs) (auto split: if_splits)

lemma talker_cluster_find:
  assumes "length (filter (sends j ch) (all_mappings (concat units))) \<le> 1"
  shows "talker_cluster units j ch cl = (case find (sends j ch) (all_mappings (concat units)) of Some x \<Rightarrow> cluster_sent x | None \<Rightarrow> cl)"
  using assms
proof (induction units rule: rev_induct)
  case (snoc ports units)
  have "\<not> (find (sends j ch) (all_mappings (concat units)) \<noteq> None \<and> find (sends j ch) (all_mappings ports) \<noteq> None)"
  proof
    assume "find (sends j ch) (all_mappings (concat units)) \<noteq> None \<and> find (sends j ch) (all_mappings ports) \<noteq> None"
    then have "1 \<le> length (filter (sends j ch) (all_mappings (concat units)))" "1 \<le> length (filter (sends j ch) (all_mappings ports))"
      by (auto dest: find_Some_filter)
    then show False using snoc.prems by simp
  qed
  then show ?case using snoc
    by (auto simp: talker_cluster_def unit_cluster_find find_append split: option.splits)
qed (simp add: talker_cluster_def)

text \<open>The updates of a connection by all lists of a talker.\<close>

definition update_from_lists :: "(16 word \<times> audio_mapping list) list \<Rightarrow> channel_connection \<Rightarrow> channel_connection" where
  "update_from_lists mls cc = foldl (\<lambda>cc (base, maps). snd (update_from_talker base maps False cc)) cc mls"

lemma update_from_talker_find:
  "snd (update_from_talker base maps False cc) = (case find (sends (sid_streamIndex (cco_stream cc)) (sch_streamChannel (cco_streamChannel cc)))
      (map (Pair base) maps) of Some x \<Rightarrow> cc\<lparr>cco_talkerCluster := cluster_sent x\<rparr> | None \<Rightarrow> cc)"
proof -
  have "(\<lambda>m. sid_streamIndex (cco_stream cc) = am_streamIndex m \<and> sch_streamChannel (cco_streamChannel cc) = am_streamChannel m)
      = sends (sid_streamIndex (cco_stream cc)) (sch_streamChannel (cco_streamChannel cc)) \<circ> Pair base"
    by (auto simp: sends_def)
  then show ?thesis
    by (cases cc) (auto simp: update_from_talker_def find_map cluster_sent_def Let_def split: option.splits)
qed

lemma update_from_lists_find:
  assumes "length (filter (sends (sid_streamIndex (cco_stream cc)) (sch_streamChannel (cco_streamChannel cc)))
      (concat (map (\<lambda>(b, maps). map (Pair b) maps) mls))) \<le> 1"
  shows "update_from_lists mls cc = (case find (sends (sid_streamIndex (cco_stream cc)) (sch_streamChannel (cco_streamChannel cc)))
      (concat (map (\<lambda>(b, maps). map (Pair b) maps) mls)) of Some x \<Rightarrow> cc\<lparr>cco_talkerCluster := cluster_sent x\<rparr> | None \<Rightarrow> cc)"
  using assms
proof (induction mls rule: rev_induct)
  case (snoc l mls)
  obtain base maps where l: "l = (base, maps)" by fastforce
  let ?P = "sends (sid_streamIndex (cco_stream cc)) (sch_streamChannel (cco_streamChannel cc))"
  let ?old = "concat (map (\<lambda>(b, maps). map (Pair b) maps) mls)"
  have one: "\<not> (find ?P ?old \<noteq> None \<and> find ?P (map (Pair base) maps) \<noteq> None)"
  proof
    assume "find ?P ?old \<noteq> None \<and> find ?P (map (Pair base) maps) \<noteq> None"
    then have "1 \<le> length (filter ?P ?old)" "1 \<le> length (filter ?P (map (Pair base) maps))"
      by (auto dest: find_Some_filter simp del: filter_map length_map)
    then show False using snoc.prems by (simp add: l)
  qed
  have IH: "update_from_lists mls cc = (case find ?P ?old of Some x \<Rightarrow> cc\<lparr>cco_talkerCluster := cluster_sent x\<rparr> | None \<Rightarrow> cc)"
    using snoc by simp
  have step: "update_from_lists (mls @ [l]) cc = snd (update_from_talker base maps False (update_from_lists mls cc))"
    by (simp add: update_from_lists_def l)
  have same: "sid_streamIndex (cco_stream (update_from_lists mls cc)) = sid_streamIndex (cco_stream cc)"
    "sch_streamChannel (cco_streamChannel (update_from_lists mls cc)) = sch_streamChannel (cco_streamChannel cc)"
    by (simp_all add: IH split: option.splits)
  show ?case unfolding step update_from_talker_find same using one
    by (auto simp: IH l find_append split: option.splits)
qed (simp add: update_from_lists_def)

lemma arrived_shown:
  assumes "mapped_once units" "talkers (sid_entityID stream) = None" "uid_isValid (sid_entityID stream)"
  shows "update_from_lists (concat (map port_mapping_lists (concat units))) (connection_shown talkers stream m)
    = connection_shown (talkers(sid_entityID stream := Some units)) stream m"
proof -
  let ?P = "sends (sid_streamIndex stream) (am_streamChannel m)"
  have once: "length (filter ?P (all_mappings (concat units))) \<le> 1" using assms(1) by (simp add: mapped_once_def)
  have sel: "cco_stream (connection_shown talkers stream m) = stream"
    "sch_streamChannel (cco_streamChannel (connection_shown talkers stream m)) = am_streamChannel m"
    by (simp_all add: connection_shown_def stream_channel_mapped_def)
  have "update_from_lists (concat (map port_mapping_lists (concat units))) (connection_shown talkers stream m) =
      (case find ?P (all_mappings (concat units)) of
         Some x \<Rightarrow> (connection_shown talkers stream m)\<lparr>cco_talkerCluster := cluster_sent x\<rparr> | None \<Rightarrow> connection_shown talkers stream m)"
    using update_from_lists_find [of "connection_shown talkers stream m" "concat (map port_mapping_lists (concat units))"] once
    unfolding sel all_mappings_def by simp
  also have "\<dots> = connection_shown (talkers(sid_entityID stream := Some units)) stream m"
    using assms talker_cluster_find [OF once, of ClusterIdentification_new]
    by (auto simp: connection_shown_def cluster_shown_def split: option.splits)
  finally show ?thesis .
qed

lemma left_shown:
  assumes "uid_isValid (sid_entityID stream)"
  shows "snd (talker_left (connection_shown talkers stream m)) = connection_shown (talkers(sid_entityID stream := None)) stream m"
  using assms by (simp add: talker_left_def connection_shown_def cluster_shown_def)

lemma other_shown: "sid_entityID stream \<noteq> u \<Longrightarrow> connection_shown (talkers(u := t)) stream m = connection_shown talkers stream m"
  by (simp add: connection_shown_def cluster_shown_def)

section \<open>Runs\<close>

definition mapping_shown_as :: "talkers \<Rightarrow> (16 word, connection_info) alist \<Rightarrow> audio_mapping option \<Rightarrow> channel_connection" where
  "mapping_shown_as talkers streamInputs audioMapping =
     (case audioMapping of
        None \<Rightarrow> ChannelConnection_new
      | Some m \<Rightarrow> connection_shown talkers
          (case al_get (am_streamIndex m) streamInputs of Some info \<Rightarrow> sci_talkerStream info | None \<Rightarrow> StreamIdentification_new) m)"

definition channel_shown :: "talkers \<Rightarrow> (16 word, connection_info) alist \<Rightarrow> mappings_info \<Rightarrow> channel_identification" where
  "channel_shown talkers streamInputs info =
     (let (isRedundant, primary, secondary) = info
      in \<lparr>chi_connection = mapping_shown_as talkers streamInputs primary,
          chi_secondary = if isRedundant then Some (mapping_shown_as talkers streamInputs secondary) else None\<rparr>)"

text \<open>A mapping of an input stream the entity has.\<close>

definition mapping_held :: "(16 word, connection_info) alist \<Rightarrow> audio_mapping option \<Rightarrow> bool" where
  "mapping_held streamInputs audioMapping =
     (case audioMapping of None \<Rightarrow> True
      | Some m \<Rightarrow> am_streamIndex m \<noteq> channel_invalid_index \<and> al_get (am_streamIndex m) streamInputs \<noteq> None)"

definition infos_settled :: "(16 word, connection_info) alist \<Rightarrow> bool" where
  "infos_settled streamInputs \<longleftrightarrow> (\<forall>i info. al_get i streamInputs = Some info \<longrightarrow> info_settled info)"

lemma mapped_valid: "am_streamIndex m \<noteq> channel_invalid_index \<Longrightarrow> stream_channel_isValid (stream_channel_mapped (Some m))"
  by (simp add: stream_channel_isValid_def stream_channel_mapped_def)

lemma fresh_mapping_shown:
  assumes "mapping_held ins mo" "infos_settled ins"
  shows "snd (update_from_mapping talkers ins mo ChannelConnection_new) = mapping_shown_as talkers ins mo"
proof (cases mo)
  case None
  then show ?thesis
    by (simp add: update_from_mapping_def stream_channel_mapped_def mapping_shown_as_def ChannelConnection_new_def Let_def)
next
  case (Some m)
  then obtain info where "al_get (am_streamIndex m) ins = Some info" "am_streamIndex m \<noteq> channel_invalid_index"
    using assms(1) by (auto simp: mapping_held_def)
  then show ?thesis using mapping_shown [OF mapped_valid, of m ins info talkers] assms(2) Some
    by (simp add: mapping_shown_as_def infos_settled_def)
qed

lemma fresh_channel_shown:
  assumes "mapping_held ins primary" "mapping_held ins secondary" "infos_settled ins"
  shows "snd (computeAndUpdateChannelConnectionFromListenerMapping talkers ins (isRedundant, primary, secondary) ChannelIdentification_new)
    = channel_shown talkers ins (isRedundant, primary, secondary)"
  using fresh_mapping_shown [OF assms(1,3), of talkers] fresh_mapping_shown [OF assms(2,3), of talkers]
  by (simp add: computeAndUpdateChannelConnectionFromListenerMapping_def ChannelIdentification_new_def channel_shown_def
      Let_def case_prod_beta)

text \<open>
  The steps: an input stream connected, disconnected or moved; a talker that is advertised, and one that leaves.
  The talkers of these steps are the advertised ones, each of which maps a channel of its streams once.  The code
  also looks up the mappings of a talker that is still being enumerated, and does nothing for one that leaves before it
  is advertised; what comes of that is shown at the end of this theory.
\<close>

inductive channels_go :: "talkers \<times> listening_entity \<Rightarrow> talkers \<times> listening_entity \<Rightarrow> bool" where
  stream_changed: "al_get i (lse_streamInputs e) = Some info \<Longrightarrow> info_settled info' \<Longrightarrow> \<not> connection_info_eq info info' \<Longrightarrow>
    i \<noteq> channel_invalid_index \<Longrightarrow>
    channels_go (talkers, e) (talkers, snd (channels_stream_changed talkers i (sci_talkerStream info') info info'
      (e\<lparr>lse_streamInputs := al_put i info' (lse_streamInputs e)\<rparr>)))"
| talker_arrived: "talkers u = None \<Longrightarrow> uid_isValid u \<Longrightarrow> mapped_once units \<Longrightarrow>
    channels_go (talkers, e) (talkers(u := Some units), snd (computeAndUpdateChannelConnectionsFromConfigurationNode u units e))"
| talker_gone: "uid_isValid u \<Longrightarrow> channels_go (talkers, e) (talkers(u := None), snd (channels_talker_left u e))"

definition port_keys :: "listening_entity \<Rightarrow> (stream_port \<times> cluster_identification) list" where
  "port_keys e = concat (map (\<lambda>(i, p). map (Pair p) (port_channels p)) (mpe_portInputs (lse_mapped e)))"

text \<open>A listener before it is advertised: no channels yet, settled streams, mappings of streams it has.\<close>

definition listener_ready :: "listening_entity \<Rightarrow> bool" where
  "listener_ready e \<longleftrightarrow>
     lse_channelConnections e = [] \<and> infos_settled (lse_streamInputs e) \<and> distinct (map snd (port_keys e))
     \<and> mpe_advertised (lse_mapped e) \<and> lse_hasModel e \<and> lse_isListener e
     \<and> (\<forall>(p, cl)\<in>set (port_keys e). case getMappingForInputClusterIdentification (lse_mapped e) p cl of
          (_, primary, secondary) \<Rightarrow> mapping_held (lse_streamInputs e) primary \<and> mapping_held (lse_streamInputs e) secondary)"

definition channels_shown :: "talkers \<Rightarrow> listening_entity \<Rightarrow> (cluster_identification, channel_identification) alist" where
  "channels_shown talkers e =
     map (\<lambda>(p, cl). (cl, channel_shown talkers (lse_streamInputs e) (getMappingForInputClusterIdentification (lse_mapped e) p cl)))
       (port_keys e)"

text \<open>Both connections of a channel, and all channels, are updated alike.\<close>

definition both_connections :: "(channel_connection \<Rightarrow> channel_connection) \<Rightarrow> channel_identification \<Rightarrow> channel_identification" where
  "both_connections f chi = \<lparr>chi_connection = f (chi_connection chi), chi_secondary = map_option f (chi_secondary chi)\<rparr>"

lemma snd_on_connections:
  "snd (on_connections concerned f chi) = both_connections (\<lambda>cc. if concerned cc then snd (f cc) else cc) chi"
  by (auto simp: on_connections_def both_connections_def Let_def case_prod_beta split: option.splits)

lemma snd_update_channels:
  "snd (update_channels notify f e) = e\<lparr>lse_channelConnections := map (\<lambda>(cl, chi). (cl, snd (f chi))) (lse_channelConnections e)\<rparr>"
  by (simp add: update_channels_def)

lemma both_channel_shown:
  assumes "\<And>mo. mo = primary \<or> mo = secondary \<Longrightarrow> f (mapping_shown_as talkers ins mo) = mapping_shown_as talkers' ins' mo"
  shows "both_connections f (channel_shown talkers ins (r, primary, secondary)) = channel_shown talkers' ins' (r, primary, secondary)"
  by (simp add: both_connections_def channel_shown_def assms)

definition talker_update :: "uid \<Rightarrow> (16 word \<times> audio_mapping list) list \<Rightarrow> channel_connection \<Rightarrow> channel_connection" where
  "talker_update u mls cc = (if uid_eq (sid_entityID (cco_stream cc)) u then update_from_lists mls cc else cc)"

lemma update_from_talker_stream [simp]: "cco_stream (snd (update_from_talker b maps r cc)) = cco_stream cc"
  by (simp add: update_from_talker_def Let_def split: option.splits)

lemma update_from_lists_stream [simp]: "cco_stream (update_from_lists mls cc) = cco_stream cc"
  by (induction mls rule: rev_induct) (auto simp: update_from_lists_def)

lemma from_talker_mappings:
  "snd (computeAndUpdateChannelConnectionsFromTalkerMappings u base maps r e) =
    e\<lparr>lse_channelConnections := map (\<lambda>(cl, chi). (cl, both_connections
      (\<lambda>cc. if uid_eq (sid_entityID (cco_stream cc)) u then snd (update_from_talker base maps r cc) else cc) chi)) (lse_channelConnections e)\<rparr>"
  by (simp add: computeAndUpdateChannelConnectionsFromTalkerMappings_def snd_update_channels snd_on_connections)

lemma from_configuration_node:
  "snd (computeAndUpdateChannelConnectionsFromConfigurationNode u units e) =
    e\<lparr>lse_channelConnections := map (\<lambda>(cl, chi). (cl, both_connections (talker_update u (concat (map port_mapping_lists (concat units)))) chi))
        (lse_channelConnections e)\<rparr>"
proof -
  let ?go = "\<lambda>(evs, e) (base, mappings).
         let (evs', e') = computeAndUpdateChannelConnectionsFromTalkerMappings u base mappings False e in (evs @ evs', e')"
  have "snd (foldl ?go ([], e) mls) = e\<lparr>lse_channelConnections := map (\<lambda>(cl, chi). (cl, both_connections (talker_update u mls) chi))
        (lse_channelConnections e)\<rparr>" for mls
  proof (induction mls rule: rev_induct)
    case Nil
    have id: "talker_update u [] = id" by (auto simp: talker_update_def update_from_lists_def fun_eq_iff)
    then have "both_connections (talker_update u []) = (\<lambda>chi. chi)"
      by (intro ext) (simp add: both_connections_def id option.map_id)
    then show ?case by (simp add: case_prod_unfold)
  next
    case (snoc l mls)
    obtain base maps where l: "l = (base, maps)" by fastforce
    let ?g = "\<lambda>cc. if uid_eq (sid_entityID (cco_stream cc)) u then snd (update_from_talker base maps False cc) else cc"
    have both: "both_connections ?g (both_connections (talker_update u mls) chi) = both_connections (talker_update u (mls @ [l])) chi" for chi
      by (auto simp: both_connections_def talker_update_def update_from_lists_def l option.map_comp comp_def
          update_from_lists_stream [unfolded update_from_lists_def] intro!: option.map_cong)
    have last: "snd (foldl ?go ([], e) (mls @ [l])) =
        snd (computeAndUpdateChannelConnectionsFromTalkerMappings u base maps False (snd (foldl ?go ([], e) mls)))"
      by (simp add: l case_prod_beta Let_def)
    show ?case unfolding last snoc from_talker_mappings by (simp add: case_prod_beta comp_def both)
  qed
  then show ?thesis by (simp add: computeAndUpdateChannelConnectionsFromConfigurationNode_def)
qed

lemma connection_shown_stream [simp]: "cco_stream (connection_shown talkers stream m) = stream"
  by (simp add: connection_shown_def)

lemma shown_stream: "cco_stream (mapping_shown_as talkers ins mo) = (case mo of None \<Rightarrow> StreamIdentification_new
   | Some m \<Rightarrow> (case al_get (am_streamIndex m) ins of Some info \<Rightarrow> sci_talkerStream info | None \<Rightarrow> StreamIdentification_new))"
  by (simp add: mapping_shown_as_def connection_shown_def ChannelConnection_new_def split: option.splits)

lemma uid_eq_valid: "uid_isValid u \<Longrightarrow> uid_eq v u \<longleftrightarrow> v = u"
  by (auto simp: uid_eq_def)

lemma arrived_mapping:
  assumes "mapped_once units" "talkers u = None" "uid_isValid u"
  shows "talker_update u (concat (map port_mapping_lists (concat units))) (mapping_shown_as talkers ins mo)
    = mapping_shown_as (talkers(u := Some units)) ins mo"
proof (cases "sid_entityID (cco_stream (mapping_shown_as talkers ins mo)) = u")
  case True
  then obtain m where m: "mo = Some m" using assms(3) sid_new_invalid by (cases mo) (auto simp: shown_stream)
  then show ?thesis using True assms arrived_shown [OF assms(1), of talkers _ m]
    by (auto simp: talker_update_def uid_eq_valid mapping_shown_as_def connection_shown_def)
next
  case False
  then show ?thesis using assms(3)
    by (cases mo) (auto simp: talker_update_def uid_eq_valid mapping_shown_as_def other_shown)
qed

lemma left_mapping:
  assumes "uid_isValid u"
  shows "(if uid_eq (sid_entityID (cco_stream (mapping_shown_as talkers ins mo))) u then snd (talker_left (mapping_shown_as talkers ins mo))
      else mapping_shown_as talkers ins mo) = mapping_shown_as (talkers(u := None)) ins mo"
proof (cases "sid_entityID (cco_stream (mapping_shown_as talkers ins mo)) = u")
  case True
  then obtain m where m: "mo = Some m" using assms sid_new_invalid by (cases mo) (auto simp: shown_stream)
  then show ?thesis using True assms left_shown [of _ talkers m]
    by (auto simp: uid_eq_valid mapping_shown_as_def connection_shown_def)
next
  case False
  then show ?thesis using assms
    by (cases mo) (auto simp: uid_eq_valid mapping_shown_as_def other_shown)
qed

lemma changed_mapping:
  assumes "mapping_held ins mo" "infos_settled ins" "al_get i ins = Some info" "info_settled info'"
    "\<not> connection_info_eq info info'" "i \<noteq> channel_invalid_index"
  shows "(if sch_streamIndex (cco_streamChannel (mapping_shown_as talkers ins mo)) = i
      then snd (update_from_transition talkers (sci_talkerStream info') info info' (mapping_shown_as talkers ins mo))
      else mapping_shown_as talkers ins mo) = mapping_shown_as talkers (al_put i info' ins) mo"
proof (cases mo)
  case None
  then show ?thesis using assms(6) by (simp add: mapping_shown_as_def ChannelConnection_new_def StreamChannel_new_def)
next
  case (Some m)
  then have "am_streamIndex m \<noteq> channel_invalid_index" using assms(1) by (simp add: mapping_held_def)
  from transition_shown [OF mapped_valid [OF this] _ assms(4,5), of talkers] show ?thesis
    using Some assms(2,3)
    by (auto simp: mapping_shown_as_def connection_shown_def stream_channel_mapped_def infos_settled_def)
qed

definition listener_settled :: "listening_entity \<Rightarrow> bool" where
  "listener_settled e \<longleftrightarrow> listener_ready (e\<lparr>lse_channelConnections := []\<rparr>)"

lemma port_keys_channels [simp]: "port_keys (e\<lparr>lse_channelConnections := cs\<rparr>) = port_keys e"
  by (simp add: port_keys_def)

lemma channels_shown_channels [simp]: "channels_shown talkers (e\<lparr>lse_channelConnections := cs\<rparr>) = channels_shown talkers e"
  by (simp add: channels_shown_def)

lemma listener_settled_channels [simp]: "listener_settled (e\<lparr>lse_channelConnections := cs\<rparr>) = listener_settled e"
  by (simp add: listener_settled_def)

text \<open>A step that does to every connection what the new talkers and streams show keeps the channels shown.\<close>

lemma channels_step:
  assumes "lse_channelConnections e = channels_shown talkers e" "listener_settled e"
    and "lse_mapped e' = lse_mapped e" "lse_streamInputs e' = ins'"
    and "\<And>mo. mapping_held (lse_streamInputs e) mo \<Longrightarrow>
      f (mapping_shown_as talkers (lse_streamInputs e) mo) = mapping_shown_as talkers' ins' mo"
  shows "map (\<lambda>(cl, chi). (cl, both_connections f chi)) (lse_channelConnections e) = channels_shown talkers' e'"
proof -
  have "both_connections f (channel_shown talkers (lse_streamInputs e) (getMappingForInputClusterIdentification (lse_mapped e) p cl))
      = channel_shown talkers' ins' (getMappingForInputClusterIdentification (lse_mapped e) p cl)"
    if "(p, cl) \<in> set (port_keys e)" for p cl
  proof -
    obtain r primary secondary where g: "getMappingForInputClusterIdentification (lse_mapped e) p cl = (r, primary, secondary)"
      by (cases "getMappingForInputClusterIdentification (lse_mapped e) p cl") auto
    then have "mapping_held (lse_streamInputs e) primary" "mapping_held (lse_streamInputs e) secondary"
      using assms(2) that by (auto simp: listener_settled_def listener_ready_def)
    then show ?thesis unfolding g by (intro both_channel_shown) (auto intro: assms(5))
  qed
  moreover have "port_keys e' = port_keys e" by (simp add: port_keys_def assms(3))
  ultimately show ?thesis unfolding assms(1) by (auto simp: channels_shown_def assms(3,4))
qed

lemma channels_go_shown:
  assumes "channels_go (talkers, e) (talkers', e')" "lse_channelConnections e = channels_shown talkers e" "listener_settled e"
  shows "lse_channelConnections e' = channels_shown talkers' e' \<and> listener_settled e'"
  using assms(1)
proof cases
  case (stream_changed i info info')
  let ?ins = "al_put i info' (lse_streamInputs e)"
  let ?f = "\<lambda>cc. if sch_streamIndex (cco_streamChannel cc) = i
      then snd (update_from_transition talkers (sci_talkerStream info') info info' cc) else cc"
  have settled: "infos_settled (lse_streamInputs e)" using assms(3) by (simp add: listener_settled_def listener_ready_def)
  have e': "e' = e\<lparr>lse_streamInputs := ?ins, lse_channelConnections := map (\<lambda>(cl, chi). (cl, both_connections ?f chi)) (lse_channelConnections e)\<rparr>"
    unfolding stream_changed channels_stream_changed_def snd_update_channels snd_on_connections by simp
  have held: "mapping_held ?ins mo = mapping_held (lse_streamInputs e) mo" for mo
    using stream_changed(3) by (auto simp: mapping_held_def split: option.splits)
  have "infos_settled ?ins" using settled stream_changed(4) by (simp add: infos_settled_def)
  then have "listener_settled e'" using assms(3)
    unfolding e' listener_settled_def listener_ready_def port_keys_def by (simp add: held)
  moreover have "map (\<lambda>(cl, chi). (cl, both_connections ?f chi)) (lse_channelConnections e) = channels_shown talkers e'"
  proof (rule channels_step [OF assms(2,3), where ins' = ?ins])
    show "lse_mapped e' = lse_mapped e" "lse_streamInputs e' = ?ins" by (simp_all add: e')
    show "?f (mapping_shown_as talkers (lse_streamInputs e) mo) = mapping_shown_as talkers ?ins mo"
      if "mapping_held (lse_streamInputs e) mo" for mo
      by (rule changed_mapping [OF that settled stream_changed(3,4,5,6)])
  qed
  moreover have "lse_channelConnections e' = map (\<lambda>(cl, chi). (cl, both_connections ?f chi)) (lse_channelConnections e)"
    by (simp add: e')
  ultimately show ?thesis unfolding stream_changed(1) by metis
next
  case (talker_arrived u units)
  have "map (\<lambda>(cl, chi). (cl, both_connections (talker_update u (concat (map port_mapping_lists (concat units)))) chi))
      (lse_channelConnections e) = channels_shown talkers' e'"
    unfolding talker_arrived(1)
    by (rule channels_step [OF assms(2,3), where ins' = "lse_streamInputs e"])
      (simp_all add: talker_arrived(2) from_configuration_node arrived_mapping [of units talkers u, OF talker_arrived(5,3,4)])
  then show ?thesis using assms(3) by (simp add: talker_arrived(2) from_configuration_node)
next
  case (talker_gone u)
  let ?f = "\<lambda>cc. if uid_eq (sid_entityID (cco_stream cc)) u then snd (talker_left cc) else cc"
  have on: "mpe_advertised (lse_mapped e) \<and> lse_hasModel e \<and> lse_isListener e"
    using assms(3) by (simp add: listener_settled_def listener_ready_def)
  have e': "e' = e\<lparr>lse_channelConnections := map (\<lambda>(cl, chi). (cl, both_connections ?f chi)) (lse_channelConnections e)\<rparr>"
    using on by (simp add: talker_gone channels_talker_left_def snd_update_channels snd_on_connections)
  have "map (\<lambda>(cl, chi). (cl, both_connections ?f chi)) (lse_channelConnections e) = channels_shown talkers' e'"
    unfolding talker_gone(1)
  proof (rule channels_step [OF assms(2,3), where ins' = "lse_streamInputs e"])
    show "lse_mapped e' = lse_mapped e" "lse_streamInputs e' = lse_streamInputs e" by (simp_all add: e')
    show "?f (mapping_shown_as talkers (lse_streamInputs e) mo) = mapping_shown_as (talkers(u := None)) (lse_streamInputs e) mo" for mo
      by (rule left_mapping [OF talker_gone(3)])
  qed
  moreover have "lse_channelConnections e' = map (\<lambda>(cl, chi). (cl, both_connections ?f chi)) (lse_channelConnections e)"
    by (simp add: e')
  moreover have "listener_settled e'" using assms(3) by (simp add: e')
  ultimately show ?thesis unfolding talker_gone(1) by metis
qed

lemma al_put_new: "k \<notin> fst ` set es \<Longrightarrow> al_put k v es = es @ [(k, v)]"
  by (induction es) auto

lemma channels_computed_shown:
  assumes "listener_ready e"
  shows "channels_computed talkers e = e\<lparr>lse_channelConnections := channels_shown talkers e\<rparr>"
proof -
  let ?put = "\<lambda>(p, cl) e. e\<lparr>lse_channelConnections := al_put cl
           (snd (computeAndUpdateChannelConnectionFromListenerMapping talkers (lse_streamInputs e)
              (getMappingForInputClusterIdentification (lse_mapped e) p cl)
              (case al_get cl (lse_channelConnections e) of Some chi \<Rightarrow> chi | None \<Rightarrow> ChannelIdentification_new)))
           (lse_channelConnections e)\<rparr>"
  let ?shown = "\<lambda>(p, cl). (cl, channel_shown talkers (lse_streamInputs e) (getMappingForInputClusterIdentification (lse_mapped e) p cl))"
  have settled: "infos_settled (lse_streamInputs e)" using assms by (simp add: listener_ready_def)
  have "fold ?put ks (e\<lparr>lse_channelConnections := cs\<rparr>) = e\<lparr>lse_channelConnections := cs @ map ?shown ks\<rparr>"
    if "set ks \<subseteq> set (port_keys e)" "distinct (map snd ks)" "\<forall>k\<in>set ks. snd k \<notin> fst ` set cs" for ks cs
    using that
  proof (induction ks arbitrary: cs)
    case (Cons k ks)
    obtain p cl where k: "k = (p, cl)" by fastforce
    obtain r primary secondary where g: "getMappingForInputClusterIdentification (lse_mapped e) p cl = (r, primary, secondary)"
      by (cases "getMappingForInputClusterIdentification (lse_mapped e) p cl") auto
    have "(p, cl) \<in> set (port_keys e)" using Cons.prems(1) k by simp
    then have held: "mapping_held (lse_streamInputs e) primary" "mapping_held (lse_streamInputs e) secondary"
      using assms g by (auto simp: listener_ready_def)
    have new: "cl \<notin> fst ` set cs" using Cons.prems(3) k by simp
    then have "al_get cl cs = None" by (induction cs) auto
    then have put: "?put k (e\<lparr>lse_channelConnections := cs\<rparr>) = e\<lparr>lse_channelConnections := cs @ [?shown k]\<rparr>"
      using fresh_channel_shown [OF held settled, of talkers r] by (simp add: k g al_put_new [OF new])
    have "fold ?put ks (e\<lparr>lse_channelConnections := cs @ [?shown k]\<rparr>) = e\<lparr>lse_channelConnections := (cs @ [?shown k]) @ map ?shown ks\<rparr>"
      using Cons.prems k by (intro Cons.IH) (auto simp: image_iff)
    then show ?case unfolding fold_simps(2) put by simp
  qed simp
  note all = this
  have e: "e\<lparr>lse_channelConnections := []\<rparr> = e" using assms by (cases e) (simp add: listener_ready_def)
  have "fold ?put (port_keys e) (e\<lparr>lse_channelConnections := []\<rparr>) = e\<lparr>lse_channelConnections := [] @ map ?shown (port_keys e)\<rparr>"
    using assms by (intro all) (simp_all add: listener_ready_def)
  then show ?thesis unfolding e channels_computed_def channels_shown_def port_keys_def by simp
qed

text \<open>
  C22.  From the advertising of a listener, over any sequence of connections of its streams made, undone and moved
  from one talker to another, and of talkers that are advertised and that leave, when the only talkers known are
  advertised ones that map a channel of a stream once: every channel shows the stream channel mapped to it, the
  talker's stream connected there, and the cluster channel the talker sends on it as far as the talker is known.
\<close>

theorem channel_connections_shown:
  assumes "listener_ready e0" and "channels_go\<^sup>*\<^sup>* (talkers0, channels_computed talkers0 e0) (talkers, e)"
  shows "lse_channelConnections e = channels_shown talkers e"
proof -
  have "lse_channelConnections e = channels_shown talkers e \<and> listener_settled e"
    using assms(2)
  proof (induction rule: rtranclp_induct2)
    case refl
    show ?case using assms(1) by (simp add: channels_computed_shown listener_settled_def) (simp add: listener_ready_def)
  next
    case (step talkers e talkers' e')
    then show ?case using channels_go_shown by blast
  qed
  then show ?thesis by simp
qed

definition listening_device :: "audio_mapping list \<Rightarrow> connection_info \<Rightarrow> listening_entity" where
  "listening_device maps info =
     \<lparr>lse_mapped = \<lparr>mpe_advertised = True, mpe_streamInputs = 2, mpe_streamOutputs = 0,
        mpe_portInputs = [(0, \<lparr>spt_baseCluster = 4, spt_numberOfClusters = 2, spt_audioClusters = [(4, 1), (5, 1)],
          spt_audioMaps = [], spt_dynamicAudioMap = maps\<rparr>)],
        mpe_portOutputs = [], mpe_redundantPrimaryInputs = [], mpe_redundantSecondaryInputs = []\<rparr>,
      lse_isListener = True, lse_hasModel = True, lse_streamInputs = [(0, info)], lse_channelConnections = []\<rparr>"

definition sending_units :: "audio_mapping list \<Rightarrow> stream_port list list" where
  "sending_units maps = [[\<lparr>spt_baseCluster = 10, spt_numberOfClusters = 2, spt_audioClusters = [(10, 1), (11, 1)],
     spt_audioMaps = [], spt_dynamicAudioMap = maps\<rparr>]]"

definition bound_to_7 :: connection_info where
  "bound_to_7 = \<lparr>sci_talkerStream = \<lparr>sid_entityID = 7, sid_streamIndex = 2\<rparr>, sci_state = Connected\<rparr>"

text \<open>The cluster channel a channel shows, with the stream channel mapped to it.\<close>

definition channel_of_4 :: "listening_entity \<Rightarrow> ((16 word \<times> 16 word) \<times> 16 word) option" where
  "channel_of_4 e = map_option (\<lambda>chi.
      ((sch_streamIndex (cco_streamChannel (chi_connection chi)), sch_streamChannel (cco_streamChannel (chi_connection chi))),
       cli_clusterIndex (cco_talkerCluster (chi_connection chi))))
     (al_get \<lparr>cli_clusterIndex = 4, cli_clusterChannel = 0\<rparr> (lse_channelConnections e))"

theorem channel_connections_shown_witness:
  "channel_of_4 (snd (computeAndUpdateChannelConnectionsFromConfigurationNode 7 (sending_units [a_mapping 2 3 1 0])
      (channels_computed Map.empty (listening_device [a_mapping 0 3 0 0] bound_to_7)))) = Some ((0, 3), 11)"
proof -
  let ?e = "listening_device [a_mapping 0 3 0 0] bound_to_7"
  let ?u = "sending_units [a_mapping 2 3 1 0]"
  let ?e' = "snd (computeAndUpdateChannelConnectionsFromConfigurationNode 7 ?u (channels_computed Map.empty ?e))"
  have keys: "port_keys ?e = map (Pair (snd (hd (mpe_portInputs (lse_mapped ?e)))))
      [\<lparr>cli_clusterIndex = 4, cli_clusterChannel = 0\<rparr>, \<lparr>cli_clusterIndex = 5, cli_clusterChannel = 0\<rparr>]"
    by code_simp
  have settled: "infos_settled (lse_streamInputs ?e)"
    by (simp add: infos_settled_def listening_device_def info_settled_def bound_to_7_def uid_isValid_def uid_null_def
        uid_uninitialized_def)
  have found: "getMappingForInputClusterIdentification (lse_mapped ?e) (snd (hd (mpe_portInputs (lse_mapped ?e))))
      \<lparr>cli_clusterIndex = 4, cli_clusterChannel = 0\<rparr> = (False, Some (a_mapping 0 3 0 0), None)"
    "getMappingForInputClusterIdentification (lse_mapped ?e) (snd (hd (mpe_portInputs (lse_mapped ?e))))
      \<lparr>cli_clusterIndex = 5, cli_clusterChannel = 0\<rparr> = (False, None, None)" by code_simp+
  have "listener_ready ?e"
    unfolding listener_ready_def keys using settled
    by (simp add: found mapping_held_def) (simp add: listening_device_def a_mapping_def channel_invalid_index_def)
  moreover have "mapped_once ?u"
    by (simp add: mapped_once_def sending_units_def all_mappings_def port_mapping_lists_def)
  then have "channels_go (Map.empty, channels_computed Map.empty ?e) (Map.empty(7 := Some ?u), ?e')"
    by (intro talker_arrived) (simp_all add: uid_isValid_def uid_null_def uid_uninitialized_def)
  ultimately have "lse_channelConnections ?e' = channels_shown (Map.empty(7 := Some ?u)) ?e'"
    by (intro channel_connections_shown [of ?e Map.empty]) auto
  moreover have "channels_shown (Map.empty(7 := Some ?u)) ?e' = channels_shown (Map.empty(7 := Some ?u)) ?e"
    using \<open>listener_ready ?e\<close> by (simp add: from_configuration_node channels_computed_shown)
  moreover have "map_option (\<lambda>chi. ((sch_streamIndex (cco_streamChannel (chi_connection chi)),
        sch_streamChannel (cco_streamChannel (chi_connection chi))), cli_clusterIndex (cco_talkerCluster (chi_connection chi))))
      (al_get \<lparr>cli_clusterIndex = 4, cli_clusterChannel = 0\<rparr> (channels_shown (Map.empty(7 := Some ?u)) ?e)) = Some ((0, 3), 11)"
    by code_simp
  ultimately show ?thesis by (simp add: channel_of_4_def)
qed

text \<open>
  What a change of the mappings of the listener does is another matter.  A channel that is mapped to another
  channel of the same stream keeps the cluster of the channel before: the talker sends channel 5 of its stream from
  cluster 10, the connection shows 11.
\<close>

lemma remapped_channel_stale:
  "let talkers = Map.empty(7 := Some (sending_units [a_mapping 2 3 1 0, a_mapping 2 5 0 0]));
       e = channels_computed talkers (listening_device [a_mapping 0 3 0 0] bound_to_7);
       e' = e\<lparr>lse_mapped := snd (updateStreamPortInputAudioMappingsAdded 0 [a_mapping 0 5 0 0] (lse_mapped e))\<rparr>
   in channel_of_4 (snd (channels_mappings_added talkers 0 [a_mapping 0 5 0 0] e')) = Some ((0, 5), 11)
      \<and> channel_of_4 (channels_computed talkers (listening_device [a_mapping 0 5 0 0] bound_to_7)) = Some ((0, 5), 10)"
  by code_simp

text \<open>A mapping that is refused, of a stream the entity has not, is shown all the same.\<close>

lemma refused_mapping_shown:
  "let e = channels_computed Map.empty (listening_device [a_mapping 0 3 0 0] bound_to_7);
       e' = e\<lparr>lse_mapped := snd (updateStreamPortInputAudioMappingsAdded 0 [a_mapping 9 1 0 0] (lse_mapped e))\<rparr>
   in map_option spt_dynamicAudioMap (al_get 0 (mpe_portInputs (lse_mapped e'))) = Some [a_mapping 0 3 0 0]
      \<and> map_option fst (channel_of_4 (snd (channels_mappings_added Map.empty 0 [a_mapping 9 1 0 0] e'))) = Some (9, 1)"
  by code_simp

text \<open>
  A stream connected while its talker is still enumerated shows the cluster of the talker.  When the talker leaves
  before it is advertised nothing is done, so that the channel goes on showing cluster 11, where a listener advertised
  then shows none.
\<close>

definition bound_to_none :: connection_info where
  "bound_to_none = \<lparr>sci_talkerStream = StreamIdentification_new, sci_state = NotConnected\<rparr>"

lemma enumerated_talker_stale:
  "let e = channels_computed Map.empty (listening_device [a_mapping 0 3 0 0] bound_to_none);
       connected = snd (channels_stream_changed (Map.empty(7 := Some (sending_units [a_mapping 2 3 1 0]))) 0
         (sci_talkerStream bound_to_7) bound_to_none bound_to_7 (e\<lparr>lse_streamInputs := [(0, bound_to_7)]\<rparr>))
   in channel_of_4 connected = Some ((0, 3), 11)
      \<and> channel_of_4 (channels_computed Map.empty (connected\<lparr>lse_channelConnections := []\<rparr>)) = Some ((0, 3), channel_invalid_index)"
  by code_simp

text \<open>The removal of a mapping that is not there clears the channel, whose mapping stays.\<close>

lemma absent_mapping_removed:
  "let e = channels_computed Map.empty (listening_device [a_mapping 0 3 0 0] bound_to_7);
       e' = e\<lparr>lse_mapped := snd (updateStreamPortInputAudioMappingsRemoved 0 [a_mapping 1 1 0 0] (lse_mapped e))\<rparr>
   in map_option spt_dynamicAudioMap (al_get 0 (mpe_portInputs (lse_mapped e'))) = Some [a_mapping 0 3 0 0]
      \<and> map_option fst (channel_of_4 (snd (channels_mappings_removed Map.empty 0 [a_mapping 1 1 0 0] e'))) = Some (0xffff, 0)"
  by code_simp

end
