(* ===== verification/DeviceMemory.thy ===== *)
theory DeviceMemory
  imports LocalEntity
begin

text \<open>
  The transfers of the memory of a device by the controller library: \<^verbatim>\<open>readDeviceMemory\<close> and
  \<^verbatim>\<open>writeDeviceMemory\<close> of src/controller/avdeccControllerImplOverrides.cpp, and the turns that their answers
  take (\<^verbatim>\<open>onUserReadDeviceMemoryResult\<close>, \<^verbatim>\<open>onUserWriteDeviceMemoryResult\<close>).

  A transfer cuts its range into memory operations that fit one message.  Each answer is a turn of a closure
  that carries the rest of the transfer: a turn gives the events (the operation sent, the calls of the handlers
  of the user) and the closure that waits for the next answer, if there is one.  The progress handler gets the
  size done and the size in all, of which the code makes a percentage; a call of it that throws is the answer
  None.  The allocation of the buffer is taken to succeed.
\<close>

section \<open>The operations sent\<close>

definition AaStatus_TlvInvalid :: command_status where "AaStatus_TlvInvalid = 5"
definition AaStatus_Aborted :: command_status where "AaStatus_Aborted = 994"

definition AaMode_Read :: "8 word" where "AaMode_Read = 0"
definition AaMode_Write :: "8 word" where "AaMode_Write = 1"

definition AaAecpMaxSingleTlvMemoryDataLength :: "build_options \<Rightarrow> 16 word" where
  "AaAecpMaxSingleTlvMemoryDataLength opts =
     of_nat (MaximumSendLength opts - Aecpdu_HeaderLength - AaAecpdu_HeaderLength - TlvHeaderLength)"

definition Tlv_new :: tlv where
  "Tlv_new = \<lparr>tlv_mode = AaMode_Read, tlv_address = 0, tlv_memoryData = []\<rparr>"

definition Tlv_isValid :: "tlv \<Rightarrow> bool" where
  "Tlv_isValid t \<longleftrightarrow> tlv_memoryData t \<noteq> []"

text \<open>The size of the next operation is the rest, or the most one message takes.\<close>

definition next_query_size :: "build_options \<Rightarrow> 64 word \<Rightarrow> nat" where
  "next_query_size opts left =
     unat (if left > ucast (AaAecpMaxSingleTlvMemoryDataLength opts)
           then ucast (AaAecpMaxSingleTlvMemoryDataLength opts) else left)"

definition makeNextReadDeviceMemoryTlv :: "build_options \<Rightarrow> 64 word \<Rightarrow> 64 word \<Rightarrow> 64 word \<Rightarrow> tlv" where
  "makeNextReadDeviceMemoryTlv opts baseAddress len currentSize =
     (if currentSize < len
      then case Tlv_alloc AaMode_Read (baseAddress + currentSize) (next_query_size opts (len - currentSize)) of
             Some t \<Rightarrow> t
           | None \<Rightarrow> Tlv_new
      else Tlv_new)"

definition makeNextWriteDeviceMemoryTlv :: "build_options \<Rightarrow> 64 word \<Rightarrow> byte list \<Rightarrow> 64 word \<Rightarrow> tlv" where
  "makeNextWriteDeviceMemoryTlv opts baseAddress memoryBuffer currentSize =
     (let len = of_nat (length memoryBuffer)
      in if currentSize < len
         then case Tlv_copy (baseAddress + currentSize) AaMode_Write
                     (take (next_query_size opts (len - currentSize)) (drop (unat currentSize) memoryBuffer)) of
                Some t \<Rightarrow> t
              | None \<Rightarrow> Tlv_new
         else Tlv_new)"

section \<open>Transfers\<close>

text \<open>
  What a turn does, in the order it does it.  The handlers of the user get the entity, or a null pointer when
  it is not advertised any more: the first argument says which.
\<close>

datatype transfer_event =
    SentTlv tlv
  | Progress bool "64 word" "64 word"
  | ReadCompleted bool command_status "byte list"
  | WriteCompleted bool command_status

type_synonym progress_handler = "(bool \<Rightarrow> 64 word \<Rightarrow> 64 word \<Rightarrow> bool option) option"

record transfer_answer =
  ta_advertised :: bool
  ta_status :: command_status
  ta_tlvs :: "tlv list"
  ta_progress :: progress_handler

record read_transfer =
  rt_baseAddress :: "64 word"
  rt_length :: "64 word"
  rt_memoryBuffer :: "byte list"

record write_transfer =
  wt_baseAddress :: "64 word"
  wt_sentSize :: "64 word"
  wt_memoryBuffer :: "byte list"

text \<open>The call of the progress handler, and whether it asks to stop.\<close>

definition notify_progress :: "progress_handler \<Rightarrow> bool \<Rightarrow> 64 word \<Rightarrow> 64 word \<Rightarrow> transfer_event list \<times> bool" where
  "notify_progress progressHandler ent done len =
     (case progressHandler of
        None \<Rightarrow> ([], False)
      | Some h \<Rightarrow> ([Progress ent done len], h ent done len = Some True))"

definition onUserReadDeviceMemoryResult ::
  "build_options \<Rightarrow> transfer_answer \<Rightarrow> read_transfer \<Rightarrow> transfer_event list \<times> read_transfer option"
where
  "onUserReadDeviceMemoryResult opts a t =
     (let ent = ta_advertised a; len = rt_length t in
      if ta_status a = Status_Success then
        let memoryBuffer = rt_memoryBuffer t @ concat (map tlv_memoryData (ta_tlvs a));
            tlv = makeNextReadDeviceMemoryTlv opts (rt_baseAddress t) len (of_nat (length memoryBuffer))
        in if Tlv_isValid tlv
           then let (evs, stop) = notify_progress (ta_progress a) ent (of_nat (length memoryBuffer)) len
                in if stop then (evs @ [ReadCompleted ent AaStatus_Aborted memoryBuffer], None)
                   else (evs @ [SentTlv tlv], Some (t\<lparr>rt_memoryBuffer := memoryBuffer\<rparr>))
           else ([ReadCompleted ent (ta_status a) memoryBuffer], None)
      else ([ReadCompleted ent (ta_status a) []], None))"

definition onUserWriteDeviceMemoryResult ::
  "build_options \<Rightarrow> transfer_answer \<Rightarrow> write_transfer \<Rightarrow> transfer_event list \<times> write_transfer option"
where
  "onUserWriteDeviceMemoryResult opts a t =
     (let ent = ta_advertised a; sentSize = wt_sentSize t in
      if ta_status a = Status_Success then
        let tlv = makeNextWriteDeviceMemoryTlv opts (wt_baseAddress t) (wt_memoryBuffer t) sentSize
        in if Tlv_isValid tlv
           then let (evs, stop) = notify_progress (ta_progress a) ent sentSize (of_nat (length (wt_memoryBuffer t)))
                in if stop then (evs @ [WriteCompleted ent AaStatus_Aborted], None)
                   else (evs @ [SentTlv tlv],
                         Some (t\<lparr>wt_sentSize := sentSize + of_nat (length (tlv_memoryData tlv))\<rparr>))
           else ([WriteCompleted ent (ta_status a)], None)
      else ([WriteCompleted ent (ta_status a)], None))"

text \<open>The command of the user, by whether the entity is known and advertised.\<close>

definition readDeviceMemory ::
  "build_options \<Rightarrow> bool \<Rightarrow> 64 word \<Rightarrow> 64 word \<Rightarrow> transfer_event list \<times> read_transfer option"
where
  "readDeviceMemory opts isKnown address len =
     (if isKnown then
        let tlv = makeNextReadDeviceMemoryTlv opts address len 0
        in if Tlv_isValid tlv
           then ([SentTlv tlv], Some \<lparr>rt_baseAddress = address, rt_length = len, rt_memoryBuffer = []\<rparr>)
           else ([ReadCompleted False AaStatus_TlvInvalid []], None)
      else ([ReadCompleted False Status_UnknownEntity []], None))"

definition writeDeviceMemory ::
  "build_options \<Rightarrow> bool \<Rightarrow> 64 word \<Rightarrow> byte list \<Rightarrow> transfer_event list \<times> write_transfer option"
where
  "writeDeviceMemory opts isKnown address memoryBuffer =
     (if isKnown then
        let tlv = makeNextWriteDeviceMemoryTlv opts address memoryBuffer 0
        in if Tlv_isValid tlv
           then ([SentTlv tlv], Some \<lparr>wt_baseAddress = address,
                   wt_sentSize = of_nat (length (tlv_memoryData tlv)), wt_memoryBuffer = memoryBuffer\<rparr>)
           else ([WriteCompleted False AaStatus_TlvInvalid], None)
      else ([WriteCompleted False Status_UnknownEntity], None))"

text \<open>
  A transfer against a device: in each turn the device answers the last operation sent.  What a device answers
  may change from turn to turn, so that a run is a list of devices; those after the end are not asked.
\<close>

definition sent_tlvs :: "transfer_event list \<Rightarrow> tlv list" where
  "sent_tlvs evs = concat (map (\<lambda>e. case e of SentTlv t \<Rightarrow> [t] | _ \<Rightarrow> []) evs)"

fun transfer_run ::
  "('a \<Rightarrow> 't \<Rightarrow> transfer_event list \<times> 't option) \<Rightarrow> (tlv \<Rightarrow> 'a) list \<Rightarrow> transfer_event list \<times> 't option
     \<Rightarrow> transfer_event list \<times> 't option"
where
  "transfer_run turn [] s = s"
| "transfer_run turn (d # ds) (evs, None) = (evs, None)"
| "transfer_run turn (d # ds) (evs, Some t) =
     (let (evs', t') = turn (d (last (sent_tlvs evs))) t in transfer_run turn ds (evs @ evs', t'))"

definition is_completion :: "transfer_event \<Rightarrow> bool" where
  "is_completion e = (case e of ReadCompleted _ _ _ \<Rightarrow> True | WriteCompleted _ _ \<Rightarrow> True | _ \<Rightarrow> False)"

definition completions :: "transfer_event list \<Rightarrow> transfer_event list" where
  "completions evs = filter is_completion evs"

lemma sent_tlvs_simps [simp]:
  "sent_tlvs [] = []" "sent_tlvs (SentTlv t # evs) = t # sent_tlvs evs"
  "sent_tlvs (Progress b x y # evs) = sent_tlvs evs"
  "sent_tlvs (ReadCompleted b st bs # evs) = sent_tlvs evs" "sent_tlvs (WriteCompleted b st # evs) = sent_tlvs evs"
  "sent_tlvs (evs @ evs') = sent_tlvs evs @ sent_tlvs evs'"
  by (simp_all add: sent_tlvs_def)

lemma completions_simps [simp]:
  "completions [] = []" "completions (SentTlv t # evs) = completions evs"
  "completions (Progress b x y # evs) = completions evs"
  "completions (ReadCompleted b st bs # evs) = ReadCompleted b st bs # completions evs"
  "completions (WriteCompleted b st # evs) = WriteCompleted b st # completions evs"
  "completions (evs @ evs') = completions evs @ completions evs'"
  by (simp_all add: completions_def is_completion_def)

section \<open>The contract of a transfer\<close>

lemma transfer_run_over [simp]: "transfer_run turn ds (evs, None) = (evs, None)"
  by (cases ds) simp_all

text \<open>
  A turn either sends one operation and waits, or completes; so a transfer calls its completion handler once,
  and has sent an operation for each answer but the last.
\<close>

locale memory_transfer =
  fixes turn :: "'a \<Rightarrow> 't \<Rightarrow> transfer_event list \<times> 't option"
  assumes goes_on: "turn a t = (evs, Some t') \<Longrightarrow> completions evs = [] \<and> length (sent_tlvs evs) = 1"
    and ends: "turn a t = (evs, None) \<Longrightarrow> length (completions evs) = 1 \<and> sent_tlvs evs = []"
begin

lemma one_completion:
  "length (completions evs) = (if t = None then 1 else 0) \<Longrightarrow> transfer_run turn ds (evs, t) = (evs', t') \<Longrightarrow>
     length (completions evs') = (if t' = None then 1 else 0)"
proof (induction ds arbitrary: evs t)
  case (Cons d ds)
  show ?case
  proof (cases t)
    case (Some u)
    obtain es v where e: "turn (d (last (sent_tlvs evs))) u = (es, v)" by fastforce
    have "length (completions (evs @ es)) = (if v = None then 1 else 0)"
      using Cons.prems(1) Some e goes_on ends by (cases v) auto
    from Cons.IH [OF this] show ?thesis using Cons.prems(2) Some e by simp
  qed (use Cons.prems in auto)
qed auto

lemma sent_while_waiting:
  "transfer_run turn ds (evs, t) = (evs', Some t') \<Longrightarrow> length (sent_tlvs evs') = length (sent_tlvs evs) + length ds"
proof (induction ds arbitrary: evs t)
  case (Cons d ds)
  show ?case
  proof (cases t)
    case (Some u)
    obtain es v where e: "turn (d (last (sent_tlvs evs))) u = (es, v)" by fastforce
    show ?thesis
    proof (cases v)
      case (Some w)
      then show ?thesis using Cons.IH [of "evs @ es" v] Cons.prems \<open>t = Some u\<close> e goes_on by fastforce
    qed (use Cons.prems Some e in auto)
  qed (use Cons.prems in auto)
qed auto

end

text \<open>Where the turns have less left to do, whatever is answered, the transfer is over in time.\<close>

locale ending_transfer = memory_transfer turn
  for turn :: "'a \<Rightarrow> 't \<Rightarrow> transfer_event list \<times> 't option" +
  fixes useful :: "'a \<Rightarrow> bool" and ok :: "'t \<Rightarrow> bool" and left :: "'t \<Rightarrow> nat"
  assumes less_left: "turn a t = (evs, Some t') \<Longrightarrow> useful a \<Longrightarrow> ok t \<Longrightarrow> ok t' \<and> left t' < left t"
begin

lemma over_in_time:
  "\<forall>d\<in>set ds. \<forall>q. useful (d q) \<Longrightarrow> ok t \<Longrightarrow> left t < length ds \<Longrightarrow>
     snd (transfer_run turn ds (evs, Some t)) = None"
proof (induction ds arbitrary: evs t)
  case (Cons d ds)
  obtain es v where e: "turn (d (last (sent_tlvs evs))) t = (es, v)" by fastforce
  show ?case
  proof (cases v)
    case (Some w)
    have "ok w \<and> left w < left t" using less_left [of _ t es w] e Some Cons.prems by fastforce
    then show ?thesis using Cons Some e by simp
  qed (simp add: e)
qed simp

end

text \<open>An invariant of the turns, for devices that keep to something.\<close>

lemma transfer_run_invariant:
  assumes turn: "\<And>evs t d es v. P evs (Some t) \<Longrightarrow> good d \<Longrightarrow> turn (d (last (sent_tlvs evs))) t = (es, v) \<Longrightarrow> P (evs @ es) v"
    and "\<forall>d\<in>set ds. good d" and "P evs t" and "transfer_run turn ds (evs, t) = (evs', t')"
  shows "P evs' t'"
  using assms(2-)
proof (induction ds arbitrary: evs t)
  case (Cons d ds)
  show ?case
  proof (cases t)
    case (Some u)
    obtain es v where e: "turn (d (last (sent_tlvs evs))) u = (es, v)" by fastforce
    have "P (evs @ es) v" using turn [of evs u d es v] e Cons.prems Some by simp
    then show ?thesis using Cons.IH Cons.prems Some e by simp
  qed (use Cons.prems in auto)
qed auto

section \<open>Sizes\<close>

definition chunk :: "build_options \<Rightarrow> nat" where
  "chunk opts = MaximumSendLength opts - 22"

lemma chunk_bounds: "0 < chunk opts" "chunk opts \<le> 1474"
  by (auto simp: chunk_def MaximumSendLength_def MaximumLength_BigPayloads_def MaximumLength_1722_1_def
      EthernetMaxFrameSize_def EtherLayer2_HeaderLength_def AvtpduControl_HeaderLength_def)

lemma next_query_size_eq: "next_query_size opts left = min (unat left) (chunk opts)"
proof -
  have "AaAecpMaxSingleTlvMemoryDataLength opts = of_nat (chunk opts)"
    by (simp add: AaAecpMaxSingleTlvMemoryDataLength_def chunk_def Aecpdu_HeaderLength_def AaAecpdu_HeaderLength_def
        TlvHeaderLength_def)
  moreover have "unat (of_nat (chunk opts) :: 16 word) = chunk opts"
    using chunk_bounds(2) [of opts] by (simp add: unsigned_of_nat take_bit_nat_eq_self)
  ultimately have u: "unat (ucast (AaAecpMaxSingleTlvMemoryDataLength opts) :: 64 word) = chunk opts"
    using chunk_bounds(2) [of opts] by (simp add: unsigned_ucast_eq take_bit_nat_eq_self)
  show ?thesis unfolding next_query_size_def by (simp add: word_less_nat_alt u min_def not_less)
qed

lemma makeNextReadDeviceMemoryTlv_eq:
  "makeNextReadDeviceMemoryTlv opts base len cur =
     (if cur < len then \<lparr>tlv_mode = AaMode_Read, tlv_address = base + cur,
        tlv_memoryData = replicate (min (unat (len - cur)) (chunk opts)) 0\<rparr> else Tlv_new)"
proof (cases "cur < len")
  case True
  then have "0 < unat (len - cur)"
    by (simp add: word_less_nat_alt unat_sub order.strict_implies_order)
  then show ?thesis using chunk_bounds [of opts]
    by (auto simp: makeNextReadDeviceMemoryTlv_def next_query_size_eq Tlv_alloc_def Tlv_MaxLength_def min_def split: if_splits)
qed (simp add: makeNextReadDeviceMemoryTlv_def)

lemma makeNextWriteDeviceMemoryTlv_eq:
  assumes "length buf < 2 ^ 64"
  shows "makeNextWriteDeviceMemoryTlv opts base buf cur =
     (if unat cur < length buf then \<lparr>tlv_mode = AaMode_Write, tlv_address = base + cur,
        tlv_memoryData = take (chunk opts) (drop (unat cur) buf)\<rparr> else Tlv_new)"
proof -
  have u: "unat (of_nat (length buf) :: 64 word) = length buf" using assms by (simp add: unsigned_of_nat take_bit_nat_eq_self)
  have "take (next_query_size opts (of_nat (length buf) - cur)) (drop (unat cur) buf) =
      take (chunk opts) (drop (unat cur) buf)" if "unat cur < length buf"
    using that by (simp add: next_query_size_eq unat_sub word_le_nat_alt u min_def)
  then show ?thesis using chunk_bounds [of opts]
    by (auto simp: makeNextWriteDeviceMemoryTlv_def word_less_nat_alt u Tlv_copy_def Tlv_MaxLength_def Let_def)
qed

lemma Tlv_isValid_new [simp]: "\<not> Tlv_isValid Tlv_new"
  by (simp add: Tlv_isValid_def Tlv_new_def)

lemma notify_progress_events [simp]:
  "notify_progress h ent done len = (evs, stop) \<Longrightarrow> completions evs = [] \<and> sent_tlvs evs = []"
  by (auto simp: notify_progress_def split: option.splits)

section \<open>The transfers keep the contract\<close>

text \<open>An answer of success carries data, and came in one message.\<close>

definition carries_data :: "transfer_answer \<Rightarrow> bool" where
  "carries_data a \<longleftrightarrow> ta_status a = Status_Success \<longrightarrow>
     concat (map tlv_memoryData (ta_tlvs a)) \<noteq> [] \<and> tlvs_size (ta_tlvs a) \<le> EthernetMaxFrameSize"

definition read_in_range :: "read_transfer \<Rightarrow> bool" where
  "read_in_range t \<longleftrightarrow> length (rt_memoryBuffer t) < unat (rt_length t) \<and> unat (rt_length t) + EthernetMaxFrameSize \<le> 2 ^ 64"

definition write_in_range :: "write_transfer \<Rightarrow> bool" where
  "write_in_range t \<longleftrightarrow> unat (wt_sentSize t) \<le> length (wt_memoryBuffer t) \<and> length (wt_memoryBuffer t) < 2 ^ 64"

lemma data_size: "length (concat (map tlv_memoryData ts)) \<le> tlvs_size ts"
  by (induction ts) (simp_all add: tlvs_size_def)

lemma write_turn_on:
  assumes "onUserWriteDeviceMemoryResult opts a t = (evs, Some t')" "write_in_range t"
  shows "ta_status a = Status_Success" "unat (wt_sentSize t) < length (wt_memoryBuffer t)"
    "unat (wt_sentSize t') = min (length (wt_memoryBuffer t)) (unat (wt_sentSize t) + chunk opts)"
    "t' = t\<lparr>wt_sentSize := wt_sentSize t'\<rparr>"
    "sent_tlvs evs = [\<lparr>tlv_mode = AaMode_Write, tlv_address = wt_baseAddress t + wt_sentSize t,
        tlv_memoryData = take (chunk opts) (drop (unat (wt_sentSize t)) (wt_memoryBuffer t))\<rparr>]"
proof -
  let ?n = "length (wt_memoryBuffer t)" and ?s = "wt_sentSize t"
  have r: "unat ?s \<le> ?n" "?n < 2 ^ 64" using assms(2) by (auto simp: write_in_range_def)
  note eq = makeNextWriteDeviceMemoryTlv_eq [OF r(2), of opts "wt_baseAddress t" ?s]
  show g: "ta_status a = Status_Success" "unat ?s < ?n"
    and s: "sent_tlvs evs = [\<lparr>tlv_mode = AaMode_Write, tlv_address = wt_baseAddress t + ?s,
        tlv_memoryData = take (chunk opts) (drop (unat ?s) (wt_memoryBuffer t))\<rparr>]"
    and t': "t' = t\<lparr>wt_sentSize := wt_sentSize t'\<rparr>"
    using assms(1) eq by (auto simp: onUserWriteDeviceMemoryResult_def Let_def split: if_splits prod.splits)
  have "wt_sentSize t' = ?s + of_nat (min (chunk opts) (?n - unat ?s))"
    using assms(1) eq g by (auto simp: onUserWriteDeviceMemoryResult_def Let_def min.commute split: if_splits prod.splits)
  also have "\<dots> = of_nat (unat ?s + min (chunk opts) (?n - unat ?s))" by simp
  also have "unat ?s + min (chunk opts) (?n - unat ?s) = min ?n (unat ?s + chunk opts)" using r by auto
  finally show "unat (wt_sentSize t') = min ?n (unat ?s + chunk opts)"
    using r by (simp add: unsigned_of_nat take_bit_nat_eq_self)
qed

interpretation wr: ending_transfer "onUserWriteDeviceMemoryResult opts" "\<lambda>_. True" write_in_range
    "\<lambda>t. length (wt_memoryBuffer t) - unat (wt_sentSize t)" for opts
proof unfold_locales
  fix a t evs t'
  assume turn: "onUserWriteDeviceMemoryResult opts a t = (evs, Some t')"
  then show "completions evs = [] \<and> length (sent_tlvs evs) = 1"
    by (auto simp: onUserWriteDeviceMemoryResult_def Let_def split: if_splits prod.splits)
  assume "write_in_range t"
  then show "write_in_range t' \<and> length (wt_memoryBuffer t') - unat (wt_sentSize t') < length (wt_memoryBuffer t) - unat (wt_sentSize t)"
    using write_turn_on [OF turn] chunk_bounds(1) [of opts]
    by (cases t') (auto simp: write_in_range_def)
next
  fix a t evs
  assume "onUserWriteDeviceMemoryResult opts a t = (evs, None)"
  then show "length (completions evs) = 1 \<and> sent_tlvs evs = []"
    by (auto simp: onUserWriteDeviceMemoryResult_def Let_def split: if_splits prod.splits)
qed

interpretation rd: ending_transfer "onUserReadDeviceMemoryResult opts" carries_data read_in_range
    "\<lambda>t. unat (rt_length t) - length (rt_memoryBuffer t)" for opts
proof unfold_locales
  fix a t evs t'
  assume turn: "onUserReadDeviceMemoryResult opts a t = (evs, Some t')"
  then show "completions evs = [] \<and> length (sent_tlvs evs) = 1"
    by (auto simp: onUserReadDeviceMemoryResult_def Let_def split: if_splits prod.splits)
  let ?d = "concat (map tlv_memoryData (ta_tlvs a))"
  let ?n = "length (rt_memoryBuffer t @ ?d)"
  assume u: "carries_data a" "read_in_range t"
  have t': "t' = t\<lparr>rt_memoryBuffer := rt_memoryBuffer t @ ?d\<rparr>" "ta_status a = Status_Success" "(of_nat ?n :: 64 word) < rt_length t"
    using turn by (auto simp: onUserReadDeviceMemoryResult_def makeNextReadDeviceMemoryTlv_eq Let_def simp del: length_append
        split: if_splits prod.splits)
  have d: "?d \<noteq> []" "length ?d \<le> EthernetMaxFrameSize"
    using u(1) t'(2) data_size [of "ta_tlvs a"] by (auto simp: carries_data_def)
  have pos: "0 < length ?d" using d(1) by (simp only: length_greater_0_conv not_False_eq_True)
  have "?n < 2 ^ 64" using d u(2) by (simp add: read_in_range_def)
  then have n: "?n < unat (rt_length t)" using t'(3) by (simp add: word_less_nat_alt unsigned_of_nat take_bit_nat_eq_self del: length_append)
  then have less: "unat (rt_length t) - ?n < unat (rt_length t) - length (rt_memoryBuffer t)"
    using pos unfolding length_append by linarith
  show "read_in_range t' \<and> unat (rt_length t') - length (rt_memoryBuffer t') < unat (rt_length t) - length (rt_memoryBuffer t)"
    unfolding t'(1) using u(2) n less by (simp add: read_in_range_def del: length_append length_concat)
next
  fix a t evs
  assume "onUserReadDeviceMemoryResult opts a t = (evs, None)"
  then show "length (completions evs) = 1 \<and> sent_tlvs evs = []"
    by (auto simp: onUserReadDeviceMemoryResult_def Let_def split: if_splits prod.splits)
qed

section \<open>Memories and devices\<close>

type_synonym device_memory = "64 word \<Rightarrow> byte"

definition memory_range :: "device_memory \<Rightarrow> 64 word \<Rightarrow> nat \<Rightarrow> byte list" where
  "memory_range mem a n = map (\<lambda>i. mem (a + of_nat i)) [0..<n]"

definition write_range :: "device_memory \<Rightarrow> 64 word \<Rightarrow> byte list \<Rightarrow> device_memory" where
  "write_range mem a bs = (\<lambda>x. if unat (x - a) < length bs then bs ! unat (x - a) else mem x)"

definition write_tlv :: "tlv \<Rightarrow> device_memory \<Rightarrow> device_memory" where
  "write_tlv t mem = write_range mem (tlv_address t) (tlv_memoryData t)"

lemma length_memory_range [simp]: "length (memory_range mem a n) = n"
  by (simp add: memory_range_def)

lemma memory_range_append: "memory_range mem a n @ memory_range mem (a + of_nat n) m = memory_range mem a (n + m)"
  by (rule nth_equalityI) (auto simp: memory_range_def nth_append algebra_simps simp flip: of_nat_add)

lemma memory_range_written: "length bs \<le> 2 ^ 64 \<Longrightarrow> memory_range (write_range mem a bs) a (length bs) = bs"
  by (rule nth_equalityI) (simp_all add: memory_range_def write_range_def unsigned_of_nat take_bit_nat_eq_self)

lemma write_range_Nil [simp]: "write_range mem a [] = mem"
  by (simp add: write_range_def)

lemma write_range_append:
  assumes "length bs + length cs \<le> 2 ^ 64"
  shows "write_range (write_range mem a bs) (a + of_nat (length bs)) cs = write_range mem a (bs @ cs)"
proof (cases "cs = []")
  case False
  then have n: "length bs < 2 ^ 64" using assms by (cases cs) auto
  show ?thesis
  proof
    fix x
    let ?d = "x - a" and ?n = "of_nat (length bs) :: 64 word"
    have un: "unat ?n = length bs" using n by (simp add: unsigned_of_nat take_bit_nat_eq_self)
    have x: "x - (a + ?n) = ?d - ?n" by simp
    show "write_range (write_range mem a bs) (a + ?n) cs x = write_range mem a (bs @ cs) x"
    proof (cases "?n \<le> ?d")
      case True
      then have "unat (?d - ?n) = unat ?d - length bs" "length bs \<le> unat ?d"
        by (simp_all add: unat_sub un word_le_nat_alt)
      then show ?thesis unfolding write_range_def x by (auto simp: nth_append)
    next
      case False
      then have d: "unat ?d < length bs" by (simp add: word_le_nat_alt un not_le)
      then have "unat (?d - ?n) = unat ?d + 2 ^ 64 - length bs"
        unfolding unat_sub_if_size un by (simp add: word_size)
      then have "\<not> unat (?d - ?n) < length cs" using assms by simp
      then show ?thesis unfolding write_range_def x using d by (simp add: nth_append)
    qed
  qed
qed simp

text \<open>The progress handler never asks to stop.\<close>

definition never_stops :: "progress_handler \<Rightarrow> bool" where
  "never_stops progressHandler \<longleftrightarrow>
     (case progressHandler of None \<Rightarrow> True | Some h \<Rightarrow> \<forall>e x y. h e x y \<noteq> Some True)"

text \<open>A device that accepts what it is sent, and one that answers with a part of what it is asked for, not empty.\<close>

definition accepts :: "(tlv \<Rightarrow> transfer_answer) \<Rightarrow> bool" where
  "accepts d \<longleftrightarrow> (\<forall>q. ta_status (d q) = Status_Success \<and> never_stops (ta_progress (d q)))"

definition reads_from :: "device_memory \<Rightarrow> (tlv \<Rightarrow> transfer_answer) \<Rightarrow> bool" where
  "reads_from mem d \<longleftrightarrow> accepts d \<and> (\<forall>q. tlv_memoryData q \<noteq> [] \<longrightarrow>
     (\<exists>k. 0 < k \<and> k \<le> length (tlv_memoryData q) \<and>
       concat (map tlv_memoryData (ta_tlvs (d q))) = memory_range mem (tlv_address q) k))"

lemma notify_progress_never_stops [simp]: "never_stops h \<Longrightarrow> snd (notify_progress h e x y) = False"
  by (auto simp: never_stops_def notify_progress_def split: option.splits)

section \<open>Reading\<close>

definition read_so_far :: "build_options \<Rightarrow> device_memory \<Rightarrow> 64 word \<Rightarrow> 64 word \<Rightarrow> transfer_event list \<Rightarrow> read_transfer option \<Rightarrow> bool" where
  "read_so_far opts mem address len evs v \<longleftrightarrow>
     (case v of
        Some t \<Rightarrow> completions evs = [] \<and> rt_baseAddress t = address \<and> rt_length t = len
          \<and> length (rt_memoryBuffer t) < unat len
          \<and> rt_memoryBuffer t = memory_range mem address (length (rt_memoryBuffer t))
          \<and> last (sent_tlvs evs) = makeNextReadDeviceMemoryTlv opts address len (of_nat (length (rt_memoryBuffer t)))
          \<and> length (sent_tlvs evs) \<le> length (rt_memoryBuffer t) + 1
      | None \<Rightarrow> \<exists>ent. completions evs = [ReadCompleted ent Status_Success (memory_range mem address (unat len))])"

lemma unat64: "unat (w :: 64 word) < 2 ^ 64"
  using unsigned_less [of w, where ?'a = nat] by simp

lemma read_turn_so_far:
  assumes P: "read_so_far opts mem address len evs (Some t)" and d: "reads_from mem d"
    and turn: "onUserReadDeviceMemoryResult opts (d (last (sent_tlvs evs))) t = (es, v)"
  shows "read_so_far opts mem address len (evs @ es) v"
proof -
  let ?b = "rt_memoryBuffer t" and ?q = "last (sent_tlvs evs)"
  let ?a = "d ?q" and ?l = "length ?b" 
  have t: "completions evs = []" "rt_baseAddress t = address" "rt_length t = len" "?l < unat len"
    "?b = memory_range mem address ?l" "length (sent_tlvs evs) \<le> ?l + 1"
    and q: "?q = makeNextReadDeviceMemoryTlv opts address len (of_nat ?l)"
    using P by (simp_all add: read_so_far_def)
  have ul: "unat (of_nat ?l :: 64 word) = ?l"
    using t(4) unat64 [of len] by (simp add: unsigned_of_nat take_bit_nat_eq_self)
  have less: "(of_nat ?l :: 64 word) < len" using t(4) by (simp add: word_less_nat_alt ul)
  have q': "tlv_address ?q = address + of_nat ?l" "length (tlv_memoryData ?q) = min (unat len - ?l) (chunk opts)"
    using less ul by (simp_all add: q makeNextReadDeviceMemoryTlv_eq unat_sub order.strict_implies_order)
  then have "tlv_memoryData ?q \<noteq> []" using t(4) chunk_bounds(1) [of opts] by auto
  then obtain k where k: "0 < k" "k \<le> length (tlv_memoryData ?q)"
    and data: "concat (map tlv_memoryData (ta_tlvs ?a)) = memory_range mem (tlv_address ?q) k"
    using d unfolding reads_from_def by meson
  have ok: "ta_status ?a = Status_Success" "never_stops (ta_progress ?a)"
    using d by (simp_all add: reads_from_def accepts_def)
  have b': "?b @ concat (map tlv_memoryData (ta_tlvs ?a)) = memory_range mem address (?l + k)"
    unfolding data q'(1) by (subst t(5)) (rule memory_range_append)
  have lk: "?l + k \<le> unat len" using k(2) t(4) unfolding q'(2) by arith
  have ulk: "unat (of_nat (?l + k) :: 64 word) = ?l + k"
    using lk unat64 [of len] by (simp add: unsigned_of_nat take_bit_nat_eq_self del: of_nat_add)
  obtain pe where pe: "notify_progress (ta_progress ?a) (ta_advertised ?a) (of_nat (?l + k)) len = (pe, False)"
    using notify_progress_never_stops [OF ok(2)] by (metis prod.collapse)
  show ?thesis
  proof (cases "?l + k < unat len")
    case True
    then have "(of_nat (?l + k) :: 64 word) < len" by (simp add: word_less_nat_alt ulk del: of_nat_add)
    then have "Tlv_isValid (makeNextReadDeviceMemoryTlv opts address len (of_nat (?l + k)))"
      using True chunk_bounds(1) [of opts] ulk
      by (auto simp: makeNextReadDeviceMemoryTlv_eq Tlv_isValid_def unat_sub order.strict_implies_order simp del: of_nat_add)
    then have "(es, v) = (pe @ [SentTlv (makeNextReadDeviceMemoryTlv opts address len (of_nat (?l + k)))],
        Some (t\<lparr>rt_memoryBuffer := memory_range mem address (?l + k)\<rparr>))"
      using turn by (simp add: onUserReadDeviceMemoryResult_def Let_def ok b' t(2,3) pe del: of_nat_add)
    then show ?thesis using t k True notify_progress_events [OF pe] by (simp add: read_so_far_def del: of_nat_add)
  next
    case False
    then have "?l + k = unat len" using lk by simp
    then have "(es, v) = ([ReadCompleted (ta_advertised ?a) Status_Success (memory_range mem address (unat len))], None)"
      using turn by (simp add: onUserReadDeviceMemoryResult_def Let_def ok b' t(2,3) makeNextReadDeviceMemoryTlv_eq
          del: of_nat_add)
    then show ?thesis using t(1) by (simp add: read_so_far_def)
  qed
qed

lemma read_run_exact:
  assumes "0 < len" "\<forall>d\<in>set ds. reads_from mem d" "unat len \<le> length ds"
    and run: "transfer_run (onUserReadDeviceMemoryResult opts) ds (readDeviceMemory opts True address len) = (evs, v)"
  shows "v = None \<and> (\<exists>ent. completions evs = [ReadCompleted ent Status_Success (memory_range mem address (unat len))])"
proof -
  let ?q = "makeNextReadDeviceMemoryTlv opts address len 0"
  have u: "0 < unat len" using assms(1) by (simp add: word_less_nat_alt)
  have start: "readDeviceMemory opts True address len =
      ([SentTlv ?q], Some \<lparr>rt_baseAddress = address, rt_length = len, rt_memoryBuffer = []\<rparr>)"
    using assms(1) u chunk_bounds(1) [of opts]
    by (auto simp: readDeviceMemory_def Let_def makeNextReadDeviceMemoryTlv_eq Tlv_isValid_def)
  have "read_so_far opts mem address len [SentTlv ?q] (Some \<lparr>rt_baseAddress = address, rt_length = len, rt_memoryBuffer = []\<rparr>)"
    using u by (simp add: read_so_far_def memory_range_def)
  from transfer_run_invariant [where good = "reads_from mem" and P = "read_so_far opts mem address len",
      OF read_turn_so_far assms(2) this run [unfolded start]]
  have P: "read_so_far opts mem address len evs v" .
  have "v = None"
  proof (rule ccontr)
    assume "v \<noteq> None"
    then obtain t where v: "v = Some t" by auto
    have "length (sent_tlvs evs) = 1 + length ds" using rd.sent_while_waiting [OF run [unfolded start v]] by simp
    then show False using P v assms(3) by (simp add: read_so_far_def)
  qed
  then show ?thesis using P by (simp add: read_so_far_def)
qed

section \<open>Writing\<close>

definition written_so_far ::
  "build_options \<Rightarrow> device_memory \<Rightarrow> 64 word \<Rightarrow> byte list \<Rightarrow> transfer_event list \<Rightarrow> write_transfer option \<Rightarrow> bool"
where
  "written_so_far opts mem address buf evs v \<longleftrightarrow>
     (length (sent_tlvs evs) - 1) * chunk opts < length buf \<and> sent_tlvs evs \<noteq> [] \<and>
     (case v of
        Some t \<Rightarrow> completions evs = [] \<and> wt_baseAddress t = address \<and> wt_memoryBuffer t = buf
          \<and> unat (wt_sentSize t) = min (length buf) (length (sent_tlvs evs) * chunk opts)
          \<and> fold write_tlv (sent_tlvs evs) mem = write_range mem address (take (unat (wt_sentSize t)) buf)
      | None \<Rightarrow> (\<exists>ent. completions evs = [WriteCompleted ent Status_Success])
          \<and> length buf \<le> length (sent_tlvs evs) * chunk opts
          \<and> fold write_tlv (sent_tlvs evs) mem = write_range mem address buf)"

lemma write_next:
  assumes "unat s < length buf" "length buf < 2 ^ 64"
  shows "write_tlv \<lparr>tlv_mode = AaMode_Write, tlv_address = address + s, tlv_memoryData = take n (drop (unat s) buf)\<rparr>
      (write_range mem address (take (unat s) buf)) = write_range mem address (take (unat s + n) buf)"
  using write_range_append [of "take (unat s) buf" "take n (drop (unat s) buf)" mem address] assms
  by (simp add: write_tlv_def take_add)

lemma write_turn_so_far:
  assumes buf: "length buf < 2 ^ 64" and P: "written_so_far opts mem address buf evs (Some t)" and d: "accepts d"
    and turn: "onUserWriteDeviceMemoryResult opts (d (last (sent_tlvs evs))) t = (es, v)"
  shows "written_so_far opts mem address buf (evs @ es) v"
proof -
  let ?a = "d (last (sent_tlvs evs))" and ?s = "wt_sentSize t" and ?n = "length (sent_tlvs evs)"
  have t: "completions evs = []" "wt_baseAddress t = address" "wt_memoryBuffer t = buf"
      "unat ?s = min (length buf) (?n * chunk opts)" "(?n - 1) * chunk opts < length buf" "sent_tlvs evs \<noteq> []"
      "fold write_tlv (sent_tlvs evs) mem = write_range mem address (take (unat ?s) buf)"
    using P by (simp_all add: written_so_far_def)
  have ok: "ta_status ?a = Status_Success" "never_stops (ta_progress ?a)" using d by (simp_all add: accepts_def)
  have range: "write_in_range t" using t buf by (simp add: write_in_range_def)
  show ?thesis
  proof (cases v)
    case (Some t')
    note on = write_turn_on [OF turn [unfolded Some] range, unfolded t(2,3)]
    have n: "?n * chunk opts < length buf" using on(2) t(4) by simp
    then have s: "unat ?s = ?n * chunk opts" using t(4) by simp
    have "completions es = []" using wr.goes_on [OF turn [unfolded Some]] by simp
    moreover have "fold write_tlv (sent_tlvs (evs @ es)) mem = write_range mem address (take (unat (wt_sentSize t')) buf)"
      using write_next [OF on(2) buf, of address "chunk opts" mem] by (simp add: on(3,5) t(7) min_def)
    ultimately show ?thesis using Some t on n s
      by (cases t') (auto simp: written_so_far_def algebra_simps)
  next
    case None
    have es: "sent_tlvs es = []" using wr.ends [OF turn [unfolded None]] by simp
    obtain pe where pe: "notify_progress (ta_progress ?a) (ta_advertised ?a) ?s (of_nat (length buf)) = (pe, False)"
      using notify_progress_never_stops [OF ok(2)] by (metis prod.collapse)
    have inv: "\<not> Tlv_isValid (makeNextWriteDeviceMemoryTlv opts address buf ?s)"
      using turn None by (auto simp: onUserWriteDeviceMemoryResult_def Let_def ok t(2,3) pe split: if_splits)
    then have "\<not> unat ?s < length buf" using chunk_bounds(1) [of opts]
      by (auto simp: makeNextWriteDeviceMemoryTlv_eq [OF buf] Tlv_isValid_def)
    moreover have "completions es = [WriteCompleted (ta_advertised ?a) Status_Success]"
      using turn None inv by (auto simp: onUserWriteDeviceMemoryResult_def Let_def ok t(2,3) split: if_splits)
    ultimately show ?thesis using None t es by (simp add: written_so_far_def)
  qed
qed

lemma write_run_exact:
  assumes buf: "buf \<noteq> []" "length buf < 2 ^ 64" and "\<forall>d\<in>set ds. accepts d" "length buf \<le> length ds * chunk opts"
    and run: "transfer_run (onUserWriteDeviceMemoryResult opts) ds (writeDeviceMemory opts True address buf) = (evs, v)"
  shows "v = None \<and> (\<exists>ent. completions evs = [WriteCompleted ent Status_Success])
    \<and> fold write_tlv (sent_tlvs evs) mem = write_range mem address buf
    \<and> length (sent_tlvs evs) = (length buf + chunk opts - 1) div chunk opts"
proof -
  let ?q = "makeNextWriteDeviceMemoryTlv opts address buf 0"
  let ?t = "\<lparr>wt_baseAddress = address, wt_sentSize = of_nat (min (length buf) (chunk opts)), wt_memoryBuffer = buf\<rparr>"
  have q: "?q = \<lparr>tlv_mode = AaMode_Write, tlv_address = address, tlv_memoryData = take (chunk opts) buf\<rparr>"
    using buf by (simp add: makeNextWriteDeviceMemoryTlv_eq)
  have start: "writeDeviceMemory opts True address buf = ([SentTlv ?q], Some ?t)"
    using buf chunk_bounds(1) [of opts] by (simp add: writeDeviceMemory_def Let_def q Tlv_isValid_def)
  have "written_so_far opts mem address buf [SentTlv ?q] (Some ?t)"
    using buf by (simp add: written_so_far_def q write_tlv_def unsigned_of_nat take_bit_nat_eq_self min_def)
  from transfer_run_invariant [where good = accepts and P = "written_so_far opts mem address buf",
      OF write_turn_so_far [OF buf(2)] assms(3) this run [unfolded start]]
  have P: "written_so_far opts mem address buf evs v" .
  have "v = None"
  proof (rule ccontr)
    assume "v \<noteq> None"
    then obtain t where v: "v = Some t" by auto
    have "length (sent_tlvs evs) = 1 + length ds" using wr.sent_while_waiting [OF run [unfolded start v]] by simp
    then show False using P v assms(4) by (simp add: written_so_far_def)
  qed
  moreover have "length (sent_tlvs evs) = (length buf + chunk opts - 1) div chunk opts"
  proof -
    let ?n = "length (sent_tlvs evs)" and ?c = "chunk opts"
    have n: "(?n - 1) * ?c < length buf" "length buf \<le> ?n * ?c" "?n \<noteq> 0"
      using P \<open>v = None\<close> by (auto simp: written_so_far_def)
    then have "?n * ?c \<le> length buf + ?c - 1" "length buf + ?c - 1 < Suc ?n * ?c"
      using chunk_bounds(1) [of opts] by (cases ?n; auto)+
    then show ?thesis by (intro div_nat_eqI [symmetric]) (simp_all add: mult.commute)
  qed
  ultimately show ?thesis using P by (simp add: written_so_far_def)
qed

section \<open>Any answers\<close>

text \<open>Whatever a device answers, a read asks for nothing outside of its range, and no more than a message takes.\<close>

definition read_query_ok :: "build_options \<Rightarrow> 64 word \<Rightarrow> 64 word \<Rightarrow> tlv \<Rightarrow> bool" where
  "read_query_ok opts address len q \<longleftrightarrow>
     (let off = unat (tlv_address q - address); n = length (tlv_memoryData q)
      in tlv_mode q = AaMode_Read \<and> 0 < n \<and> n \<le> chunk opts \<and> off + n \<le> unat len)"

lemma read_queries_ok:
  assumes "transfer_run (onUserReadDeviceMemoryResult opts) ds (readDeviceMemory opts isKnown address len) = (evs, v)"
  shows "\<forall>q\<in>set (sent_tlvs evs). read_query_ok opts address len q"
proof -
  have next_ok: "Tlv_isValid q \<Longrightarrow> q = makeNextReadDeviceMemoryTlv opts address len cur \<Longrightarrow> read_query_ok opts address len q" for q cur
  proof -
    assume q: "Tlv_isValid q" "q = makeNextReadDeviceMemoryTlv opts address len cur"
    then have "cur < len" by (auto simp: makeNextReadDeviceMemoryTlv_eq split: if_splits)
    then show ?thesis using q chunk_bounds(1) [of opts]
      by (auto simp: read_query_ok_def makeNextReadDeviceMemoryTlv_eq Let_def unat_sub word_less_nat_alt
          order.strict_implies_order)
  qed
  let ?P = "\<lambda>evs v. (\<forall>q\<in>set (sent_tlvs evs). read_query_ok opts address len q)
    \<and> (\<forall>t. v = Some t \<longrightarrow> rt_baseAddress t = address \<and> rt_length t = len)"
  obtain es0 v0 where start: "readDeviceMemory opts isKnown address len = (es0, v0)" by fastforce
  have "?P evs v"
  proof (rule transfer_run_invariant [where P = ?P and good = "\<lambda>_. True", OF _ _ _ assms [unfolded start]])
    fix evs t d es v
    assume P: "?P evs (Some t)" and turn: "onUserReadDeviceMemoryResult opts (d (last (sent_tlvs evs))) t = (es, v)"
    then have t: "rt_baseAddress t = address" "rt_length t = len" and old: "\<forall>q\<in>set (sent_tlvs evs). read_query_ok opts address len q"
      by auto
    show "?P (evs @ es) v" using turn old
      by (auto simp: onUserReadDeviceMemoryResult_def Let_def t split: if_splits prod.splits dest: next_ok [OF _ refl])
  qed (use start in \<open>auto simp: readDeviceMemory_def Let_def dest: next_ok [OF _ refl] split: if_splits\<close>)
  then show ?thesis by simp
qed

lemma write_queries_ok:
  assumes buf: "length buf < 2 ^ 64"
    and run: "transfer_run (onUserWriteDeviceMemoryResult opts) ds (writeDeviceMemory opts isKnown address buf) = (evs, v)"
  shows "\<forall>q\<in>set (sent_tlvs evs). tlv_mode q = AaMode_Write \<and> tlv_memoryData q \<noteq> [] \<and> length (tlv_memoryData q) \<le> chunk opts"
proof -
  let ?P = "\<lambda>evs v. (\<forall>q\<in>set (sent_tlvs evs). tlv_mode q = AaMode_Write \<and> tlv_memoryData q \<noteq> []
      \<and> length (tlv_memoryData q) \<le> chunk opts) \<and> (\<forall>t. v = Some t \<longrightarrow> wt_memoryBuffer t = buf \<and> wt_baseAddress t = address)"
  have next_ok: "Tlv_isValid q \<Longrightarrow> q = makeNextWriteDeviceMemoryTlv opts address buf s \<Longrightarrow>
      tlv_mode q = AaMode_Write \<and> tlv_memoryData q \<noteq> [] \<and> length (tlv_memoryData q) \<le> chunk opts" for q s
    using chunk_bounds(1) [of opts] by (auto simp: makeNextWriteDeviceMemoryTlv_eq [OF buf] split: if_splits)
  obtain es0 v0 where start: "writeDeviceMemory opts isKnown address buf = (es0, v0)" by fastforce
  have "?P evs v"
  proof (rule transfer_run_invariant [where P = ?P and good = "\<lambda>_. True", OF _ _ _ run [unfolded start]])
    fix evs t d es v
    assume P: "?P evs (Some t)" and turn: "onUserWriteDeviceMemoryResult opts (d (last (sent_tlvs evs))) t = (es, v)"
    then have t: "wt_memoryBuffer t = buf" "wt_baseAddress t = address"
      and old: "\<forall>q\<in>set (sent_tlvs evs). tlv_mode q = AaMode_Write \<and> tlv_memoryData q \<noteq> [] \<and> length (tlv_memoryData q) \<le> chunk opts"
      by auto
    show "?P (evs @ es) v" using turn old
      by (auto simp: onUserWriteDeviceMemoryResult_def Let_def t split: if_splits prod.splits dest: next_ok [OF _ refl])
  qed (use start in \<open>auto simp: writeDeviceMemory_def Let_def dest: next_ok [OF _ refl] split: if_splits\<close>)
  then show ?thesis by simp
qed

text \<open>The command that carries the operations (\<^verbatim>\<open>sendAaAecpCommand\<close>).\<close>

definition aa_command_base :: "mac_address \<Rightarrow> mac_address \<Rightarrow> uid \<Rightarrow> uid \<Rightarrow> aa_aecpdu" where
  "aa_command_base src dest target controller =
     (AaAecpdu_new False)\<lparr>m_srcAddress := src, m_destAddress := dest, m_status := 0, m_streamID := target,
        m_controllerEntityID := controller\<rparr>"

lemma sendAaAecpCommand_message:
  "sendAaAecpCommand reg controllerEntityID targetEntityID targetMacAddress tlvs onResult m =
     (let (err, m) = pi_sendAecpCommand reg
        (Aa (fold addTlv tlvs (aa_command_base (mg_macAddress m) targetMacAddress targetEntityID controllerEntityID))) onResult m
      in (if err \<noteq> NoError then Some (convertErrorToAaCommandStatus err) else None, m))"
  by (simp add: sendAaAecpCommand_def aa_command_base_def foldl_conv_fold Let_def)

text \<open>
  Every operation of a transfer, read or write, of any range and under any answers, fits one message of
  the library: its frame is built, and the device receives from it the very operation.
\<close>

lemma device_memory_on_the_wire:
  assumes q: "q \<in> set (sent_tlvs (fst (transfer_run (onUserReadDeviceMemoryResult opts) ds
        (readDeviceMemory opts isKnown address len)))) \<or>
      q \<in> set (sent_tlvs (fst (transfer_run (onUserWriteDeviceMemoryResult opts) ds
        (writeDeviceMemory opts isKnown address buf))))"
    and buf: "length buf < 2 ^ 64"
  shows "map_option (\<lambda>frame. map_option m_tlvData (AaAecpdu_receive opts' (aa_command_base src dest target controller) False
        (drop EtherLayer2_HeaderLength frame @ pad)))
      (AaAecpdu_frame (fold addTlv [q] (aa_command_base src dest target controller))) = Some (Some [q])"
proof -
  let ?base = "aa_command_base src dest target controller"
  let ?p = "fold addTlv [q] ?base"
  have "tlv_memoryData q \<noteq> [] \<and> length (tlv_memoryData q) \<le> chunk opts \<and> (tlv_mode q = AaMode_Read \<or> tlv_mode q = AaMode_Write)"
    using q
  proof
    assume "q \<in> set (sent_tlvs (fst (transfer_run (onUserReadDeviceMemoryResult opts) ds
        (readDeviceMemory opts isKnown address len))))"
    then have "read_query_ok opts address len q" using read_queries_ok [OF prod.collapse [symmetric]] by blast
    then show ?thesis by (auto simp: read_query_ok_def Let_def)
  next
    assume "q \<in> set (sent_tlvs (fst (transfer_run (onUserWriteDeviceMemoryResult opts) ds
        (writeDeviceMemory opts isKnown address buf))))"
    then show ?thesis using write_queries_ok [OF buf prod.collapse [symmetric]] by blast
  qed
  then have fits: "tlv_fits q" and size: "38 + tlvs_size [q] \<le> EthernetMaxFrameSize"
    using chunk_bounds(2) [of opts]
    by (auto simp: tlv_fits_def AaMode_Read_def AaMode_Write_def tlvs_size_def EthernetMaxFrameSize_def)
  have base: "m_tlvData ?base = []" "m_tlvDataLength ?base = 0"
    "m_controlDataLength ?base = of_nat (Aecpdu_HeaderLength + AaAecpdu_HeaderLength)"
    "control_fits ?base" "m_etherType ?base = AvtpEtherType"
    by (auto simp: aa_command_base_def AaAecpdu_new_def Aecpdu_new_def aecpdu.extend_def setAecpSpecificDataLength_def
        control_fits_def AecpMessageType_AddressAccessCommand_def AvtpSubType_Aecp_def AvtpVersion_def
        Aecpdu_HeaderLength_def AaAecpdu_HeaderLength_def)
  have same: "AaAecpdu_receive opts' ?p False bs = AaAecpdu_receive opts' ?base False bs" for bs
    by (simp add: AaAecpdu_receive_def addTlv_def setAecpSpecificDataLength_def Let_def)
  have one: "\<forall>t\<in>set [q]. tlv_fits t" using fits by simp
  from aa_roundtrip_frame [OF base(1-3) refl one base(4,5), of opts' False pad]
  have "AaAecpdu_frame ?p \<noteq> None" and
    "\<And>frame. AaAecpdu_frame ?p = Some frame \<Longrightarrow>
       AaAecpdu_receive opts' ?base False (drop EtherLayer2_HeaderLength frame @ pad) = Some ?p"
    using size same [of "drop _ _ @ pad"] by auto
  moreover have "m_tlvData ?p = [q]"
    using base(1) by (simp add: addTlv_def setAecpSpecificDataLength_def Let_def)
  ultimately show ?thesis by auto
qed

theorem device_memory_on_the_wire_witness:
  "map_option (\<lambda>frame. map_option m_tlvData (AaAecpdu_receive default_build (aa_command_base 1 2 3 4) False
        (drop EtherLayer2_HeaderLength frame @ [0])))
      (AaAecpdu_frame (fold addTlv [\<lparr>tlv_mode = 1, tlv_address = 256, tlv_memoryData = [7]\<rparr>] (aa_command_base 1 2 3 4)))
   = Some (Some [\<lparr>tlv_mode = 1, tlv_address = 256, tlv_memoryData = [7]\<rparr>])"
  by (rule device_memory_on_the_wire [where opts = default_build and ds = "[]" and isKnown = True and len = 0 and address = 256 and buf = "[7]"])
     (simp_all add: writeDeviceMemory_def makeNextWriteDeviceMemoryTlv_eq Tlv_isValid_def AaMode_Write_def Let_def
        chunk_def MaximumSendLength_def MaximumLength_1722_1_def default_build_def)

section \<open>The round trip\<close>

text \<open>
  C20.  A buffer is written to a device that accepts every operation, and the same range is read back from the
  memory the device then has, where each answer carries at least one byte and at most those asked for; no progress
  handler asks to stop.  Then both transfers are over, each has called its completion handler once, with success, the
  buffer read is the one written, and nothing outside of the range has changed.
\<close>

theorem device_memory_roundtrip:
  fixes mem opts address
  assumes buf: "buf \<noteq> []" "length buf < 2 ^ 64"
    and W: "transfer_run (onUserWriteDeviceMemoryResult opts) ws (writeDeviceMemory opts True address buf) = (wevs, w)"
      "\<forall>d\<in>set ws. accepts d" "length buf \<le> length ws * chunk opts"
    and mem': "mem' = fold write_tlv (sent_tlvs wevs) mem"
    and R: "transfer_run (onUserReadDeviceMemoryResult opts) rs
        (readDeviceMemory opts True address (of_nat (length buf))) = (revs, r)"
      "\<forall>d\<in>set rs. reads_from mem' d" "length buf \<le> length rs"
  shows "w = None \<and> (\<exists>ent. completions wevs = [WriteCompleted ent Status_Success])
    \<and> r = None \<and> (\<exists>ent. completions revs = [ReadCompleted ent Status_Success buf])
    \<and> (\<forall>x. unat (x - address) < length buf \<or> mem' x = mem x)"
proof -
  have u: "unat (of_nat (length buf) :: 64 word) = length buf" using buf(2) by (simp add: unsigned_of_nat take_bit_nat_eq_self)
  have m: "mem' = write_range mem address buf" and w: "w = None" "\<exists>ent. completions wevs = [WriteCompleted ent Status_Success]"
    using write_run_exact [OF buf W(2,3,1), of mem] mem' by auto
  have "0 < (of_nat (length buf) :: 64 word)" using buf(1) by (simp add: word_less_nat_alt u)
  from read_run_exact [OF this R(2) _ R(1)] R(3)
  have "r = None \<and> (\<exists>ent. completions revs = [ReadCompleted ent Status_Success (memory_range mem' address (length buf))])"
    by (simp add: u)
  moreover have "memory_range mem' address (length buf) = buf"
    using memory_range_written [of buf mem address] buf(2) m by simp
  ultimately show ?thesis using w m by (simp add: write_range_def)
qed

text \<open>A device that accepts every operation, and answers a read with one byte at a time.\<close>

definition byte_device :: "device_memory \<Rightarrow> tlv \<Rightarrow> transfer_answer" where
  "byte_device mem q = \<lparr>ta_advertised = True, ta_status = Status_Success,
     ta_tlvs = [q\<lparr>tlv_memoryData := [mem (tlv_address q)]\<rparr>], ta_progress = None\<rparr>"

lemma byte_device_reads: "accepts (byte_device mem)" "reads_from mem (byte_device mem)"
proof -
  show acc: "accepts (byte_device mem)" by (simp add: accepts_def byte_device_def never_stops_def)
  have "concat (map tlv_memoryData (ta_tlvs (byte_device mem q))) = memory_range mem (tlv_address q) 1" for q
    by (simp add: byte_device_def memory_range_def)
  then show "reads_from mem (byte_device mem)" unfolding reads_from_def using acc
    by (metis length_greater_0_conv less_one Suc_leI One_nat_def)
qed

theorem device_memory_roundtrip_witness:
  "let (wevs, w) = transfer_run (onUserWriteDeviceMemoryResult default_build) [byte_device (\<lambda>_. 0)]
         (writeDeviceMemory default_build True (- 1) [1, 2, 3]);
       mem = fold write_tlv (sent_tlvs wevs) (\<lambda>_. 0);
       (revs, r) = transfer_run (onUserReadDeviceMemoryResult default_build) (replicate 3 (byte_device mem))
         (readDeviceMemory default_build True (- 1) 3)
   in r = None \<and> (\<exists>ent. completions revs = [ReadCompleted ent Status_Success [1, 2, 3]]) \<and> mem 1 = 3"
proof -
  have c: "0 < chunk default_build" "3 \<le> chunk default_build"
    by (simp_all add: chunk_def MaximumSendLength_def MaximumLength_1722_1_def default_build_def)
  obtain wevs w where w: "transfer_run (onUserWriteDeviceMemoryResult default_build) [byte_device (\<lambda>_. 0)]
      (writeDeviceMemory default_build True (- 1) [1, 2, 3]) = (wevs, w)" by fastforce
  let ?mem = "fold write_tlv (sent_tlvs wevs) (\<lambda>_. 0)"
  obtain revs r where r: "transfer_run (onUserReadDeviceMemoryResult default_build) (replicate 3 (byte_device ?mem))
      (readDeviceMemory default_build True (- 1) (of_nat (length [1::8 word, 2, 3]))) = (revs, r)" by fastforce
  have "?mem = write_range (\<lambda>_. 0) (- 1) [1, 2, 3]"
    using write_run_exact [OF _ _ _ _ w, of "\<lambda>_. 0"] c by (simp add: byte_device_reads)
  then have "?mem 1 = 3" by (simp add: write_range_def)
  moreover have "r = None \<and> (\<exists>ent. completions revs = [ReadCompleted ent Status_Success [1, 2, 3]])"
    using device_memory_roundtrip [where mem = "\<lambda>_. 0", OF _ _ w _ _ refl r] c by (simp add: byte_device_reads)
  ultimately show ?thesis using r by (simp add: w)
qed

text \<open>
  A device that answers with success and no data is asked for the same operation for ever: there is no limit to
  the answers of success, and the handler is not called.
\<close>

lemma read_without_data:
  assumes "0 < len" and "ta_status a = Status_Success" "concat (map tlv_memoryData (ta_tlvs a)) = []" "ta_progress a = None"
  shows "transfer_run (onUserReadDeviceMemoryResult opts) (replicate n (\<lambda>_. a)) (readDeviceMemory opts True address len) =
    (replicate (Suc n) (SentTlv (makeNextReadDeviceMemoryTlv opts address len 0)),
     Some \<lparr>rt_baseAddress = address, rt_length = len, rt_memoryBuffer = []\<rparr>)"
proof -
  let ?q = "makeNextReadDeviceMemoryTlv opts address len 0"
  let ?t = "\<lparr>rt_baseAddress = address, rt_length = len, rt_memoryBuffer = []\<rparr>"
  have "0 < unat len" using assms(1) by (simp add: word_less_nat_alt)
  then have v: "Tlv_isValid ?q" using chunk_bounds(1) [of opts] assms(1)
    by (auto simp: makeNextReadDeviceMemoryTlv_eq Tlv_isValid_def)
  have turn: "onUserReadDeviceMemoryResult opts a ?t = ([SentTlv ?q], Some ?t)"
    using assms(2,4) v
    by (simp add: onUserReadDeviceMemoryResult_def notify_progress_def assms(3) Let_def del: concat_eq_Nil_conv)
  have "transfer_run (onUserReadDeviceMemoryResult opts) (replicate n (\<lambda>_. a)) (evs, Some ?t) =
      (evs @ replicate n (SentTlv ?q), Some ?t)" for evs
    by (induction n arbitrary: evs) (simp_all add: turn)
  then show ?thesis using v by (simp add: readDeviceMemory_def Let_def)
qed

text \<open>
  C21.  If every answer of success carries data, a read of any range is over after more answers than it has bytes,
  and has called its completion handler exactly once; so is a write of any buffer after more answers than it has bytes,
  whatever is answered.
\<close>

theorem device_memory_transfers_end:
  assumes "\<forall>d\<in>set ds. \<forall>q. carries_data (d q)" "unat len + EthernetMaxFrameSize \<le> 2 ^ 64" "unat len < length ds"
    and "length buf < 2 ^ 64" "length buf < length ds'"
  shows "(let (evs, t) = transfer_run (onUserReadDeviceMemoryResult opts) ds (readDeviceMemory opts isKnown address len)
          in t = None \<and> length (completions evs) = 1)
    \<and> (let (evs, t) = transfer_run (onUserWriteDeviceMemoryResult opts) ds' (writeDeviceMemory opts isKnown address buf)
          in t = None \<and> length (completions evs) = 1)"
proof (intro conjI)
  obtain es v where start: "readDeviceMemory opts isKnown address len = (es, v)" by fastforce
  have c: "length (completions es) = (if v = None then 1 else 0)"
    using start by (auto simp: readDeviceMemory_def Let_def split: if_splits)
  have "v = Some t \<Longrightarrow> read_in_range t \<and> unat (rt_length t) - length (rt_memoryBuffer t) < length ds" for t
    using start assms(2,3)
    by (auto simp: readDeviceMemory_def read_in_range_def makeNextReadDeviceMemoryTlv_eq Let_def word_less_nat_alt split: if_splits)
  then have over: "snd (transfer_run (onUserReadDeviceMemoryResult opts) ds (es, v)) = None"
    by (cases v) (auto intro: rd.over_in_time [OF assms(1)])
  obtain es' v' where r: "transfer_run (onUserReadDeviceMemoryResult opts) ds (es, v) = (es', v')" by fastforce
  show "let (evs, t) = transfer_run (onUserReadDeviceMemoryResult opts) ds (readDeviceMemory opts isKnown address len)
          in t = None \<and> length (completions evs) = 1"
    using rd.one_completion [OF c r] over r start by simp
next
  obtain es v where start: "writeDeviceMemory opts isKnown address buf = (es, v)" by fastforce
  have c: "length (completions es) = (if v = None then 1 else 0)"
    using start by (auto simp: writeDeviceMemory_def Let_def split: if_splits)
  have "v = Some t \<Longrightarrow> write_in_range t \<and> length (wt_memoryBuffer t) - unat (wt_sentSize t) < length ds'" for t
    using start assms(4,5)
    by (auto simp: writeDeviceMemory_def write_in_range_def makeNextWriteDeviceMemoryTlv_eq Let_def unsigned_of_nat
        take_bit_nat_eq_self split: if_splits)
  then have over: "snd (transfer_run (onUserWriteDeviceMemoryResult opts) ds' (es, v)) = None"
    by (cases v) (auto intro: wr.over_in_time)
  obtain es' v' where r: "transfer_run (onUserWriteDeviceMemoryResult opts) ds' (es, v) = (es', v')" by fastforce
  show "let (evs, t) = transfer_run (onUserWriteDeviceMemoryResult opts) ds' (writeDeviceMemory opts isKnown address buf)
          in t = None \<and> length (completions evs) = 1"
    using wr.one_completion [OF c r] over r start by simp
qed

theorem device_memory_transfers_end_witness:
  "(let (evs, t) = transfer_run (onUserReadDeviceMemoryResult default_build) (replicate 5 (byte_device (\<lambda>_. 9)))
         (readDeviceMemory default_build True 8 4)
    in t = None \<and> length (completions evs) = 1)
   \<and> (let (evs, t) = transfer_run (onUserWriteDeviceMemoryResult default_build) [byte_device (\<lambda>_. 9), byte_device (\<lambda>_. 9)]
         (writeDeviceMemory default_build True 8 [1])
    in t = None \<and> length (completions evs) = 1)"
  by (rule device_memory_transfers_end)
     (simp_all add: carries_data_def byte_device_def tlvs_size_def EthernetMaxFrameSize_def)

end
