(* ===== verification/EntityTree.thy ===== *)
theory EntityTree
  imports ControllerHandlers
begin

text \<open>
  The entity model the controller library builds of a remote entity, and its visit
  (include/la/avdecc/controller/internals/avdeccControlledEntityModel.hpp,
  src/controller/treeModelAccessTraverseStrategy.hpp, the setters and \<^verbatim>\<open>accept\<close> of
  src/controller/avdeccControlledEntityImpl.cpp, src/controller/avdeccEntityModelCache.hpp).

  A node keeps the fields of its descriptor, static and dynamic ones, as the record the descriptor is read
  into, and its children by index in ascending order, like the \<^verbatim>\<open>std::map\<close>s of the code.  The redundant
  (virtual) nodes, which are built once the model is complete, are not part of the tree.
\<close>

section \<open>Nodes\<close>

record stream_port_node =
  spn_model :: stream_port_descriptor
  spn_audioClusters :: "(descriptor_index, audio_cluster_descriptor) alist"
  spn_audioMaps :: "(descriptor_index, audio_map_descriptor) alist"
  spn_controls :: "(descriptor_index, control_descriptor) alist"

record audio_unit_node =
  aun_model :: audio_unit_descriptor
  aun_streamPortInputs :: "(descriptor_index, stream_port_node) alist"
  aun_streamPortOutputs :: "(descriptor_index, stream_port_node) alist"
  aun_controls :: "(descriptor_index, control_descriptor) alist"

record jack_node =
  jkn_model :: jack_descriptor
  jkn_controls :: "(descriptor_index, control_descriptor) alist"

record locale_node =
  lcn_model :: locale_descriptor
  lcn_strings :: "(descriptor_index, strings_descriptor) alist"

record ptp_instance_node =
  pin_model :: ptp_instance_descriptor
  pin_controls :: "(descriptor_index, control_descriptor) alist"
  pin_ptpPorts :: "(descriptor_index, ptp_port_descriptor) alist"

record configuration_node =
  cfn_model :: configuration_descriptor
  cfn_isActiveConfiguration :: bool
  cfn_selectedLocaleBaseIndex :: "16 word"
  cfn_selectedLocaleCountIndexes :: "16 word"
  cfn_localizedStrings :: "(16 word, fixed_string) alist"
  cfn_audioUnits :: "(descriptor_index, audio_unit_node) alist"
  cfn_streamInputs :: "(descriptor_index, stream_descriptor) alist"
  cfn_streamOutputs :: "(descriptor_index, stream_descriptor) alist"
  cfn_jackInputs :: "(descriptor_index, jack_node) alist"
  cfn_jackOutputs :: "(descriptor_index, jack_node) alist"
  cfn_avbInterfaces :: "(descriptor_index, avb_interface_descriptor) alist"
  cfn_clockSources :: "(descriptor_index, clock_source_descriptor) alist"
  cfn_memoryObjects :: "(descriptor_index, memory_object_descriptor) alist"
  cfn_locales :: "(descriptor_index, locale_node) alist"
  cfn_controls :: "(descriptor_index, control_descriptor) alist"
  cfn_clockDomains :: "(descriptor_index, clock_domain_descriptor) alist"
  cfn_timings :: "(descriptor_index, timing_descriptor) alist"
  cfn_ptpInstances :: "(descriptor_index, ptp_instance_node) alist"

record entity_node =
  etn_vendorNameString :: "16 word"
  etn_modelNameString :: "16 word"
  etn_firmwareVersion :: fixed_string
  etn_serialNumber :: fixed_string
  etn_entityName :: fixed_string
  etn_groupName :: fixed_string
  etn_currentConfiguration :: configuration_index
  etn_configurations :: "(configuration_index, configuration_node) alist"

definition ConfigurationNode_new :: configuration_node where
  "ConfigurationNode_new =
     \<lparr>cfn_model = ConfigurationDescriptor_new, cfn_isActiveConfiguration = False, cfn_selectedLocaleBaseIndex = 0,
      cfn_selectedLocaleCountIndexes = 0, cfn_localizedStrings = [], cfn_audioUnits = [], cfn_streamInputs = [],
      cfn_streamOutputs = [], cfn_jackInputs = [], cfn_jackOutputs = [], cfn_avbInterfaces = [], cfn_clockSources = [],
      cfn_memoryObjects = [], cfn_locales = [], cfn_controls = [], cfn_clockDomains = [], cfn_timings = [],
      cfn_ptpInstances = []\<rparr>"

text \<open>\<^verbatim>\<open>EntityNode{}\<close>: the strings of a default model are empty and its localized names null.\<close>

definition EntityNode_new :: entity_node where
  "EntityNode_new =
     \<lparr>etn_vendorNameString = ed_vendorNameString EntityDescriptor_new,
      etn_modelNameString = ed_modelNameString EntityDescriptor_new,
      etn_firmwareVersion = ed_firmwareVersion EntityDescriptor_new,
      etn_serialNumber = ed_serialNumber EntityDescriptor_new, etn_entityName = ed_entityName EntityDescriptor_new,
      etn_groupName = ed_groupName EntityDescriptor_new, etn_currentConfiguration = 0, etn_configurations = []\<rparr>"

section \<open>Access\<close>

text \<open>
  The traversal of \<^verbatim>\<open>TreeModelAccessTraverseStrategy\<close> with \<^verbatim>\<open>DefaultConstruct\<close>.  A child is looked for in the
  first node whose range of indexes has it; the end of the range is computed on 16 bits.
\<close>

definition isDescriptorIndexInRange :: "descriptor_index \<Rightarrow> descriptor_index \<Rightarrow> 16 word \<Rightarrow> bool" where
  "isDescriptorIndexInRange descriptorIndex baseIndex countDescriptors \<longleftrightarrow>
     descriptorIndex \<ge> baseIndex \<and> descriptorIndex < baseIndex + countDescriptors"

definition node_put :: "'k::linorder \<Rightarrow> 'v \<Rightarrow> ('v \<Rightarrow> 'v) \<Rightarrow> ('k, 'v) alist \<Rightarrow> ('k, 'v) alist" where
  "node_put k v f es = om_put k (f (case al_get k es of None \<Rightarrow> v | Some v' \<Rightarrow> v')) es"

primrec upd_first :: "('v \<Rightarrow> 'v option) \<Rightarrow> ('k, 'v) alist \<Rightarrow> ('k, 'v) alist option" where
  "upd_first f [] = None"
| "upd_first f (e # es) = (case f (snd e) of
     Some v \<Rightarrow> Some ((fst e, v) # es)
   | None \<Rightarrow> map_option ((#) e) (upd_first f es))"

definition or_else :: "'a option \<Rightarrow> 'a option \<Rightarrow> 'a option" where
  "or_else r r' = (case r of None \<Rightarrow> r' | Some x \<Rightarrow> Some x)"

definition put_in_range ::
    "descriptor_index \<Rightarrow> descriptor_index \<Rightarrow> 16 word \<Rightarrow> 'v \<Rightarrow> (descriptor_index, 'v) alist \<Rightarrow> (descriptor_index, 'v) alist option" where
  "put_in_range i base counted v es = (if isDescriptorIndexInRange i base counted then Some (om_put i v es) else None)"

section \<open>Setters\<close>

text \<open>
  The setters of one configuration.  A result of \<^verbatim>\<open>None\<close> is the null pointer of a child no node has in range,
  which the code dereferences (an assertion precedes, which a release build has not).
\<close>

definition setAudioUnitNode :: "audio_unit_descriptor \<Rightarrow> descriptor_index \<Rightarrow> configuration_node \<Rightarrow> configuration_node" where
  "setAudioUnitNode d i c = c\<lparr>cfn_audioUnits :=
     node_put i \<lparr>aun_model = d, aun_streamPortInputs = [], aun_streamPortOutputs = [], aun_controls = []\<rparr>
       (\<lambda>n. n\<lparr>aun_model := d\<rparr>) (cfn_audioUnits c)\<rparr>"

definition setJackNode :: "jack_descriptor \<Rightarrow> descriptor_index \<Rightarrow> (descriptor_index, jack_node) alist \<Rightarrow> (descriptor_index, jack_node) alist" where
  "setJackNode d i = node_put i \<lparr>jkn_model = d, jkn_controls = []\<rparr> (\<lambda>n. n\<lparr>jkn_model := d\<rparr>)"

definition setLocaleNode :: "locale_descriptor \<Rightarrow> descriptor_index \<Rightarrow> configuration_node \<Rightarrow> configuration_node" where
  "setLocaleNode d i c = c\<lparr>cfn_locales :=
     node_put i \<lparr>lcn_model = d, lcn_strings = []\<rparr> (\<lambda>n. n\<lparr>lcn_model := d\<rparr>) (cfn_locales c)\<rparr>"

definition setPtpInstanceNode :: "ptp_instance_descriptor \<Rightarrow> descriptor_index \<Rightarrow> configuration_node \<Rightarrow> configuration_node" where
  "setPtpInstanceNode d i c = c\<lparr>cfn_ptpInstances :=
     node_put i \<lparr>pin_model = d, pin_controls = [], pin_ptpPorts = []\<rparr> (\<lambda>n. n\<lparr>pin_model := d\<rparr>) (cfn_ptpInstances c)\<rparr>"

definition setStreamPortNode ::
    "stream_port_descriptor \<Rightarrow> descriptor_index \<Rightarrow> (descriptor_index, stream_port_node) alist \<Rightarrow> (descriptor_index, stream_port_node) alist" where
  "setStreamPortNode d i =
     node_put i \<lparr>spn_model = d, spn_audioClusters = [], spn_audioMaps = [], spn_controls = []\<rparr> (\<lambda>n. n\<lparr>spn_model := d\<rparr>)"

definition setStreamPortInputNode :: "stream_port_descriptor \<Rightarrow> descriptor_index \<Rightarrow> configuration_node \<Rightarrow> configuration_node option" where
  "setStreamPortInputNode d i c = map_option (\<lambda>us. c\<lparr>cfn_audioUnits := us\<rparr>)
     (upd_first (\<lambda>u. if isDescriptorIndexInRange i (au_baseStreamInputPort (aun_model u)) (au_numberOfStreamInputPorts (aun_model u))
        then Some (u\<lparr>aun_streamPortInputs := setStreamPortNode d i (aun_streamPortInputs u)\<rparr>) else None) (cfn_audioUnits c))"

definition setStreamPortOutputNode :: "stream_port_descriptor \<Rightarrow> descriptor_index \<Rightarrow> configuration_node \<Rightarrow> configuration_node option" where
  "setStreamPortOutputNode d i c = map_option (\<lambda>us. c\<lparr>cfn_audioUnits := us\<rparr>)
     (upd_first (\<lambda>u. if isDescriptorIndexInRange i (au_baseStreamOutputPort (aun_model u)) (au_numberOfStreamOutputPorts (aun_model u))
        then Some (u\<lparr>aun_streamPortOutputs := setStreamPortNode d i (aun_streamPortOutputs u)\<rparr>) else None) (cfn_audioUnits c))"

text \<open>A child of a stream port: the inputs of an audio unit are searched before its outputs.\<close>

definition upd_ports :: "(stream_port_node \<Rightarrow> stream_port_node option) \<Rightarrow> audio_unit_node \<Rightarrow> audio_unit_node option" where
  "upd_ports f u = or_else
     (map_option (\<lambda>ps. u\<lparr>aun_streamPortInputs := ps\<rparr>) (upd_first f (aun_streamPortInputs u)))
     (map_option (\<lambda>ps. u\<lparr>aun_streamPortOutputs := ps\<rparr>) (upd_first f (aun_streamPortOutputs u)))"

definition setAudioClusterNode :: "audio_cluster_descriptor \<Rightarrow> descriptor_index \<Rightarrow> configuration_node \<Rightarrow> configuration_node option" where
  "setAudioClusterNode d i c = map_option (\<lambda>us. c\<lparr>cfn_audioUnits := us\<rparr>)
     (upd_first (upd_ports (\<lambda>p. map_option (\<lambda>es. p\<lparr>spn_audioClusters := es\<rparr>)
        (put_in_range i (sp_baseCluster (spn_model p)) (sp_numberOfClusters (spn_model p)) d (spn_audioClusters p))))
        (cfn_audioUnits c))"

definition setAudioMapNode :: "audio_map_descriptor \<Rightarrow> descriptor_index \<Rightarrow> configuration_node \<Rightarrow> configuration_node option" where
  "setAudioMapNode d i c = map_option (\<lambda>us. c\<lparr>cfn_audioUnits := us\<rparr>)
     (upd_first (upd_ports (\<lambda>p. map_option (\<lambda>es. p\<lparr>spn_audioMaps := es\<rparr>)
        (put_in_range i (sp_baseMap (spn_model p)) (sp_numberOfMaps (spn_model p)) d (spn_audioMaps p))))
        (cfn_audioUnits c))"

definition upd_unit_controls :: "control_descriptor \<Rightarrow> descriptor_index \<Rightarrow> audio_unit_node \<Rightarrow> audio_unit_node option" where
  "upd_unit_controls d i u = or_else
     (map_option (\<lambda>es. u\<lparr>aun_controls := es\<rparr>)
       (put_in_range i (au_baseControl (aun_model u)) (au_numberOfControls (aun_model u)) d (aun_controls u)))
     (upd_ports (\<lambda>p. map_option (\<lambda>es. p\<lparr>spn_controls := es\<rparr>)
       (put_in_range i (sp_baseControl (spn_model p)) (sp_numberOfControls (spn_model p)) d (spn_controls p))) u)"

definition upd_jack_controls :: "control_descriptor \<Rightarrow> descriptor_index \<Rightarrow> jack_node \<Rightarrow> jack_node option" where
  "upd_jack_controls d i n = map_option (\<lambda>es. n\<lparr>jkn_controls := es\<rparr>)
     (put_in_range i (jk_baseControl (jkn_model n)) (jk_numberOfControls (jkn_model n)) d (jkn_controls n))"

definition upd_ptp_controls :: "control_descriptor \<Rightarrow> descriptor_index \<Rightarrow> ptp_instance_node \<Rightarrow> ptp_instance_node option" where
  "upd_ptp_controls d i n = map_option (\<lambda>es. n\<lparr>pin_controls := es\<rparr>)
     (put_in_range i (pi_baseControl (pin_model n)) (pi_numberOfControls (pin_model n)) d (pin_controls n))"

definition setControlNode :: "control_descriptor \<Rightarrow> descriptor_index \<Rightarrow> configuration_node \<Rightarrow> configuration_node option" where
  "setControlNode d i c =
     or_else (case al_get DescriptorType_Control (cf_descriptorCounts (cfn_model c)) of
         None \<Rightarrow> None
       | Some counted \<Rightarrow> map_option (\<lambda>es. c\<lparr>cfn_controls := es\<rparr>) (put_in_range i 0 counted d (cfn_controls c)))
     (or_else (map_option (\<lambda>us. c\<lparr>cfn_audioUnits := us\<rparr>) (upd_first (upd_unit_controls d i) (cfn_audioUnits c)))
     (or_else (map_option (\<lambda>js. c\<lparr>cfn_jackInputs := js\<rparr>) (upd_first (upd_jack_controls d i) (cfn_jackInputs c)))
     (or_else (map_option (\<lambda>js. c\<lparr>cfn_jackOutputs := js\<rparr>) (upd_first (upd_jack_controls d i) (cfn_jackOutputs c)))
     (map_option (\<lambda>ps. c\<lparr>cfn_ptpInstances := ps\<rparr>) (upd_first (upd_ptp_controls d i) (cfn_ptpInstances c))))))"

definition setPtpPortNode :: "ptp_port_descriptor \<Rightarrow> descriptor_index \<Rightarrow> configuration_node \<Rightarrow> configuration_node option" where
  "setPtpPortNode d i c = map_option (\<lambda>ps. c\<lparr>cfn_ptpInstances := ps\<rparr>)
     (upd_first (\<lambda>n. map_option (\<lambda>es. n\<lparr>pin_ptpPorts := es\<rparr>)
        (put_in_range i (pi_basePtpPort (pin_model n)) (pi_numberOfPtpPorts (pin_model n)) d (pin_ptpPorts n)))
        (cfn_ptpInstances c))"

definition setStringsNode :: "strings_descriptor \<Rightarrow> descriptor_index \<Rightarrow> configuration_node \<Rightarrow> configuration_node option" where
  "setStringsNode d i c = map_option (\<lambda>ls. c\<lparr>cfn_locales := ls\<rparr>)
     (upd_first (\<lambda>l. map_option (\<lambda>es. l\<lparr>lcn_strings := es\<rparr>)
        (put_in_range i (lc_baseStringDescriptorIndex (lcn_model l)) (lc_numberOfStringDescriptors (lcn_model l)) d (lcn_strings l)))
        (cfn_locales c))"

section \<open>The tree of the entity\<close>

text \<open>
  \<^verbatim>\<open>setConfigurationDescriptor\<close> marks the active configuration.  The strings of the selected locale are
  copied to the configuration, at their offset in it: seven strings to a descriptor, on 16 bits.
\<close>

definition setEntityNode :: "entity_descriptor \<Rightarrow> entity_node \<Rightarrow> entity_node" where
  "setEntityNode d n = n\<lparr>etn_vendorNameString := ed_vendorNameString d, etn_modelNameString := ed_modelNameString d,
     etn_firmwareVersion := ed_firmwareVersion d, etn_serialNumber := ed_serialNumber d, etn_entityName := ed_entityName d,
     etn_groupName := ed_groupName d, etn_currentConfiguration := ed_currentConfiguration d\<rparr>"

definition setConfigurationNode :: "configuration_descriptor \<Rightarrow> configuration_index \<Rightarrow> entity_node \<Rightarrow> entity_node" where
  "setConfigurationNode d ci n = n\<lparr>etn_configurations :=
     node_put ci ConfigurationNode_new
       (\<lambda>c. c\<lparr>cfn_model := d, cfn_isActiveConfiguration := ci = etn_currentConfiguration n\<rparr>) (etn_configurations n)\<rparr>"

definition LocalizedStringReference_of :: "16 word \<Rightarrow> 8 word \<Rightarrow> 16 word" where
  "LocalizedStringReference_of offset index = push_bit 3 offset + ucast (index AND 7)"

definition LocalizedStringReference_isValid :: "16 word \<Rightarrow> bool" where
  "LocalizedStringReference_isValid v \<longleftrightarrow> v AND 7 \<noteq> 7"

definition getGlobalOffset :: "16 word \<Rightarrow> 16 word outcome" where
  "getGlobalOffset v = othrow_if (\<not> LocalizedStringReference_isValid v) InvalidArgument
     (Inr (drop_bit 3 v * 7 + (v AND 7)))"

text \<open>An \<^verbatim>\<open>AvdeccFixedStrings\<close> has seven strings, so that no reference made of it is invalid.\<close>

definition setLocalizedStringsNode :: "16 word \<Rightarrow> fixed_string list \<Rightarrow> configuration_node \<Rightarrow> configuration_node" where
  "setLocalizedStringsNode relativeStringsIndex strings c = c\<lparr>cfn_localizedStrings :=
     fold (\<lambda>strIndex m. case getGlobalOffset (LocalizedStringReference_of relativeStringsIndex (word_of_nat strIndex)) of
             Inl _ \<Rightarrow> m
           | Inr localizedStringIndex \<Rightarrow> al_put localizedStringIndex (strings ! strIndex) m)
       [0..<length strings] (cfn_localizedStrings c)\<rparr>"

text \<open>
  The range of the selected locale is compared as integers, without wrap-around.
\<close>

definition setStringsAndLocalize :: "strings_descriptor \<Rightarrow> descriptor_index \<Rightarrow> configuration_node \<Rightarrow> configuration_node option" where
  "setStringsAndLocalize d i c = map_option (\<lambda>c'.
     if cfn_selectedLocaleCountIndexes c' > 0 \<and> i \<ge> cfn_selectedLocaleBaseIndex c'
          \<and> uint i < uint (cfn_selectedLocaleBaseIndex c') + uint (cfn_selectedLocaleCountIndexes c')
     then setLocalizedStringsNode (i - cfn_selectedLocaleBaseIndex c') (sg_strings d) c'
     else c') (setStringsNode d i c)"

section \<open>Visit\<close>

text \<open>
  \<^verbatim>\<open>accept\<close> as the list of the nodes a visitor is shown, in order, each with the indexes of its parents.
  A node seen again under another parent (the clock sources of a clock domain, the PTP instances of a timing)
  has a constructor of its own, as it has an overload of \<^verbatim>\<open>visit\<close>.
\<close>

datatype (plugins only: code) visit =
    V_Entity entity_node
  | V_Configuration configuration_index configuration_node
  | V_AudioUnit configuration_index descriptor_index audio_unit_node
  | V_StreamPortInput configuration_index descriptor_index stream_port_node
  | V_StreamPortOutput configuration_index descriptor_index stream_port_node
  | V_AudioCluster configuration_index descriptor_index audio_cluster_descriptor
  | V_AudioMap configuration_index descriptor_index audio_map_descriptor
  | V_StreamPortControl configuration_index descriptor_index control_descriptor
  | V_AudioUnitControl configuration_index descriptor_index control_descriptor
  | V_StreamInput configuration_index descriptor_index stream_descriptor
  | V_StreamOutput configuration_index descriptor_index stream_descriptor
  | V_JackInput configuration_index descriptor_index jack_node
  | V_JackOutput configuration_index descriptor_index jack_node
  | V_JackControl configuration_index descriptor_index control_descriptor
  | V_AvbInterface configuration_index descriptor_index avb_interface_descriptor
  | V_ClockSource configuration_index descriptor_index clock_source_descriptor
  | V_MemoryObject configuration_index descriptor_index memory_object_descriptor
  | V_Locale configuration_index descriptor_index locale_node
  | V_Strings configuration_index descriptor_index strings_descriptor
  | V_Control configuration_index descriptor_index control_descriptor
  | V_ClockDomain configuration_index descriptor_index clock_domain_descriptor
  | V_ClockDomainSource configuration_index descriptor_index clock_source_descriptor
  | V_Timing configuration_index descriptor_index timing_descriptor
  | V_TimingPtpInstance configuration_index descriptor_index ptp_instance_node
  | V_TimingPtpControl configuration_index descriptor_index control_descriptor
  | V_TimingPtpPort configuration_index descriptor_index ptp_port_descriptor
  | V_PtpInstance configuration_index descriptor_index ptp_instance_node
  | V_PtpControl configuration_index descriptor_index control_descriptor
  | V_PtpPort configuration_index descriptor_index ptp_port_descriptor

definition visit_all :: "(descriptor_index \<Rightarrow> 'v \<Rightarrow> visit list) \<Rightarrow> (descriptor_index, 'v) alist \<Rightarrow> visit list" where
  "visit_all f es = concat (map (\<lambda>(i, v). f i v) es)"

definition visit_each :: "(descriptor_index \<Rightarrow> 'v \<Rightarrow> visit) \<Rightarrow> (descriptor_index, 'v) alist \<Rightarrow> visit list" where
  "visit_each f = map (\<lambda>(i, v). f i v)"

definition visit_found ::
    "(descriptor_index \<Rightarrow> 'v \<Rightarrow> visit list) \<Rightarrow> (descriptor_index, 'v) alist \<Rightarrow> descriptor_index list \<Rightarrow> visit list" where
  "visit_found f es is = concat (map (\<lambda>i. case al_get i es of None \<Rightarrow> [] | Some v \<Rightarrow> f i v) is)"

definition processStreamPortNodes ::
    "configuration_index \<Rightarrow> (configuration_index \<Rightarrow> descriptor_index \<Rightarrow> stream_port_node \<Rightarrow> visit)
       \<Rightarrow> (descriptor_index, stream_port_node) alist \<Rightarrow> visit list" where
  "processStreamPortNodes ci v = visit_all (\<lambda>i p. v ci i p # visit_each (V_AudioCluster ci) (spn_audioClusters p)
     @ visit_each (V_AudioMap ci) (spn_audioMaps p) @ visit_each (V_StreamPortControl ci) (spn_controls p))"

definition processJackNodes ::
    "configuration_index \<Rightarrow> (configuration_index \<Rightarrow> descriptor_index \<Rightarrow> jack_node \<Rightarrow> visit)
       \<Rightarrow> (descriptor_index, jack_node) alist \<Rightarrow> visit list" where
  "processJackNodes ci v = visit_all (\<lambda>i j. v ci i j # visit_each (V_JackControl ci) (jkn_controls j))"

definition visit_configuration :: "configuration_index \<Rightarrow> configuration_node \<Rightarrow> visit list" where
  "visit_configuration ci c =
     visit_all (\<lambda>i u. V_AudioUnit ci i u # processStreamPortNodes ci V_StreamPortInput (aun_streamPortInputs u)
         @ processStreamPortNodes ci V_StreamPortOutput (aun_streamPortOutputs u)
         @ visit_each (V_AudioUnitControl ci) (aun_controls u)) (cfn_audioUnits c)
     @ visit_each (V_StreamInput ci) (cfn_streamInputs c) @ visit_each (V_StreamOutput ci) (cfn_streamOutputs c)
     @ processJackNodes ci V_JackInput (cfn_jackInputs c) @ processJackNodes ci V_JackOutput (cfn_jackOutputs c)
     @ visit_each (V_AvbInterface ci) (cfn_avbInterfaces c) @ visit_each (V_ClockSource ci) (cfn_clockSources c)
     @ visit_each (V_MemoryObject ci) (cfn_memoryObjects c)
     @ visit_all (\<lambda>i l. V_Locale ci i l # visit_each (V_Strings ci) (lcn_strings l)) (cfn_locales c)
     @ visit_each (V_Control ci) (cfn_controls c)
     @ visit_all (\<lambda>i d. V_ClockDomain ci i d
         # visit_found (\<lambda>k s. [V_ClockDomainSource ci k s]) (cfn_clockSources c) (cd_clockSources d)) (cfn_clockDomains c)
     @ visit_all (\<lambda>i t. V_Timing ci i t
         # visit_found (\<lambda>k p. V_TimingPtpInstance ci k p # visit_each (V_TimingPtpControl ci) (pin_controls p)
             @ visit_each (V_TimingPtpPort ci) (pin_ptpPorts p)) (cfn_ptpInstances c) (tm_ptpInstances t)) (cfn_timings c)
     @ visit_all (\<lambda>i p. V_PtpInstance ci i p # visit_each (V_PtpControl ci) (pin_controls p)
         @ visit_each (V_PtpPort ci) (pin_ptpPorts p)) (cfn_ptpInstances c)"

definition visit_entity :: "bool \<Rightarrow> entity_node \<Rightarrow> visit list" where
  "visit_entity visitAllConfigurations n = V_Entity n
     # visit_all (\<lambda>ci c. V_Configuration ci c
         # (if visitAllConfigurations \<or> cfn_isActiveConfiguration c then visit_configuration ci c else [])) (etn_configurations n)"

section \<open>The cache of entity models\<close>

text \<open>A cached model with the mark that it is complete, by the identifier of its entity model.\<close>

record entity_model_cache =
  emc_isEnabled :: bool
  emc_modelCache :: "(uid, bool \<times> entity_node) alist"

definition isValidEntityModelID :: "uid \<Rightarrow> bool" where
  "isValidEntityModelID entityModelID \<longleftrightarrow>
     (let vendorID = drop_bit 40 entityModelID AND 0xFFFFFF in vendorID \<noteq> 0 \<and> vendorID \<noteq> 0xFFFFFF)"

definition getCachedEntityModel :: "uid \<Rightarrow> entity_model_cache \<Rightarrow> entity_node option" where
  "getCachedEntityModel entityModelID cache =
     (if emc_isEnabled cache \<and> uid_isValid entityModelID
      then map_option snd (al_get entityModelID (emc_modelCache cache)) else None)"

definition cacheEntityModel :: "uid \<Rightarrow> entity_node \<Rightarrow> bool \<Rightarrow> entity_model_cache \<Rightarrow> entity_model_cache" where
  "cacheEntityModel entityModelID model isFullModel cache =
     (if emc_isEnabled cache \<and> uid_isValid entityModelID then
        (case al_get entityModelID (emc_modelCache cache) of
           Some (isCachedModelComplete, _) \<Rightarrow>
             if \<not> isCachedModelComplete \<and> isFullModel
             then cache\<lparr>emc_modelCache := al_put entityModelID (isFullModel, model) (emc_modelCache cache)\<rparr> else cache
         | None \<Rightarrow> cache\<lparr>emc_modelCache := al_put entityModelID (isFullModel, model) (emc_modelCache cache)\<rparr>)
      else cache)"

text \<open>A configuration is valid when it has as many nodes of a type as it declares; the numbers are unbounded.\<close>

definition validateDescriptorCount :: "(descriptor_type, 16 word) alist \<Rightarrow> descriptor_type \<Rightarrow> ('k, 'v) alist \<Rightarrow> bool" where
  "validateDescriptorCount descriptorCounts descriptorType tree \<longleftrightarrow>
     length tree = unat (case al_get descriptorType descriptorCounts of None \<Rightarrow> 0 | Some n \<Rightarrow> n)"

definition isModelValidForConfiguration :: "configuration_node \<Rightarrow> bool" where
  "isModelValidForConfiguration c \<longleftrightarrow> (let descriptorCounts = cf_descriptorCounts (cfn_model c) in
     validateDescriptorCount descriptorCounts DescriptorType_AudioUnit (cfn_audioUnits c)
     \<and> validateDescriptorCount descriptorCounts DescriptorType_StreamInput (cfn_streamInputs c)
     \<and> validateDescriptorCount descriptorCounts DescriptorType_StreamOutput (cfn_streamOutputs c)
     \<and> validateDescriptorCount descriptorCounts DescriptorType_JackInput (cfn_jackInputs c)
     \<and> validateDescriptorCount descriptorCounts DescriptorType_JackOutput (cfn_jackOutputs c)
     \<and> validateDescriptorCount descriptorCounts DescriptorType_AvbInterface (cfn_avbInterfaces c)
     \<and> validateDescriptorCount descriptorCounts DescriptorType_ClockSource (cfn_clockSources c)
     \<and> validateDescriptorCount descriptorCounts DescriptorType_MemoryObject (cfn_memoryObjects c)
     \<and> validateDescriptorCount descriptorCounts DescriptorType_Control (cfn_controls c)
     \<and> validateDescriptorCount descriptorCounts DescriptorType_ClockDomain (cfn_clockDomains c)
     \<and> validateDescriptorCount descriptorCounts DescriptorType_Timing (cfn_timings c)
     \<and> validateDescriptorCount descriptorCounts DescriptorType_PtpInstance (cfn_ptpInstances c))"

definition isEntityModelComplete :: "entity_node \<Rightarrow> 16 word \<Rightarrow> bool \<times> configuration_index" where
  "isEntityModelComplete entityNode configurationsCount =
     (if unat configurationsCount \<noteq> length (etn_configurations entityNode) then (False, 0)
      else case filter (\<lambda>(_, c). \<not> isModelValidForConfiguration c) (etn_configurations entityNode) of
        [] \<Rightarrow> (True, 0xFFFF)
      | (configIndex, _) # _ \<Rightarrow> (False, configIndex))"

text \<open>
  The copy of a cached model for an entity, if the strings of its entity descriptor are those of the cached one
  and the configurations the controller wants are complete in it.
\<close>

definition cachedEntityNode :: "entity_node \<Rightarrow> entity_descriptor \<Rightarrow> bool \<Rightarrow> entity_node option" where
  "cachedEntityNode cachedNode descriptor forAllConfiguration =
     (if etn_vendorNameString cachedNode \<noteq> ed_vendorNameString descriptor
         \<or> etn_modelNameString cachedNode \<noteq> ed_modelNameString descriptor then None
      else if forAllConfiguration \<and> \<not> fst (isEntityModelComplete cachedNode (ed_configurationsCount descriptor)) then None
      else if \<not> forAllConfiguration
          \<and> (case al_get (ed_currentConfiguration descriptor) (etn_configurations cachedNode) of
               None \<Rightarrow> True | Some c \<Rightarrow> \<not> isModelValidForConfiguration c) then None
      else Some (setEntityNode descriptor cachedNode))"

end
