(* ===== verification/ControlledEntity.thy ===== *)
theory ControlledEntity
  imports EntityTree
begin

text \<open>
  \<^verbatim>\<open>ControlledEntityImpl\<close> (src/controller/avdeccControlledEntityImpl.cpp and .hpp): what the controller
  library keeps of a remote entity while it enumerates it.  Here its steps, the answers it still expects, the
  retries it has left, and its counters of unsolicited notifications.  The entity model is that of EntityTree.

  What the library does for the entity meanwhile (the observers it notifies, the queries it sends or delays,
  the values it updates) is a list of actions, kept with the entity in the order of the code.
\<close>

section \<open>Steps and keys\<close>

datatype enumeration_step =
    Step_GetMilanInfo
  | Step_CheckPackedDynamicInfoSupported
  | Step_RegisterUnsol
  | Step_GetStaticModel
  | Step_GetDescriptorDynamicInfo
  | Step_GetDynamicInfo

datatype milan_info_type = MI_MilanInfo

datatype dynamic_info_type =
    DI_AcquiredState
  | DI_LockedState
  | DI_InputStreamPortAudioMappings
  | DI_OutputStreamPortAudioMappings
  | DI_InputStreamState
  | DI_OutputStreamState
  | DI_OutputStreamConnection
  | DI_InputStreamInfo
  | DI_OutputStreamInfo
  | DI_GetAvbInfo
  | DI_GetAsPath
  | DI_GetEntityCounters
  | DI_GetAvbInterfaceCounters
  | DI_GetClockDomainCounters
  | DI_GetStreamInputCounters
  | DI_GetStreamOutputCounters
  | DI_GetMaxTransitTime
  | DI_GetSystemUniqueID
  | DI_GetMediaClockReferenceInfo
  | DI_InputStreamInfoEx

datatype descriptor_dynamic_info_type =
    DD_ConfigurationName
  | DD_AudioUnitName
  | DD_AudioUnitSamplingRate
  | DD_InputStreamName
  | DD_InputStreamFormat
  | DD_OutputStreamName
  | DD_OutputStreamFormat
  | DD_InputJackName
  | DD_OutputJackName
  | DD_AvbInterfaceDescriptor
  | DD_ClockSourceDescriptor
  | DD_MemoryObjectName
  | DD_MemoryObjectLength
  | DD_AudioClusterName
  | DD_ControlName
  | DD_ControlValues
  | DD_ClockDomainName
  | DD_ClockDomainSourceIndex
  | DD_TimingName
  | DD_PtpInstanceName
  | DD_PtpPortName

text \<open>The enumerations are \<^verbatim>\<open>std::uint16_t\<close> in the order of their declaration.\<close>

fun milan_info_type_value :: "milan_info_type \<Rightarrow> 16 word" where
  "milan_info_type_value MI_MilanInfo = 0"

fun dynamic_info_type_value :: "dynamic_info_type \<Rightarrow> 16 word" where
  "dynamic_info_type_value DI_AcquiredState = 0"
| "dynamic_info_type_value DI_LockedState = 1"
| "dynamic_info_type_value DI_InputStreamPortAudioMappings = 2"
| "dynamic_info_type_value DI_OutputStreamPortAudioMappings = 3"
| "dynamic_info_type_value DI_InputStreamState = 4"
| "dynamic_info_type_value DI_OutputStreamState = 5"
| "dynamic_info_type_value DI_OutputStreamConnection = 6"
| "dynamic_info_type_value DI_InputStreamInfo = 7"
| "dynamic_info_type_value DI_OutputStreamInfo = 8"
| "dynamic_info_type_value DI_GetAvbInfo = 9"
| "dynamic_info_type_value DI_GetAsPath = 10"
| "dynamic_info_type_value DI_GetEntityCounters = 11"
| "dynamic_info_type_value DI_GetAvbInterfaceCounters = 12"
| "dynamic_info_type_value DI_GetClockDomainCounters = 13"
| "dynamic_info_type_value DI_GetStreamInputCounters = 14"
| "dynamic_info_type_value DI_GetStreamOutputCounters = 15"
| "dynamic_info_type_value DI_GetMaxTransitTime = 16"
| "dynamic_info_type_value DI_GetSystemUniqueID = 17"
| "dynamic_info_type_value DI_GetMediaClockReferenceInfo = 18"
| "dynamic_info_type_value DI_InputStreamInfoEx = 19"

fun descriptor_dynamic_info_type_value :: "descriptor_dynamic_info_type \<Rightarrow> 16 word" where
  "descriptor_dynamic_info_type_value DD_ConfigurationName = 0"
| "descriptor_dynamic_info_type_value DD_AudioUnitName = 1"
| "descriptor_dynamic_info_type_value DD_AudioUnitSamplingRate = 2"
| "descriptor_dynamic_info_type_value DD_InputStreamName = 3"
| "descriptor_dynamic_info_type_value DD_InputStreamFormat = 4"
| "descriptor_dynamic_info_type_value DD_OutputStreamName = 5"
| "descriptor_dynamic_info_type_value DD_OutputStreamFormat = 6"
| "descriptor_dynamic_info_type_value DD_InputJackName = 7"
| "descriptor_dynamic_info_type_value DD_OutputJackName = 8"
| "descriptor_dynamic_info_type_value DD_AvbInterfaceDescriptor = 9"
| "descriptor_dynamic_info_type_value DD_ClockSourceDescriptor = 10"
| "descriptor_dynamic_info_type_value DD_MemoryObjectName = 11"
| "descriptor_dynamic_info_type_value DD_MemoryObjectLength = 12"
| "descriptor_dynamic_info_type_value DD_AudioClusterName = 13"
| "descriptor_dynamic_info_type_value DD_ControlName = 14"
| "descriptor_dynamic_info_type_value DD_ControlValues = 15"
| "descriptor_dynamic_info_type_value DD_ClockDomainName = 16"
| "descriptor_dynamic_info_type_value DD_ClockDomainSourceIndex = 17"
| "descriptor_dynamic_info_type_value DD_TimingName = 18"
| "descriptor_dynamic_info_type_value DD_PtpInstanceName = 19"
| "descriptor_dynamic_info_type_value DD_PtpPortName = 20"

text \<open>
  The keys of the expected answers.  In the first, the type is promoted to \<^verbatim>\<open>int\<close> before it is shifted, and
  in the second the index is: there it reaches the sign of the \<^verbatim>\<open>int\<close>, which is then extended.
\<close>

definition makeMilanInfoKey :: "milan_info_type \<Rightarrow> 16 word" where
  "makeMilanInfoKey milanInfoType = milan_info_type_value milanInfoType"

definition makeDescriptorKey :: "descriptor_type \<Rightarrow> descriptor_index \<Rightarrow> 32 word" where
  "makeDescriptorKey descriptorType descriptorIndex = push_bit 16 (ucast descriptorType) + ucast descriptorIndex"

definition makeDynamicInfoKey :: "dynamic_info_type \<Rightarrow> descriptor_index \<Rightarrow> 16 word \<Rightarrow> 64 word" where
  "makeDynamicInfoKey dynamicInfoType descriptorIndex subIndex =
     push_bit 32 (ucast (dynamic_info_type_value dynamicInfoType))
       + scast (push_bit 16 (ucast descriptorIndex :: 32 word)) + ucast subIndex"

definition makeDescriptorDynamicInfoKey :: "descriptor_dynamic_info_type \<Rightarrow> descriptor_index \<Rightarrow> 64 word" where
  "makeDescriptorDynamicInfoKey descriptorDynamicInfoType descriptorIndex =
     push_bit 16 (ucast (descriptor_dynamic_info_type_value descriptorDynamicInfoType)) + ucast descriptorIndex"

lemma dynamic_info_type_value_inj: "dynamic_info_type_value t = dynamic_info_type_value t' \<longleftrightarrow> t = t'"
  by (cases t; cases t') simp_all

lemma descriptor_dynamic_info_type_value_inj:
  "descriptor_dynamic_info_type_value t = descriptor_dynamic_info_type_value t' \<longleftrightarrow> t = t'"
  by (cases t; cases t') simp_all

lemma ucast_add_down:
  fixes x y :: "'a::len word"
  assumes "LENGTH('b::len) \<le> LENGTH('a)"
  shows "(ucast (x + y) :: 'b word) = ucast x + ucast y"
  using assms by transfer (metis min.absorb1 take_bit_add take_bit_take_bit)

lemma ucast_scast_32_64: "(ucast (scast w :: 64 word) :: 32 word) = w" for w :: "32 word"
proof (rule bit_word_eqI)
  fix n assume "n < LENGTH(32)"
  then show "bit (ucast (scast w :: 64 word) :: 32 word) n = bit w n"
    by (cases "n = 31") (auto simp: bit_simps min_def)
qed

lemma pair_key_inj:
  fixes i i' s s' :: "16 word"
  assumes wide: "32 \<le> LENGTH('a::len)"
  shows "(push_bit 16 (ucast i) + ucast s :: 'a word) = push_bit 16 (ucast i') + ucast s' \<longleftrightarrow> i = i' \<and> s = s'"
proof
  have *: "(push_bit 16 (ucast i) + ucast s :: 'a word) = push_bit 16 (ucast i) OR ucast s" for i s :: "16 word"
    by (rule disjunctive_add) (auto simp: bit_simps dest: bit_imp_le_length)
  assume "(push_bit 16 (ucast i) + ucast s :: 'a word) = push_bit 16 (ucast i') + ucast s'"
  hence e: "(push_bit 16 (ucast i) OR ucast s :: 'a word) = push_bit 16 (ucast i') OR ucast s'" by (simp add: *)
  have "bit i n = bit i' n" if "n < 16" for n
    using arg_cong [OF e, of "\<lambda>w. bit w (n + 16)"] that wide
    by (auto simp: bit_simps dest: bit_imp_le_length)
  moreover have "bit s n = bit s' n" if "n < 16" for n
    using arg_cong [OF e, of "\<lambda>w. bit w n"] that wide
    by (auto simp: bit_simps dest: bit_imp_le_length)
  ultimately show "i = i' \<and> s = s'" by (auto intro!: bit_word_eqI)
qed simp

lemma dynamic_info_key_low: "(ucast (makeDynamicInfoKey t i s) :: 32 word) = push_bit 16 (ucast i) + ucast s"
proof -
  have "(ucast (push_bit 32 (ucast (dynamic_info_type_value t) :: 64 word)) :: 32 word) = 0"
    by (rule bit_word_eqI) (auto simp: bit_simps)
  moreover have "(ucast (ucast s :: 64 word) :: 32 word) = ucast s"
    by (rule bit_word_eqI) (auto simp: bit_simps dest: bit_imp_le_length)
  ultimately show ?thesis by (simp add: makeDynamicInfoKey_def ucast_add_down ucast_scast_32_64)
qed

lemma dynamic_info_key_inj:
  "makeDynamicInfoKey t i s = makeDynamicInfoKey t' i' s' \<longleftrightarrow> t = t' \<and> i = i' \<and> s = s'"
proof
  assume e: "makeDynamicInfoKey t i s = makeDynamicInfoKey t' i' s'"
  from arg_cong [OF e, of "\<lambda>w. ucast w :: 32 word"] have low: "i = i' \<and> s = s'"
    by (simp add: dynamic_info_key_low pair_key_inj)
  with e have high: "push_bit 32 (ucast (dynamic_info_type_value t) :: 64 word) = push_bit 32 (ucast (dynamic_info_type_value t'))"
    by (simp add: makeDynamicInfoKey_def)
  have "dynamic_info_type_value t = dynamic_info_type_value t'"
  proof (rule bit_word_eqI)
    show "bit (dynamic_info_type_value t) n = bit (dynamic_info_type_value t') n" if "n < LENGTH(16)" for n
      using arg_cong [OF high, of "\<lambda>w. bit w (n + 32)"] that by (auto simp: bit_simps dest: bit_imp_le_length)
  qed
  with low show "t = t' \<and> i = i' \<and> s = s'" by (simp add: dynamic_info_type_value_inj)
qed simp

lemma descriptor_key_inj: "makeDescriptorKey t i = makeDescriptorKey t' i' \<longleftrightarrow> t = t' \<and> i = i'"
  by (simp add: makeDescriptorKey_def pair_key_inj)

lemma descriptor_dynamic_info_key_inj:
  "makeDescriptorDynamicInfoKey t i = makeDescriptorDynamicInfoKey t' i' \<longleftrightarrow> t = t' \<and> i = i'"
  by (simp add: makeDescriptorDynamicInfoKey_def pair_key_inj descriptor_dynamic_info_type_value_inj)

section \<open>State\<close>

text \<open>The flags of \<^verbatim>\<open>CompatibilityFlag\<close>; the first is the one with no bit.\<close>

datatype compatibility_flag =
    Compat_None
  | Compat_IEEE17221
  | Compat_Milan
  | Compat_IEEE17221Warning
  | Compat_MilanWarning
  | Compat_Misbehaving

record compatibility_changed_event =
  cev_previousFlags :: "compatibility_flag set"
  cev_previousMilanVersion :: "32 word"
  cev_newFlags :: "compatibility_flag set"
  cev_newMilanVersion :: "32 word"
  cev_specClause :: string

datatype acquire_state =
    Acquire_Undefined | Acquire_NotSupported | Acquire_NotAcquired | Acquire_AcquireInProgress
  | Acquire_Acquired | Acquire_AcquiredByOther | Acquire_ReleaseInProgress

datatype lock_state =
    Lock_Undefined | Lock_NotSupported | Lock_NotLocked | Lock_LockInProgress
  | Lock_Locked | Lock_LockedByOther | Lock_UnlockInProgress

text \<open>
  A query and what its handler is bound to.  The parameters of GET_DYNAMIC_INFO are command types with the
  type, the index and, for a name, the configuration of a descriptor.
\<close>

record dynamic_info_parameter =
  dip_commandType :: "16 word"
  dip_arguments :: "param list"

datatype query =
    Q_MilanInfo milan_info_type
  | Q_EmptyGetDynamicInfo
  | Q_RegisterUnsolicitedNotifications
  | Q_UnregisterUnsolicitedNotifications
  | Q_Descriptor configuration_index descriptor_type descriptor_index
  | Q_DynamicInfo configuration_index dynamic_info_type descriptor_index "16 word"
  | Q_TalkerStreamConnection configuration_index stream_identification "16 word"
  | Q_DescriptorDynamicInfo configuration_index descriptor_dynamic_info_type descriptor_index
  | Q_GetDynamicInfo "dynamic_info_parameter list" "16 word" enumeration_step

text \<open>The calls of \<^verbatim>\<open>Controller::Observer\<close> about the entity; a query error is named as in \<^verbatim>\<open>QueryCommandError\<close>.\<close>

datatype observed =
    OnEntityOnline
  | OnEntityOffline
  | OnEntityQueryError string
  | OnEntityCapabilitiesChanged
  | OnEntityRedundantInterfaceOnline interface_index interface_information
  | OnEntityRedundantInterfaceOffline interface_index
  | OnCompatibilityChanged "compatibility_flag set" "32 word"
  | OnUnsolicitedRegistrationChanged bool bool
  | OnAcquireStateChanged acquire_state uid
  | OnLockStateChanged lock_state uid

text \<open>
  An update is a call of the method of that name, which stores the values it is given in the entity model.
  The last action is a dereference of a null pointer: what the program does from there on is not described.
\<close>

datatype action =
    Observe observed
  | Send query
  | Delay nat query
  | Updated string "param list"
  | Called string
  | Null_dereference string

record controlled_entity =
  ced_entity :: entity
  ced_entityNode :: entity_node
  ced_ignoreCachedEntityModel :: bool
  ced_checkDynamicInfoSupportedRetryCount :: "16 word"
  ced_queryGetDynamicInfoRetryCount :: "16 word"
  ced_registerUnsolRetryCount :: "16 word"
  ced_queryMilanInfoRetryCount :: "16 word"
  ced_queryDescriptorRetryCount :: "16 word"
  ced_queryDynamicInfoRetryCount :: "16 word"
  ced_queryDescriptorDynamicInfoRetryCount :: "16 word"
  ced_enumerationSteps :: "enumeration_step set"
  ced_compatibilityFlags :: "compatibility_flag set"
  ced_milanCompatibilityVersion :: "32 word"
  ced_compatibilityChangedEvents :: "compatibility_changed_event list"
  ced_gotFatalEnumerateError :: bool
  ced_isPackedDynamicInfoSupported :: bool
  ced_isUsingCachedEntityModel :: bool
  ced_isSubscribedToUnsolicitedNotifications :: bool
  ced_areUnsolicitedNotificationsSupported :: bool
  ced_advertised :: bool
  ced_expectedCheckDynamicInfoSupported :: bool
  ced_expectedRegisterUnsol :: bool
  ced_expectedPackedDynamicInfo :: "16 word set"
  ced_expectedMilanInfo :: "16 word set"
  ced_expectedDescriptors :: "(configuration_index, 32 word set) alist"
  ced_expectedDynamicInfo :: "(configuration_index, 64 word set) alist"
  ced_expectedDescriptorDynamicInfo :: "(configuration_index, 64 word set) alist"
  ced_acquireState :: acquire_state
  ced_owningControllerID :: uid
  ced_lockState :: lock_state
  ced_lockingControllerID :: uid
  ced_expectedAemSequenceID :: "16 word option"
  ced_expectedMvuSequenceID :: "16 word option"
  ced_milanInfo :: "milan_info option"
  ced_actions :: "action list"

type_synonym entity_op = "controlled_entity \<Rightarrow> controlled_entity"

text \<open>\<^verbatim>\<open>MilanVersion{}\<close> is zero; a new entity is compatible with IEEE 1722.1 until it shows otherwise.\<close>

definition ControlledEntityImpl_new :: "entity \<Rightarrow> controlled_entity" where
  "ControlledEntityImpl_new en =
     \<lparr>ced_entity = en, ced_entityNode = EntityNode_new, ced_ignoreCachedEntityModel = False, ced_checkDynamicInfoSupportedRetryCount = 0,
      ced_queryGetDynamicInfoRetryCount = 0, ced_registerUnsolRetryCount = 0, ced_queryMilanInfoRetryCount = 0,
      ced_queryDescriptorRetryCount = 0, ced_queryDynamicInfoRetryCount = 0,
      ced_queryDescriptorDynamicInfoRetryCount = 0, ced_enumerationSteps = {},
      ced_compatibilityFlags = {Compat_IEEE17221}, ced_milanCompatibilityVersion = 0,
      ced_compatibilityChangedEvents = [], ced_gotFatalEnumerateError = False,
      ced_isPackedDynamicInfoSupported = False, ced_isUsingCachedEntityModel = False,
      ced_isSubscribedToUnsolicitedNotifications = False, ced_areUnsolicitedNotificationsSupported = False,
      ced_advertised = False, ced_expectedCheckDynamicInfoSupported = False, ced_expectedRegisterUnsol = False,
      ced_expectedPackedDynamicInfo = {}, ced_expectedMilanInfo = {}, ced_expectedDescriptors = [],
      ced_expectedDynamicInfo = [], ced_expectedDescriptorDynamicInfo = [],
      ced_acquireState = Acquire_Undefined, ced_owningControllerID = uid_uninitialized,
      ced_lockState = Lock_Undefined, ced_lockingControllerID = uid_uninitialized,
      ced_expectedAemSequenceID = None, ced_expectedMvuSequenceID = None, ced_milanInfo = None,
      ced_actions = []\<rparr>"

definition act :: "action \<Rightarrow> entity_op" where
  "act a e = e\<lparr>ced_actions := ced_actions e @ [a]\<rparr>"

section \<open>Expected answers\<close>

text \<open>
  An answer is taken once: asking whether it is expected forgets it.  After a fatal error of the enumeration
  no answer is expected any more.  The maps of sets are the \<^verbatim>\<open>std::unordered_map\<close>s of the code, by configuration.
\<close>

definition expected_insert :: "'k \<Rightarrow> 'e \<Rightarrow> ('k, 'e set) alist \<Rightarrow> ('k, 'e set) alist" where
  "expected_insert k e m = al_put k (insert e (case al_get k m of None \<Rightarrow> {} | Some es \<Rightarrow> es)) m"

definition expected_erase :: "'k \<Rightarrow> 'e \<Rightarrow> ('k, 'e set) alist \<Rightarrow> bool \<times> ('k, 'e set) alist" where
  "expected_erase k e m = (case al_get k m of
     None \<Rightarrow> (False, m)
   | Some es \<Rightarrow> (e \<in> es, al_put k (es - {e}) m))"

definition expected_none :: "('k, 'e set) alist \<Rightarrow> bool" where
  "expected_none m \<longleftrightarrow> (\<forall>(_, es) \<in> set m. es = {})"

definition checkAndClearExpectedCheckDynamicInfoSupported :: "controlled_entity \<Rightarrow> bool \<times> controlled_entity" where
  "checkAndClearExpectedCheckDynamicInfoSupported e =
     (if ced_gotFatalEnumerateError e then (False, e)
      else (ced_expectedCheckDynamicInfoSupported e, e\<lparr>ced_expectedCheckDynamicInfoSupported := False\<rparr>))"

definition setCheckDynamicInfoSupportedExpected :: entity_op where
  "setCheckDynamicInfoSupportedExpected e = e\<lparr>ced_expectedCheckDynamicInfoSupported := True\<rparr>"

definition gotExpectedCheckDynamicInfoSupported :: "controlled_entity \<Rightarrow> bool" where
  "gotExpectedCheckDynamicInfoSupported e \<longleftrightarrow> \<not> ced_expectedCheckDynamicInfoSupported e"

definition checkAndClearExpectedRegisterUnsol :: "controlled_entity \<Rightarrow> bool \<times> controlled_entity" where
  "checkAndClearExpectedRegisterUnsol e =
     (if ced_gotFatalEnumerateError e then (False, e)
      else (ced_expectedRegisterUnsol e, e\<lparr>ced_expectedRegisterUnsol := False\<rparr>))"

definition setRegisterUnsolExpected :: entity_op where
  "setRegisterUnsolExpected e = e\<lparr>ced_expectedRegisterUnsol := True\<rparr>"

definition gotExpectedRegisterUnsol :: "controlled_entity \<Rightarrow> bool" where
  "gotExpectedRegisterUnsol e \<longleftrightarrow> \<not> ced_expectedRegisterUnsol e"

definition checkAndClearExpectedPackedDynamicInfo :: "16 word \<Rightarrow> controlled_entity \<Rightarrow> bool \<times> controlled_entity" where
  "checkAndClearExpectedPackedDynamicInfo packetID e =
     (if ced_gotFatalEnumerateError e then (False, e)
      else (packetID \<in> ced_expectedPackedDynamicInfo e,
            e\<lparr>ced_expectedPackedDynamicInfo := ced_expectedPackedDynamicInfo e - {packetID}\<rparr>))"

definition setPackedDynamicInfoExpected :: "16 word \<Rightarrow> entity_op" where
  "setPackedDynamicInfoExpected packetID e =
     e\<lparr>ced_expectedPackedDynamicInfo := insert packetID (ced_expectedPackedDynamicInfo e)\<rparr>"

definition clearAllExpectedPackedDynamicInfo :: entity_op where
  "clearAllExpectedPackedDynamicInfo e = e\<lparr>ced_expectedPackedDynamicInfo := {}\<rparr>"

definition gotAllExpectedPackedDynamicInfo :: "controlled_entity \<Rightarrow> bool" where
  "gotAllExpectedPackedDynamicInfo e \<longleftrightarrow> ced_expectedPackedDynamicInfo e = {}"

definition checkAndClearExpectedMilanInfo :: "milan_info_type \<Rightarrow> controlled_entity \<Rightarrow> bool \<times> controlled_entity" where
  "checkAndClearExpectedMilanInfo milanInfoType e =
     (if ced_gotFatalEnumerateError e then (False, e)
      else (makeMilanInfoKey milanInfoType \<in> ced_expectedMilanInfo e,
            e\<lparr>ced_expectedMilanInfo := ced_expectedMilanInfo e - {makeMilanInfoKey milanInfoType}\<rparr>))"

definition setMilanInfoExpected :: "milan_info_type \<Rightarrow> entity_op" where
  "setMilanInfoExpected milanInfoType e =
     e\<lparr>ced_expectedMilanInfo := insert (makeMilanInfoKey milanInfoType) (ced_expectedMilanInfo e)\<rparr>"

definition gotAllExpectedMilanInfo :: "controlled_entity \<Rightarrow> bool" where
  "gotAllExpectedMilanInfo e \<longleftrightarrow> ced_expectedMilanInfo e = {}"

definition checkAndClearExpectedDescriptor ::
    "configuration_index \<Rightarrow> descriptor_type \<Rightarrow> descriptor_index \<Rightarrow> controlled_entity \<Rightarrow> bool \<times> controlled_entity" where
  "checkAndClearExpectedDescriptor configurationIndex descriptorType descriptorIndex e =
     (if ced_gotFatalEnumerateError e then (False, e)
      else let (wasExpected, m) = expected_erase configurationIndex (makeDescriptorKey descriptorType descriptorIndex)
                                    (ced_expectedDescriptors e)
           in (wasExpected, e\<lparr>ced_expectedDescriptors := m\<rparr>))"

definition setDescriptorExpected :: "configuration_index \<Rightarrow> descriptor_type \<Rightarrow> descriptor_index \<Rightarrow> entity_op" where
  "setDescriptorExpected configurationIndex descriptorType descriptorIndex e =
     e\<lparr>ced_expectedDescriptors := expected_insert configurationIndex (makeDescriptorKey descriptorType descriptorIndex)
                                     (ced_expectedDescriptors e)\<rparr>"

definition gotAllExpectedDescriptors :: "controlled_entity \<Rightarrow> bool" where
  "gotAllExpectedDescriptors e \<longleftrightarrow> expected_none (ced_expectedDescriptors e)"

definition checkAndClearExpectedDynamicInfo ::
    "configuration_index \<Rightarrow> dynamic_info_type \<Rightarrow> descriptor_index \<Rightarrow> 16 word \<Rightarrow> controlled_entity \<Rightarrow> bool \<times> controlled_entity" where
  "checkAndClearExpectedDynamicInfo configurationIndex dynamicInfoType descriptorIndex subIndex e =
     (if ced_gotFatalEnumerateError e then (False, e)
      else let (wasExpected, m) = expected_erase configurationIndex (makeDynamicInfoKey dynamicInfoType descriptorIndex subIndex)
                                    (ced_expectedDynamicInfo e)
           in (wasExpected, e\<lparr>ced_expectedDynamicInfo := m\<rparr>))"

definition setDynamicInfoExpected ::
    "configuration_index \<Rightarrow> dynamic_info_type \<Rightarrow> descriptor_index \<Rightarrow> 16 word \<Rightarrow> entity_op" where
  "setDynamicInfoExpected configurationIndex dynamicInfoType descriptorIndex subIndex e =
     e\<lparr>ced_expectedDynamicInfo := expected_insert configurationIndex
         (makeDynamicInfoKey dynamicInfoType descriptorIndex subIndex) (ced_expectedDynamicInfo e)\<rparr>"

definition clearAllExpectedDynamicInfo :: entity_op where
  "clearAllExpectedDynamicInfo e = e\<lparr>ced_expectedDynamicInfo := []\<rparr>"

definition gotAllExpectedDynamicInfo :: "controlled_entity \<Rightarrow> bool" where
  "gotAllExpectedDynamicInfo e \<longleftrightarrow> expected_none (ced_expectedDynamicInfo e)"

definition checkAndClearExpectedDescriptorDynamicInfo ::
    "configuration_index \<Rightarrow> descriptor_dynamic_info_type \<Rightarrow> descriptor_index \<Rightarrow> controlled_entity \<Rightarrow> bool \<times> controlled_entity" where
  "checkAndClearExpectedDescriptorDynamicInfo configurationIndex descriptorDynamicInfoType descriptorIndex e =
     (if ced_gotFatalEnumerateError e then (False, e)
      else let (wasExpected, m) = expected_erase configurationIndex
                                    (makeDescriptorDynamicInfoKey descriptorDynamicInfoType descriptorIndex)
                                    (ced_expectedDescriptorDynamicInfo e)
           in (wasExpected, e\<lparr>ced_expectedDescriptorDynamicInfo := m\<rparr>))"

definition setDescriptorDynamicInfoExpected ::
    "configuration_index \<Rightarrow> descriptor_dynamic_info_type \<Rightarrow> descriptor_index \<Rightarrow> entity_op" where
  "setDescriptorDynamicInfoExpected configurationIndex descriptorDynamicInfoType descriptorIndex e =
     e\<lparr>ced_expectedDescriptorDynamicInfo := expected_insert configurationIndex
         (makeDescriptorDynamicInfoKey descriptorDynamicInfoType descriptorIndex) (ced_expectedDescriptorDynamicInfo e)\<rparr>"

definition clearAllExpectedDescriptorDynamicInfo :: entity_op where
  "clearAllExpectedDescriptorDynamicInfo e = e\<lparr>ced_expectedDescriptorDynamicInfo := []\<rparr>"

definition gotAllExpectedDescriptorDynamicInfo :: "controlled_entity \<Rightarrow> bool" where
  "gotAllExpectedDescriptorDynamicInfo e \<longleftrightarrow> expected_none (ced_expectedDescriptorDynamicInfo e)"

section \<open>Retries\<close>

text \<open>
  A retry counts itself, on 16 bits, and is granted with its delay in milliseconds, or refused with none.
\<close>

definition MaxCheckDynamicInfoSupportedRetryCount :: "16 word" where "MaxCheckDynamicInfoSupportedRetryCount = 1"
definition MaxQueryGetDynamicInfoRetryCount :: "16 word" where "MaxQueryGetDynamicInfoRetryCount = 2"
definition MaxRegisterUnsolRetryCount :: "16 word" where "MaxRegisterUnsolRetryCount = 1"
definition MaxQueryMilanInfoRetryCount :: "16 word" where "MaxQueryMilanInfoRetryCount = 2"
definition MaxQueryDescriptorRetryCount :: "16 word" where "MaxQueryDescriptorRetryCount = 2"
definition MaxQueryDynamicInfoRetryCount :: "16 word" where "MaxQueryDynamicInfoRetryCount = 2"
definition MaxQueryDescriptorDynamicInfoRetryCount :: "16 word" where "MaxQueryDescriptorDynamicInfoRetryCount = 2"
definition QueryRetryMillisecondDelay :: nat where "QueryRetryMillisecondDelay = 500"

definition retry_timer :: "bool \<Rightarrow> bool \<times> nat" where
  "retry_timer refused = (if refused then (False, 0) else (True, QueryRetryMillisecondDelay))"

definition getCheckDynamicInfoSupportedRetryTimer :: "controlled_entity \<Rightarrow> (bool \<times> nat) \<times> controlled_entity" where
  "getCheckDynamicInfoSupportedRetryTimer e = (let n = ced_checkDynamicInfoSupportedRetryCount e + 1 in
     (retry_timer (n > MaxCheckDynamicInfoSupportedRetryCount), e\<lparr>ced_checkDynamicInfoSupportedRetryCount := n\<rparr>))"

definition getRegisterUnsolRetryTimer :: "controlled_entity \<Rightarrow> (bool \<times> nat) \<times> controlled_entity" where
  "getRegisterUnsolRetryTimer e = (let n = ced_registerUnsolRetryCount e + 1 in
     (retry_timer (n > MaxRegisterUnsolRetryCount), e\<lparr>ced_registerUnsolRetryCount := n\<rparr>))"

definition getGetDynamicInfoRetryTimer :: "controlled_entity \<Rightarrow> (bool \<times> nat) \<times> controlled_entity" where
  "getGetDynamicInfoRetryTimer e = (let n = ced_queryGetDynamicInfoRetryCount e + 1 in
     (retry_timer (n \<ge> MaxQueryGetDynamicInfoRetryCount), e\<lparr>ced_queryGetDynamicInfoRetryCount := n\<rparr>))"

definition getQueryMilanInfoRetryTimer :: "controlled_entity \<Rightarrow> (bool \<times> nat) \<times> controlled_entity" where
  "getQueryMilanInfoRetryTimer e = (let n = ced_queryMilanInfoRetryCount e + 1 in
     (retry_timer (n \<ge> MaxQueryMilanInfoRetryCount), e\<lparr>ced_queryMilanInfoRetryCount := n\<rparr>))"

definition getQueryDescriptorRetryTimer :: "controlled_entity \<Rightarrow> (bool \<times> nat) \<times> controlled_entity" where
  "getQueryDescriptorRetryTimer e = (let n = ced_queryDescriptorRetryCount e + 1 in
     (retry_timer (n \<ge> MaxQueryDescriptorRetryCount), e\<lparr>ced_queryDescriptorRetryCount := n\<rparr>))"

definition getQueryDynamicInfoRetryTimer :: "controlled_entity \<Rightarrow> (bool \<times> nat) \<times> controlled_entity" where
  "getQueryDynamicInfoRetryTimer e = (let n = ced_queryDynamicInfoRetryCount e + 1 in
     (retry_timer (n \<ge> MaxQueryDynamicInfoRetryCount), e\<lparr>ced_queryDynamicInfoRetryCount := n\<rparr>))"

definition getQueryDescriptorDynamicInfoRetryTimer :: "controlled_entity \<Rightarrow> (bool \<times> nat) \<times> controlled_entity" where
  "getQueryDescriptorDynamicInfoRetryTimer e = (let n = ced_queryDescriptorDynamicInfoRetryCount e + 1 in
     (retry_timer (n \<ge> MaxQueryDescriptorDynamicInfoRetryCount), e\<lparr>ced_queryDescriptorDynamicInfoRetryCount := n\<rparr>))"

section \<open>Steps and notifications\<close>

definition addEnumerationStep :: "enumeration_step \<Rightarrow> entity_op" where
  "addEnumerationStep step e = e\<lparr>ced_enumerationSteps := insert step (ced_enumerationSteps e)\<rparr>"

definition clearEnumerationStep :: "enumeration_step \<Rightarrow> entity_op" where
  "clearEnumerationStep step e = e\<lparr>ced_enumerationSteps := ced_enumerationSteps e - {step}\<rparr>"

definition setGetFatalEnumerationError :: entity_op where
  "setGetFatalEnumerationError e = e\<lparr>ced_gotFatalEnumerateError := True\<rparr>"

definition setSubscribedToUnsolicitedNotifications :: "bool \<Rightarrow> entity_op" where
  "setSubscribedToUnsolicitedNotifications isSubscribed e =
     (let e1 = e\<lparr>ced_isSubscribedToUnsolicitedNotifications := isSubscribed\<rparr> in
      if isSubscribed then e1 else e1\<lparr>ced_expectedAemSequenceID := None, ced_expectedMvuSequenceID := None\<rparr>)"

text \<open>
  The sequence IDs of a Milan entity's notifications are consecutive, on 16 bits; those of any other entity, or
  received while not subscribed, are not looked at.
\<close>

definition hasLostUnsolicitedNotification ::
    "controlled_entity \<Rightarrow> 16 word \<Rightarrow> 16 word option \<Rightarrow> bool \<times> 16 word option" where
  "hasLostUnsolicitedNotification e sequenceID expectedSequenceID =
     (if ced_isSubscribedToUnsolicitedNotifications e
         \<and> (case ced_milanInfo e of None \<Rightarrow> False | Some i \<Rightarrow> mi_protocolVersion i \<ge> 1)
      then (case expectedSequenceID of None \<Rightarrow> False | Some x \<Rightarrow> x \<noteq> sequenceID, Some (sequenceID + 1))
      else (False, expectedSequenceID))"

definition hasLostAemUnsolicitedNotification :: "16 word \<Rightarrow> controlled_entity \<Rightarrow> bool \<times> controlled_entity" where
  "hasLostAemUnsolicitedNotification sequenceID e =
     (let (lost, x) = hasLostUnsolicitedNotification e sequenceID (ced_expectedAemSequenceID e)
      in (lost, e\<lparr>ced_expectedAemSequenceID := x\<rparr>))"

definition hasLostMvuUnsolicitedNotification :: "16 word \<Rightarrow> controlled_entity \<Rightarrow> bool \<times> controlled_entity" where
  "hasLostMvuUnsolicitedNotification sequenceID e =
     (let (lost, x) = hasLostUnsolicitedNotification e sequenceID (ced_expectedMvuSequenceID e)
      in (lost, e\<lparr>ced_expectedMvuSequenceID := x\<rparr>))"

end
