(* ===== verification/Compatibility.thy ===== *)
theory Compatibility
  imports ControlledEntity
begin

text \<open>
  The standards an entity is taken to comply with (src/controller/avdeccControllerImpl.cpp): the flags an entity
  has, the version of Milan it is compatible with, and how an entity that breaks a rule loses them.  The texts
  of the log and of the events are left out; the clause of the standard is kept.
\<close>

section \<open>Flags\<close>

text \<open>
  The methods are static and take the controller as a pointer: without one, nothing is recorded or notified.
  An observer is told of an advertised entity only.
\<close>

definition notify_compatibility :: entity_op where
  "notify_compatibility e =
     (if ced_advertised e
      then act (Observe (OnCompatibilityChanged (ced_compatibilityFlags e) (ced_milanCompatibilityVersion e))) e else e)"

definition addCompatibilityChangedEvent :: "compatibility_changed_event \<Rightarrow> entity_op" where
  "addCompatibilityChangedEvent event e =
     e\<lparr>ced_compatibilityChangedEvents := ced_compatibilityChangedEvents e @ [event]\<rparr>"

text \<open>The new flags and version of an entity, with the event of the change.\<close>

definition change_compatibility ::
    "bool \<Rightarrow> compatibility_flag set \<Rightarrow> 32 word \<Rightarrow> string \<Rightarrow> entity_op" where
  "change_compatibility controller newFlags newVersion specClause e =
     (let e1 = e\<lparr>ced_compatibilityFlags := newFlags, ced_milanCompatibilityVersion := newVersion\<rparr> in
      if controller then
        notify_compatibility (addCompatibilityChangedEvent
          \<lparr>cev_previousFlags = ced_compatibilityFlags e, cev_previousMilanVersion = ced_milanCompatibilityVersion e,
           cev_newFlags = newFlags, cev_newMilanVersion = newVersion, cev_specClause = specClause\<rparr> e1)
      else e1)"

text \<open>
  An entity that is not compliant with IEEE 1722.1 is not compliant with Milan either: the case of the first falls
  through to that of the second.  There the flag reset is the one the method is given, so that the flag of Milan
  is left when it is IEEE 1722.1 that is removed, and only the version of Milan is reset.
\<close>

definition removeCompatibilityFlag :: "bool \<Rightarrow> compatibility_flag \<Rightarrow> string \<Rightarrow> entity_op" where
  "removeCompatibilityFlag controller flag specClause e =
     (let oldFlags = ced_compatibilityFlags e; oldVersion = ced_milanCompatibilityVersion e;
          removeMilan = (\<lambda>flags. if Compat_Milan \<in> flags then (flags - {flag}, 0) else (flags, oldVersion));
          (newFlags, newVersion) = (case flag of
              Compat_IEEE17221 \<Rightarrow> removeMilan (oldFlags - {Compat_IEEE17221})
            | Compat_Milan \<Rightarrow> removeMilan oldFlags
            | _ \<Rightarrow> (oldFlags, oldVersion))
      in if oldFlags \<noteq> newFlags \<or> oldVersion \<noteq> newVersion
         then change_compatibility controller newFlags newVersion specClause e else e)"

definition setMisbehavingCompatibilityFlag :: "bool \<Rightarrow> string \<Rightarrow> entity_op" where
  "setMisbehavingCompatibilityFlag controller specClause e =
     (if Compat_Misbehaving \<notin> ced_compatibilityFlags e then
        (let e1 = removeCompatibilityFlag controller Compat_IEEE17221 specClause e;
             e2 = e1\<lparr>ced_compatibilityFlags := insert Compat_Misbehaving (ced_compatibilityFlags e1)\<rparr>
         in if controller then notify_compatibility e2 else e2)
      else e)"

definition setMilanWarningCompatibilityFlag :: "bool \<Rightarrow> string \<Rightarrow> entity_op" where
  "setMilanWarningCompatibilityFlag controller specClause e =
     (if Compat_MilanWarning \<notin> ced_compatibilityFlags e \<and> Compat_Milan \<in> ced_compatibilityFlags e
      then change_compatibility controller (insert Compat_MilanWarning (ced_compatibilityFlags e))
             (ced_milanCompatibilityVersion e) specClause e
      else e)"

definition addCompatibilityFlag :: "bool \<Rightarrow> compatibility_flag \<Rightarrow> entity_op" where
  "addCompatibilityFlag controller flag e =
     (let oldFlags = ced_compatibilityFlags e;
          changed = (\<lambda>newFlags. if oldFlags \<noteq> newFlags
             then (let e1 = e\<lparr>ced_compatibilityFlags := newFlags\<rparr> in if controller then notify_compatibility e1 else e1)
             else e)
      in case flag of
        Compat_IEEE17221 \<Rightarrow>
          changed (if Compat_Misbehaving \<notin> oldFlags then insert Compat_IEEE17221 oldFlags else oldFlags)
      | Compat_Milan \<Rightarrow>
          changed (if Compat_Misbehaving \<notin> oldFlags
            then insert Compat_Milan (insert Compat_IEEE17221 oldFlags)
                   \<union> (if Compat_IEEE17221Warning \<in> oldFlags then {Compat_MilanWarning} else {})
            else oldFlags)
      | Compat_IEEE17221Warning \<Rightarrow>
          changed (if Compat_IEEE17221 \<in> oldFlags
            then insert Compat_IEEE17221Warning oldFlags
                   \<union> (if Compat_Milan \<in> oldFlags then {Compat_MilanWarning} else {})
            else oldFlags)
      | Compat_MilanWarning \<Rightarrow> setMilanWarningCompatibilityFlag controller ''Milan'' e
      | Compat_Misbehaving \<Rightarrow> setMisbehavingCompatibilityFlag controller ''IEEE1722.1-2021'' e
      | Compat_None \<Rightarrow> e)"

definition decreaseMilanCompatibilityVersion :: "bool \<Rightarrow> 32 word \<Rightarrow> string \<Rightarrow> entity_op" where
  "decreaseMilanCompatibilityVersion controller version specClause e =
     (if version > ced_milanCompatibilityVersion e then e
      else if version = 0 then removeCompatibilityFlag controller Compat_Milan specClause e
      else if ced_milanCompatibilityVersion e \<noteq> version
        then change_compatibility controller (ced_compatibilityFlags e) version specClause e
      else e)"

section \<open>Requirements\<close>

text \<open>
  A command is required of the versions of Milan in one of the ranges of a list.  The version an entity is
  reduced to when it has not the command is the one the range names, or else the end of the range before.
\<close>

record milan_required_versions =
  mrv_requiredSince :: "32 word"
  mrv_requiredUntil :: "32 word option"
  mrv_downgradeTo :: "32 word option"

definition MilanVersion_1_0 :: "32 word" where "MilanVersion_1_0 = MilanVersion_new 1 0 0 0"
definition MilanVersion_1_2 :: "32 word" where "MilanVersion_1_2 = MilanVersion_new 1 2 0 0"
definition MilanVersion_1_3 :: "32 word" where "MilanVersion_1_3 = MilanVersion_new 1 3 0 0"

fun required_downgrade :: "32 word \<Rightarrow> 32 word \<Rightarrow> milan_required_versions list \<Rightarrow> 32 word option" where
  "required_downgrade current downgradeToVersion [] = None"
| "required_downgrade current downgradeToVersion (r # rs) =
     (if current \<ge> mrv_requiredSince r
         \<and> (case mrv_requiredUntil r of None \<Rightarrow> True | Some until \<Rightarrow> current \<le> until)
      then Some (case mrv_downgradeTo r of None \<Rightarrow> downgradeToVersion | Some v \<Rightarrow> v)
      else required_downgrade current (case mrv_requiredUntil r of None \<Rightarrow> 0 | Some until \<Rightarrow> until) rs)"

definition checkMilanRequirements :: "milan_required_versions list \<Rightarrow> string \<Rightarrow> entity_op" where
  "checkMilanRequirements milanRequirements specClause e =
     (case required_downgrade (ced_milanCompatibilityVersion e) 0 milanRequirements of
        None \<Rightarrow> e
      | Some version \<Rightarrow> decreaseMilanCompatibilityVersion True version specClause e)"

section \<open>What the flags say together\<close>

text \<open>A misbehaving entity does not comply with IEEE 1722.1.\<close>

definition compatible_ok :: "controlled_entity \<Rightarrow> bool" where
  "compatible_ok e \<longleftrightarrow> \<not> (Compat_Misbehaving \<in> ced_compatibilityFlags e \<and> Compat_IEEE17221 \<in> ced_compatibilityFlags e)"

lemma change_compatibility_flags [simp]:
  "ced_compatibilityFlags (change_compatibility ctrl flags version clause e) = flags"
  "ced_milanCompatibilityVersion (change_compatibility ctrl flags version clause e) = version"
  by (simp_all add: change_compatibility_def notify_compatibility_def addCompatibilityChangedEvent_def act_def Let_def)

text \<open>What the removal of a flag leaves: the flag of Milan survives that of IEEE 1722.1.\<close>

lemma removeCompatibilityFlag_flags:
  "ced_compatibilityFlags (removeCompatibilityFlag ctrl Compat_IEEE17221 clause e)
     = ced_compatibilityFlags e - {Compat_IEEE17221}"
  "ced_compatibilityFlags (removeCompatibilityFlag ctrl Compat_Milan clause e)
     = ced_compatibilityFlags e - {Compat_Milan}"
  "Compat_Milan \<in> ced_compatibilityFlags e \<Longrightarrow> f = Compat_IEEE17221 \<or> f = Compat_Milan \<Longrightarrow>
     ced_milanCompatibilityVersion (removeCompatibilityFlag ctrl f clause e) = 0"
  by (auto simp: removeCompatibilityFlag_def Let_def)

lemma setMisbehavingCompatibilityFlag_flags:
  "Compat_Misbehaving \<notin> ced_compatibilityFlags e \<Longrightarrow>
     ced_compatibilityFlags (setMisbehavingCompatibilityFlag ctrl clause e)
       = insert Compat_Misbehaving (ced_compatibilityFlags e - {Compat_IEEE17221})"
  by (simp add: setMisbehavingCompatibilityFlag_def removeCompatibilityFlag_flags notify_compatibility_def act_def Let_def)

section \<open>The flags over the life of an entity\<close>

text \<open>What the library does to the flags of an entity, in any order, with a controller to record it.\<close>

datatype compatibility_change =
    Adds compatibility_flag
  | Removes compatibility_flag string
  | Misbehaves string
  | Milan_warned string
  | Decreases "32 word" string

fun changed_by :: "compatibility_change \<Rightarrow> entity_op" where
  "changed_by (Adds f) = addCompatibilityFlag True f"
| "changed_by (Removes f clause) = removeCompatibilityFlag True f clause"
| "changed_by (Misbehaves clause) = setMisbehavingCompatibilityFlag True clause"
| "changed_by (Milan_warned clause) = setMilanWarningCompatibilityFlag True clause"
| "changed_by (Decreases version clause) = decreaseMilanCompatibilityVersion True version clause"

definition ends_Milan :: "compatibility_change \<Rightarrow> bool" where
  "ends_Milan c \<longleftrightarrow> (case c of Removes f _ \<Rightarrow> f = Compat_Milan | Decreases version _ \<Rightarrow> version = 0 | _ \<Rightarrow> False)"

lemma notify_compatibility_flags [simp]:
  "ced_compatibilityFlags (notify_compatibility e) = ced_compatibilityFlags e"
  by (simp add: notify_compatibility_def act_def)

lemma removeCompatibilityFlag_other:
  "f \<noteq> Compat_IEEE17221 \<Longrightarrow> f \<noteq> Compat_Milan \<Longrightarrow> removeCompatibilityFlag ctrl f clause e = e"
  by (cases f) (simp_all add: removeCompatibilityFlag_def)

lemma removeCompatibilityFlag_subset:
  "ced_compatibilityFlags e - {f} \<subseteq> ced_compatibilityFlags (removeCompatibilityFlag ctrl f clause e)"
  "ced_compatibilityFlags (removeCompatibilityFlag ctrl f clause e) \<subseteq> ced_compatibilityFlags e"
  "f \<noteq> Compat_IEEE17221 \<Longrightarrow> f \<noteq> Compat_Milan \<Longrightarrow>
     ced_compatibilityFlags (removeCompatibilityFlag ctrl f clause e) = ced_compatibilityFlags e"
  using removeCompatibilityFlag_other [of f ctrl clause e]
  by (cases "f = Compat_IEEE17221"; cases "f = Compat_Milan"; force simp: removeCompatibilityFlag_flags)+

lemma setMisbehavingCompatibilityFlag_subset:
  "ced_compatibilityFlags (setMisbehavingCompatibilityFlag ctrl clause e)
     = (if Compat_Misbehaving \<in> ced_compatibilityFlags e then ced_compatibilityFlags e
        else insert Compat_Misbehaving (ced_compatibilityFlags e - {Compat_IEEE17221}))"
  using setMisbehavingCompatibilityFlag_flags [of e ctrl clause] by (auto simp: setMisbehavingCompatibilityFlag_def)

lemma addCompatibilityFlag_subset:
  "ced_compatibilityFlags e - {Compat_IEEE17221} \<subseteq> ced_compatibilityFlags (addCompatibilityFlag True f e)"
  "compatible_ok e \<Longrightarrow> compatible_ok (addCompatibilityFlag True f e)"
  by (cases f; auto simp: addCompatibilityFlag_def setMilanWarningCompatibilityFlag_def compatible_ok_def
      setMisbehavingCompatibilityFlag_subset Let_def)+

lemma decreaseMilanCompatibilityVersion_flags:
  "ced_compatibilityFlags (decreaseMilanCompatibilityVersion ctrl version clause e)
     = (if version = 0 then ced_compatibilityFlags e - {Compat_Milan} else ced_compatibilityFlags e)"
  by (auto simp: decreaseMilanCompatibilityVersion_def removeCompatibilityFlag_flags)

lemma changed_by_keeps:
  "compatible_ok e \<Longrightarrow> compatible_ok (changed_by c e)"
  "Compat_Misbehaving \<in> ced_compatibilityFlags e \<Longrightarrow> Compat_Misbehaving \<in> ced_compatibilityFlags (changed_by c e)"
  "Compat_Milan \<in> ced_compatibilityFlags e \<Longrightarrow> \<not> ends_Milan c \<Longrightarrow> Compat_Milan \<in> ced_compatibilityFlags (changed_by c e)"
proof -
  show "compatible_ok (changed_by c e)" if "compatible_ok e"
    using that removeCompatibilityFlag_subset(2) addCompatibilityFlag_subset(2)
    by (cases c) (force simp: compatible_ok_def setMisbehavingCompatibilityFlag_subset decreaseMilanCompatibilityVersion_flags
        setMilanWarningCompatibilityFlag_def)+
  show "Compat_Misbehaving \<in> ced_compatibilityFlags (changed_by c e)" if "Compat_Misbehaving \<in> ced_compatibilityFlags e"
    using that removeCompatibilityFlag_subset(1,3) [where e = e and ctrl = True] addCompatibilityFlag_subset(1) [of e]
    by (cases c; cases "\<exists>clause. c = Removes Compat_Misbehaving clause")
      (force simp: setMisbehavingCompatibilityFlag_subset decreaseMilanCompatibilityVersion_flags
        setMilanWarningCompatibilityFlag_def)+
  show "Compat_Milan \<in> ced_compatibilityFlags (changed_by c e)"
    if "Compat_Milan \<in> ced_compatibilityFlags e" "\<not> ends_Milan c"
    using that removeCompatibilityFlag_subset(1) [where e = e and ctrl = True] addCompatibilityFlag_subset(1) [of e]
    by (cases c) (force simp: setMisbehavingCompatibilityFlag_subset decreaseMilanCompatibilityVersion_flags
        setMilanWarningCompatibilityFlag_def ends_Milan_def)+
qed

lemma changed_by_all_keeps:
  "compatible_ok e \<Longrightarrow> compatible_ok (fold changed_by cs e)"
  "Compat_Misbehaving \<in> ced_compatibilityFlags e \<Longrightarrow> Compat_Misbehaving \<in> ced_compatibilityFlags (fold changed_by cs e)"
  "Compat_Milan \<in> ced_compatibilityFlags e \<Longrightarrow> \<forall>c\<in>set cs. \<not> ends_Milan c \<Longrightarrow>
     Compat_Milan \<in> ced_compatibilityFlags (fold changed_by cs e)"
  by (induction cs arbitrary: e) (auto simp: changed_by_keeps)

text \<open>
  C17.  Whatever happens to the flags of an entity, in any order, a misbehaving one never complies with IEEE 1722.1
  and stays misbehaving, and one that complies with Milan keeps the flag until a rule of Milan is broken: neither the
  loss of IEEE 1722.1 nor misbehaving takes it away, which leaves it misbehaving and compliant with Milan at once.
\<close>

theorem compatibility_flags_kept:
  assumes "e = fold changed_by cs (ControlledEntityImpl_new en)"
  shows "\<not> (Compat_Misbehaving \<in> ced_compatibilityFlags e \<and> Compat_IEEE17221 \<in> ced_compatibilityFlags e)
    \<and> (Compat_Misbehaving \<in> ced_compatibilityFlags e \<longrightarrow>
         Compat_Misbehaving \<in> ced_compatibilityFlags (fold changed_by ds e))
    \<and> (Compat_Milan \<in> ced_compatibilityFlags e \<and> (\<forall>d\<in>set ds. \<not> ends_Milan d) \<longrightarrow>
         Compat_Milan \<in> ced_compatibilityFlags (fold changed_by ds e))
    \<and> (Compat_Milan \<in> ced_compatibilityFlags e \<and> Compat_Misbehaving \<notin> ced_compatibilityFlags e \<longrightarrow>
         ced_compatibilityFlags (changed_by (Misbehaves clause) e)
           = insert Compat_Misbehaving (ced_compatibilityFlags e - {Compat_IEEE17221})
         \<and> ced_compatibilityFlags (changed_by (Removes Compat_IEEE17221 clause) e)
           = ced_compatibilityFlags e - {Compat_IEEE17221}
         \<and> ced_milanCompatibilityVersion (changed_by (Removes Compat_IEEE17221 clause) e) = 0)"
proof -
  have "compatible_ok e"
    unfolding assms by (rule changed_by_all_keeps(1)) (simp add: compatible_ok_def ControlledEntityImpl_new_def)
  thus ?thesis
    using changed_by_all_keeps(2,3) [of e ds]
    by (simp add: compatible_ok_def setMisbehavingCompatibilityFlag_flags removeCompatibilityFlag_flags)
qed

definition plain_entity :: entity where
  "plain_entity = \<lparr>en_common = \<lparr>ei_entityID = 2, ei_entityModelID = 3, ei_entityCapabilities = 8,
     ei_talkerStreamSources = 0, ei_talkerCapabilities = 0, ei_listenerStreamSinks = 0, ei_listenerCapabilities = 0,
     ei_controllerCapabilities = 0, ei_identifyControlIndex = None, ei_associationID = None\<rparr>, en_interfaces = []\<rparr>"

theorem compatibility_flags_kept_witness:
  "ced_compatibilityFlags (changed_by (Misbehaves ''IEEE1722.1-2021'')
     (fold changed_by [Adds Compat_Milan] (ControlledEntityImpl_new plain_entity))) = {Compat_Milan, Compat_Misbehaving}"
proof -
  define e where "e = fold changed_by [Adds Compat_Milan] (ControlledEntityImpl_new plain_entity)"
  have flags: "ced_compatibilityFlags e = {Compat_IEEE17221, Compat_Milan}"
    by (auto simp: e_def addCompatibilityFlag_def ControlledEntityImpl_new_def)
  have "ced_compatibilityFlags (changed_by (Misbehaves ''IEEE1722.1-2021'') e)
      = insert Compat_Misbehaving (ced_compatibilityFlags e - {Compat_IEEE17221})"
    using compatibility_flags_kept [OF e_def] flags by blast
  thus ?thesis unfolding e_def [symmetric] flags by auto
qed

end
