(* ===== verification/EnumerationQueries.thy ===== *)
theory EnumerationQueries
  imports Compatibility AemVariablePayloads
begin

text \<open>
  How the controller library asks an entity for what it has to know (src/controller/avdeccControllerImpl.cpp):
  the queries and the answers they make expected, the steps of the enumeration, the visits of the entity model
  that list its dynamic information, and the packing of GET_DYNAMIC_INFO.

  A query is sent, or delayed, as an action; its answer is handled in EnumerationHandlers.  What the library does
  with a complete entity before it advertises it (virtual nodes, validation, channel connections) is kept as the
  names of the calls; whether the validation finds a fatal error is an argument, and so is what the validation of
  the values of a control says (whether they can be read, and the clause of the standard they break).
\<close>

section \<open>Settings\<close>

record controller_settings =
  cse_controllerEID :: uid
  cse_fullStaticModelEnumeration :: bool
  cse_entityModelCache :: entity_model_cache
  cse_validateEntity :: "controlled_entity \<Rightarrow> bool"
  cse_continueMisbehaveAemResponses :: bool
  cse_ignoreMismatchingMvuResponses :: bool
  cse_ignoreNeitherStaticNorDynamicMappings :: bool
  cse_controlValues :: "controlled_entity \<Rightarrow> descriptor_index \<Rightarrow> byte list \<Rightarrow> bool \<times> string option"

definition EntityCapability_AemSupported :: "32 word" where "EntityCapability_AemSupported = 0x8"
definition EntityCapability_VendorUniqueSupported :: "32 word" where "EntityCapability_VendorUniqueSupported = 0x80"

definition supports_aem :: "controlled_entity \<Rightarrow> bool" where
  "supports_aem e \<longleftrightarrow> bits_test EntityCapability_AemSupported (ei_entityCapabilities (en_common (ced_entity e)))"

text \<open>The entity node is not to be had of an entity without AEM, or after a fatal error.\<close>

definition getEntityNode :: "controlled_entity \<Rightarrow> entity_node option" where
  "getEntityNode e = (if ced_gotFatalEnumerateError e \<or> \<not> supports_aem e then None else Some (ced_entityNode e))"

definition hasAnyConfiguration :: "controlled_entity \<Rightarrow> bool" where
  "hasAnyConfiguration e \<longleftrightarrow> etn_configurations (ced_entityNode e) \<noteq> []"

definition getCurrentConfigurationIndex :: "controlled_entity \<Rightarrow> configuration_index option" where
  "getCurrentConfigurationIndex e = map_option etn_currentConfiguration (getEntityNode e)"

definition getConfigurationNode :: "configuration_index \<Rightarrow> controlled_entity \<Rightarrow> configuration_node option" where
  "getConfigurationNode configurationIndex e =
     Option.bind (getEntityNode e) (\<lambda>n. al_get configurationIndex (etn_configurations n))"

definition upd_configuration :: "configuration_index \<Rightarrow> (configuration_node \<Rightarrow> configuration_node) \<Rightarrow> entity_op" where
  "upd_configuration configurationIndex f e = (case getConfigurationNode configurationIndex e of
     None \<Rightarrow> e
   | Some c \<Rightarrow> e\<lparr>ced_entityNode := (ced_entityNode e)\<lparr>etn_configurations :=
       al_put configurationIndex (f c) (etn_configurations (ced_entityNode e))\<rparr>\<rparr>)"

definition accept :: "bool \<Rightarrow> controlled_entity \<Rightarrow> visit list" where
  "accept visitAllConfigurations e = (case getEntityNode e of
     None \<Rightarrow> [] | Some n \<Rightarrow> visit_entity visitAllConfigurations n)"

section \<open>Queries\<close>

text \<open>
  Every form of \<^verbatim>\<open>queryInformation\<close> makes its answer expected before anything is sent.  A type without a query
  sends nothing; delayed, it is the empty function that is kept.
\<close>

definition send_query :: "nat \<Rightarrow> query \<Rightarrow> entity_op" where
  "send_query delayQuery q = act (if delayQuery = 0 then Send q else Delay delayQuery q)"

definition queryMilanInfo :: "milan_info_type \<Rightarrow> nat \<Rightarrow> entity_op" where
  "queryMilanInfo milanInfoType delayQuery e =
     send_query delayQuery (Q_MilanInfo milanInfoType) (setMilanInfoExpected milanInfoType e)"

definition descriptor_queried :: "descriptor_type \<Rightarrow> bool" where
  "descriptor_queried t \<longleftrightarrow> t \<in> set
     [DescriptorType_Entity, DescriptorType_Configuration, DescriptorType_AudioUnit, DescriptorType_StreamInput,
      DescriptorType_StreamOutput, DescriptorType_JackInput, DescriptorType_JackOutput, DescriptorType_AvbInterface,
      DescriptorType_ClockSource, DescriptorType_MemoryObject, DescriptorType_Locale, DescriptorType_Strings,
      DescriptorType_StreamPortInput, DescriptorType_StreamPortOutput, DescriptorType_AudioCluster,
      DescriptorType_AudioMap, DescriptorType_Control, DescriptorType_ClockDomain, DescriptorType_Timing,
      DescriptorType_PtpInstance, DescriptorType_PtpPort]"

definition queryDescriptor :: "configuration_index \<Rightarrow> descriptor_type \<Rightarrow> descriptor_index \<Rightarrow> nat \<Rightarrow> entity_op" where
  "queryDescriptor configurationIndex descriptorType descriptorIndex delayQuery e =
     (let e1 = setDescriptorExpected configurationIndex descriptorType descriptorIndex e in
      if descriptor_queried descriptorType
      then send_query delayQuery (Q_Descriptor configurationIndex descriptorType descriptorIndex) e1 else e1)"

definition queryDynamicInfo ::
    "configuration_index \<Rightarrow> dynamic_info_type \<Rightarrow> descriptor_index \<Rightarrow> 16 word \<Rightarrow> nat \<Rightarrow> entity_op" where
  "queryDynamicInfo configurationIndex dynamicInfoType descriptorIndex subIndex delayQuery e =
     (let e1 = setDynamicInfoExpected configurationIndex dynamicInfoType descriptorIndex subIndex e in
      if dynamicInfoType \<noteq> DI_OutputStreamConnection
      then send_query delayQuery (Q_DynamicInfo configurationIndex dynamicInfoType descriptorIndex subIndex) e1 else e1)"

definition queryTalkerStreamConnection ::
    "configuration_index \<Rightarrow> dynamic_info_type \<Rightarrow> stream_identification \<Rightarrow> 16 word \<Rightarrow> nat \<Rightarrow> entity_op" where
  "queryTalkerStreamConnection configurationIndex dynamicInfoType talkerStream subIndex delayQuery e =
     (if dynamicInfoType = DI_OutputStreamConnection
      then send_query delayQuery (Q_TalkerStreamConnection configurationIndex talkerStream subIndex)
             (setDynamicInfoExpected configurationIndex dynamicInfoType (sid_streamIndex talkerStream) subIndex e)
      else e)"

definition queryDescriptorDynamicInfo ::
    "configuration_index \<Rightarrow> descriptor_dynamic_info_type \<Rightarrow> descriptor_index \<Rightarrow> nat \<Rightarrow> entity_op" where
  "queryDescriptorDynamicInfo configurationIndex descriptorDynamicInfoType descriptorIndex delayQuery e =
     send_query delayQuery (Q_DescriptorDynamicInfo configurationIndex descriptorDynamicInfoType descriptorIndex)
       (setDescriptorDynamicInfoExpected configurationIndex descriptorDynamicInfoType descriptorIndex e)"

definition queryPackedDynamicInfo ::
    "dynamic_info_parameter list \<Rightarrow> 16 word \<Rightarrow> enumeration_step \<Rightarrow> nat \<Rightarrow> entity_op" where
  "queryPackedDynamicInfo dynamicInfoParameters packetID step delayQuery e =
     send_query delayQuery (Q_GetDynamicInfo dynamicInfoParameters packetID step)
       (setPackedDynamicInfoExpected packetID e)"

section \<open>Packing\<close>

text \<open>
  The parameters are packed in order, as many to a query as its response has room for; a parameter whose response
  has no size in the table is dropped.  The number of the query is on 16 bits.
\<close>

definition s_ResponseSizes :: "16 word \<Rightarrow> nat option" where
  "s_ResponseSizes commandType = al_get commandType
     [(AemCommandType_GetConfiguration, AecpAemGetConfigurationResponsePayloadSize),
      (AemCommandType_GetStreamFormat, AecpAemGetStreamFormatResponsePayloadSize),
      (AemCommandType_GetName, AecpAemGetNameResponsePayloadSize),
      (AemCommandType_GetAssociationID, AecpAemGetAssociationIDResponsePayloadSize),
      (AemCommandType_GetSamplingRate, AecpAemGetSamplingRateResponsePayloadSize),
      (AemCommandType_GetClockSource, AecpAemGetClockSourceResponsePayloadSize),
      (AemCommandType_GetCounters, AecpAemGetCountersResponsePayloadSize),
      (AemCommandType_GetMemoryObjectLength, AecpAemGetMemoryObjectLengthResponsePayloadSize),
      (AemCommandType_GetMaxTransitTime, AecpAemGetMaxTransitTimeResponsePayloadSize)]"

definition AecpAemGetDynamicInfoStructureHeaderSize :: nat where "AecpAemGetDynamicInfoStructureHeaderSize = 8"

definition MaximumPayloadLength_17221 :: nat where
  "MaximumPayloadLength_17221 = MaximumLength_1722_1 - Aecpdu_HeaderLength - 2"

fun pack_parameters ::
    "dynamic_info_parameter list \<Rightarrow> dynamic_info_parameter list \<Rightarrow> nat \<Rightarrow> dynamic_info_parameter list list" where
  "pack_parameters [] params currentSize = (if params = [] then [] else [params])"
| "pack_parameters (p # ps) params currentSize = (case s_ResponseSizes (dip_commandType p) of
     None \<Rightarrow> pack_parameters ps params currentSize
   | Some responsePayloadSize \<Rightarrow>
       (let responseSize = responsePayloadSize + AecpAemGetDynamicInfoStructureHeaderSize in
        if currentSize + responseSize \<le> MaximumPayloadLength_17221
        then pack_parameters ps (params @ [p]) (currentSize + responseSize)
        else params # pack_parameters ps [p] responseSize))"

definition flushPackedDynamicInfoQueries ::
    "dynamic_info_parameter list \<Rightarrow> enumeration_step \<Rightarrow> entity_op" where
  "flushPackedDynamicInfoQueries dynamicInfoParameters step =
     fold (\<lambda>(i, params). queryPackedDynamicInfo params (word_of_nat i) step 0)
       (enumerate 0 (pack_parameters dynamicInfoParameters [] 0))"

section \<open>Visitors\<close>

text \<open>
  A visitor collects packed parameters and sends the other queries at once.  \<^verbatim>\<open>packed_or\<close> is the choice its
  methods make.
\<close>

type_synonym visiting = "dynamic_info_parameter list \<times> controlled_entity"

definition packed_or :: "bool \<Rightarrow> 16 word \<Rightarrow> param list \<Rightarrow> entity_op \<Rightarrow> visiting \<Rightarrow> visiting" where
  "packed_or usePackedDynamicInfo commandType arguments query s =
     (if usePackedDynamicInfo
      then (fst s @ [\<lparr>dip_commandType = commandType, dip_arguments = arguments\<rparr>], snd s)
      else (fst s, query (snd s)))"

definition queried :: "entity_op \<Rightarrow> visiting \<Rightarrow> visiting" where
  "queried query s = (fst s, query (snd s))"

definition InvalidDescriptorIndex :: "16 word" where "InvalidDescriptorIndex = 0xFFFF"

definition shouldGetStreamInputInfoEx :: "32 word \<Rightarrow> bool" where
  "shouldGetStreamInputInfoEx milanSpecVersion \<longleftrightarrow> milanSpecVersion \<ge> MilanVersion_1_3"

definition shouldGetMaxTransitTime :: "32 word \<Rightarrow> bool" where
  "shouldGetMaxTransitTime milanSpecVersion \<longleftrightarrow>
     \<not> (milanSpecVersion \<ge> MilanVersion_1_0 \<and> milanSpecVersion < MilanVersion_1_3)"

fun DynamicInfoVisitor_visit :: "bool \<Rightarrow> 32 word \<Rightarrow> 32 word \<Rightarrow> visit \<Rightarrow> visiting \<Rightarrow> visiting" where
  "DynamicInfoVisitor_visit usePacked compatVersion specVersion (V_Entity n) s =
     (let s1 = queried (\<lambda>e. if Compat_Milan \<in> ced_compatibilityFlags e
                 then e\<lparr>ced_acquireState := Acquire_NotSupported\<rparr>
                 else queryDynamicInfo 0 DI_AcquiredState 0 0 0 e) s;
          s2 = queried (queryDynamicInfo 0 DI_LockedState 0 0 0) s1;
          s3 = packed_or usePacked AemCommandType_GetCounters [P_DescriptorType DescriptorType_Entity, P_U16 0]
                 (queryDynamicInfo 0 DI_GetEntityCounters 0 0 0) s2
      in if compatVersion \<ge> MilanVersion_1_2
         then queried (queryDynamicInfo InvalidDescriptorIndex DI_GetSystemUniqueID InvalidDescriptorIndex 0 0) s3 else s3)"
| "DynamicInfoVisitor_visit usePacked compatVersion specVersion (V_StreamInput ci i n) s =
     (let s1 = queried (queryDynamicInfo ci DI_InputStreamInfo i 0 0) s;
          s2 = packed_or usePacked AemCommandType_GetCounters [P_DescriptorType DescriptorType_StreamInput, P_U16 i]
                 (queryDynamicInfo ci DI_GetStreamInputCounters i 0 0) s1
      in if shouldGetStreamInputInfoEx specVersion
         then queried (queryDynamicInfo ci DI_InputStreamInfoEx i 0 0) s2
         else queried (queryDynamicInfo ci DI_InputStreamState i 0 0) s2)"
| "DynamicInfoVisitor_visit usePacked compatVersion specVersion (V_StreamOutput ci i n) s =
     (let s1 = queried (queryDynamicInfo ci DI_OutputStreamInfo i 0 0) s;
          s2 = packed_or usePacked AemCommandType_GetCounters [P_DescriptorType DescriptorType_StreamOutput, P_U16 i]
                 (queryDynamicInfo ci DI_GetStreamOutputCounters i 0 0) s1;
          s3 = (if shouldGetMaxTransitTime specVersion
                then packed_or usePacked AemCommandType_GetMaxTransitTime [P_U16 i]
                       (queryDynamicInfo ci DI_GetMaxTransitTime i 0 0) s2 else s2)
      in queried (queryDynamicInfo ci DI_OutputStreamState i 0 0) s3)"
| "DynamicInfoVisitor_visit usePacked compatVersion specVersion (V_AvbInterface ci i n) s =
     packed_or usePacked AemCommandType_GetCounters [P_DescriptorType DescriptorType_AvbInterface, P_U16 i]
       (queryDynamicInfo ci DI_GetAvbInterfaceCounters i 0 0)
       (queried (queryDynamicInfo ci DI_GetAsPath i 0 0) (queried (queryDynamicInfo ci DI_GetAvbInfo i 0 0) s))"
| "DynamicInfoVisitor_visit usePacked compatVersion specVersion (V_StreamPortInput ci i n) s =
     (if sp_numberOfMaps (spn_model n) = 0
      then queried (queryDynamicInfo ci DI_InputStreamPortAudioMappings i 0 0) s else s)"
| "DynamicInfoVisitor_visit usePacked compatVersion specVersion (V_StreamPortOutput ci i n) s =
     (if sp_numberOfMaps (spn_model n) = 0
      then queried (queryDynamicInfo ci DI_OutputStreamPortAudioMappings i 0 0) s else s)"
| "DynamicInfoVisitor_visit usePacked compatVersion specVersion (V_ClockDomain ci i n) s =
     (let s1 = packed_or usePacked AemCommandType_GetCounters [P_DescriptorType DescriptorType_ClockDomain, P_U16 i]
                 (queryDynamicInfo ci DI_GetClockDomainCounters i 0 0) s
      in if compatVersion \<ge> MilanVersion_1_2
         then queried (queryDynamicInfo InvalidDescriptorIndex DI_GetMediaClockReferenceInfo i 0 0) s1 else s1)"
| "DynamicInfoVisitor_visit usePacked compatVersion specVersion v s = s"

text \<open>
  \<^verbatim>\<open>chooseLocale\<close> takes the first locale, whatever the preferred one, and copies the strings it has; the missing
  ones are passed to its handler.  Without a locale 0 the exception is caught and nothing is done.
\<close>

definition setLocalizedStrings :: "configuration_index \<Rightarrow> 16 word \<Rightarrow> fixed_string list \<Rightarrow> entity_op" where
  "setLocalizedStrings configurationIndex relativeStringsIndex strings =
     upd_configuration configurationIndex (setLocalizedStringsNode relativeStringsIndex strings)"

definition findLocaleNode :: "configuration_index \<Rightarrow> controlled_entity \<Rightarrow> locale_node option" where
  "findLocaleNode configurationIndex e =
     Option.bind (getConfigurationNode configurationIndex e) (\<lambda>c. al_get 0 (cfn_locales c))"

definition chooseLocale :: "configuration_index \<Rightarrow> (descriptor_index \<Rightarrow> entity_op) \<Rightarrow> entity_op" where
  "chooseLocale configurationIndex missingStringsHandler e = (case findLocaleNode configurationIndex e of
     None \<Rightarrow> e
   | Some localeNode \<Rightarrow>
       (let base = lc_baseStringDescriptorIndex (lcn_model localeNode);
            counted = lc_numberOfStringDescriptors (lcn_model localeNode);
            e1 = upd_configuration configurationIndex
                   (\<lambda>c. c\<lparr>cfn_selectedLocaleBaseIndex := base, cfn_selectedLocaleCountIndexes := counted\<rparr>) e
        in fold (\<lambda>index e. case al_get (base + index) (lcn_strings localeNode) of
               Some s \<Rightarrow> setLocalizedStrings configurationIndex index (sg_strings s) e
             | None \<Rightarrow> missingStringsHandler (base + index) e)
             (map word_of_nat [0..<unat counted]) e1))"

definition getName_arguments :: "configuration_index \<Rightarrow> descriptor_type \<Rightarrow> descriptor_index \<Rightarrow> param list" where
  "getName_arguments ci t i = [P_U16 ci, P_DescriptorType t, P_U16 i, P_U16 0]"

definition getControlNodeDynamicInformation ::
    "bool \<Rightarrow> configuration_index \<Rightarrow> descriptor_index \<Rightarrow> visiting \<Rightarrow> visiting" where
  "getControlNodeDynamicInformation usePacked ci i s =
     queried (queryDescriptorDynamicInfo ci DD_ControlValues i 0)
       (packed_or usePacked AemCommandType_GetName (getName_arguments ci DescriptorType_Control i)
          (queryDescriptorDynamicInfo ci DD_ControlName i 0) s)"

definition name_visited ::
    "bool \<Rightarrow> descriptor_type \<Rightarrow> descriptor_dynamic_info_type \<Rightarrow> configuration_index \<Rightarrow> descriptor_index \<Rightarrow> visiting \<Rightarrow> visiting" where
  "name_visited usePacked t d ci i =
     packed_or usePacked AemCommandType_GetName (getName_arguments ci t i) (queryDescriptorDynamicInfo ci d i 0)"

text \<open>
  Most of a configuration is asked for only when it is the current one, which is that of the entity node
  visited first.
\<close>

fun DynamicInfoModelVisitor_visit :: "bool \<Rightarrow> configuration_index \<Rightarrow> visit \<Rightarrow> visiting \<Rightarrow> visiting" where
  "DynamicInfoModelVisitor_visit usePacked cur (V_Configuration ci n) s =
     (case getConfigurationNode ci (snd s) of
        None \<Rightarrow> s
      | Some _ \<Rightarrow>
          (let s1 = queried (upd_configuration ci (\<lambda>c. c\<lparr>cfn_isActiveConfiguration := ci = cur\<rparr>)) s;
               s2 = packed_or usePacked AemCommandType_GetName (getName_arguments 0 DescriptorType_Configuration ci)
                      (queryDescriptorDynamicInfo ci DD_ConfigurationName 0 0) s1
           in if ci = cur
              then queried (chooseLocale ci (\<lambda>stringsIndex. queryDescriptor ci DescriptorType_Strings stringsIndex 0)) s2
              else s2))"
| "DynamicInfoModelVisitor_visit usePacked cur (V_AudioUnit ci i n) s =
     (if ci = cur
      then packed_or usePacked AemCommandType_GetSamplingRate [P_DescriptorType DescriptorType_AudioUnit, P_U16 i]
             (queryDescriptorDynamicInfo ci DD_AudioUnitSamplingRate i 0)
             (name_visited usePacked DescriptorType_AudioUnit DD_AudioUnitName ci i s)
      else s)"
| "DynamicInfoModelVisitor_visit usePacked cur (V_StreamInput ci i n) s =
     (if ci = cur
      then packed_or usePacked AemCommandType_GetStreamFormat [P_DescriptorType DescriptorType_StreamInput, P_U16 i]
             (queryDescriptorDynamicInfo ci DD_InputStreamFormat i 0)
             (name_visited usePacked DescriptorType_StreamInput DD_InputStreamName ci i s)
      else s)"
| "DynamicInfoModelVisitor_visit usePacked cur (V_StreamOutput ci i n) s =
     (if ci = cur
      then packed_or usePacked AemCommandType_GetStreamFormat [P_DescriptorType DescriptorType_StreamOutput, P_U16 i]
             (queryDescriptorDynamicInfo ci DD_OutputStreamFormat i 0)
             (name_visited usePacked DescriptorType_StreamOutput DD_OutputStreamName ci i s)
      else s)"
| "DynamicInfoModelVisitor_visit usePacked cur (V_JackInput ci i n) s =
     (if ci = cur then name_visited usePacked DescriptorType_JackInput DD_InputJackName ci i s else s)"
| "DynamicInfoModelVisitor_visit usePacked cur (V_JackOutput ci i n) s =
     (if ci = cur then name_visited usePacked DescriptorType_JackOutput DD_OutputJackName ci i s else s)"
| "DynamicInfoModelVisitor_visit usePacked cur (V_AvbInterface ci i n) s =
     queried (queryDescriptorDynamicInfo ci DD_AvbInterfaceDescriptor i 0) s"
| "DynamicInfoModelVisitor_visit usePacked cur (V_ClockSource ci i n) s =
     queried (queryDescriptorDynamicInfo ci DD_ClockSourceDescriptor i 0) s"
| "DynamicInfoModelVisitor_visit usePacked cur (V_MemoryObject ci i n) s =
     (if ci = cur
      then packed_or usePacked AemCommandType_GetMemoryObjectLength [P_U16 ci, P_U16 i]
             (queryDescriptorDynamicInfo ci DD_MemoryObjectLength i 0)
             (name_visited usePacked DescriptorType_MemoryObject DD_MemoryObjectName ci i s)
      else s)"
| "DynamicInfoModelVisitor_visit usePacked cur (V_AudioCluster ci i n) s =
     (if ci = cur then name_visited usePacked DescriptorType_AudioCluster DD_AudioClusterName ci i s else s)"
| "DynamicInfoModelVisitor_visit usePacked cur (V_JackControl ci i n) s =
     (if ci = cur then getControlNodeDynamicInformation usePacked ci i s else s)"
| "DynamicInfoModelVisitor_visit usePacked cur (V_StreamPortControl ci i n) s =
     (if ci = cur then getControlNodeDynamicInformation usePacked ci i s else s)"
| "DynamicInfoModelVisitor_visit usePacked cur (V_AudioUnitControl ci i n) s =
     (if ci = cur then getControlNodeDynamicInformation usePacked ci i s else s)"
| "DynamicInfoModelVisitor_visit usePacked cur (V_Control ci i n) s =
     (if ci = cur then getControlNodeDynamicInformation usePacked ci i s else s)"
| "DynamicInfoModelVisitor_visit usePacked cur (V_PtpControl ci i n) s =
     (if ci = cur then getControlNodeDynamicInformation usePacked ci i s else s)"
| "DynamicInfoModelVisitor_visit usePacked cur (V_ClockDomain ci i n) s =
     (if ci = cur
      then packed_or usePacked AemCommandType_GetClockSource [P_U16 i]
             (queryDescriptorDynamicInfo ci DD_ClockDomainSourceIndex i 0)
             (name_visited usePacked DescriptorType_ClockDomain DD_ClockDomainName ci i s)
      else s)"
| "DynamicInfoModelVisitor_visit usePacked cur (V_Timing ci i n) s =
     (if ci = cur then name_visited usePacked DescriptorType_Timing DD_TimingName ci i s else s)"
| "DynamicInfoModelVisitor_visit usePacked cur (V_PtpInstance ci i n) s =
     (if ci = cur then name_visited usePacked DescriptorType_PtpInstance DD_PtpInstanceName ci i s else s)"
| "DynamicInfoModelVisitor_visit usePacked cur (V_PtpPort ci i n) s =
     (if ci = cur then name_visited usePacked DescriptorType_PtpPort DD_PtpPortName ci i s else s)"
| "DynamicInfoModelVisitor_visit usePacked cur v s = s"

section \<open>What is expected, and of which query\<close>

datatype expected_key =
    E_MilanInfo "16 word"
  | E_CheckDynamicInfoSupported
  | E_RegisterUnsol
  | E_PackedDynamicInfo "16 word"
  | E_Descriptor configuration_index "32 word"
  | E_DynamicInfo configuration_index "64 word"
  | E_DescriptorDynamicInfo configuration_index "64 word"

definition expected_pairs :: "('k, 'e set) alist \<Rightarrow> ('k \<times> 'e) set" where
  "expected_pairs m = {(k, x). \<exists>es. (k, es) \<in> set m \<and> x \<in> es}"

definition expected_keys :: "controlled_entity \<Rightarrow> expected_key set" where
  "expected_keys e =
     E_MilanInfo ` ced_expectedMilanInfo e
     \<union> (if ced_expectedCheckDynamicInfoSupported e then {E_CheckDynamicInfoSupported} else {})
     \<union> (if ced_expectedRegisterUnsol e then {E_RegisterUnsol} else {})
     \<union> E_PackedDynamicInfo ` ced_expectedPackedDynamicInfo e
     \<union> case_prod E_Descriptor ` expected_pairs (ced_expectedDescriptors e)
     \<union> case_prod E_DynamicInfo ` expected_pairs (ced_expectedDynamicInfo e)
     \<union> case_prod E_DescriptorDynamicInfo ` expected_pairs (ced_expectedDescriptorDynamicInfo e)"

text \<open>
  The key that the handler of a query's answer takes, when the answer is about what was asked.  The entity
  descriptor has one index, and a configuration descriptor is read by the index of its configuration; what is
  asked of the whole entity has no index either.
\<close>

fun dynamic_info_address ::
    "dynamic_info_type \<Rightarrow> configuration_index \<Rightarrow> descriptor_index \<Rightarrow> 16 word \<Rightarrow> configuration_index \<times> descriptor_index \<times> 16 word" where
  "dynamic_info_address DI_AcquiredState ci i sub = (0, 0, 0)"
| "dynamic_info_address DI_LockedState ci i sub = (0, 0, 0)"
| "dynamic_info_address DI_GetEntityCounters ci i sub = (0, 0, 0)"
| "dynamic_info_address DI_GetSystemUniqueID ci i sub = (InvalidDescriptorIndex, InvalidDescriptorIndex, 0)"
| "dynamic_info_address DI_GetMediaClockReferenceInfo ci i sub = (InvalidDescriptorIndex, i, 0)"
| "dynamic_info_address DI_InputStreamPortAudioMappings ci i sub = (ci, i, sub)"
| "dynamic_info_address DI_OutputStreamPortAudioMappings ci i sub = (ci, i, sub)"
| "dynamic_info_address t ci i sub = (ci, i, 0)"

definition descriptor_dynamic_info_address :: "descriptor_dynamic_info_type \<Rightarrow> descriptor_index \<Rightarrow> descriptor_index" where
  "descriptor_dynamic_info_address t i = (if t = DD_ConfigurationName then 0 else i)"

definition query_key :: "query \<Rightarrow> expected_key option" where
  "query_key q = (case q of
     Q_MilanInfo t \<Rightarrow> Some (E_MilanInfo (makeMilanInfoKey t))
   | Q_EmptyGetDynamicInfo \<Rightarrow> Some E_CheckDynamicInfoSupported
   | Q_RegisterUnsolicitedNotifications \<Rightarrow> Some E_RegisterUnsol
   | Q_UnregisterUnsolicitedNotifications \<Rightarrow> None
   | Q_Descriptor ci t i \<Rightarrow>
       Some (if t = DescriptorType_Entity then E_Descriptor 0 (makeDescriptorKey t 0)
             else if t = DescriptorType_Configuration then E_Descriptor ci (makeDescriptorKey t 0)
             else E_Descriptor ci (makeDescriptorKey t i))
   | Q_DynamicInfo ci t i sub \<Rightarrow>
       (let (ci', i', sub') = dynamic_info_address t ci i sub in Some (E_DynamicInfo ci' (makeDynamicInfoKey t i' sub')))
   | Q_TalkerStreamConnection ci talkerStream sub \<Rightarrow>
       Some (E_DynamicInfo ci (makeDynamicInfoKey DI_OutputStreamConnection (sid_streamIndex talkerStream) sub))
   | Q_DescriptorDynamicInfo ci t i \<Rightarrow> 
       Some (E_DescriptorDynamicInfo ci (makeDescriptorDynamicInfoKey t (descriptor_dynamic_info_address t i)))
   | Q_GetDynamicInfo params packetID step \<Rightarrow> Some (E_PackedDynamicInfo packetID))"

fun action_query :: "action \<Rightarrow> query list" where
  "action_query (Send q) = [q]"
| "action_query (Delay d q) = [q]"
| "action_query _ = []"

definition queries_of :: "action list \<Rightarrow> query list" where
  "queries_of as = concat (map action_query as)"

text \<open>What the observers are told of the presence of the entity.\<close>

fun announcement :: "action \<Rightarrow> bool list" where
  "announcement (Observe OnEntityOnline) = [True]"
| "announcement (Observe OnEntityOffline) = [False]"
| "announcement _ = []"

definition announcements :: "action list \<Rightarrow> bool list" where
  "announcements as = concat (map announcement as)"

definition answered_keys :: "query list \<Rightarrow> expected_key set" where
  "answered_keys qs = {k. \<exists>q \<in> set qs. query_key q = Some k}"

definition expected_ok :: "controlled_entity \<Rightarrow> bool" where
  "expected_ok e \<longleftrightarrow> al_ok (ced_expectedDescriptors e) \<and> al_ok (ced_expectedDynamicInfo e)
     \<and> al_ok (ced_expectedDescriptorDynamicInfo e)"

text \<open>
  The operations that only ask: they add what they expect together with the queries for it, and leave the
  steps, the flags, the fatal error and the advertisement as they are.
\<close>

definition asks :: "controlled_entity \<Rightarrow> controlled_entity \<Rightarrow> bool" where
  "asks e e' \<longleftrightarrow>
     (\<exists>as. ced_actions e' = ced_actions e @ as \<and> announcements as = []
       \<and> expected_keys e' \<subseteq> expected_keys e \<union> answered_keys (queries_of as))
     \<and> expected_keys e \<subseteq> expected_keys e'
     \<and> ced_compatibilityFlags e' = ced_compatibilityFlags e
     \<and> (expected_ok e \<longrightarrow> expected_ok e')
     \<and> ced_enumerationSteps e' = ced_enumerationSteps e
     \<and> ced_gotFatalEnumerateError e' = ced_gotFatalEnumerateError e
     \<and> ced_advertised e' = ced_advertised e"

lemma queries_of_simps [simp]:
  "queries_of [] = []" "queries_of (a # as) = action_query a @ queries_of as"
  "queries_of (as @ bs) = queries_of as @ queries_of bs"
  by (simp_all add: queries_of_def)

lemma announcements_simps [simp]:
  "announcements [] = []" "announcements (a # as) = announcement a @ announcements as"
  "announcements (as @ bs) = announcements as @ announcements bs"
  by (simp_all add: announcements_def)

lemma answered_keys_simps [simp]:
  "answered_keys [] = {}" "answered_keys (q # qs) = set_option (query_key q) \<union> answered_keys qs"
  "answered_keys (qs @ rs) = answered_keys qs \<union> answered_keys rs"
  by (auto simp: answered_keys_def)

lemma asks_refl [simp, intro]: "asks e e"
  by (auto simp: asks_def intro!: exI [of _ "[]"])

lemma asks_trans [trans]: "asks e e' \<Longrightarrow> asks e' e'' \<Longrightarrow> asks e e''"
proof -
  assume a: "asks e e'" and b: "asks e' e''"
  from a obtain as where "ced_actions e' = ced_actions e @ as" "announcements as = []"
      "expected_keys e' \<subseteq> expected_keys e \<union> answered_keys (queries_of as)" by (auto simp: asks_def)
  moreover from b obtain bs where "ced_actions e'' = ced_actions e' @ bs" "announcements bs = []"
      "expected_keys e'' \<subseteq> expected_keys e' \<union> answered_keys (queries_of bs)" by (auto simp: asks_def)
  ultimately have "\<exists>cs. ced_actions e'' = ced_actions e @ cs \<and> announcements cs = []
      \<and> expected_keys e'' \<subseteq> expected_keys e \<union> answered_keys (queries_of cs)"
    by (intro exI [of _ "as @ bs"]) auto
  with a b show ?thesis by (auto simp: asks_def)
qed

lemma asks_frame:
  assumes "asks e e'"
  shows "ced_enumerationSteps e' = ced_enumerationSteps e" "ced_gotFatalEnumerateError e' = ced_gotFatalEnumerateError e"
    "ced_advertised e' = ced_advertised e" "expected_ok e \<Longrightarrow> expected_ok e'" "expected_keys e \<subseteq> expected_keys e'"
    "ced_compatibilityFlags e' = ced_compatibilityFlags e"
  using assms by (auto simp: asks_def)

lemma asks_fold: "(\<And>x e. x \<in> set xs \<Longrightarrow> asks e (f x e)) \<Longrightarrow> asks e (fold f xs e)"
  by (induction xs arbitrary: e) (auto intro: asks_trans)

lemma asks_quiet:
  assumes "ced_actions e' = ced_actions e @ as" "queries_of as = []" "announcements as = []"
    "ced_compatibilityFlags e' = ced_compatibilityFlags e" "expected_keys e' = expected_keys e"
    "expected_ok e' = expected_ok e" "ced_enumerationSteps e' = ced_enumerationSteps e"
    "ced_gotFatalEnumerateError e' = ced_gotFatalEnumerateError e" "ced_advertised e' = ced_advertised e"
  shows "asks e e'"
  using assms by (auto simp: asks_def)

lemma expected_pairs_simps [simp]:
  "expected_pairs [] = {}" "expected_pairs ((k, es) # m) = Pair k ` es \<union> expected_pairs m"
  by (auto simp: expected_pairs_def)

lemma expected_pairs_insert:
  "expected_pairs (expected_insert k x m) = insert (k, x) (expected_pairs m)"
proof -
  have "expected_pairs (al_put k (insert x (case al_get k m of None \<Rightarrow> {} | Some es \<Rightarrow> es)) m) = insert (k, x) (expected_pairs m)"
    by (induction m) (auto split: option.splits)
  thus ?thesis by (simp add: expected_insert_def)
qed
lemma expected_pairs_get: "al_ok m \<Longrightarrow> (k, x) \<in> expected_pairs m \<longleftrightarrow> (\<exists>es. al_get k m = Some es \<and> x \<in> es)"
  by (simp add: expected_pairs_def al_get_iff)

lemma expected_pairs_erase:
  assumes "al_ok m"
  shows "expected_pairs (snd (expected_erase k x m)) = expected_pairs m - {(k, x)}"
    and "fst (expected_erase k x m) \<longleftrightarrow> (k, x) \<in> expected_pairs m"
proof -
  have "(k', y) \<in> expected_pairs (snd (expected_erase k x m)) \<longleftrightarrow> (k', y) \<in> expected_pairs m \<and> (k', y) \<noteq> (k, x)" for k' y
    using assms by (auto simp: expected_erase_def expected_pairs_get split: option.splits if_splits)
  thus "expected_pairs (snd (expected_erase k x m)) = expected_pairs m - {(k, x)}" by auto
  show "fst (expected_erase k x m) \<longleftrightarrow> (k, x) \<in> expected_pairs m"
    using assms by (auto simp: expected_erase_def expected_pairs_get split: option.splits)
qed

lemma expected_none_iff: "expected_none m \<longleftrightarrow> expected_pairs m = {}"
  by (induction m) (auto simp: expected_none_def)

lemma expected_insert_ok [simp]: "al_ok m \<Longrightarrow> al_ok (expected_insert k x m)"
  by (simp add: expected_insert_def)

lemma expected_erase_ok [simp]: "al_ok m \<Longrightarrow> al_ok (snd (expected_erase k x m))"
  by (simp add: expected_erase_def split: option.split)

lemma act_frame [simp]:
  "ced_actions (act a e) = ced_actions e @ [a]" "expected_keys (act a e) = expected_keys e"
  "expected_ok (act a e) = expected_ok e" "ced_enumerationSteps (act a e) = ced_enumerationSteps e"
  "ced_gotFatalEnumerateError (act a e) = ced_gotFatalEnumerateError e"
  "ced_compatibilityFlags (act a e) = ced_compatibilityFlags e" "ced_advertised (act a e) = ced_advertised e"
  by (simp_all add: act_def expected_keys_def expected_ok_def)

lemma asks_act [intro]: "action_query a = [] \<Longrightarrow> announcement a = [] \<Longrightarrow> asks e (act a e)"
  by (rule asks_quiet [of _ _ "[a]"]) simp_all

lemma asks_sent:
  assumes "query_key q = Some k" "expected_keys e1 = insert k (expected_keys e)" "ced_actions e1 = ced_actions e"
    "ced_compatibilityFlags e1 = ced_compatibilityFlags e"
    "expected_ok e \<Longrightarrow> expected_ok e1" "ced_enumerationSteps e1 = ced_enumerationSteps e"
    "ced_gotFatalEnumerateError e1 = ced_gotFatalEnumerateError e" "ced_advertised e1 = ced_advertised e"
  shows "asks e (send_query d q e1)"
proof -
  have "ced_actions (send_query d q e1) = ced_actions e @ [if d = 0 then Send q else Delay d q]"
    using assms by (simp add: send_query_def)
  moreover have "expected_keys (send_query d q e1) \<subseteq> expected_keys e
      \<union> answered_keys (queries_of [if d = 0 then Send q else Delay d q])"
    using assms(1,2) by (auto simp: send_query_def)
  moreover have "expected_keys e \<subseteq> expected_keys (send_query d q e1)" using assms(2) by (auto simp: send_query_def)
  ultimately show ?thesis using assms unfolding asks_def by (simp add: send_query_def)
qed

lemma expected_keys_set:
  "expected_keys (setMilanInfoExpected t e) = insert (E_MilanInfo (makeMilanInfoKey t)) (expected_keys e)"
  "expected_keys (setCheckDynamicInfoSupportedExpected e) = insert E_CheckDynamicInfoSupported (expected_keys e)"
  "expected_keys (setRegisterUnsolExpected e) = insert E_RegisterUnsol (expected_keys e)"
  "expected_keys (setPackedDynamicInfoExpected n e) = insert (E_PackedDynamicInfo n) (expected_keys e)"
  "expected_keys (setDescriptorExpected ci dt i e) = insert (E_Descriptor ci (makeDescriptorKey dt i)) (expected_keys e)"
  "expected_keys (setDynamicInfoExpected ci t' i sub e) = insert (E_DynamicInfo ci (makeDynamicInfoKey t' i sub)) (expected_keys e)"
  "expected_keys (setDescriptorDynamicInfoExpected ci d i e)
     = insert (E_DescriptorDynamicInfo ci (makeDescriptorDynamicInfoKey d i)) (expected_keys e)"
  by (auto simp: expected_keys_def setMilanInfoExpected_def setCheckDynamicInfoSupportedExpected_def
      setRegisterUnsolExpected_def setPackedDynamicInfoExpected_def setDescriptorExpected_def setDynamicInfoExpected_def
      setDescriptorDynamicInfoExpected_def expected_pairs_insert)

lemmas set_expected_defs = setMilanInfoExpected_def setCheckDynamicInfoSupportedExpected_def setRegisterUnsolExpected_def
  setPackedDynamicInfoExpected_def setDescriptorExpected_def setDynamicInfoExpected_def
  setDescriptorDynamicInfoExpected_def

lemma queryMilanInfo_asks [intro]: "asks e (queryMilanInfo t d e)"
  unfolding queryMilanInfo_def
  by (rule asks_sent) (auto simp: query_key_def expected_keys_set, auto simp: set_expected_defs expected_ok_def)

lemma queryDescriptor_asks [intro]:
  assumes "descriptor_queried t" "query_key (Q_Descriptor ci t i) = Some (E_Descriptor ci (makeDescriptorKey t i))"
  shows "asks e (queryDescriptor ci t i d e)"
  using assms(1) unfolding queryDescriptor_def Let_def
  by (auto intro!: asks_sent [OF assms(2)] simp: expected_keys_set) (auto simp: set_expected_defs expected_ok_def)

lemma queryDynamicInfo_asks [intro]:
  assumes "t \<noteq> DI_OutputStreamConnection" "dynamic_info_address t ci i sub = (ci, i, sub)"
  shows "asks e (queryDynamicInfo ci t i sub d e)"
  using assms unfolding queryDynamicInfo_def Let_def
  by (auto intro!: asks_sent simp: query_key_def expected_keys_set) (auto simp: set_expected_defs expected_ok_def)

lemma queryTalkerStreamConnection_asks [intro]: "asks e (queryTalkerStreamConnection ci t s sub d e)"
  unfolding queryTalkerStreamConnection_def
  by (auto intro!: asks_sent simp: query_key_def expected_keys_set) (auto simp: set_expected_defs expected_ok_def)

lemma queryDescriptorDynamicInfo_asks [intro]:
  assumes "descriptor_dynamic_info_address t i = i"
  shows "asks e (queryDescriptorDynamicInfo ci t i d e)"
  unfolding queryDescriptorDynamicInfo_def
  by (rule asks_sent [of _ "E_DescriptorDynamicInfo ci (makeDescriptorDynamicInfoKey t i)"])
    (auto simp: query_key_def expected_keys_set assms, auto simp: set_expected_defs expected_ok_def)

lemma queryPackedDynamicInfo_asks [intro]: "asks e (queryPackedDynamicInfo ps n step d e)"
  unfolding queryPackedDynamicInfo_def
  by (rule asks_sent) (auto simp: query_key_def expected_keys_set, auto simp: set_expected_defs expected_ok_def)

section \<open>Steps\<close>

text \<open>
  A step asks for what it needs and is over at once when nothing is expected.  \<^verbatim>\<open>checkEnumerationSteps\<close> takes the
  steps in order; it calls the step that calls it again once the step is cleared, so that it ends.  Only the
  non-packed answers of a step decide whether it is over at once.
\<close>

definition start_MilanInfo :: entity_op where
  "start_MilanInfo e =
     (let caps = ei_entityCapabilities (en_common (ced_entity e)) in
      if bits_test EntityCapability_AemSupported caps \<and> bits_test EntityCapability_VendorUniqueSupported caps
      then queryMilanInfo MI_MilanInfo 0 e else e)"

definition checkDynamicInfoSupported :: entity_op where
  "checkDynamicInfoSupported e = act (Send Q_EmptyGetDynamicInfo) (setCheckDynamicInfoSupportedExpected e)"

definition registerUnsol :: entity_op where
  "registerUnsol e = act (Send Q_RegisterUnsolicitedNotifications) (setRegisterUnsolExpected e)"

definition unregisterUnsol :: entity_op where
  "unregisterUnsol = act (Send Q_UnregisterUnsolicitedNotifications)"

definition getStaticModel :: entity_op where
  "getStaticModel = queryDescriptor 0 DescriptorType_Entity 0 0"

definition start_DynamicInfo :: entity_op where
  "start_DynamicInfo e =
     (let specVersion = (case ced_milanInfo e of None \<Rightarrow> 0 | Some info \<Rightarrow> mi_specificationVersion info);
          (dynamicInfoParameters, e1) =
            fold (DynamicInfoVisitor_visit (ced_isPackedDynamicInfoSupported e) (ced_milanCompatibilityVersion e) specVersion)
              (accept False e) ([], e)
      in flushPackedDynamicInfoQueries dynamicInfoParameters Step_GetDynamicInfo e1)"

definition start_DescriptorDynamicInfo :: entity_op where
  "start_DescriptorDynamicInfo e =
     (if supports_aem e \<and> hasAnyConfiguration e then
        (let (dynamicInfoParameters, e1) =
               fold (DynamicInfoModelVisitor_visit (ced_isPackedDynamicInfoSupported e)
                       (etn_currentConfiguration (ced_entityNode e)))
                 (accept True e) ([], e)
         in flushPackedDynamicInfoQueries dynamicInfoParameters Step_GetDescriptorDynamicInfo e1)
      else e)"

definition onEntityModelEnumerated :: entity_op where
  "onEntityModelEnumerated = act (Called ''onEntityModelEnumerated'')"

text \<open>The model goes to the cache when its identifier is a valid one and nothing told against it.\<close>

definition cacheable :: "controller_settings \<Rightarrow> controlled_entity \<Rightarrow> bool" where
  "cacheable c e \<longleftrightarrow> (let entityModelID = ei_entityModelID (en_common (ced_entity e)) in
     emc_isEnabled (cse_entityModelCache c) \<and> uid_isValid entityModelID \<and> \<not> isGroupIdentifier entityModelID
     \<and> \<not> ced_ignoreCachedEntityModel e \<and> isValidEntityModelID entityModelID)"

definition advertise_entity :: "controller_settings \<Rightarrow> entity_op" where
  "advertise_entity c e =
     (if ced_advertised e \<or> ced_gotFatalEnumerateError e then e
      else
        (let e1 = act (Called ''validateEntity'') (act (Called ''onEntityFullyLoaded'') e) in
         if \<not> cse_validateEntity c e1 then setGetFatalEnumerationError e1
         else
           (let e2 = act (Called ''onPreAdvertiseEntity'') e1;
                e3 = (if cacheable c e2 then act (Called ''cacheEntityModel'') e2 else e2)
            in act (Called ''onPostAdvertiseEntity'') (act (Observe OnEntityOnline) (e3\<lparr>ced_advertised := True\<rparr>)))))"

definition step_rank :: "enumeration_step \<Rightarrow> nat" where
  "step_rank s = (case s of Step_GetMilanInfo \<Rightarrow> 0 | Step_CheckPackedDynamicInfoSupported \<Rightarrow> 1 | Step_RegisterUnsol \<Rightarrow> 2
     | Step_GetStaticModel \<Rightarrow> 3 | Step_GetDescriptorDynamicInfo \<Rightarrow> 4 | Step_GetDynamicInfo \<Rightarrow> 5)"

lemma upd_configuration_asks [intro]: "asks e (upd_configuration ci f e)"
  by (rule asks_quiet [of _ _ "[]"])
    (simp_all add: upd_configuration_def expected_keys_def expected_ok_def split: option.split)

lemma packed_or_asks:
  "asks e (snd s) \<Longrightarrow> (\<And>e. asks e (query e)) \<Longrightarrow> asks e (snd (packed_or p c as query s))"
  by (auto simp: packed_or_def intro: asks_trans)

lemma queried_asks: "asks e (snd s) \<Longrightarrow> (\<And>e. asks e (query e)) \<Longrightarrow> asks e (snd (queried query s))"
  by (auto simp: queried_def intro: asks_trans)

lemma fold_visits_asks:
  assumes "\<And>v s. asks (snd s) (snd (f v s))"
  shows "asks (snd s) (snd (fold f vs s))"
proof (induction vs arbitrary: s)
  case (Cons v vs)
  from assms [of s v] Cons.IH [of "f v s"] show ?case by (simp add: asks_trans [of "snd s"])
qed simp

lemma acquire_state_asks: "asks e (e\<lparr>ced_acquireState := a\<rparr>)"
  by (rule asks_quiet [of _ _ "[]"]) (simp_all add: expected_keys_def expected_ok_def)

lemmas visiting_intros = packed_or_asks queried_asks asks_refl

lemma DynamicInfoVisitor_asks: "asks (snd s) (snd (DynamicInfoVisitor_visit p cv sv v s))"
  by (induction p cv sv v s rule: DynamicInfoVisitor_visit.induct)
    (simp_all add: Let_def visiting_intros queryDynamicInfo_asks acquire_state_asks)

lemma setLocalizedStrings_asks [intro]: "asks e (setLocalizedStrings ci r ss e)"
  by (simp add: setLocalizedStrings_def upd_configuration_asks)

lemma chooseLocale_asks:
  assumes "\<And>i e. asks e (h i e)"
  shows "asks e (chooseLocale ci h e)"
proof (cases "findLocaleNode ci e")
  case (Some l)
  show ?thesis unfolding chooseLocale_def Some Let_def option.simps
    by (rule asks_trans [OF upd_configuration_asks asks_fold])
      (simp add: assms setLocalizedStrings_asks split: option.split)
qed (simp add: chooseLocale_def)

lemma name_visited_asks:
  "asks e (snd s) \<Longrightarrow> descriptor_dynamic_info_address d i = i \<Longrightarrow> asks e (snd (name_visited p t d ci i s))"
  by (simp add: name_visited_def visiting_intros queryDescriptorDynamicInfo_asks)

lemma getControlNodeDynamicInformation_asks: "asks e (snd s) \<Longrightarrow> asks e (snd (getControlNodeDynamicInformation p ci i s))"
  by (simp add: getControlNodeDynamicInformation_def visiting_intros queryDescriptorDynamicInfo_asks
      descriptor_dynamic_info_address_def)

lemma strings_query_asks [intro]: "asks e (queryDescriptor ci DescriptorType_Strings i d e)"
  by (rule queryDescriptor_asks) (simp_all add: descriptor_queried_def query_key_def DescriptorType_Strings_def
      DescriptorType_Entity_def DescriptorType_Configuration_def)

lemma DynamicInfoModelVisitor_asks: "asks (snd s) (snd (DynamicInfoModelVisitor_visit p cur v s))"
  by (induction p cur v s rule: DynamicInfoModelVisitor_visit.induct)
    (simp_all add: Let_def visiting_intros name_visited_asks getControlNodeDynamicInformation_asks
      chooseLocale_asks queryDescriptorDynamicInfo_asks upd_configuration_asks strings_query_asks
      descriptor_dynamic_info_address_def split: option.split)

lemma flush_asks: "asks e (flushPackedDynamicInfoQueries ps step e)"
  by (auto simp: flushPackedDynamicInfoQueries_def intro!: asks_fold)

lemma start_asks:
  "asks e (start_MilanInfo e)" "asks e (checkDynamicInfoSupported e)" "asks e (registerUnsol e)"
  "asks e (getStaticModel e)" "asks e (start_DynamicInfo e)" "asks e (start_DescriptorDynamicInfo e)"
  "asks e (onEntityModelEnumerated e)"
proof -
  show "asks e (checkDynamicInfoSupported e)"
    using asks_sent [of Q_EmptyGetDynamicInfo E_CheckDynamicInfoSupported "setCheckDynamicInfoSupportedExpected e" e 0]
    by (simp add: checkDynamicInfoSupported_def send_query_def query_key_def expected_keys_set)
      (simp add: setCheckDynamicInfoSupportedExpected_def expected_ok_def)
  show "asks e (registerUnsol e)"
    using asks_sent [of Q_RegisterUnsolicitedNotifications E_RegisterUnsol "setRegisterUnsolExpected e" e 0]
    by (simp add: registerUnsol_def send_query_def query_key_def expected_keys_set)
      (simp add: setRegisterUnsolExpected_def expected_ok_def)
  show "asks e (getStaticModel e)"
    unfolding getStaticModel_def by (rule queryDescriptor_asks)
      (simp_all add: descriptor_queried_def query_key_def)
  show "asks e (start_DynamicInfo e)"
    unfolding start_DynamicInfo_def Let_def
    by (auto split: prod.split intro!: asks_trans [OF _ flush_asks])
      (metis DynamicInfoVisitor_asks fold_visits_asks snd_conv)
  show "asks e (start_DescriptorDynamicInfo e)"
    unfolding start_DescriptorDynamicInfo_def Let_def
    by (auto split: prod.split intro!: asks_trans [OF _ flush_asks])
      (metis DynamicInfoModelVisitor_asks fold_visits_asks snd_conv)
qed (auto simp: start_MilanInfo_def Let_def onEntityModelEnumerated_def)

text \<open>
  A step that expects nothing is over at once, and the next is looked for.
\<close>

function checkEnumerationSteps :: "controller_settings \<Rightarrow> controlled_entity \<Rightarrow> controlled_entity" where
  "checkEnumerationSteps c e =
     (let steps = ced_enumerationSteps e in
      if Step_GetMilanInfo \<in> steps then
        (let e1 = start_MilanInfo e in
         if gotAllExpectedMilanInfo e1 then checkEnumerationSteps c (clearEnumerationStep Step_GetMilanInfo e1) else e1)
      else if Step_CheckPackedDynamicInfoSupported \<in> steps then checkDynamicInfoSupported e
      else if Step_RegisterUnsol \<in> steps then registerUnsol e
      else if Step_GetStaticModel \<in> steps then getStaticModel e
      else
        (let e1 = onEntityModelEnumerated e in
         if Step_GetDescriptorDynamicInfo \<in> steps then
           (let e2 = start_DescriptorDynamicInfo e1 in
            if gotAllExpectedDescriptorDynamicInfo e2
            then checkEnumerationSteps c (clearEnumerationStep Step_GetDescriptorDynamicInfo e2) else e2)
         else if Step_GetDynamicInfo \<in> steps then
           (let e2 = start_DynamicInfo e1 in
            if gotAllExpectedDynamicInfo e2
            then checkEnumerationSteps c (clearEnumerationStep Step_GetDynamicInfo e2) else e2)
         else advertise_entity c e1))"
  by pat_completeness auto

lemma finite_steps: "finite (A :: enumeration_step set)"
proof (rule finite_subset)
  show "A \<subseteq> {Step_GetMilanInfo, Step_CheckPackedDynamicInfoSupported, Step_RegisterUnsol, Step_GetStaticModel,
      Step_GetDescriptorDynamicInfo, Step_GetDynamicInfo}"
    using enumeration_step.exhaust by blast
qed simp

lemma clearEnumerationStep_card:
  assumes "s \<in> ced_enumerationSteps e"
  shows "card (ced_enumerationSteps (clearEnumerationStep s e)) < card (ced_enumerationSteps e)"
proof -
  have "ced_enumerationSteps (clearEnumerationStep s e) \<subset> ced_enumerationSteps e"
    using assms by (auto simp: clearEnumerationStep_def)
  thus ?thesis by (intro psubset_card_mono finite_steps)
qed

lemmas start_steps = start_asks [THEN asks_frame(1)]

termination checkEnumerationSteps
proof (relation "measure (\<lambda>(c, e). card (ced_enumerationSteps e))")
qed (use clearEnumerationStep_card [of Step_GetMilanInfo "start_MilanInfo e" for e]
      clearEnumerationStep_card [of Step_GetDescriptorDynamicInfo "start_DescriptorDynamicInfo (onEntityModelEnumerated e)" for e]
      clearEnumerationStep_card [of Step_GetDynamicInfo "start_DynamicInfo (onEntityModelEnumerated e)" for e]
      in \<open>simp_all add: start_steps\<close>)

declare checkEnumerationSteps.simps [simp del]

end
