(* ===== verification/EnumerationFailures.thy ===== *)
theory EnumerationFailures
  imports EnumerationQueries
begin

text \<open>
  What the controller library does when an entity does not answer a query with success
  (src/controller/avdeccControllerImpl.cpp): the action a status stands for, the retries, the flags and versions
  the entity loses, and the steps it has to go through again.
\<close>

section \<open>Actions\<close>

datatype failure_action =
    FA_ErrorContinue
  | FA_MisbehaveContinue
  | FA_BadArguments
  | FA_WarningContinue
  | FA_NotSupported
  | FA_NotAuthenticated
  | FA_TimedOut
  | FA_Busy
  | FA_ErrorFatal

datatype packed_failure_action = PF_Continue | PF_RestartStep | PF_Fatal

definition Status_NoSuchDescriptor :: command_status where "Status_NoSuchDescriptor = 2"
definition Status_LockedByOther :: command_status where "Status_LockedByOther = 3"
definition Status_AcquiredByOther :: command_status where "Status_AcquiredByOther = 4"
definition Status_NotAuthenticated :: command_status where "Status_NotAuthenticated = 5"
definition Status_AuthenticationDisabled :: command_status where "Status_AuthenticationDisabled = 6"
definition Status_BadArguments :: command_status where "Status_BadArguments = 7"
definition Status_NoResources :: command_status where "Status_NoResources = 8"
definition Status_EntityMisbehaving :: command_status where "Status_EntityMisbehaving = 10"
definition Status_NotSupported :: command_status where "Status_NotSupported = 11"
definition Status_StreamIsRunning :: command_status where "Status_StreamIsRunning = 12"
definition MvuStatus_EntityLocked :: command_status where "MvuStatus_EntityLocked = 3"
definition MvuStatus_PayloadTooShort :: command_status where "MvuStatus_PayloadTooShort = 13"
definition ControlStatus_TalkerDestMacFail :: command_status where "ControlStatus_TalkerDestMacFail = 3"
definition ControlStatus_TalkerNoStreamIndex :: command_status where "ControlStatus_TalkerNoStreamIndex = 4"
definition ControlStatus_TalkerNoBandwidth :: command_status where "ControlStatus_TalkerNoBandwidth = 5"
definition ControlStatus_TalkerExclusive :: command_status where "ControlStatus_TalkerExclusive = 6"
definition ControlStatus_ListenerTalkerTimeout :: command_status where "ControlStatus_ListenerTalkerTimeout = 7"
definition ControlStatus_ListenerExclusive :: command_status where "ControlStatus_ListenerExclusive = 8"
definition ControlStatus_StateUnavailable :: command_status where "ControlStatus_StateUnavailable = 9"
definition ControlStatus_NotConnected :: command_status where "ControlStatus_NotConnected = 10"
definition ControlStatus_NoSuchConnection :: command_status where "ControlStatus_NoSuchConnection = 11"
definition ControlStatus_CouldNotSendMessage :: command_status where "ControlStatus_CouldNotSendMessage = 12"
definition ControlStatus_ControllerNotAuthorized :: command_status where "ControlStatus_ControllerNotAuthorized = 16"
definition ControlStatus_IncompatibleRequest :: command_status where "ControlStatus_IncompatibleRequest = 17"
definition ControlStatus_NotSupported :: command_status where "ControlStatus_NotSupported = 31"

lemmas failure_status_defs = Status_NoSuchDescriptor_def Status_LockedByOther_def Status_AcquiredByOther_def
  Status_NotAuthenticated_def Status_AuthenticationDisabled_def Status_BadArguments_def Status_NoResources_def
  Status_EntityMisbehaving_def Status_NotSupported_def Status_StreamIsRunning_def Status_Success_def
  Status_NotImplemented_def Status_ProtocolError_def Status_TimedOut_def Status_UnknownEntity_def
  Status_BaseProtocolViolation_def Status_PartialImplementation_def

text \<open>A status no case names, like the ones that mean the entity is not worth going on with, is fatal.\<close>

definition getFailureActionForMvuCommandStatus :: "command_status \<Rightarrow> failure_action" where
  "getFailureActionForMvuCommandStatus status =
     (if status = MvuStatus_EntityLocked then FA_Busy
      else if status = Status_TimedOut then FA_TimedOut
      else if status = Status_BaseProtocolViolation then FA_MisbehaveContinue
      else if status = Status_NoSuchDescriptor \<or> status = Status_ProtocolError then FA_ErrorContinue
      else if status = MvuStatus_PayloadTooShort \<or> status = Status_BadArguments then FA_BadArguments
      else if status = Status_NotImplemented then FA_NotSupported
      else if status = Status_PartialImplementation then FA_WarningContinue
      else FA_ErrorFatal)"

definition getFailureActionForAemCommandStatus :: "controller_settings \<Rightarrow> command_status \<Rightarrow> failure_action" where
  "getFailureActionForAemCommandStatus c status =
     (if status = Status_LockedByOther \<or> status = Status_AcquiredByOther \<or> status = Status_NoResources then FA_Busy
      else if status = Status_TimedOut then FA_TimedOut
      else if status = Status_NotAuthenticated then FA_NotAuthenticated
      else if status = Status_BaseProtocolViolation then FA_MisbehaveContinue
      else if status = Status_NoSuchDescriptor \<or> status = Status_AuthenticationDisabled
           \<or> status = Status_StreamIsRunning \<or> status = Status_ProtocolError then FA_ErrorContinue
      else if status = Status_BadArguments then FA_BadArguments
      else if status = Status_NotImplemented \<or> status = Status_NotSupported then FA_NotSupported
      else if status = Status_PartialImplementation then FA_WarningContinue
      else if (status = Status_UnknownEntity \<or> status = Status_EntityMisbehaving)
           \<and> cse_continueMisbehaveAemResponses c then FA_MisbehaveContinue
      else FA_ErrorFatal)"

definition getFailureActionForControlStatus :: "command_status \<Rightarrow> failure_action" where
  "getFailureActionForControlStatus status =
     (if status = Status_BaseProtocolViolation then FA_MisbehaveContinue
      else if status = ControlStatus_StateUnavailable \<or> status = ControlStatus_CouldNotSendMessage then FA_Busy
      else if status = Status_TimedOut then FA_TimedOut
      else if status = ControlStatus_NotConnected \<or> status = ControlStatus_NoSuchConnection then FA_WarningContinue
      else if status = ControlStatus_TalkerDestMacFail \<or> status = ControlStatus_TalkerNoBandwidth
           \<or> status = ControlStatus_TalkerExclusive \<or> status = ControlStatus_ListenerTalkerTimeout
           \<or> status = ControlStatus_ListenerExclusive \<or> status = ControlStatus_TalkerNoStreamIndex
           \<or> status = ControlStatus_ControllerNotAuthorized \<or> status = ControlStatus_IncompatibleRequest
        then FA_ErrorContinue
      else if status = ControlStatus_NotSupported then FA_NotSupported
      else FA_ErrorFatal)"

section \<open>Failures\<close>

text \<open>
  Each method returns false when the error is fatal.  A retry of the two checks that come before the model is
  made at once: the delay it is granted is not used.  \<^verbatim>\<open>locked_or_acquired\<close> and \<^verbatim>\<open>busy_status\<close> are the inner
  switches of the code on the status.
\<close>

definition locked_or_acquired :: "command_status \<Rightarrow> bool" where
  "locked_or_acquired status \<longleftrightarrow> status = Status_LockedByOther \<or> status = Status_AcquiredByOther"

definition busy_status :: "command_status \<Rightarrow> bool" where
  "busy_status status \<longleftrightarrow> locked_or_acquired status \<or> status = Status_NoResources"

definition remove_if_Milan :: "string \<Rightarrow> entity_op" where
  "remove_if_Milan specClause e =
     (if Compat_Milan \<in> ced_compatibilityFlags e then removeCompatibilityFlag True Compat_Milan specClause e else e)"

definition processEmptyGetDynamicInfoFailureStatus ::
    "controller_settings \<Rightarrow> command_status \<Rightarrow> milan_required_versions list \<Rightarrow> controlled_entity \<Rightarrow> bool \<times> controlled_entity" where
  "processEmptyGetDynamicInfoFailureStatus c status milanRequirements e =
     (let action = getFailureActionForAemCommandStatus c status in
      if action = FA_MisbehaveContinue then (True, addCompatibilityFlag True Compat_Misbehaving e)
      else if action = FA_BadArguments \<or> action = FA_ErrorContinue \<or> action = FA_NotAuthenticated
              \<or> action = FA_WarningContinue then (True, e)
      else if action = FA_NotSupported then (True, checkMilanRequirements milanRequirements ''Milan 1.3 - 5.4.2.29'' e)
      else if action = FA_TimedOut \<or> action = FA_Busy then
        (let ((shouldRetry, retryTimer), e1) = getCheckDynamicInfoSupportedRetryTimer e in
         (True,
          if shouldRetry then checkDynamicInfoSupported e1
          else if action = FA_TimedOut then checkMilanRequirements milanRequirements ''Milan 1.3 - 5.4.2.29'' e1
          else if locked_or_acquired status
            then removeCompatibilityFlag True Compat_IEEE17221 ''IEEE1722.1-2021 - 7.4.76'' e1
          else e1))
      else (False, e))"

definition processRegisterUnsolFailureStatus ::
    "controller_settings \<Rightarrow> command_status \<Rightarrow> milan_required_versions list \<Rightarrow> controlled_entity \<Rightarrow> bool \<times> controlled_entity" where
  "processRegisterUnsolFailureStatus c status milanRequirements e =
     (let action = getFailureActionForAemCommandStatus c status in
      if action = FA_MisbehaveContinue then (True, addCompatibilityFlag True Compat_Misbehaving e)
      else if action = FA_BadArguments \<or> action = FA_ErrorContinue
        then (True, removeCompatibilityFlag True Compat_IEEE17221 ''IEEE1722.1-2021 - 7.4.37'' e)
      else if action = FA_NotAuthenticated \<or> action = FA_WarningContinue then (True, e)
      else if action = FA_NotSupported
        then (True, (checkMilanRequirements milanRequirements ''Milan 1.3 - 5.4.2.21'' e)
                      \<lparr>ced_areUnsolicitedNotificationsSupported := False\<rparr>)
      else if action = FA_TimedOut \<or> action = FA_Busy then
        (let ((shouldRetry, retryTimer), e1) = getRegisterUnsolRetryTimer e in
         (True,
          if shouldRetry then registerUnsol e1
          else if action = FA_TimedOut then checkMilanRequirements milanRequirements ''Milan 1.3 - 5.4.2.21'' e1
          else if locked_or_acquired status
            then removeCompatibilityFlag True Compat_IEEE17221 ''IEEE1722.1-2021 - 7.4.37'' e1
          else e1))
      else (False, e))"

definition processGetMilanInfoFailureStatus ::
    "command_status \<Rightarrow> milan_info_type \<Rightarrow> milan_required_versions list \<Rightarrow> controlled_entity \<Rightarrow> bool \<times> controlled_entity" where
  "processGetMilanInfoFailureStatus status milanInfoType milanRequirements e =
     (let action = getFailureActionForMvuCommandStatus status in
      if action = FA_MisbehaveContinue then (True, addCompatibilityFlag True Compat_Misbehaving e)
      else if action = FA_BadArguments \<or> action = FA_ErrorContinue
        then (True, remove_if_Milan ''Milan 1.3 - 5.4.3'' e)
      else if action = FA_NotAuthenticated \<or> action = FA_WarningContinue then (True, e)
      else if action = FA_NotSupported then (True, checkMilanRequirements milanRequirements ''Milan 1.3 - 5.4.4.1'' e)
      else if action = FA_TimedOut \<or> action = FA_Busy then
        (let ((shouldRetry, retryTimer), e1) = getQueryMilanInfoRetryTimer e in
         (True,
          if shouldRetry then queryMilanInfo milanInfoType retryTimer e1
          else if action = FA_TimedOut then checkMilanRequirements milanRequirements ''Milan 1.3 - 5.4.4.1'' e1
          else removeCompatibilityFlag True Compat_IEEE17221 ''IEEE1722.1-2021 - 7.4.37'' e1))
      else (False, e))"

definition processGetStaticModelFailureStatus ::
    "controller_settings \<Rightarrow> command_status \<Rightarrow> configuration_index \<Rightarrow> descriptor_type \<Rightarrow> descriptor_index
       \<Rightarrow> controlled_entity \<Rightarrow> bool \<times> controlled_entity" where
  "processGetStaticModelFailureStatus c status configurationIndex descriptorType descriptorIndex e =
     (let action = getFailureActionForAemCommandStatus c status in
      if action = FA_MisbehaveContinue then (True, addCompatibilityFlag True Compat_Misbehaving e)
      else if action = FA_ErrorContinue
        then (True, removeCompatibilityFlag True Compat_IEEE17221 ''IEEE1722.1-2021 - 7.4'' e)
      else if action = FA_NotAuthenticated \<or> action = FA_WarningContinue then (True, e)
      else if action = FA_BadArguments \<or> action = FA_NotSupported then (True, remove_if_Milan ''Milan 1.3 - 5.3.2'' e)
      else if action = FA_TimedOut \<or> action = FA_Busy then
        (let ((shouldRetry, retryTimer), e1) = getQueryDescriptorRetryTimer e in
         (True,
          if shouldRetry then queryDescriptor configurationIndex descriptorType descriptorIndex retryTimer e1
          else if action = FA_TimedOut then remove_if_Milan ''Milan 1.3 - 5.3.2'' e1
          else if busy_status status then removeCompatibilityFlag True Compat_IEEE17221 ''IEEE1722.1-2021 - 7.4'' e1
          else e1))
      else (False, e))"

definition processGetAecpDynamicInfoFailureStatus ::
    "controller_settings \<Rightarrow> command_status \<Rightarrow> configuration_index \<Rightarrow> dynamic_info_type \<Rightarrow> descriptor_index \<Rightarrow> 16 word
       \<Rightarrow> milan_required_versions list \<Rightarrow> controlled_entity \<Rightarrow> bool \<times> controlled_entity" where
  "processGetAecpDynamicInfoFailureStatus c status configurationIndex dynamicInfoType descriptorIndex subIndex
     milanRequirements e =
     (let action = getFailureActionForAemCommandStatus c status in
      if action = FA_MisbehaveContinue then (True, addCompatibilityFlag True Compat_Misbehaving e)
      else if action = FA_ErrorContinue
        then (True, removeCompatibilityFlag True Compat_IEEE17221 ''IEEE1722.1-2021 - 7.4'' e)
      else if action = FA_NotAuthenticated \<or> action = FA_WarningContinue then (True, e)
      else if action = FA_BadArguments \<or> action = FA_NotSupported
        then (True, checkMilanRequirements milanRequirements ''Milan 1.3 - 5.4.4'' e)
      else if action = FA_TimedOut \<or> action = FA_Busy then
        (let ((shouldRetry, retryTimer), e1) = getQueryDynamicInfoRetryTimer e in
         (True,
          if shouldRetry then queryDynamicInfo configurationIndex dynamicInfoType descriptorIndex subIndex retryTimer e1
          else if action = FA_TimedOut then checkMilanRequirements milanRequirements ''Milan 1.3 - 5.4.4'' e1
          else if busy_status status then removeCompatibilityFlag True Compat_IEEE17221 ''IEEE1722.1-2021 - 7.4'' e1
          else e1))
      else (False, e))"

text \<open>
  Some Milan devices answer any MVU command with a GET_MILAN_INFO response: built to, the library takes that of
  a device before Milan 1.3 for a command that is not implemented.
\<close>

definition mvu_updatedStatus ::
    "controller_settings \<Rightarrow> command_status \<Rightarrow> dynamic_info_type \<Rightarrow> controlled_entity \<Rightarrow> command_status \<times> controlled_entity" where
  "mvu_updatedStatus c status dynamicInfoType e =
     (if cse_ignoreMismatchingMvuResponses c \<and> status = Status_BaseProtocolViolation
         \<and> (case ced_milanInfo e of None \<Rightarrow> False
            | Some info \<Rightarrow> mi_specificationVersion info \<ge> MilanVersion_1_0 \<and> mi_specificationVersion info < MilanVersion_1_3)
         \<and> (dynamicInfoType = DI_GetSystemUniqueID \<or> dynamicInfoType = DI_GetMediaClockReferenceInfo)
      then (Status_NotImplemented, decreaseMilanCompatibilityVersion True MilanVersion_1_0 ''Milan 1.2 - 5.4.3'' e)
      else (status, e))"

definition processGetMvuDynamicInfoFailureStatus ::
    "controller_settings \<Rightarrow> command_status \<Rightarrow> configuration_index \<Rightarrow> dynamic_info_type \<Rightarrow> descriptor_index \<Rightarrow> 16 word
       \<Rightarrow> milan_required_versions list \<Rightarrow> controlled_entity \<Rightarrow> bool \<times> controlled_entity" where
  "processGetMvuDynamicInfoFailureStatus c status configurationIndex dynamicInfoType descriptorIndex subIndex
     milanRequirements e0 =
     (let (updatedStatus, e) = mvu_updatedStatus c status dynamicInfoType e0;
          action = getFailureActionForMvuCommandStatus updatedStatus in
      if action = FA_MisbehaveContinue then (True, addCompatibilityFlag True Compat_Misbehaving e)
      else if action = FA_NotAuthenticated \<or> action = FA_WarningContinue then (True, e)
      else if action = FA_ErrorContinue \<or> action = FA_BadArguments \<or> action = FA_NotSupported
        then (True, checkMilanRequirements milanRequirements ''Milan 1.3 - 5.4.2'' e)
      else if action = FA_TimedOut \<or> action = FA_Busy then
        (let ((shouldRetry, retryTimer), e1) = getQueryDynamicInfoRetryTimer e in
         (True,
          if shouldRetry then queryDynamicInfo configurationIndex dynamicInfoType descriptorIndex subIndex retryTimer e1
          else if action = FA_TimedOut then checkMilanRequirements milanRequirements ''Milan 1.3 - 5.4.2'' e1
          else e1))
      else (False, e))"

text \<open>The two methods for ACMP differ in the query they retry.\<close>

definition acmp_failure ::
    "command_status \<Rightarrow> milan_required_versions list \<Rightarrow> (nat \<Rightarrow> entity_op) \<Rightarrow> controlled_entity \<Rightarrow> bool \<times> controlled_entity" where
  "acmp_failure status milanRequirements retry e =
     (let action = getFailureActionForControlStatus status in
      if action = FA_MisbehaveContinue then (True, addCompatibilityFlag True Compat_Misbehaving e)
      else if action = FA_ErrorContinue
        then (True, removeCompatibilityFlag True Compat_IEEE17221 ''IEEE1722.1-2021 - 8.2'' e)
      else if action = FA_NotAuthenticated \<or> action = FA_WarningContinue then (True, e)
      else if action = FA_NotSupported then (True, checkMilanRequirements milanRequirements ''Milan 1.3 - 5.5'' e)
      else if action = FA_TimedOut \<or> action = FA_Busy then
        (let ((shouldRetry, retryTimer), e1) = getQueryDynamicInfoRetryTimer e in
         (True,
          if shouldRetry then retry retryTimer e1
          else if action = FA_TimedOut then checkMilanRequirements milanRequirements ''Milan 1.3 - 5.5'' e1
          else removeCompatibilityFlag True Compat_IEEE17221 ''IEEE1722.1-2021 - 8.2'' e1))
      else (False, e))"

definition processGetAcmpDynamicInfoFailureStatus ::
    "command_status \<Rightarrow> configuration_index \<Rightarrow> dynamic_info_type \<Rightarrow> descriptor_index
       \<Rightarrow> milan_required_versions list \<Rightarrow> controlled_entity \<Rightarrow> bool \<times> controlled_entity" where
  "processGetAcmpDynamicInfoFailureStatus status configurationIndex dynamicInfoType descriptorIndex milanRequirements =
     acmp_failure status milanRequirements (queryDynamicInfo configurationIndex dynamicInfoType descriptorIndex 0)"

definition processGetAcmpConnectionFailureStatus ::
    "command_status \<Rightarrow> configuration_index \<Rightarrow> dynamic_info_type \<Rightarrow> stream_identification \<Rightarrow> 16 word
       \<Rightarrow> milan_required_versions list \<Rightarrow> controlled_entity \<Rightarrow> bool \<times> controlled_entity" where
  "processGetAcmpConnectionFailureStatus status configurationIndex dynamicInfoType talkerStream subIndex milanRequirements =
     acmp_failure status milanRequirements (queryTalkerStreamConnection configurationIndex dynamicInfoType talkerStream subIndex)"

text \<open>
  A descriptor may be read instead of its dynamic information: what it also brings is no longer expected.  The
  cluster forgotten with an audio unit is the one that has the index of the audio unit.
\<close>

definition forget_descriptor_info :: "configuration_index \<Rightarrow> descriptor_dynamic_info_type \<Rightarrow> descriptor_index \<Rightarrow> entity_op" where
  "forget_descriptor_info ci t i e = snd (checkAndClearExpectedDescriptorDynamicInfo ci t i e)"

fun corresponding_descriptor ::
    "descriptor_dynamic_info_type \<Rightarrow> (descriptor_type \<times> descriptor_dynamic_info_type list) option" where
  "corresponding_descriptor DD_ConfigurationName = Some (DescriptorType_Configuration, [])"
| "corresponding_descriptor DD_AudioUnitName = Some (DescriptorType_AudioUnit, [DD_AudioUnitSamplingRate, DD_AudioClusterName])"
| "corresponding_descriptor DD_AudioUnitSamplingRate = Some (DescriptorType_AudioUnit, [DD_AudioUnitName, DD_AudioClusterName])"
| "corresponding_descriptor DD_InputStreamName = Some (DescriptorType_StreamInput, [DD_InputStreamFormat])"
| "corresponding_descriptor DD_InputStreamFormat = Some (DescriptorType_StreamInput, [DD_InputStreamName])"
| "corresponding_descriptor DD_OutputStreamName = Some (DescriptorType_StreamOutput, [DD_OutputStreamFormat])"
| "corresponding_descriptor DD_OutputStreamFormat = Some (DescriptorType_StreamOutput, [DD_OutputStreamName])"
| "corresponding_descriptor DD_InputJackName = Some (DescriptorType_JackInput, [])"
| "corresponding_descriptor DD_OutputJackName = Some (DescriptorType_JackOutput, [])"
| "corresponding_descriptor DD_MemoryObjectName = Some (DescriptorType_MemoryObject, [DD_MemoryObjectLength])"
| "corresponding_descriptor DD_MemoryObjectLength = Some (DescriptorType_MemoryObject, [DD_MemoryObjectName])"
| "corresponding_descriptor DD_AudioClusterName = Some (DescriptorType_AudioCluster, [])"
| "corresponding_descriptor DD_ControlName = Some (DescriptorType_Control, [DD_ControlValues])"
| "corresponding_descriptor DD_ControlValues = Some (DescriptorType_Control, [DD_ControlName])"
| "corresponding_descriptor DD_ClockDomainName = Some (DescriptorType_ClockDomain, [DD_ClockDomainSourceIndex])"
| "corresponding_descriptor DD_ClockDomainSourceIndex = Some (DescriptorType_ClockDomain, [DD_ClockDomainName])"
| "corresponding_descriptor DD_TimingName = Some (DescriptorType_Timing, [])"
| "corresponding_descriptor DD_PtpInstanceName = Some (DescriptorType_PtpInstance, [])"
| "corresponding_descriptor DD_PtpPortName = Some (DescriptorType_PtpPort, [])"
| "corresponding_descriptor DD_AvbInterfaceDescriptor = None"
| "corresponding_descriptor DD_ClockSourceDescriptor = None"

definition fetchCorrespondingDescriptor ::
    "configuration_index \<Rightarrow> descriptor_dynamic_info_type \<Rightarrow> descriptor_index \<Rightarrow> controlled_entity \<Rightarrow> bool \<times> controlled_entity" where
  "fetchCorrespondingDescriptor configurationIndex descriptorDynamicInfoType descriptorIndex e =
     (case corresponding_descriptor descriptorDynamicInfoType of
        None \<Rightarrow> (False, e)
      | Some (descriptorType, brought) \<Rightarrow>
          (True, queryDescriptor configurationIndex descriptorType descriptorIndex 0
             (fold (\<lambda>t. forget_descriptor_info configurationIndex t descriptorIndex) brought e)))"

text \<open>
  Without a descriptor to read, the static model is read again.  A status of bad arguments has no case here, and
  is fatal.
\<close>

definition fetch_or_restart ::
    "configuration_index \<Rightarrow> descriptor_dynamic_info_type \<Rightarrow> descriptor_index \<Rightarrow> entity_op" where
  "fetch_or_restart configurationIndex descriptorDynamicInfoType descriptorIndex e =
     (case fetchCorrespondingDescriptor configurationIndex descriptorDynamicInfoType descriptorIndex e of
        (True, e1) \<Rightarrow> e1
      | (False, e1) \<Rightarrow> addEnumerationStep Step_GetStaticModel (clearAllExpectedDescriptorDynamicInfo
                         (e1\<lparr>ced_isUsingCachedEntityModel := False, ced_ignoreCachedEntityModel := True\<rparr>)))"

definition processGetDescriptorDynamicInfoFailureStatus ::
    "controller_settings \<Rightarrow> command_status \<Rightarrow> configuration_index \<Rightarrow> descriptor_dynamic_info_type \<Rightarrow> descriptor_index
       \<Rightarrow> milan_required_versions list \<Rightarrow> controlled_entity \<Rightarrow> bool \<times> controlled_entity" where
  "processGetDescriptorDynamicInfoFailureStatus c status configurationIndex descriptorDynamicInfoType descriptorIndex
     milanRequirements e =
     (let action = getFailureActionForAemCommandStatus c status;
          fallback = (\<lambda>e1. (True, fetch_or_restart configurationIndex descriptorDynamicInfoType descriptorIndex e1))
      in if action = FA_MisbehaveContinue then fallback (addCompatibilityFlag True Compat_Misbehaving e)
      else if action = FA_ErrorContinue
        then fallback (removeCompatibilityFlag True Compat_IEEE17221 ''IEEE1722.1-2021 - 7.4'' e)
      else if action = FA_NotAuthenticated \<or> action = FA_WarningContinue then (True, e)
      else if action = FA_TimedOut \<or> action = FA_Busy then
        (let ((shouldRetry, retryTimer), e1) = getQueryDescriptorDynamicInfoRetryTimer e in
         if shouldRetry
         then (True, queryDescriptorDynamicInfo configurationIndex descriptorDynamicInfoType descriptorIndex retryTimer e1)
         else fallback e1)
      else if action = FA_NotSupported then fallback (checkMilanRequirements milanRequirements ''Milan 1.3 - 5.4.2'' e)
      else (False, e))"

text \<open>
  A GET_DYNAMIC_INFO that fails for good ends the fast enumeration: the step it was for is gone through again,
  one query for each information.
\<close>

definition packed_fallback :: "enumeration_step \<Rightarrow> entity_op" where
  "packed_fallback step e =
     (let e1 = clearAllExpectedPackedDynamicInfo (e\<lparr>ced_isPackedDynamicInfoSupported := False\<rparr>) in
      if step = Step_GetDescriptorDynamicInfo
      then addEnumerationStep Step_GetDescriptorDynamicInfo
             (clearAllExpectedDescriptorDynamicInfo (e1\<lparr>ced_isUsingCachedEntityModel := False\<rparr>))
      else if step = Step_GetDynamicInfo
      then addEnumerationStep Step_GetDynamicInfo (clearAllExpectedDynamicInfo e1)
      else addEnumerationStep Step_GetDynamicInfo (addEnumerationStep Step_GetDescriptorDynamicInfo
             (clearAllExpectedPackedDynamicInfo (clearAllExpectedDescriptorDynamicInfo
                (e1\<lparr>ced_isUsingCachedEntityModel := False\<rparr>)))))"

definition processGetDynamicInfoFailureStatus ::
    "controller_settings \<Rightarrow> command_status \<Rightarrow> dynamic_info_parameter list \<Rightarrow> 16 word \<Rightarrow> enumeration_step
       \<Rightarrow> milan_required_versions list \<Rightarrow> controlled_entity \<Rightarrow> packed_failure_action \<times> controlled_entity" where
  "processGetDynamicInfoFailureStatus c status dynamicInfoParameters packetID step milanRequirements e =
     (let action = getFailureActionForAemCommandStatus c status in
      if action = FA_MisbehaveContinue
        then (PF_RestartStep, packed_fallback step (addCompatibilityFlag True Compat_Misbehaving e))
      else if action = FA_BadArguments \<or> action = FA_ErrorContinue then (PF_RestartStep, packed_fallback step e)
      else if action = FA_NotAuthenticated \<or> action = FA_WarningContinue then (PF_Continue, e)
      else if action = FA_NotSupported
        then (PF_RestartStep, packed_fallback step (checkMilanRequirements milanRequirements ''Milan 1.3 - 5.4.2.29'' e))
      else if action = FA_TimedOut \<or> action = FA_Busy then
        (let ((shouldRetry, retryTimer), e1) = getGetDynamicInfoRetryTimer e in
         if shouldRetry then (PF_Continue, queryPackedDynamicInfo dynamicInfoParameters packetID step retryTimer e1)
         else (PF_RestartStep, packed_fallback step
           (if action = FA_TimedOut then checkMilanRequirements milanRequirements ''Milan 1.3 - 5.4.2.29'' e1
            else if locked_or_acquired status
              then removeCompatibilityFlag True Compat_IEEE17221 ''IEEE1722.1-2021 - 7.4.76'' e1
            else e1)))
      else (PF_Fatal, e))"

end
