(* ===== verification/EnumerationHandlers.thy ===== *)
theory EnumerationHandlers
  imports EnumerationFailures
begin

text \<open>
  What the controller library does with the answers to its queries
  (src/controller/avdeccControllerImplHandlers.cpp): one handler for each query, with the indexes the query was
  bound to or the answer has.  A handler takes an answer it expects: it keeps what the answer brings in the
  entity model, or has the failure processed, and goes on to the next step when nothing more is expected of its
  own.
\<close>

section \<open>Handling an answer\<close>

definition query_error :: "string \<Rightarrow> entity_op" where
  "query_error error e = act (Observe (OnEntityQueryError error)) (setGetFatalEnumerationError e)"

text \<open>
  A success may end the handler early (\<^verbatim>\<open>False\<close>), as a failure does after a fatal error.
\<close>

definition handle_answer ::
    "bool \<times> controlled_entity \<Rightarrow> bool \<Rightarrow> (controlled_entity \<Rightarrow> bool \<times> controlled_entity)
       \<Rightarrow> (controlled_entity \<Rightarrow> bool \<times> controlled_entity) \<Rightarrow> string \<Rightarrow> entity_op \<Rightarrow> controlled_entity" where
  "handle_answer checked success onSuccess onFailure error finish =
     (let (wasExpected, e) = checked in
      if \<not> wasExpected then e
      else if success then (case onSuccess e of (True, e1) \<Rightarrow> finish e1 | (False, e1) \<Rightarrow> e1)
      else (case onFailure e of (True, e1) \<Rightarrow> finish e1 | (False, e1) \<Rightarrow> query_error error e1))"

definition end_static_model :: "controller_settings \<Rightarrow> entity_op" where
  "end_static_model c e =
     (if gotAllExpectedDescriptors e then checkEnumerationSteps c (clearEnumerationStep Step_GetStaticModel e) else e)"

definition end_descriptor_dynamic_info :: "controller_settings \<Rightarrow> entity_op" where
  "end_descriptor_dynamic_info c e =
     (if gotAllExpectedPackedDynamicInfo e \<and> gotAllExpectedDescriptorDynamicInfo e
      then checkEnumerationSteps c (clearEnumerationStep Step_GetDescriptorDynamicInfo e) else e)"

definition end_dynamic_info :: "controller_settings \<Rightarrow> entity_op" where
  "end_dynamic_info c e =
     (if gotAllExpectedPackedDynamicInfo e \<and> gotAllExpectedDynamicInfo e
      then checkEnumerationSteps c (clearEnumerationStep Step_GetDynamicInfo e) else e)"

definition descriptor_result ::
    "controller_settings \<Rightarrow> command_status \<Rightarrow> configuration_index \<Rightarrow> descriptor_type \<Rightarrow> descriptor_index
       \<Rightarrow> entity_op \<Rightarrow> string \<Rightarrow> entity_op" where
  "descriptor_result c status configurationIndex descriptorType descriptorIndex onSuccess error e =
     handle_answer (checkAndClearExpectedDescriptor configurationIndex descriptorType descriptorIndex e)
       (status = Status_Success) (\<lambda>e1. (True, onSuccess e1))
       (processGetStaticModelFailureStatus c status configurationIndex descriptorType descriptorIndex)
       error (end_static_model c)"

definition descriptor_dynamic_info_result ::
    "controller_settings \<Rightarrow> command_status \<Rightarrow> configuration_index \<Rightarrow> descriptor_dynamic_info_type \<Rightarrow> descriptor_index
       \<Rightarrow> milan_required_versions list \<Rightarrow> entity_op \<Rightarrow> string \<Rightarrow> entity_op" where
  "descriptor_dynamic_info_result c status configurationIndex t descriptorIndex milanRequirements onSuccess error e =
     handle_answer (checkAndClearExpectedDescriptorDynamicInfo configurationIndex t descriptorIndex e)
       (status = Status_Success) (\<lambda>e1. (True, onSuccess e1))
       (processGetDescriptorDynamicInfoFailureStatus c status configurationIndex t descriptorIndex milanRequirements)
       error (end_descriptor_dynamic_info c)"

definition dynamic_info_result ::
    "controller_settings \<Rightarrow> command_status \<Rightarrow> configuration_index \<Rightarrow> dynamic_info_type \<Rightarrow> descriptor_index \<Rightarrow> 16 word
       \<Rightarrow> milan_required_versions list \<Rightarrow> entity_op \<Rightarrow> string \<Rightarrow> entity_op" where
  "dynamic_info_result c status configurationIndex t descriptorIndex subIndex milanRequirements onSuccess error e =
     handle_answer (checkAndClearExpectedDynamicInfo configurationIndex t descriptorIndex subIndex e)
       (status = Status_Success) (\<lambda>e1. (True, onSuccess e1))
       (processGetAecpDynamicInfoFailureStatus c status configurationIndex t descriptorIndex subIndex milanRequirements)
       error (end_dynamic_info c)"

definition requires_1_0 :: "milan_required_versions list" where
  "requires_1_0 = [\<lparr>mrv_requiredSince = MilanVersion_1_0, mrv_requiredUntil = None, mrv_downgradeTo = None\<rparr>]"

definition requires_1_2 :: "milan_required_versions list" where
  "requires_1_2 = [\<lparr>mrv_requiredSince = MilanVersion_1_2, mrv_requiredUntil = None, mrv_downgradeTo = Some MilanVersion_1_0\<rparr>]"

definition requires_1_3 :: "milan_required_versions list" where
  "requires_1_3 = [\<lparr>mrv_requiredSince = MilanVersion_1_3, mrv_requiredUntil = None, mrv_downgradeTo = Some MilanVersion_1_2\<rparr>]"

definition updated :: "string \<Rightarrow> param list \<Rightarrow> entity_op" where
  "updated name params = act (Updated name params)"

section \<open>Before the model\<close>

definition onGetMilanInfoResult :: "controller_settings \<Rightarrow> command_status \<Rightarrow> milan_info \<Rightarrow> entity_op" where
  "onGetMilanInfoResult c status info e =
     handle_answer (checkAndClearExpectedMilanInfo MI_MilanInfo e) (status = Status_Success)
       (\<lambda>e. (True,
          (if mi_protocolVersion info \<ge> 1
           then (addCompatibilityFlag True Compat_Milan e)
                  \<lparr>ced_milanCompatibilityVersion :=
                     if mi_specificationVersion info \<ge> MilanVersion_1_3 then mi_specificationVersion info
                     else MilanVersion_1_2\<rparr>
           else e)\<lparr>ced_milanInfo := Some info\<rparr>))
       (processGetMilanInfoFailureStatus status MI_MilanInfo requires_1_0) ''GetMilanInfo''
       (\<lambda>e. if gotAllExpectedMilanInfo e
             then checkEnumerationSteps c (clearEnumerationStep Step_GetMilanInfo e) else e)"

definition onEmptyGetDynamicInfoResult :: "controller_settings \<Rightarrow> command_status \<Rightarrow> entity_op" where
  "onEmptyGetDynamicInfoResult c status e =
     handle_answer (checkAndClearExpectedCheckDynamicInfoSupported e) (status = Status_Success)
       (\<lambda>e. (True, e\<lparr>ced_isPackedDynamicInfoSupported := True\<rparr>))
       (processEmptyGetDynamicInfoFailureStatus c status requires_1_2) ''CheckDynamicInfoSupported''
       (\<lambda>e. if gotExpectedCheckDynamicInfoSupported e
             then checkEnumerationSteps c (clearEnumerationStep Step_CheckPackedDynamicInfoSupported e) else e)"

text \<open>The notifications are taken to be supported before the status is looked at.\<close>

definition onRegisterUnsolicitedNotificationsResult :: "controller_settings \<Rightarrow> command_status \<Rightarrow> entity_op" where
  "onRegisterUnsolicitedNotificationsResult c status e =
     handle_answer (checkAndClearExpectedRegisterUnsol e) (status = Status_Success)
       (\<lambda>e. (True, setSubscribedToUnsolicitedNotifications True (e\<lparr>ced_areUnsolicitedNotificationsSupported := True\<rparr>)))
       (\<lambda>e. processRegisterUnsolFailureStatus c status requires_1_0 (e\<lparr>ced_areUnsolicitedNotificationsSupported := True\<rparr>))
       ''RegisterUnsol''
       (\<lambda>e. if gotExpectedRegisterUnsol e
             then checkEnumerationSteps c (clearEnumerationStep Step_RegisterUnsol e) else e)"

definition updateUnsolicitedNotificationsSubscription :: "bool \<Rightarrow> bool \<Rightarrow> entity_op" where
  "updateUnsolicitedNotificationsSubscription isSubscribed triggeredByEntity e =
     (if ced_isSubscribedToUnsolicitedNotifications e \<noteq> isSubscribed then
        (let e1 = setSubscribedToUnsolicitedNotifications isSubscribed e in
         if ced_advertised e1 then act (Observe (OnUnsolicitedRegistrationChanged isSubscribed triggeredByEntity)) e1
         else e1)
      else e)"

definition onUnregisterUnsolicitedNotificationsResult :: "command_status \<Rightarrow> entity_op" where
  "onUnregisterUnsolicitedNotificationsResult status e =
     (if status = Status_Success then updateUnsolicitedNotificationsSubscription False False e else e)"

section \<open>The static model\<close>

text \<open>
  The setters of ControlledEntityImpl find or make the configuration; without an entity node, or a parent in range,
  the pointer they copy to is null.
\<close>

definition set_in_configuration ::
    "string \<Rightarrow> configuration_index \<Rightarrow> (configuration_node \<Rightarrow> configuration_node option) \<Rightarrow> entity_op" where
  "set_in_configuration name configurationIndex f e =
     (case getEntityNode e of
        None \<Rightarrow> act (Null_dereference name) e
      | Some n \<Rightarrow>
          (case f (case al_get configurationIndex (etn_configurations n) of None \<Rightarrow> ConfigurationNode_new | Some cn \<Rightarrow> cn) of
             None \<Rightarrow> act (Null_dereference name) e
           | Some cn \<Rightarrow> e\<lparr>ced_entityNode := n\<lparr>etn_configurations := om_put configurationIndex cn (etn_configurations n)\<rparr>\<rparr>))"

definition setEntityDescriptor :: "entity_descriptor \<Rightarrow> entity_op" where
  "setEntityDescriptor descriptor e =
     (if ced_advertised e then e\<lparr>ced_entityNode := EntityNode_new, ced_gotFatalEnumerateError := True\<rparr>
      else e\<lparr>ced_entityNode := setEntityNode descriptor (ced_entityNode e)\<rparr>)"

definition setConfigurationDescriptor :: "configuration_descriptor \<Rightarrow> configuration_index \<Rightarrow> entity_op" where
  "setConfigurationDescriptor descriptor configurationIndex e =
     (case getEntityNode e of
        None \<Rightarrow> act (Null_dereference ''setConfigurationDescriptor'') e
      | Some n \<Rightarrow> e\<lparr>ced_entityNode := setConfigurationNode descriptor configurationIndex n\<rparr>)"

text \<open>The queries of a range of descriptors: the count and the sum are on 16 bits.\<close>

definition query_children :: "configuration_index \<Rightarrow> descriptor_type \<Rightarrow> descriptor_index \<Rightarrow> 16 word \<Rightarrow> entity_op" where
  "query_children configurationIndex descriptorType base counted =
     fold (\<lambda>index. queryDescriptor configurationIndex descriptorType (base + index) 0) (map word_of_nat [0..<unat counted])"

definition query_counted :: "configuration_index \<Rightarrow> configuration_descriptor \<Rightarrow> descriptor_type \<Rightarrow> entity_op" where
  "query_counted configurationIndex descriptor descriptorType e =
     (case al_get descriptorType (cf_descriptorCounts descriptor) of
        None \<Rightarrow> e
      | Some counted \<Rightarrow> query_children configurationIndex descriptorType 0 counted e)"

text \<open>
  The entity descriptor must say what the discovery said.  A cached model saves the static one, and leaves its
  dynamic information to be read.
\<close>

definition checked_identifiers :: "entity_descriptor \<Rightarrow> entity_op" where
  "checked_identifiers descriptor e =
     (let broken = (\<lambda>e. (removeCompatibilityFlag True Compat_IEEE17221 ''IEEE1722.1-2021 - 6.2'' e)\<lparr>ced_ignoreCachedEntityModel := True\<rparr>);
          e1 = (if \<not> uid_eq (ed_entityID descriptor) (ei_entityID (en_common (ced_entity e))) then broken e else e)
      in if \<not> uid_eq (ed_entityModelID descriptor) (ei_entityModelID (en_common (ced_entity e))) then broken e1 else e1)"

definition cached_model :: "controller_settings \<Rightarrow> entity_descriptor \<Rightarrow> controlled_entity \<Rightarrow> entity_node option" where
  "cached_model c descriptor e =
     (let entityModelID = ed_entityModelID descriptor in
      if \<not> ced_ignoreCachedEntityModel e \<and> emc_isEnabled (cse_entityModelCache c) \<and> uid_isValid entityModelID
         \<and> isValidEntityModelID entityModelID
      then getCachedEntityModel entityModelID (cse_entityModelCache c) else None)"

definition setCachedEntityNode :: "entity_node \<Rightarrow> entity_descriptor \<Rightarrow> bool \<Rightarrow> controlled_entity \<Rightarrow> controlled_entity option" where
  "setCachedEntityNode cachedNode descriptor forAllConfiguration e =
     map_option (\<lambda>n. (setEntityDescriptor descriptor (e\<lparr>ced_entityNode := n\<rparr>))\<lparr>ced_isUsingCachedEntityModel := True\<rparr>)
       (cachedEntityNode cachedNode descriptor forAllConfiguration)"

definition entity_described :: "controller_settings \<Rightarrow> entity_descriptor \<Rightarrow> entity_op" where
  "entity_described c descriptor e0 =
     (let e = checked_identifiers descriptor (e0\<lparr>ced_isUsingCachedEntityModel := False\<rparr>) in
      case Option.bind (cached_model c descriptor e)
             (\<lambda>n. setCachedEntityNode n descriptor (cse_fullStaticModelEnumeration c) e) of
        Some e1 \<Rightarrow> addEnumerationStep Step_GetDescriptorDynamicInfo e1
      | None \<Rightarrow>
          fold (\<lambda>index. queryDescriptor index DescriptorType_Configuration 0 0)
            (map word_of_nat [0..<unat (ed_configurationsCount descriptor)]) (setEntityDescriptor descriptor e))"

definition onEntityDescriptorResult :: "controller_settings \<Rightarrow> command_status \<Rightarrow> entity_descriptor \<Rightarrow> entity_op" where
  "onEntityDescriptorResult c status descriptor =
     descriptor_result c status 0 DescriptorType_Entity 0 (entity_described c descriptor) ''EntityDescriptor''"

text \<open>
  The descriptors of the current configuration, or of all of them on demand, are queried in the order of the
  list; of another configuration, the locales.  A failure is processed with the index of the configuration as that
  of the descriptor, in configuration 0.  The handler of the exception notifies nobody.
\<close>

definition queried_types :: "descriptor_type list" where
  "queried_types =
     [DescriptorType_Locale, DescriptorType_AudioUnit, DescriptorType_StreamInput, DescriptorType_StreamOutput,
      DescriptorType_JackInput, DescriptorType_JackOutput, DescriptorType_AvbInterface, DescriptorType_ClockSource,
      DescriptorType_MemoryObject, DescriptorType_Control, DescriptorType_ClockDomain, DescriptorType_Timing,
      DescriptorType_PtpInstance]"

definition onConfigurationDescriptorResult ::
    "controller_settings \<Rightarrow> command_status \<Rightarrow> configuration_index \<Rightarrow> configuration_descriptor \<Rightarrow> entity_op" where
  "onConfigurationDescriptorResult c status configurationIndex descriptor e =
     handle_answer (checkAndClearExpectedDescriptor configurationIndex DescriptorType_Configuration 0 e)
       (status = Status_Success)
       (\<lambda>e. let e1 = setConfigurationDescriptor descriptor configurationIndex e in
          case getCurrentConfigurationIndex e1 of
            None \<Rightarrow> (False, setGetFatalEnumerationError e1)
          | Some current \<Rightarrow>
              (True, fold (query_counted configurationIndex descriptor)
                 (if configurationIndex = current \<or> cse_fullStaticModelEnumeration c then queried_types
                  else [DescriptorType_Locale]) e1))
       (processGetStaticModelFailureStatus c status 0 DescriptorType_Configuration configurationIndex)
       ''ConfigurationDescriptor'' (end_static_model c)"

definition onAudioUnitDescriptorResult ::
    "controller_settings \<Rightarrow> command_status \<Rightarrow> configuration_index \<Rightarrow> descriptor_index \<Rightarrow> audio_unit_descriptor \<Rightarrow> entity_op" where
  "onAudioUnitDescriptorResult c status configurationIndex audioUnitIndex descriptor =
     descriptor_result c status configurationIndex DescriptorType_AudioUnit audioUnitIndex
       (\<lambda>e. query_children configurationIndex DescriptorType_Control (au_baseControl descriptor) (au_numberOfControls descriptor)
         (query_children configurationIndex DescriptorType_StreamPortOutput (au_baseStreamOutputPort descriptor)
             (au_numberOfStreamOutputPorts descriptor)
         (query_children configurationIndex DescriptorType_StreamPortInput (au_baseStreamInputPort descriptor)
             (au_numberOfStreamInputPorts descriptor)
         (set_in_configuration ''setAudioUnitDescriptor'' configurationIndex
             (\<lambda>cn. Some (setAudioUnitNode descriptor audioUnitIndex cn)) e))))
       ''AudioUnitDescriptor''"

definition onJackInputDescriptorResult ::
    "controller_settings \<Rightarrow> command_status \<Rightarrow> configuration_index \<Rightarrow> descriptor_index \<Rightarrow> jack_descriptor \<Rightarrow> entity_op" where
  "onJackInputDescriptorResult c status configurationIndex jackIndex descriptor =
     descriptor_result c status configurationIndex DescriptorType_JackInput jackIndex
       (\<lambda>e. query_children configurationIndex DescriptorType_Control (jk_baseControl descriptor) (jk_numberOfControls descriptor)
         (set_in_configuration ''setJackInputDescriptor'' configurationIndex
            (\<lambda>cn. Some (cn\<lparr>cfn_jackInputs := setJackNode descriptor jackIndex (cfn_jackInputs cn)\<rparr>)) e))
       ''JackInputDescriptor''"

definition onJackOutputDescriptorResult ::
    "controller_settings \<Rightarrow> command_status \<Rightarrow> configuration_index \<Rightarrow> descriptor_index \<Rightarrow> jack_descriptor \<Rightarrow> entity_op" where
  "onJackOutputDescriptorResult c status configurationIndex jackIndex descriptor =
     descriptor_result c status configurationIndex DescriptorType_JackOutput jackIndex
       (\<lambda>e. query_children configurationIndex DescriptorType_Control (jk_baseControl descriptor) (jk_numberOfControls descriptor)
         (set_in_configuration ''setJackOutputDescriptor'' configurationIndex
            (\<lambda>cn. Some (cn\<lparr>cfn_jackOutputs := setJackNode descriptor jackIndex (cfn_jackOutputs cn)\<rparr>)) e))
       ''JackOutputDescriptor''"

text \<open>Two descriptors are read in two steps; a handler knows the one it was asked in.\<close>

definition onAvbInterfaceDescriptorResult ::
    "controller_settings \<Rightarrow> command_status \<Rightarrow> configuration_index \<Rightarrow> descriptor_index \<Rightarrow> avb_interface_descriptor
       \<Rightarrow> enumeration_step \<Rightarrow> entity_op" where
  "onAvbInterfaceDescriptorResult c status configurationIndex interfaceIndex descriptor step =
     (let processSuccessHandler = set_in_configuration ''setAvbInterfaceDescriptor'' configurationIndex
            (\<lambda>cn. Some (cn\<lparr>cfn_avbInterfaces := om_put interfaceIndex descriptor (cfn_avbInterfaces cn)\<rparr>)) in
      if step = Step_GetStaticModel
      then descriptor_result c status configurationIndex DescriptorType_AvbInterface interfaceIndex
             processSuccessHandler ''AvbInterfaceDescriptor''
      else if step = Step_GetDescriptorDynamicInfo
      then descriptor_dynamic_info_result c status configurationIndex DD_AvbInterfaceDescriptor interfaceIndex requires_1_0
             processSuccessHandler ''AvbInterfaceDescriptor''
      else id)"

definition onClockSourceDescriptorResult ::
    "controller_settings \<Rightarrow> command_status \<Rightarrow> configuration_index \<Rightarrow> descriptor_index \<Rightarrow> clock_source_descriptor
       \<Rightarrow> enumeration_step \<Rightarrow> entity_op" where
  "onClockSourceDescriptorResult c status configurationIndex clockIndex descriptor step =
     (let processSuccessHandler = set_in_configuration ''setClockSourceDescriptor'' configurationIndex
            (\<lambda>cn. Some (cn\<lparr>cfn_clockSources := om_put clockIndex descriptor (cfn_clockSources cn)\<rparr>)) in
      if step = Step_GetStaticModel
      then descriptor_result c status configurationIndex DescriptorType_ClockSource clockIndex
             processSuccessHandler ''ClockSourceDescriptor''
      else if step = Step_GetDescriptorDynamicInfo
      then descriptor_dynamic_info_result c status configurationIndex DD_ClockSourceDescriptor clockIndex requires_1_0
             processSuccessHandler ''ClockSourceDescriptor''
      else id)"

definition onMemoryObjectDescriptorResult ::
    "controller_settings \<Rightarrow> command_status \<Rightarrow> configuration_index \<Rightarrow> descriptor_index \<Rightarrow> memory_object_descriptor \<Rightarrow> entity_op" where
  "onMemoryObjectDescriptorResult c status configurationIndex memoryObjectIndex descriptor =
     descriptor_result c status configurationIndex DescriptorType_MemoryObject memoryObjectIndex
       (\<lambda>e. set_in_configuration ''setMemoryObjectDescriptor'' configurationIndex
          (\<lambda>cn. Some (cn\<lparr>cfn_memoryObjects := om_put memoryObjectIndex descriptor (cfn_memoryObjects cn)\<rparr>))
          (if mo_length descriptor > mo_maximumLength descriptor
           then (removeCompatibilityFlag True Compat_IEEE17221 ''IEEE1722.1-2021 - 7.4.73.2'' e)\<lparr>ced_ignoreCachedEntityModel := True\<rparr>
           else e))
       ''MemoryObjectDescriptor''"

text \<open>The strings are asked for once the last locale has come.\<close>

definition all_locales_loaded :: "configuration_node \<Rightarrow> bool" where
  "all_locales_loaded cn \<longleftrightarrow>
     length (cfn_locales cn) =
       unat (case al_get DescriptorType_Locale (cf_descriptorCounts (cfn_model cn)) of None \<Rightarrow> 0 | Some counted \<Rightarrow> counted)"

definition onLocaleDescriptorResult ::
    "controller_settings \<Rightarrow> command_status \<Rightarrow> configuration_index \<Rightarrow> descriptor_index \<Rightarrow> locale_descriptor \<Rightarrow> entity_op" where
  "onLocaleDescriptorResult c status configurationIndex localeIndex descriptor =
     descriptor_result c status configurationIndex DescriptorType_Locale localeIndex
       (\<lambda>e. let e1 = set_in_configuration ''setLocaleDescriptor'' configurationIndex
                       (\<lambda>cn. Some (setLocaleNode descriptor localeIndex cn)) e in
          case getConfigurationNode configurationIndex e1 of
            None \<Rightarrow> e1
          | Some cn \<Rightarrow>
              if all_locales_loaded cn
              then chooseLocale configurationIndex
                     (\<lambda>stringsIndex. queryDescriptor configurationIndex DescriptorType_Strings stringsIndex 0) e1
              else e1)
       ''LocaleDescriptor''"

definition stream_port_described ::
    "configuration_index \<Rightarrow> stream_port_descriptor \<Rightarrow> entity_op" where
  "stream_port_described configurationIndex descriptor e =
     query_children configurationIndex DescriptorType_AudioMap (sp_baseMap descriptor) (sp_numberOfMaps descriptor)
       (query_children configurationIndex DescriptorType_AudioCluster (sp_baseCluster descriptor) (sp_numberOfClusters descriptor)
       (query_children configurationIndex DescriptorType_Control (sp_baseControl descriptor) (sp_numberOfControls descriptor) e))"

definition onStreamPortInputDescriptorResult ::
    "controller_settings \<Rightarrow> command_status \<Rightarrow> configuration_index \<Rightarrow> descriptor_index \<Rightarrow> stream_port_descriptor \<Rightarrow> entity_op" where
  "onStreamPortInputDescriptorResult c status configurationIndex streamPortIndex descriptor =
     descriptor_result c status configurationIndex DescriptorType_StreamPortInput streamPortIndex
       (\<lambda>e. stream_port_described configurationIndex descriptor
          (set_in_configuration ''setStreamPortInputDescriptor'' configurationIndex
             (setStreamPortInputNode descriptor streamPortIndex) e))
       ''StreamPortInputDescriptor''"

definition onStreamPortOutputDescriptorResult ::
    "controller_settings \<Rightarrow> command_status \<Rightarrow> configuration_index \<Rightarrow> descriptor_index \<Rightarrow> stream_port_descriptor \<Rightarrow> entity_op" where
  "onStreamPortOutputDescriptorResult c status configurationIndex streamPortIndex descriptor =
     descriptor_result c status configurationIndex DescriptorType_StreamPortOutput streamPortIndex
       (\<lambda>e. stream_port_described configurationIndex descriptor
          (set_in_configuration ''setStreamPortOutputDescriptor'' configurationIndex
             (setStreamPortOutputNode descriptor streamPortIndex) e))
       ''StreamPortOutputDescriptor''"

definition onPtpInstanceDescriptorResult ::
    "controller_settings \<Rightarrow> command_status \<Rightarrow> configuration_index \<Rightarrow> descriptor_index \<Rightarrow> ptp_instance_descriptor \<Rightarrow> entity_op" where
  "onPtpInstanceDescriptorResult c status configurationIndex ptpInstanceIndex descriptor =
     descriptor_result c status configurationIndex DescriptorType_PtpInstance ptpInstanceIndex
       (\<lambda>e. query_children configurationIndex DescriptorType_PtpPort (pi_basePtpPort descriptor) (pi_numberOfPtpPorts descriptor)
         (query_children configurationIndex DescriptorType_Control (pi_baseControl descriptor) (pi_numberOfControls descriptor)
         (set_in_configuration ''setPtpInstanceDescriptor'' configurationIndex
            (\<lambda>cn. Some (setPtpInstanceNode descriptor ptpInstanceIndex cn)) e)))
       ''PtpInstanceDescriptor''"

text \<open>The descriptors with nothing below them.\<close>

definition onStreamInputDescriptorResult ::
    "controller_settings \<Rightarrow> command_status \<Rightarrow> configuration_index \<Rightarrow> descriptor_index \<Rightarrow> stream_descriptor \<Rightarrow> entity_op" where
  "onStreamInputDescriptorResult c status configurationIndex streamIndex descriptor =
     descriptor_result c status configurationIndex DescriptorType_StreamInput streamIndex
       (set_in_configuration ''setStreamInputDescriptor'' configurationIndex (\<lambda>cn. Some (cn\<lparr>cfn_streamInputs := om_put streamIndex descriptor (cfn_streamInputs cn)\<rparr>)))
       ''StreamInputDescriptor''"

definition onStreamOutputDescriptorResult ::
    "controller_settings \<Rightarrow> command_status \<Rightarrow> configuration_index \<Rightarrow> descriptor_index \<Rightarrow> stream_descriptor \<Rightarrow> entity_op" where
  "onStreamOutputDescriptorResult c status configurationIndex streamIndex descriptor =
     descriptor_result c status configurationIndex DescriptorType_StreamOutput streamIndex
       (set_in_configuration ''setStreamOutputDescriptor'' configurationIndex (\<lambda>cn. Some (cn\<lparr>cfn_streamOutputs := om_put streamIndex descriptor (cfn_streamOutputs cn)\<rparr>)))
       ''StreamOutputDescriptor''"

definition onStringsDescriptorResult ::
    "controller_settings \<Rightarrow> command_status \<Rightarrow> configuration_index \<Rightarrow> descriptor_index \<Rightarrow> strings_descriptor \<Rightarrow> entity_op" where
  "onStringsDescriptorResult c status configurationIndex stringsIndex descriptor =
     descriptor_result c status configurationIndex DescriptorType_Strings stringsIndex
       (set_in_configuration ''setStringsDescriptor'' configurationIndex (setStringsAndLocalize descriptor stringsIndex))
       ''StringsDescriptor''"

definition onAudioClusterDescriptorResult ::
    "controller_settings \<Rightarrow> command_status \<Rightarrow> configuration_index \<Rightarrow> descriptor_index \<Rightarrow> audio_cluster_descriptor \<Rightarrow> entity_op" where
  "onAudioClusterDescriptorResult c status configurationIndex clusterIndex descriptor =
     descriptor_result c status configurationIndex DescriptorType_AudioCluster clusterIndex
       (set_in_configuration ''setAudioClusterDescriptor'' configurationIndex (setAudioClusterNode descriptor clusterIndex))
       ''AudioClusterDescriptor''"

definition onAudioMapDescriptorResult ::
    "controller_settings \<Rightarrow> command_status \<Rightarrow> configuration_index \<Rightarrow> descriptor_index \<Rightarrow> audio_map_descriptor \<Rightarrow> entity_op" where
  "onAudioMapDescriptorResult c status configurationIndex mapIndex descriptor =
     descriptor_result c status configurationIndex DescriptorType_AudioMap mapIndex
       (set_in_configuration ''setAudioMapDescriptor'' configurationIndex (setAudioMapNode descriptor mapIndex))
       ''AudioMapDescriptor''"

definition onControlDescriptorResult ::
    "controller_settings \<Rightarrow> command_status \<Rightarrow> configuration_index \<Rightarrow> descriptor_index \<Rightarrow> control_descriptor \<Rightarrow> entity_op" where
  "onControlDescriptorResult c status configurationIndex controlIndex descriptor =
     descriptor_result c status configurationIndex DescriptorType_Control controlIndex
       (set_in_configuration ''setControlDescriptor'' configurationIndex (setControlNode descriptor controlIndex))
       ''ControlDescriptor''"

definition onClockDomainDescriptorResult ::
    "controller_settings \<Rightarrow> command_status \<Rightarrow> configuration_index \<Rightarrow> descriptor_index \<Rightarrow> clock_domain_descriptor \<Rightarrow> entity_op" where
  "onClockDomainDescriptorResult c status configurationIndex clockDomainIndex descriptor =
     descriptor_result c status configurationIndex DescriptorType_ClockDomain clockDomainIndex
       (set_in_configuration ''setClockDomainDescriptor'' configurationIndex (\<lambda>cn. Some (cn\<lparr>cfn_clockDomains := om_put clockDomainIndex descriptor (cfn_clockDomains cn)\<rparr>)))
       ''ClockDomainDescriptor''"

definition onTimingDescriptorResult ::
    "controller_settings \<Rightarrow> command_status \<Rightarrow> configuration_index \<Rightarrow> descriptor_index \<Rightarrow> timing_descriptor \<Rightarrow> entity_op" where
  "onTimingDescriptorResult c status configurationIndex timingIndex descriptor =
     descriptor_result c status configurationIndex DescriptorType_Timing timingIndex
       (set_in_configuration ''setTimingDescriptor'' configurationIndex (\<lambda>cn. Some (cn\<lparr>cfn_timings := om_put timingIndex descriptor (cfn_timings cn)\<rparr>)))
       ''TimingDescriptor''"

definition onPtpPortDescriptorResult ::
    "controller_settings \<Rightarrow> command_status \<Rightarrow> configuration_index \<Rightarrow> descriptor_index \<Rightarrow> ptp_port_descriptor \<Rightarrow> entity_op" where
  "onPtpPortDescriptorResult c status configurationIndex ptpPortIndex descriptor =
     descriptor_result c status configurationIndex DescriptorType_PtpPort ptpPortIndex
       (set_in_configuration ''setPtpPortDescriptor'' configurationIndex (setPtpPortNode descriptor ptpPortIndex))
       ''PtpPortDescriptor''"

section \<open>The dynamic information of descriptors\<close>

definition onConfigurationNameResult :: "controller_settings \<Rightarrow> command_status \<Rightarrow> configuration_index \<Rightarrow> fixed_string \<Rightarrow> entity_op" where
  "onConfigurationNameResult c status configurationIndex configurationName =
     descriptor_dynamic_info_result c status configurationIndex DD_ConfigurationName 0 requires_1_0
       (updated ''updateConfigurationName'' [P_U16 configurationIndex, P_FixedString configurationName]) ''ConfigurationName''"

definition onAudioUnitNameResult :: "controller_settings \<Rightarrow> command_status \<Rightarrow> configuration_index \<Rightarrow> descriptor_index \<Rightarrow> fixed_string \<Rightarrow> entity_op" where
  "onAudioUnitNameResult c status configurationIndex audioUnitIndex audioUnitName =
     descriptor_dynamic_info_result c status configurationIndex DD_AudioUnitName audioUnitIndex requires_1_0
       (updated ''updateAudioUnitName'' [P_U16 configurationIndex, P_U16 audioUnitIndex, P_FixedString audioUnitName]) ''AudioUnitName''"

definition onAudioUnitSamplingRateResult :: "controller_settings \<Rightarrow> command_status \<Rightarrow> descriptor_index \<Rightarrow> sampling_rate \<Rightarrow> configuration_index \<Rightarrow> entity_op" where
  "onAudioUnitSamplingRateResult c status audioUnitIndex samplingRate configurationIndex =
     descriptor_dynamic_info_result c status configurationIndex DD_AudioUnitSamplingRate audioUnitIndex requires_1_0
       (updated ''updateAudioUnitSamplingRate'' [P_U16 audioUnitIndex, P_SamplingRate samplingRate]) ''AudioUnitSamplingRate''"

definition onInputStreamNameResult :: "controller_settings \<Rightarrow> command_status \<Rightarrow> configuration_index \<Rightarrow> descriptor_index \<Rightarrow> fixed_string \<Rightarrow> entity_op" where
  "onInputStreamNameResult c status configurationIndex streamIndex streamInputName =
     descriptor_dynamic_info_result c status configurationIndex DD_InputStreamName streamIndex requires_1_0
       (updated ''updateStreamInputName'' [P_U16 configurationIndex, P_U16 streamIndex, P_FixedString streamInputName]) ''InputStreamName''"

definition onInputStreamFormatResult :: "controller_settings \<Rightarrow> command_status \<Rightarrow> descriptor_index \<Rightarrow> stream_format \<Rightarrow> configuration_index \<Rightarrow> entity_op" where
  "onInputStreamFormatResult c status streamIndex fmt configurationIndex =
     descriptor_dynamic_info_result c status configurationIndex DD_InputStreamFormat streamIndex requires_1_0
       (updated ''updateStreamInputFormat'' [P_U16 streamIndex, P_StreamFormat fmt]) ''InputStreamFormat''"

definition onOutputStreamNameResult :: "controller_settings \<Rightarrow> command_status \<Rightarrow> configuration_index \<Rightarrow> descriptor_index \<Rightarrow> fixed_string \<Rightarrow> entity_op" where
  "onOutputStreamNameResult c status configurationIndex streamIndex streamOutputName =
     descriptor_dynamic_info_result c status configurationIndex DD_OutputStreamName streamIndex requires_1_0
       (updated ''updateStreamOutputName'' [P_U16 configurationIndex, P_U16 streamIndex, P_FixedString streamOutputName]) ''OutputStreamName''"

definition onOutputStreamFormatResult :: "controller_settings \<Rightarrow> command_status \<Rightarrow> descriptor_index \<Rightarrow> stream_format \<Rightarrow> configuration_index \<Rightarrow> entity_op" where
  "onOutputStreamFormatResult c status streamIndex fmt configurationIndex =
     descriptor_dynamic_info_result c status configurationIndex DD_OutputStreamFormat streamIndex requires_1_0
       (updated ''updateStreamOutputFormat'' [P_U16 streamIndex, P_StreamFormat fmt]) ''OutputStreamFormat''"

definition onInputJackNameResult :: "controller_settings \<Rightarrow> command_status \<Rightarrow> configuration_index \<Rightarrow> descriptor_index \<Rightarrow> fixed_string \<Rightarrow> entity_op" where
  "onInputJackNameResult c status configurationIndex jackIndex jackInputName =
     descriptor_dynamic_info_result c status configurationIndex DD_InputJackName jackIndex requires_1_0
       (updated ''updateJackInputName'' [P_U16 configurationIndex, P_U16 jackIndex, P_FixedString jackInputName]) ''InputJackName''"

definition onOutputJackNameResult :: "controller_settings \<Rightarrow> command_status \<Rightarrow> configuration_index \<Rightarrow> descriptor_index \<Rightarrow> fixed_string \<Rightarrow> entity_op" where
  "onOutputJackNameResult c status configurationIndex jackIndex jackOutputName =
     descriptor_dynamic_info_result c status configurationIndex DD_OutputJackName jackIndex requires_1_0
       (updated ''updateJackOutputName'' [P_U16 configurationIndex, P_U16 jackIndex, P_FixedString jackOutputName]) ''OutputJackName''"

definition onMemoryObjectNameResult :: "controller_settings \<Rightarrow> command_status \<Rightarrow> configuration_index \<Rightarrow> descriptor_index \<Rightarrow> fixed_string \<Rightarrow> entity_op" where
  "onMemoryObjectNameResult c status configurationIndex memoryObjectIndex memoryObjectName =
     descriptor_dynamic_info_result c status configurationIndex DD_MemoryObjectName memoryObjectIndex requires_1_0
       (updated ''updateMemoryObjectName'' [P_U16 configurationIndex, P_U16 memoryObjectIndex, P_FixedString memoryObjectName]) ''MemoryObjectName''"

definition onMemoryObjectLengthResult :: "controller_settings \<Rightarrow> command_status \<Rightarrow> configuration_index \<Rightarrow> descriptor_index \<Rightarrow> 64 word \<Rightarrow> entity_op" where
  "onMemoryObjectLengthResult c status configurationIndex memoryObjectIndex objectLength =
     descriptor_dynamic_info_result c status configurationIndex DD_MemoryObjectLength memoryObjectIndex requires_1_0
       (updated ''updateMemoryObjectLength'' [P_U16 configurationIndex, P_U16 memoryObjectIndex, P_U64 objectLength]) ''MemoryObjectLength''"

definition onAudioClusterNameResult :: "controller_settings \<Rightarrow> command_status \<Rightarrow> configuration_index \<Rightarrow> descriptor_index \<Rightarrow> fixed_string \<Rightarrow> entity_op" where
  "onAudioClusterNameResult c status configurationIndex audioClusterIndex audioClusterName =
     descriptor_dynamic_info_result c status configurationIndex DD_AudioClusterName audioClusterIndex requires_1_0
       (updated ''updateAudioClusterName'' [P_U16 configurationIndex, P_U16 audioClusterIndex, P_FixedString audioClusterName]) ''AudioClusterName''"

definition onControlNameResult :: "controller_settings \<Rightarrow> command_status \<Rightarrow> configuration_index \<Rightarrow> descriptor_index \<Rightarrow> fixed_string \<Rightarrow> entity_op" where
  "onControlNameResult c status configurationIndex controlIndex controlName =
     descriptor_dynamic_info_result c status configurationIndex DD_ControlName controlIndex requires_1_0
       (updated ''updateControlName'' [P_U16 configurationIndex, P_U16 controlIndex, P_FixedString controlName]) ''ControlName''"

definition onClockDomainNameResult :: "controller_settings \<Rightarrow> command_status \<Rightarrow> configuration_index \<Rightarrow> descriptor_index \<Rightarrow> fixed_string \<Rightarrow> entity_op" where
  "onClockDomainNameResult c status configurationIndex clockDomainIndex clockDomainName =
     descriptor_dynamic_info_result c status configurationIndex DD_ClockDomainName clockDomainIndex requires_1_0
       (updated ''updateClockDomainName'' [P_U16 configurationIndex, P_U16 clockDomainIndex, P_FixedString clockDomainName]) ''ClockDomainName''"

definition onClockDomainSourceIndexResult :: "controller_settings \<Rightarrow> command_status \<Rightarrow> descriptor_index \<Rightarrow> descriptor_index \<Rightarrow> configuration_index \<Rightarrow> entity_op" where
  "onClockDomainSourceIndexResult c status clockDomainIndex clockSourceIndex configurationIndex =
     descriptor_dynamic_info_result c status configurationIndex DD_ClockDomainSourceIndex clockDomainIndex requires_1_0
       (updated ''updateClockSource'' [P_U16 clockDomainIndex, P_U16 clockSourceIndex]) ''ClockDomainSourceIndex''"

definition onTimingNameResult :: "controller_settings \<Rightarrow> command_status \<Rightarrow> configuration_index \<Rightarrow> descriptor_index \<Rightarrow> fixed_string \<Rightarrow> entity_op" where
  "onTimingNameResult c status configurationIndex timingIndex timingName =
     descriptor_dynamic_info_result c status configurationIndex DD_TimingName timingIndex requires_1_2
       (updated ''updateTimingName'' [P_U16 configurationIndex, P_U16 timingIndex, P_FixedString timingName]) ''TimingName''"

definition onPtpInstanceNameResult :: "controller_settings \<Rightarrow> command_status \<Rightarrow> configuration_index \<Rightarrow> descriptor_index \<Rightarrow> fixed_string \<Rightarrow> entity_op" where
  "onPtpInstanceNameResult c status configurationIndex ptpInstanceIndex ptpInstanceName =
     descriptor_dynamic_info_result c status configurationIndex DD_PtpInstanceName ptpInstanceIndex requires_1_2
       (updated ''updatePtpInstanceName'' [P_U16 configurationIndex, P_U16 ptpInstanceIndex, P_FixedString ptpInstanceName]) ''PtpInstanceName''"

definition onPtpPortNameResult :: "controller_settings \<Rightarrow> command_status \<Rightarrow> configuration_index \<Rightarrow> descriptor_index \<Rightarrow> fixed_string \<Rightarrow> entity_op" where
  "onPtpPortNameResult c status configurationIndex ptpPortIndex ptpPortName =
     descriptor_dynamic_info_result c status configurationIndex DD_PtpPortName ptpPortIndex requires_1_2
       (updated ''updatePtpPortName'' [P_U16 configurationIndex, P_U16 ptpPortIndex, P_FixedString ptpPortName]) ''PtpPortName''"

text \<open>The values of a control that cannot be read make a success a protocol error.\<close>

definition updateControlValues :: "controller_settings \<Rightarrow> descriptor_index \<Rightarrow> byte list \<Rightarrow> controlled_entity \<Rightarrow> bool \<times> controlled_entity" where
  "updateControlValues c controlIndex packedControlValues e =
     (let (readable, broken) = cse_controlValues c e controlIndex packedControlValues in
      if readable
      then (True, updated ''updateControlValues'' [P_U16 controlIndex, P_MemoryBuffer packedControlValues]
              (case broken of None \<Rightarrow> e | Some specClause \<Rightarrow> removeCompatibilityFlag True Compat_IEEE17221 specClause e))
      else (False, e))"

definition onControlValuesResult ::
    "controller_settings \<Rightarrow> command_status \<Rightarrow> descriptor_index \<Rightarrow> byte list \<Rightarrow> configuration_index \<Rightarrow> entity_op" where
  "onControlValuesResult c status controlIndex packedControlValues configurationIndex e =
     (let failure = (\<lambda>st. processGetDescriptorDynamicInfoFailureStatus c st configurationIndex DD_ControlValues controlIndex requires_1_0)
      in handle_answer (checkAndClearExpectedDescriptorDynamicInfo configurationIndex DD_ControlValues controlIndex e) False
           (Pair True)
           (\<lambda>e. if status = Status_Success then
               (case updateControlValues c controlIndex packedControlValues e of
                  (True, e1) \<Rightarrow> (True, e1)
                | (False, e1) \<Rightarrow> failure Status_ProtocolError e1)
             else failure status e)
           ''ControlValues'' (end_descriptor_dynamic_info c))"

section \<open>Dynamic information\<close>

definition onGetStreamInputInfoResult :: "controller_settings \<Rightarrow> command_status \<Rightarrow> descriptor_index \<Rightarrow> stream_info \<Rightarrow> configuration_index \<Rightarrow> entity_op" where
  "onGetStreamInputInfoResult c status streamIndex info configurationIndex =
     dynamic_info_result c status configurationIndex DI_InputStreamInfo streamIndex 0 requires_1_0
       (updated ''updateStreamInputInfo'' [P_U16 streamIndex, P_StreamInfo info, P_Bool True, P_Bool True]) ''ListenerStreamInfo''"

definition onGetStreamOutputInfoResult :: "controller_settings \<Rightarrow> command_status \<Rightarrow> descriptor_index \<Rightarrow> stream_info \<Rightarrow> configuration_index \<Rightarrow> entity_op" where
  "onGetStreamOutputInfoResult c status streamIndex info configurationIndex =
     dynamic_info_result c status configurationIndex DI_OutputStreamInfo streamIndex 0 requires_1_0
       (updated ''updateStreamOutputInfo'' [P_U16 streamIndex, P_StreamInfo info, P_Bool True, P_Bool True]) ''TalkerStreamInfo''"

definition onGetAsPathResult :: "controller_settings \<Rightarrow> command_status \<Rightarrow> descriptor_index \<Rightarrow> uid list \<Rightarrow> configuration_index \<Rightarrow> entity_op" where
  "onGetAsPathResult c status avbInterfaceIndex asPath configurationIndex =
     dynamic_info_result c status configurationIndex DI_GetAsPath avbInterfaceIndex 0 requires_1_0
       (updated ''updateAsPath'' [P_U16 avbInterfaceIndex, P_AsPath asPath]) ''AsPath''"

definition onGetMaxTransitTimeResult :: "controller_settings \<Rightarrow> command_status \<Rightarrow> descriptor_index \<Rightarrow> 64 word \<Rightarrow> configuration_index \<Rightarrow> entity_op" where
  "onGetMaxTransitTimeResult c status streamIndex maxTransitTime configurationIndex =
     dynamic_info_result c status configurationIndex DI_GetMaxTransitTime streamIndex 0 requires_1_3
       (updated ''updateMaxTransitTime'' [P_U16 streamIndex, P_Nanoseconds maxTransitTime]) ''GetMaxTransitTime''"

text \<open>
  The state of ownership is told by the status; a state that cannot be told is a failure, and is kept all the same.
  The queries of the enumeration release or unlock.
\<close>

definition updateAcquiredState :: "acquire_state \<Rightarrow> uid \<Rightarrow> entity_op" where
  "updateAcquiredState acquireState owningEntity e =
     (let e1 = e\<lparr>ced_acquireState := acquireState, ced_owningControllerID := owningEntity\<rparr> in
      if ced_advertised e1
      then act (Observe (OnAcquireStateChanged acquireState owningEntity))
             (if acquireState = Acquire_NotAcquired then act (Called ''removeExclusiveAccessTokens'') e1 else e1)
      else e1)"

definition updateLockedState :: "lock_state \<Rightarrow> uid \<Rightarrow> entity_op" where
  "updateLockedState lockState lockingEntity e =
     (let e1 = e\<lparr>ced_lockState := lockState, ced_lockingControllerID := lockingEntity\<rparr> in
      if ced_advertised e1
      then act (Observe (OnLockStateChanged lockState lockingEntity))
             (if lockState = Lock_NotLocked then act (Called ''removeExclusiveAccessTokens'') e1 else e1)
      else e1)"

definition getAcquiredInfoFromStatus ::
    "controller_settings \<Rightarrow> uid \<Rightarrow> command_status \<Rightarrow> bool \<Rightarrow> controlled_entity \<Rightarrow> (acquire_state \<times> uid) \<times> controlled_entity" where
  "getAcquiredInfoFromStatus c owningEntity status releaseEntityResult e =
     (if status = Status_Success then
        ((if releaseEntityResult then (Acquire_NotAcquired, uid_uninitialized)
          else (if \<not> uid_isValid owningEntity then Acquire_NotAcquired
                else if uid_eq owningEntity (cse_controllerEID c) then Acquire_Acquired else Acquire_AcquiredByOther,
                owningEntity)),
         remove_if_Milan ''Milan 1.3 - 5.4.2.1'' e)
      else if status = Status_AcquiredByOther then
        ((Acquire_AcquiredByOther, owningEntity), remove_if_Milan ''Milan 1.3 - 5.4.2.1'' e)
      else if status = Status_BadArguments then
        ((if releaseEntityResult then Acquire_NotAcquired else Acquire_Undefined, uid_uninitialized), e)
      else if status = Status_NotImplemented \<or> status = Status_NotSupported then
        ((Acquire_NotSupported, uid_uninitialized), e)
      else ((Acquire_Undefined, uid_uninitialized), e))"

definition getLockedInfoFromStatus ::
    "controller_settings \<Rightarrow> uid \<Rightarrow> command_status \<Rightarrow> bool \<Rightarrow> controlled_entity \<Rightarrow> (lock_state \<times> uid) \<times> controlled_entity" where
  "getLockedInfoFromStatus c lockingEntity status unlockEntityResult e =
     (if status = Status_Success then
        ((if unlockEntityResult then (Lock_NotLocked, uid_uninitialized)
          else (if \<not> uid_isValid lockingEntity then Lock_NotLocked
                else if uid_eq lockingEntity (cse_controllerEID c) then Lock_Locked else Lock_LockedByOther,
                lockingEntity)), e)
      else if status = Status_LockedByOther then ((Lock_LockedByOther, lockingEntity), e)
      else if status = Status_BadArguments then
        ((if unlockEntityResult then Lock_NotLocked else Lock_Undefined, uid_uninitialized), e)
      else if status = Status_NotImplemented \<or> status = Status_NotSupported then
        ((Lock_NotSupported, uid_uninitialized), remove_if_Milan ''Milan 1.3 - 5.4.2.2'' e)
      else ((Lock_Undefined, uid_uninitialized), e))"

definition onGetAcquiredStateResult :: "controller_settings \<Rightarrow> command_status \<Rightarrow> uid \<Rightarrow> entity_op" where
  "onGetAcquiredStateResult c status owningEntity e =
     handle_answer (checkAndClearExpectedDynamicInfo 0 DI_AcquiredState 0 0 e) False (Pair True)
       (\<lambda>e. let ((acquireState, owningController), e1) = getAcquiredInfoFromStatus c owningEntity status True e;
               (goOn, e2) = (if acquireState = Acquire_Undefined
                 then processGetAecpDynamicInfoFailureStatus c status 0 DI_AcquiredState 0 0 [] e1 else (True, e1))
           in (goOn, if goOn then updateAcquiredState acquireState owningController e2 else e2))
       ''AcquiredState'' (end_dynamic_info c)"

definition onGetLockedStateResult :: "controller_settings \<Rightarrow> command_status \<Rightarrow> uid \<Rightarrow> entity_op" where
  "onGetLockedStateResult c status lockingEntity e =
     handle_answer (checkAndClearExpectedDynamicInfo 0 DI_LockedState 0 0 e) False (Pair True)
       (\<lambda>e. let ((lockState, lockingController), e1) = getLockedInfoFromStatus c lockingEntity status True e;
               (goOn, e2) = (if lockState = Lock_Undefined
                 then processGetAecpDynamicInfoFailureStatus c status 0 DI_LockedState 0 0 requires_1_0 e1 else (True, e1))
           in (goOn, if goOn then updateLockedState lockState lockingController e2 else e2))
       ''LockedState'' (end_dynamic_info c)"

text \<open>
  The mappings come in parts; the answer to one asks for the next, and the handler goes on after the last.  The
  comparison is one of integers.  The two handlers differ in the direction of the port.
\<close>

definition audio_map_result ::
    "dynamic_info_type \<Rightarrow> string \<Rightarrow> string \<Rightarrow> string \<Rightarrow> controller_settings \<Rightarrow> command_status \<Rightarrow> descriptor_index \<Rightarrow> 16 word
       \<Rightarrow> 16 word \<Rightarrow> audio_mapping list \<Rightarrow> configuration_index \<Rightarrow> entity_op" where
  "audio_map_result t clear add error c status streamPortIndex numberOfMaps mapIndex mappings configurationIndex e =
     handle_answer (checkAndClearExpectedDynamicInfo configurationIndex t streamPortIndex mapIndex e)
       (status = Status_Success)
       (\<lambda>e. let e1 = updated add [P_U16 streamPortIndex, P_AudioMappings mappings]
                  (if mapIndex = 0 then updated clear [P_U16 streamPortIndex] e else e)
           in if numberOfMaps \<noteq> 0 \<and> uint mapIndex \<noteq> uint numberOfMaps - 1
              then (False, queryDynamicInfo configurationIndex t streamPortIndex (mapIndex + 1) 0 e1)
              else (True, e1))
       (\<lambda>e. let (goOn, e1) = processGetAecpDynamicInfoFailureStatus c status configurationIndex t streamPortIndex mapIndex requires_1_0 e
           in (goOn \<and> (cse_ignoreNeitherStaticNorDynamicMappings c
                        \<or> status \<noteq> Status_NotImplemented \<and> status \<noteq> Status_NotSupported), e1))
       error (end_dynamic_info c)"

definition onGetStreamPortInputAudioMapResult ::
    "controller_settings \<Rightarrow> command_status \<Rightarrow> descriptor_index \<Rightarrow> 16 word \<Rightarrow> 16 word \<Rightarrow> audio_mapping list
       \<Rightarrow> configuration_index \<Rightarrow> entity_op" where
  "onGetStreamPortInputAudioMapResult =
     audio_map_result DI_InputStreamPortAudioMappings ''clearStreamPortInputAudioMappings''
       ''addStreamPortInputAudioMappings'' ''StreamInputAudioMap''"

definition onGetStreamPortOutputAudioMapResult ::
    "controller_settings \<Rightarrow> command_status \<Rightarrow> descriptor_index \<Rightarrow> 16 word \<Rightarrow> 16 word \<Rightarrow> audio_mapping list
       \<Rightarrow> configuration_index \<Rightarrow> entity_op" where
  "onGetStreamPortOutputAudioMapResult =
     audio_map_result DI_OutputStreamPortAudioMappings ''clearStreamPortOutputAudioMappings''
       ''addStreamPortOutputAudioMappings'' ''StreamOutputAudioMap''"

text \<open>
  An entity that does not tell its gPTP information when asked has what its announcements say taken instead.
\<close>

definition EntityCapability_GptpSupported :: "32 word" where "EntityCapability_GptpSupported = 0x400"

definition gptp_from_announcements :: "configuration_index \<Rightarrow> descriptor_index \<Rightarrow> entity_op" where
  "gptp_from_announcements configurationIndex avbInterfaceIndex e =
     (case Option.bind (getConfigurationNode configurationIndex e) (\<lambda>cn. al_get avbInterfaceIndex (cfn_avbInterfaces cn)) of
        None \<Rightarrow> e
      | Some avbInterface \<Rightarrow>
          if bits_test EntityCapability_GptpSupported (ei_entityCapabilities (en_common (ced_entity e))) then
            fold (\<lambda>(interfaceIndex, interfaceInfo) e.
                case ii_gptpGrandmasterID interfaceInfo of
                  None \<Rightarrow> e
                | Some grandmaster \<Rightarrow>
                    if interfaceIndex = avbInterfaceIndex
                       \<or> interfaceIndex = GlobalAvbInterfaceIndex \<and> ai_macAddress avbInterface = ii_macAddress interfaceInfo
                    then (case ii_gptpDomainNumber interfaceInfo of
                        None \<Rightarrow> act (Null_dereference ''gptpDomainNumber'') e
                      | Some domain \<Rightarrow> updated ''updateGptpInformation''
                          [P_U16 avbInterfaceIndex, P_Uid grandmaster, P_U16 (ucast domain)] e)
                    else e)
              (en_interfaces (ced_entity e)) e
          else e)"

definition onGetAvbInfoResult :: "controller_settings \<Rightarrow> command_status \<Rightarrow> descriptor_index \<Rightarrow> avb_info \<Rightarrow> configuration_index \<Rightarrow> entity_op" where
  "onGetAvbInfoResult c status avbInterfaceIndex info configurationIndex e =
     handle_answer (checkAndClearExpectedDynamicInfo configurationIndex DI_GetAvbInfo avbInterfaceIndex 0 e)
       (status = Status_Success)
       (\<lambda>e. (True, updated ''updateAvbInfo'' [P_U16 avbInterfaceIndex, P_AvbInfo info] e))
       (\<lambda>e. let (goOn, e1) = processGetAecpDynamicInfoFailureStatus c status configurationIndex DI_GetAvbInfo avbInterfaceIndex 0
                                requires_1_0 e
           in (goOn, if goOn then gptp_from_announcements configurationIndex avbInterfaceIndex e1 else e1))
       ''AvbInfo'' (end_dynamic_info c)"

text \<open>The counters a Milan device must have, as masks of the flags that declare a counter valid.\<close>

definition s_MilanMandatoryStreamInputCounters :: "32 word" where "s_MilanMandatoryStreamInputCounters = 0xF3F"
definition s_Milan12MandatoryStreamOutputCounters :: "32 word" where "s_Milan12MandatoryStreamOutputCounters = 0x1F"
definition s_Milan13MandatoryStreamOutputCounters :: "32 word" where "s_Milan13MandatoryStreamOutputCounters = 0x9B"
definition s_MilanSignalPresenceMandatoryStreamOutputCounters :: "32 word" where
  "s_MilanSignalPresenceMandatoryStreamOutputCounters = 0x9B"
definition s_MilanMandatoryAvbInterfaceCounters :: "32 word" where "s_MilanMandatoryAvbInterfaceCounters = 0x23"
definition s_MilanMandatoryClockDomainCounters :: "32 word" where "s_MilanMandatoryClockDomainCounters = 0x3"

datatype stream_output_counter_type = CT_Milan_12 | CT_IEEE17221_2021 | CT_Milan_SignalPresence

definition MilanInfoFeaturesFlag_TalkerSignalPresence :: "32 word" where "MilanInfoFeaturesFlag_TalkerSignalPresence = 0x8"

definition getStreamOutputCounterType :: "controlled_entity \<Rightarrow> stream_output_counter_type" where
  "getStreamOutputCounterType e = (case ced_milanInfo e of
     None \<Rightarrow> CT_IEEE17221_2021
   | Some info \<Rightarrow>
       if mi_specificationVersion info \<ge> MilanVersion_1_0 \<and> mi_specificationVersion info < MilanVersion_1_3 then CT_Milan_12
       else if bits_test MilanInfoFeaturesFlag_TalkerSignalPresence (mi_featuresFlags info) then CT_Milan_SignalPresence
       else CT_IEEE17221_2021)"

definition require_counters :: "32 word \<Rightarrow> string \<Rightarrow> 32 word \<Rightarrow> entity_op" where
  "require_counters mandatory specClause validCounters e =
     (if validCounters AND mandatory \<noteq> mandatory then removeCompatibilityFlag True Compat_Milan specClause e else e)"

definition if_Milan :: "entity_op \<Rightarrow> entity_op" where
  "if_Milan f e = (if Compat_Milan \<in> ced_compatibilityFlags e then f e else e)"

definition validateMilanStreamOutputCounters :: "stream_output_counter_type \<Rightarrow> 32 word \<Rightarrow> entity_op" where
  "validateMilanStreamOutputCounters counterType = (case counterType of
     CT_Milan_12 \<Rightarrow> require_counters s_Milan12MandatoryStreamOutputCounters ''Milan 1.2 - 5.3.7.7''
   | CT_IEEE17221_2021 \<Rightarrow> require_counters s_Milan13MandatoryStreamOutputCounters ''Milan 1.3 - 5.3.7.7''
   | CT_Milan_SignalPresence \<Rightarrow> require_counters s_MilanSignalPresenceMandatoryStreamOutputCounters ''Milan 1.3 - 5.3.7.7'')"

definition entity_counters :: "32 word \<Rightarrow> 32 word list \<Rightarrow> entity_op" where
  "entity_counters validCounters counters =
     updated ''updateEntityCounters'' [P_EntityCounterValidFlags validCounters, P_DescriptorCounters counters]"

definition avb_interface_counters :: "descriptor_index \<Rightarrow> 32 word \<Rightarrow> 32 word list \<Rightarrow> entity_op" where
  "avb_interface_counters avbInterfaceIndex validCounters counters e =
     updated ''updateAvbInterfaceCounters''
       [P_U16 avbInterfaceIndex, P_AvbInterfaceCounterValidFlags validCounters, P_DescriptorCounters counters]
       (if_Milan (require_counters s_MilanMandatoryAvbInterfaceCounters ''Milan 1.3 - 5.3.6.3'' validCounters) e)"

definition clock_domain_counters :: "descriptor_index \<Rightarrow> 32 word \<Rightarrow> 32 word list \<Rightarrow> entity_op" where
  "clock_domain_counters clockDomainIndex validCounters counters e =
     updated ''updateClockDomainCounters''
       [P_U16 clockDomainIndex, P_ClockDomainCounterValidFlags validCounters, P_DescriptorCounters counters]
       (if_Milan (require_counters s_MilanMandatoryClockDomainCounters ''Milan 1.3 - 5.3.11.2'' validCounters) e)"

definition stream_input_counters :: "string \<Rightarrow> descriptor_index \<Rightarrow> 32 word \<Rightarrow> 32 word list \<Rightarrow> entity_op" where
  "stream_input_counters specClause streamIndex validCounters counters e =
     updated ''updateStreamInputCounters''
       [P_U16 streamIndex, P_StreamInputCounterValidFlags validCounters, P_DescriptorCounters counters]
       (if_Milan (require_counters s_MilanMandatoryStreamInputCounters specClause validCounters) e)"

definition stream_output_counters :: "descriptor_index \<Rightarrow> 32 word \<Rightarrow> 32 word list \<Rightarrow> entity_op" where
  "stream_output_counters streamIndex validCounters counters e =
     updated ''updateStreamOutputCounters''
       [P_U16 streamIndex, P_StreamOutputCounterValidFlags validCounters, P_DescriptorCounters counters]
       (if_Milan (validateMilanStreamOutputCounters (getStreamOutputCounterType e) validCounters) e)"

definition onGetEntityCountersResult :: "controller_settings \<Rightarrow> command_status \<Rightarrow> 32 word \<Rightarrow> 32 word list \<Rightarrow> entity_op" where
  "onGetEntityCountersResult c status validCounters counters =
     dynamic_info_result c status 0 DI_GetEntityCounters 0 0 [] (entity_counters validCounters counters) ''EntityCounters''"

definition onGetAvbInterfaceCountersResult ::
    "controller_settings \<Rightarrow> command_status \<Rightarrow> descriptor_index \<Rightarrow> 32 word \<Rightarrow> 32 word list \<Rightarrow> configuration_index \<Rightarrow> entity_op" where
  "onGetAvbInterfaceCountersResult c status avbInterfaceIndex validCounters counters configurationIndex =
     dynamic_info_result c status configurationIndex DI_GetAvbInterfaceCounters avbInterfaceIndex 0 requires_1_0
       (avb_interface_counters avbInterfaceIndex validCounters counters) ''AvbInterfaceCounters''"

definition onGetClockDomainCountersResult ::
    "controller_settings \<Rightarrow> command_status \<Rightarrow> descriptor_index \<Rightarrow> 32 word \<Rightarrow> 32 word list \<Rightarrow> configuration_index \<Rightarrow> entity_op" where
  "onGetClockDomainCountersResult c status clockDomainIndex validCounters counters configurationIndex =
     dynamic_info_result c status configurationIndex DI_GetClockDomainCounters clockDomainIndex 0 requires_1_0
       (clock_domain_counters clockDomainIndex validCounters counters) ''ClockDomainCounters''"

definition onGetStreamInputCountersResult ::
    "controller_settings \<Rightarrow> command_status \<Rightarrow> descriptor_index \<Rightarrow> 32 word \<Rightarrow> 32 word list \<Rightarrow> configuration_index \<Rightarrow> entity_op" where
  "onGetStreamInputCountersResult c status streamIndex validCounters counters configurationIndex =
     dynamic_info_result c status configurationIndex DI_GetStreamInputCounters streamIndex 0 requires_1_0
       (stream_input_counters ''Milan 1.3 - 5.3.8.10'' streamIndex validCounters counters) ''StreamInputCounters''"

definition onGetStreamOutputCountersResult ::
    "controller_settings \<Rightarrow> command_status \<Rightarrow> descriptor_index \<Rightarrow> 32 word \<Rightarrow> 32 word list \<Rightarrow> configuration_index \<Rightarrow> entity_op" where
  "onGetStreamOutputCountersResult c status streamIndex validCounters counters configurationIndex =
     dynamic_info_result c status configurationIndex DI_GetStreamOutputCounters streamIndex 0 requires_1_0
       (stream_output_counters streamIndex validCounters counters) ''StreamOutputCounters''"

text \<open>The Milan commands: their status is that of MVU, and some have no index.\<close>

definition mvu_dynamic_info_result ::
    "controller_settings \<Rightarrow> command_status \<Rightarrow> configuration_index \<Rightarrow> dynamic_info_type \<Rightarrow> descriptor_index
       \<Rightarrow> milan_required_versions list \<Rightarrow> entity_op \<Rightarrow> string \<Rightarrow> entity_op" where
  "mvu_dynamic_info_result c status configurationIndex t descriptorIndex milanRequirements onSuccess error e =
     handle_answer (checkAndClearExpectedDynamicInfo configurationIndex t descriptorIndex 0 e)
       (status = Status_Success) (\<lambda>e1. (True, onSuccess e1))
       (processGetMvuDynamicInfoFailureStatus c status configurationIndex t descriptorIndex 0 milanRequirements)
       error (end_dynamic_info c)"

definition onGetSystemUniqueIDResult :: "controller_settings \<Rightarrow> command_status \<Rightarrow> uid \<Rightarrow> fixed_string \<Rightarrow> entity_op" where
  "onGetSystemUniqueIDResult c status systemUniqueID systemName =
     mvu_dynamic_info_result c status InvalidDescriptorIndex DI_GetSystemUniqueID InvalidDescriptorIndex []
       (updated ''updateSystemUniqueID'' [P_Uid systemUniqueID, P_FixedString systemName]) ''GetSystemUniqueID''"

definition onGetMediaClockReferenceInfoResult ::
    "controller_settings \<Rightarrow> command_status \<Rightarrow> descriptor_index \<Rightarrow> 8 word \<Rightarrow> media_clock_reference_info \<Rightarrow> entity_op" where
  "onGetMediaClockReferenceInfoResult c status clockDomainIndex defaultPriority info =
     mvu_dynamic_info_result c status InvalidDescriptorIndex DI_GetMediaClockReferenceInfo clockDomainIndex requires_1_3
       (updated ''updateMediaClockReferenceInfo''
          [P_U16 clockDomainIndex, P_DefaultPriority defaultPriority, P_MediaClockReferenceInfo info])
       ''GetMediaClockReferenceInfo''"

definition onGetStreamInputInfoExResult ::
    "controller_settings \<Rightarrow> command_status \<Rightarrow> descriptor_index \<Rightarrow> stream_input_info_ex \<Rightarrow> configuration_index \<Rightarrow> entity_op" where
  "onGetStreamInputInfoExResult c status streamIndex streamInputInfoEx configurationIndex =
     mvu_dynamic_info_result c status configurationIndex DI_InputStreamInfoEx streamIndex requires_1_3
       (updated ''updateStreamInputInfoEx'' [P_U16 streamIndex, P_StreamInputInfoEx streamInputInfoEx])
       ''GetStreamInputInfoEx''"

section \<open>Connections\<close>

text \<open>
  The connections of a talker are asked for one by one; a Milan talker has none to tell.  What the state of a
  listener says is taken whether it is expected or not.
\<close>

definition query_connections :: "configuration_index \<Rightarrow> stream_identification \<Rightarrow> 16 word \<Rightarrow> entity_op" where
  "query_connections configurationIndex talkerStream connectionCount =
     fold (\<lambda>index. queryTalkerStreamConnection configurationIndex DI_OutputStreamConnection talkerStream index 0)
       (map word_of_nat [0..<unat connectionCount])"

definition onGetTalkerStreamStateResult ::
    "controller_settings \<Rightarrow> stream_identification \<Rightarrow> 16 word \<Rightarrow> command_status \<Rightarrow> configuration_index \<Rightarrow> entity_op" where
  "onGetTalkerStreamStateResult c talkerStream connectionCount status configurationIndex e =
     handle_answer (checkAndClearExpectedDynamicInfo configurationIndex DI_OutputStreamState (sid_streamIndex talkerStream) 0 e)
       (status = Status_Success)
       (\<lambda>e. let e1 = updated ''clearTalkerStreamConnections'' [P_U16 (sid_streamIndex talkerStream)] e;
               e2 = (if connectionCount \<noteq> 0 then remove_if_Milan ''Milan 1.3 - 5.5.4.3'' e1 else e1)
           in (True, query_connections configurationIndex talkerStream connectionCount e2))
       (processGetAcmpDynamicInfoFailureStatus status configurationIndex DI_OutputStreamState (sid_streamIndex talkerStream)
          requires_1_0)
       ''TalkerStreamState'' (end_dynamic_info c)"

definition onGetListenerStreamStateResult ::
    "controller_settings \<Rightarrow> stream_identification \<Rightarrow> stream_identification \<Rightarrow> 16 word \<Rightarrow> 16 word \<Rightarrow> command_status
       \<Rightarrow> configuration_index \<Rightarrow> entity_op" where
  "onGetListenerStreamStateResult c talkerStream listenerStream connectionCount flags status configurationIndex e =
     handle_answer
       (checkAndClearExpectedDynamicInfo configurationIndex DI_InputStreamState (sid_streamIndex listenerStream) 0
          (if status = Status_Success
           then updated ''handleListenerStreamStateNotification''
                  [P_StreamIdentification talkerStream, P_StreamIdentification listenerStream,
                   P_Bool (connectionCount \<noteq> 0), P_ConnectionFlags flags, P_Bool False] e
           else e))
       (status = Status_Success) (Pair True)
       (processGetAcmpDynamicInfoFailureStatus status configurationIndex DI_InputStreamState (sid_streamIndex listenerStream)
          requires_1_0)
       ''ListenerStreamState'' (end_dynamic_info c)"

definition onGetTalkerStreamConnectionResult ::
    "controller_settings \<Rightarrow> stream_identification \<Rightarrow> stream_identification \<Rightarrow> command_status \<Rightarrow> configuration_index
       \<Rightarrow> 16 word \<Rightarrow> entity_op" where
  "onGetTalkerStreamConnectionResult c talkerStream listenerStream status configurationIndex connectionIndex e =
     handle_answer
       (checkAndClearExpectedDynamicInfo configurationIndex DI_OutputStreamConnection (sid_streamIndex talkerStream)
          connectionIndex e)
       (status = Status_Success)
       (\<lambda>e. (True, updated ''addTalkerStreamConnection''
          [P_U16 (sid_streamIndex talkerStream), P_StreamIdentification listenerStream] e))
       (processGetAcmpConnectionFailureStatus status configurationIndex DI_OutputStreamConnection talkerStream
          connectionIndex [])
       ''TalkerStreamConnection'' (end_dynamic_info c)"

section \<open>Packed dynamic information\<close>

text \<open>
  What one entry of a GET_DYNAMIC_INFO answer brings.  The code casts the arguments to the types of the command:
  arguments that are not of them throw (\<^verbatim>\<open>None\<close>).  An entry of a type that is not asked for is left.
\<close>

definition name_updates :: "(descriptor_type \<times> string) list" where
  "name_updates =
     [(DescriptorType_AudioUnit, ''updateAudioUnitName''), (DescriptorType_StreamInput, ''updateStreamInputName''),
      (DescriptorType_StreamOutput, ''updateStreamOutputName''), (DescriptorType_JackInput, ''updateJackInputName''),
      (DescriptorType_JackOutput, ''updateJackOutputName''), (DescriptorType_AvbInterface, ''updateAvbInterfaceName''),
      (DescriptorType_ClockSource, ''updateClockSourceName''), (DescriptorType_MemoryObject, ''updateMemoryObjectName''),
      (DescriptorType_AudioCluster, ''updateAudioClusterName''), (DescriptorType_Control, ''updateControlName''),
      (DescriptorType_ClockDomain, ''updateClockDomainName''), (DescriptorType_Timing, ''updateTimingName''),
      (DescriptorType_PtpInstance, ''updatePtpInstanceName''), (DescriptorType_PtpPort, ''updatePtpPortName'')]"

definition name_updated ::
    "configuration_index \<Rightarrow> descriptor_type \<Rightarrow> descriptor_index \<Rightarrow> 16 word \<Rightarrow> fixed_string \<Rightarrow> entity_op" where
  "name_updated configurationIndex descriptorType descriptorIndex nameIndex name =
     (if nameIndex \<noteq> 0 then id
      else if descriptorType = DescriptorType_Configuration
        then updated ''updateConfigurationName'' [P_U16 descriptorIndex, P_FixedString name]
      else case map_of name_updates descriptorType of
          None \<Rightarrow> id
        | Some update \<Rightarrow> updated update [P_U16 configurationIndex, P_U16 descriptorIndex, P_FixedString name])"

definition counters_updated :: "descriptor_type \<Rightarrow> descriptor_index \<Rightarrow> 32 word \<Rightarrow> 32 word list \<Rightarrow> entity_op" where
  "counters_updated descriptorType descriptorIndex validFlag counters =
     (if descriptorType = DescriptorType_Entity then entity_counters validFlag counters
      else if descriptorType = DescriptorType_StreamInput
        then stream_input_counters ''Milan 1.2 - 7.3.8.10'' descriptorIndex validFlag counters
      else if descriptorType = DescriptorType_StreamOutput then stream_output_counters descriptorIndex validFlag counters
      else if descriptorType = DescriptorType_ClockDomain then clock_domain_counters descriptorIndex validFlag counters
      else if descriptorType = DescriptorType_AvbInterface then avb_interface_counters descriptorIndex validFlag counters
      else id)"

definition dynamic_info_updated :: "16 word \<Rightarrow> param list \<Rightarrow> entity_op option" where
  "dynamic_info_updated commandType arguments =
     (if commandType = AemCommandType_GetStreamFormat then
        (case arguments of
           P_DescriptorType descriptorType # P_U16 streamIndex # P_StreamFormat fmt # _ \<Rightarrow>
             Some (if descriptorType = DescriptorType_StreamInput
                   then updated ''updateStreamInputFormat'' [P_U16 streamIndex, P_StreamFormat fmt]
                   else if descriptorType = DescriptorType_StreamOutput
                   then updated ''updateStreamOutputFormat'' [P_U16 streamIndex, P_StreamFormat fmt]
                   else id)
         | _ \<Rightarrow> None)
      else if commandType = AemCommandType_GetName then
        (case arguments of
           P_U16 configurationIndex # P_DescriptorType descriptorType # P_U16 descriptorIndex # P_U16 nameIndex # P_FixedString name # _ \<Rightarrow>
             Some (name_updated configurationIndex descriptorType descriptorIndex nameIndex name)
         | _ \<Rightarrow> None)
      else if commandType = AemCommandType_GetSamplingRate then
        (case arguments of
           P_DescriptorType descriptorType # P_U16 descriptorIndex # P_SamplingRate samplingRate # _ \<Rightarrow>
             Some (if descriptorType = DescriptorType_AudioUnit
                   then updated ''updateAudioUnitSamplingRate'' [P_U16 descriptorIndex, P_SamplingRate samplingRate] else id)
         | _ \<Rightarrow> None)
      else if commandType = AemCommandType_GetClockSource then
        (case arguments of
           P_U16 clockDomainIndex # P_U16 clockSourceIndex # _ \<Rightarrow>
             Some (updated ''updateClockSource'' [P_U16 clockDomainIndex, P_U16 clockSourceIndex])
         | _ \<Rightarrow> None)
      else if commandType = AemCommandType_GetCounters then
        (case arguments of
           P_DescriptorType descriptorType # P_U16 descriptorIndex # P_U32 validFlag # P_DescriptorCounters counters # _ \<Rightarrow>
             Some (counters_updated descriptorType descriptorIndex validFlag counters)
         | _ \<Rightarrow> None)
      else if commandType = AemCommandType_GetMemoryObjectLength then
        (case arguments of
           P_U16 configurationIndex # P_U16 memoryObjectIndex # P_U64 objectLength # _ \<Rightarrow>
             Some (updated ''updateMemoryObjectLength'' [P_U16 configurationIndex, P_U16 memoryObjectIndex, P_U64 objectLength])
         | _ \<Rightarrow> None)
      else if commandType = AemCommandType_GetMaxTransitTime then
        (case arguments of
           P_U16 streamIndex # P_U64 maxTransitTime # _ \<Rightarrow>
             Some (updated ''updateMaxTransitTime'' [P_U16 streamIndex, P_Nanoseconds maxTransitTime])
         | _ \<Rightarrow> None)
      else Some id)"

text \<open>
  The entries are taken in order, up to the first with an error, whose status becomes that of the answer.
\<close>

fun apply_dynamic_infos ::
    "(command_status \<times> 16 word \<times> param list) list \<Rightarrow> controlled_entity \<Rightarrow> command_status \<times> controlled_entity" where
  "apply_dynamic_infos [] e = (Status_Success, e)"
| "apply_dynamic_infos ((st, commandType, arguments) # infos) e =
     (if st \<noteq> Status_Success then (st, e)
      else case dynamic_info_updated commandType arguments of
          None \<Rightarrow> (Status_ProtocolError, e)
        | Some f \<Rightarrow> apply_dynamic_infos infos (f e))"

definition end_packed_dynamic_info :: "controller_settings \<Rightarrow> enumeration_step \<Rightarrow> packed_failure_action \<Rightarrow> entity_op" where
  "end_packed_dynamic_info c step action e =
     (if gotAllExpectedPackedDynamicInfo e
         \<and> (step = Step_GetDescriptorDynamicInfo \<and> gotAllExpectedDescriptorDynamicInfo e
            \<or> step = Step_GetDynamicInfo \<and> gotAllExpectedDynamicInfo e)
      then checkEnumerationSteps c (if action = PF_Continue then clearEnumerationStep step e else e)
      else e)"

definition onGetDynamicInfoResult ::
    "controller_settings \<Rightarrow> command_status \<Rightarrow> (command_status \<times> 16 word \<times> param list) list
       \<Rightarrow> dynamic_info_parameter list \<Rightarrow> 16 word \<Rightarrow> enumeration_step \<Rightarrow> entity_op" where
  "onGetDynamicInfoResult c status resultParameters sentParameters packetID step e =
     (let (wasExpected, e1) = checkAndClearExpectedPackedDynamicInfo packetID e in
      if \<not> wasExpected then e1
      else
        (let (updatedStatus, e2) =
               (if status \<noteq> Status_Success then (status, e1)
                else if length resultParameters \<noteq> length sentParameters then (Status_ProtocolError, e1)
                else apply_dynamic_infos resultParameters e1);
             (action, e3) =
               (if updatedStatus \<noteq> Status_Success
                then processGetDynamicInfoFailureStatus c updatedStatus sentParameters packetID step requires_1_2 e2
                else (PF_Continue, e2))
         in if action = PF_Fatal then query_error ''GetDynamicInfo'' e3
            else end_packed_dynamic_info c step action e3))"

end
