(* ===== verification/EnumerationRuns.thy ===== *)
theory EnumerationRuns
  imports EnumerationHandlers
begin

text \<open>
  What every operation of the enumeration does to the answers the library waits for: the invariant behind the
  properties of a run.  \<^verbatim>\<open>works\<close> is what an operation inside a handler may do, \<^verbatim>\<open>continues\<close> what the step after
  it may do as well.
\<close>

section \<open>Operations inside a handler\<close>

text \<open>
  The key of a configuration other than the first, when it is retried: the retry reads configuration 0, whose
  answer takes another key.
\<close>

definition orphan_keys :: "expected_key set" where
  "orphan_keys = {E_Descriptor 0 (makeDescriptorKey DescriptorType_Configuration i) | i. i \<noteq> 0}"

definition descriptor_keys :: "controlled_entity \<Rightarrow> expected_key set" where
  "descriptor_keys e = {k \<in> expected_keys e. \<exists>ci d. k = E_Descriptor ci d}"

definition works :: "controlled_entity \<Rightarrow> controlled_entity \<Rightarrow> bool" where
  "works e e' \<longleftrightarrow>
     (\<exists>as. ced_actions e' = ced_actions e @ as \<and> announcements as = []
       \<and> expected_keys e' \<subseteq> expected_keys e \<union> answered_keys (queries_of as) \<union> orphan_keys)
     \<and> descriptor_keys e \<subseteq> expected_keys e'
     \<and> ced_enumerationSteps e \<subseteq> ced_enumerationSteps e'
     \<and> (expected_ok e \<longrightarrow> expected_ok e')
     \<and> (compatible_ok e \<longrightarrow> compatible_ok e')
     \<and> (ced_gotFatalEnumerateError e \<longrightarrow> ced_gotFatalEnumerateError e')
     \<and> ced_advertised e' = ced_advertised e"

lemma works_refl [simp, intro]: "works e e"
  by (auto simp: works_def descriptor_keys_def intro!: exI [of _ "[]"])

lemma works_trans [trans]:
  assumes a: "works e e'" and b: "works e' e''"
  shows "works e e''"
proof -
  from a obtain as where as: "ced_actions e' = ced_actions e @ as" "announcements as = []"
      "expected_keys e' \<subseteq> expected_keys e \<union> answered_keys (queries_of as) \<union> orphan_keys" by (auto simp: works_def)
  from b obtain bs where bs: "ced_actions e'' = ced_actions e' @ bs" "announcements bs = []"
      "expected_keys e'' \<subseteq> expected_keys e' \<union> answered_keys (queries_of bs) \<union> orphan_keys" by (auto simp: works_def)
  have "\<exists>cs. ced_actions e'' = ced_actions e @ cs \<and> announcements cs = []
      \<and> expected_keys e'' \<subseteq> expected_keys e \<union> answered_keys (queries_of cs) \<union> orphan_keys"
    using as bs by (intro exI [of _ "as @ bs"]) auto
  moreover have "descriptor_keys e \<subseteq> expected_keys e''"
    using a b by (auto simp: works_def descriptor_keys_def)
  ultimately show ?thesis using a b by (auto simp: works_def)
qed

lemma works_fold: "(\<And>x e. works e (f x e)) \<Longrightarrow> works e (fold f xs e)"
  by (induction xs arbitrary: e) (auto intro: works_trans)

lemma asks_works: "asks e e' \<Longrightarrow> works e e'"
  by (auto simp: asks_def works_def descriptor_keys_def compatible_ok_def)

text \<open>An operation that neither asks nor announces.\<close>

lemma works_quiet:
  assumes "ced_actions e' = ced_actions e @ as" "queries_of as = []" "announcements as = []"
    "expected_keys e' \<subseteq> expected_keys e" "descriptor_keys e \<subseteq> expected_keys e'"
    "ced_enumerationSteps e \<subseteq> ced_enumerationSteps e'" "expected_ok e \<Longrightarrow> expected_ok e'"
    "compatible_ok e \<Longrightarrow> compatible_ok e'" "ced_gotFatalEnumerateError e \<Longrightarrow> ced_gotFatalEnumerateError e'"
    "ced_advertised e' = ced_advertised e"
  shows "works e e'"
  using assms by (auto simp: works_def)

lemma descriptor_keys_expected: "descriptor_keys e \<subseteq> expected_keys e"
  by (auto simp: descriptor_keys_def)

lemma act_works: "action_query a = [] \<Longrightarrow> announcement a = [] \<Longrightarrow> works e (act a e)"
  by (rule works_quiet [of _ _ "[a]"]) (auto simp: descriptor_keys_expected compatible_ok_def)

lemma updated_works [intro]: "works e (updated n ps e)"
  by (simp add: updated_def act_works)

text \<open>The fields no key and no flag depends on.\<close>

lemma field_works:
  "works e (e\<lparr>ced_entity := en\<rparr>)"
  "works e (e\<lparr>ced_entityNode := n\<rparr>)"
  "works e (e\<lparr>ced_ignoreCachedEntityModel := b\<rparr>)"
  "works e (e\<lparr>ced_milanCompatibilityVersion := v\<rparr>)"
  "works e (e\<lparr>ced_milanInfo := i\<rparr>)"
  "works e (e\<lparr>ced_isPackedDynamicInfoSupported := b\<rparr>)"
  "works e (e\<lparr>ced_isUsingCachedEntityModel := b\<rparr>)"
  "works e (e\<lparr>ced_areUnsolicitedNotificationsSupported := b\<rparr>)"
  "works e (e\<lparr>ced_isSubscribedToUnsolicitedNotifications := b\<rparr>)"
  "works e (e\<lparr>ced_expectedAemSequenceID := x\<rparr>)"
  "works e (e\<lparr>ced_expectedMvuSequenceID := x\<rparr>)"
  "works e (e\<lparr>ced_acquireState := a\<rparr>)"
  "works e (e\<lparr>ced_owningControllerID := u\<rparr>)"
  "works e (e\<lparr>ced_lockState := l\<rparr>)"
  "works e (e\<lparr>ced_lockingControllerID := u\<rparr>)"
  "works e (e\<lparr>ced_checkDynamicInfoSupportedRetryCount := r\<rparr>)"
  "works e (e\<lparr>ced_queryGetDynamicInfoRetryCount := r\<rparr>)"
  "works e (e\<lparr>ced_registerUnsolRetryCount := r\<rparr>)"
  "works e (e\<lparr>ced_queryMilanInfoRetryCount := r\<rparr>)"
  "works e (e\<lparr>ced_queryDescriptorRetryCount := r\<rparr>)"
  "works e (e\<lparr>ced_queryDynamicInfoRetryCount := r\<rparr>)"
  "works e (e\<lparr>ced_queryDescriptorDynamicInfoRetryCount := r\<rparr>)"
  "works e (e\<lparr>ced_compatibilityChangedEvents := evs\<rparr>)"
  "works e (setGetFatalEnumerationError e)"
  "works e (addEnumerationStep s e)"
  by (rule works_quiet [of _ _ "[]"];
      force simp: descriptor_keys_def expected_keys_def expected_ok_def compatible_ok_def setGetFatalEnumerationError_def
        addEnumerationStep_def)+

lemmas then_field_works = field_works [THEN works_trans [rotated]]

section \<open>Flags\<close>

lemma change_compatibility_works:
  assumes "compatible_ok e \<Longrightarrow> compatible_ok (e\<lparr>ced_compatibilityFlags := flags\<rparr>)"
  shows "works e (change_compatibility ctrl flags version clause e)"
  by (rule works_quiet [of _ _ "if ctrl \<and> ced_advertised e then [Observe (OnCompatibilityChanged flags version)] else []"])
    (use assms in \<open>auto simp: change_compatibility_def notify_compatibility_def addCompatibilityChangedEvent_def Let_def
      descriptor_keys_def expected_keys_def expected_ok_def compatible_ok_def act_def\<close>)

lemma notify_compatibility_works [intro]: "works e (notify_compatibility e)"
  by (simp add: notify_compatibility_def act_works)

lemma flags_works:
  assumes "compatible_ok e \<Longrightarrow> compatible_ok (e\<lparr>ced_compatibilityFlags := flags\<rparr>)"
  shows "works e (e\<lparr>ced_compatibilityFlags := flags\<rparr>)"
  by (rule works_quiet [of _ _ "[]"])
    (use assms in \<open>auto simp: descriptor_keys_def expected_keys_def expected_ok_def compatible_ok_def\<close>)

lemma removeCompatibilityFlag_works [intro]: "works e (removeCompatibilityFlag ctrl f clause e)"
proof -
  have "removeCompatibilityFlag ctrl f clause e = e
      \<or> (\<exists>flags version. removeCompatibilityFlag ctrl f clause e = change_compatibility ctrl flags version clause e
           \<and> (compatible_ok e \<longrightarrow> compatible_ok (e\<lparr>ced_compatibilityFlags := flags\<rparr>)))"
    unfolding removeCompatibilityFlag_def Let_def
    by (cases f; auto split: if_splits prod.split simp: compatible_ok_def)
  thus ?thesis by (elim disjE exE conjE) (simp_all add: change_compatibility_works)
qed

lemma setMisbehavingCompatibilityFlag_works [intro]: "works e (setMisbehavingCompatibilityFlag ctrl clause e)"
proof (cases "Compat_Misbehaving \<in> ced_compatibilityFlags e")
  case False
  let ?e1 = "removeCompatibilityFlag ctrl Compat_IEEE17221 clause e"
  have "works ?e1 (?e1\<lparr>ced_compatibilityFlags := insert Compat_Misbehaving (ced_compatibilityFlags ?e1)\<rparr>)"
    by (rule flags_works) (auto simp: compatible_ok_def removeCompatibilityFlag_flags(1))
  hence "works e (?e1\<lparr>ced_compatibilityFlags := insert Compat_Misbehaving (ced_compatibilityFlags ?e1)\<rparr>)"
    by (blast intro: works_trans)
  thus ?thesis
    using False by (auto simp: setMisbehavingCompatibilityFlag_def Let_def intro: works_trans)
qed (simp add: setMisbehavingCompatibilityFlag_def)

lemma setMilanWarningCompatibilityFlag_works [intro]: "works e (setMilanWarningCompatibilityFlag ctrl clause e)"
  by (auto simp: setMilanWarningCompatibilityFlag_def compatible_ok_def intro!: change_compatibility_works)

lemma addCompatibilityFlag_works [intro]: "works e (addCompatibilityFlag ctrl f e)"
proof -
  have changed: "works e (if ced_compatibilityFlags e \<noteq> flags
      then if ctrl then notify_compatibility (e\<lparr>ced_compatibilityFlags := flags\<rparr>) else e\<lparr>ced_compatibilityFlags := flags\<rparr> else e)"
    if "compatible_ok e \<Longrightarrow> compatible_ok (e\<lparr>ced_compatibilityFlags := flags\<rparr>)" for flags
    using flags_works [OF that] by (auto intro: works_trans)
  show ?thesis
  proof (cases f)
    case Compat_IEEE17221
    show ?thesis unfolding addCompatibilityFlag_def Let_def Compat_IEEE17221 compatibility_flag.case
      by (rule changed) (auto simp: compatible_ok_def)
  next
    case Compat_Milan
    show ?thesis unfolding addCompatibilityFlag_def Let_def Compat_Milan compatibility_flag.case
      by (rule changed) (auto simp: compatible_ok_def)
  next
    case Compat_IEEE17221Warning
    show ?thesis unfolding addCompatibilityFlag_def Let_def Compat_IEEE17221Warning compatibility_flag.case
      by (rule changed) (auto simp: compatible_ok_def)
  qed (auto simp: addCompatibilityFlag_def Let_def)
qed

lemma decreaseMilanCompatibilityVersion_works [intro]: "works e (decreaseMilanCompatibilityVersion ctrl v clause e)"
  by (auto simp: decreaseMilanCompatibilityVersion_def compatible_ok_def intro!: change_compatibility_works)

lemma checkMilanRequirements_works [intro]: "works e (checkMilanRequirements rs clause e)"
  by (auto simp: checkMilanRequirements_def split: option.split)

lemma remove_if_Milan_works [intro]: "works e (remove_if_Milan clause e)"
  by (auto simp: remove_if_Milan_def)

lemma require_counters_works [intro]: "works e (require_counters mandatory clause valid e)"
  by (auto simp: require_counters_def)

lemma if_Milan_works: "works e (f e) \<Longrightarrow> works e (if_Milan f e)"
  by (simp add: if_Milan_def)

section \<open>Failures\<close>

lemma retry_timer_works:
  "works e (snd (getCheckDynamicInfoSupportedRetryTimer e))" "works e (snd (getRegisterUnsolRetryTimer e))"
  "works e (snd (getGetDynamicInfoRetryTimer e))" "works e (snd (getQueryMilanInfoRetryTimer e))"
  "works e (snd (getQueryDescriptorRetryTimer e))" "works e (snd (getQueryDynamicInfoRetryTimer e))"
  "works e (snd (getQueryDescriptorDynamicInfoRetryTimer e))"
  by (simp_all add: getCheckDynamicInfoSupportedRetryTimer_def getRegisterUnsolRetryTimer_def getGetDynamicInfoRetryTimer_def
      getQueryMilanInfoRetryTimer_def getQueryDescriptorRetryTimer_def getQueryDynamicInfoRetryTimer_def
      getQueryDescriptorDynamicInfoRetryTimer_def Let_def field_works)

lemma retry_timer_obtain:
  assumes "works e (snd (timer e))"
  obtains s d e1 where "timer e = ((s, d), e1)" "works e e1"
  using assms by (metis prod.collapse snd_conv)

lemma queryDescriptor_works:
  assumes "descriptor_queried t"
    "query_key (Q_Descriptor ci t i) = Some (E_Descriptor ci (makeDescriptorKey t i))
       \<or> E_Descriptor ci (makeDescriptorKey t i) \<in> orphan_keys"
  shows "works e (queryDescriptor ci t i d e)"
proof (cases "query_key (Q_Descriptor ci t i) = Some (E_Descriptor ci (makeDescriptorKey t i))")
  case True
  with assms(1) show ?thesis by (rule queryDescriptor_asks [THEN asks_works])
next
  case False
  with assms have o: "E_Descriptor ci (makeDescriptorKey t i) \<in> orphan_keys" by simp
  let ?as = "[if d = 0 then Send (Q_Descriptor ci t i) else Delay d (Q_Descriptor ci t i)]"
  have e': "ced_actions (queryDescriptor ci t i d e) = ced_actions e @ ?as"
    "expected_keys (queryDescriptor ci t i d e) = insert (E_Descriptor ci (makeDescriptorKey t i)) (expected_keys e)"
    using assms(1) by (simp_all add: queryDescriptor_def send_query_def expected_keys_set)
      (simp_all add: setDescriptorExpected_def)
  have "expected_ok e \<Longrightarrow> expected_ok (queryDescriptor ci t i d e)"
    "ced_enumerationSteps (queryDescriptor ci t i d e) = ced_enumerationSteps e"
    "ced_compatibilityFlags (queryDescriptor ci t i d e) = ced_compatibilityFlags e"
    "ced_gotFatalEnumerateError (queryDescriptor ci t i d e) = ced_gotFatalEnumerateError e"
    "ced_advertised (queryDescriptor ci t i d e) = ced_advertised e"
    by (simp_all add: queryDescriptor_def send_query_def Let_def) (simp_all add: setDescriptorExpected_def expected_ok_def)
  with e' o show ?thesis
    unfolding works_def by (auto simp: descriptor_keys_def compatible_ok_def)
qed

lemma processEmptyGetDynamicInfoFailureStatus_works:
  "works e (snd (processEmptyGetDynamicInfoFailureStatus c st rs e))"
proof -
  obtain s d e1 where r: "getCheckDynamicInfoSupportedRetryTimer e = ((s, d), e1)" and w: "works e e1"
    by (rule retry_timer_obtain [OF retry_timer_works(1)])
  show ?thesis
    unfolding processEmptyGetDynamicInfoFailureStatus_def Let_def r prod.case
    by (auto intro: w w [THEN works_trans] start_asks [THEN asks_works])
qed

lemma processRegisterUnsolFailureStatus_works:
  "works e (snd (processRegisterUnsolFailureStatus c st rs e))"
proof -
  obtain s d e1 where r: "getRegisterUnsolRetryTimer e = ((s, d), e1)" and w: "works e e1"
    by (rule retry_timer_obtain [OF retry_timer_works(2)])
  show ?thesis
    unfolding processRegisterUnsolFailureStatus_def Let_def r prod.case
    by (auto intro: w w [THEN works_trans] start_asks [THEN asks_works] then_field_works)
qed

lemma processGetMilanInfoFailureStatus_works:
  "works e (snd (processGetMilanInfoFailureStatus st t rs e))"
proof -
  obtain s d e1 where r: "getQueryMilanInfoRetryTimer e = ((s, d), e1)" and w: "works e e1"
    by (rule retry_timer_obtain [OF retry_timer_works(4)])
  show ?thesis
    unfolding processGetMilanInfoFailureStatus_def Let_def r prod.case
    by (auto intro: w w [THEN works_trans] queryMilanInfo_asks [THEN asks_works])
qed

lemma processGetStaticModelFailureStatus_works:
  assumes "descriptor_queried t"
    "query_key (Q_Descriptor ci t i) = Some (E_Descriptor ci (makeDescriptorKey t i))
       \<or> E_Descriptor ci (makeDescriptorKey t i) \<in> orphan_keys"
  shows "works e (snd (processGetStaticModelFailureStatus c st ci t i e))"
proof -
  obtain s d e1 where r: "getQueryDescriptorRetryTimer e = ((s, d), e1)" and w: "works e e1"
    by (rule retry_timer_obtain [OF retry_timer_works(5)])
  show ?thesis
    unfolding processGetStaticModelFailureStatus_def Let_def r prod.case
    by (auto intro: w w [THEN works_trans] queryDescriptor_works [OF assms])
qed

lemma processGetAecpDynamicInfoFailureStatus_works:
  assumes "t \<noteq> DI_OutputStreamConnection" "dynamic_info_address t ci i sub = (ci, i, sub)"
  shows "works e (snd (processGetAecpDynamicInfoFailureStatus c st ci t i sub rs e))"
proof -
  obtain s d e1 where r: "getQueryDynamicInfoRetryTimer e = ((s, d), e1)" and w: "works e e1"
    by (rule retry_timer_obtain [OF retry_timer_works(6)])
  show ?thesis
    unfolding processGetAecpDynamicInfoFailureStatus_def Let_def r prod.case
    by (auto intro: w w [THEN works_trans] queryDynamicInfo_asks [OF assms, THEN asks_works])
qed

lemma processGetMvuDynamicInfoFailureStatus_works:
  assumes "t \<noteq> DI_OutputStreamConnection" "dynamic_info_address t ci i sub = (ci, i, sub)"
  shows "works e (snd (processGetMvuDynamicInfoFailureStatus c st ci t i sub rs e))"
proof -
  obtain st' e1 where m: "mvu_updatedStatus c st t e = (st', e1)" by fastforce
  hence e1: "works e e1" by (auto simp: mvu_updatedStatus_def split: if_splits)
  obtain s d e2 where r: "getQueryDynamicInfoRetryTimer e1 = ((s, d), e2)" and w: "works e1 e2"
    by (rule retry_timer_obtain [OF retry_timer_works(6)])
  have "works e1 (snd (processGetMvuDynamicInfoFailureStatus c st ci t i sub rs e))"
    unfolding processGetMvuDynamicInfoFailureStatus_def Let_def m prod.case r
    by (auto intro: w w [THEN works_trans] queryDynamicInfo_asks [OF assms, THEN asks_works])
  with e1 show ?thesis by (rule works_trans)
qed

lemma acmp_failure_works:
  assumes "\<And>d e. works e (again d e)"
  shows "works e (snd (acmp_failure st rs again e))"
proof -
  obtain s d e1 where r: "getQueryDynamicInfoRetryTimer e = ((s, d), e1)" and w: "works e e1"
    by (rule retry_timer_obtain [OF retry_timer_works(6)])
  show ?thesis
    unfolding acmp_failure_def Let_def r prod.case
    by (auto intro: w w [THEN works_trans] assms)
qed

lemma acmp_failures_work:
  "t \<noteq> DI_OutputStreamConnection \<Longrightarrow> dynamic_info_address t ci i 0 = (ci, i, 0)
     \<Longrightarrow> works e (snd (processGetAcmpDynamicInfoFailureStatus st ci t i rs e))"
  "works e (snd (processGetAcmpConnectionFailureStatus st ci t' talker sub rs e))"
  by (auto simp: processGetAcmpDynamicInfoFailureStatus_def processGetAcmpConnectionFailureStatus_def
      intro!: acmp_failure_works queryDynamicInfo_asks [THEN asks_works] queryTalkerStreamConnection_asks [THEN asks_works])

text \<open>The descriptor read instead of dynamic information, and the fallbacks.\<close>

lemma expected_pairs_put: "expected_pairs (al_put k es m) \<subseteq> Pair k ` es \<union> expected_pairs m"
  by (induction m) auto

lemma expected_pairs_erase_subset: "expected_pairs (snd (expected_erase k x m)) \<subseteq> expected_pairs m"
proof (cases "al_get k m")
  case (Some es)
  have "Pair k ` es \<subseteq> expected_pairs m"
    using Some by (induction m) (auto split: if_splits)
  moreover have "snd (expected_erase k x m) = al_put k (es - {x}) m" by (simp add: expected_erase_def Some)
  moreover have "Pair k ` (es - {x}) \<subseteq> Pair k ` es" by auto
  ultimately show ?thesis using expected_pairs_put [of k "es - {x}" m] by (simp only:) blast
qed (simp add: expected_erase_def)

lemma expected_ddi_subset_works:
  assumes "expected_pairs m \<subseteq> expected_pairs (ced_expectedDescriptorDynamicInfo e)"
    "al_ok (ced_expectedDescriptorDynamicInfo e) \<Longrightarrow> al_ok m"
  shows "works e (e\<lparr>ced_expectedDescriptorDynamicInfo := m\<rparr>)"
proof (rule works_quiet [of _ _ "[]"])
  show "expected_keys (e\<lparr>ced_expectedDescriptorDynamicInfo := m\<rparr>) \<subseteq> expected_keys e"
    using image_mono [OF assms(1), of "case_prod E_DescriptorDynamicInfo"] unfolding expected_keys_def by auto
  show "descriptor_keys e \<subseteq> expected_keys (e\<lparr>ced_expectedDescriptorDynamicInfo := m\<rparr>)"
    by (auto simp: descriptor_keys_def expected_keys_def split: if_splits)
qed (use assms(2) in \<open>auto simp: expected_ok_def compatible_ok_def\<close>)

lemma forget_works: "works e (forget_descriptor_info ci t i e)"
  by (auto simp: forget_descriptor_info_def checkAndClearExpectedDescriptorDynamicInfo_def Let_def split_beta
      intro!: expected_ddi_subset_works expected_pairs_erase_subset)

lemma clear_works:
  "works e (clearAllExpectedDescriptorDynamicInfo e)" "works e (clearAllExpectedDynamicInfo e)"
  "works e (clearAllExpectedPackedDynamicInfo e)"
proof -
  show "works e (clearAllExpectedDescriptorDynamicInfo e)"
    unfolding clearAllExpectedDescriptorDynamicInfo_def by (rule expected_ddi_subset_works) (simp_all add: al_ok_def)
  show "works e (clearAllExpectedDynamicInfo e)"
    by (rule works_quiet [of _ _ "[]"]) (auto simp: clearAllExpectedDynamicInfo_def descriptor_keys_def expected_keys_def
        expected_ok_def compatible_ok_def al_ok_def split: if_splits)
  show "works e (clearAllExpectedPackedDynamicInfo e)"
    by (rule works_quiet [of _ _ "[]"]) (auto simp: clearAllExpectedPackedDynamicInfo_def descriptor_keys_def
        expected_keys_def expected_ok_def compatible_ok_def split: if_splits)
qed

lemma corresponding_descriptor_queried:
  "corresponding_descriptor t = Some (dt, ts) \<Longrightarrow> descriptor_queried dt \<and> dt \<noteq> DescriptorType_Entity
     \<and> (dt = DescriptorType_Configuration \<longrightarrow> t = DD_ConfigurationName)"
  by (cases t) (auto simp: descriptor_queried_def DescriptorType_defs)

lemma fetchCorrespondingDescriptor_works:
  assumes "descriptor_dynamic_info_address t i = i"
  shows "works e (snd (fetchCorrespondingDescriptor ci t i e))"
proof (cases "corresponding_descriptor t")
  case (Some d)
  obtain dt ts where d: "d = (dt, ts)" by fastforce
  have "query_key (Q_Descriptor ci dt i) = Some (E_Descriptor ci (makeDescriptorKey dt i))"
    using corresponding_descriptor_queried [of t dt ts] Some d assms
    by (auto simp: query_key_def descriptor_dynamic_info_address_def)
  thus ?thesis
    using corresponding_descriptor_queried [of t dt ts] Some d
    by (auto simp: fetchCorrespondingDescriptor_def
        intro!: works_trans [OF works_fold queryDescriptor_works] forget_works)
qed (simp add: fetchCorrespondingDescriptor_def)

lemma fetch_or_restart_works:
  assumes "descriptor_dynamic_info_address t i = i"
  shows "works e (fetch_or_restart ci t i e)"
  using fetchCorrespondingDescriptor_works [OF assms, of e ci]
  by (auto simp: fetch_or_restart_def split: prod.split bool.split
      intro!: then_field_works clear_works [THEN works_trans [rotated]])

lemma processGetDescriptorDynamicInfoFailureStatus_works:
  assumes "descriptor_dynamic_info_address t i = i"
  shows "works e (snd (processGetDescriptorDynamicInfoFailureStatus c st ci t i rs e))"
proof -
  note fallback = fetch_or_restart_works [OF assms]
  obtain s d e1 where r: "getQueryDescriptorDynamicInfoRetryTimer e = ((s, d), e1)" and w: "works e e1"
    by (rule retry_timer_obtain [OF retry_timer_works(7)])
  show ?thesis
    unfolding processGetDescriptorDynamicInfoFailureStatus_def Let_def r prod.case
    by (auto intro: w w [THEN works_trans] queryDescriptorDynamicInfo_asks [OF assms, THEN asks_works] fallback
        works_trans [OF _ fallback])
qed

lemma packed_fallback_works: "works e (packed_fallback step e)"
  by (auto simp: packed_fallback_def Let_def
      intro!: then_field_works clear_works [THEN works_trans [rotated]])

lemma processGetDynamicInfoFailureStatus_works:
  "works e (snd (processGetDynamicInfoFailureStatus c st ps n step rs e))"
proof -
  obtain s d e1 where r: "getGetDynamicInfoRetryTimer e = ((s, d), e1)" and w: "works e e1"
    by (rule retry_timer_obtain [OF retry_timer_works(3)])
  show ?thesis
    unfolding processGetDynamicInfoFailureStatus_def Let_def r prod.case
    by (auto intro: w w [THEN works_trans] packed_fallback_works works_trans [OF _ packed_fallback_works]
        queryPackedDynamicInfo_asks [THEN asks_works])
qed

section \<open>Going on\<close>

text \<open>
  An enumeration is at work while something is expected; otherwise it ended with the advertisement of the
  entity or a fatal error.  It is stuck when it waits for the key of a retried configuration.
\<close>

definition progress :: "controlled_entity \<Rightarrow> bool" where
  "progress e \<longleftrightarrow> expected_keys e \<noteq> {} \<or> ced_gotFatalEnumerateError e \<or> ced_advertised e"

definition stuck :: "controlled_entity \<Rightarrow> bool" where
  "stuck e \<longleftrightarrow> \<not> ced_advertised e \<and> (ced_gotFatalEnumerateError e
     \<or> Step_GetStaticModel \<in> ced_enumerationSteps e \<and> expected_keys e \<inter> orphan_keys \<noteq> {})"

definition continues :: "controlled_entity \<Rightarrow> controlled_entity \<Rightarrow> bool" where
  "continues e e' \<longleftrightarrow>
     (\<exists>as. ced_actions e' = ced_actions e @ as
       \<and> announcements as = (if ced_advertised e' \<and> \<not> ced_advertised e then [True] else [])
       \<and> expected_keys e' \<subseteq> expected_keys e \<union> answered_keys (queries_of as) \<union> orphan_keys)
     \<and> (expected_ok e \<longrightarrow> expected_ok e')
     \<and> (compatible_ok e \<longrightarrow> compatible_ok e')
     \<and> (ced_gotFatalEnumerateError e \<longrightarrow> ced_gotFatalEnumerateError e')
     \<and> (ced_advertised e \<longrightarrow> ced_advertised e')
     \<and> (stuck e \<longrightarrow> stuck e')"

lemma works_continues:
  assumes "works e e'"
  shows "continues e e'"
proof -
  have "expected_keys e \<inter> orphan_keys \<subseteq> descriptor_keys e" by (auto simp: descriptor_keys_def orphan_keys_def)
  hence "stuck e \<Longrightarrow> stuck e'" using assms by (auto simp: works_def stuck_def)
  thus ?thesis using assms by (auto simp: works_def continues_def)
qed

lemma continues_refl [simp, intro]: "continues e e"
  by (simp add: works_continues)

lemma continues_trans [trans]:
  assumes a: "continues e e'" and b: "continues e' e''"
  shows "continues e e''"
proof -
  from a obtain as where as: "ced_actions e' = ced_actions e @ as"
      "announcements as = (if ced_advertised e' \<and> \<not> ced_advertised e then [True] else [])"
      "expected_keys e' \<subseteq> expected_keys e \<union> answered_keys (queries_of as) \<union> orphan_keys" by (auto simp: continues_def)
  from b obtain bs where bs: "ced_actions e'' = ced_actions e' @ bs"
      "announcements bs = (if ced_advertised e'' \<and> \<not> ced_advertised e' then [True] else [])"
      "expected_keys e'' \<subseteq> expected_keys e' \<union> answered_keys (queries_of bs) \<union> orphan_keys" by (auto simp: continues_def)
  have adv: "ced_advertised e \<Longrightarrow> ced_advertised e'" "ced_advertised e' \<Longrightarrow> ced_advertised e''"
    using a b by (auto simp: continues_def)
  have "\<exists>cs. ced_actions e'' = ced_actions e @ cs
      \<and> announcements cs = (if ced_advertised e'' \<and> \<not> ced_advertised e then [True] else [])
      \<and> expected_keys e'' \<subseteq> expected_keys e \<union> answered_keys (queries_of cs) \<union> orphan_keys"
    using as bs adv by (intro exI [of _ "as @ bs"]) auto
  thus ?thesis using a b by (auto simp: continues_def)
qed

lemma clear_other_step_continues: "s \<noteq> Step_GetStaticModel \<Longrightarrow> continues e (clearEnumerationStep s e)"
  by (auto simp: continues_def clearEnumerationStep_def stuck_def expected_keys_def expected_ok_def compatible_ok_def
      intro!: exI [of _ "[]"])

lemma advertise_continues:
  assumes "Step_GetStaticModel \<notin> ced_enumerationSteps e"
  shows "continues e (advertise_entity c e)"
proof (cases "ced_advertised e \<or> ced_gotFatalEnumerateError e")
  case False
  have k: "expected_keys (setGetFatalEnumerationError x) = expected_keys x"
    "expected_keys (x\<lparr>ced_advertised := True\<rparr>) = expected_keys x"
    "expected_ok (setGetFatalEnumerationError x) = expected_ok x" "expected_ok (x\<lparr>ced_advertised := True\<rparr>) = expected_ok x"
    "compatible_ok (setGetFatalEnumerationError x) = compatible_ok x"
    "compatible_ok (x\<lparr>ced_advertised := True\<rparr>) = compatible_ok x" "compatible_ok (act a x) = compatible_ok x" for x a
    by (simp_all add: setGetFatalEnumerationError_def expected_keys_def expected_ok_def compatible_ok_def)
  have "\<not> stuck e" using False assms by (simp add: stuck_def)
  thus ?thesis
    using False by (auto simp: continues_def advertise_entity_def Let_def k) (auto simp: setGetFatalEnumerationError_def)
qed (auto simp: advertise_entity_def)

lemma expected_kinds:
  "gotAllExpectedMilanInfo e \<or> progress e" "gotAllExpectedDescriptors e \<or> progress e"
  "gotAllExpectedDynamicInfo e \<or> progress e" "gotAllExpectedDescriptorDynamicInfo e \<or> progress e"
  "gotAllExpectedPackedDynamicInfo e \<or> progress e" "gotExpectedCheckDynamicInfoSupported e \<or> progress e"
  "gotExpectedRegisterUnsol e \<or> progress e"
  by (auto simp: progress_def expected_keys_def gotAllExpectedMilanInfo_def gotAllExpectedDescriptors_def
      gotAllExpectedDynamicInfo_def gotAllExpectedDescriptorDynamicInfo_def gotAllExpectedPackedDynamicInfo_def
      gotExpectedCheckDynamicInfoSupported_def gotExpectedRegisterUnsol_def expected_none_iff)

lemma check_continues: "continues e (checkEnumerationSteps c e) \<and> progress (checkEnumerationSteps c e)"
proof (induction c e rule: checkEnumerationSteps.induct)
  case (1 c e)
  note start = start_asks [THEN asks_works, THEN works_continues]
  consider (milan) "Step_GetMilanInfo \<in> ced_enumerationSteps e"
    | (packed) "Step_GetMilanInfo \<notin> ced_enumerationSteps e" "Step_CheckPackedDynamicInfoSupported \<in> ced_enumerationSteps e"
    | (unsol) "Step_GetMilanInfo \<notin> ced_enumerationSteps e" "Step_CheckPackedDynamicInfoSupported \<notin> ced_enumerationSteps e"
        "Step_RegisterUnsol \<in> ced_enumerationSteps e"
    | (static) "Step_GetMilanInfo \<notin> ced_enumerationSteps e" "Step_CheckPackedDynamicInfoSupported \<notin> ced_enumerationSteps e"
        "Step_RegisterUnsol \<notin> ced_enumerationSteps e" "Step_GetStaticModel \<in> ced_enumerationSteps e"
    | (rest) "Step_GetMilanInfo \<notin> ced_enumerationSteps e" "Step_CheckPackedDynamicInfoSupported \<notin> ced_enumerationSteps e"
        "Step_RegisterUnsol \<notin> ced_enumerationSteps e" "Step_GetStaticModel \<notin> ced_enumerationSteps e" by blast
  thus ?case
  proof cases
    case milan
    have c: "continues e (clearEnumerationStep Step_GetMilanInfo (start_MilanInfo e))"
      by (rule continues_trans [OF start(1) clear_other_step_continues]) simp
    show ?thesis
      using milan 1(1) [OF refl milan refl] expected_kinds(1) [of "start_MilanInfo e"] start(1) [of e] c
      by (auto simp: checkEnumerationSteps.simps [of c e] Let_def intro: continues_trans)
  next
    case packed
    have "progress (checkDynamicInfoSupported e)"
      by (simp add: progress_def checkDynamicInfoSupported_def expected_keys_set)
    thus ?thesis using packed start(2) [of e] by (simp add: checkEnumerationSteps.simps [of c e])
  next
    case unsol
    have "progress (registerUnsol e)" by (simp add: progress_def registerUnsol_def expected_keys_set)
    thus ?thesis using unsol start(3) [of e] by (simp add: checkEnumerationSteps.simps [of c e])
  next
    case static
    have "progress (getStaticModel e)"
      by (simp add: progress_def getStaticModel_def queryDescriptor_def descriptor_queried_def send_query_def expected_keys_set)
    thus ?thesis using static start(4) [of e] by (simp add: checkEnumerationSteps.simps [of c e])
  next
    case rest
    let ?e1 = "onEntityModelEnumerated e"
    have e1: "continues e ?e1" by (rule start(7))
    have c2: "continues e (clearEnumerationStep Step_GetDescriptorDynamicInfo (start_DescriptorDynamicInfo ?e1))"
      by (rule continues_trans [OF continues_trans [OF e1 start(6)] clear_other_step_continues]) simp
    have c3: "continues e (clearEnumerationStep Step_GetDynamicInfo (start_DynamicInfo ?e1))"
      by (rule continues_trans [OF continues_trans [OF e1 start(5)] clear_other_step_continues]) simp
    have c4: "continues e (advertise_entity c ?e1)"
      using rest by (intro continues_trans [OF e1 advertise_continues]) (simp add: start_steps)
    have p4: "progress (advertise_entity c ?e1)"
      by (auto simp: progress_def advertise_entity_def setGetFatalEnumerationError_def Let_def)
    show ?thesis
      using rest 1(2) [OF refl rest refl] 1(3) [OF refl rest refl] c2 c3 c4 p4
        expected_kinds(4) [of "start_DescriptorDynamicInfo ?e1"] expected_kinds(3) [of "start_DynamicInfo ?e1"]
        continues_trans [OF e1 start(6)] continues_trans [OF e1 start(5)]
      by (auto simp: checkEnumerationSteps.simps [of c e] Let_def intro: continues_trans)
  qed
qed

section \<open>Handlers\<close>

text \<open>
  A handler takes the key of its query, if it is expected, and goes on.  After a fatal error it does nothing.
\<close>

definition cleared :: "expected_key \<Rightarrow> controlled_entity \<Rightarrow> controlled_entity \<Rightarrow> bool" where
  "cleared k e e1 \<longleftrightarrow>
     (\<exists>as. ced_actions e1 = ced_actions e @ as \<and> queries_of as = [] \<and> announcements as = [])
     \<and> expected_keys e1 = (if ced_gotFatalEnumerateError e then expected_keys e else expected_keys e - {k})
     \<and> expected_ok e1
     \<and> ced_enumerationSteps e1 = ced_enumerationSteps e
     \<and> ced_compatibilityFlags e1 = ced_compatibilityFlags e
     \<and> ced_gotFatalEnumerateError e1 = ced_gotFatalEnumerateError e
     \<and> ced_advertised e1 = ced_advertised e"

definition taken :: "expected_key \<Rightarrow> controlled_entity \<Rightarrow> bool \<times> controlled_entity \<Rightarrow> bool" where
  "taken k e r \<longleftrightarrow> cleared k e (snd r) \<and> (fst r \<longleftrightarrow> k \<in> expected_keys e \<and> \<not> ced_gotFatalEnumerateError e)"

definition settles :: "expected_key \<Rightarrow> controlled_entity \<Rightarrow> controlled_entity \<Rightarrow> bool" where
  "settles k e e' \<longleftrightarrow> (expected_ok e \<longrightarrow>
     (\<exists>e1. cleared k e e1 \<and> continues e1 e') \<and> (progress e \<longrightarrow> progress e')
     \<and> (ced_gotFatalEnumerateError e \<longrightarrow> cleared k e e'))"

lemma query_error_works: "works e (query_error error e)"
  by (simp add: query_error_def works_trans [OF field_works(24) act_works])

lemma query_error_progress: "progress (query_error error e)"
  by (simp add: query_error_def progress_def setGetFatalEnumerationError_def)

lemma handle_answer_settles:
  assumes checked: "expected_ok e \<Longrightarrow> taken k e checked"
    and success: "\<And>e. works e (snd (onSuccess e))" "\<And>e. \<not> fst (onSuccess e) \<Longrightarrow> progress (snd (onSuccess e))"
    and failure: "\<And>e. works e (snd (onFailure e))"
    and finish: "\<And>e. continues e (finish e)" "\<And>e. progress (finish e)"
  shows "settles k e (handle_answer checked s onSuccess onFailure error finish)"
proof (cases "expected_ok e")
  case True
  obtain was e1 where c: "checked = (was, e1)" by fastforce
  from checked [OF True] c have cl: "cleared k e e1" and was: "was \<longleftrightarrow> k \<in> expected_keys e \<and> \<not> ced_gotFatalEnumerateError e"
    by (auto simp: taken_def)
  have unexpected: "\<not> was \<Longrightarrow> progress e \<Longrightarrow> progress e1"
    using cl was by (auto simp: progress_def cleared_def)
  have cont: "continues e1 (handle_answer (True, e1) s onSuccess onFailure error finish)"
    "progress (handle_answer (True, e1) s onSuccess onFailure error finish)"
    using success [of e1] failure [of e1]
    by (auto simp: handle_answer_def finish query_error_progress split: prod.split bool.split
        intro: works_continues continues_trans [OF works_continues finish(1)] works_trans [OF _ query_error_works, THEN works_continues])
  show ?thesis
    using cl unexpected cont was by (cases was) (auto simp: settles_def c handle_answer_def)
qed (simp add: settles_def)

lemma expected_keys_iff:
  "E_MilanInfo m \<in> expected_keys e \<longleftrightarrow> m \<in> ced_expectedMilanInfo e"
  "E_CheckDynamicInfoSupported \<in> expected_keys e \<longleftrightarrow> ced_expectedCheckDynamicInfoSupported e"
  "E_RegisterUnsol \<in> expected_keys e \<longleftrightarrow> ced_expectedRegisterUnsol e"
  "E_PackedDynamicInfo n \<in> expected_keys e \<longleftrightarrow> n \<in> ced_expectedPackedDynamicInfo e"
  "E_Descriptor ci d \<in> expected_keys e \<longleftrightarrow> (ci, d) \<in> expected_pairs (ced_expectedDescriptors e)"
  "E_DynamicInfo ci x \<in> expected_keys e \<longleftrightarrow> (ci, x) \<in> expected_pairs (ced_expectedDynamicInfo e)"
  "E_DescriptorDynamicInfo ci x \<in> expected_keys e \<longleftrightarrow> (ci, x) \<in> expected_pairs (ced_expectedDescriptorDynamicInfo e)"
  by (force simp: expected_keys_def)+

lemma takenI:
  assumes "ced_actions e1 = ced_actions e" "expected_ok e1" "ced_enumerationSteps e1 = ced_enumerationSteps e"
    "ced_compatibilityFlags e1 = ced_compatibilityFlags e" "ced_gotFatalEnumerateError e1 = ced_gotFatalEnumerateError e"
    "ced_advertised e1 = ced_advertised e"
    "\<And>x. x \<in> expected_keys e1 \<longleftrightarrow> x \<in> expected_keys e \<and> (x \<noteq> k \<or> ced_gotFatalEnumerateError e)"
    "was \<longleftrightarrow> k \<in> expected_keys e \<and> \<not> ced_gotFatalEnumerateError e"
  shows "taken k e (was, e1)"
  using assms by (auto simp: taken_def cleared_def)

lemma taken_checks:
  assumes "expected_ok e"
  shows "taken (E_MilanInfo (makeMilanInfoKey m)) e (checkAndClearExpectedMilanInfo m e)"
    "taken E_CheckDynamicInfoSupported e (checkAndClearExpectedCheckDynamicInfoSupported e)"
    "taken E_RegisterUnsol e (checkAndClearExpectedRegisterUnsol e)"
    "taken (E_PackedDynamicInfo n) e (checkAndClearExpectedPackedDynamicInfo n e)"
    "taken (E_Descriptor ci (makeDescriptorKey dt i)) e (checkAndClearExpectedDescriptor ci dt i e)"
    "taken (E_DynamicInfo ci (makeDynamicInfoKey t i sub)) e (checkAndClearExpectedDynamicInfo ci t i sub e)"
    "taken (E_DescriptorDynamicInfo ci (makeDescriptorDynamicInfoKey dd i)) e (checkAndClearExpectedDescriptorDynamicInfo ci dd i e)"
proof -
  note ok = assms [unfolded expected_ok_def]
  show "taken (E_MilanInfo (makeMilanInfoKey m)) e (checkAndClearExpectedMilanInfo m e)"
    unfolding checkAndClearExpectedMilanInfo_def if_distrib [of fst] if_distrib [of snd]
    using ok by (auto intro!: takenI simp: expected_keys_iff expected_ok_def) (case_tac x; auto simp: expected_keys_iff)+
  show "taken E_CheckDynamicInfoSupported e (checkAndClearExpectedCheckDynamicInfoSupported e)"
    unfolding checkAndClearExpectedCheckDynamicInfoSupported_def
    using ok by (auto intro!: takenI simp: expected_keys_iff expected_ok_def) (case_tac x; auto simp: expected_keys_iff)+
  show "taken E_RegisterUnsol e (checkAndClearExpectedRegisterUnsol e)"
    unfolding checkAndClearExpectedRegisterUnsol_def
    using ok by (auto intro!: takenI simp: expected_keys_iff expected_ok_def) (case_tac x; auto simp: expected_keys_iff)+
  show "taken (E_PackedDynamicInfo n) e (checkAndClearExpectedPackedDynamicInfo n e)"
    unfolding checkAndClearExpectedPackedDynamicInfo_def
    using ok by (auto intro!: takenI simp: expected_keys_iff expected_ok_def) (case_tac x; auto simp: expected_keys_iff)+
  show "taken (E_Descriptor ci (makeDescriptorKey dt i)) e (checkAndClearExpectedDescriptor ci dt i e)"
    unfolding checkAndClearExpectedDescriptor_def Let_def split_beta
    using ok by (auto intro!: takenI simp: expected_keys_iff expected_ok_def expected_pairs_erase)
      (case_tac x; auto simp: expected_keys_iff expected_pairs_erase)+
  show "taken (E_DynamicInfo ci (makeDynamicInfoKey t i sub)) e (checkAndClearExpectedDynamicInfo ci t i sub e)"
    unfolding checkAndClearExpectedDynamicInfo_def Let_def split_beta
    using ok by (auto intro!: takenI simp: expected_keys_iff expected_ok_def expected_pairs_erase)
      (case_tac x; auto simp: expected_keys_iff expected_pairs_erase)+
  show "taken (E_DescriptorDynamicInfo ci (makeDescriptorDynamicInfoKey dd i)) e (checkAndClearExpectedDescriptorDynamicInfo ci dd i e)"
    unfolding checkAndClearExpectedDescriptorDynamicInfo_def Let_def split_beta
    using ok by (auto intro!: takenI simp: expected_keys_iff expected_ok_def expected_pairs_erase)
      (case_tac x; auto simp: expected_keys_iff expected_pairs_erase)+
qed

lemma clear_static_continues:
  assumes "gotAllExpectedDescriptors e"
  shows "continues e (clearEnumerationStep Step_GetStaticModel e)"
proof -
  have "expected_keys e \<inter> orphan_keys = {}"
    using assms by (auto simp: gotAllExpectedDescriptors_def expected_none_iff orphan_keys_def expected_keys_iff)
  thus ?thesis
    by (auto simp: continues_def clearEnumerationStep_def stuck_def expected_keys_def expected_ok_def compatible_ok_def
      intro!: exI [of _ "[]"])
qed

lemma finish_step:
  assumes "continues e (clearEnumerationStep s e)"
  shows "continues e (checkEnumerationSteps c (clearEnumerationStep s e))"
  using continues_trans [OF assms] check_continues by blast

lemma end_continues:
  "continues e (end_static_model c e)" "continues e (end_descriptor_dynamic_info c e)" "continues e (end_dynamic_info c e)"
  by (simp_all add: end_static_model_def end_descriptor_dynamic_info_def end_dynamic_info_def
      finish_step clear_static_continues clear_other_step_continues)

lemma end_progress:
  "progress (end_static_model c e)" "progress (end_descriptor_dynamic_info c e)" "progress (end_dynamic_info c e)"
  using expected_kinds [of e]
  by (auto simp: end_static_model_def end_descriptor_dynamic_info_def end_dynamic_info_def check_continues)

definition plain_descriptor :: "descriptor_type \<Rightarrow> bool" where
  "plain_descriptor t \<longleftrightarrow> descriptor_queried t \<and> t \<noteq> DescriptorType_Entity \<and> t \<noteq> DescriptorType_Configuration"

lemma plain_descriptor_key:
  "plain_descriptor t \<Longrightarrow> query_key (Q_Descriptor ci t i) = Some (E_Descriptor ci (makeDescriptorKey t i))"
  by (simp add: plain_descriptor_def query_key_def)

lemma plain_descriptors [simp]:
  "plain_descriptor DescriptorType_AudioUnit" "plain_descriptor DescriptorType_StreamInput"
  "plain_descriptor DescriptorType_StreamOutput" "plain_descriptor DescriptorType_JackInput"
  "plain_descriptor DescriptorType_JackOutput" "plain_descriptor DescriptorType_AvbInterface"
  "plain_descriptor DescriptorType_ClockSource" "plain_descriptor DescriptorType_MemoryObject"
  "plain_descriptor DescriptorType_Locale" "plain_descriptor DescriptorType_Strings"
  "plain_descriptor DescriptorType_StreamPortInput" "plain_descriptor DescriptorType_StreamPortOutput"
  "plain_descriptor DescriptorType_AudioCluster" "plain_descriptor DescriptorType_AudioMap"
  "plain_descriptor DescriptorType_Control" "plain_descriptor DescriptorType_ClockDomain"
  "plain_descriptor DescriptorType_Timing" "plain_descriptor DescriptorType_PtpInstance"
  "plain_descriptor DescriptorType_PtpPort"
  by (simp_all add: plain_descriptor_def descriptor_queried_def DescriptorType_defs)

lemma descriptor_result_settles:
  assumes "descriptor_queried t" "query_key (Q_Descriptor ci t i) = Some (E_Descriptor ci (makeDescriptorKey t i))"
    and "\<And>e. works e (f e)"
  shows "settles (E_Descriptor ci (makeDescriptorKey t i)) e (descriptor_result c st ci t i f err e)"
  unfolding descriptor_result_def
  by (rule handle_answer_settles)
    (use assms in \<open>simp_all add: taken_checks end_continues end_progress processGetStaticModelFailureStatus_works\<close>)

lemma plain_result_settles:
  "plain_descriptor t \<Longrightarrow> (\<And>e. works e (f e))
     \<Longrightarrow> settles (E_Descriptor ci (makeDescriptorKey t i)) e (descriptor_result c st ci t i f err e)"
  by (rule descriptor_result_settles) (simp_all add: plain_descriptor_key, simp add: plain_descriptor_def)

lemma descriptor_dynamic_info_result_settles:
  assumes "descriptor_dynamic_info_address t i = i" and "\<And>e. works e (f e)"
  shows "settles (E_DescriptorDynamicInfo ci (makeDescriptorDynamicInfoKey t i)) e
    (descriptor_dynamic_info_result c st ci t i rs f err e)"
  unfolding descriptor_dynamic_info_result_def
  by (rule handle_answer_settles)
    (use assms in \<open>simp_all add: taken_checks end_continues end_progress processGetDescriptorDynamicInfoFailureStatus_works\<close>)

lemma dynamic_info_result_settles:
  assumes "t \<noteq> DI_OutputStreamConnection" "dynamic_info_address t ci i sub = (ci, i, sub)" and "\<And>e. works e (f e)"
  shows "settles (E_DynamicInfo ci (makeDynamicInfoKey t i sub)) e (dynamic_info_result c st ci t i sub rs f err e)"
  unfolding dynamic_info_result_def
  by (rule handle_answer_settles)
    (use assms in \<open>simp_all add: taken_checks end_continues end_progress processGetAecpDynamicInfoFailureStatus_works\<close>)

lemma mvu_dynamic_info_result_settles:
  assumes "t \<noteq> DI_OutputStreamConnection" "dynamic_info_address t ci i 0 = (ci, i, 0)" and "\<And>e. works e (f e)"
  shows "settles (E_DynamicInfo ci (makeDynamicInfoKey t i 0)) e (mvu_dynamic_info_result c st ci t i rs f err e)"
  unfolding mvu_dynamic_info_result_def
  by (rule handle_answer_settles)
    (use assms in \<open>simp_all add: taken_checks end_continues end_progress processGetMvuDynamicInfoFailureStatus_works\<close>)

section \<open>What the handlers do with an answer\<close>

lemma set_in_configuration_works: "works e (set_in_configuration n ci f e)"
  by (auto simp: set_in_configuration_def act_works split: option.split intro: field_works)

lemma query_children_works: "plain_descriptor t \<Longrightarrow> works e (query_children ci t b n e)"
  unfolding query_children_def
  by (rule works_fold, rule queryDescriptor_works) (simp_all add: plain_descriptor_key, simp add: plain_descriptor_def)

lemma query_children_then: "plain_descriptor t \<Longrightarrow> works e e' \<Longrightarrow> works e (query_children ci t b n e')"
  by (erule works_trans [OF _ query_children_works, rotated])

lemma query_counted_works: "plain_descriptor t \<Longrightarrow> works e (query_counted ci d t e)"
  by (simp add: query_counted_def query_children_works split: option.split)

lemma strings_works: "works e (queryDescriptor ci DescriptorType_Strings i d e)"
  by (rule asks_works) (rule strings_query_asks)

lemma chooseLocale_works: "works e (chooseLocale ci (\<lambda>i. queryDescriptor ci DescriptorType_Strings i 0) e)"
  by (rule asks_works) (rule chooseLocale_asks, rule strings_query_asks)

lemma checked_identifiers_works: "works e (checked_identifiers d e)"
  by (auto simp: checked_identifiers_def Let_def intro!: then_field_works works_trans [OF _ removeCompatibilityFlag_works])

lemma setEntityDescriptor_works: "works e (setEntityDescriptor d e)"
proof -
  have "works e (setGetFatalEnumerationError (e\<lparr>ced_entityNode := EntityNode_new\<rparr>))"
    by (rule works_trans [OF field_works(2) field_works(24)])
  thus ?thesis
    by (auto simp: setEntityDescriptor_def setGetFatalEnumerationError_def intro: field_works)
qed

lemma entity_described_works: "works e (entity_described c d e)"
proof -
  let ?e = "checked_identifiers d (e\<lparr>ced_isUsingCachedEntityModel := False\<rparr>)"
  have e: "works e ?e" by (rule works_trans [OF field_works(7) checked_identifiers_works])
  have conf: "works x (fold (\<lambda>index. queryDescriptor index DescriptorType_Configuration 0 0) is x)" for x "is"
    by (rule works_fold, rule queryDescriptor_works)
      (simp_all add: descriptor_queried_def query_key_def DescriptorType_Configuration_def DescriptorType_Entity_def)
  have cached: "works x e'" if "setCachedEntityNode n d full x = Some e'" for x n full e'
    using that by (auto simp: setCachedEntityNode_def intro!: then_field_works works_trans [OF field_works(2) setEntityDescriptor_works])
  show ?thesis
    unfolding entity_described_def Let_def
  proof (cases "Option.bind (cached_model c d ?e) (\<lambda>n. setCachedEntityNode n d (cse_fullStaticModelEnumeration c) ?e)")
    case None
    thus "works e (case Option.bind (cached_model c d ?e) (\<lambda>n. setCachedEntityNode n d (cse_fullStaticModelEnumeration c) ?e) of
        None \<Rightarrow> fold (\<lambda>index. queryDescriptor index DescriptorType_Configuration 0 0)
                  (map word_of_nat [0..<unat (ed_configurationsCount d)]) (setEntityDescriptor d ?e)
      | Some e1 \<Rightarrow> addEnumerationStep Step_GetDescriptorDynamicInfo e1)"
      by (simp add: works_trans [OF e works_trans [OF setEntityDescriptor_works conf]])
  next
    case (Some e1)
    then obtain n where "setCachedEntityNode n d (cse_fullStaticModelEnumeration c) ?e = Some e1"
      by (cases "cached_model c d ?e") auto
    hence "works e e1" by (rule works_trans [OF e cached])
    thus "works e (case Option.bind (cached_model c d ?e) (\<lambda>n. setCachedEntityNode n d (cse_fullStaticModelEnumeration c) ?e) of
        None \<Rightarrow> fold (\<lambda>index. queryDescriptor index DescriptorType_Configuration 0 0)
                  (map word_of_nat [0..<unat (ed_configurationsCount d)]) (setEntityDescriptor d ?e)
      | Some e1 \<Rightarrow> addEnumerationStep Step_GetDescriptorDynamicInfo e1)"
      by (simp add: Some then_field_works)
  qed
qed

lemma configuration_key: "query_key (Q_Descriptor ci DescriptorType_Configuration i)
    = Some (E_Descriptor ci (makeDescriptorKey DescriptorType_Configuration 0))"
  by (simp add: query_key_def DescriptorType_Configuration_def DescriptorType_Entity_def)

lemma onConfigurationDescriptorResult_settles:
  "settles (E_Descriptor ci (makeDescriptorKey DescriptorType_Configuration 0)) e (onConfigurationDescriptorResult c st ci d e)"
  unfolding onConfigurationDescriptorResult_def
proof (rule handle_answer_settles)
  fix x
  have set: "works x (setConfigurationDescriptor d ci x)"
    by (auto simp: setConfigurationDescriptor_def act_works split: option.split intro: field_works)
  have counted: "works y (fold (query_counted ci d) (if b then queried_types else [DescriptorType_Locale]) y)" for y b
  proof -
    have every: "works y (fold (query_counted ci d) ts y)" if "\<forall>t \<in> set ts. plain_descriptor t" for ts y
      using that by (induction ts arbitrary: y) (auto intro: works_trans [OF query_counted_works])
    show ?thesis by (rule every) (auto simp: queried_types_def split: if_splits)
  qed
  let ?r = "let e1 = setConfigurationDescriptor d ci x in
          case getCurrentConfigurationIndex e1 of
            None \<Rightarrow> (False, setGetFatalEnumerationError e1)
          | Some current \<Rightarrow>
              (True, fold (query_counted ci d)
                 (if ci = current \<or> cse_fullStaticModelEnumeration c then queried_types
                  else [DescriptorType_Locale]) e1)"
  show "works x (snd ?r)"
    using set works_trans [OF set counted [of _ True]] works_trans [OF set counted [of _ False]]
      works_trans [OF set field_works(24)]
    by (auto simp: Let_def split: option.split)
  show "progress (snd ?r)" if "\<not> fst ?r"
    using that by (auto simp: Let_def progress_def setGetFatalEnumerationError_def split: option.splits)
  have "query_key (Q_Descriptor 0 DescriptorType_Configuration ci)
        = Some (E_Descriptor 0 (makeDescriptorKey DescriptorType_Configuration ci))
      \<or> E_Descriptor 0 (makeDescriptorKey DescriptorType_Configuration ci) \<in> orphan_keys"
    by (cases "ci = 0") (auto simp: configuration_key orphan_keys_def)
  thus "works x (snd (processGetStaticModelFailureStatus c st 0 DescriptorType_Configuration ci x))"
    by (intro processGetStaticModelFailureStatus_works) (simp_all add: descriptor_queried_def)
qed (simp_all add: taken_checks end_continues end_progress)

lemma stream_port_described_works: "works e e' \<Longrightarrow> works e (stream_port_described ci d e')"
  by (simp add: stream_port_described_def query_children_then)

lemma if_Milan_then: "works e e' \<Longrightarrow> (\<And>e. works e (f e)) \<Longrightarrow> works e (if_Milan f e')"
  by (blast intro: works_trans if_Milan_works)

lemma validateMilanStreamOutputCounters_works: "works e (validateMilanStreamOutputCounters t v e)"
  by (cases t) (auto simp: validateMilanStreamOutputCounters_def)

lemma updated_then: "works e e' \<Longrightarrow> works e (updated n ps e')"
  by (blast intro: works_trans)

lemma counters_works:
  "works e (entity_counters v cs e)" "works e (avb_interface_counters i v cs e)" "works e (clock_domain_counters i v cs e)"
  "works e (stream_input_counters clause i v cs e)" "works e (stream_output_counters i v cs e)"
  by (auto simp: entity_counters_def avb_interface_counters_def clock_domain_counters_def stream_input_counters_def
      stream_output_counters_def intro!: updated_then if_Milan_works validateMilanStreamOutputCounters_works)

lemma locale_works:
  "works e (let e1 = set_in_configuration n ci f e in
     case getConfigurationNode ci e1 of None \<Rightarrow> e1
     | Some cn \<Rightarrow> if all_locales_loaded cn
         then chooseLocale ci (\<lambda>i. queryDescriptor ci DescriptorType_Strings i 0) e1 else e1)"
  by (auto simp: Let_def split: option.split intro: set_in_configuration_works works_trans [OF set_in_configuration_works chooseLocale_works])

lemma descriptor_handlers_settle:
  "settles (E_Descriptor 0 (makeDescriptorKey DescriptorType_Entity 0)) e (onEntityDescriptorResult c st ed e)"
  "settles (E_Descriptor ci (makeDescriptorKey DescriptorType_AudioUnit i)) e (onAudioUnitDescriptorResult c st ci i au e)"
  "settles (E_Descriptor ci (makeDescriptorKey DescriptorType_StreamInput i)) e (onStreamInputDescriptorResult c st ci i sd e)"
  "settles (E_Descriptor ci (makeDescriptorKey DescriptorType_StreamOutput i)) e (onStreamOutputDescriptorResult c st ci i sd e)"
  "settles (E_Descriptor ci (makeDescriptorKey DescriptorType_JackInput i)) e (onJackInputDescriptorResult c st ci i jd e)"
  "settles (E_Descriptor ci (makeDescriptorKey DescriptorType_JackOutput i)) e (onJackOutputDescriptorResult c st ci i jd e)"
  "settles (E_Descriptor ci (makeDescriptorKey DescriptorType_AvbInterface i)) e
     (onAvbInterfaceDescriptorResult c st ci i ad Step_GetStaticModel e)"
  "settles (E_Descriptor ci (makeDescriptorKey DescriptorType_ClockSource i)) e
     (onClockSourceDescriptorResult c st ci i cs Step_GetStaticModel e)"
  "settles (E_Descriptor ci (makeDescriptorKey DescriptorType_MemoryObject i)) e (onMemoryObjectDescriptorResult c st ci i mo e)"
  "settles (E_Descriptor ci (makeDescriptorKey DescriptorType_Locale i)) e (onLocaleDescriptorResult c st ci i ld e)"
  "settles (E_Descriptor ci (makeDescriptorKey DescriptorType_Strings i)) e (onStringsDescriptorResult c st ci i ss e)"
  "settles (E_Descriptor ci (makeDescriptorKey DescriptorType_StreamPortInput i)) e (onStreamPortInputDescriptorResult c st ci i sp e)"
  "settles (E_Descriptor ci (makeDescriptorKey DescriptorType_StreamPortOutput i)) e (onStreamPortOutputDescriptorResult c st ci i sp e)"
  "settles (E_Descriptor ci (makeDescriptorKey DescriptorType_AudioCluster i)) e (onAudioClusterDescriptorResult c st ci i ac e)"
  "settles (E_Descriptor ci (makeDescriptorKey DescriptorType_AudioMap i)) e (onAudioMapDescriptorResult c st ci i am e)"
  "settles (E_Descriptor ci (makeDescriptorKey DescriptorType_Control i)) e (onControlDescriptorResult c st ci i cd e)"
  "settles (E_Descriptor ci (makeDescriptorKey DescriptorType_ClockDomain i)) e (onClockDomainDescriptorResult c st ci i ckd e)"
  "settles (E_Descriptor ci (makeDescriptorKey DescriptorType_Timing i)) e (onTimingDescriptorResult c st ci i tm e)"
  "settles (E_Descriptor ci (makeDescriptorKey DescriptorType_PtpInstance i)) e (onPtpInstanceDescriptorResult c st ci i pd e)"
  "settles (E_Descriptor ci (makeDescriptorKey DescriptorType_PtpPort i)) e (onPtpPortDescriptorResult c st ci i pp e)"
proof -
  show "settles (E_Descriptor 0 (makeDescriptorKey DescriptorType_Entity 0)) e (onEntityDescriptorResult c st ed e)"
    unfolding onEntityDescriptorResult_def
    by (rule descriptor_result_settles) (simp_all add: descriptor_queried_def query_key_def entity_described_works)
  show "settles (E_Descriptor ci (makeDescriptorKey DescriptorType_Locale i)) e (onLocaleDescriptorResult c st ci i ld e)"
    unfolding onLocaleDescriptorResult_def by (rule plain_result_settles, simp, rule locale_works)
  show "settles (E_Descriptor ci (makeDescriptorKey DescriptorType_MemoryObject i)) e (onMemoryObjectDescriptorResult c st ci i mo e)"
    unfolding onMemoryObjectDescriptorResult_def
    by (rule plain_result_settles)
      (auto intro: works_trans [OF _ set_in_configuration_works] then_field_works set_in_configuration_works)
qed (simp_all add: onAudioUnitDescriptorResult_def onStreamInputDescriptorResult_def onStreamOutputDescriptorResult_def
    onJackInputDescriptorResult_def onJackOutputDescriptorResult_def onAvbInterfaceDescriptorResult_def
    onClockSourceDescriptorResult_def onStringsDescriptorResult_def onStreamPortInputDescriptorResult_def
    onStreamPortOutputDescriptorResult_def onAudioClusterDescriptorResult_def onAudioMapDescriptorResult_def
    onControlDescriptorResult_def onClockDomainDescriptorResult_def onTimingDescriptorResult_def
    onPtpInstanceDescriptorResult_def onPtpPortDescriptorResult_def plain_result_settles set_in_configuration_works
    query_children_then stream_port_described_works)

lemma descriptor_dynamic_info_handlers_settle:
  "settles (E_DescriptorDynamicInfo ci (makeDescriptorDynamicInfoKey DD_ConfigurationName 0)) e (onConfigurationNameResult c st ci nm e)"
  "settles (E_DescriptorDynamicInfo ci (makeDescriptorDynamicInfoKey DD_AudioUnitName i)) e (onAudioUnitNameResult c st ci i nm e)"
  "settles (E_DescriptorDynamicInfo ci (makeDescriptorDynamicInfoKey DD_AudioUnitSamplingRate i)) e (onAudioUnitSamplingRateResult c st i sr ci e)"
  "settles (E_DescriptorDynamicInfo ci (makeDescriptorDynamicInfoKey DD_InputStreamName i)) e (onInputStreamNameResult c st ci i nm e)"
  "settles (E_DescriptorDynamicInfo ci (makeDescriptorDynamicInfoKey DD_InputStreamFormat i)) e (onInputStreamFormatResult c st i sf ci e)"
  "settles (E_DescriptorDynamicInfo ci (makeDescriptorDynamicInfoKey DD_OutputStreamName i)) e (onOutputStreamNameResult c st ci i nm e)"
  "settles (E_DescriptorDynamicInfo ci (makeDescriptorDynamicInfoKey DD_OutputStreamFormat i)) e (onOutputStreamFormatResult c st i sf ci e)"
  "settles (E_DescriptorDynamicInfo ci (makeDescriptorDynamicInfoKey DD_InputJackName i)) e (onInputJackNameResult c st ci i nm e)"
  "settles (E_DescriptorDynamicInfo ci (makeDescriptorDynamicInfoKey DD_OutputJackName i)) e (onOutputJackNameResult c st ci i nm e)"
  "settles (E_DescriptorDynamicInfo ci (makeDescriptorDynamicInfoKey DD_MemoryObjectName i)) e (onMemoryObjectNameResult c st ci i nm e)"
  "settles (E_DescriptorDynamicInfo ci (makeDescriptorDynamicInfoKey DD_MemoryObjectLength i)) e (onMemoryObjectLengthResult c st ci i len e)"
  "settles (E_DescriptorDynamicInfo ci (makeDescriptorDynamicInfoKey DD_AudioClusterName i)) e (onAudioClusterNameResult c st ci i nm e)"
  "settles (E_DescriptorDynamicInfo ci (makeDescriptorDynamicInfoKey DD_ControlName i)) e (onControlNameResult c st ci i nm e)"
  "settles (E_DescriptorDynamicInfo ci (makeDescriptorDynamicInfoKey DD_ClockDomainName i)) e (onClockDomainNameResult c st ci i nm e)"
  "settles (E_DescriptorDynamicInfo ci (makeDescriptorDynamicInfoKey DD_ClockDomainSourceIndex i)) e (onClockDomainSourceIndexResult c st i csi ci e)"
  "settles (E_DescriptorDynamicInfo ci (makeDescriptorDynamicInfoKey DD_TimingName i)) e (onTimingNameResult c st ci i nm e)"
  "settles (E_DescriptorDynamicInfo ci (makeDescriptorDynamicInfoKey DD_PtpInstanceName i)) e (onPtpInstanceNameResult c st ci i nm e)"
  "settles (E_DescriptorDynamicInfo ci (makeDescriptorDynamicInfoKey DD_PtpPortName i)) e (onPtpPortNameResult c st ci i nm e)"
  "settles (E_DescriptorDynamicInfo ci (makeDescriptorDynamicInfoKey DD_AvbInterfaceDescriptor i)) e
     (onAvbInterfaceDescriptorResult c st ci i ad Step_GetDescriptorDynamicInfo e)"
  "settles (E_DescriptorDynamicInfo ci (makeDescriptorDynamicInfoKey DD_ClockSourceDescriptor i)) e
     (onClockSourceDescriptorResult c st ci i cs Step_GetDescriptorDynamicInfo e)"
  by (simp_all add: onConfigurationNameResult_def onAudioUnitNameResult_def onAudioUnitSamplingRateResult_def
    onInputStreamNameResult_def onInputStreamFormatResult_def onOutputStreamNameResult_def
    onOutputStreamFormatResult_def onInputJackNameResult_def onOutputJackNameResult_def
    onMemoryObjectNameResult_def onMemoryObjectLengthResult_def onAudioClusterNameResult_def
    onControlNameResult_def onClockDomainNameResult_def onClockDomainSourceIndexResult_def onTimingNameResult_def
    onPtpInstanceNameResult_def onPtpPortNameResult_def onAvbInterfaceDescriptorResult_def
    onClockSourceDescriptorResult_def descriptor_dynamic_info_result_settles descriptor_dynamic_info_address_def updated_works
    set_in_configuration_works)

lemma onControlValuesResult_settles:
  "settles (E_DescriptorDynamicInfo ci (makeDescriptorDynamicInfoKey DD_ControlValues i)) e (onControlValuesResult c st i buf ci e)"
  unfolding onControlValuesResult_def Let_def
proof (rule handle_answer_settles)
  fix x
  have f: "works y (snd (processGetDescriptorDynamicInfoFailureStatus c s ci DD_ControlValues i requires_1_0 y))" for s y
    by (rule processGetDescriptorDynamicInfoFailureStatus_works) (simp add: descriptor_dynamic_info_address_def)
  have "works x (snd (updateControlValues c i buf x))"
    by (auto simp: updateControlValues_def split: prod.split option.split intro!: updated_then)
  thus "works x (snd (if st = Status_Success
      then case updateControlValues c i buf x of (True, e1) \<Rightarrow> (True, e1)
           | (False, e1) \<Rightarrow> processGetDescriptorDynamicInfoFailureStatus c Status_ProtocolError ci DD_ControlValues i requires_1_0 e1
      else processGetDescriptorDynamicInfoFailureStatus c st ci DD_ControlValues i requires_1_0 x))"
    by (auto split: prod.split bool.split simp: f intro: works_trans [OF _ f])
qed (simp_all add: taken_checks end_continues end_progress)

lemma dynamic_info_handlers_settle:
  "settles (E_DynamicInfo ci (makeDynamicInfoKey DI_InputStreamInfo i 0)) e (onGetStreamInputInfoResult c st i si ci e)"
  "settles (E_DynamicInfo ci (makeDynamicInfoKey DI_OutputStreamInfo i 0)) e (onGetStreamOutputInfoResult c st i si ci e)"
  "settles (E_DynamicInfo ci (makeDynamicInfoKey DI_GetAsPath i 0)) e (onGetAsPathResult c st i path ci e)"
  "settles (E_DynamicInfo ci (makeDynamicInfoKey DI_GetMaxTransitTime i 0)) e (onGetMaxTransitTimeResult c st i t ci e)"
  "settles (E_DynamicInfo 0 (makeDynamicInfoKey DI_GetEntityCounters 0 0)) e (onGetEntityCountersResult c st v cs e)"
  "settles (E_DynamicInfo ci (makeDynamicInfoKey DI_GetAvbInterfaceCounters i 0)) e (onGetAvbInterfaceCountersResult c st i v cs ci e)"
  "settles (E_DynamicInfo ci (makeDynamicInfoKey DI_GetClockDomainCounters i 0)) e (onGetClockDomainCountersResult c st i v cs ci e)"
  "settles (E_DynamicInfo ci (makeDynamicInfoKey DI_GetStreamInputCounters i 0)) e (onGetStreamInputCountersResult c st i v cs ci e)"
  "settles (E_DynamicInfo ci (makeDynamicInfoKey DI_GetStreamOutputCounters i 0)) e (onGetStreamOutputCountersResult c st i v cs ci e)"
  by (simp_all add: onGetStreamInputInfoResult_def onGetStreamOutputInfoResult_def onGetAsPathResult_def
      onGetMaxTransitTimeResult_def onGetEntityCountersResult_def onGetAvbInterfaceCountersResult_def
      onGetClockDomainCountersResult_def onGetStreamInputCountersResult_def onGetStreamOutputCountersResult_def
      dynamic_info_result_settles updated_works counters_works)

lemma mvu_handlers_settle:
  "settles (E_DynamicInfo InvalidDescriptorIndex (makeDynamicInfoKey DI_GetSystemUniqueID InvalidDescriptorIndex 0)) e
     (onGetSystemUniqueIDResult c st u nm e)"
  "settles (E_DynamicInfo InvalidDescriptorIndex (makeDynamicInfoKey DI_GetMediaClockReferenceInfo i 0)) e
     (onGetMediaClockReferenceInfoResult c st i pr info e)"
  "settles (E_DynamicInfo ci (makeDynamicInfoKey DI_InputStreamInfoEx i 0)) e (onGetStreamInputInfoExResult c st i ex ci e)"
  by (simp_all add: onGetSystemUniqueIDResult_def onGetMediaClockReferenceInfoResult_def onGetStreamInputInfoExResult_def
      mvu_dynamic_info_result_settles updated_works)

lemma update_state_works: "works e (updateAcquiredState a u e)" "works e (updateLockedState l u e)"
  by (auto simp: updateAcquiredState_def updateLockedState_def Let_def
      intro!: works_trans [OF _ act_works] then_field_works)

lemma state_handlers_settle:
  "settles (E_DynamicInfo 0 (makeDynamicInfoKey DI_AcquiredState 0 0)) e (onGetAcquiredStateResult c st u e)"
  "settles (E_DynamicInfo 0 (makeDynamicInfoKey DI_LockedState 0 0)) e (onGetLockedStateResult c st u e)"
proof -
  have a: "works x (snd (getAcquiredInfoFromStatus c u st True x))" for x
    by (auto simp: getAcquiredInfoFromStatus_def)
  have l: "works x (snd (getLockedInfoFromStatus c u st True x))" for x
    by (auto simp: getLockedInfoFromStatus_def)
  have f: "works x (snd (processGetAecpDynamicInfoFailureStatus c st 0 DI_AcquiredState 0 0 [] x))"
    "works x (snd (processGetAecpDynamicInfoFailureStatus c st 0 DI_LockedState 0 0 requires_1_0 x))" for x
    by (rule processGetAecpDynamicInfoFailureStatus_works; simp)+
  have then1: "works x (snd (let (g, e2) = r in (g, if g then updateAcquiredState b v e2 else e2)))" if "works x (snd r)" for x r b v
    using that by (auto split: prod.splits intro: works_trans [OF _ update_state_works(1)])
  have then2: "works x (snd (let (g, e2) = r in (g, if g then updateLockedState b v e2 else e2)))" if "works x (snd r)" for x r b v
    using that by (auto split: prod.splits intro: works_trans [OF _ update_state_works(2)])
  show "settles (E_DynamicInfo 0 (makeDynamicInfoKey DI_AcquiredState 0 0)) e (onGetAcquiredStateResult c st u e)"
    unfolding onGetAcquiredStateResult_def
  proof (rule handle_answer_settles)
    fix x
    obtain b v e1 where r: "getAcquiredInfoFromStatus c u st True x = ((b, v), e1)" by (metis surj_pair)
    hence "works x e1" using a [of x] by simp
    thus "works x (snd (let ((acquireState, owningController), e1) = getAcquiredInfoFromStatus c u st True x;
               (goOn, e2) = (if acquireState = Acquire_Undefined
                 then processGetAecpDynamicInfoFailureStatus c st 0 DI_AcquiredState 0 0 [] e1 else (True, e1))
           in (goOn, if goOn then updateAcquiredState acquireState owningController e2 else e2)))"
      unfolding r Let_def [of "((b, v), e1)"] prod.case
      by (intro then1) (auto intro: works_trans [OF _ f(1)])
  qed (simp_all add: taken_checks end_continues end_progress)
  show "settles (E_DynamicInfo 0 (makeDynamicInfoKey DI_LockedState 0 0)) e (onGetLockedStateResult c st u e)"
    unfolding onGetLockedStateResult_def
  proof (rule handle_answer_settles)
    fix x
    obtain b v e1 where r: "getLockedInfoFromStatus c u st True x = ((b, v), e1)" by (metis surj_pair)
    hence "works x e1" using l [of x] by simp
    thus "works x (snd (let ((lockState, lockingController), e1) = getLockedInfoFromStatus c u st True x;
               (goOn, e2) = (if lockState = Lock_Undefined
                 then processGetAecpDynamicInfoFailureStatus c st 0 DI_LockedState 0 0 requires_1_0 e1 else (True, e1))
           in (goOn, if goOn then updateLockedState lockState lockingController e2 else e2)))"
      unfolding r Let_def [of "((b, v), e1)"] prod.case
      by (intro then2) (auto intro: works_trans [OF _ f(2)])
  qed (simp_all add: taken_checks end_continues end_progress)
qed

lemma queryDynamicInfo_progress: "progress (queryDynamicInfo ci t i sub d e)"
  by (simp add: progress_def queryDynamicInfo_def send_query_def Let_def expected_keys_set)

lemma audio_map_settles:
  assumes "t = DI_InputStreamPortAudioMappings \<or> t = DI_OutputStreamPortAudioMappings"
  shows "settles (E_DynamicInfo ci (makeDynamicInfoKey t i m)) e (audio_map_result t clr ad err c st i n m maps ci e)"
  unfolding audio_map_result_def
proof (rule handle_answer_settles)
  fix x
  have t: "t \<noteq> DI_OutputStreamConnection" "dynamic_info_address t ci i sub = (ci, i, sub)" for sub using assms by auto
  let ?e1 = "updated ad [P_U16 i, P_AudioMappings maps] (if m = 0 then updated clr [P_U16 i] x else x)"
  let ?r = "let e1 = ?e1 in if n \<noteq> 0 \<and> uint m \<noteq> uint n - 1 then (False, queryDynamicInfo ci t i (m + 1) 0 e1) else (True, e1)"
  have "works x ?e1" by (auto intro!: updated_then)
  thus "works x (snd ?r)"
    using t by (auto simp: Let_def intro: works_trans [OF _ queryDynamicInfo_asks [THEN asks_works]])
  show "progress (snd ?r)" if "\<not> fst ?r" using that by (auto simp: Let_def queryDynamicInfo_progress split: if_splits)
  show "works x (snd (let (goOn, e1) = processGetAecpDynamicInfoFailureStatus c st ci t i m requires_1_0 x
      in (goOn \<and> (cse_ignoreNeitherStaticNorDynamicMappings c \<or> st \<noteq> Status_NotImplemented \<and> st \<noteq> Status_NotSupported), e1)))"
    using processGetAecpDynamicInfoFailureStatus_works [OF t(1) t(2), where c = c and st = st and rs = requires_1_0 and e = x] by (simp add: split_beta)
qed (simp_all add: taken_checks end_continues end_progress)

lemma gptp_from_announcements_works: "works e (gptp_from_announcements ci i e)"
  by (auto simp: gptp_from_announcements_def act_works split: option.split intro!: works_fold)

lemma onGetAvbInfoResult_settles:
  "settles (E_DynamicInfo ci (makeDynamicInfoKey DI_GetAvbInfo i 0)) e (onGetAvbInfoResult c st i info ci e)"
  unfolding onGetAvbInfoResult_def
proof (rule handle_answer_settles)
  fix x
  have "works x (snd (processGetAecpDynamicInfoFailureStatus c st ci DI_GetAvbInfo i 0 requires_1_0 x))"
    by (rule processGetAecpDynamicInfoFailureStatus_works) simp_all
  thus "works x (snd (let (goOn, e1) = processGetAecpDynamicInfoFailureStatus c st ci DI_GetAvbInfo i 0 requires_1_0 x
      in (goOn, if goOn then gptp_from_announcements ci i e1 else e1)))"
    by (auto split: prod.splits intro: works_trans [OF _ gptp_from_announcements_works])
qed (simp_all add: taken_checks end_continues end_progress updated_works)

lemma query_connections_works: "works e (query_connections ci talker n e)"
  unfolding query_connections_def
  by (rule works_fold, rule asks_works, rule queryTalkerStreamConnection_asks)

lemma connection_handlers_settle:
  "settles (E_DynamicInfo ci (makeDynamicInfoKey DI_OutputStreamState (sid_streamIndex talker) 0)) e
     (onGetTalkerStreamStateResult c talker n st ci e)"
  "settles (E_DynamicInfo ci (makeDynamicInfoKey DI_OutputStreamConnection (sid_streamIndex talker) sub)) e
     (onGetTalkerStreamConnectionResult c talker listener st ci sub e)"
proof -
  show "settles (E_DynamicInfo ci (makeDynamicInfoKey DI_OutputStreamState (sid_streamIndex talker) 0)) e
     (onGetTalkerStreamStateResult c talker n st ci e)"
    unfolding onGetTalkerStreamStateResult_def
    by (rule handle_answer_settles)
      (auto simp: taken_checks end_continues end_progress acmp_failures_work Let_def
        intro!: works_trans [OF _ query_connections_works] works_trans [OF _ remove_if_Milan_works])
  show "settles (E_DynamicInfo ci (makeDynamicInfoKey DI_OutputStreamConnection (sid_streamIndex talker) sub)) e
     (onGetTalkerStreamConnectionResult c talker listener st ci sub e)"
    unfolding onGetTalkerStreamConnectionResult_def
    by (rule handle_answer_settles)
      (simp_all add: taken_checks end_continues end_progress acmp_failures_work updated_works)
qed

lemma cleared_after_update: "cleared k (updated n ps e) e1 \<Longrightarrow> cleared k e e1"
  by (auto simp: cleared_def updated_def)

lemma settles_after_update:
  assumes "settles k (updated n ps e) e'"
  shows "settles k e e'"
proof -
  have "expected_ok (updated n ps e) = expected_ok e" "progress (updated n ps e) = progress e"
    "ced_gotFatalEnumerateError (updated n ps e) = ced_gotFatalEnumerateError e"
    by (simp_all add: updated_def progress_def)
  thus ?thesis using assms cleared_after_update [of k n ps e] unfolding settles_def by metis
qed

lemma onGetListenerStreamStateResult_settles:
  "settles (E_DynamicInfo ci (makeDynamicInfoKey DI_InputStreamState (sid_streamIndex listener) 0)) e
     (onGetListenerStreamStateResult c talker listener n fl st ci e)"
proof -
  have "settles (E_DynamicInfo ci (makeDynamicInfoKey DI_InputStreamState (sid_streamIndex listener) 0)) x
     (handle_answer (checkAndClearExpectedDynamicInfo ci DI_InputStreamState (sid_streamIndex listener) 0 x)
       s (Pair True)
       (processGetAcmpDynamicInfoFailureStatus st ci DI_InputStreamState (sid_streamIndex listener) requires_1_0)
       ''ListenerStreamState'' (end_dynamic_info c))" for x s
    by (rule handle_answer_settles) (simp_all add: taken_checks end_continues end_progress acmp_failures_work)
  thus ?thesis
    unfolding onGetListenerStreamStateResult_def by (auto intro: settles_after_update)
qed

lemma first_handlers_settle:
  "settles (E_MilanInfo (makeMilanInfoKey MI_MilanInfo)) e (onGetMilanInfoResult c st info e)"
  "settles E_CheckDynamicInfoSupported e (onEmptyGetDynamicInfoResult c st e)"
  "settles E_RegisterUnsol e (onRegisterUnsolicitedNotificationsResult c st e)"
proof -
  have fin: "continues x (checkEnumerationSteps c (clearEnumerationStep s x))" if "s \<noteq> Step_GetStaticModel" for s x
    by (rule finish_step [OF clear_other_step_continues [OF that]])
  have open_keys: "\<not> gotAllExpectedMilanInfo x \<Longrightarrow> progress x" "\<not> gotExpectedCheckDynamicInfoSupported x \<Longrightarrow> progress x"
    "\<not> gotExpectedRegisterUnsol x \<Longrightarrow> progress x" for x
    using expected_kinds [of x] by auto
  show "settles (E_MilanInfo (makeMilanInfoKey MI_MilanInfo)) e (onGetMilanInfoResult c st info e)"
    unfolding onGetMilanInfoResult_def
    by (rule handle_answer_settles)
      (auto simp: taken_checks processGetMilanInfoFailureStatus_works
        check_continues fin open_keys intro!: then_field_works field_works)
  show "settles E_CheckDynamicInfoSupported e (onEmptyGetDynamicInfoResult c st e)"
    unfolding onEmptyGetDynamicInfoResult_def
    by (rule handle_answer_settles)
      (auto simp: taken_checks processEmptyGetDynamicInfoFailureStatus_works
        check_continues fin open_keys intro!: field_works)
  have sub: "works x (setSubscribedToUnsolicitedNotifications b x)" for x b
    by (auto simp: setSubscribedToUnsolicitedNotifications_def Let_def intro!: then_field_works)
  show "settles E_RegisterUnsol e (onRegisterUnsolicitedNotificationsResult c st e)"
    unfolding onRegisterUnsolicitedNotificationsResult_def
    by (rule handle_answer_settles)
      (auto simp: taken_checks check_continues fin open_keys intro!: works_trans [OF field_works(8) sub]
        works_trans [OF field_works(8) processRegisterUnsolFailureStatus_works])
qed

lemma dynamic_info_updated_works: "dynamic_info_updated t args = Some f \<Longrightarrow> works e (f e)"
proof -
  have "works e (name_updated ci dt i ni nm e)" for ci dt i ni nm
    by (auto simp: name_updated_def split: option.split)
  moreover have "works e (counters_updated dt i v cs e)" for dt i v cs
    by (simp add: counters_updated_def counters_works)
  ultimately show "dynamic_info_updated t args = Some f \<Longrightarrow> works e (f e)"
    by (auto simp: dynamic_info_updated_def split: if_splits list.splits param.splits)
qed

lemma apply_dynamic_infos_works: "works e (snd (apply_dynamic_infos infos e))"
  by (induction infos e rule: apply_dynamic_infos.induct)
    (auto split: option.split intro: works_trans [OF dynamic_info_updated_works])

lemma end_packed_continues:
  "continues e (end_packed_dynamic_info c step a e)" "progress (end_packed_dynamic_info c step a e)"
  if "step = Step_GetDescriptorDynamicInfo \<or> step = Step_GetDynamicInfo"
proof -
  show "progress (end_packed_dynamic_info c step a e)"
    using that expected_kinds [of e] by (auto simp: end_packed_dynamic_info_def check_continues)
  show "continues e (end_packed_dynamic_info c step a e)"
    using that check_continues finish_step [OF clear_other_step_continues [of step e]]
    by (auto simp: end_packed_dynamic_info_def)
qed

lemma onGetDynamicInfoResult_settles:
  assumes step: "step = Step_GetDescriptorDynamicInfo \<or> step = Step_GetDynamicInfo"
  shows "settles (E_PackedDynamicInfo n) e (onGetDynamicInfoResult c st res sent n step e)"
proof (cases "expected_ok e")
  case True
  obtain was e1 where w: "checkAndClearExpectedPackedDynamicInfo n e = (was, e1)" by fastforce
  hence t: "taken (E_PackedDynamicInfo n) e (was, e1)" using taken_checks(4) [OF True, of n] by simp
  let ?r = "if st \<noteq> Status_Success then (st, e1)
      else if length res \<noteq> length sent then (Status_ProtocolError, e1) else apply_dynamic_infos res e1"
  obtain us e2 where r: "?r = (us, e2)" by fastforce
  have e2: "works e1 e2" using arg_cong [OF r, of snd] by (auto split: if_splits intro: apply_dynamic_infos_works)
  let ?p = "if us \<noteq> Status_Success then processGetDynamicInfoFailureStatus c us sent n step requires_1_2 e2
      else (PF_Continue, e2)"
  obtain a e3 where p: "?p = (a, e3)" by fastforce
  have "works e2 e3"
    using arg_cong [OF p, of snd] by (auto split: if_splits intro: processGetDynamicInfoFailureStatus_works)
  with e2 have e3: "works e1 e3" by (rule works_trans)
  have res: "onGetDynamicInfoResult c st res sent n step e =
      (if \<not> was then e1 else if a = PF_Fatal then query_error ''GetDynamicInfo'' e3 else end_packed_dynamic_info c step a e3)"
    unfolding onGetDynamicInfoResult_def w Let_def prod.case r p by simp
  have "continues e1 (if a = PF_Fatal then query_error ''GetDynamicInfo'' e3 else end_packed_dynamic_info c step a e3)"
    "progress (if a = PF_Fatal then query_error ''GetDynamicInfo'' e3 else end_packed_dynamic_info c step a e3)"
    using works_continues [OF works_trans [OF e3 query_error_works]] continues_trans [OF works_continues [OF e3]]
      end_packed_continues [OF step] query_error_progress by auto
  moreover have "\<not> was \<Longrightarrow> progress e \<Longrightarrow> progress e1"
    using t by (auto simp: taken_def cleared_def progress_def)
  ultimately show ?thesis using t unfolding settles_def res by (auto simp: taken_def)
qed (simp add: settles_def)

end
