(* ===== verification/Enumeration.thy ===== *)
theory Enumeration
  imports EnumerationRuns
begin

text \<open>
  The enumeration of an entity from its discovery on, and the entities a controller keeps
  (src/controller/avdeccControllerImplDelegateOverrides.cpp, \<^verbatim>\<open>updateEntity\<close> of avdeccControllerImpl.cpp): which
  handler an answer goes to, the runs of an enumeration with the queries that wait for an answer, and what the
  observers of the controller know.
\<close>

section \<open>Which handler takes an answer\<close>

text \<open>
  The handler a query is bound to (\<^verbatim>\<open>queryInformation\<close>), for any status and content of the answer.  The
  command state machine matches an answer to its command; that the answer is about the indexes it was asked
  with is an assumption about the entity.
\<close>

inductive answers :: "controller_settings \<Rightarrow> query \<Rightarrow> controlled_entity \<Rightarrow> controlled_entity \<Rightarrow> bool" for c where
  "answers c (Q_MilanInfo MI_MilanInfo) e (onGetMilanInfoResult c status info e)"
| "answers c Q_EmptyGetDynamicInfo e (onEmptyGetDynamicInfoResult c status e)"
| "answers c Q_RegisterUnsolicitedNotifications e (onRegisterUnsolicitedNotificationsResult c status e)"
| "step = Step_GetDescriptorDynamicInfo \<or> step = Step_GetDynamicInfo \<Longrightarrow> answers c (Q_GetDynamicInfo params n step) e (onGetDynamicInfoResult c status results params n step e)"
| "answers c (Q_Descriptor ci DescriptorType_Entity i) e (onEntityDescriptorResult c status entityDescriptor e)"
| "answers c (Q_Descriptor ci DescriptorType_Configuration i) e (onConfigurationDescriptorResult c status ci configurationDescriptor e)"
| "answers c (Q_Descriptor ci DescriptorType_AudioUnit i) e (onAudioUnitDescriptorResult c status ci i descriptor e)"
| "answers c (Q_Descriptor ci DescriptorType_StreamInput i) e (onStreamInputDescriptorResult c status ci i descriptor e)"
| "answers c (Q_Descriptor ci DescriptorType_StreamOutput i) e (onStreamOutputDescriptorResult c status ci i descriptor e)"
| "answers c (Q_Descriptor ci DescriptorType_JackInput i) e (onJackInputDescriptorResult c status ci i descriptor e)"
| "answers c (Q_Descriptor ci DescriptorType_JackOutput i) e (onJackOutputDescriptorResult c status ci i descriptor e)"
| "answers c (Q_Descriptor ci DescriptorType_AvbInterface i) e (onAvbInterfaceDescriptorResult c status ci i descriptor Step_GetStaticModel e)"
| "answers c (Q_Descriptor ci DescriptorType_ClockSource i) e (onClockSourceDescriptorResult c status ci i descriptor Step_GetStaticModel e)"
| "answers c (Q_Descriptor ci DescriptorType_MemoryObject i) e (onMemoryObjectDescriptorResult c status ci i descriptor e)"
| "answers c (Q_Descriptor ci DescriptorType_Locale i) e (onLocaleDescriptorResult c status ci i descriptor e)"
| "answers c (Q_Descriptor ci DescriptorType_Strings i) e (onStringsDescriptorResult c status ci i descriptor e)"
| "answers c (Q_Descriptor ci DescriptorType_StreamPortInput i) e (onStreamPortInputDescriptorResult c status ci i descriptor e)"
| "answers c (Q_Descriptor ci DescriptorType_StreamPortOutput i) e (onStreamPortOutputDescriptorResult c status ci i descriptor e)"
| "answers c (Q_Descriptor ci DescriptorType_AudioCluster i) e (onAudioClusterDescriptorResult c status ci i descriptor e)"
| "answers c (Q_Descriptor ci DescriptorType_AudioMap i) e (onAudioMapDescriptorResult c status ci i descriptor e)"
| "answers c (Q_Descriptor ci DescriptorType_Control i) e (onControlDescriptorResult c status ci i descriptor e)"
| "answers c (Q_Descriptor ci DescriptorType_ClockDomain i) e (onClockDomainDescriptorResult c status ci i descriptor e)"
| "answers c (Q_Descriptor ci DescriptorType_Timing i) e (onTimingDescriptorResult c status ci i descriptor e)"
| "answers c (Q_Descriptor ci DescriptorType_PtpInstance i) e (onPtpInstanceDescriptorResult c status ci i descriptor e)"
| "answers c (Q_Descriptor ci DescriptorType_PtpPort i) e (onPtpPortDescriptorResult c status ci i descriptor e)"
| "answers c (Q_DescriptorDynamicInfo ci DD_ConfigurationName i) e (onConfigurationNameResult c status ci x e)"
| "answers c (Q_DescriptorDynamicInfo ci DD_AudioUnitName i) e (onAudioUnitNameResult c status ci i x e)"
| "answers c (Q_DescriptorDynamicInfo ci DD_AudioUnitSamplingRate i) e (onAudioUnitSamplingRateResult c status i x ci e)"
| "answers c (Q_DescriptorDynamicInfo ci DD_InputStreamName i) e (onInputStreamNameResult c status ci i x e)"
| "answers c (Q_DescriptorDynamicInfo ci DD_InputStreamFormat i) e (onInputStreamFormatResult c status i x ci e)"
| "answers c (Q_DescriptorDynamicInfo ci DD_OutputStreamName i) e (onOutputStreamNameResult c status ci i x e)"
| "answers c (Q_DescriptorDynamicInfo ci DD_OutputStreamFormat i) e (onOutputStreamFormatResult c status i x ci e)"
| "answers c (Q_DescriptorDynamicInfo ci DD_InputJackName i) e (onInputJackNameResult c status ci i x e)"
| "answers c (Q_DescriptorDynamicInfo ci DD_OutputJackName i) e (onOutputJackNameResult c status ci i x e)"
| "answers c (Q_DescriptorDynamicInfo ci DD_MemoryObjectName i) e (onMemoryObjectNameResult c status ci i x e)"
| "answers c (Q_DescriptorDynamicInfo ci DD_MemoryObjectLength i) e (onMemoryObjectLengthResult c status ci i x e)"
| "answers c (Q_DescriptorDynamicInfo ci DD_AudioClusterName i) e (onAudioClusterNameResult c status ci i x e)"
| "answers c (Q_DescriptorDynamicInfo ci DD_ControlName i) e (onControlNameResult c status ci i x e)"
| "answers c (Q_DescriptorDynamicInfo ci DD_ClockDomainName i) e (onClockDomainNameResult c status ci i x e)"
| "answers c (Q_DescriptorDynamicInfo ci DD_ClockDomainSourceIndex i) e (onClockDomainSourceIndexResult c status i x ci e)"
| "answers c (Q_DescriptorDynamicInfo ci DD_TimingName i) e (onTimingNameResult c status ci i x e)"
| "answers c (Q_DescriptorDynamicInfo ci DD_PtpInstanceName i) e (onPtpInstanceNameResult c status ci i x e)"
| "answers c (Q_DescriptorDynamicInfo ci DD_PtpPortName i) e (onPtpPortNameResult c status ci i x e)"
| "answers c (Q_DescriptorDynamicInfo ci DD_AvbInterfaceDescriptor i) e (onAvbInterfaceDescriptorResult c status ci i descriptor Step_GetDescriptorDynamicInfo e)"
| "answers c (Q_DescriptorDynamicInfo ci DD_ClockSourceDescriptor i) e (onClockSourceDescriptorResult c status ci i descriptor Step_GetDescriptorDynamicInfo e)"
| "answers c (Q_DescriptorDynamicInfo ci DD_ControlValues i) e (onControlValuesResult c status i packedValues ci e)"
| "answers c (Q_DynamicInfo ci DI_AcquiredState i sub) e (onGetAcquiredStateResult c status owner e)"
| "answers c (Q_DynamicInfo ci DI_LockedState i sub) e (onGetLockedStateResult c status owner e)"
| "answers c (Q_DynamicInfo ci DI_InputStreamPortAudioMappings i sub) e (onGetStreamPortInputAudioMapResult c status i numberOfMaps sub mappings ci e)"
| "answers c (Q_DynamicInfo ci DI_OutputStreamPortAudioMappings i sub) e (onGetStreamPortOutputAudioMapResult c status i numberOfMaps sub mappings ci e)"
| "answers c (Q_DynamicInfo ci DI_InputStreamInfo i sub) e (onGetStreamInputInfoResult c status i x ci e)"
| "answers c (Q_DynamicInfo ci DI_OutputStreamInfo i sub) e (onGetStreamOutputInfoResult c status i x ci e)"
| "answers c (Q_DynamicInfo ci DI_GetAvbInfo i sub) e (onGetAvbInfoResult c status i x ci e)"
| "answers c (Q_DynamicInfo ci DI_GetAsPath i sub) e (onGetAsPathResult c status i x ci e)"
| "answers c (Q_DynamicInfo ci DI_GetEntityCounters i sub) e (onGetEntityCountersResult c status valid counters e)"
| "answers c (Q_DynamicInfo ci DI_GetAvbInterfaceCounters i sub) e (onGetAvbInterfaceCountersResult c status i valid counters ci e)"
| "answers c (Q_DynamicInfo ci DI_GetClockDomainCounters i sub) e (onGetClockDomainCountersResult c status i valid counters ci e)"
| "answers c (Q_DynamicInfo ci DI_GetStreamInputCounters i sub) e (onGetStreamInputCountersResult c status i valid counters ci e)"
| "answers c (Q_DynamicInfo ci DI_GetStreamOutputCounters i sub) e (onGetStreamOutputCountersResult c status i valid counters ci e)"
| "answers c (Q_DynamicInfo ci DI_GetMaxTransitTime i sub) e (onGetMaxTransitTimeResult c status i x ci e)"
| "answers c (Q_DynamicInfo ci DI_GetSystemUniqueID i sub) e (onGetSystemUniqueIDResult c status owner x e)"
| "answers c (Q_DynamicInfo ci DI_GetMediaClockReferenceInfo i sub) e (onGetMediaClockReferenceInfoResult c status i priority info e)"
| "answers c (Q_DynamicInfo ci DI_InputStreamInfoEx i sub) e (onGetStreamInputInfoExResult c status i x ci e)"
| "sid_streamIndex talkerStream = i \<Longrightarrow> answers c (Q_DynamicInfo ci DI_OutputStreamState i sub) e (onGetTalkerStreamStateResult c talkerStream connectionCount status ci e)"
| "sid_streamIndex listenerStream = i \<Longrightarrow> answers c (Q_DynamicInfo ci DI_InputStreamState i sub) e (onGetListenerStreamStateResult c talkerStream listenerStream connectionCount flags status ci e)"
| "answers c (Q_TalkerStreamConnection ci talkerStream sub) e (onGetTalkerStreamConnectionResult c talkerStream listenerStream status ci sub e)"

text \<open>Every answer settles the key of its query.\<close>

lemma other_query_keys:
  "query_key (Q_MilanInfo t) = Some (E_MilanInfo (makeMilanInfoKey t))"
  "query_key Q_EmptyGetDynamicInfo = Some E_CheckDynamicInfoSupported"
  "query_key Q_RegisterUnsolicitedNotifications = Some E_RegisterUnsol"
  "query_key (Q_Descriptor ci DescriptorType_Entity i) = Some (E_Descriptor 0 (makeDescriptorKey DescriptorType_Entity 0))"
  "query_key (Q_DynamicInfo ci d i sub) =
     (let (ci', i', sub') = dynamic_info_address d ci i sub in Some (E_DynamicInfo ci' (makeDynamicInfoKey d i' sub')))"
  "query_key (Q_TalkerStreamConnection ci talker sub) =
     Some (E_DynamicInfo ci (makeDynamicInfoKey DI_OutputStreamConnection (sid_streamIndex talker) sub))"
  "query_key (Q_DescriptorDynamicInfo ci dd i) =
     Some (E_DescriptorDynamicInfo ci (makeDescriptorDynamicInfoKey dd (descriptor_dynamic_info_address dd i)))"
  "query_key (Q_GetDynamicInfo params n step) = Some (E_PackedDynamicInfo n)"
  by (simp_all add: query_key_def)

lemmas query_keys = other_query_keys configuration_key plain_descriptors [THEN plain_descriptor_key]
  descriptor_dynamic_info_address_def

lemmas handlers_settle = first_handlers_settle descriptor_handlers_settle onConfigurationDescriptorResult_settles
  descriptor_dynamic_info_handlers_settle onControlValuesResult_settles dynamic_info_handlers_settle mvu_handlers_settle
  state_handlers_settle onGetAvbInfoResult_settles connection_handlers_settle onGetListenerStreamStateResult_settles
  onGetDynamicInfoResult_settles

lemma answers_settle:
  assumes "answers c q e e'" "query_key q = Some k"
  shows "settles k e e'"
  using assms
  by (cases rule: answers.cases)
    (auto simp: query_keys handlers_settle onGetStreamPortInputAudioMapResult_def onGetStreamPortOutputAudioMapResult_def
      audio_map_settles)

lemma query_key_not_orphan: "query_key q = Some k \<Longrightarrow> k \<notin> orphan_keys"
  by (cases q) (auto simp: query_key_def orphan_keys_def descriptor_key_inj DescriptorType_Entity_def
      DescriptorType_Configuration_def split: if_splits prod.splits)

lemma answers_key: "answers c q e e' \<Longrightarrow> \<exists>k. query_key q = Some k"
  by (cases rule: answers.cases) (auto simp: query_keys split: prod.split)

section \<open>The discovery of an entity\<close>

text \<open>The steps of a new entity: without AEM there are none, and it is advertised at once.\<close>

definition first_steps :: "bool \<Rightarrow> 32 word \<Rightarrow> enumeration_step set" where
  "first_steps enablePackedGetDynamicInfo caps =
     (if bits_test EntityCapability_AemSupported caps
      then (if bits_test EntityCapability_VendorUniqueSupported caps then {Step_GetMilanInfo} else {})
           \<union> (if enablePackedGetDynamicInfo then {Step_CheckPackedDynamicInfoSupported} else {})
           \<union> {Step_RegisterUnsol, Step_GetStaticModel, Step_GetDynamicInfo}
      else {})"

definition start_enumeration :: "controller_settings \<Rightarrow> bool \<Rightarrow> entity \<Rightarrow> controlled_entity" where
  "start_enumeration c enablePackedGetDynamicInfo en =
     checkEnumerationSteps c ((ControlledEntityImpl_new en)
       \<lparr>ced_enumerationSteps := first_steps enablePackedGetDynamicInfo (ei_entityCapabilities (en_common en))\<rparr>)"

text \<open>
  A later announcement of the entity: the interfaces that came or went, its gPTP and its capabilities.  A gPTP
  domain always comes with a grandmaster.
\<close>

definition gptp_changed :: "interface_information option \<Rightarrow> interface_information \<Rightarrow> bool" where
  "gptp_changed oldInfo information = (case oldInfo of
     None \<Rightarrow> True
   | Some old \<Rightarrow>
       (case ii_gptpGrandmasterID old of
          None \<Rightarrow> True
        | Some grandmaster \<Rightarrow>
            (case ii_gptpGrandmasterID information of None \<Rightarrow> False | Some gm \<Rightarrow> \<not> uid_eq grandmaster gm)
            \<or> ii_gptpDomainNumber old \<noteq> ii_gptpDomainNumber information))"

definition notify_interfaces :: "entity \<Rightarrow> entity_op" where
  "notify_interfaces en e =
     (let oldInterfaces = en_interfaces (ced_entity e); newInterfaces = en_interfaces en in
      fold (\<lambda>(i, info). if al_get i oldInterfaces = None then act (Observe (OnEntityRedundantInterfaceOnline i info)) else id) newInterfaces
        (fold (\<lambda>(i, _). if al_get i newInterfaces = None then act (Observe (OnEntityRedundantInterfaceOffline i)) else id) oldInterfaces e))"

definition update_gptp :: "(interface_index, interface_information) alist \<Rightarrow> entity \<Rightarrow> entity_op" where
  "update_gptp oldInterfaces en =
     fold (\<lambda>(i, information) e.
        case ii_gptpGrandmasterID information of
          None \<Rightarrow> e
        | Some grandmaster \<Rightarrow>
            if gptp_changed (al_get i oldInterfaces) information
            then (case ii_gptpDomainNumber information of
                    None \<Rightarrow> act (Null_dereference ''gptpDomainNumber'') e
                  | Some domain \<Rightarrow> updated ''updateGptpInformation'' [P_U16 i, P_Uid grandmaster, P_U16 (ucast domain)] e)
            else e)
       (en_interfaces en)"

definition cl_updateEntity :: "entity \<Rightarrow> entity_op" where
  "cl_updateEntity en e =
     (let caps = ei_entityCapabilities (en_common en);
          e1 = (if ced_advertised e then notify_interfaces en e else e);
          e2 = update_gptp (en_interfaces (ced_entity e)) en e1;
          e3 = (if bits_test EntityCapability_AssociationIDValid caps
                then updated ''updateAssociationID'' (case ei_associationID (en_common en) of None \<Rightarrow> [] | Some a \<Rightarrow> [P_Uid a]) e2
                else e2);
          e4 = (if ced_advertised e \<and> ei_entityCapabilities (en_common (ced_entity e)) \<noteq> caps
                then act (Observe OnEntityCapabilitiesChanged) e3 else e3)
      in e4\<lparr>ced_entity := en\<rparr>)"

text \<open>Neither changes what the enumeration waits for.\<close>

definition quiet :: "controlled_entity \<Rightarrow> controlled_entity \<Rightarrow> bool" where
  "quiet e e' \<longleftrightarrow>
     (\<exists>as. ced_actions e' = ced_actions e @ as \<and> queries_of as = [] \<and> announcements as = [])
     \<and> expected_keys e' = expected_keys e \<and> expected_ok e' = expected_ok e
     \<and> ced_enumerationSteps e' = ced_enumerationSteps e
     \<and> ced_compatibilityFlags e' = ced_compatibilityFlags e
     \<and> ced_gotFatalEnumerateError e' = ced_gotFatalEnumerateError e
     \<and> ced_advertised e' = ced_advertised e"

lemma quiet_same [simp]: "quiet e e"
  by (auto simp: quiet_def intro!: exI [of _ "[]"])

lemma quiet_both: "quiet e e' \<Longrightarrow> quiet e' e'' \<Longrightarrow> quiet e e''"
proof -
  assume a: "quiet e e'" and b: "quiet e' e''"
  from a obtain as where "ced_actions e' = ced_actions e @ as" "queries_of as = []" "announcements as = []" by (auto simp: quiet_def)
  moreover from b obtain bs where "ced_actions e'' = ced_actions e' @ bs" "queries_of bs = []" "announcements bs = []"
    by (auto simp: quiet_def)
  ultimately have "ced_actions e'' = ced_actions e @ (as @ bs) \<and> queries_of (as @ bs) = [] \<and> announcements (as @ bs) = []" by simp
  with a b show ?thesis unfolding quiet_def by (intro conjI exI [of _ "as @ bs"]) simp_all
qed

lemma quiet_fold: "(\<And>x e. quiet e (f x e)) \<Longrightarrow> quiet e (fold f xs e)"
  by (induction xs arbitrary: e) (auto intro: quiet_both)

lemma quiet_act: "action_query a = [] \<Longrightarrow> announcement a = [] \<Longrightarrow> quiet e (act a e)"
  by (auto simp: quiet_def)

lemma quiet_then_act: "action_query a = [] \<Longrightarrow> announcement a = [] \<Longrightarrow> quiet e e' \<Longrightarrow> quiet e (act a e')"
  by (blast intro: quiet_both quiet_act)

lemma quiet_fields:
  "quiet e (e\<lparr>ced_entity := en\<rparr>)" "quiet e (e\<lparr>ced_isSubscribedToUnsolicitedNotifications := b\<rparr>)"
  "quiet e (e\<lparr>ced_expectedAemSequenceID := x\<rparr>)" "quiet e (e\<lparr>ced_expectedMvuSequenceID := x\<rparr>)"
  by (auto simp: quiet_def expected_keys_def expected_ok_def)

lemma cl_updateEntity_quiet: "quiet e (cl_updateEntity en e)"
proof -
  have n: "quiet x (notify_interfaces en x)" for x
    unfolding notify_interfaces_def Let_def
    by (rule quiet_both [OF quiet_fold quiet_fold]) (auto simp: quiet_act)
  have g: "quiet x (update_gptp ifs en x)" for x ifs
    by (auto simp: update_gptp_def updated_def quiet_act split: option.split intro!: quiet_fold)
  have "quiet e (update_gptp ifs en (if ced_advertised e then notify_interfaces en e else e))" for ifs
    by (auto intro: quiet_both [OF n g] g)
  thus ?thesis
    by (auto simp: cl_updateEntity_def updated_def Let_def intro!: quiet_both [OF _ quiet_fields(1)] quiet_then_act)
qed

lemma updateUnsolicitedNotificationsSubscription_quiet: "quiet e (updateUnsolicitedNotificationsSubscription b t e)"
  by (auto simp: updateUnsolicitedNotificationsSubscription_def setSubscribedToUnsolicitedNotifications_def Let_def
      intro!: quiet_then_act intro: quiet_fields quiet_both [OF quiet_both [OF quiet_fields(2) quiet_fields(3)] quiet_fields(4)])

section \<open>Runs\<close>

text \<open>
  The queries of an enumeration that wait for an answer, sent or still delayed.  An answer may come at any
  time, also one nobody waits for, the entity may announce itself again and deregister the controller.
\<close>

type_synonym enumeration_state = "controlled_entity \<times> query list"

definition new_queries :: "controlled_entity \<Rightarrow> controlled_entity \<Rightarrow> query list" where
  "new_queries e e' = queries_of (drop (length (ced_actions e)) (ced_actions e'))"

inductive enumeration_goes :: "controller_settings \<Rightarrow> enumeration_state \<Rightarrow> enumeration_state \<Rightarrow> bool" for c where
  answered: "answers c q e e' \<Longrightarrow> enumeration_goes c (e, pending) (e', remove1 q pending @ new_queries e e')"
| announced: "enumeration_goes c (e, pending) (cl_updateEntity en e, pending)"
| deregistered: "enumeration_goes c (e, pending) (updateUnsolicitedNotificationsSubscription False triggered e, pending)"

inductive enumeration :: "controller_settings \<Rightarrow> bool \<Rightarrow> enumeration_state \<Rightarrow> bool" for c packed where
  started: "enumeration c packed (start_enumeration c packed en, queries_of (ced_actions (start_enumeration c packed en)))"
| continued: "enumeration c packed s \<Longrightarrow> enumeration_goes c s s' \<Longrightarrow> enumeration c packed s'"

text \<open>What holds of a run at all times.\<close>

definition waits :: "enumeration_state \<Rightarrow> bool" where
  "waits s \<longleftrightarrow> expected_ok (fst s) \<and> compatible_ok (fst s) \<and> progress (fst s)
     \<and> (\<not> ced_gotFatalEnumerateError (fst s) \<longrightarrow> expected_keys (fst s) \<subseteq> answered_keys (snd s) \<union> orphan_keys)
     \<and> announcements (ced_actions (fst s)) = (if ced_advertised (fst s) then [True] else [])"

lemma continues_new_queries:
  assumes "continues e e'"
  shows "expected_keys e' \<subseteq> expected_keys e \<union> answered_keys (new_queries e e') \<union> orphan_keys"
  using assms by (auto simp: continues_def new_queries_def)

lemma answered_keys_remove1: "k \<in> answered_keys p \<Longrightarrow> query_key q \<noteq> Some k \<Longrightarrow> k \<in> answered_keys (remove1 q p)"
proof -
  assume "k \<in> answered_keys p" "query_key q \<noteq> Some k"
  then obtain q' where "q' \<in> set p" "query_key q' = Some k" "q' \<noteq> q" by (auto simp: answered_keys_def)
  thus ?thesis by (auto simp: answered_keys_def in_set_remove1)
qed

lemma cleared_frame:
  assumes "cleared k e e1"
  shows "compatible_ok e1 = compatible_ok e" "ced_advertised e1 = ced_advertised e"
    "ced_gotFatalEnumerateError e1 = ced_gotFatalEnumerateError e" "expected_ok e1"
    "announcements (ced_actions e1) = announcements (ced_actions e)"
    "k \<notin> orphan_keys \<Longrightarrow> stuck e1 = stuck e"
  using assms by (auto simp: cleared_def compatible_ok_def stuck_def)

lemma new_queries_cleared:
  assumes "cleared k e e1" "continues e1 e'"
  shows "new_queries e e' = new_queries e1 e'"
proof -
  from assms obtain as bs where "ced_actions e1 = ced_actions e @ as" "queries_of as = []" "ced_actions e' = ced_actions e1 @ bs"
    by (auto simp: cleared_def continues_def)
  thus ?thesis by (simp add: new_queries_def)
qed

lemma answered_waits:
  assumes w: "waits (e, p)" and a: "answers c q e e'"
  shows "waits (e', remove1 q p @ new_queries e e')"
proof -
  from a obtain k where k: "query_key q = Some k" using answers_key by blast
  with answers_settle [OF a this] w obtain e1 where e1: "cleared k e e1" "continues e1 e'" and p: "progress e'"
    by (auto simp: settles_def waits_def)
  note frame = cleared_frame [OF e1(1)]
  have keys: "expected_keys e' \<subseteq> answered_keys (remove1 q p @ new_queries e e') \<union> orphan_keys"
    if "\<not> ced_gotFatalEnumerateError e'"
  proof
    fix x assume "x \<in> expected_keys e'"
    with continues_new_queries [OF e1(2)] new_queries_cleared [OF e1]
    consider "x \<in> expected_keys e1" | "x \<in> answered_keys (new_queries e e')" | "x \<in> orphan_keys" by auto
    thus "x \<in> answered_keys (remove1 q p @ new_queries e e') \<union> orphan_keys"
    proof cases
      case 1
      have "\<not> ced_gotFatalEnumerateError e" using that e1(2) frame(3) by (auto simp: continues_def)
      hence "x \<in> expected_keys e" "x \<noteq> k" and "expected_keys e \<subseteq> answered_keys p \<union> orphan_keys"
        using 1 e1(1) w by (auto simp: cleared_def waits_def)
      thus ?thesis using k by (auto intro: answered_keys_remove1)
    qed auto
  qed
  have "announcements (ced_actions e') = (if ced_advertised e' then [True] else [])"
    using e1(2) w frame by (auto simp: continues_def waits_def)
  thus ?thesis using keys p e1(2) w frame by (auto simp: waits_def continues_def)
qed

lemma quiet_waits:
  assumes "waits (e, p)" "quiet e e'"
  shows "waits (e', p)"
  using assms by (auto simp: waits_def quiet_def progress_def compatible_ok_def)

lemma step_waits: "enumeration_goes c s s' \<Longrightarrow> waits s \<Longrightarrow> waits s'"
  by (induction rule: enumeration_goes.induct)
    (auto intro: answered_waits quiet_waits cl_updateEntity_quiet updateUnsolicitedNotificationsSubscription_quiet)

lemma started_waits: "waits (start_enumeration c packed en, queries_of (ced_actions (start_enumeration c packed en)))"
proof -
  let ?e = "(ControlledEntityImpl_new en)\<lparr>ced_enumerationSteps := first_steps packed (ei_entityCapabilities (en_common en))\<rparr>"
  have e: "expected_keys ?e = {}" "expected_ok ?e" "compatible_ok ?e" "ced_actions ?e = []" "\<not> ced_advertised ?e"
    by (simp_all add: ControlledEntityImpl_new_def expected_keys_def expected_ok_def compatible_ok_def al_ok_def)
  have "continues ?e (start_enumeration c packed en)" "progress (start_enumeration c packed en)"
    using check_continues unfolding start_enumeration_def by auto
  thus ?thesis using e by (auto simp: waits_def continues_def)
qed

lemma enumeration_waits: "enumeration c packed s \<Longrightarrow> waits s"
  by (induction rule: enumeration.induct) (auto intro: started_waits step_waits)

lemma step_stuck: "enumeration_goes c s s' \<Longrightarrow> waits s \<Longrightarrow> stuck (fst s) \<Longrightarrow> stuck (fst s')"
proof (induction rule: enumeration_goes.induct)
  case (answered q e e' p)
  obtain k where k: "query_key q = Some k" using answers_key [OF answered.hyps] by blast
  with answers_settle [OF answered.hyps this] answered.prems obtain e1 where e1: "cleared k e e1" "continues e1 e'"
    by (auto simp: settles_def waits_def)
  thus ?case using answered.prems cleared_frame(6) [OF e1(1) query_key_not_orphan [OF k]] by (auto simp: continues_def)
next
  case (announced e p en)
  thus ?case using cl_updateEntity_quiet [of e en] by (auto simp: quiet_def stuck_def)
next
  case (deregistered e p t)
  thus ?case using updateUnsolicitedNotificationsSubscription_quiet [of e False t] by (auto simp: quiet_def stuck_def)
qed

section \<open>Properties of an enumeration\<close>

text \<open>
  C14.  An enumeration does not stall: at any time of any run, an entity that is neither advertised nor given up
  after a fatal error has a query that waits for an answer, sent or delayed, whose answer is still expected,
  whatever the answers so far said and in whatever order they came.  The exception is an entity whose
  configuration descriptor was read again after a failure (\<^verbatim>\<open>orphan_keys\<close>).
\<close>

theorem enumeration_never_stalls:
  assumes "enumeration c packed (e, pending)" "\<not> ced_advertised e" "\<not> ced_gotFatalEnumerateError e"
    "expected_keys e \<inter> orphan_keys = {}"
  shows "\<exists>q \<in> set pending. \<exists>k \<in> expected_keys e. query_key q = Some k"
proof -
  have w: "waits (e, pending)" by (rule enumeration_waits [OF assms(1)])
  hence "expected_keys e \<noteq> {}" using assms(2,3) by (auto simp: waits_def progress_def)
  moreover have "expected_keys e \<subseteq> answered_keys pending" using w assms(3,4) by (auto simp: waits_def)
  ultimately show ?thesis by (auto simp: answered_keys_def)
qed

text \<open>A model device with AEM, and the settings of a controller without cache.\<close>

definition plain_settings :: controller_settings where
  "plain_settings = \<lparr>cse_controllerEID = 1, cse_fullStaticModelEnumeration = False,
     cse_entityModelCache = \<lparr>emc_isEnabled = False, emc_modelCache = []\<rparr>, cse_validateEntity = (\<lambda>_. True),
     cse_continueMisbehaveAemResponses = True, cse_ignoreMismatchingMvuResponses = True,
     cse_ignoreNeitherStaticNorDynamicMappings = True, cse_controlValues = (\<lambda>_ _ _. (True, None))\<rparr>"

lemma plain_started:
  "start_enumeration plain_settings False plain_entity =
     registerUnsol ((ControlledEntityImpl_new plain_entity)
       \<lparr>ced_enumerationSteps := {Step_RegisterUnsol, Step_GetStaticModel, Step_GetDynamicInfo}\<rparr>)"
  by (simp add: start_enumeration_def checkEnumerationSteps.simps first_steps_def plain_entity_def bits_test_def
      EntityCapability_AemSupported_def EntityCapability_VendorUniqueSupported_def)

theorem enumeration_never_stalls_witness:
  "\<exists>q \<in> set (queries_of (ced_actions (start_enumeration plain_settings False plain_entity))).
     \<exists>k \<in> expected_keys (start_enumeration plain_settings False plain_entity). query_key q = Some k"
proof (rule enumeration_never_stalls [OF started])
  let ?e = "(ControlledEntityImpl_new plain_entity)
     \<lparr>ced_enumerationSteps := {Step_RegisterUnsol, Step_GetStaticModel, Step_GetDynamicInfo}\<rparr>"
  show "\<not> ced_advertised (start_enumeration plain_settings False plain_entity)"
    "\<not> ced_gotFatalEnumerateError (start_enumeration plain_settings False plain_entity)"
    by (simp_all add: plain_started registerUnsol_def setRegisterUnsolExpected_def ControlledEntityImpl_new_def)
  have "expected_keys ?e = {}" by (simp add: ControlledEntityImpl_new_def expected_keys_def)
  thus "expected_keys (start_enumeration plain_settings False plain_entity) \<inter> orphan_keys = {}"
    by (simp add: plain_started registerUnsol_def expected_keys_set orphan_keys_def)
qed

lemma timed_out_configuration_retried:
  assumes "expected_ok e" "\<not> ced_gotFatalEnumerateError e"
    "E_Descriptor ci (makeDescriptorKey DescriptorType_Configuration 0) \<in> expected_keys e"
    "ced_queryDescriptorRetryCount e = 0"
  shows "\<exists>e0. cleared (E_Descriptor ci (makeDescriptorKey DescriptorType_Configuration 0)) e e0
     \<and> onConfigurationDescriptorResult c Status_TimedOut ci d e =
         end_static_model c (queryDescriptor 0 DescriptorType_Configuration ci 500 (e0\<lparr>ced_queryDescriptorRetryCount := 1\<rparr>))"
proof -
  obtain was e0 where w: "checkAndClearExpectedDescriptor ci DescriptorType_Configuration 0 e = (was, e0)" by fastforce
  hence t: "was" "cleared (E_Descriptor ci (makeDescriptorKey DescriptorType_Configuration 0)) e e0"
    using taken_checks(5) [OF assms(1), of ci DescriptorType_Configuration 0] assms(2,3) by (auto simp: taken_def)
  have "ced_queryDescriptorRetryCount e0 = 0"
    using w assms(4) by (auto simp: checkAndClearExpectedDescriptor_def split: if_splits prod.splits)
  hence r: "getQueryDescriptorRetryTimer e0 = ((True, 500), e0\<lparr>ced_queryDescriptorRetryCount := 1\<rparr>)"
    by (simp add: getQueryDescriptorRetryTimer_def Let_def retry_timer_def MaxQueryDescriptorRetryCount_def
        QueryRetryMillisecondDelay_def word_le_nat_alt)
  have a: "getFailureActionForAemCommandStatus c Status_TimedOut = FA_TimedOut" "Status_TimedOut \<noteq> Status_Success"
    by (simp_all add: getFailureActionForAemCommandStatus_def failure_status_defs)
  have "onConfigurationDescriptorResult c Status_TimedOut ci d e =
      end_static_model c (queryDescriptor 0 DescriptorType_Configuration ci 500 (e0\<lparr>ced_queryDescriptorRetryCount := 1\<rparr>))"
    using t(1) a by (simp add: onConfigurationDescriptorResult_def handle_answer_def w processGetStaticModelFailureStatus_def
        r)
  with t(2) show ?thesis by blast
qed

text \<open>
  C18.  Once the descriptor of a configuration other than the first has timed out with a retry left, the entity
  is never advertised again, whatever it answers from then on: the retry expects an answer no query brings.
\<close>

theorem configuration_retry_stalls:
  assumes "enumeration c packed (e, pending)" "\<not> ced_advertised e" "\<not> ced_gotFatalEnumerateError e"
    "Step_GetStaticModel \<in> ced_enumerationSteps e" "ci \<noteq> 0"
    "E_Descriptor ci (makeDescriptorKey DescriptorType_Configuration 0) \<in> expected_keys e"
    "ced_queryDescriptorRetryCount e = 0"
    and timeout: "e1 = onConfigurationDescriptorResult c Status_TimedOut ci descriptor e"
    and later: "(enumeration_goes c)\<^sup>*\<^sup>*
      (e1, remove1 (Q_Descriptor ci DescriptorType_Configuration 0) pending @ new_queries e e1) (e', pending')"
  shows "\<not> ced_advertised e'"
proof -
  let ?s = "(e1, remove1 (Q_Descriptor ci DescriptorType_Configuration 0) pending @ new_queries e e1)"
  have w: "waits (e, pending)" by (rule enumeration_waits [OF assms(1)])
  have w1: "waits ?s" unfolding timeout by (rule answered_waits [OF w]) (rule answers.intros)
  obtain e0 where e0: "cleared (E_Descriptor ci (makeDescriptorKey DescriptorType_Configuration 0)) e e0"
    and e1: "e1 = end_static_model c (queryDescriptor 0 DescriptorType_Configuration ci 500 (e0\<lparr>ced_queryDescriptorRetryCount := 1\<rparr>))"
    using timed_out_configuration_retried [of e ci c descriptor] w assms(3,6,7) timeout by (simp add: waits_def) blast
  let ?q = "queryDescriptor 0 DescriptorType_Configuration ci 500 (e0\<lparr>ced_queryDescriptorRetryCount := 1\<rparr>)"
  have o: "E_Descriptor 0 (makeDescriptorKey DescriptorType_Configuration ci) \<in> expected_keys ?q"
    "ced_enumerationSteps ?q = ced_enumerationSteps e" "ced_advertised ?q = ced_advertised e"
    using e0 by (simp_all add: queryDescriptor_def descriptor_queried_def send_query_def expected_keys_set cleared_def)
      (simp_all add: setDescriptorExpected_def)
  hence "\<not> gotAllExpectedDescriptors ?q"
    by (auto simp: gotAllExpectedDescriptors_def expected_none_iff expected_keys_iff)
  hence "stuck e1" using o assms(2,4,5) by (auto simp: e1 end_static_model_def stuck_def orphan_keys_def)
  have "waits s' \<and> stuck (fst s')" if "(enumeration_goes c)\<^sup>*\<^sup>* ?s s'" for s'
    using that w1 \<open>stuck e1\<close> by (induction rule: rtranclp_induct) (auto intro: step_waits step_stuck)
  from this [OF later] show ?thesis by (simp add: stuck_def)
qed

text \<open>The plain device registers the controller and has two configurations.\<close>

definition two_configurations :: entity_descriptor where
  "two_configurations = EntityDescriptor_new\<lparr>ed_entityID := 2, ed_entityModelID := 3, ed_configurationsCount := 2\<rparr>"

definition plain_registered :: controlled_entity where
  "plain_registered = onRegisterUnsolicitedNotificationsResult plain_settings Status_Success
     (start_enumeration plain_settings False plain_entity)"

definition plain_described :: controlled_entity where
  "plain_described = onEntityDescriptorResult plain_settings Status_Success two_configurations plain_registered"

lemma plain_registered_is:
  "plain_registered = getStaticModel ((ControlledEntityImpl_new plain_entity)
     \<lparr>ced_enumerationSteps := {Step_GetStaticModel, Step_GetDynamicInfo},
       ced_isSubscribedToUnsolicitedNotifications := True, ced_areUnsolicitedNotificationsSupported := True,
       ced_actions := [Send Q_RegisterUnsolicitedNotifications]\<rparr>)" (is "_ = getStaticModel ?e")
proof -
  have "plain_registered = checkEnumerationSteps plain_settings ?e"
    by (simp add: plain_registered_def plain_started onRegisterUnsolicitedNotificationsResult_def handle_answer_def
      registerUnsol_def setRegisterUnsolExpected_def checkAndClearExpectedRegisterUnsol_def act_def insert_Diff_if
      setSubscribedToUnsolicitedNotifications_def gotExpectedRegisterUnsol_def
      clearEnumerationStep_def Let_def ControlledEntityImpl_new_def)
  also have "\<dots> = getStaticModel ?e" by (subst checkEnumerationSteps.simps) simp
  finally show ?thesis .
qed

lemma plain_registered_checked:
  "checkAndClearExpectedDescriptor 0 DescriptorType_Entity 0 plain_registered =
     (True, (ControlledEntityImpl_new plain_entity)
       \<lparr>ced_enumerationSteps := {Step_GetStaticModel, Step_GetDynamicInfo},
         ced_isSubscribedToUnsolicitedNotifications := True, ced_areUnsolicitedNotificationsSupported := True,
         ced_expectedDescriptors := [(0, {})],
         ced_actions := [Send Q_RegisterUnsolicitedNotifications, Send (Q_Descriptor 0 DescriptorType_Entity 0)]\<rparr>)"
  by (simp add: plain_registered_is getStaticModel_def queryDescriptor_def descriptor_queried_def send_query_def Let_def
      setDescriptorExpected_def checkAndClearExpectedDescriptor_def expected_insert_def expected_erase_def act_def
      ControlledEntityImpl_new_def)

lemma plain_described_is:
  "\<not> ced_advertised plain_described" "\<not> ced_gotFatalEnumerateError plain_described"
  "Step_GetStaticModel \<in> ced_enumerationSteps plain_described"
  "E_Descriptor 1 (makeDescriptorKey DescriptorType_Configuration 0) \<in> expected_keys plain_described"
  "ced_queryDescriptorRetryCount plain_described = 0"
proof -
  let ?n = "setEntityNode two_configurations EntityNode_new"
  let ?base = "(ControlledEntityImpl_new plain_entity)
     \<lparr>ced_enumerationSteps := {Step_GetStaticModel, Step_GetDynamicInfo},
       ced_isSubscribedToUnsolicitedNotifications := True, ced_areUnsolicitedNotificationsSupported := True,
       ced_expectedDescriptors := [(0, {})],
       ced_actions := [Send Q_RegisterUnsolicitedNotifications, Send (Q_Descriptor 0 DescriptorType_Entity 0)]\<rparr>"
  let ?e = "?base\<lparr>ced_entityNode := ?n\<rparr>"
  have idem: "setEntityNode d (setEntityNode d n) = setEntityNode d n" for d n by (simp add: setEntityNode_def)
  have "entity_described plain_settings two_configurations ?base =
      queryDescriptor 1 DescriptorType_Configuration 0 0 (queryDescriptor 0 DescriptorType_Configuration 0 0 ?e)"
    by (simp add: entity_described_def checked_identifiers_def two_configurations_def plain_entity_def cached_model_def
        plain_settings_def uid_eq_def setEntityDescriptor_def ControlledEntityImpl_new_def upt_rec Let_def idem)
  hence "plain_described = end_static_model plain_settings
      (queryDescriptor 1 DescriptorType_Configuration 0 0 (queryDescriptor 0 DescriptorType_Configuration 0 0 ?e))"
    by (simp add: plain_described_def onEntityDescriptorResult_def descriptor_result_def handle_answer_def plain_registered_checked)
  also have "\<dots> = queryDescriptor 1 DescriptorType_Configuration 0 0 (queryDescriptor 0 DescriptorType_Configuration 0 0 ?e)"
    by (simp add: end_static_model_def gotAllExpectedDescriptors_def queryDescriptor_def descriptor_queried_def
        setDescriptorExpected_def send_query_def Let_def expected_none_def expected_insert_def act_def)
  finally have d: "plain_described = queryDescriptor 1 DescriptorType_Configuration 0 0
      (queryDescriptor 0 DescriptorType_Configuration 0 0 ?e)" .
  show "\<not> ced_advertised plain_described" "\<not> ced_gotFatalEnumerateError plain_described"
    "Step_GetStaticModel \<in> ced_enumerationSteps plain_described"
    "E_Descriptor 1 (makeDescriptorKey DescriptorType_Configuration 0) \<in> expected_keys plain_described"
    "ced_queryDescriptorRetryCount plain_described = 0"
    by (simp_all add: d queryDescriptor_def descriptor_queried_def send_query_def Let_def expected_keys_set)
      (simp_all add: setDescriptorExpected_def ControlledEntityImpl_new_def act_def)
qed

theorem configuration_retry_stalls_witness:
  "\<not> ced_advertised (onConfigurationDescriptorResult plain_settings Status_TimedOut 1 ConfigurationDescriptor_new plain_described)"
proof -
  have "\<exists>pending. enumeration plain_settings False (plain_registered, pending)"
    unfolding plain_registered_def by (blast intro: enumeration.intros enumeration_goes.intros answers.intros)
  hence "\<exists>pending. enumeration plain_settings False (plain_described, pending)"
    unfolding plain_described_def by (blast intro: enumeration.intros enumeration_goes.intros answers.intros)
  thus ?thesis using configuration_retry_stalls [OF _ plain_described_is(1-3) _ plain_described_is(4,5) refl rtranclp.rtrancl_refl]
    by fastforce
qed

text \<open>
  C15.  In every run the observers are told that the entity is online exactly once, when it is advertised, and not
  before.
\<close>

theorem entity_announced_once:
  assumes "enumeration c packed (e, pending)"
  shows "announcements (ced_actions e) = (if ced_advertised e then [True] else [])"
  using enumeration_waits [OF assms] by (simp add: waits_def)

theorem entity_announced_once_witness:
  "announcements (ced_actions (start_enumeration plain_settings False plain_entity)) = []"
  using entity_announced_once [OF started [of plain_settings False plain_entity]]
  by (simp add: plain_started registerUnsol_def setRegisterUnsolExpected_def ControlledEntityImpl_new_def)

text \<open>
  C16.  A fatal error ends an enumeration: whatever answers come after it, nothing more is asked, expected or
  announced.
\<close>

theorem fatal_error_is_final:
  assumes "enumeration c packed (e, pending)" "ced_gotFatalEnumerateError e" "answers c q e e'"
  shows "new_queries e e' = [] \<and> expected_keys e' = expected_keys e \<and> ced_advertised e' = ced_advertised e
     \<and> announcements (ced_actions e') = announcements (ced_actions e) \<and> ced_gotFatalEnumerateError e'"
proof -
  obtain k where k: "query_key q = Some k" using answers_key [OF assms(3)] by blast
  have "expected_ok e" using enumeration_waits [OF assms(1)] by (simp add: waits_def)
  with answers_settle [OF assms(3) k] assms(2) have "cleared k e e'" by (simp add: settles_def)
  thus ?thesis using assms(2) by (auto simp: cleared_def new_queries_def)
qed


theorem fatal_error_is_final_witness:
  "let e = onEntityDescriptorResult plain_settings Status_InternalError two_configurations plain_registered;
       e' = onEntityDescriptorResult plain_settings Status_Success two_configurations e
   in ced_gotFatalEnumerateError e \<and> new_queries e e' = [] \<and> \<not> ced_advertised e'"
proof -
  let ?e = "onEntityDescriptorResult plain_settings Status_InternalError two_configurations plain_registered"
  have "\<exists>pending. enumeration plain_settings False (plain_registered, pending)"
    unfolding plain_registered_def by (blast intro: enumeration.intros enumeration_goes.intros answers.intros)
  hence "\<exists>pending. enumeration plain_settings False (?e, pending)"
    by (blast intro: enumeration.intros enumeration_goes.intros answers.intros)
  moreover have f: "ced_gotFatalEnumerateError ?e" "\<not> ced_advertised ?e"
    by (simp_all add: onEntityDescriptorResult_def descriptor_result_def handle_answer_def plain_registered_checked
        processGetStaticModelFailureStatus_def getFailureActionForAemCommandStatus_def failure_status_defs
        Status_InternalError_def query_error_def setGetFatalEnumerationError_def act_def ControlledEntityImpl_new_def)
  ultimately show ?thesis
    using fatal_error_is_final [OF _ f(1) answers.intros(5) [of _ 0 0 _ Status_Success two_configurations]]
    by (auto simp: Let_def)
qed

end
