(* ===== verification/Spec2Isabelle.thy ===== *)
theory Spec2Isabelle
  imports CommandOrder ControllerSessions StreamFormats StreamConnectionRuns ChannelConnections DeviceMemory Enumeration
begin

text \<open>
  A verification development for the L-Acoustics AVDECC library, an implementation in C++ of the protocols
  of IEEE 1722.1: discovery (ADP), enumeration and control (AECP, with its AEM, address access and vendor
  unique messages) and connection management (ACMP).

  \<^bold>\<open>The program.\<close>  A protocol interface owns a network interface.  What arrives on it is cut into messages
  and dispatched (src/protocolInterface); what is sent is serialized from message objects (src/protocol).
  Behind it a manager (src/stateMachine) holds three state machines, all run under one lock by the methods
  of the interface and by one thread: the discovery of remote entities, the advertising of local entities,
  and the commands of local entities with their retries and timeouts.  Local entities (src/entity) register
  with the interface, send commands through it and are its observers; a controller is a local entity that
  gives a typed method and a typed handler to every command.

  \<^bold>\<open>Theories and sources.\<close>  In the order of their imports:

  \<^item> Prelude: bytes, exceptions as values (\<^verbatim>\<open>outcome\<close>), association lists for the maps of the code, ordered
    or not.  Serialization: serialization.hpp and endian.hpp, a writer with its capacity, a reader with its
    position.
  \<^item> Avtpdu, Adpdu, Acmpdu, Aecpdu, AaAecpdu: the messages of src/protocol (protocolAvtpdu, protocolAdpdu,
    protocolAcmpdu, protocolAecpdu, protocolAemAecpdu, protocolVuAecpdu, protocolMvuAecpdu,
    protocolAaAecpdu), one record per class, \<^verbatim>\<open>serialize\<close> and \<^verbatim>\<open>deserialize\<close> as in the code, over the build
    options that set the limits of a payload.
  \<^item> PayloadCodec, AemPayloads, AemVariablePayloads, ControlValues, DescriptorPayloads: the payloads of the
    AEM commands (protocolAemPayloads.cpp, protocolAemControlValuesPayloads.hpp), each the pair of functions
    of the code.  The contract of such a pair is the locale \<^verbatim>\<open>payload_codec\<close>, that of the reader of a
    response \<^verbatim>\<open>payload_response\<close>; every payload of fixed layout interprets them.
  \<^item> StreamFormats: the formats of streams (streamFormatInfo.cpp): the fields of the 64-bit value, the formats
    understood and built, and what a listener and a talker have in common.
  \<^item> Entity, AdpMessages: uniqueIdentifier.hpp, entity.hpp, and the messages made of an entity and back.
  \<^item> World, CommandEngine, CommandStateMachine, CommandEvents, CommandOrder: commandStateMachine.cpp.  The
    world is what a state machine sees outside: clocks, random numbers, the results of the transport, and the
    trace of what it did.  The engine is the queue and the commands in flight towards one target, common to
    AECP and ACMP; the state machine keeps them per local entity and per target.
  \<^item> DiscoveryStateMachine, AdvertiseStateMachine, Manager: discoveryStateMachine.cpp,
    advertiseStateMachine.cpp, stateMachineManager.cpp.
  \<^item> ProtocolInterface, Reception, LocalEntity: protocolInterface.cpp, protocolInterface_pcap.cpp,
    ethernetPacketDispatch.hpp, entityImpl.hpp and localEntityImpl.ipp.
  \<^item> MvuPayloads: the payloads of the Milan vendor unique commands (protocolMvuPayloads.cpp).
  \<^item> AemHandler: the entity model of a local entity (aemHandler.cpp).
  \<^item> ControllerHandlers, ControllerResponses, ControllerDispatch: controllerCapabilityDelegate.cpp, what a
    controller makes of a response, by tables from command types to functions as in the code; handlers are
    numbers that remember the types they were given with, and a call is a value.  CapabilityDelegate,
    ControllerCommands: the same file, the entities a controller has discovered, its commands and their
    completions, the notifications.  ControllerAnswers, ControllerSessions: how often and with what types a
    handler is called, by rule induction over the sessions of a controller.
  \<^item> EntityTree, ControlledEntity, Compatibility: the controller library above (src/controller), what it keeps
    of an entity: the tree of nodes with the setters of the descriptors, its visit and the cache of models
    (avdeccControlledEntityImpl.cpp, treeModelAccessTraverseStrategy.hpp, avdeccEntityModelCache.hpp), the
    answers it expects, and the flags of the standards the entity complies with (avdeccControllerImpl.cpp).
    EnumerationQueries, EnumerationFailures, EnumerationHandlers: the steps of an enumeration, what is done
    about a status that is not a success, and the handlers of all the answers
    (avdeccControllerImplHandlers.cpp).  EnumerationRuns, Enumeration: what each of these keeps, the discovery
    of an entity, and the runs of its enumeration as a step relation.
  \<^item> StreamConnections, StreamConnectionRuns: what the controller library derives of the connections of streams
    (avdeccControllerImpl.cpp): the notifications of listeners and talkers, the entities that come and go, and
    the runs of these; a view of the connections is a locale with two interpretations, the exact and the
    complete one.  AudioMappings, ChannelConnections: the mappings of the stream ports, kept for each port as a
    locale of keyed lists describes, and what every channel of a listener is connected to.
  \<^item> DeviceMemory: the transfers of the memory of a device (avdeccControllerImplOverrides.cpp), read and write,
    which share the contract of a locale.
  \<^item> EndToEnd, Station, StationRuns: compositions; a station is an interface, its registry and its manager,
    and a run any sequence of their operations, packets of arbitrary bytes included.

  \<^bold>\<open>State.\<close>  A class is a record of its members and an operation a function of the state that returns it
  updated, with its result.  The clock is read, and the transport called, in the order of the code: their
  answers are streams of the world, so that a theorem holds for all of them.  A result handler is an opaque
  number and its call an event; what user code does in its turn is a later operation of a run.  A method of
  the code that is \<^verbatim>\<open>noexcept\<close> and lets an exception out, or a division by zero, is the outcome None, and
  \<^verbatim>\<open>station_never_stops\<close> shows when it cannot happen.

  \<^bold>\<open>What the theorems show.\<close>  Every accepted command is accounted for (its handler is owed, called or dropped
  by an unregistration, once), sent at most twice, in order, and with at most ten in flight per target; a
  matching response completes it, another changes nothing, and a check of the timeouts leaves none overdue.
  Observers that apply the notifications know exactly what the discovery knows, over any run.  An announced
  entity is announced again before its timeout.  Messages and payloads survive the wire, with the exceptions
  of the code stated (the domain number, a payload between the send limit and the buffer, a control value that is a
  text of more than 404 bytes).  A controller calls
  a handler at most once for each command, with its types, and exactly once when the command completes; it
  knows the entities the discovery knows, and refuses AECP commands to others.  The enumeration of an entity, under any answers in any order, never
  stalls (but for one retry, shown to stall it), announces the entity once, and is over after a fatal error.  A
  misbehaving entity never complies with IEEE 1722.1, but keeps its flag of Milan until a rule of Milan is broken.
  The connections of a talker are those of the listeners known, over any run without fast connections, streams
  of an entity connected to itself when it is advertised, or connections the talker brings or is sniffed to have.  A format built is the one
  understood, and the formats two streams have in common are found as a search of all of them finds them.
  The mappings of an output port are those of a function, as are those of an input port of an advertised entity
  without redundant streams.  The channels of a listener show what is connected and sent there, whatever
  connects, moves and leaves, with advertised talkers; not so when the mappings of a listener change, or a talker
  leaves before it is advertised.  A transfer of device memory ends if answers carry data, and what is written is what
  is read, if they carry no more than was asked.
  The compositions go from a frame of one station to the state of another.

  \<^bold>\<open>Bounds.\<close>  Integers are words of the width of the code.  No fuel is used: the loops of the code are
  structural, or recursive functions whose termination is proved.  The loop that expires commands
  (\<^verbatim>\<open>expire_loop\<close>) has a measure that counts the commands in flight and queued, and the times they may still
  be sent; the loop over nested dynamic information (\<^verbatim>\<open>read_dynamic_infos\<close>) reads eight bytes at least in
  each turn.

  \<^bold>\<open>Not modelled.\<close>  The capture and send calls of the operating system, threads and locks (a method is one
  step, as under the lock of the code), logging and assertions.  Of the controller
  library of src/controller, the updates of an advertised entity, the commands of the user, and what is
  computed of a complete entity before it is advertised (its virtual nodes, its validation, its clocks):
  the model of the enumeration keeps the names of these calls with their arguments.  The JSON
  serialization of entity models is above what is modelled here; the C bindings marshal structures.  The validation of control values computes with floating point numbers.  A response of another
  class than its command's, which the code casts all the same, is the outcome None of \<^verbatim>\<open>complete\<close>.
\<close>

end
